(* ===== verification/Prelude.thy ===== *)
theory Prelude
  imports Main "HOL-Library.Word" "HOL-Library.Multiset"
begin

text \<open>
  Shared vocabulary of the development: results of operations that may abort, tables of
  entities, strings as the TypeScript and AssemblyScript code builds them (decimal and
  hexadecimal renderings, joins, prefix tests), JavaScript objects as association lists in
  insertion order, and \<open>Array.prototype.sort\<close> with a comparison function.

  The collection \<open>res\<close> holds the rules of results, \<open>tbl\<close> the rules of tables and \<open>js\<close> the
  rules of the JavaScript objects; the component theories add their own facts to them.
\<close>

named_theorems res \<open>rules for results\<close>
named_theorems tbl \<open>rules for entity tables\<close>
named_theorems js \<open>rules for JavaScript objects and arrays\<close>

section \<open>Results\<close>

text \<open>A result is an error (\<open>Inl\<close>) or a value (\<open>Inr\<close>); \<open>bindr\<close> runs the rest of the code only
  on a value, as the code after a statement that throws is not run.\<close>

definition bindr :: "'e + 'a \<Rightarrow> ('a \<Rightarrow> 'e + 'b) \<Rightarrow> 'e + 'b" where
  "bindr r f = (case r of Inl e \<Rightarrow> Inl e | Inr x \<Rightarrow> f x)"

lemma bindr_simps [simp, res]:
  "bindr (Inl e) f = Inl e"
  "bindr (Inr x) f = f x"
  by (simp_all add: bindr_def)

lemma bindr_Inr_iff [simp, res]: "bindr r f = Inr y \<longleftrightarrow> (\<exists>x. r = Inr x \<and> f x = Inr y)"
  by (cases r) simp_all

lemma bindr_Inl_iff [res]: "bindr r f = Inl e \<longleftrightarrow> r = Inl e \<or> (\<exists>x. r = Inr x \<and> f x = Inl e)"
  by (cases r) simp_all

lemma bindr_cong [fundef_cong]:
  "r = r' \<Longrightarrow> (\<And>x. r' = Inr x \<Longrightarrow> f x = f' x) \<Longrightarrow> bindr r f = bindr r' f'"
  by (cases r') simp_all

lemma bindr_assoc [res]: "bindr (bindr r f) g = bindr r (\<lambda>x. bindr (f x) g)"
  by (cases r) simp_all

definition succeeds :: "'e + 'a \<Rightarrow> bool" where
  "succeeds r = (case r of Inl _ \<Rightarrow> False | Inr _ \<Rightarrow> True)"

lemma succeeds_simps [simp, res]: "succeeds (Inr x)" "\<not> succeeds (Inl e)"
  by (simp_all add: succeeds_def)

lemma succeeds_iff: "succeeds r \<longleftrightarrow> (\<exists>x. r = Inr x)"
  by (cases r) simp_all

lemma succeeds_bindr [simp, res]: "succeeds (bindr r f) \<longleftrightarrow> (\<exists>x. r = Inr x \<and> succeeds (f x))"
  by (cases r) simp_all

text \<open>\<open>ensures P r\<close>: if the code returns, what it returns satisfies \<open>P\<close>. Its rules turn a claim
  about a handler into claims about the values the handler builds.\<close>

definition ensures :: "('a \<Rightarrow> bool) \<Rightarrow> 'e + 'a \<Rightarrow> bool" where
  "ensures P r = (case r of Inl _ \<Rightarrow> True | Inr x \<Rightarrow> P x)"

lemma ensures_simps [simp, res]:
  "ensures P (Inl e)"
  "ensures P (Inr x) = P x"
  "ensures P (bindr r f) = (\<forall>x. r = Inr x \<longrightarrow> ensures P (f x))"
  by (cases r, simp_all add: ensures_def)+

lemma ensures_iff: "ensures P r \<longleftrightarrow> (\<forall>x. r = Inr x \<longrightarrow> P x)"
  by (cases r) simp_all

lemma ensuresD: "ensures P r \<Longrightarrow> r = Inr x \<Longrightarrow> P x"
  by simp

lemma ensures_weaken: "ensures P r \<Longrightarrow> (\<And>x. P x \<Longrightarrow> Q x) \<Longrightarrow> ensures Q r"
  by (cases r) simp_all

text \<open>A loop that runs one fallible step per element of a list and stops at the first error.\<close>

fun foldr_res :: "('a \<Rightarrow> 's \<Rightarrow> 'e + 's) \<Rightarrow> 'a list \<Rightarrow> 's \<Rightarrow> 'e + 's" where
  "foldr_res f [] s = Inr s"
| "foldr_res f (x # xs) s = bindr (f x s) (\<lambda>s'. foldr_res f xs s')"

lemma foldr_res_append:
  "foldr_res f (xs @ ys) s = bindr (foldr_res f xs s) (\<lambda>s'. foldr_res f ys s')"
  by (induction xs arbitrary: s) (auto simp: bindr_def split: sum.splits)

lemma foldr_res_invariant:
  assumes "\<And>x s s'. x \<in> set xs \<Longrightarrow> P s \<Longrightarrow> f x s = Inr s' \<Longrightarrow> P s'"
    and "P s" and "foldr_res f xs s = Inr s'"
  shows "P s'"
  using assms
proof (induction xs arbitrary: s)
  case Nil
  then show ?case by simp
next
  case (Cons x xs)
  from Cons.prems(3) obtain t where t: "f x s = Inr t" and rest: "foldr_res f xs t = Inr s'"
    by auto
  have "P t" using Cons.prems(1) [OF _ Cons.prems(2) t] by simp
  show ?case by (rule Cons.IH [OF _ \<open>P t\<close> rest]) (rule Cons.prems(1), auto)
qed

lemma foldr_res_ensures:
  assumes "\<And>x s. x \<in> set xs \<Longrightarrow> P s \<Longrightarrow> ensures P (f x s)" and "P s"
  shows "ensures P (foldr_res f xs s)"
  unfolding ensures_iff
proof (intro allI impI)
  fix s' assume "foldr_res f xs s = Inr s'"
  then show "P s'"
    by (rule foldr_res_invariant [where P = P and f = f, rotated 2, OF _ ensuresD [OF assms(1)]])
      (use assms(2) in auto)
qed

lemma foldr_res_succeeds:
  assumes "\<And>x s. x \<in> set xs \<Longrightarrow> P s \<Longrightarrow> \<exists>s'. f x s = Inr s' \<and> P s'" and "P s"
  shows "\<exists>s'. foldr_res f xs s = Inr s' \<and> P s'"
  using assms
proof (induction xs arbitrary: s)
  case Nil
  then show ?case by simp
next
  case (Cons x xs)
  obtain t where t: "f x s = Inr t" "P t" using Cons.prems(1) [OF _ Cons.prems(2)] by auto
  have "\<exists>s'. foldr_res f xs t = Inr s' \<and> P s'"
    by (rule Cons.IH [OF _ t(2)]) (rule Cons.prems(1), auto)
  with t show ?case by simp
qed

text \<open>Mapping a fallible function over a list.\<close>

fun map_res :: "('a \<Rightarrow> 'e + 'b) \<Rightarrow> 'a list \<Rightarrow> 'e + 'b list" where
  "map_res f [] = Inr []"
| "map_res f (x # xs) = bindr (f x) (\<lambda>y. bindr (map_res f xs) (\<lambda>ys. Inr (y # ys)))"

lemma map_res_append:
  "map_res f (xs @ ys) = bindr (map_res f xs) (\<lambda>as. bindr (map_res f ys) (\<lambda>bs. Inr (as @ bs)))"
  by (induction xs) (auto simp: bindr_def split: sum.splits)

lemma map_res_cong [fundef_cong]:
  "xs = ys \<Longrightarrow> (\<And>x. x \<in> set ys \<Longrightarrow> f x = g x) \<Longrightarrow> map_res f xs = map_res g ys"
  by (induction ys arbitrary: xs) auto

lemma map_res_Inr_length: "map_res f xs = Inr ys \<Longrightarrow> length ys = length xs"
  by (induction xs arbitrary: ys) auto

lemma map_res_Inr_all: "map_res f xs = Inr ys \<Longrightarrow> y \<in> set ys \<Longrightarrow> \<exists>x \<in> set xs. f x = Inr y"
  by (induction xs arbitrary: ys) auto

section \<open>Runs of a machine\<close>

text \<open>A machine handles one event at a time and stops at the first abort. An invariant that every
  step keeps holds after every run; so does one that only the steps satisfying \<open>guard\<close> keep,
  when every step of the run satisfies it in the state it meets.\<close>

fun guarded_run :: "('ev \<Rightarrow> 's \<Rightarrow> 'e + 's) \<Rightarrow> ('ev \<Rightarrow> 's \<Rightarrow> bool) \<Rightarrow> 'ev list \<Rightarrow> 's \<Rightarrow> bool" where
  "guarded_run step guard [] s = True"
| "guarded_run step guard (e # es) s =
     (guard e s \<and> (case step e s of Inl _ \<Rightarrow> True | Inr s' \<Rightarrow> guarded_run step guard es s'))"

locale guarded_machine =
  fixes step :: "'ev \<Rightarrow> 's \<Rightarrow> 'e + 's"
    and guard :: "'ev \<Rightarrow> 's \<Rightarrow> bool"
    and inv :: "'s \<Rightarrow> bool"
  assumes step_inv: "inv s \<Longrightarrow> guard e s \<Longrightarrow> ensures inv (step e s)"
begin

lemma run_inv: "inv s \<Longrightarrow> guarded_run step guard es s \<Longrightarrow> ensures inv (foldr_res step es s)"
proof (induction es arbitrary: s)
  case Nil
  then show ?case by simp
next
  case (Cons e es)
  show ?case
  proof (cases "step e s")
    case (Inl x)
    then show ?thesis by simp
  next
    case (Inr t)
    with Cons.prems step_inv [of s e] have "inv t" "guarded_run step guard es t" by auto
    then show ?thesis using Inr Cons.IH by simp
  qed
qed

end

locale machine = guarded_machine step "\<lambda>_ _. True" inv
  for step :: "'ev \<Rightarrow> 's \<Rightarrow> 'e + 's" and inv :: "'s \<Rightarrow> bool"
begin

lemma always_guarded: "guarded_run step (\<lambda>_ _. True) es s"
  by (induction es arbitrary: s) (auto split: sum.splits)

lemma run_keeps: "inv s \<Longrightarrow> ensures inv (foldr_res step es s)"
  by (rule run_inv [OF _ always_guarded])

end

section \<open>Tables\<close>

text \<open>\<open>table_all P m\<close>: every entry of the table \<open>m\<close> satisfies \<open>P\<close>, which may mention the key.\<close>

definition table_all :: "('k \<Rightarrow> 'e \<Rightarrow> bool) \<Rightarrow> ('k \<rightharpoonup> 'e) \<Rightarrow> bool" where
  "table_all P m \<longleftrightarrow> (\<forall>k e. m k = Some e \<longrightarrow> P k e)"

lemma table_allI: "(\<And>k e. m k = Some e \<Longrightarrow> P k e) \<Longrightarrow> table_all P m"
  by (simp add: table_all_def)

lemma table_allD: "table_all P m \<Longrightarrow> m k = Some e \<Longrightarrow> P k e"
  by (simp add: table_all_def)

lemma table_all_empty [simp, tbl]: "table_all P (\<lambda>_. None)"
  by (simp add: table_all_def)

lemma table_all_upd [intro, tbl]: "table_all P m \<Longrightarrow> P k e \<Longrightarrow> table_all P (m(k \<mapsto> e))"
  by (simp add: table_all_def)

lemma table_all_del [intro, tbl]: "table_all P m \<Longrightarrow> table_all P (m(k := None))"
  by (simp add: table_all_def)

lemma table_all_mono: "table_all P m \<Longrightarrow> (\<And>k e. m k = Some e \<Longrightarrow> P k e \<Longrightarrow> Q k e) \<Longrightarrow> table_all Q m"
  by (simp add: table_all_def)

section \<open>Positions\<close>

text \<open>\<open>Array.prototype.indexOf\<close>: the first occurrence.\<close>

fun index_of :: "'a \<Rightarrow> 'a list \<Rightarrow> nat option" where
  "index_of x [] = None"
| "index_of x (y # ys) = (if x = y then Some 0 else map_option Suc (index_of x ys))"

lemma index_of_None: "index_of x xs = None \<longleftrightarrow> x \<notin> set xs"
  by (induction xs) auto

end
