(* ===== verification/Strings.thy ===== *)
theory Strings
  imports Prelude
begin

text \<open>
  Strings and byte arrays as the code builds them: the decimal rendering of an integer
  (\<open>BigInt.toString\<close>, \<open>BigNumber.toString\<close>, a number in a template string), the 0x-prefixed
  hexadecimal rendering of a byte array (\<open>toHex\<close>), \<open>join\<close>, \<open>startsWith\<close> and \<open>indexOf\<close>.
  The renderings are shown injective, which the entity identifiers and the comparisons of
  rendered addresses rely on.
\<close>

type_synonym byte = "8 word"
type_synonym bytes = "byte list"
type_synonym address = bytes

section \<open>Searching and joining\<close>

definition starts_with :: "string \<Rightarrow> string \<Rightarrow> bool" where
  "starts_with s p \<longleftrightarrow> take (length p) s = p"

fun contains_str :: "string \<Rightarrow> string \<Rightarrow> bool" where
  "contains_str [] p \<longleftrightarrow> p = []"
| "contains_str (c # s) p \<longleftrightarrow> starts_with (c # s) p \<or> contains_str s p"

fun join_str :: "string \<Rightarrow> string list \<Rightarrow> string" where
  "join_str sep [] = []"
| "join_str sep [s] = s"
| "join_str sep (s # t # ss) = s @ sep @ join_str sep (t # ss)"

lemma starts_with_append [simp]: "starts_with (p @ s) p"
  by (simp add: starts_with_def)

lemma starts_with_iff: "starts_with s p \<longleftrightarrow> (\<exists>r. s = p @ r)"
  unfolding starts_with_def by (metis append_eq_conv_conj append_take_drop_id)

lemma contains_str_iff: "contains_str s p \<longleftrightarrow> (\<exists>a b. s = a @ p @ b)"
proof (induction s)
  case Nil
  then show ?case by auto
next
  case (Cons c s)
  have "(\<exists>a b. c # s = a @ p @ b) \<longleftrightarrow> (\<exists>b. c # s = p @ b) \<or> (\<exists>a b. s = a @ p @ b)"
    by (metis append_Cons append_Nil list.exhaust list.sel(3) tl_append2)
  then show ?case using Cons.IH by (simp add: starts_with_iff)
qed

section \<open>Decimal rendering\<close>

definition dec_digit :: "nat \<Rightarrow> char" where
  "dec_digit n = ''0123456789'' ! n"

fun nat_dec :: "nat \<Rightarrow> string" where
  "nat_dec n = (if n < 10 then [dec_digit n] else nat_dec (n div 10) @ [dec_digit (n mod 10)])"

declare nat_dec.simps [simp del]

definition int_dec :: "int \<Rightarrow> string" where
  "int_dec i = (if i < 0 then CHR ''-'' # nat_dec (nat (- i)) else nat_dec (nat i))"

lemma dec_digit_inj: "a < 10 \<Longrightarrow> b < 10 \<Longrightarrow> dec_digit a = dec_digit b \<Longrightarrow> a = b"
proof -
  have "distinct ''0123456789''" by simp
  then show "a < 10 \<Longrightarrow> b < 10 \<Longrightarrow> dec_digit a = dec_digit b \<Longrightarrow> a = b"
    unfolding dec_digit_def by (subst (asm) nth_eq_iff_index_eq) auto
qed

lemma dec_digit_in: "a < 10 \<Longrightarrow> dec_digit a \<in> set ''0123456789''"
  unfolding dec_digit_def by (rule nth_mem) simp

lemma dec_digit_not_minus: "a < 10 \<Longrightarrow> dec_digit a \<noteq> CHR ''-''"
  using dec_digit_in [of a] by auto

lemma nat_dec_not_Nil [simp]: "nat_dec n \<noteq> []" "[] \<noteq> nat_dec n"
  by (subst nat_dec.simps, simp)+

lemma nat_dec_digits: "c \<in> set (nat_dec n) \<Longrightarrow> c \<in> set ''0123456789''"
proof (induction n rule: nat_dec.induct)
  case (1 n)
  show ?case
  proof (cases "n < 10")
    case True
    then have "c = dec_digit n" using "1.prems" by (simp add: nat_dec.simps [of n])
    with True show ?thesis using dec_digit_in by blast
  next
    case False
    then have "c \<in> set (nat_dec (n div 10)) \<or> c = dec_digit (n mod 10)"
      using "1.prems" by (auto simp: nat_dec.simps [of n])
    with False show ?thesis using "1.IH" dec_digit_in [of "n mod 10"] by fastforce
  qed
qed

lemma nat_dec_inj: "nat_dec m = nat_dec n \<Longrightarrow> m = n"
proof (induction m arbitrary: n rule: nat_dec.induct)
  case (1 m)
  note eq = "1.prems" [unfolded nat_dec.simps [of m] nat_dec.simps [of n]]
  show ?case
  proof (cases "m < 10")
    case True
    then show ?thesis
      using eq by (cases "n < 10") (auto dest: dec_digit_inj simp: append_eq_Cons_conv)
  next
    case False
    have n: "\<not> n < 10" using eq False by (auto simp: Cons_eq_append_conv append_eq_Cons_conv)
    then have "nat_dec (m div 10) = nat_dec (n div 10)" "dec_digit (m mod 10) = dec_digit (n mod 10)"
      using eq False by auto
    then have "m div 10 = n div 10" "m mod 10 = n mod 10"
      using "1.IH" [OF False] dec_digit_inj [of "m mod 10" "n mod 10"] by auto
    then show ?thesis by (metis div_mult_mod_eq)
  qed
qed

lemma int_dec_not_Nil [simp]: "int_dec i \<noteq> []"
  by (simp add: int_dec_def)

lemma minus_not_in_nat_dec: "CHR ''-'' \<notin> set (nat_dec n)"
  using nat_dec_digits [of "CHR ''-''" n] by auto

lemma int_dec_inj: "int_dec i = int_dec j \<Longrightarrow> i = j"
  unfolding int_dec_def using minus_not_in_nat_dec
  by (auto split: if_splits dest!: nat_dec_inj) (metis list.set_intros(1))+

section \<open>Hexadecimal rendering\<close>

definition hex_digit :: "nat \<Rightarrow> char" where
  "hex_digit n = ''0123456789abcdef'' ! n"

definition hex_byte :: "byte \<Rightarrow> string" where
  "hex_byte b = [hex_digit (unat b div 16), hex_digit (unat b mod 16)]"

definition hex_body :: "bytes \<Rightarrow> string" where
  "hex_body bs = concat (map hex_byte bs)"

definition toHex :: "bytes \<Rightarrow> string" where
  "toHex bs = ''0x'' @ hex_body bs"

lemma hex_digit_inj: "a < 16 \<Longrightarrow> b < 16 \<Longrightarrow> hex_digit a = hex_digit b \<Longrightarrow> a = b"
proof -
  have "distinct ''0123456789abcdef''" by simp
  then show "a < 16 \<Longrightarrow> b < 16 \<Longrightarrow> hex_digit a = hex_digit b \<Longrightarrow> a = b"
    unfolding hex_digit_def by (subst (asm) nth_eq_iff_index_eq) auto
qed

lemma unat_byte_lt [simp]: "unat (b :: byte) < 256"
  using unsigned_less [of b] by simp

lemma hex_byte_inj: "hex_byte a = hex_byte b \<Longrightarrow> a = b"
proof -
  assume "hex_byte a = hex_byte b"
  then have "hex_digit (unat a div 16) = hex_digit (unat b div 16)"
    "hex_digit (unat a mod 16) = hex_digit (unat b mod 16)"
    by (simp_all add: hex_byte_def)
  moreover have "unat a div 16 < 16" "unat b div 16 < 16"
    using unat_byte_lt [of a] unat_byte_lt [of b] by (simp_all add: less_mult_imp_div_less)
  ultimately have "unat a div 16 = unat b div 16" "unat a mod 16 = unat b mod 16"
    using hex_digit_inj by simp_all
  then have "unat a = unat b" by (metis div_mult_mod_eq)
  then show "a = b" by (simp add: word_unat_eq_iff)
qed

lemma hex_body_simps [simp]:
  "hex_body [] = []" "hex_body (b # bs) = hex_byte b @ hex_body bs"
  by (simp_all add: hex_body_def)

lemma length_hex_body: "length (hex_body bs) = 2 * length bs"
  by (induction bs) (simp_all add: hex_byte_def)

lemma length_toHex [simp]: "length (toHex bs) = 2 + 2 * length bs"
  by (simp add: toHex_def length_hex_body)

lemma hex_body_inj: "hex_body as = hex_body bs \<Longrightarrow> as = bs"
proof (induction as arbitrary: bs)
  case Nil
  then show ?case by (cases bs) (simp_all add: hex_byte_def)
next
  case (Cons a as)
  then obtain b bs' where bs: "bs = b # bs'" by (cases bs) (simp_all add: hex_byte_def)
  have "hex_byte a @ hex_body as = hex_byte b @ hex_body bs'" using Cons.prems bs by simp
  then have "hex_byte a = hex_byte b \<and> hex_body as = hex_body bs'"
    by (simp add: hex_byte_def)
  then show ?case using bs Cons.IH hex_byte_inj by auto
qed

lemma toHex_inj: "toHex as = toHex bs \<Longrightarrow> as = bs"
  by (simp add: toHex_def hex_body_inj)

lemma toHex_eq_iff [simp]: "toHex as = toHex bs \<longleftrightarrow> as = bs"
  using toHex_inj by auto

end
