(* ===== verification/JsObjects.thy ===== *)
theory JsObjects
  imports Strings
begin

text \<open>
  What the TypeScript library uses of its language: objects with string keys, strings, arrays and
  \<open>Array.prototype.sort\<close>. An object is the list of its properties in the order in which
  \<open>Object.keys\<close>, \<open>Object.values\<close> and \<open>for .. in\<close> enumerate them: insertion order, for keys that are
  no array indices (property names and addresses are none).

  \<open>ext\<close> collects the functions the library calls of packages that are not part of this
  repository: they are parameters, and the hypotheses below state what they document.
\<close>

datatype js_error = TypeError | ThrownError string | ProcessExit int

section \<open>Objects\<close>

type_synonym 'v obj = "(string \<times> 'v) list"

definition obj_get :: "'v obj \<Rightarrow> string \<Rightarrow> 'v option" where
  "obj_get o' k = map_of o' k"

fun obj_set :: "string \<Rightarrow> 'v \<Rightarrow> 'v obj \<Rightarrow> 'v obj" where
  "obj_set k v [] = [(k, v)]"
| "obj_set k v ((k', v') # o') = (if k' = k then (k, v) # o' else (k', v') # obj_set k v o')"

definition obj_keys :: "'v obj \<Rightarrow> string list" where
  "obj_keys o' = map fst o'"

definition obj_values :: "'v obj \<Rightarrow> 'v list" where
  "obj_values o' = map snd o'"

text \<open>\<open>{ ...a, ...b }\<close>.\<close>

definition obj_spread :: "'v obj \<Rightarrow> 'v obj \<Rightarrow> 'v obj" where
  "obj_spread a b = foldl (\<lambda>o' (k, v). obj_set k v o') a b"

text \<open>Reading a property of \<open>undefined\<close> throws.\<close>

definition defined_or_throw :: "'a option \<Rightarrow> js_error + 'a" where
  "defined_or_throw x = (case x of None \<Rightarrow> Inl TypeError | Some v \<Rightarrow> Inr v)"

lemma defined_or_throw_Inr [simp, js]: "defined_or_throw x = Inr v \<longleftrightarrow> x = Some v"
  by (cases x) (simp_all add: defined_or_throw_def)

lemma defined_or_throw_Some [simp, js]: "defined_or_throw (Some v) = Inr v"
  by (simp add: defined_or_throw_def)

lemma map_of_obj_set: "map_of (obj_set k v o') = (map_of o')(k \<mapsto> v)"
  by (induction k v o' rule: obj_set.induct) auto

lemma obj_get_set [simp, js]: "obj_get (obj_set k v o') k' = (if k' = k then Some v else obj_get o' k')"
  by (simp add: obj_get_def map_of_obj_set)

lemma obj_keys_set: "obj_keys (obj_set k v o') = (if k \<in> set (obj_keys o') then obj_keys o' else obj_keys o' @ [k])"
  by (induction k v o' rule: obj_set.induct) (auto simp: obj_keys_def)

lemma distinct_obj_set: "distinct (obj_keys o') \<Longrightarrow> distinct (obj_keys (obj_set k v o'))"
  by (simp add: obj_keys_set)

lemma obj_set_fresh: "k \<notin> set (obj_keys o') \<Longrightarrow> obj_set k v o' = o' @ [(k, v)]"
  by (induction k v o' rule: obj_set.induct) (auto simp: obj_keys_def)

lemma obj_get_None_iff: "obj_get o' k = None \<longleftrightarrow> k \<notin> set (obj_keys o')"
  by (simp add: obj_get_def obj_keys_def map_of_eq_None_iff)

lemma obj_spread_Nil [simp]: "obj_spread a [] = a"
  by (simp add: obj_spread_def)

lemma obj_spread_Cons [simp]: "obj_spread a ((k, v) # b) = obj_spread (obj_set k v a) b"
  by (simp add: obj_spread_def)

lemma obj_spread_fresh:
  "distinct (obj_keys b) \<Longrightarrow> set (obj_keys a) \<inter> set (obj_keys b) = {} \<Longrightarrow> obj_spread a b = a @ b"
proof (induction b arbitrary: a)
  case Nil
  then show ?case by simp
next
  case (Cons kv b)
  obtain k v where kv: "kv = (k, v)" by (cases kv)
  with Cons.prems have "k \<notin> set (obj_keys a)" by (auto simp: obj_keys_def)
  then have "obj_spread a (kv # b) = obj_spread (a @ [(k, v)]) b"
    using kv by (simp add: obj_set_fresh)
  also have "\<dots> = (a @ [(k, v)]) @ b"
    using Cons.prems kv by (intro Cons.IH) (auto simp: obj_keys_def)
  finally show ?case using kv by simp
qed

lemma obj_get_spread:
  "obj_get (obj_spread a b) k = (case obj_get (rev b) k of None \<Rightarrow> obj_get a k | Some v \<Rightarrow> Some v)"
proof (induction b arbitrary: a)
  case Nil
  then show ?case by (simp add: obj_get_def)
next
  case (Cons kv b)
  obtain k' v where kv: "kv = (k', v)" by (cases kv)
  then show ?case
    using Cons.IH [of "obj_set k' v a"] by (auto simp: obj_get_def map_add_def map_of_obj_set split: option.splits)
qed

section \<open>Values\<close>

text \<open>The values of request data: \<open>JBig\<close> is a BigNumber of ethers, an immutable integer of
  arbitrary precision, and \<open>JBytes\<close> a Buffer.\<close>

datatype js_val =
    JString string
  | JNumber int
  | JBool bool
  | JBig int
  | JBytes bytes
  | JArray "js_val list"

section \<open>Packages\<close>

record tfield =
  fld_name :: string
  fld_type :: string

record ext =
  omit :: "js_val obj \<Rightarrow> string list \<Rightarrow> js_val obj"
  omitBy :: "string obj \<Rightarrow> (string \<Rightarrow> string \<Rightarrow> bool) \<Rightarrow> string obj"
  stripHexPrefix :: "string \<Rightarrow> string"
  hashType :: "string \<Rightarrow> tfield list \<Rightarrow> string"
  id_hash :: "string \<Rightarrow> string"
  encodeFunctionData :: "string \<Rightarrow> string \<Rightarrow> js_val list \<Rightarrow> js_error + string"
  encodeData :: "string \<Rightarrow> tfield list \<Rightarrow> js_val obj \<Rightarrow> js_error + string"
  solidityPack :: "string list \<Rightarrow> js_val list \<Rightarrow> string"
  bufferFromHex :: "string \<Rightarrow> bytes"
  keccakHex :: "bytes \<Rightarrow> string"
  solidityKeccak :: "string list \<Rightarrow> string list \<Rightarrow> string"
  bigNumberFrom :: "js_val \<Rightarrow> js_error + int"

text \<open>lodash: \<open>omit\<close> removes the named properties, \<open>omitBy\<close> those that satisfy the predicate on
  value and key. \<open>strip-hex-prefix\<close> removes one leading 0x.\<close>

definition omit_documented :: "ext \<Rightarrow> bool" where
  "omit_documented x \<longleftrightarrow> (\<forall>o' ks. omit x o' ks = filter (\<lambda>(k, v). k \<notin> set ks) o')"

definition omitBy_documented :: "ext \<Rightarrow> bool" where
  "omitBy_documented x \<longleftrightarrow> (\<forall>o' p. omitBy x o' p = filter (\<lambda>(k, v). \<not> p v k) o')"

definition strip_documented :: "ext \<Rightarrow> bool" where
  "strip_documented x \<longleftrightarrow>
     (\<forall>s. stripHexPrefix x s = (if starts_with s ''0x'' then drop 2 s else s))"

section \<open>Sorting\<close>

text \<open>\<open>Array.prototype.sort\<close> is stable and yields an order consistent with the comparison
  function, when that function is one: insertion before the first element that must follow.\<close>

fun insert_by :: "('a \<Rightarrow> 'a \<Rightarrow> int) \<Rightarrow> 'a \<Rightarrow> 'a list \<Rightarrow> 'a list" where
  "insert_by cmp x [] = [x]"
| "insert_by cmp x (y # ys) = (if cmp x y \<le> 0 then x # y # ys else y # insert_by cmp x ys)"

definition js_sort :: "('a \<Rightarrow> 'a \<Rightarrow> int) \<Rightarrow> 'a list \<Rightarrow> 'a list" where
  "js_sort cmp xs = foldr (insert_by cmp) xs []"

locale comparator =
  fixes cmp :: "'a \<Rightarrow> 'a \<Rightarrow> int"
  assumes refl: "cmp x x = 0"
    and flip: "cmp x y \<le> 0 \<or> cmp y x \<le> 0"
    and trans: "cmp x y \<le> 0 \<Longrightarrow> cmp y z \<le> 0 \<Longrightarrow> cmp x z \<le> 0"
begin

lemma set_insert_by [simp]: "set (insert_by cmp x xs) = insert x (set xs)"
  by (induction xs) auto

lemma mset_insert_by [simp]: "mset (insert_by cmp x xs) = add_mset x (mset xs)"
  by (induction xs) auto

lemma mset_js_sort: "mset (js_sort cmp xs) = mset xs"
  unfolding js_sort_def by (induction xs) auto

lemma insert_by_sorted:
  "sorted_wrt (\<lambda>a b. cmp a b \<le> 0) xs \<Longrightarrow> sorted_wrt (\<lambda>a b. cmp a b \<le> 0) (insert_by cmp x xs)"
proof (induction xs)
  case Nil
  then show ?case by simp
next
  case (Cons y ys)
  show ?case
  proof (cases "cmp x y \<le> 0")
    case True
    then show ?thesis using Cons.prems trans by auto
  next
    case False
    then have "cmp y x \<le> 0" using flip by blast
    then show ?thesis using Cons False by auto
  qed
qed

lemma js_sort_sorted: "sorted_wrt (\<lambda>a b. cmp a b \<le> 0) (js_sort cmp xs)"
  unfolding js_sort_def by (induction xs) (auto intro: insert_by_sorted)

lemma length_js_sort: "length (js_sort cmp xs) = length xs"
  using mset_js_sort [of xs] by (metis size_mset)

lemma set_js_sort: "set (js_sort cmp xs) = set xs"
  using mset_js_sort [of xs] by (metis set_mset_mset)

lemma js_sort_stable: "filter (\<lambda>y. cmp x y = 0 \<and> cmp y x = 0) (js_sort cmp xs) =
    filter (\<lambda>y. cmp x y = 0 \<and> cmp y x = 0) xs"
proof -
  have "filter (\<lambda>y. cmp x y = 0 \<and> cmp y x = 0) (insert_by cmp a ys) =
      filter (\<lambda>y. cmp x y = 0 \<and> cmp y x = 0) (a # ys)" for a ys
  proof (induction ys)
    case Nil
    then show ?case by simp
  next
    case (Cons y ys)
    have "\<not> (cmp x a = 0 \<and> cmp a x = 0 \<and> cmp x y = 0 \<and> cmp y x = 0)" if "\<not> cmp a y \<le> 0"
      using that trans [of a x y] by auto
    then show ?case using Cons by auto
  qed
  then show ?thesis unfolding js_sort_def by (induction xs) auto
qed

end

end
