(* ===== verification/MetaTxTypes.thy ===== *)
theory MetaTxTypes
  imports JsObjects
begin

text \<open>
  \<open>startrail-common-js/meta-tx/eip712-message-types\<close>: the EIP712 field lists of the meta
  transaction requests. Every list starts with the generic fields \<open>from\<close> and \<open>nonce\<close>, has a
  \<open>data\<close> field next exactly when a request parameter has a dynamic type, and the requests to
  collections have a \<open>destination\<close> after these. \<open>wf_types\<close> states this shape; it holds of every
  list of the registry.
\<close>

section \<open>core-types.ts and helpers.ts\<close>

definition EIP712DomainTypes :: "tfield list" where
  "EIP712DomainTypes =
     [\<lparr>fld_name = ''name'', fld_type = ''string''\<rparr>,
      \<lparr>fld_name = ''version'', fld_type = ''string''\<rparr>,
      \<lparr>fld_name = ''chainId'', fld_type = ''uint256''\<rparr>,
      \<lparr>fld_name = ''verifyingContract'', fld_type = ''address''\<rparr>]"

definition GenericParamTypes :: "tfield list" where
  "GenericParamTypes =
     [\<lparr>fld_name = ''from'', fld_type = ''address''\<rparr>,
      \<lparr>fld_name = ''nonce'', fld_type = ''uint256''\<rparr>]"

definition isDynamicArrayType :: "string \<Rightarrow> bool" where
  "isDynamicArrayType type \<longleftrightarrow> type = ''string'' \<or> type = ''bytes'' \<or> contains_str type ''[]''"

definition buildTypeList :: "string obj \<Rightarrow> tfield list" where
  "buildTypeList flds =
     (let typeList = GenericParamTypes;
          typeList1 = (if list_ex isDynamicArrayType (obj_values flds)
                       then typeList @ [\<lparr>fld_name = ''data'', fld_type = ''bytes''\<rparr>]
                       else typeList)
      in foldl (\<lambda>ts (name, type). ts @ [\<lparr>fld_name = name, fld_type = type\<rparr>]) typeList1 flds)"

section \<open>licensed-user-types.ts\<close>

definition WalletAddOwnerTypes :: "tfield list" where
  "WalletAddOwnerTypes =
     buildTypeList [(''wallet'', ''address''), (''owner'', ''address''),
       (''threshold'', ''uint256'')]"

definition WalletRemoveOwnerTypes :: "tfield list" where
  "WalletRemoveOwnerTypes =
     buildTypeList [(''wallet'', ''address''), (''prevOwner'', ''address''),
       (''owner'', ''address''), (''threshold'', ''uint256'')]"

definition WalletSwapOwnerTypes :: "tfield list" where
  "WalletSwapOwnerTypes =
     buildTypeList [(''wallet'', ''address''), (''prevOwner'', ''address''),
       (''oldOwner'', ''address''), (''newOwner'', ''address'')]"

definition WalletChangeThresholdTypes :: "tfield list" where
  "WalletChangeThresholdTypes =
     buildTypeList [(''wallet'', ''address''), (''threshold'', ''uint256'')]"

definition WalletSetEnglishNameTypes :: "tfield list" where
  "WalletSetEnglishNameTypes = buildTypeList [(''wallet'', ''address''), (''name'', ''string'')]"

definition WalletSetOriginalNameTypes :: "tfield list" where
  "WalletSetOriginalNameTypes = buildTypeList [(''wallet'', ''address''), (''name'', ''string'')]"

section \<open>startrail-registry-types.ts\<close>

definition StartrailRegistryCreateSRRWithLockExternalTransferTypes :: "tfield list" where
  "StartrailRegistryCreateSRRWithLockExternalTransferTypes =
     buildTypeList [(''isPrimaryIssuer'', ''bool''), (''artistAddress'', ''address''),
       (''metadataDigest'', ''bytes32''), (''lockExternalTransfer'', ''bool'')]"

definition StartrailRegistryCreateSRRFromLicensedUserTypes :: "tfield list" where
  "StartrailRegistryCreateSRRFromLicensedUserTypes =
     buildTypeList [(''isPrimaryIssuer'', ''bool''), (''artistAddress'', ''address''),
       (''metadataDigest'', ''bytes32''), (''lockExternalTransfer'', ''bool''),
       (''to'', ''address'')]"

definition StartrailRegistryCreateSRRFromLicensedUserWithCidTypes :: "tfield list" where
  "StartrailRegistryCreateSRRFromLicensedUserWithCidTypes =
     buildTypeList [(''isPrimaryIssuer'', ''bool''), (''artistAddress'', ''address''),
       (''metadataDigest'', ''bytes32''), (''metadataCID'', ''string''),
       (''lockExternalTransfer'', ''bool''), (''to'', ''address'')]"

definition StartrailRegistryCreateSRRFromLicensedUserWithRoyaltyTypes :: "tfield list" where
  "StartrailRegistryCreateSRRFromLicensedUserWithRoyaltyTypes =
     buildTypeList [(''isPrimaryIssuer'', ''bool''), (''artistAddress'', ''address''),
       (''metadataDigest'', ''bytes32''), (''metadataCID'', ''string''),
       (''lockExternalTransfer'', ''bool''), (''to'', ''address''),
       (''royaltyReceiver'', ''address''), (''royaltyBasisPoints'', ''uint16'')]"

definition StartrailRegistryCreateSRRFromLicensedUserWithIPFSAndRoyaltyTypes :: "tfield list" where
  "StartrailRegistryCreateSRRFromLicensedUserWithIPFSAndRoyaltyTypes =
     buildTypeList [(''isPrimaryIssuer'', ''bool''), (''artistAddress'', ''address''),
       (''metadataCID'', ''string''), (''lockExternalTransfer'', ''bool''),
       (''to'', ''address''), (''royaltyReceiver'', ''address''),
       (''royaltyBasisPoints'', ''uint16'')]"

definition StartrailRegistryUpdateSRRTypes :: "tfield list" where
  "StartrailRegistryUpdateSRRTypes =
     buildTypeList [(''tokenId'', ''uint256''), (''isPrimaryIssuer'', ''bool''),
       (''artistAddress'', ''address'')]"

definition StartrailRegistryUpdateSRRMetadataWithCidTypes :: "tfield list" where
  "StartrailRegistryUpdateSRRMetadataWithCidTypes =
     buildTypeList [(''tokenId'', ''uint256''), (''metadataCID'', ''string'')]"

definition StartrailRegistryUpdateSRRRoyaltyTypes :: "tfield list" where
  "StartrailRegistryUpdateSRRRoyaltyTypes =
     buildTypeList [(''tokenId'', ''uint256''), (''royaltyReceiver'', ''address''),
       (''royaltyBasisPoints'', ''uint16'')]"

definition StartrailRegistryUpdateSRRMetadataTypes :: "tfield list" where
  "StartrailRegistryUpdateSRRMetadataTypes =
     buildTypeList [(''tokenId'', ''uint256''), (''metadataDigest'', ''bytes32'')]"

definition StartrailRegistryApproveSRRByCommitmentTypes :: "tfield list" where
  "StartrailRegistryApproveSRRByCommitmentTypes =
     buildTypeList [(''tokenId'', ''uint256''), (''commitment'', ''bytes32''),
       (''historyMetadataDigest'', ''string'')]"

definition StartrailRegistryApproveSRRByCommitmentWithCustomHistoryIdTypes :: "tfield list" where
  "StartrailRegistryApproveSRRByCommitmentWithCustomHistoryIdTypes =
     buildTypeList [(''tokenId'', ''uint256''), (''commitment'', ''bytes32''),
       (''historyMetadataDigest'', ''string''), (''customHistoryId'', ''uint256'')]"

definition StartrailRegistryApproveSRRByCommitmentV2Types :: "tfield list" where
  "StartrailRegistryApproveSRRByCommitmentV2Types =
     buildTypeList [(''tokenId'', ''uint256''), (''commitment'', ''bytes32''),
       (''historyMetadataHash'', ''string'')]"

definition StartrailRegistryApproveSRRByCommitmentWithCustomHistoryIdV2Types :: "tfield list" where
  "StartrailRegistryApproveSRRByCommitmentWithCustomHistoryIdV2Types =
     buildTypeList [(''tokenId'', ''uint256''), (''commitment'', ''bytes32''),
       (''historyMetadataHash'', ''string''), (''customHistoryId'', ''uint256'')]"

definition StartrailRegistryCancelSRRCommitmentTypes :: "tfield list" where
  "StartrailRegistryCancelSRRCommitmentTypes = buildTypeList [(''tokenId'', ''uint256'')]"

definition StartrailRegistryAddHistoryTypes :: "tfield list" where
  "StartrailRegistryAddHistoryTypes =
     buildTypeList [(''tokenIds'', ''uint256[]''), (''customHistoryIds'', ''uint256[]'')]"

definition StartrailRegistrySetLockExternalTransferTypes :: "tfield list" where
  "StartrailRegistrySetLockExternalTransferTypes =
     buildTypeList [(''tokenId'', ''uint256''), (''flag'', ''bool'')]"

definition StartrailRegistryTransferFromWithProvenanceTypes :: "tfield list" where
  "StartrailRegistryTransferFromWithProvenanceTypes =
     buildTypeList [(''to'', ''address''), (''tokenId'', ''uint256''),
       (''historyMetadataDigest'', ''string''), (''customHistoryId'', ''uint256''),
       (''isIntermediary'', ''bool'')]"

definition StartrailRegistryTransferFromWithProvenanceV2Types :: "tfield list" where
  "StartrailRegistryTransferFromWithProvenanceV2Types =
     buildTypeList [(''to'', ''address''), (''tokenId'', ''uint256''),
       (''historyMetadataHash'', ''string''), (''customHistoryId'', ''uint256''),
       (''isIntermediary'', ''bool'')]"

section \<open>bulk-types.ts\<close>

definition BulkIssueSendBatchTypes :: "tfield list" where
  "BulkIssueSendBatchTypes = buildTypeList [(''merkleRoot'', ''bytes32'')]"

definition BulkTransferSendBatchTypes :: "tfield list" where
  "BulkTransferSendBatchTypes = buildTypeList [(''merkleRoot'', ''bytes32'')]"

definition BulkSendBatchTypes :: "tfield list" where
  "BulkSendBatchTypes = buildTypeList [(''merkleRoot'', ''bytes32'')]"

section \<open>collection-factory-types.ts\<close>

definition CollectionFactoryCreateCollectionTypes :: "tfield list" where
  "CollectionFactoryCreateCollectionTypes =
     buildTypeList [(''name'', ''string''), (''symbol'', ''string''),
       (''salt'', ''bytes32'')]"

section \<open>collection.types.ts\<close>

text \<open>\<open>flds[2].name\<close> throws when there is no third field.\<close>

definition addDestinationField :: "tfield list \<Rightarrow> js_error + tfield list" where
  "addDestinationField flds =
     (if length flds \<le> 2 then Inl TypeError
      else
        let insertPosition = (if fld_name (flds ! 2) = ''data'' then 3 else 2)
        in Inr (take insertPosition flds @
                [\<lparr>fld_name = ''destination'', fld_type = ''address''\<rparr>] @
                drop insertPosition flds))"

definition CollectionCreateSRRTypes :: "js_error + tfield list" where
  "CollectionCreateSRRTypes =
     addDestinationField (buildTypeList [(''isPrimaryIssuer'', ''bool''),
       (''artistAddress'', ''address''), (''metadataCID'', ''string''),
       (''lockExternalTransfer'', ''bool''), (''to'', ''address''),
       (''royaltyReceiver'', ''address''), (''royaltyBasisPoints'', ''uint16'')])"

definition CollectionTransferOwnershipTypes :: "js_error + tfield list" where
  "CollectionTransferOwnershipTypes =
     addDestinationField (buildTypeList [(''newOwner'', ''address'')])"

definition CollectionUpdateSRRTypes :: "js_error + tfield list" where
  "CollectionUpdateSRRTypes = addDestinationField StartrailRegistryUpdateSRRTypes"

definition CollectionUpdateSRRMetadataWithCidTypes :: "js_error + tfield list" where
  "CollectionUpdateSRRMetadataWithCidTypes =
     addDestinationField StartrailRegistryUpdateSRRMetadataWithCidTypes"

definition CollectionUpdateSRRRoyaltyTypes :: "js_error + tfield list" where
  "CollectionUpdateSRRRoyaltyTypes = addDestinationField StartrailRegistryUpdateSRRRoyaltyTypes"

definition CollectionApproveSRRByCommitmentV2Types :: "js_error + tfield list" where
  "CollectionApproveSRRByCommitmentV2Types =
     addDestinationField StartrailRegistryApproveSRRByCommitmentV2Types"

definition CollectionApproveSRRByCommitmentWithCustomHistoryIdV2Types :: "js_error + tfield list" where
  "CollectionApproveSRRByCommitmentWithCustomHistoryIdV2Types =
     addDestinationField StartrailRegistryApproveSRRByCommitmentWithCustomHistoryIdV2Types"

definition CollectionCancelSRRCommitmentTypes :: "js_error + tfield list" where
  "CollectionCancelSRRCommitmentTypes =
     addDestinationField StartrailRegistryCancelSRRCommitmentTypes"

definition CollectionAddHistoryTypes :: "js_error + tfield list" where
  "CollectionAddHistoryTypes = addDestinationField StartrailRegistryAddHistoryTypes"

definition CollectionSetLockExternalTransferTypes :: "js_error + tfield list" where
  "CollectionSetLockExternalTransferTypes =
     addDestinationField StartrailRegistrySetLockExternalTransferTypes"

definition CollectionTransferFromWithProvenanceV2Types :: "js_error + tfield list" where
  "CollectionTransferFromWithProvenanceV2Types =
     addDestinationField StartrailRegistryTransferFromWithProvenanceV2Types"

section \<open>index.ts\<close>

definition MessageTypesRegistry :: "js_error + tfield list obj" where
  "MessageTypesRegistry =
     bindr CollectionCreateSRRTypes (\<lambda>tCreateSRR.
     bindr CollectionUpdateSRRTypes (\<lambda>tUpdateSRR.
     bindr CollectionUpdateSRRMetadataWithCidTypes (\<lambda>tUpdateSRRMetadataWithCid.
     bindr CollectionUpdateSRRRoyaltyTypes (\<lambda>tUpdateSRRRoyalty.
     bindr CollectionApproveSRRByCommitmentV2Types (\<lambda>tApproveSRRByCommitmentV2.
     bindr CollectionApproveSRRByCommitmentWithCustomHistoryIdV2Types (\<lambda>tApproveSRRByCommitmentWithCustomHistoryIdV2.
     bindr CollectionCancelSRRCommitmentTypes (\<lambda>tCancelSRRCommitment.
     bindr CollectionAddHistoryTypes (\<lambda>tAddHistory.
     bindr CollectionSetLockExternalTransferTypes (\<lambda>tSetLockExternalTransfer.
     bindr CollectionTransferFromWithProvenanceV2Types (\<lambda>tTransferFromWithProvenanceV2.
     bindr CollectionTransferOwnershipTypes (\<lambda>tTransferOwnership.
     Inr [(''WalletAddOwnerTypes'', WalletAddOwnerTypes),
          (''WalletRemoveOwnerTypes'', WalletRemoveOwnerTypes),
          (''WalletSwapOwnerTypes'', WalletSwapOwnerTypes),
          (''WalletChangeThresholdTypes'', WalletChangeThresholdTypes),
          (''WalletSetEnglishNameTypes'', WalletSetEnglishNameTypes),
          (''WalletSetOriginalNameTypes'', WalletSetOriginalNameTypes),
          (''StartrailRegistryCreateSRRFromLicensedUserTypes'', StartrailRegistryCreateSRRFromLicensedUserTypes),
          (''StartrailRegistryCreateSRRFromLicensedUserWithCidTypes'', StartrailRegistryCreateSRRFromLicensedUserWithCidTypes),
          (''StartrailRegistryCreateSRRFromLicensedUserWithRoyaltyTypes'', StartrailRegistryCreateSRRFromLicensedUserWithRoyaltyTypes),
          (''StartrailRegistryCreateSRRFromLicensedUserWithIPFSAndRoyaltyTypes'', StartrailRegistryCreateSRRFromLicensedUserWithIPFSAndRoyaltyTypes),
          (''StartrailRegistryCreateSRRWithLockExternalTransferTypes'', StartrailRegistryCreateSRRWithLockExternalTransferTypes),
          (''StartrailRegistryUpdateSRRTypes'', StartrailRegistryUpdateSRRTypes),
          (''StartrailRegistryUpdateSRRMetadataTypes'', StartrailRegistryUpdateSRRMetadataTypes),
          (''StartrailRegistryUpdateSRRMetadataWithCidTypes'', StartrailRegistryUpdateSRRMetadataWithCidTypes),
          (''StartrailRegistryUpdateSRRRoyaltyTypes'', StartrailRegistryUpdateSRRRoyaltyTypes),
          (''StartrailRegistryApproveSRRByCommitmentTypes'', StartrailRegistryApproveSRRByCommitmentTypes),
          (''StartrailRegistryApproveSRRByCommitmentV2Types'', StartrailRegistryApproveSRRByCommitmentV2Types),
          (''StartrailRegistryApproveSRRByCommitmentWithCustomHistoryIdTypes'', StartrailRegistryApproveSRRByCommitmentWithCustomHistoryIdTypes),
          (''StartrailRegistryApproveSRRByCommitmentWithCustomHistoryIdV2Types'', StartrailRegistryApproveSRRByCommitmentWithCustomHistoryIdV2Types),
          (''StartrailRegistryCancelSRRCommitmentTypes'', StartrailRegistryCancelSRRCommitmentTypes),
          (''StartrailRegistryAddHistoryTypes'', StartrailRegistryAddHistoryTypes),
          (''StartrailRegistrySetLockExternalTransferTypes'', StartrailRegistrySetLockExternalTransferTypes),
          (''StartrailRegistryTransferFromWithProvenanceTypes'', StartrailRegistryTransferFromWithProvenanceTypes),
          (''StartrailRegistryTransferFromWithProvenanceV2Types'', StartrailRegistryTransferFromWithProvenanceV2Types),
          (''BulkIssueSendBatchTypes'', BulkIssueSendBatchTypes),
          (''BulkTransferSendBatchTypes'', BulkTransferSendBatchTypes),
          (''BulkSendBatchTypes'', BulkSendBatchTypes),
          (''CollectionFactoryCreateCollectionTypes'', CollectionFactoryCreateCollectionTypes),
          (''CollectionCreateSRRTypes'', tCreateSRR),
          (''CollectionUpdateSRRTypes'', tUpdateSRR),
          (''CollectionUpdateSRRMetadataWithCidTypes'', tUpdateSRRMetadataWithCid),
          (''CollectionUpdateSRRRoyaltyTypes'', tUpdateSRRRoyalty),
          (''CollectionApproveSRRByCommitmentV2Types'', tApproveSRRByCommitmentV2),
          (''CollectionApproveSRRByCommitmentWithCustomHistoryIdV2Types'', tApproveSRRByCommitmentWithCustomHistoryIdV2),
          (''CollectionCancelSRRCommitmentTypes'', tCancelSRRCommitment),
          (''CollectionAddHistoryTypes'', tAddHistory),
          (''CollectionSetLockExternalTransferTypes'', tSetLockExternalTransfer),
          (''CollectionTransferFromWithProvenanceV2Types'', tTransferFromWithProvenanceV2),
          (''CollectionTransferOwnershipTypes'', tTransferOwnership)])))))))))))"

section \<open>The shape of the field lists\<close>

definition data_field :: tfield where
  "data_field = \<lparr>fld_name = ''data'', fld_type = ''bytes''\<rparr>"

definition destination_field :: tfield where
  "destination_field = \<lparr>fld_name = ''destination'', fld_type = ''address''\<rparr>"

definition has_data :: "tfield list \<Rightarrow> bool" where
  "has_data ts \<longleftrightarrow> list_ex (\<lambda>f. fld_name f = ''data'') ts"

definition dynamic :: "tfield list \<Rightarrow> bool" where
  "dynamic fs \<longleftrightarrow> list_ex (\<lambda>f. isDynamicArrayType (fld_type f)) fs"

definition shape :: "tfield list \<Rightarrow> tfield list" where
  "shape fs = GenericParamTypes @ (if dynamic fs then [data_field] else []) @ fs"

definition plain :: "tfield list \<Rightarrow> bool" where
  "plain fs \<longleftrightarrow> fs \<noteq> [] \<and> distinct (map fld_name fs) \<and>
     list_all (\<lambda>f. fld_name f \<notin> {''from'', ''nonce'', ''data''}) fs"

text \<open>The fields specific to the request: all but \<open>from\<close>, \<open>nonce\<close> and \<open>data\<close>.\<close>

definition request_fields :: "tfield list \<Rightarrow> tfield list" where
  "request_fields ts = drop (if has_data ts then 3 else 2) ts"

definition wf_types :: "tfield list \<Rightarrow> bool" where
  "wf_types ts \<longleftrightarrow> plain (request_fields ts) \<and> ts = shape (request_fields ts)"

lemma has_data_append [simp]: "has_data (xs @ ys) \<longleftrightarrow> has_data xs \<or> has_data ys"
  by (simp add: has_data_def)

lemma has_data_simps [simp]:
  "\<not> has_data GenericParamTypes" "has_data [data_field]" "\<not> has_data []"
  by (simp_all add: has_data_def GenericParamTypes_def data_field_def)

lemma plain_no_data: "plain fs \<Longrightarrow> \<not> has_data fs"
  by (auto simp: plain_def has_data_def list_ex_iff list_all_iff)

lemma has_data_shape: "plain fs \<Longrightarrow> has_data (shape fs) \<longleftrightarrow> dynamic fs"
  by (simp add: shape_def plain_no_data)

lemma request_fields_shape: "plain fs \<Longrightarrow> request_fields (shape fs) = fs"
  by (simp add: request_fields_def has_data_shape) (simp add: shape_def GenericParamTypes_def)

lemma wf_shape: "plain fs \<Longrightarrow> wf_types (shape fs)"
  by (simp add: wf_types_def request_fields_shape)

lemma wf_types_cases: "wf_types ts \<Longrightarrow> (\<And>fs. plain fs \<Longrightarrow> ts = shape fs \<Longrightarrow> P) \<Longrightarrow> P"
  by (auto simp: wf_types_def)

lemma foldl_push: "foldl (\<lambda>ts (n, t). ts @ [f n t]) acc xs = acc @ map (\<lambda>(n, t). f n t) xs"
  by (induction xs arbitrary: acc) auto

definition fields_of :: "string obj \<Rightarrow> tfield list" where
  "fields_of flds = map (\<lambda>(n, t). \<lparr>fld_name = n, fld_type = t\<rparr>) flds"

lemma buildTypeList_shape: "buildTypeList flds = shape (fields_of flds)"
proof -
  have "list_ex isDynamicArrayType (obj_values flds) = dynamic (fields_of flds)"
    by (induction flds) (auto simp: obj_values_def dynamic_def fields_of_def)
  then show ?thesis
    by (simp add: buildTypeList_def Let_def foldl_push shape_def data_field_def fields_of_def)
qed

lemma destination_not_dynamic: "dynamic (destination_field # fs) = dynamic fs"
  by (simp add: dynamic_def destination_field_def isDynamicArrayType_def starts_with_def)

text \<open>Adding the destination inserts one field before those of the request.\<close>

lemma addDestination_shape:
  assumes "plain fs"
  shows "addDestinationField (shape fs) = Inr (shape (destination_field # fs))"
proof -
  obtain f fs' where fs: "fs = f # fs'" using assms by (cases fs) (auto simp: plain_def)
  have "fld_name f \<noteq> ''data''" using assms fs by (auto simp: plain_def)
  then show ?thesis
    using fs by (simp add: addDestinationField_def shape_def GenericParamTypes_def Let_def
        destination_not_dynamic) (simp add: data_field_def destination_field_def)
qed

lemma plain_destination:
  "plain fs \<Longrightarrow> ''destination'' \<notin> set (map fld_name fs) \<Longrightarrow> plain (destination_field # fs)"
  by (auto simp: plain_def destination_field_def)

lemmas request_types_defs =
  WalletAddOwnerTypes_def WalletRemoveOwnerTypes_def WalletSwapOwnerTypes_def
  WalletChangeThresholdTypes_def WalletSetEnglishNameTypes_def WalletSetOriginalNameTypes_def
  StartrailRegistryCreateSRRWithLockExternalTransferTypes_def
  StartrailRegistryCreateSRRFromLicensedUserTypes_def
  StartrailRegistryCreateSRRFromLicensedUserWithCidTypes_def
  StartrailRegistryCreateSRRFromLicensedUserWithRoyaltyTypes_def
  StartrailRegistryCreateSRRFromLicensedUserWithIPFSAndRoyaltyTypes_def
  StartrailRegistryUpdateSRRTypes_def StartrailRegistryUpdateSRRMetadataWithCidTypes_def
  StartrailRegistryUpdateSRRRoyaltyTypes_def StartrailRegistryUpdateSRRMetadataTypes_def
  StartrailRegistryApproveSRRByCommitmentTypes_def
  StartrailRegistryApproveSRRByCommitmentWithCustomHistoryIdTypes_def
  StartrailRegistryApproveSRRByCommitmentV2Types_def
  StartrailRegistryApproveSRRByCommitmentWithCustomHistoryIdV2Types_def
  StartrailRegistryCancelSRRCommitmentTypes_def StartrailRegistryAddHistoryTypes_def
  StartrailRegistrySetLockExternalTransferTypes_def
  StartrailRegistryTransferFromWithProvenanceTypes_def
  StartrailRegistryTransferFromWithProvenanceV2Types_def BulkIssueSendBatchTypes_def
  BulkTransferSendBatchTypes_def BulkSendBatchTypes_def
  CollectionFactoryCreateCollectionTypes_def

lemmas collection_types_defs =
  CollectionCreateSRRTypes_def CollectionTransferOwnershipTypes_def CollectionUpdateSRRTypes_def
  CollectionUpdateSRRMetadataWithCidTypes_def CollectionUpdateSRRRoyaltyTypes_def
  CollectionApproveSRRByCommitmentV2Types_def
  CollectionApproveSRRByCommitmentWithCustomHistoryIdV2Types_def
  CollectionCancelSRRCommitmentTypes_def CollectionAddHistoryTypes_def
  CollectionSetLockExternalTransferTypes_def CollectionTransferFromWithProvenanceV2Types_def

lemmas shape_rules = buildTypeList_shape addDestination_shape wf_shape plain_destination plain_def
  fields_of_def destination_field_def

text \<open>Loading the module succeeds, and every list of the registry has the shape.\<close>

lemma collection_types_load:
  "\<exists>ts. CollectionCreateSRRTypes = Inr ts \<and> wf_types ts"
  "\<exists>ts. CollectionTransferOwnershipTypes = Inr ts \<and> wf_types ts"
  "\<exists>ts. CollectionUpdateSRRTypes = Inr ts \<and> wf_types ts"
  "\<exists>ts. CollectionUpdateSRRMetadataWithCidTypes = Inr ts \<and> wf_types ts"
  "\<exists>ts. CollectionUpdateSRRRoyaltyTypes = Inr ts \<and> wf_types ts"
  "\<exists>ts. CollectionApproveSRRByCommitmentV2Types = Inr ts \<and> wf_types ts"
  "\<exists>ts. CollectionApproveSRRByCommitmentWithCustomHistoryIdV2Types = Inr ts \<and> wf_types ts"
  "\<exists>ts. CollectionCancelSRRCommitmentTypes = Inr ts \<and> wf_types ts"
  "\<exists>ts. CollectionAddHistoryTypes = Inr ts \<and> wf_types ts"
  "\<exists>ts. CollectionSetLockExternalTransferTypes = Inr ts \<and> wf_types ts"
  "\<exists>ts. CollectionTransferFromWithProvenanceV2Types = Inr ts \<and> wf_types ts"
  by (simp_all add: collection_types_defs request_types_defs shape_rules)

lemma wf_request_types:
  "wf_types WalletAddOwnerTypes"
  "wf_types WalletRemoveOwnerTypes"
  "wf_types WalletSwapOwnerTypes"
  "wf_types WalletChangeThresholdTypes"
  "wf_types WalletSetEnglishNameTypes"
  "wf_types WalletSetOriginalNameTypes"
  "wf_types StartrailRegistryCreateSRRWithLockExternalTransferTypes"
  "wf_types StartrailRegistryCreateSRRFromLicensedUserTypes"
  "wf_types StartrailRegistryCreateSRRFromLicensedUserWithCidTypes"
  "wf_types StartrailRegistryCreateSRRFromLicensedUserWithRoyaltyTypes"
  "wf_types StartrailRegistryCreateSRRFromLicensedUserWithIPFSAndRoyaltyTypes"
  "wf_types StartrailRegistryUpdateSRRTypes"
  "wf_types StartrailRegistryUpdateSRRMetadataWithCidTypes"
  "wf_types StartrailRegistryUpdateSRRRoyaltyTypes"
  "wf_types StartrailRegistryUpdateSRRMetadataTypes"
  "wf_types StartrailRegistryApproveSRRByCommitmentTypes"
  "wf_types StartrailRegistryApproveSRRByCommitmentWithCustomHistoryIdTypes"
  "wf_types StartrailRegistryApproveSRRByCommitmentV2Types"
  "wf_types StartrailRegistryApproveSRRByCommitmentWithCustomHistoryIdV2Types"
  "wf_types StartrailRegistryCancelSRRCommitmentTypes"
  "wf_types StartrailRegistryAddHistoryTypes"
  "wf_types StartrailRegistrySetLockExternalTransferTypes"
  "wf_types StartrailRegistryTransferFromWithProvenanceTypes"
  "wf_types StartrailRegistryTransferFromWithProvenanceV2Types"
  "wf_types BulkIssueSendBatchTypes"
  "wf_types BulkTransferSendBatchTypes"
  "wf_types BulkSendBatchTypes"
  "wf_types CollectionFactoryCreateCollectionTypes"
  by (simp_all add: request_types_defs shape_rules)

definition message_type_names :: "string list" where
  "message_type_names =
     [''WalletAddOwnerTypes'',
      ''WalletRemoveOwnerTypes'',
      ''WalletSwapOwnerTypes'',
      ''WalletChangeThresholdTypes'',
      ''WalletSetEnglishNameTypes'',
      ''WalletSetOriginalNameTypes'',
      ''StartrailRegistryCreateSRRFromLicensedUserTypes'',
      ''StartrailRegistryCreateSRRFromLicensedUserWithCidTypes'',
      ''StartrailRegistryCreateSRRFromLicensedUserWithRoyaltyTypes'',
      ''StartrailRegistryCreateSRRFromLicensedUserWithIPFSAndRoyaltyTypes'',
      ''StartrailRegistryCreateSRRWithLockExternalTransferTypes'',
      ''StartrailRegistryUpdateSRRTypes'',
      ''StartrailRegistryUpdateSRRMetadataTypes'',
      ''StartrailRegistryUpdateSRRMetadataWithCidTypes'',
      ''StartrailRegistryUpdateSRRRoyaltyTypes'',
      ''StartrailRegistryApproveSRRByCommitmentTypes'',
      ''StartrailRegistryApproveSRRByCommitmentV2Types'',
      ''StartrailRegistryApproveSRRByCommitmentWithCustomHistoryIdTypes'',
      ''StartrailRegistryApproveSRRByCommitmentWithCustomHistoryIdV2Types'',
      ''StartrailRegistryCancelSRRCommitmentTypes'',
      ''StartrailRegistryAddHistoryTypes'',
      ''StartrailRegistrySetLockExternalTransferTypes'',
      ''StartrailRegistryTransferFromWithProvenanceTypes'',
      ''StartrailRegistryTransferFromWithProvenanceV2Types'',
      ''BulkIssueSendBatchTypes'',
      ''BulkTransferSendBatchTypes'',
      ''BulkSendBatchTypes'',
      ''CollectionFactoryCreateCollectionTypes'',
      ''CollectionCreateSRRTypes'',
      ''CollectionUpdateSRRTypes'',
      ''CollectionUpdateSRRMetadataWithCidTypes'',
      ''CollectionUpdateSRRRoyaltyTypes'',
      ''CollectionApproveSRRByCommitmentV2Types'',
      ''CollectionApproveSRRByCommitmentWithCustomHistoryIdV2Types'',
      ''CollectionCancelSRRCommitmentTypes'',
      ''CollectionAddHistoryTypes'',
      ''CollectionSetLockExternalTransferTypes'',
      ''CollectionTransferFromWithProvenanceV2Types'',
      ''CollectionTransferOwnershipTypes'']"

lemma MessageTypesRegistry_wf:
  "\<exists>reg. MessageTypesRegistry = Inr reg \<and> (\<forall>(k, ts) \<in> set reg. wf_types ts) \<and>
     obj_keys reg = message_type_names"
proof -
  obtain tCreateSRR where tCreateSRR: "CollectionCreateSRRTypes = Inr tCreateSRR" "wf_types tCreateSRR" using collection_types_load by blast
  obtain tTransferOwnership where tTransferOwnership: "CollectionTransferOwnershipTypes = Inr tTransferOwnership" "wf_types tTransferOwnership" using collection_types_load by blast
  obtain tUpdateSRR where tUpdateSRR: "CollectionUpdateSRRTypes = Inr tUpdateSRR" "wf_types tUpdateSRR" using collection_types_load by blast
  obtain tUpdateSRRMetadataWithCid where tUpdateSRRMetadataWithCid: "CollectionUpdateSRRMetadataWithCidTypes = Inr tUpdateSRRMetadataWithCid" "wf_types tUpdateSRRMetadataWithCid" using collection_types_load by blast
  obtain tUpdateSRRRoyalty where tUpdateSRRRoyalty: "CollectionUpdateSRRRoyaltyTypes = Inr tUpdateSRRRoyalty" "wf_types tUpdateSRRRoyalty" using collection_types_load by blast
  obtain tApproveSRRByCommitmentV2 where tApproveSRRByCommitmentV2: "CollectionApproveSRRByCommitmentV2Types = Inr tApproveSRRByCommitmentV2" "wf_types tApproveSRRByCommitmentV2" using collection_types_load by blast
  obtain tApproveSRRByCommitmentWithCustomHistoryIdV2 where tApproveSRRByCommitmentWithCustomHistoryIdV2: "CollectionApproveSRRByCommitmentWithCustomHistoryIdV2Types = Inr tApproveSRRByCommitmentWithCustomHistoryIdV2" "wf_types tApproveSRRByCommitmentWithCustomHistoryIdV2" using collection_types_load by blast
  obtain tCancelSRRCommitment where tCancelSRRCommitment: "CollectionCancelSRRCommitmentTypes = Inr tCancelSRRCommitment" "wf_types tCancelSRRCommitment" using collection_types_load by blast
  obtain tAddHistory where tAddHistory: "CollectionAddHistoryTypes = Inr tAddHistory" "wf_types tAddHistory" using collection_types_load by blast
  obtain tSetLockExternalTransfer where tSetLockExternalTransfer: "CollectionSetLockExternalTransferTypes = Inr tSetLockExternalTransfer" "wf_types tSetLockExternalTransfer" using collection_types_load by blast
  obtain tTransferFromWithProvenanceV2 where tTransferFromWithProvenanceV2: "CollectionTransferFromWithProvenanceV2Types = Inr tTransferFromWithProvenanceV2" "wf_types tTransferFromWithProvenanceV2" using collection_types_load by blast
  note loaded = tCreateSRR tUpdateSRR tUpdateSRRMetadataWithCid tUpdateSRRRoyalty tApproveSRRByCommitmentV2 tApproveSRRByCommitmentWithCustomHistoryIdV2 tCancelSRRCommitment tAddHistory tSetLockExternalTransfer tTransferFromWithProvenanceV2 tTransferOwnership
  show ?thesis
    unfolding MessageTypesRegistry_def loaded bindr_simps using loaded
    by (simp add: wf_request_types obj_keys_def message_type_names_def)
qed

end
