(* ===== verification/MetaTxRegistry.thy ===== *)
theory MetaTxRegistry
  imports MetaTxTypes
begin

text \<open>
  \<open>startrail-common-js/meta-tx/types.ts\<close> and \<open>meta-tx-request-registry.ts\<close>: the request types,
  the request records and the registry \<open>metaTxRequests\<close> built when the module is loaded, with
  \<open>getFunctionSelector\<close> of \<open>contracts/utils.ts\<close>. A string enum is an object from keys to values.
  The lemmas show that loading succeeds, that every request type has exactly one record, and
  that its record agrees with its field list.
\<close>

section \<open>types.ts\<close>

definition MetaTxRequestType :: "string obj" where
  "MetaTxRequestType =
    [(''WalletAddOwner'', ''WalletAddOwner''),
     (''WalletRemoveOwner'', ''WalletRemoveOwner''),
     (''WalletSwapOwner'', ''WalletSwapOwner''),
     (''WalletChangeThreshold'', ''WalletChangeThreshold''),
     (''WalletSetEnglishName'', ''WalletSetEnglishName''),
     (''WalletSetOriginalName'', ''WalletSetOriginalName''),
     (''StartrailRegistryCreateSRRWithLockExternalTransfer'', ''StartrailRegistryCreateSRRWithLockExternalTransfer''),
     (''StartrailRegistryCreateSRRFromLicensedUser'', ''StartrailRegistryCreateSRRFromLicensedUser''),
     (''StartrailRegistryCreateSRRFromLicensedUserWithCid'', ''StartrailRegistryCreateSRRFromLicensedUserWithCid''),
     (''StartrailRegistryCreateSRRFromLicensedUserWithRoyalty'', ''StartrailRegistryCreateSRRFromLicensedUserWithRoyalty''),
     (''StartrailRegistryCreateSRRFromLicensedUserWithIPFSAndRoyalty'', ''StartrailRegistryCreateSRRFromLicensedUserWithIPFSAndRoyalty''),
     (''StartrailRegistryUpdateSRR'', ''StartrailRegistryUpdateSRR''),
     (''StartrailRegistryUpdateSRRMetadata'', ''StartrailRegistryUpdateSRRMetadata''),
     (''StartrailRegistryUpdateSRRMetadataWithCid'', ''StartrailRegistryUpdateSRRMetadataWithCid''),
     (''StartrailRegistryUpdateSRRRoyalty'', ''StartrailRegistryUpdateSRRRoyalty''),
     (''StartrailRegistryApproveSRRByCommitment'', ''StartrailRegistryApproveSRRByCommitment''),
     (''StartrailRegistryApproveSRRByCommitmentV2'', ''StartrailRegistryApproveSRRByCommitmentV2''),
     (''StartrailRegistryApproveSRRByCommitmentWithCustomHistoryId'', ''StartrailRegistryApproveSRRByCommitmentWithCustomHistoryId''),
     (''StartrailRegistryApproveSRRByCommitmentWithCustomHistoryIdV2'', ''StartrailRegistryApproveSRRByCommitmentWithCustomHistoryIdV2''),
     (''StartrailRegistryCancelSRRCommitment'', ''StartrailRegistryCancelSRRCommitment''),
     (''StartrailRegistryAddHistory'', ''StartrailRegistryAddHistory''),
     (''StartrailRegistrySetLockExternalTransfer'', ''StartrailRegistrySetLockExternalTransfer''),
     (''StartrailRegistryTransferFromWithProvenance'', ''StartrailRegistryTransferFromWithProvenance''),
     (''StartrailRegistryTransferFromWithProvenanceV2'', ''StartrailRegistryTransferFromWithProvenanceV2''),
     (''BulkIssueSendBatch'', ''BulkIssueSendBatch''),
     (''BulkTransferSendBatch'', ''BulkTransferSendBatch''),
     (''BulkSendBatch'', ''BulkSendBatch''),
     (''CollectionFactoryCreateCollection'', ''CollectionFactoryCreateCollection''),
     (''CollectionCreateSRR'', ''CollectionCreateSRR''),
     (''CollectionUpdateSRR'', ''CollectionUpdateSRR''),
     (''CollectionUpdateSRRMetadataWithCid'', ''CollectionUpdateSRRMetadataWithCid''),
     (''CollectionUpdateSRRRoyalty'', ''CollectionUpdateSRRRoyalty''),
     (''CollectionApproveSRRByCommitmentV2'', ''CollectionApproveSRRByCommitmentV2''),
     (''CollectionApproveSRRByCommitmentWithCustomHistoryIdV2'', ''CollectionApproveSRRByCommitmentWithCustomHistoryIdV2''),
     (''CollectionCancelSRRCommitment'', ''CollectionCancelSRRCommitment''),
     (''CollectionAddHistory'', ''CollectionAddHistory''),
     (''CollectionSetLockExternalTransfer'', ''CollectionSetLockExternalTransfer''),
     (''CollectionTransferFromWithProvenanceV2'', ''CollectionTransferFromWithProvenanceV2''),
     (''CollectionTransferOwnership'', ''CollectionTransferOwnership'')]"

text \<open>\<open>destinationContract\<close> is one of the seven names of the type \<open>DestinationContract\<close>.\<close>

record meta_tx_request =
  eip712TypeHash :: string
  eip712Types :: "tfield list"
  destinationContract :: string
  destinationAddressProvided :: bool
  functionSelector :: string
  functionSignature :: string
  suffixTypeString :: string
  requiresDataField :: bool
  adminCanCall :: bool

definition DestinationContract :: "string list" where
  "DestinationContract =
     [''StartrailRegistry'', ''LicensedUserManager'', ''BulkIssue'', ''BulkTransfer'', ''Bulk'',
      ''CollectionProxyFeaturesAggregate'', ''CollectionFactory'']"

section \<open>meta-tx-request-registry.ts\<close>

definition buildTypeHash :: "ext \<Rightarrow> string \<Rightarrow> tfield list \<Rightarrow> string" where
  "buildTypeHash x name types = hashType x name types"

definition buildSuffixTypeString :: "tfield list \<Rightarrow> string" where
  "buildSuffixTypeString types =
     join_str '',''
       (map (\<lambda>typeDef. fld_type typeDef @ '' '' @ fld_name typeDef)
         (drop (length GenericParamTypes) types))"

definition getFunctionSelector :: "ext \<Rightarrow> string \<Rightarrow> string" where
  "getFunctionSelector x functionSignature' = take 10 (id_hash x functionSignature')"

definition buildMetaTxRequest ::
  "ext \<Rightarrow> string \<Rightarrow> string \<Rightarrow> string \<Rightarrow> bool \<Rightarrow> bool \<Rightarrow> js_error + meta_tx_request" where
  "buildMetaTxRequest x metaTxRequestType contractName fnSignature adminCanCall'
      destinationAddressProvided' =
     bindr MessageTypesRegistry (\<lambda>registry.
     bindr (defined_or_throw (obj_get registry (metaTxRequestType @ ''Types''))) (\<lambda>types.
       Inr \<lparr>eip712TypeHash = buildTypeHash x metaTxRequestType types,
            eip712Types = types,
            destinationContract = contractName,
            destinationAddressProvided = destinationAddressProvided',
            functionSelector = getFunctionSelector x fnSignature,
            functionSignature = fnSignature,
            suffixTypeString = buildSuffixTypeString types,
            requiresDataField = list_ex (\<lambda>t. fld_name t = ''data'') types,
            adminCanCall = adminCanCall'\<rparr>))"

text \<open>A key that is no request type yields \<open>undefined\<close>, whose field list does not exist.\<close>

definition buildMetaTxRequestEntriesFromKeyToFnSigRecord ::
  "ext \<Rightarrow> string \<Rightarrow> string obj \<Rightarrow> string \<Rightarrow> js_error + meta_tx_request obj" where
  "buildMetaTxRequestEntriesFromKeyToFnSigRecord x contractName metaTxKeyToFunctionSignature
      keyPrefixOverride =
     foldr_res (\<lambda>(typeKey, typeFunctionSignature) metaTxTypes.
         let metaTxKey = keyPrefixOverride @ typeKey;
             destinationAddressProvided' = (contractName = ''CollectionProxyFeaturesAggregate'')
         in bindr (defined_or_throw (obj_get MetaTxRequestType metaTxKey)) (\<lambda>metaTxRequestType.
            bindr (buildMetaTxRequest x metaTxRequestType contractName typeFunctionSignature True
                     destinationAddressProvided') (\<lambda>request.
              Inr (obj_set metaTxKey request metaTxTypes))))
       metaTxKeyToFunctionSignature []"

definition STARTRAIL_REGISTRY_TYPE_KEY_TO_FUNCTION_SIGNATURE :: "string obj" where
  "STARTRAIL_REGISTRY_TYPE_KEY_TO_FUNCTION_SIGNATURE =
    [(''CreateSRRWithLockExternalTransfer'', ''createSRRFromLicensedUser(bool,address,bytes32,bool)''),
     (''CreateSRRFromLicensedUser'', ''createSRRFromLicensedUser(bool,address,bytes32,bool,address)''),
     (''CreateSRRFromLicensedUserWithCid'', ''createSRRFromLicensedUser(bool,address,bytes32,string,bool,address)''),
     (''CreateSRRFromLicensedUserWithRoyalty'', ''createSRRFromLicensedUser(bool,address,bytes32,string,bool,address,address,uint16)''),
     (''CreateSRRFromLicensedUserWithIPFSAndRoyalty'', ''createSRRFromLicensedUser(bool,address,string,bool,address,address,uint16)''),
     (''UpdateSRR'', ''updateSRR(uint256,bool,address)''),
     (''UpdateSRRMetadata'', ''updateSRRMetadata(uint256,bytes32)''),
     (''UpdateSRRMetadataWithCid'', ''updateSRRMetadata(uint256,string)''),
     (''UpdateSRRRoyalty'', ''updateSRRRoyalty(uint256,address,uint16)''),
     (''ApproveSRRByCommitment'', ''approveSRRByCommitment(uint256,bytes32,string)''),
     (''ApproveSRRByCommitmentV2'', ''approveSRRByCommitment(uint256,bytes32,string)''),
     (''ApproveSRRByCommitmentWithCustomHistoryId'', ''approveSRRByCommitment(uint256,bytes32,string,uint256)''),
     (''ApproveSRRByCommitmentWithCustomHistoryIdV2'', ''approveSRRByCommitment(uint256,bytes32,string,uint256)''),
     (''CancelSRRCommitment'', ''cancelSRRCommitment(uint256)''),
     (''AddHistory'', ''addHistory(uint256[],uint256[])''),
     (''SetLockExternalTransfer'', ''setLockExternalTransfer(uint256,bool)''),
     (''TransferFromWithProvenance'', ''transferFromWithProvenance(address,uint256,string,uint256,bool)''),
     (''TransferFromWithProvenanceV2'', ''transferFromWithProvenance(address,uint256,string,uint256,bool)'')]"

definition LICENSED_USER_TYPE_KEY_TO_FUNCTION_SIGNATURE :: "string obj" where
  "LICENSED_USER_TYPE_KEY_TO_FUNCTION_SIGNATURE =
    [(''AddOwner'', ''addOwner(address,address,uint8)''),
     (''RemoveOwner'', ''removeOwner(address,address,address,uint8)''),
     (''ChangeThreshold'', ''changeThreshold(address,uint8)''),
     (''SwapOwner'', ''swapOwner(address,address,address,address)''),
     (''SetEnglishName'', ''setEnglishName(address,string)''),
     (''SetOriginalName'', ''setOriginalName(address,string)'')]"

text \<open>The predicate of \<open>_.omitBy\<close>: the registry requests that collections do not support.\<close>

definition omittedForCollections :: "string \<Rightarrow> string \<Rightarrow> bool" where
  "omittedForCollections fnSig typeKey \<longleftrightarrow>
     starts_with typeKey ''CreateSRR'' \<or>
     typeKey \<in> set [''ApproveSRRByCommitment'', ''ApproveSRRByCommitmentWithCustomHistoryId'',
                   ''TransferFromWithProvenance'', ''UpdateSRRMetadata'']"

definition metaTxRequests :: "ext \<Rightarrow> js_error + meta_tx_request obj" where
  "metaTxRequests x =
     bindr (buildMetaTxRequestEntriesFromKeyToFnSigRecord x ''LicensedUserManager''
              LICENSED_USER_TYPE_KEY_TO_FUNCTION_SIGNATURE ''Wallet'') (\<lambda>wallet.
     bindr (buildMetaTxRequestEntriesFromKeyToFnSigRecord x ''StartrailRegistry''
              STARTRAIL_REGISTRY_TYPE_KEY_TO_FUNCTION_SIGNATURE ''StartrailRegistry'') (\<lambda>registry.
     bindr (buildMetaTxRequest x ''BulkIssueSendBatch'' ''BulkIssue''
              ''prepareBatchFromLicensedUser(bytes32)'' False False) (\<lambda>bulkIssue.
     bindr (buildMetaTxRequest x ''BulkTransferSendBatch'' ''BulkTransfer''
              ''prepareBatchFromLicensedUser(bytes32)'' False False) (\<lambda>bulkTransfer.
     bindr (buildMetaTxRequest x ''BulkSendBatch'' ''Bulk''
              ''prepareBatchFromLicensedUser(bytes32)'' False False) (\<lambda>bulk.
     bindr (buildMetaTxRequest x ''CollectionFactoryCreateCollection'' ''CollectionFactory''
              ''createCollectionContract(string,string,bytes32)'' False False) (\<lambda>factory.
     bindr (buildMetaTxRequestEntriesFromKeyToFnSigRecord x ''CollectionProxyFeaturesAggregate''
              (omitBy x STARTRAIL_REGISTRY_TYPE_KEY_TO_FUNCTION_SIGNATURE omittedForCollections)
              ''Collection'') (\<lambda>collection.
     bindr (buildMetaTxRequest x ''CollectionCreateSRR'' ''CollectionProxyFeaturesAggregate''
              ''createSRR(bool,address,string,bool,address,address,uint16)'' False True) (\<lambda>createSRR.
     bindr (buildMetaTxRequest x ''CollectionTransferOwnership'' ''CollectionProxyFeaturesAggregate''
              ''transferOwnership(address)'' False True) (\<lambda>transferOwnership.
       Inr (obj_spread (obj_spread wallet registry)
             ([(''BulkIssueSendBatch'', bulkIssue),
               (''BulkTransferSendBatch'', bulkTransfer),
               (''BulkSendBatch'', bulk),
               (''CollectionFactoryCreateCollection'', factory)] @
              collection @
              [(''CollectionCreateSRR'', createSRR),
               (''CollectionTransferOwnership'', transferOwnership)])))))))))))"

section \<open>The registry is complete\<close>

definition registry_names :: "string list" where
  "registry_names = obj_values MetaTxRequestType"

lemma enum_get: "list_all (\<lambda>k. obj_get MetaTxRequestType k = Some k) registry_names"
  by code_simp

lemma registry_names_distinct: "distinct registry_names"
  by code_simp

lemma registry_names_typed: "list_all (\<lambda>k. k @ ''Types'' \<in> set message_type_names) registry_names"
  by code_simp

text \<open>The record of a request with the given field list.\<close>

definition request_of :: "ext \<Rightarrow> string \<Rightarrow> tfield list \<Rightarrow> string \<Rightarrow> string \<Rightarrow> bool \<Rightarrow> bool \<Rightarrow> meta_tx_request" where
  "request_of x name ts contractName sig admin dest =
     \<lparr>eip712TypeHash = hashType x name ts, eip712Types = ts, destinationContract = contractName,
      destinationAddressProvided = dest, functionSelector = take 10 (id_hash x sig),
      functionSignature = sig, suffixTypeString = buildSuffixTypeString ts,
      requiresDataField = has_data ts, adminCanCall = admin\<rparr>"

text \<open>The field list of a request type (empty when there is none).\<close>

definition types_of :: "string \<Rightarrow> tfield list" where
  "types_of name =
     (case MessageTypesRegistry of
        Inl _ \<Rightarrow> []
      | Inr registry \<Rightarrow> (case obj_get registry (name @ ''Types'') of None \<Rightarrow> [] | Some ts \<Rightarrow> ts))"

lemma buildMetaTxRequest_value:
  assumes "name \<in> set registry_names"
  shows "buildMetaTxRequest x name c sig a d = Inr (request_of x name (types_of name) c sig a d)"
proof -
  obtain reg where reg: "MessageTypesRegistry = Inr reg" "obj_keys reg = message_type_names"
    using MessageTypesRegistry_wf by blast
  have "name @ ''Types'' \<in> set (obj_keys reg)"
    using assms registry_names_typed reg(2) by (simp add: list_all_iff)
  then obtain ts where "obj_get reg (name @ ''Types'') = Some ts"
    using obj_get_None_iff [of reg "name @ ''Types''"] by (cases "obj_get reg (name @ ''Types'')") auto
  then show ?thesis
    unfolding buildMetaTxRequest_def types_of_def reg(1)
    by (simp add: request_of_def buildTypeHash_def getFunctionSelector_def has_data_def)
qed

lemma wf_types_of:
  assumes "name \<in> set registry_names"
  shows "wf_types (types_of name)"
proof -
  obtain reg where reg: "MessageTypesRegistry = Inr reg" "obj_keys reg = message_type_names"
      "\<forall>(k, ts) \<in> set reg. wf_types ts"
    using MessageTypesRegistry_wf by blast
  have "name @ ''Types'' \<in> set (obj_keys reg)"
    using assms registry_names_typed reg(2) by (simp add: list_all_iff)
  then obtain ts where ts: "obj_get reg (name @ ''Types'') = Some ts"
    using obj_get_None_iff [of reg "name @ ''Types''"] by (cases "obj_get reg (name @ ''Types'')") auto
  then have "(name @ ''Types'', ts) \<in> set reg" by (auto simp: obj_get_def dest: map_of_SomeD)
  then show ?thesis unfolding types_of_def reg(1) using reg(3) ts by auto
qed

text \<open>The records built from a mapping of keys to signatures, in its order.\<close>

lemma entries_value:
  assumes "\<forall>(k, sig) \<in> set rec. p @ k \<in> set registry_names" and "distinct (map fst rec)"
  shows "buildMetaTxRequestEntriesFromKeyToFnSigRecord x c rec p =
    Inr (map (\<lambda>(k, sig). (p @ k, request_of x (p @ k) (types_of (p @ k)) c sig True
           (c = ''CollectionProxyFeaturesAggregate''))) rec)"
proof -
  let ?r = "\<lambda>(k, sig). (p @ k, request_of x (p @ k) (types_of (p @ k)) c sig True
           (c = ''CollectionProxyFeaturesAggregate''))"
  let ?f = "\<lambda>(typeKey, typeFunctionSignature) metaTxTypes.
         let metaTxKey = p @ typeKey;
             destinationAddressProvided' = (c = ''CollectionProxyFeaturesAggregate'')
         in bindr (defined_or_throw (obj_get MetaTxRequestType metaTxKey)) (\<lambda>metaTxRequestType.
            bindr (buildMetaTxRequest x metaTxRequestType c typeFunctionSignature True
                     destinationAddressProvided') (\<lambda>request.
              Inr (obj_set metaTxKey request metaTxTypes)))"
  have "foldr_res ?f rec acc = Inr (acc @ map ?r rec)"
    if "\<forall>(k, sig) \<in> set rec. p @ k \<in> set registry_names \<and> p @ k \<notin> set (obj_keys acc)"
      and "distinct (map fst rec)" for acc rec
    using that
  proof (induction rec arbitrary: acc)
    case Nil
    then show ?case by simp
  next
    case (Cons kv rec)
    obtain k sig where kv: "kv = (k, sig)" by (cases kv)
    with Cons.prems have n: "p @ k \<in> set registry_names" "p @ k \<notin> set (obj_keys acc)" by auto
    have get: "obj_get MetaTxRequestType (p @ k) = Some (p @ k)"
      using enum_get n(1) by (simp add: list_all_iff)
    have "foldr_res ?f (kv # rec) acc = foldr_res ?f rec (acc @ [?r (k, sig)])"
      using kv n by (simp add: get buildMetaTxRequest_value Let_def obj_set_fresh)
    also have "\<dots> = Inr ((acc @ [?r (k, sig)]) @ map ?r rec)"
      using Cons.prems kv by (intro Cons.IH) (auto simp: obj_keys_def image_iff)
    finally show ?case using kv by simp
  qed
  from this [of rec "[]"] assms show ?thesis
    by (simp add: buildMetaTxRequestEntriesFromKeyToFnSigRecord_def obj_keys_def)
qed

text \<open>The whole registry as a table of names, contracts, signatures and flags.\<close>

definition request_table :: "(string \<times> string \<times> string \<times> bool \<times> bool) list" where
  "request_table =
     map (\<lambda>(k, sig). (''Wallet'' @ k, ''LicensedUserManager'', sig, True, False))
       LICENSED_USER_TYPE_KEY_TO_FUNCTION_SIGNATURE @
     map (\<lambda>(k, sig). (''StartrailRegistry'' @ k, ''StartrailRegistry'', sig, True, False))
       STARTRAIL_REGISTRY_TYPE_KEY_TO_FUNCTION_SIGNATURE @
     [(''BulkIssueSendBatch'', ''BulkIssue'', ''prepareBatchFromLicensedUser(bytes32)'', False, False),
      (''BulkTransferSendBatch'', ''BulkTransfer'', ''prepareBatchFromLicensedUser(bytes32)'', False, False),
      (''BulkSendBatch'', ''Bulk'', ''prepareBatchFromLicensedUser(bytes32)'', False, False),
      (''CollectionFactoryCreateCollection'', ''CollectionFactory'',
         ''createCollectionContract(string,string,bytes32)'', False, False)] @
     map (\<lambda>(k, sig). (''Collection'' @ k, ''CollectionProxyFeaturesAggregate'', sig, True, True))
       (filter (\<lambda>(k, sig). \<not> omittedForCollections sig k)
         STARTRAIL_REGISTRY_TYPE_KEY_TO_FUNCTION_SIGNATURE) @
     [(''CollectionCreateSRR'', ''CollectionProxyFeaturesAggregate'',
         ''createSRR(bool,address,string,bool,address,address,uint16)'', False, True),
      (''CollectionTransferOwnership'', ''CollectionProxyFeaturesAggregate'',
         ''transferOwnership(address)'', False, True)]"

definition table_entry :: "ext \<Rightarrow> string \<times> string \<times> string \<times> bool \<times> bool \<Rightarrow> string \<times> meta_tx_request" where
  "table_entry x = (\<lambda>(n, c, sig, a, d). (n, request_of x n (types_of n) c sig a d))"

lemma request_table_names: "distinct (map fst request_table)"
  by code_simp

lemma request_table_complete: "mset (map fst request_table) = mset registry_names"
  by code_simp

lemma table_parts_distinct:
  "distinct (map fst LICENSED_USER_TYPE_KEY_TO_FUNCTION_SIGNATURE)"
  "distinct (map fst STARTRAIL_REGISTRY_TYPE_KEY_TO_FUNCTION_SIGNATURE)"
  by code_simp+

definition collection_signatures :: "string obj" where
  "collection_signatures =
     filter (\<lambda>(k, sig). \<not> omittedForCollections sig k) STARTRAIL_REGISTRY_TYPE_KEY_TO_FUNCTION_SIGNATURE"

lemma table_parts_registered:
  "list_all (\<lambda>(k, sig). ''Wallet'' @ k \<in> set registry_names) LICENSED_USER_TYPE_KEY_TO_FUNCTION_SIGNATURE"
  "list_all (\<lambda>(k, sig). ''StartrailRegistry'' @ k \<in> set registry_names)
     STARTRAIL_REGISTRY_TYPE_KEY_TO_FUNCTION_SIGNATURE"
  "list_all (\<lambda>(k, sig). ''Collection'' @ k \<in> set registry_names) collection_signatures"
  "list_all (\<lambda>k. k \<in> set registry_names)
     [''BulkIssueSendBatch'', ''BulkTransferSendBatch'', ''BulkSendBatch'',
      ''CollectionFactoryCreateCollection'', ''CollectionCreateSRR'', ''CollectionTransferOwnership'']"
  by code_simp+

lemma obj_spread_assoc_fresh:
  assumes "distinct (obj_keys (a @ b @ c))"
  shows "obj_spread (obj_spread a b) c = a @ b @ c"
proof -
  have "obj_spread a b = a @ b" using assms by (intro obj_spread_fresh) (auto simp: obj_keys_def)
  moreover have "obj_spread (a @ b) c = (a @ b) @ c"
    using assms by (intro obj_spread_fresh) (auto simp: obj_keys_def)
  ultimately show ?thesis by simp
qed

lemma metaTxRequests_value:
  assumes "omitBy_documented x"
  shows "metaTxRequests x = Inr (map (table_entry x) request_table)"
proof -
  have om: "omitBy x STARTRAIL_REGISTRY_TYPE_KEY_TO_FUNCTION_SIGNATURE omittedForCollections =
      collection_signatures"
    using assms by (simp add: omitBy_documented_def collection_signatures_def)
  note lu = table_parts_registered(1) [unfolded list_all_iff]
  note sr = table_parts_registered(2) [unfolded list_all_iff]
  note co = table_parts_registered(3) [unfolded list_all_iff]
  have co_distinct: "distinct (map fst collection_signatures)"
    unfolding collection_signatures_def by (rule distinct_map_filter [OF table_parts_distinct(2)])
  have single: "''BulkIssueSendBatch'' \<in> set registry_names" "''BulkTransferSendBatch'' \<in> set registry_names"
    "''BulkSendBatch'' \<in> set registry_names" "''CollectionFactoryCreateCollection'' \<in> set registry_names"
    "''CollectionCreateSRR'' \<in> set registry_names" "''CollectionTransferOwnership'' \<in> set registry_names"
    using table_parts_registered(4) by (simp_all only: list.pred_inject)
  note parts = entries_value [OF lu table_parts_distinct(1)] entries_value [OF sr table_parts_distinct(2)]
    entries_value [OF co co_distinct]
    buildMetaTxRequest_value [OF single(1)] buildMetaTxRequest_value [OF single(2)]
    buildMetaTxRequest_value [OF single(3)] buildMetaTxRequest_value [OF single(4)]
    buildMetaTxRequest_value [OF single(5)] buildMetaTxRequest_value [OF single(6)]
  have keys: "obj_keys (map (table_entry x) request_table) = map fst request_table"
    by (auto simp: obj_keys_def table_entry_def)
  have map_entry: "map (table_entry x) (map (\<lambda>(k, sig). (p @ k, c, sig, a, d)) xs) =
      map (\<lambda>(k, sig). (p @ k, request_of x (p @ k) (types_of (p @ k)) c sig a d)) xs" for p c a d xs
    by (simp add: table_entry_def split_def)
  show ?thesis
    unfolding metaTxRequests_def om parts bindr_simps
    by (subst obj_spread_assoc_fresh)
      (use keys request_table_names in \<open>simp_all add: request_table_def table_entry_def split_def
        collection_signatures_def comp_def\<close>)
qed

section \<open>Records agree with field lists and signatures\<close>

text \<open>The parameter list of a function signature, and the one the field list gives: the types of
  the request fields in order, without the destination, which is not passed on.\<close>

definition signature_params :: "string \<Rightarrow> string" where
  "signature_params sig = dropWhile (\<lambda>c. c \<noteq> CHR ''('') sig"

definition call_params :: "tfield list \<Rightarrow> string" where
  "call_params ts = ''('' @ join_str '','' (map fld_type
     (filter (\<lambda>f. fld_name f \<noteq> ''destination'') (request_fields ts))) @ '')''"

text \<open>Three wallet requests sign a threshold of type uint256 where the function they are for takes a uint8. The
  fields of a request with the types its function takes:\<close>

definition threshold_requests :: "string list" where
  "threshold_requests = [''WalletAddOwner'', ''WalletRemoveOwner'', ''WalletChangeThreshold'']"

definition contract_fields :: "string \<Rightarrow> tfield list \<Rightarrow> tfield list" where
  "contract_fields key ts =
     (if key \<in> set threshold_requests
      then map (\<lambda>f. if fld_name f = ''threshold'' then f\<lparr>fld_type := ''uint8''\<rparr> else f) ts
      else ts)"

definition signs_wide_threshold :: "tfield list \<Rightarrow> bool" where
  "signs_wide_threshold ts \<longleftrightarrow> list_ex (\<lambda>f. fld_name f = ''threshold'' \<and> fld_type f = ''uint256'') ts"

fun entry_consistent :: "string \<times> string \<times> string \<times> bool \<times> bool \<Rightarrow> bool" where
  "entry_consistent (n, c, sig, a, d) \<longleftrightarrow>
     (let ts = types_of n
      in signature_params sig = call_params (contract_fields n ts) \<and>
         signs_wide_threshold ts = (n \<in> set threshold_requests) \<and>
         c \<in> set DestinationContract \<and>
         d = (c = ''CollectionProxyFeaturesAggregate'') \<and>
         d = list_ex (\<lambda>f. fld_name f = ''destination'') ts \<and>
         (has_data ts \<longrightarrow> c \<notin> set [''BulkIssue'', ''BulkTransfer'', ''Bulk'']))"

lemma request_table_consistent: "list_all entry_consistent request_table"
  by code_simp

end
