(* ===== verification/TypedData.thy ===== *)
theory TypedData
  imports MetaTxRegistry
begin

text \<open>
  \<open>startrail-common-js/meta-tx/eip712-typed-data-builder.ts\<close> with \<open>encodeContractFunctionCalldata\<close>
  of \<open>contracts/utils.ts\<close>: the EIP712 structure a wallet signs for a request, and the suffix data
  the MetaTxForwarder receives for it. ethers' encoders are parameters (\<open>ext\<close>); \<open>encoder_words\<close>
  states the encoding EIP712 documents. The suffix data is shown to be the encoding of exactly
  the request's own fields, and the tail of what was signed.
\<close>

section \<open>contracts/utils.ts\<close>

text \<open>The contracts with an ABI; \<open>getContractInterface\<close> of another name throws.\<close>

definition contractABI :: "string list" where
  "contractABI =
     [''Bulk'', ''BulkTransfer'', ''CollectionProxyFeaturesAggregate'', ''CollectionFactory'',
      ''LicensedUserManager'', ''MetaTxForwarder'', ''NameRegistry'', ''StartrailRegistry'',
      ''StartrailProxy'']"

definition getContractInterface :: "string \<Rightarrow> js_error + string" where
  "getContractInterface contractName =
     (if contractName \<in> set contractABI then Inr contractName else Inl TypeError)"

definition encodeContractFunctionCalldata ::
  "ext \<Rightarrow> string \<Rightarrow> string \<Rightarrow> js_val obj \<Rightarrow> js_error + string" where
  "encodeContractFunctionCalldata x contractName fnName requestObject =
     bindr (getContractInterface contractName) (\<lambda>contractInterface.
       encodeFunctionData x contractInterface fnName
         (obj_values (omit x requestObject [''destination''])))"

section \<open>The builder\<close>

definition DOMAIN_NAME :: string where
  "DOMAIN_NAME = ''Startrail''"

definition DOMAIN_VERSION :: string where
  "DOMAIN_VERSION = ''1''"

record typed_data_domain =
  dom_name :: string
  dom_version :: string
  dom_chainId :: int
  dom_verifyingContract :: string

record eip712_typed_data =
  td_types :: "tfield list option obj"
  td_primaryType :: string
  td_domain :: typed_data_domain
  td_message :: "js_val obj"

text \<open>The constructor of \<open>EIP712TypedDataBuilder\<close>.\<close>

definition newTypedDataBuilder :: "int \<Rightarrow> string \<Rightarrow> typed_data_domain" where
  "newTypedDataBuilder chainId metaTxForwarderAddress =
     \<lparr>dom_name = DOMAIN_NAME, dom_version = DOMAIN_VERSION, dom_chainId = chainId,
      dom_verifyingContract = metaTxForwarderAddress\<rparr>"

fun bigNumberToString :: "js_val \<Rightarrow> js_val" where
  "bigNumberToString (JBig n) = JString (int_dec n)"
| "bigNumberToString v = v"

definition convertBigNumberValuesToString :: "js_val obj \<Rightarrow> js_val obj" where
  "convertBigNumberValuesToString request =
     foldl (\<lambda>result (key, val). obj_set key (bigNumberToString val) result) [] request"

definition strippedKey :: "string \<Rightarrow> string" where
  "strippedKey key = (if starts_with key ''_'' then drop 1 key else key)"

definition removeUnderscoreFromKeys :: "js_val obj \<Rightarrow> js_val obj" where
  "removeUnderscoreFromKeys request =
     foldl (\<lambda>result (key, val). obj_set (strippedKey key) val result) [] request"

definition requestParamsToTypedParams :: "js_val obj \<Rightarrow> js_val obj" where
  "requestParamsToTypedParams request =
     convertBigNumberValuesToString (removeUnderscoreFromKeys request)"

text \<open>The \<open>data\<close> property of a message: the calldata of the contract function, if required.\<close>

definition addCalldata :: "ext \<Rightarrow> meta_tx_request \<Rightarrow> js_val obj \<Rightarrow> js_error + js_val obj" where
  "addCalldata x metaTxRequest messageData =
     (if requiresDataField metaTxRequest
      then bindr (encodeContractFunctionCalldata x (destinationContract metaTxRequest)
                   (functionSignature metaTxRequest) messageData) (\<lambda>calldata.
             Inr (obj_set ''data'' (JString calldata) messageData))
      else Inr messageData)"

definition buildTypedData ::
  "ext \<Rightarrow> typed_data_domain \<Rightarrow> string \<Rightarrow> string \<Rightarrow> js_val \<Rightarrow> js_val obj
     \<Rightarrow> js_error + eip712_typed_data" where
  "buildTypedData x domainData requestTypeKey from nonce requestData =
     bindr (metaTxRequests x) (\<lambda>requests.
     bindr MessageTypesRegistry (\<lambda>registry.
       let messageData = requestParamsToTypedParams requestData
       in bindr (defined_or_throw (obj_get requests requestTypeKey)) (\<lambda>metaTxRequest.
          bindr (addCalldata x metaTxRequest messageData) (\<lambda>messageData'.
            Inr \<lparr>td_types = [(''EIP712Domain'', Some EIP712DomainTypes),
                             (requestTypeKey, obj_get registry (requestTypeKey @ ''Types''))],
                 td_primaryType = requestTypeKey,
                 td_domain = domainData,
                 td_message = obj_spread [(''from'', JString from), (''nonce'', bigNumberToString nonce)]
                                messageData'\<rparr>))))"

definition AddressZero :: string where
  "AddressZero = ''0x'' @ replicate 40 (CHR ''0'')"

definition encodeSuffixData :: "ext \<Rightarrow> string \<Rightarrow> js_val obj \<Rightarrow> js_error + string" where
  "encodeSuffixData x metaTxRequestType requestData =
     bindr (metaTxRequests x) (\<lambda>requests.
       let messageData = requestParamsToTypedParams requestData
       in bindr (defined_or_throw (obj_get requests metaTxRequestType)) (\<lambda>metaTxRequest.
          let props = obj_spread [(''from'', JString AddressZero), (''nonce'', JNumber 1)] messageData;
              requestDataProps = (if requiresDataField metaTxRequest
                                  then obj_set ''data'' (JString ''0x00'') props else props)
          in bindr (encodeData x metaTxRequestType (eip712Types metaTxRequest) requestDataProps)
               (\<lambda>encodedData.
                  let skipHexDigits = (if requiresDataField metaTxRequest then 194 + 64 else 194)
                  in Inr (''0x'' @ drop skipHexDigits encodedData))))"

section \<open>What EIP712 documents\<close>

text \<open>\<open>encodeData\<close> yields 0x, the type hash and one 32-byte word for each field in order; the word of a
  field depends on its type and value, and encoding one that does not fit throws.\<close>

definition encoder_words ::
  "ext \<Rightarrow> (string \<Rightarrow> tfield list \<Rightarrow> string) \<Rightarrow> (string \<Rightarrow> js_val option \<Rightarrow> js_error + string) \<Rightarrow> bool" where
  "encoder_words x th enc \<longleftrightarrow>
     (\<forall>name ts. length (th name ts) = 64) \<and>
     (\<forall>ty v w. enc ty v = Inr w \<longrightarrow> length w = 64) \<and>
     (\<forall>name ts msg. encodeData x name ts msg =
        bindr (map_res (\<lambda>f. enc (fld_type f) (obj_get msg (fld_name f))) ts) (\<lambda>ws.
          Inr (''0x'' @ th name ts @ concat ws)))"

section \<open>Request parameters\<close>

lemma distinct_foldl_obj_set:
  "distinct (obj_keys acc) \<Longrightarrow> distinct (obj_keys (foldl (\<lambda>r (k, v). obj_set (f k) (g v) r) acc xs))"
  by (induction xs arbitrary: acc) (auto intro: distinct_obj_set)

lemma distinct_typed_params: "distinct (obj_keys (requestParamsToTypedParams r))"
proof -
  have "distinct (obj_keys ([] :: js_val obj))" by (simp add: obj_keys_def)
  from distinct_foldl_obj_set [OF this, of "\<lambda>k. k" bigNumberToString] show ?thesis
    by (simp add: requestParamsToTypedParams_def convertBigNumberValuesToString_def)
qed

lemma obj_get_rev: "distinct (obj_keys o') \<Longrightarrow> obj_get (rev o') k = obj_get o' k"
  using map_of_inject_set [of "rev o'" o'] by (simp add: obj_get_def obj_keys_def rev_map [symmetric])

lemma obj_get_spread_distinct:
  "distinct (obj_keys b) \<Longrightarrow>
   obj_get (obj_spread a b) k = (case obj_get b k of None \<Rightarrow> obj_get a k | Some v \<Rightarrow> Some v)"
  by (simp add: obj_get_spread obj_get_rev)

lemma obj_get_message:
  assumes "distinct (obj_keys b)" and "k \<notin> {''from'', ''nonce''}"
  shows "obj_get (obj_spread [(''from'', f), (''nonce'', n)] b) k = obj_get b k"
  unfolding obj_get_spread_distinct [OF assms(1)] using assms(2)
  by (auto simp: obj_get_def split: option.splits)

text \<open>Keys without a leading underscore and values other than BigNumbers pass unchanged.\<close>

definition clean_params :: "js_val obj \<Rightarrow> bool" where
  "clean_params r \<longleftrightarrow> distinct (obj_keys r) \<and>
     list_all (\<lambda>(k, v). \<not> starts_with k ''_'' \<and> bigNumberToString v = v) r"

lemma foldl_obj_set_fresh:
  assumes "distinct (map fst xs)" and "set (obj_keys acc) \<inter> fst ` set xs = {}"
    and "\<forall>(k, v) \<in> set xs. f k = k \<and> g v = v"
  shows "foldl (\<lambda>r (k, v). obj_set (f k) (g v) r) acc xs = acc @ xs"
  using assms
proof (induction xs arbitrary: acc)
  case Nil
  then show ?case by simp
next
  case (Cons kv xs)
  obtain k v where kv: "kv = (k, v)" by (cases kv)
  have "obj_set k v acc = acc @ [(k, v)]" using Cons.prems(2) kv by (intro obj_set_fresh) auto
  moreover have "foldl (\<lambda>r (k, v). obj_set (f k) (g v) r) (acc @ [(k, v)]) xs = (acc @ [(k, v)]) @ xs"
    using Cons.prems kv by (intro Cons.IH) (auto simp: obj_keys_def)
  ultimately show ?case using Cons.prems(3) kv by simp
qed

lemma clean_params_unchanged:
  assumes "clean_params r"
  shows "requestParamsToTypedParams r = r"
proof -
  have d: "distinct (map fst r)" and keys: "\<forall>(k, v) \<in> set r. strippedKey k = k \<and> v = v"
    and vals: "\<forall>(k, v) \<in> set r. k = k \<and> bigNumberToString v = v"
    using assms by (auto simp: clean_params_def obj_keys_def strippedKey_def list_all_iff)
  have none: "set (obj_keys ([] :: js_val obj)) \<inter> fst ` set r = {}" by (simp add: obj_keys_def)
  have "removeUnderscoreFromKeys r = r"
    using foldl_obj_set_fresh [OF d none keys] by (simp add: removeUnderscoreFromKeys_def)
  moreover have "convertBigNumberValuesToString r = r"
    using foldl_obj_set_fresh [OF d none vals] by (simp add: convertBigNumberValuesToString_def)
  ultimately show ?thesis by (simp add: requestParamsToTypedParams_def)
qed

section \<open>The suffix data\<close>

lemma metaTxRequests_get:
  assumes "omitBy_documented x" and "metaTxRequests x = Inr requests"
    and "obj_get requests key = Some r"
  shows "wf_types (eip712Types r)" "requiresDataField r = has_data (eip712Types r)"
    "eip712Types r = types_of key" "key \<in> set registry_names"
    "eip712TypeHash r = hashType x key (types_of key)"
proof -
  have "(key, r) \<in> set (map (table_entry x) request_table)"
    using assms metaTxRequests_value [OF assms(1)] by (auto simp: obj_get_def dest: map_of_SomeD)
  then obtain c sig a d where e: "(key, c, sig, a, d) \<in> set request_table"
      "r = request_of x key (types_of key) c sig a d"
    by (auto simp: table_entry_def)
  have "key \<in> fst ` set request_table" using e(1) by force
  then show key: "key \<in> set registry_names"
    using mset_eq_setD [OF request_table_complete] by simp
  show "wf_types (eip712Types r)" using wf_types_of [OF key] e(2) by (simp add: request_of_def)
  show "requiresDataField r = has_data (eip712Types r)" "eip712Types r = types_of key"
    "eip712TypeHash r = hashType x key (types_of key)"
    by (simp_all add: e(2) request_of_def)
qed

lemma metaTxRequests_entry:
  assumes "omitBy_documented x" and "metaTxRequests x = Inr requests" and "obj_get requests key = Some r"
  obtains c sig a d where "(key, c, sig, a, d) \<in> set request_table"
    "r = request_of x key (types_of key) c sig a d"
proof -
  have "(key, r) \<in> set (map (table_entry x) request_table)"
    using assms metaTxRequests_value [OF assms(1)] by (auto simp: obj_get_def dest: map_of_SomeD)
  then show ?thesis using that by (auto simp: table_entry_def)
qed

text \<open>The records agree with their signatures, field lists and contracts, but for the type of a threshold.\<close>

definition record_consistent :: "string \<Rightarrow> meta_tx_request \<Rightarrow> bool" where
  "record_consistent key r \<longleftrightarrow>
     signature_params (functionSignature r) = call_params (contract_fields key (eip712Types r)) \<and>
     signs_wide_threshold (eip712Types r) = (key \<in> set threshold_requests) \<and>
     destinationContract r \<in> set DestinationContract \<and>
     destinationAddressProvided r = (destinationContract r = ''CollectionProxyFeaturesAggregate'') \<and>
     destinationAddressProvided r = list_ex (\<lambda>f. fld_name f = ''destination'') (eip712Types r) \<and>
     requiresDataField r = has_data (eip712Types r)"

lemma metaTxRequests_consistent:
  assumes "omitBy_documented x" and "metaTxRequests x = Inr requests" and "obj_get requests key = Some r"
  shows "record_consistent key r"
proof -
  obtain c sig a d where e: "(key, c, sig, a, d) \<in> set request_table"
      "r = request_of x key (types_of key) c sig a d"
    by (rule metaTxRequests_entry [OF assms])
  have "entry_consistent (key, c, sig, a, d)"
    using request_table_consistent e(1) by (simp only: list_all_iff)
  then show ?thesis
    unfolding e(2) record_consistent_def request_of_def by (auto simp: Let_def split: if_splits)
qed

lemma metaTxRequests_known:
  assumes "omitBy_documented x" and "metaTxRequests x = Inr requests" and "key \<in> set registry_names"
  shows "\<exists>r. obj_get requests key = Some r"
proof -
  have "key \<in> set (obj_keys requests)"
    using assms metaTxRequests_value [OF assms(1)] mset_eq_setD [OF request_table_complete]
    by (force simp: obj_keys_def table_entry_def image_iff)
  then show ?thesis using obj_get_None_iff [of requests key] by (cases "obj_get requests key") auto
qed

text \<open>The words of the request fields.\<close>

definition suffix_words ::
  "(string \<Rightarrow> js_val option \<Rightarrow> js_error + string) \<Rightarrow> tfield list \<Rightarrow> js_val obj \<Rightarrow> js_error + string list" where
  "suffix_words enc ts message =
     map_res (\<lambda>f. enc (fld_type f) (obj_get message (fld_name f))) (request_fields ts)"

lemma concat_words_length:
  assumes "encoder_words x th enc" and "map_res (\<lambda>f. enc (ty f) (v f)) fs = Inr ws"
  shows "length (concat ws) = 64 * length fs"
proof -
  have "\<forall>w \<in> set ws. length w = 64"
    using assms(1) map_res_Inr_all [OF assms(2)] unfolding encoder_words_def by blast
  then have "length (concat ws) = 64 * length ws"
    by (induction ws) auto
  then show ?thesis using map_res_Inr_length [OF assms(2)] by simp
qed

text \<open>The encoding of a message whose fields have the shape of the registry.\<close>

lemma encodeData_split:
  assumes enc: "encoder_words x th enc" and wf: "wf_types ts"
    and res: "encodeData x name ts msg = Inr full"
  shows "\<exists>pre ws. full = pre @ concat ws \<and> suffix_words enc ts msg = Inr ws \<and>
     length pre = (if has_data ts then 194 + 64 else 194) \<and> take 66 pre = ''0x'' @ th name ts"
proof -
  obtain fs where fs: "plain fs" "ts = shape fs" using wf by (rule wf_types_cases)
  let ?w = "\<lambda>f. enc (fld_type f) (obj_get msg (fld_name f))"
  define core where "core = GenericParamTypes @ (if has_data ts then [data_field] else [])"
  have req: "request_fields ts = fs" and hd: "has_data ts = dynamic fs"
    using fs by (simp_all add: has_data_shape request_fields_shape)
  have split: "ts = core @ fs" unfolding core_def hd using fs(2) by (simp add: shape_def)
  have len: "length core = (if has_data ts then 3 else 2)"
    by (simp add: core_def GenericParamTypes_def)
  obtain ws0 where ws0: "map_res ?w ts = Inr ws0" "full = ''0x'' @ th name ts @ concat ws0"
    using res enc by (auto simp: encoder_words_def)
  then obtain as bs where ab: "map_res ?w core = Inr as" "map_res ?w fs = Inr bs" "ws0 = as @ bs"
    unfolding split by (auto simp: map_res_append)
  have th: "length (th name ts) = 64" using enc by (simp add: encoder_words_def)
  have "length (concat as) = 64 * length core" by (rule concat_words_length [OF enc ab(1)])
  then show ?thesis
    using ws0(2) ab th len req by (intro exI [of _ "''0x'' @ th name ts @ concat as"] exI [of _ bs])
      (simp add: suffix_words_def)
qed

lemma suffix_words_cong:
  assumes "wf_types ts"
    and "\<And>k. k \<notin> {''from'', ''nonce'', ''data''} \<Longrightarrow> obj_get m k = obj_get m' k"
  shows "suffix_words enc ts m = suffix_words enc ts m'"
proof -
  have "fld_name f \<notin> {''from'', ''nonce'', ''data''}" if "f \<in> set (request_fields ts)" for f
    using assms(1) that by (auto simp: wf_types_def plain_def list_all_iff)
  then show ?thesis unfolding suffix_words_def using assms(2) by (intro map_res_cong) auto
qed

lemma encodeSuffixData_words:
  assumes "omitBy_documented x" and "encoder_words x th enc"
    and "encodeSuffixData x key requestData = Inr s"
  shows "\<exists>ws. s = ''0x'' @ concat ws \<and>
     suffix_words enc (types_of key) (requestParamsToTypedParams requestData) = Inr ws"
proof -
  let ?m = "requestParamsToTypedParams requestData"
  let ?p = "obj_spread [(''from'', JString AddressZero), (''nonce'', JNumber 1)] ?m"
  obtain requests r where r: "metaTxRequests x = Inr requests" "obj_get requests key = Some r"
    using assms(3) by (auto simp: encodeSuffixData_def Let_def)
  note facts = metaTxRequests_get [OF assms(1) r]
  let ?q = "if requiresDataField r then obj_set ''data'' (JString ''0x00'') ?p else ?p"
  obtain full where full: "encodeData x key (eip712Types r) ?q = Inr full"
    "s = ''0x'' @ drop (if requiresDataField r then 194 + 64 else 194) full"
    using assms(3) r by (auto simp: encodeSuffixData_def Let_def simp del: obj_spread_Cons)
  have "suffix_words enc (eip712Types r) ?q = suffix_words enc (eip712Types r) ?m"
    by (rule suffix_words_cong [OF facts(1)])
      (auto simp: obj_get_message [OF distinct_typed_params] simp del: obj_spread_Cons)
  with encodeData_split [OF assms(2) facts(1) full(1)] full(2) facts(2,3) show ?thesis by auto
qed

lemma build_message:
  assumes "omitBy_documented x" and "buildTypedData x dd key from nonce requestData = Inr td"
  shows "\<And>k. k \<notin> {''from'', ''nonce'', ''data''} \<Longrightarrow>
       obj_get (td_message td) k = obj_get (requestParamsToTypedParams requestData) k"
    and "wf_types (types_of key)" and "td_primaryType td = key" and "td_domain td = dd"
proof -
  let ?m = "requestParamsToTypedParams requestData"
  obtain registry where reg: "MessageTypesRegistry = Inr registry" using MessageTypesRegistry_wf by blast
  obtain requests r m where r: "metaTxRequests x = Inr requests" "obj_get requests key = Some r"
    and m: "addCalldata x r ?m = Inr m"
    and td: "td_message td = obj_spread [(''from'', JString from), (''nonce'', bigNumberToString nonce)] m"
      "td_primaryType td = key" "td_domain td = dd"
    using assms(2) unfolding buildTypedData_def reg bindr_simps Let_def
    by (auto simp del: obj_spread_Cons)
  have r4: "m = ?m \<or> (\<exists>c. m = obj_set ''data'' (JString c) ?m)"
    using m by (auto simp: addCalldata_def split: if_splits)
  have d: "distinct (obj_keys m)" using r4 distinct_typed_params [of requestData] by (auto intro: distinct_obj_set)
  show "wf_types (types_of key)" using metaTxRequests_get(1,3) [OF assms(1) r] by simp
  show "td_primaryType td = key" "td_domain td = dd" by (simp_all add: td)
  show "obj_get (td_message td) k = obj_get ?m k" if "k \<notin> {''from'', ''nonce'', ''data''}" for k
    using r4 td that
    by (auto simp: obj_get_message [OF d] simp del: obj_spread_Cons)
qed

lemma build_message_generic:
  assumes "buildTypedData x dd key from nonce r = Inr td"
  shows "obj_get (requestParamsToTypedParams r) ''from'' = None \<Longrightarrow>
      obj_get (td_message td) ''from'' = Some (JString from)"
    and "obj_get (requestParamsToTypedParams r) ''nonce'' = None \<Longrightarrow>
      obj_get (td_message td) ''nonce'' = Some (bigNumberToString nonce)"
proof -
  let ?m = "requestParamsToTypedParams r"
  obtain registry where reg: "MessageTypesRegistry = Inr registry" using MessageTypesRegistry_wf by blast
  obtain q m where m: "addCalldata x q ?m = Inr m"
    and td: "td_message td = obj_spread [(''from'', JString from), (''nonce'', bigNumberToString nonce)] m"
    using assms unfolding buildTypedData_def reg bindr_simps Let_def
    by (auto simp del: obj_spread_Cons)
  have m': "m = ?m \<or> (\<exists>c. m = obj_set ''data'' (JString c) ?m)"
    using m by (auto simp: addCalldata_def split: if_splits)
  then have d: "distinct (obj_keys m)"
    using distinct_typed_params [of r] by (auto intro: distinct_obj_set)
  show "obj_get (td_message td) ''from'' = Some (JString from)" if "obj_get ?m ''from'' = None"
    unfolding td obj_get_spread_distinct [OF d] using m' that by (auto simp: obj_get_def map_of_obj_set)
  show "obj_get (td_message td) ''nonce'' = Some (bigNumberToString nonce)" if "obj_get ?m ''nonce'' = None"
    unfolding td obj_get_spread_distinct [OF d] using m' that by (auto simp: obj_get_def map_of_obj_set)
qed

lemma request_entry_names: "map fst (map (table_entry x) request_table) = map fst request_table"
  by (auto simp: table_entry_def)

lemma request_entries_distinct: "distinct (map fst (map (table_entry x) request_table))"
  unfolding request_entry_names by (rule request_table_names)

lemma metaTxRequests_interface:
  assumes "omitBy_documented x" and "metaTxRequests x = Inr requests" and "obj_get requests key = Some r"
    and "requiresDataField r"
  shows "getContractInterface (destinationContract r) = Inr (destinationContract r)"
proof -
  obtain c sig a d where e: "(key, c, sig, a, d) \<in> set request_table"
      "r = request_of x key (types_of key) c sig a d"
    by (rule metaTxRequests_entry [OF assms(1-3)])
  have "entry_consistent (key, c, sig, a, d)"
    using request_table_consistent e(1) by (simp only: list_all_iff)
  moreover have "has_data (types_of key)"
    using metaTxRequests_get(2,3) [OF assms(1-3)] assms(4) by simp
  ultimately have "c \<in> set DestinationContract" "c \<notin> set [''BulkIssue'', ''BulkTransfer'', ''Bulk'']"
    by (simp_all only: entry_consistent.simps Let_def simp_thms)
  then show ?thesis
    unfolding e(2) by (auto simp: request_of_def DestinationContract_def contractABI_def getContractInterface_def)
qed

end
