(* ===== verification/Signing.thy ===== *)
theory Signing
  imports TypedData "HOL-Library.Char_ord" "HOL-Library.List_Lexorder"
begin

text \<open>
  \<open>startrail-common-js/meta-tx/nonce.ts\<close> and \<open>sign.ts\<close>: the two-dimensional nonces, signing a
  request with several wallets in the order of their addresses, and joining the signatures.
  Strings are compared by code units, as \<open><\<close> does in JavaScript.
\<close>

section \<open>nonce.ts\<close>

definition BITS_PER_NONCE :: nat where
  "BITS_PER_NONCE = 128"

text \<open>Shifts of BigNumbers throw on negative numbers; \<open>mod\<close> is Euclidean.\<close>

definition bn_shl :: "int \<Rightarrow> nat \<Rightarrow> js_error + int" where
  "bn_shl n k = (if n < 0 then Inl (ThrownError ''cannot shift negative values'') else Inr (n * 2 ^ k))"

definition bn_shr :: "int \<Rightarrow> nat \<Rightarrow> js_error + int" where
  "bn_shr n k = (if n < 0 then Inl (ThrownError ''cannot shift negative values'') else Inr (n div 2 ^ k))"

definition packNonce :: "int \<Rightarrow> int \<Rightarrow> js_error + int" where
  "packNonce channel nonce =
     bindr (bn_shl channel BITS_PER_NONCE) (\<lambda>shifted. Inr (shifted + nonce))"

definition unpackNonce :: "int \<Rightarrow> js_error + int \<times> int" where
  "unpackNonce nonce =
     bindr (bn_shr nonce BITS_PER_NONCE) (\<lambda>nonce1. Inr (nonce1, nonce mod 2 ^ BITS_PER_NONCE))"

text \<open>\<open>nextNonce\<close> is the contract's \<open>getNonce\<close>.\<close>

definition getNonce :: "(string \<Rightarrow> int \<Rightarrow> int) \<Rightarrow> string \<Rightarrow> int \<Rightarrow> js_error + int" where
  "getNonce nextNonce signer channel = packNonce channel (nextNonce signer channel)"

lemma packNonce_Inr: "packNonce c n = Inr p \<longleftrightarrow> 0 \<le> c \<and> p = c * 2 ^ 128 + n"
  by (auto simp: packNonce_def bn_shl_def BITS_PER_NONCE_def)

lemma unpackNonce_Inr: "unpackNonce p = Inr (c, n) \<longleftrightarrow> 0 \<le> p \<and> c = p div 2 ^ 128 \<and> n = p mod 2 ^ 128"
  by (auto simp: unpackNonce_def bn_shr_def BITS_PER_NONCE_def)

lemma pack_div_mod:
  assumes "0 \<le> n" and "n < (2 :: int) ^ 128"
  shows "(c * 2 ^ 128 + n) div 2 ^ 128 = c" "(c * 2 ^ 128 + n) mod 2 ^ 128 = n"
  using assms by (simp_all add: div_add1_eq)

section \<open>sign.ts\<close>

text \<open>\<open>w_signTypedData\<close> is the wallet's \<open>_signTypedData\<close>, missing in old versions of ethers.\<close>

record wallet =
  w_address :: string
  w_signTypedData :: "(typed_data_domain \<Rightarrow> tfield list option obj \<Rightarrow> js_val obj \<Rightarrow> string) option"

definition lower_char :: "char \<Rightarrow> char" where
  "lower_char c =
     (if CHR ''A'' \<le> c \<and> c \<le> CHR ''Z'' then char_of (of_char c + 32 :: nat) else c)"

definition toLowerCase :: "string \<Rightarrow> string" where
  "toLowerCase s = map lower_char s"

definition compareWalletByAddressString :: "wallet \<Rightarrow> wallet \<Rightarrow> int" where
  "compareWalletByAddressString a b =
     (let aAddr = toLowerCase (w_address a);
          bAddr = toLowerCase (w_address b)
      in if aAddr < bAddr then - 1 else if bAddr < aAddr then 1 else 0)"

definition throwSignTypedDataNotAvailable :: "js_error + 'a" where
  "throwSignTypedDataNotAvailable =
     Inl (ThrownError ''Signer._signTypedData not available. Upgrade to ethers >= v5.0.18.'')"

text \<open>\<open>signTypedData\<close> sorts the array of signers in place, which the caller sees: the sorted
  signers are returned with the signatures.\<close>

definition signTypedData :: "eip712_typed_data \<Rightarrow> wallet list \<Rightarrow> js_error + wallet list \<times> string list" where
  "signTypedData typedData signers =
     (if list_ex (\<lambda>signer. w_signTypedData signer = None) signers
      then throwSignTypedDataNotAvailable
      else
        let primaryType = td_primaryType typedData;
            typesMutable = [(primaryType,
              (case obj_get (td_types typedData) primaryType of None \<Rightarrow> None | Some ts \<Rightarrow> ts))];
            sortedSigners = js_sort compareWalletByAddressString signers
        in bindr (map_res (\<lambda>signer. case w_signTypedData signer of
                     None \<Rightarrow> Inl TypeError
                   | Some sign \<Rightarrow> Inr (sign (td_domain typedData) typesMutable (td_message typedData)))
                 sortedSigners) (\<lambda>signatures. Inr (sortedSigners, signatures)))"

definition signRequest ::
  "ext \<Rightarrow> string \<Rightarrow> int \<Rightarrow> string \<Rightarrow> string \<Rightarrow> int \<Rightarrow> js_val obj \<Rightarrow> wallet list
     \<Rightarrow> js_error + wallet list \<times> string list" where
  "signRequest x requestTypeKey chainId forwarderAddress fromAddress nonce requestData signers =
     (if list_ex (\<lambda>signer. w_signTypedData signer = None) signers
      then throwSignTypedDataNotAvailable
      else bindr (buildTypedData x (newTypedDataBuilder chainId forwarderAddress) requestTypeKey
                    fromAddress (JString (int_dec nonce)) requestData) (\<lambda>typedDataObj.
             signTypedData typedDataObj signers))"

definition joinSignatures :: "ext \<Rightarrow> string list \<Rightarrow> string" where
  "joinSignatures x signatures = ''0x'' @ concat (map (stripHexPrefix x) signatures)"

interpretation byAddress: comparator compareWalletByAddressString
  by unfold_locales (auto simp: compareWalletByAddressString_def Let_def split: if_splits)

text \<open>The order in which the wallets sign.\<close>

lemma compare_le_iff:
  "compareWalletByAddressString a b \<le> 0 \<longleftrightarrow> toLowerCase (w_address a) \<le> toLowerCase (w_address b)"
  by (auto simp: compareWalletByAddressString_def Let_def)

lemma signTypedData_Inr:
  assumes "signTypedData td signers = Inr (ws, sigs)"
  shows "ws = js_sort compareWalletByAddressString signers" "length sigs = length signers"
    "\<forall>i < length sigs. \<exists>sign. w_signTypedData (ws ! i) = Some sign \<and>
       sigs ! i = sign (td_domain td) [(td_primaryType td,
         (case obj_get (td_types td) (td_primaryType td) of None \<Rightarrow> None | Some ts \<Rightarrow> ts))] (td_message td)"
proof -
  let ?f = "\<lambda>signer. case w_signTypedData signer of
      None \<Rightarrow> Inl TypeError
    | Some sign \<Rightarrow> Inr (sign (td_domain td) [(td_primaryType td,
         (case obj_get (td_types td) (td_primaryType td) of None \<Rightarrow> None | Some ts \<Rightarrow> ts))] (td_message td))"
  have s: "ws = js_sort compareWalletByAddressString signers" and m: "map_res ?f ws = Inr sigs"
    using assms by (auto simp: signTypedData_def throwSignTypedDataNotAvailable_def Let_def split: if_splits)
  show "ws = js_sort compareWalletByAddressString signers" by (rule s)
  show "length sigs = length signers"
    using map_res_Inr_length [OF m] s byAddress.length_js_sort by simp
  have "map_res g xs = Inr ys \<Longrightarrow> i < length ys \<Longrightarrow> g (xs ! i) = Inr (ys ! i)" for g :: "wallet \<Rightarrow> js_error + string" and xs ys i
    by (induction xs arbitrary: ys i) (auto simp: nth_Cons split: nat.splits)
  from this [OF m] show "\<forall>i < length sigs. \<exists>sign. w_signTypedData (ws ! i) = Some sign \<and>
       sigs ! i = sign (td_domain td) [(td_primaryType td,
         (case obj_get (td_types td) (td_primaryType td) of None \<Rightarrow> None | Some ts \<Rightarrow> ts))] (td_message td)"
    by (fastforce split: option.splits)
qed

section \<open>Taking joined signatures apart\<close>

text \<open>What the contract does with the joined signatures: it reads them in pieces of equal length.\<close>

fun split_every :: "nat \<Rightarrow> nat \<Rightarrow> 'a list \<Rightarrow> 'a list list" where
  "split_every n 0 xs = []"
| "split_every n (Suc k) xs = take n xs # split_every n k (drop n xs)"

lemma split_every_concat:
  "(\<forall>x \<in> set xs. length x = n) \<Longrightarrow> split_every n (length xs) (concat xs) = xs"
  by (induction xs) auto

lemma drop_joinSignatures: "drop 2 (joinSignatures x sigs) = concat (map (stripHexPrefix x) sigs)"
  by (simp add: joinSignatures_def)

section \<open>Nonces\<close>

lemma pack_unpack:
  assumes "0 \<le> n" and "n < 2 ^ 128"
  shows "(packNonce c n = Inr p) = (unpackNonce p = Inr (c, n))"
proof
  assume "packNonce c n = Inr p"
  then have p: "0 \<le> c" "p = c * 2 ^ 128 + n" by (simp_all add: packNonce_Inr)
  then have "0 \<le> p" using assms(1) by simp
  then show "unpackNonce p = Inr (c, n)"
    unfolding unpackNonce_Inr p(2) using pack_div_mod [OF assms] p(1) by simp
next
  assume "unpackNonce p = Inr (c, n)"
  then have p: "0 \<le> p" "c = p div 2 ^ 128" "n = p mod 2 ^ 128" by (simp_all add: unpackNonce_Inr)
  then have "0 \<le> c" by (simp add: pos_imp_zdiv_nonneg_iff)
  moreover have "p = p div 2 ^ 128 * 2 ^ 128 + p mod 2 ^ 128" by (simp only: div_mult_mod_eq)
  ultimately show "packNonce c n = Inr p" using p by (simp add: packNonce_Inr)
qed

lemma packed_nonce_bounds:
  assumes "0 \<le> n" and "n < 2 ^ 128"
  shows "(\<exists>p. packNonce c n = Inr p \<and> 0 \<le> p \<and> p < 2 ^ 256) = (0 \<le> c \<and> c < 2 ^ 128) \<and>
    succeeds (packNonce c n) = (0 \<le> c)"
proof -
  have "c * 2 ^ 128 + n < 2 ^ 256 \<longleftrightarrow> c < 2 ^ 128"
  proof
    assume "c * 2 ^ 128 + n < 2 ^ 256"
    then have "c * 2 ^ 128 < 2 ^ 128 * 2 ^ 128" using assms(1) by simp
    then show "c < 2 ^ 128" using mult_less_cancel_right [of c "2 ^ 128" "2 ^ 128"] by simp
  next
    assume "c < 2 ^ 128"
    then have "(c + 1) * 2 ^ 128 \<le> 2 ^ 128 * (2 ^ 128 :: int)" by (intro mult_right_mono) simp_all
    then show "c * 2 ^ 128 + n < 2 ^ 256" using assms(2) by (simp add: distrib_right)
  qed
  moreover have "0 \<le> c * 2 ^ 128 + n" if "0 \<le> c" using that assms(1) by simp
  ultimately have "(\<exists>p. packNonce c n = Inr p \<and> 0 \<le> p \<and> p < 2 ^ 256) = (0 \<le> c \<and> c < 2 ^ 128)"
    unfolding packNonce_Inr by blast
  moreover have "succeeds (packNonce c n) = (0 \<le> c)" by (auto simp: succeeds_iff packNonce_Inr)
  ultimately show ?thesis by blast
qed

end
