(* ===== verification/Forwarder.thy ===== *)
theory Forwarder
  imports Signing
begin

text \<open>
  \<open>startrail-common-js/contracts/meta-tx-forwarder/index.ts\<close>: the client of the MetaTxForwarder
  contract. A call to the contract is the value it is called with (\<open>forwarder_call\<close>); the
  contract itself is not part of the model. The lemmas relate what is signed to what is sent.
\<close>

record api_request =
  requestTypeKey :: string
  fromAddress :: string
  req_nonce :: js_val
  requestData :: "js_val obj"

record execution_request =
  typeHash :: string
  from_address :: string
  exec_nonce :: js_val
  suffixData :: string
  callData :: string

record execute_response =
  rsp_request :: execution_request
  rsp_signature :: "string option"
  rsp_signatures :: "string option"

record forwarder =
  fwd_chainId :: int
  fwd_address :: string
  fwd_builder :: typed_data_domain

definition newMetaTxForwarder :: "int \<Rightarrow> string \<Rightarrow> forwarder" where
  "newMetaTxForwarder chainId metaTxForwarderAddress =
     \<lparr>fwd_chainId = chainId, fwd_address = metaTxForwarderAddress,
      fwd_builder = newTypedDataBuilder chainId metaTxForwarderAddress\<rparr>"

definition buildRequestTypedData :: "ext \<Rightarrow> forwarder \<Rightarrow> api_request \<Rightarrow> js_error + eip712_typed_data" where
  "buildRequestTypedData x fwd request =
     buildTypedData x (fwd_builder fwd) (requestTypeKey request) (fromAddress request)
       (bigNumberToString (req_nonce request)) (requestData request)"

definition signRequestTypedData ::
  "ext \<Rightarrow> forwarder \<Rightarrow> api_request \<Rightarrow> wallet list \<Rightarrow> js_error + wallet list \<times> string list" where
  "signRequestTypedData x fwd request signers =
     bindr (bigNumberFrom x (req_nonce request)) (\<lambda>nonce.
       signRequest x (requestTypeKey request) (fwd_chainId fwd) (fwd_address fwd)
         (fromAddress request) nonce (requestData request) signers)"

definition encodeExecuteTransactionProps ::
  "ext \<Rightarrow> api_request \<Rightarrow> string list \<Rightarrow> string \<Rightarrow> js_error + execute_response" where
  "encodeExecuteTransactionProps x request signatures encodeType =
     bindr (metaTxRequests x) (\<lambda>requests.
     bindr (encodeSuffixData x (requestTypeKey request) (requestData request)) (\<lambda>suffixData'.
     bindr (defined_or_throw (obj_get requests (requestTypeKey request))) (\<lambda>metaTxRequest.
     bindr (if requiresDataField metaTxRequest
            then encodeContractFunctionCalldata x (destinationContract metaTxRequest)
                   (functionSignature metaTxRequest) (requestData request)
            else Inr ''0x'') (\<lambda>callData'.
       let executionRequest = \<lparr>typeHash = eip712TypeHash metaTxRequest,
                              from_address = fromAddress request,
                              exec_nonce = req_nonce request,
                              suffixData = suffixData',
                              callData = callData'\<rparr>;
           joinedSignatures = joinSignatures x signatures;
           result = \<lparr>rsp_request = executionRequest, rsp_signature = None, rsp_signatures = None\<rparr>
       in if encodeType = ''SingleSig'' then Inr (result\<lparr>rsp_signature := Some joinedSignatures\<rparr>)
          else if encodeType = ''MultiSig'' then Inr (result\<lparr>rsp_signatures := Some joinedSignatures\<rparr>)
          else Inl (ThrownError (''Encode type '' @ encodeType @ '' not supported''))))))"

text \<open>A call of the contract: its method, the values of the request struct in order, the
  signatures and the overrides.\<close>

record forwarder_call =
  call_method :: string
  call_request :: "js_val list"
  call_signatures :: "string option"
  call_gasLimit :: int
  call_gasPrice :: "int option"

definition request_values :: "execution_request \<Rightarrow> js_val list" where
  "request_values r =
     [JString (typeHash r), JString (from_address r), exec_nonce r, JString (suffixData r),
      JString (callData r)]"

definition executeTransactionLUW ::
  "ext \<Rightarrow> api_request \<Rightarrow> string list \<Rightarrow> int option \<Rightarrow> int option \<Rightarrow> js_error + forwarder_call" where
  "executeTransactionLUW x request signatures gasLimit gasPrice =
     bindr (encodeExecuteTransactionProps x request signatures ''MultiSig'') (\<lambda>callProperties.
       Inr \<lparr>call_method = ''executeTransactionLUW'',
            call_request = request_values (rsp_request callProperties),
            call_signatures = rsp_signatures callProperties,
            call_gasLimit = (case gasLimit of None \<Rightarrow> 500000 | Some g \<Rightarrow> g),
            call_gasPrice = gasPrice\<rparr>)"

definition executeTransactionEOA ::
  "ext \<Rightarrow> api_request \<Rightarrow> string \<Rightarrow> int option \<Rightarrow> int option \<Rightarrow> js_error + forwarder_call" where
  "executeTransactionEOA x request signature gasLimit gasPrice =
     bindr (encodeExecuteTransactionProps x request [signature] ''MultiSig'') (\<lambda>callProperties.
       Inr \<lparr>call_method = ''executeTransactionEOA'',
            call_request = request_values (rsp_request callProperties),
            call_signatures = rsp_signatures callProperties,
            call_gasLimit = (case gasLimit of None \<Rightarrow> 500000 | Some g \<Rightarrow> g),
            call_gasPrice = gasPrice\<rparr>)"

section \<open>What is sent\<close>

lemma encodeExecute_Inr:
  assumes "encodeExecuteTransactionProps x request sigs ty = Inr rsp"
  shows "\<exists>requests r. metaTxRequests x = Inr requests \<and>
     obj_get requests (requestTypeKey request) = Some r \<and>
     encodeSuffixData x (requestTypeKey request) (requestData request) = Inr (suffixData (rsp_request rsp)) \<and>
     (if requiresDataField r
      then encodeContractFunctionCalldata x (destinationContract r) (functionSignature r)
             (requestData request) = Inr (callData (rsp_request rsp))
      else callData (rsp_request rsp) = ''0x'') \<and>
     typeHash (rsp_request rsp) = eip712TypeHash r \<and>
     from_address (rsp_request rsp) = fromAddress request \<and>
     exec_nonce (rsp_request rsp) = req_nonce request \<and>
     (rsp_signature rsp, rsp_signatures rsp) =
       (if ty = ''SingleSig'' then (Some (joinSignatures x sigs), None)
        else (None, Some (joinSignatures x sigs))) \<and> ty \<in> {''SingleSig'', ''MultiSig''}"
proof -
  from assms [unfolded encodeExecuteTransactionProps_def bindr_Inr_iff]
  obtain requests s r c where
    f: "metaTxRequests x = Inr requests" "obj_get requests (requestTypeKey request) = Some r"
      "encodeSuffixData x (requestTypeKey request) (requestData request) = Inr s"
      "(if requiresDataField r
        then encodeContractFunctionCalldata x (destinationContract r) (functionSignature r) (requestData request)
        else Inr ''0x'') = Inr c"
    and rsp: "(let executionRequest = \<lparr>typeHash = eip712TypeHash r, from_address = fromAddress request,
             exec_nonce = req_nonce request, suffixData = s, callData = c\<rparr>;
           joinedSignatures = joinSignatures x sigs;
           result = \<lparr>rsp_request = executionRequest, rsp_signature = None, rsp_signatures = None\<rparr>
       in if ty = ''SingleSig'' then Inr (result\<lparr>rsp_signature := Some joinedSignatures\<rparr>)
          else if ty = ''MultiSig'' then Inr (result\<lparr>rsp_signatures := Some joinedSignatures\<rparr>)
          else Inl (ThrownError (''Encode type '' @ ty @ '' not supported''))) = Inr rsp"
    unfolding defined_or_throw_Inr by (elim exE conjE) (rule that, assumption+)
  have v: "suffixData (rsp_request rsp) = s" "callData (rsp_request rsp) = c"
    "typeHash (rsp_request rsp) = eip712TypeHash r" "from_address (rsp_request rsp) = fromAddress request"
    "exec_nonce (rsp_request rsp) = req_nonce request"
    "(rsp_signature rsp, rsp_signatures rsp) =
       (if ty = ''SingleSig'' then (Some (joinSignatures x sigs), None)
        else (None, Some (joinSignatures x sigs)))" "ty \<in> {''SingleSig'', ''MultiSig''}"
    using rsp by (auto simp: Let_def split: if_split_asm)
  have "if requiresDataField r
      then encodeContractFunctionCalldata x (destinationContract r) (functionSignature r)
             (requestData request) = Inr (callData (rsp_request rsp))
      else callData (rsp_request rsp) = ''0x''"
    using f(4) v(2) by (simp split: if_splits)
  with f(1,2,3) v show ?thesis by (intro exI [of _ requests] exI [of _ r]) simp
qed

lemma joinSignatures_single:
  "strip_documented x \<Longrightarrow> starts_with s ''0x'' \<Longrightarrow> joinSignatures x [s] = s"
  by (auto simp: joinSignatures_def strip_documented_def starts_with_iff)

section \<open>What is signed\<close>

lemma buildTypedData_calldata:
  assumes "omitBy_documented x" and "buildTypedData x dd key from nonce r = Inr td"
    and "metaTxRequests x = Inr requests" and "obj_get requests key = Some req"
    and "requiresDataField req"
  shows "\<exists>c. encodeContractFunctionCalldata x (destinationContract req) (functionSignature req)
       (requestParamsToTypedParams r) = Inr c \<and> obj_get (td_message td) ''data'' = Some (JString c)"
proof -
  let ?m = "requestParamsToTypedParams r"
  obtain registry where reg: "MessageTypesRegistry = Inr registry" using MessageTypesRegistry_wf by blast
  obtain c where c: "encodeContractFunctionCalldata x (destinationContract req) (functionSignature req) ?m = Inr c"
    and td: "td_message td = obj_spread [(''from'', JString from), (''nonce'', bigNumberToString nonce)]
       (obj_set ''data'' (JString c) ?m)"
    using assms(2-5) unfolding buildTypedData_def reg bindr_simps Let_def
    by (auto simp: addCalldata_def simp del: obj_spread_Cons)
  have "distinct (obj_keys (obj_set ''data'' (JString c) ?m))"
    by (intro distinct_obj_set distinct_typed_params)
  from obj_get_message [OF this, of "''data''"] c td show ?thesis by simp
qed

text \<open>For clean parameters the calldata that is signed is the calldata that is sent, and the
  suffix data that is sent is the tail of the encoding that is signed.\<close>

lemma signed_is_sent:
  assumes x: "omitBy_documented x" "encoder_words x th enc"
    and clean: "clean_params (requestData request)"
    and td: "buildTypedData x dd (requestTypeKey request) from nonce (requestData request) = Inr td"
    and full: "encodeData x (requestTypeKey request) (types_of (requestTypeKey request)) (td_message td) = Inr full"
    and rsp: "encodeExecuteTransactionProps x request sigs ty = Inr rsp"
  shows "drop (if has_data (types_of (requestTypeKey request)) then 194 + 64 else 194) full =
      drop 2 (suffixData (rsp_request rsp))"
    and "has_data (types_of (requestTypeKey request)) \<Longrightarrow>
      obj_get (td_message td) ''data'' = Some (JString (callData (rsp_request rsp)))"
proof -
  let ?key = "requestTypeKey request" and ?m = "requestParamsToTypedParams (requestData request)"
  obtain requests r where r: "metaTxRequests x = Inr requests" "obj_get requests ?key = Some r"
      "encodeSuffixData x ?key (requestData request) = Inr (suffixData (rsp_request rsp))"
      "if requiresDataField r then encodeContractFunctionCalldata x (destinationContract r)
         (functionSignature r) (requestData request) = Inr (callData (rsp_request rsp))
       else callData (rsp_request rsp) = ''0x''"
    using encodeExecute_Inr [OF rsp] by blast
  note facts = metaTxRequests_get [OF x(1) r(1,2)]
  obtain ws where ws: "suffixData (rsp_request rsp) = ''0x'' @ concat ws"
      "suffix_words enc (types_of ?key) ?m = Inr ws"
    using encodeSuffixData_words [OF x r(3)] by blast
  note msg = build_message [OF x(1) td]
  obtain pre ws' where e: "full = pre @ concat ws'" "suffix_words enc (types_of ?key) (td_message td) = Inr ws'"
      "length pre = (if has_data (types_of ?key) then 194 + 64 else 194)"
    using encodeData_split [OF x(2) msg(2) full] by blast
  have "suffix_words enc (types_of ?key) (td_message td) = suffix_words enc (types_of ?key) ?m"
    by (rule suffix_words_cong [OF msg(2) msg(1)])
  then show "drop (if has_data (types_of ?key) then 194 + 64 else 194) full = drop 2 (suffixData (rsp_request rsp))"
    using ws e by simp
  show "obj_get (td_message td) ''data'' = Some (JString (callData (rsp_request rsp)))"
    if "has_data (types_of ?key)"
    using buildTypedData_calldata [OF x(1) td r(1,2)] r(4) facts(2,3) that
      clean_params_unchanged [OF clean] by auto
qed

end
