(* ===== verification/Evm.thy ===== *)
theory Evm
  imports Strings
begin

text \<open>
  What the Solidity contracts use of their language and of the virtual machine: big-endian numbers,
  the words of the ABI, and the precompiled functions, which are parameters (\<open>evm\<close>).
\<close>

section \<open>Big-endian numbers\<close>

fun be_bytes :: "nat \<Rightarrow> nat \<Rightarrow> bytes" where
  "be_bytes 0 n = []"
| "be_bytes (Suc k) n = be_bytes k (n div 256) @ [of_nat (n mod 256)]"

definition be_nat :: "bytes \<Rightarrow> nat" where
  "be_nat bs = foldl (\<lambda>a b. 256 * a + unat b) 0 bs"

lemma length_be_bytes [simp]: "length (be_bytes k n) = k"
  by (induction k n rule: be_bytes.induct) simp_all

lemma unat_of_nat_byte: "unat (of_nat (n mod 256) :: byte) = n mod 256"
  by (simp add: unat_of_nat)

lemma be_nat_be_bytes: "n < 256 ^ k \<Longrightarrow> be_nat (be_bytes k n) = n"
proof (induction k n rule: be_bytes.induct)
  case (1 n)
  then show ?case by (simp add: be_nat_def)
next
  case (2 k n)
  have "n div 256 < 256 ^ k" using "2.prems" by (simp add: less_mult_imp_div_less)
  then have "be_nat (be_bytes k (n div 256)) = n div 256" by (rule "2.IH")
  then show ?case using unat_of_nat_byte [of n] by (simp add: be_nat_def)
qed

lemma be_nat_Nil [simp]: "be_nat [] = 0"
  by (simp add: be_nat_def)

lemma be_nat_snoc: "be_nat (bs @ [b]) = 256 * be_nat bs + unat b"
  by (simp add: be_nat_def)

lemma be_nat_Cons: "be_nat (b # bs) = unat b * 256 ^ length bs + be_nat bs"
proof (induction bs rule: rev_induct)
  case Nil
  then show ?case by (simp add: be_nat_def)
next
  case (snoc c bs)
  have "be_nat (b # bs @ [c]) = 256 * be_nat (b # bs) + unat c"
    using be_nat_snoc [of "b # bs" c] by simp
  then show ?case by (simp add: snoc be_nat_snoc algebra_simps)
qed

lemma be_nat_zeros [simp]: "be_nat (replicate n 0) = 0"
  by (induction n) (simp_all add: be_nat_Cons)

lemma be_nat_bound: "be_nat bs < 256 ^ length bs"
proof (induction bs)
  case Nil
  then show ?case by simp
next
  case (Cons b bs)
  have "unat b * 256 ^ length bs + be_nat bs < (unat b + 1) * 256 ^ length bs"
    using Cons by simp
  also have "\<dots> \<le> 256 * 256 ^ length bs"
    using unat_byte_lt [of b] by (intro mult_right_mono) (simp_all del: unat_byte_lt)
  finally show ?case by (simp add: be_nat_Cons)
qed

lemma be_nat_Cons_less:
  assumes "length as = length bs"
  shows "be_nat (a # as) < be_nat (b # bs) \<longleftrightarrow> a < b \<or> (a = b \<and> be_nat as < be_nat bs)"
proof -
  have step: "unat x * n + m < unat y * n + k"
    if "unat x < unat y" "m < n" for x y :: byte and n m k :: nat
  proof -
    have "unat x * n + m < (unat x + 1) * n" using that(2) by simp
    also have "\<dots> \<le> unat y * n" using that(1) by (intro mult_right_mono) simp_all
    finally show ?thesis by simp
  qed
  note bounds = be_nat_bound [of as] be_nat_bound [of bs]
  consider "unat a < unat b" | "unat b < unat a" | "a = b"
    by (metis linorder_neqE_nat word_unat_eq_iff)
  then show ?thesis
  proof cases
    case 1
    then show ?thesis
      using step [OF 1 bounds(1)] assms by (simp add: be_nat_Cons word_less_nat_alt)
  next
    case 2
    then have "\<not> a < b" "a \<noteq> b" by (auto simp: word_less_nat_alt)
    then show ?thesis
      using step [OF 2 bounds(2), of "be_nat as"] assms by (simp add: be_nat_Cons)
  next
    case 3
    then show ?thesis using assms by (simp add: be_nat_Cons)
  qed
qed

lemma be_nat_inj: "length as = length bs \<Longrightarrow> be_nat as = be_nat bs \<Longrightarrow> as = bs"
proof (induction as bs rule: list_induct2)
  case Nil
  then show ?case by simp
next
  case (Cons a as b bs)
  have "\<not> be_nat (a # as) < be_nat (b # bs)" "\<not> be_nat (b # bs) < be_nat (a # as)"
    using Cons.prems by simp_all
  then have "\<not> a < b" "\<not> b < a" "a = b \<longrightarrow> be_nat as = be_nat bs"
    using Cons.hyps by (auto simp: be_nat_Cons_less)
  then show ?case using Cons.IH by auto
qed

lemma be_bytes_inj: "m < 256 ^ k \<Longrightarrow> n < 256 ^ k \<Longrightarrow> be_bytes k m = be_bytes k n \<Longrightarrow> m = n"
  by (metis be_nat_be_bytes)

section \<open>Hexadecimal strings\<close>

text \<open>The bytes of lower-case hexadecimal digits, and of such digits after 0x.\<close>

definition hex_value :: "char \<Rightarrow> nat" where
  "hex_value c = (let n = of_char c in if n < 58 then n - 48 else n - 87)"

fun unhex :: "string \<Rightarrow> bytes" where
  "unhex (a # b # s) = of_nat (16 * hex_value a + hex_value b) # unhex s"
| "unhex _ = []"

lemma hex_value_digit: "n < 16 \<Longrightarrow> hex_value (hex_digit n) = n"
proof -
  have "list_all (\<lambda>n. hex_value (hex_digit n) = n) [0..<16]" by code_simp
  then show "n < 16 \<Longrightarrow> hex_value (hex_digit n) = n" by (simp add: list_all_iff)
qed

lemma unhex_hex_body: "unhex (hex_body bs) = bs"
proof (induction bs)
  case Nil
  then show ?case by simp
next
  case (Cons b bs)
  have "unat b div 16 < 16" "unat b mod 16 < 16"
    using unat_byte_lt [of b] by (simp_all add: less_mult_imp_div_less)
  then have "of_nat (16 * hex_value (hex_digit (unat b div 16)) + hex_value (hex_digit (unat b mod 16))) = b"
    by (simp add: hex_value_digit flip: word_unat_eq_iff)
  with Cons show ?case by (simp add: hex_byte_def)
qed

definition hex_bytes :: "string \<Rightarrow> bytes" where
  "hex_bytes s = unhex (drop 2 s)"

lemma hex_body_append [simp]: "hex_body (a @ b) = hex_body a @ hex_body b"
  by (simp add: hex_body_def)

lemma hex_bytes_toHex [simp]: "hex_bytes (toHex bs) = bs"
  by (simp add: hex_bytes_def toHex_def unhex_hex_body)

lemma hex_body_concat: "hex_body (concat bss) = concat (map hex_body bss)"
  by (induction bss) (simp_all add: hex_body_def)

section \<open>Words of the ABI\<close>

definition abi_uint :: "256 word \<Rightarrow> bytes" where
  "abi_uint n = be_bytes 32 (unat n)"

definition abi_address :: "address \<Rightarrow> bytes" where
  "abi_address a = replicate 12 0 @ a"

text \<open>The bytes of a string of ASCII characters.\<close>

definition str_bytes :: "string \<Rightarrow> bytes" where
  "str_bytes s = map of_char s"

lemma length_abi_uint [simp]: "length (abi_uint n) = 32"
  by (simp add: abi_uint_def)

lemma length_abi_address [simp]: "length (abi_address a) = 12 + length a"
  by (simp add: abi_address_def)

lemma abi_uint_inj: "abi_uint m = abi_uint n \<Longrightarrow> m = n"
proof -
  have "unat w < 256 ^ 32" for w :: "256 word"
    using unsigned_less [of w, where ?'a = nat] by simp
  then show "abi_uint m = abi_uint n \<Longrightarrow> m = n"
    unfolding abi_uint_def by (metis be_bytes_inj word_unat_eq_iff)
qed

lemma abi_address_inj: "abi_address a = abi_address b \<Longrightarrow> a = b"
  by (simp add: abi_address_def)

section \<open>The virtual machine\<close>

text \<open>\<open>evm_slack\<close> are the bytes of memory that follow a byte array: \<open>mload\<close> reads them when the array is
  too short.\<close>

record evm =
  evm_keccak256 :: "bytes \<Rightarrow> bytes"
  evm_ecrecover :: "bytes \<Rightarrow> byte \<Rightarrow> bytes \<Rightarrow> bytes \<Rightarrow> address"
  evm_chainid :: "256 word"
  evm_slack :: "nat \<Rightarrow> byte"

definition mload :: "evm \<Rightarrow> bytes \<Rightarrow> nat \<Rightarrow> nat \<Rightarrow> bytes" where
  "mload e bs offset n =
     map (\<lambda>i. if i < length bs then bs ! i else evm_slack e (i - length bs)) [offset ..< offset + n]"

lemma mload_inside: "offset + n \<le> length bs \<Longrightarrow> mload e bs offset n = take n (drop offset bs)"
  unfolding mload_def by (rule nth_equalityI) auto

text \<open>The sender of a call and its calldata.\<close>

record message =
  msg_sender :: address
  msg_data :: bytes

text \<open>The last 20 bytes of the calldata: \<open>shr(96, calldataload(sub(calldatasize(), 20)))\<close>.\<close>

definition appended_sender :: "bytes \<Rightarrow> address" where
  "appended_sender data = drop (length data - 20) data"

lemma appended_sender_append [simp]: "length a = 20 \<Longrightarrow> appended_sender (data @ a) = a"
  by (simp add: appended_sender_def)

end
