(* ===== verification/Administrator.thy ===== *)
theory Administrator
  imports JsObjects Evm
begin

text \<open>
  \<open>startrail-common-js/contracts/types.ts\<close>, \<open>contracts/administrator/multi-send.ts\<close> and
  \<open>contracts/administrator/index.ts\<close>: the contract keys, the packed encoding of several
  transactions for MultiSend, and the client of the Administrator, a Gnosis Safe. What the
  client calls on chain is a parameter (\<open>safe\<close>). The encoding is shown to be read back by the
  loop of MultiSend as exactly the transactions that were packed.
\<close>

section \<open>contracts/types.ts\<close>

datatype contract_key =
    KeyAdministrator | KeyStartrailProxyAdmin | KeyLicensedUserManager | KeyStartrailRegistry
  | KeyBulkIssue | KeyMetaTxForwarder | KeyBulkTransfer | KeyBulk

fun contract_key_id :: "contract_key \<Rightarrow> int" where
  "contract_key_id KeyAdministrator = 1"
| "contract_key_id KeyStartrailProxyAdmin = 2"
| "contract_key_id KeyLicensedUserManager = 3"
| "contract_key_id KeyStartrailRegistry = 4"
| "contract_key_id KeyBulkIssue = 5"
| "contract_key_id KeyMetaTxForwarder = 6"
| "contract_key_id KeyBulkTransfer = 7"
| "contract_key_id KeyBulk = 8"

lemma contract_key_id_inj: "contract_key_id a = contract_key_id b \<Longrightarrow> a = b"
  by (cases a; cases b) simp_all

instantiation contract_key :: linorder
begin

definition less_eq_contract_key :: "contract_key \<Rightarrow> contract_key \<Rightarrow> bool" where
  "less_eq_contract_key a b \<longleftrightarrow> contract_key_id a \<le> contract_key_id b"

definition less_contract_key :: "contract_key \<Rightarrow> contract_key \<Rightarrow> bool" where
  "less_contract_key a b \<longleftrightarrow> contract_key_id a < contract_key_id b"

instance
  by standard (auto simp: less_eq_contract_key_def less_contract_key_def intro: contract_key_id_inj)

end

text \<open>A numeric enum is an object with the reverse entries from ids to names, which come first
  in the order of keys, and the entries from names to ids.\<close>

datatype enum_value = EnumName string | EnumId int

definition ContractKeys :: "enum_value obj" where
  "ContractKeys =
     [(''1'', EnumName ''Administrator''), (''2'', EnumName ''StartrailProxyAdmin''),
      (''3'', EnumName ''LicensedUserManager''), (''4'', EnumName ''StartrailRegistry''),
      (''5'', EnumName ''BulkIssue''), (''6'', EnumName ''MetaTxForwarder''),
      (''7'', EnumName ''BulkTransfer''), (''8'', EnumName ''Bulk''),
      (''Administrator'', EnumId (contract_key_id KeyAdministrator)),
      (''StartrailProxyAdmin'', EnumId (contract_key_id KeyStartrailProxyAdmin)),
      (''LicensedUserManager'', EnumId (contract_key_id KeyLicensedUserManager)),
      (''StartrailRegistry'', EnumId (contract_key_id KeyStartrailRegistry)),
      (''BulkIssue'', EnumId (contract_key_id KeyBulkIssue)),
      (''MetaTxForwarder'', EnumId (contract_key_id KeyMetaTxForwarder)),
      (''BulkTransfer'', EnumId (contract_key_id KeyBulkTransfer)),
      (''Bulk'', EnumId (contract_key_id KeyBulk))]"

text \<open>\<open>Number\<close> of a key: a decimal numeral, or NaN (\<open>None\<close>) for an identifier.\<close>

definition dec_value :: "char \<Rightarrow> int" where
  "dec_value c = int (of_char c) - 48"

definition numberOfKey :: "string \<Rightarrow> int option" where
  "numberOfKey v =
     (if v \<noteq> [] \<and> list_all (\<lambda>c. 48 \<le> (of_char c :: nat) \<and> (of_char c :: nat) \<le> 57) v
      then Some (foldl (\<lambda>a c. 10 * a + dec_value c) 0 v) else None)"

definition keysToIds :: "enum_value obj \<Rightarrow> int list" where
  "keysToIds keysType =
     map the (filter (\<lambda>v. v \<noteq> None) (map numberOfKey (obj_keys keysType)))"

definition ContractKeyIds :: "int list" where
  "ContractKeyIds = keysToIds ContractKeys"

datatype operation = CALL | DELEGATECALL

fun operation_id :: "operation \<Rightarrow> int" where
  "operation_id CALL = 0"
| "operation_id DELEGATECALL = 1"

section \<open>multi-send.ts\<close>

record multi_send_tx =
  ms_operation :: operation
  ms_to :: string
  ms_data :: string

definition multiSendTypes :: "string list" where
  "multiSendTypes = [''uint8'', ''address'', ''uint256'', ''uint256'', ''bytes'']"

definition encodeMultiSendTransaction :: "ext \<Rightarrow> multi_send_tx \<Rightarrow> string" where
  "encodeMultiSendTransaction x tx =
     (let dataBuffer = bufferFromHex x (stripHexPrefix x (ms_data tx))
      in solidityPack x multiSendTypes
           [JNumber (operation_id (ms_operation tx)), JString (ms_to tx), JNumber 0,
            JNumber (int (length dataBuffer)), JBytes dataBuffer])"

definition encodeMultiSendTransactions :: "ext \<Rightarrow> multi_send_tx list \<Rightarrow> string" where
  "encodeMultiSendTransactions x transactions =
     ''0x'' @ concat (map (\<lambda>tx. stripHexPrefix x (encodeMultiSendTransaction x tx)) transactions)"

definition encodeMultiSendTransactionsSingleDestination ::
  "ext \<Rightarrow> operation \<Rightarrow> string \<Rightarrow> string list \<Rightarrow> string" where
  "encodeMultiSendTransactionsSingleDestination x operation to calldataList =
     encodeMultiSendTransactions x
       (map (\<lambda>data. \<lparr>ms_operation = operation, ms_to = to, ms_data = data\<rparr>) calldataList)"

text \<open>The two methods of the class \<open>Administrator\<close> are these functions.\<close>

definition encodeMultiSend :: "ext \<Rightarrow> multi_send_tx list \<Rightarrow> string" where
  "encodeMultiSend x transactions = encodeMultiSendTransactions x transactions"

definition encodeMultiSendSingleDestination :: "ext \<Rightarrow> operation \<Rightarrow> string \<Rightarrow> string list \<Rightarrow> string" where
  "encodeMultiSendSingleDestination x operation to' calldataList =
     encodeMultiSendTransactionsSingleDestination x operation to' calldataList"

section \<open>Reading a packed encoding back\<close>

text \<open>\<open>pack_tx\<close> is the encoding \<open>abi.encodePacked\<close> documents for the five fields.\<close>

definition pack_tx :: "int \<Rightarrow> address \<Rightarrow> bytes \<Rightarrow> bytes" where
  "pack_tx op a d = [of_int op] @ a @ be_bytes 32 0 @ be_bytes 32 (length d) @ d"

definition pack_documented :: "ext \<Rightarrow> bool" where
  "pack_documented x \<longleftrightarrow>
     (\<forall>op a d. length a = 20 \<longrightarrow> op \<in> {0, 1} \<longrightarrow>
        solidityPack x multiSendTypes
          [JNumber op, JString (toHex a), JNumber 0, JNumber (int (length d)), JBytes d] =
        toHex (pack_tx op a d))"

definition buffer_documented :: "ext \<Rightarrow> bool" where
  "buffer_documented x \<longleftrightarrow> (\<forall>d. bufferFromHex x (hex_body d) = d)"

text \<open>The loop of MultiSend: operation, destination, value, length and data of each transaction.
  Every round consumes at least 85 bytes, so the number of bytes bounds the rounds.\<close>

function multi_send_loop :: "bytes \<Rightarrow> (nat \<times> address \<times> nat \<times> bytes) list option" where
  "multi_send_loop bs =
     (if bs = [] then Some []
      else if length bs < 85 then None
      else
        let n = be_nat (take 32 (drop 53 bs));
            rest = drop 85 bs
        in if length rest < n then None
           else map_option (\<lambda>txs. (unat (hd bs), take 20 (drop 1 bs), be_nat (take 32 (drop 21 bs)),
                    take n rest) # txs)
                  (multi_send_loop (drop n rest)))"
  by auto
termination by (relation "measure length") auto

declare multi_send_loop.simps [simp del]

lemma multi_send_loop_pack:
  assumes "length a = 20" and "op \<in> {0, 1}" and "length d < 2 ^ 256"
  shows "multi_send_loop (pack_tx op a d @ bs) =
    map_option (\<lambda>txs. (nat op, a, 0, d) # txs) (multi_send_loop bs)"
proof -
  let ?p = "pack_tx op a d @ bs"
  have len: "be_nat (be_bytes 32 (length d)) = length d" using assms(3) by (intro be_nat_be_bytes) simp
  have zero: "be_nat (be_bytes 32 0) = 0" by (intro be_nat_be_bytes) simp
  have p: "?p = [of_int op] @ a @ be_bytes 32 0 @ be_bytes 32 (length d) @ d @ bs"
    by (simp add: pack_tx_def)
  have parts: "take 32 (drop 53 ?p) = be_bytes 32 (length d)" "drop 85 ?p = d @ bs"
    "take 20 (drop 1 ?p) = a" "take 32 (drop 21 ?p) = be_bytes 32 0" "hd ?p = of_int op"
    unfolding p using assms(1) by simp_all
  have op: "unat (of_int op :: byte) = nat op" using assms(2) by auto
  have "?p \<noteq> []" "\<not> length ?p < 85" unfolding p using assms(1) by simp_all
  then have "multi_send_loop ?p = map_option (\<lambda>txs. (unat (hd ?p), take 20 (drop 1 ?p),
      be_nat (take 32 (drop 21 ?p)), take (length d) (d @ bs)) # txs)
      (multi_send_loop (drop (length d) (d @ bs)))"
    by (subst multi_send_loop.simps) (simp only: parts len Let_def if_False, simp)
  then show ?thesis by (simp only: parts zero op) simp
qed

lemma multi_send_loop_concat:
  assumes "\<forall>(op, a, d) \<in> set txs. length a = 20 \<and> op \<in> {0, 1} \<and> length d < 2 ^ 256"
  shows "multi_send_loop (concat (map (\<lambda>(op, a, d). pack_tx op a d) txs)) =
    Some (map (\<lambda>(op, a, d). (nat op, a, 0, d)) txs)"
  using assms
proof (induction txs)
  case Nil
  then show ?case by (simp add: multi_send_loop.simps)
next
  case (Cons tx txs)
  obtain op a d where tx: "tx = (op, a, d)" by (cases tx)
  with Cons show ?case by (simp add: multi_send_loop_pack)
qed

text \<open>The transactions with destination and data given as byte strings.\<close>

definition tx_of :: "operation \<times> address \<times> bytes \<Rightarrow> multi_send_tx" where
  "tx_of = (\<lambda>(op, a, d). \<lparr>ms_operation = op, ms_to = toHex a, ms_data = toHex d\<rparr>)"

lemma strip_toHex: "strip_documented x \<Longrightarrow> stripHexPrefix x (toHex b) = hex_body b"
  by (simp add: strip_documented_def toHex_def starts_with_def)

lemma encodeMultiSend_packed:
  assumes "strip_documented x" "pack_documented x" "buffer_documented x"
    and "\<forall>(op, a, d) \<in> set txs. length a = 20"
  shows "encodeMultiSendTransactions x (map tx_of txs) =
    toHex (concat (map (\<lambda>(op, a, d). pack_tx (operation_id op) a d) txs))"
proof -
  have one: "stripHexPrefix x (encodeMultiSendTransaction x (tx_of (op, a, d))) =
      hex_body (pack_tx (operation_id op) a d)" if "length a = 20" for op a d
  proof -
    have "bufferFromHex x (stripHexPrefix x (toHex d)) = d"
      using assms(1,3) by (simp add: strip_toHex buffer_documented_def)
    then have "encodeMultiSendTransaction x (tx_of (op, a, d)) = toHex (pack_tx (operation_id op) a d)"
      using assms(2) that
      by (cases op) (simp_all add: encodeMultiSendTransaction_def tx_of_def pack_documented_def Let_def)
    then show ?thesis using assms(1) by (simp add: strip_toHex)
  qed
  have "concat (map (\<lambda>tx. stripHexPrefix x (encodeMultiSendTransaction x tx)) (map tx_of txs)) =
      hex_body (concat (map (\<lambda>(op, a, d). pack_tx (operation_id op) a d) txs))"
    using assms(4) by (induction txs) (auto simp: one)
  then show ?thesis unfolding encodeMultiSendTransactions_def by (simp add: toHex_def)
qed

section \<open>administrator/index.ts\<close>

record exec_props =
  ep_to :: string
  ep_value :: int
  ep_data :: string
  ep_operation :: operation
  ep_safeTxGas :: int
  ep_baseGas :: int
  ep_gasPrice :: int
  ep_gasToken :: string
  ep_refundReceiver :: string
  ep_signatures :: "string option"

record receipt =
  rc_hash :: string
  rc_status :: int
  rc_topics :: "string list list"
  rc_data :: "string list"

text \<open>What the client calls: the Safe's \<open>nonce\<close>, \<open>getTransactionHash\<close> and \<open>execTransaction\<close>, the
  calldata of \<open>multiSend\<close>, and the provider's \<open>waitForTransaction\<close>; a signer is its
  \<open>signMessage\<close>.\<close>

type_synonym signer = "string \<Rightarrow> string"

record safe =
  safe_nonce :: int
  safe_multiSendAddress :: string
  safe_transactionHash :: "exec_props \<Rightarrow> string \<Rightarrow> string"
  safe_multiSendCalldata :: "string \<Rightarrow> string"
  safe_exec :: "exec_props \<Rightarrow> int \<Rightarrow> string"
  safe_wait :: "string \<Rightarrow> int \<Rightarrow> receipt"

record exec_request =
  er_to :: string
  er_data :: string
  er_nonce :: "js_val option"
  er_gasLimit :: "int option"
  er_waitConfirmed :: "bool option"
  er_multiSend :: "bool option"
  er_numConfirmations :: "int option"
  er_signer :: "signer option"

definition EventHashExecutionSuccess :: string where
  "EventHashExecutionSuccess =
     ''0x442e715f626346e8c54381002da614f62bee8d27386535b2521ec8540898556e''"

definition zeroAddress :: string where
  "zeroAddress = ''0x'' @ replicate 40 (CHR ''0'')"

text \<open>\<open>hasLog\<close> of \<open>ethereum/tx-helpers.ts\<close>.\<close>

definition hasLog :: "receipt \<Rightarrow> string \<Rightarrow> bool" where
  "hasLog receipt topicHash = list_ex (\<lambda>topics. topicHash \<in> set topics) (rc_topics receipt)"

definition verifyExecutionResult :: "receipt \<Rightarrow> js_error + unit" where
  "verifyExecutionResult execReceipt =
     (if \<not> hasLog execReceipt EventHashExecutionSuccess
      then Inl (ThrownError (''administrator.execTransaction: failure (hash: '' @
                             rc_hash execReceipt @ '')''))
      else Inr ())"

definition execTransactionProps :: "safe \<Rightarrow> string \<Rightarrow> string \<Rightarrow> bool \<Rightarrow> exec_props" where
  "execTransactionProps env to calldata multiSend =
     (let (operation, destinationAddr, txCalldata) =
            (if \<not> multiSend then (CALL, to, calldata)
             else (DELEGATECALL, safe_multiSendAddress env, safe_multiSendCalldata env calldata))
      in \<lparr>ep_to = destinationAddr, ep_value = 0, ep_data = txCalldata, ep_operation = operation,
          ep_safeTxGas = 0, ep_baseGas = 0, ep_gasPrice = 0, ep_gasToken = zeroAddress,
          ep_refundReceiver = zeroAddress, ep_signatures = None\<rparr>)"

text \<open>\<open>s.replace(/p$/, r)\<close> for a pattern \<open>p\<close> without special characters.\<close>

definition replace_end :: "string \<Rightarrow> string \<Rightarrow> string \<Rightarrow> string" where
  "replace_end p r s =
     (if length p \<le> length s \<and> drop (length s - length p) s = p
      then take (length s - length p) s @ r else s)"

definition signTxHash :: "string \<Rightarrow> signer \<Rightarrow> string" where
  "signTxHash txHash signMessage =
     (let signature = signMessage txHash
      in replace_end ''1c'' ''20'' (replace_end ''1b'' ''1f'' signature))"

text \<open>The conditional \<open>nonce ? .. : ..\<close> takes 0 and the empty string for absent.\<close>

fun truthy :: "js_val \<Rightarrow> bool" where
  "truthy (JString s) = (s \<noteq> [])"
| "truthy (JNumber n) = (n \<noteq> 0)"
| "truthy (JBool b) = b"
| "truthy _ = True"

definition resolveNonce :: "ext \<Rightarrow> safe \<Rightarrow> js_val option \<Rightarrow> js_error + int" where
  "resolveNonce x env nonce =
     (case nonce of
        None \<Rightarrow> Inr (safe_nonce env)
      | Some v \<Rightarrow> if truthy v then bigNumberFrom x v else Inr (safe_nonce env))"

definition encodeAndSignExecTransactionRequest ::
  "ext \<Rightarrow> safe \<Rightarrow> string \<Rightarrow> string \<Rightarrow> js_val option \<Rightarrow> bool \<Rightarrow> signer \<Rightarrow> js_error + exec_props" where
  "encodeAndSignExecTransactionRequest x env to data nonce multiSend signer =
     bindr (resolveNonce x env nonce) (\<lambda>nonceBN.
       let props = execTransactionProps env to data multiSend;
           txHash = safe_transactionHash env props (int_dec nonceBN);
           signatures = signTxHash txHash signer
       in Inr (props\<lparr>ep_signatures := Some signatures\<rparr>))"

datatype exec_result = ExecResponse string | ExecReceipt receipt

text \<open>\<open>execTransaction\<close> with the defaults of its parameters; \<open>own\<close> is the signer of the instance.\<close>

definition execTransaction :: "ext \<Rightarrow> safe \<Rightarrow> signer \<Rightarrow> exec_request \<Rightarrow> js_error + exec_result" where
  "execTransaction x env own request =
     (let gasLimit = (case er_gasLimit request of None \<Rightarrow> 500000 | Some g \<Rightarrow> g);
          waitConfirmed = (case er_waitConfirmed request of None \<Rightarrow> True | Some b \<Rightarrow> b);
          multiSend = (case er_multiSend request of None \<Rightarrow> False | Some b \<Rightarrow> b);
          signer = (case er_signer request of None \<Rightarrow> own | Some s \<Rightarrow> s)
      in bindr (encodeAndSignExecTransactionRequest x env (er_to request) (er_data request)
                  (er_nonce request) multiSend signer) (\<lambda>props.
           let execRsp = safe_exec env props gasLimit
           in if \<not> waitConfirmed then Inr (ExecResponse execRsp)
              else
                let numConfirmations = (case er_numConfirmations request of None \<Rightarrow> 1 | Some n \<Rightarrow> n);
                    execReceipt = safe_wait env execRsp numConfirmations
                in bindr (verifyExecutionResult execReceipt) (\<lambda>_. Inr (ExecReceipt execReceipt))))"

section \<open>Facts about signatures and execution\<close>

lemma replace_end_append [simp]: "replace_end p r (s @ p) = s @ r"
  by (simp add: replace_end_def)

lemma replace_end_other: "length q = length p \<Longrightarrow> q \<noteq> p \<Longrightarrow> replace_end p r (s @ q) = s @ q"
  by (simp add: replace_end_def)

lemma toHex_snoc: "toHex (bs @ [b]) = toHex bs @ hex_byte b"
  by (simp add: toHex_def)

lemma signTxHash_v:
  assumes "sign h = toHex (bs @ [v])"
  shows "signTxHash h sign = toHex (bs @ [if v = 27 \<or> v = 28 then v + 4 else v])"
proof -
  have len: "length (hex_byte v) = 2" for v by (simp add: hex_byte_def)
  have h: "hex_byte 27 = ''1b''" "hex_byte 28 = ''1c''" "hex_byte 31 = ''1f''" "hex_byte 32 = ''20''"
    by (simp_all add: hex_byte_def hex_digit_def)
  consider "v = 27" | "v = 28" | "v \<noteq> 27" "v \<noteq> 28" by blast
  then show ?thesis
  proof cases
    case 1
    have "replace_end ''1b'' ''1f'' (toHex bs @ ''1b'') = toHex bs @ ''1f''" by (rule replace_end_append)
    moreover have "replace_end ''1c'' ''20'' (toHex bs @ ''1f'') = toHex bs @ ''1f''"
      by (rule replace_end_other) simp_all
    ultimately show ?thesis using assms 1 h by (simp add: signTxHash_def toHex_snoc)
  next
    case 2
    have "replace_end ''1b'' ''1f'' (toHex bs @ ''1c'') = toHex bs @ ''1c''"
      by (rule replace_end_other) simp_all
    moreover have "replace_end ''1c'' ''20'' (toHex bs @ ''1c'') = toHex bs @ ''20''"
      by (rule replace_end_append)
    ultimately show ?thesis using assms 2 h by (simp add: signTxHash_def toHex_snoc)
  next
    case 3
    then have "hex_byte v \<noteq> ''1b''" "hex_byte v \<noteq> ''1c''" using h hex_byte_inj by metis+
    then show ?thesis using assms 3 len [of v]
      by (simp add: signTxHash_def toHex_snoc replace_end_other)
  qed
qed

lemma execTransaction_receipt:
  assumes "execTransaction x env own req = Inr (ExecReceipt rc)"
  shows "hasLog rc EventHashExecutionSuccess" "er_waitConfirmed req \<noteq> Some False"
  using assms by (auto simp: execTransaction_def Let_def verifyExecutionResult_def split: if_splits)

text \<open>An explicit nonce 0 is taken for none: the request is signed and sent with the Safe's nonce.\<close>

lemma nonce_zero_is_ignored:
  "execTransaction x env own (req\<lparr>er_nonce := Some (JNumber 0)\<rparr>) =
   execTransaction x env own (req\<lparr>er_nonce := None\<rparr>)"
  by (simp add: execTransaction_def encodeAndSignExecTransactionRequest_def resolveNonce_def Let_def)

end
