(* ===== verification/TxHelpers.thy ===== *)
theory TxHelpers
  imports Administrator
begin

text \<open>
  \<open>startrail-common-js/ethereum/tx-helpers.ts\<close>, \<open>ethereum/utils.ts\<close>, \<open>srr/srr-id-compute.ts\<close> and
  \<open>logger/index.ts\<close>: reading events in ranges of blocks, waiting for transactions, hash and
  address strings, the token identifiers, and the logger's switch. The provider and the contract
  interface are parameters. The loop over block ranges does not return when its step is not
  positive, so it is a partial function; for positive steps it is shown to return.
\<close>

section \<open>tx-helpers.ts\<close>

record event =
  event_name :: "string option"
  event_args :: "js_val list"

record event_log =
  log_data :: string
  log_topics :: "string list"

text \<open>\<open>receipt.events\<close> may be missing.\<close>

definition getEvent :: "event list option \<Rightarrow> string \<Rightarrow> event option" where
  "getEvent events eventName =
     (case events of None \<Rightarrow> None | Some es \<Rightarrow> List.find (\<lambda>e. event_name e = Some eventName) es)"

text \<open>\<open>decode\<close> is the contract interface's \<open>decodeEventLog\<close>; an error is logged and swallowed.\<close>

definition decodeEventLog ::
  "(string \<Rightarrow> string \<Rightarrow> string list \<Rightarrow> js_error + js_val list) \<Rightarrow> string \<Rightarrow> event_log \<Rightarrow> js_val list option" where
  "decodeEventLog decode eventName log =
     (case decode eventName (log_data log) (log_topics log) of Inl _ \<Rightarrow> None | Inr eventArgs \<Rightarrow> Some eventArgs)"

text \<open>\<open>getLogs\<close> is the provider's \<open>getLogs\<close> with the filter of the event.\<close>

partial_function (option) query_loop ::
  "(int \<Rightarrow> int \<Rightarrow> 'l list) \<Rightarrow> int \<Rightarrow> int \<Rightarrow> int \<Rightarrow> 'l list \<Rightarrow> 'l list option" where
  "query_loop getLogs fromBlock toBlock blocksPerQuery events =
     (if fromBlock < toBlock
      then query_loop getLogs (fromBlock + blocksPerQuery) toBlock blocksPerQuery
             (events @ getLogs fromBlock (min (fromBlock + blocksPerQuery) toBlock))
      else Some events)"

definition queryEvents ::
  "(int \<Rightarrow> int \<Rightarrow> 'l list) \<Rightarrow> int \<Rightarrow> int \<Rightarrow> int option \<Rightarrow> int option \<Rightarrow> 'l list option" where
  "queryEvents getLogs latestBlock startBlock endBlock blocksPerQuery =
     (let toBlock = (case endBlock of None \<Rightarrow> latestBlock | Some b \<Rightarrow> if b \<noteq> 0 then b else latestBlock);
          step = (case blocksPerQuery of None \<Rightarrow> 50000 | Some n \<Rightarrow> n)
      in query_loop getLogs startBlock toBlock step [])"

definition queryEventValues ::
  "(int \<Rightarrow> int \<Rightarrow> event_log list) \<Rightarrow> (string \<Rightarrow> string \<Rightarrow> string list \<Rightarrow> js_error + js_val list) \<Rightarrow> string
     \<Rightarrow> int \<Rightarrow> int \<Rightarrow> int option \<Rightarrow> int option \<Rightarrow> js_val list option list option" where
  "queryEventValues getLogs decode eventName latestBlock startBlock endBlock blocksPerQuery =
     map_option (map (decodeEventLog decode eventName))
       (queryEvents getLogs latestBlock startBlock endBlock blocksPerQuery)"

text \<open>A transaction response, a deployed contract, or the hash itself.\<close>

datatype tx_or_hash = TxResponse string | DeployedContract string | TxHash string

fun txHashOf :: "tx_or_hash \<Rightarrow> string" where
  "txHashOf (TxResponse h) = h"
| "txHashOf (DeployedContract h) = h"
| "txHashOf (TxHash h) = h"

definition waitTx :: "(string \<Rightarrow> int \<Rightarrow> receipt) \<Rightarrow> tx_or_hash \<Rightarrow> int option \<Rightarrow> receipt" where
  "waitTx waitForTransaction txResultOrHash numConfirmations =
     waitForTransaction (txHashOf txResultOrHash)
       (case numConfirmations of None \<Rightarrow> 1 | Some n \<Rightarrow> n)"

section \<open>The ranges that are queried\<close>

function block_ranges :: "int \<Rightarrow> int \<Rightarrow> int \<Rightarrow> (int \<times> int) list" where
  "block_ranges a b n =
     (if a < b \<and> 0 < n then (a, min (a + n) b) # block_ranges (a + n) b n else [])"
  by auto
termination by (relation "measure (\<lambda>(a, b, n). nat (b - a))") auto

declare block_ranges.simps [simp del]

lemma query_loop_ranges:
  assumes "0 < n"
  shows "query_loop get a b n es = Some (es @ concat (map (\<lambda>(f, t). get f t) (block_ranges a b n)))"
  using assms
proof (induction a b n arbitrary: es rule: block_ranges.induct)
  case (1 a b n)
  show ?case
  proof (cases "a < b")
    case True
    then show ?thesis
      using "1.IH" "1.prems" by (simp add: query_loop.simps [of get a] block_ranges.simps [of a])
  next
    case False
    then show ?thesis by (simp add: query_loop.simps [of get a] block_ranges.simps [of a])
  qed
qed

lemma query_loop_diverges:
  assumes "n \<le> 0"
  shows "a < b \<Longrightarrow> query_loop get a b n es = None"
proof -
  have "a < b \<longrightarrow> 0 < n" if "query_loop get a b n es = Some r" for r
    using that
  proof (rule query_loop.raw_induct [where P = "\<lambda>_ a b n _ _. a < b \<longrightarrow> 0 < n", rotated])
    fix loop :: "(int \<Rightarrow> int \<Rightarrow> 'a list) \<Rightarrow> int \<Rightarrow> int \<Rightarrow> int \<Rightarrow> 'a list \<Rightarrow> 'a list option"
    fix get a b n es r
    assume IH: "\<And>get a b n es r. loop get a b n es = Some r \<Longrightarrow> a < b \<longrightarrow> 0 < n"
      and "(if a < b then loop get (a + n) b n (es @ get a (min (a + n) b)) else Some es) = Some r"
    then show "a < b \<longrightarrow> 0 < n"
      by (cases "a + n < b") (auto dest: IH split: if_splits)
  qed
  then show "a < b \<Longrightarrow> query_loop get a b n es = None"
    using assms by (cases "query_loop get a b n es") auto
qed

text \<open>How often a block is queried: every block of the range at least once, the blocks at which
  two ranges meet twice.\<close>

definition times_queried :: "int \<Rightarrow> (int \<times> int) list \<Rightarrow> nat" where
  "times_queried k rs = length (filter (\<lambda>(f, t). f \<le> k \<and> k \<le> t) rs)"

lemma times_queried_ranges:
  assumes "0 < n"
  shows "times_queried k (block_ranges a b n) =
    (if a < b \<and> a \<le> k \<and> k \<le> b then (if n dvd k - a \<and> a < k \<and> k < b then 2 else 1) else 0)"
  using assms
proof (induction a b n rule: block_ranges.induct)
  case (1 a b n)
  have dv: "n dvd k - (a + n) \<longleftrightarrow> n dvd k - a"
  proof -
    have "k - (a + n) = (k - a) - 1 * n" by simp
    then show ?thesis by (metis dvd_minus_mod dvd_diff dvd_refl dvd_add diff_add_cancel mult_1)
  qed
  have small: "\<not> n dvd k - a" if "a < k" "k < a + n"
    using that zdvd_not_zless [of "k - a" n] by auto
  show ?case
  proof (cases "a < b")
    case False
    then show ?thesis by (simp add: block_ranges.simps [of a] times_queried_def)
  next
    case True
    have IH: "times_queried k (block_ranges (a + n) b n) =
        (if a + n < b \<and> a + n \<le> k \<and> k \<le> b then (if n dvd k - a \<and> a + n < k \<and> k < b then 2 else 1) else 0)"
      using "1.IH" "1.prems" True dv by simp
    have "times_queried k (block_ranges a b n) =
        (if a \<le> k \<and> k \<le> min (a + n) b then 1 else 0) + times_queried k (block_ranges (a + n) b n)"
      using True "1.prems" by (simp add: block_ranges.simps [of a] times_queried_def)
    then show ?thesis using IH True "1.prems" small by (auto simp: min_def)
  qed
qed

section \<open>ethereum/utils.ts\<close>

definition isHexDigit :: "char \<Rightarrow> bool" where
  "isHexDigit c \<longleftrightarrow> c \<in> set ''0123456789ABCDEFabcdef''"

definition isKeccak256Hash :: "ext \<Rightarrow> string \<Rightarrow> bool" where
  "isKeccak256Hash x hash =
     (let s = stripHexPrefix x hash in length s = 64 \<and> list_all isHexDigit s)"

definition isEthereumTxHash :: "ext \<Rightarrow> string \<Rightarrow> bool" where
  "isEthereumTxHash x txHash = isKeccak256Hash x txHash"

definition zeroBytes32 :: string where
  "zeroBytes32 = ''0x'' @ replicate 64 (CHR ''0'')"

definition add0xPrefix :: "string \<Rightarrow> string" where
  "add0xPrefix hexString = (if starts_with hexString ''0x'' then hexString else ''0x'' @ hexString)"

lemma hex_digit_isHexDigit: "n < 16 \<Longrightarrow> isHexDigit (hex_digit n)"
proof -
  assume "n < 16"
  then have "hex_digit n \<in> set ''0123456789abcdef''" unfolding hex_digit_def by (intro nth_mem) simp
  then show ?thesis by (auto simp: isHexDigit_def)
qed

lemma hex_body_digits: "list_all isHexDigit (hex_body bs)"
proof (induction bs)
  case Nil
  then show ?case by simp
next
  case (Cons b bs)
  have "unat b div 16 < 16" using unat_byte_lt [of b] by (simp add: less_mult_imp_div_less)
  with Cons show ?case by (simp add: hex_byte_def hex_digit_isHexDigit)
qed

section \<open>srr-id-compute.ts\<close>

definition power10 :: "nat \<Rightarrow> int" where
  "power10 e = 10 ^ e"

definition ID_CAP :: int where
  "ID_CAP = power10 8"

definition ID_CAP_V2 :: int where
  "ID_CAP_V2 = power10 12"

text \<open>\<open>toNumber\<close> throws outside the integers a number represents exactly.\<close>

definition toNumber :: "int \<Rightarrow> js_error + int" where
  "toNumber n = (if \<bar>n\<bar> < 2 ^ 53 then Inr n else Inl (ThrownError ''overflow''))"

definition srrIdComputeInternal :: "ext \<Rightarrow> string \<Rightarrow> string \<Rightarrow> int \<Rightarrow> js_error + int" where
  "srrIdComputeInternal x artistAddress metadataDigest modulus =
     (let encodedInput = stripHexPrefix x metadataDigest @ stripHexPrefix x artistAddress;
          idHash = keccakHex x (bufferFromHex x encodedInput)
      in bindr (bigNumberFrom x (JString idHash)) (\<lambda>n. toNumber (n mod modulus)))"

definition srrIdComputeInternalWithCID :: "ext \<Rightarrow> string \<Rightarrow> string \<Rightarrow> int \<Rightarrow> js_error + int" where
  "srrIdComputeInternalWithCID x artistAddress metadataCID modulus =
     (let idHash = solidityKeccak x [''string'', ''address''] [metadataCID, artistAddress]
      in bindr (bigNumberFrom x (JString idHash)) (\<lambda>n. toNumber (n mod modulus)))"

definition srrIdCompute :: "ext \<Rightarrow> string \<Rightarrow> string \<Rightarrow> js_error + int" where
  "srrIdCompute x artistAddress metadataDigest =
     srrIdComputeInternal x artistAddress metadataDigest ID_CAP"

definition srrIdV2Compute :: "ext \<Rightarrow> string \<Rightarrow> string \<Rightarrow> js_error + int" where
  "srrIdV2Compute x artistAddress metadataDigest =
     srrIdComputeInternal x artistAddress metadataDigest ID_CAP_V2"

definition srrIdV3Compute :: "ext \<Rightarrow> string \<Rightarrow> string \<Rightarrow> js_error + int" where
  "srrIdV3Compute x artistAddress metadataCID =
     srrIdComputeInternalWithCID x artistAddress metadataCID ID_CAP_V2"

text \<open>Remainders of the caps are exact numbers, so only the hash can fail.\<close>

lemma toNumber_mod:
  assumes "0 < m" and "m \<le> 2 ^ 53"
  shows "toNumber (n mod m) = Inr (n mod m)"
  using pos_mod_bound [OF assms(1), of n] pos_mod_sign [OF assms(1), of n] assms(2)
  by (simp add: toNumber_def)

lemma caps: "0 < ID_CAP" "ID_CAP \<le> 2 ^ 53" "0 < ID_CAP_V2" "ID_CAP_V2 \<le> 2 ^ 53"
  by (simp_all add: ID_CAP_def ID_CAP_V2_def power10_def)

section \<open>logger/index.ts\<close>

text \<open>The state is the flag \<open>silent\<close> and what the console has printed.\<close>

record logger =
  log_silent :: bool
  log_console :: "(string \<times> string list) list"

definition setSilent :: "bool \<Rightarrow> logger \<Rightarrow> logger" where
  "setSilent silent l = l\<lparr>log_silent := silent\<rparr>"

definition log_at :: "string \<Rightarrow> string list \<Rightarrow> logger \<Rightarrow> logger" where
  "log_at level data l =
     (if \<not> log_silent l then l\<lparr>log_console := log_console l @ [(level, data)]\<rparr> else l)"

definition log_info :: "string list \<Rightarrow> logger \<Rightarrow> logger" where
  "log_info data = log_at ''info'' data"

definition log_error :: "string list \<Rightarrow> logger \<Rightarrow> logger" where
  "log_error data = log_at ''error'' data"

definition log_warn :: "string list \<Rightarrow> logger \<Rightarrow> logger" where
  "log_warn data = log_at ''warn'' data"

end
