(* ===== verification/Scripts.thy ===== *)
theory Scripts
  imports Forwarder TxHelpers
begin

text \<open>
  What the deployment code of \<open>src/utils\<close> runs on: a state of JSON files and of a chain, scripts
  that throw after part of their effects have happened, and the hardhat environment.

  A script is a function from the state to a result and the state: an error keeps the effects
  before it, as an exception keeps the files that were written and the transactions that were
  sent. The chain (\<open>'c\<close>), hardhat and ethers are not part of this repository: they are the fields
  of \<open>hre\<close>.
\<close>

section \<open>Scripts\<close>

type_synonym ('s, 'a) act = "'s \<Rightarrow> (js_error + 'a) \<times> 's"

definition ret :: "'a \<Rightarrow> ('s, 'a) act" where
  "ret x = (\<lambda>s. (Inr x, s))"

definition throw :: "js_error \<Rightarrow> ('s, 'a) act" where
  "throw e = (\<lambda>s. (Inl e, s))"

definition andThen :: "('s, 'a) act \<Rightarrow> ('a \<Rightarrow> ('s, 'b) act) \<Rightarrow> ('s, 'b) act" where
  "andThen m f = (\<lambda>s. case m s of (Inl e, s') \<Rightarrow> (Inl e, s') | (Inr x, s') \<Rightarrow> f x s')"

definition from_result :: "js_error + 'a \<Rightarrow> ('s, 'a) act" where
  "from_result r = (\<lambda>s. (r, s))"

text \<open>\<open>for (const x of xs) await f(x)\<close>, and \<open>xs.map\<close> awaited element by element.\<close>

fun for_each :: "('a \<Rightarrow> ('s, unit) act) \<Rightarrow> 'a list \<Rightarrow> ('s, unit) act" where
  "for_each f [] = ret ()"
| "for_each f (x # xs) = andThen (f x) (\<lambda>_. for_each f xs)"

fun map_act :: "('a \<Rightarrow> ('s, 'b) act) \<Rightarrow> 'a list \<Rightarrow> ('s, 'b list) act" where
  "map_act f [] = ret []"
| "map_act f (x # xs) = andThen (f x) (\<lambda>y. andThen (map_act f xs) (\<lambda>ys. ret (y # ys)))"

lemma andThen_ret [simp]: "andThen (ret x) f = f x" "andThen m ret = m"
  by (auto simp: andThen_def ret_def split: prod.splits sum.splits)

lemma andThen_throw [simp]: "andThen (throw e) f = throw e"
  by (simp add: andThen_def throw_def)

lemma andThen_from_result [simp]:
  "andThen (from_result (Inr x)) f = f x" "andThen (from_result (Inl e)) f = throw e"
  by (auto simp: andThen_def from_result_def throw_def)

lemma andThen_assoc: "andThen (andThen m f) g = andThen m (\<lambda>x. andThen (f x) g)"
  by (auto simp: andThen_def fun_eq_iff split: prod.splits sum.splits)

lemma ret_run [simp]: "ret x s = (Inr x, s)"
  by (simp add: ret_def)

lemma throw_run [simp]: "throw e s = (Inl e, s)"
  by (simp add: throw_def)

lemma from_result_run [simp]: "from_result r s = (r, s)"
  by (simp add: from_result_def)

lemma andThen_Inr [simp]: "andThen m f s = (Inr y, s') \<longleftrightarrow> (\<exists>x t. m s = (Inr x, t) \<and> f x t = (Inr y, s'))"
  by (auto simp: andThen_def split: prod.splits sum.splits)

lemma andThen_run: "m s = (Inr x, t) \<Longrightarrow> andThen m f s = f x t"
  by (simp add: andThen_def)

lemma andThen_fail: "m s = (Inl e, t) \<Longrightarrow> andThen m f s = (Inl e, t)"
  by (simp add: andThen_def)

section \<open>What every run of a script keeps\<close>

text \<open>\<open>keeps R m\<close>: whether the script returns or throws, the final state is related to the initial
  one. \<open>R\<close> is reflexive and transitive, so scripts composed of keeping ones keep it.\<close>

definition keeps :: "('s \<Rightarrow> 's \<Rightarrow> bool) \<Rightarrow> ('s, 'a) act \<Rightarrow> bool" where
  "keeps R m \<longleftrightarrow> (\<forall>s. R s (snd (m s)))"

locale preserved =
  fixes R :: "'s \<Rightarrow> 's \<Rightarrow> bool"
  assumes refl: "R s s"
    and trans: "R s t \<Longrightarrow> R t u \<Longrightarrow> R s u"
begin

lemma keeps_pure: "keeps R (ret x)" "keeps R (throw e)" "keeps R (from_result r)"
  by (simp_all add: keeps_def refl)

lemma keeps_andThen:
  assumes "keeps R m" and "\<And>x. keeps R (f x)"
  shows "keeps R (andThen m f)"
  unfolding keeps_def
proof
  fix s
  obtain r t where m: "m s = (r, t)" by (cases "m s")
  then have "R s t" using assms(1) by (metis keeps_def snd_conv)
  moreover have "R t (snd (f x t))" for x using assms(2) by (simp add: keeps_def)
  ultimately show "R s (snd (andThen m f s))"
    using m trans by (cases r) (auto simp: andThen_def)
qed

lemma keeps_map_act: "(\<And>x. x \<in> set xs \<Longrightarrow> keeps R (f x)) \<Longrightarrow> keeps R (map_act f xs)"
  by (induction xs) (auto intro!: keeps_andThen keeps_pure)

lemma keeps_cases:
  "keeps R m \<Longrightarrow> keeps R n \<Longrightarrow> keeps R (if b then m else n)"
  "keeps R m \<Longrightarrow> (\<And>y. keeps R (g y)) \<Longrightarrow> keeps R (case v of None \<Rightarrow> m | Some y \<Rightarrow> g y)"
  "(\<And>a b. keeps R (h a b)) \<Longrightarrow> keeps R (case p of (a, b) \<Rightarrow> h a b)"
  "keeps R m \<Longrightarrow> (\<And>y ys. keeps R (k y ys)) \<Longrightarrow> keeps R (case l of [] \<Rightarrow> m | y # ys \<Rightarrow> k y ys)"
  by (simp_all split: option.split prod.split list.split)

lemma keeps_for_each: "(\<And>x. x \<in> set xs \<Longrightarrow> keeps R (f x)) \<Longrightarrow> keeps R (for_each f xs)"
  by (induction xs) (auto intro: keeps_andThen keeps_pure)

end

lemma keepsD: "keeps R m \<Longrightarrow> m s = (r, t) \<Longrightarrow> R s t"
  by (metis keeps_def snd_conv)

section \<open>The state and the environment\<close>

record 'c world =
  files :: "string \<Rightarrow> string obj option"
  chain :: 'c

text \<open>Actions on one part of the state.\<close>

definition on_chain :: "('c, 'a) act \<Rightarrow> ('c world, 'a) act" where
  "on_chain m = (\<lambda>w. case m (chain w) of (r, c) \<Rightarrow> (r, w\<lparr>chain := c\<rparr>))"

definition view_chain :: "('c \<Rightarrow> js_error + 'a) \<Rightarrow> ('c world, 'a) act" where
  "view_chain f = (\<lambda>w. (f (chain w), w))"

lemma view_chain_run [simp]: "view_chain f w = (f (chain w), w)"
  by (simp add: view_chain_def)

lemma on_chain_run: "m (chain w) = (r, c) \<Longrightarrow> on_chain m w = (r, w\<lparr>chain := c\<rparr>)"
  by (simp add: on_chain_def)

lemma on_chain_files [simp]: "files (snd (on_chain m w)) = files w"
  by (simp add: on_chain_def split: prod.split)

text \<open>A contract handle is the name of its ABI and its address. An argument that may be
  \<open>undefined\<close> is an option. \<open>tx_ok\<close> is the receipt's \<open>status\<close>.\<close>

record contract =
  ct_abi :: string
  ct_address :: string

record tx_receipt =
  tx_hash :: string
  tx_ok :: bool
  tx_topics :: "string list list"

text \<open>The logs of the receipt of a transaction.\<close>

definition receipt_logs :: "receipt \<Rightarrow> event_log list" where
  "receipt_logs r = map2 (\<lambda>d ts. \<lparr>log_data = d, log_topics = ts\<rparr>) (rc_data r) (rc_topics r)"

definition first_log :: "receipt \<Rightarrow> event_log option" where
  "first_log r = (case receipt_logs r of [] \<Rightarrow> None | l # _ \<Rightarrow> Some l)"

record lum_salts =
  salt_implementation :: string
  salt_proxy :: string

text \<open>The hardhat environment: configuration (\<open>process.cwd()\<close>, the network's name and chain id, the
  named accounts, salts and administrator owners of the configuration, the chain id of the provider), \<open>globSync\<close>, the
  interfaces of the compiled contracts, and the chain: deployments, transactions, views, code,
  signers and the Administrator's Safe.\<close>

record 'c hre =
  hre_cwd :: string
  hre_network :: string
  hre_chainId :: "int option"
  hre_deployerName :: "string option"
  hre_administratorName :: "string option"
  hre_salts :: lum_salts
  hre_owners :: "(string list \<times> int) option"
  hre_providerChainId :: int
  hre_glob :: "string \<Rightarrow> string list"
  hre_functions :: "string \<Rightarrow> string list"
  hre_sighash :: "string \<Rightarrow> string \<Rightarrow> js_error + string"
  hre_artifact :: "string \<Rightarrow> js_error + string"
  hre_encode :: "string \<Rightarrow> string \<Rightarrow> js_val option list \<Rightarrow> js_error + string"
  hre_bytecode :: "string \<Rightarrow> js_error + string"
  hre_abiEncode :: "string list \<Rightarrow> js_val option list \<Rightarrow> js_error + string"
  hre_create2 :: "string \<Rightarrow> string \<Rightarrow> string \<Rightarrow> string"
  hre_keccak :: "string \<Rightarrow> string"
  hre_contractAt :: "string \<Rightarrow> string option \<Rightarrow> js_error + contract"
  hre_deploy :: "string \<Rightarrow> string option obj \<Rightarrow> js_val option list \<Rightarrow> int option \<Rightarrow> ('c, contract) act"
  hre_send :: "contract \<Rightarrow> string \<Rightarrow> js_val option list \<Rightarrow> ('c, tx_receipt) act"
  hre_call :: "contract \<Rightarrow> string \<Rightarrow> js_val option list \<Rightarrow> 'c \<Rightarrow> js_error + js_val"
  hre_code :: "string option \<Rightarrow> 'c \<Rightarrow> js_error + string"
  hre_fund :: "string \<Rightarrow> string \<Rightarrow> ('c, unit) act"
  hre_sendRaw :: "string \<Rightarrow> ('c, string) act"
  hre_wait :: "string \<Rightarrow> int \<Rightarrow> 'c \<Rightarrow> js_error + receipt"
  hre_impersonate :: "string option \<Rightarrow> ('c, unit) act"
  hre_getSigner :: "string option \<Rightarrow> signer option"
  hre_signers :: "signer list"
  hre_safe :: "contract \<Rightarrow> contract \<Rightarrow> 'c \<Rightarrow> safe"
  hre_exec :: "contract \<Rightarrow> exec_props \<Rightarrow> int \<Rightarrow> ('c, unit) act"
  hre_decode :: "string \<Rightarrow> string \<Rightarrow> string \<Rightarrow> string list \<Rightarrow> js_error + js_val list"
  hre_parseLog :: "string \<Rightarrow> event_log \<Rightarrow> js_error + string"

end
