(* ===== verification/DeployJson.thy ===== *)
theory DeployJson
  imports Scripts
begin

text \<open>
  \<open>utils/deployment/deploy-json.ts\<close> and \<open>impl-json.js\<close>: the JSON files with the addresses of
  deployed contracts. The content of a file is an object of strings; parsing what was rendered
  gives it back. Updates merge new entries into the file of the network; the locale \<open>json_file\<close>
  states what an update promises. \<open>book_kept\<close> is what the releases after the first one keep: every name
  stays in its file, and only the addresses under the names of \<open>release_names\<close> are replaced.
\<close>

section \<open>deploy-json.ts\<close>

definition DEPLOY_FILE_NAME :: string where
  "DEPLOY_FILE_NAME = ''deploy.json''"

definition CONTRACT_INIT_CODE_HASH_FILE_NAME :: string where
  "CONTRACT_INIT_CODE_HASH_FILE_NAME = ''initCodeHash.json''"

definition jsonPath :: "'c hre \<Rightarrow> string \<Rightarrow> string" where
  "jsonPath hre fileName =
     join_str ''/'' [hre_cwd hre, ''deployments'', hre_network hre, fileName]"

definition loadJSON :: "'c hre \<Rightarrow> string \<Rightarrow> ('c world, string obj) act" where
  "loadJSON hre fileName =
     (\<lambda>w. (Inr (case files w (jsonPath hre fileName) of None \<Rightarrow> [] | Some json \<Rightarrow> json), w))"

definition loadDeployJSON :: "'c hre \<Rightarrow> ('c world, string obj) act" where
  "loadDeployJSON hre = loadJSON hre DEPLOY_FILE_NAME"

definition loadContractsInitCodeHashJSON :: "'c hre \<Rightarrow> ('c world, string obj) act" where
  "loadContractsInitCodeHashJSON hre = loadJSON hre CONTRACT_INIT_CODE_HASH_FILE_NAME"

definition saveJSON :: "'c hre \<Rightarrow> string obj \<Rightarrow> string \<Rightarrow> ('c world, string obj) act" where
  "saveJSON hre deployJSON fileName =
     (\<lambda>w. (Inr deployJSON, w\<lparr>files := (files w)(jsonPath hre fileName := Some deployJSON)\<rparr>))"

definition saveDeployJSON :: "'c hre \<Rightarrow> string obj \<Rightarrow> ('c world, string obj) act" where
  "saveDeployJSON hre deployJSON = saveJSON hre deployJSON DEPLOY_FILE_NAME"

definition saveContractsInitCodeHashJSON :: "'c hre \<Rightarrow> string obj \<Rightarrow> ('c world, string obj) act" where
  "saveContractsInitCodeHashJSON hre deployJSON =
     saveJSON hre deployJSON CONTRACT_INIT_CODE_HASH_FILE_NAME"

definition updateDeployJSON :: "'c hre \<Rightarrow> string obj \<Rightarrow> ('c world, string obj) act" where
  "updateDeployJSON hre contractAddresses =
     andThen (loadJSON hre DEPLOY_FILE_NAME) (\<lambda>deployJSON.
       saveJSON hre (obj_spread deployJSON contractAddresses) DEPLOY_FILE_NAME)"

text \<open>lodash's \<open>lowerFirst\<close>.\<close>

fun lowerFirst :: "string \<Rightarrow> string" where
  "lowerFirst [] = []"
| "lowerFirst (c # s) = lower_char c # s"

definition getProxyAddressByContractName :: "'c hre \<Rightarrow> string \<Rightarrow> ('c world, string option) act" where
  "getProxyAddressByContractName hre contractName =
     andThen (loadJSON hre DEPLOY_FILE_NAME) (\<lambda>deployJSON.
       ret (obj_get deployJSON (lowerFirst contractName @ ''ProxyAddress'')))"

definition updateContractsInitCodeHashJSON :: "'c hre \<Rightarrow> string obj \<Rightarrow> ('c world, string obj) act" where
  "updateContractsInitCodeHashJSON hre initCodeHashes =
     andThen (loadJSON hre CONTRACT_INIT_CODE_HASH_FILE_NAME) (\<lambda>deployJSON.
       saveJSON hre (obj_spread deployJSON initCodeHashes) CONTRACT_INIT_CODE_HASH_FILE_NAME)"

section \<open>impl-json.js\<close>

text \<open>Reading a file that does not exist throws.\<close>

definition implJSONPath :: "'c hre \<Rightarrow> string" where
  "implJSONPath hre = jsonPath hre ''impl.json''"

definition loadImplJSON :: "'c hre \<Rightarrow> ('c world, string obj) act" where
  "loadImplJSON hre =
     (\<lambda>w. (case files w (implJSONPath hre) of
             None \<Rightarrow> Inl (ThrownError (''ENOENT: no such file or directory, open '' @ implJSONPath hre))
           | Some json \<Rightarrow> Inr json, w))"

definition saveImplJSON :: "'c hre \<Rightarrow> string obj \<Rightarrow> ('c world, string obj) act" where
  "saveImplJSON hre implJSON =
     (\<lambda>w. (Inr implJSON, w\<lparr>files := (files w)(implJSONPath hre := Some implJSON)\<rparr>))"

definition updateImplJSON :: "'c hre \<Rightarrow> string obj \<Rightarrow> ('c world, string obj) act" where
  "updateImplJSON hre contractAddresses =
     andThen (loadImplJSON hre) (\<lambda>implJSON. saveImplJSON hre (obj_spread implJSON contractAddresses))"

section \<open>What an update promises\<close>

text \<open>The content of a file, empty when there is none.\<close>

definition content :: "'c world \<Rightarrow> string \<Rightarrow> string obj" where
  "content w path = (case files w path of None \<Rightarrow> [] | Some json \<Rightarrow> json)"

lemma content_write [simp]:
  "content (w\<lparr>files := (files w)(path := Some j)\<rparr>) p = (if p = path then j else content w p)"
  by (simp add: content_def)

lemma content_chain [simp]: "content (w\<lparr>chain := c\<rparr>) p = content w p"
  by (simp add: content_def)

locale json_file =
  fixes path :: string
    and update :: "string obj \<Rightarrow> ('c world, string obj) act"
    and ready :: "'c world \<Rightarrow> bool"
  assumes merges: "ready w \<Longrightarrow> update new w =
      (Inr (obj_spread (content w path) new),
       w\<lparr>files := (files w)(path := Some (obj_spread (content w path) new))\<rparr>)"
    and ready_kept: "ready w \<Longrightarrow> ready (w\<lparr>files := (files w)(path := Some j)\<rparr>)"
begin

lemma lookup_after_update:
  assumes "ready w" and "update new w = (r, w')" and "distinct (obj_keys new)"
  shows "obj_get (content w' path) k =
    (case obj_get new k of None \<Rightarrow> obj_get (content w path) k | Some v \<Rightarrow> Some v)"
  using merges [OF assms(1), of new] assms(2,3) by (auto simp: obj_get_spread_distinct)

lemma other_files_kept:
  assumes "ready w" and "update new w = (r, w')" and "p \<noteq> path"
  shows "files w' p = files w p" and "chain w' = chain w"
  using merges [OF assms(1), of new] assms(2,3) by auto

lemma update_twice:
  assumes "ready w" and "update new w = (r, w')" and "update new' w' = (r', w'')"
    and "distinct (obj_keys new)" and "distinct (obj_keys new')"
  shows "obj_get (content w'' path) k = (case obj_get new' k of
      None \<Rightarrow> (case obj_get new k of None \<Rightarrow> obj_get (content w path) k | Some v \<Rightarrow> Some v)
    | Some v \<Rightarrow> Some v)"
proof -
  have "ready w'" using merges [OF assms(1), of new] assms(2) ready_kept [OF assms(1)] by auto
  from lookup_after_update [OF this assms(3,5)] lookup_after_update [OF assms(1,2,4)]
  show ?thesis by (simp split: option.split)
qed

end

interpretation deployJson: json_file "jsonPath hre DEPLOY_FILE_NAME" "updateDeployJSON hre" "\<lambda>w. True"
  for hre :: "'c hre"
  by unfold_locales
    (simp_all add: updateDeployJSON_def loadJSON_def saveJSON_def andThen_def content_def)

interpretation initCodeHashJson: json_file "jsonPath hre CONTRACT_INIT_CODE_HASH_FILE_NAME"
    "updateContractsInitCodeHashJSON hre" "\<lambda>w. True"
  for hre :: "'c hre"
  by unfold_locales
    (simp_all add: updateContractsInitCodeHashJSON_def loadJSON_def saveJSON_def andThen_def content_def)

interpretation implJson: json_file "implJSONPath hre" "updateImplJSON hre"
    "\<lambda>w. files w (implJSONPath hre) \<noteq> None"
  for hre :: "'c hre"
  by unfold_locales
    (auto simp: updateImplJSON_def loadImplJSON_def saveImplJSON_def andThen_def content_def)

section \<open>What later releases keep\<close>

text \<open>The names whose addresses the releases after the first one write: the libraries, the contracts they
  introduce, the implementations, and the hash of the creation code of a collection.\<close>

definition release_names :: "string list" where
  "release_names =
     [''idGeneratorLibraryAddress'', ''openSeaMetaTransactionLibraryAddress'', ''startrailRegistryLibraryAddress'',
      ''bulkTransferProxyAddress'', ''bulkProxyAddress'', ''collectionFactoryProxyAddress'',
      ''startrailCollectionFeatureRegistryAddress'', ''collectionProxy'',
      ''startrailRegistryImplementationAddress'', ''bulkTransferImplementationAddress'',
      ''bulkImplementationAddress'', ''bulkIssueImplementationAddress'', ''metaTxForwarderImplementationAddress'',
      ''licensedUserManagerImplementationAddress'', ''collectionFactoryImplementationAddress'',
      ''collectionProxyImplementationAddress'']"

definition book_kept :: "'c world \<Rightarrow> 'c world \<Rightarrow> bool" where
  "book_kept w w' \<longleftrightarrow> (\<forall>p k. (k \<in> set (obj_keys (content w p)) \<longrightarrow> k \<in> set (obj_keys (content w' p))) \<and>
     (k \<notin> set release_names \<longrightarrow> obj_get (content w' p) k = obj_get (content w p) k))"

interpretation book: preserved book_kept
  by unfold_locales (auto simp: book_kept_def)

lemma keys_obj_spread: "set (obj_keys a) \<subseteq> set (obj_keys (obj_spread a b))"
proof (induction b arbitrary: a)
  case Nil
  then show ?case by simp
next
  case (Cons kv b)
  obtain k v where kv: "kv = (k, v)" by (cases kv)
  have "set (obj_keys a) \<subseteq> set (obj_keys (obj_set k v a))" by (auto simp: obj_keys_set)
  also have "\<dots> \<subseteq> set (obj_keys (obj_spread (obj_set k v a) b))" by (rule Cons.IH)
  finally show ?case using kv by simp
qed

named_theorems book_rules \<open>scripts that keep the names and the other addresses of all files\<close>

lemmas [book_rules] = book.keeps_pure book.keeps_andThen book.keeps_for_each
  book.keeps_map_act book.keeps_cases

lemma book_on_chain [book_rules]: "keeps book_kept (on_chain m)" "keeps book_kept (view_chain f)"
  by (simp_all add: keeps_def book_kept_def content_def)

lemma book_load [book_rules]:
  "keeps book_kept (loadJSON hre f)" "keeps book_kept (loadDeployJSON hre)"
  "keeps book_kept (loadImplJSON hre)" "keeps book_kept (loadContractsInitCodeHashJSON hre)"
  by (simp_all add: keeps_def book_kept_def loadJSON_def loadDeployJSON_def loadImplJSON_def
      loadContractsInitCodeHashJSON_def)

lemma get_obj_spread_other:
  assumes "k \<notin> set (obj_keys b)"
  shows "obj_get (obj_spread a b) k = obj_get a k"
  using assms obj_get_None_iff [of "rev b" k] by (simp add: obj_get_spread obj_keys_def)

lemma book_written:
  assumes "set (obj_keys new) \<subseteq> set release_names"
  shows "book_kept w (w\<lparr>files := (files w)(path := Some (obj_spread (content w path) new))\<rparr>)"
  using assms by (auto simp: book_kept_def intro: subsetD [OF keys_obj_spread] get_obj_spread_other)

lemma book_update:
  assumes "set (obj_keys new) \<subseteq> set release_names"
  shows "keeps book_kept (updateDeployJSON hre new)" "keeps book_kept (updateImplJSON hre new)"
    "keeps book_kept (updateContractsInitCodeHashJSON hre new)"
proof -
  show "keeps book_kept (updateDeployJSON hre new)" "keeps book_kept (updateContractsInitCodeHashJSON hre new)"
    by (simp_all add: keeps_def deployJson.merges initCodeHashJson.merges book_written [OF assms])
  have "book_kept w (snd (updateImplJSON hre new w))" for w
  proof (cases "files w (implJSONPath hre)")
    case None
    then show ?thesis by (simp add: updateImplJSON_def loadImplJSON_def andThen_def book.refl)
  next
    case (Some json)
    then show ?thesis by (simp add: implJson.merges book_written [OF assms])
  qed
  then show "keeps book_kept (updateImplJSON hre new)" by (simp add: keeps_def)
qed

text \<open>Every update of a release writes one entry.\<close>

lemma book_entry [book_rules]:
  assumes "k \<in> set release_names"
  shows "keeps book_kept (updateDeployJSON hre [(k, v)])" "keeps book_kept (updateImplJSON hre [(k, v)])"
    "keeps book_kept (updateContractsInitCodeHashJSON hre [(k, v)])"
  using assms book_update [of "[(k, v)]"] by (simp_all add: obj_keys_def)

lemma release_name [book_rules]:
  "''idGeneratorLibraryAddress'' \<in> set release_names" "''openSeaMetaTransactionLibraryAddress'' \<in> set release_names"
  "''startrailRegistryLibraryAddress'' \<in> set release_names" "''bulkTransferProxyAddress'' \<in> set release_names"
  "''bulkProxyAddress'' \<in> set release_names" "''collectionFactoryProxyAddress'' \<in> set release_names"
  "''startrailCollectionFeatureRegistryAddress'' \<in> set release_names" "''collectionProxy'' \<in> set release_names"
  "''startrailRegistryImplementationAddress'' \<in> set release_names" "''bulkTransferImplementationAddress'' \<in> set release_names"
  "''bulkImplementationAddress'' \<in> set release_names" "''bulkIssueImplementationAddress'' \<in> set release_names"
  "''metaTxForwarderImplementationAddress'' \<in> set release_names" "''licensedUserManagerImplementationAddress'' \<in> set release_names"
  "''collectionFactoryImplementationAddress'' \<in> set release_names" "''collectionProxyImplementationAddress'' \<in> set release_names"
  by (simp_all add: release_names_def)

lemma book_address [book_rules]: "keeps book_kept (getProxyAddressByContractName hre n)"
  unfolding getProxyAddressByContractName_def by (intro book_rules)

end
