(* ===== verification/Hardhat.thy ===== *)
theory Hardhat
  imports DeployJson
begin

text \<open>
  \<open>utils/hardhat-helpers.ts\<close> with \<open>utils/chain-ids.ts\<close>: which network the scripts run on, the names of
  the latest contract versions, contract handles from the deployed addresses, and the
  Administrator as the scripts use it. Digits of file names are compared as numbers; a path has
  fewer than 16 digits, so the numbers are exact.
\<close>

section \<open>Networks and signers\<close>

definition chainIds_polygon :: int where "chainIds_polygon = 137"
definition chainIds_amoy :: int where "chainIds_amoy = 80002"
definition chainIds_hardhat :: int where "chainIds_hardhat = 31337"
definition chainIds_ganache :: int where "chainIds_ganache = 5777"

definition isLiveNetwork :: "'c hre \<Rightarrow> bool" where
  "isLiveNetwork hre =
     (case hre_chainId hre of
        None \<Rightarrow> False
      | Some chainId \<Rightarrow> chainId \<noteq> 0 \<and> chainId \<noteq> chainIds_hardhat \<and> chainId \<noteq> chainIds_ganache)"

definition isLocalNetwork :: "'c hre \<Rightarrow> bool" where
  "isLocalNetwork hre \<longleftrightarrow> \<not> isLiveNetwork hre"

definition isForkMode :: "'c hre \<Rightarrow> bool" where
  "isForkMode hre = starts_with (hre_network hre) ''fork''"

definition impersonateForkedNetworkAccount :: "'c hre \<Rightarrow> string option \<Rightarrow> ('c world, unit) act" where
  "impersonateForkedNetworkAccount hre address = on_chain (hre_impersonate hre address)"

fun first_signer :: "signer list \<Rightarrow> signer option" where
  "first_signer [] = None"
| "first_signer (s # _) = Some s"

definition getDeployer :: "'c hre \<Rightarrow> ('c world, signer option) act" where
  "getDeployer hre =
     (if isForkMode hre
      then andThen (impersonateForkedNetworkAccount hre (hre_deployerName hre)) (\<lambda>_.
             ret (hre_getSigner hre (hre_deployerName hre)))
      else ret (first_signer (hre_signers hre)))"

text \<open>\<open>toLowerCase\<close> of a missing account throws.\<close>

definition getAdministratorSigner :: "'c hre \<Rightarrow> ('c world, signer option) act" where
  "getAdministratorSigner hre =
     (if isForkMode hre
      then case hre_administratorName hre of
             None \<Rightarrow> throw TypeError
           | Some name \<Rightarrow>
               (let adminAddress = toLowerCase name
                in andThen (impersonateForkedNetworkAccount hre (Some adminAddress)) (\<lambda>_.
                     ret (hre_getSigner hre (Some adminAddress))))
      else ret (first_signer (hre_signers hre)))"

section \<open>The Administrator of the scripts\<close>

record administrator =
  adm_signer :: "signer option"
  adm_contract :: contract
  adm_multiSendContract :: contract

text \<open>\<open>execTransaction\<close> of the library on the Safe of the current chain: the transaction is sent when
  its properties are signed, and waited for on the chain it leads to.\<close>

definition admin_safe :: "'c hre \<Rightarrow> administrator \<Rightarrow> 'c \<Rightarrow> safe" where
  "admin_safe hre admin = hre_safe hre (adm_contract admin) (adm_multiSendContract admin)"

definition gas_of :: "exec_request \<Rightarrow> int" where
  "gas_of req = (case er_gasLimit req of None \<Rightarrow> 500000 | Some g \<Rightarrow> g)"

definition request_props :: "ext \<Rightarrow> safe \<Rightarrow> signer \<Rightarrow> exec_request \<Rightarrow> js_error + exec_props" where
  "request_props x env own req =
     encodeAndSignExecTransactionRequest x env (er_to req) (er_data req) (er_nonce req)
       (case er_multiSend req of None \<Rightarrow> False | Some b \<Rightarrow> b)
       (case er_signer req of None \<Rightarrow> own | Some s \<Rightarrow> s)"

definition library_execTransaction ::
  "ext \<Rightarrow> 'c hre \<Rightarrow> administrator \<Rightarrow> exec_request \<Rightarrow> ('c, exec_result) act" where
  "library_execTransaction x hre admin req =
     (\<lambda>c. case adm_signer admin of
        None \<Rightarrow> (Inl TypeError, c)
      | Some own \<Rightarrow>
          (let env = admin_safe hre admin c
           in case request_props x env own req of
                Inl e \<Rightarrow> (Inl e, c)
              | Inr props \<Rightarrow>
                  (case hre_exec hre (adm_contract admin) props (gas_of req) c of
                     (Inl e, c') \<Rightarrow> (Inl e, c')
                   | (Inr _, c') \<Rightarrow>
                       (execTransaction x (env\<lparr>safe_wait := safe_wait (admin_safe hre admin c')\<rparr>) own req, c'))))"

definition getAdministratorInstance :: "'c hre \<Rightarrow> ('c world, administrator) act" where
  "getAdministratorInstance hre =
     andThen (loadDeployJSON hre) (\<lambda>deployJSON.
     andThen (getAdministratorSigner hre) (\<lambda>signer.
     andThen (from_result (hre_contractAt hre ''GnosisSafe''
                (obj_get deployJSON ''startrailAdministratorAddress''))) (\<lambda>safeContract.
     andThen (from_result (hre_contractAt hre ''MultiSend'' (obj_get deployJSON ''multiSendAddress'')))
       (\<lambda>multiSend.
       ret \<lparr>adm_signer = signer, adm_contract = safeContract, adm_multiSendContract = multiSend\<rparr>))))"

text \<open>The \<open>execTransaction\<close> that \<open>getAdministratorInstance\<close> installs: with a number of confirmations
  given, its body is skipped and it returns \<open>undefined\<close>.\<close>

definition adminExecTransaction ::
  "ext \<Rightarrow> 'c hre \<Rightarrow> administrator \<Rightarrow> exec_request \<Rightarrow> ('c world, exec_result option) act" where
  "adminExecTransaction x hre admin opts =
     (if er_numConfirmations opts = None \<or> er_numConfirmations opts = Some 0
      then andThen (on_chain (library_execTransaction x hre admin
               (opts\<lparr>er_numConfirmations := Some (if isLiveNetwork hre then 1 else 0)\<rparr>))) (\<lambda>result.
             ret (Some result))
      else ret None)"

text \<open>The options of a call, with the properties every caller gives.\<close>

definition exec_options :: "string \<Rightarrow> string \<Rightarrow> exec_request" where
  "exec_options to data =
     \<lparr>er_to = to, er_data = data, er_nonce = None, er_gasLimit = None, er_waitConfirmed = Some True,
      er_multiSend = None, er_numConfirmations = None, er_signer = None\<rparr>"

section \<open>Names of contract versions\<close>

definition isDigit :: "char \<Rightarrow> bool" where
  "isDigit c \<longleftrightarrow> 48 \<le> (of_char c :: nat) \<and> (of_char c :: nat) \<le> 57"

definition digits_value :: "string \<Rightarrow> int" where
  "digits_value s = foldl (\<lambda>a c. 10 * a + dec_value c) 0 s"

text \<open>\<open>parseInt\<close> of the digits, 0 when there are none.\<close>

definition pathNumber :: "string \<Rightarrow> int" where
  "pathNumber filename = digits_value (filter isDigit filename)"

definition compareByNumber :: "string \<Rightarrow> string \<Rightarrow> int" where
  "compareByNumber a b =
     (let a2 = pathNumber a; b2 = pathNumber b
      in if b2 < a2 then 1 else if a2 < b2 then - 1 else 0)"

definition sortByNumber :: "string list \<Rightarrow> string list" where
  "sortByNumber filenames = js_sort compareByNumber filenames"

definition basename :: "string \<Rightarrow> string" where
  "basename p = rev (takeWhile (\<lambda>c. c \<noteq> CHR ''/'') (rev p))"

text \<open>\<open>path.match(/.*\/(.*).sol/)[1]\<close> for a path that ends with .sol, as the paths of the glob do.\<close>

definition matchContractName :: "string \<Rightarrow> js_error + string" where
  "matchContractName p =
     (if CHR ''/'' \<in> set p \<and> 4 \<le> length (basename p) \<and> drop (length p - 4) p = ''.sol''
      then Inr (take (length (basename p) - 4) (basename p)) else Inl TypeError)"

definition getContractNameLatest :: "'c hre \<Rightarrow> string \<Rightarrow> js_error + string" where
  "getContractNameLatest hre contractName =
     (let vMatches = hre_glob hre (''contracts/**/'' @ contractName @ ''V*.sol'');
          sorted' = sortByNumber vMatches
      in if 0 < length sorted' then matchContractName (last sorted') else Inr contractName)"

text \<open>The length of a match of \<open>/V\d*.sol/\<close> at the start of a string: the digits are taken greedily
  and the last one is given back when the dot needs it.\<close>

definition versionMatch :: "string \<Rightarrow> nat option" where
  "versionMatch s =
     (case s of
        [] \<Rightarrow> None
      | c # r \<Rightarrow>
          (let ds = takeWhile isDigit r; t = dropWhile isDigit r
           in if c \<noteq> CHR ''V'' then None
              else if t \<noteq> [] \<and> starts_with (tl t) ''sol'' then Some (length ds + 5)
              else if ds \<noteq> [] \<and> starts_with t ''sol'' then Some (length ds + 4)
              else None))"

text \<open>\<open>s.replace(/V\d*.sol/, '')\<close>: the first match is removed.\<close>

fun removeVersion :: "string \<Rightarrow> string" where
  "removeVersion [] = []"
| "removeVersion (c # s) =
     (case versionMatch (c # s) of None \<Rightarrow> c # removeVersion s | Some n \<Rightarrow> drop n (c # s))"

definition getContractNamesUnversioned :: "'c hre \<Rightarrow> string \<Rightarrow> string list" where
  "getContractNamesUnversioned hre directory =
     (let vMatches = hre_glob hre (directory @ ''/*V*.sol'')
      in rev (remdups (rev (map (\<lambda>p. removeVersion (basename p)) vMatches))))"

definition featureContractsPath :: string where
  "featureContractsPath = ''contracts/collection/features''"

definition getLatestFeatureContractPaths :: "'c hre \<Rightarrow> js_error + string list" where
  "getLatestFeatureContractPaths hre =
     bindr (map_res (getContractNameLatest hre) (getContractNamesUnversioned hre featureContractsPath))
       (\<lambda>names. Inr (map (\<lambda>name. featureContractsPath @ ''/'' @ name @ ''.sol'') names))"

definition getCollectionFeatureContractPaths :: "'c hre \<Rightarrow> js_error + string list" where
  "getCollectionFeatureContractPaths hre =
     bindr (getLatestFeatureContractPaths hre) (\<lambda>paths.
       Inr (paths @
         [''contracts/collection/features/shared/LibERC2981RoyaltyEvents.sol'',
          ''contracts/collection/features/erc721/LibERC721Events.sol'',
          ''contracts/collection/features/shared/LibSRRCreate.sol'',
          ''contracts/collection/features/shared/LibSRRHistoryEvents.sol'',
          ''contracts/collection/features/shared/LibSRRMetadataEvents.sol'']))"

section \<open>Contract handles\<close>

definition deployJSONKey :: "string \<Rightarrow> string" where
  "deployJSONKey contractName =
     (if contractName = ''StartrailProxyAdmin'' then ''proxyAdminAddress''
      else if contractName = ''StartrailCollectionFeatureRegistry''
      then lowerFirst contractName @ ''Address''
      else lowerFirst contractName @ ''ProxyAddress'')"

definition getContract :: "'c hre \<Rightarrow> string \<Rightarrow> ('c world, contract) act" where
  "getContract hre contractName =
     andThen (loadDeployJSON hre) (\<lambda>deployJSON.
       let contractAddress = obj_get deployJSON (deployJSONKey contractName)
       in andThen (from_result (getContractNameLatest hre contractName)) (\<lambda>contractNameKey.
            from_result (hre_contractAt hre contractNameKey contractAddress)))"

text \<open>A factory is the name of its contract; libraries are linked when it deploys.\<close>

definition getContractFactory :: "'c hre \<Rightarrow> string \<Rightarrow> ('c world, string) act" where
  "getContractFactory hre contractName =
     andThen (from_result (getContractNameLatest hre contractName)) (\<lambda>name.
       from_result (hre_artifact hre name))"

definition waitTxHH :: "'c hre \<Rightarrow> string \<Rightarrow> int option \<Rightarrow> ('c world, receipt) act" where
  "waitTxHH hre txHash numConfirmations =
     (let n = (case numConfirmations of
                 None \<Rightarrow> (if isLiveNetwork hre then 1 else 0)
               | Some k \<Rightarrow> if k = 0 then (if isLiveNetwork hre then 1 else 0) else k)
      in view_chain (hre_wait hre txHash n))"

definition isContractDeployed :: "'c hre \<Rightarrow> string option \<Rightarrow> ('c world, bool) act" where
  "isContractDeployed hre address =
     view_chain (\<lambda>c. bindr (hre_code hre address c) (\<lambda>code. Inr (code \<noteq> ''0x'')))"

fun show_address :: "string option \<Rightarrow> string" where
  "show_address None = ''undefined''"
| "show_address (Some a) = a"

text \<open>The error of \<open>isContractDeployed\<close> is caught.\<close>

definition assertContractDeployed :: "'c hre \<Rightarrow> string \<Rightarrow> string option \<Rightarrow> ('c world, unit) act" where
  "assertContractDeployed hre name address =
     (\<lambda>w. case isContractDeployed hre address w of
        (r, w') \<Rightarrow>
          (let deployed = (case r of Inl _ \<Rightarrow> False | Inr d \<Rightarrow> d)
           in if \<not> deployed
              then (Inl (ThrownError (name @ '' not deployed at address ['' @ show_address address @ '']'')), w')
              else (Inr (), w')))"

definition assertContractNotDeployed :: "'c hre \<Rightarrow> string \<Rightarrow> string option \<Rightarrow> ('c world, unit) act" where
  "assertContractNotDeployed hre name address =
     andThen (isContractDeployed hre address) (\<lambda>deployed.
       if deployed then throw (ThrownError (name @ '' already deployed at '' @ show_address address))
       else ret ())"

definition parseLogsByContract :: "'c hre \<Rightarrow> event_log list \<Rightarrow> contract \<Rightarrow> string list" where
  "parseLogsByContract hre logs contract' =
     foldl (\<lambda>parsedLogs log. case hre_parseLog hre (ct_abi contract') log of
              Inl _ \<Rightarrow> parsedLogs | Inr parsedLog \<Rightarrow> parsedLogs @ [parsedLog]) [] logs"

definition parseLogs :: "'c hre \<Rightarrow> event_log list \<Rightarrow> ('c world, string list) act" where
  "parseLogs hre logs =
     andThen (getContract hre ''StartrailRegistry'') (\<lambda>sr.
     andThen (getContract hre ''LicensedUserManager'') (\<lambda>lum.
     andThen (getContract hre ''BulkIssue'') (\<lambda>bulk.
     andThen (getContract hre ''MetaTxForwarder'') (\<lambda>mtf.
       ret (parseLogsByContract hre logs sr @ parseLogsByContract hre logs lum @
            parseLogsByContract hre logs bulk @ parseLogsByContract hre logs mtf)))))"

definition decodeEventLog_hh :: "'c hre \<Rightarrow> contract \<Rightarrow> string \<Rightarrow> event_log \<Rightarrow> js_val list option" where
  "decodeEventLog_hh hre contract' eventName log =
     decodeEventLog (hre_decode hre (ct_abi contract')) eventName log"

definition upgradeFromAdmin ::
  "ext \<Rightarrow> 'c hre \<Rightarrow> string \<Rightarrow> string \<Rightarrow> ('c world, exec_result option) act" where
  "upgradeFromAdmin x hre proxy newImplementation =
     andThen (getContract hre ''StartrailProxyAdmin'') (\<lambda>startrailProxyAdmin.
     andThen (getAdministratorInstance hre) (\<lambda>administratorContract.
     andThen (from_result (hre_encode hre (ct_abi startrailProxyAdmin) ''upgrade''
                [Some (JString proxy), Some (JString newImplementation)])) (\<lambda>updateCalldata.
       adminExecTransaction x hre administratorContract
         (exec_options (ct_address startrailProxyAdmin) updateCalldata))))"

text \<open>With a number of confirmations given, no transaction is sent.\<close>

lemma confirmations_disable_execution:
  "er_numConfirmations opts = Some n \<Longrightarrow> n \<noteq> 0 \<Longrightarrow> adminExecTransaction x hre admin opts w = (Inr None, w)"
  by (simp add: adminExecTransaction_def)

end
