(* ===== verification/Features.thy ===== *)
theory Features
  imports Hardhat
begin

text \<open>
  \<open>utils/types.ts\<close>, \<open>utils/collection/feature-signatures.ts\<close>, \<open>feature-selectors.ts\<close>, \<open>types.ts\<close>,
  \<open>erc-interfaces.ts\<close> and \<open>utils.ts\<close>: the features of collections, the functions of every version,
  and the cuts that add, replace and remove their selectors in the FeatureRegistry, a diamond
  (EIP-2535). What a cut does on chain is a hypothesis, \<open>diamond_documented\<close>: the table of the
  diamond maps a selector to the contract that implements it.
\<close>

section \<open>Features and their functions\<close>

datatype feature =
    BulkFeature | ERC721Feature | ERC2981RoyaltyFeature | LockExternalTransferFeature
  | SRRFeature | SRRApproveTransferFeature | SRRMetadataFeature | SRRHistoryFeature

fun feature_name :: "feature \<Rightarrow> string" where
  "feature_name BulkFeature = ''BulkFeature''"
| "feature_name ERC721Feature = ''ERC721Feature''"
| "feature_name ERC2981RoyaltyFeature = ''ERC2981RoyaltyFeature''"
| "feature_name LockExternalTransferFeature = ''LockExternalTransferFeature''"
| "feature_name SRRFeature = ''SRRFeature''"
| "feature_name SRRApproveTransferFeature = ''SRRApproveTransferFeature''"
| "feature_name SRRMetadataFeature = ''SRRMetadataFeature''"
| "feature_name SRRHistoryFeature = ''SRRHistoryFeature''"

lemma feature_name_inj: "feature_name a = feature_name b \<Longrightarrow> a = b"
  by (cases a; cases b) simp_all

definition erc721CommonFuncSignatures :: "string list" where
  "erc721CommonFuncSignatures =
     [''__ERC721Feature_initialize(string,string)'',
      ''exists(uint256)'',
      ''transferFromWithProvenance(address,uint256,string,uint256,bool)'',
      ''balanceOf(address)'',
      ''ownerOf(uint256)'',
      ''safeTransferFrom(address,address,uint256)'',
      ''safeTransferFrom(address,address,uint256,bytes)'',
      ''transferFrom(address,address,uint256)'',
      ''approve(address,uint256)'',
      ''getApproved(uint256)'',
      ''setApprovalForAll(address,bool)'',
      ''isApprovedForAll(address,address)'',
      ''name()'',
      ''symbol()'']"

definition lockExternalTransferCommonFuncSignatures :: "string list" where
  "lockExternalTransferCommonFuncSignatures =
     [''setLockExternalTransfer(uint256,bool)'', ''getLockExternalTransfer(uint256)'']"

definition srrCommonFuncSignatures :: "string list" where
  "srrCommonFuncSignatures =
     [''createSRR(bool,address,string,bool,address,address,uint16)'',
      ''getSRR(uint256)'',
      ''updateSRR(uint256,bool,address)'']"

definition srrMetadataCommonFuncSignatures :: "string list" where
  "srrMetadataCommonFuncSignatures =
     [''updateSRRMetadata(uint256,string)'', ''getSRRMetadata(uint256)'', ''tokenURI(uint256)'']"

definition srrApproveTransferCommonFuncSignatures :: "string list" where
  "srrApproveTransferCommonFuncSignatures =
     [''approveSRRByCommitment(uint256,bytes32,string,uint256)'',
      ''approveSRRByCommitment(uint256,bytes32,string)'',
      ''cancelSRRCommitment(uint256)'',
      ''transferSRRByReveal(address,bytes32,uint256,bool)'',
      ''getSRRCommitment(uint256)'']"

definition srrHistoryCommonFuncSignatures :: "string list" where
  "srrHistoryCommonFuncSignatures = [''addHistory(uint256[],uint256[])'']"

definition erc2981RoyaltyCommonFuncSignatures :: "string list" where
  "erc2981RoyaltyCommonFuncSignatures =
     [''updateSRRRoyalty(uint256,address,uint16)'',
      ''updateSRRRoyaltyReceiverMulti(uint256[],address)'',
      ''getSRRRoyalty(uint256)'',
      ''royaltyInfo(uint256,uint256)'']"

definition bulkCommonFuncSignatures :: "string list" where
  "bulkCommonFuncSignatures =
     [''approveSRRByCommitmentFromBulk(address,uint256,bytes32,string,uint256)'',
      ''transferFromWithProvenanceFromBulk(address,address,uint256,string,uint256,bool)'']"

fun CollectionFunctionSignatures :: "feature \<Rightarrow> string list obj" where
  "CollectionFunctionSignatures ERC721Feature =
     [(''V01'', erc721CommonFuncSignatures), (''V02'', erc721CommonFuncSignatures),
      (''V03'', erc721CommonFuncSignatures), (''V04'', erc721CommonFuncSignatures),
      (''V05'', erc721CommonFuncSignatures)]"
| "CollectionFunctionSignatures LockExternalTransferFeature =
     [(''V01'', lockExternalTransferCommonFuncSignatures)]"
| "CollectionFunctionSignatures SRRFeature =
     [(''V01'', srrCommonFuncSignatures), (''V02'', srrCommonFuncSignatures)]"
| "CollectionFunctionSignatures SRRApproveTransferFeature =
     [(''V01'', srrApproveTransferCommonFuncSignatures @
         [''approveSRRByCommitmentFromBulk(uint256,bytes32,string,uint256)'']),
      (''V02'', srrApproveTransferCommonFuncSignatures),
      (''V03'', srrApproveTransferCommonFuncSignatures),
      (''V04'', srrApproveTransferCommonFuncSignatures)]"
| "CollectionFunctionSignatures SRRMetadataFeature = [(''V01'', srrMetadataCommonFuncSignatures)]"
| "CollectionFunctionSignatures SRRHistoryFeature = [(''V01'', srrHistoryCommonFuncSignatures)]"
| "CollectionFunctionSignatures ERC2981RoyaltyFeature = [(''V01'', erc2981RoyaltyCommonFuncSignatures)]"
| "CollectionFunctionSignatures BulkFeature =
     [(''V01'', bulkCommonFuncSignatures @
         [''createSRRFromBulk(bool,address,string,address,bool,address,uint16)'']),
      (''V02'', bulkCommonFuncSignatures @
         [''createSRRFromBulk(bool,address,string,address,bool,address,address,uint16)'']),
      (''V03'', bulkCommonFuncSignatures @
         [''createSRRFromBulk(bool,address,string,address,bool,address,address,uint16)'']),
      (''V04'', bulkCommonFuncSignatures @
         [''createSRRFromBulk(bool,address,string,address,bool,address,address,uint16)''])]"

section \<open>feature-selectors.ts\<close>

record startrail_feature =
  sf_name :: feature
  sf_version :: string

definition feature_contract :: "feature \<Rightarrow> string \<Rightarrow> string" where
  "feature_contract f v = feature_name f @ v"

definition feature_getSelectors ::
  "'c hre \<Rightarrow> startrail_feature \<Rightarrow> string list option \<Rightarrow> js_error + string list" where
  "feature_getSelectors hre f functionSignatures =
     bindr (hre_artifact hre (feature_contract (sf_name f) (sf_version f))) (\<lambda>contractInterface.
     bindr (defined_or_throw functionSignatures) (\<lambda>signatures.
       map_res (hre_sighash hre contractInterface) signatures))"

definition CollectionFeatureSelectors :: "'c hre \<Rightarrow> feature \<Rightarrow> string \<Rightarrow> js_error + string list" where
  "CollectionFeatureSelectors hre f version =
     feature_getSelectors hre \<lparr>sf_name = f, sf_version = version\<rparr>
       (obj_get (CollectionFunctionSignatures f) version)"

section \<open>Cuts\<close>

datatype facet_cut_action = Add | Replace | Remove

fun facet_cut_action_id :: "facet_cut_action \<Rightarrow> int" where
  "facet_cut_action_id Add = 0"
| "facet_cut_action_id Replace = 1"
| "facet_cut_action_id Remove = 2"

record facet_cut =
  cut_target :: string
  cut_action :: facet_cut_action
  cut_selectors :: "string list"

definition cut_value :: "facet_cut \<Rightarrow> js_val" where
  "cut_value fcut = JArray [JString (cut_target fcut), JNumber (facet_cut_action_id (cut_action fcut)),
     JArray (map JString (cut_selectors fcut))]"

definition diamondCut ::
  "'c hre \<Rightarrow> contract \<Rightarrow> facet_cut \<Rightarrow> string \<Rightarrow> string \<Rightarrow> ('c world, tx_receipt) act" where
  "diamondCut hre featureRegistry fcut target data =
     on_chain (hre_send hre featureRegistry ''diamondCut''
       [Some (JArray [cut_value fcut]), Some (JString target), Some (JString data)])"

definition registerSelectors ::
  "'c hre \<Rightarrow> contract \<Rightarrow> string \<Rightarrow> string list \<Rightarrow> string option \<Rightarrow> ('c world, unit) act" where
  "registerSelectors hre featureRegistry featureContractAddress functionSelectors initData =
     (let fcut = \<lparr>cut_target = featureContractAddress, cut_action = Add, cut_selectors = functionSelectors\<rparr>;
          given = (initData \<noteq> None \<and> initData \<noteq> Some [])
      in andThen (diamondCut hre featureRegistry fcut
                    (if given then cut_target fcut else AddressZero)
                    (if given then the initData else ''0x'')) (\<lambda>receipt.
           if \<not> tx_ok receipt
           then throw (ThrownError (''Register selectors tx failed: '' @ tx_hash receipt)) else ret ()))"

definition getSelectors :: "'c hre \<Rightarrow> contract \<Rightarrow> js_error + string list" where
  "getSelectors hre contract' =
     map_res (hre_sighash hre (ct_abi contract'))
       (filter (\<lambda>val. val \<noteq> ''supportsInterface(bytes4)'') (hre_functions hre (ct_abi contract')))"

definition replaceSelectors ::
  "'c hre \<Rightarrow> contract \<Rightarrow> string \<Rightarrow> string list \<Rightarrow> ('c world, unit) act" where
  "replaceSelectors hre featureRegistry featureContractAddress functionSelectors =
     (let fcut = \<lparr>cut_target = featureContractAddress, cut_action = Replace, cut_selectors = functionSelectors\<rparr>
      in andThen (diamondCut hre featureRegistry fcut AddressZero ''0x'') (\<lambda>receipt.
           if \<not> tx_ok receipt
           then throw (ThrownError (''Replace selectors tx failed: '' @ tx_hash receipt)) else ret ()))"

definition removeSelectors :: "'c hre \<Rightarrow> contract \<Rightarrow> string list \<Rightarrow> ('c world, unit) act" where
  "removeSelectors hre featureRegistry functionSelectors =
     (let fcut = \<lparr>cut_target = AddressZero, cut_action = Remove, cut_selectors = functionSelectors\<rparr>
      in andThen (diamondCut hre featureRegistry fcut AddressZero ''0x'') (\<lambda>receipt.
           if \<not> tx_ok receipt
           then throw (ThrownError (''Remove selectors tx failed: '' @ tx_hash receipt)) else ret ()))"

section \<open>Deploying and upgrading a feature\<close>

definition deployFeature ::
  "'c hre \<Rightarrow> contract \<Rightarrow> startrail_feature \<Rightarrow> string list \<Rightarrow> string option \<Rightarrow> string option obj
     \<Rightarrow> ('c world, contract) act" where
  "deployFeature hre featureRegistry f supportedInterfaceIds initData linkLibraries =
     (let contractName = feature_contract (sf_name f) (sf_version f)
      in andThen (getContractFactory hre contractName) (\<lambda>featureFactory.
         let gasLimit = (if hre_network hre = ''polygon'' then Some 29000000 else None)
         in andThen (on_chain (hre_deploy hre featureFactory linkLibraries [] gasLimit)) (\<lambda>featureContract.
            andThen (from_result (getSelectors hre featureContract)) (\<lambda>selectors.
            andThen (registerSelectors hre featureRegistry (ct_address featureContract) selectors initData) (\<lambda>_.
            andThen (for_each (\<lambda>interfaceId. andThen (on_chain (hre_send hre featureRegistry
                        ''setSupportedInterface'' [Some (JString interfaceId), Some (JBool True)])) (\<lambda>_. ret ()))
                      supportedInterfaceIds) (\<lambda>_.
              ret featureContract))))))"

text \<open>\<open>Array.from(new Set(xs))\<close>.\<close>

definition uniq :: "'a list \<Rightarrow> 'a list" where
  "uniq xs = rev (remdups (rev xs))"

lemma set_uniq [simp]: "set (uniq xs) = set xs"
  by (simp add: uniq_def)

lemma distinct_uniq [simp]: "distinct (uniq xs)"
  by (simp add: uniq_def)

definition commonSelectors :: "string list \<Rightarrow> string list \<Rightarrow> string list" where
  "commonSelectors fromSelectors toSelectors =
     filter (\<lambda>item. item \<in> set toSelectors) (uniq fromSelectors)"

definition legacySelectors :: "string list \<Rightarrow> string list \<Rightarrow> string list" where
  "legacySelectors fromSelectors toSelectors =
     filter (\<lambda>item. item \<notin> set toSelectors) (uniq fromSelectors)"

definition newSelectors :: "string list \<Rightarrow> string list \<Rightarrow> string list" where
  "newSelectors fromSelectors toSelectors =
     filter (\<lambda>item. item \<notin> set fromSelectors) (uniq toSelectors)"

definition upgradeFeature ::
  "'c hre \<Rightarrow> feature \<Rightarrow> string \<Rightarrow> string \<Rightarrow> string option obj \<Rightarrow> ('c world, contract) act" where
  "upgradeFeature hre featureName versionFrom versionTo linkLibraries =
     (let toContractName = feature_contract featureName versionTo
      in andThen (getContract hre ''StartrailCollectionFeatureRegistry'') (\<lambda>featureRegistry.
         andThen (getContractFactory hre toContractName) (\<lambda>featureFactory.
         andThen (on_chain (hre_deploy hre featureFactory linkLibraries [] None)) (\<lambda>deployed.
         andThen (from_result (CollectionFeatureSelectors hre featureName versionFrom)) (\<lambda>fromSelectors.
         andThen (from_result (getSelectors hre deployed)) (\<lambda>toSelectors.
           let common = commonSelectors fromSelectors toSelectors;
               legacy = legacySelectors fromSelectors toSelectors;
               new = newSelectors fromSelectors toSelectors
           in andThen (if new \<noteq> [] then registerSelectors hre featureRegistry (ct_address deployed) new None
                       else ret ()) (\<lambda>_.
              andThen (if common \<noteq> [] then replaceSelectors hre featureRegistry (ct_address deployed) common
                       else ret ()) (\<lambda>_.
              andThen (if legacy \<noteq> [] then removeSelectors hre featureRegistry legacy
                       else ret ()) (\<lambda>_.
                ret deployed)))))))))"

end
