(* ===== verification/Diamond.thy ===== *)
theory Diamond
  imports Features
begin

text \<open>
  What the upgrade of a feature means: the table of the FeatureRegistry from selectors to
  contracts (\<open>routing\<close>), what EIP-2535 documents of a cut of it (\<open>apply_cut\<close>), and the refinement:
  an upgrade sends the three cuts of \<open>upgradeFeature\<close>, and its effect is one update of the table.
\<close>

section \<open>Cuts of a table of selectors\<close>

type_synonym routing = "string \<Rightarrow> string option"

fun cut_step :: "facet_cut_action \<Rightarrow> string \<Rightarrow> string \<Rightarrow> routing \<Rightarrow> routing option" where
  "cut_step Add t s r = (if r s = None then Some (r(s := Some t)) else None)"
| "cut_step Replace t s r = (if r s = None \<or> r s = Some t then None else Some (r(s := Some t)))"
| "cut_step Remove t s r = (if r s = None then None else Some (r(s := None)))"

fun cut_all :: "facet_cut_action \<Rightarrow> string \<Rightarrow> string list \<Rightarrow> routing \<Rightarrow> routing option" where
  "cut_all act t [] r = Some r"
| "cut_all act t (s # ss) r = (case cut_step act t s r of None \<Rightarrow> None | Some r' \<Rightarrow> cut_all act t ss r')"

definition apply_cut :: "facet_cut \<Rightarrow> routing \<Rightarrow> routing option" where
  "apply_cut k r = cut_all (cut_action k) (cut_target k) (cut_selectors k) r"

lemma cut_all_uniform:
  assumes "\<And>s r. P (r s) \<Longrightarrow> cut_step act t s r = Some (r(s := v))"
  shows "distinct ss \<Longrightarrow> \<forall>s \<in> set ss. P (r s) \<Longrightarrow>
    cut_all act t ss r = Some (\<lambda>s. if s \<in> set ss then v else r s)"
proof (induction ss arbitrary: r)
  case Nil
  then show ?case by simp
next
  case (Cons a ss)
  have "cut_all act t (a # ss) r = cut_all act t ss (r(a := v))"
    using assms [of r a] Cons.prems by simp
  also have "\<dots> = Some (\<lambda>s. if s \<in> set ss then v else (r(a := v)) s)"
    using Cons.prems by (intro Cons.IH) auto
  also have "(\<lambda>s. if s \<in> set ss then v else (r(a := v)) s) = (\<lambda>s. if s \<in> set (a # ss) then v else r s)"
    by (auto simp: fun_eq_iff)
  finally show ?case .
qed

lemma cut_all_Add:
  "distinct ss \<Longrightarrow> \<forall>s \<in> set ss. r s = None \<Longrightarrow>
   cut_all Add t ss r = Some (\<lambda>s. if s \<in> set ss then Some t else r s)"
  by (rule cut_all_uniform [where P = "\<lambda>v. v = None"]) simp_all

lemma cut_all_Replace:
  "distinct ss \<Longrightarrow> \<forall>s \<in> set ss. r s \<noteq> None \<and> r s \<noteq> Some t \<Longrightarrow>
   cut_all Replace t ss r = Some (\<lambda>s. if s \<in> set ss then Some t else r s)"
  by (rule cut_all_uniform [where P = "\<lambda>v. v \<noteq> None \<and> v \<noteq> Some t"]) simp_all

lemma cut_all_Remove:
  "distinct ss \<Longrightarrow> \<forall>s \<in> set ss. r s \<noteq> None \<Longrightarrow>
   cut_all Remove t ss r = Some (\<lambda>s. if s \<in> set ss then None else r s)"
  by (rule cut_all_uniform [where P = "\<lambda>v. v \<noteq> None"]) simp_all

text \<open>The registry behaves as EIP-2535 documents: a cut without an initialiser that applies to the
  table is carried out, one that does not reverts; deploying contracts leaves the table alone.\<close>

definition cut_args :: "facet_cut \<Rightarrow> js_val option list" where
  "cut_args k = [Some (JArray [cut_value k]), Some (JString AddressZero), Some (JString ''0x'')]"

definition diamond_documented :: "'c hre \<Rightarrow> contract \<Rightarrow> ('c \<Rightarrow> routing) \<Rightarrow> bool" where
  "diamond_documented hre registry routes \<longleftrightarrow>
     (\<forall>k c. cut_selectors k \<noteq> [] \<longrightarrow>
        (case apply_cut k (routes c) of
           None \<Rightarrow> \<exists>e c'. hre_send hre registry ''diamondCut'' (cut_args k) c = (Inl e, c') \<and> routes c' = routes c
         | Some r \<Rightarrow> \<exists>rc c'. hre_send hre registry ''diamondCut'' (cut_args k) c = (Inr rc, c') \<and>
             tx_ok rc \<and> routes c' = r)) \<and>
     (\<forall>n libs args gas c. routes (snd (hre_deploy hre n libs args gas c)) = routes c)"

lemma diamond_cut_applied:
  assumes "diamond_documented hre reg routes" and "cut_selectors k \<noteq> []"
    and "apply_cut k (routes (chain w)) = Some r"
  shows "\<exists>rc w'. diamondCut hre reg k AddressZero ''0x'' w = (Inr rc, w') \<and> tx_ok rc \<and>
    routes (chain w') = r \<and> files w' = files w"
proof -
  have "case apply_cut k (routes (chain w)) of
      None \<Rightarrow> \<exists>e c'. hre_send hre reg ''diamondCut'' (cut_args k) (chain w) = (Inl e, c') \<and>
        routes c' = routes (chain w)
    | Some r \<Rightarrow> \<exists>rc c'. hre_send hre reg ''diamondCut'' (cut_args k) (chain w) = (Inr rc, c') \<and>
        tx_ok rc \<and> routes c' = r"
    using assms(1,2) unfolding diamond_documented_def by blast
  then obtain rc c' where "hre_send hre reg ''diamondCut'' (cut_args k) (chain w) = (Inr rc, c')"
      "tx_ok rc" "routes c' = r"
    unfolding assms(3) option.case by blast
  then show ?thesis by (simp add: diamondCut_def on_chain_def cut_args_def)
qed

lemma deploy_routes:
  assumes "diamond_documented hre reg routes" and "hre_deploy hre n libs args gas c = (r, c')"
  shows "routes c' = routes c"
proof -
  have "routes (snd (hre_deploy hre n libs args gas c)) = routes c"
    using assms(1) unfolding diamond_documented_def by blast
  then show ?thesis using assms(2) by simp
qed

section \<open>The three kinds of cuts\<close>

lemma registerSelectors_applied:
  assumes "diamond_documented hre reg routes" and "ss \<noteq> []" and "distinct ss"
    and "\<forall>s \<in> set ss. routes (chain w) s = None"
  shows "\<exists>w'. registerSelectors hre reg a ss None w = (Inr (), w') \<and> files w' = files w \<and>
    routes (chain w') = (\<lambda>s. if s \<in> set ss then Some a else routes (chain w) s)"
proof -
  let ?k = "\<lparr>cut_target = a, cut_action = Add, cut_selectors = ss\<rparr>"
  have "apply_cut ?k (routes (chain w)) = Some (\<lambda>s. if s \<in> set ss then Some a else routes (chain w) s)"
    using cut_all_Add [OF assms(3,4)] by (simp add: apply_cut_def)
  from diamond_cut_applied [OF assms(1) _ this] assms(2)
  obtain rc w' where "diamondCut hre reg ?k AddressZero ''0x'' w = (Inr rc, w')" "tx_ok rc"
      "routes (chain w') = (\<lambda>s. if s \<in> set ss then Some a else routes (chain w) s)" "files w' = files w"
    by auto
  then show ?thesis by (simp add: registerSelectors_def Let_def andThen_run)
qed

lemma replaceSelectors_applied:
  assumes "diamond_documented hre reg routes" and "ss \<noteq> []" and "distinct ss"
    and "\<forall>s \<in> set ss. routes (chain w) s \<noteq> None \<and> routes (chain w) s \<noteq> Some a"
  shows "\<exists>w'. replaceSelectors hre reg a ss w = (Inr (), w') \<and> files w' = files w \<and>
    routes (chain w') = (\<lambda>s. if s \<in> set ss then Some a else routes (chain w) s)"
proof -
  let ?k = "\<lparr>cut_target = a, cut_action = Replace, cut_selectors = ss\<rparr>"
  have "apply_cut ?k (routes (chain w)) = Some (\<lambda>s. if s \<in> set ss then Some a else routes (chain w) s)"
    using cut_all_Replace [OF assms(3,4)] by (simp add: apply_cut_def)
  from diamond_cut_applied [OF assms(1) _ this] assms(2)
  obtain rc w' where "diamondCut hre reg ?k AddressZero ''0x'' w = (Inr rc, w')" "tx_ok rc"
      "routes (chain w') = (\<lambda>s. if s \<in> set ss then Some a else routes (chain w) s)" "files w' = files w"
    by auto
  then show ?thesis by (simp add: replaceSelectors_def Let_def andThen_run)
qed

lemma removeSelectors_applied:
  assumes "diamond_documented hre reg routes" and "ss \<noteq> []" and "distinct ss"
    and "\<forall>s \<in> set ss. routes (chain w) s \<noteq> None"
  shows "\<exists>w'. removeSelectors hre reg ss w = (Inr (), w') \<and> files w' = files w \<and>
    routes (chain w') = (\<lambda>s. if s \<in> set ss then None else routes (chain w) s)"
proof -
  let ?k = "\<lparr>cut_target = AddressZero, cut_action = Remove, cut_selectors = ss\<rparr>"
  have "apply_cut ?k (routes (chain w)) = Some (\<lambda>s. if s \<in> set ss then None else routes (chain w) s)"
    using cut_all_Remove [OF assms(3,4)] by (simp add: apply_cut_def)
  from diamond_cut_applied [OF assms(1) _ this] assms(2)
  obtain rc w' where "diamondCut hre reg ?k AddressZero ''0x'' w = (Inr rc, w')" "tx_ok rc"
      "routes (chain w') = (\<lambda>s. if s \<in> set ss then None else routes (chain w) s)" "files w' = files w"
    by auto
  then show ?thesis by (simp add: removeSelectors_def Let_def andThen_run)
qed

text \<open>The guarded calls of \<open>upgradeFeature\<close> and \<open>deployFeature\<close>: an empty cut is not sent.\<close>

lemma registerSelectors_maybe:
  assumes "diamond_documented hre reg routes" and "distinct ss"
    and "\<forall>s \<in> set ss. routes (chain w) s = None"
  shows "\<exists>w'. (if ss \<noteq> [] then registerSelectors hre reg a ss None else ret ()) w = (Inr (), w') \<and>
    files w' = files w \<and> routes (chain w') = (\<lambda>s. if s \<in> set ss then Some a else routes (chain w) s)"
  using registerSelectors_applied [OF assms(1) _ assms(2,3)] by (cases "ss = []") simp_all

lemma replaceSelectors_maybe:
  assumes "diamond_documented hre reg routes" and "distinct ss"
    and "\<forall>s \<in> set ss. routes (chain w) s \<noteq> None \<and> routes (chain w) s \<noteq> Some a"
  shows "\<exists>w'. (if ss \<noteq> [] then replaceSelectors hre reg a ss else ret ()) w = (Inr (), w') \<and>
    files w' = files w \<and> routes (chain w') = (\<lambda>s. if s \<in> set ss then Some a else routes (chain w) s)"
  using replaceSelectors_applied [OF assms(1) _ assms(2,3)] by (cases "ss = []") simp_all

lemma removeSelectors_maybe:
  assumes "diamond_documented hre reg routes" and "distinct ss"
    and "\<forall>s \<in> set ss. routes (chain w) s \<noteq> None"
  shows "\<exists>w'. (if ss \<noteq> [] then removeSelectors hre reg ss else ret ()) w = (Inr (), w') \<and>
    files w' = files w \<and> routes (chain w') = (\<lambda>s. if s \<in> set ss then None else routes (chain w) s)"
  using removeSelectors_applied [OF assms(1) _ assms(2,3)] by (cases "ss = []") simp_all

section \<open>The upgrade\<close>

lemma selector_sets:
  "set (commonSelectors fs ts) = set fs \<inter> set ts" "distinct (commonSelectors fs ts)"
  "set (legacySelectors fs ts) = set fs - set ts" "distinct (legacySelectors fs ts)"
  "set (newSelectors fs ts) = set ts - set fs" "distinct (newSelectors fs ts)"
  by (auto simp: commonSelectors_def legacySelectors_def newSelectors_def)

definition upgraded :: "string list \<Rightarrow> string list \<Rightarrow> string \<Rightarrow> routing \<Rightarrow> routing" where
  "upgraded fs ts a r = (\<lambda>s. if s \<in> set ts then Some a else if s \<in> set fs then None else r s)"

lemma upgradeFeature_applied:
  assumes doc: "diamond_documented hre reg routes"
    and reg: "getContract hre ''StartrailCollectionFeatureRegistry'' w = (Inr reg, w)"
    and fac: "getContractFactory hre (feature_contract f v2) w = (Inr fac, w)"
    and dep: "hre_deploy hre fac libs [] None (chain w) = (Inr d, c)"
    and sel: "CollectionFeatureSelectors hre f v1 = Inr fs" "getSelectors hre d = Inr ts"
    and old: "\<forall>s \<in> set fs. routes (chain w) s \<noteq> None \<and> routes (chain w) s \<noteq> Some (ct_address d)"
    and new: "\<forall>s \<in> set ts - set fs. routes (chain w) s = None"
  shows "\<exists>w'. upgradeFeature hre f v1 v2 libs w = (Inr d, w') \<and> files w' = files w \<and>
    routes (chain w') = upgraded fs ts (ct_address d) (routes (chain w))"
proof -
  let ?w = "w\<lparr>chain := c\<rparr>" and ?a = "ct_address d"
  have "routes c = routes (chain w)" by (rule deploy_routes [OF doc dep])
  then have frame: "routes (chain ?w) = routes (chain w)" "files ?w = files w" by simp_all
  obtain w1 where w1: "(if newSelectors fs ts \<noteq> [] then registerSelectors hre reg ?a (newSelectors fs ts) None
        else ret ()) ?w = (Inr (), w1)" "files w1 = files w"
      "routes (chain w1) = (\<lambda>s. if s \<in> set ts - set fs then Some ?a else routes (chain w) s)"
    using registerSelectors_maybe [OF doc selector_sets(6), where w = ?w and fs1 = fs and ts1 = ts and a = ?a,
        unfolded frame selector_sets] new by blast
  obtain w2 where w2: "(if commonSelectors fs ts \<noteq> [] then replaceSelectors hre reg ?a (commonSelectors fs ts)
        else ret ()) w1 = (Inr (), w2)" "files w2 = files w"
      "routes (chain w2) = (\<lambda>s. if s \<in> set ts then Some ?a else routes (chain w) s)"
    using replaceSelectors_maybe [OF doc selector_sets(2), where w = w1 and fs1 = fs and ts1 = ts and a = ?a]
      old w1 by (auto simp: selector_sets fun_eq_iff)
  obtain w3 where w3: "(if legacySelectors fs ts \<noteq> [] then removeSelectors hre reg (legacySelectors fs ts)
        else ret ()) w2 = (Inr (), w3)" "files w3 = files w"
      "routes (chain w3) = upgraded fs ts ?a (routes (chain w))"
    using removeSelectors_maybe [OF doc selector_sets(4), where w = w2 and fs1 = fs and ts1 = ts]
      old w2 by (auto simp: selector_sets upgraded_def fun_eq_iff)
  have "upgradeFeature hre f v1 v2 libs w = (Inr d, w3)"
    unfolding upgradeFeature_def Let_def andThen_Inr
    using reg fac on_chain_run [of "hre_deploy hre fac libs [] None" w, OF dep] sel w1(1) w2(1) w3(1)
    by (intro exI conjI) (assumption | simp)+
  then show ?thesis using w3 by blast
qed

section \<open>Deploying a feature\<close>

lemma deployFeature_applied:
  assumes doc: "diamond_documented hre reg routes"
    and fac: "getContractFactory hre (feature_contract (sf_name f) (sf_version f)) w = (Inr fac, w)"
    and dep: "hre_deploy hre fac libs [] (if hre_network hre = ''polygon'' then Some 29000000 else None)
        (chain w) = (Inr d, c)"
    and sel: "getSelectors hre d = Inr ss" "ss \<noteq> []" "distinct ss"
    and new: "\<forall>s \<in> set ss. routes (chain w) s = None"
  shows "\<exists>w'. deployFeature hre reg f [] None libs w = (Inr d, w') \<and> files w' = files w \<and>
    routes (chain w') = (\<lambda>s. if s \<in> set ss then Some (ct_address d) else routes (chain w) s)"
proof -
  let ?w = "w\<lparr>chain := c\<rparr>"
  have "routes c = routes (chain w)" by (rule deploy_routes [OF doc dep])
  then have frame: "routes (chain ?w) = routes (chain w)" "files ?w = files w" by simp_all
  obtain w' where w': "registerSelectors hre reg (ct_address d) ss None ?w = (Inr (), w')" "files w' = files w"
      "routes (chain w') = (\<lambda>s. if s \<in> set ss then Some (ct_address d) else routes (chain w) s)"
    using registerSelectors_applied [OF doc sel(2,3), where w = ?w and a = "ct_address d", unfolded frame] new
    by blast
  have "deployFeature hre reg f [] None libs w = (Inr d, w')"
    unfolding deployFeature_def Let_def andThen_Inr
    using fac on_chain_run [of "hre_deploy hre fac libs []
        (if hre_network hre = ''polygon'' then Some 29000000 else None)" w, OF dep] sel(1) w'(1)
    by (intro exI conjI) (assumption | simp)+
  then show ?thesis using w' by blast
qed

section \<open>The functions of the features\<close>

definition all_features :: "feature list" where
  "all_features =
     [BulkFeature, ERC721Feature, ERC2981RoyaltyFeature, LockExternalTransferFeature, SRRFeature,
      SRRApproveTransferFeature, SRRMetadataFeature, SRRHistoryFeature]"

lemma all_features: "f \<in> set all_features"
  by (cases f) (simp_all add: all_features_def)

definition feature_functions :: "feature \<Rightarrow> string list" where
  "feature_functions f = concat (map snd (CollectionFunctionSignatures f))"

text \<open>Every function once, over the versions of a feature.\<close>

fun own_functions :: "feature \<Rightarrow> string list" where
  "own_functions ERC721Feature = erc721CommonFuncSignatures"
| "own_functions LockExternalTransferFeature = lockExternalTransferCommonFuncSignatures"
| "own_functions SRRFeature = srrCommonFuncSignatures"
| "own_functions SRRApproveTransferFeature =
     srrApproveTransferCommonFuncSignatures @ [''approveSRRByCommitmentFromBulk(uint256,bytes32,string,uint256)'']"
| "own_functions SRRMetadataFeature = srrMetadataCommonFuncSignatures"
| "own_functions SRRHistoryFeature = srrHistoryCommonFuncSignatures"
| "own_functions ERC2981RoyaltyFeature = erc2981RoyaltyCommonFuncSignatures"
| "own_functions BulkFeature = bulkCommonFuncSignatures @
     [''createSRRFromBulk(bool,address,string,address,bool,address,uint16)'',
      ''createSRRFromBulk(bool,address,string,address,bool,address,address,uint16)'']"

lemma set_feature_functions: "set (feature_functions f) = set (own_functions f)"
  by (cases f) (auto simp: feature_functions_def)

lemma own_functions_distinct: "distinct (concat (map own_functions all_features))"
  by code_simp

lemma distinct_concat_disjoint:
  "distinct (concat (map g xs)) \<Longrightarrow> a \<in> set xs \<Longrightarrow> b \<in> set xs \<Longrightarrow> a \<noteq> b \<Longrightarrow> set (g a) \<inter> set (g b) = {}"
  by (induction xs) auto

lemma feature_functions_disjoint: "f \<noteq> g \<Longrightarrow> set (feature_functions f) \<inter> set (feature_functions g) = {}"
  unfolding set_feature_functions
  by (rule distinct_concat_disjoint [OF own_functions_distinct all_features all_features])

lemma versions_distinct:
  "list_all (\<lambda>f. list_all (\<lambda>(v, ss). distinct ss \<and> ss \<noteq> []) (CollectionFunctionSignatures f)) all_features"
  by code_simp

lemma version_distinct:
  "(v, ss) \<in> set (CollectionFunctionSignatures f) \<Longrightarrow> distinct ss \<and> ss \<noteq> []"
  using versions_distinct all_features [of f] unfolding list_all_iff by fastforce

lemma version_functions:
  "obj_get (CollectionFunctionSignatures f) v = Some ss \<Longrightarrow> (v, ss) \<in> set (CollectionFunctionSignatures f)"
  by (auto simp: obj_get_def dest: map_of_SomeD)

lemma map_res_total: "(\<And>x. f x = Inr (g x)) \<Longrightarrow> map_res f xs = Inr (map g xs)"
  by (induction xs) simp_all

text \<open>The selectors of a version whose artifact exists, when signatures have selectors.\<close>

lemma version_selectors:
  assumes "\<And>n sig. hre_sighash hre n sig = Inr (sel sig)"
    and "hre_artifact hre (feature_contract f v) = Inr i"
    and "obj_get (CollectionFunctionSignatures f) v = Some ss"
  shows "CollectionFeatureSelectors hre f v = Inr (map sel ss)"
  using assms by (simp add: CollectionFeatureSelectors_def feature_getSelectors_def map_res_total)

lemma contract_selectors:
  assumes "\<And>n sig. hre_sighash hre n sig = Inr (sel sig)"
  shows "getSelectors hre d = Inr (map sel (filter (\<lambda>s. s \<noteq> ''supportsInterface(bytes4)'')
    (hre_functions hre (ct_abi d))))"
  using assms by (simp add: getSelectors_def map_res_total)

definition fromBulkV01 :: string where
  "fromBulkV01 = ''approveSRRByCommitmentFromBulk(uint256,bytes32,string,uint256)''"

lemma approve_versions:
  "obj_get (CollectionFunctionSignatures SRRApproveTransferFeature) ''V01'' =
     Some (srrApproveTransferCommonFuncSignatures @ [fromBulkV01])"
  "obj_get (CollectionFunctionSignatures SRRApproveTransferFeature) ''V02'' =
     Some srrApproveTransferCommonFuncSignatures"
  "fromBulkV01 \<notin> set srrApproveTransferCommonFuncSignatures"
  "''supportsInterface(bytes4)'' \<notin> set srrApproveTransferCommonFuncSignatures"
  by (simp_all add: obj_get_def fromBulkV01_def srrApproveTransferCommonFuncSignatures_def)

end
