(* ===== verification/CollectionsCore.thy ===== *)
theory CollectionsCore
  imports Diamond
begin

text \<open>
  \<open>utils/collection/deployment-actions.ts\<close>: how every feature is deployed and upgraded, the
  deployment of the core contracts of collections, and the hash of the init code of the
  collection proxies.
\<close>

section \<open>erc-interfaces.ts\<close>

definition ercInterfaces_ERC721 :: string where "ercInterfaces_ERC721 = ''0x80ac58cd''"
definition ercInterfaces_ERC721Metadata :: string where "ercInterfaces_ERC721Metadata = ''0x5b5e139f''"
definition ercInterfaces_ERC2981 :: string where "ercInterfaces_ERC2981 = ''0x2a55205a''"

section \<open>Deploying a feature\<close>

definition deployERC721Feature :: "'c hre \<Rightarrow> contract \<Rightarrow> string \<Rightarrow> ('c world, contract) act" where
  "deployERC721Feature hre featureRegistry version =
     (let contractName = feature_contract ERC721Feature version
      in andThen (getContractFactory hre contractName) (\<lambda>featureFactory.
         andThen (from_result (hre_encode hre featureFactory ''__ERC721Feature_initialize(string,string)''
                    [Some (JString ''IMPLEMENTATION_ONLY''), Some (JString ''IMPL'')])) (\<lambda>initData.
           deployFeature hre featureRegistry \<lparr>sf_name = ERC721Feature, sf_version = version\<rparr>
             [ercInterfaces_ERC721, ercInterfaces_ERC721Metadata] (Some initData) [])))"

definition deployLockExternalTransferFeature :: "'c hre \<Rightarrow> contract \<Rightarrow> string \<Rightarrow> ('c world, contract) act" where
  "deployLockExternalTransferFeature hre featureRegistry version =
     deployFeature hre featureRegistry \<lparr>sf_name = LockExternalTransferFeature, sf_version = version\<rparr> [] None []"

text \<open>The libraries of the features that generate token identifiers.\<close>

definition idGenerator_library :: "'c hre \<Rightarrow> ('c world, string option obj) act" where
  "idGenerator_library hre =
     andThen (loadDeployJSON hre) (\<lambda>deployJSON.
       ret [(''IDGeneratorV3'', obj_get deployJSON ''idGeneratorLibraryAddress'')])"

definition deploySRRFeature :: "'c hre \<Rightarrow> contract \<Rightarrow> string \<Rightarrow> ('c world, contract) act" where
  "deploySRRFeature hre featureRegistry version =
     andThen (idGenerator_library hre) (\<lambda>linkLibraries.
       deployFeature hre featureRegistry \<lparr>sf_name = SRRFeature, sf_version = version\<rparr> [] None linkLibraries)"

definition deploySRRApproveTransferFeature :: "'c hre \<Rightarrow> contract \<Rightarrow> string \<Rightarrow> ('c world, contract) act" where
  "deploySRRApproveTransferFeature hre featureRegistry version =
     deployFeature hre featureRegistry \<lparr>sf_name = SRRApproveTransferFeature, sf_version = version\<rparr> [] None []"

definition deploySRRMetadataFeature :: "'c hre \<Rightarrow> contract \<Rightarrow> string \<Rightarrow> ('c world, contract) act" where
  "deploySRRMetadataFeature hre featureRegistry version =
     deployFeature hre featureRegistry \<lparr>sf_name = SRRMetadataFeature, sf_version = version\<rparr> [] None []"

definition deploySRRHistoryFeature :: "'c hre \<Rightarrow> contract \<Rightarrow> string \<Rightarrow> ('c world, contract) act" where
  "deploySRRHistoryFeature hre featureRegistry version =
     deployFeature hre featureRegistry \<lparr>sf_name = SRRHistoryFeature, sf_version = version\<rparr> [] None []"

definition deployERC2981RoyaltyFeature :: "'c hre \<Rightarrow> contract \<Rightarrow> string \<Rightarrow> ('c world, contract) act" where
  "deployERC2981RoyaltyFeature hre featureRegistry version =
     deployFeature hre featureRegistry \<lparr>sf_name = ERC2981RoyaltyFeature, sf_version = version\<rparr>
       [ercInterfaces_ERC2981] None []"

definition deployBulkFeature :: "'c hre \<Rightarrow> contract \<Rightarrow> string \<Rightarrow> ('c world, contract) act" where
  "deployBulkFeature hre featureRegistry version =
     andThen (idGenerator_library hre) (\<lambda>linkLibraries.
       deployFeature hre featureRegistry \<lparr>sf_name = BulkFeature, sf_version = version\<rparr> [] None linkLibraries)"

text \<open>The switch over the features; every feature has a case, so its default is never reached.\<close>

fun deployFeatureContract :: "'c hre \<Rightarrow> contract \<Rightarrow> feature \<Rightarrow> string \<Rightarrow> ('c world, contract) act" where
  "deployFeatureContract hre featureRegistry BulkFeature version = deployBulkFeature hre featureRegistry version"
| "deployFeatureContract hre featureRegistry ERC2981RoyaltyFeature version =
     deployERC2981RoyaltyFeature hre featureRegistry version"
| "deployFeatureContract hre featureRegistry ERC721Feature version = deployERC721Feature hre featureRegistry version"
| "deployFeatureContract hre featureRegistry LockExternalTransferFeature version =
     deployLockExternalTransferFeature hre featureRegistry version"
| "deployFeatureContract hre featureRegistry SRRApproveTransferFeature version =
     deploySRRApproveTransferFeature hre featureRegistry version"
| "deployFeatureContract hre featureRegistry SRRFeature version = deploySRRFeature hre featureRegistry version"
| "deployFeatureContract hre featureRegistry SRRHistoryFeature version =
     deploySRRHistoryFeature hre featureRegistry version"
| "deployFeatureContract hre featureRegistry SRRMetadataFeature version =
     deploySRRMetadataFeature hre featureRegistry version"

section \<open>Upgrading a feature\<close>

record upgrade_version =
  uv_from :: string
  uv_to :: string

definition upgradeERC721Feature :: "'c hre \<Rightarrow> upgrade_version \<Rightarrow> ('c world, contract) act" where
  "upgradeERC721Feature hre v = upgradeFeature hre ERC721Feature (uv_from v) (uv_to v) []"

definition upgradeSRRFeature :: "'c hre \<Rightarrow> upgrade_version \<Rightarrow> ('c world, contract) act" where
  "upgradeSRRFeature hre v =
     andThen (idGenerator_library hre) (\<lambda>linkLibraries.
       upgradeFeature hre SRRFeature (uv_from v) (uv_to v) linkLibraries)"

definition upgradeERC2981RoyaltyFeature :: "'c hre \<Rightarrow> upgrade_version \<Rightarrow> ('c world, contract) act" where
  "upgradeERC2981RoyaltyFeature hre v = upgradeFeature hre ERC2981RoyaltyFeature (uv_from v) (uv_to v) []"

definition upgradeSRRMetadataFeature :: "'c hre \<Rightarrow> upgrade_version \<Rightarrow> ('c world, contract) act" where
  "upgradeSRRMetadataFeature hre v = upgradeFeature hre SRRMetadataFeature (uv_from v) (uv_to v) []"

definition upgradeSRRApproveTransferFeature :: "'c hre \<Rightarrow> upgrade_version \<Rightarrow> ('c world, contract) act" where
  "upgradeSRRApproveTransferFeature hre v =
     upgradeFeature hre SRRApproveTransferFeature (uv_from v) (uv_to v) []"

definition upgradeLockExternalTransferFeature :: "'c hre \<Rightarrow> upgrade_version \<Rightarrow> ('c world, contract) act" where
  "upgradeLockExternalTransferFeature hre v =
     upgradeFeature hre LockExternalTransferFeature (uv_from v) (uv_to v) []"

definition upgradeSRRHistoryFeature :: "'c hre \<Rightarrow> upgrade_version \<Rightarrow> ('c world, contract) act" where
  "upgradeSRRHistoryFeature hre v = upgradeFeature hre SRRHistoryFeature (uv_from v) (uv_to v) []"

definition upgradeBulkFeature :: "'c hre \<Rightarrow> upgrade_version \<Rightarrow> ('c world, contract) act" where
  "upgradeBulkFeature hre v =
     andThen (idGenerator_library hre) (\<lambda>linkLibraries.
       upgradeFeature hre BulkFeature (uv_from v) (uv_to v) linkLibraries)"

fun upgradeFeatureContract :: "'c hre \<Rightarrow> feature \<Rightarrow> upgrade_version \<Rightarrow> ('c world, contract) act" where
  "upgradeFeatureContract hre BulkFeature v = upgradeBulkFeature hre v"
| "upgradeFeatureContract hre ERC2981RoyaltyFeature v = upgradeERC2981RoyaltyFeature hre v"
| "upgradeFeatureContract hre ERC721Feature v = upgradeERC721Feature hre v"
| "upgradeFeatureContract hre LockExternalTransferFeature v = upgradeLockExternalTransferFeature hre v"
| "upgradeFeatureContract hre SRRApproveTransferFeature v = upgradeSRRApproveTransferFeature hre v"
| "upgradeFeatureContract hre SRRFeature v = upgradeSRRFeature hre v"
| "upgradeFeatureContract hre SRRHistoryFeature v = upgradeSRRHistoryFeature hre v"
| "upgradeFeatureContract hre SRRMetadataFeature v = upgradeSRRMetadataFeature hre v"

section \<open>The core contracts\<close>

definition MINIMAL_PROXY_INIT_CODE_PREFIX :: string where
  "MINIMAL_PROXY_INIT_CODE_PREFIX = ''0x3d602d80600a3d3981f3363d3d373d3d3d363d73''"

definition MINIMAL_PROXY_INIT_CODE_SUFFIX :: string where
  "MINIMAL_PROXY_INIT_CODE_SUFFIX = ''0x5af43d82803e903d91602b57fd5bf3''"

definition computeCollectionProxyInitCodeHash :: "ext \<Rightarrow> string \<Rightarrow> string" where
  "computeCollectionProxyInitCodeHash x collectionProxyImplementationAddress =
     (let encodedInput = stripHexPrefix x MINIMAL_PROXY_INIT_CODE_PREFIX @
            stripHexPrefix x collectionProxyImplementationAddress @
            stripHexPrefix x MINIMAL_PROXY_INIT_CODE_SUFFIX
      in keccakHex x (bufferFromHex x encodedInput))"

definition setCollectionRegistryOnCollectionFactory ::
  "ext \<Rightarrow> 'c hre \<Rightarrow> contract \<Rightarrow> contract \<Rightarrow> ('c world, unit) act" where
  "setCollectionRegistryOnCollectionFactory x hre cf metaTxForwarder =
     andThen (view_chain (hre_call hre cf ''collectionRegistry'' [])) (\<lambda>crAddress.
     andThen (getAdministratorInstance hre) (\<lambda>adminContract.
     andThen (from_result (hre_encode hre (ct_abi metaTxForwarder) ''setCollectionRegistry'' [Some crAddress]))
       (\<lambda>setCREncoded.
     andThen (adminExecTransaction x hre adminContract
                (exec_options (ct_address metaTxForwarder) setCREncoded)) (\<lambda>_.
     andThen (view_chain (hre_call hre metaTxForwarder ''collectionRegistry'' [])) (\<lambda>registered.
       if crAddress \<noteq> registered
       then throw (ThrownError ''MetaTxForwarder.setCollectionRegistry failed'') else ret ())))))"

text \<open>A proxy is deployed by the upgrades plugin with its constructor arguments; its transaction's
  first log has the address of the implementation as its second topic, padded to 32 bytes.\<close>

definition logged_implementation :: "tx_receipt \<Rightarrow> js_error + string" where
  "logged_implementation receipt =
     (case tx_topics receipt of
        (_ # topic # _) # _ \<Rightarrow> Inr (''0x'' @ drop (2 + 24) topic)
      | _ \<Rightarrow> Inl TypeError)"

record core_contracts =
  cc_featureRegistry :: contract
  cc_collectionFactory :: contract

definition deployCoreFeatures :: "'c hre \<Rightarrow> contract \<Rightarrow> ('c world, unit) act" where
  "deployCoreFeatures hre featureRegistry =
     for_each (\<lambda>f. andThen (deployFeatureContract hre featureRegistry f ''V01'') (\<lambda>_. ret ()))
       [ERC721Feature, LockExternalTransferFeature, SRRFeature, SRRApproveTransferFeature,
        ERC2981RoyaltyFeature, SRRMetadataFeature, SRRHistoryFeature]"

text \<open>\<open>deployUups\<close> is \<open>upgrades.deployProxy\<close> with the receipt of its transaction.\<close>

definition deployCollectionsCore ::
  "ext \<Rightarrow> (string \<Rightarrow> js_val option list \<Rightarrow> ('c, contract \<times> tx_receipt) act) \<Rightarrow> (string \<Rightarrow> string) \<Rightarrow> 'c hre
     \<Rightarrow> string option \<Rightarrow> ('c world, core_contracts) act" where
  "deployCollectionsCore x deployUups getAddress hre trustedForwarder =
     andThen (getContract hre ''MetaTxForwarder'') (\<lambda>metaTxForwarder.
     andThen (from_result (hre_artifact hre ''StartrailCollectionFeatureRegistry'')) (\<lambda>frFactory.
     andThen (loadDeployJSON hre) (\<lambda>deployJSON1.
     let forwarder = (case trustedForwarder of
           None \<Rightarrow> ct_address metaTxForwarder
         | Some t \<Rightarrow> if t \<noteq> [] then t else ct_address metaTxForwarder)
     in andThen (on_chain (hre_deploy hre frFactory [] [Some (JString forwarder),
          map_option JString (obj_get deployJSON1 ''nameRegistryProxyAddress'')] None)) (\<lambda>featureRegistry.
     andThen (updateDeployJSON hre
        [(''startrailCollectionFeatureRegistryAddress'', ct_address featureRegistry)]) (\<lambda>_.
     andThen (from_result (hre_artifact hre ''CollectionProxy'')) (\<lambda>cpFactory.
     andThen (on_chain (hre_deploy hre cpFactory [] [] None)) (\<lambda>cpImpl.
     andThen (on_chain (hre_send hre cpImpl ''__CollectionProxy_initialize''
        [Some (JString ''0x0000000000000000000000000000000000000001'')])) (\<lambda>_.
     andThen (getContractFactory hre ''CollectionFactory'') (\<lambda>cfFactory.
     andThen (on_chain (deployUups cfFactory
        [Some (JString (ct_address featureRegistry)), Some (JString (ct_address cpImpl))])) (\<lambda>(cf, txReceipt).
     andThen (from_result (logged_implementation txReceipt)) (\<lambda>implTopic.
     let cfImplAddress = getAddress implTopic
     in andThen (updateDeployJSON hre [(''collectionFactoryProxyAddress'', ct_address cf)]) (\<lambda>_.
     andThen (updateImplJSON hre [(''collectionFactoryImplementationAddress'', cfImplAddress)]) (\<lambda>_.
     andThen (updateImplJSON hre [(''collectionProxyImplementationAddress'', ct_address cpImpl)]) (\<lambda>_.
     andThen (loadDeployJSON hre) (\<lambda>deployJSON2.
     andThen (on_chain (hre_send hre cf ''transferOwnership''
        [map_option JString (obj_get deployJSON2 ''startrailAdministratorAddress'')])) (\<lambda>_.
     andThen (setCollectionRegistryOnCollectionFactory x hre cf metaTxForwarder) (\<lambda>_.
     andThen (deployCoreFeatures hre featureRegistry) (\<lambda>_.
     andThen (updateContractsInitCodeHashJSON hre
        [(''collectionProxy'', computeCollectionProxyInitCodeHash x (ct_address cpImpl))]) (\<lambda>_.
       ret \<lparr>cc_featureRegistry = featureRegistry, cc_collectionFactory = cf\<rparr>)))))))))))))))))))"

end
