(* ===== verification/RequestRegistration.thy ===== *)
theory RequestRegistration
  imports Hardhat
begin

text \<open>
  \<open>utils/register-request-types.ts\<close>: the Administrator registers the types of meta-transaction
  requests with the MetaTxForwarder, several of them in one MultiSend transaction, and
  unregisters types one after the other.
\<close>

definition buildRegisterRequestTypeInputProps ::
  "meta_tx_request obj \<Rightarrow> string \<Rightarrow> string option \<Rightarrow> js_error + js_val option list" where
  "buildRegisterRequestTypeInputProps requests typeKey destinationContractAddr =
     bindr (defined_or_throw (obj_get requests typeKey)) (\<lambda>metaTxRequest.
       Inr [Some (JString typeKey), Some (JString (suffixTypeString metaTxRequest)),
            map_option JString destinationContractAddr, Some (JString (functionSelector metaTxRequest))])"

definition getDestinationAddress ::
  "'c hre \<Rightarrow> meta_tx_request obj \<Rightarrow> string \<Rightarrow> ('c world, string option) act" where
  "getDestinationAddress hre requests typeKey =
     andThen (from_result (defined_or_throw (obj_get requests typeKey))) (\<lambda>metaTxRequest.
       if destinationAddressProvided metaTxRequest then ret (Some AddressZero)
       else getProxyAddressByContractName hre (destinationContract metaTxRequest))"

text \<open>The calldata that registers one request type.\<close>

definition registerCalldata ::
  "'c hre \<Rightarrow> meta_tx_request obj \<Rightarrow> contract \<Rightarrow> string \<Rightarrow> ('c world, string) act" where
  "registerCalldata hre requests mtfContract typeKey =
     andThen (getDestinationAddress hre requests typeKey) (\<lambda>destination.
     andThen (from_result (buildRegisterRequestTypeInputProps requests typeKey destination)) (\<lambda>props.
       from_result (hre_encode hre (ct_abi mtfContract) ''registerRequestType'' props)))"

text \<open>\<open>to\<close> is undefined in a MultiSend and not used; the calldata of an empty list is undefined, which
  cannot be encoded.\<close>

definition registerRequestTypesCallByAdmin ::
  "ext \<Rightarrow> 'c hre \<Rightarrow> contract \<Rightarrow> string list \<Rightarrow> int \<Rightarrow> ('c world, unit) act" where
  "registerRequestTypesCallByAdmin x hre mtfContract requestTypes gasLimit =
     andThen (from_result (metaTxRequests x)) (\<lambda>requests.
     andThen (map_act (registerCalldata hre requests mtfContract) requestTypes) (\<lambda>requestCalldataList.
     andThen (getAdministratorInstance hre) (\<lambda>adminContract.
       if 1 < length requestCalldataList
       then let multiSendEncoded = encodeMultiSendTransactionsSingleDestination x CALL
                  (ct_address mtfContract) requestCalldataList
            in andThen (adminExecTransaction x hre adminContract
                 ((exec_options [] multiSendEncoded)
                    \<lparr>er_multiSend := Some True, er_gasLimit := Some gasLimit\<rparr>)) (\<lambda>_. ret ())
       else case requestCalldataList of
              [] \<Rightarrow> throw TypeError
            | calldata # _ \<Rightarrow> andThen (adminExecTransaction x hre adminContract
                 ((exec_options (ct_address mtfContract) calldata)\<lparr>er_gasLimit := Some gasLimit\<rparr>))
                 (\<lambda>_. ret ()))))"

definition registerRequestTypes :: "ext \<Rightarrow> 'c hre \<Rightarrow> string list \<Rightarrow> ('c world, unit) act" where
  "registerRequestTypes x hre requestTypes =
     andThen (getContract hre ''MetaTxForwarder'') (\<lambda>mtfContract.
       registerRequestTypesCallByAdmin x hre mtfContract requestTypes 1500000)"

definition genesisSet :: "string list" where
  "genesisSet =
     [''WalletAddOwner'', ''WalletRemoveOwner'', ''WalletChangeThreshold'', ''WalletSwapOwner'',
      ''WalletSetEnglishName'', ''WalletSetOriginalName'', ''StartrailRegistryUpdateSRR'',
      ''StartrailRegistryUpdateSRRMetadata'', ''StartrailRegistryApproveSRRByCommitment'',
      ''StartrailRegistryApproveSRRByCommitmentWithCustomHistoryId'',
      ''StartrailRegistryCancelSRRCommitment'', ''BulkIssueSendBatch'']"

definition registerRequestTypesGenesisSet :: "ext \<Rightarrow> 'c hre \<Rightarrow> ('c world, unit) act" where
  "registerRequestTypesGenesisSet x hre = registerRequestTypes x hre genesisSet"

definition unregisterRequestTypeCallByAdmin :: "ext \<Rightarrow> 'c hre \<Rightarrow> string \<Rightarrow> ('c world, unit) act" where
  "unregisterRequestTypeCallByAdmin x hre requestType =
     andThen (getContract hre ''MetaTxForwarder'') (\<lambda>mtfContract.
     andThen (from_result (hre_encode hre (ct_abi mtfContract) ''unregisterRequestType''
                [Some (JString requestType)])) (\<lambda>requestCalldata.
     andThen (getAdministratorInstance hre) (\<lambda>adminContract.
     andThen (adminExecTransaction x hre adminContract
                (exec_options (ct_address mtfContract) requestCalldata)) (\<lambda>_. ret ()))))"

definition unregisterRequestTypesCallByAdmin :: "ext \<Rightarrow> 'c hre \<Rightarrow> string list \<Rightarrow> ('c world, unit) act" where
  "unregisterRequestTypesCallByAdmin x hre requestTypeHashes =
     for_each (unregisterRequestTypeCallByAdmin x hre) requestTypeHashes"

section \<open>One call per request type\<close>

lemma genesisSet_registered: "list_all (\<lambda>k. k \<in> set registry_names) genesisSet"
  by code_simp

lemma single_destination_txs:
  "encodeMultiSendTransactionsSingleDestination x op (toHex a) (map toHex ds) =
   encodeMultiSendTransactions x (map tx_of (map (\<lambda>d. (op, a, d)) ds))"
  by (simp add: encodeMultiSendTransactionsSingleDestination_def tx_of_def comp_def)

lemma length_map_act: "map_act f xs s = (Inr ys, t) \<Longrightarrow> length ys = length xs"
  by (induction xs arbitrary: s ys t) auto

lemma single_destination_read:
  assumes "strip_documented x" and "pack_documented x" and "buffer_documented x"
    and "length a = 20" and "list_all (\<lambda>d. length d < 2 ^ 256) ds"
  shows "\<exists>packed. encodeMultiSendTransactionsSingleDestination x CALL (toHex a) (map toHex ds) = toHex packed \<and>
    multi_send_loop packed = Some (map (\<lambda>d. (0, a, 0, d)) ds)"
proof -
  let ?txs = "map (\<lambda>d. (CALL, a, d)) ds" and ?ptxs = "map (\<lambda>d. (0 :: int, a, d)) ds"
  have "\<forall>(op, a, d) \<in> set ?txs. length a = 20" using assms(4) by auto
  from encodeMultiSend_packed [OF assms(1-3) this]
  have "encodeMultiSendTransactionsSingleDestination x CALL (toHex a) (map toHex ds) =
      toHex (concat (map (\<lambda>(op, a, d). pack_tx op a d) ?ptxs))"
    unfolding single_destination_txs by (simp add: comp_def)
  moreover have "\<forall>(op, a, d) \<in> set ?ptxs. length a = 20 \<and> op \<in> {0, 1} \<and> length d < 2 ^ 256"
    using assms(4,5) by (auto simp: list_all_iff)
  from multi_send_loop_concat [OF this]
  have "multi_send_loop (concat (map (\<lambda>(op, a, d). pack_tx op a d) ?ptxs)) = Some (map (\<lambda>d. (0, a, 0, d)) ds)"
    by (simp add: comp_def)
  ultimately show ?thesis by blast
qed

lemma registration_multi_send:
  assumes "metaTxRequests x = Inr requests"
    and "map_act (registerCalldata hre requests mtf) keys w = (Inr calls, w)" and "1 < length keys"
  shows "registerRequestTypesCallByAdmin x hre mtf keys gasLimit w =
    andThen (getAdministratorInstance hre) (\<lambda>admin. andThen (adminExecTransaction x hre admin
      ((exec_options [] (encodeMultiSendTransactionsSingleDestination x CALL (ct_address mtf) calls))
         \<lparr>er_multiSend := Some True, er_gasLimit := Some gasLimit\<rparr>)) (\<lambda>_. ret ())) w"
proof -
  have "1 < length calls" using length_map_act [OF assms(2)] assms(3) by simp
  moreover have "andThen (map_act (registerCalldata hre requests mtf) keys) f w = f calls w"
    for f :: "string list \<Rightarrow> ('a world, unit) act"
    using assms(2) by (rule andThen_run)
  ultimately show ?thesis unfolding registerRequestTypesCallByAdmin_def assms(1) by (simp add: Let_def)
qed

end
