(* ===== verification/Deployments.thy ===== *)
theory Deployments
  imports CollectionsCore RequestRegistration
begin

text \<open>
  The deployment of each contract of \<open>utils/deployment\<close>: an implementation, and on the first
  release its proxy and its entry in the NameRegistry, or on an upgrade the change of the proxy's
  implementation through the Administrator. The addresses go to the JSON files of the network.
\<close>

section \<open>Helpers\<close>

definition nameRegistrySet ::
  "ext \<Rightarrow> 'c hre \<Rightarrow> contract_key \<Rightarrow> string \<Rightarrow> ('c world, exec_result option) act" where
  "nameRegistrySet x hre contractKey contractAddress =
     andThen (getAdministratorInstance hre) (\<lambda>adminContract.
     andThen (getContract hre ''NameRegistry'') (\<lambda>nrContract.
     andThen (from_result (hre_encode hre (ct_abi nrContract) ''set''
                [Some (JNumber (contract_key_id contractKey)), Some (JString contractAddress)])) (\<lambda>setEncoded.
       adminExecTransaction x hre adminContract (exec_options (ct_address nrContract) setEncoded))))"

definition addCustomHistoryType ::
  "ext \<Rightarrow> 'c hre \<Rightarrow> string \<Rightarrow> ('c world, exec_result option) act" where
  "addCustomHistoryType x hre historyTypeName =
     andThen (getAdministratorInstance hre) (\<lambda>adminContract.
     andThen (getContract hre ''StartrailRegistry'') (\<lambda>srContract.
     andThen (from_result (hre_encode hre (ct_abi srContract) ''addCustomHistoryType''
                [Some (JString historyTypeName)])) (\<lambda>addTypeEncoded.
       adminExecTransaction x hre adminContract (exec_options (ct_address srContract) addTypeEncoded))))"

definition deployContract ::
  "'c hre \<Rightarrow> string \<Rightarrow> js_val option list \<Rightarrow> string option obj \<Rightarrow> ('c world, contract) act" where
  "deployContract hre name constructorArgs libraries =
     andThen (from_result (hre_artifact hre name)) (\<lambda>factory.
       on_chain (hre_deploy hre factory libraries constructorArgs None))"

definition deployProxy ::
  "'c hre \<Rightarrow> contract \<Rightarrow> string option \<Rightarrow> js_val option list \<Rightarrow> ('c world, contract) act" where
  "deployProxy hre implContract proxyAdminAddress initializerArgs =
     andThen (from_result (hre_encode hre (ct_abi implContract) ''initialize'' initializerArgs)) (\<lambda>initializeEncoded.
     andThen (from_result (hre_artifact hre ''StartrailProxy'')) (\<lambda>startrailProxy.
       on_chain (hre_deploy hre startrailProxy []
         [Some (JString (ct_address implContract)), map_option JString proxyAdminAddress,
          Some (JString initializeEncoded)] None)))"

text \<open>An address of a JSON file as an argument.\<close>

definition address_arg :: "string obj \<Rightarrow> string \<Rightarrow> js_val option" where
  "address_arg json key = map_option JString (obj_get json key)"

section \<open>deploy-eip2470-singleton-factory.js\<close>

definition DEPLOYMENT_ACCOUNT :: string where
  "DEPLOYMENT_ACCOUNT = ''0xBb6e024b9cFFACB947A71991E386681B1Cd1477D''"

definition DEPLOYMENT_HASH :: string where
  "DEPLOYMENT_HASH = ''0x803351deb6d745e91545a6a3e1c0ea3e9a6a02a1a4193b70edfcd2f40f71a01c''"

definition DEPLOYMENT_RAW_TX :: string where
  "DEPLOYMENT_RAW_TX =
     ''0xf9016c8085174876e8008303c4d88080b90154608060405234801561001057600080fd5b506101'' @
     ''34806100206000396000f3fe6080604052348015600f57600080fd5b506004361060285760003560'' @
     ''e01c80634af63f0214602d575b600080fd5b60cf60048036036040811015604157600080fd5b8101'' @
     ''90602081018135640100000000811115605b57600080fd5b820183602082011115606c57600080fd'' @
     ''5b80359060200191846001830284011164010000000083111715608d57600080fd5b91908080601f'' @
     ''01602080910402602001604051908101604052809392919081815260200183838082843760009201'' @
     ''9190915250929550509135925060eb915050565b604080516001600160a01b039092168252519081'' @
     ''900360200190f35b6000818351602085016000f5939250505056fea26469706673582212206b44f8'' @
     ''a82cb6b156bfcc3dc6aadd6df4eefd204bc928a4397fd15dacf6d5320564736f6c63430006020033'' @
     ''1b83247000822470''"

definition SINGLETON_FACTORY_ADDRESS :: string where
  "SINGLETON_FACTORY_ADDRESS = ''0xce0042B868300000d44A59004Da54A005ffdcf9f''"

definition singletonFactoryContractHandle :: "'c hre \<Rightarrow> ('c world, contract) act" where
  "singletonFactoryContractHandle hre =
     from_result (hre_contractAt hre ''SingletonFactory'' (Some SINGLETON_FACTORY_ADDRESS))"

definition deploySingleton :: "'c hre \<Rightarrow> string \<Rightarrow> string \<Rightarrow> ('c world, tx_receipt) act" where
  "deploySingleton hre initCode salt =
     andThen (singletonFactoryContractHandle hre) (\<lambda>singletonFactory.
       on_chain (hre_send hre singletonFactory ''deploy'' [Some (JString initCode), Some (JString salt)]))"

definition encodeDeploySingleton :: "'c hre \<Rightarrow> string \<Rightarrow> string \<Rightarrow> ('c world, string) act" where
  "encodeDeploySingleton hre initCode salt =
     andThen (singletonFactoryContractHandle hre) (\<lambda>singletonFactory.
       from_result (hre_encode hre (ct_abi singletonFactory) ''deploy''
         [Some (JString initCode), Some (JString salt)]))"

definition deployEIP2470SingletonFactory :: "'c hre \<Rightarrow> ('c world, string) act" where
  "deployEIP2470SingletonFactory hre =
     andThen (getAdministratorSigner hre) (\<lambda>deployer.
     andThen (on_chain (hre_fund hre DEPLOYMENT_ACCOUNT ''0.0247'')) (\<lambda>_.
     andThen (on_chain (hre_sendRaw hre DEPLOYMENT_RAW_TX)) (\<lambda>hash.
       if hash \<noteq> DEPLOYMENT_HASH
       then throw (ThrownError (''EIP2470 hash not the expected ['' @ DEPLOYMENT_HASH @ '']''))
       else ret hash)))"

definition isEIP2470Deployed :: "'c hre \<Rightarrow> ('c world, bool) act" where
  "isEIP2470Deployed hre =
     (if hre_providerChainId hre \<in> set [1, 4, 5, 42, chainIds_amoy] then ret True
      else view_chain (\<lambda>c. bindr (hre_code hre (Some SINGLETON_FACTORY_ADDRESS) c) (\<lambda>code.
             Inr (code \<noteq> ''0x''))))"

section \<open>deploy-licensed-user-manager.ts\<close>

definition lum_upgrade :: "ext \<Rightarrow> 'c hre \<Rightarrow> string \<Rightarrow> ('c world, unit) act" where
  "lum_upgrade x hre newImplementationAddress =
     andThen (getContract hre ''LicensedUserManager'') (\<lambda>proxy.
     andThen (upgradeFromAdmin x hre (ct_address proxy) newImplementationAddress) (\<lambda>_. ret ()))"

definition deployBeacon :: "'c hre \<Rightarrow> ('c world, contract) act" where
  "deployBeacon hre =
     andThen (loadDeployJSON hre) (\<lambda>json.
     andThen (from_result (hre_artifact hre ''UpgradeableBeacon'')) (\<lambda>upgradeableBeaconFactory.
       on_chain (hre_deploy hre upgradeableBeaconFactory []
         [address_arg json ''nameRegistryProxyAddress'', address_arg json ''proxyAdminAddress''] None)))"

definition deployEIP2470 :: "'c hre \<Rightarrow> ('c world, unit) act" where
  "deployEIP2470 hre =
     andThen (isEIP2470Deployed hre) (\<lambda>deployed.
       if \<not> deployed
       then andThen (deployEIP2470SingletonFactory hre) (\<lambda>_.
            andThen (isEIP2470Deployed hre) (\<lambda>deployed'.
              if \<not> deployed' then throw (ThrownError ''SingletonFactory deployment failed'') else ret ()))
       else ret ())"

definition deployImplementation :: "'c hre \<Rightarrow> string \<Rightarrow> ('c world, string) act" where
  "deployImplementation hre contractName =
     andThen (from_result (hre_bytecode hre contractName)) (\<lambda>lumBytecode.
       let salt = salt_implementation (hre_salts hre);
           lumImplAddress = hre_create2 hre SINGLETON_FACTORY_ADDRESS salt (hre_keccak hre lumBytecode)
       in andThen (assertContractNotDeployed hre ''LicensedUserManager implementation'' (Some lumImplAddress)) (\<lambda>_.
          andThen (deploySingleton hre lumBytecode salt) (\<lambda>lumImplTx.
          andThen (waitTxHH hre (tx_hash lumImplTx) None) (\<lambda>_.
          andThen (assertContractDeployed hre ''LicensedUserManager implementation'' (Some lumImplAddress)) (\<lambda>_.
          andThen (updateImplJSON hre [(''licensedUserManagerImplementationAddress'', lumImplAddress)]) (\<lambda>_.
            ret lumImplAddress))))))"

definition computeCreateProxyInitcode :: "ext \<Rightarrow> 'c hre \<Rightarrow> string \<Rightarrow> js_error + string" where
  "computeCreateProxyInitcode x hre lumImplAddress =
     bindr (hre_bytecode hre ''StartrailProxyLUM'') (\<lambda>lumProxyBytecode.
     bindr (hre_abiEncode hre [''address'', ''bytes''] [Some (JString lumImplAddress), Some (JString ''0x'')])
       (\<lambda>constructorCallBytecode.
       Inr (lumProxyBytecode @ stripHexPrefix x constructorCallBytecode)))"

text \<open>The three calls of the MultiSend that creates and initialises the proxy.\<close>

definition lumProxyCalls :: "string \<Rightarrow> string \<Rightarrow> string \<Rightarrow> string \<Rightarrow> multi_send_tx list" where
  "lumProxyCalls lumProxyAddress deployLumProxyEncoded initializeAdminEncoded initializeEncoded =
     [\<lparr>ms_operation = CALL, ms_to = SINGLETON_FACTORY_ADDRESS, ms_data = deployLumProxyEncoded\<rparr>,
      \<lparr>ms_operation = CALL, ms_to = lumProxyAddress, ms_data = initializeAdminEncoded\<rparr>,
      \<lparr>ms_operation = CALL, ms_to = lumProxyAddress, ms_data = initializeEncoded\<rparr>]"

definition lum_deployProxy ::
  "ext \<Rightarrow> 'c hre \<Rightarrow> string \<Rightarrow> js_val option \<Rightarrow> js_val option \<Rightarrow> js_val option \<Rightarrow> ('c world, string) act" where
  "lum_deployProxy x hre lumImplAddress metaTxForwarderProxyAddress nameRegistryProxyAddress proxyAdminAddress =
     (let salt = salt_proxy (hre_salts hre)
      in andThen (from_result (computeCreateProxyInitcode x hre lumImplAddress)) (\<lambda>lumProxyInitcode.
         let lumProxyAddress = hre_create2 hre SINGLETON_FACTORY_ADDRESS salt (hre_keccak hre lumProxyInitcode)
         in andThen (assertContractNotDeployed hre ''LicensedUserManager proxy'' (Some lumProxyAddress)) (\<lambda>_.
            andThen (encodeDeploySingleton hre lumProxyInitcode salt) (\<lambda>deployLumProxyEncoded.
            andThen (from_result (hre_artifact hre ''StartrailProxyLUM'')) (\<lambda>lumProxyFactory.
            andThen (from_result (hre_encode hre lumProxyFactory ''initializeAdmin(address)'' [proxyAdminAddress]))
              (\<lambda>initializeAdminEncoded.
            andThen (from_result (hre_artifact hre ''LicensedUserManager'')) (\<lambda>lumFactory.
            andThen (from_result (hre_encode hre lumFactory ''initialize(address,address)''
                       [nameRegistryProxyAddress, metaTxForwarderProxyAddress])) (\<lambda>initializeEncoded.
            andThen (getAdministratorInstance hre) (\<lambda>adminContract.
            let multiSendEncoded = encodeMultiSendTransactions x
                  (lumProxyCalls lumProxyAddress deployLumProxyEncoded initializeAdminEncoded initializeEncoded)
            in andThen (adminExecTransaction x hre adminContract ((exec_options [] multiSendEncoded)
                 \<lparr>er_multiSend := Some True, er_gasLimit := Some 1000000\<rparr>)) (\<lambda>_.
               andThen (assertContractDeployed hre ''LicensedUserManager proxy'' (Some lumProxyAddress)) (\<lambda>_.
               andThen (updateDeployJSON hre [(''licensedUserManagerProxyAddress'', lumProxyAddress)]) (\<lambda>_.
                 ret lumProxyAddress))))))))))))"

record lum_deployed =
  ld_proxyAddress :: string
  ld_implAddress :: string
  ld_proxy :: "contract option"

definition deployLUM :: "ext \<Rightarrow> 'c hre \<Rightarrow> string option \<Rightarrow> ('c world, lum_deployed) act" where
  "deployLUM x hre newImplementationName =
     andThen (loadDeployJSON hre) (\<lambda>json.
     andThen (assertContractDeployed hre ''Administrator'' (obj_get json ''startrailAdministratorAddress'')) (\<lambda>_.
     andThen (assertContractDeployed hre ''MetaTxForwarder'' (obj_get json ''metaTxForwarderProxyAddress'')) (\<lambda>_.
     andThen (assertContractDeployed hre ''NameRegistry'' (obj_get json ''nameRegistryProxyAddress'')) (\<lambda>_.
     andThen (assertContractDeployed hre ''ProxyAdmin'' (obj_get json ''proxyAdminAddress'')) (\<lambda>_.
       case newImplementationName of
         Some name \<Rightarrow>
           andThen (getContract hre ''LicensedUserManager'') (\<lambda>lumProxy.
           andThen (deployImplementation hre name) (\<lambda>lumImplAddress.
           andThen (lum_upgrade x hre lumImplAddress) (\<lambda>_.
             ret \<lparr>ld_proxyAddress = ct_address lumProxy, ld_implAddress = lumImplAddress,
                  ld_proxy = Some lumProxy\<rparr>)))
       | None \<Rightarrow>
           andThen (deployEIP2470 hre) (\<lambda>_.
           andThen (deployImplementation hre ''LicensedUserManager'') (\<lambda>lumImplAddress.
           andThen (updateImplJSON hre [(''licensedUserManagerImplementationAddress'', lumImplAddress)]) (\<lambda>_.
           andThen (lum_deployProxy x hre lumImplAddress (address_arg json ''metaTxForwarderProxyAddress'')
                      (address_arg json ''nameRegistryProxyAddress'') (address_arg json ''proxyAdminAddress''))
             (\<lambda>lumProxyAddress.
           andThen (updateDeployJSON hre [(''licensedUserManagerProxyAddress'', lumProxyAddress)]) (\<lambda>_.
           andThen (nameRegistrySet x hre KeyLicensedUserManager lumProxyAddress) (\<lambda>_.
             ret \<lparr>ld_proxyAddress = lumProxyAddress, ld_implAddress = lumImplAddress, ld_proxy = None\<rparr>)))))))))))"

section \<open>deploy-name-registry.js and deploy-meta-tx-forwarder.js\<close>

definition deployNameRegistry :: "'c hre \<Rightarrow> ('c world, string) act" where
  "deployNameRegistry hre =
     andThen (deployContract hre ''NameRegistry'' [] []) (\<lambda>nameRegistryImpl.
     andThen (saveImplJSON hre [(''nameRegistryImplementationAddress'', ct_address nameRegistryImpl)]) (\<lambda>_.
     andThen (loadDeployJSON hre) (\<lambda>json.
     andThen (deployProxy hre nameRegistryImpl (obj_get json ''proxyAdminAddress'')
                [address_arg json ''startrailAdministratorAddress'']) (\<lambda>nameRegistryProxy.
     andThen (updateDeployJSON hre [(''nameRegistryProxyAddress'', ct_address nameRegistryProxy)]) (\<lambda>_.
       ret (ct_address nameRegistryProxy))))))"

definition deployMetaTxForwarder :: "ext \<Rightarrow> 'c hre \<Rightarrow> string option \<Rightarrow> ('c world, string) act" where
  "deployMetaTxForwarder x hre newImplementationName =
     (let implementationContractName = (case newImplementationName of
            Some name \<Rightarrow> name | None \<Rightarrow> ''MetaTxForwarderV1'')
      in andThen (loadDeployJSON hre) (\<lambda>json.
         andThen (deployContract hre implementationContractName [] []) (\<lambda>metaTxForwarderImpl.
         andThen (updateImplJSON hre
            [(''metaTxForwarderImplementationAddress'', ct_address metaTxForwarderImpl)]) (\<lambda>_.
           case newImplementationName of
             None \<Rightarrow>
               andThen (deployProxy hre metaTxForwarderImpl (obj_get json ''proxyAdminAddress'')
                          [address_arg json ''nameRegistryProxyAddress'']) (\<lambda>metaTxForwarderProxy.
               andThen (updateDeployJSON hre
                  [(''metaTxForwarderProxyAddress'', ct_address metaTxForwarderProxy)]) (\<lambda>_.
               andThen (nameRegistrySet x hre KeyMetaTxForwarder (ct_address metaTxForwarderProxy)) (\<lambda>_.
                 ret (ct_address metaTxForwarderProxy))))
           | Some _ \<Rightarrow>
               andThen (getContract hre ''MetaTxForwarder'') (\<lambda>metaTxForwarderProxy.
               andThen (upgradeFromAdmin x hre (ct_address metaTxForwarderProxy) (ct_address metaTxForwarderImpl)) (\<lambda>_.
                 ret (ct_address metaTxForwarderProxy)))))))"

section \<open>deploy-startrail-registry.js\<close>

text \<open>\<open>env\<close> is \<open>process.env\<close>; the libraries whose names are given are linked.\<close>

definition registry_libraries ::
  "string obj \<Rightarrow> string option \<Rightarrow> string option \<Rightarrow> string option \<Rightarrow> string option obj" where
  "registry_libraries json idGeneratorName openSeaName libraryName =
     (let l1 = [((case idGeneratorName of None \<Rightarrow> ''IDGenerator'' | Some n \<Rightarrow> n),
                 obj_get json ''idGeneratorLibraryAddress'')];
          l2 = (case openSeaName of None \<Rightarrow> l1
                | Some n \<Rightarrow> obj_set n (obj_get json ''openSeaMetaTransactionLibraryAddress'') l1)
      in case libraryName of None \<Rightarrow> l2
         | Some n \<Rightarrow> obj_set n (obj_get json ''startrailRegistryLibraryAddress'') l2)"

definition env_or :: "(string \<Rightarrow> string option) \<Rightarrow> string \<Rightarrow> string \<Rightarrow> string" where
  "env_or env name fallback =
     (case env name of None \<Rightarrow> fallback | Some v \<Rightarrow> if v \<noteq> [] then v else fallback)"

definition deployStartrailRegistry ::
  "ext \<Rightarrow> (string \<Rightarrow> string option) \<Rightarrow> 'c hre \<Rightarrow> string option \<Rightarrow> string option \<Rightarrow> string option \<Rightarrow> string option
     \<Rightarrow> ('c world, string) act" where
  "deployStartrailRegistry x env hre newImplementationName idGeneratorName openSeaName libraryName =
     (let implementationContractName = (case newImplementationName of
            Some name \<Rightarrow> name | None \<Rightarrow> ''StartrailRegistryV1'')
      in andThen (loadDeployJSON hre) (\<lambda>json.
         andThen (deployContract hre implementationContractName []
                    (registry_libraries json idGeneratorName openSeaName libraryName)) (\<lambda>startrailRegistryImpl.
         andThen (updateImplJSON hre
            [(''startrailRegistryImplementationAddress'', ct_address startrailRegistryImpl)]) (\<lambda>_.
           case newImplementationName of
             None \<Rightarrow>
               andThen (deployProxy hre startrailRegistryImpl (obj_get json ''proxyAdminAddress'')
                  [address_arg json ''nameRegistryProxyAddress'',
                   address_arg json ''metaTxForwarderProxyAddress'',
                   Some (JString ''Startrail Registry Record''), Some (JString ''SRR''),
                   Some (JString (env_or env ''SCHEMA_URI_PREFIX'' ''https://api.startrail.io/api/v1/metadata/'')),
                   Some (JString (env_or env ''SCHEMA_URI_POSTFIX'' ''.json''))]) (\<lambda>startrailRegistryProxy.
               andThen (updateDeployJSON hre
                  [(''startrailRegistryProxyAddress'', ct_address startrailRegistryProxy)]) (\<lambda>_.
               andThen (nameRegistrySet x hre KeyStartrailRegistry (ct_address startrailRegistryProxy)) (\<lambda>_.
               andThen (addCustomHistoryType x hre ''auction'') (\<lambda>_.
               andThen (addCustomHistoryType x hre ''exhibition'') (\<lambda>_.
                 ret (ct_address startrailRegistryProxy))))))
           | Some _ \<Rightarrow>
               andThen (getContract hre ''StartrailRegistry'') (\<lambda>startrailRegistryProxy.
               andThen (upgradeFromAdmin x hre (ct_address startrailRegistryProxy)
                          (ct_address startrailRegistryImpl)) (\<lambda>_.
                 ret (ct_address startrailRegistryProxy)))))))"

section \<open>deploy-bulk.js, deploy-bulk-issue.js and deploy-bulk-transfer.js\<close>

definition deployBulk :: "ext \<Rightarrow> 'c hre \<Rightarrow> string option \<Rightarrow> ('c world, string) act" where
  "deployBulk x hre newImplementationName =
     (let implementationContractName = (case newImplementationName of Some name \<Rightarrow> name | None \<Rightarrow> ''BulkV1'')
      in andThen (loadDeployJSON hre) (\<lambda>json.
         andThen (deployContract hre implementationContractName [] []) (\<lambda>bulkImpl.
         andThen (updateImplJSON hre [(''bulkImplementationAddress'', ct_address bulkImpl)]) (\<lambda>_.
           case newImplementationName of
             None \<Rightarrow>
               andThen (deployProxy hre bulkImpl (obj_get json ''proxyAdminAddress'')
                  [address_arg json ''nameRegistryProxyAddress'',
                   address_arg json ''metaTxForwarderProxyAddress'']) (\<lambda>bulkProxy.
               andThen (updateDeployJSON hre [(''bulkProxyAddress'', ct_address bulkProxy)]) (\<lambda>_.
               andThen (nameRegistrySet x hre KeyBulk (ct_address bulkProxy)) (\<lambda>_.
                 ret (ct_address bulkProxy))))
           | Some _ \<Rightarrow>
               andThen (getContract hre ''Bulk'') (\<lambda>bulkProxy.
               andThen (upgradeFromAdmin x hre (ct_address bulkProxy) (ct_address bulkImpl)) (\<lambda>_.
                 ret (ct_address bulkProxy)))))))"

definition deployBulkIssue :: "ext \<Rightarrow> 'c hre \<Rightarrow> string option \<Rightarrow> ('c world, string) act" where
  "deployBulkIssue x hre newImplementationName =
     (let implementationContractName = (case newImplementationName of Some name \<Rightarrow> name | None \<Rightarrow> ''BulkIssueV1'')
      in andThen (loadDeployJSON hre) (\<lambda>json.
         andThen (deployContract hre implementationContractName [] []) (\<lambda>bulkIssueImpl.
         andThen (updateImplJSON hre [(''bulkIssueImplementationAddress'', ct_address bulkIssueImpl)]) (\<lambda>_.
           case newImplementationName of
             None \<Rightarrow>
               andThen (deployProxy hre bulkIssueImpl (obj_get json ''proxyAdminAddress'')
                  [address_arg json ''nameRegistryProxyAddress'',
                   address_arg json ''metaTxForwarderProxyAddress'']) (\<lambda>bulkIssueProxy.
               andThen (updateDeployJSON hre [(''bulkIssueProxyAddress'', ct_address bulkIssueProxy)]) (\<lambda>_.
               andThen (nameRegistrySet x hre KeyBulkIssue (ct_address bulkIssueProxy)) (\<lambda>_.
                 ret (ct_address bulkIssueProxy))))
           | Some _ \<Rightarrow>
               andThen (getContract hre ''BulkIssue'') (\<lambda>bulkIssueProxy.
               andThen (upgradeFromAdmin x hre (ct_address bulkIssueProxy) (ct_address bulkIssueImpl)) (\<lambda>_.
                 ret (ct_address bulkIssueProxy)))))))"

text \<open>The first release of BulkTransfer deploys its implementation twice: the inner \<open>const\<close> shadows the
  contract that was deployed before.\<close>

definition deployBulkTransfer :: "ext \<Rightarrow> 'c hre \<Rightarrow> string option \<Rightarrow> ('c world, string) act" where
  "deployBulkTransfer x hre newImplementationName =
     (let implementationContractName = (case newImplementationName of Some name \<Rightarrow> name | None \<Rightarrow> ''BulkTransferV1'')
      in andThen (loadDeployJSON hre) (\<lambda>json.
         andThen (deployContract hre implementationContractName [] []) (\<lambda>bulkTransferImpl.
         andThen (updateImplJSON hre [(''bulkTransferImplementationAddress'', ct_address bulkTransferImpl)]) (\<lambda>_.
           case newImplementationName of
             None \<Rightarrow>
               andThen (deployContract hre implementationContractName [] []) (\<lambda>bulkTransferImpl.
               andThen (updateImplJSON hre
                  [(''bulkTransferImplementationAddress'', ct_address bulkTransferImpl)]) (\<lambda>_.
               andThen (deployProxy hre bulkTransferImpl (obj_get json ''proxyAdminAddress'')
                  [address_arg json ''nameRegistryProxyAddress'',
                   address_arg json ''metaTxForwarderProxyAddress'']) (\<lambda>bulkTransferProxy.
               andThen (updateDeployJSON hre [(''bulkTransferProxyAddress'', ct_address bulkTransferProxy)]) (\<lambda>_.
               andThen (nameRegistrySet x hre KeyBulkTransfer (ct_address bulkTransferProxy)) (\<lambda>_.
                 ret (ct_address bulkTransferProxy))))))
           | Some _ \<Rightarrow>
               andThen (getContract hre ''BulkTransfer'') (\<lambda>bulkTransferProxy.
               andThen (upgradeFromAdmin x hre (ct_address bulkTransferProxy) (ct_address bulkTransferImpl)) (\<lambda>_.
                 ret (ct_address bulkTransferProxy)))))))"

section \<open>deploy-administrator.js\<close>

definition getStartrailAdministratorConfig :: "'c hre \<Rightarrow> js_error + string list \<times> int" where
  "getStartrailAdministratorConfig hre =
     (case hre_owners hre of
        None \<Rightarrow> Inl (ThrownError (''no owners defined for this network ['' @ hre_network hre @ '']''))
      | Some (owners, threshold) \<Rightarrow>
          if owners = [] then Inl (ThrownError (''no owners defined for this network ['' @ hre_network hre @ '']''))
          else Inr (owners, threshold))"

text \<open>\<open>deployContract\<close> of this file: an implementation of the package, waited for.\<close>

definition gnosis_deployContract :: "'c hre \<Rightarrow> string \<Rightarrow> ('c world, contract) act" where
  "gnosis_deployContract hre name =
     andThen (on_chain (hre_deploy hre name [] [] None)) (\<lambda>contract'. ret contract')"

record gnosis_contracts =
  gc_safe :: contract
  gc_factory :: contract
  gc_multiSend :: contract

definition gnosisContracts :: "'c hre \<Rightarrow> ('c world, gnosis_contracts) act" where
  "gnosisContracts hre =
     (if hre_providerChainId hre \<notin> set [1, chainIds_polygon, chainIds_amoy]
      then andThen (gnosis_deployContract hre ''GnosisSafe'') (\<lambda>gnosisSafe.
           andThen (gnosis_deployContract hre ''GnosisSafeProxyFactory'') (\<lambda>gnosisSafeFactory.
           andThen (gnosis_deployContract hre ''MultiSend'') (\<lambda>multiSend.
             ret \<lparr>gc_safe = gnosisSafe, gc_factory = gnosisSafeFactory, gc_multiSend = multiSend\<rparr>)))
      else andThen (from_result (hre_contractAt hre ''GnosisSafe''
                      (Some ''0x6851D6fDFAfD08c0295C392436245E5bc78B0185''))) (\<lambda>gnosisSafe.
           andThen (from_result (hre_contractAt hre ''GnosisSafeProxyFactory''
                      (Some ''0x76E2cFc1F5Fa8F6a5b3fC4c8F4788F0116861F9B''))) (\<lambda>gnosisSafeFactory.
           andThen (from_result (hre_contractAt hre ''MultiSend''
                      (Some ''0x8D29bE29923b68abfDD21e541b9374737B49cdAD''))) (\<lambda>multiSend.
             ret \<lparr>gc_safe = gnosisSafe, gc_factory = gnosisSafeFactory, gc_multiSend = multiSend\<rparr>))))"

definition deployAdministratorContract :: "'c hre \<Rightarrow> ('c world, string) act" where
  "deployAdministratorContract hre =
     andThen (getDeployer hre) (\<lambda>deployer.
     andThen (gnosisContracts hre) (\<lambda>gnosis.
     andThen (updateDeployJSON hre [(''multiSendAddress'', ct_address (gc_multiSend gnosis))]) (\<lambda>_.
     andThen (from_result (getStartrailAdministratorConfig hre)) (\<lambda>(owners, threshold).
     andThen (from_result (hre_encode hre (ct_abi (gc_safe gnosis)) ''setup''
        [Some (JArray (map JString owners)), Some (JNumber threshold), Some (JString AddressZero),
         Some (JBytes []), Some (JString AddressZero), Some (JString AddressZero), Some (JNumber 0),
         Some (JString AddressZero)])) (\<lambda>setupCalldata.
     andThen (on_chain (hre_send hre (gc_factory gnosis) ''createProxy''
        [Some (JString (ct_address (gc_safe gnosis))), Some (JString setupCalldata)])) (\<lambda>createProxyTxRsp.
     andThen (waitTxHH hre (tx_hash createProxyTxRsp) None) (\<lambda>createProxyTxReceipt.
     andThen (from_result (defined_or_throw (first_log createProxyTxReceipt))) (\<lambda>log.
     andThen (from_result (defined_or_throw (decodeEventLog_hh hre (gc_factory gnosis) ''ProxyCreation'' log)))
       (\<lambda>createProxyEventArgs.
     let address = (case createProxyEventArgs of JString a # _ \<Rightarrow> Some a | _ \<Rightarrow> None)
     in andThen (from_result (hre_contractAt hre ''GnosisSafe'' address)) (\<lambda>startrailAdministrator.
        andThen (updateDeployJSON hre
           [(''startrailAdministratorAddress'', ct_address startrailAdministrator)]) (\<lambda>_.
          ret (ct_address startrailAdministrator))))))))))))"

definition setNameRegistryAdministrator :: "'c hre \<Rightarrow> string \<Rightarrow> ('c world, unit) act" where
  "setNameRegistryAdministrator hre administratorAddress =
     andThen (loadDeployJSON hre) (\<lambda>deployJSON.
     andThen (getDeployer hre) (\<lambda>deployer.
     andThen (from_result (hre_contractAt hre ''NameRegistry'' (obj_get deployJSON ''nameRegistryProxyAddress'')))
       (\<lambda>nameRegistry.
     andThen (on_chain (hre_send hre nameRegistry ''set''
        [Some (JNumber (contract_key_id KeyAdministrator)), Some (JString administratorAddress)])) (\<lambda>setAdminTxRsp.
     andThen (waitTxHH hre (tx_hash setAdminTxRsp) None) (\<lambda>_. ret ())))))"

end
