(* ===== verification/Releases.thy ===== *)
theory Releases
  imports Deployments
begin

text \<open>
  The releases \<open>001\<close> to \<open>030\<close> of \<open>utils/deployment\<close>, each a sequence of deployments, upgrades and
  registrations. The releases after the first one, which starts the JSON files of its network, are
  collected in \<open>releases\<close>.
\<close>

section \<open>The first release\<close>

definition deployInitial ::
  "ext \<Rightarrow> (string \<Rightarrow> string option) \<Rightarrow> 'c hre \<Rightarrow> ('c world, unit) act" where
  "deployInitial x env hre =
     andThen (deployContract hre ''IDGenerator'' [] []) (\<lambda>idGenerator.
     andThen (saveDeployJSON hre [(''idGeneratorLibraryAddress'', ct_address idGenerator)]) (\<lambda>_.
     andThen (deployAdministratorContract hre) (\<lambda>adminContractAddr.
     andThen (deployContract hre ''StartrailProxyAdmin'' [] []) (\<lambda>startrailProxyAdmin.
     andThen (updateDeployJSON hre [(''proxyAdminAddress'', ct_address startrailProxyAdmin)]) (\<lambda>_.
     andThen (on_chain (hre_send hre startrailProxyAdmin ''transferOwnership''
                [Some (JString adminContractAddr)])) (\<lambda>_.
     andThen (deployNameRegistry hre) (\<lambda>_.
     andThen (nameRegistrySet x hre KeyStartrailProxyAdmin (ct_address startrailProxyAdmin)) (\<lambda>_.
     andThen (deployMetaTxForwarder x hre None) (\<lambda>_.
     andThen (deployLUM x hre None) (\<lambda>_.
     andThen (deployStartrailRegistry x env hre None None None None) (\<lambda>_.
     andThen (deployBulkIssue x hre None) (\<lambda>_.
       registerRequestTypesGenesisSet x hre))))))))))))"

section \<open>The releases of the registry and the bulk contracts\<close>

definition deployInitialBulkTransfer :: "ext \<Rightarrow> (string \<Rightarrow> string option) \<Rightarrow> 'c hre \<Rightarrow> ('c world, unit) act" where
  "deployInitialBulkTransfer x env hre =
     andThen (deployStartrailRegistry x env hre (Some ''StartrailRegistryV2'') None None None) (\<lambda>_.
     andThen (deployBulkTransfer x hre None) (\<lambda>_.
     andThen (registerRequestTypes x hre
        [''BulkTransferSendBatch'']) (\<lambda>_.
       ret ())))"

definition deployExhibitionHistory :: "ext \<Rightarrow> (string \<Rightarrow> string option) \<Rightarrow> 'c hre \<Rightarrow> ('c world, unit) act" where
  "deployExhibitionHistory x env hre =
     andThen (deployStartrailRegistry x env hre (Some ''StartrailRegistryV3'') None None None) (\<lambda>_.
     andThen (getContract hre ''StartrailRegistry'') (\<lambda>startrailRegistry.
     andThen (from_result (hre_encode hre (ct_abi startrailRegistry) ''setMaxCombinedHistoryRecords''
                [Some (JNumber 1000)])) (\<lambda>setMaxRecordsCallData.
     andThen (getAdministratorInstance hre) (\<lambda>adminContract.
     andThen (adminExecTransaction x hre adminContract
                (exec_options (ct_address startrailRegistry) setMaxRecordsCallData)) (\<lambda>_.
       registerRequestTypes x hre [''StartrailRegistryAddHistory''])))))"

definition deploySecondTransfer :: "ext \<Rightarrow> (string \<Rightarrow> string option) \<Rightarrow> 'c hre \<Rightarrow> ('c world, unit) act" where
  "deploySecondTransfer x env hre =
     andThen (deployStartrailRegistry x env hre (Some ''StartrailRegistryV4'') None None None) (\<lambda>_.
       ret ())"

definition deployTransferFromEOAToEOA :: "ext \<Rightarrow> (string \<Rightarrow> string option) \<Rightarrow> 'c hre \<Rightarrow> ('c world, unit) act" where
  "deployTransferFromEOAToEOA x env hre =
     andThen (deployMetaTxForwarder x hre (Some ''MetaTxForwarderV2'')) (\<lambda>_.
       ret ())"

definition deployProvenanceCreatedAtFix :: "ext \<Rightarrow> (string \<Rightarrow> string option) \<Rightarrow> 'c hre \<Rightarrow> ('c world, unit) act" where
  "deployProvenanceCreatedAtFix x env hre =
     andThen (deployStartrailRegistry x env hre (Some ''StartrailRegistryV5'') None None None) (\<lambda>_.
       ret ())"

definition deployForMarketplaces :: "ext \<Rightarrow> (string \<Rightarrow> string option) \<Rightarrow> 'c hre \<Rightarrow> ('c world, unit) act" where
  "deployForMarketplaces x env hre =
     andThen (deployStartrailRegistry x env hre (Some ''StartrailRegistryV6'') None None None) (\<lambda>_.
     andThen (registerRequestTypes x hre
        [''StartrailRegistrySetLockExternalTransfer'',
         ''StartrailRegistryCreateSRRWithLockExternalTransfer'']) (\<lambda>_.
     andThen (deployBulkIssue x hre (Some ''BulkIssueV2'')) (\<lambda>_.
       ret ())))"

definition deployBulkIssueEnhancement :: "ext \<Rightarrow> (string \<Rightarrow> string option) \<Rightarrow> 'c hre \<Rightarrow> ('c world, unit) act" where
  "deployBulkIssueEnhancement x env hre =
     andThen (andThen (deployContract hre ''IDGeneratorV2'' [] []) (\<lambda>c.
        updateDeployJSON hre [(''idGeneratorLibraryAddress'', ct_address c)])) (\<lambda>_.
     andThen (deployStartrailRegistry x env hre (Some ''StartrailRegistryV7'') (Some ''IDGeneratorV2'') None None) (\<lambda>_.
     andThen (registerRequestTypes x hre
        [''StartrailRegistryTransferFromWithProvenance'']) (\<lambda>_.
     andThen (deployBulkIssue x hre (Some ''BulkIssueV3'')) (\<lambda>_.
       ret ()))))"

definition deployOwnable :: "ext \<Rightarrow> (string \<Rightarrow> string option) \<Rightarrow> 'c hre \<Rightarrow> ('c world, unit) act" where
  "deployOwnable x env hre =
     andThen (deployStartrailRegistry x env hre (Some ''StartrailRegistryV8'') (Some ''IDGeneratorV2'') None None) (\<lambda>_.
       ret ())"

text \<open>The address of OpenSea's proxy registry: the fifth account of a local network (\<open>signer4\<close>), the
  deployed one on polygon, none elsewhere.\<close>

definition openSeaProxyAddress :: "'c hre \<Rightarrow> string \<Rightarrow> string option" where
  "openSeaProxyAddress hre signer4 =
     (if isLocalNetwork hre then Some signer4
      else if hre_network hre = ''polygon'' then Some ''0x58807baD0B376efc12F5AD86aAc70E78ed67deaE''
      else None)"

definition deployMetaTxPolygonOpenSea ::
  "ext \<Rightarrow> (string \<Rightarrow> string option) \<Rightarrow> string \<Rightarrow> 'c hre \<Rightarrow> ('c world, unit) act" where
  "deployMetaTxPolygonOpenSea x env signer4 hre =
     andThen (andThen (deployContract hre ''OpenSeaMetaTransactionLibrary'' [] []) (\<lambda>c.
        updateDeployJSON hre [(''openSeaMetaTransactionLibraryAddress'', ct_address c)])) (\<lambda>_.
     andThen (deployStartrailRegistry x env hre (Some ''StartrailRegistryV9'') (Some ''IDGeneratorV2'') (Some ''OpenSeaMetaTransactionLibrary'') None) (\<lambda>_.
       case openSeaProxyAddress hre signer4 of
         None \<Rightarrow> ret ()
       | Some address \<Rightarrow>
           andThen (getContract hre ''StartrailRegistry'') (\<lambda>srContract.
           andThen (getAdministratorInstance hre) (\<lambda>adminContract.
           andThen (from_result (hre_encode hre (ct_abi srContract) ''setOpenSeaMetaTxIntegration''
                      [Some (JString address), Some (JString ''Startrail'')])) (\<lambda>setupEncoded.
           andThen (adminExecTransaction x hre adminContract
                      (exec_options (ct_address srContract) setupEncoded)) (\<lambda>_. ret ()))))))"

definition deployInitialBulk :: "ext \<Rightarrow> (string \<Rightarrow> string option) \<Rightarrow> 'c hre \<Rightarrow> ('c world, unit) act" where
  "deployInitialBulk x env hre =
     andThen (deployStartrailRegistry x env hre (Some ''StartrailRegistryV10'') (Some ''IDGeneratorV2'') (Some ''OpenSeaMetaTransactionLibrary'') None) (\<lambda>_.
     andThen (deployBulk x hre None) (\<lambda>_.
     andThen (registerRequestTypes x hre
        [''BulkSendBatch'']) (\<lambda>_.
       ret ())))"

definition deployCreateSRRIssueToRecipient :: "ext \<Rightarrow> (string \<Rightarrow> string option) \<Rightarrow> 'c hre \<Rightarrow> ('c world, unit) act" where
  "deployCreateSRRIssueToRecipient x env hre =
     andThen (andThen (deployContract hre ''StartrailRegistryLibraryV1'' [] []) (\<lambda>c.
        updateDeployJSON hre [(''startrailRegistryLibraryAddress'', ct_address c)])) (\<lambda>_.
     andThen (deployStartrailRegistry x env hre (Some ''StartrailRegistryV11'') (Some ''IDGeneratorV2'') (Some ''OpenSeaMetaTransactionLibrary'') (Some ''StartrailRegistryLibraryV1'')) (\<lambda>_.
     andThen (registerRequestTypes x hre
        [''StartrailRegistryCreateSRRFromLicensedUser'']) (\<lambda>_.
       ret ())))"

definition deployRenameRecipient :: "ext \<Rightarrow> (string \<Rightarrow> string option) \<Rightarrow> 'c hre \<Rightarrow> ('c world, unit) act" where
  "deployRenameRecipient x env hre =
     andThen (deployStartrailRegistry x env hre (Some ''StartrailRegistryV12'') (Some ''IDGeneratorV2'') (Some ''OpenSeaMetaTransactionLibrary'') (Some ''StartrailRegistryLibraryV1'')) (\<lambda>_.
       ret ())"

definition deployBytecodeReduction :: "ext \<Rightarrow> (string \<Rightarrow> string option) \<Rightarrow> 'c hre \<Rightarrow> ('c world, unit) act" where
  "deployBytecodeReduction x env hre =
     andThen (deployStartrailRegistry x env hre (Some ''StartrailRegistryV13'') (Some ''IDGeneratorV2'') (Some ''OpenSeaMetaTransactionLibrary'') (Some ''StartrailRegistryLibraryV1'')) (\<lambda>_.
       ret ())"

definition deployCustomHistoryUpdate :: "ext \<Rightarrow> (string \<Rightarrow> string option) \<Rightarrow> 'c hre \<Rightarrow> ('c world, unit) act" where
  "deployCustomHistoryUpdate x env hre =
     andThen (deployStartrailRegistry x env hre (Some ''StartrailRegistryV14'') (Some ''IDGeneratorV2'') (Some ''OpenSeaMetaTransactionLibrary'') (Some ''StartrailRegistryLibraryV1'')) (\<lambda>_.
       ret ())"

definition deployUpdateSRRAddHistoryPermission :: "ext \<Rightarrow> (string \<Rightarrow> string option) \<Rightarrow> 'c hre \<Rightarrow> ('c world, unit) act" where
  "deployUpdateSRRAddHistoryPermission x env hre =
     andThen (deployStartrailRegistry x env hre (Some ''StartrailRegistryV15'') (Some ''IDGeneratorV2'') (Some ''OpenSeaMetaTransactionLibrary'') (Some ''StartrailRegistryLibraryV1'')) (\<lambda>_.
       ret ())"

definition deployAuditFixes :: "ext \<Rightarrow> (string \<Rightarrow> string option) \<Rightarrow> 'c hre \<Rightarrow> ('c world, unit) act" where
  "deployAuditFixes x env hre =
     andThen (deployStartrailRegistry x env hre (Some ''StartrailRegistryV16'') (Some ''IDGeneratorV2'') (Some ''OpenSeaMetaTransactionLibrary'') (Some ''StartrailRegistryLibraryV1'')) (\<lambda>_.
       ret ())"

definition deployCustomHistoryNameUpdate :: "ext \<Rightarrow> (string \<Rightarrow> string option) \<Rightarrow> 'c hre \<Rightarrow> ('c world, unit) act" where
  "deployCustomHistoryNameUpdate x env hre =
     andThen (deployStartrailRegistry x env hre (Some ''StartrailRegistryV17'') (Some ''IDGeneratorV2'') (Some ''OpenSeaMetaTransactionLibrary'') (Some ''StartrailRegistryLibraryV1'')) (\<lambda>_.
       ret ())"

definition deployEnableIPFS :: "ext \<Rightarrow> (string \<Rightarrow> string option) \<Rightarrow> 'c hre \<Rightarrow> ('c world, unit) act" where
  "deployEnableIPFS x env hre =
     andThen (andThen (deployContract hre ''IDGeneratorV3'' [] []) (\<lambda>c.
        updateDeployJSON hre [(''idGeneratorLibraryAddress'', ct_address c)])) (\<lambda>_.
     andThen (deployStartrailRegistry x env hre (Some ''StartrailRegistryV18'') (Some ''IDGeneratorV3'') (Some ''OpenSeaMetaTransactionLibrary'') (Some ''StartrailRegistryLibraryV1'')) (\<lambda>_.
     andThen (deployBulkIssue x hre (Some ''BulkIssueV4'')) (\<lambda>_.
     andThen (deployBulk x hre (Some ''BulkV2'')) (\<lambda>_.
     andThen (deployBulkTransfer x hre (Some ''BulkTransferV2'')) (\<lambda>_.
     andThen (registerRequestTypes x hre
        [''StartrailRegistryCreateSRRFromLicensedUserWithCid'',
         ''StartrailRegistryUpdateSRRMetadataWithCid'']) (\<lambda>_.
       ret ()))))))"

definition deployRoyaltyERC2981 :: "ext \<Rightarrow> (string \<Rightarrow> string option) \<Rightarrow> 'c hre \<Rightarrow> ('c world, unit) act" where
  "deployRoyaltyERC2981 x env hre =
     andThen (deployStartrailRegistry x env hre (Some ''StartrailRegistryV19'') (Some ''IDGeneratorV3'') (Some ''OpenSeaMetaTransactionLibrary'') (Some ''StartrailRegistryLibraryV1'')) (\<lambda>_.
     andThen (deployBulkIssue x hre (Some ''BulkIssueV5'')) (\<lambda>_.
     andThen (deployBulk x hre (Some ''BulkV3'')) (\<lambda>_.
     andThen (registerRequestTypes x hre
        [''StartrailRegistryUpdateSRRRoyalty'',
         ''StartrailRegistryCreateSRRFromLicensedUserWithRoyalty'',
         ''StartrailRegistryApproveSRRByCommitmentV2'',
         ''StartrailRegistryApproveSRRByCommitmentWithCustomHistoryIdV2'',
         ''StartrailRegistryTransferFromWithProvenanceV2'']) (\<lambda>_.
       ret ()))))"

definition deployFixIPFSUrl :: "ext \<Rightarrow> (string \<Rightarrow> string option) \<Rightarrow> 'c hre \<Rightarrow> ('c world, unit) act" where
  "deployFixIPFSUrl x env hre =
     andThen (deployStartrailRegistry x env hre (Some ''StartrailRegistryV20'') (Some ''IDGeneratorV3'') (Some ''OpenSeaMetaTransactionLibrary'') (Some ''StartrailRegistryLibraryV1'')) (\<lambda>_.
       ret ())"

definition deployRoyaltyReceiverMultiUpdate :: "ext \<Rightarrow> (string \<Rightarrow> string option) \<Rightarrow> 'c hre \<Rightarrow> ('c world, unit) act" where
  "deployRoyaltyReceiverMultiUpdate x env hre =
     andThen (deployStartrailRegistry x env hre (Some ''StartrailRegistryV21'') (Some ''IDGeneratorV3'') (Some ''OpenSeaMetaTransactionLibrary'') (Some ''StartrailRegistryLibraryV1'')) (\<lambda>_.
       ret ())"

definition deployRoyaltyRefactor :: "ext \<Rightarrow> (string \<Rightarrow> string option) \<Rightarrow> 'c hre \<Rightarrow> ('c world, unit) act" where
  "deployRoyaltyRefactor x env hre =
     andThen (deployStartrailRegistry x env hre (Some ''StartrailRegistryV22'') (Some ''IDGeneratorV3'') (Some ''OpenSeaMetaTransactionLibrary'') (Some ''StartrailRegistryLibraryV1'')) (\<lambda>_.
     andThen (deployBulk x hre (Some ''BulkV4'')) (\<lambda>_.
     andThen (if hre_network hre \<notin> set [''localhost'', ''hardhat'']
      then andThen (unregisterRequestTypesCallByAdmin x hre
        [''0x89ddd5e5b12935384bffffa1d2fcaa0767f6aaf42823f725c16e2c3dc36d04e1'',
         ''0x5be9b1e84327c6055e25bdec5e1eebee8ed9298b86b19994e011ccb8d95f0535'']) (\<lambda>_.
        registerRequestTypes x hre
        [''StartrailRegistryCreateSRRFromLicensedUserWithRoyalty'',
         ''StartrailRegistryUpdateSRRRoyalty''])
      else ret ()) (\<lambda>_.
       ret ())))"

definition deployFixTransferFromWithProvenance :: "ext \<Rightarrow> (string \<Rightarrow> string option) \<Rightarrow> 'c hre \<Rightarrow> ('c world, unit) act" where
  "deployFixTransferFromWithProvenance x env hre =
     andThen (deployStartrailRegistry x env hre (Some ''StartrailRegistryV23'') (Some ''IDGeneratorV3'') (Some ''OpenSeaMetaTransactionLibrary'') (Some ''StartrailRegistryLibraryV1'')) (\<lambda>_.
       ret ())"

section \<open>The releases of collections\<close>

definition collectionRequestTypes :: "string list" where
  "collectionRequestTypes =
     [''CollectionFactoryCreateCollection'', ''CollectionCreateSRR'', ''CollectionUpdateSRR'',
      ''CollectionUpdateSRRMetadataWithCid'', ''CollectionUpdateSRRRoyalty'',
      ''CollectionApproveSRRByCommitmentV2'', ''CollectionApproveSRRByCommitmentWithCustomHistoryIdV2'',
      ''CollectionCancelSRRCommitment'', ''CollectionAddHistory'', ''CollectionSetLockExternalTransfer'',
      ''CollectionTransferFromWithProvenanceV2'', ''CollectionTransferOwnership'']"

definition deployCollections ::
  "ext \<Rightarrow> (string \<Rightarrow> js_val option list \<Rightarrow> ('c, contract \<times> tx_receipt) act) \<Rightarrow> (string \<Rightarrow> string) \<Rightarrow> 'c hre
     \<Rightarrow> string option \<Rightarrow> ('c world, core_contracts) act" where
  "deployCollections x deployUups getAddress hre trustedForwarderOverride =
     andThen (deployMetaTxForwarder x hre (Some ''MetaTxForwarderV3'')) (\<lambda>_.
     andThen (deployCollectionsCore x deployUups getAddress hre trustedForwarderOverride) (\<lambda>deployedContracts.
     andThen (registerRequestTypes x hre collectionRequestTypes) (\<lambda>_.
       ret deployedContracts)))"

text \<open>The handle of the registry that is used last is fetched before the upgrades.\<close>

definition deployBulkCollection :: "ext \<Rightarrow> (string \<Rightarrow> string option) \<Rightarrow> 'c hre \<Rightarrow> ('c world, unit) act" where
  "deployBulkCollection x env hre =
     andThen (deployStartrailRegistry x env hre (Some ''StartrailRegistryV24'') (Some ''IDGeneratorV3'') (Some ''OpenSeaMetaTransactionLibrary'') (Some ''StartrailRegistryLibraryV1'')) (\<lambda>_.
     andThen (unregisterRequestTypesCallByAdmin x hre
        [''0x80338e3adfe718efb7b49d26e987f9a1319d89701afc8cd1b35d6c4343db633d'',
         ''0x98ce74b76cbcc5f7fc9d14949a70627b5dc8b6d1ff04fc70f34c4839ccdabf11'',
         ''0xdaf029518ea1e0c4b5517bda19381f793f3b9ca93174a70d7c688b717f8f9890'',
         ''0xd111846f191cf3c32ce6aedccf704a641a50381f22729d5a6cd5f13a0554ef80'']) (\<lambda>_.
     andThen (registerRequestTypes x hre
        [''StartrailRegistryCreateSRRFromLicensedUserWithIPFSAndRoyalty'']) (\<lambda>_.
       andThen (getContract hre ''StartrailCollectionFeatureRegistry'') (\<lambda>featureRegistry.
     andThen (upgradeFeatureContract hre ERC721Feature \<lparr>uv_from = ''V03'', uv_to = ''V03''\<rparr>) (\<lambda>_.
     andThen (upgradeFeatureContract hre SRRFeature \<lparr>uv_from = ''V02'', uv_to = ''V02''\<rparr>) (\<lambda>_.
     andThen (upgradeFeatureContract hre SRRApproveTransferFeature \<lparr>uv_from = ''V02'', uv_to = ''V02''\<rparr>) (\<lambda>_.
     andThen (upgradeFeatureContract hre ERC2981RoyaltyFeature \<lparr>uv_from = ''V01'', uv_to = ''V01''\<rparr>) (\<lambda>_.
     andThen (upgradeFeatureContract hre SRRMetadataFeature \<lparr>uv_from = ''V01'', uv_to = ''V01''\<rparr>) (\<lambda>_.
     andThen (upgradeFeatureContract hre LockExternalTransferFeature \<lparr>uv_from = ''V01'', uv_to = ''V01''\<rparr>) (\<lambda>_.
     andThen (upgradeFeatureContract hre SRRHistoryFeature \<lparr>uv_from = ''V01'', uv_to = ''V01''\<rparr>) (\<lambda>_.
     andThen (deployBulk x hre (Some ''BulkV5'')) (\<lambda>_.
     andThen (deployFeatureContract hre featureRegistry BulkFeature ''V01'') (\<lambda>_.
       ret ())))))))))))))"

definition deployBulkIssueOnBuyer :: "ext \<Rightarrow> (string \<Rightarrow> string option) \<Rightarrow> 'c hre \<Rightarrow> ('c world, unit) act" where
  "deployBulkIssueOnBuyer x env hre =
     andThen (deployStartrailRegistry x env hre (Some ''StartrailRegistryV25'') (Some ''IDGeneratorV3'') (Some ''OpenSeaMetaTransactionLibrary'') (Some ''StartrailRegistryLibraryV1'')) (\<lambda>_.
     andThen (unregisterRequestTypesCallByAdmin x hre
        [''0xbef83078847679e2da773c6b3be6b96d45b196fe69acdd04f4a54671d57ff4aa'']) (\<lambda>_.
     andThen (deployBulk x hre (Some ''BulkV6'')) (\<lambda>_.
     andThen (upgradeFeatureContract hre BulkFeature \<lparr>uv_from = ''V01'', uv_to = ''V02''\<rparr>) (\<lambda>_.
       ret ()))))"

definition deployLicensedUserManagerV2 :: "ext \<Rightarrow> (string \<Rightarrow> string option) \<Rightarrow> 'c hre \<Rightarrow> ('c world, unit) act" where
  "deployLicensedUserManagerV2 x env hre =
     andThen (deployLUM x hre (Some ''LicensedUserManagerV02'')) (\<lambda>deployed.
     andThen (deployBeacon hre) (\<lambda>licensedUserBeacon.
     andThen (from_result (defined_or_throw (ld_proxy deployed))) (\<lambda>lumProxy.
     andThen (from_result (hre_encode hre (ct_abi lumProxy) ''initializeV2''
                [Some (JString (ct_address licensedUserBeacon))])) (\<lambda>initializeV2Data.
     andThen (getAdministratorInstance hre) (\<lambda>adminContract.
     andThen (adminExecTransaction x hre adminContract
                (exec_options (ld_proxyAddress deployed) initializeV2Data)) (\<lambda>_. ret ()))))))"

definition deployCollectionSRRTransferPrivilegesUpdate :: "ext \<Rightarrow> (string \<Rightarrow> string option) \<Rightarrow> 'c hre \<Rightarrow> ('c world, unit) act" where
  "deployCollectionSRRTransferPrivilegesUpdate x env hre =
     andThen (upgradeFeatureContract hre SRRApproveTransferFeature \<lparr>uv_from = ''V02'', uv_to = ''V03''\<rparr>) (\<lambda>_.
     andThen (upgradeFeatureContract hre ERC721Feature \<lparr>uv_from = ''V03'', uv_to = ''V04''\<rparr>) (\<lambda>_.
     andThen (upgradeFeatureContract hre BulkFeature \<lparr>uv_from = ''V02'', uv_to = ''V03''\<rparr>) (\<lambda>_.
       ret ())))"

definition deployFixCollectionLogProvenance :: "ext \<Rightarrow> (string \<Rightarrow> string option) \<Rightarrow> 'c hre \<Rightarrow> ('c world, unit) act" where
  "deployFixCollectionLogProvenance x env hre =
     andThen (upgradeFeatureContract hre SRRApproveTransferFeature \<lparr>uv_from = ''V03'', uv_to = ''V04''\<rparr>) (\<lambda>_.
       ret ())"

text \<open>The releases after the first one, in their order, as scripts without parameters.\<close>

definition releases ::
  "ext \<Rightarrow> (string \<Rightarrow> string option) \<Rightarrow> string
     \<Rightarrow> (string \<Rightarrow> js_val option list \<Rightarrow> ('c, contract \<times> tx_receipt) act) \<Rightarrow> (string \<Rightarrow> string) \<Rightarrow> 'c hre
     \<Rightarrow> ('c world, unit) act list" where
  "releases x env signer4 deployUups getAddress hre =
     [deployInitialBulkTransfer x env hre, deployExhibitionHistory x env hre, deploySecondTransfer x env hre,
      deployTransferFromEOAToEOA x env hre, deployProvenanceCreatedAtFix x env hre,
      deployForMarketplaces x env hre, deployBulkIssueEnhancement x env hre, deployOwnable x env hre,
      deployMetaTxPolygonOpenSea x env signer4 hre, deployInitialBulk x env hre,
      deployCreateSRRIssueToRecipient x env hre, deployRenameRecipient x env hre,
      deployBytecodeReduction x env hre, deployCustomHistoryUpdate x env hre,
      deployUpdateSRRAddHistoryPermission x env hre, deployAuditFixes x env hre,
      deployCustomHistoryNameUpdate x env hre, deployEnableIPFS x env hre, deployRoyaltyERC2981 x env hre,
      deployFixIPFSUrl x env hre, deployRoyaltyReceiverMultiUpdate x env hre, deployRoyaltyRefactor x env hre,
      andThen (deployCollections x deployUups getAddress hre None) (\<lambda>_. ret ()),
      deployFixTransferFromWithProvenance x env hre, deployBulkCollection x env hre,
      deployBulkIssueOnBuyer x env hre, deployLicensedUserManagerV2 x env hre,
      deployCollectionSRRTransferPrivilegesUpdate x env hre, deployFixCollectionLogProvenance x env hre]"

end
