(* ===== verification/AddressBook.thy ===== *)
theory AddressBook
  imports Releases
begin

text \<open>
  What the scripts keep: one lemma per script, in the order of the calls, all from the rules of
  composition (\<open>book_rules\<close>): whether a script returns or throws, every name of every JSON file is
  still there, and the address under it is the same unless the name is one of \<open>release_names\<close>. The
  scripts of the first release are the exception: they start the files, so for the scripts that both
  deploy a proxy and upgrade it the lemma is about the upgrade.
\<close>

lemma book_impersonateForkedNetworkAccount [book_rules]: "keeps book_kept (impersonateForkedNetworkAccount a0 a1)"
  unfolding impersonateForkedNetworkAccount_def Let_def by (intro book_rules)

lemma book_getDeployer [book_rules]: "keeps book_kept (getDeployer a0)"
  unfolding getDeployer_def Let_def by (intro book_rules)

lemma book_getAdministratorSigner [book_rules]: "keeps book_kept (getAdministratorSigner a0)"
  unfolding getAdministratorSigner_def Let_def by (intro book_rules)

lemma book_getAdministratorInstance [book_rules]: "keeps book_kept (getAdministratorInstance a0)"
  unfolding getAdministratorInstance_def Let_def by (intro book_rules)

lemma book_adminExecTransaction [book_rules]: "keeps book_kept (adminExecTransaction a0 a1 a2 a3)"
  unfolding adminExecTransaction_def Let_def by (intro book_rules)

lemma book_getContract [book_rules]: "keeps book_kept (getContract a0 a1)"
  unfolding getContract_def Let_def by (intro book_rules)

lemma book_getContractFactory [book_rules]: "keeps book_kept (getContractFactory a0 a1)"
  unfolding getContractFactory_def Let_def by (intro book_rules)

lemma book_waitTxHH [book_rules]: "keeps book_kept (waitTxHH a0 a1 a2)"
  unfolding waitTxHH_def Let_def by (intro book_rules)

lemma book_isContractDeployed [book_rules]: "keeps book_kept (isContractDeployed a0 a1)"
  unfolding isContractDeployed_def Let_def by (intro book_rules)

lemma book_assertContractDeployed [book_rules]: "keeps book_kept (assertContractDeployed a0 a1 a2)"
  by (simp add: keeps_def book_kept_def assertContractDeployed_def isContractDeployed_def Let_def)

lemma book_assertContractNotDeployed [book_rules]: "keeps book_kept (assertContractNotDeployed a0 a1 a2)"
  unfolding assertContractNotDeployed_def Let_def by (intro book_rules)

lemma book_parseLogs [book_rules]: "keeps book_kept (parseLogs a0 a1)"
  unfolding parseLogs_def Let_def by (intro book_rules)

lemma book_upgradeFromAdmin [book_rules]: "keeps book_kept (upgradeFromAdmin a0 a1 a2 a3)"
  unfolding upgradeFromAdmin_def Let_def by (intro book_rules)

lemma book_diamondCut [book_rules]: "keeps book_kept (diamondCut a0 a1 a2 a3 a4)"
  unfolding diamondCut_def Let_def by (intro book_rules)

lemma book_registerSelectors [book_rules]: "keeps book_kept (registerSelectors a0 a1 a2 a3 a4)"
  unfolding registerSelectors_def Let_def by (intro book_rules)

lemma book_replaceSelectors [book_rules]: "keeps book_kept (replaceSelectors a0 a1 a2 a3)"
  unfolding replaceSelectors_def Let_def by (intro book_rules)

lemma book_removeSelectors [book_rules]: "keeps book_kept (removeSelectors a0 a1 a2)"
  unfolding removeSelectors_def Let_def by (intro book_rules)

lemma book_deployFeature [book_rules]: "keeps book_kept (deployFeature a0 a1 a2 a3 a4 a5)"
  unfolding deployFeature_def Let_def by (intro book_rules)

lemma book_upgradeFeature [book_rules]: "keeps book_kept (upgradeFeature a0 a1 a2 a3 a4)"
  unfolding upgradeFeature_def Let_def by (intro book_rules)

lemma book_deployERC721Feature [book_rules]: "keeps book_kept (deployERC721Feature a0 a1 a2)"
  unfolding deployERC721Feature_def Let_def by (intro book_rules)

lemma book_deployLockExternalTransferFeature [book_rules]: "keeps book_kept (deployLockExternalTransferFeature a0 a1 a2)"
  unfolding deployLockExternalTransferFeature_def Let_def by (intro book_rules)

lemma book_idGenerator_library [book_rules]: "keeps book_kept (idGenerator_library a0)"
  unfolding idGenerator_library_def Let_def by (intro book_rules)

lemma book_deploySRRFeature [book_rules]: "keeps book_kept (deploySRRFeature a0 a1 a2)"
  unfolding deploySRRFeature_def Let_def by (intro book_rules)

lemma book_deploySRRApproveTransferFeature [book_rules]: "keeps book_kept (deploySRRApproveTransferFeature a0 a1 a2)"
  unfolding deploySRRApproveTransferFeature_def Let_def by (intro book_rules)

lemma book_deploySRRMetadataFeature [book_rules]: "keeps book_kept (deploySRRMetadataFeature a0 a1 a2)"
  unfolding deploySRRMetadataFeature_def Let_def by (intro book_rules)

lemma book_deploySRRHistoryFeature [book_rules]: "keeps book_kept (deploySRRHistoryFeature a0 a1 a2)"
  unfolding deploySRRHistoryFeature_def Let_def by (intro book_rules)

lemma book_deployERC2981RoyaltyFeature [book_rules]: "keeps book_kept (deployERC2981RoyaltyFeature a0 a1 a2)"
  unfolding deployERC2981RoyaltyFeature_def Let_def by (intro book_rules)

lemma book_deployBulkFeature [book_rules]: "keeps book_kept (deployBulkFeature a0 a1 a2)"
  unfolding deployBulkFeature_def Let_def by (intro book_rules)

lemma book_deployFeatureContract [book_rules]: "keeps book_kept (deployFeatureContract a0 a1 a2 a3)"
  by (cases a2) (simp_all only: deployFeatureContract.simps, (rule book_rules)+)

lemma book_upgradeERC721Feature [book_rules]: "keeps book_kept (upgradeERC721Feature a0 a1)"
  unfolding upgradeERC721Feature_def Let_def by (intro book_rules)

lemma book_upgradeSRRFeature [book_rules]: "keeps book_kept (upgradeSRRFeature a0 a1)"
  unfolding upgradeSRRFeature_def Let_def by (intro book_rules)

lemma book_upgradeERC2981RoyaltyFeature [book_rules]: "keeps book_kept (upgradeERC2981RoyaltyFeature a0 a1)"
  unfolding upgradeERC2981RoyaltyFeature_def Let_def by (intro book_rules)

lemma book_upgradeSRRMetadataFeature [book_rules]: "keeps book_kept (upgradeSRRMetadataFeature a0 a1)"
  unfolding upgradeSRRMetadataFeature_def Let_def by (intro book_rules)

lemma book_upgradeSRRApproveTransferFeature [book_rules]: "keeps book_kept (upgradeSRRApproveTransferFeature a0 a1)"
  unfolding upgradeSRRApproveTransferFeature_def Let_def by (intro book_rules)

lemma book_upgradeLockExternalTransferFeature [book_rules]: "keeps book_kept (upgradeLockExternalTransferFeature a0 a1)"
  unfolding upgradeLockExternalTransferFeature_def Let_def by (intro book_rules)

lemma book_upgradeSRRHistoryFeature [book_rules]: "keeps book_kept (upgradeSRRHistoryFeature a0 a1)"
  unfolding upgradeSRRHistoryFeature_def Let_def by (intro book_rules)

lemma book_upgradeBulkFeature [book_rules]: "keeps book_kept (upgradeBulkFeature a0 a1)"
  unfolding upgradeBulkFeature_def Let_def by (intro book_rules)

lemma book_upgradeFeatureContract [book_rules]: "keeps book_kept (upgradeFeatureContract a0 a1 a2)"
  by (cases a1) (simp_all only: upgradeFeatureContract.simps, (rule book_rules)+)

lemma book_setCollectionRegistryOnCollectionFactory [book_rules]: "keeps book_kept (setCollectionRegistryOnCollectionFactory a0 a1 a2 a3)"
  unfolding setCollectionRegistryOnCollectionFactory_def Let_def by (intro book_rules)

lemma book_deployCoreFeatures [book_rules]: "keeps book_kept (deployCoreFeatures a0 a1)"
  unfolding deployCoreFeatures_def Let_def by (intro book_rules)

lemma book_deployCollectionsCore [book_rules]: "keeps book_kept (deployCollectionsCore a0 a1 a2 a3 a4)"
  unfolding deployCollectionsCore_def Let_def by (intro book_rules)

lemma book_getDestinationAddress [book_rules]: "keeps book_kept (getDestinationAddress a0 a1 a2)"
  unfolding getDestinationAddress_def Let_def by (intro book_rules)

lemma book_registerCalldata [book_rules]: "keeps book_kept (registerCalldata a0 a1 a2 a3)"
  unfolding registerCalldata_def Let_def by (intro book_rules)

lemma book_registerRequestTypesCallByAdmin [book_rules]: "keeps book_kept (registerRequestTypesCallByAdmin a0 a1 a2 a3 a4)"
  unfolding registerRequestTypesCallByAdmin_def Let_def by (intro book_rules)

lemma book_registerRequestTypes [book_rules]: "keeps book_kept (registerRequestTypes a0 a1 a2)"
  unfolding registerRequestTypes_def Let_def by (intro book_rules)

lemma book_registerRequestTypesGenesisSet [book_rules]: "keeps book_kept (registerRequestTypesGenesisSet a0 a1)"
  unfolding registerRequestTypesGenesisSet_def Let_def by (intro book_rules)

lemma book_unregisterRequestTypeCallByAdmin [book_rules]: "keeps book_kept (unregisterRequestTypeCallByAdmin a0 a1 a2)"
  unfolding unregisterRequestTypeCallByAdmin_def Let_def by (intro book_rules)

lemma book_unregisterRequestTypesCallByAdmin [book_rules]: "keeps book_kept (unregisterRequestTypesCallByAdmin a0 a1 a2)"
  unfolding unregisterRequestTypesCallByAdmin_def Let_def by (intro book_rules)

lemma book_nameRegistrySet [book_rules]: "keeps book_kept (nameRegistrySet a0 a1 a2 a3)"
  unfolding nameRegistrySet_def Let_def by (intro book_rules)

lemma book_addCustomHistoryType [book_rules]: "keeps book_kept (addCustomHistoryType a0 a1 a2)"
  unfolding addCustomHistoryType_def Let_def by (intro book_rules)

lemma book_deployContract [book_rules]: "keeps book_kept (deployContract a0 a1 a2 a3)"
  unfolding deployContract_def Let_def by (intro book_rules)

lemma book_deployProxy [book_rules]: "keeps book_kept (deployProxy a0 a1 a2 a3)"
  unfolding deployProxy_def Let_def by (intro book_rules)

lemma book_singletonFactoryContractHandle [book_rules]: "keeps book_kept (singletonFactoryContractHandle a0)"
  unfolding singletonFactoryContractHandle_def Let_def by (intro book_rules)

lemma book_deploySingleton [book_rules]: "keeps book_kept (deploySingleton a0 a1 a2)"
  unfolding deploySingleton_def Let_def by (intro book_rules)

lemma book_encodeDeploySingleton [book_rules]: "keeps book_kept (encodeDeploySingleton a0 a1 a2)"
  unfolding encodeDeploySingleton_def Let_def by (intro book_rules)

lemma book_deployEIP2470SingletonFactory [book_rules]: "keeps book_kept (deployEIP2470SingletonFactory a0)"
  unfolding deployEIP2470SingletonFactory_def Let_def by (intro book_rules)

lemma book_isEIP2470Deployed [book_rules]: "keeps book_kept (isEIP2470Deployed a0)"
  unfolding isEIP2470Deployed_def Let_def by (intro book_rules)

lemma book_lum_upgrade [book_rules]: "keeps book_kept (lum_upgrade a0 a1 a2)"
  unfolding lum_upgrade_def Let_def by (intro book_rules)

lemma book_deployBeacon [book_rules]: "keeps book_kept (deployBeacon a0)"
  unfolding deployBeacon_def Let_def by (intro book_rules)

lemma book_deployEIP2470 [book_rules]: "keeps book_kept (deployEIP2470 a0)"
  unfolding deployEIP2470_def Let_def by (intro book_rules)

lemma book_deployImplementation [book_rules]: "keeps book_kept (deployImplementation a0 a1)"
  unfolding deployImplementation_def Let_def by (intro book_rules)

lemma book_deployLUM [book_rules]: "keeps book_kept (deployLUM a0 a1 (Some a2))"
  unfolding deployLUM_def Let_def option.case by (intro book_rules)

lemma book_deployMetaTxForwarder [book_rules]: "keeps book_kept (deployMetaTxForwarder a0 a1 (Some a2))"
  unfolding deployMetaTxForwarder_def Let_def option.case by (intro book_rules)

lemma book_deployStartrailRegistry [book_rules]: "keeps book_kept (deployStartrailRegistry a0 a1 a2 (Some a3) a4 a5 a6)"
  unfolding deployStartrailRegistry_def Let_def option.case by (intro book_rules)

lemma book_deployBulk [book_rules]: "keeps book_kept (deployBulk a0 a1 a2)"
  unfolding deployBulk_def Let_def by (intro book_rules)

lemma book_deployBulkIssue [book_rules]: "keeps book_kept (deployBulkIssue a0 a1 (Some a2))"
  unfolding deployBulkIssue_def Let_def option.case by (intro book_rules)

lemma book_deployBulkTransfer [book_rules]: "keeps book_kept (deployBulkTransfer a0 a1 a2)"
  unfolding deployBulkTransfer_def Let_def by (intro book_rules)

lemma book_gnosis_deployContract [book_rules]: "keeps book_kept (gnosis_deployContract a0 a1)"
  unfolding gnosis_deployContract_def Let_def by (intro book_rules)

lemma book_gnosisContracts [book_rules]: "keeps book_kept (gnosisContracts a0)"
  unfolding gnosisContracts_def Let_def by (intro book_rules)

lemma book_setNameRegistryAdministrator [book_rules]: "keeps book_kept (setNameRegistryAdministrator a0 a1)"
  unfolding setNameRegistryAdministrator_def Let_def by (intro book_rules)

lemma book_deployInitialBulkTransfer [book_rules]: "keeps book_kept (deployInitialBulkTransfer a0 a1 a2)"
  unfolding deployInitialBulkTransfer_def Let_def by (intro book_rules)

lemma book_deployExhibitionHistory [book_rules]: "keeps book_kept (deployExhibitionHistory a0 a1 a2)"
  unfolding deployExhibitionHistory_def Let_def by (intro book_rules)

lemma book_deploySecondTransfer [book_rules]: "keeps book_kept (deploySecondTransfer a0 a1 a2)"
  unfolding deploySecondTransfer_def Let_def by (intro book_rules)

lemma book_deployTransferFromEOAToEOA [book_rules]: "keeps book_kept (deployTransferFromEOAToEOA a0 a1 a2)"
  unfolding deployTransferFromEOAToEOA_def Let_def by (intro book_rules)

lemma book_deployProvenanceCreatedAtFix [book_rules]: "keeps book_kept (deployProvenanceCreatedAtFix a0 a1 a2)"
  unfolding deployProvenanceCreatedAtFix_def Let_def by (intro book_rules)

lemma book_deployForMarketplaces [book_rules]: "keeps book_kept (deployForMarketplaces a0 a1 a2)"
  unfolding deployForMarketplaces_def Let_def by (intro book_rules)

lemma book_deployBulkIssueEnhancement [book_rules]: "keeps book_kept (deployBulkIssueEnhancement a0 a1 a2)"
  unfolding deployBulkIssueEnhancement_def Let_def by (intro book_rules)

lemma book_deployOwnable [book_rules]: "keeps book_kept (deployOwnable a0 a1 a2)"
  unfolding deployOwnable_def Let_def by (intro book_rules)

lemma book_deployMetaTxPolygonOpenSea [book_rules]: "keeps book_kept (deployMetaTxPolygonOpenSea a0 a1 a2 a3)"
  unfolding deployMetaTxPolygonOpenSea_def Let_def by (intro book_rules)

lemma book_deployInitialBulk [book_rules]: "keeps book_kept (deployInitialBulk a0 a1 a2)"
  unfolding deployInitialBulk_def Let_def by (intro book_rules)

lemma book_deployCreateSRRIssueToRecipient [book_rules]: "keeps book_kept (deployCreateSRRIssueToRecipient a0 a1 a2)"
  unfolding deployCreateSRRIssueToRecipient_def Let_def by (intro book_rules)

lemma book_deployRenameRecipient [book_rules]: "keeps book_kept (deployRenameRecipient a0 a1 a2)"
  unfolding deployRenameRecipient_def Let_def by (intro book_rules)

lemma book_deployBytecodeReduction [book_rules]: "keeps book_kept (deployBytecodeReduction a0 a1 a2)"
  unfolding deployBytecodeReduction_def Let_def by (intro book_rules)

lemma book_deployCustomHistoryUpdate [book_rules]: "keeps book_kept (deployCustomHistoryUpdate a0 a1 a2)"
  unfolding deployCustomHistoryUpdate_def Let_def by (intro book_rules)

lemma book_deployUpdateSRRAddHistoryPermission [book_rules]: "keeps book_kept (deployUpdateSRRAddHistoryPermission a0 a1 a2)"
  unfolding deployUpdateSRRAddHistoryPermission_def Let_def by (intro book_rules)

lemma book_deployAuditFixes [book_rules]: "keeps book_kept (deployAuditFixes a0 a1 a2)"
  unfolding deployAuditFixes_def Let_def by (intro book_rules)

lemma book_deployCustomHistoryNameUpdate [book_rules]: "keeps book_kept (deployCustomHistoryNameUpdate a0 a1 a2)"
  unfolding deployCustomHistoryNameUpdate_def Let_def by (intro book_rules)

lemma book_deployEnableIPFS [book_rules]: "keeps book_kept (deployEnableIPFS a0 a1 a2)"
  unfolding deployEnableIPFS_def Let_def by (intro book_rules)

lemma book_deployRoyaltyERC2981 [book_rules]: "keeps book_kept (deployRoyaltyERC2981 a0 a1 a2)"
  unfolding deployRoyaltyERC2981_def Let_def by (intro book_rules)

lemma book_deployFixIPFSUrl [book_rules]: "keeps book_kept (deployFixIPFSUrl a0 a1 a2)"
  unfolding deployFixIPFSUrl_def Let_def by (intro book_rules)

lemma book_deployRoyaltyReceiverMultiUpdate [book_rules]: "keeps book_kept (deployRoyaltyReceiverMultiUpdate a0 a1 a2)"
  unfolding deployRoyaltyReceiverMultiUpdate_def Let_def by (intro book_rules)

lemma book_deployRoyaltyRefactor [book_rules]: "keeps book_kept (deployRoyaltyRefactor a0 a1 a2)"
  unfolding deployRoyaltyRefactor_def Let_def by (intro book_rules)

lemma book_deployFixTransferFromWithProvenance [book_rules]: "keeps book_kept (deployFixTransferFromWithProvenance a0 a1 a2)"
  unfolding deployFixTransferFromWithProvenance_def Let_def by (intro book_rules)

lemma book_deployCollections [book_rules]: "keeps book_kept (deployCollections a0 a1 a2 a3 a4)"
  unfolding deployCollections_def Let_def by (intro book_rules)

lemma book_deployBulkCollection [book_rules]: "keeps book_kept (deployBulkCollection a0 a1 a2)"
  unfolding deployBulkCollection_def Let_def by (intro book_rules)

lemma book_deployBulkIssueOnBuyer [book_rules]: "keeps book_kept (deployBulkIssueOnBuyer a0 a1 a2)"
  unfolding deployBulkIssueOnBuyer_def Let_def by (intro book_rules)

lemma book_deployLicensedUserManagerV2 [book_rules]: "keeps book_kept (deployLicensedUserManagerV2 a0 a1 a2)"
  unfolding deployLicensedUserManagerV2_def Let_def by (intro book_rules)

lemma book_deployCollectionSRRTransferPrivilegesUpdate [book_rules]: "keeps book_kept (deployCollectionSRRTransferPrivilegesUpdate a0 a1 a2)"
  unfolding deployCollectionSRRTransferPrivilegesUpdate_def Let_def by (intro book_rules)

lemma book_deployFixCollectionLogProvenance [book_rules]: "keeps book_kept (deployFixCollectionLogProvenance a0 a1 a2)"
  unfolding deployFixCollectionLogProvenance_def Let_def by (intro book_rules)

end
