(* ===== verification/Versions.thy ===== *)
theory Versions
  imports Hardhat
begin

text \<open>
  The order in which \<open>getContractNameLatest\<close> considers the versions of a contract: all digits of a
  path are read as one number, so versions are compared as numbers when they have the same number
  of digits or when nothing else in the path is a digit.
\<close>

interpretation byNumber: comparator compareByNumber
  by unfold_locales (auto simp: compareByNumber_def Let_def split: if_splits)

lemma compareByNumber_le: "compareByNumber a b \<le> 0 \<longleftrightarrow> pathNumber a \<le> pathNumber b"
  by (auto simp: compareByNumber_def Let_def)

lemma sortByNumber_facts:
  "set (sortByNumber ps) = set ps" "length (sortByNumber ps) = length ps"
  "sorted_wrt (\<lambda>a b. pathNumber a \<le> pathNumber b) (sortByNumber ps)"
  unfolding sortByNumber_def
  using byNumber.set_js_sort byNumber.length_js_sort byNumber.js_sort_sorted [of ps]
  by (simp_all add: compareByNumber_le)

lemma sorted_wrt_last:
  "sorted_wrt R xs \<Longrightarrow> (\<And>x. R x x) \<Longrightarrow> x \<in> set xs \<Longrightarrow> R x (last xs)"
  by (induction xs) auto

lemma last_version:
  assumes "ps \<noteq> []"
  shows "last (sortByNumber ps) \<in> set ps" "q \<in> set ps \<Longrightarrow> pathNumber q \<le> pathNumber (last (sortByNumber ps))"
proof -
  have "sortByNumber ps \<noteq> []" using sortByNumber_facts(2) [of ps] assms by auto
  from last_in_set [OF this] show "last (sortByNumber ps) \<in> set ps" by (simp add: sortByNumber_facts(1))
  show "pathNumber q \<le> pathNumber (last (sortByNumber ps))" if "q \<in> set ps"
    by (rule sorted_wrt_last [OF sortByNumber_facts(3)]) (simp_all add: sortByNumber_facts(1) that)
qed

section \<open>Numbers of paths\<close>

lemma digits_value_foldl: "foldl (\<lambda>a c. 10 * a + dec_value c) n s = n * 10 ^ length s + digits_value s"
proof (induction s arbitrary: n)
  case Nil
  then show ?case by (simp add: digits_value_def)
next
  case (Cons c s)
  show ?case
    using Cons.IH [of "10 * n + dec_value c"] Cons.IH [of "dec_value c"]
    by (simp add: digits_value_def algebra_simps)
qed

lemma digits_value_append: "digits_value (a @ b) = digits_value a * 10 ^ length b + digits_value b"
  using digits_value_foldl [of "digits_value a" b] by (simp add: digits_value_def)

definition version_path :: "string \<Rightarrow> string \<Rightarrow> string \<Rightarrow> string" where
  "version_path dir name v = dir @ ''/'' @ name @ ''V'' @ v @ ''.sol''"

lemma pathNumber_version:
  assumes "list_all isDigit v"
  shows "pathNumber (version_path dir name v) =
    digits_value (filter isDigit (dir @ name)) * 10 ^ length v + digits_value v"
proof -
  have "filter isDigit v = v" using assms by (simp add: list_all_iff)
  then have "filter isDigit (version_path dir name v) = filter isDigit (dir @ name) @ v"
    by (simp add: version_path_def isDigit_def)
  then show ?thesis unfolding pathNumber_def by (simp only: digits_value_append)
qed

lemma takeWhile_rev_slash:
  "CHR ''/'' \<notin> set s \<Longrightarrow> rev (takeWhile (\<lambda>c. c \<noteq> CHR ''/'') (rev (dir @ ''/'' @ s))) = s"
  by (subst rev_append, simp add: takeWhile_append takeWhile_eq_all_conv)

lemma matchContractName_version:
  assumes "CHR ''/'' \<notin> set name" and "list_all isDigit v"
  shows "matchContractName (version_path dir name v) = Inr (name @ ''V'' @ v)"
proof -
  let ?s = "name @ ''V'' @ v @ ''.sol''"
  have "CHR ''/'' \<notin> set v" using assms(2) by (auto simp: list_all_iff isDigit_def)
  then have "CHR ''/'' \<notin> set ?s" using assms(1) by simp
  from takeWhile_rev_slash [OF this, of dir] have "basename (version_path dir name v) = ?s"
    by (simp only: basename_def version_path_def)
  then show ?thesis by (simp add: matchContractName_def version_path_def)
qed

lemma latest_version:
  assumes "hre_glob hre (''contracts/**/'' @ name @ ''V*.sol'') = map (version_path dir name) vs"
    and "vs \<noteq> []" and "list_all (list_all isDigit) vs" and "CHR ''/'' \<notin> set name"
    and "list_all (\<lambda>v. length v = n) vs \<or> filter isDigit (dir @ name) = []"
  shows "\<exists>v \<in> set vs. getContractNameLatest hre name = Inr (name @ ''V'' @ v) \<and>
    (\<forall>u \<in> set vs. digits_value u \<le> digits_value v)"
proof -
  let ?ps = "map (version_path dir name) vs"
  have ne: "?ps \<noteq> []" using assms(2) by simp
  obtain v where v: "v \<in> set vs" "last (sortByNumber ?ps) = version_path dir name v"
    using last_version(1) [OF ne] by auto
  have dv: "list_all isDigit v" using assms(3) v(1) by (simp add: list_all_iff)
  have "getContractNameLatest hre name = Inr (name @ ''V'' @ v)"
    unfolding getContractNameLatest_def assms(1) Let_def v(2) sortByNumber_facts(2)
    using matchContractName_version [OF assms(4) dv] assms(2) by simp
  moreover have "digits_value u \<le> digits_value v" if u: "u \<in> set vs" for u
  proof -
    have du: "list_all isDigit u" using assms(3) u by (simp add: list_all_iff)
    have "pathNumber (version_path dir name u) \<le> pathNumber (version_path dir name v)"
      using last_version(2) [OF ne] u v(2) by (metis image_eqI list.set_map)
    then show ?thesis
      using assms(5) u v(1) unfolding pathNumber_version [OF du] pathNumber_version [OF dv]
      by (auto simp: list_all_iff digits_value_def)
  qed
  ultimately show ?thesis using v(1) by blast
qed

end
