(* ===== verification/Runtime.thy ===== *)
theory Runtime
  imports Strings
begin

text \<open>
  What every subgraph handler shares: the event a handler receives, the host functions of the
  graph node (parameters of the model, collected in the record \<open>host\<close>), the reasons a handler
  aborts, and the functions of \<open>subgraph/src/lib/utils.ts\<close>.

  \<open>host\<close> holds the functions the handlers call that are not part of this repository or of the
  language: \<open>crypto.keccak256\<close>, the byte representation of a \<open>BigInt\<close> (\<open>Bytes.fromBigInt\<close>),
  \<open>BigInt.toHex\<close>, \<open>Bytes.fromHexString\<close> (\<open>None\<close> when it throws), \<open>ByteArray.fromUTF8\<close> and
  \<open>dataSource.network()\<close>. \<open>Date\<close> belongs to the language's library and is written out.
\<close>

record host =
  keccak256 :: "bytes \<Rightarrow> bytes"
  fromBigInt :: "int \<Rightarrow> bytes"
  bigIntToHex :: "int \<Rightarrow> string"
  fromHexString :: "string \<Rightarrow> bytes option"
  fromUTF8 :: "string \<Rightarrow> bytes"
  network :: string

datatype abort = InvalidDate | I64Overflow | NullReference | BadHexString

datatype eth_value =
    VAddress address
  | VFixedBytes bytes
  | VBytes bytes
  | VInt int
  | VUint int
  | VBool bool
  | VString string
  | VFixedArray "eth_value list"
  | VArray "eth_value list"
  | VTuple "eth_value list"

record eth_event =
  ev_address :: address
  ev_timestamp :: int
  ev_txHash :: bytes
  ev_logIndex :: int
  ev_parameters :: "(string \<times> eth_value) list"

section \<open>The Date of the language's library\<close>

text \<open>A time is a number of milliseconds since 1970-01-01T00:00:00Z. The constructor throws
  outside 8.64e15 milliseconds around that instant.\<close>

definition date_limit :: int where
  "date_limit = 8640000000000000"

definition civil_from_days :: "int \<Rightarrow> int \<times> int \<times> int" where
  "civil_from_days d =
     (let z = d + 719468;
          era = z div 146097;
          doe = z mod 146097;
          yoe = (doe - doe div 1460 + doe div 36524 - doe div 146096) div 365;
          doy = doe - (365 * yoe + yoe div 4 - yoe div 100);
          mp = (5 * doy + 2) div 153;
          day = doy - (153 * mp + 2) div 5 + 1;
          month = (if mp < 10 then mp + 3 else mp - 9);
          year = yoe + era * 400 + (if month \<le> 2 then 1 else 0)
      in (year, month, day))"

definition week_days :: "string list" where
  "week_days = [''Sun'', ''Mon'', ''Tue'', ''Wed'', ''Thu'', ''Fri'', ''Sat'']"

definition month_names :: "string list" where
  "month_names = [''Jan'', ''Feb'', ''Mar'', ''Apr'', ''May'', ''Jun'',
                  ''Jul'', ''Aug'', ''Sep'', ''Oct'', ''Nov'', ''Dec'']"

definition pad_dec :: "nat \<Rightarrow> int \<Rightarrow> string" where
  "pad_dec n i = (let s = nat_dec (nat i) in replicate (n - length s) (CHR ''0'') @ s)"

definition utc_string :: "int \<Rightarrow> string" where
  "utc_string ms =
     (let days = ms div 86400000;
          secs = (ms mod 86400000) div 1000;
          (year, month, day) = civil_from_days days
      in week_days ! nat ((days + 4) mod 7) @ '', '' @ pad_dec 2 day @ '' '' @
         month_names ! nat (month - 1) @ '' '' @
         (if year < 0 then ''-'' else '''') @ pad_dec 4 \<bar>year\<bar> @ '' '' @
         pad_dec 2 (secs div 3600) @ '':'' @ pad_dec 2 (secs div 60 mod 60) @ '':'' @
         pad_dec 2 (secs mod 60) @ '' GMT'')"

section \<open>subgraph/src/lib/utils.ts\<close>

definition currentChainId :: "host \<Rightarrow> string" where
  "currentChainId h =
     (let net = network h in
      if net = ''matic'' then ''eip155:137''
      else if contains_str net ''amoy'' then ''eip155:80002''
      else if net = ''hardhat'' \<or> contains_str net ''local'' then ''eip155:31337''
      else ''eip155:unknown'')"

definition ZERO_ADDRESS :: address where
  "ZERO_ADDRESS = replicate 20 0"

definition secondsToMillis :: "int \<Rightarrow> int" where
  "secondsToMillis timestampSeconds = timestampSeconds * 1000"

definition eventUTCMillis :: "eth_event \<Rightarrow> int" where
  "eventUTCMillis event = secondsToMillis (ev_timestamp event)"

fun ethereumValueToString :: "eth_value \<Rightarrow> string" where
  "ethereumValueToString (VString s) = s"
| "ethereumValueToString (VAddress a) = toHex a"
| "ethereumValueToString (VInt i) = int_dec i"
| "ethereumValueToString (VUint i) = int_dec i"
| "ethereumValueToString (VBytes b) = toHex b"
| "ethereumValueToString (VFixedBytes b) = toHex b"
| "ethereumValueToString (VArray vs) =
     ''('' @ join_str '','' (map (\<lambda>iv. ethereumValueToString iv) vs) @ '')''"
| "ethereumValueToString (VFixedArray vs) =
     ''('' @ join_str '','' (map (\<lambda>iv. ethereumValueToString iv) vs) @ '')''"
| "ethereumValueToString (VTuple vs) =
     ''('' @ join_str '','' (map (\<lambda>iv. ethereumValueToString iv) vs) @ '')''"
| "ethereumValueToString (VBool b) = int_dec (if b then 1 else 0)"

text \<open>The log line of a handler: the format handed to \<open>log.info\<close> and its arguments.\<close>

definition logInvocation :: "string \<Rightarrow> eth_event \<Rightarrow> string \<times> string list" where
  "logInvocation handlerName event =
     (let paramLog = map (\<lambda>(name, value). name @ '':'' @ ethereumValueToString value)
                         (ev_parameters event)
      in (''{} [params: {}] [tx: {}]'',
          [handlerName, join_str '','' paramLog, toHex (ev_txHash event)]))"

definition toUTCString :: "int \<Rightarrow> abort + string" where
  "toUTCString timestamp =
     (if timestamp < - (2 ^ 63) \<or> 2 ^ 63 \<le> timestamp then Inl I64Overflow
      else if timestamp < - date_limit \<or> date_limit < timestamp then Inl InvalidDate
      else Inr (utc_string timestamp))"

definition srrEntityId :: "host \<Rightarrow> address \<Rightarrow> int \<Rightarrow> string" where
  "srrEntityId h collectionAddress tokenId =
     toHex (keccak256 h (collectionAddress @ fromBigInt h tokenId))"

text \<open>The keccak identifiers built from strings: \<open>crypto.keccak256(ByteArray.fromUTF8(s)).toHex()\<close>.\<close>

definition keccakId :: "host \<Rightarrow> string \<Rightarrow> string" where
  "keccakId h s = toHex (keccak256 h (fromUTF8 h s))"

section \<open>Facts about times and identifiers\<close>

definition valid_time :: "int \<Rightarrow> bool" where
  "valid_time t \<longleftrightarrow> - date_limit \<le> t \<and> t \<le> date_limit"

lemma toUTCString_eq_Inr [res]: "toUTCString t = Inr str \<longleftrightarrow> valid_time t \<and> str = utc_string t"
  by (auto simp: toUTCString_def valid_time_def date_limit_def)

lemma toUTCString_valid [simp, res]: "valid_time t \<Longrightarrow> toUTCString t = Inr (utc_string t)"
  by (simp add: toUTCString_eq_Inr)

lemma toUTCString_invalid: "\<not> valid_time t \<Longrightarrow> \<exists>e. toUTCString t = Inl e"
  by (auto simp: toUTCString_def valid_time_def)

lemma succeeds_toUTCString [simp, res]: "succeeds (toUTCString t) \<longleftrightarrow> valid_time t"
  by (auto simp: succeeds_iff toUTCString_eq_Inr)

lemma utc_string_epoch: "utc_string 0 = ''Thu, 01 Jan 1970 00:00:00 GMT''"
  by code_simp

lemma utc_string_leap_day: "utc_string 1709210096789 = ''Thu, 29 Feb 2024 12:34:56 GMT''"
  by code_simp

lemma utc_string_before_epoch: "utc_string (-1000) = ''Wed, 31 Dec 1969 23:59:59 GMT''"
  by code_simp

text \<open>The zero address is recognised by its rendering.\<close>

lemma is_zero_address: "toHex a = toHex ZERO_ADDRESS \<longleftrightarrow> a = ZERO_ADDRESS"
  by simp

text \<open>The host does not collide on two byte strings: equal hashes come from equal inputs.\<close>

definition no_collision :: "host \<Rightarrow> bytes \<Rightarrow> bytes \<Rightarrow> bool" where
  "no_collision h x y \<longleftrightarrow> (keccak256 h x = keccak256 h y \<longrightarrow> x = y)"

definition distinct_tokens :: "host \<Rightarrow> address \<Rightarrow> int \<Rightarrow> address \<Rightarrow> int \<Rightarrow> bool" where
  "distinct_tokens h a t a' t' \<longleftrightarrow> srrEntityId h a t \<noteq> srrEntityId h a' t'"

text \<open>Two tokens have different identifiers when the host hashes do not collide, \<open>BigInt\<close>s are
  represented injectively and addresses have equal length.\<close>

lemma srrEntityId_distinct:
  assumes "no_collision h (a @ fromBigInt h t) (a' @ fromBigInt h t')"
    and "inj (fromBigInt h)" and "length a = length a'" and "(a, t) \<noteq> (a', t')"
  shows "srrEntityId h a t \<noteq> srrEntityId h a' t'"
  using assms by (auto simp: srrEntityId_def no_collision_def inj_eq)

text \<open>The times of events that can be rendered: 8.64e12 seconds around 1970.\<close>

lemma event_times_in_range:
  "succeeds (toUTCString (eventUTCMillis ev)) = (\<bar>ev_timestamp ev\<bar> \<le> 8640000000000)"
  by (auto simp: valid_time_def date_limit_def eventUTCMillis_def secondsToMillis_def)

end
