(* ===== verification/Schema.thy ===== *)
theory Schema
  imports Runtime
begin

text \<open>
  The entities of \<open>subgraph/schema.graphql\<close> and the store the handlers work on.

  An entity is a record with its identifier and one option field per attribute of the schema;
  \<open>None\<close> is an attribute that was never set or is null. \<open>wf_X\<close> says that an entity of type \<open>X\<close>
  stored under a key has that key as identifier, has every attribute the schema marks with
  \<open>!\<close>, and has date strings that render its timestamps. Derived attributes (\<open>@derivedFrom\<close>)
  are queries and have no field. \<open>SRRApproval\<close> is declared in the schema and written by no
  handler, so it has no table.

  The store has one table per entity type and the list of the data sources created from the
  Collection template. \<open>save_X\<close> is the \<open>save\<close> of an entity object: it writes the whole entity
  under its identifier. For an object that was loaded that is what the host does; for a fresh
  object under an identifier that is already taken the host keeps the attributes the object
  does not set, which can differ only for \<open>BulkIssueSRR\<close> and \<open>BulkSRR\<close> (every other fresh
  object sets all attributes its handlers ever write), so these two have \<open>upsert\<close> operations.
\<close>

section \<open>Attributes\<close>

datatype lastAction = Approve | Cancel | Transfer

definition is_set :: "'a option \<Rightarrow> bool" where
  "is_set x \<longleftrightarrow> x \<noteq> None"

lemma is_set_simps [simp]: "is_set (Some x)" "\<not> is_set None"
  by (simp_all add: is_set_def)

text \<open>A timestamp attribute and the string attribute that renders it.\<close>

definition stamped :: "int option \<Rightarrow> string option \<Rightarrow> bool" where
  "stamped t str \<longleftrightarrow> (case t of None \<Rightarrow> False | Some ms \<Rightarrow> valid_time ms \<and> str = Some (utc_string ms))"

lemma stamped_Some [simp]: "stamped (Some t) (Some str) \<longleftrightarrow> valid_time t \<and> str = utc_string t"
  by (auto simp: stamped_def)

lemma stampedE: "stamped t str \<Longrightarrow> (\<And>ms. t = Some ms \<Longrightarrow> str = Some (utc_string ms) \<Longrightarrow> valid_time ms \<Longrightarrow> R) \<Longrightarrow> R"
  by (auto simp: stamped_def split: option.splits)

text \<open>The getter of an attribute the schema marks with \<open>!\<close> aborts when it is not set.\<close>

definition required :: "'a option \<Rightarrow> abort + 'a" where
  "required x = (case x of None \<Rightarrow> Inl NullReference | Some v \<Rightarrow> Inr v)"

lemma required_Inr [simp, res]: "required x = Inr v \<longleftrightarrow> x = Some v"
  by (cases x) (simp_all add: required_def)

lemma required_Some [simp, res]: "required (Some v) = Inr v"
  by simp

section \<open>Entities\<close>

record luw =
  luw_id :: string
  luw_walletAddress :: "bytes option"
  luw_threshold :: "int option"
  luw_englishName :: "string option"
  luw_originalName :: "string option"
  luw_userType :: "string option"
  luw_owners :: "bytes list option"
  luw_salt :: "bytes option"
  luw_originChain :: "string option"
  luw_createdAt :: "int option"
  luw_createdAtStr :: "string option"
  luw_updatedAt :: "int option"
  luw_updatedAtStr :: "string option"

definition new_luw :: "string \<Rightarrow> luw" where
  "new_luw i = \<lparr>luw_id = i, luw_walletAddress = None, luw_threshold = None, luw_englishName = None, luw_originalName = None, luw_userType = None, luw_owners = None, luw_salt = None, luw_originChain = None, luw_createdAt = None, luw_createdAtStr = None, luw_updatedAt = None, luw_updatedAtStr = None\<rparr>"

record srr =
  srr_id :: string
  srr_collection :: "string option"
  srr_tokenId :: "string option"
  srr_isPrimaryIssuer :: "bool option"
  srr_artist :: "string option"
  srr_artistAddress :: "bytes option"
  srr_issuer :: "string option"
  srr_ownerAddress :: "bytes option"
  srr_metadataDigest :: "string option"
  srr_transferCommitment :: "bytes option"
  srr_lockExternalTransfer :: "bool option"
  srr_royaltyReceiver :: "bytes option"
  srr_royaltyBasisPoints :: "int option"
  srr_originChain :: "string option"
  srr_originTxHash :: "bytes option"
  srr_createdAt :: "int option"
  srr_createdAtStr :: "string option"
  srr_updatedAt :: "int option"
  srr_updatedAtStr :: "string option"

definition new_srr :: "string \<Rightarrow> srr" where
  "new_srr i = \<lparr>srr_id = i, srr_collection = None, srr_tokenId = None, srr_isPrimaryIssuer = None, srr_artist = None, srr_artistAddress = None, srr_issuer = None, srr_ownerAddress = None, srr_metadataDigest = None, srr_transferCommitment = None, srr_lockExternalTransfer = None, srr_royaltyReceiver = None, srr_royaltyBasisPoints = None, srr_originChain = None, srr_originTxHash = None, srr_createdAt = None, srr_createdAtStr = None, srr_updatedAt = None, srr_updatedAtStr = None\<rparr>"

record ch =
  ch_id :: string
  ch_historyType :: "string option"
  ch_name :: "string option"
  ch_metadataDigest :: "string option"
  ch_originChain :: "string option"
  ch_originTxHash :: "bytes option"
  ch_createdAt :: "int option"
  ch_createdAtStr :: "string option"
  ch_updatedAt :: "int option"
  ch_updatedAtStr :: "string option"

definition new_ch :: "string \<Rightarrow> ch" where
  "new_ch i = \<lparr>ch_id = i, ch_historyType = None, ch_name = None, ch_metadataDigest = None, ch_originChain = None, ch_originTxHash = None, ch_createdAt = None, ch_createdAtStr = None, ch_updatedAt = None, ch_updatedAtStr = None\<rparr>"

record chm =
  chm_id :: string
  chm_name :: "string option"
  chm_metadataDigest :: "string option"
  chm_customHistory :: "string option"
  chm_createdAt :: "int option"
  chm_createdAtStr :: "string option"

definition new_chm :: "string \<Rightarrow> chm" where
  "new_chm i = \<lparr>chm_id = i, chm_name = None, chm_metadataDigest = None, chm_customHistory = None, chm_createdAt = None, chm_createdAtStr = None\<rparr>"

record cht =
  cht_id :: string
  cht_name :: "string option"
  cht_createdAt :: "int option"
  cht_createdAtStr :: "string option"

definition new_cht :: "string \<Rightarrow> cht" where
  "new_cht i = \<lparr>cht_id = i, cht_name = None, cht_createdAt = None, cht_createdAtStr = None\<rparr>"

record sh =
  sh_id :: string
  sh_srr :: "string option"
  sh_customHistory :: "string option"
  sh_createdAt :: "int option"
  sh_createdAtStr :: "string option"

definition new_sh :: "string \<Rightarrow> sh" where
  "new_sh i = \<lparr>sh_id = i, sh_srr = None, sh_customHistory = None, sh_createdAt = None, sh_createdAtStr = None\<rparr>"

record pv =
  pv_id :: string
  pv_timestamp :: "int option"
  pv_srr :: "string option"
  pv_from :: "bytes option"
  pv_to :: "bytes option"
  pv_metadataDigest :: "string option"
  pv_metadataURI :: "string option"
  pv_customHistory :: "string option"
  pv_isIntermediary :: "bool option"
  pv_sender :: "bytes option"
  pv_createdAt :: "int option"
  pv_createdAtStr :: "string option"

definition new_pv :: "string \<Rightarrow> pv" where
  "new_pv i = \<lparr>pv_id = i, pv_timestamp = None, pv_srr = None, pv_from = None, pv_to = None, pv_metadataDigest = None, pv_metadataURI = None, pv_customHistory = None, pv_isIntermediary = None, pv_sender = None, pv_createdAt = None, pv_createdAtStr = None\<rparr>"

record mh =
  mh_id :: string
  mh_srr :: "string option"
  mh_metadataDigest :: "string option"
  mh_createdAt :: "int option"
  mh_createdAtStr :: "string option"

definition new_mh :: "string \<Rightarrow> mh" where
  "new_mh i = \<lparr>mh_id = i, mh_srr = None, mh_metadataDigest = None, mh_createdAt = None, mh_createdAtStr = None\<rparr>"

record tc =
  tc_id :: string
  tc_commitment :: "bytes option"
  tc_customHistory :: "string option"
  tc_lastAction :: "lastAction option"
  tc_sender :: "bytes option"
  tc_createdAt :: "int option"
  tc_createdAtStr :: "string option"
  tc_updatedAt :: "int option"
  tc_updatedAtStr :: "string option"

definition new_tc :: "string \<Rightarrow> tc" where
  "new_tc i = \<lparr>tc_id = i, tc_commitment = None, tc_customHistory = None, tc_lastAction = None, tc_sender = None, tc_createdAt = None, tc_createdAtStr = None, tc_updatedAt = None, tc_updatedAtStr = None\<rparr>"

record bi =
  bi_id :: string
  bi_merkleRoot :: "bytes option"
  bi_issuer :: "bytes option"
  bi_createdAt :: "int option"
  bi_createdAtStr :: "string option"
  bi_updatedAt :: "int option"
  bi_updatedAtStr :: "string option"

definition new_bi :: "string \<Rightarrow> bi" where
  "new_bi i = \<lparr>bi_id = i, bi_merkleRoot = None, bi_issuer = None, bi_createdAt = None, bi_createdAtStr = None, bi_updatedAt = None, bi_updatedAtStr = None\<rparr>"

record bis =
  bis_id :: string
  bis_hash :: "bytes option"
  bis_tokenId :: "string option"
  bis_bulkIssue :: "string option"
  bis_createdAt :: "int option"
  bis_createdAtStr :: "string option"

definition new_bis :: "string \<Rightarrow> bis" where
  "new_bis i = \<lparr>bis_id = i, bis_hash = None, bis_tokenId = None, bis_bulkIssue = None, bis_createdAt = None, bis_createdAtStr = None\<rparr>"

record bt =
  bt_id :: string
  bt_merkleRoot :: "bytes option"
  bt_srrApproveHashes :: "bytes list option"
  bt_sender :: "bytes option"
  bt_tokenId :: "string option"
  bt_createdAt :: "int option"
  bt_createdAtStr :: "string option"
  bt_updatedAt :: "int option"
  bt_updatedAtStr :: "string option"

definition new_bt :: "string \<Rightarrow> bt" where
  "new_bt i = \<lparr>bt_id = i, bt_merkleRoot = None, bt_srrApproveHashes = None, bt_sender = None, bt_tokenId = None, bt_createdAt = None, bt_createdAtStr = None, bt_updatedAt = None, bt_updatedAtStr = None\<rparr>"

record bk =
  bk_id :: string
  bk_merkleRoot :: "bytes option"
  bk_sender :: "bytes option"
  bk_tokenId :: "string option"
  bk_createdAt :: "int option"
  bk_createdAtStr :: "string option"
  bk_updatedAt :: "int option"
  bk_updatedAtStr :: "string option"

definition new_bk :: "string \<Rightarrow> bk" where
  "new_bk i = \<lparr>bk_id = i, bk_merkleRoot = None, bk_sender = None, bk_tokenId = None, bk_createdAt = None, bk_createdAtStr = None, bk_updatedAt = None, bk_updatedAtStr = None\<rparr>"

record bks =
  bks_id :: string
  bks_hash :: "bytes option"
  bks_contractAddress :: "bytes option"
  bks_tokenId :: "string option"
  bks_bulk :: "string option"
  bks_createdAt :: "int option"
  bks_createdAtStr :: "string option"

definition new_bks :: "string \<Rightarrow> bks" where
  "new_bks i = \<lparr>bks_id = i, bks_hash = None, bks_contractAddress = None, bks_tokenId = None, bks_bulk = None, bks_createdAt = None, bks_createdAtStr = None\<rparr>"

record rt =
  rt_id :: string
  rt_typeHash :: "bytes option"
  rt_typeString :: "string option"
  rt_createdAt :: "int option"
  rt_createdAtStr :: "string option"

definition new_rt :: "string \<Rightarrow> rt" where
  "new_rt i = \<lparr>rt_id = i, rt_typeHash = None, rt_typeString = None, rt_createdAt = None, rt_createdAtStr = None\<rparr>"

record ex =
  ex_id :: string
  ex_txHash :: "bytes option"
  ex_createdAt :: "int option"
  ex_createdAtStr :: "string option"

definition new_ex :: "string \<Rightarrow> ex" where
  "new_ex i = \<lparr>ex_id = i, ex_txHash = None, ex_createdAt = None, ex_createdAtStr = None\<rparr>"

record col =
  col_id :: string
  col_name :: "string option"
  col_symbol :: "string option"
  col_salt :: "bytes option"
  col_ownerAddress :: "bytes option"
  col_creatorAddress :: "bytes option"
  col_createdAt :: "int option"
  col_createdAtStr :: "string option"
  col_updatedAt :: "int option"
  col_updatedAtStr :: "string option"

definition new_col :: "string \<Rightarrow> col" where
  "new_col i = \<lparr>col_id = i, col_name = None, col_symbol = None, col_salt = None, col_ownerAddress = None, col_creatorAddress = None, col_createdAt = None, col_createdAtStr = None, col_updatedAt = None, col_updatedAtStr = None\<rparr>"

section \<open>The store\<close>

record store =
  luws :: "string \<rightharpoonup> luw"
  srrs :: "string \<rightharpoonup> srr"
  customHistories :: "string \<rightharpoonup> ch"
  chMetadataHistories :: "string \<rightharpoonup> chm"
  customHistoryTypes :: "string \<rightharpoonup> cht"
  srrHistories :: "string \<rightharpoonup> sh"
  provenances :: "string \<rightharpoonup> pv"
  srrMetadataHistories :: "string \<rightharpoonup> mh"
  transferCommits :: "string \<rightharpoonup> tc"
  bulkIssues :: "string \<rightharpoonup> bi"
  bulkIssueSRRs :: "string \<rightharpoonup> bis"
  bulkTransfers :: "string \<rightharpoonup> bt"
  bulks :: "string \<rightharpoonup> bk"
  bulkSRRs :: "string \<rightharpoonup> bks"
  requestTypes :: "string \<rightharpoonup> rt"
  executions :: "string \<rightharpoonup> ex"
  collections :: "string \<rightharpoonup> col"
  collectionTemplates :: "address list"

definition empty_store :: store where
  "empty_store = \<lparr>luws = Map.empty, srrs = Map.empty, customHistories = Map.empty, chMetadataHistories = Map.empty, customHistoryTypes = Map.empty, srrHistories = Map.empty, provenances = Map.empty, srrMetadataHistories = Map.empty, transferCommits = Map.empty, bulkIssues = Map.empty, bulkIssueSRRs = Map.empty, bulkTransfers = Map.empty, bulks = Map.empty, bulkSRRs = Map.empty, requestTypes = Map.empty, executions = Map.empty, collections = Map.empty, collectionTemplates = []\<rparr>"

definition save_luw :: "luw \<Rightarrow> store \<Rightarrow> store" where
  "save_luw e s = s\<lparr>luws := (luws s)(luw_id e \<mapsto> e)\<rparr>"

definition save_srr :: "srr \<Rightarrow> store \<Rightarrow> store" where
  "save_srr e s = s\<lparr>srrs := (srrs s)(srr_id e \<mapsto> e)\<rparr>"

definition save_ch :: "ch \<Rightarrow> store \<Rightarrow> store" where
  "save_ch e s = s\<lparr>customHistories := (customHistories s)(ch_id e \<mapsto> e)\<rparr>"

definition save_chm :: "chm \<Rightarrow> store \<Rightarrow> store" where
  "save_chm e s = s\<lparr>chMetadataHistories := (chMetadataHistories s)(chm_id e \<mapsto> e)\<rparr>"

definition save_cht :: "cht \<Rightarrow> store \<Rightarrow> store" where
  "save_cht e s = s\<lparr>customHistoryTypes := (customHistoryTypes s)(cht_id e \<mapsto> e)\<rparr>"

definition save_sh :: "sh \<Rightarrow> store \<Rightarrow> store" where
  "save_sh e s = s\<lparr>srrHistories := (srrHistories s)(sh_id e \<mapsto> e)\<rparr>"

definition save_pv :: "pv \<Rightarrow> store \<Rightarrow> store" where
  "save_pv e s = s\<lparr>provenances := (provenances s)(pv_id e \<mapsto> e)\<rparr>"

definition save_mh :: "mh \<Rightarrow> store \<Rightarrow> store" where
  "save_mh e s = s\<lparr>srrMetadataHistories := (srrMetadataHistories s)(mh_id e \<mapsto> e)\<rparr>"

definition save_tc :: "tc \<Rightarrow> store \<Rightarrow> store" where
  "save_tc e s = s\<lparr>transferCommits := (transferCommits s)(tc_id e \<mapsto> e)\<rparr>"

definition save_bi :: "bi \<Rightarrow> store \<Rightarrow> store" where
  "save_bi e s = s\<lparr>bulkIssues := (bulkIssues s)(bi_id e \<mapsto> e)\<rparr>"

definition save_bis :: "bis \<Rightarrow> store \<Rightarrow> store" where
  "save_bis e s = s\<lparr>bulkIssueSRRs := (bulkIssueSRRs s)(bis_id e \<mapsto> e)\<rparr>"

definition save_bt :: "bt \<Rightarrow> store \<Rightarrow> store" where
  "save_bt e s = s\<lparr>bulkTransfers := (bulkTransfers s)(bt_id e \<mapsto> e)\<rparr>"

definition save_bk :: "bk \<Rightarrow> store \<Rightarrow> store" where
  "save_bk e s = s\<lparr>bulks := (bulks s)(bk_id e \<mapsto> e)\<rparr>"

definition save_bks :: "bks \<Rightarrow> store \<Rightarrow> store" where
  "save_bks e s = s\<lparr>bulkSRRs := (bulkSRRs s)(bks_id e \<mapsto> e)\<rparr>"

definition save_rt :: "rt \<Rightarrow> store \<Rightarrow> store" where
  "save_rt e s = s\<lparr>requestTypes := (requestTypes s)(rt_id e \<mapsto> e)\<rparr>"

definition save_ex :: "ex \<Rightarrow> store \<Rightarrow> store" where
  "save_ex e s = s\<lparr>executions := (executions s)(ex_id e \<mapsto> e)\<rparr>"

definition save_col :: "col \<Rightarrow> store \<Rightarrow> store" where
  "save_col e s = s\<lparr>collections := (collections s)(col_id e \<mapsto> e)\<rparr>"

text \<open>\<open>store.remove('MetaTxRequestType', id)\<close>.\<close>

definition remove_rt :: "string \<Rightarrow> store \<Rightarrow> store" where
  "remove_rt k s = s\<lparr>requestTypes := (requestTypes s)(k := None)\<rparr>"

text \<open>An attribute of a fresh object that is not set keeps its stored value.\<close>

definition keep_attr :: "'a option \<Rightarrow> 'a option \<Rightarrow> 'a option" where
  "keep_attr new old = (case new of None \<Rightarrow> old | Some v \<Rightarrow> Some v)"

definition upsert_bis :: "bis \<Rightarrow> store \<Rightarrow> store" where
  "upsert_bis e s = save_bis
     (case bulkIssueSRRs s (bis_id e) of None \<Rightarrow> e
      | Some old \<Rightarrow> e\<lparr>bis_tokenId := keep_attr (bis_tokenId e) (bis_tokenId old)\<rparr>) s"

definition upsert_bks :: "bks \<Rightarrow> store \<Rightarrow> store" where
  "upsert_bks e s = save_bks
     (case bulkSRRs s (bks_id e) of None \<Rightarrow> e
      | Some old \<Rightarrow> e\<lparr>bks_contractAddress := keep_attr (bks_contractAddress e) (bks_contractAddress old)\<rparr>) s"

section \<open>Well-formed entities and stores\<close>

definition wf_luw :: "string \<Rightarrow> luw \<Rightarrow> bool" where
  "wf_luw k e \<longleftrightarrow> luw_id e = k \<and>
     is_set (luw_walletAddress e) \<and>
     is_set (luw_threshold e) \<and>
     is_set (luw_englishName e) \<and>
     is_set (luw_originalName e) \<and>
     is_set (luw_userType e) \<and>
     is_set (luw_owners e) \<and>
     is_set (luw_salt e) \<and>
     stamped (luw_createdAt e) (luw_createdAtStr e) \<and>
     stamped (luw_updatedAt e) (luw_updatedAtStr e)"

definition wf_srr :: "string \<Rightarrow> srr \<Rightarrow> bool" where
  "wf_srr k e \<longleftrightarrow> srr_id e = k \<and>
     stamped (srr_createdAt e) (srr_createdAtStr e) \<and>
     stamped (srr_updatedAt e) (srr_updatedAtStr e)"

definition wf_ch :: "string \<Rightarrow> ch \<Rightarrow> bool" where
  "wf_ch k e \<longleftrightarrow> ch_id e = k \<and>
     is_set (ch_historyType e) \<and>
     is_set (ch_name e) \<and>
     is_set (ch_metadataDigest e) \<and>
     stamped (ch_createdAt e) (ch_createdAtStr e) \<and>
     stamped (ch_updatedAt e) (ch_updatedAtStr e)"

definition wf_chm :: "string \<Rightarrow> chm \<Rightarrow> bool" where
  "wf_chm k e \<longleftrightarrow> chm_id e = k \<and>
     is_set (chm_name e) \<and>
     is_set (chm_metadataDigest e) \<and>
     is_set (chm_customHistory e) \<and>
     stamped (chm_createdAt e) (chm_createdAtStr e)"

definition wf_cht :: "string \<Rightarrow> cht \<Rightarrow> bool" where
  "wf_cht k e \<longleftrightarrow> cht_id e = k \<and>
     is_set (cht_name e) \<and>
     stamped (cht_createdAt e) (cht_createdAtStr e)"

definition wf_sh :: "string \<Rightarrow> sh \<Rightarrow> bool" where
  "wf_sh k e \<longleftrightarrow> sh_id e = k \<and>
     is_set (sh_srr e) \<and>
     stamped (sh_createdAt e) (sh_createdAtStr e)"

definition wf_pv :: "string \<Rightarrow> pv \<Rightarrow> bool" where
  "wf_pv k e \<longleftrightarrow> pv_id e = k \<and>
     is_set (pv_timestamp e) \<and>
     is_set (pv_srr e) \<and>
     is_set (pv_from e) \<and>
     is_set (pv_to e) \<and>
     is_set (pv_metadataDigest e) \<and>
     is_set (pv_metadataURI e) \<and>
     stamped (pv_createdAt e) (pv_createdAtStr e)"

definition wf_mh :: "string \<Rightarrow> mh \<Rightarrow> bool" where
  "wf_mh k e \<longleftrightarrow> mh_id e = k \<and>
     is_set (mh_srr e) \<and>
     is_set (mh_metadataDigest e) \<and>
     stamped (mh_createdAt e) (mh_createdAtStr e)"

definition wf_tc :: "string \<Rightarrow> tc \<Rightarrow> bool" where
  "wf_tc k e \<longleftrightarrow> tc_id e = k \<and>
     is_set (tc_lastAction e) \<and>
     stamped (tc_createdAt e) (tc_createdAtStr e) \<and>
     stamped (tc_updatedAt e) (tc_updatedAtStr e)"

definition wf_bi :: "string \<Rightarrow> bi \<Rightarrow> bool" where
  "wf_bi k e \<longleftrightarrow> bi_id e = k \<and>
     is_set (bi_merkleRoot e) \<and>
     is_set (bi_issuer e) \<and>
     stamped (bi_createdAt e) (bi_createdAtStr e) \<and>
     stamped (bi_updatedAt e) (bi_updatedAtStr e)"

definition wf_bis :: "string \<Rightarrow> bis \<Rightarrow> bool" where
  "wf_bis k e \<longleftrightarrow> bis_id e = k \<and>
     is_set (bis_hash e) \<and>
     is_set (bis_bulkIssue e) \<and>
     stamped (bis_createdAt e) (bis_createdAtStr e)"

definition wf_bt :: "string \<Rightarrow> bt \<Rightarrow> bool" where
  "wf_bt k e \<longleftrightarrow> bt_id e = k \<and>
     is_set (bt_merkleRoot e) \<and>
     is_set (bt_sender e) \<and>
     stamped (bt_createdAt e) (bt_createdAtStr e) \<and>
     stamped (bt_updatedAt e) (bt_updatedAtStr e)"

definition wf_bk :: "string \<Rightarrow> bk \<Rightarrow> bool" where
  "wf_bk k e \<longleftrightarrow> bk_id e = k \<and>
     is_set (bk_merkleRoot e) \<and>
     is_set (bk_sender e) \<and>
     stamped (bk_createdAt e) (bk_createdAtStr e) \<and>
     stamped (bk_updatedAt e) (bk_updatedAtStr e)"

definition wf_bks :: "string \<Rightarrow> bks \<Rightarrow> bool" where
  "wf_bks k e \<longleftrightarrow> bks_id e = k \<and>
     is_set (bks_hash e) \<and>
     is_set (bks_bulk e) \<and>
     stamped (bks_createdAt e) (bks_createdAtStr e)"

definition wf_rt :: "string \<Rightarrow> rt \<Rightarrow> bool" where
  "wf_rt k e \<longleftrightarrow> rt_id e = k \<and>
     is_set (rt_typeHash e) \<and>
     is_set (rt_typeString e) \<and>
     stamped (rt_createdAt e) (rt_createdAtStr e)"

definition wf_ex :: "string \<Rightarrow> ex \<Rightarrow> bool" where
  "wf_ex k e \<longleftrightarrow> ex_id e = k \<and>
     is_set (ex_txHash e) \<and>
     stamped (ex_createdAt e) (ex_createdAtStr e)"

definition wf_col :: "string \<Rightarrow> col \<Rightarrow> bool" where
  "wf_col k e \<longleftrightarrow> col_id e = k \<and>
     is_set (col_name e) \<and>
     is_set (col_symbol e) \<and>
     is_set (col_salt e) \<and>
     is_set (col_ownerAddress e) \<and>
     is_set (col_creatorAddress e) \<and>
     stamped (col_createdAt e) (col_createdAtStr e) \<and>
     stamped (col_updatedAt e) (col_updatedAtStr e)"

definition wf_store :: "store \<Rightarrow> bool" where
  "wf_store s \<longleftrightarrow> table_all wf_luw (luws s) \<and>
     table_all wf_srr (srrs s) \<and>
     table_all wf_ch (customHistories s) \<and>
     table_all wf_chm (chMetadataHistories s) \<and>
     table_all wf_cht (customHistoryTypes s) \<and>
     table_all wf_sh (srrHistories s) \<and>
     table_all wf_pv (provenances s) \<and>
     table_all wf_mh (srrMetadataHistories s) \<and>
     table_all wf_tc (transferCommits s) \<and>
     table_all wf_bi (bulkIssues s) \<and>
     table_all wf_bis (bulkIssueSRRs s) \<and>
     table_all wf_bt (bulkTransfers s) \<and>
     table_all wf_bk (bulks s) \<and>
     table_all wf_bks (bulkSRRs s) \<and>
     table_all wf_rt (requestTypes s) \<and>
     table_all wf_ex (executions s) \<and>
     table_all wf_col (collections s)"

lemmas wf_entity_defs = wf_luw_def wf_srr_def wf_ch_def wf_chm_def wf_cht_def wf_sh_def wf_pv_def wf_mh_def wf_tc_def wf_bi_def wf_bis_def wf_bt_def wf_bk_def wf_bks_def wf_rt_def wf_ex_def wf_col_def

lemmas new_entity_defs = new_luw_def new_srr_def new_ch_def new_chm_def new_cht_def new_sh_def new_pv_def new_mh_def new_tc_def new_bi_def new_bis_def new_bt_def new_bk_def new_bks_def new_rt_def new_ex_def new_col_def

lemmas save_defs = save_luw_def save_srr_def save_ch_def save_chm_def save_cht_def save_sh_def save_pv_def save_mh_def save_tc_def save_bi_def save_bis_def save_bt_def save_bk_def save_bks_def save_rt_def save_ex_def save_col_def

lemma wf_empty_store [simp]: "wf_store empty_store"
  by (simp add: wf_store_def empty_store_def)

section \<open>The interface of an entity table\<close>

text \<open>What the handlers rely on: a saved entity is found under its identifier, and every other
  entry stays as it was.\<close>

locale entity_table =
  fixes get :: "'s \<Rightarrow> string \<Rightarrow> 'e option"
    and put :: "'e \<Rightarrow> 's \<Rightarrow> 's"
    and key :: "'e \<Rightarrow> string"
  assumes get_put: "get (put e s) = (get s)(key e \<mapsto> e)"
begin

lemma get_put_same: "get (put e s) (key e) = Some e"
  by (simp add: get_put)

lemma get_put_other: "k \<noteq> key e \<Longrightarrow> get (put e s) k = get s k"
  by (simp add: get_put)

lemma put_overwrites: "key e = key e' \<Longrightarrow> get (put e' (put e s)) = get (put e' s)"
  by (simp add: get_put)

lemma put_keeps: "is_set (get s k) \<Longrightarrow> is_set (get (put e s) k)"
  by (simp add: get_put is_set_def)

lemma put_all: "table_all P (get s) \<Longrightarrow> P (key e) e \<Longrightarrow> table_all P (get (put e s))"
  by (simp add: get_put table_all_upd)

lemma dom_put: "dom (get (put e s)) = insert (key e) (dom (get s))"
  by (simp add: get_put)

end

locale removable_table = entity_table +
  fixes remove :: "string \<Rightarrow> 's \<Rightarrow> 's"
  assumes get_remove: "get (remove k s) = (get s)(k := None)"
begin

lemma remove_put: "get (remove (key e) (put e s)) = get (remove (key e) s)"
  by (simp add: get_remove get_put)

lemma remove_all: "table_all P (get s) \<Longrightarrow> table_all P (get (remove k s))"
  by (simp add: get_remove table_all_del)

end

interpretation tab_luw: entity_table luws save_luw luw_id
  by unfold_locales (simp add: save_luw_def)

interpretation tab_srr: entity_table srrs save_srr srr_id
  by unfold_locales (simp add: save_srr_def)

interpretation tab_ch: entity_table customHistories save_ch ch_id
  by unfold_locales (simp add: save_ch_def)

interpretation tab_chm: entity_table chMetadataHistories save_chm chm_id
  by unfold_locales (simp add: save_chm_def)

interpretation tab_cht: entity_table customHistoryTypes save_cht cht_id
  by unfold_locales (simp add: save_cht_def)

interpretation tab_sh: entity_table srrHistories save_sh sh_id
  by unfold_locales (simp add: save_sh_def)

interpretation tab_pv: entity_table provenances save_pv pv_id
  by unfold_locales (simp add: save_pv_def)

interpretation tab_mh: entity_table srrMetadataHistories save_mh mh_id
  by unfold_locales (simp add: save_mh_def)

interpretation tab_tc: entity_table transferCommits save_tc tc_id
  by unfold_locales (simp add: save_tc_def)

interpretation tab_bi: entity_table bulkIssues save_bi bi_id
  by unfold_locales (simp add: save_bi_def)

interpretation tab_bis: entity_table bulkIssueSRRs save_bis bis_id
  by unfold_locales (simp add: save_bis_def)

interpretation tab_bt: entity_table bulkTransfers save_bt bt_id
  by unfold_locales (simp add: save_bt_def)

interpretation tab_bk: entity_table bulks save_bk bk_id
  by unfold_locales (simp add: save_bk_def)

interpretation tab_bks: entity_table bulkSRRs save_bks bks_id
  by unfold_locales (simp add: save_bks_def)

interpretation tab_rt: removable_table requestTypes save_rt rt_id remove_rt
  by unfold_locales (simp_all add: save_rt_def remove_rt_def)

interpretation tab_ex: entity_table executions save_ex ex_id
  by unfold_locales (simp add: save_ex_def)

interpretation tab_col: entity_table collections save_col col_id
  by unfold_locales (simp add: save_col_def)

lemmas get_saves [simp, tbl] = tab_luw.get_put tab_srr.get_put tab_ch.get_put tab_chm.get_put tab_cht.get_put tab_sh.get_put tab_pv.get_put tab_mh.get_put tab_tc.get_put tab_bi.get_put tab_bis.get_put tab_bt.get_put tab_bk.get_put tab_bks.get_put tab_rt.get_put tab_ex.get_put tab_col.get_put tab_rt.get_remove

text \<open>Saving to one table leaves the others alone.\<close>

lemma save_luw_frame [simp, tbl]:
  "srrs (save_luw e s) = srrs s"
  "customHistories (save_luw e s) = customHistories s"
  "chMetadataHistories (save_luw e s) = chMetadataHistories s"
  "customHistoryTypes (save_luw e s) = customHistoryTypes s"
  "srrHistories (save_luw e s) = srrHistories s"
  "provenances (save_luw e s) = provenances s"
  "srrMetadataHistories (save_luw e s) = srrMetadataHistories s"
  "transferCommits (save_luw e s) = transferCommits s"
  "bulkIssues (save_luw e s) = bulkIssues s"
  "bulkIssueSRRs (save_luw e s) = bulkIssueSRRs s"
  "bulkTransfers (save_luw e s) = bulkTransfers s"
  "bulks (save_luw e s) = bulks s"
  "bulkSRRs (save_luw e s) = bulkSRRs s"
  "requestTypes (save_luw e s) = requestTypes s"
  "executions (save_luw e s) = executions s"
  "collections (save_luw e s) = collections s"
  "collectionTemplates (save_luw e s) = collectionTemplates s"
  by (simp_all add: save_luw_def)

lemma save_srr_frame [simp, tbl]:
  "luws (save_srr e s) = luws s"
  "customHistories (save_srr e s) = customHistories s"
  "chMetadataHistories (save_srr e s) = chMetadataHistories s"
  "customHistoryTypes (save_srr e s) = customHistoryTypes s"
  "srrHistories (save_srr e s) = srrHistories s"
  "provenances (save_srr e s) = provenances s"
  "srrMetadataHistories (save_srr e s) = srrMetadataHistories s"
  "transferCommits (save_srr e s) = transferCommits s"
  "bulkIssues (save_srr e s) = bulkIssues s"
  "bulkIssueSRRs (save_srr e s) = bulkIssueSRRs s"
  "bulkTransfers (save_srr e s) = bulkTransfers s"
  "bulks (save_srr e s) = bulks s"
  "bulkSRRs (save_srr e s) = bulkSRRs s"
  "requestTypes (save_srr e s) = requestTypes s"
  "executions (save_srr e s) = executions s"
  "collections (save_srr e s) = collections s"
  "collectionTemplates (save_srr e s) = collectionTemplates s"
  by (simp_all add: save_srr_def)

lemma save_ch_frame [simp, tbl]:
  "luws (save_ch e s) = luws s"
  "srrs (save_ch e s) = srrs s"
  "chMetadataHistories (save_ch e s) = chMetadataHistories s"
  "customHistoryTypes (save_ch e s) = customHistoryTypes s"
  "srrHistories (save_ch e s) = srrHistories s"
  "provenances (save_ch e s) = provenances s"
  "srrMetadataHistories (save_ch e s) = srrMetadataHistories s"
  "transferCommits (save_ch e s) = transferCommits s"
  "bulkIssues (save_ch e s) = bulkIssues s"
  "bulkIssueSRRs (save_ch e s) = bulkIssueSRRs s"
  "bulkTransfers (save_ch e s) = bulkTransfers s"
  "bulks (save_ch e s) = bulks s"
  "bulkSRRs (save_ch e s) = bulkSRRs s"
  "requestTypes (save_ch e s) = requestTypes s"
  "executions (save_ch e s) = executions s"
  "collections (save_ch e s) = collections s"
  "collectionTemplates (save_ch e s) = collectionTemplates s"
  by (simp_all add: save_ch_def)

lemma save_chm_frame [simp, tbl]:
  "luws (save_chm e s) = luws s"
  "srrs (save_chm e s) = srrs s"
  "customHistories (save_chm e s) = customHistories s"
  "customHistoryTypes (save_chm e s) = customHistoryTypes s"
  "srrHistories (save_chm e s) = srrHistories s"
  "provenances (save_chm e s) = provenances s"
  "srrMetadataHistories (save_chm e s) = srrMetadataHistories s"
  "transferCommits (save_chm e s) = transferCommits s"
  "bulkIssues (save_chm e s) = bulkIssues s"
  "bulkIssueSRRs (save_chm e s) = bulkIssueSRRs s"
  "bulkTransfers (save_chm e s) = bulkTransfers s"
  "bulks (save_chm e s) = bulks s"
  "bulkSRRs (save_chm e s) = bulkSRRs s"
  "requestTypes (save_chm e s) = requestTypes s"
  "executions (save_chm e s) = executions s"
  "collections (save_chm e s) = collections s"
  "collectionTemplates (save_chm e s) = collectionTemplates s"
  by (simp_all add: save_chm_def)

lemma save_cht_frame [simp, tbl]:
  "luws (save_cht e s) = luws s"
  "srrs (save_cht e s) = srrs s"
  "customHistories (save_cht e s) = customHistories s"
  "chMetadataHistories (save_cht e s) = chMetadataHistories s"
  "srrHistories (save_cht e s) = srrHistories s"
  "provenances (save_cht e s) = provenances s"
  "srrMetadataHistories (save_cht e s) = srrMetadataHistories s"
  "transferCommits (save_cht e s) = transferCommits s"
  "bulkIssues (save_cht e s) = bulkIssues s"
  "bulkIssueSRRs (save_cht e s) = bulkIssueSRRs s"
  "bulkTransfers (save_cht e s) = bulkTransfers s"
  "bulks (save_cht e s) = bulks s"
  "bulkSRRs (save_cht e s) = bulkSRRs s"
  "requestTypes (save_cht e s) = requestTypes s"
  "executions (save_cht e s) = executions s"
  "collections (save_cht e s) = collections s"
  "collectionTemplates (save_cht e s) = collectionTemplates s"
  by (simp_all add: save_cht_def)

lemma save_sh_frame [simp, tbl]:
  "luws (save_sh e s) = luws s"
  "srrs (save_sh e s) = srrs s"
  "customHistories (save_sh e s) = customHistories s"
  "chMetadataHistories (save_sh e s) = chMetadataHistories s"
  "customHistoryTypes (save_sh e s) = customHistoryTypes s"
  "provenances (save_sh e s) = provenances s"
  "srrMetadataHistories (save_sh e s) = srrMetadataHistories s"
  "transferCommits (save_sh e s) = transferCommits s"
  "bulkIssues (save_sh e s) = bulkIssues s"
  "bulkIssueSRRs (save_sh e s) = bulkIssueSRRs s"
  "bulkTransfers (save_sh e s) = bulkTransfers s"
  "bulks (save_sh e s) = bulks s"
  "bulkSRRs (save_sh e s) = bulkSRRs s"
  "requestTypes (save_sh e s) = requestTypes s"
  "executions (save_sh e s) = executions s"
  "collections (save_sh e s) = collections s"
  "collectionTemplates (save_sh e s) = collectionTemplates s"
  by (simp_all add: save_sh_def)

lemma save_pv_frame [simp, tbl]:
  "luws (save_pv e s) = luws s"
  "srrs (save_pv e s) = srrs s"
  "customHistories (save_pv e s) = customHistories s"
  "chMetadataHistories (save_pv e s) = chMetadataHistories s"
  "customHistoryTypes (save_pv e s) = customHistoryTypes s"
  "srrHistories (save_pv e s) = srrHistories s"
  "srrMetadataHistories (save_pv e s) = srrMetadataHistories s"
  "transferCommits (save_pv e s) = transferCommits s"
  "bulkIssues (save_pv e s) = bulkIssues s"
  "bulkIssueSRRs (save_pv e s) = bulkIssueSRRs s"
  "bulkTransfers (save_pv e s) = bulkTransfers s"
  "bulks (save_pv e s) = bulks s"
  "bulkSRRs (save_pv e s) = bulkSRRs s"
  "requestTypes (save_pv e s) = requestTypes s"
  "executions (save_pv e s) = executions s"
  "collections (save_pv e s) = collections s"
  "collectionTemplates (save_pv e s) = collectionTemplates s"
  by (simp_all add: save_pv_def)

lemma save_mh_frame [simp, tbl]:
  "luws (save_mh e s) = luws s"
  "srrs (save_mh e s) = srrs s"
  "customHistories (save_mh e s) = customHistories s"
  "chMetadataHistories (save_mh e s) = chMetadataHistories s"
  "customHistoryTypes (save_mh e s) = customHistoryTypes s"
  "srrHistories (save_mh e s) = srrHistories s"
  "provenances (save_mh e s) = provenances s"
  "transferCommits (save_mh e s) = transferCommits s"
  "bulkIssues (save_mh e s) = bulkIssues s"
  "bulkIssueSRRs (save_mh e s) = bulkIssueSRRs s"
  "bulkTransfers (save_mh e s) = bulkTransfers s"
  "bulks (save_mh e s) = bulks s"
  "bulkSRRs (save_mh e s) = bulkSRRs s"
  "requestTypes (save_mh e s) = requestTypes s"
  "executions (save_mh e s) = executions s"
  "collections (save_mh e s) = collections s"
  "collectionTemplates (save_mh e s) = collectionTemplates s"
  by (simp_all add: save_mh_def)

lemma save_tc_frame [simp, tbl]:
  "luws (save_tc e s) = luws s"
  "srrs (save_tc e s) = srrs s"
  "customHistories (save_tc e s) = customHistories s"
  "chMetadataHistories (save_tc e s) = chMetadataHistories s"
  "customHistoryTypes (save_tc e s) = customHistoryTypes s"
  "srrHistories (save_tc e s) = srrHistories s"
  "provenances (save_tc e s) = provenances s"
  "srrMetadataHistories (save_tc e s) = srrMetadataHistories s"
  "bulkIssues (save_tc e s) = bulkIssues s"
  "bulkIssueSRRs (save_tc e s) = bulkIssueSRRs s"
  "bulkTransfers (save_tc e s) = bulkTransfers s"
  "bulks (save_tc e s) = bulks s"
  "bulkSRRs (save_tc e s) = bulkSRRs s"
  "requestTypes (save_tc e s) = requestTypes s"
  "executions (save_tc e s) = executions s"
  "collections (save_tc e s) = collections s"
  "collectionTemplates (save_tc e s) = collectionTemplates s"
  by (simp_all add: save_tc_def)

lemma save_bi_frame [simp, tbl]:
  "luws (save_bi e s) = luws s"
  "srrs (save_bi e s) = srrs s"
  "customHistories (save_bi e s) = customHistories s"
  "chMetadataHistories (save_bi e s) = chMetadataHistories s"
  "customHistoryTypes (save_bi e s) = customHistoryTypes s"
  "srrHistories (save_bi e s) = srrHistories s"
  "provenances (save_bi e s) = provenances s"
  "srrMetadataHistories (save_bi e s) = srrMetadataHistories s"
  "transferCommits (save_bi e s) = transferCommits s"
  "bulkIssueSRRs (save_bi e s) = bulkIssueSRRs s"
  "bulkTransfers (save_bi e s) = bulkTransfers s"
  "bulks (save_bi e s) = bulks s"
  "bulkSRRs (save_bi e s) = bulkSRRs s"
  "requestTypes (save_bi e s) = requestTypes s"
  "executions (save_bi e s) = executions s"
  "collections (save_bi e s) = collections s"
  "collectionTemplates (save_bi e s) = collectionTemplates s"
  by (simp_all add: save_bi_def)

lemma save_bis_frame [simp, tbl]:
  "luws (save_bis e s) = luws s"
  "srrs (save_bis e s) = srrs s"
  "customHistories (save_bis e s) = customHistories s"
  "chMetadataHistories (save_bis e s) = chMetadataHistories s"
  "customHistoryTypes (save_bis e s) = customHistoryTypes s"
  "srrHistories (save_bis e s) = srrHistories s"
  "provenances (save_bis e s) = provenances s"
  "srrMetadataHistories (save_bis e s) = srrMetadataHistories s"
  "transferCommits (save_bis e s) = transferCommits s"
  "bulkIssues (save_bis e s) = bulkIssues s"
  "bulkTransfers (save_bis e s) = bulkTransfers s"
  "bulks (save_bis e s) = bulks s"
  "bulkSRRs (save_bis e s) = bulkSRRs s"
  "requestTypes (save_bis e s) = requestTypes s"
  "executions (save_bis e s) = executions s"
  "collections (save_bis e s) = collections s"
  "collectionTemplates (save_bis e s) = collectionTemplates s"
  by (simp_all add: save_bis_def)

lemma save_bt_frame [simp, tbl]:
  "luws (save_bt e s) = luws s"
  "srrs (save_bt e s) = srrs s"
  "customHistories (save_bt e s) = customHistories s"
  "chMetadataHistories (save_bt e s) = chMetadataHistories s"
  "customHistoryTypes (save_bt e s) = customHistoryTypes s"
  "srrHistories (save_bt e s) = srrHistories s"
  "provenances (save_bt e s) = provenances s"
  "srrMetadataHistories (save_bt e s) = srrMetadataHistories s"
  "transferCommits (save_bt e s) = transferCommits s"
  "bulkIssues (save_bt e s) = bulkIssues s"
  "bulkIssueSRRs (save_bt e s) = bulkIssueSRRs s"
  "bulks (save_bt e s) = bulks s"
  "bulkSRRs (save_bt e s) = bulkSRRs s"
  "requestTypes (save_bt e s) = requestTypes s"
  "executions (save_bt e s) = executions s"
  "collections (save_bt e s) = collections s"
  "collectionTemplates (save_bt e s) = collectionTemplates s"
  by (simp_all add: save_bt_def)

lemma save_bk_frame [simp, tbl]:
  "luws (save_bk e s) = luws s"
  "srrs (save_bk e s) = srrs s"
  "customHistories (save_bk e s) = customHistories s"
  "chMetadataHistories (save_bk e s) = chMetadataHistories s"
  "customHistoryTypes (save_bk e s) = customHistoryTypes s"
  "srrHistories (save_bk e s) = srrHistories s"
  "provenances (save_bk e s) = provenances s"
  "srrMetadataHistories (save_bk e s) = srrMetadataHistories s"
  "transferCommits (save_bk e s) = transferCommits s"
  "bulkIssues (save_bk e s) = bulkIssues s"
  "bulkIssueSRRs (save_bk e s) = bulkIssueSRRs s"
  "bulkTransfers (save_bk e s) = bulkTransfers s"
  "bulkSRRs (save_bk e s) = bulkSRRs s"
  "requestTypes (save_bk e s) = requestTypes s"
  "executions (save_bk e s) = executions s"
  "collections (save_bk e s) = collections s"
  "collectionTemplates (save_bk e s) = collectionTemplates s"
  by (simp_all add: save_bk_def)

lemma save_bks_frame [simp, tbl]:
  "luws (save_bks e s) = luws s"
  "srrs (save_bks e s) = srrs s"
  "customHistories (save_bks e s) = customHistories s"
  "chMetadataHistories (save_bks e s) = chMetadataHistories s"
  "customHistoryTypes (save_bks e s) = customHistoryTypes s"
  "srrHistories (save_bks e s) = srrHistories s"
  "provenances (save_bks e s) = provenances s"
  "srrMetadataHistories (save_bks e s) = srrMetadataHistories s"
  "transferCommits (save_bks e s) = transferCommits s"
  "bulkIssues (save_bks e s) = bulkIssues s"
  "bulkIssueSRRs (save_bks e s) = bulkIssueSRRs s"
  "bulkTransfers (save_bks e s) = bulkTransfers s"
  "bulks (save_bks e s) = bulks s"
  "requestTypes (save_bks e s) = requestTypes s"
  "executions (save_bks e s) = executions s"
  "collections (save_bks e s) = collections s"
  "collectionTemplates (save_bks e s) = collectionTemplates s"
  by (simp_all add: save_bks_def)

lemma save_rt_frame [simp, tbl]:
  "luws (save_rt e s) = luws s"
  "srrs (save_rt e s) = srrs s"
  "customHistories (save_rt e s) = customHistories s"
  "chMetadataHistories (save_rt e s) = chMetadataHistories s"
  "customHistoryTypes (save_rt e s) = customHistoryTypes s"
  "srrHistories (save_rt e s) = srrHistories s"
  "provenances (save_rt e s) = provenances s"
  "srrMetadataHistories (save_rt e s) = srrMetadataHistories s"
  "transferCommits (save_rt e s) = transferCommits s"
  "bulkIssues (save_rt e s) = bulkIssues s"
  "bulkIssueSRRs (save_rt e s) = bulkIssueSRRs s"
  "bulkTransfers (save_rt e s) = bulkTransfers s"
  "bulks (save_rt e s) = bulks s"
  "bulkSRRs (save_rt e s) = bulkSRRs s"
  "executions (save_rt e s) = executions s"
  "collections (save_rt e s) = collections s"
  "collectionTemplates (save_rt e s) = collectionTemplates s"
  by (simp_all add: save_rt_def)

lemma save_ex_frame [simp, tbl]:
  "luws (save_ex e s) = luws s"
  "srrs (save_ex e s) = srrs s"
  "customHistories (save_ex e s) = customHistories s"
  "chMetadataHistories (save_ex e s) = chMetadataHistories s"
  "customHistoryTypes (save_ex e s) = customHistoryTypes s"
  "srrHistories (save_ex e s) = srrHistories s"
  "provenances (save_ex e s) = provenances s"
  "srrMetadataHistories (save_ex e s) = srrMetadataHistories s"
  "transferCommits (save_ex e s) = transferCommits s"
  "bulkIssues (save_ex e s) = bulkIssues s"
  "bulkIssueSRRs (save_ex e s) = bulkIssueSRRs s"
  "bulkTransfers (save_ex e s) = bulkTransfers s"
  "bulks (save_ex e s) = bulks s"
  "bulkSRRs (save_ex e s) = bulkSRRs s"
  "requestTypes (save_ex e s) = requestTypes s"
  "collections (save_ex e s) = collections s"
  "collectionTemplates (save_ex e s) = collectionTemplates s"
  by (simp_all add: save_ex_def)

lemma save_col_frame [simp, tbl]:
  "luws (save_col e s) = luws s"
  "srrs (save_col e s) = srrs s"
  "customHistories (save_col e s) = customHistories s"
  "chMetadataHistories (save_col e s) = chMetadataHistories s"
  "customHistoryTypes (save_col e s) = customHistoryTypes s"
  "srrHistories (save_col e s) = srrHistories s"
  "provenances (save_col e s) = provenances s"
  "srrMetadataHistories (save_col e s) = srrMetadataHistories s"
  "transferCommits (save_col e s) = transferCommits s"
  "bulkIssues (save_col e s) = bulkIssues s"
  "bulkIssueSRRs (save_col e s) = bulkIssueSRRs s"
  "bulkTransfers (save_col e s) = bulkTransfers s"
  "bulks (save_col e s) = bulks s"
  "bulkSRRs (save_col e s) = bulkSRRs s"
  "requestTypes (save_col e s) = requestTypes s"
  "executions (save_col e s) = executions s"
  "collectionTemplates (save_col e s) = collectionTemplates s"
  by (simp_all add: save_col_def)

lemma remove_rt_frame [simp, tbl]:
  "luws (remove_rt k s) = luws s"
  "srrs (remove_rt k s) = srrs s"
  "customHistories (remove_rt k s) = customHistories s"
  "chMetadataHistories (remove_rt k s) = chMetadataHistories s"
  "customHistoryTypes (remove_rt k s) = customHistoryTypes s"
  "srrHistories (remove_rt k s) = srrHistories s"
  "provenances (remove_rt k s) = provenances s"
  "srrMetadataHistories (remove_rt k s) = srrMetadataHistories s"
  "transferCommits (remove_rt k s) = transferCommits s"
  "bulkIssues (remove_rt k s) = bulkIssues s"
  "bulkIssueSRRs (remove_rt k s) = bulkIssueSRRs s"
  "bulkTransfers (remove_rt k s) = bulkTransfers s"
  "bulks (remove_rt k s) = bulks s"
  "bulkSRRs (remove_rt k s) = bulkSRRs s"
  "executions (remove_rt k s) = executions s"
  "collections (remove_rt k s) = collections s"
  "collectionTemplates (remove_rt k s) = collectionTemplates s"
  by (simp_all add: remove_rt_def)

text \<open>Saving a well-formed entity keeps the store well-formed.\<close>

lemma wf_save_luw [intro]: "wf_store s \<Longrightarrow> wf_luw (luw_id e) e \<Longrightarrow> wf_store (save_luw e s)"
  unfolding wf_store_def by (simp add: table_all_upd)

lemma wf_save_srr [intro]: "wf_store s \<Longrightarrow> wf_srr (srr_id e) e \<Longrightarrow> wf_store (save_srr e s)"
  unfolding wf_store_def by (simp add: table_all_upd)

lemma wf_save_ch [intro]: "wf_store s \<Longrightarrow> wf_ch (ch_id e) e \<Longrightarrow> wf_store (save_ch e s)"
  unfolding wf_store_def by (simp add: table_all_upd)

lemma wf_save_chm [intro]: "wf_store s \<Longrightarrow> wf_chm (chm_id e) e \<Longrightarrow> wf_store (save_chm e s)"
  unfolding wf_store_def by (simp add: table_all_upd)

lemma wf_save_cht [intro]: "wf_store s \<Longrightarrow> wf_cht (cht_id e) e \<Longrightarrow> wf_store (save_cht e s)"
  unfolding wf_store_def by (simp add: table_all_upd)

lemma wf_save_sh [intro]: "wf_store s \<Longrightarrow> wf_sh (sh_id e) e \<Longrightarrow> wf_store (save_sh e s)"
  unfolding wf_store_def by (simp add: table_all_upd)

lemma wf_save_pv [intro]: "wf_store s \<Longrightarrow> wf_pv (pv_id e) e \<Longrightarrow> wf_store (save_pv e s)"
  unfolding wf_store_def by (simp add: table_all_upd)

lemma wf_save_mh [intro]: "wf_store s \<Longrightarrow> wf_mh (mh_id e) e \<Longrightarrow> wf_store (save_mh e s)"
  unfolding wf_store_def by (simp add: table_all_upd)

lemma wf_save_tc [intro]: "wf_store s \<Longrightarrow> wf_tc (tc_id e) e \<Longrightarrow> wf_store (save_tc e s)"
  unfolding wf_store_def by (simp add: table_all_upd)

lemma wf_save_bi [intro]: "wf_store s \<Longrightarrow> wf_bi (bi_id e) e \<Longrightarrow> wf_store (save_bi e s)"
  unfolding wf_store_def by (simp add: table_all_upd)

lemma wf_save_bis [intro]: "wf_store s \<Longrightarrow> wf_bis (bis_id e) e \<Longrightarrow> wf_store (save_bis e s)"
  unfolding wf_store_def by (simp add: table_all_upd)

lemma wf_save_bt [intro]: "wf_store s \<Longrightarrow> wf_bt (bt_id e) e \<Longrightarrow> wf_store (save_bt e s)"
  unfolding wf_store_def by (simp add: table_all_upd)

lemma wf_save_bk [intro]: "wf_store s \<Longrightarrow> wf_bk (bk_id e) e \<Longrightarrow> wf_store (save_bk e s)"
  unfolding wf_store_def by (simp add: table_all_upd)

lemma wf_save_bks [intro]: "wf_store s \<Longrightarrow> wf_bks (bks_id e) e \<Longrightarrow> wf_store (save_bks e s)"
  unfolding wf_store_def by (simp add: table_all_upd)

lemma wf_save_rt [intro]: "wf_store s \<Longrightarrow> wf_rt (rt_id e) e \<Longrightarrow> wf_store (save_rt e s)"
  unfolding wf_store_def by (simp add: table_all_upd)

lemma wf_save_ex [intro]: "wf_store s \<Longrightarrow> wf_ex (ex_id e) e \<Longrightarrow> wf_store (save_ex e s)"
  unfolding wf_store_def by (simp add: table_all_upd)

lemma wf_save_col [intro]: "wf_store s \<Longrightarrow> wf_col (col_id e) e \<Longrightarrow> wf_store (save_col e s)"
  unfolding wf_store_def by (simp add: table_all_upd)

lemma wf_remove_rt [intro]: "wf_store s \<Longrightarrow> wf_store (remove_rt k s)"
  unfolding wf_store_def by (simp add: table_all_del)

lemma wf_luws [dest]: "wf_store s \<Longrightarrow> luws s k = Some e \<Longrightarrow> wf_luw k e"
  unfolding wf_store_def by (auto dest: table_allD)

lemma wf_srrs [dest]: "wf_store s \<Longrightarrow> srrs s k = Some e \<Longrightarrow> wf_srr k e"
  unfolding wf_store_def by (auto dest: table_allD)

lemma wf_customHistories [dest]: "wf_store s \<Longrightarrow> customHistories s k = Some e \<Longrightarrow> wf_ch k e"
  unfolding wf_store_def by (auto dest: table_allD)

lemma wf_chMetadataHistories [dest]: "wf_store s \<Longrightarrow> chMetadataHistories s k = Some e \<Longrightarrow> wf_chm k e"
  unfolding wf_store_def by (auto dest: table_allD)

lemma wf_customHistoryTypes [dest]: "wf_store s \<Longrightarrow> customHistoryTypes s k = Some e \<Longrightarrow> wf_cht k e"
  unfolding wf_store_def by (auto dest: table_allD)

lemma wf_srrHistories [dest]: "wf_store s \<Longrightarrow> srrHistories s k = Some e \<Longrightarrow> wf_sh k e"
  unfolding wf_store_def by (auto dest: table_allD)

lemma wf_provenances [dest]: "wf_store s \<Longrightarrow> provenances s k = Some e \<Longrightarrow> wf_pv k e"
  unfolding wf_store_def by (auto dest: table_allD)

lemma wf_srrMetadataHistories [dest]: "wf_store s \<Longrightarrow> srrMetadataHistories s k = Some e \<Longrightarrow> wf_mh k e"
  unfolding wf_store_def by (auto dest: table_allD)

lemma wf_transferCommits [dest]: "wf_store s \<Longrightarrow> transferCommits s k = Some e \<Longrightarrow> wf_tc k e"
  unfolding wf_store_def by (auto dest: table_allD)

lemma wf_bulkIssues [dest]: "wf_store s \<Longrightarrow> bulkIssues s k = Some e \<Longrightarrow> wf_bi k e"
  unfolding wf_store_def by (auto dest: table_allD)

lemma wf_bulkIssueSRRs [dest]: "wf_store s \<Longrightarrow> bulkIssueSRRs s k = Some e \<Longrightarrow> wf_bis k e"
  unfolding wf_store_def by (auto dest: table_allD)

lemma wf_bulkTransfers [dest]: "wf_store s \<Longrightarrow> bulkTransfers s k = Some e \<Longrightarrow> wf_bt k e"
  unfolding wf_store_def by (auto dest: table_allD)

lemma wf_bulks [dest]: "wf_store s \<Longrightarrow> bulks s k = Some e \<Longrightarrow> wf_bk k e"
  unfolding wf_store_def by (auto dest: table_allD)

lemma wf_bulkSRRs [dest]: "wf_store s \<Longrightarrow> bulkSRRs s k = Some e \<Longrightarrow> wf_bks k e"
  unfolding wf_store_def by (auto dest: table_allD)

lemma wf_requestTypes [dest]: "wf_store s \<Longrightarrow> requestTypes s k = Some e \<Longrightarrow> wf_rt k e"
  unfolding wf_store_def by (auto dest: table_allD)

lemma wf_executions [dest]: "wf_store s \<Longrightarrow> executions s k = Some e \<Longrightarrow> wf_ex k e"
  unfolding wf_store_def by (auto dest: table_allD)

lemma wf_collections [dest]: "wf_store s \<Longrightarrow> collections s k = Some e \<Longrightarrow> wf_col k e"
  unfolding wf_store_def by (auto dest: table_allD)

end
