(* ===== verification/SrrHandlers.thy ===== *)
theory SrrHandlers
  imports Schema
begin

text \<open>
  \<open>subgraph/src/lib/srr-handlers.ts\<close>: the handlers and helpers for the events of SRR tokens
  that the StartrailRegistry and the Collection contracts share. A handler maps the store to
  the store it leaves, or to the reason it aborts; a logged error with an early return leaves
  the store as it is. An event's parameters are arguments in the order of the event.
\<close>

type_synonym handler = "store \<Rightarrow> abort + store"

section \<open>Helpers\<close>

definition getLicensedUserIdFromAddress :: "address \<Rightarrow> store \<Rightarrow> string option" where
  "getLicensedUserIdFromAddress address s =
     (case luws s (toHex address) of None \<Rightarrow> None | Some luw \<Rightarrow> Some (luw_id luw))"

text \<open>The handler owns the SRR object, which the call mutates; it is returned with the store.\<close>

definition checkAndClearCommitOnTransfer ::
  "srr \<Rightarrow> int \<Rightarrow> store \<Rightarrow> abort + (srr \<times> store)" where
  "checkAndClearCommitOnTransfer srr eventTime s =
     bindr (case transferCommits s (srr_id srr) of
              None \<Rightarrow> Inr s
            | Some srrCommit \<Rightarrow>
                bindr (toUTCString eventTime) (\<lambda>str.
                  Inr (save_tc (srrCommit\<lparr>tc_commitment := None,
                                          tc_lastAction := Some Transfer,
                                          tc_updatedAt := Some eventTime,
                                          tc_updatedAtStr := Some str\<rparr>) s)))
       (\<lambda>s'. Inr (srr\<lparr>srr_transferCommitment := None\<rparr>, s'))"

definition saveSRRMetadataHistory :: "host \<Rightarrow> srr \<Rightarrow> int \<Rightarrow> eth_event \<Rightarrow> handler" where
  "saveSRRMetadataHistory h srr eventTimestampMillis event s =
     bindr (required (srr_metadataDigest srr)) (\<lambda>digest.
       let metadataHistoryId =
             keccakId h (toHex (ev_txHash event) @ bigIntToHex h (ev_logIndex event) @ digest)
       in bindr (toUTCString eventTimestampMillis) (\<lambda>str.
            Inr (save_mh ((new_mh metadataHistoryId)\<lparr>mh_srr := Some (srr_id srr),
                    mh_createdAt := Some eventTimestampMillis,
                    mh_createdAtStr := Some str,
                    mh_metadataDigest := Some digest\<rparr>) s)))"

definition saveCreateSRRInternal ::
  "host \<Rightarrow> srr \<Rightarrow> bool \<Rightarrow> address \<Rightarrow> address \<Rightarrow> string \<Rightarrow> bool \<Rightarrow> int \<Rightarrow> eth_event \<Rightarrow> handler" where
  "saveCreateSRRInternal h srr isPrimaryIssuer artist issuer metadataDigest lockExternalTransfer
      updateTimestamp event s =
     bindr (toUTCString updateTimestamp) (\<lambda>str.
       let srr' = srr\<lparr>srr_isPrimaryIssuer := Some isPrimaryIssuer,
                      srr_metadataDigest := Some metadataDigest,
                      srr_lockExternalTransfer := Some lockExternalTransfer,
                      srr_artistAddress := Some artist,
                      srr_artist := getLicensedUserIdFromAddress artist s,
                      srr_issuer := getLicensedUserIdFromAddress issuer s,
                      srr_updatedAt := Some updateTimestamp,
                      srr_updatedAtStr := Some str\<rparr>
       in saveSRRMetadataHistory h srr' updateTimestamp event (save_srr srr' s))"

section \<open>Shared logic\<close>

text \<open>The digest stored with a provenance: 64 hexadecimal digits get their 0x prefix.\<close>

definition provenanceDigest :: "host \<Rightarrow> string option \<Rightarrow> abort + string" where
  "provenanceDigest h historyMetadataHash =
     (case historyMetadataHash of
        None \<Rightarrow> Inr ''''
      | Some hash \<Rightarrow>
          if length hash = 64
          then (case fromHexString h hash of None \<Rightarrow> Inl BadHexString | Some b \<Rightarrow> Inr (toHex b))
          else Inr hash)"

definition provenanceId :: "host \<Rightarrow> string \<Rightarrow> int \<Rightarrow> string" where
  "provenanceId h srrId timestampMillis = keccakId h (srrId @ int_dec timestampMillis)"

definition handleSRRProvenanceInternal ::
  "host \<Rightarrow> int \<Rightarrow> string \<Rightarrow> address \<Rightarrow> address \<Rightarrow> int option \<Rightarrow> string option \<Rightarrow> string option \<Rightarrow> bool
     \<Rightarrow> address option \<Rightarrow> handler" where
  "handleSRRProvenanceInternal h eventTimestampMillis srrId from to customHistoryId
      historyMetadataHash historyMetadataURI isIntermediary sender s =
     (case srrs s srrId of
        None \<Rightarrow> Inr s
      | Some srr \<Rightarrow>
          bindr (toUTCString eventTimestampMillis) (\<lambda>str.
            let srr' = srr\<lparr>srr_ownerAddress := Some to,
                           srr_updatedAt := Some eventTimestampMillis,
                           srr_updatedAtStr := Some str\<rparr>;
                s1 = save_srr srr' s;
                pvId = provenanceId h srrId eventTimestampMillis
            in case provenances s1 pvId of
                 Some _ \<Rightarrow> Inr s1
               | None \<Rightarrow>
                   bindr (provenanceDigest h historyMetadataHash) (\<lambda>digest.
                     Inr (save_pv ((new_pv pvId)\<lparr>pv_srr := Some (srr_id srr'),
                            pv_from := Some from,
                            pv_to := Some to,
                            pv_sender := sender,
                            pv_metadataDigest := Some digest,
                            pv_metadataURI := Some (case historyMetadataURI of None \<Rightarrow> '''' | Some u \<Rightarrow> u),
                            pv_customHistory := map_option int_dec customHistoryId,
                            pv_isIntermediary := Some isIntermediary,
                            pv_timestamp := Some eventTimestampMillis,
                            pv_createdAt := Some eventTimestampMillis,
                            pv_createdAtStr := Some str\<rparr>) s1))))"

definition handleSRRCommitmentInternal ::
  "int \<Rightarrow> bytes \<Rightarrow> string \<Rightarrow> int option \<Rightarrow> address option \<Rightarrow> handler" where
  "handleSRRCommitmentInternal eventTimestampMillis commitment srrId customHistoryId sender s =
     (case srrs s srrId of
        None \<Rightarrow> Inr s
      | Some srr \<Rightarrow>
          bindr (toUTCString eventTimestampMillis) (\<lambda>str.
            let srr' = srr\<lparr>srr_transferCommitment := Some commitment,
                           srr_updatedAt := Some eventTimestampMillis,
                           srr_updatedAtStr := Some str\<rparr>;
                s1 = save_srr srr' s;
                srrCommit = (case transferCommits s1 srrId of
                               Some c \<Rightarrow> c
                             | None \<Rightarrow> (new_tc srrId)\<lparr>tc_createdAt := Some eventTimestampMillis,
                                                      tc_createdAtStr := Some str\<rparr>);
                c1 = srrCommit\<lparr>tc_commitment := srr_transferCommitment srr',
                               tc_lastAction := Some Approve\<rparr>;
                c2 = (case customHistoryId of
                        None \<Rightarrow> c1 | Some i \<Rightarrow> c1\<lparr>tc_customHistory := Some (int_dec i)\<rparr>);
                c3 = (case sender of None \<Rightarrow> c2 | Some a \<Rightarrow> c2\<lparr>tc_sender := Some a\<rparr>)
            in Inr (save_tc (c3\<lparr>tc_updatedAt := Some eventTimestampMillis,
                                tc_updatedAtStr := Some str\<rparr>) s1)))"

definition handleSRRCommitmentCancelledInternal ::
  "int \<Rightarrow> string \<Rightarrow> address option \<Rightarrow> handler" where
  "handleSRRCommitmentCancelledInternal eventTimestampMillis srrId sender s =
     (case srrs s srrId of
        None \<Rightarrow> Inr s
      | Some srr \<Rightarrow>
          bindr (toUTCString eventTimestampMillis) (\<lambda>str.
            let s1 = save_srr (srr\<lparr>srr_transferCommitment := None,
                                   srr_updatedAt := Some eventTimestampMillis,
                                   srr_updatedAtStr := Some str\<rparr>) s
            in case transferCommits s1 srrId of
                 None \<Rightarrow> Inr s1
               | Some srrCommit \<Rightarrow>
                   let c1 = (case sender of
                               None \<Rightarrow> srrCommit | Some a \<Rightarrow> srrCommit\<lparr>tc_sender := Some a\<rparr>)
                   in Inr (save_tc (c1\<lparr>tc_lastAction := Some Cancel,
                                       tc_commitment := None,
                                       tc_updatedAt := Some eventTimestampMillis,
                                       tc_updatedAtStr := Some str\<rparr>) s1)))"

definition handleCreateCustomHistoryInternal ::
  "int \<Rightarrow> int \<Rightarrow> string \<Rightarrow> int \<Rightarrow> string \<Rightarrow> string \<Rightarrow> bytes \<Rightarrow> handler" where
  "handleCreateCustomHistoryInternal eventTimestampMillis i name customHistoryTypeId
      metadataDigest originChain originTxHash s =
     bindr (toUTCString eventTimestampMillis) (\<lambda>str.
       Inr (save_ch ((new_ch (int_dec i))\<lparr>ch_name := Some name,
              ch_historyType := Some (int_dec customHistoryTypeId),
              ch_metadataDigest := Some metadataDigest,
              ch_originChain := Some originChain,
              ch_originTxHash := Some originTxHash,
              ch_createdAt := Some eventTimestampMillis,
              ch_createdAtStr := Some str,
              ch_updatedAt := Some eventTimestampMillis,
              ch_updatedAtStr := Some str\<rparr>) s))"

definition handleUpdateCustomHistoryInternal ::
  "host \<Rightarrow> string \<Rightarrow> int \<Rightarrow> string \<Rightarrow> string \<Rightarrow> handler" where
  "handleUpdateCustomHistoryInternal h customHistoryId now metadataDigest name s =
     (case customHistories s customHistoryId of
        None \<Rightarrow> Inr s
      | Some ch \<Rightarrow>
          bindr (required (ch_metadataDigest ch)) (\<lambda>oldDigest.
          bindr (required (ch_name ch)) (\<lambda>oldName.
          bindr (toUTCString now) (\<lambda>str.
            let i = keccakId h (oldDigest @ int_dec now);
                chMh = (new_chm i)\<lparr>chm_metadataDigest := Some oldDigest,
                                   chm_name := Some oldName,
                                   chm_customHistory := Some customHistoryId,
                                   chm_createdAt := Some now,
                                   chm_createdAtStr := Some str\<rparr>;
                ch' = ch\<lparr>ch_metadataDigest := Some metadataDigest,
                         ch_name := Some name,
                         ch_updatedAt := Some now,
                         ch_updatedAtStr := Some str\<rparr>
            in Inr (save_ch ch' (save_chm chMh s))))))"

definition handleUpdateSRRInternal ::
  "int \<Rightarrow> bool \<Rightarrow> address \<Rightarrow> string \<Rightarrow> handler" where
  "handleUpdateSRRInternal eventTimestampMillis isPrimaryIssuer artistAddress srrId s =
     (case srrs s srrId of
        None \<Rightarrow> Inr s
      | Some srr \<Rightarrow>
          (case getLicensedUserIdFromAddress artistAddress s of
             None \<Rightarrow> Inr s
           | Some artist \<Rightarrow>
               bindr (toUTCString eventTimestampMillis) (\<lambda>str.
                 Inr (save_srr (srr\<lparr>srr_isPrimaryIssuer := Some isPrimaryIssuer,
                                    srr_artistAddress := Some artistAddress,
                                    srr_artist := Some artist,
                                    srr_updatedAt := Some eventTimestampMillis,
                                    srr_updatedAtStr := Some str\<rparr>) s))))"

definition handleUpdateSRRMetadataHashInternal ::
  "host \<Rightarrow> int \<Rightarrow> string \<Rightarrow> string \<Rightarrow> eth_event \<Rightarrow> handler" where
  "handleUpdateSRRMetadataHashInternal h eventTimestampMillis srrId metadataDigest event s =
     (case srrs s srrId of
        None \<Rightarrow> Inr s
      | Some srr \<Rightarrow>
          bindr (toUTCString eventTimestampMillis) (\<lambda>str.
            let srr' = srr\<lparr>srr_updatedAt := Some eventTimestampMillis,
                           srr_updatedAtStr := Some str,
                           srr_metadataDigest := Some metadataDigest\<rparr>
            in saveSRRMetadataHistory h srr' eventTimestampMillis event (save_srr srr' s)))"

section \<open>Complete handlers\<close>

text \<open>\<open>handleTransfer\<close> in two parts: the SRR object it loads or creates, and what it does after
  saving the new owner when the transfer is not a mint.\<close>

definition transferredSrr :: "host \<Rightarrow> eth_event \<Rightarrow> bool \<Rightarrow> int \<Rightarrow> store \<Rightarrow> abort + srr" where
  "transferredSrr h event isMint tokenId s =
     (let timestampMillis = eventUTCMillis event;
          srrId = srrEntityId h (ev_address event) tokenId
      in case srrs s srrId of
           Some srr \<Rightarrow> Inr srr
         | None \<Rightarrow>
             let srr = (new_srr srrId)\<lparr>srr_tokenId := Some (int_dec tokenId),
                         srr_lockExternalTransfer := Some False,
                         srr_originChain := Some (currentChainId h),
                         srr_originTxHash := Some (ev_txHash event)\<rparr>
             in if isMint
                then bindr (toUTCString timestampMillis) (\<lambda>str.
                       Inr (srr\<lparr>srr_createdAt := Some timestampMillis,
                                srr_createdAtStr := Some str\<rparr>))
                else Inr srr)"

definition recordTransfer :: "host \<Rightarrow> int \<Rightarrow> string \<Rightarrow> address \<Rightarrow> address \<Rightarrow> srr \<Rightarrow> handler" where
  "recordTransfer h timestampMillis srrId from to srr s =
     bindr (handleSRRProvenanceInternal h timestampMillis srrId from to None None None False None s)
       (\<lambda>s2. bindr (checkAndClearCommitOnTransfer srr timestampMillis s2)
         (\<lambda>(srr', s3). Inr (save_srr srr' s3)))"

definition handleTransfer :: "host \<Rightarrow> eth_event \<Rightarrow> address \<Rightarrow> address \<Rightarrow> int \<Rightarrow> handler" where
  "handleTransfer h event from to tokenId s =
     (let timestampMillis = eventUTCMillis event;
          isMint = (toHex from = toHex ZERO_ADDRESS);
          srrId = srrEntityId h (ev_address event) tokenId
      in bindr (transferredSrr h event isMint tokenId s) (\<lambda>srr.
         bindr (toUTCString timestampMillis) (\<lambda>str.
           let srr' = srr\<lparr>srr_ownerAddress := Some to,
                          srr_updatedAt := Some timestampMillis,
                          srr_updatedAtStr := Some str\<rparr>;
               s1 = save_srr srr' s
           in if isMint then Inr s1
              else recordTransfer h timestampMillis srrId from to srr' s1)))"

definition handleUpdateSRRWithSender ::
  "host \<Rightarrow> eth_event \<Rightarrow> int \<Rightarrow> bool \<Rightarrow> address \<Rightarrow> address \<Rightarrow> handler" where
  "handleUpdateSRRWithSender h event tokenId isPrimaryIssuer artistAddress sender =
     handleUpdateSRRInternal (eventUTCMillis event) isPrimaryIssuer artistAddress
       (srrEntityId h (ev_address event) tokenId)"

definition handleUpdateSRRMetadataWithCid :: "host \<Rightarrow> eth_event \<Rightarrow> int \<Rightarrow> string \<Rightarrow> handler" where
  "handleUpdateSRRMetadataWithCid h event tokenId metadataCID =
     handleUpdateSRRMetadataHashInternal h (eventUTCMillis event)
       (srrEntityId h (ev_address event) tokenId) metadataCID event"

definition handleUpdateSRRMetadataWithCidLegacy ::
  "host \<Rightarrow> eth_event \<Rightarrow> int \<Rightarrow> string \<Rightarrow> handler" where
  "handleUpdateSRRMetadataWithCidLegacy h event tokenId metadataCID =
     handleUpdateSRRMetadataHashInternal h (eventUTCMillis event)
       (srrEntityId h (ev_address event) tokenId) metadataCID event"

definition handleUpdateSRRMetadataWithDigestLegacy ::
  "host \<Rightarrow> eth_event \<Rightarrow> int \<Rightarrow> bytes \<Rightarrow> handler" where
  "handleUpdateSRRMetadataWithDigestLegacy h event tokenId metadataDigest =
     handleUpdateSRRMetadataHashInternal h (eventUTCMillis event)
       (srrEntityId h (ev_address event) tokenId) (toHex metadataDigest) event"

definition handleSRRCommitmentCancelled :: "host \<Rightarrow> eth_event \<Rightarrow> int \<Rightarrow> handler" where
  "handleSRRCommitmentCancelled h event tokenId =
     handleSRRCommitmentCancelledInternal (eventUTCMillis event)
       (srrEntityId h (ev_address event) tokenId) None"

definition handleSRRProvenanceWithIntermediary ::
  "host \<Rightarrow> eth_event \<Rightarrow> int \<Rightarrow> address \<Rightarrow> address \<Rightarrow> string \<Rightarrow> string \<Rightarrow> bool \<Rightarrow> handler" where
  "handleSRRProvenanceWithIntermediary h event tokenId from to historyMetadataHash
      historyMetadataURI isIntermediary =
     handleSRRProvenanceInternal h (eventUTCMillis event)
       (srrEntityId h (ev_address event) tokenId) from to None (Some historyMetadataHash)
       (Some historyMetadataURI) isIntermediary None"

definition handleSRRProvenanceWithCustomHistoryAndIntermediary ::
  "host \<Rightarrow> eth_event \<Rightarrow> int \<Rightarrow> address \<Rightarrow> address \<Rightarrow> int \<Rightarrow> string \<Rightarrow> string \<Rightarrow> bool \<Rightarrow> handler" where
  "handleSRRProvenanceWithCustomHistoryAndIntermediary h event tokenId from to customHistoryId
      historyMetadataHash historyMetadataURI isIntermediary =
     handleSRRProvenanceInternal h (eventUTCMillis event)
       (srrEntityId h (ev_address event) tokenId) from to (Some customHistoryId)
       (Some historyMetadataHash) (Some historyMetadataURI) isIntermediary None"

definition handleLockExternalTransfer :: "host \<Rightarrow> eth_event \<Rightarrow> int \<Rightarrow> bool \<Rightarrow> handler" where
  "handleLockExternalTransfer h event tokenId flag s =
     (case srrs s (srrEntityId h (ev_address event) tokenId) of
        None \<Rightarrow> Inr s
      | Some srr \<Rightarrow> Inr (save_srr (srr\<lparr>srr_lockExternalTransfer := Some flag\<rparr>) s))"

definition handleRoyaltiesSet :: "host \<Rightarrow> eth_event \<Rightarrow> int \<Rightarrow> address \<Rightarrow> int \<Rightarrow> handler" where
  "handleRoyaltiesSet h event tokenId receiver basisPoints s =
     (case srrs s (srrEntityId h (ev_address event) tokenId) of
        None \<Rightarrow> Inr s
      | Some srr \<Rightarrow>
          let timestampMillis = eventUTCMillis event
          in bindr (toUTCString timestampMillis) (\<lambda>str.
               Inr (save_srr (srr\<lparr>srr_updatedAt := Some timestampMillis,
                                  srr_updatedAtStr := Some str,
                                  srr_royaltyBasisPoints := Some basisPoints,
                                  srr_royaltyReceiver := Some receiver\<rparr>) s)))"

definition handleSRRHistory :: "host \<Rightarrow> eth_event \<Rightarrow> int list \<Rightarrow> int list \<Rightarrow> handler" where
  "handleSRRHistory h event tokenIds customHistoryIds =
     foldr_res (\<lambda>tokenId.
       let srrId = srrEntityId h (ev_address event) tokenId
       in foldr_res (\<lambda>chId s.
            let customHistoryId = int_dec chId;
                historyId = keccakId h (srrId @ customHistoryId)
            in bindr (toUTCString (eventUTCMillis event)) (\<lambda>str.
                 Inr (save_sh ((new_sh historyId)\<lparr>sh_srr := Some srrId,
                        sh_customHistory := Some customHistoryId,
                        sh_createdAt := Some (eventUTCMillis event),
                        sh_createdAtStr := Some str\<rparr>) s)))
          customHistoryIds)
       tokenIds"

end
