(* ===== verification/SrrInvariants.thy ===== *)
theory SrrInvariants
  imports SrrHandlers
begin

text \<open>
  Invariants of the store that the SRR handlers keep: well-formedness with respect to the
  schema, the agreement of a token's \<open>transferCommitment\<close> with its SRRTransferCommit entity
  (\<open>sync\<close>), and referential integrity (\<open>refs\<close>). Every shared function of
  \<open>srr-handlers.ts\<close> has one lemma per invariant; the mappings that call it inherit them.
\<close>

section \<open>The invariants\<close>

definition commit_agrees :: "srr \<Rightarrow> tc option \<Rightarrow> bool" where
  "commit_agrees srr c =
     (case c of
        None \<Rightarrow> srr_transferCommitment srr = None
      | Some c \<Rightarrow> tc_commitment c = srr_transferCommitment srr \<and>
                  (tc_lastAction c = Some Approve \<longleftrightarrow> is_set (tc_commitment c)))"

definition sync :: "store \<Rightarrow> bool" where
  "sync s \<longleftrightarrow>
     table_all (\<lambda>k e. srr_id e = k \<and> commit_agrees e (transferCommits s k)) (srrs s) \<and>
     table_all (\<lambda>k c. tc_id c = k \<and> is_set (srrs s k)) (transferCommits s)"

definition refers :: "('k \<rightharpoonup> 'e) \<Rightarrow> 'k option \<Rightarrow> bool" where
  "refers m r = (case r of None \<Rightarrow> False | Some k \<Rightarrow> is_set (m k))"

definition refs :: "store \<Rightarrow> bool" where
  "refs s \<longleftrightarrow>
     table_all (\<lambda>k e. pv_id e = k \<and> refers (srrs s) (pv_srr e)) (provenances s) \<and>
     table_all (\<lambda>_ e. refers (srrs s) (mh_srr e)) (srrMetadataHistories s) \<and>
     table_all (\<lambda>_ e. refers (customHistories s) (chm_customHistory e)) (chMetadataHistories s) \<and>
     table_all (\<lambda>k e. ch_id e = k) (customHistories s) \<and>
     table_all (\<lambda>_ e. refers (bulkIssues s) (bis_bulkIssue e)) (bulkIssueSRRs s) \<and>
     table_all (\<lambda>k e. bi_id e = k) (bulkIssues s) \<and>
     table_all (\<lambda>_ e. refers (bulks s) (bks_bulk e)) (bulkSRRs s) \<and>
     table_all (\<lambda>k e. bk_id e = k) (bulks s)"

lemma sync_empty [simp]: "sync empty_store"
  by (simp add: sync_def empty_store_def)

lemma refs_empty [simp]: "refs empty_store"
  by (simp add: refs_def empty_store_def)

section \<open>Rules for the agreement of commitments\<close>

lemma sync_srr_id: "sync s \<Longrightarrow> srrs s k = Some e \<Longrightarrow> srr_id e = k"
  by (auto simp: sync_def dest: table_allD)

lemma sync_tc_id: "sync s \<Longrightarrow> transferCommits s k = Some c \<Longrightarrow> tc_id c = k"
  by (auto simp: sync_def dest: table_allD)

lemma sync_agrees: "sync s \<Longrightarrow> srrs s k = Some e \<Longrightarrow> commit_agrees e (transferCommits s k)"
  by (auto simp: sync_def dest: table_allD)

lemma sync_no_srr: "sync s \<Longrightarrow> srrs s k = None \<Longrightarrow> transferCommits s k = None"
  by (cases "transferCommits s k") (auto simp: sync_def dest: table_allD)

lemma sync_save_srr:
  assumes "sync s" and "commit_agrees e (transferCommits s (srr_id e))"
  shows "sync (save_srr e s)"
  using assms by (auto simp: sync_def table_all_def is_set_def)

lemma sync_save_srr_tc:
  assumes "sync s" and "srr_id e = tc_id c" and "commit_agrees e (Some c)"
  shows "sync (save_srr e (save_tc c s))"
  using assms by (auto simp: sync_def table_all_def is_set_def)

lemma save_srr_tc_commute: "save_tc c (save_srr e s) = save_srr e (save_tc c s)"
  by (simp add: save_srr_def save_tc_def)

lemma sync_cong:
  "srrs s' = srrs s \<Longrightarrow> transferCommits s' = transferCommits s \<Longrightarrow> sync s' = sync s"
  by (simp add: sync_def)

lemma commit_agrees_cong:
  "srr_transferCommitment e' = srr_transferCommitment e \<Longrightarrow> commit_agrees e' c = commit_agrees e c"
  by (simp add: commit_agrees_def split: option.splits)

lemma sync_update_srr:
  assumes "sync s" and "srrs s k = Some old" and "srr_id e = srr_id old"
    and "srr_transferCommitment e = srr_transferCommitment old"
  shows "sync (save_srr e s)"
  using assms sync_agrees [OF assms(1,2)] sync_srr_id [OF assms(1,2)]
  by (intro sync_save_srr) (simp_all add: commit_agrees_def split: option.splits)

lemma sync_new_srr:
  assumes "sync s" and "srrs s (srr_id e) = None" and "srr_transferCommitment e = None"
  shows "sync (save_srr e s)"
  using assms sync_no_srr [OF assms(1,2)] by (intro sync_save_srr) (simp_all add: commit_agrees_def)

lemma sync_frame [simp]:
  "sync (save_luw x1 s) = sync s" "sync (save_ch x2 s) = sync s" "sync (save_chm x3 s) = sync s"
  "sync (save_cht x4 s) = sync s" "sync (save_sh x5 s) = sync s" "sync (save_pv x6 s) = sync s"
  "sync (save_mh x7 s) = sync s" "sync (save_bi x8 s) = sync s" "sync (save_bis x9 s) = sync s"
  "sync (save_bt x10 s) = sync s" "sync (save_bk x11 s) = sync s" "sync (save_bks x12 s) = sync s"
  "sync (save_rt x13 s) = sync s" "sync (save_ex x14 s) = sync s" "sync (save_col x15 s) = sync s"
  "sync (remove_rt x16 s) = sync s"
  by (simp_all add: sync_def)

section \<open>The shared functions keep the agreement\<close>

lemma sync_saveSRRMetadataHistory:
  "sync s \<Longrightarrow> ensures sync (saveSRRMetadataHistory h srr t ev s)"
  by (simp add: saveSRRMetadataHistory_def Let_def)

lemma sync_saveCreateSRRInternal:
  assumes "sync s" and "commit_agrees srr (transferCommits s (srr_id srr))"
  shows "ensures sync (saveCreateSRRInternal h srr p artist issuer d l t ev s)"
  unfolding saveCreateSRRInternal_def Let_def ensures_simps
  by (intro allI impI sync_saveSRRMetadataHistory sync_save_srr [OF assms(1)])
    (use assms(2) in \<open>simp add: commit_agrees_def split: option.splits\<close>)

lemma sync_handleSRRProvenanceInternal:
  "sync s \<Longrightarrow> ensures sync (handleSRRProvenanceInternal h t k from to ch mh uri i sender s)"
  by (auto simp: handleSRRProvenanceInternal_def Let_def split: option.split intro: sync_update_srr)

lemma sync_handleSRRCommitmentInternal:
  assumes "sync s"
  shows "ensures sync (handleSRRCommitmentInternal t commitment k ch sender s)"
proof (cases "srrs s k")
  case None
  then show ?thesis using assms by (simp add: handleSRRCommitmentInternal_def)
next
  case (Some srr)
  then show ?thesis
    using sync_srr_id [OF assms Some] sync_tc_id [OF assms]
    by (auto simp: handleSRRCommitmentInternal_def Let_def new_tc_def save_srr_tc_commute
        commit_agrees_def split: option.split intro!: sync_save_srr_tc [OF assms])
qed

lemma sync_handleSRRCommitmentCancelledInternal:
  assumes "sync s"
  shows "ensures sync (handleSRRCommitmentCancelledInternal t k sender s)"
proof (cases "srrs s k")
  case None
  then show ?thesis using assms by (simp add: handleSRRCommitmentCancelledInternal_def)
next
  case (Some srr)
  have id: "srr_id srr = k" using sync_srr_id [OF assms Some] .
  show ?thesis
  proof (cases "transferCommits s k")
    case None
    then show ?thesis
      using assms Some id
      by (auto simp: handleSRRCommitmentCancelledInternal_def Let_def commit_agrees_def
          intro!: sync_save_srr)
  next
    case tc: (Some c)
    then show ?thesis
      using assms Some id sync_tc_id [OF assms tc]
      by (auto simp: handleSRRCommitmentCancelledInternal_def Let_def commit_agrees_def
          save_srr_tc_commute split: option.split intro!: sync_save_srr_tc)
  qed
qed

lemma sync_handleUpdateSRRInternal: "sync s \<Longrightarrow> ensures sync (handleUpdateSRRInternal t p a k s)"
  by (auto simp: handleUpdateSRRInternal_def Let_def split: option.split intro: sync_update_srr)

lemma sync_handleUpdateSRRMetadataHashInternal:
  "sync s \<Longrightarrow> ensures sync (handleUpdateSRRMetadataHashInternal h t k d ev s)"
  by (auto simp: handleUpdateSRRMetadataHashInternal_def Let_def split: option.split
      intro!: sync_saveSRRMetadataHistory intro: sync_update_srr)

lemma sync_handleCreateCustomHistoryInternal:
  "sync s \<Longrightarrow> ensures sync (handleCreateCustomHistoryInternal t i n ty d oc ot s)"
  by (simp add: handleCreateCustomHistoryInternal_def)

lemma sync_handleUpdateCustomHistoryInternal:
  "sync s \<Longrightarrow> ensures sync (handleUpdateCustomHistoryInternal h k t d n s)"
  by (simp add: handleUpdateCustomHistoryInternal_def Let_def split: option.split)

text \<open>Clearing the commitment of an object and saving the object.\<close>

lemma sync_checkAndClear:
  assumes "sync s" and "checkAndClearCommitOnTransfer srr t s = Inr (srr', s1)"
    and "srr_id e = srr_id srr'" and "srr_transferCommitment e = srr_transferCommitment srr'"
  shows "sync (save_srr e s1)"
proof (cases "transferCommits s (srr_id srr)")
  case None
  then show ?thesis
    using assms by (auto simp: checkAndClearCommitOnTransfer_def commit_agrees_def intro!: sync_save_srr)
next
  case (Some c)
  let ?c = "c\<lparr>tc_commitment := None, tc_lastAction := Some Transfer,
              tc_updatedAt := Some t, tc_updatedAtStr := Some (utc_string t)\<rparr>"
  have "s1 = save_tc ?c s" "srr' = srr\<lparr>srr_transferCommitment := None\<rparr>"
    using assms(2) Some by (auto simp: checkAndClearCommitOnTransfer_def toUTCString_eq_Inr)
  moreover have "tc_id c = srr_id srr" using sync_tc_id [OF assms(1) Some] .
  ultimately show ?thesis
    using assms(1,3,4) by (simp add: sync_save_srr_tc commit_agrees_def)
qed

section \<open>The complete handlers keep the agreement\<close>

lemma sync_recordTransfer:
  assumes "sync s"
  shows "ensures sync (recordTransfer h t k from to srr s)"
  unfolding recordTransfer_def ensures_simps
  by (auto intro: sync_checkAndClear dest!: ensuresD [OF sync_handleSRRProvenanceInternal [OF assms]])

lemma transferredSrr_cases:
  assumes "transferredSrr h ev m tok s = Inr srr"
  shows "srrs s (srrEntityId h (ev_address ev) tok) = Some srr \<or>
     srrs s (srrEntityId h (ev_address ev) tok) = None \<and>
     srr_id srr = srrEntityId h (ev_address ev) tok \<and> srr_transferCommitment srr = None"
  using assms by (auto simp: transferredSrr_def Let_def new_srr_def split: option.splits if_splits)

lemma sync_handleTransfer:
  assumes sync: "sync s"
  shows "ensures sync (handleTransfer h ev from to tok s)"
proof -
  have "sync (save_srr (srr\<lparr>srr_ownerAddress := o', srr_updatedAt := u, srr_updatedAtStr := us\<rparr>) s)"
    if "transferredSrr h ev m tok s = Inr srr" for srr m o' u us
    using transferredSrr_cases [OF that]
    by (auto intro: sync_update_srr [OF sync] sync_new_srr [OF sync])
  then show ?thesis
    unfolding handleTransfer_def Let_def ensures_simps
    by (auto intro!: sync_recordTransfer)
qed

lemma sync_handleLockExternalTransfer:
  "sync s \<Longrightarrow> ensures sync (handleLockExternalTransfer h ev tok f s)"
  by (auto simp: handleLockExternalTransfer_def split: option.split intro: sync_update_srr)

lemma sync_handleRoyaltiesSet: "sync s \<Longrightarrow> ensures sync (handleRoyaltiesSet h ev tok r b s)"
  by (auto simp: handleRoyaltiesSet_def Let_def split: option.split intro: sync_update_srr)

lemma sync_handleSRRHistory: "sync s \<Longrightarrow> ensures sync (handleSRRHistory h ev toks chs s)"
  unfolding handleSRRHistory_def Let_def by (intro foldr_res_ensures) simp_all

section \<open>Well-formedness with respect to the schema\<close>

lemma wf_update_srr:
  assumes "wf_store s" and "srrs s k = Some old" and "srr_id e = srr_id old"
    and "srr_createdAt e = srr_createdAt old" and "srr_createdAtStr e = srr_createdAtStr old"
    and "stamped (srr_updatedAt e) (srr_updatedAtStr e)"
  shows "wf_store (save_srr e s)"
  using assms(2-) wf_srrs [OF assms(1,2)] by (intro wf_save_srr [OF assms(1)]) (simp add: wf_srr_def)

lemma wf_update_tc:
  assumes "wf_store s" and "transferCommits s k = Some old" and "tc_id e = tc_id old"
    and "tc_createdAt e = tc_createdAt old" and "tc_createdAtStr e = tc_createdAtStr old"
    and "is_set (tc_lastAction e)" and "stamped (tc_updatedAt e) (tc_updatedAtStr e)"
  shows "wf_store (save_tc e s)"
  using assms(2-) wf_transferCommits [OF assms(1,2)] by (intro wf_save_tc [OF assms(1)]) (simp add: wf_tc_def)

lemma wf_stamped_srr:
  "wf_store s \<Longrightarrow> srrs s k = Some e \<Longrightarrow> stamped (srr_updatedAt e) (srr_updatedAtStr e)"
  by (auto dest!: wf_srrs simp: wf_srr_def)

lemma wf_saveSRRMetadataHistory:
  "wf_store s \<Longrightarrow> ensures wf_store (saveSRRMetadataHistory h srr t ev s)"
  by (auto simp: saveSRRMetadataHistory_def Let_def toUTCString_eq_Inr new_mh_def wf_mh_def intro!: wf_save_mh)

lemma wf_saveCreateSRRInternal:
  assumes "wf_store s" and "srr_id srr = k"
    and "stamped (srr_createdAt srr) (srr_createdAtStr srr)"
  shows "ensures wf_store (saveCreateSRRInternal h srr p artist issuer d l t ev s)"
  unfolding saveCreateSRRInternal_def Let_def ensures_simps
  by (intro allI impI wf_saveSRRMetadataHistory wf_save_srr [OF assms(1)])
    (use assms(2,3) in \<open>simp add: wf_srr_def toUTCString_eq_Inr\<close>)

lemma wf_handleSRRProvenanceInternal:
  "wf_store s \<Longrightarrow> ensures wf_store (handleSRRProvenanceInternal h t k from to ch mh uri i sender s)"
  by (auto simp: handleSRRProvenanceInternal_def Let_def toUTCString_eq_Inr new_pv_def wf_pv_def
      split: option.split intro!: wf_save_pv intro: wf_update_srr)

lemma wf_handleSRRCommitmentInternal:
  assumes "wf_store s"
  shows "ensures wf_store (handleSRRCommitmentInternal t commitment k ch sender s)"
proof (cases "srrs s k")
  case None
  then show ?thesis using assms by (simp add: handleSRRCommitmentInternal_def)
next
  case (Some srr)
  have srr: "wf_store (save_srr (srr\<lparr>srr_transferCommitment := c, srr_updatedAt := Some t,
      srr_updatedAtStr := Some (utc_string t)\<rparr>) s)" if "valid_time t" for c
    using that by (auto intro: wf_update_srr [OF assms Some])
  show ?thesis
  proof (cases "transferCommits s k")
    case None
    then show ?thesis
      using Some by (auto simp: handleSRRCommitmentInternal_def Let_def toUTCString_eq_Inr
          new_tc_def wf_tc_def split: option.split intro!: wf_save_tc srr)
  next
    case tc: (Some c)
    have "wf_tc k c" using wf_transferCommits [OF assms tc] .
    then show ?thesis
      using Some tc by (auto simp: handleSRRCommitmentInternal_def Let_def toUTCString_eq_Inr
          wf_tc_def split: option.split intro!: wf_save_tc srr)
  qed
qed

lemma wf_handleSRRCommitmentCancelledInternal:
  assumes "wf_store s"
  shows "ensures wf_store (handleSRRCommitmentCancelledInternal t k sender s)"
proof (cases "srrs s k")
  case None
  then show ?thesis using assms by (simp add: handleSRRCommitmentCancelledInternal_def)
next
  case (Some srr)
  have srr: "wf_store (save_srr (srr\<lparr>srr_transferCommitment := None, srr_updatedAt := Some t,
      srr_updatedAtStr := Some (utc_string t)\<rparr>) s)" if "valid_time t"
    using that by (auto intro: wf_update_srr [OF assms Some])
  show ?thesis
    using Some srr wf_transferCommits [OF assms]
    by (auto simp: handleSRRCommitmentCancelledInternal_def Let_def toUTCString_eq_Inr
        wf_tc_def split: option.split intro!: wf_save_tc)
qed

lemma wf_handleCreateCustomHistoryInternal:
  "wf_store s \<Longrightarrow> ensures wf_store (handleCreateCustomHistoryInternal t i n ty d oc ot s)"
  by (auto simp: handleCreateCustomHistoryInternal_def toUTCString_eq_Inr new_ch_def wf_ch_def
      intro!: wf_save_ch)

lemma wf_handleUpdateCustomHistoryInternal:
  assumes "wf_store s"
  shows "ensures wf_store (handleUpdateCustomHistoryInternal h k t d n s)"
  using wf_customHistories [OF assms]
  by (auto simp: handleUpdateCustomHistoryInternal_def Let_def toUTCString_eq_Inr new_chm_def
      wf_chm_def wf_ch_def split: option.split intro!: wf_save_ch wf_save_chm assms)

lemma wf_handleUpdateSRRInternal:
  "wf_store s \<Longrightarrow> ensures wf_store (handleUpdateSRRInternal t p a k s)"
  by (auto simp: handleUpdateSRRInternal_def Let_def toUTCString_eq_Inr split: option.split
      intro: wf_update_srr)

lemma wf_handleUpdateSRRMetadataHashInternal:
  "wf_store s \<Longrightarrow> ensures wf_store (handleUpdateSRRMetadataHashInternal h t k d ev s)"
  by (auto simp: handleUpdateSRRMetadataHashInternal_def Let_def toUTCString_eq_Inr
      split: option.split intro!: wf_saveSRRMetadataHistory intro: wf_update_srr)

lemma wf_checkAndClear:
  assumes "wf_store s"
    and "stamped (srr_createdAt srr) (srr_createdAtStr srr)"
    and "stamped (srr_updatedAt srr) (srr_updatedAtStr srr)"
    and "checkAndClearCommitOnTransfer srr t s = Inr (srr', s1)"
  shows "wf_store (save_srr srr' s1)" "srr_id srr' = srr_id srr" "srr_createdAt srr' = srr_createdAt srr"
    "srr_createdAtStr srr' = srr_createdAtStr srr" "wf_store s1"
proof -
  show s1: "wf_store s1"
    using assms(1,4) wf_transferCommits [OF assms(1)]
    by (auto simp: checkAndClearCommitOnTransfer_def toUTCString_eq_Inr wf_tc_def
        split: option.splits intro!: wf_save_tc)
  have srr': "srr' = srr\<lparr>srr_transferCommitment := None\<rparr>"
    using assms(4) by (auto simp: checkAndClearCommitOnTransfer_def)
  show "wf_store (save_srr srr' s1)"
    using assms(2,3) srr' by (intro wf_save_srr [OF s1]) (simp add: wf_srr_def)
  show "srr_id srr' = srr_id srr" "srr_createdAt srr' = srr_createdAt srr"
    "srr_createdAtStr srr' = srr_createdAtStr srr"
    by (simp_all add: srr')
qed

text \<open>A transfer keeps the store well-formed when it is a mint or its token is known; a
  transfer of an unknown token creates an SRR without the creation time the schema requires.\<close>

definition transfer_known :: "host \<Rightarrow> eth_event \<Rightarrow> address \<Rightarrow> int \<Rightarrow> store \<Rightarrow> bool" where
  "transfer_known h event from tokenId s \<longleftrightarrow>
     from = ZERO_ADDRESS \<or> is_set (srrs s (srrEntityId h (ev_address event) tokenId))"

lemma wf_recordTransfer:
  assumes "wf_store s" and "stamped (srr_createdAt srr) (srr_createdAtStr srr)"
    and "stamped (srr_updatedAt srr) (srr_updatedAtStr srr)"
  shows "ensures wf_store (recordTransfer h t k from to srr s)"
  unfolding recordTransfer_def ensures_simps
proof (intro allI impI)
  fix s2 p
  assume prov: "handleSRRProvenanceInternal h t k from to None None None False None s = Inr s2"
    and clear: "checkAndClearCommitOnTransfer srr t s2 = Inr p"
  obtain e s3 where p: "p = (e, s3)" by (cases p)
  have "wf_store s2" using wf_handleSRRProvenanceInternal [OF assms(1)] prov by (rule ensuresD)
  then show "ensures wf_store (case p of (srr', s3) \<Rightarrow> Inr (save_srr srr' s3))"
    using wf_checkAndClear(1) [OF _ assms(2,3)] clear p by simp
qed

lemma wf_handleTransfer:
  assumes wf: "wf_store s" and known: "transfer_known h ev from tok s"
  shows "ensures wf_store (handleTransfer h ev from to tok s)"
proof -
  let ?t = "eventUTCMillis ev"
  have created: "stamped (srr_createdAt srr) (srr_createdAtStr srr)"
    if "transferredSrr h ev (from = ZERO_ADDRESS) tok s = Inr srr" for srr
    using that known wf_srrs [OF wf]
    by (auto simp: transferredSrr_def Let_def transfer_known_def toUTCString_eq_Inr wf_srr_def
        split: option.splits if_splits)
  have saved: "wf_store (save_srr (srr\<lparr>srr_ownerAddress := Some to, srr_updatedAt := Some ?t,
                 srr_updatedAtStr := Some (utc_string ?t)\<rparr>) s)"
    if "transferredSrr h ev (from = ZERO_ADDRESS) tok s = Inr srr" "valid_time ?t" for srr
    using created [OF that(1)] that(2) by (intro wf_save_srr [OF wf]) (simp add: wf_srr_def)
  show ?thesis
    unfolding handleTransfer_def Let_def ensures_simps toHex_eq_iff
  proof (intro allI impI)
    fix srr str
    assume tr: "transferredSrr h ev (from = ZERO_ADDRESS) tok s = Inr srr"
      and "toUTCString ?t = Inr str"
    then have v: "valid_time ?t" and str: "str = utc_string ?t" by (simp_all add: toUTCString_eq_Inr)
    let ?e = "srr\<lparr>srr_ownerAddress := Some to, srr_updatedAt := Some ?t, srr_updatedAtStr := Some str\<rparr>"
    have "ensures wf_store (recordTransfer h ?t (srrEntityId h (ev_address ev) tok) from to ?e (save_srr ?e s))"
      using saved [OF tr v] created [OF tr] v str by (intro wf_recordTransfer) simp_all
    then show "ensures wf_store (if from = ZERO_ADDRESS then Inr (save_srr ?e s)
        else recordTransfer h ?t (srrEntityId h (ev_address ev) tok) from to ?e (save_srr ?e s))"
      using saved [OF tr v] str by simp
  qed
qed

lemma wf_handleLockExternalTransfer:
  assumes "wf_store s"
  shows "ensures wf_store (handleLockExternalTransfer h ev tok f s)"
  using assms wf_srrs [OF assms]
  by (auto simp: handleLockExternalTransfer_def wf_srr_def split: option.split
      intro!: wf_save_srr)

lemma wf_handleRoyaltiesSet: "wf_store s \<Longrightarrow> ensures wf_store (handleRoyaltiesSet h ev tok r b s)"
  by (auto simp: handleRoyaltiesSet_def Let_def toUTCString_eq_Inr split: option.split intro: wf_update_srr)

lemma wf_handleSRRHistory: "wf_store s \<Longrightarrow> ensures wf_store (handleSRRHistory h ev toks chs s)"
  unfolding handleSRRHistory_def Let_def
  by (intro foldr_res_ensures) (auto simp: toUTCString_eq_Inr new_sh_def wf_sh_def intro!: wf_save_sh)

section \<open>Referential integrity\<close>

lemma refers_upd [simp]: "refers m r \<Longrightarrow> refers (m(k \<mapsto> e)) r"
  by (auto simp: refers_def is_set_def split: option.splits)

lemma refers_Some [simp]: "refers m (Some k) \<longleftrightarrow> is_set (m k)"
  by (simp add: refers_def)

lemma table_all_upd_mono:
  "table_all (\<lambda>_ e. refers m (f e)) t \<Longrightarrow> table_all (\<lambda>_ e. refers (m(k \<mapsto> x)) (f e)) t"
  by (auto simp: table_all_def)

lemma table_all_upd_mono_id:
  "table_all (\<lambda>j e. i e = j \<and> refers m (f e)) t \<Longrightarrow>
   table_all (\<lambda>j e. i e = j \<and> refers (m(k \<mapsto> x)) (f e)) t"
  by (auto simp: table_all_def)

lemma refs_frame [simp]:
  "refs (save_luw x1 s) = refs s" "refs (save_cht x2 s) = refs s" "refs (save_sh x3 s) = refs s"
  "refs (save_tc x4 s) = refs s" "refs (save_bt x5 s) = refs s" "refs (save_rt x6 s) = refs s"
  "refs (save_ex x7 s) = refs s" "refs (save_col x8 s) = refs s" "refs (remove_rt x9 s) = refs s"
  by (simp_all add: refs_def)

lemma refs_save_srr [intro]: "refs s \<Longrightarrow> refs (save_srr e s)"
  by (simp add: refs_def table_all_upd_mono table_all_upd_mono_id)

lemma refs_save_ch [intro]: "refs s \<Longrightarrow> refs (save_ch e s)"
  by (simp add: refs_def table_all_upd_mono table_all_upd)

lemma refs_save_bi [intro]: "refs s \<Longrightarrow> refs (save_bi e s)"
  by (simp add: refs_def table_all_upd_mono table_all_upd)

lemma refs_save_bk [intro]: "refs s \<Longrightarrow> refs (save_bk e s)"
  by (simp add: refs_def table_all_upd_mono table_all_upd)

lemma refs_save_pv [intro]: "refs s \<Longrightarrow> refers (srrs s) (pv_srr e) \<Longrightarrow> refs (save_pv e s)"
  by (simp add: refs_def table_all_upd)

lemma refs_save_mh [intro]: "refs s \<Longrightarrow> refers (srrs s) (mh_srr e) \<Longrightarrow> refs (save_mh e s)"
  by (simp add: refs_def table_all_upd)

lemma refs_save_chm [intro]:
  "refs s \<Longrightarrow> refers (customHistories s) (chm_customHistory e) \<Longrightarrow> refs (save_chm e s)"
  by (simp add: refs_def table_all_upd)

lemma refs_save_bis [intro]:
  "refs s \<Longrightarrow> refers (bulkIssues s) (bis_bulkIssue e) \<Longrightarrow> refs (save_bis e s)"
  by (simp add: refs_def table_all_upd)

lemma refs_save_bks [intro]: "refs s \<Longrightarrow> refers (bulks s) (bks_bulk e) \<Longrightarrow> refs (save_bks e s)"
  by (simp add: refs_def table_all_upd)

lemma refs_saveSRRMetadataHistory:
  "refs s \<Longrightarrow> is_set (srrs s (srr_id srr)) \<Longrightarrow> ensures refs (saveSRRMetadataHistory h srr t ev s)"
  by (auto simp: saveSRRMetadataHistory_def Let_def)

lemma refs_saveCreateSRRInternal:
  "refs s \<Longrightarrow> ensures refs (saveCreateSRRInternal h srr p artist issuer d l t ev s)"
  unfolding saveCreateSRRInternal_def Let_def ensures_simps
  by (intro allI impI refs_saveSRRMetadataHistory refs_save_srr) simp_all

lemma refs_handleSRRProvenanceInternal:
  "refs s \<Longrightarrow> ensures refs (handleSRRProvenanceInternal h t k from to ch mh uri i sender s)"
  by (auto simp: handleSRRProvenanceInternal_def Let_def split: option.split)

lemma refs_handleSRRCommitmentInternal:
  "refs s \<Longrightarrow> ensures refs (handleSRRCommitmentInternal t commitment k ch sender s)"
  by (auto simp: handleSRRCommitmentInternal_def Let_def split: option.split)

lemma refs_handleSRRCommitmentCancelledInternal:
  "refs s \<Longrightarrow> ensures refs (handleSRRCommitmentCancelledInternal t k sender s)"
  by (auto simp: handleSRRCommitmentCancelledInternal_def Let_def split: option.split)

lemma refs_handleCreateCustomHistoryInternal:
  "refs s \<Longrightarrow> ensures refs (handleCreateCustomHistoryInternal t i n ty d oc ot s)"
  by (auto simp: handleCreateCustomHistoryInternal_def)

lemma refs_handleUpdateCustomHistoryInternal:
  "refs s \<Longrightarrow> ensures refs (handleUpdateCustomHistoryInternal h k t d n s)"
  by (auto simp: handleUpdateCustomHistoryInternal_def Let_def split: option.split
      intro!: refs_save_ch refs_save_chm)

lemma refs_handleUpdateSRRInternal: "refs s \<Longrightarrow> ensures refs (handleUpdateSRRInternal t p a k s)"
  by (auto simp: handleUpdateSRRInternal_def Let_def split: option.split)

lemma refs_handleUpdateSRRMetadataHashInternal:
  "refs s \<Longrightarrow> ensures refs (handleUpdateSRRMetadataHashInternal h t k d ev s)"
  by (auto simp: handleUpdateSRRMetadataHashInternal_def Let_def split: option.split
      intro!: refs_saveSRRMetadataHistory)

lemma refs_checkAndClear:
  "refs s \<Longrightarrow> checkAndClearCommitOnTransfer srr t s = Inr (srr', s1) \<Longrightarrow> refs s1"
  by (auto simp: checkAndClearCommitOnTransfer_def split: option.splits)

lemma refs_recordTransfer: "refs s \<Longrightarrow> ensures refs (recordTransfer h t k from to srr s)"
  unfolding recordTransfer_def ensures_simps
proof (intro allI impI)
  fix s2 p
  assume "refs s" and prov: "handleSRRProvenanceInternal h t k from to None None None False None s = Inr s2"
    and clear: "checkAndClearCommitOnTransfer srr t s2 = Inr p"
  obtain e s3 where p: "p = (e, s3)" by (cases p)
  have "refs s2" using refs_handleSRRProvenanceInternal [OF \<open>refs s\<close>] prov by (rule ensuresD)
  then show "ensures refs (case p of (srr', s3) \<Rightarrow> Inr (save_srr srr' s3))"
    using clear p refs_checkAndClear by auto
qed

lemma refs_handleTransfer: "refs s \<Longrightarrow> ensures refs (handleTransfer h ev from to tok s)"
  unfolding handleTransfer_def Let_def ensures_simps
  by (auto intro!: refs_recordTransfer)

lemma refs_handleLockExternalTransfer:
  "refs s \<Longrightarrow> ensures refs (handleLockExternalTransfer h ev tok f s)"
  by (auto simp: handleLockExternalTransfer_def split: option.split)

lemma refs_handleRoyaltiesSet: "refs s \<Longrightarrow> ensures refs (handleRoyaltiesSet h ev tok r b s)"
  by (auto simp: handleRoyaltiesSet_def Let_def split: option.split)

lemma refs_handleSRRHistory: "refs s \<Longrightarrow> ensures refs (handleSRRHistory h ev toks chs s)"
  unfolding handleSRRHistory_def Let_def by (intro foldr_res_ensures) simp_all

end
