(* ===== verification/SrrMigration.thy ===== *)
theory SrrMigration
  imports SrrHandlers
begin

text \<open>
  \<open>subgraph/src/lib/srr-migration-handlers.ts\<close>: the events of the token migration from Ethereum
  mainnet to Polygon, which carry the timestamp (in seconds) and transaction of the origin
  chain. \<open>registry_record\<close> is the event tuple \<open>(isPrimaryIssuer, artistAddress, issuer)\<close>.
\<close>

record registry_record =
  rr_isPrimaryIssuer :: bool
  rr_artistAddress :: address
  rr_issuer :: address

definition handleTransferFromMigration ::
  "host \<Rightarrow> eth_event \<Rightarrow> address \<Rightarrow> address \<Rightarrow> int \<Rightarrow> int \<Rightarrow> bytes \<Rightarrow> handler" where
  "handleTransferFromMigration h event from to tokenId originTimestamp originTxHash s =
     (let originTimestampMillis = secondsToMillis originTimestamp;
          srrId = srrEntityId h (ev_address event) tokenId
      in bindr (case srrs s srrId of
                  Some srr \<Rightarrow> Inr srr
                | None \<Rightarrow>
                    bindr (toUTCString originTimestampMillis) (\<lambda>str.
                      Inr ((new_srr srrId)\<lparr>srr_tokenId := Some (int_dec tokenId),
                             srr_createdAt := Some originTimestampMillis,
                             srr_createdAtStr := Some str,
                             srr_originChain := Some (currentChainId h),
                             srr_originTxHash := Some originTxHash\<rparr>))) (\<lambda>srr.
         bindr (if toHex from \<noteq> toHex ZERO_ADDRESS
                then checkAndClearCommitOnTransfer srr originTimestampMillis s
                else Inr (srr, s)) (\<lambda>(srr', s1).
         bindr (toUTCString originTimestampMillis) (\<lambda>str.
           Inr (save_srr (srr'\<lparr>srr_ownerAddress := Some to,
                               srr_updatedAt := Some originTimestampMillis,
                               srr_updatedAtStr := Some str\<rparr>) s1)))))"

definition handleCreateSRRFromMigration ::
  "host \<Rightarrow> eth_event \<Rightarrow> int \<Rightarrow> registry_record \<Rightarrow> bytes \<Rightarrow> int \<Rightarrow> bytes \<Rightarrow> handler" where
  "handleCreateSRRFromMigration h event tokenId registryRecord metadataDigest originTimestamp
      originTxHash s =
     (let timestampMillis = secondsToMillis originTimestamp;
          srrId = srrEntityId h (ev_address event) tokenId
      in bindr (case srrs s srrId of
                  Some srr \<Rightarrow> Inr srr
                | None \<Rightarrow>
                    bindr (toUTCString timestampMillis) (\<lambda>str.
                      Inr ((new_srr srrId)\<lparr>srr_tokenId := Some (int_dec tokenId),
                             srr_createdAt := Some timestampMillis,
                             srr_createdAtStr := Some str,
                             srr_originTxHash := Some originTxHash\<rparr>))) (\<lambda>srr.
         saveCreateSRRInternal h srr (rr_isPrimaryIssuer registryRecord)
           (rr_artistAddress registryRecord) (rr_issuer registryRecord) (toHex metadataDigest)
           False timestampMillis event s))"

definition handleMigrateSRR :: "host \<Rightarrow> eth_event \<Rightarrow> int \<Rightarrow> string \<Rightarrow> handler" where
  "handleMigrateSRR h event tokenId originChain s =
     (case srrs s (srrEntityId h (ev_address event) tokenId) of
        None \<Rightarrow> Inr s
      | Some srr \<Rightarrow> Inr (save_srr (srr\<lparr>srr_originChain := Some originChain\<rparr>) s))"

definition handleSRRCommitmentFromMigration ::
  "host \<Rightarrow> eth_event \<Rightarrow> bytes \<Rightarrow> int \<Rightarrow> int \<Rightarrow> handler" where
  "handleSRRCommitmentFromMigration h event commitment tokenId originTimestamp =
     handleSRRCommitmentInternal (secondsToMillis originTimestamp) commitment
       (srrEntityId h (ev_address event) tokenId) None None"

definition handleSRRCommitmentWithCustomHistoryFromMigration ::
  "host \<Rightarrow> eth_event \<Rightarrow> bytes \<Rightarrow> int \<Rightarrow> int \<Rightarrow> int \<Rightarrow> handler" where
  "handleSRRCommitmentWithCustomHistoryFromMigration h event commitment tokenId customHistoryId
      originTimestamp =
     handleSRRCommitmentInternal (secondsToMillis originTimestamp) commitment
       (srrEntityId h (ev_address event) tokenId) (Some customHistoryId) None"

definition handleSRRProvenanceFromMigration ::
  "host \<Rightarrow> eth_event \<Rightarrow> int \<Rightarrow> address \<Rightarrow> address \<Rightarrow> string \<Rightarrow> string \<Rightarrow> int \<Rightarrow> handler" where
  "handleSRRProvenanceFromMigration h event tokenId from to historyMetadataDigest
      historyMetadataURI originTimestamp =
     handleSRRProvenanceInternal h (secondsToMillis originTimestamp)
       (srrEntityId h (ev_address event) tokenId) from to None (Some historyMetadataDigest)
       (Some historyMetadataURI) False None"

definition handleSRRProvenanceWithCustomHistoryFromMigration ::
  "host \<Rightarrow> eth_event \<Rightarrow> int \<Rightarrow> address \<Rightarrow> address \<Rightarrow> int \<Rightarrow> string \<Rightarrow> string \<Rightarrow> int \<Rightarrow> handler" where
  "handleSRRProvenanceWithCustomHistoryFromMigration h event tokenId from to customHistoryId
      historyMetadataDigest historyMetadataURI originTimestamp =
     handleSRRProvenanceInternal h (secondsToMillis originTimestamp)
       (srrEntityId h (ev_address event) tokenId) from to (Some customHistoryId)
       (Some historyMetadataDigest) (Some historyMetadataURI) False None"

definition handleSRRCommitmentCancelledFromMigration ::
  "host \<Rightarrow> eth_event \<Rightarrow> int \<Rightarrow> int \<Rightarrow> handler" where
  "handleSRRCommitmentCancelledFromMigration h event tokenId originTimestamp =
     handleSRRCommitmentCancelledInternal (secondsToMillis originTimestamp)
       (srrEntityId h (ev_address event) tokenId) None"

definition handleCreateCustomHistoryFromMigration ::
  "int \<Rightarrow> string \<Rightarrow> int \<Rightarrow> bytes \<Rightarrow> string \<Rightarrow> int \<Rightarrow> bytes \<Rightarrow> handler" where
  "handleCreateCustomHistoryFromMigration i name customHistoryTypeId metadataDigest originChain
      originTimestamp originTxHash =
     handleCreateCustomHistoryInternal (secondsToMillis originTimestamp) i name
       customHistoryTypeId (toHex metadataDigest) originChain originTxHash"

definition handleUpdateSRRFromMigration ::
  "host \<Rightarrow> eth_event \<Rightarrow> int \<Rightarrow> registry_record \<Rightarrow> int \<Rightarrow> handler" where
  "handleUpdateSRRFromMigration h event tokenId registryRecord originTimestamp =
     handleUpdateSRRInternal (secondsToMillis originTimestamp) (rr_isPrimaryIssuer registryRecord)
       (rr_artistAddress registryRecord) (srrEntityId h (ev_address event) tokenId)"

definition handleUpdateSRRMetadataDigestFromMigration ::
  "host \<Rightarrow> eth_event \<Rightarrow> int \<Rightarrow> bytes \<Rightarrow> int \<Rightarrow> handler" where
  "handleUpdateSRRMetadataDigestFromMigration h event tokenId metadataDigest originTimestamp =
     handleUpdateSRRMetadataHashInternal h (secondsToMillis originTimestamp)
       (srrEntityId h (ev_address event) tokenId) (toHex metadataDigest) event"

text \<open>The event names its time in milliseconds, unlike the other events of the migration.\<close>

definition handleProvenanceDateMigrationFix :: "host \<Rightarrow> eth_event \<Rightarrow> int \<Rightarrow> int \<Rightarrow> handler" where
  "handleProvenanceDateMigrationFix h event tokenId originTimestamp s =
     (let srrId = srrEntityId h (ev_address event) tokenId;
          pvId = keccakId h (srrId @ ''66000'')
      in case provenances s pvId of
           None \<Rightarrow> Inr s
         | Some prov \<Rightarrow>
             bindr (toUTCString originTimestamp) (\<lambda>str.
               Inr (save_pv (prov\<lparr>pv_createdAt := Some originTimestamp,
                                  pv_createdAtStr := Some str,
                                  pv_timestamp := Some originTimestamp\<rparr>) s)))"

end
