(* ===== verification/SrrMapping.thy ===== *)
theory SrrMapping
  imports SrrMigration
begin

text \<open>
  \<open>subgraph/src/srr-mapping.ts\<close>: the handlers of the StartrailRegistry data source that are not
  re-exported from the shared modules. \<open>srr as SRR\<close> aborts when no SRR was loaded.
\<close>

definition handleCreateSRR ::
  "host \<Rightarrow> eth_event \<Rightarrow> int \<Rightarrow> registry_record \<Rightarrow> bytes \<Rightarrow> handler" where
  "handleCreateSRR h event tokenId registryRecord metadataDigest s =
     (let timestampMillis = eventUTCMillis event;
          srrId = srrEntityId h (ev_address event) tokenId
      in bindr (required (srrs s srrId)) (\<lambda>srr.
           saveCreateSRRInternal h srr (rr_isPrimaryIssuer registryRecord)
             (rr_artistAddress registryRecord) (rr_issuer registryRecord) (toHex metadataDigest)
             False timestampMillis event s))"

definition handleCreateSRRWithLockExternalTransfer ::
  "host \<Rightarrow> eth_event \<Rightarrow> int \<Rightarrow> registry_record \<Rightarrow> bytes \<Rightarrow> bool \<Rightarrow> handler" where
  "handleCreateSRRWithLockExternalTransfer h event tokenId registryRecord metadataDigest
      lockExternalTransfer s =
     (let timestampMillis = eventUTCMillis event;
          srrId = srrEntityId h (ev_address event) tokenId
      in bindr (required (srrs s srrId)) (\<lambda>srr.
           saveCreateSRRInternal h srr (rr_isPrimaryIssuer registryRecord)
             (rr_artistAddress registryRecord) (rr_issuer registryRecord) (toHex metadataDigest)
             lockExternalTransfer timestampMillis event s))"

definition handleCreateSRRWithCID ::
  "host \<Rightarrow> eth_event \<Rightarrow> int \<Rightarrow> registry_record \<Rightarrow> string \<Rightarrow> bool \<Rightarrow> handler" where
  "handleCreateSRRWithCID h event tokenId registryRecord metadataCID lockExternalTransfer s =
     (let timestampMillis = eventUTCMillis event;
          srrId = srrEntityId h (ev_address event) tokenId
      in bindr (required (srrs s srrId)) (\<lambda>srr.
           saveCreateSRRInternal h srr (rr_isPrimaryIssuer registryRecord)
             (rr_artistAddress registryRecord) (rr_issuer registryRecord) metadataCID
             lockExternalTransfer timestampMillis event s))"

definition handleSRRProvenance ::
  "host \<Rightarrow> eth_event \<Rightarrow> int \<Rightarrow> address \<Rightarrow> address \<Rightarrow> string \<Rightarrow> string \<Rightarrow> handler" where
  "handleSRRProvenance h event tokenId from to historyMetadataHash historyMetadataURI =
     handleSRRProvenanceInternal h (eventUTCMillis event)
       (srrEntityId h (ev_address event) tokenId) from to None (Some historyMetadataHash)
       (Some historyMetadataURI) False None"

definition handleSRRProvenanceWithCustomHistory ::
  "host \<Rightarrow> eth_event \<Rightarrow> int \<Rightarrow> address \<Rightarrow> address \<Rightarrow> int \<Rightarrow> string \<Rightarrow> string \<Rightarrow> handler" where
  "handleSRRProvenanceWithCustomHistory h event tokenId from to customHistoryId
      historyMetadataHash historyMetadataURI =
     handleSRRProvenanceInternal h (eventUTCMillis event)
       (srrEntityId h (ev_address event) tokenId) from to (Some customHistoryId)
       (Some historyMetadataHash) (Some historyMetadataURI) False None"

definition handleCustomHistoryType :: "eth_event \<Rightarrow> int \<Rightarrow> string \<Rightarrow> handler" where
  "handleCustomHistoryType event i historyType s =
     bindr (toUTCString (eventUTCMillis event)) (\<lambda>str.
       Inr (save_cht ((new_cht (int_dec i))\<lparr>cht_name := Some historyType,
              cht_createdAt := Some (eventUTCMillis event),
              cht_createdAtStr := Some str\<rparr>) s))"

definition handleUpdateCustomHistory ::
  "host \<Rightarrow> eth_event \<Rightarrow> int \<Rightarrow> string \<Rightarrow> bytes \<Rightarrow> handler" where
  "handleUpdateCustomHistory h event i name metadataDigest =
     handleUpdateCustomHistoryInternal h (int_dec i) (eventUTCMillis event)
       (toHex metadataDigest) name"

definition handleUpdateCustomHistoryWithCID ::
  "host \<Rightarrow> eth_event \<Rightarrow> int \<Rightarrow> string \<Rightarrow> string \<Rightarrow> handler" where
  "handleUpdateCustomHistoryWithCID h event i name metadataCID =
     handleUpdateCustomHistoryInternal h (int_dec i) (eventUTCMillis event) metadataCID name"

definition handleCreateCustomHistory ::
  "host \<Rightarrow> eth_event \<Rightarrow> int \<Rightarrow> string \<Rightarrow> int \<Rightarrow> bytes \<Rightarrow> handler" where
  "handleCreateCustomHistory h event i name customHistoryTypeId metadataDigest =
     handleCreateCustomHistoryInternal (eventUTCMillis event) i name customHistoryTypeId
       (toHex metadataDigest) (currentChainId h) (ev_txHash event)"

definition handleCreateCustomHistoryWithCid ::
  "host \<Rightarrow> eth_event \<Rightarrow> int \<Rightarrow> string \<Rightarrow> int \<Rightarrow> string \<Rightarrow> handler" where
  "handleCreateCustomHistoryWithCid h event i name customHistoryTypeId metadataCID =
     handleCreateCustomHistoryInternal (eventUTCMillis event) i name customHistoryTypeId
       metadataCID (currentChainId h) (ev_txHash event)"

definition handleSRRCommitment :: "host \<Rightarrow> eth_event \<Rightarrow> int \<Rightarrow> bytes \<Rightarrow> handler" where
  "handleSRRCommitment h event tokenId commitment =
     handleSRRCommitmentInternal (eventUTCMillis event) commitment
       (srrEntityId h (ev_address event) tokenId) None None"

definition handleSRRCommitmentWithCustomHistory ::
  "host \<Rightarrow> eth_event \<Rightarrow> int \<Rightarrow> bytes \<Rightarrow> int \<Rightarrow> handler" where
  "handleSRRCommitmentWithCustomHistory h event tokenId commitment customHistoryId =
     handleSRRCommitmentInternal (eventUTCMillis event) commitment
       (srrEntityId h (ev_address event) tokenId) (Some customHistoryId) None"

definition handleUpdateSRR :: "host \<Rightarrow> eth_event \<Rightarrow> int \<Rightarrow> registry_record \<Rightarrow> handler" where
  "handleUpdateSRR h event tokenId registryRecord =
     handleUpdateSRRInternal (eventUTCMillis event) (rr_isPrimaryIssuer registryRecord)
       (rr_artistAddress registryRecord) (srrEntityId h (ev_address event) tokenId)"

end
