(* ===== verification/CollectionMapping.thy ===== *)
theory CollectionMapping
  imports SrrMigration
begin

text \<open>
  \<open>subgraph/src/collection-factory-mapping.ts\<close> and \<open>subgraph/src/collection-mapping.ts\<close>: the
  creation of collections and the handlers of the Collection template that are not re-exported
  from the shared modules. Handlers whose names \<open>srr-mapping.ts\<close> also uses have the prefix
  \<open>collection_\<close>. \<open>CollectionTemplate.create\<close> adds a data source to the store.
\<close>

section \<open>The collection factory\<close>

definition handleCollectionCreatedInternal ::
  "int \<Rightarrow> address \<Rightarrow> string \<Rightarrow> string \<Rightarrow> bytes \<Rightarrow> address \<Rightarrow> handler" where
  "handleCollectionCreatedInternal eventTimestampMillis collectionAddress name symbol salt
      ownerAddress s =
     bindr (toUTCString eventTimestampMillis) (\<lambda>str.
       let collection = (new_col (toHex collectionAddress))\<lparr>col_name := Some name,
             col_symbol := Some symbol,
             col_ownerAddress := Some ownerAddress,
             col_creatorAddress := Some ownerAddress,
             col_salt := Some salt,
             col_createdAt := Some eventTimestampMillis,
             col_createdAtStr := Some str,
             col_updatedAt := Some eventTimestampMillis,
             col_updatedAtStr := Some str\<rparr>;
           s1 = save_col collection s
       in Inr (s1\<lparr>collectionTemplates := collectionTemplates s1 @ [collectionAddress]\<rparr>))"

definition handleCollectionCreated ::
  "eth_event \<Rightarrow> address \<Rightarrow> address \<Rightarrow> string \<Rightarrow> string \<Rightarrow> bytes \<Rightarrow> handler" where
  "handleCollectionCreated event collectionAddress ownerAddress name symbol salt =
     handleCollectionCreatedInternal (eventUTCMillis event) collectionAddress name symbol salt
       ownerAddress"

section \<open>The collections\<close>

definition collection_handleCreateSRR ::
  "host \<Rightarrow> eth_event \<Rightarrow> int \<Rightarrow> registry_record \<Rightarrow> string \<Rightarrow> bool \<Rightarrow> handler" where
  "collection_handleCreateSRR h event tokenId registryRecord metadataCID lockExternalTransfer s =
     (let timestampMillis = eventUTCMillis event;
          srrId = srrEntityId h (ev_address event) tokenId
      in case srrs s srrId of
           None \<Rightarrow> Inr s
         | Some srr \<Rightarrow>
             saveCreateSRRInternal h (srr\<lparr>srr_collection := Some (toHex (ev_address event))\<rparr>)
               (rr_isPrimaryIssuer registryRecord) (rr_artistAddress registryRecord)
               (rr_issuer registryRecord) metadataCID lockExternalTransfer timestampMillis event s)"

definition collection_handleUpdateSRR ::
  "host \<Rightarrow> eth_event \<Rightarrow> int \<Rightarrow> bool \<Rightarrow> address \<Rightarrow> handler" where
  "collection_handleUpdateSRR h event tokenId isPrimaryIssuer artistAddress =
     handleUpdateSRRInternal (eventUTCMillis event) isPrimaryIssuer artistAddress
       (srrEntityId h (ev_address event) tokenId)"

definition handleSRRCommitmentLegacy :: "host \<Rightarrow> eth_event \<Rightarrow> int \<Rightarrow> bytes \<Rightarrow> handler" where
  "handleSRRCommitmentLegacy h event tokenId commitment =
     handleSRRCommitmentInternal (eventUTCMillis event) commitment
       (srrEntityId h (ev_address event) tokenId) None None"

definition handleSRRCommitmentWithCustomHistoryLegacy ::
  "host \<Rightarrow> eth_event \<Rightarrow> int \<Rightarrow> bytes \<Rightarrow> int \<Rightarrow> handler" where
  "handleSRRCommitmentWithCustomHistoryLegacy h event tokenId commitment customHistoryId =
     handleSRRCommitmentInternal (eventUTCMillis event) commitment
       (srrEntityId h (ev_address event) tokenId) (Some customHistoryId) None"

definition collection_handleSRRCommitment ::
  "host \<Rightarrow> eth_event \<Rightarrow> int \<Rightarrow> bytes \<Rightarrow> address \<Rightarrow> handler" where
  "collection_handleSRRCommitment h event tokenId commitment sender =
     handleSRRCommitmentInternal (eventUTCMillis event) commitment
       (srrEntityId h (ev_address event) tokenId) None (Some sender)"

text \<open>The event carries a sender, which this handler does not pass on.\<close>

definition collection_handleSRRCommitmentWithCustomHistory ::
  "host \<Rightarrow> eth_event \<Rightarrow> int \<Rightarrow> bytes \<Rightarrow> int \<Rightarrow> address \<Rightarrow> handler" where
  "collection_handleSRRCommitmentWithCustomHistory h event tokenId commitment customHistoryId sender =
     handleSRRCommitmentInternal (eventUTCMillis event) commitment
       (srrEntityId h (ev_address event) tokenId) (Some customHistoryId) None"

definition collection_handleSRRCommitmentCancelled ::
  "host \<Rightarrow> eth_event \<Rightarrow> int \<Rightarrow> address \<Rightarrow> handler" where
  "collection_handleSRRCommitmentCancelled h event tokenId sender =
     handleSRRCommitmentCancelledInternal (eventUTCMillis event)
       (srrEntityId h (ev_address event) tokenId) (Some sender)"

definition handleSRRProvenanceWithIntermediaryWithSender ::
  "host \<Rightarrow> eth_event \<Rightarrow> int \<Rightarrow> address \<Rightarrow> address \<Rightarrow> string \<Rightarrow> string \<Rightarrow> bool \<Rightarrow> address \<Rightarrow> handler" where
  "handleSRRProvenanceWithIntermediaryWithSender h event tokenId from to historyMetadataHash
      historyMetadataURI isIntermediary sender =
     handleSRRProvenanceInternal h (eventUTCMillis event)
       (srrEntityId h (ev_address event) tokenId) from to None (Some historyMetadataHash)
       (Some historyMetadataURI) isIntermediary (Some sender)"

definition handleSRRProvenanceWithCustomHistoryAndIntermediaryWithSender ::
  "host \<Rightarrow> eth_event \<Rightarrow> int \<Rightarrow> address \<Rightarrow> address \<Rightarrow> int \<Rightarrow> string \<Rightarrow> string \<Rightarrow> bool \<Rightarrow> address
     \<Rightarrow> handler" where
  "handleSRRProvenanceWithCustomHistoryAndIntermediaryWithSender h event tokenId from to
      customHistoryId historyMetadataHash historyMetadataURI isIntermediary sender =
     handleSRRProvenanceInternal h (eventUTCMillis event)
       (srrEntityId h (ev_address event) tokenId) from to (Some customHistoryId)
       (Some historyMetadataHash) (Some historyMetadataURI) isIntermediary (Some sender)"

definition handleOwnershipTransferred :: "eth_event \<Rightarrow> address \<Rightarrow> address \<Rightarrow> handler" where
  "handleOwnershipTransferred event previousOwner newOwner s =
     (case collections s (toHex (ev_address event)) of
        None \<Rightarrow> Inr s
      | Some collection \<Rightarrow>
          bindr (toUTCString (eventUTCMillis event)) (\<lambda>str.
            Inr (save_col (collection\<lparr>col_ownerAddress := Some newOwner,
                   col_updatedAt := Some (eventUTCMillis event),
                   col_updatedAtStr := Some str\<rparr>) s)))"

end
