(* ===== verification/BulkMapping.thy ===== *)
theory BulkMapping
  imports SrrHandlers
begin

text \<open>
  The three bulk contracts: \<open>subgraph/src/bulk-mapping.ts\<close> (BulkIssue),
  \<open>subgraph/src/bulk-transfer-mapping.ts\<close> (BulkTransfer) and
  \<open>subgraph/src/generalized-bulk-mapping.ts\<close> with \<open>subgraph/src/lib/bulk-handlers.ts\<close> (Bulk).
  A batch is prepared once under its Merkle root; its processed leaves are recorded after.
\<close>

section \<open>BulkIssue\<close>

definition bulkIssue_handleBatchPrepared :: "eth_event \<Rightarrow> bytes \<Rightarrow> address \<Rightarrow> handler" where
  "bulkIssue_handleBatchPrepared event merkleRoot sender s =
     (case bulkIssues s (toHex merkleRoot) of
        Some _ \<Rightarrow> Inr s
      | None \<Rightarrow>
          bindr (toUTCString (eventUTCMillis event)) (\<lambda>str.
            Inr (save_bi ((new_bi (toHex merkleRoot))\<lparr>bi_merkleRoot := Some merkleRoot,
                   bi_issuer := Some sender,
                   bi_createdAt := Some (eventUTCMillis event),
                   bi_updatedAt := Some (eventUTCMillis event),
                   bi_createdAtStr := Some str,
                   bi_updatedAtStr := Some str\<rparr>) s)))"

definition bulkIssue_handleCreateSRRWithProof ::
  "eth_event \<Rightarrow> bytes \<Rightarrow> int \<Rightarrow> bytes \<Rightarrow> handler" where
  "bulkIssue_handleCreateSRRWithProof event merkleRoot tokenId srrHash s =
     (case bulkIssues s (toHex merkleRoot) of
        None \<Rightarrow> Inr s
      | Some batch \<Rightarrow>
          let timestampMillis = eventUTCMillis event
          in bindr (toUTCString timestampMillis) (\<lambda>str.
               let s1 = upsert_bis ((new_bis (toHex srrHash))\<lparr>bis_bulkIssue := Some (toHex merkleRoot),
                          bis_hash := Some srrHash,
                          bis_tokenId := Some (int_dec tokenId),
                          bis_createdAt := Some timestampMillis,
                          bis_createdAtStr := Some str\<rparr>) s
               in Inr (save_bi (batch\<lparr>bi_updatedAt := Some timestampMillis,
                                     bi_updatedAtStr := Some str\<rparr>) s1)))"

definition migratedLeaf :: "string \<Rightarrow> int \<Rightarrow> bytes \<Rightarrow> handler" where
  "migratedLeaf merkleRootStr timestampUpdated leafHash s =
     bindr (toUTCString timestampUpdated) (\<lambda>str.
       Inr (upsert_bis ((new_bis (toHex leafHash))\<lparr>bis_bulkIssue := Some merkleRootStr,
              bis_hash := Some leafHash,
              bis_createdAt := Some timestampUpdated,
              bis_createdAtStr := Some str\<rparr>) s))"

definition handleMigrateBatch ::
  "bytes \<Rightarrow> bytes list \<Rightarrow> address \<Rightarrow> int \<Rightarrow> int \<Rightarrow> handler" where
  "handleMigrateBatch merkleRoot processedLeaves issuer originTimestampCreated
      originTimestampUpdated s =
     (let timestampUpdated = secondsToMillis originTimestampUpdated;
          timestampCreated = secondsToMillis originTimestampCreated
      in bindr (toUTCString timestampCreated) (\<lambda>createdStr.
         bindr (toUTCString timestampUpdated) (\<lambda>updatedStr.
           foldr_res (migratedLeaf (toHex merkleRoot) timestampUpdated) processedLeaves
             (save_bi ((new_bi (toHex merkleRoot))\<lparr>bi_merkleRoot := Some merkleRoot,
                bi_issuer := Some issuer,
                bi_createdAt := Some timestampCreated,
                bi_createdAtStr := Some createdStr,
                bi_updatedAt := Some timestampUpdated,
                bi_updatedAtStr := Some updatedStr\<rparr>) s))))"

section \<open>BulkTransfer\<close>

definition bulkTransfer_handleBatchPrepared :: "eth_event \<Rightarrow> bytes \<Rightarrow> address \<Rightarrow> handler" where
  "bulkTransfer_handleBatchPrepared event merkleRoot sender s =
     (case bulkTransfers s (toHex merkleRoot) of
        Some _ \<Rightarrow> Inr s
      | None \<Rightarrow>
          bindr (toUTCString (eventUTCMillis event)) (\<lambda>str.
            Inr (save_bt ((new_bt (toHex merkleRoot))\<lparr>bt_srrApproveHashes := Some [],
                   bt_merkleRoot := Some merkleRoot,
                   bt_sender := Some sender,
                   bt_createdAt := Some (eventUTCMillis event),
                   bt_updatedAt := Some (eventUTCMillis event),
                   bt_createdAtStr := Some str,
                   bt_updatedAtStr := Some str\<rparr>) s)))"

definition bulkTransfer_handleApproveSRRByCommitmentWithProof ::
  "eth_event \<Rightarrow> bytes \<Rightarrow> int \<Rightarrow> bytes \<Rightarrow> handler" where
  "bulkTransfer_handleApproveSRRByCommitmentWithProof event merkleRoot tokenId srrApproveHash s =
     (case bulkTransfers s (toHex merkleRoot) of
        None \<Rightarrow> Inr s
      | Some batch \<Rightarrow>
          (case bt_srrApproveHashes batch of
             None \<Rightarrow> Inr s
           | Some txs \<Rightarrow>
               bindr (toUTCString (eventUTCMillis event)) (\<lambda>str.
                 Inr (save_bt (batch\<lparr>bt_srrApproveHashes := Some (txs @ [srrApproveHash]),
                        bt_tokenId := Some (int_dec tokenId),
                        bt_updatedAt := Some (eventUTCMillis event),
                        bt_updatedAtStr := Some str\<rparr>) s))))"

section \<open>Bulk\<close>

definition updateBulkInternal ::
  "bytes \<Rightarrow> address option \<Rightarrow> int \<Rightarrow> bytes \<Rightarrow> eth_event \<Rightarrow> handler" where
  "updateBulkInternal merkleRoot contractAddress tokenId leafHash event s =
     (let merkleRootStr = toHex merkleRoot
      in case bulks s merkleRootStr of
           None \<Rightarrow> Inr s
         | Some batch \<Rightarrow>
             let timestampMillis = eventUTCMillis event;
                 fresh = new_bks (toHex leafHash);
                 bulkSRR = (case contractAddress of
                              None \<Rightarrow> fresh
                            | Some a \<Rightarrow> if toHex a \<noteq> toHex ZERO_ADDRESS
                                       then fresh\<lparr>bks_contractAddress := Some a\<rparr> else fresh)
             in bindr (toUTCString timestampMillis) (\<lambda>str.
                  let s1 = upsert_bks (bulkSRR\<lparr>bks_bulk := Some merkleRootStr,
                             bks_hash := Some leafHash,
                             bks_tokenId := Some (int_dec tokenId),
                             bks_createdAt := Some timestampMillis,
                             bks_createdAtStr := Some str\<rparr>) s
                  in Inr (save_bk (batch\<lparr>bk_updatedAt := Some timestampMillis,
                                        bk_updatedAtStr := Some str\<rparr>) s1)))"

definition bulk_handleBatchPrepared :: "eth_event \<Rightarrow> bytes \<Rightarrow> address \<Rightarrow> handler" where
  "bulk_handleBatchPrepared event merkleRoot sender s =
     (case bulks s (toHex merkleRoot) of
        Some _ \<Rightarrow> Inr s
      | None \<Rightarrow>
          bindr (toUTCString (eventUTCMillis event)) (\<lambda>str.
            Inr (save_bk ((new_bk (toHex merkleRoot))\<lparr>bk_merkleRoot := Some merkleRoot,
                   bk_sender := Some sender,
                   bk_createdAt := Some (eventUTCMillis event),
                   bk_updatedAt := Some (eventUTCMillis event),
                   bk_createdAtStr := Some str,
                   bk_updatedAtStr := Some str\<rparr>) s)))"

definition bulk_handleCreateSRRWithProof ::
  "eth_event \<Rightarrow> bytes \<Rightarrow> address \<Rightarrow> int \<Rightarrow> bytes \<Rightarrow> handler" where
  "bulk_handleCreateSRRWithProof event merkleRoot contractAddress tokenId leafHash =
     updateBulkInternal merkleRoot (Some contractAddress) tokenId leafHash event"

definition bulk_handleCreateSRRWithProofLegacy ::
  "eth_event \<Rightarrow> bytes \<Rightarrow> int \<Rightarrow> bytes \<Rightarrow> handler" where
  "bulk_handleCreateSRRWithProofLegacy event merkleRoot tokenId leafHash =
     updateBulkInternal merkleRoot None tokenId leafHash event"

definition bulk_handleApproveSRRByCommitmentWithProof ::
  "eth_event \<Rightarrow> bytes \<Rightarrow> address \<Rightarrow> int \<Rightarrow> bytes \<Rightarrow> handler" where
  "bulk_handleApproveSRRByCommitmentWithProof event merkleRoot contractAddress tokenId leafHash =
     updateBulkInternal merkleRoot (Some contractAddress) tokenId leafHash event"

definition bulk_handleApproveSRRByCommitmentWithProofLegacy ::
  "eth_event \<Rightarrow> bytes \<Rightarrow> int \<Rightarrow> bytes \<Rightarrow> handler" where
  "bulk_handleApproveSRRByCommitmentWithProofLegacy event merkleRoot tokenId leafHash =
     updateBulkInternal merkleRoot None tokenId leafHash event"

definition bulk_handleTransferFromWithProvenanceWithProof ::
  "eth_event \<Rightarrow> bytes \<Rightarrow> address \<Rightarrow> int \<Rightarrow> bytes \<Rightarrow> handler" where
  "bulk_handleTransferFromWithProvenanceWithProof event merkleRoot contractAddress tokenId leafHash =
     updateBulkInternal merkleRoot (Some contractAddress) tokenId leafHash event"

definition bulk_handleTransferFromWithProvenanceWithProofLegacy ::
  "eth_event \<Rightarrow> bytes \<Rightarrow> int \<Rightarrow> bytes \<Rightarrow> handler" where
  "bulk_handleTransferFromWithProvenanceWithProofLegacy event merkleRoot tokenId leafHash =
     updateBulkInternal merkleRoot None tokenId leafHash event"

end
