(* ===== verification/LuwMapping.thy ===== *)
theory LuwMapping
  imports SrrHandlers
begin

text \<open>
  \<open>subgraph/src/luw-mapping.ts\<close>, the licensed user wallets, and \<open>subgraph/src/mtf-mapping.ts\<close>,
  the request types and executions of the MetaTxForwarder.
\<close>

section \<open>Licensed user wallets\<close>

definition userType :: "int \<Rightarrow> string" where
  "userType n = (if n = 0 then ''handler'' else if n = 1 then ''artist'' else '''')"

definition handleCreateLicensedUserWallet ::
  "eth_event \<Rightarrow> address \<Rightarrow> address list \<Rightarrow> int \<Rightarrow> string \<Rightarrow> string \<Rightarrow> int \<Rightarrow> bytes \<Rightarrow> handler" where
  "handleCreateLicensedUserWallet event walletAddress owners threshold englishName originalName
      userTypeId salt s =
     (let timestampMillis = eventUTCMillis event;
          luwId = toHex walletAddress
      in bindr (toUTCString timestampMillis) (\<lambda>str.
           let luw = (case luws s luwId of
                        Some luw \<Rightarrow> luw
                      | None \<Rightarrow> (new_luw luwId)\<lparr>luw_walletAddress := Some walletAddress,
                                  luw_englishName := Some englishName,
                                  luw_originalName := Some originalName,
                                  luw_owners := Some owners,
                                  luw_threshold := Some threshold,
                                  luw_createdAt := Some timestampMillis,
                                  luw_createdAtStr := Some str\<rparr>)
           in Inr (save_luw (luw\<lparr>luw_userType := Some (userType userTypeId),
                                luw_salt := Some salt,
                                luw_updatedAt := Some timestampMillis,
                                luw_updatedAtStr := Some str\<rparr>) s)))"

definition handleAddedOwner :: "eth_event \<Rightarrow> address \<Rightarrow> address \<Rightarrow> handler" where
  "handleAddedOwner event wallet owner s =
     (case luws s (toHex wallet) of
        None \<Rightarrow> Inr s
      | Some luw \<Rightarrow>
          bindr (required (luw_owners luw)) (\<lambda>owners.
          bindr (toUTCString (eventUTCMillis event)) (\<lambda>str.
            Inr (save_luw (luw\<lparr>luw_owners := Some (owners @ [owner]),
                               luw_updatedAt := Some (eventUTCMillis event),
                               luw_updatedAtStr := Some str\<rparr>) s))))"

text \<open>\<open>splice(ownerIdx, 1)\<close> removes the element that \<open>indexOf\<close> found.\<close>

definition splice1 :: "nat \<Rightarrow> 'a list \<Rightarrow> 'a list" where
  "splice1 i xs = take i xs @ drop (Suc i) xs"

definition handleRemovedOwner :: "eth_event \<Rightarrow> address \<Rightarrow> address \<Rightarrow> handler" where
  "handleRemovedOwner event wallet owner s =
     (case luws s (toHex wallet) of
        None \<Rightarrow> Inr s
      | Some luw \<Rightarrow>
          bindr (required (luw_owners luw)) (\<lambda>owners.
          case index_of owner owners of
            None \<Rightarrow> Inr s
          | Some ownerIdx \<Rightarrow>
              bindr (toUTCString (eventUTCMillis event)) (\<lambda>str.
                Inr (save_luw (luw\<lparr>luw_owners := Some (splice1 ownerIdx owners),
                                   luw_updatedAt := Some (eventUTCMillis event),
                                   luw_updatedAtStr := Some str\<rparr>) s))))"

definition handleChangedThreshold :: "eth_event \<Rightarrow> address \<Rightarrow> int \<Rightarrow> handler" where
  "handleChangedThreshold event wallet threshold s =
     (case luws s (toHex wallet) of
        None \<Rightarrow> Inr s
      | Some luw \<Rightarrow>
          bindr (toUTCString (eventUTCMillis event)) (\<lambda>str.
            Inr (save_luw (luw\<lparr>luw_threshold := Some threshold,
                               luw_updatedAt := Some (eventUTCMillis event),
                               luw_updatedAtStr := Some str\<rparr>) s)))"

definition handleUpgradeLicensedUserWalletToMulti ::
  "eth_event \<Rightarrow> address \<Rightarrow> address list \<Rightarrow> int \<Rightarrow> handler" where
  "handleUpgradeLicensedUserWalletToMulti event walletAddress owners threshold s =
     (case luws s (toHex walletAddress) of
        None \<Rightarrow> Inr s
      | Some luw \<Rightarrow>
          bindr (toUTCString (eventUTCMillis event)) (\<lambda>str.
            Inr (save_luw (luw\<lparr>luw_owners := Some owners,
                               luw_threshold := Some threshold,
                               luw_updatedAt := Some (eventUTCMillis event),
                               luw_updatedAtStr := Some str\<rparr>) s)))"

definition handleUpdateLicensedUserDetail ::
  "eth_event \<Rightarrow> address \<Rightarrow> string \<Rightarrow> string \<Rightarrow> handler" where
  "handleUpdateLicensedUserDetail event walletAddress key value s =
     (case luws s (toHex walletAddress) of
        None \<Rightarrow> Inr s
      | Some luw \<Rightarrow>
          let luw' = (if key = ''englishName'' then luw\<lparr>luw_englishName := Some value\<rparr>
                      else if key = ''originalName'' then luw\<lparr>luw_originalName := Some value\<rparr>
                      else luw)
          in bindr (toUTCString (eventUTCMillis event)) (\<lambda>str.
               Inr (save_luw (luw'\<lparr>luw_updatedAt := Some (eventUTCMillis event),
                                   luw_updatedAtStr := Some str\<rparr>) s)))"

definition handleMigrateLicensedUser :: "address \<Rightarrow> string \<Rightarrow> int \<Rightarrow> handler" where
  "handleMigrateLicensedUser walletAddress originChain originTimestamp s =
     (case luws s (toHex walletAddress) of
        None \<Rightarrow> Inr s
      | Some luw \<Rightarrow>
          let createTime = secondsToMillis originTimestamp
          in bindr (toUTCString createTime) (\<lambda>str.
               Inr (save_luw (luw\<lparr>luw_createdAt := Some createTime,
                                  luw_createdAtStr := Some str,
                                  luw_updatedAt := Some createTime,
                                  luw_updatedAtStr := Some str,
                                  luw_originChain := Some originChain\<rparr>) s)))"

section \<open>The MetaTxForwarder\<close>

definition handleRequestTypeRegistered :: "eth_event \<Rightarrow> bytes \<Rightarrow> string \<Rightarrow> handler" where
  "handleRequestTypeRegistered event typeHash typeStr s =
     bindr (toUTCString (eventUTCMillis event)) (\<lambda>str.
       Inr (save_rt ((new_rt (toHex typeHash))\<lparr>rt_typeHash := Some typeHash,
              rt_typeString := Some typeStr,
              rt_createdAt := Some (eventUTCMillis event),
              rt_createdAtStr := Some str\<rparr>) s))"

text \<open>The log line before the removal reads both required attributes of the entity.\<close>

definition handleRequestTypeUnregistered :: "bytes \<Rightarrow> handler" where
  "handleRequestTypeUnregistered typeHash s =
     (case requestTypes s (toHex typeHash) of
        None \<Rightarrow> Inr s
      | Some requestType \<Rightarrow>
          bindr (required (rt_typeHash requestType)) (\<lambda>_.
          bindr (required (rt_typeString requestType)) (\<lambda>_.
            Inr (remove_rt (toHex typeHash) s))))"

definition handleExecutionSuccess :: "eth_event \<Rightarrow> bytes \<Rightarrow> handler" where
  "handleExecutionSuccess event txHash s =
     bindr (toUTCString (eventUTCMillis event)) (\<lambda>str.
       Inr (save_ex ((new_ex (toHex txHash))\<lparr>ex_txHash := Some txHash,
              ex_createdAt := Some (eventUTCMillis event),
              ex_createdAtStr := Some str\<rparr>) s))"

end
