(* ===== verification/MappingInvariants.thy ===== *)
theory MappingInvariants
  imports SrrInvariants SrrMapping CollectionMapping BulkMapping LuwMapping
begin

text \<open>
  The handlers of the five mapping files keep the three invariants of the store. The bundles
  \<open>delegates\<close>, \<open>sync_shared\<close>, \<open>wf_shared\<close> and \<open>refs_shared\<close> collect the definitions that only
  pass an event on to a shared function and the lemmas of the shared functions; the handlers
  with code of their own have one lemma per invariant.
\<close>

lemmas delegates =
  handleUpdateSRRWithSender_def handleUpdateSRRMetadataWithCid_def
  handleUpdateSRRMetadataWithCidLegacy_def handleUpdateSRRMetadataWithDigestLegacy_def
  handleSRRCommitmentCancelled_def handleSRRProvenanceWithIntermediary_def
  handleSRRProvenanceWithCustomHistoryAndIntermediary_def
  handleSRRCommitmentFromMigration_def handleSRRCommitmentWithCustomHistoryFromMigration_def
  handleSRRProvenanceFromMigration_def handleSRRProvenanceWithCustomHistoryFromMigration_def
  handleSRRCommitmentCancelledFromMigration_def handleCreateCustomHistoryFromMigration_def
  handleUpdateSRRFromMigration_def handleUpdateSRRMetadataDigestFromMigration_def
  handleSRRProvenance_def handleSRRProvenanceWithCustomHistory_def
  handleUpdateCustomHistory_def handleUpdateCustomHistoryWithCID_def
  handleCreateCustomHistory_def handleCreateCustomHistoryWithCid_def
  handleSRRCommitment_def handleSRRCommitmentWithCustomHistory_def handleUpdateSRR_def
  handleCollectionCreated_def collection_handleUpdateSRR_def handleSRRCommitmentLegacy_def
  handleSRRCommitmentWithCustomHistoryLegacy_def collection_handleSRRCommitment_def
  collection_handleSRRCommitmentWithCustomHistory_def
  collection_handleSRRCommitmentCancelled_def
  handleSRRProvenanceWithIntermediaryWithSender_def
  handleSRRProvenanceWithCustomHistoryAndIntermediaryWithSender_def
  bulk_handleCreateSRRWithProof_def bulk_handleCreateSRRWithProofLegacy_def
  bulk_handleApproveSRRByCommitmentWithProof_def
  bulk_handleApproveSRRByCommitmentWithProofLegacy_def
  bulk_handleTransferFromWithProvenanceWithProof_def
  bulk_handleTransferFromWithProvenanceWithProofLegacy_def

section \<open>Agreement of commitments\<close>

lemma sync_upsert [simp]: "sync (upsert_bis e s) = sync s" "sync (upsert_bks f s) = sync s"
  by (simp_all add: upsert_bis_def upsert_bks_def)

lemma sync_templates [simp]: "sync (s\<lparr>collectionTemplates := x\<rparr>) = sync s"
  by (simp add: sync_def)

text \<open>The two ways the mappings obtain the object they hand to \<open>saveCreateSRRInternal\<close>.\<close>

lemma sync_create_loaded:
  assumes "sync s" and "srrs s k = Some srr"
  shows "ensures sync (saveCreateSRRInternal h srr p a i d l t ev s)"
  using sync_agrees [OF assms] sync_srr_id [OF assms]
  by (intro sync_saveCreateSRRInternal [OF assms(1)]) simp

lemma sync_create_fresh:
  assumes "sync s" and "srrs s (srr_id srr) = None" and "srr_transferCommitment srr = None"
  shows "ensures sync (saveCreateSRRInternal h srr p a i d l t ev s)"
  using sync_no_srr [OF assms(1,2)] assms(3)
  by (intro sync_saveCreateSRRInternal [OF assms(1)]) (simp add: commit_agrees_def)

lemma sync_handleTransferFromMigration:
  assumes "sync s"
  shows "ensures sync (handleTransferFromMigration h ev from to tok t tx s)"
proof -
  have keep: "sync (save_srr (e\<lparr>srr_ownerAddress := o', srr_updatedAt := u, srr_updatedAtStr := us\<rparr>) s)"
    if "srrs s k = Some e" for e k o' u us
    using sync_update_srr [OF assms that] by simp
  have fresh: "sync (save_srr (e\<lparr>srr_ownerAddress := o', srr_updatedAt := u, srr_updatedAtStr := us\<rparr>) s)"
    if "srrs s (srr_id e) = None" "srr_transferCommitment e = None" for e o' u us
    using sync_new_srr [OF assms] that by simp
  show ?thesis
    unfolding handleTransferFromMigration_def Let_def
    by (auto simp: new_srr_def split: option.splits
        intro: keep fresh sync_checkAndClear [OF assms])
qed

lemma sync_handleCreateSRRFromMigration:
  assumes "sync s"
  shows "ensures sync (handleCreateSRRFromMigration h ev tok rr d t tx s)"
  unfolding handleCreateSRRFromMigration_def Let_def
  by (auto simp: new_srr_def split: option.splits
      intro: sync_create_fresh [OF assms] sync_create_loaded [OF assms])

lemma sync_handleMigrateSRR: "sync s \<Longrightarrow> ensures sync (handleMigrateSRR h ev tok c s)"
  by (auto simp: handleMigrateSRR_def split: option.split intro: sync_update_srr)

lemma sync_handleProvenanceDateMigrationFix:
  "sync s \<Longrightarrow> ensures sync (handleProvenanceDateMigrationFix h ev tok t s)"
  by (simp add: handleProvenanceDateMigrationFix_def Let_def split: option.split)

lemma sync_creates:
  assumes "sync s"
  shows "ensures sync (handleCreateSRR h ev tok rr d s)"
    "ensures sync (handleCreateSRRWithLockExternalTransfer h ev tok rr d l s)"
    "ensures sync (handleCreateSRRWithCID h ev tok rr c l s)"
  using sync_create_loaded [OF assms]
  by (auto simp: handleCreateSRR_def handleCreateSRRWithLockExternalTransfer_def
      handleCreateSRRWithCID_def Let_def)

lemma sync_collection_handleCreateSRR:
  assumes "sync s"
  shows "ensures sync (collection_handleCreateSRR h ev tok rr c l s)"
proof (cases "srrs s (srrEntityId h (ev_address ev) tok)")
  case None
  then show ?thesis using assms by (simp add: collection_handleCreateSRR_def Let_def)
next
  case (Some srr)
  then show ?thesis
    using sync_agrees [OF assms Some] sync_srr_id [OF assms Some]
    by (simp add: collection_handleCreateSRR_def Let_def)
      (rule sync_saveCreateSRRInternal [OF assms], simp add: commit_agrees_def split: option.splits)
qed

text \<open>Handlers that write neither tokens nor commitments.\<close>

lemma sync_others:
  assumes "sync s"
  shows "ensures sync (handleCustomHistoryType ev i n s)"
    "ensures sync (handleCollectionCreatedInternal t a n sy salt ow s)"
    "ensures sync (handleOwnershipTransferred ev a b s)"
    "ensures sync (bulkIssue_handleBatchPrepared ev root a s)"
    "ensures sync (bulkIssue_handleCreateSRRWithProof ev root tok hash s)"
    "ensures sync (bulkTransfer_handleBatchPrepared ev root a s)"
    "ensures sync (bulkTransfer_handleApproveSRRByCommitmentWithProof ev root tok hash s)"
    "ensures sync (updateBulkInternal root c tok hash ev s)"
    "ensures sync (bulk_handleBatchPrepared ev root a s)"
  using assms
  by (simp_all add: handleCustomHistoryType_def handleCollectionCreatedInternal_def
      handleOwnershipTransferred_def bulkIssue_handleBatchPrepared_def
      bulkIssue_handleCreateSRRWithProof_def bulkTransfer_handleBatchPrepared_def
      bulkTransfer_handleApproveSRRByCommitmentWithProof_def updateBulkInternal_def
      bulk_handleBatchPrepared_def Let_def split: option.split)

lemma sync_handleMigrateBatch: "sync s \<Longrightarrow> ensures sync (handleMigrateBatch root ls a t u s)"
  unfolding handleMigrateBatch_def Let_def ensures_simps
  by (intro allI impI foldr_res_ensures) (simp_all add: migratedLeaf_def)

lemma sync_luw_mtf:
  assumes "sync s"
  shows "ensures sync (handleCreateLicensedUserWallet ev w os th en on ty salt s)"
    "ensures sync (handleAddedOwner ev w ow s)"
    "ensures sync (handleRemovedOwner ev w ow s)"
    "ensures sync (handleChangedThreshold ev w th s)"
    "ensures sync (handleUpgradeLicensedUserWalletToMulti ev w os th s)"
    "ensures sync (handleUpdateLicensedUserDetail ev w key v s)"
    "ensures sync (handleMigrateLicensedUser w c t s)"
    "ensures sync (handleRequestTypeRegistered ev hash str s)"
    "ensures sync (handleRequestTypeUnregistered hash s)"
    "ensures sync (handleExecutionSuccess ev hash s)"
  using assms
  by (simp_all add: handleCreateLicensedUserWallet_def handleAddedOwner_def
      handleRemovedOwner_def handleChangedThreshold_def
      handleUpgradeLicensedUserWalletToMulti_def handleUpdateLicensedUserDetail_def
      handleMigrateLicensedUser_def handleRequestTypeRegistered_def
      handleRequestTypeUnregistered_def handleExecutionSuccess_def Let_def split: option.split)

lemmas sync_shared =
  sync_handleSRRProvenanceInternal sync_handleSRRCommitmentInternal
  sync_handleSRRCommitmentCancelledInternal sync_handleCreateCustomHistoryInternal
  sync_handleUpdateCustomHistoryInternal sync_handleUpdateSRRInternal
  sync_handleUpdateSRRMetadataHashInternal sync_handleTransfer sync_handleLockExternalTransfer
  sync_handleRoyaltiesSet sync_handleSRRHistory sync_handleTransferFromMigration
  sync_handleCreateSRRFromMigration sync_handleMigrateSRR sync_handleProvenanceDateMigrationFix
  sync_creates sync_collection_handleCreateSRR sync_others sync_handleMigrateBatch sync_luw_mtf

section \<open>Well-formedness with respect to the schema\<close>

lemma wf_create_stamped:
  assumes "wf_store s" and "stamped (srr_createdAt srr) (srr_createdAtStr srr)"
  shows "ensures wf_store (saveCreateSRRInternal h srr p a i d l t ev s)"
  by (rule wf_saveCreateSRRInternal [OF assms(1) refl assms(2)])

lemma wf_created: "wf_store s \<Longrightarrow> srrs s k = Some srr \<Longrightarrow> stamped (srr_createdAt srr) (srr_createdAtStr srr)"
  by (auto dest!: wf_srrs simp: wf_srr_def)

lemma wf_create_loaded:
  assumes "wf_store s" and "srrs s k = Some srr"
  shows "ensures wf_store (saveCreateSRRInternal h srr p a i d l t ev s)"
  by (rule wf_create_stamped [OF assms(1) wf_created [OF assms]])

lemma wf_clear_commit:
  assumes "wf_store s" and "checkAndClearCommitOnTransfer srr t s = Inr (srr', s1)"
  shows "wf_store s1 \<and> srr_createdAt srr' = srr_createdAt srr \<and> srr_createdAtStr srr' = srr_createdAtStr srr"
  using assms wf_transferCommits [OF assms(1)]
  by (auto simp: checkAndClearCommitOnTransfer_def toUTCString_eq_Inr wf_tc_def
      split: option.splits intro!: wf_save_tc)

lemma wf_handleTransferFromMigration:
  assumes "wf_store s"
  shows "ensures wf_store (handleTransferFromMigration h ev from to tok t tx s)"
proof -
  have save: "wf_store (save_srr (e\<lparr>srr_ownerAddress := o', srr_updatedAt := Some u,
      srr_updatedAtStr := Some (utc_string u)\<rparr>) s1)"
    if "wf_store s1" "stamped (srr_createdAt e) (srr_createdAtStr e)" "valid_time u" for e o' u s1
    using that by (intro wf_save_srr [OF that(1)]) (simp add: wf_srr_def)
  have created: "stamped (srr_createdAt e) (srr_createdAtStr e)"
    if "srrs s k = Some e" for e k using wf_created [OF assms that] .
  show ?thesis
    unfolding handleTransferFromMigration_def Let_def
    by (auto simp: new_srr_def toUTCString_eq_Inr split: option.splits
        intro!: save dest!: wf_clear_commit [OF assms] intro: assms created)
qed

lemma wf_handleCreateSRRFromMigration:
  assumes "wf_store s"
  shows "ensures wf_store (handleCreateSRRFromMigration h ev tok rr d t tx s)"
  unfolding handleCreateSRRFromMigration_def Let_def
  by (auto simp: new_srr_def toUTCString_eq_Inr split: option.splits
      intro!: wf_create_stamped [OF assms] intro: wf_created [OF assms])

lemma wf_handleMigrateSRR:
  assumes "wf_store s"
  shows "ensures wf_store (handleMigrateSRR h ev tok c s)"
  using assms wf_srrs [OF assms]
  by (auto simp: handleMigrateSRR_def wf_srr_def split: option.split intro!: wf_save_srr)

lemma wf_handleProvenanceDateMigrationFix:
  assumes "wf_store s"
  shows "ensures wf_store (handleProvenanceDateMigrationFix h ev tok t s)"
  using assms wf_provenances [OF assms]
  by (auto simp: handleProvenanceDateMigrationFix_def Let_def toUTCString_eq_Inr wf_pv_def
      split: option.split intro!: wf_save_pv)

lemma wf_creates:
  assumes "wf_store s"
  shows "ensures wf_store (handleCreateSRR h ev tok rr d s)"
    "ensures wf_store (handleCreateSRRWithLockExternalTransfer h ev tok rr d l s)"
    "ensures wf_store (handleCreateSRRWithCID h ev tok rr c l s)"
  using wf_create_loaded [OF assms]
  by (auto simp: handleCreateSRR_def handleCreateSRRWithLockExternalTransfer_def
      handleCreateSRRWithCID_def Let_def)

lemma wf_collection_handleCreateSRR:
  assumes "wf_store s"
  shows "ensures wf_store (collection_handleCreateSRR h ev tok rr c l s)"
  using wf_created [OF assms]
  by (auto simp: collection_handleCreateSRR_def Let_def split: option.split
      intro!: wf_create_stamped assms)

lemma wf_handleCustomHistoryType: "wf_store s \<Longrightarrow> ensures wf_store (handleCustomHistoryType ev i n s)"
  by (auto simp: handleCustomHistoryType_def toUTCString_eq_Inr new_cht_def wf_cht_def
      intro!: wf_save_cht)

lemma wf_templates [simp]: "wf_store (s\<lparr>collectionTemplates := x\<rparr>) = wf_store s"
  by (simp add: wf_store_def)

lemma wf_handleCollectionCreatedInternal:
  "wf_store s \<Longrightarrow> ensures wf_store (handleCollectionCreatedInternal t a n sy salt ow s)"
  by (auto simp: handleCollectionCreatedInternal_def Let_def toUTCString_eq_Inr new_col_def
      wf_col_def intro!: wf_save_col)

lemma wf_handleOwnershipTransferred:
  assumes "wf_store s"
  shows "ensures wf_store (handleOwnershipTransferred ev a b s)"
  using assms wf_collections [OF assms]
  by (auto simp: handleOwnershipTransferred_def toUTCString_eq_Inr wf_col_def
      split: option.split intro!: wf_save_col)

lemma wf_upsert_bis [intro]:
  "wf_store s \<Longrightarrow> wf_bis (bis_id e) e \<Longrightarrow> wf_store (upsert_bis e s)"
  by (auto simp: upsert_bis_def wf_bis_def split: option.split intro!: wf_save_bis)

lemma wf_upsert_bks [intro]:
  "wf_store s \<Longrightarrow> wf_bks (bks_id e) e \<Longrightarrow> wf_store (upsert_bks e s)"
  by (auto simp: upsert_bks_def wf_bks_def split: option.split intro!: wf_save_bks)

lemma wf_bulkIssue:
  assumes "wf_store s"
  shows "ensures wf_store (bulkIssue_handleBatchPrepared ev root a s)"
    "ensures wf_store (bulkIssue_handleCreateSRRWithProof ev root tok hash s)"
  using assms wf_bulkIssues [OF assms]
  by (auto simp: bulkIssue_handleBatchPrepared_def bulkIssue_handleCreateSRRWithProof_def Let_def
      toUTCString_eq_Inr new_bi_def wf_bi_def new_bis_def wf_bis_def
      split: option.split intro!: wf_save_bi wf_upsert_bis)

lemma wf_handleMigrateBatch:
  "wf_store s \<Longrightarrow> ensures wf_store (handleMigrateBatch root ls a t u s)"
  unfolding handleMigrateBatch_def Let_def ensures_simps
  by (intro allI impI foldr_res_ensures)
    (auto simp: migratedLeaf_def toUTCString_eq_Inr new_bis_def wf_bis_def new_bi_def wf_bi_def
      intro!: wf_upsert_bis wf_save_bi)

lemma wf_bulkTransfer:
  assumes "wf_store s"
  shows "ensures wf_store (bulkTransfer_handleBatchPrepared ev root a s)"
    "ensures wf_store (bulkTransfer_handleApproveSRRByCommitmentWithProof ev root tok hash s)"
  using assms wf_bulkTransfers [OF assms]
  by (auto simp: bulkTransfer_handleBatchPrepared_def
      bulkTransfer_handleApproveSRRByCommitmentWithProof_def toUTCString_eq_Inr new_bt_def wf_bt_def
      split: option.split intro!: wf_save_bt)

lemma wf_bulk_handleBatchPrepared:
  "wf_store s \<Longrightarrow> ensures wf_store (bulk_handleBatchPrepared ev root a s)"
  by (auto simp: bulk_handleBatchPrepared_def toUTCString_eq_Inr new_bk_def wf_bk_def
      split: option.split intro!: wf_save_bk)

lemma wf_updateBulkInternal:
  assumes "wf_store s"
  shows "ensures wf_store (updateBulkInternal root c tok hash ev s)"
  using assms wf_bulks [OF assms]
  by (auto simp: updateBulkInternal_def Let_def toUTCString_eq_Inr wf_bk_def new_bks_def wf_bks_def
      split: option.split intro!: wf_save_bk wf_upsert_bks)

lemma wf_luw_handlers:
  assumes "wf_store s"
  shows "ensures wf_store (handleCreateLicensedUserWallet ev w os th en on ty salt s)"
    "ensures wf_store (handleAddedOwner ev w ow s)"
    "ensures wf_store (handleRemovedOwner ev w ow s)"
    "ensures wf_store (handleChangedThreshold ev w th s)"
    "ensures wf_store (handleUpgradeLicensedUserWalletToMulti ev w os th s)"
    "ensures wf_store (handleUpdateLicensedUserDetail ev w key v s)"
    "ensures wf_store (handleMigrateLicensedUser w c t s)"
  using assms wf_luws [OF assms]
  by (auto simp: handleCreateLicensedUserWallet_def handleAddedOwner_def
      handleRemovedOwner_def handleChangedThreshold_def
      handleUpgradeLicensedUserWalletToMulti_def handleUpdateLicensedUserDetail_def
      handleMigrateLicensedUser_def Let_def toUTCString_eq_Inr new_luw_def wf_luw_def
      split: option.split intro!: wf_save_luw)

lemma wf_mtf:
  assumes "wf_store s"
  shows "ensures wf_store (handleRequestTypeRegistered ev hash str s)"
    "ensures wf_store (handleRequestTypeUnregistered hash s)"
    "ensures wf_store (handleExecutionSuccess ev hash s)"
  using assms
  by (auto simp: handleRequestTypeRegistered_def handleRequestTypeUnregistered_def
      handleExecutionSuccess_def toUTCString_eq_Inr new_rt_def wf_rt_def new_ex_def wf_ex_def
      split: option.split intro!: wf_save_rt wf_save_ex wf_remove_rt)

lemmas wf_shared =
  wf_handleSRRProvenanceInternal wf_handleSRRCommitmentInternal
  wf_handleSRRCommitmentCancelledInternal wf_handleCreateCustomHistoryInternal
  wf_handleUpdateCustomHistoryInternal wf_handleUpdateSRRInternal
  wf_handleUpdateSRRMetadataHashInternal wf_handleLockExternalTransfer
  wf_handleRoyaltiesSet wf_handleSRRHistory wf_handleTransferFromMigration
  wf_handleCreateSRRFromMigration wf_handleMigrateSRR wf_handleProvenanceDateMigrationFix
  wf_creates wf_collection_handleCreateSRR wf_handleCustomHistoryType
  wf_handleCollectionCreatedInternal wf_handleOwnershipTransferred wf_bulkIssue
  wf_handleMigrateBatch wf_bulkTransfer wf_bulk_handleBatchPrepared wf_updateBulkInternal
  wf_luw_handlers wf_mtf

section \<open>Referential integrity\<close>

lemma refs_templates [simp]: "refs (s\<lparr>collectionTemplates := x\<rparr>) = refs s"
  by (simp add: refs_def)

lemma refs_upsert_bis [intro]:
  "refs s \<Longrightarrow> refers (bulkIssues s) (bis_bulkIssue e) \<Longrightarrow> refs (upsert_bis e s)"
  by (auto simp: upsert_bis_def split: option.split intro!: refs_save_bis)

lemma refs_upsert_bks [intro]:
  "refs s \<Longrightarrow> refers (bulks s) (bks_bulk e) \<Longrightarrow> refs (upsert_bks e s)"
  by (auto simp: upsert_bks_def split: option.split intro!: refs_save_bks)

lemma refs_handleTransferFromMigration:
  "refs s \<Longrightarrow> ensures refs (handleTransferFromMigration h ev from to tok t tx s)"
  unfolding handleTransferFromMigration_def Let_def
  by (auto split: option.splits dest: refs_checkAndClear)

lemma refs_handleCreateSRRFromMigration:
  "refs s \<Longrightarrow> ensures refs (handleCreateSRRFromMigration h ev tok rr d t tx s)"
  unfolding handleCreateSRRFromMigration_def Let_def ensures_simps
  by (intro allI impI refs_saveCreateSRRInternal)

lemma refs_handleMigrateSRR: "refs s \<Longrightarrow> ensures refs (handleMigrateSRR h ev tok c s)"
  by (auto simp: handleMigrateSRR_def split: option.split)

lemma refs_handleProvenanceDateMigrationFix:
  assumes "refs s"
  shows "ensures refs (handleProvenanceDateMigrationFix h ev tok t s)"
proof -
  have "refers (srrs s) (pv_srr e)" if "provenances s k = Some e" for k e
    using assms that by (fastforce simp: refs_def dest: table_allD)
  then show ?thesis
    using assms by (auto simp: handleProvenanceDateMigrationFix_def Let_def split: option.split
        intro!: refs_save_pv)
qed

lemma refs_creates:
  assumes "refs s"
  shows "ensures refs (handleCreateSRR h ev tok rr d s)"
    "ensures refs (handleCreateSRRWithLockExternalTransfer h ev tok rr d l s)"
    "ensures refs (handleCreateSRRWithCID h ev tok rr c l s)"
    "ensures refs (collection_handleCreateSRR h ev tok rr c l s)"
  using refs_saveCreateSRRInternal [OF assms] assms
  by (auto simp: handleCreateSRR_def handleCreateSRRWithLockExternalTransfer_def
      handleCreateSRRWithCID_def collection_handleCreateSRR_def Let_def split: option.split)

lemma refs_others:
  assumes "refs s"
  shows "ensures refs (handleCustomHistoryType ev i n s)"
    "ensures refs (handleCollectionCreatedInternal t a n sy salt ow s)"
    "ensures refs (handleOwnershipTransferred ev a b s)"
    "ensures refs (bulkIssue_handleBatchPrepared ev root a s)"
    "ensures refs (bulkTransfer_handleBatchPrepared ev root a s)"
    "ensures refs (bulkTransfer_handleApproveSRRByCommitmentWithProof ev root tok hash s)"
    "ensures refs (bulk_handleBatchPrepared ev root a s)"
  using assms
  by (auto simp: handleCustomHistoryType_def handleCollectionCreatedInternal_def
      handleOwnershipTransferred_def bulkIssue_handleBatchPrepared_def
      bulkTransfer_handleBatchPrepared_def
      bulkTransfer_handleApproveSRRByCommitmentWithProof_def bulk_handleBatchPrepared_def
      Let_def split: option.split)

text \<open>A leaf refers to the batch under its root, which the handler has just loaded or saved.\<close>

lemma refs_bulkIssue_handleCreateSRRWithProof:
  "refs s \<Longrightarrow> ensures refs (bulkIssue_handleCreateSRRWithProof ev root tok hash s)"
  by (auto simp: bulkIssue_handleCreateSRRWithProof_def Let_def is_set_def split: option.split
      intro!: refs_save_bi refs_upsert_bis)

lemma refs_updateBulkInternal: "refs s \<Longrightarrow> ensures refs (updateBulkInternal root c tok hash ev s)"
  by (auto simp: updateBulkInternal_def Let_def is_set_def split: option.split
      intro!: refs_save_bk refs_upsert_bks)

lemma bulkIssues_upsert_bis [simp]: "bulkIssues (upsert_bis e s) = bulkIssues s"
  by (simp add: upsert_bis_def)

lemma refs_handleMigrateBatch:
  assumes "refs s"
  shows "ensures refs (handleMigrateBatch root ls a t u s)"
proof -
  let ?P = "\<lambda>s'. refs s' \<and> is_set (bulkIssues s' (toHex root))"
  have "ensures ?P (foldr_res (migratedLeaf (toHex root) (secondsToMillis u)) ls s1)" if "?P s1" for s1
    using that by (intro foldr_res_ensures) (auto simp: migratedLeaf_def intro!: refs_upsert_bis)
  then have loop: "ensures refs (foldr_res (migratedLeaf (toHex root) (secondsToMillis u)) ls s1)"
    if "refs s1" "is_set (bulkIssues s1 (toHex root))" for s1
    using that by (blast intro: ensures_weaken)
  show ?thesis
    unfolding handleMigrateBatch_def Let_def ensures_simps
    by (intro allI impI loop refs_save_bi assms) (simp add: new_bi_def)
qed

lemma refs_luw_mtf:
  assumes "refs s"
  shows "ensures refs (handleCreateLicensedUserWallet ev w os th en on ty salt s)"
    "ensures refs (handleAddedOwner ev w ow s)"
    "ensures refs (handleRemovedOwner ev w ow s)"
    "ensures refs (handleChangedThreshold ev w th s)"
    "ensures refs (handleUpgradeLicensedUserWalletToMulti ev w os th s)"
    "ensures refs (handleUpdateLicensedUserDetail ev w key v s)"
    "ensures refs (handleMigrateLicensedUser w c t s)"
    "ensures refs (handleRequestTypeRegistered ev hash str s)"
    "ensures refs (handleRequestTypeUnregistered hash s)"
    "ensures refs (handleExecutionSuccess ev hash s)"
  using assms
  by (simp_all add: handleCreateLicensedUserWallet_def handleAddedOwner_def
      handleRemovedOwner_def handleChangedThreshold_def
      handleUpgradeLicensedUserWalletToMulti_def handleUpdateLicensedUserDetail_def
      handleMigrateLicensedUser_def handleRequestTypeRegistered_def
      handleRequestTypeUnregistered_def handleExecutionSuccess_def Let_def split: option.split)

lemmas refs_shared =
  refs_handleSRRProvenanceInternal refs_handleSRRCommitmentInternal
  refs_handleSRRCommitmentCancelledInternal refs_handleCreateCustomHistoryInternal
  refs_handleUpdateCustomHistoryInternal refs_handleUpdateSRRInternal
  refs_handleUpdateSRRMetadataHashInternal refs_handleTransfer refs_handleLockExternalTransfer
  refs_handleRoyaltiesSet refs_handleSRRHistory refs_handleTransferFromMigration
  refs_handleCreateSRRFromMigration refs_handleMigrateSRR refs_handleProvenanceDateMigrationFix
  refs_creates refs_others refs_bulkIssue_handleCreateSRRWithProof refs_updateBulkInternal
  refs_handleMigrateBatch refs_luw_mtf

end
