(* ===== verification/Events.thy ===== *)
theory Events
  imports SrrMapping CollectionMapping BulkMapping LuwMapping
begin

text \<open>
  The subgraph as a machine: \<open>subgraph/subgraph.template.yaml\<close> names the events of every data
  source and the handler of each. A trigger is an event with its parameters, one datatype per
  data source; \<open>dispatch\<close> runs the handler the manifest names, and a run handles the triggers
  of a chain in order and stops at the first abort, as the host does.
\<close>

section \<open>Events\<close>

datatype luw_event =
    CreateLicensedUserWallet address "address list" int string string int bytes
  | UpgradeLicensedUserWalletToMulti address "address list" int
  | UpdateLicensedUserDetail address string string
  | AddedOwner address address
  | RemovedOwner address address
  | ChangedThreshold address int
  | MigrateLicensedUserWallet address string int

datatype mtf_event =
    RequestTypeRegistered bytes string
  | RequestTypeUnregistered bytes
  | ExecutionSuccess bytes

datatype registry_event =
    R_Transfer address address int
  | R_CreateSRR int registry_record bytes
  | R_CreateSRRWithLock int registry_record bytes bool
  | R_CreateSRRWithCID int registry_record string bool
  | R_UpdateSRR int registry_record
  | R_UpdateSRRWithSender int bool address address
  | R_Provenance int address address string string
  | R_ProvenanceWithCustomHistory int address address int string string
  | R_ProvenanceWithIntermediary int address address string string bool
  | R_ProvenanceWithCustomHistoryAndIntermediary int address address int string string bool
  | R_SRRCommitment int address bytes
  | R_SRRCommitmentWithCustomHistory int address bytes int
  | R_SRRCommitmentCancelled int
  | R_UpdateSRRMetadataCID int string
  | R_UpdateSRRMetadataDigest int bytes
  | R_UpdateSRRMetadataDigestString int string
  | R_CreateCustomHistoryType int string
  | R_CreateCustomHistory int string int bytes
  | R_CreateCustomHistoryWithCID int string int string
  | R_UpdateCustomHistory int string bytes
  | R_UpdateCustomHistoryWithCID int string string
  | R_History "int list" "int list"
  | R_LockExternalTransfer int bool
  | R_RoyaltiesSet int address int
  | R_MigrateSRR int string
  | R_TransferFromMigration address address int int bytes
  | R_CreateSRRFromMigration int registry_record bytes int bytes
  | R_UpdateSRRFromMigration int registry_record int bytes
  | R_ProvenanceFromMigration int address address int string string int bytes
  | R_ProvenanceWithCustomHistoryFromMigration int address address int int string string int bytes
  | R_SRRCommitmentFromMigration address bytes int int bytes
  | R_SRRCommitmentWithCustomHistoryFromMigration address bytes int int int bytes
  | R_SRRCommitmentCancelledFromMigration int int bytes
  | R_UpdateSRRMetadataDigestFromMigration int bytes int bytes
  | R_CreateCustomHistoryFromMigration int string int bytes string int bytes
  | R_ProvenanceDateMigrationFix int int

datatype bulk_issue_event =
    BI_BatchPrepared bytes address
  | BI_CreateSRRWithProof bytes int bytes
  | BI_MigrateBatch bytes "bytes list" address int int

datatype bulk_transfer_event =
    BT_BatchPrepared bytes address
  | BT_ApproveSRRByCommitmentWithProof bytes int bytes

datatype bulk_event =
    BK_BatchPrepared bytes address
  | BK_CreateSRRWithProof bytes address int bytes
  | BK_CreateSRRWithProofLegacy bytes int bytes
  | BK_ApproveSRRByCommitmentWithProof bytes address int bytes
  | BK_ApproveSRRByCommitmentWithProofLegacy bytes int bytes
  | BK_TransferFromWithProvenanceWithProof bytes address int bytes
  | BK_TransferFromWithProvenanceWithProofLegacy bytes int bytes

datatype collection_event =
    C_Transfer address address int
  | C_CreateSRR int registry_record string bool
  | C_UpdateSRRWithSender int bool address address
  | C_UpdateSRRMetadataDigest int string
  | C_SRRCommitmentLegacy int bytes
  | C_SRRCommitmentWithCustomHistoryLegacy int bytes int
  | C_SRRCommitmentCancelledLegacy int
  | C_SRRCommitment int bytes address
  | C_SRRCommitmentWithCustomHistory int bytes int address
  | C_SRRCommitmentCancelled int address
  | C_ProvenanceWithIntermediary int address address string string bool
  | C_ProvenanceWithCustomHistoryAndIntermediary int address address int string string bool
  | C_ProvenanceWithIntermediaryWithSender int address address string string bool address
  | C_ProvenanceWithCustomHistoryAndIntermediaryWithSender
      int address address int string string bool address
  | C_LockExternalTransferSetLock int bool
  | C_RoyaltiesSet int address int
  | C_OwnershipTransferred address address
  | C_History "int list" "int list"

datatype factory_event = CollectionCreated address address string string bytes

datatype trigger =
    LicensedUserManager luw_event
  | MetaTxForwarder mtf_event
  | StartrailRegistry registry_event
  | BulkIssue bulk_issue_event
  | BulkTransfer bulk_transfer_event
  | Bulk bulk_event
  | CollectionFactory factory_event
  | Collection collection_event

section \<open>Dispatch\<close>

fun luw_dispatch :: "host \<Rightarrow> eth_event \<Rightarrow> luw_event \<Rightarrow> handler" where
  "luw_dispatch h ev (CreateLicensedUserWallet w os th en on ty salt) =
     handleCreateLicensedUserWallet ev w os th en on ty salt"
| "luw_dispatch h ev (UpgradeLicensedUserWalletToMulti w os th) =
     handleUpgradeLicensedUserWalletToMulti ev w os th"
| "luw_dispatch h ev (UpdateLicensedUserDetail w key v) = handleUpdateLicensedUserDetail ev w key v"
| "luw_dispatch h ev (AddedOwner w a) = handleAddedOwner ev w a"
| "luw_dispatch h ev (RemovedOwner w a) = handleRemovedOwner ev w a"
| "luw_dispatch h ev (ChangedThreshold w th) = handleChangedThreshold ev w th"
| "luw_dispatch h ev (MigrateLicensedUserWallet w c t) = handleMigrateLicensedUser w c t"

fun mtf_dispatch :: "host \<Rightarrow> eth_event \<Rightarrow> mtf_event \<Rightarrow> handler" where
  "mtf_dispatch h ev (RequestTypeRegistered hash str) = handleRequestTypeRegistered ev hash str"
| "mtf_dispatch h ev (RequestTypeUnregistered hash) = handleRequestTypeUnregistered hash"
| "mtf_dispatch h ev (ExecutionSuccess hash) = handleExecutionSuccess ev hash"

fun registry_dispatch :: "host \<Rightarrow> eth_event \<Rightarrow> registry_event \<Rightarrow> handler" where
  "registry_dispatch h ev (R_Transfer a b tok) = handleTransfer h ev a b tok"
| "registry_dispatch h ev (R_CreateSRR tok rr d) = handleCreateSRR h ev tok rr d"
| "registry_dispatch h ev (R_CreateSRRWithLock tok rr d l) =
     handleCreateSRRWithLockExternalTransfer h ev tok rr d l"
| "registry_dispatch h ev (R_CreateSRRWithCID tok rr cid l) = handleCreateSRRWithCID h ev tok rr cid l"
| "registry_dispatch h ev (R_UpdateSRR tok rr) = handleUpdateSRR h ev tok rr"
| "registry_dispatch h ev (R_UpdateSRRWithSender tok p a sender) =
     handleUpdateSRRWithSender h ev tok p a sender"
| "registry_dispatch h ev (R_Provenance tok a b mh uri) = handleSRRProvenance h ev tok a b mh uri"
| "registry_dispatch h ev (R_ProvenanceWithCustomHistory tok a b ch mh uri) =
     handleSRRProvenanceWithCustomHistory h ev tok a b ch mh uri"
| "registry_dispatch h ev (R_ProvenanceWithIntermediary tok a b mh uri i) =
     handleSRRProvenanceWithIntermediary h ev tok a b mh uri i"
| "registry_dispatch h ev (R_ProvenanceWithCustomHistoryAndIntermediary tok a b ch mh uri i) =
     handleSRRProvenanceWithCustomHistoryAndIntermediary h ev tok a b ch mh uri i"
| "registry_dispatch h ev (R_SRRCommitment tok owner c) = handleSRRCommitment h ev tok c"
| "registry_dispatch h ev (R_SRRCommitmentWithCustomHistory tok owner c ch) =
     handleSRRCommitmentWithCustomHistory h ev tok c ch"
| "registry_dispatch h ev (R_SRRCommitmentCancelled tok) = handleSRRCommitmentCancelled h ev tok"
| "registry_dispatch h ev (R_UpdateSRRMetadataCID tok cid) = handleUpdateSRRMetadataWithCid h ev tok cid"
| "registry_dispatch h ev (R_UpdateSRRMetadataDigest tok d) =
     handleUpdateSRRMetadataWithDigestLegacy h ev tok d"
| "registry_dispatch h ev (R_UpdateSRRMetadataDigestString tok cid) =
     handleUpdateSRRMetadataWithCidLegacy h ev tok cid"
| "registry_dispatch h ev (R_CreateCustomHistoryType i n) = handleCustomHistoryType ev i n"
| "registry_dispatch h ev (R_CreateCustomHistory i n ty d) = handleCreateCustomHistory h ev i n ty d"
| "registry_dispatch h ev (R_CreateCustomHistoryWithCID i n ty cid) =
     handleCreateCustomHistoryWithCid h ev i n ty cid"
| "registry_dispatch h ev (R_UpdateCustomHistory i n d) = handleUpdateCustomHistory h ev i n d"
| "registry_dispatch h ev (R_UpdateCustomHistoryWithCID i n cid) =
     handleUpdateCustomHistoryWithCID h ev i n cid"
| "registry_dispatch h ev (R_History toks chs) = handleSRRHistory h ev toks chs"
| "registry_dispatch h ev (R_LockExternalTransfer tok f) = handleLockExternalTransfer h ev tok f"
| "registry_dispatch h ev (R_RoyaltiesSet tok r b) = handleRoyaltiesSet h ev tok r b"
| "registry_dispatch h ev (R_MigrateSRR tok c) = handleMigrateSRR h ev tok c"
| "registry_dispatch h ev (R_TransferFromMigration a b tok t tx) =
     handleTransferFromMigration h ev a b tok t tx"
| "registry_dispatch h ev (R_CreateSRRFromMigration tok rr d t tx) =
     handleCreateSRRFromMigration h ev tok rr d t tx"
| "registry_dispatch h ev (R_UpdateSRRFromMigration tok rr t tx) =
     handleUpdateSRRFromMigration h ev tok rr t"
| "registry_dispatch h ev (R_ProvenanceFromMigration tok a b t' mh uri t tx) =
     handleSRRProvenanceFromMigration h ev tok a b mh uri t"
| "registry_dispatch h ev (R_ProvenanceWithCustomHistoryFromMigration tok a b t' ch mh uri t tx) =
     handleSRRProvenanceWithCustomHistoryFromMigration h ev tok a b ch mh uri t"
| "registry_dispatch h ev (R_SRRCommitmentFromMigration owner c tok t tx) =
     handleSRRCommitmentFromMigration h ev c tok t"
| "registry_dispatch h ev (R_SRRCommitmentWithCustomHistoryFromMigration owner c tok ch t tx) =
     handleSRRCommitmentWithCustomHistoryFromMigration h ev c tok ch t"
| "registry_dispatch h ev (R_SRRCommitmentCancelledFromMigration tok t tx) =
     handleSRRCommitmentCancelledFromMigration h ev tok t"
| "registry_dispatch h ev (R_UpdateSRRMetadataDigestFromMigration tok d t tx) =
     handleUpdateSRRMetadataDigestFromMigration h ev tok d t"
| "registry_dispatch h ev (R_CreateCustomHistoryFromMigration i n ty d c t tx) =
     handleCreateCustomHistoryFromMigration i n ty d c t tx"
| "registry_dispatch h ev (R_ProvenanceDateMigrationFix tok t) =
     handleProvenanceDateMigrationFix h ev tok t"

fun bulk_issue_dispatch :: "host \<Rightarrow> eth_event \<Rightarrow> bulk_issue_event \<Rightarrow> handler" where
  "bulk_issue_dispatch h ev (BI_BatchPrepared root a) = bulkIssue_handleBatchPrepared ev root a"
| "bulk_issue_dispatch h ev (BI_CreateSRRWithProof root tok hash) =
     bulkIssue_handleCreateSRRWithProof ev root tok hash"
| "bulk_issue_dispatch h ev (BI_MigrateBatch root ls a t u) = handleMigrateBatch root ls a t u"

fun bulk_transfer_dispatch :: "host \<Rightarrow> eth_event \<Rightarrow> bulk_transfer_event \<Rightarrow> handler" where
  "bulk_transfer_dispatch h ev (BT_BatchPrepared root a) = bulkTransfer_handleBatchPrepared ev root a"
| "bulk_transfer_dispatch h ev (BT_ApproveSRRByCommitmentWithProof root tok hash) =
     bulkTransfer_handleApproveSRRByCommitmentWithProof ev root tok hash"

fun bulk_dispatch :: "host \<Rightarrow> eth_event \<Rightarrow> bulk_event \<Rightarrow> handler" where
  "bulk_dispatch h ev (BK_BatchPrepared root a) = bulk_handleBatchPrepared ev root a"
| "bulk_dispatch h ev (BK_CreateSRRWithProof root c tok hash) =
     bulk_handleCreateSRRWithProof ev root c tok hash"
| "bulk_dispatch h ev (BK_CreateSRRWithProofLegacy root tok hash) =
     bulk_handleCreateSRRWithProofLegacy ev root tok hash"
| "bulk_dispatch h ev (BK_ApproveSRRByCommitmentWithProof root c tok hash) =
     bulk_handleApproveSRRByCommitmentWithProof ev root c tok hash"
| "bulk_dispatch h ev (BK_ApproveSRRByCommitmentWithProofLegacy root tok hash) =
     bulk_handleApproveSRRByCommitmentWithProofLegacy ev root tok hash"
| "bulk_dispatch h ev (BK_TransferFromWithProvenanceWithProof root c tok hash) =
     bulk_handleTransferFromWithProvenanceWithProof ev root c tok hash"
| "bulk_dispatch h ev (BK_TransferFromWithProvenanceWithProofLegacy root tok hash) =
     bulk_handleTransferFromWithProvenanceWithProofLegacy ev root tok hash"

fun factory_dispatch :: "host \<Rightarrow> eth_event \<Rightarrow> factory_event \<Rightarrow> handler" where
  "factory_dispatch h ev (CollectionCreated a owner n sy salt) =
     handleCollectionCreated ev a owner n sy salt"

fun collection_dispatch :: "host \<Rightarrow> eth_event \<Rightarrow> collection_event \<Rightarrow> handler" where
  "collection_dispatch h ev (C_Transfer a b tok) = handleTransfer h ev a b tok"
| "collection_dispatch h ev (C_CreateSRR tok rr cid l) = collection_handleCreateSRR h ev tok rr cid l"
| "collection_dispatch h ev (C_UpdateSRRWithSender tok p a sender) =
     handleUpdateSRRWithSender h ev tok p a sender"
| "collection_dispatch h ev (C_UpdateSRRMetadataDigest tok cid) =
     handleUpdateSRRMetadataWithCid h ev tok cid"
| "collection_dispatch h ev (C_SRRCommitmentLegacy tok c) = handleSRRCommitmentLegacy h ev tok c"
| "collection_dispatch h ev (C_SRRCommitmentWithCustomHistoryLegacy tok c ch) =
     handleSRRCommitmentWithCustomHistoryLegacy h ev tok c ch"
| "collection_dispatch h ev (C_SRRCommitmentCancelledLegacy tok) = handleSRRCommitmentCancelled h ev tok"
| "collection_dispatch h ev (C_SRRCommitment tok c sender) =
     collection_handleSRRCommitment h ev tok c sender"
| "collection_dispatch h ev (C_SRRCommitmentWithCustomHistory tok c ch sender) =
     collection_handleSRRCommitmentWithCustomHistory h ev tok c ch sender"
| "collection_dispatch h ev (C_SRRCommitmentCancelled tok sender) =
     collection_handleSRRCommitmentCancelled h ev tok sender"
| "collection_dispatch h ev (C_ProvenanceWithIntermediary tok a b mh uri i) =
     handleSRRProvenanceWithIntermediary h ev tok a b mh uri i"
| "collection_dispatch h ev (C_ProvenanceWithCustomHistoryAndIntermediary tok a b ch mh uri i) =
     handleSRRProvenanceWithCustomHistoryAndIntermediary h ev tok a b ch mh uri i"
| "collection_dispatch h ev (C_ProvenanceWithIntermediaryWithSender tok a b mh uri i sender) =
     handleSRRProvenanceWithIntermediaryWithSender h ev tok a b mh uri i sender"
| "collection_dispatch h ev
     (C_ProvenanceWithCustomHistoryAndIntermediaryWithSender tok a b ch mh uri i sender) =
     handleSRRProvenanceWithCustomHistoryAndIntermediaryWithSender h ev tok a b ch mh uri i sender"
| "collection_dispatch h ev (C_LockExternalTransferSetLock tok f) = handleLockExternalTransfer h ev tok f"
| "collection_dispatch h ev (C_RoyaltiesSet tok r b) = handleRoyaltiesSet h ev tok r b"
| "collection_dispatch h ev (C_OwnershipTransferred a b) = handleOwnershipTransferred ev a b"
| "collection_dispatch h ev (C_History toks chs) = handleSRRHistory h ev toks chs"

fun dispatch :: "host \<Rightarrow> eth_event \<times> trigger \<Rightarrow> handler" where
  "dispatch h (ev, LicensedUserManager e) = luw_dispatch h ev e"
| "dispatch h (ev, MetaTxForwarder e) = mtf_dispatch h ev e"
| "dispatch h (ev, StartrailRegistry e) = registry_dispatch h ev e"
| "dispatch h (ev, BulkIssue e) = bulk_issue_dispatch h ev e"
| "dispatch h (ev, BulkTransfer e) = bulk_transfer_dispatch h ev e"
| "dispatch h (ev, Bulk e) = bulk_dispatch h ev e"
| "dispatch h (ev, CollectionFactory e) = factory_dispatch h ev e"
| "dispatch h (ev, Collection e) = collection_dispatch h ev e"

definition run_subgraph :: "host \<Rightarrow> (eth_event \<times> trigger) list \<Rightarrow> handler" where
  "run_subgraph h = foldr_res (dispatch h)"

text \<open>A property of all handlers follows from the property of the handler of each event.\<close>

lemma dispatch_cases:
  assumes "\<And>ev e. t = (ev, LicensedUserManager e) \<Longrightarrow> Q (luw_dispatch h ev e s)"
    and "\<And>ev e. t = (ev, MetaTxForwarder e) \<Longrightarrow> Q (mtf_dispatch h ev e s)"
    and "\<And>ev e. t = (ev, StartrailRegistry e) \<Longrightarrow> Q (registry_dispatch h ev e s)"
    and "\<And>ev e. t = (ev, BulkIssue e) \<Longrightarrow> Q (bulk_issue_dispatch h ev e s)"
    and "\<And>ev e. t = (ev, BulkTransfer e) \<Longrightarrow> Q (bulk_transfer_dispatch h ev e s)"
    and "\<And>ev e. t = (ev, Bulk e) \<Longrightarrow> Q (bulk_dispatch h ev e s)"
    and "\<And>ev e. t = (ev, CollectionFactory e) \<Longrightarrow> Q (factory_dispatch h ev e s)"
    and "\<And>ev e. t = (ev, Collection e) \<Longrightarrow> Q (collection_dispatch h ev e s)"
  shows "Q (dispatch h t s)"
proof (cases t)
  case (Pair ev e)
  then show ?thesis using assms by (cases e) simp_all
qed

end
