(* ===== verification/Subgraph.thy ===== *)
theory Subgraph
  imports MappingInvariants Events
begin

text \<open>
  The three invariants of the store hold along every run of the subgraph: \<open>sync\<close> and \<open>refs\<close>
  unconditionally (interpretations of \<open>machine\<close>), \<open>wf_store\<close> when every transfer is a mint or
  moves a known token (an interpretation of \<open>guarded_machine\<close>).
\<close>

section \<open>The commitments agree after every run\<close>

lemma sync_dispatch:
  assumes "sync s"
  shows "ensures sync (dispatch h t s)"
proof (rule dispatch_cases)
  fix ev e show "ensures sync (luw_dispatch h ev e s)"
    using assms by (cases e) (simp_all only: luw_dispatch.simps sync_shared)
next
  fix ev e show "ensures sync (mtf_dispatch h ev e s)"
    using assms by (cases e) (simp_all only: mtf_dispatch.simps sync_shared)
next
  fix ev e show "ensures sync (registry_dispatch h ev e s)"
    using assms by (cases e) (simp_all only: registry_dispatch.simps delegates sync_shared)
next
  fix ev e show "ensures sync (bulk_issue_dispatch h ev e s)"
    using assms by (cases e) (simp_all only: bulk_issue_dispatch.simps sync_shared)
next
  fix ev e show "ensures sync (bulk_transfer_dispatch h ev e s)"
    using assms by (cases e) (simp_all only: bulk_transfer_dispatch.simps sync_shared)
next
  fix ev e show "ensures sync (bulk_dispatch h ev e s)"
    using assms by (cases e) (simp_all only: bulk_dispatch.simps delegates sync_shared)
next
  fix ev e show "ensures sync (factory_dispatch h ev e s)"
    using assms by (cases e) (simp_all only: factory_dispatch.simps delegates sync_shared)
next
  fix ev e show "ensures sync (collection_dispatch h ev e s)"
    using assms by (cases e) (simp_all only: collection_dispatch.simps delegates sync_shared)
qed

interpretation commitments: machine "dispatch h" sync for h
  by unfold_locales (rule sync_dispatch)

section \<open>References are intact after every run\<close>

lemma refs_dispatch:
  assumes "refs s"
  shows "ensures refs (dispatch h t s)"
proof (rule dispatch_cases)
  fix ev e show "ensures refs (luw_dispatch h ev e s)"
    using assms by (cases e) (simp_all only: luw_dispatch.simps refs_shared)
next
  fix ev e show "ensures refs (mtf_dispatch h ev e s)"
    using assms by (cases e) (simp_all only: mtf_dispatch.simps refs_shared)
next
  fix ev e show "ensures refs (registry_dispatch h ev e s)"
    using assms by (cases e) (simp_all only: registry_dispatch.simps delegates refs_shared)
next
  fix ev e show "ensures refs (bulk_issue_dispatch h ev e s)"
    using assms by (cases e) (simp_all only: bulk_issue_dispatch.simps refs_shared)
next
  fix ev e show "ensures refs (bulk_transfer_dispatch h ev e s)"
    using assms by (cases e) (simp_all only: bulk_transfer_dispatch.simps refs_shared)
next
  fix ev e show "ensures refs (bulk_dispatch h ev e s)"
    using assms by (cases e) (simp_all only: bulk_dispatch.simps delegates refs_shared)
next
  fix ev e show "ensures refs (factory_dispatch h ev e s)"
    using assms by (cases e) (simp_all only: factory_dispatch.simps delegates refs_shared)
next
  fix ev e show "ensures refs (collection_dispatch h ev e s)"
    using assms by (cases e) (simp_all only: collection_dispatch.simps delegates refs_shared)
qed

interpretation references: machine "dispatch h" refs for h
  by unfold_locales (rule refs_dispatch)

section \<open>The store stays well-formed\<close>

text \<open>A trigger transfers a token that the store knows, or mints it, or is no transfer.\<close>

definition transfers_known :: "host \<Rightarrow> eth_event \<times> trigger \<Rightarrow> store \<Rightarrow> bool" where
  "transfers_known h t s =
     (case t of
        (ev, StartrailRegistry (R_Transfer a b tok)) \<Rightarrow> transfer_known h ev a tok s
      | (ev, Collection (C_Transfer a b tok)) \<Rightarrow> transfer_known h ev a tok s
      | _ \<Rightarrow> True)"

lemma wf_dispatch:
  assumes "wf_store s" and "transfers_known h t s"
  shows "ensures wf_store (dispatch h t s)"
proof (rule dispatch_cases)
  fix ev e show "ensures wf_store (luw_dispatch h ev e s)"
    using assms(1) by (cases e) (simp_all only: luw_dispatch.simps wf_shared)
next
  fix ev e show "ensures wf_store (mtf_dispatch h ev e s)"
    using assms(1) by (cases e) (simp_all only: mtf_dispatch.simps wf_shared)
next
  fix ev e assume "t = (ev, StartrailRegistry e)"
  with assms(2) show "ensures wf_store (registry_dispatch h ev e s)"
    using assms(1) by (cases e) (simp_all only: registry_dispatch.simps delegates wf_shared
      transfers_known_def prod.case trigger.case registry_event.case wf_handleTransfer)
next
  fix ev e show "ensures wf_store (bulk_issue_dispatch h ev e s)"
    using assms(1) by (cases e) (simp_all only: bulk_issue_dispatch.simps wf_shared)
next
  fix ev e show "ensures wf_store (bulk_transfer_dispatch h ev e s)"
    using assms(1) by (cases e) (simp_all only: bulk_transfer_dispatch.simps wf_shared)
next
  fix ev e show "ensures wf_store (bulk_dispatch h ev e s)"
    using assms(1) by (cases e) (simp_all only: bulk_dispatch.simps delegates wf_shared)
next
  fix ev e show "ensures wf_store (factory_dispatch h ev e s)"
    using assms(1) by (cases e) (simp_all only: factory_dispatch.simps delegates wf_shared)
next
  fix ev e assume "t = (ev, Collection e)"
  with assms(2) show "ensures wf_store (collection_dispatch h ev e s)"
    using assms(1) by (cases e) (simp_all only: collection_dispatch.simps delegates wf_shared
      transfers_known_def prod.case trigger.case collection_event.case wf_handleTransfer)
qed

interpretation schema: guarded_machine "dispatch h" "transfers_known h" wf_store for h
  by unfold_locales (rule wf_dispatch)

end
