(* ===== verification/Ledger.thy ===== *)
theory Ledger
  imports Subgraph
begin

text \<open>
  What the subgraph promises about tokens, as an abstract ledger: for every token that was seen,
  its owner and its pending commitment. An event is one ledger operation or none; the handlers,
  with all the attributes, histories and commitment entities they maintain, refine it. The same
  lemmas show that recorded provenances are never rewritten or lost.
\<close>

section \<open>The abstract ledger\<close>

type_synonym token_view = "address option \<times> bytes option"
type_synonym ledger = "string \<rightharpoonup> token_view"

text \<open>A token is moved (minted or transferred), noted as created, moved by a provenance,
  committed to a transfer, or its commitment is withdrawn.\<close>

datatype ledger_op =
    Mint string address
  | Move string address
  | Note string
  | Trace string address
  | Commit string bytes
  | Withdraw string

fun ledger_step :: "ledger_op \<Rightarrow> ledger \<Rightarrow> ledger" where
  "ledger_step (Mint k to) L =
     L(k \<mapsto> (Some to, case L k of None \<Rightarrow> None | Some (_, c) \<Rightarrow> c))"
| "ledger_step (Move k to) L = L(k \<mapsto> (Some to, None))"
| "ledger_step (Note k) L = (case L k of None \<Rightarrow> L(k \<mapsto> (None, None)) | Some _ \<Rightarrow> L)"
| "ledger_step (Trace k to) L = (case L k of None \<Rightarrow> L | Some (_, c) \<Rightarrow> L(k \<mapsto> (Some to, c)))"
| "ledger_step (Commit k c) L = (case L k of None \<Rightarrow> L | Some (o', _) \<Rightarrow> L(k \<mapsto> (o', Some c)))"
| "ledger_step (Withdraw k) L = (case L k of None \<Rightarrow> L | Some (o', _) \<Rightarrow> L(k \<mapsto> (o', None)))"

definition transfer_op :: "string \<Rightarrow> address \<Rightarrow> address \<Rightarrow> ledger_op" where
  "transfer_op k from to = (if from = ZERO_ADDRESS then Mint k to else Move k to)"

fun registry_op :: "(int \<Rightarrow> string) \<Rightarrow> registry_event \<Rightarrow> ledger_op option" where
  "registry_op i (R_Transfer a b tok) = Some (transfer_op (i tok) a b)"
| "registry_op i (R_TransferFromMigration a b tok t tx) = Some (transfer_op (i tok) a b)"
| "registry_op i (R_CreateSRRFromMigration tok rr d t tx) = Some (Note (i tok))"
| "registry_op i (R_Provenance tok a b mh uri) = Some (Trace (i tok) b)"
| "registry_op i (R_ProvenanceWithCustomHistory tok a b ch mh uri) = Some (Trace (i tok) b)"
| "registry_op i (R_ProvenanceWithIntermediary tok a b mh uri im) = Some (Trace (i tok) b)"
| "registry_op i (R_ProvenanceWithCustomHistoryAndIntermediary tok a b ch mh uri im) =
     Some (Trace (i tok) b)"
| "registry_op i (R_ProvenanceFromMigration tok a b t' mh uri t tx) = Some (Trace (i tok) b)"
| "registry_op i (R_ProvenanceWithCustomHistoryFromMigration tok a b t' ch mh uri t tx) =
     Some (Trace (i tok) b)"
| "registry_op i (R_SRRCommitment tok owner c) = Some (Commit (i tok) c)"
| "registry_op i (R_SRRCommitmentWithCustomHistory tok owner c ch) = Some (Commit (i tok) c)"
| "registry_op i (R_SRRCommitmentFromMigration owner c tok t tx) = Some (Commit (i tok) c)"
| "registry_op i (R_SRRCommitmentWithCustomHistoryFromMigration owner c tok ch t tx) =
     Some (Commit (i tok) c)"
| "registry_op i (R_SRRCommitmentCancelled tok) = Some (Withdraw (i tok))"
| "registry_op i (R_SRRCommitmentCancelledFromMigration tok t tx) = Some (Withdraw (i tok))"
| "registry_op i _ = None"

fun collection_op :: "(int \<Rightarrow> string) \<Rightarrow> collection_event \<Rightarrow> ledger_op option" where
  "collection_op i (C_Transfer a b tok) = Some (transfer_op (i tok) a b)"
| "collection_op i (C_ProvenanceWithIntermediary tok a b mh uri im) = Some (Trace (i tok) b)"
| "collection_op i (C_ProvenanceWithCustomHistoryAndIntermediary tok a b ch mh uri im) =
     Some (Trace (i tok) b)"
| "collection_op i (C_ProvenanceWithIntermediaryWithSender tok a b mh uri im sender) =
     Some (Trace (i tok) b)"
| "collection_op i
     (C_ProvenanceWithCustomHistoryAndIntermediaryWithSender tok a b ch mh uri im sender) =
     Some (Trace (i tok) b)"
| "collection_op i (C_SRRCommitmentLegacy tok c) = Some (Commit (i tok) c)"
| "collection_op i (C_SRRCommitmentWithCustomHistoryLegacy tok c ch) = Some (Commit (i tok) c)"
| "collection_op i (C_SRRCommitment tok c sender) = Some (Commit (i tok) c)"
| "collection_op i (C_SRRCommitmentWithCustomHistory tok c ch sender) = Some (Commit (i tok) c)"
| "collection_op i (C_SRRCommitmentCancelledLegacy tok) = Some (Withdraw (i tok))"
| "collection_op i (C_SRRCommitmentCancelled tok sender) = Some (Withdraw (i tok))"
| "collection_op i _ = None"

fun event_op :: "host \<Rightarrow> eth_event \<times> trigger \<Rightarrow> ledger_op option" where
  "event_op h (ev, StartrailRegistry e) = registry_op (srrEntityId h (ev_address ev)) e"
| "event_op h (ev, Collection e) = collection_op (srrEntityId h (ev_address ev)) e"
| "event_op h _ = None"

definition ledger_effect :: "ledger_op option \<Rightarrow> ledger \<Rightarrow> ledger" where
  "ledger_effect op' L = (case op' of None \<Rightarrow> L | Some x \<Rightarrow> ledger_step x L)"

definition ledger_of_run :: "host \<Rightarrow> (eth_event \<times> trigger) list \<Rightarrow> ledger \<Rightarrow> ledger" where
  "ledger_of_run h es L = foldl (\<lambda>L e. ledger_effect (event_op h e) L) L es"

section \<open>The ledger of a store and the provenances it keeps\<close>

definition ledger_of :: "store \<Rightarrow> ledger" where
  "ledger_of s k = map_option (\<lambda>e. (srr_ownerAddress e, srr_transferCommitment e)) (srrs s k)"

definition prov_core :: "pv \<Rightarrow> string option \<times> address option \<times> address option \<times> address option \<times>
    string option \<times> string option \<times> string option \<times> bool option" where
  "prov_core p = (pv_srr p, pv_from p, pv_to p, pv_sender p, pv_metadataDigest p,
     pv_metadataURI p, pv_customHistory p, pv_isIntermediary p)"

definition prov_kept :: "store \<Rightarrow> store \<Rightarrow> bool" where
  "prov_kept s s' \<longleftrightarrow>
     (\<forall>k p. provenances s k = Some p \<longrightarrow>
        (\<exists>p'. provenances s' k = Some p' \<and> prov_core p' = prov_core p))"

text \<open>\<open>evolves x s s'\<close>: the ledger makes the step \<open>x\<close> and no provenance is rewritten.\<close>

definition evolves :: "ledger_op option \<Rightarrow> store \<Rightarrow> store \<Rightarrow> bool" where
  "evolves x s s' \<longleftrightarrow> ledger_of s' = ledger_effect x (ledger_of s) \<and> prov_kept s s'"

lemma ledger_of_save_srr [simp]:
  "ledger_of (save_srr e s) = (ledger_of s)(srr_id e \<mapsto> (srr_ownerAddress e, srr_transferCommitment e))"
  by (auto simp: ledger_of_def fun_eq_iff)

lemma ledger_of_cong: "srrs s' = srrs s \<Longrightarrow> ledger_of s' = ledger_of s"
  by (simp add: ledger_of_def fun_eq_iff)

lemma ledger_of_frame [simp]:
  "ledger_of (save_pv x1 s) = ledger_of s" "ledger_of (save_tc x2 s) = ledger_of s"
  "ledger_of (save_mh x3 s) = ledger_of s" "ledger_of (save_sh x4 s) = ledger_of s"
  by (rule ledger_of_cong, simp)+

lemma ledger_of_Some: "srrs s k = Some e \<Longrightarrow> ledger_of s k = Some (srr_ownerAddress e, srr_transferCommitment e)"
  by (simp add: ledger_of_def)

lemma ledger_of_None: "srrs s k = None \<Longrightarrow> ledger_of s k = None"
  by (simp add: ledger_of_def)

lemma prov_kept_refl [simp]: "prov_kept s s"
  by (simp add: prov_kept_def)

lemma prov_kept_cong: "provenances s' = provenances s \<Longrightarrow> prov_kept s s'"
  by (simp add: prov_kept_def)

lemma prov_kept_trans: "prov_kept s s' \<Longrightarrow> prov_kept s' s'' \<Longrightarrow> prov_kept s s''"
  unfolding prov_kept_def by metis

lemma prov_kept_new: "provenances s (pv_id p) = None \<Longrightarrow> provenances s' = provenances s \<Longrightarrow>
   prov_kept s (save_pv p s')"
  by (auto simp: prov_kept_def)

lemma evolves_refl: "evolves None s s"
  by (simp add: evolves_def ledger_effect_def)

text \<open>Saving an object that keeps owner and commitment, or that changes nothing of tokens.\<close>

lemma evolves_quiet: "srrs s' = srrs s \<Longrightarrow> provenances s' = provenances s \<Longrightarrow> evolves None s s'"
  unfolding evolves_def ledger_effect_def option.case by (intro conjI ledger_of_cong prov_kept_cong)

lemma evolves_frame [simp]:
  "evolves x s (save_tc x2 s') = evolves x s s'" "evolves x s (save_mh x3 s') = evolves x s s'"
  "evolves x s (save_sh x4 s') = evolves x s s'"
  by (simp_all add: evolves_def prov_kept_def)

lemma evolves_update:
  assumes "sync s" and "srrs s k = Some old" and "srr_id e = srr_id old"
    and "srr_ownerAddress e = srr_ownerAddress old"
    and "srr_transferCommitment e = srr_transferCommitment old"
  shows "evolves None s (save_srr e s)"
proof -
  have "srr_id e = k" using sync_srr_id [OF assms(1,2)] assms(3) by simp
  then have "ledger_of (save_srr e s) = ledger_of s"
    unfolding ledger_of_save_srr assms(4,5) using ledger_of_Some [OF assms(2)]
    by (simp only: map_upd_triv)
  then show ?thesis
    unfolding evolves_def ledger_effect_def option.case using prov_kept_cong [of "save_srr e s" s] by simp
qed

section \<open>The shared functions refine the ledger\<close>

lemma evolves_provenance:
  assumes "sync s"
  shows "ensures (evolves (Some (Trace k to)) s)
    (handleSRRProvenanceInternal h t k from to ch mh uri i sender s)"
proof (cases "srrs s k")
  case None
  then show ?thesis
    by (simp add: handleSRRProvenanceInternal_def evolves_def ledger_effect_def ledger_of_None)
next
  case (Some srr)
  then show ?thesis
    using sync_srr_id [OF assms Some]
    by (auto simp: handleSRRProvenanceInternal_def Let_def evolves_def ledger_effect_def
        ledger_of_Some new_pv_def split: option.split intro: prov_kept_cong prov_kept_new)
qed

lemma evolves_commitment:
  assumes "sync s"
  shows "ensures (evolves (Some (Commit k c)) s) (handleSRRCommitmentInternal t c k ch sender s)"
proof (cases "srrs s k")
  case None
  then show ?thesis
    by (simp add: handleSRRCommitmentInternal_def evolves_def ledger_effect_def ledger_of_None)
next
  case (Some srr)
  then show ?thesis
    using sync_srr_id [OF assms Some]
    by (auto simp: handleSRRCommitmentInternal_def Let_def evolves_def ledger_effect_def
        ledger_of_Some split: option.split intro: prov_kept_cong)
qed

lemma evolves_cancelled:
  assumes "sync s"
  shows "ensures (evolves (Some (Withdraw k)) s) (handleSRRCommitmentCancelledInternal t k sender s)"
proof (cases "srrs s k")
  case None
  then show ?thesis
    by (simp add: handleSRRCommitmentCancelledInternal_def evolves_def ledger_effect_def ledger_of_None)
next
  case (Some srr)
  then show ?thesis
    using sync_srr_id [OF assms Some]
    by (auto simp: handleSRRCommitmentCancelledInternal_def Let_def evolves_def ledger_effect_def
        ledger_of_Some split: option.split intro: prov_kept_cong)
qed

lemma evolves_handleUpdateSRRInternal:
  "sync s \<Longrightarrow> ensures (evolves None s) (handleUpdateSRRInternal t p a k s)"
  by (auto simp: handleUpdateSRRInternal_def evolves_refl split: option.split intro: evolves_update)

lemma evolves_handleUpdateSRRMetadataHashInternal:
  "sync s \<Longrightarrow> ensures (evolves None s) (handleUpdateSRRMetadataHashInternal h t k d ev s)"
  by (auto simp: handleUpdateSRRMetadataHashInternal_def saveSRRMetadataHistory_def Let_def
      evolves_refl split: option.split intro: evolves_update)

lemma evolves_create:
  assumes "sync s" and "srrs s k = Some old" and "srr_id e = srr_id old"
    and "srr_ownerAddress e = srr_ownerAddress old"
    and "srr_transferCommitment e = srr_transferCommitment old"
  shows "ensures (evolves None s) (saveCreateSRRInternal h e p a i d l t ev s)"
  using assms(3-5) by (auto simp: saveCreateSRRInternal_def saveSRRMetadataHistory_def Let_def
      intro!: evolves_update [OF assms(1,2)])

section \<open>Transfers, migrations and creations\<close>

lemma evolves_trans_kept:
  "prov_kept s s' \<Longrightarrow> evolves x s' s'' \<Longrightarrow> ledger_effect x (ledger_of s') = ledger_effect x' (ledger_of s)
   \<Longrightarrow> evolves x' s s''"
  by (auto simp: evolves_def intro: prov_kept_trans)

lemma checkAndClear_evolves:
  assumes "checkAndClearCommitOnTransfer srr t s = Inr (srr', s1)"
  shows "srr' = srr\<lparr>srr_transferCommitment := None\<rparr> \<and> ledger_of s1 = ledger_of s \<and>
    provenances s1 = provenances s"
  using assms by (auto simp: checkAndClearCommitOnTransfer_def split: option.splits)

lemma evolves_recordTransfer:
  assumes "sync s" and "srr_id srr = k" and "srr_ownerAddress srr = Some to"
  shows "ensures (evolves (Some (Move k to)) s) (recordTransfer h t k from to srr s)"
  unfolding recordTransfer_def ensures_simps
proof (intro allI impI)
  fix s2 p
  assume "handleSRRProvenanceInternal h t k from to None None None False None s = Inr s2"
    and clear: "checkAndClearCommitOnTransfer srr t s2 = Inr p"
  then have ev: "evolves (Some (Trace k to)) s s2"
    using evolves_provenance [OF assms(1)] by (blast dest: ensuresD)
  obtain e s3 where p: "p = (e, s3)" by (cases p)
  have c: "e = srr\<lparr>srr_transferCommitment := None\<rparr>" "ledger_of s3 = ledger_of s2"
    "provenances s3 = provenances s2"
    using checkAndClear_evolves [OF clear [unfolded p]] by simp_all
  have "prov_kept s (save_srr e s3)"
    using ev prov_kept_trans [of s s2 "save_srr e s3"] c(3)
    by (simp add: evolves_def prov_kept_cong)
  then show "ensures (evolves (Some (Move k to)) s) (case p of (srr', s3) \<Rightarrow> Inr (save_srr srr' s3))"
    using assms(2,3) ev c(1,2) p
    by (auto simp: evolves_def ledger_effect_def split: option.splits prod.splits)
qed

lemma evolves_handleTransfer:
  assumes "sync s"
  shows "ensures (evolves (Some (transfer_op (srrEntityId h (ev_address ev) tok) from to)) s)
    (handleTransfer h ev from to tok s)"
proof -
  let ?k = "srrEntityId h (ev_address ev) tok" and ?t = "eventUTCMillis ev"
  let ?x = "Some (transfer_op ?k from to)"
  have step: "ensures (evolves ?x s)
      (if from = ZERO_ADDRESS then Inr (save_srr e s)
       else recordTransfer h ?t ?k from to e (save_srr e s))"
    if tr: "transferredSrr h ev (from = ZERO_ADDRESS) tok s = Inr srr"
      and e: "e = srr\<lparr>srr_ownerAddress := Some to, srr_updatedAt := u, srr_updatedAtStr := us\<rparr>"
    for srr e u us
  proof -
    have id: "srr_id e = ?k"
      using transferredSrr_cases [OF tr] sync_srr_id [OF assms] e by auto
    have led: "ledger_of (save_srr e s) = (ledger_of s)(?k \<mapsto> (Some to, srr_transferCommitment srr))"
      using id e by simp
    have c: "srr_transferCommitment srr = (case ledger_of s ?k of None \<Rightarrow> None | Some (_, c) \<Rightarrow> c)"
      using transferredSrr_cases [OF tr] by (auto simp: ledger_of_Some ledger_of_None)
    have saved: "sync (save_srr e s)"
      using transferredSrr_cases [OF tr] e
      by (auto intro: sync_update_srr [OF assms] sync_new_srr [OF assms])
    have kept: "prov_kept s (save_srr e s)" by (simp add: prov_kept_cong)
    have "ensures (evolves (Some (Move ?k to)) s) (recordTransfer h ?t ?k from to e (save_srr e s))"
      by (rule ensures_weaken [OF evolves_recordTransfer [OF saved id]])
        (simp add: e, erule evolves_trans_kept [OF kept], simp add: led ledger_effect_def del: ledger_of_save_srr)
    then show ?thesis
      using led c kept by (simp add: evolves_def ledger_effect_def transfer_op_def)
  qed
  show ?thesis
    unfolding handleTransfer_def Let_def ensures_simps toHex_eq_iff
    by (intro allI impI, erule step) simp
qed

lemma evolves_handleTransferFromMigration:
  assumes "sync s"
  shows "ensures (evolves (Some (transfer_op (srrEntityId h (ev_address ev) tok) from to)) s)
    (handleTransferFromMigration h ev from to tok t tx s)"
proof (cases "srrs s (srrEntityId h (ev_address ev) tok)")
  case None
  then show ?thesis
    unfolding handleTransferFromMigration_def Let_def
    by (auto simp: new_srr_def transfer_op_def evolves_def ledger_effect_def ledger_of_None
        dest!: checkAndClear_evolves intro: prov_kept_cong)
next
  case (Some srr)
  then show ?thesis
    using sync_srr_id [OF assms Some]
    unfolding handleTransferFromMigration_def Let_def
    by (auto simp: transfer_op_def evolves_def ledger_effect_def ledger_of_Some
        dest!: checkAndClear_evolves intro: prov_kept_cong)
qed

lemma evolves_handleCreateSRRFromMigration:
  assumes "sync s"
  shows "ensures (evolves (Some (Note (srrEntityId h (ev_address ev) tok))) s)
    (handleCreateSRRFromMigration h ev tok rr d t tx s)"
proof (cases "srrs s (srrEntityId h (ev_address ev) tok)")
  case None
  then show ?thesis
    by (auto simp: handleCreateSRRFromMigration_def Let_def saveCreateSRRInternal_def new_srr_def
        saveSRRMetadataHistory_def evolves_def ledger_effect_def ledger_of_None prov_kept_def)
next
  case (Some srr)
  have "evolves (Some (Note (srrEntityId h (ev_address ev) tok))) s = evolves None s"
    using ledger_of_Some [OF Some] by (simp add: evolves_def ledger_effect_def fun_eq_iff)
  then show ?thesis
    using Some evolves_create [OF assms Some]
    by (simp add: handleCreateSRRFromMigration_def Let_def)
qed

lemma evolves_creates:
  assumes "sync s"
  shows "ensures (evolves None s) (handleCreateSRR h ev tok rr d s)"
    "ensures (evolves None s) (handleCreateSRRWithLockExternalTransfer h ev tok rr d l s)"
    "ensures (evolves None s) (handleCreateSRRWithCID h ev tok rr c l s)"
    "ensures (evolves None s) (collection_handleCreateSRR h ev tok rr c l s)"
  using evolves_create [OF assms]
  by (simp_all add: handleCreateSRR_def handleCreateSRRWithLockExternalTransfer_def
      handleCreateSRRWithCID_def collection_handleCreateSRR_def Let_def evolves_refl split: option.split)

lemma evolves_handleMigrateSRR: "sync s \<Longrightarrow> ensures (evolves None s) (handleMigrateSRR h ev tok c s)"
  by (auto simp: handleMigrateSRR_def evolves_refl split: option.split intro: evolves_update)

lemma evolves_handleLockExternalTransfer:
  "sync s \<Longrightarrow> ensures (evolves None s) (handleLockExternalTransfer h ev tok f s)"
  by (auto simp: handleLockExternalTransfer_def evolves_refl split: option.split intro: evolves_update)

lemma evolves_handleRoyaltiesSet:
  "sync s \<Longrightarrow> ensures (evolves None s) (handleRoyaltiesSet h ev tok r b s)"
  by (auto simp: handleRoyaltiesSet_def Let_def evolves_refl split: option.split intro: evolves_update)

lemma evolves_handleSRRHistory: "ensures (evolves None s) (handleSRRHistory h ev toks chs s)"
  unfolding handleSRRHistory_def Let_def
  by (intro foldr_res_ensures) (simp_all add: evolves_refl)

lemma evolves_handleProvenanceDateMigrationFix:
  assumes "refs s"
  shows "ensures (evolves None s) (handleProvenanceDateMigrationFix h ev tok t s)"
proof -
  have "pv_id p = k" if "provenances s k = Some p" for p k
    using assms that by (fastforce simp: refs_def dest: table_allD)
  then show ?thesis
    by (auto simp: handleProvenanceDateMigrationFix_def Let_def evolves_def ledger_effect_def
        prov_kept_def prov_core_def split: option.split)
qed

section \<open>Every event is its ledger operation\<close>

text \<open>The events that leave tokens and provenances alone.\<close>

lemma ensures_quietI:
  "ensures (\<lambda>s'. srrs s' = srrs s \<and> provenances s' = provenances s) r \<Longrightarrow> ensures (evolves None s) r"
  by (erule ensures_weaken) (simp add: evolves_quiet)

lemma quiet_upserts [simp]:
  "srrs (upsert_bis e s) = srrs s" "provenances (upsert_bis e s) = provenances s"
  "srrs (upsert_bks f s) = srrs s" "provenances (upsert_bks f s) = provenances s"
  by (simp_all add: upsert_bis_def upsert_bks_def)

lemma evolves_others:
  "ensures (evolves None s) (handleCustomHistoryType ev i n s)"
  "ensures (evolves None s) (handleCreateCustomHistoryInternal t i n ty d oc ot s)"
  "ensures (evolves None s) (handleUpdateCustomHistoryInternal h k t d n s)"
  "ensures (evolves None s) (handleCollectionCreatedInternal t a n sy salt ow s)"
  "ensures (evolves None s) (handleOwnershipTransferred ev a b s)"
  "ensures (evolves None s) (bulkIssue_handleBatchPrepared ev root a s)"
  "ensures (evolves None s) (bulkIssue_handleCreateSRRWithProof ev root tok hash s)"
  "ensures (evolves None s) (bulkTransfer_handleBatchPrepared ev root a s)"
  "ensures (evolves None s) (bulkTransfer_handleApproveSRRByCommitmentWithProof ev root tok hash s)"
  "ensures (evolves None s) (updateBulkInternal root c tok hash ev s)"
  "ensures (evolves None s) (bulk_handleBatchPrepared ev root a s)"
  by (rule ensures_quietI, simp add: handleCustomHistoryType_def handleCreateCustomHistoryInternal_def
      handleUpdateCustomHistoryInternal_def handleCollectionCreatedInternal_def
      handleOwnershipTransferred_def bulkIssue_handleBatchPrepared_def
      bulkIssue_handleCreateSRRWithProof_def bulkTransfer_handleBatchPrepared_def
      bulkTransfer_handleApproveSRRByCommitmentWithProof_def updateBulkInternal_def
      bulk_handleBatchPrepared_def Let_def split: option.split)+

lemma evolves_handleMigrateBatch: "ensures (evolves None s) (handleMigrateBatch root ls a t u s)"
  unfolding handleMigrateBatch_def Let_def ensures_simps
  by (intro allI impI ensures_quietI foldr_res_ensures) (simp_all add: migratedLeaf_def)

lemma evolves_luw_mtf:
  "ensures (evolves None s) (luw_dispatch h ev e1 s)" "ensures (evolves None s) (mtf_dispatch h ev e2 s)"
  by (rule ensures_quietI, cases e1, simp_all add: handleCreateLicensedUserWallet_def
      handleAddedOwner_def handleRemovedOwner_def handleChangedThreshold_def
      handleUpgradeLicensedUserWalletToMulti_def handleUpdateLicensedUserDetail_def
      handleMigrateLicensedUser_def Let_def split: option.split)
    (rule ensures_quietI, cases e2, simp_all add: handleRequestTypeRegistered_def
      handleRequestTypeUnregistered_def handleExecutionSuccess_def split: option.split)

lemmas evolves_shared =
  evolves_provenance evolves_commitment evolves_cancelled evolves_handleUpdateSRRInternal
  evolves_handleUpdateSRRMetadataHashInternal evolves_handleTransfer
  evolves_handleTransferFromMigration evolves_handleCreateSRRFromMigration evolves_creates
  evolves_handleMigrateSRR evolves_handleLockExternalTransfer evolves_handleRoyaltiesSet
  evolves_handleSRRHistory evolves_handleProvenanceDateMigrationFix evolves_others
  evolves_handleMigrateBatch

lemma evolves_dispatch:
  assumes "sync s" and "refs s"
  shows "ensures (evolves (event_op h t) s) (dispatch h t s)"
proof (rule dispatch_cases)
  fix ev e assume "t = (ev, LicensedUserManager e)"
  then show "ensures (evolves (event_op h t) s) (luw_dispatch h ev e s)"
    by (simp add: evolves_luw_mtf)
next
  fix ev e assume "t = (ev, MetaTxForwarder e)"
  then show "ensures (evolves (event_op h t) s) (mtf_dispatch h ev e s)"
    by (simp add: evolves_luw_mtf)
next
  fix ev e assume t: "t = (ev, StartrailRegistry e)"
  show "ensures (evolves (event_op h t) s) (registry_dispatch h ev e s)"
    unfolding t event_op.simps using assms
    by (cases e) (simp_all only: registry_dispatch.simps registry_op.simps delegates evolves_shared)
next
  fix ev e assume t: "t = (ev, BulkIssue e)"
  show "ensures (evolves (event_op h t) s) (bulk_issue_dispatch h ev e s)"
    unfolding t event_op.simps
    by (cases e) (simp_all only: bulk_issue_dispatch.simps evolves_shared)
next
  fix ev e assume t: "t = (ev, BulkTransfer e)"
  show "ensures (evolves (event_op h t) s) (bulk_transfer_dispatch h ev e s)"
    unfolding t event_op.simps
    by (cases e) (simp_all only: bulk_transfer_dispatch.simps evolves_shared)
next
  fix ev e assume t: "t = (ev, Bulk e)"
  show "ensures (evolves (event_op h t) s) (bulk_dispatch h ev e s)"
    unfolding t event_op.simps
    by (cases e) (simp_all only: bulk_dispatch.simps delegates evolves_shared)
next
  fix ev e assume t: "t = (ev, CollectionFactory e)"
  show "ensures (evolves (event_op h t) s) (factory_dispatch h ev e s)"
    unfolding t event_op.simps
    by (cases e) (simp_all only: factory_dispatch.simps delegates evolves_shared)
next
  fix ev e assume t: "t = (ev, Collection e)"
  show "ensures (evolves (event_op h t) s) (collection_dispatch h ev e s)"
    unfolding t event_op.simps using assms
    by (cases e) (simp_all only: collection_dispatch.simps collection_op.simps delegates evolves_shared)
qed

text \<open>The run of the subgraph refines the run of the ledger.\<close>

lemma ledger_run:
  assumes "sync s" and "refs s"
  shows "ensures (\<lambda>s'. ledger_of s' = ledger_of_run h es (ledger_of s) \<and> prov_kept s s')
    (run_subgraph h es s)"
  using assms
proof (induction es arbitrary: s)
  case Nil
  then show ?case by (simp add: run_subgraph_def ledger_of_run_def)
next
  case (Cons e es)
  show ?case
  proof (cases "dispatch h e s")
    case (Inl a)
    then show ?thesis by (simp add: run_subgraph_def)
  next
    case (Inr s1)
    have s1: "sync s1" "refs s1" "evolves (event_op h e) s s1"
      using ensuresD [OF sync_dispatch Inr] ensuresD [OF refs_dispatch Inr]
        ensuresD [OF evolves_dispatch Inr] Cons.prems by simp_all
    have "ensures (\<lambda>s'. ledger_of s' = ledger_of_run h es (ledger_of s1) \<and> prov_kept s1 s')
        (run_subgraph h es s1)"
      by (rule Cons.IH [OF s1(1,2)])
    then have "ensures (\<lambda>s'. ledger_of s' = ledger_of_run h (e # es) (ledger_of s) \<and> prov_kept s s')
        (run_subgraph h es s1)"
      by (rule ensures_weaken)
        (use s1(3) in \<open>auto simp: evolves_def ledger_of_run_def intro: prov_kept_trans\<close>)
    then show ?thesis using Inr by (simp add: run_subgraph_def)
  qed
qed

end
