(* ===== verification/Progress.thy ===== *)
theory Progress
  imports Ledger
begin

text \<open>
  When the handlers do not abort. An event is legal for a ledger when its times fall in the range
  of \<open>Date\<close>, a 64-digit provenance digest is hexadecimal, a transfer that is no mint and a
  CreateSRR of the registry concern a token the ledger knows. The condition is about the events
  alone: the ledger of a legal chain is computed from its events.
\<close>

section \<open>Legal events\<close>

definition digest_ok :: "host \<Rightarrow> string \<Rightarrow> bool" where
  "digest_ok h hash \<longleftrightarrow> (length hash = 64 \<longrightarrow> is_set (fromHexString h hash))"

definition seconds_ok :: "int \<Rightarrow> bool" where
  "seconds_ok t \<longleftrightarrow> valid_time (secondsToMillis t)"

fun luw_legal :: "luw_event \<Rightarrow> bool" where
  "luw_legal (MigrateLicensedUserWallet w c t) = seconds_ok t"
| "luw_legal _ = True"

fun bulk_issue_legal :: "bulk_issue_event \<Rightarrow> bool" where
  "bulk_issue_legal (BI_MigrateBatch root ls a t u) = (seconds_ok t \<and> seconds_ok u)"
| "bulk_issue_legal _ = True"

fun registry_legal :: "host \<Rightarrow> (int \<Rightarrow> bool) \<Rightarrow> registry_event \<Rightarrow> bool" where
  "registry_legal h seen (R_Transfer a b tok) = (a = ZERO_ADDRESS \<or> seen tok)"
| "registry_legal h seen (R_CreateSRR tok rr d) = seen tok"
| "registry_legal h seen (R_CreateSRRWithLock tok rr d l) = seen tok"
| "registry_legal h seen (R_CreateSRRWithCID tok rr cid l) = seen tok"
| "registry_legal h seen (R_Provenance tok a b mh uri) = digest_ok h mh"
| "registry_legal h seen (R_ProvenanceWithCustomHistory tok a b ch mh uri) = digest_ok h mh"
| "registry_legal h seen (R_ProvenanceWithIntermediary tok a b mh uri i) = digest_ok h mh"
| "registry_legal h seen (R_ProvenanceWithCustomHistoryAndIntermediary tok a b ch mh uri i) =
     digest_ok h mh"
| "registry_legal h seen (R_TransferFromMigration a b tok t tx) = seconds_ok t"
| "registry_legal h seen (R_CreateSRRFromMigration tok rr d t tx) = seconds_ok t"
| "registry_legal h seen (R_UpdateSRRFromMigration tok rr t tx) = seconds_ok t"
| "registry_legal h seen (R_ProvenanceFromMigration tok a b t' mh uri t tx) =
     (digest_ok h mh \<and> seconds_ok t)"
| "registry_legal h seen (R_ProvenanceWithCustomHistoryFromMigration tok a b t' ch mh uri t tx) =
     (digest_ok h mh \<and> seconds_ok t)"
| "registry_legal h seen (R_SRRCommitmentFromMigration owner c tok t tx) = seconds_ok t"
| "registry_legal h seen (R_SRRCommitmentWithCustomHistoryFromMigration owner c tok ch t tx) =
     seconds_ok t"
| "registry_legal h seen (R_SRRCommitmentCancelledFromMigration tok t tx) = seconds_ok t"
| "registry_legal h seen (R_UpdateSRRMetadataDigestFromMigration tok d t tx) = seconds_ok t"
| "registry_legal h seen (R_CreateCustomHistoryFromMigration i n ty d c t tx) = seconds_ok t"
| "registry_legal h seen (R_ProvenanceDateMigrationFix tok t) = valid_time t"
| "registry_legal h seen _ = True"

fun collection_legal :: "host \<Rightarrow> (int \<Rightarrow> bool) \<Rightarrow> collection_event \<Rightarrow> bool" where
  "collection_legal h seen (C_Transfer a b tok) = (a = ZERO_ADDRESS \<or> seen tok)"
| "collection_legal h seen (C_ProvenanceWithIntermediary tok a b mh uri i) = digest_ok h mh"
| "collection_legal h seen (C_ProvenanceWithCustomHistoryAndIntermediary tok a b ch mh uri i) =
     digest_ok h mh"
| "collection_legal h seen (C_ProvenanceWithIntermediaryWithSender tok a b mh uri i sender) =
     digest_ok h mh"
| "collection_legal h seen
     (C_ProvenanceWithCustomHistoryAndIntermediaryWithSender tok a b ch mh uri i sender) =
     digest_ok h mh"
| "collection_legal h seen _ = True"

definition seen_token :: "host \<Rightarrow> eth_event \<Rightarrow> ledger \<Rightarrow> int \<Rightarrow> bool" where
  "seen_token h ev L tok = is_set (L (srrEntityId h (ev_address ev) tok))"

fun legal_event :: "host \<Rightarrow> eth_event \<times> trigger \<Rightarrow> ledger \<Rightarrow> bool" where
  "legal_event h (ev, e) L =
     (valid_time (eventUTCMillis ev) \<and>
      (case e of
         LicensedUserManager e' \<Rightarrow> luw_legal e'
       | StartrailRegistry e' \<Rightarrow> registry_legal h (seen_token h ev L) e'
       | BulkIssue e' \<Rightarrow> bulk_issue_legal e'
       | Collection e' \<Rightarrow> collection_legal h (seen_token h ev L) e'
       | _ \<Rightarrow> True))"

fun legal_chain :: "host \<Rightarrow> (eth_event \<times> trigger) list \<Rightarrow> ledger \<Rightarrow> bool" where
  "legal_chain h [] L = True"
| "legal_chain h (e # es) L =
     (legal_event h e L \<and> legal_chain h es (ledger_effect (event_op h e) L))"

lemma seen_token_ledger_of: "seen_token h ev (ledger_of s) tok = is_set (srrs s (srrEntityId h (ev_address ev) tok))"
  by (simp add: seen_token_def ledger_of_def is_set_def)

section \<open>The shared functions return on legal input\<close>

lemma succeeds_saveSRRMetadataHistory [simp]:
  "valid_time t \<Longrightarrow> is_set (srr_metadataDigest srr) \<Longrightarrow> succeeds (saveSRRMetadataHistory h srr t ev s)"
  by (auto simp: saveSRRMetadataHistory_def Let_def is_set_def toUTCString_eq_Inr)

lemma succeeds_saveCreateSRRInternal [simp]:
  "valid_time t \<Longrightarrow> succeeds (saveCreateSRRInternal h srr p a i d l t ev s)"
  by (simp add: saveCreateSRRInternal_def Let_def toUTCString_eq_Inr)

lemma succeeds_provenanceDigest: "digest_ok h hash \<Longrightarrow> succeeds (provenanceDigest h (Some hash))"
  by (auto simp: provenanceDigest_def digest_ok_def is_set_def)

lemma succeeds_handleSRRProvenanceInternal:
  assumes "valid_time t" and "succeeds (provenanceDigest h mh)"
  shows "succeeds (handleSRRProvenanceInternal h t k from to ch mh uri i sender s)"
  using assms by (auto simp: handleSRRProvenanceInternal_def Let_def toUTCString_eq_Inr
      succeeds_iff [of "provenanceDigest h mh"] split: option.split)

lemma succeeds_commitments [simp]:
  assumes "valid_time t"
  shows "succeeds (handleSRRCommitmentInternal t c k ch sender s)"
    "succeeds (handleSRRCommitmentCancelledInternal t k sender s)"
    "succeeds (handleCreateCustomHistoryInternal t i n ty d oc ot s)"
    "succeeds (handleUpdateSRRInternal t p a k s)"
    "succeeds (handleUpdateSRRMetadataHashInternal h t k d ev s)"
    "succeeds (checkAndClearCommitOnTransfer srr t s)"
  using assms by (simp_all add: handleSRRCommitmentInternal_def
      handleSRRCommitmentCancelledInternal_def handleCreateCustomHistoryInternal_def
      handleUpdateSRRInternal_def handleUpdateSRRMetadataHashInternal_def
      checkAndClearCommitOnTransfer_def Let_def toUTCString_eq_Inr split: option.split)

lemma succeeds_handleUpdateCustomHistoryInternal [simp]:
  assumes "valid_time t" and "wf_store s"
  shows "succeeds (handleUpdateCustomHistoryInternal h k t d n s)"
  using assms(1) wf_customHistories [OF assms(2)]
  by (auto simp: handleUpdateCustomHistoryInternal_def Let_def toUTCString_eq_Inr wf_ch_def
      is_set_def split: option.split)

lemma succeeds_handleTransfer [simp]:
  assumes "valid_time (eventUTCMillis ev)"
  shows "succeeds (handleTransfer h ev from to tok s)"
proof -
  have "succeeds (recordTransfer h (eventUTCMillis ev) k from to srr s')" for k srr s'
  proof -
    have "succeeds (handleSRRProvenanceInternal h (eventUTCMillis ev) k from to None None None False None s')"
      by (rule succeeds_handleSRRProvenanceInternal [OF assms]) (simp add: provenanceDigest_def)
    then show ?thesis
      using succeeds_commitments(6) [OF assms]
      by (auto simp: recordTransfer_def succeeds_iff split: prod.splits)
  qed
  moreover have "succeeds (transferredSrr h ev m tok s)" for m
    using assms by (simp add: transferredSrr_def Let_def toUTCString_eq_Inr split: option.split)
  ultimately show ?thesis
    using assms by (cases "from = ZERO_ADDRESS") (auto simp: handleTransfer_def Let_def toUTCString_eq_Inr succeeds_iff [of "transferredSrr h ev _ tok s"])
qed

lemma succeeds_migration_creates [simp]:
  assumes "seconds_ok t"
  shows "succeeds (handleCreateSRRFromMigration h ev tok rr d t tx s)"
    "succeeds (handleTransferFromMigration h ev from to tok t tx s)"
proof -
  show "succeeds (handleCreateSRRFromMigration h ev tok rr d t tx s)"
    using assms by (simp add: handleCreateSRRFromMigration_def Let_def seconds_ok_def
        toUTCString_eq_Inr split: option.split)
  obtain clear where "\<And>srr. checkAndClearCommitOnTransfer srr (secondsToMillis t) s = Inr (clear srr)"
    using succeeds_commitments(6) [of "secondsToMillis t" _ s] assms
    unfolding succeeds_iff seconds_ok_def by metis
  then show "succeeds (handleTransferFromMigration h ev from to tok t tx s)"
    using assms by (cases "from = ZERO_ADDRESS") (simp_all add: handleTransferFromMigration_def
        Let_def seconds_ok_def toUTCString_eq_Inr split: option.split prod.split)
qed

lemma succeeds_loads [simp]:
  "succeeds (handleMigrateSRR h ev tok c s)"
  "succeeds (handleLockExternalTransfer h ev tok f s)"
  "valid_time t \<Longrightarrow> succeeds (handleProvenanceDateMigrationFix h ev tok t s)"
  "valid_time (eventUTCMillis ev) \<Longrightarrow> succeeds (handleRoyaltiesSet h ev tok r b s)"
  "valid_time (eventUTCMillis ev) \<Longrightarrow> succeeds (collection_handleCreateSRR h ev tok rr c l s)"
  "valid_time (eventUTCMillis ev) \<Longrightarrow> succeeds (handleOwnershipTransferred ev a b' s)"
  by (simp_all add: handleMigrateSRR_def handleLockExternalTransfer_def handleRoyaltiesSet_def
      handleProvenanceDateMigrationFix_def collection_handleCreateSRR_def
      handleOwnershipTransferred_def Let_def toUTCString_eq_Inr split: option.split)

lemma succeeds_creates [simp]:
  assumes "valid_time (eventUTCMillis ev)" and "is_set (srrs s (srrEntityId h (ev_address ev) tok))"
  shows "succeeds (handleCreateSRR h ev tok rr d s)"
    "succeeds (handleCreateSRRWithLockExternalTransfer h ev tok rr d l s)"
    "succeeds (handleCreateSRRWithCID h ev tok rr c l s)"
  using assms by (auto simp: handleCreateSRR_def handleCreateSRRWithLockExternalTransfer_def
      handleCreateSRRWithCID_def Let_def is_set_def)

lemma succeeds_loop: "(\<And>x s. x \<in> set xs \<Longrightarrow> succeeds (f x s)) \<Longrightarrow> succeeds (foldr_res f xs s)"
  using foldr_res_succeeds [of xs "\<lambda>_. True" f s] unfolding succeeds_iff by blast

lemma succeeds_handleSRRHistory [simp]:
  "valid_time (eventUTCMillis ev) \<Longrightarrow> succeeds (handleSRRHistory h ev toks chs s)"
  unfolding handleSRRHistory_def Let_def by (intro succeeds_loop) (simp add: toUTCString_eq_Inr)

lemma succeeds_handleMigrateBatch [simp]:
  "seconds_ok t \<Longrightarrow> seconds_ok u \<Longrightarrow> succeeds (handleMigrateBatch root ls a t u s)"
  unfolding handleMigrateBatch_def Let_def seconds_ok_def
  by (simp add: toUTCString_eq_Inr) (rule succeeds_loop, simp add: migratedLeaf_def toUTCString_eq_Inr)

lemma succeeds_bulk [simp]:
  assumes "valid_time (eventUTCMillis ev)"
  shows "succeeds (bulkIssue_handleBatchPrepared ev root a s)"
    "succeeds (bulkIssue_handleCreateSRRWithProof ev root tok hash s)"
    "succeeds (bulkTransfer_handleBatchPrepared ev root a s)"
    "succeeds (bulkTransfer_handleApproveSRRByCommitmentWithProof ev root tok hash s)"
    "succeeds (updateBulkInternal root c tok hash ev s)"
    "succeeds (bulk_handleBatchPrepared ev root a s)"
    "succeeds (handleCustomHistoryType ev i n s)"
    "succeeds (handleCollectionCreated ev a b n sy salt s)"
  using assms by (simp_all add: bulkIssue_handleBatchPrepared_def
      bulkIssue_handleCreateSRRWithProof_def bulkTransfer_handleBatchPrepared_def
      bulkTransfer_handleApproveSRRByCommitmentWithProof_def updateBulkInternal_def
      bulk_handleBatchPrepared_def handleCustomHistoryType_def handleCollectionCreated_def
      handleCollectionCreatedInternal_def Let_def toUTCString_eq_Inr split: option.split)

section \<open>Legal events are handled\<close>

lemma succeeds_luw_dispatch:
  assumes "valid_time (eventUTCMillis ev)" and "wf_store s" and "luw_legal e"
  shows "succeeds (luw_dispatch h ev e s)"
  using assms(1,3) wf_luws [OF assms(2)]
  by (cases e) (auto simp: handleCreateLicensedUserWallet_def handleAddedOwner_def
      handleRemovedOwner_def handleChangedThreshold_def
      handleUpgradeLicensedUserWalletToMulti_def handleUpdateLicensedUserDetail_def
      handleMigrateLicensedUser_def Let_def toUTCString_eq_Inr wf_luw_def is_set_def seconds_ok_def
      split: option.split)

lemma succeeds_mtf_dispatch:
  assumes "valid_time (eventUTCMillis ev)" and "wf_store s"
  shows "succeeds (mtf_dispatch h ev e s)"
  using assms(1) wf_requestTypes [OF assms(2)]
  by (cases e) (auto simp: handleRequestTypeRegistered_def handleRequestTypeUnregistered_def
      handleExecutionSuccess_def toUTCString_eq_Inr wf_rt_def is_set_def split: option.split)

lemma succeeds_registry_dispatch:
  assumes "valid_time (eventUTCMillis ev)" and "wf_store s"
    and "registry_legal h (seen_token h ev (ledger_of s)) e"
  shows "succeeds (registry_dispatch h ev e s)"
  using assms by (cases e) (simp_all add: delegates seen_token_ledger_of seconds_ok_def
      succeeds_handleSRRProvenanceInternal succeeds_provenanceDigest)

lemma succeeds_collection_dispatch:
  assumes "valid_time (eventUTCMillis ev)" and "collection_legal h seen e"
  shows "succeeds (collection_dispatch h ev e s)"
  using assms by (cases e) (simp_all add: delegates
      succeeds_handleSRRProvenanceInternal succeeds_provenanceDigest)

lemma succeeds_dispatch:
  assumes "wf_store s" and "legal_event h t (ledger_of s)"
  shows "succeeds (dispatch h t s)"
proof (rule dispatch_cases)
  fix ev e assume "t = (ev, LicensedUserManager e)"
  then show "succeeds (luw_dispatch h ev e s)"
    using assms by (auto intro: succeeds_luw_dispatch)
next
  fix ev e assume "t = (ev, MetaTxForwarder e)"
  then show "succeeds (mtf_dispatch h ev e s)"
    using assms by (auto intro: succeeds_mtf_dispatch)
next
  fix ev e assume "t = (ev, StartrailRegistry e)"
  then show "succeeds (registry_dispatch h ev e s)"
    using assms by (auto intro: succeeds_registry_dispatch)
next
  fix ev e assume "t = (ev, BulkIssue e)"
  then show "succeeds (bulk_issue_dispatch h ev e s)"
    using assms by (cases e) auto
next
  fix ev e assume "t = (ev, BulkTransfer e)"
  then show "succeeds (bulk_transfer_dispatch h ev e s)"
    using assms by (cases e) auto
next
  fix ev e assume "t = (ev, Bulk e)"
  then show "succeeds (bulk_dispatch h ev e s)"
    using assms by (cases e) (auto simp: delegates)
next
  fix ev e assume "t = (ev, CollectionFactory e)"
  then show "succeeds (factory_dispatch h ev e s)"
    using assms by (cases e) auto
next
  fix ev e assume "t = (ev, Collection e)"
  then show "succeeds (collection_dispatch h ev e s)"
    using assms by (auto intro: succeeds_collection_dispatch)
qed

lemma legal_transfers_known: "legal_event h t (ledger_of s) \<Longrightarrow> transfers_known h t s"
  by (cases t) (auto simp: transfers_known_def transfer_known_def seen_token_ledger_of
      split: trigger.splits registry_event.splits collection_event.splits)

section \<open>Legal chains are indexed\<close>

definition good_store :: "store \<Rightarrow> bool" where
  "good_store s \<longleftrightarrow> wf_store s \<and> sync s \<and> refs s"

lemma good_empty [simp]: "good_store empty_store"
  by (simp add: good_store_def)

lemma good_dispatch:
  assumes "good_store s" and "legal_event h t (ledger_of s)"
  shows "\<exists>s'. dispatch h t s = Inr s' \<and> good_store s' \<and> ledger_of s' = ledger_effect (event_op h t) (ledger_of s)"
proof -
  obtain s' where s': "dispatch h t s = Inr s'"
    using succeeds_dispatch [OF _ assms(2)] assms(1) by (auto simp: succeeds_iff good_store_def)
  then show ?thesis
    using assms wf_dispatch [OF _ legal_transfers_known [OF assms(2)]] sync_dispatch [of s h t]
      refs_dispatch [of s h t] evolves_dispatch [of s h t]
    by (simp add: good_store_def evolves_def)
qed

lemma legal_chain_indexed:
  assumes "good_store s" and "legal_chain h es (ledger_of s)"
  shows "\<exists>s'. run_subgraph h es s = Inr s' \<and> good_store s' \<and>
     ledger_of s' = ledger_of_run h es (ledger_of s)"
  using assms
proof (induction es arbitrary: s)
  case Nil
  then show ?case by (simp add: run_subgraph_def ledger_of_run_def)
next
  case (Cons e es)
  from Cons.prems(2) have "legal_event h e (ledger_of s)" by simp
  from good_dispatch [OF Cons.prems(1) this]
  obtain s1 where s1: "dispatch h e s = Inr s1" "good_store s1"
      "ledger_of s1 = ledger_effect (event_op h e) (ledger_of s)"
    by blast
  then obtain s' where "run_subgraph h es s1 = Inr s'" "good_store s'"
      "ledger_of s' = ledger_of_run h es (ledger_of s1)"
    using Cons.IH [OF s1(2)] Cons.prems(2) by auto
  then show ?case using s1 by (simp add: run_subgraph_def ledger_of_run_def)
qed

lemma ledger_of_empty [simp]: "ledger_of empty_store = Map.empty"
  by (simp add: ledger_of_def fun_eq_iff empty_store_def)

end
