(* ===== verification/Wallets.thy ===== *)
theory Wallets
  imports Progress
begin

text \<open>
  What the subgraph promises about licensed user wallets and collections. Wallets: an abstract
  table of owners and thresholds, which the handlers of \<open>luw-mapping.ts\<close> refine and which no
  handler of another data source touches. Collections: a data source template is started for
  exactly the collections of the store. Batches: preparing a batch twice changes nothing.
\<close>

section \<open>The owner list\<close>

lemma splice1_index_of: "index_of x xs = Some i \<Longrightarrow> splice1 i xs = remove1 x xs"
  by (induction xs arbitrary: i) (auto simp: splice1_def split: if_splits)

lemma remove_index: "(case index_of x xs of None \<Rightarrow> xs | Some i \<Rightarrow> splice1 i xs) = remove1 x xs"
  by (auto simp: index_of_None splice1_index_of remove1_idem split: option.split)

section \<open>The abstract table of wallets\<close>

type_synonym wallets = "string \<rightharpoonup> address list \<times> int"

text \<open>A wallet is created once; every other event changes only a wallet that exists.\<close>

fun wallet_step :: "luw_event \<Rightarrow> wallets \<Rightarrow> wallets" where
  "wallet_step (CreateLicensedUserWallet w owners threshold en on ty salt) W =
     (case W (toHex w) of None \<Rightarrow> W(toHex w \<mapsto> (owners, threshold)) | Some _ \<Rightarrow> W)"
| "wallet_step (UpgradeLicensedUserWalletToMulti w owners threshold) W =
     (case W (toHex w) of None \<Rightarrow> W | Some _ \<Rightarrow> W(toHex w \<mapsto> (owners, threshold)))"
| "wallet_step (AddedOwner w a) W =
     (case W (toHex w) of None \<Rightarrow> W | Some (os, th) \<Rightarrow> W(toHex w \<mapsto> (os @ [a], th)))"
| "wallet_step (RemovedOwner w a) W =
     (case W (toHex w) of None \<Rightarrow> W | Some (os, th) \<Rightarrow> W(toHex w \<mapsto> (remove1 a os, th)))"
| "wallet_step (ChangedThreshold w threshold) W =
     (case W (toHex w) of None \<Rightarrow> W | Some (os, th) \<Rightarrow> W(toHex w \<mapsto> (os, threshold)))"
| "wallet_step (UpdateLicensedUserDetail w k v) W = W"
| "wallet_step (MigrateLicensedUserWallet w c t) W = W"

fun wallet_effect :: "eth_event \<times> trigger \<Rightarrow> wallets \<Rightarrow> wallets" where
  "wallet_effect (ev, LicensedUserManager e) W = wallet_step e W"
| "wallet_effect (ev, _) W = W"

definition wallets_of_run :: "(eth_event \<times> trigger) list \<Rightarrow> wallets \<Rightarrow> wallets" where
  "wallets_of_run es W = foldl (\<lambda>W e. wallet_effect e W) W es"

definition wallet_view :: "luw \<Rightarrow> (address list \<times> int) option" where
  "wallet_view e = (case (luw_owners e, luw_threshold e) of
     (Some os, Some th) \<Rightarrow> Some (os, th) | _ \<Rightarrow> None)"

definition wallets_of :: "store \<Rightarrow> wallets" where
  "wallets_of s k = (case luws s k of None \<Rightarrow> None | Some e \<Rightarrow> wallet_view e)"

text \<open>Wallets are well-formed: the part of \<open>wf_store\<close> the wallet handlers keep by themselves.\<close>

definition wf_wallets :: "store \<Rightarrow> bool" where
  "wf_wallets s \<longleftrightarrow> table_all (\<lambda>k e. luw_id e = k \<and> wallet_view e \<noteq> None) (luws s)"

lemma wallets_of_save [simp]: "wallets_of (save_luw e s) = (wallets_of s)(luw_id e := wallet_view e)"
  by (auto simp: wallets_of_def fun_eq_iff)

lemma wf_wallets_save [intro]: "wf_wallets s \<Longrightarrow> wallet_view e \<noteq> None \<Longrightarrow> wf_wallets (save_luw e s)"
  by (auto simp: wf_wallets_def intro: table_all_upd)

lemma wallet_view_Some:
  "wallet_view e = Some (os, th) \<longleftrightarrow> luw_owners e = Some os \<and> luw_threshold e = Some th"
  by (auto simp: wallet_view_def split: option.splits)

lemma wf_wallets_Some:
  assumes "wf_wallets s" and "luws s k = Some e"
  obtains os th where "luw_id e = k" "luw_owners e = Some os" "luw_threshold e = Some th"
    "wallets_of s k = Some (os, th)"
proof -
  have e: "luw_id e = k" "wallet_view e \<noteq> None"
    using table_allD [OF assms(1) [unfolded wf_wallets_def] assms(2)] by simp_all
  then obtain os th where v: "wallet_view e = Some (os, th)" by (cases "wallet_view e") auto
  then have "wallets_of s k = Some (os, th)" using assms(2) by (simp add: wallets_of_def)
  with that e(1) v [unfolded wallet_view_Some] show ?thesis by blast
qed

lemma wf_wallets_None: "luws s k = None \<Longrightarrow> wallets_of s k = None"
  by (simp add: wallets_of_def)

lemma wf_luw_view:
  assumes "wf_luw k e"
  shows "luw_id e = k \<and> wallet_view e \<noteq> None"
proof -
  from assms have "luw_id e = k" "is_set (luw_owners e)" "is_set (luw_threshold e)"
    by (simp_all only: wf_luw_def)
  then show ?thesis
    by (cases "luw_owners e"; cases "luw_threshold e") (simp_all add: wallet_view_def is_set_def)
qed

lemma wf_store_wallets: "wf_store s \<Longrightarrow> wf_wallets s"
  unfolding wf_wallets_def by (intro table_allI wf_luw_view wf_luws)

lemma wf_wallets_view: "wf_wallets s \<Longrightarrow> wallet_view e = Some v \<Longrightarrow> wf_wallets (save_luw e s)"
  by (rule wf_wallets_save) simp_all

text \<open>The view of an object whose owners and threshold are known.\<close>

lemma wallet_view_known:
  "luw_owners e = Some os \<Longrightarrow> luw_threshold e = Some th \<Longrightarrow> wallet_view e = Some (os, th)"
  by (simp add: wallet_view_def)

text \<open>Saving an object of the wallet \<open>k\<close> sets its view in the abstract table.\<close>

definition sets_wallet :: "store \<Rightarrow> string \<Rightarrow> address list \<times> int \<Rightarrow> store \<Rightarrow> bool" where
  "sets_wallet s k v s' \<longleftrightarrow> wf_wallets s' \<and> wallets_of s' = (wallets_of s)(k \<mapsto> v)"

lemma sets_walletI:
  "wf_wallets s \<Longrightarrow> luw_id e = k \<Longrightarrow> luw_owners e = Some os \<Longrightarrow> luw_threshold e = Some th
   \<Longrightarrow> sets_wallet s k (os, th) (save_luw e s)"
  by (simp add: sets_wallet_def wallet_view_known wf_wallets_view)

lemma sets_wallet_same:
  "sets_wallet s k v s' \<Longrightarrow> wallets_of s k = Some v \<Longrightarrow> wf_wallets s' \<and> wallets_of s' = wallets_of s"
  by (simp add: sets_wallet_def fun_upd_idem)

text \<open>The handlers on a wallet that exists, with its owners and threshold.\<close>

lemma existing_wallet:
  assumes "wf_wallets s" and "luws s (toHex w) = Some l" and "luw_id l = toHex w"
    and "luw_owners l = Some os" and "luw_threshold l = Some th"
  shows "ensures (sets_wallet s (toHex w) (os, th)) (handleCreateLicensedUserWallet ev w os' th' en on ty salt s)"
    "ensures (sets_wallet s (toHex w) (os', th')) (handleUpgradeLicensedUserWalletToMulti ev w os' th' s)"
    "ensures (sets_wallet s (toHex w) (os, th)) (handleUpdateLicensedUserDetail ev w key v s)"
    "ensures (sets_wallet s (toHex w) (os @ [a], th)) (handleAddedOwner ev w a s)"
    "a \<in> set os \<Longrightarrow> ensures (sets_wallet s (toHex w) (remove1 a os, th)) (handleRemovedOwner ev w a s)"
    "ensures (sets_wallet s (toHex w) (os, th')) (handleChangedThreshold ev w th' s)"
    "ensures (sets_wallet s (toHex w) (os, th)) (handleMigrateLicensedUser w c t s)"
  using assms(2-)
  by (simp_all add: handleCreateLicensedUserWallet_def handleUpgradeLicensedUserWalletToMulti_def
      handleUpdateLicensedUserDetail_def handleAddedOwner_def handleRemovedOwner_def
      handleChangedThreshold_def handleMigrateLicensedUser_def Let_def required_def
      sets_walletI [OF assms(1)] splice1_index_of index_of_None split: option.split)

lemma missing_wallet:
  assumes "luws s (toHex w) = None"
  shows "handleUpgradeLicensedUserWalletToMulti ev w os' th' s = Inr s"
    "handleUpdateLicensedUserDetail ev w key v s = Inr s"
    "handleAddedOwner ev w a s = Inr s" "handleRemovedOwner ev w a s = Inr s"
    "handleChangedThreshold ev w th' s = Inr s" "handleMigrateLicensedUser w c t s = Inr s"
  using assms by (simp_all add: handleUpgradeLicensedUserWalletToMulti_def
      handleUpdateLicensedUserDetail_def handleAddedOwner_def handleRemovedOwner_def
      handleChangedThreshold_def handleMigrateLicensedUser_def)

lemma created_wallet:
  assumes "wf_wallets s" and "luws s (toHex w) = None"
  shows "ensures (sets_wallet s (toHex w) (os, th)) (handleCreateLicensedUserWallet ev w os th en on ty salt s)"
  using assms(2) by (simp add: handleCreateLicensedUserWallet_def Let_def new_luw_def sets_walletI [OF assms(1)])

lemma absent_owner: "luws s (toHex w) = Some l \<Longrightarrow> luw_owners l = Some os \<Longrightarrow> a \<notin> set os \<Longrightarrow>
   handleRemovedOwner ev w a s = Inr s"
  by (simp add: handleRemovedOwner_def required_def index_of_None [THEN iffD2])

fun luw_wallet :: "luw_event \<Rightarrow> address" where
  "luw_wallet (CreateLicensedUserWallet w owners threshold en on ty salt) = w"
| "luw_wallet (UpgradeLicensedUserWalletToMulti w owners threshold) = w"
| "luw_wallet (UpdateLicensedUserDetail w k v) = w"
| "luw_wallet (AddedOwner w a) = w"
| "luw_wallet (RemovedOwner w a) = w"
| "luw_wallet (ChangedThreshold w threshold) = w"
| "luw_wallet (MigrateLicensedUserWallet w c t) = w"

lemma luw_refines:
  assumes wf: "wf_wallets s"
  shows "ensures (\<lambda>s'. wf_wallets s' \<and> wallets_of s' = wallet_step e (wallets_of s)) (luw_dispatch h ev e s)"
proof (cases "luws s (toHex (luw_wallet e))")
  case None
  then show ?thesis
    using wf created_wallet [OF wf] by (cases e)
      (simp_all add: missing_wallet wf_wallets_None sets_wallet_def [abs_def])
next
  case (Some l)
  obtain os th where l: "luw_id l = toHex (luw_wallet e)" "luw_owners l = Some os"
      "luw_threshold l = Some th" "wallets_of s (toHex (luw_wallet e)) = Some (os, th)"
    by (rule wf_wallets_Some [OF wf Some])
  note known = existing_wallet [OF wf Some l(1-3), unfolded sets_wallet_def [abs_def]]
  show ?thesis
  proof (cases e)
    case (RemovedOwner w a)
    then show ?thesis
      using known(5) [of a] Some l wf
      by (cases "a \<in> set os") (simp_all add: absent_owner remove1_idem fun_upd_idem)
  qed (use known l in \<open>simp_all add: fun_upd_idem\<close>)
qed

section \<open>What the handlers of the other data sources leave alone\<close>

definition aside_kept :: "store \<Rightarrow> store \<Rightarrow> bool" where
  "aside_kept s s' \<longleftrightarrow> luws s' = luws s \<and> collections s' = collections s \<and>
     collectionTemplates s' = collectionTemplates s"

lemma aside_refl [simp]: "aside_kept s s"
  by (simp add: aside_kept_def)

lemma aside_trans: "aside_kept s s' \<Longrightarrow> aside_kept s' s'' \<Longrightarrow> aside_kept s s''"
  by (simp add: aside_kept_def)

lemma aside_frame [simp]:
  "aside_kept s (save_srr e1 s') = aside_kept s s'" "aside_kept s (save_ch e2 s') = aside_kept s s'"
  "aside_kept s (save_chm e3 s') = aside_kept s s'" "aside_kept s (save_cht e4 s') = aside_kept s s'"
  "aside_kept s (save_sh e5 s') = aside_kept s s'" "aside_kept s (save_pv e6 s') = aside_kept s s'"
  "aside_kept s (save_mh e7 s') = aside_kept s s'" "aside_kept s (save_tc e8 s') = aside_kept s s'"
  "aside_kept s (save_bi e9 s') = aside_kept s s'" "aside_kept s (save_bt e10 s') = aside_kept s s'"
  "aside_kept s (save_bk e11 s') = aside_kept s s'" "aside_kept s (save_rt e12 s') = aside_kept s s'"
  "aside_kept s (save_ex e13 s') = aside_kept s s'" "aside_kept s (remove_rt k s') = aside_kept s s'"
  "aside_kept s (upsert_bis e14 s') = aside_kept s s'" "aside_kept s (upsert_bks e15 s') = aside_kept s s'"
  by (simp_all add: aside_kept_def upsert_bis_def upsert_bks_def)

lemma aside_helpers [simp]:
  "aside_kept s s' \<Longrightarrow> ensures (aside_kept s) (saveSRRMetadataHistory h srr t ev s')"
  "aside_kept s s' \<Longrightarrow> ensures (aside_kept s) (saveCreateSRRInternal h srr p a i d l t ev s')"
  "aside_kept s s' \<Longrightarrow> ensures (aside_kept s) (handleSRRProvenanceInternal h t k from to ch mh uri im sender s')"
  by (simp_all add: saveSRRMetadataHistory_def saveCreateSRRInternal_def
      handleSRRProvenanceInternal_def Let_def split: option.split)

lemma aside_clear:
  assumes "aside_kept s s'"
  shows "ensures (\<lambda>p. aside_kept s (snd p)) (checkAndClearCommitOnTransfer srr t s')"
  using assms by (cases "transferCommits s' (srr_id srr)"; clarsimp simp: checkAndClearCommitOnTransfer_def)

lemma aside_clearD:
  "checkAndClearCommitOnTransfer srr t s' = Inr p \<Longrightarrow> aside_kept s s' \<Longrightarrow> aside_kept s (snd p)"
  by (rule ensuresD [OF aside_clear])

lemma aside_clear_pair:
  "checkAndClearCommitOnTransfer srr t s' = Inr (srr', s2) \<Longrightarrow> aside_kept s s' \<Longrightarrow> aside_kept s s2"
  using aside_clearD [of srr t s' "(srr', s2)"] by simp

lemma aside_recordTransfer:
  assumes "aside_kept s s'"
  shows "ensures (aside_kept s) (recordTransfer h t k from to srr s')"
  unfolding recordTransfer_def
proof (simp add: split_beta del: split_paired_All, intro allI impI)
  fix s2 p
  assume "handleSRRProvenanceInternal h t k from to None None None False None s' = Inr s2"
    and "checkAndClearCommitOnTransfer srr t s2 = Inr p"
  then show "aside_kept s (snd p)"
    using aside_clearD ensuresD [OF aside_helpers(3) [OF assms]] by blast
qed

lemma aside_handleTransfer: "ensures (aside_kept s) (handleTransfer h ev from to tok s)"
  by (simp add: handleTransfer_def Let_def aside_recordTransfer)

lemma aside_handleTransferFromMigration:
  "ensures (aside_kept s) (handleTransferFromMigration h ev from to tok t tx s)"
  by (clarsimp simp: handleTransferFromMigration_def Let_def split_beta aside_clear_pair)

lemma aside_loops:
  "ensures (aside_kept s) (handleSRRHistory h ev toks chs s)"
  "ensures (aside_kept s) (handleMigrateBatch root ls a t u s)"
  unfolding handleSRRHistory_def handleMigrateBatch_def Let_def ensures_simps
  by (intro allI impI foldr_res_ensures; simp add: migratedLeaf_def)+

lemma aside_handlers:
  "ensures (aside_kept s) (handleSRRCommitmentInternal t c k chi sender s)"
  "ensures (aside_kept s) (handleSRRCommitmentCancelledInternal t k sender s)"
  "ensures (aside_kept s) (handleCreateCustomHistoryInternal t i n ty d oc ot s)"
  "ensures (aside_kept s) (handleUpdateCustomHistoryInternal h k t d n s)"
  "ensures (aside_kept s) (handleUpdateSRRInternal t p a k s)"
  "ensures (aside_kept s) (handleUpdateSRRMetadataHashInternal h t k d ev s)"
  "ensures (aside_kept s) (handleLockExternalTransfer h ev tok f s)"
  "ensures (aside_kept s) (handleRoyaltiesSet h ev tok r b s)"
  "ensures (aside_kept s) (handleMigrateSRR h ev tok c' s)"
  "ensures (aside_kept s) (handleProvenanceDateMigrationFix h ev tok t s)"
  "ensures (aside_kept s) (handleCustomHistoryType ev i n s)"
  by (simp_all add: handleSRRCommitmentInternal_def handleSRRCommitmentCancelledInternal_def
      handleCreateCustomHistoryInternal_def handleUpdateCustomHistoryInternal_def
      handleUpdateSRRInternal_def handleUpdateSRRMetadataHashInternal_def
      handleLockExternalTransfer_def handleRoyaltiesSet_def handleMigrateSRR_def
      handleProvenanceDateMigrationFix_def handleCustomHistoryType_def Let_def split: option.split)

lemma aside_creates:
  "ensures (aside_kept s) (handleCreateSRR h ev tok rr d s)"
  "ensures (aside_kept s) (handleCreateSRRWithLockExternalTransfer h ev tok rr d l s)"
  "ensures (aside_kept s) (handleCreateSRRWithCID h ev tok rr c l s)"
  "ensures (aside_kept s) (handleCreateSRRFromMigration h ev tok rr d t tx s)"
  "ensures (aside_kept s) (collection_handleCreateSRR h ev tok rr c l s)"
  by (simp_all add: handleCreateSRR_def handleCreateSRRWithLockExternalTransfer_def
      handleCreateSRRWithCID_def handleCreateSRRFromMigration_def collection_handleCreateSRR_def
      Let_def split: option.split)

lemma aside_bulk:
  "ensures (aside_kept s) (bulkIssue_handleBatchPrepared ev root a s)"
  "ensures (aside_kept s) (bulkIssue_handleCreateSRRWithProof ev root tok hash s)"
  "ensures (aside_kept s) (bulkTransfer_handleBatchPrepared ev root a s)"
  "ensures (aside_kept s) (bulkTransfer_handleApproveSRRByCommitmentWithProof ev root tok hash s)"
  "ensures (aside_kept s) (updateBulkInternal root c tok hash ev s)"
  "ensures (aside_kept s) (bulk_handleBatchPrepared ev root a s)"
  "ensures (aside_kept s) (handleRequestTypeRegistered ev hash str s)"
  "ensures (aside_kept s) (handleRequestTypeUnregistered hash s)"
  "ensures (aside_kept s) (handleExecutionSuccess ev hash s)"
  by (simp_all add: bulkIssue_handleBatchPrepared_def bulkIssue_handleCreateSRRWithProof_def
      bulkTransfer_handleBatchPrepared_def bulkTransfer_handleApproveSRRByCommitmentWithProof_def
      updateBulkInternal_def bulk_handleBatchPrepared_def handleRequestTypeRegistered_def
      handleRequestTypeUnregistered_def handleExecutionSuccess_def Let_def split: option.split)

lemmas aside_shared = aside_helpers(3) [OF aside_refl] aside_handleTransfer
  aside_handleTransferFromMigration aside_loops aside_handlers aside_creates aside_bulk

text \<open>The collections and their data sources; wallets keep them.\<close>

definition collections_kept :: "store \<Rightarrow> store \<Rightarrow> bool" where
  "collections_kept s s' \<longleftrightarrow>
     collections s' = collections s \<and> collectionTemplates s' = collectionTemplates s"

lemma luw_keeps_collections: "ensures (collections_kept s) (luw_dispatch h ev e s)"
  by (cases e) (simp_all add: collections_kept_def handleCreateLicensedUserWallet_def
      handleAddedOwner_def handleRemovedOwner_def handleChangedThreshold_def
      handleUpgradeLicensedUserWalletToMulti_def handleUpdateLicensedUserDetail_def
      handleMigrateLicensedUser_def Let_def split: option.split)

lemma aside_dispatches:
  "ensures (aside_kept s) (mtf_dispatch h ev e1 s)"
  "ensures (aside_kept s) (registry_dispatch h ev e2 s)"
  "ensures (aside_kept s) (bulk_issue_dispatch h ev e3 s)"
  "ensures (aside_kept s) (bulk_transfer_dispatch h ev e4 s)"
  "ensures (aside_kept s) (bulk_dispatch h ev e5 s)"
proof -
  show "ensures (aside_kept s) (mtf_dispatch h ev e1 s)"
    by (cases e1) (simp_all only: mtf_dispatch.simps aside_shared)
  show "ensures (aside_kept s) (registry_dispatch h ev e2 s)"
    by (cases e2) (simp_all only: registry_dispatch.simps delegates aside_shared)
  show "ensures (aside_kept s) (bulk_issue_dispatch h ev e3 s)"
    by (cases e3) (simp_all only: bulk_issue_dispatch.simps aside_shared)
  show "ensures (aside_kept s) (bulk_transfer_dispatch h ev e4 s)"
    by (cases e4) (simp_all only: bulk_transfer_dispatch.simps aside_shared)
  show "ensures (aside_kept s) (bulk_dispatch h ev e5 s)"
    by (cases e5) (simp_all only: bulk_dispatch.simps delegates aside_shared)
qed

text \<open>The factory and the collections keep the wallets.\<close>

lemma factory_keeps_luws:
  "ensures (\<lambda>s'. luws s' = luws s) (factory_dispatch h ev e s)"
  by (cases e) (simp_all add: delegates handleCollectionCreatedInternal_def Let_def)

lemma ownership_keeps:
  "ensures (\<lambda>s'. luws s' = luws s \<and> collectionTemplates s' = collectionTemplates s)
     (handleOwnershipTransferred ev a b s)"
  by (simp add: handleOwnershipTransferred_def split: option.split)

lemma aside_collection:
  "ensures (aside_kept s) (collection_dispatch h ev e s) \<or> (\<exists>a b. e = C_OwnershipTransferred a b)"
  by (cases e) (simp_all only: collection_dispatch.simps delegates aside_shared simp_thms
      collection_event.distinct collection_event.inject ex_simps)

section \<open>Wallets refine the abstract table\<close>

lemma same_wallets: "luws s' = luws s \<Longrightarrow> wf_wallets s \<Longrightarrow> wf_wallets s' \<and> wallets_of s' = wallets_of s"
  by (simp add: wf_wallets_def wallets_of_def [abs_def])

lemma kept_wallets:
  assumes "ensures Q r" and "\<And>s'. Q s' \<Longrightarrow> luws s' = luws s" and "wf_wallets s"
  shows "ensures (\<lambda>s'. wf_wallets s' \<and> wallets_of s' = wallets_of s) r"
  by (rule ensures_weaken [OF assms(1)]) (rule same_wallets [OF assms(2,3)])

lemma aside_luws: "aside_kept s s' \<Longrightarrow> luws s' = luws s"
  by (simp add: aside_kept_def)

lemma collection_keeps_luws: "ensures (\<lambda>s'. luws s' = luws s) (collection_dispatch h ev e s)"
proof -
  consider "ensures (aside_kept s) (collection_dispatch h ev e s)" | a b where "e = C_OwnershipTransferred a b"
    using aside_collection by blast
  then show ?thesis
  proof cases
    case 1
    then show ?thesis by (rule ensures_weaken) (rule aside_luws)
  next
    case 2
    then show ?thesis by (simp only: collection_dispatch.simps) (rule ensures_weaken [OF ownership_keeps], simp)
  qed
qed

lemma wallets_dispatch:
  assumes "wf_wallets s"
  shows "ensures (\<lambda>s'. wf_wallets s' \<and> wallets_of s' = wallet_effect t (wallets_of s)) (dispatch h t s)"
proof (rule dispatch_cases)
  fix ev e assume t: "t = (ev, LicensedUserManager e)"
  show "ensures (\<lambda>s'. wf_wallets s' \<and> wallets_of s' = wallet_effect t (wallets_of s)) (luw_dispatch h ev e s)"
    unfolding t wallet_effect.simps by (rule luw_refines [OF assms])
qed (simp_all add: kept_wallets [OF aside_dispatches(1) aside_luws assms]
    kept_wallets [OF aside_dispatches(2) aside_luws assms]
    kept_wallets [OF aside_dispatches(3) aside_luws assms]
    kept_wallets [OF aside_dispatches(4) aside_luws assms]
    kept_wallets [OF aside_dispatches(5) aside_luws assms]
    kept_wallets [OF factory_keeps_luws _ assms] kept_wallets [OF collection_keeps_luws _ assms])

lemma wallets_run:
  "wf_wallets s \<Longrightarrow> ensures (\<lambda>s'. wf_wallets s' \<and> wallets_of s' = wallets_of_run es (wallets_of s)) (run_subgraph h es s)"
proof (induction es arbitrary: s)
  case Nil
  then show ?case by (simp add: run_subgraph_def wallets_of_run_def)
next
  case (Cons e es)
  show ?case
  proof (cases "dispatch h e s")
    case (Inl a)
    then show ?thesis by (simp add: run_subgraph_def)
  next
    case (Inr s1)
    then have "wf_wallets s1" "wallets_of s1 = wallet_effect e (wallets_of s)"
      using ensuresD [OF wallets_dispatch [OF Cons.prems] Inr] by simp_all
    then show ?thesis using Inr Cons.IH [of s1] by (simp add: run_subgraph_def wallets_of_run_def)
  qed
qed

section \<open>One data source per collection\<close>

definition templates_started :: "store \<Rightarrow> bool" where
  "templates_started s \<longleftrightarrow> (\<forall>k. is_set (collections s k) \<longleftrightarrow> k \<in> toHex ` set (collectionTemplates s)) \<and>
     table_all (\<lambda>k e. col_id e = k) (collections s)"

lemma templates_kept: "collections_kept s s' \<Longrightarrow> templates_started s \<Longrightarrow> templates_started s'"
  by (simp add: collections_kept_def templates_started_def)

lemma aside_collections: "aside_kept s s' \<Longrightarrow> collections_kept s s'"
  by (simp add: aside_kept_def collections_kept_def)

lemma templates_via:
  "ensures (aside_kept s) r \<Longrightarrow> templates_started s \<Longrightarrow> ensures templates_started r"
  by (rule ensures_weaken, assumption) (rule templates_kept [OF aside_collections])

lemma templates_created:
  assumes "templates_started s"
  shows "ensures templates_started (handleCollectionCreatedInternal t a n sy salt ow s)"
  using assms by (auto simp: handleCollectionCreatedInternal_def Let_def templates_started_def
      new_col_def is_set_def intro: table_all_upd)

lemma templates_ownership:
  assumes "templates_started s"
  shows "ensures templates_started (handleOwnershipTransferred ev a b s)"
proof (cases "collections s (toHex (ev_address ev))")
  case None
  then show ?thesis using assms by (simp add: handleOwnershipTransferred_def)
next
  case (Some c)
  have "col_id c = toHex (ev_address ev)"
    using assms Some by (auto simp: templates_started_def dest: table_allD)
  moreover have "is_set (collections s (toHex (ev_address ev)))" using Some by (simp add: is_set_def)
  ultimately show ?thesis
    using assms Some by (auto simp: handleOwnershipTransferred_def templates_started_def is_set_def
        intro: table_all_upd)
qed

lemma templates_dispatch:
  assumes "templates_started s"
  shows "ensures templates_started (dispatch h t s)"
proof (rule dispatch_cases)
  fix ev e
  show "ensures templates_started (luw_dispatch h ev e s)"
    by (rule ensures_weaken [OF luw_keeps_collections]) (rule templates_kept [OF _ assms])
  show "ensures templates_started (factory_dispatch h ev e' s)" for e'
    using assms by (cases e') (simp only: factory_dispatch.simps delegates templates_created)
  show "ensures templates_started (collection_dispatch h ev e' s)" for e'
    using aside_collection [of s h ev e'] templates_via [OF _ assms] templates_ownership [OF assms]
    by auto
qed (rule templates_via [OF aside_dispatches(1) assms] templates_via [OF aside_dispatches(2) assms]
    templates_via [OF aside_dispatches(3) assms] templates_via [OF aside_dispatches(4) assms]
    templates_via [OF aside_dispatches(5) assms])+

interpretation templates: machine "dispatch h" templates_started for h
  by unfold_locales (rule templates_dispatch)

lemma templates_empty: "templates_started empty_store"
  by (simp add: templates_started_def empty_store_def is_set_def)

section \<open>Batches\<close>

lemma prepared_again:
  "bulkIssue_handleBatchPrepared ev root a s = Inr s1 \<Longrightarrow> bulkIssue_handleBatchPrepared ev' root a' s1 = Inr s1"
  "bulkTransfer_handleBatchPrepared ev root a s = Inr s2 \<Longrightarrow> bulkTransfer_handleBatchPrepared ev' root a' s2 = Inr s2"
  "bulk_handleBatchPrepared ev root a s = Inr s3 \<Longrightarrow> bulk_handleBatchPrepared ev' root a' s3 = Inr s3"
  by (auto simp: bulkIssue_handleBatchPrepared_def bulkTransfer_handleBatchPrepared_def
      bulk_handleBatchPrepared_def new_bi_def new_bt_def new_bk_def split: option.splits)

text \<open>Migrated leaves belong to the migrated batch; a token identifier recorded before is kept.\<close>

definition leaf_token :: "store \<Rightarrow> string \<Rightarrow> string option" where
  "leaf_token s k = (case bulkIssueSRRs s k of None \<Rightarrow> None | Some e \<Rightarrow> bis_tokenId e)"

definition leaf_of :: "string \<Rightarrow> bytes \<Rightarrow> string option \<Rightarrow> store \<Rightarrow> bool" where
  "leaf_of root l tok s =
     (case bulkIssueSRRs s (toHex l) of None \<Rightarrow> False
      | Some e \<Rightarrow> bis_bulkIssue e = Some root \<and> bis_hash e = Some l \<and> bis_tokenId e = tok)"

lemma leaf_of_cong: "bulkIssueSRRs s' (toHex l) = bulkIssueSRRs s (toHex l) \<Longrightarrow> leaf_of r l tok s' = leaf_of r l tok s"
  by (simp add: leaf_of_def)

lemma migratedLeaf_leaf:
  assumes "migratedLeaf r t l s = Inr s1"
  shows "leaf_of r l (leaf_token s (toHex l)) s1"
    and "leaf_token s1 k = leaf_token s k"
    and "k \<noteq> toHex l \<Longrightarrow> bulkIssueSRRs s1 k = bulkIssueSRRs s k"
    and "bulkIssues s1 = bulkIssues s"
proof -
  obtain str where s1: "s1 = upsert_bis ((new_bis (toHex l))\<lparr>bis_bulkIssue := Some r,
      bis_hash := Some l, bis_createdAt := Some t, bis_createdAtStr := Some str\<rparr>) s"
    using assms unfolding migratedLeaf_def bindr_Inr_iff sum.inject by blast
  show "leaf_of r l (leaf_token s (toHex l)) s1" "leaf_token s1 k = leaf_token s k"
    "k \<noteq> toHex l \<Longrightarrow> bulkIssueSRRs s1 k = bulkIssueSRRs s k" "bulkIssues s1 = bulkIssues s"
    unfolding s1 by (simp_all add: leaf_of_def leaf_token_def upsert_bis_def new_bis_def
        keep_attr_def split: option.split)
qed

lemma migrated_leaves:
  assumes "foldr_res (migratedLeaf r t) ls s = Inr s'"
  shows "(\<forall>l \<in> set ls. leaf_of r l (leaf_token s (toHex l)) s') \<and>
    (\<forall>k. k \<notin> toHex ` set ls \<longrightarrow> bulkIssueSRRs s' k = bulkIssueSRRs s k) \<and> bulkIssues s' = bulkIssues s"
  using assms
proof (induction ls arbitrary: s)
  case Nil
  then show ?case by simp
next
  case (Cons x xs)
  from Cons.prems obtain s1 where x: "migratedLeaf r t x s = Inr s1"
    and xs: "foldr_res (migratedLeaf r t) xs s1 = Inr s'" by auto
  note ih = Cons.IH [OF xs] and one = migratedLeaf_leaf [OF x]
  have "leaf_of r x (leaf_token s (toHex x)) s'"
  proof (cases "toHex x \<in> toHex ` set xs")
    case True
    then have "x \<in> set xs" by auto
    then show ?thesis using ih one(2) by simp
  next
    case False
    then show ?thesis using ih one(1) leaf_of_cong [of s' x s1] by simp
  qed
  then show ?case using ih one by simp
qed

lemma migrateBatch_leaves:
  assumes "handleMigrateBatch root ls a t u s = Inr s'"
  shows "(\<forall>l \<in> set ls. leaf_of (toHex root) l (leaf_token s (toHex l)) s') \<and>
    (\<forall>k. k \<notin> toHex ` set ls \<longrightarrow> bulkIssueSRRs s' k = bulkIssueSRRs s k) \<and>
    (\<exists>b. bulkIssues s' (toHex root) = Some b \<and> bi_issuer b = Some a)"
proof -
  obtain s0 where run: "foldr_res (migratedLeaf (toHex root) (secondsToMillis u)) ls s0 = Inr s'"
    and s0: "bulkIssueSRRs s0 = bulkIssueSRRs s" "\<exists>b. bulkIssues s0 (toHex root) = Some b \<and> bi_issuer b = Some a"
    using assms unfolding handleMigrateBatch_def Let_def by (auto simp: new_bi_def)
  show ?thesis using migrated_leaves [OF run] s0 by (simp add: leaf_token_def)
qed

end
