(* ===== verification/Transfers.thy ===== *)
theory Transfers
  imports Progress
begin

text \<open>
  What a transfer and a provenance leave in the store, attribute by attribute: the owner, the
  commitment that is cleared, the provenance that is recorded, and the frame. The two gaps of
  the handlers are stated as they are: a transfer of a token that was never seen leaves an SRR
  without its creation time, and a second provenance of a token at one time is not recorded.
\<close>

section \<open>Provenances\<close>

definition provenance_recorded :: "host \<Rightarrow> int \<Rightarrow> string \<Rightarrow> address \<Rightarrow> address \<Rightarrow> store \<Rightarrow> bool" where
  "provenance_recorded h t k from to s =
     (case provenances s (provenanceId h k t) of None \<Rightarrow> False
      | Some p \<Rightarrow> pv_srr p = Some k \<and> pv_from p = Some from \<and> pv_to p = Some to)"

definition owned_by :: "store \<Rightarrow> string \<Rightarrow> address \<Rightarrow> bool" where
  "owned_by s k a = (case srrs s k of None \<Rightarrow> False | Some e \<Rightarrow> srr_ownerAddress e = Some a)"

lemma provenance_effect:
  assumes "sync s" and "is_set (srrs s k)"
  shows "ensures (\<lambda>s'. owned_by s' k to \<and> is_set (provenances s' (provenanceId h k t)) \<and>
      (if is_set (provenances s (provenanceId h k t)) then provenances s' = provenances s
       else provenance_recorded h t k from to s') \<and>
      transferCommits s' = transferCommits s \<and> (\<forall>k'. k' \<noteq> k \<longrightarrow> srrs s' k' = srrs s k'))
    (handleSRRProvenanceInternal h t k from to ch mh uri i sender s)"
proof -
  obtain srr where srr: "srrs s k = Some srr" using assms(2) by (cases "srrs s k") (simp_all add: is_set_def)
  have "srr_id srr = k" by (rule sync_srr_id [OF assms(1) srr])
  then show ?thesis
    by (simp add: handleSRRProvenanceInternal_def Let_def srr owned_by_def provenance_recorded_def
        new_pv_def is_set_def split: option.split)
qed

text \<open>The second provenance of a token at one time changes the owner and records nothing.\<close>

lemma second_provenance:
  assumes "sync s" and "is_set (srrs s k)"
    and "handleSRRProvenanceInternal h t k from1 to1 ch1 mh1 uri1 i1 sender1 s = Inr s1"
    and "handleSRRProvenanceInternal h t k from2 to2 ch2 mh2 uri2 i2 sender2 s1 = Inr s2"
  shows "provenances s2 = provenances s1 \<and> owned_by s2 k to2"
proof -
  note one = ensuresD [OF provenance_effect [OF assms(1,2)] assms(3)]
  have "sync s1" using ensuresD [OF sync_handleSRRProvenanceInternal assms(3)] assms(1) by simp
  moreover have "is_set (srrs s1 k)"
    using conjunct1 [OF one] by (simp add: owned_by_def is_set_def split: option.splits)
  ultimately show ?thesis
    using ensuresD [OF provenance_effect assms(4)] one by simp
qed

section \<open>Transfers\<close>

definition commitment_cleared :: "store \<Rightarrow> store \<Rightarrow> string \<Rightarrow> bool" where
  "commitment_cleared s s' k =
     ((case srrs s' k of None \<Rightarrow> False | Some e \<Rightarrow> srr_transferCommitment e = None) \<and>
      (case transferCommits s' k of
         None \<Rightarrow> transferCommits s k = None
       | Some c \<Rightarrow> is_set (transferCommits s k) \<and> tc_commitment c = None \<and> tc_lastAction c = Some Transfer))"

lemma commitment_cleared_save [simp]: "commitment_cleared (save_srr e s) s' k = commitment_cleared s s' k"
  by (simp add: commitment_cleared_def cong: option.case_cong)

lemma clear_effect:
  "ensures (\<lambda>p. srrs (snd p) = srrs s \<and> provenances (snd p) = provenances s \<and>
      fst p = srr\<lparr>srr_transferCommitment := None\<rparr> \<and>
      (\<forall>k'. k' \<noteq> srr_id srr \<longrightarrow> tc_id (the (transferCommits s (srr_id srr))) = srr_id srr \<longrightarrow>
         transferCommits (snd p) k' = transferCommits s k') \<and>
      (case transferCommits s (srr_id srr) of
         None \<Rightarrow> transferCommits (snd p) = transferCommits s
       | Some c \<Rightarrow> tc_id c = srr_id srr \<longrightarrow> (case transferCommits (snd p) (srr_id srr) of None \<Rightarrow> False
           | Some c' \<Rightarrow> tc_commitment c' = None \<and> tc_lastAction c' = Some Transfer)))
    (checkAndClearCommitOnTransfer srr t s)"
  by (cases "transferCommits s (srr_id srr)"; clarsimp simp: checkAndClearCommitOnTransfer_def)

text \<open>The effect of a recorded transfer of the token \<open>k\<close>.\<close>

definition transfer_effect ::
  "host \<Rightarrow> int \<Rightarrow> string \<Rightarrow> address \<Rightarrow> address \<Rightarrow> store \<Rightarrow> store \<Rightarrow> bool" where
  "transfer_effect h t k from to s s' \<longleftrightarrow>
     owned_by s' k to \<and> commitment_cleared s s' k \<and>
     (if is_set (provenances s (provenanceId h k t)) then provenances s' = provenances s
      else provenance_recorded h t k from to s') \<and>
     (\<forall>k'. k' \<noteq> k \<longrightarrow> srrs s' k' = srrs s k' \<and> transferCommits s' k' = transferCommits s k')"

lemma recordTransfer_effect:
  assumes "sync s" and "srr_id srr = k" and "srrs s k = Some srr" and "srr_ownerAddress srr = Some to"
  shows "ensures (transfer_effect h t k from to s) (recordTransfer h t k from to srr s)"
  unfolding recordTransfer_def ensures_simps
proof (intro allI impI)
  fix s2 p
  assume prov: "handleSRRProvenanceInternal h t k from to None None None False None s = Inr s2"
    and clear: "checkAndClearCommitOnTransfer srr t s2 = Inr p"
  have one: "provenances s2 (provenanceId h k t) \<noteq> None"
      "if is_set (provenances s (provenanceId h k t)) then provenances s2 = provenances s
       else provenance_recorded h t k from to s2"
      "transferCommits s2 = transferCommits s" "\<forall>k'. k' \<noteq> k \<longrightarrow> srrs s2 k' = srrs s k'"
    using ensuresD [OF provenance_effect [OF assms(1)] prov] assms(3) by (simp_all add: is_set_def)
  have tc: "tc_id c = k" if "transferCommits s k = Some c" for c
    using sync_tc_id [OF assms(1) that] .
  note cl = ensuresD [OF clear_effect clear, unfolded assms(2) one(3)]
  obtain e s3 where p: "p = (e, s3)" by (cases p)
  have e: "e = srr\<lparr>srr_transferCommitment := None\<rparr>" "srrs s3 = srrs s2" "provenances s3 = provenances s2"
    using cl p by simp_all
  have "commitment_cleared s (save_srr e s3) k"
    using cl tc assms(2) unfolding p e(1) commitment_cleared_def
    by (cases "transferCommits s k") (auto simp: is_set_def split: option.splits)
  moreover have "transferCommits s3 k' = transferCommits s k'" if "k' \<noteq> k" for k'
    using cl tc that p by (cases "transferCommits s k") auto
  ultimately show "ensures (transfer_effect h t k from to s) (case p of (srr', s3) \<Rightarrow> Inr (save_srr srr' s3))"
    using one e assms(2,4) unfolding p transfer_effect_def
    by (auto simp: owned_by_def provenance_recorded_def)
qed

lemma handleTransfer_effect:
  assumes "sync s" and "from \<noteq> ZERO_ADDRESS"
  shows "ensures (transfer_effect h (eventUTCMillis ev) (srrEntityId h (ev_address ev) tok) from to s)
    (handleTransfer h ev from to tok s)"
proof -
  let ?k = "srrEntityId h (ev_address ev) tok" and ?t = "eventUTCMillis ev"
  have "ensures (transfer_effect h ?t ?k from to s) (recordTransfer h ?t ?k from to e (save_srr e s))"
    if tr: "transferredSrr h ev m tok s = Inr srr"
      and e: "e = srr\<lparr>srr_ownerAddress := Some to, srr_updatedAt := u, srr_updatedAtStr := us\<rparr>"
    for srr e u us m
  proof -
    have id: "srr_id e = ?k" using transferredSrr_cases [OF tr] sync_srr_id [OF assms(1)] e by auto
    have "sync (save_srr e s)"
      using transferredSrr_cases [OF tr] e
      by (auto intro: sync_update_srr [OF assms(1)] sync_new_srr [OF assms(1)])
    then have "ensures (transfer_effect h ?t ?k from to (save_srr e s))
        (recordTransfer h ?t ?k from to e (save_srr e s))"
      by (rule recordTransfer_effect) (use id e in simp_all)
    then show ?thesis
      by (rule ensures_weaken) (use id in \<open>simp add: transfer_effect_def\<close>)
  qed
  then show ?thesis using assms(2) by (simp add: handleTransfer_def Let_def)
qed

text \<open>A transfer of a token that was never seen leaves an SRR that lacks its creation time.\<close>

lemma recordTransfer_created:
  assumes "srrs s k = Some srr" and "srr_id srr = k" and "srr_createdAt srr = None"
    and "recordTransfer h t k from to srr s = Inr s'"
  shows "\<exists>e. srrs s' k = Some e \<and> srr_createdAt e = None"
proof -
  obtain s2 p where clear: "checkAndClearCommitOnTransfer srr t s2 = Inr p"
    and s': "s' = save_srr (fst p) (snd p)"
    using assms(4) unfolding recordTransfer_def by (auto split: prod.splits)
  have "fst p = srr\<lparr>srr_transferCommitment := None\<rparr>" using ensuresD [OF clear_effect clear] by simp
  then show ?thesis using s' assms(2,3) by simp
qed

lemma unseen_transfer:
  assumes "srrs s (srrEntityId h (ev_address ev) tok) = None" and "from \<noteq> ZERO_ADDRESS"
    and "handleTransfer h ev from to tok s = Inr s'"
  shows "\<exists>e. srrs s' (srrEntityId h (ev_address ev) tok) = Some e \<and> srr_createdAt e = None"
    and "\<not> wf_store s'"
proof -
  let ?k = "srrEntityId h (ev_address ev) tok"
  obtain srr e where srr: "transferredSrr h ev False tok s = Inr srr"
    and e: "srr_id e = srr_id srr" "srr_createdAt e = srr_createdAt srr"
    and run: "recordTransfer h (eventUTCMillis ev) ?k from to e (save_srr e s) = Inr s'"
  proof -
    from assms(2,3) obtain srr str where "transferredSrr h ev False tok s = Inr srr"
      and "recordTransfer h (eventUTCMillis ev) ?k from to
        (srr\<lparr>srr_ownerAddress := Some to, srr_updatedAt := Some (eventUTCMillis ev), srr_updatedAtStr := Some str\<rparr>)
        (save_srr (srr\<lparr>srr_ownerAddress := Some to, srr_updatedAt := Some (eventUTCMillis ev), srr_updatedAtStr := Some str\<rparr>) s) = Inr s'"
      by (auto simp: handleTransfer_def Let_def)
    then show thesis by (intro that) simp_all
  qed
  have "srr_id srr = ?k" "srr_createdAt srr = None"
    using srr assms(1) by (auto simp: transferredSrr_def Let_def new_srr_def)
  with e run show ex: "\<exists>e. srrs s' ?k = Some e \<and> srr_createdAt e = None"
    by (intro recordTransfer_created [of "save_srr e s" ?k e]) simp_all
  show "\<not> wf_store s'"
  proof
    assume "wf_store s'"
    with ex show False by (auto simp: wf_srr_def stamped_def dest!: wf_srrs)
  qed
qed

section \<open>Creations and approvals\<close>

lemma create_null_iff:
  assumes "valid_time (eventUTCMillis ev)"
  shows "(handleCreateSRR h ev tok rr d s = Inl NullReference) =
      (srrs s (srrEntityId h (ev_address ev) tok) = None)"
    and "(handleCreateSRRWithLockExternalTransfer h ev tok rr d l s = Inl NullReference) =
      (srrs s (srrEntityId h (ev_address ev) tok) = None)"
    and "(handleCreateSRRWithCID h ev tok rr c l s = Inl NullReference) =
      (srrs s (srrEntityId h (ev_address ev) tok) = None)"
    and "(collection_handleCreateSRR h ev tok rr c l s = Inr s) \<or>
      is_set (srrs s (srrEntityId h (ev_address ev) tok))"
proof -
  have ok: "\<exists>s'. saveCreateSRRInternal h e p a i d' l (eventUTCMillis ev) ev s = Inr s'" for e p a i d' l
    using succeeds_saveCreateSRRInternal [OF assms] unfolding succeeds_iff .
  show "(handleCreateSRR h ev tok rr d s = Inl NullReference) =
      (srrs s (srrEntityId h (ev_address ev) tok) = None)"
    using ok by (cases "srrs s (srrEntityId h (ev_address ev) tok)")
      (simp_all add: handleCreateSRR_def required_def, metis Inl_Inr_False)
  show "(handleCreateSRRWithLockExternalTransfer h ev tok rr d l s = Inl NullReference) =
      (srrs s (srrEntityId h (ev_address ev) tok) = None)"
    using ok by (cases "srrs s (srrEntityId h (ev_address ev) tok)")
      (simp_all add: handleCreateSRRWithLockExternalTransfer_def required_def, metis Inl_Inr_False)
  show "(handleCreateSRRWithCID h ev tok rr c l s = Inl NullReference) =
      (srrs s (srrEntityId h (ev_address ev) tok) = None)"
    using ok by (cases "srrs s (srrEntityId h (ev_address ev) tok)")
      (simp_all add: handleCreateSRRWithCID_def required_def, metis Inl_Inr_False)
  show "(collection_handleCreateSRR h ev tok rr c l s = Inr s) \<or>
      is_set (srrs s (srrEntityId h (ev_address ev) tok))"
    by (cases "srrs s (srrEntityId h (ev_address ev) tok)")
      (simp_all add: collection_handleCreateSRR_def is_set_def)
qed

text \<open>The sender of a new commitment entity is the one handed to the shared function.\<close>

lemma commitment_sender:
  assumes "srrs s k = Some e" and "transferCommits s k = None"
    and "handleSRRCommitmentInternal t c k ch sender s = Inr s'"
  shows "map_option tc_sender (transferCommits s' k) = Some sender"
  using assms by (cases ch; cases sender)
    (auto simp: handleSRRCommitmentInternal_def Let_def new_tc_def)

end
