(* ===== verification/Samples.thy ===== *)
theory Samples
  imports Wallets Transfers Forwarder Administrator TxHelpers
begin

text \<open>
  Concrete hosts, packages and data for the witnesses: functions that satisfy the documented
  hypotheses on the parameters, so that the properties are applied where all of them hold.
\<close>

section \<open>A host\<close>

definition utf8 :: "string \<Rightarrow> bytes" where
  "utf8 s = map (\<lambda>c. of_nat (of_char c)) s"

text \<open>Hashes are the identity, which does not collide; numbers are their decimal digits.\<close>

definition sample_host :: host where
  "sample_host = \<lparr>keccak256 = (\<lambda>b. b), fromBigInt = (\<lambda>i. utf8 (int_dec i)), bigIntToHex = int_dec,
     fromHexString = (\<lambda>s. Some (utf8 s)), fromUTF8 = utf8, network = ''matic''\<rparr>"

definition sample_event :: "int \<Rightarrow> eth_event" where
  "sample_event t = \<lparr>ev_address = replicate 20 7, ev_timestamp = t, ev_txHash = [1, 2],
     ev_logIndex = 3, ev_parameters = []\<rparr>"

definition alice :: address where
  "alice = replicate 20 1"

definition bob :: address where
  "bob = replicate 20 2"

definition carol :: address where
  "carol = replicate 20 3"

text \<open>A token is minted and created, committed to a transfer and transferred; a batch is prepared.\<close>

definition sample_chain :: "(eth_event \<times> trigger) list" where
  "sample_chain =
     [(sample_event 1, LicensedUserManager (CreateLicensedUserWallet alice [alice, bob] 1 ''a'' ''b'' 0 [9])),
      (sample_event 2, LicensedUserManager (AddedOwner alice carol)),
      (sample_event 3, LicensedUserManager (RemovedOwner alice bob)),
      (sample_event 4, StartrailRegistry (R_Transfer ZERO_ADDRESS alice 5)),
      (sample_event 5, StartrailRegistry (R_CreateSRRWithCID 5
         \<lparr>rr_isPrimaryIssuer = True, rr_artistAddress = alice, rr_issuer = bob\<rparr> ''cid'' False)),
      (sample_event 6, StartrailRegistry (R_SRRCommitment 5 alice [4])),
      (sample_event 7, StartrailRegistry (R_Transfer alice bob 5)),
      (sample_event 8, Bulk (BK_BatchPrepared [8] alice)),
      (sample_event 9, CollectionFactory (CollectionCreated carol alice ''n'' ''s'' [1]))]"

lemma sample_host_legal: "legal_chain sample_host sample_chain Map.empty"
  by (simp add: sample_chain_def seconds_ok_def valid_time_def date_limit_def eventUTCMillis_def
      secondsToMillis_def sample_event_def seen_token_def ledger_effect_def transfer_op_def is_set_def)

section \<open>Stores along the sample chain\<close>

definition result_or :: "'a \<Rightarrow> 'e + 'a \<Rightarrow> 'a" where
  "result_or d r = (case r of Inl _ \<Rightarrow> d | Inr x \<Rightarrow> x)"

lemma result_or_succeeds: "succeeds r \<Longrightarrow> r = Inr (result_or d r)"
  by (cases r) (simp_all add: result_or_def)

definition sample_store :: store where
  "sample_store = result_or empty_store (run_subgraph sample_host sample_chain empty_store)"

lemma sample_run: "run_subgraph sample_host sample_chain empty_store = Inr sample_store"
  unfolding sample_store_def
  by (rule result_or_succeeds) (use legal_chain_indexed [OF good_empty, of sample_host sample_chain]
    sample_host_legal in \<open>auto simp: succeeds_iff\<close>)

lemma sample_good: "good_store sample_store"
  using legal_chain_indexed [OF good_empty, of sample_host sample_chain] sample_host_legal sample_run
  by simp

lemma sample_sync: "sync sample_store"
  using sample_good by (simp add: good_store_def)

definition sample_token :: string where
  "sample_token = srrEntityId sample_host (replicate 20 7) 5"

lemma sample_ledger: "ledger_of sample_store sample_token = Some (Some bob, None)"
  using legal_chain_indexed [OF good_empty, of sample_host sample_chain] sample_host_legal sample_run
  by (simp add: ledger_of_run_def sample_chain_def sample_event_def ledger_effect_def transfer_op_def
      alice_def ZERO_ADDRESS_def sample_token_def)

lemma sample_srr_set: "is_set (srrs sample_store sample_token)"
  using sample_ledger by (cases "srrs sample_store sample_token") (simp_all add: ledger_of_def is_set_def)

definition sample_srr :: srr where
  "sample_srr = the (srrs sample_store sample_token)"

lemma sample_srr_known: "srrs sample_store sample_token = Some sample_srr"
  using sample_srr_set by (cases "srrs sample_store sample_token") (simp_all add: sample_srr_def is_set_def)

lemma bob_not_zero: "bob \<noteq> ZERO_ADDRESS"
  by (simp add: bob_def ZERO_ADDRESS_def)

text \<open>The store after the transfer, and the rest of the chain.\<close>

definition sample_prefix :: store where
  "sample_prefix = result_or empty_store (run_subgraph sample_host (take 7 sample_chain) empty_store)"

lemma sample_split:
  "run_subgraph sample_host (take 7 sample_chain) empty_store = Inr sample_prefix"
  "run_subgraph sample_host (drop 7 sample_chain) sample_prefix = Inr sample_store"
proof -
  have "run_subgraph sample_host (take 7 sample_chain @ drop 7 sample_chain) empty_store = Inr sample_store"
    using sample_run by (simp only: append_take_drop_id)
  then obtain s where s: "run_subgraph sample_host (take 7 sample_chain) empty_store = Inr s"
      "run_subgraph sample_host (drop 7 sample_chain) s = Inr sample_store"
    unfolding run_subgraph_def foldr_res_append by auto
  moreover have "sample_prefix = s" using s(1) by (simp add: sample_prefix_def result_or_def)
  ultimately show "run_subgraph sample_host (take 7 sample_chain) empty_store = Inr sample_prefix"
    "run_subgraph sample_host (drop 7 sample_chain) sample_prefix = Inr sample_store" by simp_all
qed

lemma sample_prefix_inv: "sync sample_prefix" "refs sample_prefix"
  using ensuresD [OF commitments.run_keeps [OF sync_empty] sample_split(1) [unfolded run_subgraph_def]]
    ensuresD [OF references.run_keeps [OF refs_empty] sample_split(1) [unfolded run_subgraph_def]]
  by simp_all

definition sample_provenance :: string where
  "sample_provenance = provenanceId sample_host sample_token 7000"

text \<open>The transfer of the chain is recorded.\<close>

lemma sample_prefix_provenance: "is_set (provenances sample_prefix sample_provenance)"
proof -
  have "take 7 sample_chain = take 6 sample_chain @ [sample_chain ! 6]"
    by (simp add: sample_chain_def)
  then obtain s where s: "run_subgraph sample_host (take 6 sample_chain) empty_store = Inr s"
      "dispatch sample_host (sample_chain ! 6) s = Inr sample_prefix"
    using sample_split(1) unfolding run_subgraph_def by (auto simp: foldr_res_append)
  have "sync s"
    using ensuresD [OF commitments.run_keeps [OF sync_empty] s(1) [unfolded run_subgraph_def]] .
  moreover have "alice \<noteq> ZERO_ADDRESS" by (simp add: alice_def ZERO_ADDRESS_def)
  moreover have "handleTransfer sample_host (sample_event 7) alice bob 5 s = Inr sample_prefix"
    using s(2) by (simp add: sample_chain_def)
  ultimately have "transfer_effect sample_host 7000 sample_token alice bob s sample_prefix"
    using ensuresD [OF handleTransfer_effect]
    by (fastforce simp: sample_token_def sample_event_def eventUTCMillis_def secondsToMillis_def)
  then show ?thesis
    by (auto simp: transfer_effect_def provenance_recorded_def sample_provenance_def is_set_def
        split: if_splits option.splits)
qed

definition sample_pv :: pv where
  "sample_pv = the (provenances sample_prefix sample_provenance)"

lemma sample_pv_known: "provenances sample_prefix sample_provenance = Some sample_pv"
  using sample_prefix_provenance by (cases "provenances sample_prefix sample_provenance")
    (simp_all add: sample_pv_def is_set_def)

text \<open>A second transfer, a transfer of a token that was never seen, and two provenances at one time.\<close>

lemma sample_valid: "valid_time (eventUTCMillis (sample_event 9))"
  by (simp add: valid_time_def date_limit_def sample_event_def eventUTCMillis_def secondsToMillis_def)

definition sample_transferred :: store where
  "sample_transferred = result_or empty_store (handleTransfer sample_host (sample_event 9) bob carol 5 sample_store)"

lemma sample_transfer:
  "handleTransfer sample_host (sample_event 9) bob carol 5 sample_store = Inr sample_transferred"
  unfolding sample_transferred_def by (rule result_or_succeeds) (simp add: sample_valid)

definition sample_unseen :: store where
  "sample_unseen = result_or empty_store (handleTransfer sample_host (sample_event 9) bob carol 6 empty_store)"

lemma sample_unseen_transfer:
  "handleTransfer sample_host (sample_event 9) bob carol 6 empty_store = Inr sample_unseen"
  unfolding sample_unseen_def by (rule result_or_succeeds) (simp add: sample_valid)

lemma empty_no_srr: "srrs empty_store k = None"
  by (simp add: empty_store_def)

definition sample_provenance_step :: "address \<Rightarrow> address \<Rightarrow> store \<Rightarrow> abort + store" where
  "sample_provenance_step from to =
     handleSRRProvenanceInternal sample_host 20000 sample_token from to None None None False None"

lemma sample_provenance_step_ok: "succeeds (sample_provenance_step from to s)"
  unfolding sample_provenance_step_def
  by (rule succeeds_handleSRRProvenanceInternal)
    (simp_all add: valid_time_def date_limit_def provenanceDigest_def)

definition sample_twice1 :: store where
  "sample_twice1 = result_or empty_store (sample_provenance_step bob carol sample_store)"

definition sample_twice2 :: store where
  "sample_twice2 = result_or empty_store (sample_provenance_step carol alice sample_twice1)"

lemma sample_twice:
  "sample_provenance_step bob carol sample_store = Inr sample_twice1"
  "sample_provenance_step carol alice sample_twice1 = Inr sample_twice2"
  unfolding sample_twice1_def sample_twice2_def
  by (rule result_or_succeeds sample_provenance_step_ok)+

text \<open>A token of a collection, minted, and its two kinds of approval.\<close>

definition sample_token2 :: string where
  "sample_token2 = srrEntityId sample_host (ev_address (sample_event 9)) 6"

definition sample_minted :: store where
  "sample_minted = result_or empty_store (handleTransfer sample_host (sample_event 9) ZERO_ADDRESS carol 6 empty_store)"

lemma sample_mint:
  "handleTransfer sample_host (sample_event 9) ZERO_ADDRESS carol 6 empty_store = Inr sample_minted"
  unfolding sample_minted_def by (rule result_or_succeeds) (simp add: sample_valid)

lemma mint_keeps_commits:
  "ensures (\<lambda>s'. transferCommits s' = transferCommits s) (handleTransfer h ev ZERO_ADDRESS to tok s)"
  by (simp add: handleTransfer_def Let_def)

lemma sample_minted_tc: "transferCommits sample_minted k = None"
  using ensuresD [OF mint_keeps_commits sample_mint] by (simp add: empty_store_def)

lemma sample_minted_set: "is_set (srrs sample_minted sample_token2)"
proof -
  have "ledger_of sample_minted = ledger_effect (Some (transfer_op sample_token2 ZERO_ADDRESS carol)) (ledger_of empty_store)"
    using ensuresD [OF evolves_handleTransfer [OF sync_empty] sample_mint]
    by (simp add: evolves_def sample_token2_def)
  then have "ledger_of sample_minted sample_token2 = Some (Some carol, None)"
    by (simp add: ledger_effect_def transfer_op_def)
  then show ?thesis
    by (cases "srrs sample_minted sample_token2") (simp_all add: ledger_of_def is_set_def)
qed

definition sample_minted_srr :: srr where
  "sample_minted_srr = the (srrs sample_minted sample_token2)"

lemma sample_minted_known: "srrs sample_minted sample_token2 = Some sample_minted_srr"
  using sample_minted_set by (cases "srrs sample_minted sample_token2")
    (simp_all add: sample_minted_srr_def is_set_def)

definition sample_approved1 :: store where
  "sample_approved1 = result_or empty_store
     (collection_handleSRRCommitmentWithCustomHistory sample_host (sample_event 9) 6 [4] 1 carol sample_minted)"

definition sample_approved2 :: store where
  "sample_approved2 = result_or empty_store
     (collection_handleSRRCommitment sample_host (sample_event 9) 6 [4] carol sample_minted)"

lemma sample_approvals:
  "collection_handleSRRCommitmentWithCustomHistory sample_host (sample_event 9) 6 [4] 1 carol sample_minted =
     Inr sample_approved1"
  "collection_handleSRRCommitment sample_host (sample_event 9) 6 [4] carol sample_minted = Inr sample_approved2"
  unfolding sample_approved1_def sample_approved2_def
  by (rule result_or_succeeds, simp add: delegates sample_valid)+

text \<open>The wallet of the chain, an owner added and removed, batches prepared and migrated.\<close>

lemma sample_wallets: "wallets_of sample_store (toHex alice) = Some ([alice, carol], 1)"
  "wf_wallets sample_store"
proof -
  have empty: "wf_wallets empty_store" "wallets_of empty_store = Map.empty"
    by (simp_all add: wf_wallets_def wallets_of_def empty_store_def fun_eq_iff)
  show "wallets_of sample_store (toHex alice) = Some ([alice, carol], 1)"
    using ensuresD [OF wallets_run [OF empty(1)] sample_run] empty(2)
    by (simp add: wallets_of_run_def sample_chain_def alice_def bob_def carol_def)
  show "wf_wallets sample_store" using ensuresD [OF wallets_run [OF empty(1)] sample_run] by simp
qed

lemma sample_prefix_wallets: "wf_wallets sample_prefix"
proof -
  have "wf_wallets empty_store" by (simp add: wf_wallets_def empty_store_def)
  from ensuresD [OF wallets_run [OF this] sample_split(1)] show ?thesis by simp
qed

definition sample_added :: store where
  "sample_added = result_or empty_store (handleAddedOwner (sample_event 9) alice bob sample_store)"

definition sample_removed :: store where
  "sample_removed = result_or empty_store (handleRemovedOwner (sample_event 9) alice bob sample_added)"

lemma sample_wf: "wf_store sample_store"
  using sample_good by (simp add: good_store_def)

lemma sample_owner_steps:
  "handleAddedOwner (sample_event 9) alice bob sample_store = Inr sample_added"
  "handleRemovedOwner (sample_event 9) alice bob sample_added = Inr sample_removed"
proof -
  have "succeeds (luw_dispatch sample_host (sample_event 9) (AddedOwner alice bob) sample_store)"
    by (rule succeeds_luw_dispatch [OF sample_valid sample_wf]) simp
  then show added: "handleAddedOwner (sample_event 9) alice bob sample_store = Inr sample_added"
    unfolding sample_added_def by (intro result_or_succeeds) simp
  have "wf_store sample_added" using ensuresD [OF wf_luw_handlers(2) [OF sample_wf] added] .
  then have "succeeds (luw_dispatch sample_host (sample_event 9) (RemovedOwner alice bob) sample_added)"
    by (intro succeeds_luw_dispatch [OF sample_valid]) simp_all
  then show "handleRemovedOwner (sample_event 9) alice bob sample_added = Inr sample_removed"
    unfolding sample_removed_def by (intro result_or_succeeds) simp
qed

definition sample_batch :: "abort + store \<Rightarrow> store" where
  "sample_batch = result_or empty_store"

lemma sample_batches:
  "bulkIssue_handleBatchPrepared (sample_event 9) [8] alice empty_store =
     Inr (sample_batch (bulkIssue_handleBatchPrepared (sample_event 9) [8] alice empty_store))"
  "bulkTransfer_handleBatchPrepared (sample_event 9) [8] alice empty_store =
     Inr (sample_batch (bulkTransfer_handleBatchPrepared (sample_event 9) [8] alice empty_store))"
  "bulk_handleBatchPrepared (sample_event 9) [8] alice empty_store =
     Inr (sample_batch (bulk_handleBatchPrepared (sample_event 9) [8] alice empty_store))"
  unfolding sample_batch_def by (rule result_or_succeeds, simp add: sample_valid)+

definition sample_migrated :: store where
  "sample_migrated = result_or empty_store (handleMigrateBatch [8] [[5], [6]] alice 1 2 empty_store)"

lemma sample_migration: "handleMigrateBatch [8] [[5], [6]] alice 1 2 empty_store = Inr sample_migrated"
  unfolding sample_migrated_def
  by (rule result_or_succeeds, rule succeeds_handleMigrateBatch)
    (simp_all add: seconds_ok_def valid_time_def date_limit_def secondsToMillis_def)

lemma utf8_inj: "utf8 s = utf8 s' \<Longrightarrow> s = s'"
proof -
  have "c = d" if "(of_nat (of_char c) :: byte) = of_nat (of_char d)" for c d :: char
  proof -
    have "unat (of_nat (of_char c) :: byte) = unat (of_nat (of_char d) :: byte)" using that by simp
    moreover have "(of_char x :: nat) < 256" for x :: char by simp
    ultimately have "(of_char c :: nat) = of_char d" by (simp add: unat_of_nat)
    then show ?thesis by simp
  qed
  then have "inj (\<lambda>c :: char. (of_nat (of_char c) :: byte))" by (rule injI)
  then show "utf8 s = utf8 s' \<Longrightarrow> s = s'" unfolding utf8_def by (simp add: inj_map_eq_map)
qed

lemma sample_injective: "inj (fromBigInt sample_host)"
  by (rule injI) (auto simp: sample_host_def dest: utf8_inj int_dec_inj)

lemma sample_no_collision: "no_collision sample_host x y"
  by (simp add: no_collision_def sample_host_def)

section \<open>Packages\<close>

text \<open>Words of 64 digits: strings are padded or cut, numbers rendered, absent values rejected.\<close>

definition sample_word :: "string \<Rightarrow> js_val option \<Rightarrow> js_error + string" where
  "sample_word ty v =
     (let pad = (\<lambda>s. take 64 (s @ replicate 64 (CHR ''0'')))
      in case v of
           None \<Rightarrow> Inl TypeError
         | Some (JString s) \<Rightarrow> Inr (pad s)
         | Some (JNumber n) \<Rightarrow> Inr (pad (int_dec n))
         | Some (JBig n) \<Rightarrow> Inr (pad (int_dec n))
         | Some (JBool b) \<Rightarrow> Inr (pad (if b then ''1'' else ''0''))
         | Some _ \<Rightarrow> Inr (pad ty))"

definition sample_type_hash :: "string \<Rightarrow> tfield list \<Rightarrow> string" where
  "sample_type_hash name ts = take 64 (name @ replicate 64 (CHR ''f''))"

fun sample_pack :: "string list \<Rightarrow> js_val list \<Rightarrow> string" where
  "sample_pack ts [JNumber op, JString a, JNumber v, JNumber n, JBytes d] =
     toHex ([of_int op] @ unhex (drop 2 a) @ be_bytes 32 (nat v) @ be_bytes 32 (nat n) @ d)"
| "sample_pack ts _ = ''0x''"

fun sample_number :: "js_val \<Rightarrow> js_error + int" where
  "sample_number (JNumber n) = Inr n"
| "sample_number (JBig n) = Inr n"
| "sample_number (JString s) = (case numberOfKey s of None \<Rightarrow> Inr 255 | Some n \<Rightarrow> Inr n)"
| "sample_number v = Inl (ThrownError ''invalid BigNumber'')"

definition sample_ext :: ext where
  "sample_ext =
     \<lparr>omit = (\<lambda>o' ks. filter (\<lambda>(k, v). k \<notin> set ks) o'),
      omitBy = (\<lambda>o' p. filter (\<lambda>(k, v). \<not> p v k) o'),
      stripHexPrefix = (\<lambda>s. if starts_with s ''0x'' then drop 2 s else s),
      hashType = sample_type_hash,
      id_hash = (\<lambda>s. ''0x'' @ s),
      encodeFunctionData = (\<lambda>i f vs. Inr (''0x'' @ f @ int_dec (int (length vs)))),
      encodeData = (\<lambda>name ts msg.
        bindr (map_res (\<lambda>f. sample_word (fld_type f) (obj_get msg (fld_name f))) ts) (\<lambda>ws.
          Inr (''0x'' @ sample_type_hash name ts @ concat ws))),
      solidityPack = sample_pack,
      bufferFromHex = unhex,
      keccakHex = toHex,
      solidityKeccak = (\<lambda>ts vs. concat vs),
      bigNumberFrom = sample_number\<rparr>"

lemma sample_omit: "omit_documented sample_ext"
  by (simp add: omit_documented_def sample_ext_def)

lemma sample_omitBy: "omitBy_documented sample_ext"
  by (simp add: omitBy_documented_def sample_ext_def)

lemma sample_strip: "strip_documented sample_ext"
  by (simp add: strip_documented_def sample_ext_def)

lemma sample_buffer: "buffer_documented sample_ext"
  by (simp add: buffer_documented_def sample_ext_def unhex_hex_body)

lemma sample_words: "encoder_words sample_ext sample_type_hash sample_word"
proof -
  have "length w = 64" if "sample_word ty v = Inr w" for ty v w
    using that by (auto simp: sample_word_def Let_def split: option.splits js_val.splits)
  then show ?thesis
    by (auto simp: encoder_words_def sample_ext_def sample_type_hash_def)
qed

lemma sample_packed: "pack_documented sample_ext"
proof -
  have "drop 2 (toHex a) = hex_body a" for a by (simp add: toHex_def)
  then show ?thesis
    by (simp add: pack_documented_def sample_ext_def pack_tx_def unhex_hex_body)
qed

section \<open>Wallets that sign\<close>

definition sample_wallet :: "string \<Rightarrow> wallet" where
  "sample_wallet a = \<lparr>w_address = a,
     w_signTypedData = Some (\<lambda>d ts m. ''0x'' @ take 4 (a @ replicate 4 (CHR ''0'')))\<rparr>"

definition sample_request :: api_request where
  "sample_request = \<lparr>requestTypeKey = ''StartrailRegistryAddHistory'', fromAddress = ''0xaa'',
     req_nonce = JNumber 1,
     requestData = [(''tokenIds'', JArray [JNumber 1]), (''customHistoryIds'', JArray [JNumber 2])]\<rparr>"


section \<open>The registry and a request\<close>

definition sample_requests :: "meta_tx_request obj" where
  "sample_requests = map (table_entry sample_ext) request_table"

lemma sample_registry: "metaTxRequests sample_ext = Inr sample_requests"
  unfolding sample_requests_def by (rule metaTxRequests_value [OF sample_omitBy])

definition sample_key :: string where
  "sample_key = ''StartrailRegistryAddHistory''"

lemma sample_key_registered: "sample_key \<in> set registry_names"
  by code_simp

definition sample_record :: meta_tx_request where
  "sample_record = the (obj_get sample_requests sample_key)"

lemma sample_record_known: "obj_get sample_requests sample_key = Some sample_record"
  using metaTxRequests_known [OF sample_omitBy sample_registry sample_key_registered]
  by (auto simp: sample_record_def)

lemma sample_types: "types_of sample_key =
   [\<lparr>fld_name = ''from'', fld_type = ''address''\<rparr>, \<lparr>fld_name = ''nonce'', fld_type = ''uint256''\<rparr>,
    \<lparr>fld_name = ''data'', fld_type = ''bytes''\<rparr>,
    \<lparr>fld_name = ''tokenIds'', fld_type = ''uint256[]''\<rparr>,
    \<lparr>fld_name = ''customHistoryIds'', fld_type = ''uint256[]''\<rparr>]"
  by code_simp

lemma sample_facts:
  "requiresDataField sample_record" "eip712Types sample_record = types_of sample_key"
  "wf_types (types_of sample_key)" "has_data (types_of sample_key)"
  using metaTxRequests_get [OF sample_omitBy sample_registry sample_record_known]
  by (simp_all add: sample_types has_data_def)

definition sample_message :: "js_val obj" where
  "sample_message = requestData sample_request"

lemma sample_message_clean: "clean_params sample_message"
  by (simp add: sample_message_def sample_request_def clean_params_def obj_keys_def starts_with_def)

lemma sample_interface: "getContractInterface (destinationContract sample_record) = Inr (destinationContract sample_record)"
proof -
  have "destinationContract sample_record \<in> set contractABI"
  proof -
    obtain c sig a d where e: "(sample_key, c, sig, a, d) \<in> set request_table"
        "sample_record = request_of sample_ext sample_key (types_of sample_key) c sig a d"
      by (rule metaTxRequests_entry [OF sample_omitBy sample_registry sample_record_known])
    have "entry_consistent (sample_key, c, sig, a, d)"
      using request_table_consistent e(1) by (simp only: list_all_iff)
    then have "c \<in> set DestinationContract" "c \<notin> set [''BulkIssue'', ''BulkTransfer'', ''Bulk'']"
      using sample_facts(4) by (simp_all only: entry_consistent.simps Let_def simp_thms)
    then show ?thesis unfolding e(2) by (auto simp: request_of_def DestinationContract_def contractABI_def)
  qed
  then show ?thesis by (simp add: getContractInterface_def)
qed

lemma sample_calldata:
  "succeeds (encodeContractFunctionCalldata sample_ext (destinationContract sample_record)
     (functionSignature sample_record) r)"
  by (simp add: encodeContractFunctionCalldata_def sample_interface) (simp add: sample_ext_def)

lemma sample_addCalldata: "succeeds (addCalldata sample_ext sample_record r)"
  using sample_calldata [of r] by (auto simp: addCalldata_def sample_facts succeeds_iff)

lemma sample_typed_data_builds:
  "succeeds (buildTypedData sample_ext dd sample_key from nonce r)"
proof -
  obtain registry where reg: "MessageTypesRegistry = Inr registry" using MessageTypesRegistry_wf by blast
  show ?thesis
    using sample_addCalldata [of "requestParamsToTypedParams r"]
    unfolding buildTypedData_def reg sample_registry bindr_simps Let_def sample_record_known defined_or_throw_Some
    by (auto simp: succeeds_iff)
qed

lemma sample_suffix: "succeeds (encodeSuffixData sample_ext sample_key sample_message)"
proof -
  have m: "requestParamsToTypedParams sample_message = sample_message"
    by (rule clean_params_unchanged [OF sample_message_clean])
  show ?thesis
    unfolding encodeSuffixData_def sample_registry bindr_simps Let_def sample_record_known
      defined_or_throw_Some m
    by (simp add: sample_facts sample_types sample_message_def sample_request_def)
      (simp add: sample_ext_def sample_word_def obj_get_def)
qed

lemma sample_execution:
  "succeeds (encodeExecuteTransactionProps sample_ext sample_request sigs ''MultiSig'')"
proof -
  have k: "requestTypeKey sample_request = sample_key" "requestData sample_request = sample_message"
    by (simp_all add: sample_request_def sample_key_def sample_message_def)
  obtain s where s: "encodeSuffixData sample_ext sample_key sample_message = Inr s"
    using sample_suffix by (auto simp: succeeds_iff)
  obtain c where c: "encodeContractFunctionCalldata sample_ext (destinationContract sample_record)
      (functionSignature sample_record) sample_message = Inr c"
    using sample_calldata by (auto simp: succeeds_iff)
  show ?thesis
    unfolding encodeExecuteTransactionProps_def k s sample_registry bindr_simps Let_def sample_record_known
      defined_or_throw_Some by (simp add: sample_facts c)
qed

definition sample_td :: eip712_typed_data where
  "sample_td = result_or undefined (buildTypedData sample_ext (newTypedDataBuilder 137 ''0xff'')
     sample_key ''0xaa'' (JNumber 1) sample_message)"

lemma sample_td_built:
  "buildTypedData sample_ext (newTypedDataBuilder 137 ''0xff'') sample_key ''0xaa'' (JNumber 1)
     sample_message = Inr sample_td"
  unfolding sample_td_def by (rule result_or_succeeds [OF sample_typed_data_builds])

lemma sample_encoded:
  "succeeds (encodeData sample_ext sample_key (types_of sample_key) (td_message sample_td))"
proof -
  note m = build_message(1) [OF sample_omitBy sample_td_built]
  have m1: "obj_get (td_message sample_td) ''tokenIds'' = Some (JArray [JNumber 1])"
    "obj_get (td_message sample_td) ''customHistoryIds'' = Some (JArray [JNumber 2])"
    using m [of "''tokenIds''"] m [of "''customHistoryIds''"]
    by (simp_all add: clean_params_unchanged [OF sample_message_clean])
      (simp_all add: sample_message_def sample_request_def obj_get_def)
  obtain c where "obj_get (td_message sample_td) ''data'' = Some (JString c)"
    using buildTypedData_calldata [OF sample_omitBy sample_td_built sample_registry sample_record_known]
    by (auto simp: sample_facts)
  moreover have "obj_get (td_message sample_td) ''from'' = Some (JString ''0xaa'')"
    "obj_get (td_message sample_td) ''nonce'' = Some (JNumber 1)"
    using build_message_generic [OF sample_td_built]
    by (simp_all add: clean_params_unchanged [OF sample_message_clean])
      (simp_all add: sample_message_def sample_request_def obj_get_def)
  ultimately show ?thesis
    using m1 by (simp add: sample_types) (simp add: sample_ext_def sample_word_def)
qed

definition sample_signed :: "wallet list \<times> string list" where
  "sample_signed = result_or ([], []) (signTypedData sample_td [sample_wallet ''0xbb'', sample_wallet ''0xAA''])"

lemma sample_signatures:
  "signTypedData sample_td [sample_wallet ''0xbb'', sample_wallet ''0xAA''] =
     Inr (fst sample_signed, snd sample_signed)"
proof -
  have "succeeds (signTypedData sample_td [sample_wallet ''0xbb'', sample_wallet ''0xAA''])"
    by (simp add: signTypedData_def sample_wallet_def js_sort_def compareWalletByAddressString_def Let_def)
  from result_or_succeeds [OF this] show ?thesis unfolding sample_signed_def by simp
qed

lemma sample_addresses:
  "distinct (map (toLowerCase \<circ> w_address) [sample_wallet ''0xbb'', sample_wallet ''0xAA''])"
  unfolding sample_wallet_def toLowerCase_def lower_char_def by code_simp


definition sample_txs :: "(operation \<times> address \<times> bytes) list" where
  "sample_txs = [(CALL, alice, [1, 2, 3]), (DELEGATECALL, bob, [])]"

definition sample_safe :: "bool \<Rightarrow> safe" where
  "sample_safe ok =
     \<lparr>safe_nonce = 4, safe_multiSendAddress = ''0xee'', safe_transactionHash = (\<lambda>p n. ''0x'' @ n),
      safe_multiSendCalldata = id, safe_exec = (\<lambda>p g. ''0x01''),
      safe_wait = (\<lambda>h n. \<lparr>rc_hash = h, rc_status = 1,
        rc_topics = (if ok then [[EventHashExecutionSuccess]] else []), rc_data = (if ok then [''0x''] else [])\<rparr>)\<rparr>"

definition sample_exec_request :: exec_request where
  "sample_exec_request =
     \<lparr>er_to = ''0xbb'', er_data = ''0x'', er_nonce = None, er_gasLimit = None, er_waitConfirmed = Some False,
      er_multiSend = None, er_numConfirmations = None, er_signer = None\<rparr>"

end
