(* ===== verification/DeploySamples.thy ===== *)
theory DeploySamples
  imports AddressBook Versions Samples
begin

text \<open>
  A hardhat environment to run the deployment scripts on: contracts are deployed at numbered
  addresses, the FeatureRegistry is a diamond as EIP-2535 documents it, a selector is its
  signature, and calldata shows the function and the number of its arguments.
\<close>

record sample_chain_state =
  sc_routes :: routing
  sc_count :: nat

fun sample_action :: "int \<Rightarrow> facet_cut_action" where
  "sample_action n = (if n = 0 then Add else if n = 1 then Replace else Remove)"

fun sample_strings :: "js_val list \<Rightarrow> string list" where
  "sample_strings (JString s # vs) = s # sample_strings vs"
| "sample_strings _ = []"

lemma sample_strings_map [simp]: "sample_strings (map JString ss) = ss"
  by (induction ss) simp_all

fun sample_diamond :: "js_val option list \<Rightarrow> routing \<Rightarrow> routing option" where
  "sample_diamond [Some (JArray [JArray [JString t, JNumber a, JArray ss]]), i, d] r =
     apply_cut \<lparr>cut_target = t, cut_action = sample_action a, cut_selectors = sample_strings ss\<rparr> r"
| "sample_diamond _ r = None"

lemma sample_diamond_cut: "sample_diamond (cut_args k) r = apply_cut k r"
  by (cases "cut_action k") (simp_all add: cut_args_def cut_value_def apply_cut_def)

definition sample_send ::
  "contract \<Rightarrow> string \<Rightarrow> js_val option list \<Rightarrow> (sample_chain_state, tx_receipt) act" where
  "sample_send ct fn args c =
     (let done' = \<lparr>tx_hash = ''0x01'', tx_ok = True, tx_topics = []\<rparr>
      in if fn = ''diamondCut''
         then case sample_diamond args (sc_routes c) of
                None \<Rightarrow> (Inl (ThrownError ''reverted''), c)
              | Some r \<Rightarrow> (Inr done', c\<lparr>sc_routes := r\<rparr>)
         else (Inr done', c))"

definition sample_deploy ::
  "string \<Rightarrow> string option obj \<Rightarrow> js_val option list \<Rightarrow> int option \<Rightarrow> (sample_chain_state, contract) act" where
  "sample_deploy name libs args gas c =
     (Inr \<lparr>ct_abi = name, ct_address = toHex (be_bytes 20 (sc_count c + 1))\<rparr>, c\<lparr>sc_count := sc_count c + 1\<rparr>)"

definition sample_functions :: "string \<Rightarrow> string list" where
  "sample_functions name =
     (if name = ''SRRApproveTransferFeatureV02''
      then ''supportsInterface(bytes4)'' # srrApproveTransferCommonFuncSignatures
      else if name = ''SRRHistoryFeatureV01'' then srrHistoryCommonFuncSignatures else [])"

definition sample_hre :: "sample_chain_state hre" where
  "sample_hre =
     \<lparr>hre_cwd = ''/repo'', hre_network = ''localhost'', hre_chainId = Some 31337, hre_deployerName = None,
      hre_administratorName = None, hre_salts = \<lparr>salt_implementation = ''0x1'', salt_proxy = ''0x2''\<rparr>,
      hre_owners = Some ([''0xaa''], 1), hre_providerChainId = 31337,
      hre_glob = (\<lambda>p. if p = ''contracts/**/BulkV*.sol''
        then map (version_path ''contracts/bulk'' ''Bulk'') [''5'', ''06'', ''4''] else []),
      hre_functions = sample_functions, hre_sighash = (\<lambda>n sig. Inr sig), hre_artifact = Inr,
      hre_encode = (\<lambda>i f vs. Inr (toHex (utf8 (f @ int_dec (int (length vs)))))),
      hre_bytecode = Inr, hre_abiEncode = (\<lambda>ts vs. Inr ''0x''),
      hre_create2 = (\<lambda>f s h. ''0x'' @ s), hre_keccak = id,
      hre_contractAt = (\<lambda>n a. case a of None \<Rightarrow> Inl TypeError
        | Some a \<Rightarrow> Inr \<lparr>ct_abi = n, ct_address = a\<rparr>),
      hre_deploy = sample_deploy, hre_send = sample_send, hre_call = (\<lambda>ct f vs c. Inr (JString ''0xcc'')),
      hre_code = (\<lambda>a c. Inr ''0x60''), hre_fund = (\<lambda>a v c. (Inr (), c)), hre_sendRaw = (\<lambda>t c. (Inr t, c)),
      hre_wait = (\<lambda>h n c. Inr \<lparr>rc_hash = h, rc_status = 1, rc_topics = [], rc_data = []\<rparr>),
      hre_impersonate = (\<lambda>a c. (Inr (), c)), hre_getSigner = (\<lambda>a. Some id), hre_signers = [id],
      hre_safe = (\<lambda>a b c. sample_safe True), hre_exec = (\<lambda>a p g c. (Inr (), c)),
      hre_decode = (\<lambda>i e d ts. Inr []), hre_parseLog = (\<lambda>i l. Inl TypeError)\<rparr>"

definition sample_feature_registry :: contract where
  "sample_feature_registry = \<lparr>ct_abi = ''StartrailCollectionFeatureRegistry'', ct_address = ''0xff''\<rparr>"

lemma sample_diamond_documented: "diamond_documented sample_hre sample_feature_registry sc_routes"
  by (auto simp: diamond_documented_def sample_hre_def sample_send_def sample_deploy_def sample_diamond_cut
      split: option.splits)

text \<open>A network whose registry routes the functions of the approval feature's first version to 0x0a.\<close>

definition sample_world :: "sample_chain_state world" where
  "sample_world =
     \<lparr>files = [jsonPath sample_hre DEPLOY_FILE_NAME \<mapsto>
        [(''startrailCollectionFeatureRegistryAddress'', ''0xff''), (''metaTxForwarderProxyAddress'', ''0x0b'')]],
      chain = \<lparr>sc_routes = (\<lambda>s. if s \<in> set (own_functions SRRApproveTransferFeature) then Some ''0x0a'' else None),
               sc_count = 0\<rparr>\<rparr>"

lemma sample_registry_key:
  "deployJSONKey ''StartrailCollectionFeatureRegistry'' = ''startrailCollectionFeatureRegistryAddress''"
  by code_simp

lemma sample_registry_at:
  "getContract sample_hre ''StartrailCollectionFeatureRegistry'' sample_world = (Inr sample_feature_registry, sample_world)"
  unfolding getContract_def sample_registry_key
  by (simp add: loadDeployJSON_def loadJSON_def andThen_def sample_world_def getContractNameLatest_def
      sortByNumber_def js_sort_def sample_feature_registry_def obj_get_def)
    (simp add: sample_hre_def Let_def)

definition sample_approve :: contract where
  "sample_approve = \<lparr>ct_abi = ''SRRApproveTransferFeatureV02'', ct_address = toHex (be_bytes 20 1)\<rparr>"

lemma sample_approve_factory:
  "getContractFactory sample_hre ''SRRApproveTransferFeatureV02'' sample_world =
     (Inr ''SRRApproveTransferFeatureV02'', sample_world)"
  by (simp add: getContractFactory_def getContractNameLatest_def sortByNumber_def js_sort_def andThen_def
      sample_hre_def Let_def)

definition sample_chain1 :: sample_chain_state where
  "sample_chain1 = (chain sample_world)\<lparr>sc_count := 1\<rparr>"

lemma sample_approve_deployed:
  "hre_deploy sample_hre ''SRRApproveTransferFeatureV02'' [] [] None (chain sample_world) = (Inr sample_approve, sample_chain1)"
  by (simp add: sample_hre_def sample_deploy_def sample_approve_def sample_chain1_def sample_world_def)

lemma sample_sighash: "hre_sighash sample_hre n sig = Inr (id sig)" "hre_artifact sample_hre n = Inr n"
  by (simp_all add: sample_hre_def)

lemma sample_approve_functions:
  "hre_functions sample_hre (ct_abi sample_approve) = ''supportsInterface(bytes4)'' # srrApproveTransferCommonFuncSignatures"
  by (simp add: sample_hre_def sample_approve_def sample_functions_def)

lemma sample_approve_address: "''0x0a'' \<noteq> ct_address sample_approve"
proof -
  have "length (ct_address sample_approve) = 42" by (simp add: sample_approve_def)
  moreover have "length ''0x0a'' = 4" by simp
  ultimately show ?thesis by (intro notI) simp
qed

lemma sample_approve_routes:
  "list_all (\<lambda>sig. sc_routes (chain sample_world) (id sig) = Some ''0x0a'') (own_functions SRRApproveTransferFeature)"
  unfolding list_all_iff by (simp add: sample_world_def)

lemma sample_approve_selectors:
  "CollectionFeatureSelectors sample_hre SRRApproveTransferFeature ''V01'' =
     Inr (srrApproveTransferCommonFuncSignatures @ [fromBulkV01])"
  "getSelectors sample_hre sample_approve = Inr srrApproveTransferCommonFuncSignatures"
proof -
  show "CollectionFeatureSelectors sample_hre SRRApproveTransferFeature ''V01'' =
     Inr (srrApproveTransferCommonFuncSignatures @ [fromBulkV01])"
    using version_selectors [of sample_hre id SRRApproveTransferFeature "''V01''", OF sample_sighash approve_versions(1)]
    by simp
  have "filter (\<lambda>s. s \<noteq> ''supportsInterface(bytes4)'') srrApproveTransferCommonFuncSignatures =
      srrApproveTransferCommonFuncSignatures"
    using approve_versions(4) by (auto intro!: filter_True)
  then show "getSelectors sample_hre sample_approve = Inr srrApproveTransferCommonFuncSignatures"
    using contract_selectors [of sample_hre id sample_approve, OF sample_sighash(1)]
    by (simp add: sample_approve_functions)
qed

lemma sample_approve_ready:
  "list_all (\<lambda>s. sc_routes (chain sample_world) s \<noteq> None \<and> sc_routes (chain sample_world) s \<noteq> Some (ct_address sample_approve))
     (srrApproveTransferCommonFuncSignatures @ [fromBulkV01])"
  "list_all (\<lambda>s. s \<in> set (srrApproveTransferCommonFuncSignatures @ [fromBulkV01]) \<or> sc_routes (chain sample_world) s = None)
     srrApproveTransferCommonFuncSignatures"
  using sample_approve_address by (auto simp: list_all_iff sample_world_def fromBulkV01_def)

definition sample_mtf :: contract where
  "sample_mtf = \<lparr>ct_abi = ''MetaTxForwarder'', ct_address = toHex alice\<rparr>"

definition sample_call :: bytes where
  "sample_call = utf8 ''registerRequestType4''"

lemma sample_registerCalldata:
  "registerCalldata sample_hre sample_requests sample_mtf sample_key sample_world = (Inr (toHex sample_call), sample_world)"
proof -
  have four: "int_dec 4 = ''4''" by code_simp
  have dest: "\<exists>a. getDestinationAddress sample_hre sample_requests sample_key sample_world = (Inr a, sample_world)"
    by (simp add: getDestinationAddress_def sample_record_known getProxyAddressByContractName_def
        loadJSON_def andThen_def)
  then obtain a where a: "getDestinationAddress sample_hre sample_requests sample_key sample_world = (Inr a, sample_world)"
    by blast
  show ?thesis
    unfolding registerCalldata_def
    by (simp add: andThen_def a buildRegisterRequestTypeInputProps_def sample_record_known)
      (simp add: sample_hre_def sample_call_def four)
qed

lemma sample_register_calls:
  "map_act (registerCalldata sample_hre sample_requests sample_mtf) [sample_key, sample_key] sample_world =
     (Inr (map toHex [sample_call, sample_call]), sample_world)"
  by (simp add: sample_registerCalldata)

end
