(* ===== verification/OwnerManager.thy ===== *)
theory OwnerManager
  imports Wallets
begin

text \<open>
  The owners of a licensed user wallet as \<open>contracts/licensedUser/OwnerManager.sol\<close> keeps them: a
  linked list of addresses that starts and ends at a sentinel, with a count and a threshold of
  eight bits. A call is reverted (\<open>None\<close>) or returns the wallet and the events it emits, in the
  order in which the subgraph receives them. The caller checks of the modifiers are not part of
  the model: a call here is one that the Administrator or the wallet itself makes.

  \<open>owner_list w os\<close> states that the wallet holds the list \<open>os\<close>; every call keeps it, and the events
  of a call lead the abstract table of the subgraph to the same owners and threshold.
\<close>

section \<open>The contract\<close>

record owner_wallet =
  ow_next :: "address \<Rightarrow> address"
  ow_count :: "8 word"
  ow_threshold :: "8 word"

definition SENTINEL_OWNERS :: address where
  "SENTINEL_OWNERS = replicate 19 0 @ [1]"

definition valid_owner :: "address \<Rightarrow> bool" where
  "valid_owner a \<longleftrightarrow> a \<noteq> ZERO_ADDRESS \<and> a \<noteq> SENTINEL_OWNERS"

definition changeThreshold ::
  "address \<Rightarrow> 8 word \<Rightarrow> owner_wallet \<Rightarrow> (owner_wallet \<times> luw_event list) option" where
  "changeThreshold wallet threshold w =
     (if threshold \<le> ow_count w \<and> 1 \<le> threshold
      then Some (w\<lparr>ow_threshold := threshold\<rparr>, [ChangedThreshold wallet (uint threshold)]) else None)"

text \<open>Change the threshold if it was changed.\<close>

definition settle ::
  "address \<Rightarrow> 8 word \<Rightarrow> luw_event list \<Rightarrow> owner_wallet \<Rightarrow> (owner_wallet \<times> luw_event list) option" where
  "settle wallet threshold emitted w =
     (if ow_threshold w \<noteq> threshold
      then map_option (\<lambda>(w', es). (w', emitted @ es)) (changeThreshold wallet threshold w)
      else Some (w, emitted))"

definition addOwner ::
  "address \<Rightarrow> address \<Rightarrow> 8 word \<Rightarrow> owner_wallet \<Rightarrow> (owner_wallet \<times> luw_event list) option" where
  "addOwner wallet owner threshold w =
     (if \<not> valid_owner owner \<or> ow_next w owner \<noteq> ZERO_ADDRESS \<or> ow_count w = 255 then None
      else settle wallet threshold [AddedOwner wallet owner]
        (w\<lparr>ow_next := (ow_next w)(owner := ow_next w SENTINEL_OWNERS, SENTINEL_OWNERS := owner),
           ow_count := ow_count w + 1\<rparr>))"

definition removeOwner ::
  "address \<Rightarrow> address \<Rightarrow> address \<Rightarrow> 8 word \<Rightarrow> owner_wallet \<Rightarrow> (owner_wallet \<times> luw_event list) option" where
  "removeOwner wallet prevOwner owner threshold w =
     (if ow_count w = 0 \<or> ow_count w - 1 < threshold \<or> \<not> valid_owner owner \<or>
         ow_next w prevOwner \<noteq> owner then None
      else settle wallet threshold [RemovedOwner wallet owner]
        (w\<lparr>ow_next := (ow_next w)(prevOwner := ow_next w owner, owner := ZERO_ADDRESS),
           ow_count := ow_count w - 1\<rparr>))"

definition swapOwner ::
  "address \<Rightarrow> address \<Rightarrow> address \<Rightarrow> address \<Rightarrow> owner_wallet \<Rightarrow> (owner_wallet \<times> luw_event list) option" where
  "swapOwner wallet prevOwner oldOwner newOwner w =
     (if \<not> valid_owner newOwner \<or> ow_next w newOwner \<noteq> ZERO_ADDRESS \<or> \<not> valid_owner oldOwner \<or>
         ow_next w prevOwner \<noteq> oldOwner then None
      else Some (w\<lparr>ow_next := (ow_next w)(newOwner := ow_next w oldOwner, prevOwner := newOwner,
                                        oldOwner := ZERO_ADDRESS)\<rparr>,
                 [RemovedOwner wallet oldOwner, AddedOwner wallet newOwner]))"

text \<open>The loop of \<open>getOwners\<close> fills an array of \<open>ownerCount\<close> addresses; writing past its end reverts.\<close>

fun owners_loop :: "(address \<Rightarrow> address) \<Rightarrow> nat \<Rightarrow> address \<Rightarrow> address list option" where
  "owners_loop next room currentOwner =
     (if currentOwner = SENTINEL_OWNERS then Some (replicate room ZERO_ADDRESS)
      else case room of 0 \<Rightarrow> None
           | Suc n \<Rightarrow> map_option (Cons currentOwner) (owners_loop next n (next currentOwner)))"

definition getOwners :: "owner_wallet \<Rightarrow> address list option" where
  "getOwners w = owners_loop (ow_next w) (unat (ow_count w)) (ow_next w SENTINEL_OWNERS)"

text \<open>\<open>setupOwners\<close> of a new wallet: the loop links every owner to its predecessor.\<close>

fun link_owners :: "(address \<Rightarrow> address) \<Rightarrow> address \<Rightarrow> address list \<Rightarrow> (address \<Rightarrow> address) option" where
  "link_owners next currentOwner [] = Some (next(currentOwner := SENTINEL_OWNERS))"
| "link_owners next currentOwner (owner # owners) =
     (if \<not> valid_owner owner \<or> next owner \<noteq> ZERO_ADDRESS then None
      else link_owners (next(currentOwner := owner)) owner owners)"

definition setupOwners :: "address list \<Rightarrow> 8 word \<Rightarrow> owner_wallet \<Rightarrow> owner_wallet option" where
  "setupOwners owners threshold w =
     (if ow_threshold w \<noteq> 0 \<or> length owners < unat threshold \<or> threshold < 1 then None
      else map_option (\<lambda>next. \<lparr>ow_next = next, ow_count = word_of_nat (length owners), ow_threshold = threshold\<rparr>)
             (link_owners (ow_next w) SENTINEL_OWNERS owners))"

datatype owner_call =
    AddOwner address "8 word"
  | RemoveOwner address address "8 word"
  | SwapOwner address address address
  | ChangeThreshold "8 word"

fun run_call :: "address \<Rightarrow> owner_call \<Rightarrow> owner_wallet \<Rightarrow> (owner_wallet \<times> luw_event list) option" where
  "run_call wallet (AddOwner a th) w = addOwner wallet a th w"
| "run_call wallet (RemoveOwner p a th) w = removeOwner wallet p a th w"
| "run_call wallet (SwapOwner p a b) w = swapOwner wallet p a b w"
| "run_call wallet (ChangeThreshold th) w = changeThreshold wallet th w"

section \<open>The linked list\<close>

text \<open>\<open>segment f a xs b\<close>: from \<open>a\<close> the links lead through \<open>xs\<close> to \<open>b\<close>.\<close>

fun segment :: "('a \<Rightarrow> 'a) \<Rightarrow> 'a \<Rightarrow> 'a list \<Rightarrow> 'a \<Rightarrow> bool" where
  "segment f a [] b = (f a = b)"
| "segment f a (x # xs) b = (f a = x \<and> segment f x xs b)"

lemma segment_append: "segment f a (xs @ y # ys) b \<longleftrightarrow> segment f a xs y \<and> segment f y ys b"
  by (induction xs arbitrary: a) auto

lemma segment_frame: "c \<notin> set (a # xs) \<Longrightarrow> segment (f(c := v)) a xs b = segment f a xs b"
  by (induction xs arbitrary: a) auto

lemma segment_redirect:
  "segment f a xs b \<Longrightarrow> distinct (a # xs) \<Longrightarrow> segment (f(last (a # xs) := c)) a xs c"
  by (induction xs arbitrary: a) auto

lemma segment_pred:
  assumes "segment f a xs a" and "p \<in> set (a # xs)" and "f p \<noteq> a"
  obtains pre post where "xs = pre @ f p # post" "p = last (a # pre)"
proof (cases "p = a")
  case True
  then show ?thesis using assms(1,3) that [of "[]"] by (cases xs) auto
next
  case False
  then obtain pre post where xs: "xs = pre @ p # post" using assms(2) split_list [of p xs] by auto
  then have s: "segment f p post a" using assms(1) by (simp add: segment_append)
  then obtain post' where "post = f p # post'" using assms(3) by (cases post) auto
  then show ?thesis using that [of "pre @ [p]"] xs by simp
qed

text \<open>Taking an element out of a circular list, and putting another in its place.\<close>

lemma segment_remove:
  assumes "segment f a (pre @ x # post) a" and "distinct (a # pre @ x # post)" and "p = last (a # pre)"
  shows "segment (f(p := f x, x := z)) a (pre @ post) a"
proof -
  have p: "p \<in> set (a # pre)" unfolding assms(3) by (rule last_in_set) simp
  have one: "segment f a pre x" and two: "segment f x post a"
    using assms(1) by (simp_all add: segment_append)
  have "segment (f(p := f x)) a pre (f x)"
    using segment_redirect [OF one, of "f x"] assms(2) unfolding assms(3) by simp
  then have pre: "segment (f(p := f x, x := z)) a pre (f x)"
    using assms(2) by (subst segment_frame) auto
  show ?thesis
  proof (cases post)
    case Nil
    then show ?thesis using pre two by simp
  next
    case (Cons q qs)
    have "segment f q qs a" "f x = q" using two Cons by simp_all
    moreover have "p \<notin> set (q # qs)" "x \<notin> set (q # qs)" using assms(2) p Cons by auto
    ultimately show ?thesis using pre Cons by (simp add: segment_append segment_frame)
  qed
qed

lemma segment_replace:
  assumes "segment f a (pre @ x # post) a" and "distinct (a # pre @ x # post)" and "p = last (a # pre)"
    and "y \<notin> set (a # pre @ x # post)"
  shows "segment (f(y := f x, p := y, x := z)) a (pre @ y # post) a"
proof -
  have p: "p \<in> set (a # pre)" unfolding assms(3) by (rule last_in_set) simp
  have one: "segment f a pre x" and two: "segment f x post a"
    using assms(1) by (simp_all add: segment_append)
  have "segment (f(y := f x)) a pre x" using one assms(4) by (subst segment_frame) auto
  from segment_redirect [OF this, of y] have "segment (f(y := f x, p := y)) a pre y"
    using assms(2,3) by simp
  then have pre: "segment (f(y := f x, p := y, x := z)) a pre y"
    using assms(2) by (subst segment_frame) auto
  have "segment (f(y := f x, p := y, x := z)) y post a"
  proof (cases post)
    case Nil
    then show ?thesis using two assms(4) p by auto
  next
    case (Cons q qs)
    have "segment f q qs a" "f x = q" using two Cons by simp_all
    moreover have "y \<notin> set (q # qs)" "p \<notin> set (q # qs)" "x \<notin> set (q # qs)" "y \<noteq> p" "y \<noteq> x"
      using assms(2,4) p Cons by auto
    ultimately show ?thesis using Cons by (simp add: segment_frame)
  qed
  with pre show ?thesis by (simp add: segment_append)
qed

section \<open>The owner list of a wallet\<close>

definition holds_owners :: "owner_wallet \<Rightarrow> address list \<Rightarrow> bool" where
  "holds_owners w os \<longleftrightarrow> segment (ow_next w) SENTINEL_OWNERS os SENTINEL_OWNERS \<and>
     distinct (SENTINEL_OWNERS # os) \<and> ZERO_ADDRESS \<notin> set os \<and>
     (\<forall>a. a \<in> set (SENTINEL_OWNERS # os) \<or> ow_next w a = ZERO_ADDRESS) \<and>
     unat (ow_count w) = length os"

definition owner_list :: "owner_wallet \<Rightarrow> address list \<Rightarrow> bool" where
  "owner_list w os \<longleftrightarrow> holds_owners w os \<and> 1 \<le> ow_threshold w \<and> ow_threshold w \<le> ow_count w"

lemma sentinel_not_zero [simp]: "SENTINEL_OWNERS \<noteq> ZERO_ADDRESS" "ZERO_ADDRESS \<noteq> SENTINEL_OWNERS"
  by (auto simp: SENTINEL_OWNERS_def ZERO_ADDRESS_def dest: arg_cong [of _ _ last])

lemma owners_loop_segment:
  "segment f a os SENTINEL_OWNERS \<Longrightarrow> SENTINEL_OWNERS \<notin> set os \<Longrightarrow> owners_loop f (length os) (f a) = Some os"
  by (induction os arbitrary: a) auto

lemma getOwners_list: "holds_owners w os \<Longrightarrow> getOwners w = Some os"
  by (simp add: getOwners_def holds_owners_def owners_loop_segment del: owners_loop.simps)

lemma linked_not_zero:
  "segment f a os b \<Longrightarrow> ZERO_ADDRESS \<notin> set os \<Longrightarrow> b \<noteq> ZERO_ADDRESS \<Longrightarrow> c \<in> set (a # os) \<Longrightarrow> f c \<noteq> ZERO_ADDRESS"
  by (induction os arbitrary: a) auto

lemma holds_linked:
  assumes "holds_owners w os"
  shows "ow_next w a = ZERO_ADDRESS \<longleftrightarrow> a \<notin> set (SENTINEL_OWNERS # os)"
  using assms linked_not_zero [of "ow_next w" SENTINEL_OWNERS os SENTINEL_OWNERS a]
  unfolding holds_owners_def by (auto simp del: set_simps)

section \<open>What the calls do to the list\<close>

lemma settle_Some:
  assumes "settle wallet th es0 w = Some (w', es)" and "holds_owners w os"
    and "1 \<le> ow_threshold w" and "ow_threshold w = th \<Longrightarrow> th \<le> ow_count w"
  shows "owner_list w' os \<and> ow_threshold w' = th \<and>
    es = es0 @ (if ow_threshold w = th then [] else [ChangedThreshold wallet (uint th)])"
  using assms by (auto simp: settle_def changeThreshold_def owner_list_def holds_owners_def split: if_splits)

lemma unat_count:
  "(c :: 8 word) \<noteq> 255 \<Longrightarrow> unat (c + 1) = Suc (unat c)" "c \<noteq> 0 \<Longrightarrow> Suc (unat (c - 1)) = unat c"
proof -
  show "unat (c + 1) = Suc (unat c)" if "c \<noteq> 255"
    using that by unat_arith auto
  show "Suc (unat (c - 1)) = unat c" if "c \<noteq> 0"
    using that by unat_arith
qed

lemma owner_found:
  assumes "holds_owners w os" and "valid_owner a" and "ow_next w p = a"
  shows "\<exists>pre post. os = pre @ a # post \<and> p = last (SENTINEL_OWNERS # pre)"
proof -
  have "p \<in> set (SENTINEL_OWNERS # os)"
    using holds_linked [OF assms(1)] assms(2,3) by (auto simp: valid_owner_def)
  moreover have "segment (ow_next w) SENTINEL_OWNERS os SENTINEL_OWNERS"
    using assms(1) by (simp add: holds_owners_def)
  moreover have "ow_next w p \<noteq> SENTINEL_OWNERS" using assms(2,3) by (simp add: valid_owner_def)
  ultimately show ?thesis using segment_pred [of "ow_next w" SENTINEL_OWNERS os p] assms(3) by metis
qed

lemma one_le_word: "(1 :: 8 word) \<le> th \<longleftrightarrow> th \<noteq> 0"
  by (simp add: linorder_not_less [symmetric])

lemma addOwner_list:
  assumes "owner_list w os" and "addOwner wallet a th w = Some (w', es)"
  shows "owner_list w' (a # os) \<and> ow_threshold w' = th \<and>
    es = AddedOwner wallet a # (if ow_threshold w = th then [] else [ChangedThreshold wallet (uint th)])"
proof -
  let ?w = "w\<lparr>ow_next := (ow_next w)(a := ow_next w SENTINEL_OWNERS, SENTINEL_OWNERS := a), ow_count := ow_count w + 1\<rparr>"
  have w: "holds_owners w os" "1 \<le> ow_threshold w" "ow_threshold w \<le> ow_count w"
    using assms(1) by (simp_all add: owner_list_def)
  have a: "valid_owner a" "ow_next w a = ZERO_ADDRESS" "ow_count w \<noteq> 255"
      "settle wallet th [AddedOwner wallet a] ?w = Some (w', es)"
    using assms(2) by (simp_all add: addOwner_def split: if_splits)
  have fresh: "a \<notin> set (SENTINEL_OWNERS # os)" using holds_linked [OF w(1)] a(2) by blast
  have "segment (ow_next ?w) SENTINEL_OWNERS (a # os) SENTINEL_OWNERS"
    using w(1) fresh by (cases os) (auto simp: holds_owners_def segment_frame)
  then have "holds_owners ?w (a # os)"
    using w(1) a(1) fresh unat_count(1) [OF a(3)] by (auto simp: holds_owners_def valid_owner_def)
  moreover have "ow_threshold w \<le> ow_count w + 1"
    using w(3) a(3) by unat_arith auto
  ultimately show ?thesis using settle_Some [OF a(4)] w(2) by simp
qed

lemma removeOwner_list:
  assumes "owner_list w os" and "removeOwner wallet p a th w = Some (w', es)"
  shows "a \<in> set os \<and> owner_list w' (remove1 a os) \<and> ow_threshold w' = th \<and>
    es = RemovedOwner wallet a # (if ow_threshold w = th then [] else [ChangedThreshold wallet (uint th)])"
proof -
  let ?w = "w\<lparr>ow_next := (ow_next w)(p := ow_next w a, a := ZERO_ADDRESS), ow_count := ow_count w - 1\<rparr>"
  have w: "holds_owners w os" "1 \<le> ow_threshold w" using assms(1) by (simp_all add: owner_list_def)
  have a: "ow_count w \<noteq> 0" "th \<le> ow_count w - 1" "valid_owner a" "ow_next w p = a"
      "settle wallet th [RemovedOwner wallet a] ?w = Some (w', es)"
    using assms(2) by (simp_all add: removeOwner_def not_less split: if_splits)
  obtain pre post where os: "os = pre @ a # post" "p = last (SENTINEL_OWNERS # pre)"
    using owner_found [OF w(1) a(3,4)] by blast
  have rem: "remove1 a os = pre @ post" using w(1) os(1) by (auto simp: holds_owners_def remove1_append)
  have "segment (ow_next ?w) SENTINEL_OWNERS (pre @ post) SENTINEL_OWNERS"
    using segment_remove [OF _ _ os(2), of "ow_next w" a post ZERO_ADDRESS] w(1) os(1)
    by (simp add: holds_owners_def)
  moreover have "p \<in> set (SENTINEL_OWNERS # pre)" unfolding os(2) by (rule last_in_set) simp
  ultimately have "holds_owners ?w (pre @ post)"
    using w(1) unat_count(2) [OF a(1)] unfolding os(1) by (auto simp: holds_owners_def)
  from settle_Some [OF a(5) this] w(2) a(2) show ?thesis unfolding rem using os(1) by simp
qed

lemma swapOwner_list:
  assumes "owner_list w os" and "swapOwner wallet p a b w = Some (w', es)"
  shows "\<exists>pre post. os = pre @ a # post \<and> owner_list w' (pre @ b # post) \<and> ow_threshold w' = ow_threshold w \<and>
    es = [RemovedOwner wallet a, AddedOwner wallet b]"
proof -
  have w: "holds_owners w os" using assms(1) by (simp add: owner_list_def)
  have a: "valid_owner b" "ow_next w b = ZERO_ADDRESS" "valid_owner a" "ow_next w p = a"
      "w' = w\<lparr>ow_next := (ow_next w)(b := ow_next w a, p := b, a := ZERO_ADDRESS)\<rparr>"
      "es = [RemovedOwner wallet a, AddedOwner wallet b]"
    using assms(2) by (simp_all add: swapOwner_def split: if_splits)
  obtain pre post where os: "os = pre @ a # post" "p = last (SENTINEL_OWNERS # pre)"
    using owner_found [OF w a(3,4)] by blast
  have b: "b \<notin> set (SENTINEL_OWNERS # pre @ a # post)" using holds_linked [OF w] a(2) os(1) by blast
  have "segment (ow_next w') SENTINEL_OWNERS (pre @ b # post) SENTINEL_OWNERS"
    using segment_replace [OF _ _ os(2) b, of "ow_next w" ZERO_ADDRESS] w os(1) a(5)
    by (simp add: holds_owners_def)
  moreover have "p \<in> set (SENTINEL_OWNERS # pre)" unfolding os(2) by (rule last_in_set) simp
  ultimately have "holds_owners w' (pre @ b # post)"
    using w a(1,5) b unfolding os(1) by (auto simp: holds_owners_def valid_owner_def)
  then show ?thesis using assms(1) a(5,6) os(1) by (auto simp: owner_list_def)
qed

section \<open>The subgraph follows the contract\<close>

lemma call_agrees:
  assumes "owner_list w os" and "run_call wallet c w = Some (w', es)"
    and "W (toHex wallet) = Some (xs, uint (ow_threshold w))" and "mset xs = mset os"
  shows "\<exists>os' xs'. owner_list w' os' \<and> mset xs' = mset os' \<and>
    foldl (\<lambda>W e. wallet_step e W) W es = W(toHex wallet \<mapsto> (xs', uint (ow_threshold w')))"
proof (cases c)
  case (AddOwner a th)
  then have "addOwner wallet a th w = Some (w', es)" using assms(2) by simp
  from addOwner_list [OF assms(1) this] show ?thesis
    using assms(3,4) by - (rule exI [of _ "a # os"], rule exI [of _ "xs @ [a]"], auto)
next
  case (RemoveOwner p a th)
  then have "removeOwner wallet p a th w = Some (w', es)" using assms(2) by simp
  from removeOwner_list [OF assms(1) this] show ?thesis
    using assms(3,4) by - (rule exI [of _ "remove1 a os"], rule exI [of _ "remove1 a xs"], auto)
next
  case (SwapOwner p a b)
  then have "swapOwner wallet p a b w = Some (w', es)" using assms(2) by simp
  from swapOwner_list [OF assms(1) this] obtain pre post where "os = pre @ a # post"
      "owner_list w' (pre @ b # post)" "ow_threshold w' = ow_threshold w"
      "es = [RemovedOwner wallet a, AddedOwner wallet b]" by blast
  then show ?thesis
    using assms(3,4) by - (rule exI [of _ "pre @ b # post"], rule exI [of _ "remove1 a xs @ [b]"], auto)
next
  case (ChangeThreshold th)
  then show ?thesis
    using assms by - (rule exI [of _ os], rule exI [of _ xs],
      auto simp: changeThreshold_def owner_list_def holds_owners_def split: if_splits)
qed

text \<open>Several calls, one after the other.\<close>

fun run_calls :: "address \<Rightarrow> owner_call list \<Rightarrow> owner_wallet \<Rightarrow> (owner_wallet \<times> luw_event list) option" where
  "run_calls wallet [] w = Some (w, [])"
| "run_calls wallet (c # cs) w =
     (case run_call wallet c w of None \<Rightarrow> None
      | Some (w', es) \<Rightarrow> map_option (\<lambda>(w'', es'). (w'', es @ es')) (run_calls wallet cs w'))"

lemma calls_agree:
  assumes "run_calls wallet cs w = Some (w', es)" and "owner_list w os"
    and "W (toHex wallet) = Some (xs, uint (ow_threshold w))" and "mset xs = mset os"
  shows "\<exists>os' xs'. owner_list w' os' \<and> mset xs' = mset os' \<and>
    foldl (\<lambda>W e. wallet_step e W) W es = W(toHex wallet \<mapsto> (xs', uint (ow_threshold w')))"
  using assms
proof (induction cs arbitrary: w os xs W es)
  case Nil
  then show ?case by - (rule exI [of _ os], rule exI [of _ xs], auto simp: fun_upd_idem)
next
  case (Cons c cs)
  obtain w1 es1 es2 where c: "run_call wallet c w = Some (w1, es1)" "run_calls wallet cs w1 = Some (w', es2)"
      "es = es1 @ es2"
    using Cons.prems(1) by (auto split: option.splits)
  obtain os1 xs1 where one: "owner_list w1 os1" "mset xs1 = mset os1"
      "foldl (\<lambda>W e. wallet_step e W) W es1 = W(toHex wallet \<mapsto> (xs1, uint (ow_threshold w1)))"
    using call_agrees [where W = W, OF Cons.prems(2) c(1) Cons.prems(3,4)] by blast
  from Cons.IH [where W = "W(toHex wallet \<mapsto> (xs1, uint (ow_threshold w1)))", OF c(2) one(1) _ one(2)] show ?case
    unfolding c(3) foldl_append one(3) by (simp add: fun_upd_same del: fun_upd_apply)
qed

lemma wallet_events:
  "length evs = length es \<Longrightarrow>
   wallets_of_run (zip evs (map LicensedUserManager es)) W = foldl (\<lambda>W e. wallet_step e W) W es"
  unfolding wallets_of_run_def by (induction evs es arbitrary: W rule: list_induct2) simp_all

text \<open>A new wallet of different owners holds them in their order.\<close>

lemma link_owners_valid: "link_owners next c owners = Some f \<Longrightarrow> list_all valid_owner owners"
  by (induction owners arbitrary: "next" c) (auto split: if_splits)

lemma link_owners_segment:
  assumes "link_owners next c owners = Some f" and "c = last (SENTINEL_OWNERS # pre)"
    and "segment (next(c := SENTINEL_OWNERS)) SENTINEL_OWNERS pre SENTINEL_OWNERS"
    and "distinct (SENTINEL_OWNERS # pre @ owners)"
    and "\<forall>a. a \<in> set (SENTINEL_OWNERS # pre) \<or> next a = ZERO_ADDRESS"
  shows "segment f SENTINEL_OWNERS (pre @ owners) SENTINEL_OWNERS \<and>
    (\<forall>a. a \<in> set (SENTINEL_OWNERS # pre @ owners) \<or> f a = ZERO_ADDRESS)"
  using assms
proof (induction owners arbitrary: "next" c pre)
  case Nil
  have "c \<in> set (SENTINEL_OWNERS # pre)" unfolding Nil.prems(2) by (rule last_in_set) simp
  then show ?case using Nil.prems(1,3,5) by (auto split: if_splits)
next
  case (Cons a owners)
  let ?n = "next(c := a)"
  have c: "c \<in> set (SENTINEL_OWNERS # pre)" unfolding Cons.prems(2) by (rule last_in_set) simp
  have a: "a \<notin> set (SENTINEL_OWNERS # pre)" using Cons.prems(4) by auto
  have "segment (next(c := SENTINEL_OWNERS, last (SENTINEL_OWNERS # pre) := a)) SENTINEL_OWNERS pre a"
    using Cons.prems(4) by (intro segment_redirect [OF Cons.prems(3)]) simp
  then have "segment ?n SENTINEL_OWNERS pre a" unfolding Cons.prems(2) [symmetric] by simp
  then have seg: "segment (?n(a := SENTINEL_OWNERS)) SENTINEL_OWNERS (pre @ [a]) SENTINEL_OWNERS"
    using a by (simp add: segment_append segment_frame)
  have "link_owners ?n a owners = Some f" using Cons.prems(1) by (simp split: if_splits)
  moreover have "\<forall>b. b \<in> set (SENTINEL_OWNERS # pre @ [a]) \<or> ?n b = ZERO_ADDRESS"
    using Cons.prems(5) c by auto
  moreover have "distinct (SENTINEL_OWNERS # (pre @ [a]) @ owners)" "a = last (SENTINEL_OWNERS # pre @ [a])"
    using Cons.prems(4) by auto
  ultimately show ?case using Cons.IH [of ?n a "pre @ [a]", OF _ _ seg] by (simp del: fun_upd_apply)
qed

lemma setupOwners_list:
  assumes "setupOwners owners th w = Some w'" and "distinct owners" and "length owners < 256"
    and "ow_next w = (\<lambda>_. ZERO_ADDRESS)"
  shows "owner_list w' owners"
proof -
  obtain f where f: "link_owners (\<lambda>_. ZERO_ADDRESS) SENTINEL_OWNERS owners = Some f"
      "w' = \<lparr>ow_next = f, ow_count = word_of_nat (length owners), ow_threshold = th\<rparr>"
      "unat th \<le> length owners" "1 \<le> th"
    using assms(1,4) by (auto simp: setupOwners_def not_less one_le_word split: if_splits)
  have v: "ZERO_ADDRESS \<notin> set owners" "SENTINEL_OWNERS \<notin> set owners"
    using link_owners_valid [OF f(1)] by (auto simp: list_all_iff valid_owner_def)
  have n: "unat (word_of_nat (length owners) :: 8 word) = length owners"
    using assms(3) by (simp add: unat_of_nat)
  then have "th \<le> word_of_nat (length owners)" using f(3) by (simp add: word_le_nat_alt)
  then show ?thesis
    using link_owners_segment [OF f(1), of "[]"] v assms(2) f(2,4) n
    by (simp add: owner_list_def holds_owners_def)
qed

text \<open>The check against duplicates misses an owner that repeats its predecessor: its link is not yet
  set. The wallet then counts two owners and holds one, so a threshold of 2 cannot be met.\<close>

lemma repeated_owner:
  assumes "valid_owner a" and "1 \<le> th" and "th \<le> 2"
  shows "\<exists>w'. setupOwners [a, a] th \<lparr>ow_next = \<lambda>_. ZERO_ADDRESS, ow_count = 0, ow_threshold = 0\<rparr> = Some w' \<and>
    ow_count w' = 2 \<and> getOwners w' = Some [a, ZERO_ADDRESS]"
proof -
  let ?f = "(\<lambda>_. ZERO_ADDRESS)(SENTINEL_OWNERS := a, a := a, a := SENTINEL_OWNERS)"
  have "unat th \<le> 2" using assms(3) by (simp add: word_le_nat_alt)
  then have "setupOwners [a, a] th \<lparr>ow_next = \<lambda>_. ZERO_ADDRESS, ow_count = 0, ow_threshold = 0\<rparr> =
      Some \<lparr>ow_next = ?f, ow_count = 2, ow_threshold = th\<rparr>"
    using assms(1,2) by (simp add: setupOwners_def valid_owner_def not_less one_le_word)
  moreover have "owners_loop ?f 2 a = Some [a, ZERO_ADDRESS]"
    unfolding numeral_2_eq_2 using assms(1) by (simp add: valid_owner_def)
  moreover have "?f SENTINEL_OWNERS = a" using assms(1) by (simp add: valid_owner_def)
  ultimately show ?thesis unfolding getOwners_def by (simp del: owners_loop.simps fun_upd_apply)
qed

end
