(* ===== verification/Operations.thy ===== *)
theory Operations
  imports Deployments OwnerManager
begin

text \<open>
  The operations an administrator runs on deployed contracts: \<open>utils/lum-*.js\<close> and \<open>lum-create-wallet.ts\<close>
  (licensed user wallets), \<open>utils/meta-tx-send.ts\<close>, \<open>utils/opensea-helpers.ts\<close>,
  \<open>utils/deployment/migrate/disable-lu-legacy.js\<close>, the upgrades of \<open>scripts/deploy\<close>, and
  \<open>scripts/admin-multi-send.js\<close> with the owners of the Administrator. \<open>process.exit\<close> ends a script with
  an error that carries the code.
\<close>

section \<open>Calls through the Administrator\<close>

text \<open>The data of \<open>populateTransaction\<close>, and a call of a contract by the Administrator.\<close>

definition populate :: "'c hre \<Rightarrow> contract \<Rightarrow> string \<Rightarrow> js_val option list \<Rightarrow> ('c world, string) act" where
  "populate hre ct fn args = from_result (hre_encode hre (ct_abi ct) fn args)"

definition view_call :: "'c hre \<Rightarrow> contract \<Rightarrow> string \<Rightarrow> js_val option list \<Rightarrow> ('c world, js_val) act" where
  "view_call hre ct fn args = view_chain (hre_call hre ct fn args)"

text \<open>The options of a call that says nothing about waiting.\<close>

definition plain_options :: "string \<Rightarrow> string \<Rightarrow> exec_request" where
  "plain_options to data = (exec_options to data)\<lparr>er_waitConfirmed := None\<rparr>"

text \<open>The manager's address in the file of the network; a call without destination throws.\<close>

definition lumAddress :: "string obj \<Rightarrow> js_error + string" where
  "lumAddress deployJSON = defined_or_throw (obj_get deployJSON ''licensedUserManagerProxyAddress'')"

section \<open>Licensed user wallets\<close>

text \<open>What the changes of owners share: the call of the manager by the Administrator, and the wallet
  that is read afterwards.\<close>

definition lumExecute ::
  "ext \<Rightarrow> 'c hre \<Rightarrow> string obj \<Rightarrow> contract \<Rightarrow> string \<Rightarrow> string \<Rightarrow> js_val option list \<Rightarrow> ('c world, string) act" where
  "lumExecute x hre deployJSON licensedUserManager walletAddress fn args =
     andThen (populate hre licensedUserManager fn args) (\<lambda>callData.
     andThen (getAdministratorInstance hre) (\<lambda>admin.
     andThen (from_result (lumAddress deployJSON)) (\<lambda>to.
     andThen (adminExecTransaction x hre admin (plain_options to callData)) (\<lambda>_.
     andThen (view_call hre licensedUserManager ''getLicensedUser'' [Some (JString walletAddress)]) (\<lambda>_.
       ret walletAddress)))))"

definition lumAddOwner :: "ext \<Rightarrow> 'c hre \<Rightarrow> string \<Rightarrow> string \<Rightarrow> ('c world, string) act" where
  "lumAddOwner x hre walletAddress owner =
     andThen (loadDeployJSON hre) (\<lambda>deployJSON.
     andThen (getContract hre ''LicensedUserManager'') (\<lambda>licensedUserManager.
       lumExecute x hre deployJSON licensedUserManager walletAddress ''addOwner''
         [Some (JString walletAddress), Some (JString owner), Some (JNumber 1)]))"

definition SENTINEL_ADDRESS :: string where
  "SENTINEL_ADDRESS = ''0x0000000000000000000000000000000000000001''"

definition findPreviousOwner :: "string list \<Rightarrow> string \<Rightarrow> string" where
  "findPreviousOwner ownerList owner =
     (case index_of owner ownerList of
        None \<Rightarrow> SENTINEL_ADDRESS
      | Some ownerToRemoveIdx \<Rightarrow>
          if 0 < ownerToRemoveIdx then ownerList ! (ownerToRemoveIdx - 1) else SENTINEL_ADDRESS)"

definition setNewThreshold :: "string list \<Rightarrow> int \<Rightarrow> int" where
  "setNewThreshold ownerList currentThreshold =
     (if currentThreshold = int (length ownerList) then currentThreshold - 1 else currentThreshold)"

text \<open>ethers decodes an \<open>address[]\<close> to an array of strings and a \<open>uint8\<close> to a number.\<close>

fun as_string :: "js_val \<Rightarrow> js_error + string" where
  "as_string (JString s) = Inr s"
| "as_string _ = Inl TypeError"

fun as_strings :: "js_val \<Rightarrow> js_error + string list" where
  "as_strings (JArray vs) = map_res as_string vs"
| "as_strings _ = Inl TypeError"

fun as_number :: "js_val \<Rightarrow> js_error + int" where
  "as_number (JNumber n) = Inr n"
| "as_number _ = Inl TypeError"

definition lumRemoveOwner :: "ext \<Rightarrow> 'c hre \<Rightarrow> string \<Rightarrow> string \<Rightarrow> ('c world, string) act" where
  "lumRemoveOwner x hre walletAddress ownerToRemove =
     andThen (loadDeployJSON hre) (\<lambda>deployJSON.
     andThen (getContract hre ''LicensedUserManager'') (\<lambda>licensedUserManager.
     andThen (view_call hre licensedUserManager ''getOwners'' [Some (JString walletAddress)]) (\<lambda>owners.
     andThen (from_result (as_strings owners)) (\<lambda>ownerList.
       if ownerToRemove \<notin> set ownerList
       then throw (ThrownError ''Reject attempt to remove owner that is not an owner of the LUW'')
       else if length ownerList < 2
       then throw (ThrownError ''Reject attempt to remove owner when only one owner exists'')
       else andThen (view_call hre licensedUserManager ''getThreshold'' [Some (JString walletAddress)]) (\<lambda>threshold.
         andThen (from_result (as_number threshold)) (\<lambda>currentThreshold.
           lumExecute x hre deployJSON licensedUserManager walletAddress ''removeOwner''
             [Some (JString walletAddress), Some (JString (findPreviousOwner ownerList ownerToRemove)),
              Some (JString ownerToRemove), Some (JNumber (setNewThreshold ownerList currentThreshold))]))))))"

text \<open>The receipt the Administrator waited for; with \<open>undefined\<close> or a response in its place, reading
  \<open>logs[0]\<close> throws, as it does for a receipt without logs.\<close>

fun result_log :: "exec_result option \<Rightarrow> js_error + event_log" where
  "result_log (Some (ExecReceipt r)) = defined_or_throw (first_log r)"
| "result_log _ = Inl TypeError"

text \<open>The address in the first argument of an event.\<close>

fun event_address :: "js_val list option \<Rightarrow> js_error + string" where
  "event_address (Some (v # _)) = as_string v"
| "event_address _ = Inl TypeError"

text \<open>\<open>setEnglishName\<close> and \<open>setOriginalName\<close> differ in the function they call.\<close>

definition lumUpdateName ::
  "ext \<Rightarrow> 'c hre \<Rightarrow> string \<Rightarrow> string \<Rightarrow> string \<Rightarrow> ('c world, string) act" where
  "lumUpdateName x hre fn walletAddress name =
     andThen (loadDeployJSON hre) (\<lambda>deployJSON.
     andThen (getContract hre ''LicensedUserManager'') (\<lambda>licensedUserManager.
     andThen (populate hre licensedUserManager fn [Some (JString walletAddress), Some (JString name)])
       (\<lambda>updateLUCallData.
     andThen (getAdministratorInstance hre) (\<lambda>admin.
     andThen (from_result (lumAddress deployJSON)) (\<lambda>to.
     andThen (adminExecTransaction x hre admin (plain_options to updateLUCallData)) (\<lambda>updateLUTxReceipt.
     andThen (from_result (result_log updateLUTxReceipt)) (\<lambda>log.
     andThen (from_result (event_address
        (decodeEventLog_hh hre licensedUserManager ''UpdateLicensedUserDetail'' log))) (\<lambda>luAddress.
     andThen (view_call hre licensedUserManager ''getLicensedUser'' [Some (JString luAddress)]) (\<lambda>_.
       ret luAddress)))))))))"

definition lumUpdateEnglishName :: "ext \<Rightarrow> 'c hre \<Rightarrow> string \<Rightarrow> string \<Rightarrow> ('c world, string) act" where
  "lumUpdateEnglishName x hre = lumUpdateName x hre ''setEnglishName''"

definition lumUpdateOriginalName :: "ext \<Rightarrow> 'c hre \<Rightarrow> string \<Rightarrow> string \<Rightarrow> ('c world, string) act" where
  "lumUpdateOriginalName x hre = lumUpdateName x hre ''setOriginalName''"

text \<open>\<open>UserType[userType.toUpperCase()]\<close>; the names that the enumeration maps back to strings and
  unknown names are no integers.\<close>

definition upper_char :: "char \<Rightarrow> char" where
  "upper_char c = (if CHR ''a'' \<le> c \<and> c \<le> CHR ''z'' then char_of (of_char c - 32 :: nat) else c)"

definition toUpperCase :: "string \<Rightarrow> string" where
  "toUpperCase s = map upper_char s"

definition UserType :: "string \<Rightarrow> int option" where
  "UserType name = (if name = ''HANDLER'' then Some 0 else if name = ''ARTIST'' then Some 1 else None)"

record new_wallet =
  nw_owners :: "string list"
  nw_threshold :: int
  nw_userType :: string
  nw_englishName :: string
  nw_originalName :: string
  nw_salt :: string

definition lumCreateWallet :: "ext \<Rightarrow> 'c hre \<Rightarrow> new_wallet \<Rightarrow> bool \<Rightarrow> ('c world, string) act" where
  "lumCreateWallet x hre wallet isLog =
     andThen (getContract hre ''LicensedUserManager'') (\<lambda>licensedUserManager.
       case UserType (toUpperCase (nw_userType wallet)) of
         None \<Rightarrow> throw (ProcessExit (- 1))
       | Some userTypeId \<Rightarrow>
           andThen (populate hre licensedUserManager ''createWallet''
              [Some (JArray [JArray (map JString (nw_owners wallet)), JNumber (nw_threshold wallet),
                             JNumber userTypeId, JString (nw_englishName wallet),
                             JString (nw_originalName wallet)]),
               Some (JString (nw_salt wallet))]) (\<lambda>createLUCallData.
           andThen (getAdministratorInstance hre) (\<lambda>admin.
           andThen (adminExecTransaction x hre admin
              (plain_options (ct_address licensedUserManager) createLUCallData)) (\<lambda>createLUTxReceipt.
           andThen (from_result (result_log createLUTxReceipt)) (\<lambda>log.
           andThen (from_result (event_address
              (decodeEventLog_hh hre licensedUserManager ''CreateLicensedUserWallet'' log))) (\<lambda>luAddress.
           andThen (if isLog
                    then andThen (view_call hre licensedUserManager ''getLicensedUser''
                           [Some (JString luAddress)]) (\<lambda>_. ret ())
                    else ret ()) (\<lambda>_.
             ret luAddress)))))))"

section \<open>Meta-transactions\<close>

text \<open>The nonce of the forwarder is a BigNumber. A call of the contract carries its overrides, gas limit
  and, when given, gas price, as its last argument.\<close>

fun as_big :: "js_val \<Rightarrow> js_error + js_val" where
  "as_big (JBig n) = Inr (JBig n)"
| "as_big _ = Inl TypeError"

definition forwarder_args :: "forwarder_call \<Rightarrow> js_val option list" where
  "forwarder_args call =
     [Some (JArray (call_request call)), map_option JString (call_signatures call),
      Some (JArray (JNumber (call_gasLimit call) #
        (case call_gasPrice call of None \<Rightarrow> [] | Some p \<Rightarrow> [JNumber p])))]"

definition metaTxSend ::
  "ext \<Rightarrow> 'c hre \<Rightarrow> string \<Rightarrow> js_val obj \<Rightarrow> string \<Rightarrow> wallet \<Rightarrow> bool \<Rightarrow> int \<Rightarrow> ('c world, receipt) act" where
  "metaTxSend x hre typeKey data fromAddr signerWallet fromEOA gasLimit =
     andThen (from_result (metaTxRequests x)) (\<lambda>requests.
     andThen (loadDeployJSON hre) (\<lambda>deployJSON.
       case obj_get requests typeKey of
         None \<Rightarrow> throw (ProcessExit (- 1))
       | Some metaTxType \<Rightarrow>
           andThen (getAdministratorSigner hre) (\<lambda>adminSigner.
           andThen (from_result (hre_contractAt hre ''MetaTxForwarder''
              (obj_get deployJSON ''metaTxForwarderProxyAddress''))) (\<lambda>mtf.
           let fwd = newMetaTxForwarder (hre_providerChainId hre) (ct_address mtf)
           in andThen (view_call hre mtf ''getNonce'' [Some (JString fromAddr), Some (JBig 0)]) (\<lambda>n.
              andThen (from_result (as_big n)) (\<lambda>nonce.
              let metaTxRequest = \<lparr>requestTypeKey = typeKey, fromAddress = fromAddr, req_nonce = nonce,
                                   requestData = data\<rparr>
              in andThen (from_result (signRequestTypedData x fwd metaTxRequest [signerWallet])) (\<lambda>(_, signatures).
                 andThen (from_result
                    (if fromEOA \<and> length signatures = 1
                     then executeTransactionEOA x metaTxRequest (hd signatures) (Some gasLimit) None
                     else executeTransactionLUW x metaTxRequest signatures (Some gasLimit) None)) (\<lambda>call.
                 andThen (on_chain (hre_send hre mtf (call_method call) (forwarder_args call))) (\<lambda>execResult.
                   waitTxHH hre (tx_hash execResult) (Some 0))))))))))"

text \<open>\<open>scripts/meta-tx-send.ts\<close>: for the names of a wallet, the wallet is the sender.\<close>

definition metaTxSend_main ::
  "ext \<Rightarrow> 'c hre \<Rightarrow> string \<Rightarrow> js_val obj \<Rightarrow> string \<Rightarrow> wallet \<Rightarrow> bool \<Rightarrow> ('c world, string list) act" where
  "metaTxSend_main x hre typeKey data fromAddr signerWallet eoaFlag =
     (let data' = (if typeKey = ''WalletSetEnglishName'' \<or> typeKey = ''WalletSetOriginalName''
                   then obj_spread [(''wallet'', JString fromAddr)] data else data)
      in andThen (metaTxSend x hre typeKey data' fromAddr signerWallet eoaFlag 1000000) (\<lambda>execReceipt.
           parseLogs hre (receipt_logs execReceipt)))"

section \<open>OpenSea meta-transactions\<close>

definition META_TX_TYPE_HASH :: "ext \<Rightarrow> string" where
  "META_TX_TYPE_HASH x = id_hash x ''MetaTransaction(uint256 nonce,address from,bytes functionSignature)''"

text \<open>\<open>nonceOverride || getNonce\<close>: an empty override is none.\<close>

definition toTypedMessageHash ::
  "ext \<Rightarrow> 'c hre \<Rightarrow> contract \<Rightarrow> string \<Rightarrow> string \<Rightarrow> string option \<Rightarrow> ('c world, string) act" where
  "toTypedMessageHash x hre startrailRegistry fromAddr metaTxCalldata nonceOverride =
     andThen (if nonceOverride = None \<or> nonceOverride = Some []
              then view_call hre startrailRegistry ''getNonce'' [Some (JString fromAddr)]
              else ret (JString (the nonceOverride))) (\<lambda>nonce.
     andThen (from_result (hre_abiEncode hre [''bytes32'', ''uint256'', ''address'', ''bytes32'']
        [Some (JString (META_TX_TYPE_HASH x)), Some nonce, Some (JString fromAddr),
         Some (JString (hre_keccak hre metaTxCalldata))])) (\<lambda>encoded.
     andThen (view_call hre startrailRegistry ''getDomainSeperator'' []) (\<lambda>domain.
     andThen (from_result (as_string domain)) (\<lambda>domainSeparator.
       ret (solidityKeccak x [''string'', ''bytes32'', ''bytes32'']
              [[char_of (25 :: nat), char_of (1 :: nat)], domainSeparator, hre_keccak hre encoded])))))"

text \<open>\<open>signDigest\<close> signs with the wallet's key; the signature is then split.\<close>

definition signMetaTx ::
  "ext \<Rightarrow> 'c hre \<Rightarrow> (string \<Rightarrow> 'g) \<Rightarrow> contract \<Rightarrow> string \<Rightarrow> string \<Rightarrow> string option \<Rightarrow> ('c world, 'g) act" where
  "signMetaTx x hre signDigest startrailRegistry fromAddr callData' nonceOverride =
     andThen (toTypedMessageHash x hre startrailRegistry fromAddr callData' nonceOverride) (\<lambda>msgHash.
       ret (signDigest msgHash))"

section \<open>Upgrades by name\<close>

text \<open>\<open>scripts/deploy/upgrade-contract.js\<close>, and \<open>upgrade-contract-uups.ts\<close> for implementations that upgrade
  themselves.\<close>

definition upgradeContract :: "ext \<Rightarrow> 'c hre \<Rightarrow> string \<Rightarrow> ('c world, string) act" where
  "upgradeContract x hre contractName =
     andThen (loadDeployJSON hre) (\<lambda>deployJSON.
     andThen (deployContract hre contractName []
        [(''IDGenerator'', obj_get deployJSON ''idGeneratorLibraryAddress'')]) (\<lambda>implementationContract.
     andThen (updateDeployJSON hre
        [(lowerFirst contractName @ ''ImplementationAddress'', ct_address implementationContract)]) (\<lambda>_.
     andThen (getContract hre contractName) (\<lambda>proxyContract.
     andThen (upgradeFromAdmin x hre (ct_address proxyContract) (ct_address implementationContract)) (\<lambda>_.
       ret (ct_address proxyContract))))))"

definition upgradeContractUUPS :: "ext \<Rightarrow> 'c hre \<Rightarrow> string \<Rightarrow> string \<Rightarrow> ('c world, unit) act" where
  "upgradeContractUUPS x hre proxyName newImplementationName =
     andThen (getAdministratorInstance hre) (\<lambda>administratorContract.
     andThen (getContract hre proxyName) (\<lambda>proxyContract.
     andThen (deployContract hre newImplementationName [] []) (\<lambda>newImpl.
     andThen (populate hre proxyContract ''upgradeTo'' [Some (JString (ct_address newImpl))]) (\<lambda>upgradeToCalldata.
     andThen (adminExecTransaction x hre administratorContract
        (exec_options (ct_address proxyContract) upgradeToCalldata)) (\<lambda>_.
     andThen (updateImplJSON hre [(''collectionFactoryImplementationAddress'', ct_address newImpl)]) (\<lambda>_.
       ret ()))))))"

section \<open>The legacy wallets\<close>

text \<open>The wait for the deployment is part of \<open>hre_deploy\<close>.\<close>

definition deployLicensedUserLegacyContract :: "'c hre \<Rightarrow> ('c world, unit) act" where
  "deployLicensedUserLegacyContract hre =
     andThen (getDeployer hre) (\<lambda>deployer.
     andThen (from_result (hre_artifact hre ''LicensedUserLegacyDisabled'')) (\<lambda>luDisabledFactory.
     andThen (on_chain (hre_deploy hre luDisabledFactory [] [] None)) (\<lambda>luDisabledImpl.
     andThen (updateDeployJSON hre [(''licensedUserLegacyDisabledAddress'', ct_address luDisabledImpl)]) (\<lambda>_.
       ret ()))))"

text \<open>The enumeration \<open>ContractKeysLegacy\<close> is not exported any more: reading its member throws, and
  nothing after it runs.\<close>

definition disableLicensedUserLegacyWallets :: "'c hre \<Rightarrow> ('c world, unit) act" where
  "disableLicensedUserLegacyWallets hre =
     andThen (loadDeployJSON hre) (\<lambda>deployJSON.
     andThen (getDeployer hre) (\<lambda>deployer.
     andThen (from_result (hre_contractAt hre ''NameRegistry'' (obj_get deployJSON ''nameRegistryProxyAddress'')))
       (\<lambda>nameRegistry. throw TypeError)))"

section \<open>The contract accepts what the scripts send\<close>

lemma index_of_map: "inj f \<Longrightarrow> index_of (f x) (map f xs) = index_of x xs"
  by (induction xs) (auto simp: inj_eq)

lemma index_of_first: "x \<notin> set xs \<Longrightarrow> index_of x (xs @ x # ys) = Some (length xs)"
  by (induction xs) auto

lemma findPreviousOwner_pred:
  assumes "inj render" and "render SENTINEL_OWNERS = SENTINEL_ADDRESS" and "a \<notin> set pre"
  shows "findPreviousOwner (map render (pre @ a # post)) (render a) = render (last (SENTINEL_OWNERS # pre))"
proof (cases pre rule: rev_cases)
  case Nil
  then show ?thesis
    using index_of_map [OF assms(1), of a "a # post"] assms(2) by (simp add: findPreviousOwner_def)
next
  case (snoc ps p)
  then show ?thesis
    using index_of_map [OF assms(1), of a "pre @ a # post"] index_of_first [OF assms(3)]
    by (simp add: findPreviousOwner_def nth_append)
qed

lemma segment_last: "segment f a xs b \<Longrightarrow> f (last (a # xs)) = b"
  by (induction xs arbitrary: a) auto

lemma uint_sub_1: "2 \<le> unat (c :: 8 word) \<Longrightarrow> uint (c - 1) = uint c - 1"
  by uint_arith (auto simp: unat_eq_nat_uint)

lemma new_threshold:
  assumes "owner_list ow os" and "2 \<le> length os"
  shows "\<exists>th. uint th = setNewThreshold (map render os) (uint (ow_threshold ow)) \<and> 1 \<le> th \<and> th \<le> ow_count ow - 1"
proof -
  let ?t = "ow_threshold ow" and ?c = "ow_count ow"
  have o: "1 \<le> ?t" "?t \<le> ?c" "unat ?c = length os"
    using assms(1) by (simp_all add: owner_list_def holds_owners_def)
  then have c: "2 \<le> unat ?c" using assms(2) by simp
  have n: "uint ?c = int (length os)" using o(3) by (metis uint_nat)
  show ?thesis
  proof (cases "?t = ?c")
    case True
    have "uint (?c - 1) = uint ?c - 1" using c by (simp add: uint_sub_1)
    moreover have "1 \<le> ?c - 1" using c by unat_arith
    ultimately show ?thesis using True n by (intro exI [of _ "?c - 1"]) (simp add: setNewThreshold_def)
  next
    case False
    have "?t \<le> ?c - 1" using o(2) False by unat_arith
    moreover have "uint ?t \<noteq> int (length os)" using False n by (metis word_uint_eqI)
    ultimately show ?thesis using o(1) by (intro exI [of _ ?t]) (simp add: setNewThreshold_def)
  qed
qed

lemma removal_accepted:
  assumes "owner_list ow os" and "a \<in> set os" and "1 \<le> th" and "th \<le> ow_count ow - 1"
  shows "\<exists>pre post ow' es. os = pre @ a # post \<and> a \<notin> set pre \<and>
    removeOwner wallet (last (SENTINEL_OWNERS # pre)) a th ow = Some (ow', es)"
proof -
  obtain pre post where os: "os = pre @ a # post" "a \<notin> set pre"
    using split_list_first [OF assms(2)] by blast
  have h: "segment (ow_next ow) SENTINEL_OWNERS (pre @ a # post) SENTINEL_OWNERS" "valid_owner a" "ow_count ow \<noteq> 0"
    using assms(1) os by (auto simp: owner_list_def holds_owners_def valid_owner_def)
  then have "ow_next ow (last (SENTINEL_OWNERS # pre)) = a"
    using segment_last [of "ow_next ow" SENTINEL_OWNERS pre a] by (simp add: segment_append)
  then show ?thesis
    using os h(2,3) assms(3,4)
    by (auto simp: removeOwner_def settle_def changeThreshold_def not_less simp del: last.simps)
qed

lemma as_strings_map: "as_strings (JArray (map (JString \<circ> f) xs)) = Inr (map f xs)"
  by (induction xs) (simp_all add: comp_def)

lemma loadDeployJSON_run: "loadDeployJSON hre w = (Inr (content w (jsonPath hre DEPLOY_FILE_NAME)), w)"
  by (simp add: loadDeployJSON_def loadJSON_def content_def)

lemma lumRemoveOwner_run:
  assumes "getContract hre ''LicensedUserManager'' w = (Inr lum, w)"
    and "hre_call hre lum ''getOwners'' [Some (JString wallet)] (chain w) = Inr (JArray (map (JString \<circ> render) os))"
    and "hre_call hre lum ''getThreshold'' [Some (JString wallet)] (chain w) = Inr (JNumber n)"
    and "owner \<in> set (map render os)" and "2 \<le> length os"
  shows "lumRemoveOwner x hre wallet owner w =
    lumExecute x hre (content w (jsonPath hre DEPLOY_FILE_NAME)) lum wallet ''removeOwner''
      [Some (JString wallet), Some (JString (findPreviousOwner (map render os) owner)), Some (JString owner),
       Some (JNumber (setNewThreshold (map render os) n))] w"
proof -
  have load: "andThen (loadDeployJSON hre) f w = f (content w (jsonPath hre DEPLOY_FILE_NAME)) w"
    for f :: "string obj \<Rightarrow> ('a world, string) act"
    using loadDeployJSON_run by (rule andThen_run)
  have ct: "andThen (getContract hre ''LicensedUserManager'') f w = f lum w"
    for f :: "contract \<Rightarrow> ('a world, string) act"
    using assms(1) by (rule andThen_run)
  have view: "andThen (view_call hre lum fn args) f w =
      (case hre_call hre lum fn args (chain w) of Inl e \<Rightarrow> (Inl e, w) | Inr v \<Rightarrow> f v w)"
    for fn args and f :: "js_val \<Rightarrow> ('a world, string) act"
    by (simp add: view_call_def andThen_def split: sum.split)
  have "owner \<in> render ` set os" "\<not> length os < 2" using assms(4,5) by simp_all
  then show ?thesis
    unfolding lumRemoveOwner_def load ct view assms(2) sum.case as_strings_map
    by (simp add: view assms(3))
qed

end
