(* ===== verification/AdminScripts.thy ===== *)
theory AdminScripts
  imports Operations
begin

text \<open>
  The command line scripts of \<open>src/scripts\<close> that change contracts. A script gets the words of its
  command line (\<open>argv\<close>, from \<open>process.argv[2]\<close> on) or the object of its input file, checks the number of
  words, and ends with the exit code of the check or with what the call of the contract gives.
\<close>

section \<open>The command line\<close>

text \<open>\<open>usage n\<close>: fewer than \<open>n\<close> words end the script; a word that is missing is undefined.\<close>

definition usage :: "nat \<Rightarrow> string list \<Rightarrow> ('s, unit) act" where
  "usage n argv = (if length argv < n then throw (ProcessExit (- 1)) else ret ())"

definition arg :: "string list \<Rightarrow> nat \<Rightarrow> js_val option" where
  "arg argv i = (if i < length argv then Some (JString (argv ! i)) else None)"

section \<open>admin-multi-send.js\<close>

definition encodeTransactions ::
  "'c hre \<Rightarrow> contract \<Rightarrow> string \<Rightarrow> js_val obj list \<Rightarrow> ('c world, string list) act" where
  "encodeTransactions hre contractHandle contractFunction inputs =
     map_act (\<lambda>inputRecord. populate hre contractHandle contractFunction (map Some (obj_values inputRecord))) inputs"

text \<open>\<open>to\<close> is undefined in a multi-send and not used.\<close>

definition multi_send_options :: "string \<Rightarrow> bool \<Rightarrow> exec_request" where
  "multi_send_options data wait' =
     (exec_options [] data)\<lparr>er_multiSend := Some True, er_waitConfirmed := Some wait', er_gasLimit := Some 10000000\<rparr>"

definition sendMultiSendTx ::
  "ext \<Rightarrow> 'c hre \<Rightarrow> administrator \<Rightarrow> string \<Rightarrow> string list \<Rightarrow> ('c world, exec_result option) act" where
  "sendMultiSendTx x hre admin startrailRegistryAddress encodedTransactions =
     (let multiSendEncodedTx = encodeMultiSendTransactionsSingleDestination x CALL startrailRegistryAddress
            encodedTransactions
      in adminExecTransaction x hre admin (multi_send_options multiSendEncodedTx True))"

text \<open>lodash's \<open>chunk\<close>: no chunks of a size below 1.\<close>

function chunk :: "nat \<Rightarrow> 'a list \<Rightarrow> 'a list list" where
  "chunk n xs = (if n = 0 \<or> xs = [] then [] else take n xs # chunk n (drop n xs))"
  by pat_completeness auto
termination by (relation "measure (length \<circ> snd)") auto

declare chunk.simps [simp del]

text \<open>A receipt with status 0 ends the script, as does the undefined result of a transaction that was
  not sent.\<close>

fun checkBatch :: "exec_result option \<Rightarrow> ('s, unit) act" where
  "checkBatch None = throw TypeError"
| "checkBatch (Some (ExecReceipt r)) = (if rc_status r = 0 then throw (ProcessExit 1) else ret ())"
| "checkBatch (Some (ExecResponse h)) = ret ()"

definition sendBatch ::
  "ext \<Rightarrow> 'c hre \<Rightarrow> administrator \<Rightarrow> string \<Rightarrow> string list \<Rightarrow> ('c world, unit) act" where
  "sendBatch x hre admin address encodedTransactions =
     andThen (sendMultiSendTx x hre admin address encodedTransactions) checkBatch"

text \<open>An array as the content of a file: its elements under their indices.\<close>

definition array_file :: "string list \<Rightarrow> string obj" where
  "array_file xs = zip (map nat_dec [0..<length xs]) xs"

definition adminMultiSend ::
  "ext \<Rightarrow> 'c hre \<Rightarrow> string \<Rightarrow> string \<Rightarrow> js_val obj list \<Rightarrow> bool \<Rightarrow> nat \<Rightarrow> ('c world, unit) act" where
  "adminMultiSend x hre contractName contractFunction inputs dryRun batchSize =
     andThen (getContract hre contractName) (\<lambda>contractHandle.
     andThen (encodeTransactions hre contractHandle contractFunction inputs) (\<lambda>encodedTransactionsAll.
       if dryRun
       then (\<lambda>w. (Inl (ProcessExit 2),
              w\<lparr>files := (files w)(''/tmp/encoded-transactions.json'' \<mapsto> array_file encodedTransactionsAll)\<rparr>))
       else andThen (getAdministratorInstance hre) (\<lambda>admin.
              for_each (sendBatch x hre admin (ct_address contractHandle))
                (chunk batchSize encodedTransactionsAll))))"

section \<open>migrate/fix-prov-created-at.js\<close>

text \<open>The inputs: the numbers of the tokens whose provenances are wrong, and of every event of the old
  chain its signature, the number of its token and the time of its block in seconds.\<close>

record old_event =
  oe_signature :: string
  oe_token :: int
  oe_blockTimestamp :: int

definition fixProvInput :: "old_event list \<Rightarrow> int \<Rightarrow> js_error + int \<times> int" where
  "fixProvInput events tokenId =
     bindr (defined_or_throw (List.find (\<lambda>e. oe_token e = tokenId)
       (filter (\<lambda>e. starts_with (oe_signature e) ''Provenance'') events)))
       (\<lambda>originalEvent. Inr (tokenId, oe_blockTimestamp originalEvent * 1000))"

definition encodeFixProvTransactions ::
  "'c hre \<Rightarrow> contract \<Rightarrow> (int \<times> int) list \<Rightarrow> ('c world, string list) act" where
  "encodeFixProvTransactions hre startrailRegistry fixProvInputs =
     map_act (\<lambda>(tokenId, originalTimestamp). populate hre startrailRegistry ''emitProvenanceDateMigrationFix''
       [Some (JString (int_dec tokenId)), Some (JString (int_dec originalTimestamp))]) fixProvInputs"

text \<open>All transactions go into one multi-send, which is not waited for; the batches that the script
  computes are not used.\<close>

definition fixProvCreatedAt ::
  "ext \<Rightarrow> 'c hre \<Rightarrow> int list \<Rightarrow> old_event list \<Rightarrow> bool \<Rightarrow> ('c world, unit) act" where
  "fixProvCreatedAt x hre brokenProvs events dryRun =
     andThen (getContract hre ''StartrailRegistry'') (\<lambda>startrailRegistry.
     andThen (from_result (map_res (fixProvInput events) brokenProvs)) (\<lambda>fixProvInputs.
     andThen (encodeFixProvTransactions hre startrailRegistry fixProvInputs) (\<lambda>encodedTransactions.
       if dryRun
       then (\<lambda>w. (Inl (ProcessExit 1),
              w\<lparr>files := (files w)(''/tmp/prov-fixes.json'' \<mapsto> array_file encodedTransactions)\<rparr>))
       else andThen (getAdministratorInstance hre) (\<lambda>admin.
              let multiSendEncodedTx = encodeMultiSendTransactionsSingleDestination x CALL
                    (ct_address startrailRegistry) encodedTransactions
              in andThen (adminExecTransaction x hre admin (multi_send_options multiSendEncodedTx False))
                   (\<lambda>_. ret ())))))"

section \<open>The owners of the Administrator\<close>

text \<open>The Administrator calls its own Safe; the list of its owners is then read and printed.\<close>

definition adminAddOwner :: "ext \<Rightarrow> 'c hre \<Rightarrow> string list \<Rightarrow> ('c world, unit) act" where
  "adminAddOwner x hre argv =
     andThen (usage 1 argv) (\<lambda>_.
     andThen (getAdministratorInstance hre) (\<lambda>admin.
     andThen (populate hre (adm_contract admin) ''addOwnerWithThreshold'' [arg argv 0, Some (JNumber 1)])
       (\<lambda>addOwnerCallData.
     andThen (adminExecTransaction x hre admin
        ((plain_options (ct_address (adm_contract admin)) addOwnerCallData)\<lparr>er_gasLimit := Some 500000\<rparr>)) (\<lambda>_.
     andThen (view_call hre (adm_contract admin) ''getOwners'' []) (\<lambda>_. ret ())))))"

definition adminRemoveOwner :: "ext \<Rightarrow> 'c hre \<Rightarrow> string list \<Rightarrow> ('c world, unit) act" where
  "adminRemoveOwner x hre argv =
     andThen (usage 2 argv) (\<lambda>_.
     andThen (getAdministratorInstance hre) (\<lambda>admin.
     andThen (populate hre (adm_contract admin) ''removeOwner'' [arg argv 0, arg argv 1, Some (JNumber 1)])
       (\<lambda>addOwnerCallData.
     andThen (adminExecTransaction x hre admin
        (plain_options (ct_address (adm_contract admin)) addOwnerCallData)) (\<lambda>_.
     andThen (view_call hre (adm_contract admin) ''getOwners'' []) (\<lambda>_. ret ())))))"

section \<open>Calls of the StartrailRegistry by the Administrator\<close>

definition srSetContractURI :: "ext \<Rightarrow> 'c hre \<Rightarrow> string list \<Rightarrow> ('c world, exec_result option) act" where
  "srSetContractURI x hre argv =
     andThen (usage 1 argv) (\<lambda>_.
     andThen (getContract hre ''StartrailRegistry'') (\<lambda>srContract.
     andThen (getAdministratorInstance hre) (\<lambda>adminContract.
     andThen (populate hre srContract ''setContractURI'' [arg argv 0]) (\<lambda>calldata.
       adminExecTransaction x hre adminContract (exec_options (ct_address srContract) calldata)))))"

definition srSetLockExternalTransfer :: "ext \<Rightarrow> 'c hre \<Rightarrow> string list \<Rightarrow> ('c world, exec_result option) act" where
  "srSetLockExternalTransfer x hre argv =
     andThen (usage 2 argv) (\<lambda>_.
     andThen (getContract hre ''StartrailRegistry'') (\<lambda>srContract.
     andThen (getAdministratorInstance hre) (\<lambda>adminContract.
     andThen (populate hre srContract ''setLockExternalTransfer'' [arg argv 0, arg argv 1]) (\<lambda>calldata.
       adminExecTransaction x hre adminContract (exec_options (ct_address srContract) calldata)))))"

definition srSetTokenURIParts :: "ext \<Rightarrow> 'c hre \<Rightarrow> string list \<Rightarrow> ('c world, exec_result option) act" where
  "srSetTokenURIParts x hre argv =
     andThen (usage 2 argv) (\<lambda>_.
     andThen (getContract hre ''StartrailRegistry'') (\<lambda>srContract.
     andThen (getAdministratorInstance hre) (\<lambda>adminContract.
     andThen (populate hre srContract ''setTokenURIParts'' [arg argv 0, arg argv 1]) (\<lambda>calldata.
       adminExecTransaction x hre adminContract (exec_options (ct_address srContract) calldata)))))"

text \<open>Two words are enough for the check of the updates, which read three.\<close>

definition srUpdateCustomHistory :: "ext \<Rightarrow> 'c hre \<Rightarrow> string list \<Rightarrow> ('c world, exec_result option) act" where
  "srUpdateCustomHistory x hre argv =
     andThen (usage 2 argv) (\<lambda>_.
     andThen (getAdministratorInstance hre) (\<lambda>adminContract.
     andThen (getContract hre ''StartrailRegistry'') (\<lambda>srContract.
     andThen (populate hre srContract ''updateCustomHistory(uint256,string,bytes32)'' [arg argv 0, arg argv 1, arg argv 2]) (\<lambda>calldata.
       adminExecTransaction x hre adminContract (exec_options (ct_address srContract) calldata)))))"

definition srUpdateCustomHistoryWithCid :: "ext \<Rightarrow> 'c hre \<Rightarrow> string list \<Rightarrow> ('c world, exec_result option) act" where
  "srUpdateCustomHistoryWithCid x hre argv =
     andThen (usage 2 argv) (\<lambda>_.
     andThen (getAdministratorInstance hre) (\<lambda>adminContract.
     andThen (getContract hre ''StartrailRegistry'') (\<lambda>srContract.
     andThen (populate hre srContract ''updateCustomHistory(uint256,string,string)'' [arg argv 0, arg argv 1, arg argv 2]) (\<lambda>calldata.
       adminExecTransaction x hre adminContract (exec_options (ct_address srContract) calldata)))))"

definition srWriteCustomHistory :: "ext \<Rightarrow> 'c hre \<Rightarrow> string list \<Rightarrow> ('c world, exec_result option) act" where
  "srWriteCustomHistory x hre argv =
     andThen (usage 3 argv) (\<lambda>_.
     andThen (getAdministratorInstance hre) (\<lambda>adminContract.
     andThen (getContract hre ''StartrailRegistry'') (\<lambda>srContract.
     andThen (populate hre srContract ''writeCustomHistory(string,uint256,bytes32)'' [arg argv 0, arg argv 1, arg argv 2]) (\<lambda>calldata.
       adminExecTransaction x hre adminContract (exec_options (ct_address srContract) calldata)))))"

definition srWriteCustomHistoryWithCid :: "ext \<Rightarrow> 'c hre \<Rightarrow> string list \<Rightarrow> ('c world, exec_result option) act" where
  "srWriteCustomHistoryWithCid x hre argv =
     andThen (usage 3 argv) (\<lambda>_.
     andThen (getAdministratorInstance hre) (\<lambda>adminContract.
     andThen (getContract hre ''StartrailRegistry'') (\<lambda>srContract.
     andThen (populate hre srContract ''writeCustomHistory(string,uint256,string)'' [arg argv 0, arg argv 1, arg argv 2]) (\<lambda>calldata.
       adminExecTransaction x hre adminContract (exec_options (ct_address srContract) calldata)))))"

text \<open>A transfer of the ownership is checked after it was sent.\<close>

definition srTransferOwnership :: "ext \<Rightarrow> 'c hre \<Rightarrow> string list \<Rightarrow> ('c world, exec_result option) act" where
  "srTransferOwnership x hre argv =
     andThen (usage 1 argv) (\<lambda>_.
     andThen (getContract hre ''StartrailRegistry'') (\<lambda>srContract.
     andThen (getAdministratorInstance hre) (\<lambda>adminContract.
     andThen (populate hre srContract ''transferOwnership'' [arg argv 0]) (\<lambda>transferOwnership.
     andThen (adminExecTransaction x hre adminContract
        (exec_options (ct_address srContract) transferOwnership)) (\<lambda>res.
     andThen (view_call hre srContract ''owner'' []) (\<lambda>v.
     andThen (from_result (as_string v)) (\<lambda>owner.
       if toUpperCase owner \<noteq> toUpperCase (argv ! 0)
       then throw (ThrownError (''owner is not '' @ argv ! 0)) else ret res)))))))"

definition srAddCustomHistoryType :: "ext \<Rightarrow> 'c hre \<Rightarrow> string list \<Rightarrow> ('c world, exec_result option) act" where
  "srAddCustomHistoryType x hre argv =
     andThen (usage 1 argv) (\<lambda>_. addCustomHistoryType x hre (argv ! 0))"

text \<open>\<open>srr-update-royalty.ts\<close>: the collection is the destination of the input file.\<close>

definition srrUpdateRoyalty :: "ext \<Rightarrow> 'c hre \<Rightarrow> js_val obj \<Rightarrow> ('c world, unit) act" where
  "srrUpdateRoyalty x hre input =
     (case obj_get input ''destination'' of
        Some (JString destination) \<Rightarrow>
          andThen (from_result (hre_contractAt hre ''CollectionProxyFeaturesAggregate'' (Some destination))) (\<lambda>collection.
          andThen (populate hre collection ''updateSRRRoyalty''
             [obj_get input ''tokenId'', obj_get input ''royaltyReceiver'', obj_get input ''royaltyBasisPoints''])
            (\<lambda>calldata.
          andThen (getAdministratorInstance hre) (\<lambda>admin.
          andThen (adminExecTransaction x hre admin (plain_options destination calldata)) (\<lambda>_. ret ()))))
      | _ \<Rightarrow> throw TypeError)"

section \<open>Calls by the first signer\<close>

text \<open>A transaction is sent and waited for, and the logs of its receipt are parsed.\<close>

definition sendAndParse ::
  "'c hre \<Rightarrow> contract \<Rightarrow> string \<Rightarrow> js_val option list \<Rightarrow> ('c world, string list) act" where
  "sendAndParse hre ct fn args =
     andThen (on_chain (hre_send hre ct fn args)) (\<lambda>result.
     andThen (waitTxHH hre (tx_hash result) (Some 0)) (\<lambda>txReceipt.
       parseLogs hre (receipt_logs txReceipt)))"

definition srrTransferByReveal :: "'c hre \<Rightarrow> js_val obj \<Rightarrow> ('c world, string list) act" where
  "srrTransferByReveal hre input =
     andThen (case obj_get input ''destination'' of
                Some (JString destination) \<Rightarrow>
                  if destination = [] then getContract hre ''StartrailRegistry''
                  else from_result (hre_contractAt hre ''CollectionProxyFeaturesAggregate'' (Some destination))
              | _ \<Rightarrow> getContract hre ''StartrailRegistry'') (\<lambda>collection.
       sendAndParse hre collection ''transferSRRByReveal(address,bytes32,uint256,bool)''
         [obj_get input ''toAddress'', obj_get input ''revealHash'', obj_get input ''tokenId'',
          obj_get input ''isIntermediary''])"

definition bulkCreateSRR :: "'c hre \<Rightarrow> js_val obj \<Rightarrow> ('c world, string list) act" where
  "bulkCreateSRR hre bulkCreateSRRInput =
     andThen (getContract hre ''BulkIssue'') (\<lambda>bulk.
       sendAndParse hre bulk ''createSRRWithProof(bytes32[],bytes32,bytes32,bool,address,bytes32,bool)''
         (map Some (obj_values bulkCreateSRRInput)))"

definition bulkApproveByCommitment :: "'c hre \<Rightarrow> js_val obj \<Rightarrow> ('c world, string list) act" where
  "bulkApproveByCommitment hre bulkInput =
     andThen (getContract hre ''Bulk'') (\<lambda>bulk.
       sendAndParse hre bulk
         ''approveSRRByCommitmentWithProof(bytes32[],bytes32,bytes32,uint256,bytes32,string,uint256,address)''
         (map Some (obj_values bulkInput)))"

definition bulkTransferFromWithProvenance :: "'c hre \<Rightarrow> js_val obj \<Rightarrow> ('c world, string list) act" where
  "bulkTransferFromWithProvenance hre bulkInput =
     andThen (getContract hre ''Bulk'') (\<lambda>bulk.
       sendAndParse hre bulk
         ''transferFromWithProvenanceWithProof(bytes32[],bytes32,bytes32,address,uint256,string,uint256,bool,address)''
         (map Some (obj_values bulkInput)))"

section \<open>Wrappers\<close>

definition metaTxRegister :: "ext \<Rightarrow> 'c hre \<Rightarrow> string list \<Rightarrow> ('c world, unit) act" where
  "metaTxRegister x hre argv = andThen (usage 1 argv) (\<lambda>_. registerRequestTypes x hre [argv ! 0])"

definition metaTxUnregister :: "ext \<Rightarrow> 'c hre \<Rightarrow> string list \<Rightarrow> ('c world, unit) act" where
  "metaTxUnregister x hre argv =
     andThen (usage 1 argv) (\<lambda>_. unregisterRequestTypeCallByAdmin x hre (argv ! 0))"

definition featureRegistryRemoveSelector :: "'c hre \<Rightarrow> string list \<Rightarrow> ('c world, unit) act" where
  "featureRegistryRemoveSelector hre argv =
     andThen (usage 1 argv) (\<lambda>_.
     andThen (getContract hre ''StartrailCollectionFeatureRegistry'') (\<lambda>featureRegistry.
       removeSelectors hre featureRegistry [argv ! 0]))"

text \<open>\<open>lum-update-name.js\<close>: the names that the input file gives, the original name first.\<close>

definition lumUpdateNames ::
  "ext \<Rightarrow> 'c hre \<Rightarrow> string \<Rightarrow> string option \<Rightarrow> string option \<Rightarrow> ('c world, unit) act" where
  "lumUpdateNames x hre walletAddress originalName englishName =
     andThen (case originalName of None \<Rightarrow> ret ()
              | Some n \<Rightarrow> andThen (lumUpdateOriginalName x hre walletAddress n) (\<lambda>_. ret ())) (\<lambda>_.
       case englishName of None \<Rightarrow> ret ()
       | Some n \<Rightarrow> andThen (lumUpdateEnglishName x hre walletAddress n) (\<lambda>_. ret ()))"

section \<open>Every transaction is in one batch\<close>

lemma concat_chunk: "0 < n \<Longrightarrow> concat (chunk n xs) = xs"
proof (induction n xs rule: chunk.induct)
  case (1 n xs)
  then show ?case by (cases "xs = []") (simp_all add: chunk.simps [of n])
qed

lemma chunk_sizes: "list_all (\<lambda>b. b \<noteq> [] \<and> length b \<le> n) (chunk n xs)"
proof (induction n xs rule: chunk.induct)
  case (1 n xs)
  then show ?case by (cases "n = 0 \<or> xs = []") (auto simp: chunk.simps [of n xs])
qed

lemma chunk_zero: "chunk 0 xs = []"
  by (simp add: chunk.simps)

lemma chunk_map: "chunk n (map f xs) = map (map f) (chunk n xs)"
proof (induction n xs rule: chunk.induct)
  case (1 n xs)
  then show ?case
    by (cases "n = 0 \<or> xs = []") (auto simp: chunk.simps [of n xs] chunk.simps [of n "map f xs"] take_map drop_map)
qed

lemma for_each_map: "for_each f (map g xs) = for_each (\<lambda>x. f (g x)) xs"
  by (induction xs) simp_all

lemma chunk_elements: "b \<in> set (chunk n xs) \<Longrightarrow> list_all P xs \<Longrightarrow> list_all P b"
proof (induction n xs rule: chunk.induct)
  case (1 n xs)
  then show ?case
    by (cases "n = 0 \<or> xs = []")
      (auto simp: chunk.simps [of n xs] list_all_iff dest: in_set_takeD in_set_dropD)
qed

lemma packed_batches:
  assumes "strip_documented x" and "pack_documented x" and "buffer_documented x"
    and "length a = 20" and "list_all (list_all (\<lambda>d. length d < 2 ^ 256)) bs"
  shows "\<exists>packs. map (\<lambda>b. encodeMultiSendTransactionsSingleDestination x CALL (toHex a) (map toHex b)) bs = map toHex packs \<and>
    map multi_send_loop packs = map (\<lambda>b. Some (map (\<lambda>d. (0, a, 0, d)) b)) bs"
  using assms(5)
proof (induction bs)
  case Nil
  then show ?case by simp
next
  case (Cons b bs)
  then obtain packs where "map (\<lambda>b. encodeMultiSendTransactionsSingleDestination x CALL (toHex a) (map toHex b)) bs =
      map toHex packs" "map multi_send_loop packs = map (\<lambda>b. Some (map (\<lambda>d. (0, a, 0, d)) b)) bs" by auto
  moreover obtain packed where "encodeMultiSendTransactionsSingleDestination x CALL (toHex a) (map toHex b) = toHex packed"
      "multi_send_loop packed = Some (map (\<lambda>d. (0, a, 0, d)) b)"
    using single_destination_read [OF assms(1-4)] Cons.prems by auto
  ultimately show ?case by (intro exI [of _ "packed # packs"]) simp
qed

lemma batches_sent:
  assumes "getContract hre name w = (Inr ct, w)" and "encodeTransactions hre ct fn inputs w = (Inr calls, w)"
  shows "adminMultiSend x hre name fn inputs False n w =
    andThen (getAdministratorInstance hre) (\<lambda>admin. for_each
      (\<lambda>data. andThen (adminExecTransaction x hre admin (multi_send_options data True)) checkBatch)
      (map (encodeMultiSendTransactionsSingleDestination x CALL (ct_address ct)) (chunk n calls))) w"
proof -
  have "andThen (getContract hre name) f w = f ct w" for f :: "contract \<Rightarrow> ('a world, unit) act"
    using assms(1) by (rule andThen_run)
  moreover have "andThen (encodeTransactions hre ct fn inputs) f w = f calls w"
    for f :: "string list \<Rightarrow> ('a world, unit) act"
    using assms(2) by (rule andThen_run)
  ultimately show ?thesis
    unfolding adminMultiSend_def for_each_map by (simp add: sendBatch_def [abs_def] sendMultiSendTx_def)
qed

end
