(* ===== verification/SubgraphYaml.thy ===== *)
theory SubgraphYaml
  imports Hardhat
begin

text \<open>
  \<open>subgraph/bin/generate-subgraph-yaml.js\<close>: the manifest of the subgraph for one deployment, from
  \<open>subgraph.template.yaml\<close>, the addresses in \<open>deploy.json\<close> and the start blocks in \<open>deployments.json\<close>.
  The files that are read are fields of \<open>gen_input\<close>; the state is the list of ABI files that are
  written on the way, and the manifest is the result. Paths are normalised already.
\<close>

record abi_entry =
  ae_name :: "string option"
  ae_text :: string

record data_source =
  ds_name :: string
  ds_network :: string
  ds_address :: string
  ds_startBlock :: int
  ds_abi :: string

record ds_template =
  dt_name :: string
  dt_network :: string
  dt_abi :: string

record subgraph_yaml =
  sy_dataSources :: "data_source list"
  sy_templates :: "ds_template list option"

record gen_input =
  gi_package :: string
  gi_json :: "string \<Rightarrow> js_error + string obj"
  gi_exists :: "string \<Rightarrow> bool"
  gi_abi :: "string \<Rightarrow> js_error + abi_entry list"
  gi_deployments :: "string \<Rightarrow> (string \<Rightarrow> int option) option"
  gi_template :: subgraph_yaml

type_synonym abi_files = "(string \<times> abi_entry list) list"

section \<open>The arguments\<close>

definition networkOf :: "string \<Rightarrow> js_error + string" where
  "networkOf deploymentName =
     (if deploymentName \<in> {''local'', ''mainnet''} then Inr deploymentName
      else if deploymentName = ''polygon'' then Inr ''matic''
      else if starts_with deploymentName ''amoy'' then Inr ''polygon-amoy''
      else Inl (ThrownError (''network unknown for deployment ['' @ deploymentName @ '']'')))"

text \<open>\<open>Number.parseInt\<close>: spaces and a sign in front, then as many digits as there are, to the base 16 after
  0x; without a digit it is NaN.\<close>

definition hexDigitValue :: "char \<Rightarrow> int" where
  "hexDigitValue c =
     (let n = of_char c in if n < 58 then n - 48 else if n < 71 then n - 55 else n - 87)"

definition parseDigits :: "string \<Rightarrow> int option" where
  "parseDigits s =
     (if take 2 s \<in> {''0x'', ''0X''}
      then let ds = takeWhile isHexDigit (drop 2 s)
           in if ds = [] then None else Some (foldl (\<lambda>a c. 16 * a + hexDigitValue c) 0 ds)
      else let ds = takeWhile isDigit s in if ds = [] then None else Some (digits_value ds))"

definition parseInt :: "string \<Rightarrow> int option" where
  "parseInt s =
     (let t = dropWhile (\<lambda>c. (of_char c :: nat) \<in> {9, 10, 11, 12, 13, 32, 160}) s
      in if take 1 t = ''-'' then map_option uminus (parseDigits (drop 1 t))
         else if take 1 t = ''+'' then parseDigits (drop 1 t)
         else parseDigits t)"

definition deploymentFile :: "gen_input \<Rightarrow> string list \<Rightarrow> string" where
  "deploymentFile g argv =
     (if length argv = 2
      then join_str ''/'' [gi_package g, ''deployments'',
             if argv ! 0 = ''local'' then ''localhost'' else argv ! 0, ''deploy.json'']
      else argv ! 1)"

definition collectionsEnabled :: "string list \<Rightarrow> bool" where
  "collectionsEnabled argv \<longleftrightarrow> argv ! (if length argv = 2 then 1 else 4) = ''collection=enabled''"

definition abisFolder :: "gen_input \<Rightarrow> string list \<Rightarrow> string" where
  "abisFolder g argv = (if length argv = 2 then join_str ''/'' [gi_package g, ''abi''] else argv ! 2)"

text \<open>The start block of the arguments, when there is one.\<close>

definition startBlockArgument :: "string list \<Rightarrow> js_error + int option" where
  "startBlockArgument argv =
     (if length argv = 2 then Inr None
      else case parseInt (argv ! 3) of None \<Rightarrow> Inl (ProcessExit 3) | Some n \<Rightarrow> Inr (Some n))"

section \<open>Data sources\<close>

definition isCollectionFeature :: "string \<Rightarrow> bool" where
  "isCollectionFeature contractName = contains_str (toLowerCase contractName) ''collection''"

definition contractAddress :: "string obj \<Rightarrow> string \<Rightarrow> js_error + string" where
  "contractAddress contractAddresses contractName =
     (case obj_get contractAddresses (lowerFirst contractName @ ''ProxyAddress'') of
        None \<Rightarrow> Inl (ProcessExit 4)
      | Some a \<Rightarrow> if a = [] then Inl (ProcessExit 4) else Inr a)"

text \<open>\<open>subgraphDeployments[deploymentName][contractName]?.startBlock\<close>, which must not be 0.\<close>

definition startBlockOf :: "gen_input \<Rightarrow> string \<Rightarrow> int option \<Rightarrow> string \<Rightarrow> js_error + int" where
  "startBlockOf g deploymentName argument contractName =
     (case argument of
        Some n \<Rightarrow> Inr n
      | None \<Rightarrow> bindr (defined_or_throw (gi_deployments g deploymentName)) (\<lambda>d.
          case d contractName of None \<Rightarrow> Inl (ProcessExit 5)
          | Some n \<Rightarrow> if n = 0 then Inl (ProcessExit 5) else Inr n))"

text \<open>graph-cli reads no arrays of arrays: the function that has one is left out of the ABI.\<close>

definition abiFile :: "gen_input \<Rightarrow> string \<Rightarrow> string \<Rightarrow> (abi_files, string) act" where
  "abiFile g abisPath contractName =
     (let abiFilename = contractName @ ''.json'';
          abiFilePath = join_str ''/'' [abisPath, abiFilename]
      in if contractName = ''Bulk'' \<or> contractName = ''BulkIssue''
         then andThen (from_result (gi_abi g abiFilePath)) (\<lambda>bulkABI.
                let bulkABIModified = filter (\<lambda>e. ae_name e \<noteq> Some ''createSRRWithProofMulti'') bulkABI;
                    path = ''modifyBuild/abi/'' @ abiFilename
                in (\<lambda>written. (Inr path, written @ [(path, bulkABIModified)])))
         else ret abiFilePath)"

definition dataSource ::
  "gen_input \<Rightarrow> string obj \<Rightarrow> string \<Rightarrow> string \<Rightarrow> string \<Rightarrow> int option \<Rightarrow> data_source \<Rightarrow> (abi_files, data_source) act" where
  "dataSource g contractAddresses abisPath deploymentName network argument ds =
     andThen (from_result (contractAddress contractAddresses (ds_name ds))) (\<lambda>address.
     andThen (from_result (startBlockOf g deploymentName argument (ds_name ds))) (\<lambda>startBlock.
     andThen (abiFile g abisPath (ds_name ds)) (\<lambda>abiFilePath.
       ret (ds\<lparr>ds_abi := abiFilePath, ds_network := network, ds_startBlock := startBlock,
              ds_address := address\<rparr>))))"

definition templateSource :: "string \<Rightarrow> string \<Rightarrow> ds_template \<Rightarrow> ds_template" where
  "templateSource abisPath network template =
     (let contractName = dt_name template;
          abiFilename = (if contractName = ''Collection'' then ''CollectionProxyFeaturesAggregate''
                         else contractName) @ ''.json''
      in template\<lparr>dt_abi := join_str ''/'' [abisPath, abiFilename], dt_network := network\<rparr>)"

definition templateSources ::
  "gen_input \<Rightarrow> string \<Rightarrow> string \<Rightarrow> bool \<Rightarrow> js_error + ds_template list option" where
  "templateSources g abisPath network enabled =
     (if enabled
      then bindr (defined_or_throw (sy_templates (gi_template g))) (\<lambda>templates.
             Inr (Some (map (templateSource abisPath network) templates)))
      else Inr None)"

definition generate :: "gen_input \<Rightarrow> string list \<Rightarrow> (abi_files, subgraph_yaml) act" where
  "generate g argv =
     (if length argv \<noteq> 2 \<and> length argv \<noteq> 5 then throw (ProcessExit 1)
      else let deploymentName = argv ! 0; enabled = collectionsEnabled argv; abisPath = abisFolder g argv
           in andThen (from_result (networkOf deploymentName)) (\<lambda>network.
              andThen (from_result (gi_json g (deploymentFile g argv))) (\<lambda>contractAddresses.
              andThen (if gi_exists g abisPath then ret () else throw (ProcessExit 2)) (\<lambda>_.
              andThen (from_result (startBlockArgument argv)) (\<lambda>argument.
              andThen (map_act (dataSource g contractAddresses abisPath deploymentName network argument)
                 (filter (\<lambda>ds. \<not> isCollectionFeature (ds_name ds) \<or> enabled)
                    (sy_dataSources (gi_template g)))) (\<lambda>sources.
              andThen (from_result (templateSources g abisPath network enabled)) (\<lambda>templates.
                ret \<lparr>sy_dataSources = sources, sy_templates = templates\<rparr>)))))))"

section \<open>The data sources of a manifest\<close>

text \<open>A data source of the manifest for one of the template: its contract's address and start block.\<close>

definition sourced ::
  "gen_input \<Rightarrow> string list \<Rightarrow> string \<Rightarrow> string obj \<Rightarrow> int option \<Rightarrow> data_source \<Rightarrow> data_source \<Rightarrow> bool" where
  "sourced g argv network addresses argument ds ds' \<longleftrightarrow>
     ds_name ds' = ds_name ds \<and> ds_network ds' = network \<and> ds_address ds' \<noteq> [] \<and>
     obj_get addresses (lowerFirst (ds_name ds) @ ''ProxyAddress'') = Some (ds_address ds') \<and>
     startBlockOf g (argv ! 0) argument (ds_name ds) = Inr (ds_startBlock ds')"

lemma dataSource_Inr: "dataSource g as p (argv ! 0) net a ds w = (Inr ds', w') \<Longrightarrow> sourced g argv net as a ds ds'"
  by (auto simp: dataSource_def contractAddress_def sourced_def split: option.splits if_splits)

lemma map_act_all2:
  assumes "map_act f xs w = (Inr ys, w')" and "\<And>x w y w'. f x w = (Inr y, w') \<Longrightarrow> P x y"
  shows "list_all2 P xs ys"
  using assms(1) by (induction xs arbitrary: w ys) (auto intro: assms(2))

lemma networkOf_Inr: "networkOf d = Inr n \<Longrightarrow> n \<in> {''local'', ''mainnet'', ''matic'', ''polygon-amoy''}"
  by (auto simp: networkOf_def split: if_splits)

lemma generate_Inr:
  assumes "generate g argv w = (Inr y, w')"
  shows "\<exists>net as a. networkOf (argv ! 0) = Inr net \<and> gi_json g (deploymentFile g argv) = Inr as \<and>
    startBlockArgument argv = Inr a \<and>
    list_all2 (sourced g argv net as a)
      (filter (\<lambda>ds. \<not> isCollectionFeature (ds_name ds) \<or> collectionsEnabled argv) (sy_dataSources (gi_template g)))
      (sy_dataSources y) \<and>
    (sy_templates y = None) = (\<not> collectionsEnabled argv)"
proof -
  have len: "\<not> (length argv \<noteq> 2 \<and> length argv \<noteq> 5)"
  proof
    assume "length argv \<noteq> 2 \<and> length argv \<noteq> 5"
    then show False using assms by (simp add: generate_def)
  qed
  obtain net as a ts w1 where s: "networkOf (argv ! 0) = Inr net"
      "gi_json g (deploymentFile g argv) = Inr as" "startBlockArgument argv = Inr a"
      "map_act (dataSource g as (abisFolder g argv) (argv ! 0) net a)
         (filter (\<lambda>ds. \<not> isCollectionFeature (ds_name ds) \<or> collectionsEnabled argv)
            (sy_dataSources (gi_template g))) w = (Inr (sy_dataSources y), w1)"
      "templateSources g (abisFolder g argv) net (collectionsEnabled argv) = Inr (sy_templates y)"
    using assms [unfolded generate_def Let_def if_not_P [OF len] andThen_Inr]
    by (force split: if_splits)
  have "(sy_templates y = None) = (\<not> collectionsEnabled argv)"
    using s(5) by (cases "sy_templates y") (auto simp: templateSources_def split: if_splits)
  moreover have "list_all2 (sourced g argv net as a)
      (filter (\<lambda>ds. \<not> isCollectionFeature (ds_name ds) \<or> collectionsEnabled argv) (sy_dataSources (gi_template g)))
      (sy_dataSources y)"
    by (rule map_act_all2 [OF s(4)]) (rule dataSource_Inr)
  ultimately show ?thesis
    using s(1-3) by - (rule exI [of _ net], rule exI [of _ as], rule exI [of _ a], intro conjI)
qed

end
