(* ===== verification/Config.thy ===== *)
theory Config
  imports SubgraphYaml Deployments
begin

text \<open>
  \<open>hardhat.config.ts\<close>: the networks with their accounts, the owners of the Administrator and the salts
  of the LicensedUserManager, the named accounts, and the ABI files that the compile task writes.
  \<open>key n\<close> is the n-th private key of the local mnemonic and \<open>address\<close> the address of a private key, as
  ethers derives them; \<open>env\<close> is \<open>process.env\<close>.
\<close>

section \<open>Constants\<close>

definition FACTORY_SALT_LUM_IMPLEMENTATION :: string where
  "FACTORY_SALT_LUM_IMPLEMENTATION = ''0x415a817a056348b03262d7e3a6adf1b95beda769af089aec36bd95b670057b5e''"

definition FACTORY_SALT_LUM_PROXY :: string where
  "FACTORY_SALT_LUM_PROXY = ''0x7da1e2b16f45bc6cdebc856d5b774109788975ad8089cd4b5ecb8762cab30419''"

definition AMOY_QA_FACTORY_SALT_LUM_IMPLEMENTATION :: string where
  "AMOY_QA_FACTORY_SALT_LUM_IMPLEMENTATION =
     ''0x73b9711dae1e0d9228046845bac30c4ca5463f2e6b707fbfd216ab28caba48f8''"

definition AMOY_QA_FACTORY_SALT_LUM_PROXY :: string where
  "AMOY_QA_FACTORY_SALT_LUM_PROXY = ''0xedd78991abde9cbb0d2e027f519d07a70ca2ccae7576605a8f89559baf894dcb''"

definition AMOY_STAGING_FACTORY_SALT_LUM_IMPLEMENTATION :: string where
  "AMOY_STAGING_FACTORY_SALT_LUM_IMPLEMENTATION =
     ''0xb45c00a346a3b4a0c102ca43a5bc4aa69f37dd3cad8f252b3b3cd1f110e6cee4''"

definition AMOY_STAGING_FACTORY_SALT_LUM_PROXY :: string where
  "AMOY_STAGING_FACTORY_SALT_LUM_PROXY =
     ''0xe3996dd5bb658a16ad67f0d3a9bd8d8cf4d2915da1bf72eb1826be57c8d4414f''"

definition AMOY_DEPLOYER_ADDRESS :: string where
  "AMOY_DEPLOYER_ADDRESS = ''0x2A02C20195CA2A9bCc8E043cf7acE2EEa8Ab71Db''"

definition AMOY_DEVELOP_API_ADDRESS :: string where
  "AMOY_DEVELOP_API_ADDRESS = ''0x2B5de787FaC8c91608254158d6b7184feDC783Aa''"

definition AMOY_QA_API_ADDRESS :: string where
  "AMOY_QA_API_ADDRESS = ''0x07E3461Fc2f0541FF2Aa49B983e9d2cCaCB6D007''"

definition AMOY_STAGING_API_ADDRESS :: string where
  "AMOY_STAGING_API_ADDRESS = ''0x1f0032e1C4f90c916580747f5f64584D58c2f5ED''"

definition MAINNET_DEPLOYER_ADDRESS :: string where
  "MAINNET_DEPLOYER_ADDRESS = ''0x4F59ae1E7b5708d5E153402351A3b72F5F493B50''"

definition MAINNET_API_ADDRESS :: string where
  "MAINNET_API_ADDRESS = ''0xb435B200C72277035a6fb58BD4bB8e3d39877d08''"

definition AMOY_COMMON_ADMIN_OWNER_LIST :: "string list" where
  "AMOY_COMMON_ADMIN_OWNER_LIST = [AMOY_DEPLOYER_ADDRESS]"

section \<open>Accounts and networks\<close>

definition privateKeysLocal :: "(nat \<Rightarrow> string) \<Rightarrow> string list" where
  "privateKeysLocal key = map key [0..<10]"

definition accountN :: "(nat \<Rightarrow> string) \<Rightarrow> (string \<Rightarrow> string) \<Rightarrow> nat \<Rightarrow> string" where
  "accountN key address n = address (privateKeysLocal key ! n)"

definition defaultAccount :: "(nat \<Rightarrow> string) \<Rightarrow> (string \<Rightarrow> string) \<Rightarrow> string" where
  "defaultAccount key address = accountN key address 0"

record network_config =
  nc_chainId :: "int option"
  nc_url :: "string option"
  nc_accounts :: "string list"
  nc_owners :: "string list"
  nc_threshold :: int
  nc_salts :: lum_salts
  nc_gasPrice :: "int option"

text \<open>A local network: \<open>networksLocalShared\<close> with its chain id and url.\<close>

definition localNetwork ::
  "(nat \<Rightarrow> string) \<Rightarrow> (string \<Rightarrow> string) \<Rightarrow> int option \<Rightarrow> string option \<Rightarrow> network_config" where
  "localNetwork key address chainId url =
     \<lparr>nc_chainId = chainId, nc_url = url, nc_accounts = privateKeysLocal key,
      nc_owners = [defaultAccount key address, accountN key address 1], nc_threshold = 1,
      nc_salts = \<lparr>salt_implementation = FACTORY_SALT_LUM_IMPLEMENTATION, salt_proxy = FACTORY_SALT_LUM_PROXY\<rparr>,
      nc_gasPrice = Some 1000000000\<rparr>"

definition getAmoyNetworkConfig ::
  "(nat \<Rightarrow> string) \<Rightarrow> (string \<Rightarrow> string option) \<Rightarrow> string \<Rightarrow> lum_salts \<Rightarrow> network_config" where
  "getAmoyNetworkConfig key env apiAddress lumConfig =
     \<lparr>nc_chainId = Some chainIds_amoy, nc_url = Some (env_or env ''AMOY_PROVIDER_URL'' ''http://placeholder''),
      nc_accounts = [env_or env ''AMOY_PRIVATE_KEY'' (privateKeysLocal key ! 0)],
      nc_owners = apiAddress # AMOY_COMMON_ADMIN_OWNER_LIST, nc_threshold = 1, nc_salts = lumConfig,
      nc_gasPrice = None\<rparr>"

text \<open>The gas price of Polygon is read when the file is loaded: without the variable nothing loads.\<close>

definition networks ::
  "(nat \<Rightarrow> string) \<Rightarrow> (string \<Rightarrow> string) \<Rightarrow> (string \<Rightarrow> js_error + int) \<Rightarrow> (string \<Rightarrow> string option)
     \<Rightarrow> js_error + network_config obj" where
  "networks key address parseGwei env =
     bindr (defined_or_throw (env ''POLYGON_GAS_PRICE_GWEI'')) (\<lambda>gwei.
     bindr (parseGwei gwei) (\<lambda>polygonGasPrice.
       Inr [(''hardhat'', localNetwork key address (Some chainIds_hardhat) None),
            (''localhost'', localNetwork key address (Some 5777) (Some ''http://127.0.0.1:8546'')),
            (''fork-polygon'', localNetwork key address None (Some ''http://127.0.0.1:8545'')),
            (''amoy-develop'', getAmoyNetworkConfig key env AMOY_DEVELOP_API_ADDRESS
               \<lparr>salt_implementation = FACTORY_SALT_LUM_IMPLEMENTATION, salt_proxy = FACTORY_SALT_LUM_PROXY\<rparr>),
            (''amoy-release'', getAmoyNetworkConfig key env AMOY_QA_API_ADDRESS
               \<lparr>salt_implementation = AMOY_QA_FACTORY_SALT_LUM_IMPLEMENTATION,
                salt_proxy = AMOY_QA_FACTORY_SALT_LUM_PROXY\<rparr>),
            (''amoy-staging'', getAmoyNetworkConfig key env AMOY_STAGING_API_ADDRESS
               \<lparr>salt_implementation = AMOY_STAGING_FACTORY_SALT_LUM_IMPLEMENTATION,
                salt_proxy = AMOY_STAGING_FACTORY_SALT_LUM_PROXY\<rparr>),
            (''polygon'',
             \<lparr>nc_chainId = Some chainIds_polygon,
              nc_url = Some (env_or env ''POLYGON_PROVIDER_URL'' ''http://placeholder''),
              nc_accounts = [env_or env ''POLYGON_PRIVATE_KEY'' (privateKeysLocal key ! 0)],
              nc_owners = [MAINNET_DEPLOYER_ADDRESS, MAINNET_API_ADDRESS], nc_threshold = 1,
              nc_salts = \<lparr>salt_implementation = FACTORY_SALT_LUM_IMPLEMENTATION, salt_proxy = FACTORY_SALT_LUM_PROXY\<rparr>,
              nc_gasPrice = Some polygonGasPrice\<rparr>)]))"

text \<open>The named accounts, as the scripts read them: by the name of the network, without the default.\<close>

definition namedAccounts ::
  "(nat \<Rightarrow> string) \<Rightarrow> (string \<Rightarrow> string) \<Rightarrow> string obj obj" where
  "namedAccounts key address =
     [(''deployer'',
        [(''default'', defaultAccount key address), (''polygon'', MAINNET_DEPLOYER_ADDRESS),
         (''fork-polygon'', MAINNET_DEPLOYER_ADDRESS), (''localhost'', defaultAccount key address)]),
      (''administrator'',
        [(''default'', defaultAccount key address), (''polygon'', MAINNET_DEPLOYER_ADDRESS),
         (''fork-polygon'', MAINNET_DEPLOYER_ADDRESS), (''localhost'', defaultAccount key address)]),
      (''api'',
        [(''default'', defaultAccount key address), (''polygon'', MAINNET_API_ADDRESS),
         (''localhost'', defaultAccount key address)])]"

definition namedAccount :: "(nat \<Rightarrow> string) \<Rightarrow> (string \<Rightarrow> string) \<Rightarrow> string \<Rightarrow> string \<Rightarrow> string option" where
  "namedAccount key address role network =
     (case obj_get (namedAccounts key address) role of None \<Rightarrow> None | Some accounts \<Rightarrow> obj_get accounts network)"

text \<open>What the scripts read of the configuration of the network they run on.\<close>

definition configured ::
  "(nat \<Rightarrow> string) \<Rightarrow> (string \<Rightarrow> string) \<Rightarrow> string \<Rightarrow> network_config \<Rightarrow> 'c hre \<Rightarrow> 'c hre" where
  "configured key address network c hre =
     hre\<lparr>hre_network := network, hre_chainId := nc_chainId c,
         hre_owners := Some (nc_owners c, nc_threshold c), hre_salts := nc_salts c,
         hre_deployerName := namedAccount key address ''deployer'' network,
         hre_administratorName := namedAccount key address ''administrator'' network\<rparr>"

section \<open>ABI files\<close>

definition abiExportNames :: "string list" where
  "abiExportNames =
     [''Bulk'', ''BulkIssue'', ''BulkTransfer'', ''CollectionFactory'', ''LicensedUserManager'',
      ''MetaTxForwarder'', ''NameRegistry'', ''StartrailProxy'', ''StartrailRegistry'']"

definition abiExportList :: "'c hre \<Rightarrow> js_error + string list" where
  "abiExportList hre = map_res (getContractNameLatest hre) abiExportNames"

text \<open>\<open>name.replace(/V\d*$/, '')\<close>: a version at the end of the name is cut off.\<close>

definition stripVersion :: "string \<Rightarrow> string" where
  "stripVersion name =
     (case dropWhile isDigit (rev name) of [] \<Rightarrow> name | c # r \<Rightarrow> if c = CHR ''V'' then rev r else name)"

text \<open>The files that the compile task leaves in \<open>abi\<close>, after it removed the folder.\<close>

definition compileAbis :: "'c hre \<Rightarrow> (string \<Rightarrow> js_error + abi_entry list) \<Rightarrow> js_error + abi_files" where
  "compileAbis hre readArtifact =
     (let destination = (\<lambda>name. join_str ''/'' [hre_cwd hre, ''abi'', stripVersion name @ ''.json''])
      in bindr (abiExportList hre) (\<lambda>names.
         bindr (map_res (\<lambda>name. bindr (readArtifact name) (\<lambda>abi. Inr (destination name, abi))) names) (\<lambda>exported.
         bindr (readArtifact ''CollectionProxyFeaturesAggregate'') (\<lambda>abi.
           Inr (exported @ [(destination ''CollectionProxyFeaturesAggregate'', uniq abi)])))))"

text \<open>Only one of the two functions \<open>supportsInterface\<close> goes into the combined ABI.\<close>

definition diamondAbiFilter :: "abi_entry \<Rightarrow> string \<Rightarrow> bool" where
  "diamondAbiFilter abiElement fullyQualifiedName \<longleftrightarrow>
     ae_name abiElement \<noteq> Some ''supportsInterface'' \<or>
     contains_str fullyQualifiedName ''collection/features/ERC721Feature''"

section \<open>The Safes of the networks\<close>

text \<open>What the Safe requires of its owners: a threshold between 1 and their number, no repetition.\<close>

definition safe_setup :: "network_config \<Rightarrow> bool" where
  "safe_setup c \<longleftrightarrow> 1 \<le> nc_threshold c \<and> nc_threshold c \<le> int (length (nc_owners c)) \<and> distinct (nc_owners c)"

lemma list_all_both:
  "list_all (\<lambda>(n, c). P n c) xs \<Longrightarrow> list_all (\<lambda>(n, c). Q n c) xs \<Longrightarrow> list_all (\<lambda>(n, c). P n c \<and> Q n c) xs"
  by (auto simp: list_all_iff)

lemma networks_safe:
  assumes "networks key address parseGwei env = Inr nets" and "inj address" and "inj key"
  shows "list_all (\<lambda>(name, c). safe_setup c) nets"
proof -
  have "accountN key address 0 \<noteq> accountN key address 1"
    using assms(2,3) by (simp add: accountN_def privateKeysLocal_def inj_eq)
  moreover have "AMOY_DEVELOP_API_ADDRESS \<noteq> AMOY_DEPLOYER_ADDRESS" "AMOY_QA_API_ADDRESS \<noteq> AMOY_DEPLOYER_ADDRESS"
    "AMOY_STAGING_API_ADDRESS \<noteq> AMOY_DEPLOYER_ADDRESS" "MAINNET_DEPLOYER_ADDRESS \<noteq> MAINNET_API_ADDRESS"
    by code_simp+
  ultimately show ?thesis
    using assms(1) by (auto simp: networks_def safe_setup_def localNetwork_def getAmoyNetworkConfig_def
        AMOY_COMMON_ADMIN_OWNER_LIST_def defaultAccount_def)
qed

lemma networks_scripts:
  assumes "networks key address parseGwei env = Inr nets"
  shows "list_all (\<lambda>(name, c).
    getStartrailAdministratorConfig (configured key address name c hre) = Inr (nc_owners c, nc_threshold c) \<and>
    isLiveNetwork (configured key address name c hre) =
      (name \<in> {''amoy-develop'', ''amoy-release'', ''amoy-staging'', ''polygon''}) \<and>
    isForkMode (configured key address name c hre) = (name = ''fork-polygon'') \<and>
    succeeds (defined_or_throw (namedAccount key address ''administrator'' name)) =
      (name \<in> {''localhost'', ''polygon'', ''fork-polygon''})) nets"
  using assms by (auto simp: networks_def getStartrailAdministratorConfig_def configured_def isLiveNetwork_def
      localNetwork_def getAmoyNetworkConfig_def chainIds_hardhat_def chainIds_ganache_def chainIds_amoy_def
      chainIds_polygon_def isForkMode_def starts_with_def namedAccount_def namedAccounts_def obj_get_def
      succeeds_def defined_or_throw_def)

lemma stripVersion_version:
  assumes "list_all isDigit v"
  shows "stripVersion (name @ ''V'' @ v) = name"
proof -
  have "dropWhile isDigit (rev v @ CHR ''V'' # rev name) = CHR ''V'' # rev name"
    using assms by (subst dropWhile_append2) (auto simp: list_all_iff isDigit_def)
  then show ?thesis by (simp add: stripVersion_def)
qed

end
