(* ===== verification/OperationSamples.thy ===== *)
theory OperationSamples
  imports DeploySamples AdminScripts Config
begin

text \<open>
  The environments of the witnesses about operations: a network with a licensed user wallet of two
  owners, a registry that takes batches of transactions, a deployment of the subgraph, and local
  accounts.
\<close>

section \<open>A wallet of two owners\<close>

definition sample_owners :: "address list" where
  "sample_owners = [carol, bob]"

definition sample_owner_wallet :: owner_wallet where
  "sample_owner_wallet =
     the (setupOwners sample_owners 2 \<lparr>ow_next = \<lambda>_. ZERO_ADDRESS, ow_count = 0, ow_threshold = 0\<rparr>)"

lemma sample_owners_distinct: "distinct sample_owners" "length sample_owners = 2" "bob \<in> set sample_owners"
  by (simp_all add: sample_owners_def carol_def bob_def)

lemma sample_setup:
  "setupOwners sample_owners 2 \<lparr>ow_next = \<lambda>_. ZERO_ADDRESS, ow_count = 0, ow_threshold = 0\<rparr> = Some sample_owner_wallet"
proof -
  have "carol \<noteq> SENTINEL_OWNERS" "bob \<noteq> SENTINEL_OWNERS" by code_simp+
  moreover have "carol \<noteq> ZERO_ADDRESS" "bob \<noteq> ZERO_ADDRESS" "carol \<noteq> bob"
    by (auto simp: carol_def bob_def ZERO_ADDRESS_def)
  ultimately show ?thesis
    unfolding sample_owner_wallet_def by (simp add: setupOwners_def sample_owners_def valid_owner_def)
qed

lemma sample_owner_list: "owner_list sample_owner_wallet sample_owners"
  using setupOwners_list [OF sample_setup] sample_owners_distinct by simp

lemma sample_owner_threshold: "ow_threshold sample_owner_wallet = 2"
  using sample_setup by (auto simp: setupOwners_def split: if_splits dest!: arg_cong [of _ _ ow_threshold])

lemma sample_sentinel: "toHex SENTINEL_OWNERS = SENTINEL_ADDRESS"
  by code_simp

definition sample_lum_hre :: "sample_chain_state hre" where
  "sample_lum_hre = sample_hre\<lparr>hre_call := (\<lambda>ct f vs c.
     if f = ''getOwners'' then Inr (JArray (map (JString \<circ> toHex) sample_owners))
     else if f = ''getThreshold'' then Inr (JNumber 2) else Inr (JString ''''))\<rparr>"

definition sample_lum :: contract where
  "sample_lum = \<lparr>ct_abi = ''LicensedUserManager'', ct_address = ''0x0c''\<rparr>"

definition sample_lum_world :: "sample_chain_state world" where
  "sample_lum_world = sample_world\<lparr>files :=
     [jsonPath sample_hre DEPLOY_FILE_NAME \<mapsto> [(''licensedUserManagerProxyAddress'', ''0x0c'')]]\<rparr>"

lemma sample_lum_key: "deployJSONKey ''LicensedUserManager'' = ''licensedUserManagerProxyAddress''"
  by code_simp

lemma sample_lum_path: "jsonPath sample_lum_hre f = jsonPath sample_hre f"
  by (simp add: jsonPath_def sample_lum_hre_def)

lemma sample_lum_at: "getContract sample_lum_hre ''LicensedUserManager'' sample_lum_world = (Inr sample_lum, sample_lum_world)"
  unfolding getContract_def sample_lum_key
  by (simp add: loadDeployJSON_def loadJSON_def andThen_def sample_lum_world_def getContractNameLatest_def
      sortByNumber_def js_sort_def sample_lum_def obj_get_def sample_lum_path)
    (simp add: sample_lum_hre_def sample_hre_def Let_def)

section \<open>The subgraph's copy of a wallet\<close>

definition sample_creation :: "(eth_event \<times> trigger) list" where
  "sample_creation =
     [(sample_event 1, LicensedUserManager (CreateLicensedUserWallet alice sample_owners 2 ''a'' ''b'' 0 [9]))]"

definition sample_lum_store :: store where
  "sample_lum_store = result_or empty_store (run_subgraph sample_host sample_creation empty_store)"

lemma sample_creation_run:
  "run_subgraph sample_host sample_creation empty_store = Inr sample_lum_store \<and> good_store sample_lum_store"
proof -
  have "legal_chain sample_host sample_creation (ledger_of empty_store)"
    by (simp add: sample_creation_def seconds_ok_def valid_time_def date_limit_def eventUTCMillis_def
        secondsToMillis_def sample_event_def)
  from legal_chain_indexed [OF good_empty this] show ?thesis
    by (auto simp: sample_lum_store_def result_or_def)
qed

lemma sample_lum_wallets:
  "wf_wallets sample_lum_store" "wallets_of sample_lum_store (toHex alice) = Some (sample_owners, 2)"
proof -
  have "wf_wallets empty_store" by (simp add: wf_wallets_def empty_store_def)
  from ensuresD [OF wallets_run [OF this] conjunct1 [OF sample_creation_run]]
  show "wf_wallets sample_lum_store" "wallets_of sample_lum_store (toHex alice) = Some (sample_owners, 2)"
    by (simp_all add: wallets_of_run_def sample_creation_def wallets_of_def empty_store_def)
qed

lemma wallet_events_run:
  assumes "good_store s" and "list_all (\<lambda>ev. valid_time (eventUTCMillis ev)) evs" and "list_all luw_legal es"
  shows "\<exists>s'. run_subgraph h (zip evs (map LicensedUserManager es)) s = Inr s'"
proof -
  have "legal_chain h (zip evs (map LicensedUserManager es)) l" for l
    using assms(2,3) by (induction evs es arbitrary: l rule: list_induct2') simp_all
  from legal_chain_indexed [OF assms(1) this] show ?thesis by blast
qed

section \<open>A batch of transactions\<close>

definition sample_batch_world :: "sample_chain_state world" where
  "sample_batch_world = sample_world\<lparr>files :=
     [jsonPath sample_hre DEPLOY_FILE_NAME \<mapsto> [(''metaTxForwarderProxyAddress'', toHex alice)]]\<rparr>"

lemma sample_mtf_key: "deployJSONKey ''MetaTxForwarder'' = ''metaTxForwarderProxyAddress''"
  by code_simp

lemma sample_mtf_at: "getContract sample_hre ''MetaTxForwarder'' sample_batch_world = (Inr sample_mtf, sample_batch_world)"
  unfolding getContract_def sample_mtf_key
  by (simp add: loadDeployJSON_def loadJSON_def andThen_def sample_batch_world_def getContractNameLatest_def
      sortByNumber_def js_sort_def sample_mtf_def obj_get_def)
    (simp add: sample_hre_def Let_def)

lemma sample_batch_calls:
  "encodeTransactions sample_hre sample_mtf ''f'' [[], [], []] sample_batch_world =
     (Inr (map toHex [utf8 ''f0'', utf8 ''f0'', utf8 ''f0'']), sample_batch_world)"
proof -
  have "int_dec 0 = ''0''" by code_simp
  then show ?thesis by (simp add: encodeTransactions_def populate_def obj_values_def sample_hre_def)
qed

section \<open>A deployment of the subgraph\<close>

definition sample_gen :: gen_input where
  "sample_gen =
     \<lparr>gi_package = ''/repo'', gi_json = (\<lambda>p. Inr [(''bulkProxyAddress'', ''0x0b'')]), gi_exists = (\<lambda>p. True),
      gi_abi = (\<lambda>p. Inr [\<lparr>ae_name = Some ''createSRRWithProofMulti'', ae_text = ''[][]''\<rparr>]),
      gi_deployments = (\<lambda>d. if d = ''amoy-develop'' then Some (\<lambda>n. Some 7) else None),
      gi_template =
        \<lparr>sy_dataSources =
           [\<lparr>ds_name = ''Bulk'', ds_network = [], ds_address = [], ds_startBlock = 0, ds_abi = []\<rparr>,
            \<lparr>ds_name = ''CollectionFactory'', ds_network = [], ds_address = [], ds_startBlock = 0, ds_abi = []\<rparr>],
         sy_templates = Some [\<lparr>dt_name = ''Collection'', dt_network = [], dt_abi = []\<rparr>]\<rparr>\<rparr>"

lemma sample_bulk_key: "lowerFirst ''Bulk'' @ ''ProxyAddress'' = ''bulkProxyAddress''"
  by code_simp

lemma sample_gen_sources:
  "filter (\<lambda>ds. \<not> isCollectionFeature (ds_name ds) \<or> collectionsEnabled [''amoy-develop'', ''collection=disabled''])
     (sy_dataSources (gi_template sample_gen)) =
   [\<lparr>ds_name = ''Bulk'', ds_network = [], ds_address = [], ds_startBlock = 0, ds_abi = []\<rparr>]"
  by code_simp

lemma sample_generates:
  "\<exists>y w'. generate sample_gen [''amoy-develop'', ''collection=disabled''] [] = (Inr y, w')"
proof -
  have "isl (fst (generate sample_gen [''amoy-develop'', ''collection=disabled''] [])) = False" by code_simp
  then show ?thesis
    by (cases "generate sample_gen [''amoy-develop'', ''collection=disabled''] []";
        cases "fst (generate sample_gen [''amoy-develop'', ''collection=disabled''] [])") auto
qed

section \<open>Local accounts\<close>

definition sample_key_n :: "nat \<Rightarrow> string" where
  "sample_key_n n = replicate n (CHR ''k'')"

lemma sample_keys_differ: "inj sample_key_n"
  by (auto simp: inj_def sample_key_n_def dest: arg_cong [of _ _ length])

definition sample_env :: "string \<Rightarrow> string option" where
  "sample_env name = (if name = ''POLYGON_GAS_PRICE_GWEI'' then Some ''30'' else None)"

definition sample_nets :: "network_config obj" where
  "sample_nets = result_or [] (networks sample_key_n id (\<lambda>s. Inr 30) sample_env)"

lemma sample_networks: "networks sample_key_n id (\<lambda>s. Inr 30) sample_env = Inr sample_nets"
  by (simp add: sample_nets_def result_or_def networks_def sample_env_def defined_or_throw_def)

lemma sample_amoy:
  "\<exists>c. obj_get sample_nets ''amoy-develop'' = Some c \<and> (''amoy-develop'', c) \<in> set sample_nets \<and>
     nc_owners c = [AMOY_DEVELOP_API_ADDRESS, AMOY_DEPLOYER_ADDRESS] \<and> nc_threshold c = 1"
  by (simp add: sample_nets_def result_or_def networks_def sample_env_def defined_or_throw_def obj_get_def
      getAmoyNetworkConfig_def AMOY_COMMON_ADMIN_OWNER_LIST_def)

end
