(* ===== verification/SignatureChecks.thy ===== *)
theory SignatureChecks
  imports Evm Runtime
begin

text \<open>
  \<open>contracts/common/SignatureDecoder.sol\<close> and \<open>contracts/licensedUser/SignatureChecker.sol\<close>: taking a
  signature out of the concatenation of several, and checking that enough owners of a wallet
  signed. Signatures are accepted exactly when the signers of the first \<open>threshold\<close> of them are
  owners in ascending order, hence different.
\<close>

section \<open>SignatureDecoder.sol\<close>

text \<open>The three \<open>mload\<close>s; the last one is masked to the byte at its end.\<close>

definition signatureSplit :: "evm \<Rightarrow> bytes \<Rightarrow> nat \<Rightarrow> byte \<times> bytes \<times> bytes" where
  "signatureSplit e signatures pos =
     (let signaturePos = 65 * pos
      in (last (mload e signatures (signaturePos + 33) 32),
          mload e signatures signaturePos 32,
          mload e signatures (signaturePos + 32) 32))"

definition recover :: "evm \<Rightarrow> bytes \<Rightarrow> bytes \<Rightarrow> nat \<Rightarrow> address" where
  "recover e hash signatures pos =
     (case signatureSplit e signatures pos of (v, r, s) \<Rightarrow> evm_ecrecover e hash v r s)"

section \<open>SignatureChecker.sol\<close>

definition SENTINEL_OWNER :: address where
  "SENTINEL_OWNER = replicate 19 0 @ [1]"

text \<open>The loop over the signatures from index \<open>i\<close> on.\<close>

function check_loop :: "evm \<Rightarrow> (address \<Rightarrow> address) \<Rightarrow> bytes \<Rightarrow> bytes \<Rightarrow> nat \<Rightarrow> nat \<Rightarrow> address \<Rightarrow> bool" where
  "check_loop e owners dataHash signatures threshold i lastOwner =
     (if i < threshold
      then let currentOwner = recover e dataHash signatures i
           in be_nat lastOwner < be_nat currentOwner \<and>
              owners currentOwner \<noteq> ZERO_ADDRESS \<and>
              currentOwner \<noteq> SENTINEL_OWNER \<and>
              check_loop e owners dataHash signatures threshold (i + 1) currentOwner
      else True)"
  by pat_completeness auto
termination by (relation "measure (\<lambda>(_, _, _, _, threshold, i, _). threshold - i)") auto

declare check_loop.simps [simp del]

definition checkSignatures ::
  "evm \<Rightarrow> (address \<Rightarrow> address) \<Rightarrow> 8 word \<Rightarrow> bytes \<Rightarrow> bytes \<Rightarrow> bool" where
  "checkSignatures e owners threshold dataHash signatures \<longleftrightarrow>
     0 < unat threshold \<and>
     unat threshold * 65 \<le> length signatures \<and>
     check_loop e owners dataHash signatures (unat threshold) 0 ZERO_ADDRESS"

section \<open>What is accepted\<close>

definition recovered_signers :: "evm \<Rightarrow> bytes \<Rightarrow> bytes \<Rightarrow> nat \<Rightarrow> address list" where
  "recovered_signers e hash signatures n = map (recover e hash signatures) [0 ..< n]"

definition may_sign :: "(address \<Rightarrow> address) \<Rightarrow> address \<Rightarrow> bool" where
  "may_sign owners a \<longleftrightarrow> owners a \<noteq> ZERO_ADDRESS \<and> a \<noteq> SENTINEL_OWNER"

lemma check_loop_iff:
  "check_loop e owners h sigs n i lastOwner \<longleftrightarrow>
     sorted_wrt (\<lambda>a b. be_nat a < be_nat b) (lastOwner # map (recover e h sigs) [i ..< n]) \<and>
     list_all (may_sign owners) (map (recover e h sigs) [i ..< n])"
proof (induction e owners h sigs n i lastOwner rule: check_loop.induct)
  case (1 e owners h sigs n i lastOwner)
  show ?case
  proof (cases "i < n")
    case True
    then have l: "[i ..< n] = i # [i + 1 ..< n]" by (simp add: upt_conv_Cons)
    let ?c = "recover e h sigs i"
    have "check_loop e owners h sigs n i lastOwner \<longleftrightarrow>
        be_nat lastOwner < be_nat ?c \<and> may_sign owners ?c \<and> check_loop e owners h sigs n (i + 1) ?c"
      using True by (subst check_loop.simps) (auto simp: Let_def may_sign_def)
    then show ?thesis
      unfolding l using "1.IH" [OF True refl] by (auto intro: less_trans)
  next
    case False
    then show ?thesis by (subst check_loop.simps) simp
  qed
qed

lemma checkSignatures_iff:
  "checkSignatures e owners threshold h sigs \<longleftrightarrow>
     threshold \<noteq> 0 \<and> unat threshold * 65 \<le> length sigs \<and>
     sorted_wrt (\<lambda>a b. be_nat a < be_nat b) (ZERO_ADDRESS # recovered_signers e h sigs (unat threshold)) \<and>
     list_all (may_sign owners) (recovered_signers e h sigs (unat threshold))"
  by (auto simp: checkSignatures_def check_loop_iff recovered_signers_def unat_gt_0)

lemma ascending_distinct:
  "sorted_wrt (\<lambda>a b. be_nat a < be_nat b) as \<Longrightarrow> distinct as"
  by (induction as) auto

text \<open>As many different owners as the threshold demands have signed.\<close>

lemma checked_signers:
  assumes "checkSignatures e owners threshold h sigs"
  shows "distinct (recovered_signers e h sigs (unat threshold))" "length (recovered_signers e h sigs (unat threshold)) = unat threshold"
    "\<forall>a \<in> set (recovered_signers e h sigs (unat threshold)). may_sign owners a" "0 < unat threshold"
  using assms ascending_distinct [of "ZERO_ADDRESS # recovered_signers e h sigs (unat threshold)"]
  by (auto simp: checkSignatures_iff recovered_signers_def list_all_iff unat_gt_0)

section \<open>Joined signatures\<close>

text \<open>The signature of 65 bytes at a position of a concatenation.\<close>

lemma nth_piece:
  assumes "\<forall>p \<in> set ps. length p = 65" and "i < length ps"
  shows "take 65 (drop (65 * i) (concat ps)) = ps ! i" "65 * i + 65 \<le> length (concat ps)"
proof -
  show "take 65 (drop (65 * i) (concat ps)) = ps ! i"
    using assms
  proof (induction ps arbitrary: i)
    case (Cons p ps)
    then show ?case by (cases i) auto
  qed simp
  have "length (concat ps) = 65 * length ps" using assms(1) by (induction ps) auto
  then show "65 * i + 65 \<le> length (concat ps)" using assms(2) by simp
qed

lemma signatureSplit_piece:
  assumes "\<forall>p \<in> set ps. length p = 65" and "i < length ps"
  shows "signatureSplit e (concat ps) i = (ps ! i ! 64, take 32 (ps ! i), take 32 (drop 32 (ps ! i)))"
proof -
  let ?b = "concat ps"
  note piece = nth_piece [OF assms]
  have r: "mload e ?b (65 * i) 32 = take 32 (ps ! i)"
    using piece(2) unfolding piece(1) [symmetric] by (simp add: mload_inside)
  have s: "mload e ?b (65 * i + 32) 32 = take 32 (drop 32 (ps ! i))"
    using piece(2) unfolding piece(1) [symmetric] by (simp add: mload_inside drop_take add.commute)
  have "last (mload e ?b (65 * i + 33) 32) = ?b ! (65 * i + 64)"
    using piece(2) by (simp add: mload_def last_conv_nth add.commute)
  also have "\<dots> = ps ! i ! 64"
    using piece(2) unfolding piece(1) [symmetric] by simp
  finally show ?thesis using r s by (simp add: signatureSplit_def Let_def)
qed

text \<open>The address that a signature of 65 bytes recovers to.\<close>

definition signature_address :: "evm \<Rightarrow> bytes \<Rightarrow> bytes \<Rightarrow> address" where
  "signature_address e hash p = evm_ecrecover e hash (p ! 64) (take 32 p) (take 32 (drop 32 p))"

lemma signers_joined:
  assumes "\<forall>p \<in> set ps. length p = 65" and "n \<le> length ps"
  shows "recovered_signers e h (concat ps) n = map (signature_address e h) (take n ps)"
  unfolding recovered_signers_def using assms
  by (intro nth_equalityI) (auto simp: recover_def signatureSplit_piece signature_address_def)

end
