(* ===== verification/ForwarderContract.thy ===== *)
theory ForwarderContract
  imports SignatureChecks Subgraph
begin

text \<open>
  The MetaTxForwarder on chain: \<open>contracts/metaTx/MetaTxForwarderV3.sol\<close> with
  \<open>MetaTxRequestManager.sol\<close>, \<open>replayProtection/ReplayProtection.sol\<close> and \<open>TransactionExecutor.sol\<close>. A
  call is reverted (\<open>None\<close>) or returns the state and the events it emits. The contracts it asks are
  parameters (\<open>surroundings\<close>): the Administrator the NameRegistry names, the check of the signatures
  of a wallet, the registry of collections. What a forwarded call does is a function on the state
  of the forwarder, which it may call again.
\<close>

section \<open>State\<close>

record request_type =
  rq_destination :: address
  rq_functionSignature :: bytes

record execution_data =
  xd_typeHash :: bytes
  xd_from :: address
  xd_nonce :: "256 word"
  xd_suffixData :: bytes
  xd_callData :: bytes

record forwarder_state =
  fs_nonces :: "address \<Rightarrow> 128 word \<Rightarrow> 128 word"
  fs_typeHashes :: "bytes \<Rightarrow> bool"
  fs_requestTypes :: "bytes \<Rightarrow> request_type"
  fs_domainSeparator :: bytes
  fs_nameRegistry :: address
  fs_collectionRegistry :: address
  fs_initialized :: bool

record surroundings =
  sur_administrator :: "address \<Rightarrow> address"
  validSignatureSet :: "address \<Rightarrow> address \<Rightarrow> bytes \<Rightarrow> bytes \<Rightarrow> bool"
  registeredCollection :: "address \<Rightarrow> address \<Rightarrow> bool"

type_synonym callee = "address \<Rightarrow> bytes \<Rightarrow> forwarder_state \<Rightarrow> forwarder_state option"

section \<open>ReplayProtection.sol\<close>

definition UINT_128_SHIFT :: "256 word" where
  "UINT_128_SHIFT = 2 ^ 128"

definition mtf_getNonce :: "forwarder_state \<Rightarrow> address \<Rightarrow> 128 word \<Rightarrow> 128 word" where
  "mtf_getNonce st wallet channel = fs_nonces st wallet channel"

definition nonce_channel :: "256 word \<Rightarrow> 128 word" where
  "nonce_channel packedNonce = ucast (drop_bit 128 packedNonce)"

definition nonce_number :: "256 word \<Rightarrow> 128 word" where
  "nonce_number packedNonce = ucast (packedNonce mod UINT_128_SHIFT)"

text \<open>The increment is checked: it reverts at the largest number of 128 bits.\<close>

definition checkAndUpdateNonce ::
  "forwarder_state \<Rightarrow> address \<Rightarrow> 256 word \<Rightarrow> (bool \<times> forwarder_state) option" where
  "checkAndUpdateNonce st wallet packedNonce =
     (let channel = nonce_channel packedNonce;
          nonce = nonce_number packedNonce;
          currentNonce = fs_nonces st wallet channel
      in if nonce = currentNonce
         then if currentNonce = - 1 then None
              else Some (True, st\<lparr>fs_nonces := (fs_nonces st)
                     (wallet := (fs_nonces st wallet)(channel := currentNonce + 1))\<rparr>)
         else Some (False, st))"

definition mtf_packNonce :: "128 word \<Rightarrow> 128 word \<Rightarrow> 256 word" where
  "mtf_packNonce channel nonce = push_bit 128 (ucast channel) + ucast nonce"

section \<open>MetaTxRequestManager.sol\<close>

definition MTRM_DOMAIN_NAME :: string where
  "MTRM_DOMAIN_NAME = ''Startrail''"

definition MTRM_DOMAIN_VERSION :: string where
  "MTRM_DOMAIN_VERSION = ''1''"

definition DOMAIN_SEPARATOR_TYPEHASH :: "evm \<Rightarrow> bytes" where
  "DOMAIN_SEPARATOR_TYPEHASH e = evm_keccak256 e (str_bytes
     ''EIP712Domain(string name,string version,uint256 chainId,address verifyingContract)'')"

definition GENERIC_PARAMS :: string where
  "GENERIC_PARAMS = ''address from,uint256 nonce''"

text \<open>The initializer of the forwarder; it runs once, the zero address is refused.\<close>

definition MTRM_initialize :: "evm \<Rightarrow> address \<Rightarrow> address \<Rightarrow> forwarder_state \<Rightarrow> forwarder_state" where
  "MTRM_initialize e this nameRegistryAddress st =
     st\<lparr>fs_domainSeparator := evm_keccak256 e
          (DOMAIN_SEPARATOR_TYPEHASH e @ evm_keccak256 e (str_bytes MTRM_DOMAIN_NAME) @
           evm_keccak256 e (str_bytes MTRM_DOMAIN_VERSION) @ abi_uint (evm_chainid e) @ abi_address this),
        fs_nameRegistry := nameRegistryAddress\<rparr>"

definition mtf_initialize :: "evm \<Rightarrow> address \<Rightarrow> address \<Rightarrow> forwarder_state \<Rightarrow> forwarder_state option" where
  "mtf_initialize e this nameRegistry st =
     (if fs_initialized st \<or> nameRegistry = ZERO_ADDRESS then None
      else Some (MTRM_initialize e this nameRegistry (st\<lparr>fs_initialized := True\<rparr>)))"

definition onlyAdministrator :: "surroundings \<Rightarrow> forwarder_state \<Rightarrow> address \<Rightarrow> bool" where
  "onlyAdministrator sur st sender \<longleftrightarrow> sur_administrator sur (fs_nameRegistry st) = sender"

definition request_type_string :: "string \<Rightarrow> string \<Rightarrow> string" where
  "request_type_string typeName typeSuffix =
     typeName @ ''('' @ GENERIC_PARAMS @ '','' @ typeSuffix @ '')''"

definition mtf_registerRequestType ::
  "evm \<Rightarrow> surroundings \<Rightarrow> address \<Rightarrow> string \<Rightarrow> string \<Rightarrow> address \<Rightarrow> bytes \<Rightarrow> forwarder_state
     \<Rightarrow> (forwarder_state \<times> mtf_event list) option" where
  "mtf_registerRequestType e sur sender typeName typeSuffix destinationContract functionSignature st =
     (if \<not> onlyAdministrator sur st sender then None
      else if list_ex (\<lambda>c. c = CHR ''('' \<or> c = CHR '')'') typeName then None
      else let requestType = request_type_string typeName typeSuffix;
               requestTypeHash = evm_keccak256 e (str_bytes requestType)
           in if fs_typeHashes st requestTypeHash then None
              else Some (st\<lparr>fs_typeHashes := (fs_typeHashes st)(requestTypeHash := True),
                            fs_requestTypes := (fs_requestTypes st)
                              (requestTypeHash := \<lparr>rq_destination = destinationContract,
                                                   rq_functionSignature = functionSignature\<rparr>)\<rparr>,
                         [RequestTypeRegistered requestTypeHash requestType]))"

definition mtf_unregisterRequestType ::
  "surroundings \<Rightarrow> address \<Rightarrow> bytes \<Rightarrow> forwarder_state \<Rightarrow> (forwarder_state \<times> mtf_event list) option" where
  "mtf_unregisterRequestType sur sender typeHash' st =
     (if \<not> fs_typeHashes st typeHash' \<or> \<not> onlyAdministrator sur st sender then None
      else Some (st\<lparr>fs_typeHashes := (fs_typeHashes st)(typeHash' := False),
                    fs_requestTypes := (fs_requestTypes st)
                      (typeHash' := \<lparr>rq_destination = ZERO_ADDRESS, rq_functionSignature = replicate 4 0\<rparr>)\<rparr>,
                 [RequestTypeUnregistered typeHash']))"

text \<open>The struct that is hashed: the type hash, the generic fields, and the rest with the hash of the
  calldata in front if there is calldata.\<close>

definition encoded_struct :: "evm \<Rightarrow> execution_data \<Rightarrow> bytes" where
  "encoded_struct e request =
     (let encodedStructPrefix = xd_typeHash request @ abi_address (xd_from request) @ abi_uint (xd_nonce request);
          encodedStructSuffix = (if 0 < length (xd_callData request)
            then evm_keccak256 e (xd_callData request) @ xd_suffixData request
            else xd_suffixData request)
      in encodedStructPrefix @ encodedStructSuffix)"

definition encodeRequest :: "evm \<Rightarrow> forwarder_state \<Rightarrow> execution_data \<Rightarrow> bytes option" where
  "encodeRequest e st request =
     (if \<not> fs_typeHashes st (xd_typeHash request) then None
      else Some ([0x19, 0x01] @ fs_domainSeparator st @ evm_keccak256 e (encoded_struct e request)))"

section \<open>MetaTxForwarderV3.sol and TransactionExecutor.sol\<close>

text \<open>The signature of the sender itself, or of owners of the licensed user wallet.\<close>

definition signatures_ok ::
  "evm \<Rightarrow> surroundings \<Rightarrow> forwarder_state \<Rightarrow> execution_data \<Rightarrow> bytes \<Rightarrow> bool \<Rightarrow> bytes \<Rightarrow> bool" where
  "signatures_ok e sur st request signatures isEOASignature txHash =
     (if isEOASignature then recover e txHash signatures 0 = xd_from request
      else validSignatureSet sur (fs_nameRegistry st) (xd_from request) txHash signatures)"

text \<open>The destination of a request: the registered one, or, when that is the zero address, a
  collection, whose address is the first word of the suffix data. Slices past the end revert.\<close>

definition request_destination ::
  "surroundings \<Rightarrow> forwarder_state \<Rightarrow> execution_data \<Rightarrow> address option" where
  "request_destination sur st request =
     (let destination = rq_destination (fs_requestTypes st (xd_typeHash request))
      in if destination \<noteq> ZERO_ADDRESS then Some destination
         else if length (xd_suffixData request) < 32 then None
         else let collection = drop 12 (take 32 (xd_suffixData request))
              in if registeredCollection sur (fs_collectionRegistry st) collection
                 then Some collection else None)"

definition request_calldata :: "forwarder_state \<Rightarrow> execution_data \<Rightarrow> bytes" where
  "request_calldata st request =
     (if 0 < length (xd_callData request) then xd_callData request
      else rq_functionSignature (fs_requestTypes st (xd_typeHash request)) @
        (if rq_destination (fs_requestTypes st (xd_typeHash request)) = ZERO_ADDRESS
         then drop 32 (xd_suffixData request) else xd_suffixData request))"

text \<open>Everything before the call: the state with the nonce used, the destination, the data with the
  sender appended, and the hash that was signed.\<close>

definition prepareExecution ::
  "evm \<Rightarrow> surroundings \<Rightarrow> execution_data \<Rightarrow> bytes \<Rightarrow> bool \<Rightarrow> forwarder_state
     \<Rightarrow> (forwarder_state \<times> address \<times> bytes \<times> bytes) option" where
  "prepareExecution e sur request signatures isEOASignature st =
     (if \<not> fs_typeHashes st (xd_typeHash request) then None
      else case checkAndUpdateNonce st (xd_from request) (xd_nonce request) of
             None \<Rightarrow> None
           | Some (ok, st1) \<Rightarrow>
               if \<not> ok then None
               else case encodeRequest e st1 request of
                      None \<Rightarrow> None
                    | Some txHashEncoded \<Rightarrow>
                        let txHash = evm_keccak256 e txHashEncoded
                        in if \<not> signatures_ok e sur st1 request signatures isEOASignature txHash then None
                           else case request_destination sur st1 request of
                                  None \<Rightarrow> None
                                | Some destination \<Rightarrow>
                                    Some (st1, destination,
                                          request_calldata st1 request @ xd_from request, txHash))"

definition executeCall ::
  "callee \<Rightarrow> address \<Rightarrow> bytes \<Rightarrow> bytes \<Rightarrow> forwarder_state \<Rightarrow> (forwarder_state \<times> mtf_event list) option" where
  "executeCall call to' data txHash st =
     (case call to' data st of None \<Rightarrow> None | Some st' \<Rightarrow> Some (st', [ExecutionSuccess txHash]))"

definition executeTransactionInternal ::
  "evm \<Rightarrow> surroundings \<Rightarrow> callee \<Rightarrow> execution_data \<Rightarrow> bytes \<Rightarrow> bool \<Rightarrow> forwarder_state
     \<Rightarrow> (forwarder_state \<times> mtf_event list) option" where
  "executeTransactionInternal e sur call request signatures isEOASignature st =
     (case prepareExecution e sur request signatures isEOASignature st of
        None \<Rightarrow> None
      | Some (st1, destination, callData', txHash) \<Rightarrow> executeCall call destination callData' txHash st1)"

definition mtf_executeTransactionLUW ::
  "evm \<Rightarrow> surroundings \<Rightarrow> callee \<Rightarrow> execution_data \<Rightarrow> bytes \<Rightarrow> forwarder_state
     \<Rightarrow> (forwarder_state \<times> mtf_event list) option" where
  "mtf_executeTransactionLUW e sur call request signatures st =
     (if \<not> fs_typeHashes st (xd_typeHash request) then None
      else executeTransactionInternal e sur call request signatures False st)"

definition mtf_executeTransactionEOA ::
  "evm \<Rightarrow> surroundings \<Rightarrow> callee \<Rightarrow> execution_data \<Rightarrow> bytes \<Rightarrow> forwarder_state
     \<Rightarrow> (forwarder_state \<times> mtf_event list) option" where
  "mtf_executeTransactionEOA e sur call request signature st =
     (if \<not> fs_typeHashes st (xd_typeHash request) then None
      else executeTransactionInternal e sur call request signature True st)"

definition mtf_setCollectionRegistry ::
  "surroundings \<Rightarrow> address \<Rightarrow> address \<Rightarrow> forwarder_state \<Rightarrow> forwarder_state option" where
  "mtf_setCollectionRegistry sur sender registry st =
     (if \<not> onlyAdministrator sur st sender \<or> registry = ZERO_ADDRESS then None
      else Some (st\<lparr>fs_collectionRegistry := registry\<rparr>))"

end
