(* ===== verification/ForwarderSafety.thy ===== *)
theory ForwarderSafety
  imports ForwarderContract
begin

text \<open>
  What the MetaTxForwarder guarantees. A run is any sequence of successful calls of its functions, in
  any surroundings, where a forwarded call may call the forwarder again. Along a run the nonces of
  a channel are used one after the other, each once; the hash that is signed determines the
  request up to where the hash of the calldata ends; the subgraph lists the registered types.
\<close>

section \<open>Nonces\<close>

lemma nonce_parts_unat:
  "unat (nonce_channel p) = unat p div 2 ^ 128" "unat (nonce_number p) = unat p mod 2 ^ 128"
proof -
  have b: "unat p < 2 ^ 256" using unsigned_less [of p, where ?'a = nat] by simp
  then have "unat p div 2 ^ 128 < 2 ^ 128" by (simp add: less_mult_imp_div_less)
  then show "unat (nonce_channel p) = unat p div 2 ^ 128"
    by (simp add: nonce_channel_def unsigned_ucast_eq drop_bit_eq_div unat_div take_bit_eq_mod)
  have "unat UINT_128_SHIFT = 2 ^ 128" by (simp add: UINT_128_SHIFT_def)
  then show "unat (nonce_number p) = unat p mod 2 ^ 128"
    by (simp add: nonce_number_def unsigned_ucast_eq unat_mod take_bit_eq_mod)
qed

lemma nonce_parts_inj: "nonce_channel p = nonce_channel q \<Longrightarrow> nonce_number p = nonce_number q \<Longrightarrow> p = q"
  by (metis nonce_parts_unat div_mult_mod_eq word_unat_eq_iff)

lemma pack_parts:
  "nonce_channel (mtf_packNonce c n) = c" "nonce_number (mtf_packNonce c n) = n"
proof -
  have b: "unat c < 2 ^ 128" "unat n < 2 ^ 128"
    using unsigned_less [of c, where ?'a = nat] unsigned_less [of n, where ?'a = nat] by simp_all
  have "unat c * 2 ^ 128 + unat n < 2 ^ 256"
  proof -
    have "unat c * 2 ^ 128 + unat n < (unat c + 1) * 2 ^ 128" using b(2) by simp
    also have "\<dots> \<le> 2 ^ 128 * 2 ^ 128" using b(1) by (intro mult_right_mono) simp_all
    finally show ?thesis by simp
  qed
  then have p: "unat (mtf_packNonce c n) = unat c * 2 ^ 128 + unat n"
    using b by (simp add: mtf_packNonce_def push_bit_eq_mult unat_word_ariths unsigned_ucast_eq
        take_bit_nat_eq_self mult.commute)
  show "nonce_channel (mtf_packNonce c n) = c" "nonce_number (mtf_packNonce c n) = n"
    using b by (simp_all add: word_unat_eq_iff nonce_parts_unat p)
qed

lemma nonce_step:
  assumes "checkAndUpdateNonce st wallet p = Some (True, st')"
  shows "nonce_number p = fs_nonces st wallet (nonce_channel p)"
    "unat (fs_nonces st' wallet (nonce_channel p)) = Suc (unat (nonce_number p))"
    "\<And>w c. (w, c) \<noteq> (wallet, nonce_channel p) \<Longrightarrow> fs_nonces st' w c = fs_nonces st w c"
    "fs_typeHashes st' = fs_typeHashes st" "fs_requestTypes st' = fs_requestTypes st"
    "fs_domainSeparator st' = fs_domainSeparator st" "fs_nameRegistry st' = fs_nameRegistry st"
    "fs_collectionRegistry st' = fs_collectionRegistry st"
proof -
  let ?n = "fs_nonces st wallet (nonce_channel p)"
  have s: "nonce_number p = ?n" "?n \<noteq> - 1"
    "st' = st\<lparr>fs_nonces := (fs_nonces st)(wallet := (fs_nonces st wallet)(nonce_channel p := ?n + 1))\<rparr>"
    using assms by (auto simp: checkAndUpdateNonce_def Let_def split: if_splits)
  show "nonce_number p = ?n" by (rule s)
  have "unat (?n + 1) = Suc (unat ?n)"
    using s(2) unatSuc [of ?n] by (simp add: add.commute add_eq_0_iff)
  then show "unat (fs_nonces st' wallet (nonce_channel p)) = Suc (unat (nonce_number p))"
    using s(1,3) by simp
  show "\<And>w c. (w, c) \<noteq> (wallet, nonce_channel p) \<Longrightarrow> fs_nonces st' w c = fs_nonces st w c"
    using s(3) by auto
  show "fs_typeHashes st' = fs_typeHashes st" "fs_requestTypes st' = fs_requestTypes st"
    "fs_domainSeparator st' = fs_domainSeparator st" "fs_nameRegistry st' = fs_nameRegistry st"
    "fs_collectionRegistry st' = fs_collectionRegistry st"
    using s(3) by simp_all
qed

section \<open>Runs\<close>

text \<open>The requests that were executed, in the order in which their nonces were used, and the events
  in the order in which they were emitted.\<close>

inductive forwarder_run ::
  "evm \<Rightarrow> forwarder_state \<Rightarrow> execution_data list \<Rightarrow> mtf_event list \<Rightarrow> forwarder_state \<Rightarrow> bool" for e where
  run_done: "forwarder_run e st [] [] st"
| run_execute:
    "prepareExecution e sur request sigs isEOASignature st = Some (st1, destination, data, txHash) \<Longrightarrow>
     forwarder_run e st1 inner es1 st2 \<Longrightarrow> forwarder_run e st2 rest es2 st3 \<Longrightarrow>
     forwarder_run e st (request # inner @ rest) (es1 @ ExecutionSuccess txHash # es2) st3"
| run_register:
    "mtf_registerRequestType e sur sender name suffix destination sig st = Some (st1, es) \<Longrightarrow>
     forwarder_run e st1 rest es2 st2 \<Longrightarrow> forwarder_run e st rest (es @ es2) st2"
| run_unregister:
    "mtf_unregisterRequestType sur sender hash st = Some (st1, es) \<Longrightarrow>
     forwarder_run e st1 rest es2 st2 \<Longrightarrow> forwarder_run e st rest (es @ es2) st2"
| run_collections:
    "mtf_setCollectionRegistry sur sender registry st = Some st1 \<Longrightarrow>
     forwarder_run e st1 rest es2 st2 \<Longrightarrow> forwarder_run e st rest es2 st2"

text \<open>An execution by the contract is such a run, when what the callee does is one.\<close>

lemma executed_runs:
  assumes "executeTransactionInternal e sur call request sigs eoa st = Some (st', es)"
    and "\<And>d c st1 st2. call d c st1 = Some st2 \<Longrightarrow> \<exists>inner es1. forwarder_run e st1 inner es1 st2"
  shows "\<exists>inner es1. forwarder_run e st (request # inner) (es1 @ es) st'"
proof -
  obtain st1 d c h where p: "prepareExecution e sur request sigs eoa st = Some (st1, d, c, h)"
      "call d c st1 = Some st'" "es = [ExecutionSuccess h]"
    using assms(1) by (auto simp: executeTransactionInternal_def executeCall_def split: option.splits)
  obtain inner es1 where "forwarder_run e st1 inner es1 st'" using assms(2) [OF p(2)] by blast
  from run_execute [OF p(1) this run_done] show ?thesis unfolding p(3) by auto
qed

lemma prepared:
  assumes "prepareExecution e sur request sigs eoa st = Some (st1, d, c, h)"
  shows "fs_typeHashes st (xd_typeHash request)"
    "checkAndUpdateNonce st (xd_from request) (xd_nonce request) = Some (True, st1)"
    "h = evm_keccak256 e ([0x19, 0x01] @ fs_domainSeparator st1 @ evm_keccak256 e (encoded_struct e request))"
    "signatures_ok e sur st1 request sigs eoa h"
    "request_destination sur st1 request = Some d"
    "c = request_calldata st1 request @ xd_from request"
  using assms by (auto simp: prepareExecution_def encodeRequest_def Let_def split: option.splits if_splits)

text \<open>The numbers used of a channel of a wallet.\<close>

definition numbers_used :: "address \<Rightarrow> 128 word \<Rightarrow> execution_data list \<Rightarrow> nat list" where
  "numbers_used wallet channel log =
     map (\<lambda>r. unat (nonce_number (xd_nonce r)))
       (filter (\<lambda>r. xd_from r = wallet \<and> nonce_channel (xd_nonce r) = channel) log)"

lemma numbers_used_simps [simp]:
  "numbers_used w c [] = []"
  "numbers_used w c (xs @ ys) = numbers_used w c xs @ numbers_used w c ys"
  "numbers_used w c (r # rs) =
     (if xd_from r = w \<and> nonce_channel (xd_nonce r) = c
      then unat (nonce_number (xd_nonce r)) # numbers_used w c rs else numbers_used w c rs)"
  by (simp_all add: numbers_used_def)

lemma admin_keeps_nonces:
  "mtf_registerRequestType e sur sender name suffix destination sig st = Some (st1, es) \<Longrightarrow> fs_nonces st1 = fs_nonces st"
  "mtf_unregisterRequestType sur sender hash st = Some (st1, es) \<Longrightarrow> fs_nonces st1 = fs_nonces st"
  "mtf_setCollectionRegistry sur sender registry st = Some st1 \<Longrightarrow> fs_nonces st1 = fs_nonces st"
  by (auto simp: mtf_registerRequestType_def mtf_unregisterRequestType_def mtf_setCollectionRegistry_def Let_def split: if_splits)

lemma register_keeps_domain:
  "mtf_registerRequestType e sur sender name suffix destination sig st = Some (st1, es) \<Longrightarrow>
   fs_domainSeparator st1 = fs_domainSeparator st"
  by (auto simp: mtf_registerRequestType_def Let_def split: if_splits)

lemma upt_parts: "Suc a \<le> b \<Longrightarrow> b \<le> c \<Longrightarrow> [a ..< c] = a # [Suc a ..< b] @ [b ..< c]"
  using upt_add_eq_append [of "Suc a" b "c - b"] by (simp add: upt_conv_Cons)

lemma run_nonces:
  assumes "forwarder_run e st log es st'"
  shows "numbers_used w c log = [unat (fs_nonces st w c) ..< unat (fs_nonces st' w c)] \<and>
    unat (fs_nonces st w c) \<le> unat (fs_nonces st' w c)"
  using assms
proof (induction rule: forwarder_run.induct)
  case (run_done st)
  then show ?case by simp
next
  case (run_execute sur request sigs eoa st st1 d data h inner es1 st2 rest es2 st3)
  note step = nonce_step [OF prepared(2) [OF run_execute.hyps(1)]]
  show ?case
  proof (cases "xd_from request = w \<and> nonce_channel (xd_nonce request) = c")
    case True
    have "Suc (unat (fs_nonces st w c)) \<le> unat (fs_nonces st2 w c)"
      "unat (fs_nonces st2 w c) \<le> unat (fs_nonces st3 w c)"
      using step(1,2) run_execute.IH True by auto
    from upt_parts [OF this] show ?thesis
      using step(1,2) run_execute.IH True by simp
  next
    case False
    then show ?thesis
      using step(3) [of w c] run_execute.IH
        upt_add_eq_append [of "unat (fs_nonces st w c)" "unat (fs_nonces st2 w c)"
          "unat (fs_nonces st3 w c) - unat (fs_nonces st2 w c)"] by auto
  qed
qed (simp_all add: admin_keeps_nonces)

lemma used_once:
  assumes "\<And>w c. distinct (numbers_used w c log)"
  shows "distinct (map (\<lambda>r. (xd_from r, xd_nonce r)) log)"
  using assms
proof (induction log)
  case Nil
  then show ?case by simp
next
  case (Cons r log)
  have "distinct (numbers_used w c log)" for w c
    using Cons.prems [of w c] by (auto split: if_splits)
  moreover have "(xd_from r, xd_nonce r) \<notin> set (map (\<lambda>r. (xd_from r, xd_nonce r)) log)"
    using Cons.prems [of "xd_from r" "nonce_channel (xd_nonce r)"] by (auto simp: numbers_used_def)
  ultimately show ?case using Cons.IH by simp
qed

section \<open>What is signed\<close>

definition well_sized :: "execution_data \<Rightarrow> bool" where
  "well_sized r \<longleftrightarrow> length (xd_typeHash r) = 32 \<and> length (xd_from r) = 20"

text \<open>The request \<open>r\<close> without its calldata, whose hash is put in front of the suffix data.\<close>

definition calldata_folded :: "evm \<Rightarrow> execution_data \<Rightarrow> execution_data" where
  "calldata_folded e r =
     r\<lparr>xd_callData := [], xd_suffixData := evm_keccak256 e (xd_callData r) @ xd_suffixData r\<rparr>"

definition collision_free :: "evm \<Rightarrow> bytes \<Rightarrow> bytes \<Rightarrow> bool" where
  "collision_free e a b \<longleftrightarrow> (evm_keccak256 e a = evm_keccak256 e b \<longrightarrow> a = b)"

definition struct_suffix :: "evm \<Rightarrow> execution_data \<Rightarrow> bytes" where
  "struct_suffix e r = (if xd_callData r = [] then xd_suffixData r
     else evm_keccak256 e (xd_callData r) @ xd_suffixData r)"

lemma encoded_struct_parts:
  "encoded_struct e r = xd_typeHash r @ abi_address (xd_from r) @ abi_uint (xd_nonce r) @ struct_suffix e r"
  by (simp add: encoded_struct_def struct_suffix_def)

lemma encoded_struct_eq_iff:
  assumes "well_sized r" "well_sized r'"
  shows "encoded_struct e r = encoded_struct e r' \<longleftrightarrow>
    xd_typeHash r = xd_typeHash r' \<and> xd_from r = xd_from r' \<and> xd_nonce r = xd_nonce r' \<and>
    struct_suffix e r = struct_suffix e r'"
  using assms unfolding encoded_struct_parts well_sized_def
  by (auto simp: append_eq_append_conv dest: abi_address_inj abi_uint_inj)

lemma folded_struct: "encoded_struct e (calldata_folded e r) = encoded_struct e r"
  if "xd_callData r \<noteq> []"
  using that by (simp add: encoded_struct_parts struct_suffix_def calldata_folded_def)

lemma struct_suffix_eq:
  assumes "\<And>b. length (evm_keccak256 e b) = 32" and "collision_free e (xd_callData r) (xd_callData r')"
    and "xd_typeHash r = xd_typeHash r'" "xd_from r = xd_from r'" "xd_nonce r = xd_nonce r'"
    and "struct_suffix e r = struct_suffix e r'"
  shows "r = r' \<or> (xd_callData r \<noteq> [] \<and> r' = calldata_folded e r) \<or>
    (xd_callData r' \<noteq> [] \<and> r = calldata_folded e r')"
proof (cases "xd_callData r = []"; cases "xd_callData r' = []")
  assume "xd_callData r \<noteq> []" "xd_callData r' \<noteq> []"
  then have "evm_keccak256 e (xd_callData r) = evm_keccak256 e (xd_callData r')" "xd_suffixData r = xd_suffixData r'"
    using assms(1,6) by (auto simp: struct_suffix_def append_eq_append_conv)
  then show ?thesis using assms(2-5) by (cases r; cases r') (auto simp: collision_free_def)
qed (use assms(3-6) in \<open>cases r; cases r'; auto simp: struct_suffix_def calldata_folded_def\<close>)+

text \<open>Requests have the same signed hash exactly when they are equal or one is the other without its
  calldata.\<close>

lemma same_hash_iff:
  assumes len: "\<And>b. length (evm_keccak256 e b) = 32"
    and sized: "well_sized r" "well_sized r'"
    and known: "fs_typeHashes st (xd_typeHash r)" "fs_typeHashes st (xd_typeHash r')"
    and coll: "collision_free e (encoded_struct e r) (encoded_struct e r')"
      "collision_free e (xd_callData r) (xd_callData r')"
  shows "encodeRequest e st r = encodeRequest e st r' \<longleftrightarrow>
    r = r' \<or> (xd_callData r \<noteq> [] \<and> r' = calldata_folded e r) \<or>
    (xd_callData r' \<noteq> [] \<and> r = calldata_folded e r')"
proof -
  have "encodeRequest e st r = encodeRequest e st r' \<longleftrightarrow> encoded_struct e r = encoded_struct e r'"
    using known coll(1) by (auto simp: encodeRequest_def collision_free_def)
  also have "\<dots> \<longleftrightarrow> r = r' \<or> (xd_callData r \<noteq> [] \<and> r' = calldata_folded e r) \<or>
      (xd_callData r' \<noteq> [] \<and> r = calldata_folded e r')"
  proof
    assume "encoded_struct e r = encoded_struct e r'"
    then show "r = r' \<or> (xd_callData r \<noteq> [] \<and> r' = calldata_folded e r) \<or>
        (xd_callData r' \<noteq> [] \<and> r = calldata_folded e r')"
      using struct_suffix_eq [OF len coll(2)] encoded_struct_eq_iff [OF sized] by blast
  qed (use folded_struct [of r e] folded_struct [of r' e] in auto)
  finally show ?thesis .
qed

text \<open>The signatures of a request with calldata are accepted for the request without it, and a
  different call is made.\<close>

lemma folded_prepared:
  assumes "prepareExecution e sur r sigs eoa st = Some (st1, d, c, h)" and "xd_callData r \<noteq> []"
    and "rq_destination (fs_requestTypes st (xd_typeHash r)) \<noteq> ZERO_ADDRESS"
  shows "prepareExecution e sur (calldata_folded e r) sigs eoa st =
    Some (st1, d, rq_functionSignature (fs_requestTypes st (xd_typeHash r)) @
      evm_keccak256 e (xd_callData r) @ xd_suffixData r @ xd_from r, h)"
proof -
  note p = prepared [OF assms(1)]
  note step = nonce_step [OF p(2)]
  let ?r = "calldata_folded e r"
  have f: "xd_typeHash ?r = xd_typeHash r" "xd_from ?r = xd_from r" "xd_nonce ?r = xd_nonce r"
    by (simp_all add: calldata_folded_def)
  have "encodeRequest e st1 ?r = Some ([0x19, 0x01] @ fs_domainSeparator st1 @ evm_keccak256 e (encoded_struct e r))"
    using p(1) by (simp add: encodeRequest_def f step(4) folded_struct [OF assms(2)])
  moreover have "signatures_ok e sur st1 ?r sigs eoa h"
    using p(4) by (simp add: signatures_ok_def f)
  moreover have "request_destination sur st1 ?r = Some d"
    using p(5) assms(3) by (simp add: request_destination_def f step(5))
  moreover have "request_calldata st1 ?r = rq_functionSignature (fs_requestTypes st (xd_typeHash r)) @
      evm_keccak256 e (xd_callData r) @ xd_suffixData r"
    using assms(3) by (simp add: request_calldata_def f step(5)) (simp add: calldata_folded_def)
  ultimately show ?thesis
    using p(1,2,3) by (simp add: prepareExecution_def f)
qed

text \<open>An invalid signature recovers to the zero address, for which anyone can then make requests.\<close>

lemma zero_sender_prepared:
  assumes "fs_typeHashes st (xd_typeHash r)" and "xd_from r = ZERO_ADDRESS"
    and "checkAndUpdateNonce st ZERO_ADDRESS (xd_nonce r) = Some (True, st1)"
    and "request_destination sur st1 r = Some d" and "\<And>h. recover e h sigs 0 = ZERO_ADDRESS"
  shows "\<exists>h. prepareExecution e sur r sigs True st = Some (st1, d, request_calldata st1 r @ ZERO_ADDRESS, h)"
  using assms nonce_step(4) [OF assms(3)]
  by (simp add: prepareExecution_def encodeRequest_def signatures_ok_def Let_def)

section \<open>The register of request types\<close>

lemma registered:
  assumes "mtf_registerRequestType e sur sender name suffix destination sig st = Some (st', es)"
  shows "sur_administrator sur (fs_nameRegistry st) = sender"
    "fs_typeHashes st' = (fs_typeHashes st)(evm_keccak256 e (str_bytes (request_type_string name suffix)) := True)"
    "fs_requestTypes st' = (fs_requestTypes st)(evm_keccak256 e (str_bytes (request_type_string name suffix)) :=
       \<lparr>rq_destination = destination, rq_functionSignature = sig\<rparr>)"
    "es = [RequestTypeRegistered (evm_keccak256 e (str_bytes (request_type_string name suffix)))
       (request_type_string name suffix)]"
  using assms by (auto simp: mtf_registerRequestType_def onlyAdministrator_def Let_def split: if_splits)

text \<open>The types the subgraph lists are those that are registered.\<close>

definition lists_types :: "forwarder_state \<Rightarrow> store \<Rightarrow> bool" where
  "lists_types st s \<longleftrightarrow>
     (\<forall>hash. fs_typeHashes st hash \<longleftrightarrow> requestTypes s (toHex hash) \<noteq> None) \<and>
     (\<forall>k q. requestTypes s k = Some q \<longrightarrow> rt_typeHash q \<noteq> None \<and> rt_typeString q \<noteq> None)"

lemma lists_registered:
  assumes "lists_types st s" and "handleRequestTypeRegistered ev hash str s = Inr s'"
    and "fs_typeHashes st' = (fs_typeHashes st)(hash := True)"
  shows "lists_types st' s'"
  using assms by (auto simp: lists_types_def handleRequestTypeRegistered_def new_rt_def split: if_splits)

lemma lists_unregistered:
  assumes "lists_types st s" and "fs_typeHashes st' = (fs_typeHashes st)(hash := False)"
  shows "ensures (lists_types st') (handleRequestTypeUnregistered hash s)"
  using assms by (auto simp: lists_types_def handleRequestTypeUnregistered_def required_def split: option.splits)

lemma lists_cong: "lists_types st s \<Longrightarrow> fs_typeHashes st' = fs_typeHashes st \<Longrightarrow> requestTypes s' = requestTypes s \<Longrightarrow>
    lists_types st' s'"
  by (simp add: lists_types_def)

text \<open>The events of the forwarder, handled in order, each at a time of its block.\<close>

definition forwarder_events :: "host \<Rightarrow> (mtf_event \<Rightarrow> eth_event) \<Rightarrow> mtf_event list \<Rightarrow> handler" where
  "forwarder_events h block es = run_subgraph h (map (\<lambda>e. (block e, MetaTxForwarder e)) es)"

lemma forwarder_events_simps:
  "forwarder_events h block [] s = Inr s"
  "forwarder_events h block (e1 # es) s = bindr (mtf_dispatch h (block e1) e1 s) (forwarder_events h block es)"
  by (simp_all add: forwarder_events_def run_subgraph_def fun_eq_iff)

lemma forwarder_events_append:
  "forwarder_events h block (es @ es') s = bindr (forwarder_events h block es s) (forwarder_events h block es')"
  by (simp add: forwarder_events_def run_subgraph_def foldr_res_append)

lemma execution_lists:
  "lists_types st s \<Longrightarrow> ensures (lists_types st) (mtf_dispatch h ev (ExecutionSuccess hash) s)"
  by (auto simp: handleExecutionSuccess_def ensures_iff intro: lists_cong)

lemma register_lists:
  assumes "lists_types st s" and "mtf_registerRequestType e sur sender name suffix destination sig st = Some (st1, es)"
  shows "ensures (lists_types st1) (forwarder_events h block es s)"
proof -
  note r = registered [OF assms(2)]
  show ?thesis
    unfolding r(4) ensures_iff forwarder_events_simps
    using lists_registered [OF assms(1) _ r(2)] by auto
qed

lemma unregister_lists:
  assumes "lists_types st s" and "mtf_unregisterRequestType sur sender hash st = Some (st1, es)"
  shows "ensures (lists_types st1) (forwarder_events h block es s)"
proof -
  have u: "es = [RequestTypeUnregistered hash]" "fs_typeHashes st1 = (fs_typeHashes st)(hash := False)"
    using assms(2) by (auto simp: mtf_unregisterRequestType_def split: if_splits)
  from lists_unregistered [OF assms(1) u(2)] show ?thesis
    unfolding u(1) ensures_iff forwarder_events_simps by auto
qed

lemma events_compose:
  assumes "ensures P (forwarder_events h block es s)" and "\<And>s'. P s' \<Longrightarrow> ensures Q (forwarder_events h block es' s')"
  shows "ensures Q (forwarder_events h block (es @ es') s)"
  using assms unfolding forwarder_events_append ensures_iff by auto

lemma run_lists:
  assumes "forwarder_run e st log es st'" and "lists_types st s"
  shows "ensures (lists_types st') (forwarder_events h block es s)"
  using assms
proof (induction arbitrary: s rule: forwarder_run.induct)
  case (run_done st)
  then show ?case by (simp add: forwarder_events_simps)
next
  case (run_execute sur request sigs eoa st st1 d data hash inner es1 st2 rest es2 st3)
  have "lists_types st1 s"
    by (rule lists_cong [OF run_execute.prems]) (simp_all add: nonce_step(4) [OF prepared(2) [OF run_execute.hyps(1)]])
  then have "ensures (lists_types st2) (forwarder_events h block es1 s)" by (rule run_execute.IH(1))
  moreover have "ensures (lists_types st3) (forwarder_events h block (ExecutionSuccess hash # es2) s')"
    if "lists_types st2 s'" for s'
    using execution_lists [OF that] run_execute.IH(2)
    unfolding forwarder_events_simps ensures_iff bindr_Inr_iff by blast
  ultimately show ?case by (rule events_compose)
next
  case (run_register sur sender name suffix destination sig st st1 es rest es2 st2)
  show ?case by (rule events_compose [OF register_lists [OF run_register.prems run_register.hyps(1)] run_register.IH])
next
  case (run_unregister sur sender hash st st1 es rest es2 st2)
  show ?case by (rule events_compose [OF unregister_lists [OF run_unregister.prems run_unregister.hyps(1)] run_unregister.IH])
next
  case (run_collections sur sender registry st st1 rest es2 st2)
  have "lists_types st1 s"
    by (rule lists_cong [OF run_collections.prems])
      (use run_collections.hyps(1) in \<open>auto simp: mtf_setCollectionRegistry_def split: if_splits\<close>)
  then show ?case by (rule run_collections.IH)
qed

section \<open>Who signed\<close>

text \<open>The contract that checks the signatures of a wallet, in the states \<open>good\<close>: what it accepts are
  signatures of owners, at least one and all different.\<close>

locale signature_authority =
  fixes good :: "'s \<Rightarrow> bool"
    and valid :: "'s \<Rightarrow> address \<Rightarrow> bytes \<Rightarrow> bytes \<Rightarrow> bool"
    and owners_of :: "'s \<Rightarrow> address \<Rightarrow> address list option"
    and signers :: "'s \<Rightarrow> address \<Rightarrow> bytes \<Rightarrow> bytes \<Rightarrow> address list"
  assumes accepted: "good s \<Longrightarrow> valid s wallet hash sigs \<Longrightarrow>
    \<exists>owners. owners_of s wallet = Some owners \<and> signers s wallet hash sigs \<noteq> [] \<and>
      distinct (signers s wallet hash sigs) \<and> set (signers s wallet hash sigs) \<subseteq> set owners"
begin

text \<open>What the forwarder executes for a wallet was signed by owners of the wallet, as the hash of exactly
  this request.\<close>

lemma executed_signed:
  assumes "good s" and "validSignatureSet sur (fs_nameRegistry st) = valid s"
    and "mtf_executeTransactionLUW e sur call r sigs st = Some (st', evs)"
  shows "\<exists>h owners. evs = [ExecutionSuccess h] \<and>
    h = evm_keccak256 e ([0x19, 0x01] @ fs_domainSeparator st @ evm_keccak256 e (encoded_struct e r)) \<and>
    owners_of s (xd_from r) = Some owners \<and> signers s (xd_from r) h sigs \<noteq> [] \<and>
    distinct (signers s (xd_from r) h sigs) \<and> set (signers s (xd_from r) h sigs) \<subseteq> set owners"
proof -
  obtain st1 d c h where p: "prepareExecution e sur r sigs False st = Some (st1, d, c, h)"
      "evs = [ExecutionSuccess h]"
    using assms(3) by (auto simp: mtf_executeTransactionLUW_def executeTransactionInternal_def executeCall_def
        split: option.splits if_splits)
  note facts = prepared [OF p(1)]
  note step = nonce_step [OF facts(2)]
  have "valid s (xd_from r) h sigs"
    using facts(4) assms(2) step(7) by (simp add: signatures_ok_def)
  from accepted [OF assms(1) this] show ?thesis using p(2) facts(3) step(6) by auto
qed

end

end
