(* ===== verification/LicensedUsers.thy ===== *)
theory LicensedUsers
  imports OwnerManager SignatureChecks
begin

text \<open>
  The LicensedUserManager on chain: \<open>contracts/licensedUser/LicensedUserManagerV02.sol\<close> with the caller
  checks of \<open>OwnerManager.sol\<close> and the EIP-2771 recipient it inherits. A call is reverted (\<open>None\<close>) or
  returns the state and the events it emits. A wallet with a single owner keeps it in its record;
  the first owner that is added moves the owners to the linked list of the OwnerManager.
\<close>

section \<open>State\<close>

datatype user_type = HANDLER | ARTIST

fun user_type_id :: "user_type \<Rightarrow> int" where
  "user_type_id HANDLER = 0"
| "user_type_id ARTIST = 1"

record licensed_user =
  lu_owner :: address
  lu_active :: bool
  lu_userType :: user_type
  lu_englishName :: string
  lu_originalName :: string

record licensed_user_dto =
  dto_owners :: "address list"
  dto_threshold :: "8 word"
  dto_userType :: user_type
  dto_englishName :: string
  dto_originalName :: string

record lum_state =
  lum_luws :: "address \<Rightarrow> licensed_user"
  lum_wallets :: "address \<Rightarrow> owner_wallet"
  lum_nameRegistry :: address
  lum_trustedForwarder :: address
  lum_upgradeableBeacon :: address
  lum_version :: nat

text \<open>The contracts and library functions it asks: the Administrator the NameRegistry names, and
  the address of a contract that \<open>create2\<close> would deploy, from the salt and the hash of its code.\<close>

record lum_env =
  lum_administrator :: "address \<Rightarrow> address"
  computeAddress :: "bytes \<Rightarrow> bytes \<Rightarrow> address"
  beaconProxyCode :: bytes

definition no_user :: licensed_user where
  "no_user = \<lparr>lu_owner = ZERO_ADDRESS, lu_active = False, lu_userType = HANDLER,
              lu_englishName = [], lu_originalName = []\<rparr>"

definition no_wallet :: owner_wallet where
  "no_wallet = \<lparr>ow_next = \<lambda>_. ZERO_ADDRESS, ow_count = 0, ow_threshold = 0\<rparr>"

section \<open>Caller checks\<close>

definition isTrustedForwarder :: "lum_state \<Rightarrow> address \<Rightarrow> bool" where
  "isTrustedForwarder st forwarder \<longleftrightarrow> forwarder = lum_trustedForwarder st"

definition isFromAdministrator :: "lum_env \<Rightarrow> lum_state \<Rightarrow> message \<Rightarrow> bool" where
  "isFromAdministrator env st m \<longleftrightarrow> lum_administrator env (lum_nameRegistry st) = msg_sender m"

text \<open>The empty string, or what is wrong.\<close>

definition isFromWallet :: "lum_state \<Rightarrow> message \<Rightarrow> address \<Rightarrow> string" where
  "isFromWallet st m wallet =
     (if \<not> isTrustedForwarder st (msg_sender m)
      then ''Wallet function can only be called from the trusted forwarder''
      else if length (msg_data m) < 24
      then ''Wallet address must be appended to calldata (EIP2771 forward)''
      else if appended_sender (msg_data m) \<noteq> wallet
      then ''Sending wallet attempted to modify a different wallet''
      else [])"

definition onlyWalletOrAdministrator :: "lum_env \<Rightarrow> lum_state \<Rightarrow> message \<Rightarrow> address \<Rightarrow> bool" where
  "onlyWalletOrAdministrator env st m wallet \<longleftrightarrow>
     (\<not> isFromAdministrator env st m \<longrightarrow>
        isTrustedForwarder st (msg_sender m) \<and> isFromWallet st m wallet = [])"

definition lum_initialize :: "address \<Rightarrow> address \<Rightarrow> lum_state \<Rightarrow> lum_state option" where
  "lum_initialize nameRegistryAddress trustedForwarder st =
     (if 1 \<le> lum_version st \<or> trustedForwarder = ZERO_ADDRESS then None
      else Some (st\<lparr>lum_nameRegistry := nameRegistryAddress, lum_trustedForwarder := trustedForwarder,
                    lum_version := 1\<rparr>))"

definition lum_initializeV2 :: "address \<Rightarrow> lum_state \<Rightarrow> lum_state option" where
  "lum_initializeV2 upgradeableBeacon st =
     (if 2 \<le> lum_version st then None
      else Some (st\<lparr>lum_upgradeableBeacon := upgradeableBeacon, lum_version := 2\<rparr>))"

section \<open>Queries\<close>

definition walletExists :: "lum_state \<Rightarrow> address \<Rightarrow> bool" where
  "walletExists st wallet \<longleftrightarrow> lu_originalName (lum_luws st wallet) \<noteq> []"

definition isSingleOwner :: "lum_state \<Rightarrow> address \<Rightarrow> bool" where
  "isSingleOwner st wallet \<longleftrightarrow> lu_owner (lum_luws st wallet) \<noteq> ZERO_ADDRESS"

definition isActiveWallet :: "lum_state \<Rightarrow> address \<Rightarrow> bool" where
  "isActiveWallet st wallet \<longleftrightarrow> lu_active (lum_luws st wallet)"

definition lum_getThreshold :: "lum_state \<Rightarrow> address \<Rightarrow> 8 word" where
  "lum_getThreshold st wallet = (if isSingleOwner st wallet then 1 else ow_threshold (lum_wallets st wallet))"

definition lum_getOwners :: "lum_state \<Rightarrow> address \<Rightarrow> address list option" where
  "lum_getOwners st wallet =
     (if isSingleOwner st wallet then Some [lu_owner (lum_luws st wallet)]
      else getOwners (lum_wallets st wallet))"

definition lum_isOwner :: "lum_state \<Rightarrow> address \<Rightarrow> address \<Rightarrow> bool" where
  "lum_isOwner st wallet owner \<longleftrightarrow>
     (if isSingleOwner st wallet then lu_owner (lum_luws st wallet) = owner
      else owner \<noteq> SENTINEL_OWNERS \<and> ow_next (lum_wallets st wallet) owner \<noteq> ZERO_ADDRESS)"

text \<open>All of it at once; every value is empty for a wallet that does not exist.\<close>

definition lum_getLicensedUser ::
  "lum_state \<Rightarrow> address \<Rightarrow> (address list \<times> 8 word \<times> bool \<times> user_type \<times> string \<times> string) option" where
  "lum_getLicensedUser st wallet =
     (if walletExists st wallet
      then map_option (\<lambda>owners. (owners, lum_getThreshold st wallet, lu_active (lum_luws st wallet),
             lu_userType (lum_luws st wallet), lu_englishName (lum_luws st wallet),
             lu_originalName (lum_luws st wallet))) (lum_getOwners st wallet)
      else Some ([], 0, False, HANDLER, [], []))"

section \<open>Creating wallets\<close>

definition set_user :: "address \<Rightarrow> licensed_user \<Rightarrow> lum_state \<Rightarrow> lum_state" where
  "set_user wallet u st = st\<lparr>lum_luws := (lum_luws st)(wallet := u)\<rparr>"

definition set_wallet :: "address \<Rightarrow> owner_wallet \<Rightarrow> lum_state \<Rightarrow> lum_state" where
  "set_wallet wallet w st = st\<lparr>lum_wallets := (lum_wallets st)(wallet := w)\<rparr>"

definition isValidCreateWalletRequest :: "lum_state \<Rightarrow> licensed_user_dto \<Rightarrow> address \<Rightarrow> bool" where
  "isValidCreateWalletRequest st details wallet \<longleftrightarrow>
     \<not> walletExists st wallet \<and> dto_owners details \<noteq> [] \<and> hd (dto_owners details) \<noteq> ZERO_ADDRESS \<and>
     dto_englishName details \<noteq> [] \<and> dto_originalName details \<noteq> []"

definition emitCreateLicensedUserWallet ::
  "lum_state \<Rightarrow> address \<Rightarrow> bytes \<Rightarrow> luw_event list option" where
  "emitCreateLicensedUserWallet st wallet salt =
     map_option (\<lambda>owners.
       let luw = lum_luws st wallet
       in [CreateLicensedUserWallet wallet owners (uint (lum_getThreshold st wallet))
             (lu_englishName luw) (lu_originalName luw) (user_type_id (lu_userType luw)) salt])
       (lum_getOwners st wallet)"

definition createWalletInternal ::
  "licensed_user_dto \<Rightarrow> address \<Rightarrow> bytes \<Rightarrow> lum_state \<Rightarrow> (lum_state \<times> luw_event list) option" where
  "createWalletInternal details wallet salt st =
     (if \<not> isValidCreateWalletRequest st details wallet then None
      else let singleOwner = (length (dto_owners details) = 1);
               owner = (if singleOwner then hd (dto_owners details) else ZERO_ADDRESS);
               st1 = set_user wallet
                 \<lparr>lu_owner = owner, lu_active = True, lu_userType = dto_userType details,
                  lu_englishName = dto_englishName details, lu_originalName = dto_originalName details\<rparr> st
           in case (if singleOwner then Some (lum_wallets st1 wallet)
                    else setupOwners (dto_owners details) (dto_threshold details) (lum_wallets st1 wallet)) of
                None \<Rightarrow> None
              | Some w \<Rightarrow>
                  let st2 = set_wallet wallet w st1
                  in map_option (\<lambda>es. (st2, es)) (emitCreateLicensedUserWallet st2 wallet salt))"

text \<open>The code of the proxy that could be deployed at the address of the wallet, with its argument: the
  beacon and the call of \<open>initialize(address)\<close>, of 36 bytes, padded to two words.\<close>

definition wallet_bytecode :: "evm \<Rightarrow> lum_env \<Rightarrow> lum_state \<Rightarrow> address \<Rightarrow> bytes" where
  "wallet_bytecode e env st owner =
     beaconProxyCode env @ abi_address (lum_upgradeableBeacon st) @ abi_uint 64 @ abi_uint 36 @
     take 4 (evm_keccak256 e (str_bytes ''initialize(address)'')) @ abi_address owner @ replicate 28 0"

definition wallet_address :: "evm \<Rightarrow> lum_env \<Rightarrow> lum_state \<Rightarrow> licensed_user_dto \<Rightarrow> bytes \<Rightarrow> address" where
  "wallet_address e env st details salt =
     computeAddress env salt (evm_keccak256 e (wallet_bytecode e env st (hd (dto_owners details))))"

definition lum_createWallet ::
  "evm \<Rightarrow> lum_env \<Rightarrow> message \<Rightarrow> licensed_user_dto \<Rightarrow> bytes \<Rightarrow> lum_state
     \<Rightarrow> (lum_state \<times> luw_event list) option" where
  "lum_createWallet e env m details salt st =
     (if \<not> isFromAdministrator env st m \<or> dto_owners details = [] then None
      else createWalletInternal details (wallet_address e env st details salt) salt st)"

definition createWalletFromMigration ::
  "lum_env \<Rightarrow> message \<Rightarrow> licensed_user_dto \<Rightarrow> address \<Rightarrow> string \<Rightarrow> int \<Rightarrow> lum_state
     \<Rightarrow> (lum_state \<times> luw_event list) option" where
  "createWalletFromMigration env m details wallet originChain originTimestamp st =
     (if \<not> isFromAdministrator env st m then None
      else map_option (\<lambda>(st', es). (st', es @ [MigrateLicensedUserWallet wallet originChain originTimestamp]))
             (createWalletInternal details wallet (replicate 32 0) st))"

section \<open>Owners\<close>

definition singleToMulti ::
  "address \<Rightarrow> address list \<Rightarrow> 8 word \<Rightarrow> lum_state \<Rightarrow> (lum_state \<times> luw_event list) option" where
  "singleToMulti wallet owners threshold st =
     (let st1 = set_user wallet ((lum_luws st wallet)\<lparr>lu_owner := ZERO_ADDRESS\<rparr>) st
      in map_option (\<lambda>w. (set_wallet wallet w st1,
                          [UpgradeLicensedUserWalletToMulti wallet owners (uint threshold)]))
           (setupOwners owners threshold (lum_wallets st1 wallet)))"

text \<open>A call of a function of the OwnerManager, which changes one linked list.\<close>

definition owner_manager_call ::
  "lum_env \<Rightarrow> message \<Rightarrow> address \<Rightarrow> owner_call \<Rightarrow> lum_state \<Rightarrow> (lum_state \<times> luw_event list) option" where
  "owner_manager_call env m wallet c st =
     (if \<not> onlyWalletOrAdministrator env st m wallet then None
      else map_option (\<lambda>(w, es). (set_wallet wallet w st, es)) (run_call wallet c (lum_wallets st wallet)))"

definition lum_addOwner ::
  "lum_env \<Rightarrow> message \<Rightarrow> address \<Rightarrow> address \<Rightarrow> 8 word \<Rightarrow> lum_state
     \<Rightarrow> (lum_state \<times> luw_event list) option" where
  "lum_addOwner env m wallet owner threshold st =
     (if \<not> isActiveWallet st wallet \<or> \<not> onlyWalletOrAdministrator env st m wallet then None
      else if isSingleOwner st wallet
           then singleToMulti wallet [lu_owner (lum_luws st wallet), owner] threshold st
           else owner_manager_call env m wallet (AddOwner owner threshold) st)"

definition lum_setOriginalName ::
  "lum_env \<Rightarrow> message \<Rightarrow> address \<Rightarrow> string \<Rightarrow> lum_state \<Rightarrow> (lum_state \<times> luw_event list) option" where
  "lum_setOriginalName env m wallet name st =
     (if \<not> onlyWalletOrAdministrator env st m wallet \<or> \<not> isActiveWallet st wallet \<or> name = [] then None
      else Some (set_user wallet ((lum_luws st wallet)\<lparr>lu_originalName := name\<rparr>) st,
                 [UpdateLicensedUserDetail wallet ''originalName'' name]))"

definition lum_setEnglishName ::
  "lum_env \<Rightarrow> message \<Rightarrow> address \<Rightarrow> string \<Rightarrow> lum_state \<Rightarrow> (lum_state \<times> luw_event list) option" where
  "lum_setEnglishName env m wallet name st =
     (if \<not> onlyWalletOrAdministrator env st m wallet \<or> \<not> isActiveWallet st wallet \<or> name = [] then None
      else Some (set_user wallet ((lum_luws st wallet)\<lparr>lu_englishName := name\<rparr>) st,
                 [UpdateLicensedUserDetail wallet ''englishName'' name]))"

section \<open>Signatures\<close>

definition IS_VALID_SIG_SUCCESS :: bytes where
  "IS_VALID_SIG_SUCCESS = [0x98, 0x78, 0x44, 0x0b]"

definition isValidSignatureSet :: "evm \<Rightarrow> lum_state \<Rightarrow> address \<Rightarrow> bytes \<Rightarrow> bytes \<Rightarrow> bytes option" where
  "isValidSignatureSet e st wallet hash signatures =
     (if \<not> isActiveWallet st wallet then None
      else if isSingleOwner st wallet
           then if recover e hash signatures 0 = lu_owner (lum_luws st wallet)
                then Some IS_VALID_SIG_SUCCESS else None
           else if checkSignatures e (ow_next (lum_wallets st wallet)) (ow_threshold (lum_wallets st wallet))
                     hash signatures
                then Some IS_VALID_SIG_SUCCESS else None)"

section \<open>Calls\<close>

datatype lum_call =
    CreateWallet licensed_user_dto bytes
  | CreateWalletFromMigration licensed_user_dto address string int
  | OwnerAdd address address "8 word"
  | OwnerRemove address address address "8 word"
  | OwnerSwap address address address address
  | ThresholdChange address "8 word"
  | OriginalName address string
  | EnglishName address string

fun run_lum_call ::
  "evm \<Rightarrow> lum_env \<Rightarrow> message \<Rightarrow> lum_call \<Rightarrow> lum_state \<Rightarrow> (lum_state \<times> luw_event list) option" where
  "run_lum_call e env m (CreateWallet details salt) st = lum_createWallet e env m details salt st"
| "run_lum_call e env m (CreateWalletFromMigration details wallet chain ts) st =
     createWalletFromMigration env m details wallet chain ts st"
| "run_lum_call e env m (OwnerAdd wallet a th) st = lum_addOwner env m wallet a th st"
| "run_lum_call e env m (OwnerRemove wallet p a th) st = owner_manager_call env m wallet (RemoveOwner p a th) st"
| "run_lum_call e env m (OwnerSwap wallet p a b) st = owner_manager_call env m wallet (SwapOwner p a b) st"
| "run_lum_call e env m (ThresholdChange wallet th) st = owner_manager_call env m wallet (ChangeThreshold th) st"
| "run_lum_call e env m (OriginalName wallet s) st = lum_setOriginalName env m wallet s st"
| "run_lum_call e env m (EnglishName wallet s) st = lum_setEnglishName env m wallet s st"

text \<open>Several calls, in any surroundings and by any callers, one after the other.\<close>

fun run_lum_calls ::
  "evm \<Rightarrow> (lum_env \<times> message \<times> lum_call) list \<Rightarrow> lum_state \<Rightarrow> (lum_state \<times> luw_event list) option" where
  "run_lum_calls e [] st = Some (st, [])"
| "run_lum_calls e ((env, m, c) # cs) st =
     (case run_lum_call e env m c st of
        None \<Rightarrow> None
      | Some (st1, es) \<Rightarrow> map_option (\<lambda>(st2, es'). (st2, es @ es')) (run_lum_calls e cs st1))"

end
