(* ===== verification/LicensedUserFacts.thy ===== *)
theory LicensedUserFacts
  imports LicensedUsers
begin

text \<open>
  What the LicensedUserManager guarantees. \<open>lum_ok\<close> is the invariant of its storage: a wallet that does
  not exist is empty, a wallet with a single owner has no linked list, and every other wallet holds
  a list of owners. Every call keeps it, changes only its own wallet, and only for the
  Administrator or the wallet itself; its events lead the table of the subgraph to the owners and
  the threshold the contract reports; and accepted signatures are those of enough owners.
\<close>

section \<open>The invariant\<close>

definition wallet_ok :: "licensed_user \<Rightarrow> owner_wallet \<Rightarrow> bool" where
  "wallet_ok u w \<longleftrightarrow>
     (if lu_originalName u = [] then u = no_user \<and> w = no_wallet
      else lu_active u \<and>
        (if lu_owner u \<noteq> ZERO_ADDRESS then w = no_wallet else \<exists>os. owner_list w os))"

definition lum_ok :: "lum_state \<Rightarrow> bool" where
  "lum_ok st \<longleftrightarrow> (\<forall>wallet. wallet_ok (lum_luws st wallet) (lum_wallets st wallet))"

text \<open>No owner is given twice: the contract does not notice an owner that repeats its
  predecessor.\<close>

fun no_repeated_owner :: "lum_call \<Rightarrow> lum_state \<Rightarrow> bool" where
  "no_repeated_owner (CreateWallet details salt) st = distinct (dto_owners details)"
| "no_repeated_owner (CreateWalletFromMigration details wallet chain ts) st = distinct (dto_owners details)"
| "no_repeated_owner (OwnerAdd wallet a th) st = (\<not> (isSingleOwner st wallet \<and> a = lu_owner (lum_luws st wallet)))"
| "no_repeated_owner _ st = True"

fun calls_without_repeats :: "evm \<Rightarrow> (lum_env \<times> message \<times> lum_call) list \<Rightarrow> lum_state \<Rightarrow> bool" where
  "calls_without_repeats e [] st = True"
| "calls_without_repeats e ((env, m, c) # cs) st =
     (no_repeated_owner c st \<and>
      (case run_lum_call e env m c st of None \<Rightarrow> True | Some (st1, _) \<Rightarrow> calls_without_repeats e cs st1))"

fun call_wallet :: "evm \<Rightarrow> lum_env \<Rightarrow> lum_call \<Rightarrow> lum_state \<Rightarrow> address" where
  "call_wallet e env (CreateWallet details salt) st = wallet_address e env st details salt"
| "call_wallet e env (CreateWalletFromMigration details wallet chain ts) st = wallet"
| "call_wallet e env (OwnerAdd wallet a th) st = wallet"
| "call_wallet e env (OwnerRemove wallet p a th) st = wallet"
| "call_wallet e env (OwnerSwap wallet p a b) st = wallet"
| "call_wallet e env (ThresholdChange wallet th) st = wallet"
| "call_wallet e env (OriginalName wallet s) st = wallet"
| "call_wallet e env (EnglishName wallet s) st = wallet"

lemma set_simps_lum [simp]:
  "lum_luws (set_user w u st) = (lum_luws st)(w := u)" "lum_wallets (set_user w u st) = lum_wallets st"
  "lum_luws (set_wallet w x st) = lum_luws st" "lum_wallets (set_wallet w x st) = (lum_wallets st)(w := x)"
  "lum_nameRegistry (set_user w u st) = lum_nameRegistry st" "lum_nameRegistry (set_wallet w x st) = lum_nameRegistry st"
  "lum_trustedForwarder (set_user w u st) = lum_trustedForwarder st"
  "lum_trustedForwarder (set_wallet w x st) = lum_trustedForwarder st"
  by (simp_all add: set_user_def set_wallet_def)

lemmas lum_call_defs = lum_createWallet_def createWalletFromMigration_def createWalletInternal_def
  lum_addOwner_def singleToMulti_def owner_manager_call_def lum_setOriginalName_def lum_setEnglishName_def

section \<open>A call changes one wallet, for those who may\<close>

lemma create_frame:
  assumes "createWalletInternal details wallet salt st = Some (st', es)" and "w \<noteq> wallet"
  shows "lum_luws st' w = lum_luws st w \<and> lum_wallets st' w = lum_wallets st w"
  using assms by (auto simp: createWalletInternal_def Let_def split: if_splits option.splits)

lemma call_frame:
  assumes "run_lum_call e env m c st = Some (st', es)" and "w \<noteq> call_wallet e env c st"
  shows "lum_luws st' w = lum_luws st w \<and> lum_wallets st' w = lum_wallets st w"
  using assms
  by (cases c)
    (auto simp: lum_createWallet_def createWalletFromMigration_def lum_addOwner_def singleToMulti_def
      owner_manager_call_def lum_setOriginalName_def lum_setEnglishName_def Let_def
      split: if_splits dest: create_frame)

lemma call_allowed:
  assumes "run_lum_call e env m c st = Some (st', es)"
  shows "onlyWalletOrAdministrator env st m (call_wallet e env c st)"
  using assms
  by (cases c)
    (auto simp: lum_createWallet_def createWalletFromMigration_def lum_addOwner_def
      owner_manager_call_def lum_setOriginalName_def lum_setEnglishName_def onlyWalletOrAdministrator_def
      split: if_splits)

lemma wallet_caller:
  assumes "onlyWalletOrAdministrator env st m wallet"
  shows "msg_sender m = lum_administrator env (lum_nameRegistry st) \<or>
    (msg_sender m = lum_trustedForwarder st \<and> 24 \<le> length (msg_data m) \<and> appended_sender (msg_data m) = wallet)"
  using assms
  by (auto simp: onlyWalletOrAdministrator_def isFromAdministrator_def isFromWallet_def
      isTrustedForwarder_def split: if_splits)

section \<open>Owners of a created wallet\<close>

lemma owners_loop_short:
  "segment f a os SENTINEL_OWNERS \<Longrightarrow> SENTINEL_OWNERS \<notin> set os \<Longrightarrow> n < length os \<Longrightarrow> owners_loop f n (f a) = None"
proof (induction os arbitrary: a n)
  case Nil
  then show ?case by simp
next
  case (Cons o1 os)
  then show ?case by (cases n) auto
qed

lemma setup_owner_list:
  assumes "setupOwners owners th no_wallet = Some w" and "distinct owners" and "getOwners w \<noteq> None"
  shows "owner_list w owners"
proof -
  obtain f where f: "link_owners (\<lambda>_. ZERO_ADDRESS) SENTINEL_OWNERS owners = Some f"
      "w = \<lparr>ow_next = f, ow_count = word_of_nat (length owners), ow_threshold = th\<rparr>"
    using assms(1) by (auto simp: setupOwners_def no_wallet_def split: if_splits)
  have v: "SENTINEL_OWNERS \<notin> set owners"
    using link_owners_valid [OF f(1)] by (auto simp: list_all_iff valid_owner_def)
  then have seg: "segment f SENTINEL_OWNERS owners SENTINEL_OWNERS"
    using link_owners_segment [OF f(1), of "[]"] assms(2) by simp
  have "length owners < 256"
  proof (rule ccontr)
    assume big: "\<not> length owners < 256"
    have "unat (word_of_nat (length owners) :: 8 word) < 256" by (rule unat_byte_lt)
    then have "unat (word_of_nat (length owners) :: 8 word) < length owners" using big by linarith
    then have "getOwners w = None" unfolding getOwners_def f(2) using owners_loop_short [OF seg v] by simp
    then show False using assms(3) by simp
  qed
  then show ?thesis using setupOwners_list [OF assms(1,2)] by (simp add: no_wallet_def)
qed

lemma setup_two:
  assumes "setupOwners [a, b] th no_wallet = Some w" and "a \<noteq> b"
  shows "owner_list w [a, b]" "ow_threshold w = th"
proof -
  show "owner_list w [a, b]" using setupOwners_list [OF assms(1)] assms(2) by (simp add: no_wallet_def)
  show "ow_threshold w = th" using assms(1) by (auto simp: setupOwners_def split: if_splits)
qed

lemma empty_wallet_calls:
  "run_call wallet c no_wallet = Some r \<Longrightarrow> \<exists>a th. c = AddOwner a th"
  by (cases c) (auto simp: no_wallet_def removeOwner_def swapOwner_def changeThreshold_def valid_owner_def
      split: if_splits)

section \<open>The table of the subgraph\<close>

definition table_agrees :: "lum_state \<Rightarrow> wallets \<Rightarrow> address \<Rightarrow> bool" where
  "table_agrees st W wallet \<longleftrightarrow>
     (if walletExists st wallet
      then \<exists>xs os. W (toHex wallet) = Some (xs, uint (lum_getThreshold st wallet)) \<and>
             lum_getOwners st wallet = Some os \<and> mset xs = mset os
      else W (toHex wallet) = None)"

text \<open>What a call does to its own wallet and its row of the table decides about all.\<close>

definition row_ok :: "lum_state \<Rightarrow> wallets \<Rightarrow> wallets \<Rightarrow> address \<Rightarrow> bool" where
  "row_ok st W W' wallet \<longleftrightarrow>
     wallet_ok (lum_luws st wallet) (lum_wallets st wallet) \<and>
     (\<exists>x. W' = W(toHex wallet := x)) \<and> table_agrees st W' wallet"

lemma table_agrees_cong:
  assumes "lum_luws st' w = lum_luws st w" "lum_wallets st' w = lum_wallets st w" "W' (toHex w) = W (toHex w)"
  shows "table_agrees st' W' w = table_agrees st W w"
  using assms by (simp add: table_agrees_def walletExists_def lum_getThreshold_def lum_getOwners_def isSingleOwner_def)

lemma row_suffices:
  assumes "run_lum_call e env m c st = Some (st', es)"
    and "lum_ok st" and "\<forall>w. table_agrees st W w" and "row_ok st' W W' (call_wallet e env c st)"
  shows "lum_ok st' \<and> (\<forall>w. table_agrees st' W' w)"
proof -
  let ?t = "call_wallet e env c st"
  obtain x where x: "W' = W(toHex ?t := x)" using assms(4) by (auto simp: row_ok_def)
  have "wallet_ok (lum_luws st' w) (lum_wallets st' w) \<and> table_agrees st' W' w" for w
  proof (cases "w = ?t")
    case True
    then show ?thesis using assms(4) by (simp add: row_ok_def)
  next
    case False
    note f = call_frame [OF assms(1) False]
    have "W' (toHex w) = W (toHex w)" using x False by simp
    then have "table_agrees st' W' w" using assms(3) f table_agrees_cong [of st' w st W' W] by simp
    then show ?thesis using assms(2) f by (simp add: lum_ok_def)
  qed
  then show ?thesis by (simp add: lum_ok_def)
qed

lemma created_row:
  assumes "createWalletInternal details wallet salt st = Some (st', es)" and "lum_ok st"
    and "table_agrees st W wallet" and "distinct (dto_owners details)"
  shows "row_ok st' W (foldl (\<lambda>W e. wallet_step e W) W es) wallet"
proof -
  have new: "\<not> walletExists st wallet" and named: "dto_originalName details \<noteq> []"
    and owners: "dto_owners details \<noteq> []" "hd (dto_owners details) \<noteq> ZERO_ADDRESS"
    using assms(1) by (auto simp: createWalletInternal_def isValidCreateWalletRequest_def split: if_splits)
  then have fresh: "lum_wallets st wallet = no_wallet" "W (toHex wallet) = None"
    using assms(2,3) by (auto simp: lum_ok_def wallet_ok_def walletExists_def table_agrees_def dest: spec [of _ wallet])
  let ?u = "\<lambda>owner. \<lparr>lu_owner = owner, lu_active = True, lu_userType = dto_userType details,
      lu_englishName = dto_englishName details, lu_originalName = dto_originalName details\<rparr>"
  show ?thesis
  proof (cases "length (dto_owners details) = 1")
    case True
    then have "st' = set_wallet wallet no_wallet (set_user wallet (?u (hd (dto_owners details))) st)"
      "es = [CreateLicensedUserWallet wallet [hd (dto_owners details)] 1 (dto_englishName details)
         (dto_originalName details) (user_type_id (dto_userType details)) salt]"
      using assms(1) fresh(1) owners(2)
      by (auto simp: createWalletInternal_def emitCreateLicensedUserWallet_def lum_getOwners_def
          lum_getThreshold_def isSingleOwner_def Let_def split: if_splits)
    then show ?thesis
      using named owners fresh
      by (auto simp: row_ok_def wallet_ok_def table_agrees_def walletExists_def lum_getOwners_def
          lum_getThreshold_def isSingleOwner_def)
  next
    case False
    then obtain w os where w: "setupOwners (dto_owners details) (dto_threshold details) no_wallet = Some w"
        "st' = set_wallet wallet w (set_user wallet (?u ZERO_ADDRESS) st)" "getOwners w = Some os"
        "es = [CreateLicensedUserWallet wallet os (uint (ow_threshold w)) (dto_englishName details)
           (dto_originalName details) (user_type_id (dto_userType details)) salt]"
      using assms(1) fresh(1)
      by (auto simp: createWalletInternal_def emitCreateLicensedUserWallet_def lum_getOwners_def
          lum_getThreshold_def isSingleOwner_def Let_def split: if_splits option.splits)
    have "owner_list w (dto_owners details)" using setup_owner_list [OF w(1) assms(4)] w(3) by simp
    then show ?thesis
      using named fresh w(2-4)
      by (auto simp: row_ok_def wallet_ok_def table_agrees_def walletExists_def lum_getOwners_def
          lum_getThreshold_def isSingleOwner_def)
  qed
qed

lemma listed_row:
  assumes call: "run_call wallet c (lum_wallets st wallet) = Some (w', es)"
    and st': "st' = set_wallet wallet w' st"
    and ok: "lum_ok st" and W: "table_agrees st W wallet" and multi: "\<not> isSingleOwner st wallet"
    and known: "walletExists st wallet"
  shows "row_ok st' W (foldl (\<lambda>W e. wallet_step e W) W es) wallet"
proof -
  let ?u = "lum_luws st wallet" and ?w = "lum_wallets st wallet"
  have u: "lu_originalName ?u \<noteq> []" "lu_active ?u" "lu_owner ?u = ZERO_ADDRESS"
    using ok multi known by (auto simp: lum_ok_def wallet_ok_def isSingleOwner_def walletExists_def dest: spec [of _ wallet])
  have "wallet_ok ?u ?w" using ok by (simp add: lum_ok_def)
  then obtain os where os: "owner_list ?w os" using u by (auto simp: wallet_ok_def)
  obtain xs os' where row: "W (toHex wallet) = Some (xs, uint (ow_threshold ?w))" "getOwners ?w = Some os'" "mset xs = mset os'"
    using W u by (auto simp: table_agrees_def walletExists_def lum_getOwners_def lum_getThreshold_def isSingleOwner_def)
  have "os' = os" using row(2) os getOwners_list [of ?w os] by (simp add: owner_list_def)
  with call_agrees [where W = W, OF os call row(1)] row(3) obtain os2 xs2 where two: "owner_list w' os2" "mset xs2 = mset os2"
      "foldl (\<lambda>W e. wallet_step e W) W es = W(toHex wallet \<mapsto> (xs2, uint (ow_threshold w')))" by blast
  have "getOwners w' = Some os2" using two(1) getOwners_list by (simp add: owner_list_def)
  then show ?thesis
    using two u unfolding row_ok_def st'
    by (auto simp: wallet_ok_def table_agrees_def walletExists_def lum_getOwners_def lum_getThreshold_def isSingleOwner_def)
qed

text \<open>The wallets the functions of the OwnerManager succeed for have a linked list.\<close>

lemma listed_wallet:
  assumes "lum_ok st" and "run_call wallet c (lum_wallets st wallet) = Some r" and "\<And>a th. c \<noteq> AddOwner a th"
  shows "\<not> isSingleOwner st wallet" "walletExists st wallet"
proof -
  have "lum_wallets st wallet \<noteq> no_wallet"
    using empty_wallet_calls [of wallet c r] assms(2,3) by metis
  then show "\<not> isSingleOwner st wallet" "walletExists st wallet"
    using assms(1) by (auto simp: lum_ok_def wallet_ok_def isSingleOwner_def walletExists_def no_user_def
        dest!: spec [of _ wallet] split: if_splits)
qed

lemma manager_row:
  assumes "owner_manager_call env m wallet c st = Some (st', es)" and "lum_ok st" and "table_agrees st W wallet"
    and "(\<forall>a th. c \<noteq> AddOwner a th) \<or> (\<not> isSingleOwner st wallet \<and> walletExists st wallet)"
  shows "row_ok st' W (foldl (\<lambda>W e. wallet_step e W) W es) wallet"
proof -
  obtain w' where c: "run_call wallet c (lum_wallets st wallet) = Some (w', es)" "st' = set_wallet wallet w' st"
    using assms(1) by (auto simp: owner_manager_call_def split: if_splits)
  then show ?thesis
    using listed_row [OF c assms(2,3)] listed_wallet [OF assms(2) c(1)] assms(4) by blast
qed

lemma added_row:
  assumes "lum_addOwner env m wallet a th st = Some (st', es)" and "lum_ok st" and "table_agrees st W wallet"
    and new: "\<not> (isSingleOwner st wallet \<and> a = lu_owner (lum_luws st wallet))"
  shows "row_ok st' W (foldl (\<lambda>W e. wallet_step e W) W es) wallet"
proof -
  let ?u = "lum_luws st wallet"
  have active: "lu_active ?u" using assms(1) by (auto simp: lum_addOwner_def isActiveWallet_def split: if_splits)
  then have known: "walletExists st wallet"
    using assms(2) by (auto simp: lum_ok_def wallet_ok_def walletExists_def no_user_def dest!: spec [of _ wallet] split: if_splits)
  show ?thesis
  proof (cases "isSingleOwner st wallet")
    case True
    then have "lum_wallets st wallet = no_wallet"
      using assms(2) known by (auto simp: lum_ok_def wallet_ok_def walletExists_def isSingleOwner_def dest!: spec [of _ wallet])
    then obtain w where w: "setupOwners [lu_owner ?u, a] th no_wallet = Some w"
        "st' = set_wallet wallet w (set_user wallet (?u\<lparr>lu_owner := ZERO_ADDRESS\<rparr>) st)"
        "es = [UpgradeLicensedUserWalletToMulti wallet [lu_owner ?u, a] (uint th)]"
      using assms(1) True by (auto simp: lum_addOwner_def singleToMulti_def Let_def split: if_splits)
    have two: "owner_list w [lu_owner ?u, a]" "ow_threshold w = th" using setup_two [OF w(1)] new True by auto
    have "getOwners w = Some [lu_owner ?u, a]" using two(1) getOwners_list by (simp add: owner_list_def)
    moreover have "W (toHex wallet) \<noteq> None" using assms(3) known by (auto simp: table_agrees_def)
    ultimately show ?thesis
      using known active two w(2,3)
      by (auto simp: row_ok_def wallet_ok_def table_agrees_def walletExists_def lum_getOwners_def
          lum_getThreshold_def isSingleOwner_def split: option.splits)
  next
    case False
    then have "owner_manager_call env m wallet (AddOwner a th) st = Some (st', es)"
      using assms(1) by (auto simp: lum_addOwner_def split: if_splits)
    from manager_row [OF this assms(2,3)] False known show ?thesis by blast
  qed
qed

lemma named_row:
  assumes "lum_ok st" and "table_agrees st W wallet" and "isActiveWallet st wallet" and "name \<noteq> []"
    and "u' = (lum_luws st wallet)\<lparr>lu_originalName := name\<rparr> \<or> u' = (lum_luws st wallet)\<lparr>lu_englishName := name\<rparr>"
  shows "row_ok (set_user wallet u' st) W W wallet"
proof -
  have known: "walletExists st wallet"
    using assms(1,3) by (auto simp: lum_ok_def wallet_ok_def walletExists_def isActiveWallet_def no_user_def
        dest!: spec [of _ wallet] split: if_splits)
  moreover have "\<exists>x. W = W(toHex wallet := x)" by (metis fun_upd_triv)
  ultimately show ?thesis
    using assms by (auto simp: row_ok_def lum_ok_def wallet_ok_def table_agrees_def walletExists_def
        lum_getOwners_def lum_getThreshold_def isSingleOwner_def dest!: spec [of _ wallet])
qed

lemma migrated_event: "foldl (\<lambda>W e. wallet_step e W) W (es @ [MigrateLicensedUserWallet w c t]) =
    foldl (\<lambda>W e. wallet_step e W) W es"
  by simp

lemma call_row:
  assumes "run_lum_call e env m c st = Some (st', es)" and "lum_ok st"
    and "table_agrees st W (call_wallet e env c st)" and "no_repeated_owner c st"
  shows "row_ok st' W (foldl (\<lambda>W e. wallet_step e W) W es) (call_wallet e env c st)"
proof (cases c)
  case (CreateWallet details salt)
  with assms show ?thesis by (auto simp: lum_createWallet_def split: if_splits intro: created_row)
next
  case (CreateWalletFromMigration details wallet chain ts)
  with assms show ?thesis
    by (auto simp: createWalletFromMigration_def migrated_event simp del: foldl_append
        split: if_splits intro: created_row)
next
  case (OwnerAdd wallet a th)
  with assms show ?thesis by (auto intro: added_row)
next
  case (OriginalName wallet s)
  with assms show ?thesis by (auto simp: lum_setOriginalName_def split: if_splits intro: named_row)
next
  case (EnglishName wallet s)
  with assms show ?thesis by (auto simp: lum_setEnglishName_def split: if_splits intro: named_row)
qed (use assms in \<open>auto intro!: manager_row\<close>)

lemma calls_follow:
  assumes "run_lum_calls e cs st = Some (st', es)" and "calls_without_repeats e cs st"
    and "lum_ok st" and "\<forall>w. table_agrees st W w"
  shows "lum_ok st' \<and> (\<forall>w. table_agrees st' (foldl (\<lambda>W e. wallet_step e W) W es) w)"
  using assms
proof (induction cs arbitrary: st W es)
  case Nil
  then show ?case by simp
next
  case (Cons x cs)
  obtain env m c where x: "x = (env, m, c)" by (cases x)
  obtain st1 es1 es2 where one: "run_lum_call e env m c st = Some (st1, es1)" "run_lum_calls e cs st1 = Some (st', es2)"
      "es = es1 @ es2"
    using Cons.prems(1) x by (auto split: option.splits)
  have "no_repeated_owner c st" "calls_without_repeats e cs st1" using Cons.prems(2) x one(1) by simp_all
  then show ?case
    using row_suffices [OF one(1) Cons.prems(3,4) call_row [OF one(1) Cons.prems(3)]] Cons.prems(4)
      Cons.IH [OF one(2)] unfolding one(3) foldl_append by blast
qed

text \<open>The contract after its deployment.\<close>

definition no_wallets :: "lum_state \<Rightarrow> bool" where
  "no_wallets st \<longleftrightarrow> lum_luws st = (\<lambda>_. no_user) \<and> lum_wallets st = (\<lambda>_. no_wallet)"

lemma no_wallets_ok: "no_wallets st \<Longrightarrow> lum_ok st \<and> (\<forall>w. table_agrees st (\<lambda>_. None) w)"
  by (simp add: no_wallets_def lum_ok_def wallet_ok_def table_agrees_def walletExists_def no_user_def)

text \<open>The events of the LicensedUserManager among those of a chain.\<close>

definition manager_events :: "(eth_event \<times> trigger) list \<Rightarrow> luw_event list" where
  "manager_events ts = concat (map (\<lambda>(ev, t). case t of LicensedUserManager e \<Rightarrow> [e] | _ \<Rightarrow> []) ts)"

lemma manager_events_wallets:
  "wallets_of_run ts W = foldl (\<lambda>W e. wallet_step e W) W (manager_events ts)"
  unfolding wallets_of_run_def manager_events_def
proof (induction ts arbitrary: W)
  case (Cons t ts)
  then show ?case by (cases t; cases "snd t") auto
qed simp

lemma manager_events_zip:
  "length evs = length es \<Longrightarrow> manager_events (zip evs (map LicensedUserManager es)) = es"
  unfolding manager_events_def by (induction evs es rule: list_induct2) simp_all

lemma empty_wallets: "wf_wallets empty_store" "wallets_of empty_store = (\<lambda>_. None)"
  by (simp_all add: wf_wallets_def wallets_of_def empty_store_def fun_eq_iff)

section \<open>Accepted signatures\<close>

lemma sentinels_equal: "SENTINEL_OWNER = SENTINEL_OWNERS"
  by (simp add: SENTINEL_OWNER_def SENTINEL_OWNERS_def)

lemma may_sign_owner: "owner_list w os \<Longrightarrow> may_sign (ow_next w) a \<longleftrightarrow> a \<in> set os"
  using holds_linked [of w os a] sentinel_not_zero
  by (auto simp: may_sign_def sentinels_equal owner_list_def holds_owners_def)

lemma wallet_owners:
  assumes "lum_ok st" and "isActiveWallet st wallet"
  obtains (single) "isSingleOwner st wallet" "lum_getOwners st wallet = Some [lu_owner (lum_luws st wallet)]"
      "lum_getThreshold st wallet = 1"
  | (listed) os where "\<not> isSingleOwner st wallet" "lum_getOwners st wallet = Some os"
      "owner_list (lum_wallets st wallet) os" "lum_getThreshold st wallet = ow_threshold (lum_wallets st wallet)"
proof (cases "isSingleOwner st wallet")
  case True
  then show ?thesis using single by (simp add: lum_getOwners_def lum_getThreshold_def)
next
  case False
  obtain os where "owner_list (lum_wallets st wallet) os"
    using assms False by (auto simp: lum_ok_def wallet_ok_def isActiveWallet_def isSingleOwner_def no_user_def
        dest!: spec [of _ wallet] split: if_splits)
  moreover from this have "getOwners (lum_wallets st wallet) = Some os"
    using getOwners_list by (simp add: owner_list_def)
  ultimately show ?thesis
    using listed [OF False] False by (simp add: lum_getOwners_def lum_getThreshold_def)
qed

text \<open>Reading a licensed user never fails.\<close>

lemma licensed_user_read:
  assumes "lum_ok st"
  shows "lum_getLicensedUser st wallet \<noteq> None"
proof (cases "walletExists st wallet")
  case True
  then have "isActiveWallet st wallet"
    using assms by (auto simp: lum_ok_def wallet_ok_def walletExists_def isActiveWallet_def dest!: spec [of _ wallet])
  with assms show ?thesis by (cases rule: wallet_owners) (simp_all add: lum_getLicensedUser_def True)
qed (simp add: lum_getLicensedUser_def)

text \<open>As many different owners as the threshold demands have signed the hash.\<close>

lemma accepted_signers:
  assumes "lum_ok st" and "isValidSignatureSet e st wallet hash sigs \<noteq> None"
  shows "\<exists>owners signed. lum_getOwners st wallet = Some owners \<and>
    signed = recovered_signers e hash sigs (unat (lum_getThreshold st wallet)) \<and>
    signed \<noteq> [] \<and> distinct signed \<and> set signed \<subseteq> set owners"
proof -
  have act: "isActiveWallet st wallet" using assms(2) by (auto simp: isValidSignatureSet_def split: if_splits)
  from assms(1) act show ?thesis
  proof (cases rule: wallet_owners)
    case single
    then show ?thesis
      using assms(2) by (auto simp: isValidSignatureSet_def recovered_signers_def split: if_splits)
  next
    case (listed os)
    let ?w = "lum_wallets st wallet"
    have "checkSignatures e (ow_next ?w) (ow_threshold ?w) hash sigs"
      using assms(2) listed(1) act by (auto simp: isValidSignatureSet_def split: if_splits)
    note c = checked_signers [OF this]
    have "recovered_signers e hash sigs (unat (ow_threshold ?w)) \<noteq> []" using c(2,4) by (metis length_greater_0_conv)
    then show ?thesis using c(1,3) listed may_sign_owner [OF listed(3)] by auto
  qed
qed

text \<open>Signatures of 65 bytes by owners in ascending order are accepted, when there are enough.\<close>

lemma zero_first: "a \<noteq> ZERO_ADDRESS \<Longrightarrow> length a = 20 \<Longrightarrow> be_nat ZERO_ADDRESS < be_nat a"
  using be_nat_inj [of ZERO_ADDRESS a] by (cases "be_nat a") (auto simp: ZERO_ADDRESS_def be_nat_zeros)

lemma enough_signatures:
  assumes "lum_ok st" and "isActiveWallet st wallet" and "lum_getOwners st wallet = Some owners"
    and "\<forall>p \<in> set ps. length p = 65" and "unat (lum_getThreshold st wallet) \<le> length ps"
    and "sorted_wrt (\<lambda>a b. be_nat a < be_nat b) (map (signature_address e hash) ps)"
    and "\<forall>p \<in> set ps. signature_address e hash p \<in> set owners \<and> length (signature_address e hash p) = 20"
    and one: "isSingleOwner st wallet \<Longrightarrow> ps \<noteq> []"
  shows "isValidSignatureSet e st wallet hash (concat ps) = Some IS_VALID_SIG_SUCCESS"
  using assms(1,2)
proof (cases rule: wallet_owners)
  case single
  then have "recover e hash (concat ps) 0 = signature_address e hash (hd ps)"
    using signers_joined [of ps 1 e hash] assms(4) one
    by (cases ps) (auto simp: recovered_signers_def)
  then show ?thesis
    using single assms(2,3,7) one by (cases ps) (auto simp: isValidSignatureSet_def)
next
  case (listed os)
  let ?w = "lum_wallets st wallet" and ?n = "unat (ow_threshold (lum_wallets st wallet))"
  have os: "owners = os" using listed assms(3) by simp
  have n: "?n \<le> length ps" using assms(5) listed by simp
  have s: "recovered_signers e hash (concat ps) ?n = map (signature_address e hash) (take ?n ps)"
    by (rule signers_joined [OF assms(4) n])
  have z: "ZERO_ADDRESS \<notin> set os" using listed(3) by (simp add: owner_list_def holds_owners_def)
  have "ow_threshold ?w \<noteq> 0" using listed(3) by (simp add: owner_list_def one_le_word)
  moreover have "?n * 65 \<le> length (concat ps)"
  proof -
    have "length (concat ps) = 65 * length ps" using assms(4) by (induction ps) auto
    then show ?thesis using n by simp
  qed
  moreover have "sorted_wrt (\<lambda>a b. be_nat a < be_nat b) (recovered_signers e hash (concat ps) ?n)"
    unfolding s take_map [symmetric] by (rule sorted_wrt_take [OF assms(6)])
  moreover have signed: "a \<in> set os" "length a = 20" if "a \<in> set (recovered_signers e hash (concat ps) ?n)" for a
    using that assms(7) os in_set_takeD [of _ ?n ps] unfolding s by auto
  then have "list_all (may_sign (ow_next ?w)) (recovered_signers e hash (concat ps) ?n)"
    using may_sign_owner [OF listed(3)] by (simp add: list_all_iff)
  moreover have "\<forall>a \<in> set (recovered_signers e hash (concat ps) ?n). be_nat ZERO_ADDRESS < be_nat a"
    using signed z zero_first by metis
  ultimately have "checkSignatures e (ow_next ?w) (ow_threshold ?w) hash (concat ps)"
    by (simp add: checkSignatures_iff)
  then show ?thesis using listed(1) assms(2) by (simp add: isValidSignatureSet_def)
qed

text \<open>A wallet with a single owner to which that owner is added again with a threshold of 2 counts two
  owners and holds one: no signatures are accepted any more.\<close>

lemma locked_wallet:
  assumes ok: "lum_ok st" and single: "isSingleOwner st wallet" and a: "a = lu_owner (lum_luws st wallet)"
    and active: "isActiveWallet st wallet" and sentinel: "a \<noteq> SENTINEL_OWNERS"
    and caller: "onlyWalletOrAdministrator env st m wallet"
  shows "\<exists>st'. lum_addOwner env m wallet a 2 st = Some (st', [UpgradeLicensedUserWalletToMulti wallet [a, a] 2]) \<and>
    lum_getOwners st' wallet = Some [a, ZERO_ADDRESS] \<and> lum_getThreshold st' wallet = 2 \<and>
    (\<forall>e hash sigs. isValidSignatureSet e st' wallet hash sigs = None)"
proof -
  let ?f = "(\<lambda>_. ZERO_ADDRESS)(SENTINEL_OWNERS := a, a := a, a := SENTINEL_OWNERS)"
  let ?w = "\<lparr>ow_next = ?f, ow_count = 2, ow_threshold = 2\<rparr>"
  let ?st = "set_wallet wallet ?w (set_user wallet ((lum_luws st wallet)\<lparr>lu_owner := ZERO_ADDRESS\<rparr>) st)"
  have v: "valid_owner a" using single sentinel a by (simp add: valid_owner_def isSingleOwner_def)
  have "lum_wallets st wallet = no_wallet"
    using ok single active by (auto simp: lum_ok_def wallet_ok_def isSingleOwner_def isActiveWallet_def no_user_def
        dest!: spec [of _ wallet] split: if_splits)
  then have created: "setupOwners [a, a] 2 (lum_wallets st wallet) = Some ?w"
    using v by (simp add: setupOwners_def no_wallet_def valid_owner_def not_less)
  have call: "lum_addOwner env m wallet a 2 st = Some (?st, [UpgradeLicensedUserWalletToMulti wallet [a, a] 2])"
    using created active caller single a by (simp add: lum_addOwner_def singleToMulti_def Let_def)
  have multi: "\<not> isSingleOwner ?st wallet" by (simp add: isSingleOwner_def)
  have loop: "owners_loop ?f 2 a = Some [a, ZERO_ADDRESS]"
    unfolding numeral_2_eq_2 using v by (simp add: valid_owner_def)
  have first: "?f SENTINEL_OWNERS = a" using v by (simp add: valid_owner_def)
  have owners: "lum_getOwners ?st wallet = Some [a, ZERO_ADDRESS]"
    using multi loop first by (simp add: lum_getOwners_def getOwners_def del: owners_loop.simps fun_upd_apply)
      (simp add: fun_upd_def)
  have only: "may_sign ?f b \<Longrightarrow> b = a" for b
    by (auto simp: may_sign_def sentinels_equal split: if_splits)
  have "isValidSignatureSet e ?st wallet hash sigs = None" for e hash sigs
  proof -
    have "\<not> checkSignatures e ?f 2 hash sigs"
    proof
      assume c: "checkSignatures e ?f 2 hash sigs"
      have two: "unat (2 :: 8 word) = 2" by simp
      from checked_signers(1,3) [OF c] only have "distinct (recovered_signers e hash sigs 2)" "set (recovered_signers e hash sigs 2) \<subseteq> {a}"
        unfolding two by auto
      moreover have "length (recovered_signers e hash sigs 2) = 2" by (simp add: recovered_signers_def)
      ultimately show False
        using card_mono [of "{a}" "set (recovered_signers e hash sigs 2)"] by (simp add: distinct_card)
    qed
    then show ?thesis using multi by (simp add: isValidSignatureSet_def)
  qed
  moreover have "lum_getThreshold ?st wallet = 2" using multi by (simp add: lum_getThreshold_def)
  ultimately show ?thesis using call owners by blast
qed

end
