(* ===== verification/MetaTxFlow.thy ===== *)
theory MetaTxFlow
  imports Forwarder ForwarderSafety LicensedUserFacts
begin

text \<open>
  The path of a meta-transaction through the whole system: the library builds, signs and encodes a
  request, the MetaTxForwarder checks its nonce and asks the LicensedUserManager about the
  signatures, and the destination is called. What ethers documents about EIP712 and the signatures of
  its wallets is stated as hypotheses; that both sides mean the same hash is proved.
\<close>

section \<open>What EIP712 and ethers document\<close>

text \<open>\<open>encodeType\<close> of EIP712.\<close>

definition encodeType :: "string \<Rightarrow> tfield list \<Rightarrow> string" where
  "encodeType name ts = name @ ''('' @ join_str '','' (map (\<lambda>f. fld_type f @ '' '' @ fld_name f) ts) @ '')''"

text \<open>The hash of a domain with the four fields the library uses.\<close>

definition domain_hash :: "evm \<Rightarrow> typed_data_domain \<Rightarrow> bytes" where
  "domain_hash e d = evm_keccak256 e
     (evm_keccak256 e (str_bytes (encodeType ''EIP712Domain'' EIP712DomainTypes)) @
      evm_keccak256 e (str_bytes (dom_name d)) @ evm_keccak256 e (str_bytes (dom_version d)) @
      be_bytes 32 (nat (dom_chainId d)) @ abi_address (hex_bytes (dom_verifyingContract d)))"

text \<open>The words of the values the library itself puts into a message, and the type hash.\<close>

definition eip712_documented ::
  "evm \<Rightarrow> ext \<Rightarrow> (string \<Rightarrow> tfield list \<Rightarrow> string) \<Rightarrow> (string \<Rightarrow> js_val option \<Rightarrow> js_error + string) \<Rightarrow> bool" where
  "eip712_documented e x th enc \<longleftrightarrow>
     encoder_words x th enc \<and>
     (\<forall>name ts. hashType x name ts = toHex (evm_keccak256 e (str_bytes (encodeType name ts)))) \<and>
     (\<forall>name ts. th name ts = hex_body (evm_keccak256 e (str_bytes (encodeType name ts)))) \<and>
     (\<forall>a. length a = 20 \<longrightarrow> enc ''address'' (Some (JString (toHex a))) = Inr (hex_body (abi_address a))) \<and>
     (\<forall>n. enc ''uint256'' (Some (JString (int_dec (uint (n :: 256 word))))) = Inr (hex_body (abi_uint n))) \<and>
     (\<forall>b. enc ''bytes'' (Some (JString (toHex b))) = Inr (hex_body (evm_keccak256 e b))) \<and>
     (\<forall>ty v w. enc ty v = Inr w \<longrightarrow> (\<exists>b. w = hex_body b)) \<and>
     (\<forall>c f vs s. encodeFunctionData x c f vs = Inr s \<longrightarrow> (\<exists>b. b \<noteq> [] \<and> s = toHex b))"

text \<open>A wallet with the key of the address \<open>a\<close> signs the EIP712 hash of a message.\<close>

definition signs_for :: "evm \<Rightarrow> ext \<Rightarrow> wallet \<Rightarrow> address \<Rightarrow> bool" where
  "signs_for e x w a \<longleftrightarrow>
     length a = 20 \<and> toLowerCase (w_address w) = toHex a \<and>
     (\<exists>sign. w_signTypedData w = Some sign \<and>
        (\<forall>d name ts msg b. encodeData x name ts msg = Inr (toHex b) \<longrightarrow>
           (\<exists>p. sign d [(name, Some ts)] msg = toHex p \<and> length p = 65 \<and>
              signature_address e
                (evm_keccak256 e ([0x19, 0x01] @ domain_hash e d @ evm_keccak256 e b)) p = a)))"

section \<open>Types and domains agree\<close>

lemma join_str_append:
  "ys \<noteq> [] \<Longrightarrow> xs \<noteq> [] \<Longrightarrow> join_str s (xs @ ys) = join_str s xs @ s @ join_str s ys"
proof (induction xs)
  case (Cons x1 xs)
  then show ?case by (cases xs; cases ys) simp_all
qed simp

text \<open>The string the contract hashes when a type is registered is the type that is signed.\<close>

lemma registered_type_string:
  assumes "key \<in> set registry_names"
  shows "request_type_string key (buildSuffixTypeString (types_of key)) = encodeType key (types_of key)"
proof -
  obtain fs where fs: "plain fs" "types_of key = shape fs"
    using wf_types_of [OF assms] wf_types_cases by metis
  define rest where "rest = (if dynamic fs then [data_field] else []) @ fs"
  have t: "types_of key = GenericParamTypes @ rest" "rest \<noteq> []"
    using fs by (simp_all add: shape_def rest_def plain_def)
  let ?s = "\<lambda>f. fld_type f @ '' '' @ fld_name f"
  have "join_str '','' (map ?s (types_of key)) = GENERIC_PARAMS @ '','' @ join_str '','' (map ?s rest)"
    unfolding t(1) map_append using t(2)
    by (subst join_str_append) (simp_all add: GenericParamTypes_def GENERIC_PARAMS_def)
  moreover have "buildSuffixTypeString (types_of key) = join_str '','' (map ?s rest)"
    by (simp add: buildSuffixTypeString_def t(1))
  ultimately show ?thesis by (simp add: request_type_string_def encodeType_def)
qed

lemma suffix_string:
  assumes "omitBy_documented x" and "metaTxRequests x = Inr requests" and "obj_get requests key = Some q"
  shows "suffixTypeString q = buildSuffixTypeString (types_of key)"
  using metaTxRequests_entry [OF assms] by (metis meta_tx_request.select_convs(7) request_of_def)

lemma names_without_parens_all: "list_all (\<lambda>k. \<not> list_ex (\<lambda>c. c = CHR ''('' \<or> c = CHR '')'') k) registry_names"
  by code_simp

lemma names_without_parens:
  "key \<in> set registry_names \<Longrightarrow> \<not> list_ex (\<lambda>c. c = CHR ''('' \<or> c = CHR '')'') key"
  using names_without_parens_all by (simp add: list_all_iff)

lemma domain_separator_agrees:
  assumes "mtf_initialize e this nameRegistry st0 = Some st"
  shows "fs_domainSeparator st = domain_hash e (newTypedDataBuilder (uint (evm_chainid e)) (toHex this))"
proof -
  have "encodeType ''EIP712Domain'' EIP712DomainTypes =
      ''EIP712Domain(string name,string version,uint256 chainId,address verifyingContract)''"
    by (simp add: encodeType_def EIP712DomainTypes_def)
  then show ?thesis
    using assms by (auto simp: mtf_initialize_def MTRM_initialize_def domain_hash_def newTypedDataBuilder_def
        DOMAIN_SEPARATOR_TYPEHASH_def DOMAIN_NAME_def MTRM_DOMAIN_NAME_def DOMAIN_VERSION_def
        MTRM_DOMAIN_VERSION_def abi_uint_def split: if_splits)
qed

section \<open>The order of signatures\<close>

lemma hex_digit_less: "m < n \<Longrightarrow> n < 16 \<Longrightarrow> hex_digit m < hex_digit n"
proof -
  have "list_all (\<lambda>n. list_all (\<lambda>m. m < n \<longrightarrow> hex_digit m < hex_digit n) [0..<16]) [0..<16]"
    by code_simp
  then show "m < n \<Longrightarrow> n < 16 \<Longrightarrow> hex_digit m < hex_digit n" by (simp add: list_all_iff)
qed

lemma hex_body_less:
  "length as = length bs \<Longrightarrow> be_nat as < be_nat bs \<Longrightarrow> hex_body as < hex_body bs"
proof (induction as bs rule: list_induct2)
  case Nil
  then show ?case by simp
next
  case (Cons a as b bs)
  let ?ad = "unat a div 16" and ?am = "unat a mod 16" and ?bd = "unat b div 16" and ?bm = "unat b mod 16"
  have small: "?ad < 16" "?bd < 16" "?am < 16" "?bm < 16"
    using unat_byte_lt [of a] unat_byte_lt [of b] by (simp_all add: less_mult_imp_div_less)
  consider "a < b" | "a = b" "be_nat as < be_nat bs"
    using Cons.prems Cons.hyps by (auto simp: be_nat_Cons_less)
  then show ?case
  proof cases
    case 1
    then have "unat a < unat b" by (simp add: word_less_nat_alt)
    then have "?ad < ?bd \<or> (?ad = ?bd \<and> ?am < ?bm)"
      by (metis div_le_mono div_mult_mod_eq le_neq_implies_less nat_add_left_cancel_less order_less_imp_le)
    then show ?thesis using hex_digit_less small by (auto simp: hex_byte_def)
  next
    case 2
    then show ?thesis using Cons.IH by (simp add: hex_byte_def)
  qed
qed

lemma hex_order:
  assumes "length a = 20" and "length b = 20" and "toHex a \<le> toHex b" and "a \<noteq> b"
  shows "be_nat a < be_nat b"
proof (rule ccontr)
  assume "\<not> be_nat a < be_nat b"
  then have "be_nat b < be_nat a" using be_nat_inj [of a b] assms(1,2,4) by force
  then have "hex_body b < hex_body a" using hex_body_less assms(1,2) by simp
  then show False using assms(3) by (simp add: toHex_def leD)
qed

section \<open>What is signed is what the contract hashes\<close>

lemma encodeData_build:
  assumes enc: "encoder_words x th enc" and wf: "wf_types ts"
    and words: "enc ''address'' (obj_get msg ''from'') = Inr wfrom" "enc ''uint256'' (obj_get msg ''nonce'') = Inr wnonce"
      "has_data ts \<Longrightarrow> enc ''bytes'' (obj_get msg ''data'') = Inr wdata"
      "suffix_words enc ts msg = Inr ws"
  shows "encodeData x name ts msg =
    Inr (''0x'' @ th name ts @ wfrom @ wnonce @ (if has_data ts then wdata else []) @ concat ws)"
proof -
  obtain fs where fs: "plain fs" "ts = shape fs" using wf by (rule wf_types_cases)
  let ?w = "\<lambda>f. enc (fld_type f) (obj_get msg (fld_name f))"
  define core where "core = GenericParamTypes @ (if has_data ts then [data_field] else [])"
  have req: "request_fields ts = fs" and hd: "has_data ts = dynamic fs"
    using fs by (simp_all add: has_data_shape request_fields_shape)
  have split: "ts = core @ fs" unfolding core_def hd using fs(2) by (simp add: shape_def)
  have "map_res ?w core = Inr ([wfrom, wnonce] @ (if has_data ts then [wdata] else []))"
    using words(1-3) by (simp add: core_def GenericParamTypes_def data_field_def)
  moreover have "map_res ?w fs = Inr ws" using words(4) by (simp add: suffix_words_def req)
  ultimately have "map_res ?w ts = Inr (([wfrom, wnonce] @ (if has_data ts then [wdata] else [])) @ ws)"
    unfolding split map_res_append by simp
  then show ?thesis using enc by (simp add: encoder_words_def)
qed

text \<open>The request as the contract receives it: hexadecimal strings are passed as the bytes they stand
  for.\<close>

definition decoded_request :: "execution_request \<Rightarrow> 256 word \<Rightarrow> execution_data" where
  "decoded_request r n =
     \<lparr>xd_typeHash = hex_bytes (typeHash r), xd_from = hex_bytes (from_address r), xd_nonce = n,
      xd_suffixData = hex_bytes (suffixData r), xd_callData = hex_bytes (callData r)\<rparr>"

lemma hex_words:
  assumes "eip712_documented e x th enc" and "suffix_words enc ts msg = Inr ws"
  shows "\<exists>bs. concat ws = hex_body bs"
proof -
  have "\<exists>b. w = hex_body b" if "w \<in> set ws" for w
    using map_res_Inr_all [OF assms(2) [unfolded suffix_words_def] that] assms(1)
    unfolding eip712_documented_def by blast
  then show ?thesis
  proof (induction ws)
    case Nil
    then show ?case by (intro exI [of _ "[]"]) simp
  next
    case (Cons w ws)
    then obtain b bs where "w = hex_body b" "concat ws = hex_body bs" by force
    then show ?case by (intro exI [of _ "b @ bs"]) (simp add: hex_body_def)
  qed
qed

lemma documentedD:
  assumes "eip712_documented e x th enc"
  shows "encoder_words x th enc"
    "hashType x name ts = toHex (evm_keccak256 e (str_bytes (encodeType name ts)))"
    "th name ts = hex_body (evm_keccak256 e (str_bytes (encodeType name ts)))"
    "length a = 20 \<Longrightarrow> enc ''address'' (Some (JString (toHex a))) = Inr (hex_body (abi_address a))"
    "enc ''uint256'' (Some (JString (int_dec (uint (n :: 256 word))))) = Inr (hex_body (abi_uint n))"
    "enc ''bytes'' (Some (JString (toHex b))) = Inr (hex_body (evm_keccak256 e b))"
    "encodeFunctionData x c f vs = Inr s \<Longrightarrow> \<exists>b. b \<noteq> [] \<and> s = toHex b"
  using assms unfolding eip712_documented_def by blast+

lemma signed_struct:
  assumes doc: "eip712_documented e x th enc" and om: "omitBy_documented x"
    and clean: "clean_params (requestData r)"
    and free: "obj_get (requestData r) ''from'' = None" "obj_get (requestData r) ''nonce'' = None"
    and sender: "fromAddress r = toHex from" "length from = 20"
    and td: "buildTypedData x dd (requestTypeKey r) (fromAddress r) (JString (int_dec (uint n))) (requestData r) = Inr td"
    and rsp: "encodeExecuteTransactionProps x r sigs ty = Inr rsp"
  defines "xr \<equiv> decoded_request (rsp_request rsp) n"
  shows "encodeData x (requestTypeKey r) (types_of (requestTypeKey r)) (td_message td) = Inr (toHex (encoded_struct e xr))"
    "xd_typeHash xr = evm_keccak256 e (str_bytes (encodeType (requestTypeKey r) (types_of (requestTypeKey r))))"
    "xd_from xr = from"
proof -
  let ?key = "requestTypeKey r" and ?ts = "types_of (requestTypeKey r)" and ?m = "requestParamsToTypedParams (requestData r)"
  obtain requests q where q: "metaTxRequests x = Inr requests" "obj_get requests ?key = Some q"
      "encodeSuffixData x ?key (requestData r) = Inr (suffixData (rsp_request rsp))"
      "if requiresDataField q
       then encodeContractFunctionCalldata x (destinationContract q) (functionSignature q) (requestData r) =
              Inr (callData (rsp_request rsp))
       else callData (rsp_request rsp) = ''0x''"
      "typeHash (rsp_request rsp) = eip712TypeHash q" "from_address (rsp_request rsp) = fromAddress r"
    using encodeExecute_Inr [OF rsp] by blast
  note facts = metaTxRequests_get [OF om q(1,2)]
  have wf: "wf_types ?ts" using facts(1,3) by simp
  obtain ws where ws: "suffixData (rsp_request rsp) = ''0x'' @ concat ws" "suffix_words enc ?ts ?m = Inr ws"
    using encodeSuffixData_words [OF om documentedD(1) [OF doc] q(3)] by blast
  obtain bs where bs: "concat ws = hex_body bs" using hex_words [OF doc ws(2)] by blast
  have suffix: "xd_suffixData xr = bs"
    using ws(1) bs unfolding xr_def by (simp add: decoded_request_def hex_bytes_def unhex_hex_body)
  have m: "?m = requestData r" by (rule clean_params_unchanged [OF clean])
  note msg = build_message [OF om td]
  have words: "suffix_words enc ?ts (td_message td) = Inr ws"
    using suffix_words_cong [OF wf msg(1)] ws(2) by simp
  have generic: "obj_get (td_message td) ''from'' = Some (JString (toHex from))"
    "obj_get (td_message td) ''nonce'' = Some (JString (int_dec (uint n)))"
    using build_message_generic [OF td] free unfolding m sender(1) by simp_all
  obtain cd where cd: "hex_bytes (callData (rsp_request rsp)) = cd" "cd \<noteq> [] \<longleftrightarrow> has_data ?ts"
    "has_data ?ts \<Longrightarrow> obj_get (td_message td) ''data'' = Some (JString (toHex cd))"
  proof (cases "has_data ?ts")
    case True
    then have r: "requiresDataField q" using facts(2,3) by simp
    then have c: "encodeContractFunctionCalldata x (destinationContract q) (functionSignature q) (requestData r) =
        Inr (callData (rsp_request rsp))" using q(4) by simp
    then obtain b where b: "b \<noteq> []" "callData (rsp_request rsp) = toHex b"
      using documentedD(7) [OF doc] unfolding encodeContractFunctionCalldata_def bindr_Inr_iff by blast
    obtain c' where c': "encodeContractFunctionCalldata x (destinationContract q) (functionSignature q) ?m = Inr c'"
        "obj_get (td_message td) ''data'' = Some (JString c')"
      using buildTypedData_calldata [OF om td q(1,2) r] by blast
    have "c' = toHex b" using c c'(1) b(2) unfolding m by simp
    then show ?thesis using that [of b] b c'(2) True by simp
  next
    case False
    then have "callData (rsp_request rsp) = ''0x''" using q(4) facts(2,3) by simp
    then show ?thesis using that [of "[]"] False by (simp add: hex_bytes_def)
  qed
  show th: "xd_typeHash xr = evm_keccak256 e (str_bytes (encodeType ?key ?ts))"
    using q(5) facts(5) documentedD(2) [OF doc, of ?key ?ts] unfolding xr_def by (simp add: decoded_request_def)
  show fr: "xd_from xr = from" using q(6) sender(1) unfolding xr_def by (simp add: decoded_request_def)
  have call: "xd_callData xr = cd" using cd(1) unfolding xr_def by (simp add: decoded_request_def)
  have nonce: "xd_nonce xr = n" unfolding xr_def by (simp add: decoded_request_def)
  have "encodeData x ?key ?ts (td_message td) =
      Inr (''0x'' @ th ?key ?ts @ hex_body (abi_address from) @ hex_body (abi_uint n) @
        (if has_data ?ts then hex_body (evm_keccak256 e cd) else []) @ concat ws)"
    by (rule encodeData_build [OF documentedD(1) [OF doc] wf _ _ _ words])
      (simp_all only: generic cd(3) documentedD(4) [OF doc sender(2)] documentedD(5,6) [OF doc])
  also have "''0x'' @ th ?key ?ts @ hex_body (abi_address from) @ hex_body (abi_uint n) @
        (if has_data ?ts then hex_body (evm_keccak256 e cd) else []) @ concat ws = toHex (encoded_struct e xr)"
    using cd(2) unfolding documentedD(3) [OF doc] bs encoded_struct_parts struct_suffix_def th fr call nonce suffix
    by (auto simp: toHex_def)
  finally show "encodeData x ?key ?ts (td_message td) = Inr (toHex (encoded_struct e xr))" .
qed

section \<open>Signatures\<close>

lemma domain_no_request: "''EIP712Domain'' \<notin> set registry_names"
  by code_simp

lemma built_types:
  assumes "omitBy_documented x" and "buildTypedData x dd key sender nonce r = Inr td"
  shows "(case obj_get (td_types td) (td_primaryType td) of None \<Rightarrow> None | Some ts \<Rightarrow> ts) = Some (types_of key)"
proof -
  obtain registry where reg: "MessageTypesRegistry = Inr registry" using MessageTypesRegistry_wf by blast
  obtain requests q where q: "metaTxRequests x = Inr requests" "obj_get requests key = Some q"
    and td: "td_types td = [(''EIP712Domain'', Some EIP712DomainTypes), (key, obj_get registry (key @ ''Types''))]"
      "td_primaryType td = key"
    using assms(2) unfolding buildTypedData_def reg bindr_simps Let_def by (auto simp del: obj_spread_Cons)
  have key: "key \<in> set registry_names" by (rule metaTxRequests_get(4) [OF assms(1) q])
  then have ne: "key \<noteq> ''EIP712Domain''" using domain_no_request by blast
  have "wf_types (types_of key)" by (rule wf_types_of [OF key])
  then have "types_of key \<noteq> []" by (auto simp: wf_types_def shape_def GenericParamTypes_def)
  then have "obj_get registry (key @ ''Types'') = Some (types_of key)"
    unfolding types_of_def reg by (simp split: option.splits)
  then show ?thesis using ne unfolding td by (simp add: obj_get_def)
qed

text \<open>The signatures of a signed request, as bytes, recover to the addresses of the signers, which
  ascend when the signers are different.\<close>

lemma signed_addresses:
  assumes s: "signTypedData td ws = Inr (ws', sigs)"
    and ty: "(case obj_get (td_types td) (td_primaryType td) of None \<Rightarrow> None | Some ts \<Rightarrow> ts) = Some ts"
    and data: "encodeData x (td_primaryType td) ts (td_message td) = Inr (toHex b)"
    and known: "\<forall>w \<in> set ws. \<exists>a. signs_for e x w a"
    and different: "distinct (map (\<lambda>w. toLowerCase (w_address w)) ws)"
  defines "h \<equiv> evm_keccak256 e ([0x19, 0x01] @ domain_hash e (td_domain td) @ evm_keccak256 e b)"
  obtains ps where "sigs = map toHex ps" "\<forall>p \<in> set ps. length p = 65" "length ps = length ws"
    "sorted_wrt (\<lambda>a b. be_nat a < be_nat b) (map (signature_address e h) ps)"
    "\<forall>p \<in> set ps. \<exists>w \<in> set ws. signs_for e x w (signature_address e h p)"
proof -
  note t = signTypedData_Inr [OF s]
  have perm: "mset ws' = mset ws" unfolding t(1) by (rule byAddress.mset_js_sort)
  note same = mset_eq_setD [OF perm] mset_eq_length [OF perm]
  have distinct': "distinct (map (\<lambda>w. toLowerCase (w_address w)) ws')"
    using different mset_eq_imp_distinct_iff [of "map (\<lambda>w. toLowerCase (w_address w)) ws'"
        "map (\<lambda>w. toLowerCase (w_address w)) ws"] perm by simp
  define P where "P = (\<lambda>i p. sigs ! i = toHex p \<and> length p = 65 \<and> signs_for e x (ws' ! i) (signature_address e h p))"
  have each: "\<exists>p. P i p" if i: "i < length sigs" for i
  proof -
    obtain sign where sign: "w_signTypedData (ws' ! i) = Some sign"
        "sigs ! i = sign (td_domain td) [(td_primaryType td, Some ts)] (td_message td)"
      using t(3) i unfolding ty by blast
    have "ws' ! i \<in> set ws" using i t(2) same by (metis nth_mem)
    then obtain a where a: "signs_for e x (ws' ! i) a" using known by blast
    then obtain sign' where sign': "w_signTypedData (ws' ! i) = Some sign'"
        "\<forall>d name ts msg b. encodeData x name ts msg = Inr (toHex b) \<longrightarrow>
        (\<exists>p. sign' d [(name, Some ts)] msg = toHex p \<and> length p = 65 \<and>
           signature_address e (evm_keccak256 e ([0x19, 0x01] @ domain_hash e d @ evm_keccak256 e b)) p = a)"
      unfolding signs_for_def by (elim conjE exE)
    moreover have "sign' = sign" using sign(1) sign'(1) by simp
    ultimately have "\<exists>p. sign (td_domain td) [(td_primaryType td, Some ts)] (td_message td) = toHex p \<and>
        length p = 65 \<and> signature_address e h p = a"
      using data unfolding h_def by blast
    then obtain p where "sigs ! i = toHex p" "length p = 65" "signature_address e h p = a"
      unfolding sign(2) by blast
    then show ?thesis using a by (auto simp: P_def)
  qed
  then obtain f where f: "\<And>i. i < length sigs \<Longrightarrow> P i (f i)" by metis
  define ps where "ps = map f [0 ..< length sigs]"
  have len: "length ps = length sigs" "length sigs = length ws" using t(2) by (simp_all add: ps_def)
  have nth: "P i (ps ! i)" if "i < length ps" for i using that f by (simp add: ps_def)
  have sigs: "sigs = map toHex ps" using nth len(1) by (intro nth_equalityI) (auto simp: P_def)
  have p: "\<exists>i < length ps. p = ps ! i" if "p \<in> set ps" for p using that by (metis in_set_conv_nth)
  have addr: "toLowerCase (w_address (ws' ! i)) = toHex (signature_address e h (ps ! i))"
    "length (signature_address e h (ps ! i)) = 20" if "i < length ps" for i
    using nth [OF that] by (auto simp: P_def signs_for_def)
  have sorted: "sorted_wrt (\<lambda>a b. compareWalletByAddressString a b \<le> 0) ws'"
    unfolding t(1) by (rule byAddress.js_sort_sorted)
  have ordered: "toHex (signature_address e h (ps ! i)) \<le> toHex (signature_address e h (ps ! j))"
    if "i < j" "j < length ps" for i j
  proof -
    have "compareWalletByAddressString (ws' ! i) (ws' ! j) \<le> 0"
      using sorted that len same(2) by (simp add: sorted_wrt_iff_nth_less)
    then show ?thesis using that addr(1) [of i] addr(1) [of j] by (simp add: compare_le_iff)
  qed
  have "signature_address e h (ps ! i) \<noteq> signature_address e h (ps ! j)" if "i < j" "j < length ps" for i j
  proof
    assume "signature_address e h (ps ! i) = signature_address e h (ps ! j)"
    then have "map (\<lambda>w. toLowerCase (w_address w)) ws' ! i = map (\<lambda>w. toLowerCase (w_address w)) ws' ! j"
      using that len same(2) addr(1) by simp
    then show False
      using distinct' that len same(2) by (simp add: nth_eq_iff_index_eq del: nth_map)
  qed
  then have asc: "sorted_wrt (\<lambda>a b. be_nat a < be_nat b) (map (signature_address e h) ps)"
    unfolding sorted_wrt_iff_nth_less using hex_order [OF addr(2) addr(2) ordered] by simp
  have "\<exists>w \<in> set ws. signs_for e x w (signature_address e h q)" if q: "q \<in> set ps" for q
  proof -
    obtain i where i: "i < length ps" "q = ps ! i" using p [OF q] by blast
    then have "ws' ! i \<in> set ws" using len same by (metis nth_mem)
    then show ?thesis using nth [OF i(1)] i(2) by (auto simp: P_def)
  qed
  moreover have "\<forall>q \<in> set ps. length q = 65" using p nth by (force simp: P_def)
  ultimately show ?thesis using that sigs len asc by simp
qed

lemma joined_bytes:
  assumes "strip_documented x"
  shows "hex_bytes (joinSignatures x (map toHex ps)) = concat ps"
proof -
  have "stripHexPrefix x (toHex p) = hex_body p" for p
    using assms by (simp add: strip_documented_def toHex_def starts_with_def)
  then have "drop 2 (joinSignatures x (map toHex ps)) = hex_body (concat ps)"
    unfolding drop_joinSignatures by (simp add: hex_body_concat comp_def)
  then show ?thesis by (simp add: hex_bytes_def unhex_hex_body)
qed

section \<open>From the client to the destination\<close>

text \<open>The forwarder asks the LicensedUserManager in the state \<open>lum\<close>.\<close>

definition asks_manager :: "evm \<Rightarrow> surroundings \<Rightarrow> forwarder_state \<Rightarrow> lum_state \<Rightarrow> bool" where
  "asks_manager e sur st lum \<longleftrightarrow>
     validSignatureSet sur (fs_nameRegistry st) =
       (\<lambda>wallet hash sigs. isValidSignatureSet e lum wallet hash sigs = Some IS_VALID_SIG_SUCCESS)"

text \<open>Enough owners of the wallet are among the signers.\<close>

definition enough_owners :: "evm \<Rightarrow> ext \<Rightarrow> lum_state \<Rightarrow> address \<Rightarrow> wallet list \<Rightarrow> bool" where
  "enough_owners e x lum wallet ws \<longleftrightarrow>
     ws \<noteq> [] \<and> distinct (map (\<lambda>w. toLowerCase (w_address w)) ws) \<and>
     unat (lum_getThreshold lum wallet) \<le> length ws \<and>
     (\<exists>owners. lum_getOwners lum wallet = Some owners \<and>
        (\<forall>w \<in> set ws. \<exists>a \<in> set owners. signs_for e x w a))"

lemma signs_for_inj: "signs_for e x w a \<Longrightarrow> signs_for e x w b \<Longrightarrow> a = b"
  using toHex_inj by (auto simp: signs_for_def)

lemma signatures_accepted:
  assumes "strip_documented x" and "lum_ok lum" and "isActiveWallet lum wallet" and "enough_owners e x lum wallet ws"
    and s: "signTypedData td ws = Inr (ws', sigs)"
    and ty: "(case obj_get (td_types td) (td_primaryType td) of None \<Rightarrow> None | Some ts \<Rightarrow> ts) = Some ts"
    and data: "encodeData x (td_primaryType td) ts (td_message td) = Inr (toHex b)"
  shows "isValidSignatureSet e lum wallet
      (evm_keccak256 e ([0x19, 0x01] @ domain_hash e (td_domain td) @ evm_keccak256 e b))
      (hex_bytes (joinSignatures x sigs)) = Some IS_VALID_SIG_SUCCESS"
proof -
  obtain owners where o: "lum_getOwners lum wallet = Some owners"
      "\<forall>w \<in> set ws. \<exists>a \<in> set owners. signs_for e x w a"
    using assms(4) by (auto simp: enough_owners_def)
  have w: "ws \<noteq> []" "distinct (map (\<lambda>w. toLowerCase (w_address w)) ws)"
    "unat (lum_getThreshold lum wallet) \<le> length ws"
    using assms(4) by (simp_all add: enough_owners_def)
  let ?h = "evm_keccak256 e ([0x19, 0x01] @ domain_hash e (td_domain td) @ evm_keccak256 e b)"
  have known: "\<forall>w \<in> set ws. \<exists>a. signs_for e x w a" using o(2) by blast
  obtain ps where ps: "sigs = map toHex ps" "\<forall>p \<in> set ps. length p = 65" "length ps = length ws"
      "sorted_wrt (\<lambda>a b. be_nat a < be_nat b) (map (signature_address e ?h) ps)"
      "\<forall>p \<in> set ps. \<exists>w \<in> set ws. signs_for e x w (signature_address e ?h p)"
    by (rule signed_addresses [OF s ty data known w(2)])
  have "\<forall>p \<in> set ps. signature_address e ?h p \<in> set owners \<and> length (signature_address e ?h p) = 20"
  proof
    fix p assume "p \<in> set ps"
    then obtain w where w: "w \<in> set ws" "signs_for e x w (signature_address e ?h p)" using ps(5) by blast
    then obtain a where a: "a \<in> set owners" "signs_for e x w a" using o(2) by blast
    have "signature_address e ?h p = a" by (rule signs_for_inj [OF w(2) a(2)])
    then show "signature_address e ?h p \<in> set owners \<and> length (signature_address e ?h p) = 20"
      using a by (simp add: signs_for_def)
  qed
  moreover have "ps \<noteq> []" using ps(3) w(1) by auto
  ultimately show ?thesis
    using enough_signatures [OF assms(2,3) o(1) ps(2) _ ps(4)] ps(3) w(3)
    unfolding ps(1) joined_bytes [OF assms(1)] by simp
qed

lemma client_prepared:
  assumes doc: "eip712_documented e x th enc" "omitBy_documented x" "strip_documented x"
    and clean: "clean_params (requestData r)" "obj_get (requestData r) ''from'' = None"
      "obj_get (requestData r) ''nonce'' = None"
    and sender: "fromAddress r = toHex wallet" "length wallet = 20"
    and nonce: "bigNumberFrom x (req_nonce r) = Inr (uint n)"
    and signed: "signRequestTypedData x (newMetaTxForwarder chainId this) r ws = Inr (ws', sigs)"
    and sent: "encodeExecuteTransactionProps x r sigs ty = Inr rsp"
    and domain: "fs_domainSeparator st = domain_hash e (newTypedDataBuilder chainId this)"
    and type: "fs_typeHashes st (evm_keccak256 e (str_bytes (encodeType (requestTypeKey r) (types_of (requestTypeKey r)))))"
    and unused: "checkAndUpdateNonce st wallet n = Some (True, st1)"
    and manager: "asks_manager e sur st lum" "lum_ok lum" "isActiveWallet lum wallet" "enough_owners e x lum wallet ws"
  defines "xr \<equiv> decoded_request (rsp_request rsp) n"
  assumes target: "request_destination sur st1 xr = Some d"
  shows "\<exists>h. prepareExecution e sur xr (hex_bytes (joinSignatures x sigs)) False st =
      Some (st1, d, request_calldata st1 xr @ wallet, h)"
proof -
  let ?dd = "newTypedDataBuilder chainId this" and ?n = "JString (int_dec (uint n))"
  have "bindr (buildTypedData x ?dd (requestTypeKey r) (fromAddress r) ?n (requestData r))
      (\<lambda>td. signTypedData td ws) = Inr (ws', sigs)"
    using signed unfolding signRequestTypedData_def nonce bindr_simps signRequest_def
      throwSignTypedDataNotAvailable_def newMetaTxForwarder_def forwarder.simps
    by (simp only: split: if_splits) simp_all
  then obtain td where td: "buildTypedData x ?dd (requestTypeKey r) (fromAddress r) ?n (requestData r) = Inr td"
      "signTypedData td ws = Inr (ws', sigs)"
    unfolding bindr_Inr_iff by blast
  note struct = signed_struct [OF doc(1,2) clean sender td(1) sent, folded xr_def]
  note msg = build_message [OF doc(2) td(1)]
  note step = nonce_step [OF unused]
  have nonce': "xd_nonce xr = n" unfolding xr_def by (simp add: decoded_request_def)
  let ?h = "evm_keccak256 e ([0x19, 0x01] @ fs_domainSeparator st @ evm_keccak256 e (encoded_struct e xr))"
  have "isValidSignatureSet e lum wallet ?h (hex_bytes (joinSignatures x sigs)) = Some IS_VALID_SIG_SUCCESS"
    using signatures_accepted [OF doc(3) manager(2-4) td(2) built_types [OF doc(2) td(1)]] struct(1)
    unfolding msg(3) msg(4) domain by simp
  then have "signatures_ok e sur st1 xr (hex_bytes (joinSignatures x sigs)) False ?h"
    using manager(1) struct(3) step(7) by (simp add: signatures_ok_def asks_manager_def)
  then show ?thesis
    using type unused target struct(2,3) nonce' step(4,6)
    by (simp add: prepareExecution_def encodeRequest_def Let_def)
qed

text \<open>A nonce that was used is refused.\<close>

lemma nonce_stays_used:
  assumes "checkAndUpdateNonce st wallet n = Some (True, st1)" and "forwarder_run e st1 log es st'"
    and "xd_from r = wallet" and "xd_nonce r = n"
  shows "prepareExecution e sur r sigs eoa st' = None"
proof -
  have "unat (nonce_number n) < unat (fs_nonces st' wallet (nonce_channel n))"
    using nonce_step(2) [OF assms(1)] run_nonces [OF assms(2), of wallet "nonce_channel n"] by simp
  then have "nonce_number n \<noteq> fs_nonces st' wallet (nonce_channel n)" by auto
  then show ?thesis using assms(3,4) by (simp add: prepareExecution_def checkAndUpdateNonce_def Let_def)
qed

section \<open>The LicensedUserManager is the authority on signatures\<close>

interpretation lum: signature_authority lum_ok
  "\<lambda>st wallet hash sigs. isValidSignatureSet e st wallet hash sigs = Some IS_VALID_SIG_SUCCESS"
  lum_getOwners "\<lambda>st wallet hash sigs. recovered_signers e hash sigs (unat (lum_getThreshold st wallet))" for e
  by unfold_locales (use accepted_signers in fastforce)

end
