(* ===== verification/MessageRecords.thy ===== *)
theory MessageRecords
  imports TypedData
begin

text \<open>
  \<open>startrail-common-js/meta-tx/eip712-message-types\<close>: the interfaces of the request data, one for
  each request type, as TypeScript checks them, and the relation between what the type checker
  admits and what the EIP712 encoder of ethers accepts. An interface is the list of its properties
  with their types; \<open>extends\<close> prepends the properties of the parents. The association of a request
  type with its interface is by name, as in the source.
\<close>

section \<open>Types of TypeScript\<close>

datatype ts_type =
    TString
  | TNumber
  | TBoolean
  | TBigNumber
  | TBuffer
  | TArray ts_type
  | TUnion "ts_type list"

type_synonym interface = "ts_type obj"

text \<open>The values of a type. A \<open>number\<close> is an integer here; a fraction is of no use as an identifier,
  threshold or number of basis points.\<close>

fun has_type :: "ts_type \<Rightarrow> js_val \<Rightarrow> bool" where
  "has_type TString v = (case v of JString _ \<Rightarrow> True | _ \<Rightarrow> False)"
| "has_type TNumber v = (case v of JNumber _ \<Rightarrow> True | _ \<Rightarrow> False)"
| "has_type TBoolean v = (case v of JBool _ \<Rightarrow> True | _ \<Rightarrow> False)"
| "has_type TBigNumber v = (case v of JBig _ \<Rightarrow> True | _ \<Rightarrow> False)"
| "has_type TBuffer v = (case v of JBytes _ \<Rightarrow> True | _ \<Rightarrow> False)"
| "has_type (TArray t) v = (case v of JArray vs \<Rightarrow> list_all (has_type t) vs | _ \<Rightarrow> False)"
| "has_type (TUnion ts) v = list_ex (\<lambda>t. has_type t v) ts"

text \<open>An object literal of an interface has exactly its properties, in any order.\<close>

definition conforms :: "interface \<Rightarrow> js_val obj \<Rightarrow> bool" where
  "conforms iface o' \<longleftrightarrow>
     distinct (obj_keys o') \<and> set (obj_keys o') = set (obj_keys iface) \<and>
     list_all (\<lambda>(k, t). case obj_get o' k of None \<Rightarrow> False | Some v \<Rightarrow> has_type t v) iface"

section \<open>licensed-user-types.ts\<close>

definition WalletAddOwnerRecord :: interface where
  "WalletAddOwnerRecord =
     [(''wallet'', TString), (''owner'', TString),
      (''threshold'', TUnion [TNumber, TBigNumber, TString])]"

definition WalletRemoveOwnerRecord :: interface where
  "WalletRemoveOwnerRecord =
     WalletAddOwnerRecord @
     [(''prevOwner'', TString)]"

definition WalletSwapOwnerRecord :: interface where
  "WalletSwapOwnerRecord =
     [(''wallet'', TString), (''prevOwner'', TString), (''oldOwner'', TString),
      (''newOwner'', TString)]"

definition WalletChangeThresholdRecord :: interface where
  "WalletChangeThresholdRecord =
     [(''wallet'', TString), (''threshold'', TUnion [TNumber, TBigNumber, TString])]"

definition WalletSetEnglishNameRecord :: interface where
  "WalletSetEnglishNameRecord =
     [(''wallet'', TString), (''name'', TString)]"

definition WalletSetOriginalNameRecord :: interface where
  "WalletSetOriginalNameRecord =
     [(''wallet'', TString), (''name'', TString)]"

section \<open>startrail-registry-types.ts\<close>

definition StartrailRegistryCreateSRRWithLockExternalTransferRecord :: interface where
  "StartrailRegistryCreateSRRWithLockExternalTransferRecord =
     [(''isPrimaryIssuer'', TBoolean), (''artistAddress'', TString),
      (''metadataDigest'', TUnion [TBuffer, TString]), (''lockExternalTransfer'', TBoolean)]"

definition StartrailRegistryCreateSRRFromLicensedUserRecord :: interface where
  "StartrailRegistryCreateSRRFromLicensedUserRecord =
     [(''isPrimaryIssuer'', TBoolean), (''artistAddress'', TString),
      (''metadataDigest'', TUnion [TBuffer, TString]), (''lockExternalTransfer'', TBoolean),
      (''to'', TString)]"

definition StartrailRegistryCreateSRRFromLicensedUserWithCidRecord :: interface where
  "StartrailRegistryCreateSRRFromLicensedUserWithCidRecord =
     [(''isPrimaryIssuer'', TBoolean), (''artistAddress'', TString),
      (''metadataDigest'', TUnion [TBuffer, TString]),
      (''metadataCID'', TUnion [TBuffer, TString]), (''lockExternalTransfer'', TBoolean),
      (''to'', TString)]"

definition StartrailRegistryCreateSRRFromLicensedUserWithRoyaltyRecord :: interface where
  "StartrailRegistryCreateSRRFromLicensedUserWithRoyaltyRecord =
     [(''isPrimaryIssuer'', TBoolean), (''artistAddress'', TString),
      (''metadataDigest'', TUnion [TBuffer, TString]),
      (''metadataCID'', TUnion [TBuffer, TString]), (''lockExternalTransfer'', TBoolean),
      (''to'', TString), (''royaltyReceiver'', TString), (''royaltyBasisPoints'', TNumber)]"

definition StartrailRegistryCreateSRRFromLicensedUserWithIPFSAndRoyaltyRecord :: interface where
  "StartrailRegistryCreateSRRFromLicensedUserWithIPFSAndRoyaltyRecord =
     [(''isPrimaryIssuer'', TBoolean), (''artistAddress'', TString),
      (''metadataCID'', TUnion [TBuffer, TString]), (''lockExternalTransfer'', TBoolean),
      (''to'', TString), (''royaltyReceiver'', TString), (''royaltyBasisPoints'', TNumber)]"

definition StartrailRegistryUpdateSRRRecord :: interface where
  "StartrailRegistryUpdateSRRRecord =
     [(''tokenId'', TUnion [TBigNumber, TString]), (''isPrimaryIssuer'', TBoolean),
      (''artistAddress'', TString)]"

definition StartrailRegistryUpdateSRRMetadataWithCidRecord :: interface where
  "StartrailRegistryUpdateSRRMetadataWithCidRecord =
     [(''tokenId'', TUnion [TBigNumber, TString]), (''metadataCID'', TString)]"

definition StartrailRegistryUpdateSRRMetadataRecord :: interface where
  "StartrailRegistryUpdateSRRMetadataRecord =
     [(''tokenId'', TUnion [TBigNumber, TString]), (''metadataDigest'', TString)]"

definition StartrailRegistryUpdateSRRRoyaltyRecord :: interface where
  "StartrailRegistryUpdateSRRRoyaltyRecord =
     [(''tokenId'', TUnion [TBigNumber, TString]), (''royaltyReceiver'', TString),
      (''royaltyBasisPoints'', TNumber)]"

definition StartrailRegistryApproveSRRByCommitmentRecord :: interface where
  "StartrailRegistryApproveSRRByCommitmentRecord =
     [(''tokenId'', TUnion [TBigNumber, TString]),
      (''commitment'', TUnion [TBuffer, TString]),
      (''historyMetadataDigest'', TUnion [TBuffer, TString])]"

definition StartrailRegistryApproveSRRByCommitmentWithCustomHistoryIdRecord :: interface where
  "StartrailRegistryApproveSRRByCommitmentWithCustomHistoryIdRecord =
     StartrailRegistryApproveSRRByCommitmentRecord @
     [(''customHistoryId'', TUnion [TBigNumber, TString])]"

definition StartrailRegistryApproveSRRByCommitmentV2Record :: interface where
  "StartrailRegistryApproveSRRByCommitmentV2Record =
     [(''tokenId'', TUnion [TBigNumber, TString]),
      (''commitment'', TUnion [TBuffer, TString]),
      (''historyMetadataHash'', TUnion [TBuffer, TString])]"

definition StartrailRegistryApproveSRRByCommitmentWithCustomHistoryIdV2Record :: interface where
  "StartrailRegistryApproveSRRByCommitmentWithCustomHistoryIdV2Record =
     StartrailRegistryApproveSRRByCommitmentV2Record @
     [(''customHistoryId'', TUnion [TNumber, TBigNumber, TString])]"

definition StartrailRegistryCancelSRRCommitmentRecord :: interface where
  "StartrailRegistryCancelSRRCommitmentRecord =
     [(''tokenId'', TUnion [TBigNumber, TString])]"

definition StartrailRegistryAddHistoryRecord :: interface where
  "StartrailRegistryAddHistoryRecord =
     [(''tokenIds'', TUnion [TArray TBigNumber, TArray TString]),
      (''customHistoryIds'', TUnion [TArray TNumber, TArray TBigNumber, TArray TString])]"

definition StartrailRegistrySetLockExternalTransferRecord :: interface where
  "StartrailRegistrySetLockExternalTransferRecord =
     [(''tokenId'', TUnion [TBigNumber, TString]), (''flag'', TBoolean)]"

definition StartrailRegistryTransferFromWithProvenanceRecord :: interface where
  "StartrailRegistryTransferFromWithProvenanceRecord =
     [(''to'', TString), (''tokenId'', TUnion [TBigNumber, TString]),
      (''historyMetadataDigest'', TUnion [TBuffer, TString]),
      (''customHistoryId'', TUnion [TBigNumber, TString]), (''isIntermediary'', TBoolean)]"

definition StartrailRegistryTransferFromWithProvenanceV2Record :: interface where
  "StartrailRegistryTransferFromWithProvenanceV2Record =
     [(''to'', TString), (''tokenId'', TUnion [TBigNumber, TString]),
      (''historyMetadataHash'', TUnion [TBuffer, TString]),
      (''customHistoryId'', TUnion [TNumber, TBigNumber, TString]),
      (''isIntermediary'', TBoolean)]"

section \<open>bulk-types.ts\<close>

definition BulkIssueSendBatchRecord :: interface where
  "BulkIssueSendBatchRecord =
     [(''merkleRoot'', TUnion [TBuffer, TString])]"

definition BulkTransferSendBatchRecord :: interface where
  "BulkTransferSendBatchRecord =
     [(''merkleRoot'', TUnion [TBuffer, TString])]"

definition BulkSendBatchRecord :: interface where
  "BulkSendBatchRecord =
     [(''merkleRoot'', TUnion [TBuffer, TString])]"

section \<open>collection-factory-types.ts\<close>

definition CollectionFactoryCreateCollectionRecord :: interface where
  "CollectionFactoryCreateCollectionRecord =
     [(''name'', TString), (''symbol'', TString), (''salt'', TUnion [TBuffer, TString])]"

section \<open>collection.types.ts\<close>

definition DestinationRecord :: interface where
  "DestinationRecord =
     [(''destination'', TString)]"

definition CollectionCreateSRRRecord :: interface where
  "CollectionCreateSRRRecord =
     DestinationRecord @
     [(''isPrimaryIssuer'', TBoolean), (''artistAddress'', TString),
      (''metadataCID'', TString), (''lockExternalTransfer'', TBoolean), (''to'', TString),
      (''royaltyReceiver'', TString), (''royaltyBasisPoints'', TNumber)]"

definition CollectionTransferOwnershipRecord :: interface where
  "CollectionTransferOwnershipRecord =
     DestinationRecord @
     [(''newOwner'', TString)]"

definition CollectionUpdateSRRRecord :: interface where
  "CollectionUpdateSRRRecord =
     DestinationRecord @ StartrailRegistryUpdateSRRRecord"

definition CollectionUpdateSRRMetadataWithCidRecord :: interface where
  "CollectionUpdateSRRMetadataWithCidRecord =
     DestinationRecord @ StartrailRegistryUpdateSRRMetadataWithCidRecord"

definition CollectionUpdateSRRRoyaltyRecord :: interface where
  "CollectionUpdateSRRRoyaltyRecord =
     DestinationRecord @ StartrailRegistryUpdateSRRRoyaltyRecord"

definition CollectionApproveSRRByCommitmentV2Record :: interface where
  "CollectionApproveSRRByCommitmentV2Record =
     DestinationRecord @ StartrailRegistryApproveSRRByCommitmentV2Record"

definition CollectionApproveSRRByCommitmentWithCustomHistoryIdV2Record :: interface where
  "CollectionApproveSRRByCommitmentWithCustomHistoryIdV2Record =
     DestinationRecord @ StartrailRegistryApproveSRRByCommitmentWithCustomHistoryIdV2Record"

definition CollectionCancelSRRCommitmentRecord :: interface where
  "CollectionCancelSRRCommitmentRecord =
     DestinationRecord @ StartrailRegistryCancelSRRCommitmentRecord"

definition CollectionAddHistoryRecord :: interface where
  "CollectionAddHistoryRecord =
     DestinationRecord @ StartrailRegistryAddHistoryRecord"

definition CollectionSetLockExternalTransferRecord :: interface where
  "CollectionSetLockExternalTransferRecord =
     DestinationRecord @ StartrailRegistrySetLockExternalTransferRecord"

definition CollectionTransferFromWithProvenanceV2Record :: interface where
  "CollectionTransferFromWithProvenanceV2Record =
     DestinationRecord @ StartrailRegistryTransferFromWithProvenanceV2Record"

section \<open>index.ts\<close>

text \<open>The union of all records, each with its name.\<close>

definition MessageRecordType :: "interface obj" where
  "MessageRecordType =
    [(''WalletAddOwnerRecord'', WalletAddOwnerRecord),
     (''WalletRemoveOwnerRecord'', WalletRemoveOwnerRecord),
     (''WalletChangeThresholdRecord'', WalletChangeThresholdRecord),
     (''WalletSwapOwnerRecord'', WalletSwapOwnerRecord),
     (''WalletSetEnglishNameRecord'', WalletSetEnglishNameRecord),
     (''WalletSetOriginalNameRecord'', WalletSetOriginalNameRecord),
     (''StartrailRegistryCreateSRRFromLicensedUserRecord'', StartrailRegistryCreateSRRFromLicensedUserRecord),
     (''StartrailRegistryCreateSRRFromLicensedUserWithCidRecord'', StartrailRegistryCreateSRRFromLicensedUserWithCidRecord),
     (''StartrailRegistryCreateSRRFromLicensedUserWithRoyaltyRecord'', StartrailRegistryCreateSRRFromLicensedUserWithRoyaltyRecord),
     (''StartrailRegistryCreateSRRFromLicensedUserWithIPFSAndRoyaltyRecord'', StartrailRegistryCreateSRRFromLicensedUserWithIPFSAndRoyaltyRecord),
     (''StartrailRegistryCreateSRRWithLockExternalTransferRecord'', StartrailRegistryCreateSRRWithLockExternalTransferRecord),
     (''StartrailRegistryUpdateSRRRecord'', StartrailRegistryUpdateSRRRecord),
     (''StartrailRegistryUpdateSRRMetadataRecord'', StartrailRegistryUpdateSRRMetadataRecord),
     (''StartrailRegistryUpdateSRRMetadataWithCidRecord'', StartrailRegistryUpdateSRRMetadataWithCidRecord),
     (''StartrailRegistryUpdateSRRRoyaltyRecord'', StartrailRegistryUpdateSRRRoyaltyRecord),
     (''StartrailRegistryApproveSRRByCommitmentRecord'', StartrailRegistryApproveSRRByCommitmentRecord),
     (''StartrailRegistryApproveSRRByCommitmentV2Record'', StartrailRegistryApproveSRRByCommitmentV2Record),
     (''StartrailRegistryApproveSRRByCommitmentWithCustomHistoryIdRecord'', StartrailRegistryApproveSRRByCommitmentWithCustomHistoryIdRecord),
     (''StartrailRegistryApproveSRRByCommitmentWithCustomHistoryIdV2Record'', StartrailRegistryApproveSRRByCommitmentWithCustomHistoryIdV2Record),
     (''StartrailRegistryCancelSRRCommitmentRecord'', StartrailRegistryCancelSRRCommitmentRecord),
     (''StartrailRegistryAddHistoryRecord'', StartrailRegistryAddHistoryRecord),
     (''StartrailRegistrySetLockExternalTransferRecord'', StartrailRegistrySetLockExternalTransferRecord),
     (''StartrailRegistryTransferFromWithProvenanceRecord'', StartrailRegistryTransferFromWithProvenanceRecord),
     (''StartrailRegistryTransferFromWithProvenanceV2Record'', StartrailRegistryTransferFromWithProvenanceV2Record),
     (''CollectionFactoryCreateCollectionRecord'', CollectionFactoryCreateCollectionRecord),
     (''CollectionCreateSRRRecord'', CollectionCreateSRRRecord),
     (''CollectionUpdateSRRRecord'', CollectionUpdateSRRRecord),
     (''CollectionUpdateSRRMetadataWithCidRecord'', CollectionUpdateSRRMetadataWithCidRecord),
     (''CollectionUpdateSRRRoyaltyRecord'', CollectionUpdateSRRRoyaltyRecord),
     (''CollectionApproveSRRByCommitmentV2Record'', CollectionApproveSRRByCommitmentV2Record),
     (''CollectionApproveSRRByCommitmentWithCustomHistoryIdV2Record'', CollectionApproveSRRByCommitmentWithCustomHistoryIdV2Record),
     (''CollectionCancelSRRCommitmentRecord'', CollectionCancelSRRCommitmentRecord),
     (''CollectionAddHistoryRecord'', CollectionAddHistoryRecord),
     (''CollectionSetLockExternalTransferRecord'', CollectionSetLockExternalTransferRecord),
     (''CollectionTransferFromWithProvenanceV2Record'', CollectionTransferFromWithProvenanceV2Record),
     (''CollectionTransferOwnershipRecord'', CollectionTransferOwnershipRecord),
     (''BulkIssueSendBatchRecord'', BulkIssueSendBatchRecord),
     (''BulkTransferSendBatchRecord'', BulkTransferSendBatchRecord),
     (''BulkSendBatchRecord'', BulkSendBatchRecord)]"

definition record_of :: "string \<Rightarrow> interface" where
  "record_of key = (case obj_get MessageRecordType (key @ ''Record'') of None \<Rightarrow> [] | Some i \<Rightarrow> i)"

section \<open>What the encoder accepts\<close>

text \<open>Numbers in strings are decimal or, after 0x, hexadecimal.\<close>

definition decimal_value :: "string \<Rightarrow> nat" where
  "decimal_value s = foldl (\<lambda>n c. 10 * n + (of_char c - 48)) 0 s"

definition is_dec :: "string \<Rightarrow> bool" where
  "is_dec s \<longleftrightarrow> s \<noteq> [] \<and> set s \<subseteq> set ''0123456789''"

definition is_hex :: "string \<Rightarrow> bool" where
  "is_hex s \<longleftrightarrow> starts_with s ''0x'' \<and> set (drop 2 s) \<subseteq> set ''0123456789abcdef''"

definition uint_bits :: "string \<Rightarrow> nat option" where
  "uint_bits ty = (if ty = ''uint256'' then Some 256 else if ty = ''uint16'' then Some 16 else None)"

definition uint_fits :: "string \<Rightarrow> int \<Rightarrow> bool" where
  "uint_fits ty n = (case uint_bits ty of None \<Rightarrow> False | Some w \<Rightarrow> 0 \<le> n \<and> n < 2 ^ w)"

definition max_safe_integer :: int where
  "max_safe_integer = 9007199254740991"

text \<open>The JavaScript types of values that ethers documents for a type of EIP712, and the contents such
  a value must have: addresses and hashes of their length, numbers in the range of the type, as
  \<open>number\<close> only below the largest safe integer.\<close>

fun shape_fits :: "string \<Rightarrow> js_val \<Rightarrow> bool" where
  "shape_fits ty (JString s) = (ty \<in> {''string'', ''address'', ''bytes32'', ''bytes''} \<or> uint_bits ty \<noteq> None)"
| "shape_fits ty (JNumber n) = (uint_bits ty \<noteq> None)"
| "shape_fits ty (JBig n) = (uint_bits ty \<noteq> None)"
| "shape_fits ty (JBool b) = (ty = ''bool'')"
| "shape_fits ty (JBytes b) = (ty \<in> {''bytes32'', ''bytes''})"
| "shape_fits ty (JArray vs) = (ty = ''uint256[]'' \<and> list_all (shape_fits ''uint256'') vs)"

fun content_ok :: "string \<Rightarrow> js_val \<Rightarrow> bool" where
  "content_ok ty (JString s) =
     (if ty = ''address'' then is_hex s \<and> length s = 42
      else if ty = ''bytes32'' then is_hex s \<and> length s = 66
      else if ty = ''bytes'' then is_hex s \<and> even (length s)
      else if uint_bits ty \<noteq> None then is_dec s \<and> uint_fits ty (int (decimal_value s))
      else True)"
| "content_ok ty (JNumber n) = (uint_fits ty n \<and> n < max_safe_integer)"
| "content_ok ty (JBig n) = uint_fits ty n"
| "content_ok ty (JBool b) = True"
| "content_ok ty (JBytes b) = (ty = ''bytes32'' \<longrightarrow> length b = 32)"
| "content_ok ty (JArray vs) = list_all (content_ok ''uint256'') vs"

text \<open>The encoder encodes at least these values.\<close>

definition encoder_accepts :: "(string \<Rightarrow> js_val option \<Rightarrow> js_error + string) \<Rightarrow> bool" where
  "encoder_accepts enc \<longleftrightarrow>
     (\<forall>ty v. shape_fits ty v \<longrightarrow> content_ok ty v \<longrightarrow> succeeds (enc ty (Some v)))"

text \<open>A TypeScript type all of whose values have a shape that fits.\<close>

fun compatible :: "string \<Rightarrow> ts_type \<Rightarrow> bool" where
  "compatible ty TString = shape_fits ty (JString [])"
| "compatible ty TNumber = shape_fits ty (JNumber 0)"
| "compatible ty TBoolean = shape_fits ty (JBool False)"
| "compatible ty TBigNumber = shape_fits ty (JBig 0)"
| "compatible ty TBuffer = shape_fits ty (JBytes [])"
| "compatible ty (TArray t) = (ty = ''uint256[]'' \<and> compatible ''uint256'' t)"
| "compatible ty (TUnion ts) = list_all (compatible ty) ts"

lemma compatible_fits: "compatible ty t \<Longrightarrow> has_type t v \<Longrightarrow> shape_fits ty v"
proof (induction t v arbitrary: ty rule: has_type.induct)
  case (6 t v)
  then show ?case by (cases v) (auto simp: list_all_iff)
next
  case (7 ts v)
  then show ?case by (auto simp: list_all_iff list_ex_iff)
qed (auto split: js_val.splits)

section \<open>Interfaces and field lists\<close>

text \<open>A type that admits a Buffer for a field of type string: ethers takes the value of such a field for
  a string of characters.\<close>

definition admits_buffer :: "string \<Rightarrow> ts_type \<Rightarrow> bool" where
  "admits_buffer ty t \<longleftrightarrow> ty = ''string'' \<and> t = TUnion [TBuffer, TString]"

definition field_matches :: "interface \<Rightarrow> tfield \<Rightarrow> bool" where
  "field_matches iface f =
     (case obj_get iface (fld_name f) of
        None \<Rightarrow> False
      | Some t \<Rightarrow> compatible (fld_type f) t \<noteq> admits_buffer (fld_type f) t)"

text \<open>The fields whose interface is wider than their type in EIP712.\<close>

definition buffer_fields :: "string \<Rightarrow> string list" where
  "buffer_fields key =
     map fld_name (filter (\<lambda>f. case obj_get (record_of key) (fld_name f) of
                                 None \<Rightarrow> False
                               | Some t \<Rightarrow> admits_buffer (fld_type f) t) (request_fields (types_of key)))"

fun matches_fields :: "interface \<Rightarrow> tfield list \<Rightarrow> bool \<Rightarrow> bool" where
  "matches_fields iface fs dynamic' \<longleftrightarrow>
     distinct (obj_keys iface) \<and>
     list_all (\<lambda>k. k \<in> set (map fld_name fs)) (obj_keys iface) \<and>
     list_all (field_matches iface) fs \<and>
     list_all (\<lambda>k. \<not> starts_with k ''_'') (obj_keys iface) \<and>
     (dynamic' \<longrightarrow> obj_keys iface = map fld_name fs)"

definition record_matches :: "string \<Rightarrow> bool" where
  "record_matches key \<longleftrightarrow>
     (case obj_get MessageRecordType (key @ ''Record'') of
        None \<Rightarrow> False
      | Some iface \<Rightarrow>
          matches_fields iface (request_fields (types_of key)) (has_data (types_of key)))"

text \<open>One evaluation of the two registries serves all keys.\<close>

fun records_match :: "tfield list obj \<Rightarrow> interface obj \<Rightarrow> string list \<Rightarrow> bool" where
  "records_match reg recs [] = True"
| "records_match reg recs (key # keys) \<longleftrightarrow>
     (case obj_get recs (key @ ''Record'') of
        None \<Rightarrow> False
      | Some iface \<Rightarrow>
         (case obj_get reg (key @ ''Types'') of
            None \<Rightarrow> False
          | Some ts \<Rightarrow> matches_fields iface (request_fields ts) (has_data ts))) \<and>
     records_match reg recs keys"

lemma records_match_evaluates:
  "(case MessageTypesRegistry of
      Inl _ \<Rightarrow> False
    | Inr reg \<Rightarrow> records_match reg MessageRecordType registry_names)"
  by code_simp

lemma types_of_registry:
  assumes "MessageTypesRegistry = Inr reg" and "obj_get reg (key @ ''Types'') = Some ts"
  shows "types_of key = ts"
  unfolding types_of_def assms(1) sum.case assms(2) option.case by (rule refl)

lemma records_matchD:
  "records_match reg MessageRecordType keys \<Longrightarrow> MessageTypesRegistry = Inr reg \<Longrightarrow> key \<in> set keys \<Longrightarrow>
   record_matches key"
  by (induction keys) (auto simp: record_matches_def types_of_registry
      simp del: matches_fields.simps split: option.splits)

lemma all_records_match: "key \<in> set registry_names \<Longrightarrow> record_matches key"
  using records_match_evaluates records_matchD by (auto split: sum.splits)

end
