(* ===== verification/RecordEncoding.thy ===== *)
theory RecordEncoding
  imports MessageRecords
begin

text \<open>
  Which request data is encoded: data that conforms to the interface of its request type, whose
  contents are in range, has a suffix for the MetaTxForwarder exactly when no field of type string
  is given as a Buffer. The interfaces admit Buffers for some of these fields. And what the order of the
  properties of a request decides: the arguments of the call, and nothing else.
\<close>

section \<open>Numbers in strings\<close>

lemma dec_digit_value: "a < 10 \<Longrightarrow> of_char (dec_digit a) - 48 = a"
proof -
  assume "a < 10"
  then have "a \<in> {0, 1, 2, 3, 4, 5, 6, 7, 8, 9}" by auto
  then show ?thesis by (auto simp: dec_digit_def)
qed

lemma decimal_value_append: "decimal_value (s @ [c]) = 10 * decimal_value s + (of_char c - 48)"
  by (simp add: decimal_value_def)

lemma decimal_value_nat_dec: "decimal_value (nat_dec n) = n"
proof (induction n rule: nat_dec.induct)
  case (1 n)
  show ?case
  proof (cases "n < 10")
    case True
    then show ?thesis by (simp add: nat_dec.simps [of n] decimal_value_def dec_digit_value)
  next
    case False
    then show ?thesis
      using 1 by (simp add: nat_dec.simps [of n] decimal_value_append dec_digit_value)
  qed
qed

lemma is_dec_nat_dec: "is_dec (nat_dec n)"
  using nat_dec_digits [of _ n] by (auto simp: is_dec_def)

text \<open>A BigNumber in range stays acceptable when it is converted to a string.\<close>

lemma uint_bits_names: "uint_bits ty = Some w \<Longrightarrow> ty = ''uint256'' \<or> ty = ''uint16''"
  by (auto simp: uint_bits_def split: if_splits)

lemma big_number_shape: "shape_fits ty v \<Longrightarrow> shape_fits ty (bigNumberToString v)"
  by (cases v) auto

lemma big_number_content: "shape_fits ty v \<Longrightarrow> content_ok ty v \<Longrightarrow> content_ok ty (bigNumberToString v)"
proof (cases v)
  case (JBig n)
  assume "shape_fits ty v" "content_ok ty v"
  then have n: "0 \<le> n" "uint_fits ty n" and "uint_bits ty \<noteq> None"
    using JBig by (auto simp: uint_fits_def split: option.splits)
  then have "ty = ''uint256'' \<or> ty = ''uint16''" using uint_bits_names by blast
  with n show ?thesis
    using JBig by (auto simp: int_dec_def is_dec_nat_dec decimal_value_nat_dec)
qed auto

lemma encoder_acceptsD:
  assumes "encoder_accepts enc" and "shape_fits ty v" and "content_ok ty v"
  shows "succeeds (enc ty (Some (bigNumberToString v)))"
  using assms big_number_shape big_number_content unfolding encoder_accepts_def by blast

section \<open>Parameters of typed requests\<close>

lemma foldl_obj_set_map:
  assumes "distinct (map fst xs)" and "set (obj_keys acc) \<inter> fst ` set xs = {}"
  shows "foldl (\<lambda>r (k, v). obj_set k (g v) r) acc xs = acc @ map (\<lambda>(k, v). (k, g v)) xs"
  using assms
proof (induction xs arbitrary: acc)
  case Nil
  then show ?case by simp
next
  case (Cons kv xs)
  obtain k v where kv: "kv = (k, v)" by (cases kv)
  have "obj_set k (g v) acc = acc @ [(k, g v)]" using Cons.prems(2) kv by (intro obj_set_fresh) auto
  then show ?case using Cons.prems kv Cons.IH [of "acc @ [(k, g v)]"] by (auto simp: obj_keys_def)
qed

lemma typed_params_map:
  assumes "distinct (obj_keys r)" and "list_all (\<lambda>k. \<not> starts_with k ''_'') (obj_keys r)"
  shows "requestParamsToTypedParams r = map (\<lambda>(k, v). (k, bigNumberToString v)) r"
proof -
  have none: "set (obj_keys ([] :: js_val obj)) \<inter> fst ` set r = {}" by (simp add: obj_keys_def)
  have d: "distinct (map fst r)" using assms(1) by (simp add: obj_keys_def)
  have "\<forall>(k, v) \<in> set r. strippedKey k = k \<and> v = v"
    using assms(2) by (auto simp: strippedKey_def list_all_iff obj_keys_def)
  then have "removeUnderscoreFromKeys r = r"
    using foldl_obj_set_fresh [OF d none] by (simp add: removeUnderscoreFromKeys_def)
  then show ?thesis
    using foldl_obj_set_map [OF d none]
    by (simp add: requestParamsToTypedParams_def convertBigNumberValuesToString_def)
qed

lemma typed_params_get:
  assumes "distinct (obj_keys r)" and "list_all (\<lambda>k. \<not> starts_with k ''_'') (obj_keys r)"
  shows "obj_get (requestParamsToTypedParams r) k = map_option bigNumberToString (obj_get r k)"
  unfolding typed_params_map [OF assms] obj_get_def by (induction r) auto

section \<open>When the suffix data is encoded\<close>

lemma succeeds_map_res: "succeeds (map_res f xs) \<longleftrightarrow> (\<forall>y \<in> set xs. succeeds (f y))"
  by (induction xs) (auto simp: succeeds_iff)

lemma succeeds_encodeData:
  assumes "encoder_words x th enc"
  shows "succeeds (encodeData x name ts msg) \<longleftrightarrow>
    (\<forall>f \<in> set ts. succeeds (enc (fld_type f) (obj_get msg (fld_name f))))"
proof -
  have "encodeData x name ts msg =
      bindr (map_res (\<lambda>f. enc (fld_type f) (obj_get msg (fld_name f))) ts) (\<lambda>ws.
        Inr (''0x'' @ th name ts @ concat ws))"
    using assms by (simp only: encoder_words_def)
  then have "succeeds (encodeData x name ts msg) \<longleftrightarrow>
      succeeds (map_res (\<lambda>f. enc (fld_type f) (obj_get msg (fld_name f))) ts)"
    by (simp only: succeeds_bindr succeeds_simps simp_thms) (simp only: succeeds_iff)
  then show ?thesis by (simp only: succeeds_map_res)
qed

lemma shape_members: "plain fs \<Longrightarrow> f \<in> set (shape fs) \<longleftrightarrow>
    f \<in> set GenericParamTypes \<or> (dynamic fs \<and> f = data_field) \<or> f \<in> set fs"
  by (auto simp: shape_def)

lemma suffix_succeeds_iff:
  assumes x: "omitBy_documented x" "encoder_words x th enc" "encoder_accepts enc"
    and key: "key \<in> set registry_names"
    and free: "\<And>k. k \<in> {''from'', ''nonce'', ''data''} \<Longrightarrow> obj_get (requestParamsToTypedParams r) k = None"
  shows "succeeds (encodeSuffixData x key r) \<longleftrightarrow>
    (\<forall>f \<in> set (request_fields (types_of key)).
       succeeds (enc (fld_type f) (obj_get (requestParamsToTypedParams r) (fld_name f))))"
proof -
  let ?m = "requestParamsToTypedParams r"
  let ?p = "obj_spread [(''from'', JString AddressZero), (''nonce'', JNumber 1)] ?m"
  obtain requests q where q: "metaTxRequests x = Inr requests" "obj_get requests key = Some q"
    using metaTxRequests_value [OF x(1)] metaTxRequests_known [OF x(1) _ key] by blast
  note facts = metaTxRequests_get [OF x(1) q]
  define d where "d = has_data (types_of key)"
  let ?q = "if d then obj_set ''data'' (JString ''0x00'') ?p else ?p"
  obtain fs where fs: "plain fs" "types_of key = shape fs"
    using facts(1,3) wf_types_cases by metis
  have rf: "request_fields (types_of key) = fs" and dd: "d = dynamic fs"
    using fs by (simp_all add: request_fields_shape has_data_shape d_def)
  have generic: "obj_get ?q ''from'' = Some (JString AddressZero)" "obj_get ?q ''nonce'' = Some (JNumber 1)"
    "d \<Longrightarrow> obj_get ?q ''data'' = Some (JString ''0x00'')"
    using free by (simp_all add: obj_get_spread_distinct [OF distinct_typed_params] del: obj_spread_Cons)
      (simp_all add: obj_get_def)
  have fields: "obj_get ?q (fld_name f) = obj_get ?m (fld_name f)" if "f \<in> set fs" for f
  proof -
    have "fld_name f \<notin> {''from'', ''nonce'', ''data''}" using fs(1) that by (auto simp: plain_def list_all_iff)
    then show ?thesis by (auto simp: obj_get_message [OF distinct_typed_params] simp del: obj_spread_Cons)
  qed
  have dummies: "succeeds (enc ''address'' (Some (JString AddressZero)))"
    "succeeds (enc ''uint256'' (Some (JNumber 1)))" "succeeds (enc ''bytes'' (Some (JString ''0x00'')))"
    using encoder_acceptsD [OF x(3), of "''address''" "JString AddressZero"]
      encoder_acceptsD [OF x(3), of "''uint256''" "JNumber 1"]
      encoder_acceptsD [OF x(3), of "''bytes''" "JString ''0x00''"]
    by (simp_all add: uint_bits_def uint_fits_def is_hex_def max_safe_integer_def AddressZero_def starts_with_def)
  have "succeeds (encodeSuffixData x key r) \<longleftrightarrow> succeeds (encodeData x key (types_of key) ?q)"
    using q facts(2,3) unfolding encodeSuffixData_def d_def
    by (auto simp: Let_def succeeds_iff simp del: obj_spread_Cons)
  also have "\<dots> \<longleftrightarrow> (\<forall>f \<in> set (shape fs). succeeds (enc (fld_type f) (obj_get ?q (fld_name f))))"
    unfolding fs(2) by (rule succeeds_encodeData [OF x(2)])
  also have "\<dots> \<longleftrightarrow> (\<forall>f \<in> set fs. succeeds (enc (fld_type f) (obj_get ?q (fld_name f))))"
    using generic dummies dd
    by (auto simp: shape_members [OF fs(1)] GenericParamTypes_def data_field_def simp del: obj_spread_Cons)
  also have "\<dots> \<longleftrightarrow> (\<forall>f \<in> set fs. succeeds (enc (fld_type f) (obj_get ?m (fld_name f))))"
    using fields by simp
  finally show ?thesis unfolding rf .
qed

section \<open>Well-typed request data\<close>

text \<open>The contents of every value fit the type of its field; a Buffer given for a string is not
  empty.\<close>

definition well_formed_request :: "string \<Rightarrow> js_val obj \<Rightarrow> bool" where
  "well_formed_request key r \<longleftrightarrow>
     conforms (record_of key) r \<and>
     list_all (\<lambda>f. case obj_get r (fld_name f) of
                     None \<Rightarrow> True
                   | Some v \<Rightarrow> content_ok (fld_type f) v \<and> v \<noteq> JBytes [])
       (request_fields (types_of key))"

text \<open>The value of a field of type string is a Buffer.\<close>

definition buffer_for_string :: "js_val obj \<Rightarrow> tfield \<Rightarrow> bool" where
  "buffer_for_string r f \<longleftrightarrow>
     fld_type f = ''string'' \<and> (case obj_get r (fld_name f) of Some (JBytes _) \<Rightarrow> True | _ \<Rightarrow> False)"

text \<open>ethers hashes the characters of a string, which a Buffer does not have.\<close>

definition encoder_rejects_buffers :: "(string \<Rightarrow> js_val option \<Rightarrow> js_error + string) \<Rightarrow> bool" where
  "encoder_rejects_buffers enc \<longleftrightarrow>
     (\<forall>b. b \<noteq> [] \<longrightarrow> \<not> succeeds (enc ''string'' (Some (JBytes b))))"

lemma record_facts:
  assumes "key \<in> set registry_names"
  shows "obj_get MessageRecordType (key @ ''Record'') = Some (record_of key)"
    and "distinct (obj_keys (record_of key))"
    and "set (obj_keys (record_of key)) = set (map fld_name (request_fields (types_of key)))"
    and "list_all (\<lambda>k. \<not> starts_with k ''_'') (obj_keys (record_of key))"
    and "\<And>f. f \<in> set (request_fields (types_of key)) \<Longrightarrow>
      \<exists>t. obj_get (record_of key) (fld_name f) = Some t \<and>
        (compatible (fld_type f) t \<or> admits_buffer (fld_type f) t)"
    and "has_data (types_of key) \<Longrightarrow>
      obj_keys (record_of key) = map fld_name (request_fields (types_of key))"
proof -
  obtain iface where i: "obj_get MessageRecordType (key @ ''Record'') = Some iface"
    and m: "matches_fields iface (request_fields (types_of key)) (has_data (types_of key))"
    using all_records_match [OF assms] by (auto simp: record_matches_def split: option.splits)
  then have r: "record_of key = iface" by (simp add: record_of_def)
  show "obj_get MessageRecordType (key @ ''Record'') = Some (record_of key)" using i r by simp
  show "distinct (obj_keys (record_of key))" "list_all (\<lambda>k. \<not> starts_with k ''_'') (obj_keys (record_of key))"
    using m r by simp_all
  show field: "\<exists>t. obj_get (record_of key) (fld_name f) = Some t \<and>
      (compatible (fld_type f) t \<or> admits_buffer (fld_type f) t)"
    if "f \<in> set (request_fields (types_of key))" for f
    using m that unfolding r by (auto simp: list_all_iff field_matches_def split: option.splits)
  have "fld_name f \<in> set (obj_keys iface)" if "f \<in> set (request_fields (types_of key))" for f
    using field [OF that] r obj_get_None_iff [of iface "fld_name f"] by auto
  then show "set (obj_keys (record_of key)) = set (map fld_name (request_fields (types_of key)))"
    using m unfolding r by (auto simp: list_all_iff)
  show "has_data (types_of key) \<Longrightarrow>
      obj_keys (record_of key) = map fld_name (request_fields (types_of key))"
    using m r by simp
qed

lemma field_encoded_iff:
  assumes enc: "encoder_accepts enc" "encoder_rejects_buffers enc"
    and key: "key \<in> set registry_names" and wf: "well_formed_request key r"
    and f: "f \<in> set (request_fields (types_of key))"
  shows "succeeds (enc (fld_type f) (map_option bigNumberToString (obj_get r (fld_name f)))) \<longleftrightarrow>
    \<not> buffer_for_string r f"
proof -
  obtain t where t: "obj_get (record_of key) (fld_name f) = Some t"
      "compatible (fld_type f) t \<or> admits_buffer (fld_type f) t"
    using record_facts(5) [OF key f] by blast
  have "(fld_name f, t) \<in> set (record_of key)" using t(1) by (simp add: obj_get_def map_of_SomeD)
  then obtain v where v: "obj_get r (fld_name f) = Some v" "has_type t v"
    using wf by (auto simp: well_formed_request_def conforms_def list_all_iff split: option.splits)
  have c: "content_ok (fld_type f) v" "v \<noteq> JBytes []"
    using wf f v(1) by (auto simp: well_formed_request_def list_all_iff)
  show ?thesis
  proof (cases "shape_fits (fld_type f) v")
    case True
    then have "\<not> buffer_for_string r f"
      using v(1) by (auto simp: buffer_for_string_def split: js_val.splits)
    then show ?thesis using encoder_acceptsD [OF enc(1) True c(1)] v(1) by simp
  next
    case False
    then have "admits_buffer (fld_type f) t" using t(2) v(2) compatible_fits by blast
    then have "fld_type f = ''string''" "has_type (TUnion [TBuffer, TString]) v"
      using v(2) by (auto simp: admits_buffer_def)
    with False obtain b where "v = JBytes b" by (cases v) auto
    then show ?thesis
      using c(2) v(1) \<open>fld_type f = ''string''\<close> enc(2)
      by (simp add: buffer_for_string_def encoder_rejects_buffers_def)
  qed
qed

lemma typed_suffix_iff:
  assumes "omitBy_documented x" "encoder_words x th enc" "encoder_accepts enc" "encoder_rejects_buffers enc"
    and key: "key \<in> set registry_names" and wf: "well_formed_request key r"
  shows "succeeds (encodeSuffixData x key r) \<longleftrightarrow>
    (\<forall>f \<in> set (request_fields (types_of key)). \<not> buffer_for_string r f)"
proof -
  have c: "distinct (obj_keys r)" "set (obj_keys r) = set (obj_keys (record_of key))"
    using wf by (simp_all add: well_formed_request_def conforms_def)
  have u: "list_all (\<lambda>k. \<not> starts_with k ''_'') (obj_keys r)"
    using record_facts(4) [OF key] c(2) by (simp add: list_all_iff)
  note get = typed_params_get [OF c(1) u]
  have "obj_get (requestParamsToTypedParams r) k = None" if "k \<in> {''from'', ''nonce'', ''data''}" for k
  proof -
    have "k \<notin> set (map fld_name (request_fields (types_of key)))"
      using wf_types_of [OF key] that by (auto simp: wf_types_def plain_def list_all_iff)
    then show ?thesis
      unfolding get using c(2) record_facts(3) [OF key] by (simp add: obj_get_None_iff)
  qed
  from suffix_succeeds_iff [OF assms(1-3) key this] show ?thesis
    unfolding get using field_encoded_iff [OF assms(3,4) key wf] by blast
qed

section \<open>The order of the properties\<close>

text \<open>The words of a request are found by the names of its fields, the arguments of the call are the
  values in the order of the properties.\<close>

definition plain_params :: "js_val obj \<Rightarrow> bool" where
  "plain_params r \<longleftrightarrow> distinct (obj_keys r) \<and> list_all (\<lambda>k. \<not> starts_with k ''_'') (obj_keys r)"

definition call_arguments :: "js_val obj \<Rightarrow> js_val list" where
  "call_arguments r = map snd (filter (\<lambda>(k, _). k \<noteq> ''destination'') r)"

lemma calldata_of_arguments:
  assumes "omit_documented x" and "call_arguments s = call_arguments r"
  shows "encodeContractFunctionCalldata x contract fn s = encodeContractFunctionCalldata x contract fn r"
proof -
  have "obj_values (omit x o' [''destination'']) = call_arguments o'" for o' :: "js_val obj"
    using assms(1) by (simp add: omit_documented_def obj_values_def call_arguments_def)
  then show ?thesis by (simp add: encodeContractFunctionCalldata_def assms(2))
qed

lemma typed_arguments:
  assumes "plain_params r"
  shows "call_arguments (requestParamsToTypedParams r) = map bigNumberToString (call_arguments r)"
proof -
  have "call_arguments (map (\<lambda>(k, v). (k, bigNumberToString v)) r) = map bigNumberToString (call_arguments r)"
    by (induction r) (auto simp: call_arguments_def)
  then show ?thesis using typed_params_map [of r] assms by (simp add: plain_params_def)
qed

lemma reordered_params:
  assumes "plain_params r" and "mset r' = mset r"
  shows "plain_params r'" "obj_get (requestParamsToTypedParams r') k = obj_get (requestParamsToTypedParams r) k"
proof -
  have keys: "mset (obj_keys r') = mset (obj_keys r)" using assms(2) by (simp add: obj_keys_def)
  show r': "plain_params r'"
    using assms(1) mset_eq_imp_distinct_iff [OF keys] mset_eq_setD [OF keys] by (simp add: plain_params_def list_all_iff)
  have "obj_get r' k = obj_get r k"
    using map_of_inject_set [of r' r] assms(1) r' mset_eq_setD [OF assms(2)]
    by (simp add: obj_get_def obj_keys_def plain_params_def)
  then show "obj_get (requestParamsToTypedParams r') k = obj_get (requestParamsToTypedParams r) k"
    using typed_params_get [of r] typed_params_get [of r'] assms(1) r' by (simp add: plain_params_def)
qed

lemma suffix_cong:
  assumes enc: "encoder_words x th enc"
    and get: "\<And>k. obj_get (requestParamsToTypedParams r') k = obj_get (requestParamsToTypedParams r) k"
  shows "encodeSuffixData x key r' = encodeSuffixData x key r"
proof -
  have data: "encodeData x name ts m' = encodeData x name ts m" if "\<And>k. obj_get m' k = obj_get m k" for name ts m m'
    using enc that unfolding encoder_words_def by simp
  have "encodeData x name ts (if b then obj_set ''data'' v (obj_spread p (requestParamsToTypedParams r'))
        else obj_spread p (requestParamsToTypedParams r')) =
      encodeData x name ts (if b then obj_set ''data'' v (obj_spread p (requestParamsToTypedParams r))
        else obj_spread p (requestParamsToTypedParams r))" for name ts b v p
    by (rule data) (simp only: obj_get_set obj_get_spread_distinct [OF distinct_typed_params] get split: if_splits, simp)
  then show ?thesis unfolding encodeSuffixData_def Let_def by (simp only: refl)
qed

text \<open>What is built of a request: its own properties, and the calldata.\<close>

lemma built_message:
  assumes "omitBy_documented x" and "buildTypedData x dd key from nonce r = Inr td"
  shows "k \<noteq> ''data'' \<Longrightarrow> obj_get (td_message td) k =
      obj_get (obj_spread [(''from'', JString from), (''nonce'', bigNumberToString nonce)] (requestParamsToTypedParams r)) k"
    and "metaTxRequests x = Inr requests \<Longrightarrow> obj_get requests key = Some q \<Longrightarrow> has_data (types_of key) \<Longrightarrow>
      \<exists>c. obj_get (td_message td) ''data'' = Some (JString c) \<and>
        encodeContractFunctionCalldata x (destinationContract q) (functionSignature q) (requestParamsToTypedParams r) = Inr c"
proof -
  let ?m = "requestParamsToTypedParams r"
  obtain registry where reg: "MessageTypesRegistry = Inr registry" using MessageTypesRegistry_wf by blast
  obtain requests' q' m where q': "metaTxRequests x = Inr requests'" "obj_get requests' key = Some q'"
    and m: "addCalldata x q' ?m = Inr m"
    and td: "td_message td = obj_spread [(''from'', JString from), (''nonce'', bigNumberToString nonce)] m"
    using assms(2) unfolding buildTypedData_def reg bindr_simps Let_def by (auto simp del: obj_spread_Cons)
  have m': "m = ?m \<or> (\<exists>c. m = obj_set ''data'' (JString c) ?m)"
    using m by (auto simp: addCalldata_def split: if_splits)
  then have d: "distinct (obj_keys m)" using distinct_typed_params [of r] by (auto intro: distinct_obj_set)
  show "obj_get (td_message td) k =
      obj_get (obj_spread [(''from'', JString from), (''nonce'', bigNumberToString nonce)] ?m) k" if "k \<noteq> ''data''"
    unfolding td obj_get_spread_distinct [OF d] obj_get_spread_distinct [OF distinct_typed_params]
    using m' that by (auto simp: obj_get_set)
  assume q: "metaTxRequests x = Inr requests" "obj_get requests key = Some q" and "has_data (types_of key)"
  then have "q' = q" "requiresDataField q" using q' metaTxRequests_get(2,3) [OF assms(1) q] by simp_all
  then obtain c where "encodeContractFunctionCalldata x (destinationContract q) (functionSignature q) ?m = Inr c"
      "m = obj_set ''data'' (JString c) ?m"
    using m by (auto simp: addCalldata_def)
  then show "\<exists>c. obj_get (td_message td) ''data'' = Some (JString c) \<and>
      encodeContractFunctionCalldata x (destinationContract q) (functionSignature q) ?m = Inr c"
    unfolding td obj_get_spread_distinct [OF d] by (auto simp: obj_get_set)
qed

lemma reordered_message:
  assumes "omitBy_documented x" and "plain_params r" and "mset r' = mset r" and "k \<noteq> ''data''"
    and "buildTypedData x dd key from nonce r = Inr td" and "buildTypedData x dd key from nonce r' = Inr td'"
  shows "obj_get (td_message td') k = obj_get (td_message td) k"
  unfolding built_message(1) [OF assms(1,5,4)] built_message(1) [OF assms(1,6,4)]
    obj_get_spread_distinct [OF distinct_typed_params] reordered_params(2) [OF assms(2,3)] ..

lemma relabelled_data:
  assumes "omit_documented x" and "omitBy_documented x" and "has_data (types_of key)" and "plain_params r'" "plain_params s"
    and "call_arguments s = call_arguments r'"
    and "buildTypedData x dd key from nonce r' = Inr td'" and "buildTypedData x dd key from nonce s = Inr tds"
  shows "obj_get (td_message td') ''data'' = obj_get (td_message tds) ''data''"
proof -
  obtain requests q where q: "metaTxRequests x = Inr requests" "obj_get requests key = Some q"
    using assms(7) by (auto simp: buildTypedData_def Let_def)
  have "call_arguments (requestParamsToTypedParams s) = call_arguments (requestParamsToTypedParams r')"
    unfolding typed_arguments [OF assms(4)] typed_arguments [OF assms(5)] assms(6) ..
  from calldata_of_arguments [OF assms(1) this] show ?thesis
    using built_message(2) [OF assms(2,7) q assms(3)] built_message(2) [OF assms(2,8) q assms(3)] by auto
qed

end
