(* ===== verification/ContractSamples.thy ===== *)
theory ContractSamples
  imports OperationSamples MetaTxFlow RecordEncoding
begin

text \<open>
  The chain of the witnesses about the contracts: a hash, a recovery of signers, a
  LicensedUserManager with a wallet of two owners, a MetaTxForwarder with a registered request, and
  an encoder of EIP712 that fits them.
\<close>

section \<open>The virtual machine\<close>

definition word32 :: "bytes \<Rightarrow> bytes" where
  "word32 b = take 32 (b @ replicate 32 0)"

lemma length_word32 [simp]: "length (word32 b) = 32"
  by (simp add: word32_def)

lemma word32_id: "length b = 32 \<Longrightarrow> word32 b = b"
  by (simp add: word32_def)

definition sample_keccak :: "bytes \<Rightarrow> bytes" where
  "sample_keccak b = word32 (rev b)"

text \<open>The first 20 bytes of a signature are the address that signed.\<close>

definition sample_evm :: evm where
  "sample_evm = \<lparr>evm_keccak256 = sample_keccak, evm_ecrecover = (\<lambda>h v r s. take 20 r),
     evm_chainid = 1, evm_slack = (\<lambda>_. 0)\<rparr>"

definition sample_signature :: "address \<Rightarrow> bytes" where
  "sample_signature a = a @ replicate 45 0"

lemma sample_keccak_length [simp]: "length (evm_keccak256 sample_evm b) = 32"
  by (simp add: sample_evm_def sample_keccak_def)

lemma sample_signature_address:
  "length a = 20 \<Longrightarrow> signature_address sample_evm h (sample_signature a) = a"
  by (simp add: signature_address_def sample_evm_def sample_signature_def)

section \<open>The LicensedUserManager\<close>

definition sample_admin :: address where
  "sample_admin = replicate 20 9"

definition sample_forwarder :: address where
  "sample_forwarder = replicate 20 8"

definition sample_lum_env :: lum_env where
  "sample_lum_env = \<lparr>lum_administrator = (\<lambda>_. sample_admin),
     computeAddress = (\<lambda>salt h. take 20 (salt @ h)), beaconProxyCode = [1]\<rparr>"

definition sample_manager0 :: lum_state where
  "sample_manager0 = \<lparr>lum_luws = (\<lambda>_. no_user), lum_wallets = (\<lambda>_. no_wallet),
     lum_nameRegistry = replicate 20 7, lum_trustedForwarder = sample_forwarder,
     lum_upgradeableBeacon = replicate 20 6, lum_version = 2\<rparr>"

definition sample_details :: licensed_user_dto where
  "sample_details = \<lparr>dto_owners = [bob], dto_threshold = 1, dto_userType = ARTIST,
     dto_englishName = ''a'', dto_originalName = ''b''\<rparr>"

definition by_admin :: message where
  "by_admin = \<lparr>msg_sender = sample_admin, msg_data = [1, 2, 3, 4]\<rparr>"

definition by_wallet :: "address \<Rightarrow> message" where
  "by_wallet wallet = \<lparr>msg_sender = sample_forwarder, msg_data = [1, 2, 3, 4] @ wallet\<rparr>"

text \<open>The Administrator creates a wallet of one owner, which itself adds a second one and asks for both
  signatures.\<close>

definition sample_manager_calls :: "(lum_env \<times> message \<times> lum_call) list" where
  "sample_manager_calls =
     [(sample_lum_env, by_admin, CreateWalletFromMigration sample_details alice ''1'' 0),
      (sample_lum_env, by_wallet alice, OwnerAdd alice carol 2),
      (sample_lum_env, by_wallet alice, EnglishName alice ''c'')]"

definition sample_manager :: lum_state where
  "sample_manager = fst (the (run_lum_calls sample_evm sample_manager_calls sample_manager0))"

definition sample_manager_events :: "luw_event list" where
  "sample_manager_events =
     [CreateLicensedUserWallet alice [bob] 1 ''a'' ''b'' 1 (replicate 32 0),
      MigrateLicensedUserWallet alice ''1'' 0,
      UpgradeLicensedUserWalletToMulti alice [bob, carol] 2,
      UpdateLicensedUserDetail alice ''englishName'' ''c'']"

lemma sample_manager_evaluates:
  "case run_lum_calls sample_evm sample_manager_calls sample_manager0 of
     None \<Rightarrow> False
   | Some (st, es) \<Rightarrow> es = sample_manager_events \<and> isActiveWallet st alice \<and> walletExists st alice \<and>
       \<not> isSingleOwner st alice \<and>
       lum_getOwners st alice = Some [bob, carol] \<and> lum_getThreshold st alice = 2 \<and>
       lum_trustedForwarder st = sample_forwarder \<and> lum_nameRegistry st = replicate 20 7"
  by code_simp

lemma sample_manager_runs:
  "run_lum_calls sample_evm sample_manager_calls sample_manager0 = Some (sample_manager, sample_manager_events)"
  "isActiveWallet sample_manager alice" "walletExists sample_manager alice" "\<not> isSingleOwner sample_manager alice"
  "lum_getOwners sample_manager alice = Some [bob, carol]" "lum_getThreshold sample_manager alice = 2"
  "lum_trustedForwarder sample_manager = sample_forwarder"
  using sample_manager_evaluates by (auto simp: sample_manager_def split: option.splits prod.splits)

lemma sample_without_repeats: "calls_without_repeats sample_evm sample_manager_calls sample_manager0"
  by code_simp

lemma sample_manager_fresh: "no_wallets sample_manager0"
  by (simp add: no_wallets_def sample_manager0_def)

lemma sample_manager_ok: "lum_ok sample_manager"
  using calls_follow [OF sample_manager_runs(1) sample_without_repeats] no_wallets_ok [OF sample_manager_fresh]
  by blast

section \<open>An encoder of EIP712\<close>

definition flow_bytes :: "string \<Rightarrow> js_val \<Rightarrow> bytes" where
  "flow_bytes ty v =
     (case v of
        JString s \<Rightarrow>
          if ty = ''address'' then abi_address (hex_bytes s)
          else if ty = ''uint256'' then be_bytes 32 (decimal_value s)
          else if ty = ''bytes'' then sample_keccak (hex_bytes s) else sample_keccak (str_bytes s)
      | JBytes b \<Rightarrow> b
      | _ \<Rightarrow> [])"

definition flow_word :: "string \<Rightarrow> js_val option \<Rightarrow> js_error + string" where
  "flow_word ty v =
     (case v of
        None \<Rightarrow> Inl TypeError
      | Some v \<Rightarrow>
          if ty = ''string'' \<and> (case v of JBytes b \<Rightarrow> b \<noteq> [] | _ \<Rightarrow> False) then Inl TypeError
          else Inr (hex_body (word32 (flow_bytes ty v))))"

definition flow_type_hash :: "string \<Rightarrow> tfield list \<Rightarrow> string" where
  "flow_type_hash name ts = hex_body (sample_keccak (str_bytes (encodeType name ts)))"

definition flow_ext :: ext where
  "flow_ext = sample_ext
     \<lparr>hashType := (\<lambda>name ts. toHex (sample_keccak (str_bytes (encodeType name ts)))),
      encodeFunctionData := (\<lambda>i f vs. Inr (toHex [1, 2, 3, 4, of_nat (length vs)])),
      encodeData := (\<lambda>name ts msg.
        bindr (map_res (\<lambda>f. flow_word (fld_type f) (obj_get msg (fld_name f))) ts) (\<lambda>ws.
          Inr (''0x'' @ flow_type_hash name ts @ concat ws)))\<rparr>"

lemma flow_omitBy: "omitBy_documented flow_ext"
  using sample_omitBy by (simp add: flow_ext_def omitBy_documented_def)

lemma flow_strip: "strip_documented flow_ext"
  using sample_strip by (simp add: flow_ext_def strip_documented_def)

lemma flow_word_shape: "flow_word ty v = Inr w \<Longrightarrow> \<exists>b. length b = 32 \<and> w = hex_body b"
  unfolding flow_word_def using length_word32 by (force split: option.splits if_splits)

lemma flow_words: "encoder_words flow_ext flow_type_hash flow_word"
proof -
  have "length w = 64" if "flow_word ty v = Inr w" for ty v w
    using flow_word_shape [OF that] by (auto simp: length_hex_body)
  then show ?thesis
    by (simp add: encoder_words_def flow_ext_def flow_type_hash_def length_hex_body sample_keccak_def)
qed

lemma flow_number: "flow_word ''uint256'' (Some (JString (int_dec (uint (n :: 256 word))))) = Inr (hex_body (abi_uint n))"
proof -
  have "int_dec (uint n) = nat_dec (unat n)" by (simp add: int_dec_def)
  then have "decimal_value (int_dec (uint n)) = unat n" by (simp only: decimal_value_nat_dec)
  then have "flow_bytes ''uint256'' (JString (int_dec (uint n))) = abi_uint n"
    by (simp add: flow_bytes_def abi_uint_def del: be_bytes.simps)
  then have "word32 (flow_bytes ''uint256'' (JString (int_dec (uint n)))) = abi_uint n"
    by (simp only: word32_id length_abi_uint)
  then show ?thesis by (simp add: flow_word_def del: be_bytes.simps)
qed

lemma flow_documented: "eip712_documented sample_evm flow_ext flow_type_hash flow_word"
proof -
  have "hashType flow_ext name ts = toHex (evm_keccak256 sample_evm (str_bytes (encodeType name ts)))" for name ts
    by (simp add: flow_ext_def sample_evm_def)
  moreover have "flow_type_hash name ts = hex_body (evm_keccak256 sample_evm (str_bytes (encodeType name ts)))" for name ts
    by (simp add: flow_type_hash_def sample_evm_def)
  moreover have "length a = 20 \<Longrightarrow> flow_word ''address'' (Some (JString (toHex a))) = Inr (hex_body (abi_address a))" for a
    by (simp add: flow_word_def flow_bytes_def word32_id)
  moreover have "flow_word ''bytes'' (Some (JString (toHex b))) = Inr (hex_body (evm_keccak256 sample_evm b))" for b
    by (simp add: flow_word_def flow_bytes_def sample_evm_def sample_keccak_def word32_id)
  moreover have "encodeFunctionData flow_ext c f vs = Inr s \<Longrightarrow> \<exists>b. b \<noteq> [] \<and> s = toHex b" for c f vs s
    by (auto simp: flow_ext_def)
  ultimately show ?thesis
    unfolding eip712_documented_def using flow_words flow_number flow_word_shape by blast
qed

lemma flow_accepts: "encoder_accepts flow_word"
proof -
  have "succeeds (flow_word ty (Some v))" if "shape_fits ty v" for ty v
    using that by (cases v) (auto simp: flow_word_def)
  then show ?thesis by (simp add: encoder_accepts_def)
qed

lemma flow_rejects: "encoder_rejects_buffers flow_word"
  by (simp add: encoder_rejects_buffers_def flow_word_def)

section \<open>Requests\<close>

definition flow_key :: string where
  "flow_key = ''WalletSetEnglishName''"

definition flow_data :: "js_val obj" where
  "flow_data = [(''wallet'', JString (toHex alice)), (''name'', JString ''x'')]"

definition flow_request :: api_request where
  "flow_request = \<lparr>requestTypeKey = flow_key, fromAddress = toHex alice, req_nonce = JNumber 0,
     requestData = flow_data\<rparr>"

definition buffer_key :: string where
  "buffer_key = ''StartrailRegistryApproveSRRByCommitmentV2''"

definition buffer_data :: "js_val obj" where
  "buffer_data = [(''tokenId'', JBig 5), (''commitment'', JBytes (replicate 32 1)),
     (''historyMetadataHash'', JBytes [1, 2])]"

lemma flow_keys: "flow_key \<in> set registry_names" "buffer_key \<in> set registry_names"
  by code_simp+

lemma flow_types:
  "request_fields (types_of flow_key) =
     [\<lparr>fld_name = ''wallet'', fld_type = ''address''\<rparr>, \<lparr>fld_name = ''name'', fld_type = ''string''\<rparr>]"
  "request_fields (types_of buffer_key) =
     [\<lparr>fld_name = ''tokenId'', fld_type = ''uint256''\<rparr>, \<lparr>fld_name = ''commitment'', fld_type = ''bytes32''\<rparr>,
      \<lparr>fld_name = ''historyMetadataHash'', fld_type = ''string''\<rparr>]"
  by code_simp+

lemma flow_well_formed: "well_formed_request flow_key flow_data" "well_formed_request buffer_key buffer_data"
  unfolding well_formed_request_def flow_types by code_simp+

lemma flow_suffix: "succeeds (encodeSuffixData flow_ext flow_key flow_data)"
  using typed_suffix_iff [OF flow_omitBy flow_words flow_accepts flow_rejects flow_keys(1) flow_well_formed(1)]
  by (simp add: flow_types buffer_for_string_def) (simp add: flow_data_def obj_get_def)

text \<open>An encoder that shows its arguments, a request with its properties in the other order, and the request
  it makes the call of.\<close>

fun order_text :: "js_val \<Rightarrow> string" where
  "order_text (JArray (JNumber n # _)) = int_dec n"
| "order_text _ = []"

definition order_ext :: ext where
  "order_ext = sample_ext\<lparr>encodeFunctionData := (\<lambda>i f vs. Inr (concat (map order_text vs)))\<rparr>"

definition order_domain :: typed_data_domain where
  "order_domain = newTypedDataBuilder 137 ''0xff''"

definition order_other :: "js_val obj" where
  "order_other = [(''tokenIds'', JArray [JNumber 2]), (''customHistoryIds'', JArray [JNumber 1])]"

lemma order_words: "encoder_words order_ext sample_type_hash sample_word"
  using sample_words by (simp add: encoder_words_def order_ext_def)

lemma order_omit: "omit_documented order_ext"
  by (simp add: omit_documented_def order_ext_def sample_ext_def)

lemma order_omitBy: "omitBy_documented order_ext"
  by (simp add: omitBy_documented_def order_ext_def sample_ext_def)

lemma order_plain: "plain_params sample_message" "plain_params (rev sample_message)" "plain_params order_other"
  by (simp_all add: plain_params_def sample_message_def sample_request_def order_other_def obj_keys_def starts_with_def)

lemma order_arguments: "call_arguments order_other = call_arguments (rev sample_message)"
  by (simp add: call_arguments_def order_other_def sample_message_def sample_request_def)

lemma sample_message_fields:
  "map_option bigNumberToString (obj_get sample_message ''tokenIds'') = Some (JArray [JNumber 1])"
  "map_option bigNumberToString (obj_get sample_message ''customHistoryIds'') = Some (JArray [JNumber 2])"
  by code_simp+

lemma order_other_call: "concat (map order_text (map bigNumberToString (call_arguments order_other))) = ''21''"
  by code_simp

lemma order_built:
  assumes "plain_params r"
  shows "\<exists>td. buildTypedData order_ext dd sample_key from nonce r = Inr td \<and>
    (\<forall>k. k \<notin> {''from'', ''nonce'', ''data''} \<longrightarrow> obj_get (td_message td) k = map_option bigNumberToString (obj_get r k)) \<and>
    obj_get (td_message td) ''data'' = Some (JString (concat (map order_text (map bigNumberToString (call_arguments r)))))"
proof -
  obtain requests q where q: "metaTxRequests order_ext = Inr requests" "obj_get requests sample_key = Some q"
    using metaTxRequests_value [OF order_omitBy] metaTxRequests_known [OF order_omitBy _ sample_key_registered] by blast
  obtain registry where reg: "MessageTypesRegistry = Inr registry" using MessageTypesRegistry_wf by blast
  have data: "requiresDataField q" using metaTxRequests_get(2,3) [OF order_omitBy q] sample_facts(4) by simp
  have call: "encodeContractFunctionCalldata order_ext (destinationContract q) (functionSignature q) o' =
      Inr (concat (map order_text (call_arguments o')))" for o'
    using metaTxRequests_interface [OF order_omitBy q data] order_omit
    by (simp add: encodeContractFunctionCalldata_def order_ext_def omit_documented_def obj_values_def call_arguments_def)
  then have "\<exists>m. addCalldata order_ext q (requestParamsToTypedParams r) = Inr m" by (simp add: addCalldata_def)
  then obtain td where td: "buildTypedData order_ext dd sample_key from nonce r = Inr td"
    unfolding buildTypedData_def q(1) reg bindr_simps by (auto simp: q(2) Let_def simp del: obj_spread_Cons)
  moreover have "obj_get (td_message td) k = map_option bigNumberToString (obj_get r k)" if "k \<notin> {''from'', ''nonce'', ''data''}" for k
    using build_message(1) [OF order_omitBy td that] typed_params_get [of r k] assms by (simp add: plain_params_def)
  moreover have "obj_get (td_message td) ''data'' = Some (JString (concat (map order_text (map bigNumberToString (call_arguments r)))))"
    using built_message(2) [OF order_omitBy td q sample_facts(4)] call typed_arguments [OF assms] by auto
  ultimately show ?thesis by blast
qed

section \<open>The MetaTxForwarder\<close>

definition sample_this :: address where
  "sample_this = replicate 20 5"

definition sample_fwd0 :: forwarder_state where
  "sample_fwd0 = \<lparr>fs_nonces = (\<lambda>_ _. 0), fs_typeHashes = (\<lambda>_. False),
     fs_requestTypes = (\<lambda>_. \<lparr>rq_destination = ZERO_ADDRESS, rq_functionSignature = replicate 4 0\<rparr>),
     fs_domainSeparator = [], fs_nameRegistry = ZERO_ADDRESS, fs_collectionRegistry = ZERO_ADDRESS,
     fs_initialized = False\<rparr>"

definition sample_sur :: surroundings where
  "sample_sur = \<lparr>sur_administrator = (\<lambda>_. sample_admin),
     validSignatureSet = (\<lambda>_ wallet hash sigs.
       isValidSignatureSet sample_evm sample_manager wallet hash sigs = Some IS_VALID_SIG_SUCCESS),
     registeredCollection = (\<lambda>_ _. False)\<rparr>"

definition sample_fwd1 :: forwarder_state where
  "sample_fwd1 = the (mtf_initialize sample_evm sample_this (replicate 20 7) sample_fwd0)"

definition sample_type :: bytes where
  "sample_type = evm_keccak256 sample_evm (str_bytes (encodeType flow_key (types_of flow_key)))"

definition sample_destination :: address where
  "sample_destination = replicate 20 4"

definition sample_fwd :: forwarder_state where
  "sample_fwd = fst (the (mtf_registerRequestType sample_evm sample_sur sample_admin flow_key
     (buildSuffixTypeString (types_of flow_key)) sample_destination [1, 2, 3, 4] sample_fwd1))"

lemma sample_init: "mtf_initialize sample_evm sample_this (replicate 20 7) sample_fwd0 = Some sample_fwd1"
  by (simp add: sample_fwd1_def mtf_initialize_def ZERO_ADDRESS_def sample_fwd0_def)

lemma sample_fwd1_fields:
  "fs_typeHashes sample_fwd1 = (\<lambda>_. False)" "fs_nonces sample_fwd1 = (\<lambda>_ _. 0)"
  unfolding sample_fwd1_def by (simp_all add: mtf_initialize_def MTRM_initialize_def sample_fwd0_def ZERO_ADDRESS_def)

lemma sample_registered:
  "\<exists>es. mtf_registerRequestType sample_evm sample_sur sample_admin flow_key
     (buildSuffixTypeString (types_of flow_key)) sample_destination [1, 2, 3, 4] sample_fwd1 = Some (sample_fwd, es)"
proof -
  have "\<not> list_ex (\<lambda>c. c = CHR ''('' \<or> c = CHR '')'') flow_key" by code_simp
  then have "mtf_registerRequestType sample_evm sample_sur sample_admin flow_key
     (buildSuffixTypeString (types_of flow_key)) sample_destination [1, 2, 3, 4] sample_fwd1 \<noteq> None"
    by (simp add: mtf_registerRequestType_def onlyAdministrator_def sample_sur_def sample_fwd1_fields Let_def)
  then show ?thesis unfolding sample_fwd_def by force
qed

lemma sample_fwd_fields:
  "fs_typeHashes sample_fwd = (\<lambda>_. False)(sample_type := True)"
  "fs_requestTypes sample_fwd sample_type = \<lparr>rq_destination = sample_destination, rq_functionSignature = [1, 2, 3, 4]\<rparr>"
  "fs_nonces sample_fwd = (\<lambda>_ _. 0)"
  "fs_domainSeparator sample_fwd = domain_hash sample_evm (newTypedDataBuilder 1 (toHex sample_this))"
proof -
  obtain es where r: "mtf_registerRequestType sample_evm sample_sur sample_admin flow_key
     (buildSuffixTypeString (types_of flow_key)) sample_destination [1, 2, 3, 4] sample_fwd1 = Some (sample_fwd, es)"
    using sample_registered by blast
  have t: "evm_keccak256 sample_evm (str_bytes (request_type_string flow_key
      (buildSuffixTypeString (types_of flow_key)))) = sample_type"
    unfolding sample_type_def registered_type_string [OF flow_keys(1)] by (rule refl)
  show "fs_typeHashes sample_fwd = (\<lambda>_. False)(sample_type := True)"
    "fs_requestTypes sample_fwd sample_type = \<lparr>rq_destination = sample_destination, rq_functionSignature = [1, 2, 3, 4]\<rparr>"
    using registered(2,3) [OF r] by (simp_all add: t sample_fwd1_fields)
  note keep = admin_keeps_nonces(1) [OF r] register_keeps_domain [OF r]
  show "fs_nonces sample_fwd = (\<lambda>_ _. 0)" unfolding keep(1) by (rule sample_fwd1_fields)
  have "uint (evm_chainid sample_evm) = 1" by (simp add: sample_evm_def)
  then show "fs_domainSeparator sample_fwd = domain_hash sample_evm (newTypedDataBuilder 1 (toHex sample_this))"
    using domain_separator_agrees [OF sample_init] keep(2) by simp
qed

section \<open>Executions\<close>

text \<open>Requests of an account, which signs for itself.\<close>

definition sample_exec :: "256 word \<Rightarrow> bytes \<Rightarrow> execution_data" where
  "sample_exec n data = \<lparr>xd_typeHash = sample_type, xd_from = bob, xd_nonce = n,
     xd_suffixData = replicate 64 1, xd_callData = data\<rparr>"

definition used_nonce :: "forwarder_state \<Rightarrow> address \<Rightarrow> 256 word \<Rightarrow> forwarder_state" where
  "used_nonce st wallet n = snd (the (checkAndUpdateNonce st wallet n))"

lemma bob_length: "length bob = 20"
  by (simp add: bob_def)

lemma sample_signs: "recover sample_evm h (sample_signature bob) 0 = bob"
  using signers_joined [of "[sample_signature bob]" 1 sample_evm h] sample_signature_address [OF bob_length, of h]
  by (simp add: sample_signature_def recovered_signers_def bob_length)

lemma sample_not_zero: "sample_destination \<noteq> ZERO_ADDRESS"
  by (simp add: sample_destination_def ZERO_ADDRESS_def)

lemma sample_prepared:
  assumes "checkAndUpdateNonce st bob n = Some (True, st1)" and "fs_typeHashes st sample_type"
    and "fs_requestTypes st sample_type = fs_requestTypes sample_fwd sample_type" and "data \<noteq> []"
  shows "\<exists>h. prepareExecution sample_evm sur (sample_exec n data) (sample_signature bob) True st =
    Some (st1, sample_destination, data @ bob, h)"
  using assms(1,2,4) nonce_step(4,5) [OF assms(1)] sample_signs sample_not_zero
  by (simp add: prepareExecution_def sample_exec_def encodeRequest_def signatures_ok_def request_destination_def
      request_calldata_def Let_def assms(3) sample_fwd_fields(2))

definition sample_fwd2 :: forwarder_state where
  "sample_fwd2 = used_nonce sample_fwd bob 0"

definition sample_fwd3 :: forwarder_state where
  "sample_fwd3 = used_nonce sample_fwd2 bob 1"

lemma sample_nonces:
  "checkAndUpdateNonce sample_fwd bob 0 = Some (True, sample_fwd2)"
  "checkAndUpdateNonce sample_fwd2 bob 1 = Some (True, sample_fwd3)"
proof -
  have ch: "nonce_channel 0 = 0" "nonce_number 0 = 0" "nonce_channel 1 = 0" "nonce_number 1 = 1"
    by code_simp+
  show one: "checkAndUpdateNonce sample_fwd bob 0 = Some (True, sample_fwd2)"
    unfolding sample_fwd2_def used_nonce_def by (simp add: checkAndUpdateNonce_def ch sample_fwd_fields)
  have "unat (fs_nonces sample_fwd2 bob 0) = 1" using nonce_step(2) [OF one] by (simp add: ch)
  then have "fs_nonces sample_fwd2 bob 0 = 1" by (metis unat_1 word_unat_eq_iff)
  then show "checkAndUpdateNonce sample_fwd2 bob 1 = Some (True, sample_fwd3)"
    unfolding sample_fwd3_def used_nonce_def by (simp add: checkAndUpdateNonce_def ch)
qed

lemma sample_forwarder_run:
  "\<exists>es. forwarder_run sample_evm sample_fwd [sample_exec 0 [9], sample_exec 1 [9]] es sample_fwd3"
proof -
  note step = nonce_step [OF sample_nonces(1)]
  obtain h1 where one: "prepareExecution sample_evm sample_sur (sample_exec 0 [9]) (sample_signature bob) True sample_fwd =
      Some (sample_fwd2, sample_destination, [9] @ bob, h1)"
    using sample_prepared [OF sample_nonces(1), of "[9]"] by (auto simp: sample_fwd_fields)
  obtain h2 where two: "prepareExecution sample_evm sample_sur (sample_exec 1 [9]) (sample_signature bob) True sample_fwd2 =
      Some (sample_fwd3, sample_destination, [9] @ bob, h2)"
    using sample_prepared [OF sample_nonces(2), of "[9]"] step(4,5) by (auto simp: sample_fwd_fields)
  from run_execute [OF one run_done run_execute [OF two run_done run_done]] show ?thesis by auto
qed

section \<open>The client of the wallet\<close>

definition flow_wallet :: "address \<Rightarrow> wallet" where
  "flow_wallet a = \<lparr>w_address = toHex a, w_signTypedData = Some (\<lambda>d ts m. toHex (sample_signature a))\<rparr>"

lemma flow_signs:
  assumes "length a = 20" and "toLowerCase (toHex a) = toHex a"
  shows "signs_for sample_evm flow_ext (flow_wallet a) a"
proof -
  have "length (sample_signature a) = 65" using assms(1) by (simp add: sample_signature_def)
  then show ?thesis
    using assms sample_signature_address [OF assms(1)] unfolding signs_for_def flow_wallet_def
    by (auto simp del: append_Cons)
qed

lemma flow_lower: "toLowerCase (toHex bob) = toHex bob" "toLowerCase (toHex carol) = toHex carol"
  by code_simp+

lemma carol_length: "length carol = 20"
  by (simp add: carol_def)

lemma flow_owners: "enough_owners sample_evm flow_ext sample_manager alice [flow_wallet carol, flow_wallet bob]"
proof -
  have "toHex carol \<noteq> toHex bob" by (simp add: carol_def bob_def)
  then show ?thesis
    using flow_signs [OF bob_length flow_lower(1)] flow_signs [OF carol_length flow_lower(2)]
    by (auto simp: enough_owners_def sample_manager_runs flow_lower flow_wallet_def)
qed

lemma flow_asks: "asks_manager sample_evm sample_sur sample_fwd sample_manager"
  by (simp add: asks_manager_def sample_sur_def)

lemma flow_clean: "clean_params (requestData flow_request)"
  "obj_get (requestData flow_request) ''from'' = None" "obj_get (requestData flow_request) ''nonce'' = None"
  by code_simp+

lemma flow_calldata:
  assumes "metaTxRequests flow_ext = Inr requests" and "obj_get requests flow_key = Some q"
  shows "\<exists>c. encodeContractFunctionCalldata flow_ext (destinationContract q) (functionSignature q) o' = Inr c"
proof -
  have "has_data (types_of flow_key)" by code_simp
  then have "requiresDataField q" using metaTxRequests_get(2,3) [OF flow_omitBy assms] by simp
  from metaTxRequests_interface [OF flow_omitBy assms this] show ?thesis
    by (simp add: encodeContractFunctionCalldata_def flow_ext_def)
qed

lemma flow_registry: "\<exists>requests q. metaTxRequests flow_ext = Inr requests \<and> obj_get requests flow_key = Some q"
  using metaTxRequests_value [OF flow_omitBy] metaTxRequests_known [OF flow_omitBy _ flow_keys(1)] by blast

lemma flow_sent: "\<exists>rsp. encodeExecuteTransactionProps flow_ext flow_request sigs ''MultiSig'' = Inr rsp"
proof -
  obtain requests q where q: "metaTxRequests flow_ext = Inr requests" "obj_get requests flow_key = Some q"
    using flow_registry by blast
  obtain s where "encodeSuffixData flow_ext flow_key flow_data = Inr s" using flow_suffix by (auto simp: succeeds_iff)
  moreover obtain c where "encodeContractFunctionCalldata flow_ext (destinationContract q) (functionSignature q) flow_data = Inr c"
    using flow_calldata [OF q] by blast
  ultimately show ?thesis
    by (simp add: encodeExecuteTransactionProps_def flow_request_def q Let_def)
qed

lemma flow_number_read: "bigNumberFrom flow_ext (req_nonce flow_request) = Inr (uint (0 :: 256 word))"
  by (simp add: flow_ext_def sample_ext_def flow_request_def)

lemma flow_built:
  "\<exists>td. buildTypedData flow_ext dd flow_key from nonce flow_data = Inr td"
proof -
  obtain requests q where q: "metaTxRequests flow_ext = Inr requests" "obj_get requests flow_key = Some q"
    using flow_registry by blast
  obtain registry where reg: "MessageTypesRegistry = Inr registry" using MessageTypesRegistry_wf by blast
  obtain c where "encodeContractFunctionCalldata flow_ext (destinationContract q) (functionSignature q)
      (requestParamsToTypedParams flow_data) = Inr c"
    using flow_calldata [OF q] by blast
  then have "\<exists>m. addCalldata flow_ext q (requestParamsToTypedParams flow_data) = Inr m"
    by (simp add: addCalldata_def)
  then show ?thesis
    unfolding buildTypedData_def q(1) reg bindr_simps by (auto simp: q(2) Let_def simp del: obj_spread_Cons)
qed

lemma flow_signed:
  "\<exists>ws' sigs. signRequestTypedData flow_ext (newMetaTxForwarder 1 (toHex sample_this)) flow_request
     [flow_wallet carol, flow_wallet bob] = Inr (ws', sigs)"
proof -
  obtain td where td: "buildTypedData flow_ext (newTypedDataBuilder 1 (toHex sample_this)) flow_key
      (fromAddress flow_request) (JString (int_dec (uint (0 :: 256 word)))) flow_data = Inr td"
    using flow_built by blast
  have ws: "\<not> list_ex (\<lambda>signer. w_signTypedData signer = None) [flow_wallet carol, flow_wallet bob]"
    by (simp add: flow_wallet_def)
  have "succeeds (signTypedData td [flow_wallet carol, flow_wallet bob])"
    unfolding signTypedData_def if_not_P [OF ws] Let_def succeeds_bindr
    by (simp add: js_sort_def flow_wallet_def)
  then show ?thesis
    unfolding signRequestTypedData_def flow_number_read bindr_simps signRequest_def if_not_P [OF ws]
    using td by (auto simp: newMetaTxForwarder_def flow_request_def succeeds_iff)
qed

section \<open>What the subgraph sees, and boundary cases\<close>

lemma sample_time: "valid_time (eventUTCMillis (sample_event 2))"
  by (simp add: valid_time_def date_limit_def eventUTCMillis_def secondsToMillis_def sample_event_def)

lemma sample_manager_indexed:
  "\<exists>s'. run_subgraph sample_host (zip (replicate 4 (sample_event 2)) (map LicensedUserManager sample_manager_events))
     empty_store = Inr s'"
proof -
  have "list_all luw_legal sample_manager_events"
    by (simp add: sample_manager_events_def seconds_ok_def secondsToMillis_def valid_time_def date_limit_def)
  then show ?thesis using wallet_events_run [OF good_empty] sample_time by (simp add: list_all_iff)
qed

lemma sample_registration_indexed:
  "\<exists>s'. run_subgraph sample_host
     (map (\<lambda>ev. (sample_event 2, MetaTxForwarder ev)) [RequestTypeRegistered hash str]) empty_store = Inr s'"
proof -
  have "legal_chain sample_host (map (\<lambda>ev. (sample_event 2, MetaTxForwarder ev)) [RequestTypeRegistered hash str])
      (ledger_of empty_store)"
    using sample_time by simp
  from legal_chain_indexed [OF good_empty this] show ?thesis by blast
qed

definition sample_bare :: "bytes \<Rightarrow> execution_data" where
  "sample_bare data = (sample_exec 0 data)\<lparr>xd_suffixData := []\<rparr>"

lemma sample_sizes: "well_sized (sample_bare data)"
  by (simp add: well_sized_def sample_bare_def sample_exec_def sample_type_def bob_length)

lemma keccak_one: "evm_keccak256 sample_evm [b] = b # replicate 31 0"
  by (simp add: sample_evm_def sample_keccak_def word32_def)

lemma take_rev_end: "length w = 32 \<Longrightarrow> sample_keccak (p @ w) = rev w"
  by (simp add: sample_keccak_def word32_def)

lemma sample_free:
  "collision_free sample_evm (encoded_struct sample_evm (sample_bare [9])) (encoded_struct sample_evm (sample_bare [8]))"
  "collision_free sample_evm (xd_callData (sample_bare [9])) (xd_callData (sample_bare [8]))"
proof -
  have struct: "\<exists>p. encoded_struct sample_evm (sample_bare [b]) = p @ b # replicate 31 0" for b
    unfolding encoded_struct_parts by (simp add: struct_suffix_def sample_bare_def sample_exec_def keccak_one)
  obtain p q where "encoded_struct sample_evm (sample_bare [9]) = p @ 9 # replicate 31 0"
      "encoded_struct sample_evm (sample_bare [8]) = q @ 8 # replicate 31 0"
    using struct [of 9] struct [of 8] by blast
  moreover have "evm_keccak256 sample_evm (p @ b # replicate 31 0) = replicate 31 0 @ [b]" for p b
    by (simp add: sample_evm_def take_rev_end del: replicate.simps)
  ultimately show "collision_free sample_evm (encoded_struct sample_evm (sample_bare [9])) (encoded_struct sample_evm (sample_bare [8]))"
    by (simp add: collision_free_def)
  show "collision_free sample_evm (xd_callData (sample_bare [9])) (xd_callData (sample_bare [8]))"
    by (simp add: collision_free_def sample_bare_def sample_exec_def keccak_one)
qed

lemma sample_zero_nonce: "checkAndUpdateNonce sample_fwd ZERO_ADDRESS 0 = Some (True, used_nonce sample_fwd ZERO_ADDRESS 0)"
proof -
  have "nonce_channel 0 = 0" "nonce_number 0 = 0" by code_simp+
  then show ?thesis unfolding used_nonce_def by (simp add: checkAndUpdateNonce_def sample_fwd_fields)
qed

lemma sample_zero_recover: "recover sample_evm h (replicate 65 0) 0 = ZERO_ADDRESS"
  using signers_joined [of "[replicate 65 0]" 1 sample_evm h]
  by (simp add: recovered_signers_def signature_address_def sample_evm_def ZERO_ADDRESS_def)

lemma sample_zero_destination:
  "request_destination sample_sur (used_nonce sample_fwd ZERO_ADDRESS 0) ((sample_exec 0 data)\<lparr>xd_from := a\<rparr>) =
     Some sample_destination"
  using nonce_step(5) [OF sample_zero_nonce]
  by (simp add: request_destination_def sample_exec_def sample_fwd_fields(2) sample_not_zero)

lemma flow_nonce: "checkAndUpdateNonce sample_fwd alice 0 = Some (True, used_nonce sample_fwd alice 0)"
proof -
  have "nonce_channel 0 = 0" "nonce_number 0 = 0" by code_simp+
  then show ?thesis unfolding used_nonce_def by (simp add: checkAndUpdateNonce_def sample_fwd_fields)
qed


lemma sample_callers:
  "msg_sender (by_wallet w) \<noteq> lum_administrator sample_lum_env n"
  "length w = 20 \<Longrightarrow> appended_sender (msg_data (by_wallet w)) = w" "alice \<noteq> bob"
  by (simp_all add: by_wallet_def sample_forwarder_def sample_lum_env_def sample_admin_def appended_sender_def
      alice_def bob_def)

lemma sample_renamed:
  "\<exists>st' es. run_lum_call sample_evm sample_lum_env (by_wallet alice) (EnglishName alice ''d'') sample_manager = Some (st', es) \<and>
     lum_luws st' alice \<noteq> lum_luws sample_manager alice"
proof -
  have "case run_lum_calls sample_evm sample_manager_calls sample_manager0 of None \<Rightarrow> False
    | Some (st, _) \<Rightarrow> lu_englishName (lum_luws st alice) = ''c'' \<and> onlyWalletOrAdministrator sample_lum_env st (by_wallet alice) alice"
    by code_simp
  then have m: "lu_englishName (lum_luws sample_manager alice) = ''c''"
    "onlyWalletOrAdministrator sample_lum_env sample_manager (by_wallet alice) alice"
    by (simp_all only: sample_manager_runs(1) option.case prod.case)
  obtain st' where st': "run_lum_call sample_evm sample_lum_env (by_wallet alice) (EnglishName alice ''d'') sample_manager =
      Some (st', [UpdateLicensedUserDetail alice ''englishName'' ''d''])" "lu_englishName (lum_luws st' alice) = ''d''"
    using m sample_manager_runs(2) by (simp add: lum_setEnglishName_def)
  have "lu_englishName (lum_luws st' alice) \<noteq> lu_englishName (lum_luws sample_manager alice)"
    unfolding st'(2) m(1) by simp
  then have "lum_luws st' alice \<noteq> lum_luws sample_manager alice" by auto
  then show ?thesis using st'(1) by blast
qed

lemma sample_both_sign:
  "isValidSignatureSet sample_evm sample_manager alice h (concat [sample_signature bob, sample_signature carol]) =
     Some IS_VALID_SIG_SUCCESS"
proof (rule enough_signatures [OF sample_manager_ok sample_manager_runs(2,5)])
  note addr = sample_signature_address [OF bob_length, of h] sample_signature_address [OF carol_length, of h]
  show "\<forall>p \<in> set [sample_signature bob, sample_signature carol]. length p = 65"
    by (simp add: sample_signature_def bob_length carol_length)
  show "unat (lum_getThreshold sample_manager alice) \<le> length [sample_signature bob, sample_signature carol]"
    by (simp add: sample_manager_runs(6))
  have "toHex bob \<le> toHex carol" "bob \<noteq> carol" by code_simp+
  then have "be_nat bob < be_nat carol" by (rule hex_order [OF bob_length carol_length])
  then show "sorted_wrt (\<lambda>a b. be_nat a < be_nat b) (map (signature_address sample_evm h) [sample_signature bob, sample_signature carol])"
    by (simp add: addr)
  show "\<forall>p \<in> set [sample_signature bob, sample_signature carol].
      signature_address sample_evm h p \<in> set [bob, carol] \<and> length (signature_address sample_evm h p) = 20"
    by (simp add: addr bob_length carol_length)
qed simp

text \<open>The manager after the first call alone.\<close>

definition sample_single :: lum_state where
  "sample_single = fst (the (run_lum_calls sample_evm (take 1 sample_manager_calls) sample_manager0))"

lemma sample_single_evaluates:
  "case run_lum_calls sample_evm (take 1 sample_manager_calls) sample_manager0 of
     None \<Rightarrow> False
   | Some (st, es) \<Rightarrow> isActiveWallet st alice \<and> isSingleOwner st alice \<and> bob = lu_owner (lum_luws st alice) \<and>
       bob \<noteq> SENTINEL_OWNERS \<and> onlyWalletOrAdministrator sample_lum_env st (by_wallet alice) alice"
  by code_simp

lemma sample_single_facts:
  "isSingleOwner sample_single alice" "bob = lu_owner (lum_luws sample_single alice)"
  "isActiveWallet sample_single alice" "bob \<noteq> SENTINEL_OWNERS"
  "onlyWalletOrAdministrator sample_lum_env sample_single (by_wallet alice) alice"
  using sample_single_evaluates by (auto simp: sample_single_def split: option.splits prod.splits)

lemma sample_single_ok: "lum_ok sample_single"
proof -
  obtain es where "run_lum_calls sample_evm (take 1 sample_manager_calls) sample_manager0 = Some (sample_single, es)"
    using sample_single_evaluates by (auto simp: sample_single_def split: option.splits prod.splits)
  moreover have "calls_without_repeats sample_evm (take 1 sample_manager_calls) sample_manager0" by code_simp
  ultimately show ?thesis using calls_follow no_wallets_ok [OF sample_manager_fresh] by blast
qed

lemma flow_destination:
  assumes "encodeExecuteTransactionProps flow_ext flow_request sigs ty = Inr rsp"
  shows "request_destination sample_sur (used_nonce sample_fwd alice 0) (decoded_request (rsp_request rsp) 0) =
    Some sample_destination"
proof -
  obtain td where td: "buildTypedData flow_ext (newTypedDataBuilder 1 (toHex sample_this)) (requestTypeKey flow_request)
      (fromAddress flow_request) (JString (int_dec (uint (0 :: 256 word)))) (requestData flow_request) = Inr td"
    unfolding flow_request_def api_request.simps using flow_built by blast
  have "fromAddress flow_request = toHex alice" "length alice = 20" by (simp_all add: flow_request_def alice_def)
  from signed_struct(2) [OF flow_documented flow_omitBy flow_clean this td assms]
  have "xd_typeHash (decoded_request (rsp_request rsp) 0) = sample_type"
    by (simp add: sample_type_def flow_request_def)
  then show ?thesis
    using nonce_step(5) [OF flow_nonce] by (simp add: request_destination_def sample_fwd_fields(2) sample_not_zero)
qed

text \<open>A request of the sample wallet is executed.\<close>

lemma sample_wallet_executed:
  "\<exists>h. mtf_executeTransactionLUW sample_evm sample_sur (\<lambda>d c st. Some st) ((sample_exec 0 [9])\<lparr>xd_from := alice\<rparr>)
     (concat [sample_signature bob, sample_signature carol]) sample_fwd =
     Some (used_nonce sample_fwd alice 0, [ExecutionSuccess h])"
proof -
  let ?r = "(sample_exec 0 [9])\<lparr>xd_from := alice\<rparr>"
  have valid: "signatures_ok sample_evm sample_sur st ?r (concat [sample_signature bob, sample_signature carol]) False h"
    for st h
    using sample_both_sign [of h] unfolding signatures_ok_def sample_sur_def by simp
  have d: "request_destination sample_sur (used_nonce sample_fwd alice 0) ?r = Some sample_destination"
    using nonce_step(5) [OF flow_nonce]
    by (simp add: request_destination_def sample_exec_def sample_fwd_fields(2) sample_not_zero)
  have t: "fs_typeHashes sample_fwd (xd_typeHash ?r)" "fs_typeHashes (used_nonce sample_fwd alice 0) (xd_typeHash ?r)"
    using nonce_step(4) [OF flow_nonce] by (simp_all add: sample_exec_def sample_fwd_fields(1))
  have n: "checkAndUpdateNonce sample_fwd (xd_from ?r) (xd_nonce ?r) = Some (True, used_nonce sample_fwd alice 0)"
    using flow_nonce by (simp add: sample_exec_def)
  have "\<exists>c h. prepareExecution sample_evm sample_sur ?r (concat [sample_signature bob, sample_signature carol]) False sample_fwd =
      Some (used_nonce sample_fwd alice 0, sample_destination, c, h)"
    unfolding prepareExecution_def n using t valid d by (simp add: encodeRequest_def Let_def)
  then show ?thesis
    unfolding mtf_executeTransactionLUW_def executeTransactionInternal_def executeCall_def using t(1) by auto
qed

end
