(* ===== verification/Inspect.thy ===== *)
theory Inspect
  imports AdminScripts
begin

text \<open>
  The scripts that read the contracts: \<open>startrail-info.ts\<close>, \<open>lum-get.js\<close> and \<open>srr-get.js\<close>, with what they
  print as their result, and \<open>tx-resend.js\<close>, with the transaction it sends again. Reads do not change
  the chain. The loop over the custom history types may not end, so its result is an option.
\<close>

section \<open>Records of arrays\<close>

text \<open>ethers decodes a tuple to an array; an element beyond its end is undefined.\<close>

fun element :: "js_val option \<Rightarrow> nat \<Rightarrow> js_error + js_val option" where
  "element (Some (JArray vs)) i = Inr (if i < length vs then Some (vs ! i) else None)"
| "element _ _ = Inl TypeError"

definition licensedUserArrayToRecord :: "js_val \<Rightarrow> js_error + js_val option obj" where
  "licensedUserArrayToRecord luwArray =
     map_res (\<lambda>(key, i). bindr (element (Some luwArray) i) (\<lambda>v. Inr (key, v)))
       [(''owners'', 0), (''threshold'', 1), (''active'', 2), (''userType'', 3), (''englishName'', 4),
        (''originalName'', 5)]"

definition srrArrayToRecord :: "js_val \<Rightarrow> js_error + js_val option obj" where
  "srrArrayToRecord srrArray =
     bindr (element (Some srrArray) 0) (\<lambda>srr.
     bindr (element srr 0) (\<lambda>isPrimaryIssuer.
     bindr (element srr 1) (\<lambda>artistAddress.
     bindr (element srr 2) (\<lambda>issuer.
     bindr (element (Some srrArray) 1) (\<lambda>metadataDigest.
       Inr [(''isPrimaryIssuer'', isPrimaryIssuer), (''artistAddress'', artistAddress), (''issuer'', issuer),
            (''metadataDigest'', metadataDigest)])))))"

definition lumGet :: "'c hre \<Rightarrow> string list \<Rightarrow> ('c world, js_val option obj) act" where
  "lumGet hre argv =
     andThen (usage 1 argv) (\<lambda>_.
     andThen (getContract hre ''LicensedUserManager'') (\<lambda>licensedUserManager.
     andThen (view_call hre licensedUserManager ''getLicensedUser'' [arg argv 0]) (\<lambda>luw.
       from_result (licensedUserArrayToRecord luw))))"

definition srrGet :: "'c hre \<Rightarrow> string list \<Rightarrow> ('c world, js_val option obj) act" where
  "srrGet hre argv =
     andThen (usage 1 argv) (\<lambda>_.
     andThen (getContract hre ''StartrailRegistry'') (\<lambda>sr.
     andThen (view_call hre sr ''getSRR'' [arg argv 0]) (\<lambda>srr.
     andThen (from_result (srrArrayToRecord srr)) (\<lambda>srrRecord.
     andThen (view_call hre sr ''ownerOf'' [arg argv 0]) (\<lambda>owner.
     andThen (view_call hre sr ''getSRRCommitment'' [arg argv 0]) (\<lambda>commitment.
     andThen (view_call hre sr ''tokenURI(uint256)'' [arg argv 0]) (\<lambda>tokenURI_byId.
     andThen (view_call hre sr ''tokenURI(string)'' [the (obj_get srrRecord ''metadataDigest'')]) (\<lambda>tokenURI_byDigest.
       ret (obj_spread srrRecord
         [(''owner'', Some owner), (''commitment'', Some commitment), (''tokenURI_byId'', Some tokenURI_byId),
          (''tokenURI_byDigest'', Some tokenURI_byDigest)])))))))))"

section \<open>startrail-info.ts\<close>

definition nameRegistryInfo :: "'c hre \<Rightarrow> ('c world, (int \<times> string \<times> js_val) list) act" where
  "nameRegistryInfo hre =
     andThen (getContract hre ''NameRegistry'') (\<lambda>nr.
       map_act (\<lambda>(idx, label). andThen (view_call hre nr ''get'' [Some (JNumber idx)]) (\<lambda>addr.
           ret (idx, label, addr)))
         [(1, ''Administrator''), (2, ''AdminProxy''), (3, ''LicensedUserManager''), (4, ''StartrailRegistry''),
          (5, ''BulkIssue''), (6, ''MetaTxForwarder''), (7, ''BulkTransfer'')])"

definition adminInfo :: "'c hre \<Rightarrow> ('c world, string list \<times> js_val) act" where
  "adminInfo hre =
     andThen (getAdministratorInstance hre) (\<lambda>admin.
     andThen (view_call hre (adm_contract admin) ''getOwners'' []) (\<lambda>v.
     andThen (from_result (as_strings v)) (\<lambda>owners.
     andThen (view_call hre (adm_contract admin) ''nonce'' []) (\<lambda>nonce.
       ret (sort owners, nonce)))))"

text \<open>A lookup that fails leaves no result; a selector of zeros means that the type is not registered.\<close>

definition lookupRequestType ::
  "'c hre \<Rightarrow> contract \<Rightarrow> meta_tx_request obj \<Rightarrow> string \<Rightarrow> ('c world, (string \<times> js_val) list) act" where
  "lookupRequestType hre mtf requests key = (\<lambda>w.
     case obj_get requests key of
       None \<Rightarrow> (Inl TypeError, w)
     | Some r \<Rightarrow>
         (Inr (case hre_call hre mtf ''requestTypes'' [Some (JString (eip712TypeHash r))] (chain w) of
                 Inl _ \<Rightarrow> [] | Inr details \<Rightarrow> [(key, details)]), w))"

fun requestTypeInfo :: "string \<times> js_val \<Rightarrow> js_error + string \<times> (string \<times> string) option" where
  "requestTypeInfo (key, JArray (JString destAddr # JString destFn # _)) =
     Inr (key, if destFn \<noteq> ''0x00000000'' then Some (take 7 destAddr, destFn) else None)"
| "requestTypeInfo _ = Inl TypeError"

definition requestTypesInfo ::
  "'c hre \<Rightarrow> contract \<Rightarrow> meta_tx_request obj \<Rightarrow> string list
     \<Rightarrow> ('c world, (string \<times> (string \<times> string) option) list) act" where
  "requestTypesInfo hre mtf requests keys =
     andThen (map_act (lookupRequestType hre mtf requests) keys) (\<lambda>results.
       from_result (map_res requestTypeInfo (concat results)))"

definition mtfInfo :: "ext \<Rightarrow> 'c hre \<Rightarrow> ('c world, (string \<times> (string \<times> string) option) list) act" where
  "mtfInfo x hre =
     andThen (getContract hre ''MetaTxForwarder'') (\<lambda>mtf.
     andThen (from_result (metaTxRequests x)) (\<lambda>requests.
     andThen (map_act (requestTypesInfo hre mtf requests) (chunk 5 (obj_keys requests))) (\<lambda>infos.
       ret (concat infos))))"

text \<open>The custom history types are numbered from 1; the first empty name ends the list.\<close>

partial_function (option) historyTypes_loop ::
  "(int \<Rightarrow> js_error + string) \<Rightarrow> int \<Rightarrow> (int \<times> string) list \<Rightarrow> (js_error + (int \<times> string) list) option" where
  "historyTypes_loop nameById custHistId types =
     (case nameById custHistId of
        Inl e \<Rightarrow> Some (Inl e)
      | Inr custHistName \<Rightarrow>
          if custHistName = [] then Some (Inr types)
          else historyTypes_loop nameById (custHistId + 1) (types @ [(custHistId, custHistName)]))"

definition customHistoryTypeNameById :: "'c hre \<Rightarrow> contract \<Rightarrow> 'c world \<Rightarrow> int \<Rightarrow> js_error + string" where
  "customHistoryTypeNameById hre sr w custHistId =
     bindr (hre_call hre sr ''customHistoryTypeNameById'' [Some (JNumber custHistId)] (chain w)) as_string"

definition customHistoryTypes ::
  "'c hre \<Rightarrow> contract \<Rightarrow> 'c world \<Rightarrow> (js_error + (int \<times> string) list) option" where
  "customHistoryTypes hre sr w = historyTypes_loop (customHistoryTypeNameById hre sr w) 1 []"

record sr_info =
  si_nameRegistryAddress :: js_val
  si_trustedForwarder :: js_val
  si_name :: js_val
  si_symbol :: js_val
  si_contractURI :: "js_val option"
  si_owner :: js_val
  si_tokenURIs :: "js_val list"
  si_historyTypes :: "(int \<times> string) list"

text \<open>What \<open>srInfo\<close> reads before the custom history types.\<close>

definition srProperties :: "'c hre \<Rightarrow> contract \<Rightarrow> 'c \<Rightarrow> js_error + sr_info" where
  "srProperties hre sr c =
     (let call = (\<lambda>fn args. hre_call hre sr fn args c)
      in bindr (call ''nameRegistryAddress'' []) (\<lambda>nameRegistryAddress.
         bindr (call ''getTrustedForwarder'' []) (\<lambda>trustedForwarder.
         bindr (call ''name'' []) (\<lambda>name.
         bindr (call ''symbol'' []) (\<lambda>symbol.
         let contractURI = (case call ''contractURI'' [] of Inl _ \<Rightarrow> None | Inr v \<Rightarrow> Some v)
         in bindr (call ''owner'' []) (\<lambda>owner.
            bindr (if hre_network hre = ''polygon''
                   then map_res (\<lambda>(fn, a). call fn [Some (JString a)])
                     [(''tokenURI(uint256)'', ''36491769''),
                      (''tokenURI(string)'', ''0x9300d0065e82c9cde4763976f80e50389cedd185cd3bce390411df00f38ab5e5'')]
                   else Inr []) (\<lambda>tokenURIs.
              Inr \<lparr>si_nameRegistryAddress = nameRegistryAddress, si_trustedForwarder = trustedForwarder,
                   si_name = name, si_symbol = symbol, si_contractURI = contractURI, si_owner = owner,
                   si_tokenURIs = tokenURIs, si_historyTypes = []\<rparr>)))))))"

definition srInfo :: "'c hre \<Rightarrow> 'c world \<Rightarrow> (js_error + sr_info) option" where
  "srInfo hre w =
     (case getContract hre ''StartrailRegistry'' w of
        (Inl e, _) \<Rightarrow> Some (Inl e)
      | (Inr sr, w') \<Rightarrow>
          (case srProperties hre sr (chain w') of
             Inl e \<Rightarrow> Some (Inl e)
           | Inr info \<Rightarrow>
               map_option (\<lambda>r. bindr r (\<lambda>types. Inr (info\<lparr>si_historyTypes := types\<rparr>)))
                 (customHistoryTypes hre sr w')))"

definition featureRegistryInfo :: "'c hre \<Rightarrow> ('c world, js_val) act" where
  "featureRegistryInfo hre =
     andThen (getContract hre ''StartrailCollectionFeatureRegistry'') (\<lambda>fr. view_call hre fr ''facets'' [])"

definition collectionFactoryInfo :: "'c hre \<Rightarrow> ('c world, js_val) act" where
  "collectionFactoryInfo hre =
     andThen (getContract hre ''CollectionFactory'') (\<lambda>cf. view_call hre cf ''owner'' [])"

record startrail_info =
  inf_deployment :: "string obj"
  inf_nameRegistry :: "(int \<times> string \<times> js_val) list"
  inf_admin :: "string list \<times> js_val"
  inf_requestTypes :: "(string \<times> (string \<times> string) option) list"
  inf_facets :: js_val
  inf_registry :: sr_info
  inf_collectionFactory :: js_val

text \<open>The sections of the report in their order; the first that fails ends it, and it never ends if
  the list of the custom history types does not.\<close>

definition startrailInfo :: "ext \<Rightarrow> 'c hre \<Rightarrow> 'c world \<Rightarrow> (js_error + startrail_info) option" where
  "startrailInfo x hre w =
     (case andThen (loadDeployJSON hre) (\<lambda>deployment.
           andThen (nameRegistryInfo hre) (\<lambda>nr.
           andThen (adminInfo hre) (\<lambda>admin.
           andThen (mtfInfo x hre) (\<lambda>mtf.
           andThen (featureRegistryInfo hre) (\<lambda>fr. ret (deployment, nr, admin, mtf, fr)))))) w of
        (Inl e, _) \<Rightarrow> Some (Inl e)
      | (Inr (deployment, nr, admin, mtf, fr), w') \<Rightarrow>
          map_option (\<lambda>r. bindr r (\<lambda>sr. bindr (fst (collectionFactoryInfo hre w')) (\<lambda>cf.
              Inr \<lparr>inf_deployment = deployment, inf_nameRegistry = nr, inf_admin = admin,
                   inf_requestTypes = mtf, inf_facets = fr, inf_registry = sr, inf_collectionFactory = cf\<rparr>)))
            (srInfo hre w'))"

section \<open>tx-resend.js\<close>

record sent_tx =
  st_from :: string
  st_to :: "string option"
  st_data :: string
  st_nonce :: int

record resend_request = sent_tx +
  rr_maxFeePerGas :: int
  rr_maxPriorityFeePerGas :: int
  rr_value :: string

text \<open>The fees are in wei, the limits in units of 10^9 wei; a chain without fee data, and a transaction
  that is not found, throw. \<open>answer\<close> is what the user types.\<close>

definition txResend ::
  "int option \<times> int option \<Rightarrow> (string \<Rightarrow> sent_tx option) \<Rightarrow> string \<Rightarrow> string list \<Rightarrow> js_error + resend_request" where
  "txResend feeData getTransaction answer argv =
     (if length argv < 1 then Inl (ProcessExit (- 1))
      else bindr (defined_or_throw (fst feeData)) (\<lambda>maxFeePerGas.
           bindr (defined_or_throw (snd feeData)) (\<lambda>maxPriorityFeePerGas.
             if maxFeePerGas \<le> 0 \<or> 200 * 10 ^ 9 \<le> maxFeePerGas then Inl (ProcessExit (- 1))
             else if maxPriorityFeePerGas \<le> 0 \<or> 200 * 10 ^ 9 \<le> maxPriorityFeePerGas
                     \<or> maxFeePerGas \<le> maxPriorityFeePerGas
             then Inl (ProcessExit (- 1))
             else bindr (defined_or_throw (getTransaction (argv ! 0))) (\<lambda>tx.
               if answer \<noteq> ''yes'' then Inl (ProcessExit 1)
               else Inr \<lparr>st_from = st_from tx, st_to = st_to tx, st_data = st_data tx, st_nonce = st_nonce tx,
                         rr_maxFeePerGas = maxFeePerGas, rr_maxPriorityFeePerGas = maxPriorityFeePerGas,
                         rr_value = ''0x0''\<rparr>))))"

section \<open>When the list of custom history types ends\<close>

text \<open>\<open>names\<close> are the names of the types from \<open>k\<close> on.\<close>

fun named_from :: "(int \<Rightarrow> js_error + string) \<Rightarrow> int \<Rightarrow> string list \<Rightarrow> bool" where
  "named_from nameById k [] = True"
| "named_from nameById k (name # names) \<longleftrightarrow>
     nameById k = Inr name \<and> name \<noteq> [] \<and> named_from nameById (k + 1) names"

fun numbered :: "int \<Rightarrow> string list \<Rightarrow> (int \<times> string) list" where
  "numbered k [] = []"
| "numbered k (name # names) = (k, name) # numbered (k + 1) names"

lemma loop_names:
  assumes "named_from f k names"
  shows "historyTypes_loop f k acc = historyTypes_loop f (k + int (length names)) (acc @ numbered k names)"
  using assms
proof (induction names arbitrary: k acc)
  case (Cons n ns)
  have "historyTypes_loop f k acc = historyTypes_loop f (k + 1) (acc @ [(k, n)])"
    using Cons.prems by (simp add: historyTypes_loop.simps [of f k])
  then show ?case using Cons.IH [of "k + 1" "acc @ [(k, n)]"] Cons.prems by (simp add: add.assoc)
qed simp

lemma loop_ends:
  assumes "historyTypes_loop f k acc = Some r"
  shows "\<exists>names. named_from f k names \<and>
    ((\<exists>e. f (k + int (length names)) = Inl e \<and> r = Inl e) \<or>
     f (k + int (length names)) = Inr [] \<and> r = Inr (acc @ numbered k names))"
    (is "?P f k acc r")
  using assms
proof (rule historyTypes_loop.raw_induct [where P = ?P, rotated])
  fix loop :: "(int \<Rightarrow> js_error + string) \<Rightarrow> int \<Rightarrow> (int \<times> string) list \<Rightarrow> (js_error + (int \<times> string) list) option"
  fix f k acc r
  assume IH: "\<And>f k acc r. loop f k acc = Some r \<Longrightarrow> ?P f k acc r"
    and step: "(case f k of Inl e \<Rightarrow> Some (Inl e)
      | Inr n \<Rightarrow> if n = [] then Some (Inr acc) else loop f (k + 1) (acc @ [(k, n)])) = Some r"
  show "?P f k acc r"
  proof (cases "\<exists>n. f k = Inr n \<and> n \<noteq> []")
    case True
    then obtain n where n: "f k = Inr n" "n \<noteq> []" by blast
    then have "loop f (k + 1) (acc @ [(k, n)]) = Some r" using step by simp
    from IH [OF this] obtain ns where "named_from f (k + 1) ns"
      "(\<exists>e. f (k + 1 + int (length ns)) = Inl e \<and> r = Inl e) \<or>
       f (k + 1 + int (length ns)) = Inr [] \<and> r = Inr ((acc @ [(k, n)]) @ numbered (k + 1) ns)" by blast
    then show ?thesis using n by (intro exI [of _ "n # ns"]) (simp add: add.assoc)
  next
    case False
    then show ?thesis using step by (intro exI [of _ "[]"]) (auto split: sum.splits if_splits)
  qed
qed

lemma loop_Inr:
  "historyTypes_loop f k [] = Some (Inr types) \<longleftrightarrow>
    (\<exists>names. named_from f k names \<and> f (k + int (length names)) = Inr [] \<and> types = numbered k names)"
proof
  assume "historyTypes_loop f k [] = Some (Inr types)"
  from loop_ends [OF this]
  show "\<exists>names. named_from f k names \<and> f (k + int (length names)) = Inr [] \<and> types = numbered k names" by auto
next
  assume "\<exists>names. named_from f k names \<and> f (k + int (length names)) = Inr [] \<and> types = numbered k names"
  then obtain names where n: "named_from f k names" "f (k + int (length names)) = Inr []" "types = numbered k names"
    by blast
  show "historyTypes_loop f k [] = Some (Inr types)"
    using loop_names [OF n(1), of "[]"] n(2,3) by (simp add: historyTypes_loop.simps [of f "k + int (length names)"])
qed

lemma named_nth: "named_from f k names \<Longrightarrow> i < length names \<Longrightarrow> f (k + int i) = Inr (names ! i) \<and> names ! i \<noteq> []"
proof (induction names arbitrary: k i)
  case (Cons n ns)
  show ?case
  proof (cases i)
    case (Suc j)
    then show ?thesis using Cons.IH [of "k + 1" j] Cons.prems by (simp add: add.assoc)
  qed (use Cons.prems in simp)
qed simp

lemma named_snoc: "named_from f k (ns @ [n]) \<longleftrightarrow> named_from f k ns \<and> f (k + int (length ns)) = Inr n \<and> n \<noteq> []"
  by (induction ns arbitrary: k) (auto simp: add.assoc)

lemma loop_None:
  "historyTypes_loop f k [] = None \<longleftrightarrow> (\<forall>n. \<exists>names. length names = n \<and> named_from f k names)"
proof
  assume none: "historyTypes_loop f k [] = None"
  show "\<forall>n. \<exists>names. length names = n \<and> named_from f k names"
  proof
    fix n
    show "\<exists>names. length names = n \<and> named_from f k names"
    proof (induction n)
      case (Suc n)
      then obtain ns where ns: "length ns = n" "named_from f k ns" by blast
      have "historyTypes_loop f (k + int n) (numbered k ns) = None" using loop_names [OF ns(2), of "[]"] none ns(1) by simp
      then obtain m where "f (k + int n) = Inr m" "m \<noteq> []"
        by (auto simp: historyTypes_loop.simps [of f "k + int n"] split: sum.splits if_splits)
      then show ?case using ns by (intro exI [of _ "ns @ [m]"]) (simp add: named_snoc)
    qed simp
  qed
next
  assume all: "\<forall>n. \<exists>names. length names = n \<and> named_from f k names"
  show "historyTypes_loop f k [] = None"
  proof (rule ccontr)
    assume "historyTypes_loop f k [] \<noteq> None"
    then obtain r where "historyTypes_loop f k [] = Some r" by blast
    from loop_ends [OF this] obtain ns where ns: "named_from f k ns"
      "(\<exists>e. f (k + int (length ns)) = Inl e) \<or> f (k + int (length ns)) = Inr []" by blast
    from all obtain ms where "length ms = Suc (length ns)" "named_from f k ms" by blast
    then show False using named_nth [of f k ms "length ns"] ns(2) by auto
  qed
qed

section \<open>The report covers every request type\<close>

text \<open>Looking the types up in chunks reports what looking them all up at once does.\<close>

definition found ::
  "'c hre \<Rightarrow> contract \<Rightarrow> meta_tx_request obj \<Rightarrow> 'c \<Rightarrow> string list \<Rightarrow> (string \<times> js_val) list" where
  "found hre mtf requests c keys =
     concat (map (\<lambda>key. case hre_call hre mtf ''requestTypes''
         [Some (JString (eip712TypeHash (the (obj_get requests key))))] c of
           Inl _ \<Rightarrow> [] | Inr details \<Rightarrow> [(key, details)]) keys)"

lemma lookups_found:
  "set keys \<subseteq> set (obj_keys requests) \<Longrightarrow>
   andThen (map_act (lookupRequestType hre mtf requests) keys) (\<lambda>rs. ret (concat rs)) w =
     (Inr (found hre mtf requests (chain w) keys), w)"
proof (induction keys)
  case (Cons k ks)
  then obtain r where r: "obj_get requests k = Some r" using obj_get_None_iff [of requests k] by auto
  obtain rs where m: "map_act (lookupRequestType hre mtf requests) ks w = (Inr rs, w)"
      and c: "concat rs = found hre mtf requests (chain w) ks"
    using Cons by (auto simp: andThen_def ret_def throw_def split: prod.splits sum.splits)
  have f: "found hre mtf requests (chain w) (k # ks) = found hre mtf requests (chain w) [k] @ concat rs"
    unfolding c by (simp add: found_def)
  have "lookupRequestType hre mtf requests k w = (Inr (found hre mtf requests (chain w) [k]), w)"
    using r by (simp add: lookupRequestType_def found_def)
  then show ?case using m unfolding f by (simp add: andThen_def ret_def)
qed (simp add: andThen_def ret_def found_def)

lemma requestTypesInfo_found:
  assumes "set keys \<subseteq> set (obj_keys requests)"
  shows "requestTypesInfo hre mtf requests keys w =
    (map_res requestTypeInfo (found hre mtf requests (chain w) keys), w)"
  using lookups_found [OF assms, of hre mtf w]
  by (auto simp: requestTypesInfo_def andThen_def ret_def throw_def split: prod.splits sum.splits)

lemma chunks_found:
  "list_all (\<lambda>keys. set keys \<subseteq> set (obj_keys requests)) kss \<Longrightarrow>
   andThen (map_act (requestTypesInfo hre mtf requests) kss) (\<lambda>infos. ret (concat infos)) w =
     (map_res requestTypeInfo (found hre mtf requests (chain w) (concat kss)), w)"
proof (induction kss)
  case (Cons ks kss)
  have f: "found hre mtf requests (chain w) (ks @ concat kss) =
      found hre mtf requests (chain w) ks @ found hre mtf requests (chain w) (concat kss)"
    by (simp add: found_def)
  have IH: "andThen (map_act (requestTypesInfo hre mtf requests) kss) (\<lambda>infos. ret (concat infos)) w =
      (map_res requestTypeInfo (found hre mtf requests (chain w) (concat kss)), w)" by (rule Cons.IH) (use Cons.prems in simp)
  have ks: "requestTypesInfo hre mtf requests ks w = (map_res requestTypeInfo (found hre mtf requests (chain w) ks), w)"
    using Cons.prems by (simp add: requestTypesInfo_found)
  obtain r w' where m: "map_act (requestTypesInfo hre mtf requests) kss w = (r, w')" by fastforce
  have w': "w' = w" and r: "bindr r (\<lambda>infos. Inr (concat infos)) =
      map_res requestTypeInfo (found hre mtf requests (chain w) (concat kss))"
    using IH unfolding andThen_def m by (auto simp: ret_def split: sum.splits)
  show ?case
    by (cases r; cases "map_res requestTypeInfo (found hre mtf requests (chain w) ks)")
      (simp_all add: f map_res_append andThen_def ret_def ks m w' flip: r)
qed (simp add: andThen_def ret_def found_def)

lemma mtfInfo_found:
  assumes "getContract hre ''MetaTxForwarder'' w = (Inr mtf, w)" and "metaTxRequests x = Inr requests"
  shows "mtfInfo x hre w = (map_res requestTypeInfo (found hre mtf requests (chain w) (obj_keys requests)), w)"
proof -
  have "list_all (\<lambda>keys. set keys \<subseteq> set (obj_keys requests)) (chunk 5 (obj_keys requests))"
    using chunk_elements [of _ 5 "obj_keys requests" "\<lambda>k. k \<in> set (obj_keys requests)"]
    by (auto simp: list_all_iff)
  from chunks_found [OF this, of hre mtf w] show ?thesis
    using assms concat_chunk [of 5 "obj_keys requests"]
    by (simp add: mtfInfo_def andThen_def [of "getContract hre ''MetaTxForwarder''"])
qed

end
