(* ===== verification/FurtherFacts.thy ===== *)
theory FurtherFacts
  imports ContractSamples Inspect
begin

text \<open>
  Further facts about the components, each applied to a concrete input: gaps of the handlers of the
  subgraph, owners of wallets and leaves of batches, joined signatures, versions, features and
  networks of the deployment, and the report of custom history types.
\<close>

text \<open>A transfer of a token the subgraph never saw, other than a mint, leaves an SRR without the
  creation time the schema requires.\<close>

theorem unseen_transfer_breaks_schema:
  assumes "srrs s (srrEntityId h (ev_address ev) tok) = None" and "from \<noteq> ZERO_ADDRESS"
    and "handleTransfer h ev from to tok s = Inr s'"
  shows "\<not> wf_store s'"
  by (rule unseen_transfer(2) [OF assms])

theorem unseen_transfer_breaks_schema_witness: "\<not> wf_store sample_unseen"
  by (rule unseen_transfer_breaks_schema [OF empty_no_srr bob_not_zero sample_unseen_transfer])

text \<open>A CreateSRR event of the registry aborts the subgraph with a null reference exactly when no
  transfer of the token was indexed before, in each of its three forms, while the same event of a
  collection is logged and ignored.\<close>

theorem create_srr_needs_transfer:
  assumes "valid_time (eventUTCMillis ev)"
  shows "(handleCreateSRR h ev tok rr d s = Inl NullReference) =
      (srrs s (srrEntityId h (ev_address ev) tok) = None) \<and>
    (handleCreateSRRWithLockExternalTransfer h ev tok rr d l s = Inl NullReference) =
      (srrs s (srrEntityId h (ev_address ev) tok) = None) \<and>
    (handleCreateSRRWithCID h ev tok rr c l s = Inl NullReference) =
      (srrs s (srrEntityId h (ev_address ev) tok) = None) \<and>
    (collection_handleCreateSRR h ev tok rr c l s = Inr s \<or>
      is_set (srrs s (srrEntityId h (ev_address ev) tok)))"
  by (intro conjI create_null_iff [OF assms])

theorem create_srr_needs_transfer_witness:
  "handleCreateSRRWithCID sample_host (sample_event 9) 6
     \<lparr>rr_isPrimaryIssuer = True, rr_artistAddress = alice, rr_issuer = bob\<rparr> ''cid'' False empty_store = Inl NullReference"
  using create_srr_needs_transfer [OF sample_valid, of sample_host 6
      "\<lparr>rr_isPrimaryIssuer = True, rr_artistAddress = alice, rr_issuer = bob\<rparr>" "[]" empty_store False "''cid''"]
  by (simp add: empty_no_srr)

text \<open>An approval of a collection's token with a custom history loses the sender the event
  carries: a new commitment entity has no sender, while the approval without a custom history
  records it.\<close>

theorem custom_history_approval_loses_sender:
  assumes "srrs s (srrEntityId h (ev_address ev) tok) = Some e"
    and "transferCommits s (srrEntityId h (ev_address ev) tok) = None"
    and "collection_handleSRRCommitmentWithCustomHistory h ev tok c ch sender s = Inr s1"
    and "collection_handleSRRCommitment h ev tok c sender s = Inr s2"
  shows "map_option tc_sender (transferCommits s1 (srrEntityId h (ev_address ev) tok)) = Some None \<and>
    map_option tc_sender (transferCommits s2 (srrEntityId h (ev_address ev) tok)) = Some (Some sender)"
  using commitment_sender [OF assms(1,2) assms(3) [unfolded delegates]]
    commitment_sender [OF assms(1,2) assms(4) [unfolded delegates]] by simp

theorem custom_history_approval_loses_sender_witness:
  "map_option tc_sender (transferCommits sample_approved1 sample_token2) = Some None \<and>
   map_option tc_sender (transferCommits sample_approved2 sample_token2) = Some (Some carol)"
  using custom_history_approval_loses_sender [OF sample_minted_known [unfolded sample_token2_def]
      sample_minted_tc sample_approvals] unfolding sample_token2_def .

text \<open>Adding an owner a wallet does not have and removing it again leaves every wallet with the
  owners, in their order, and the threshold it had.\<close>

theorem added_owner_removed:
  assumes "wf_wallets s" and "wallets_of s (toHex w) = Some (os, th)" and "a \<notin> set os"
    and "handleAddedOwner ev w a s = Inr s1" and "handleRemovedOwner ev' w a s1 = Inr s2"
  shows "wallets_of s2 = wallets_of s"
proof -
  note one = ensuresD [OF luw_refines [OF assms(1), of "AddedOwner w a" undefined ev, simplified] assms(4)]
  have "wf_wallets s1" using one by simp
  from ensuresD [OF luw_refines [OF this, of "RemovedOwner w a" undefined ev', simplified] assms(5)] one assms(2,3)
  show ?thesis by (simp add: remove1_append fun_upd_idem)
qed

theorem added_owner_removed_witness: "wallets_of sample_removed = wallets_of sample_store"
  by (rule added_owner_removed [OF sample_wallets(2,1) _ sample_owner_steps])
    (simp add: alice_def bob_def carol_def)

text \<open>The subgraph follows the contract that keeps the owners of licensed user wallets: whatever
  sequence of calls adds, removes, swaps owners or changes the threshold, the events it emits lead
  the subgraph from a wallet with the same owners and threshold to one with the owners that
  getOwners returns then, in some order, and with the threshold of the contract.\<close>

theorem wallet_owners_agree:
  assumes "owner_list ow os" and "run_calls wa cs ow = Some (ow', es)" and "wf_wallets s"
    and "wallets_of s (toHex wa) = Some (xs, uint (ow_threshold ow))" and "mset xs = mset os"
    and "length evs = length es" and "run_subgraph h (zip evs (map LicensedUserManager es)) s = Inr s'"
  shows "\<exists>xs' os'. wallets_of s' (toHex wa) = Some (xs', uint (ow_threshold ow')) \<and>
    getOwners ow' = Some os' \<and> mset xs' = mset os'"
proof -
  obtain os' xs' where calls: "owner_list ow' os'" "mset xs' = mset os'"
      "foldl (\<lambda>W e. wallet_step e W) (wallets_of s) es =
       (wallets_of s)(toHex wa \<mapsto> (xs', uint (ow_threshold ow')))"
    using calls_agree [where W = "wallets_of s", OF assms(2,1,4,5)] by blast
  have "wallets_of s' = (wallets_of s)(toHex wa \<mapsto> (xs', uint (ow_threshold ow')))"
    using ensuresD [OF wallets_run [OF assms(3)] assms(7)] calls(3)
    by (simp add: wallet_events [OF assms(6)])
  then show ?thesis using calls(1,2) getOwners_list by (auto simp: owner_list_def)
qed

theorem wallet_owners_agree_witness:
  "\<exists>ow' es s' xs'. run_calls alice [RemoveOwner carol bob 1] sample_owner_wallet = Some (ow', es) \<and>
     wallets_of s' (toHex alice) = Some (xs', uint (ow_threshold ow')) \<and> getOwners ow' = Some [carol] \<and>
     mset xs' = {#carol#}"
proof -
  have "(1 :: 8 word) \<le> ow_count sample_owner_wallet - 1"
    using sample_setup by (auto simp: setupOwners_def sample_owners_def split: if_splits dest!: arg_cong [of _ _ ow_count])
  from removal_accepted [OF sample_owner_list sample_owners_distinct(3) _ this, of alice]
  obtain pre post ow' es where r: "sample_owners = pre @ bob # post" "bob \<notin> set pre"
      "removeOwner alice (last (SENTINEL_OWNERS # pre)) bob 1 sample_owner_wallet = Some (ow', es)" by auto
  have "pre = [carol]" using r(1,2) by (cases pre) (auto simp: sample_owners_def carol_def bob_def Cons_eq_append_conv)
  then have call: "run_calls alice [RemoveOwner carol bob 1] sample_owner_wallet = Some (ow', es)"
    using r(3) by simp
  note rem = removeOwner_list [OF sample_owner_list r(3)]
  have "\<exists>s'. run_subgraph sample_host (zip (replicate (length es) (sample_event 2)) (map LicensedUserManager es))
      sample_lum_store = Inr s'"
    using rem by (intro wallet_events_run conjunct2 [OF sample_creation_run])
      (auto simp: list_all_iff valid_time_def date_limit_def eventUTCMillis_def secondsToMillis_def sample_event_def)
  then obtain s' where "run_subgraph sample_host
      (zip (replicate (length es) (sample_event 2)) (map LicensedUserManager es)) sample_lum_store = Inr s'" by blast
  from wallet_owners_agree [OF sample_owner_list call sample_lum_wallets(1) _ refl _ this]
  obtain xs' os' where o: "wallets_of s' (toHex alice) = Some (xs', uint (ow_threshold ow'))"
      "getOwners ow' = Some os'" "mset xs' = mset os'"
    using sample_lum_wallets(2) by (auto simp: sample_owner_threshold)
  have "getOwners ow' = Some [carol]"
    using rem getOwners_list [of ow' "[carol]"]
    by (simp add: owner_list_def sample_owners_def carol_def bob_def)
  then show ?thesis using call o by auto
qed

text \<open>Migrating a batch records every processed leaf under its Merkle root, keeps the token
  identifier a leaf already had, touches no other leaf and stores the issuer with the batch.\<close>

theorem migrated_batch_has_leaves:
  assumes "handleMigrateBatch root ls issuer t u s = Inr s'"
  shows "list_all (\<lambda>l. leaf_of (toHex root) l (leaf_token s (toHex l)) s') ls \<and>
    (\<forall>k. k \<in> toHex ` set ls \<or> bulkIssueSRRs s' k = bulkIssueSRRs s k) \<and>
    (\<exists>b. bulkIssues s' (toHex root) = Some b \<and> bi_issuer b = Some issuer)"
  using migrateBatch_leaves [OF assms] by (simp add: list_all_iff) blast

theorem migrated_batch_has_leaves_witness:
  "leaf_of (toHex [8]) [5] None sample_migrated \<and> leaf_of (toHex [8]) [6] None sample_migrated"
  using migrated_batch_has_leaves [OF sample_migration] by (simp add: leaf_token_def empty_store_def)

text \<open>The joined signatures are read back, 65 bytes at a time, as the signatures in their order.\<close>

theorem joined_signatures_split:
  assumes "strip_documented x" and "list_all (\<lambda>s. starts_with s ''0x'' \<and> length s = 132) sigs"
  shows "joinSignatures x sigs = ''0x'' @ concat (map (drop 2) sigs) \<and>
    split_every 130 (length sigs) (drop 2 (joinSignatures x sigs)) = map (drop 2) sigs"
proof -
  have m: "map (stripHexPrefix x) sigs = map (drop 2) sigs"
    using assms by (auto simp: strip_documented_def list_all_iff)
  have "\<forall>s \<in> set (map (drop 2) sigs). length s = 130" using assms(2) by (simp add: list_all_iff)
  from split_every_concat [OF this] show ?thesis
    unfolding joinSignatures_def m by simp
qed

theorem joined_signatures_split_witness:
  "split_every 130 2 (drop 2 (joinSignatures sample_ext
     [''0x'' @ replicate 130 (CHR ''a''), ''0x'' @ replicate 130 (CHR ''b'')])) =
   [replicate 130 (CHR ''a''), replicate 130 (CHR ''b'')]"
  using joined_signatures_split [OF sample_strip,
      of "[''0x'' @ replicate 130 (CHR ''a''), ''0x'' @ replicate 130 (CHR ''b'')]"]
  by (simp add: starts_with_def numeral_2_eq_2)

text \<open>The call for a single signer carries its signature unchanged, and is the call for a wallet
  with that one signature but for the method.\<close>

theorem single_signer_is_one_of_many:
  assumes "strip_documented x" and "starts_with sig ''0x''"
    and "executeTransactionEOA x request sig gasLimit gasPrice = Inr call"
  shows "call_signatures call = Some sig \<and> call_method call = ''executeTransactionEOA'' \<and>
    executeTransactionLUW x request [sig] gasLimit gasPrice =
      Inr (call\<lparr>call_method := ''executeTransactionLUW''\<rparr>)"
proof -
  obtain rsp where rsp: "encodeExecuteTransactionProps x request [sig] ''MultiSig'' = Inr rsp"
    using assms(3) by (auto simp: executeTransactionEOA_def)
  have "rsp_signatures rsp = Some sig"
    using encodeExecute_Inr [OF rsp] joinSignatures_single [OF assms(1,2)] by auto
  then show ?thesis
    using assms(3) rsp by (auto simp: executeTransactionEOA_def executeTransactionLUW_def)
qed

theorem single_signer_is_one_of_many_witness:
  "map_sum (\<lambda>e. e) call_signatures
     (executeTransactionEOA sample_ext sample_request ''0x12'' None None) = Inr (Some ''0x12'')"
proof -
  obtain call where call: "executeTransactionEOA sample_ext sample_request ''0x12'' None None = Inr call"
    using sample_execution [of "[''0x12'']"] by (auto simp: executeTransactionEOA_def succeeds_iff)
  show ?thesis
    using single_signer_is_one_of_many [OF sample_strip _ call] call by (simp add: starts_with_def)
qed

text \<open>Signing a transaction of the Administrator turns the recovery byte 27 or 28 of the
  signature into 31 or 32, which marks it as signed with a message prefix, and changes no other
  signature.\<close>

theorem safe_signature_marked:
  assumes "sign h = toHex (bs @ [v])"
  shows "signTxHash h sign = toHex (bs @ [if v = 27 \<or> v = 28 then v + 4 else v])"
  using assms by (rule signTxHash_v)

theorem safe_signature_marked_witness: "signTxHash ''m'' (\<lambda>m. toHex [1, 28]) = toHex [1, 32]"
  using safe_signature_marked [of "\<lambda>m. toHex [1, 28]" "''m''" "[1]" 28] by simp

text \<open>Functions of different features never share a signature, in any of their versions, and the
  functions of a version are listed once, so the cuts that register them do not overlap.\<close>

theorem features_do_not_overlap:
  assumes "f \<noteq> g" and "obj_get (CollectionFunctionSignatures f) v = Some ss"
    and "obj_get (CollectionFunctionSignatures g) u = Some ts"
  shows "set ss \<inter> set ts = {} \<and> distinct ss \<and> ss \<noteq> []"
proof -
  have "set ss \<subseteq> set (feature_functions f)" "set ts \<subseteq> set (feature_functions g)"
    using version_functions [OF assms(2)] version_functions [OF assms(3)]
    by (auto simp: feature_functions_def)
  then show ?thesis
    using feature_functions_disjoint [OF assms(1)] version_distinct [OF version_functions [OF assms(2)]] by blast
qed

theorem features_do_not_overlap_witness:
  "set srrCommonFuncSignatures \<inter> set srrMetadataCommonFuncSignatures = {}"
  using features_do_not_overlap [of SRRFeature SRRMetadataFeature "''V01''" srrCommonFuncSignatures "''V01''"
      srrMetadataCommonFuncSignatures] by (simp add: obj_get_def)

text \<open>The latest version of a contract is the one with the greatest number, when the version
  numbers have the same number of digits (V04, V05, V10) or no other digit is in the path.\<close>

theorem latest_version_found:
  assumes "hre_glob hre (''contracts/**/'' @ name @ ''V*.sol'') = map (version_path dir name) vs"
    and "vs \<noteq> []" and "list_all (list_all isDigit) vs" and "CHR ''/'' \<notin> set name"
    and "list_all (\<lambda>v. length v = n) vs \<or> filter isDigit (dir @ name) = []"
  shows "\<exists>v \<in> set vs. getContractNameLatest hre name = Inr (name @ ''V'' @ v) \<and>
    list_all (\<lambda>u. digits_value u \<le> digits_value v) vs"
  using latest_version [OF assms] unfolding list_all_iff .

theorem latest_version_found_witness: "getContractNameLatest sample_hre ''Bulk'' = Inr ''BulkV06''"
proof -
  have glob: "hre_glob sample_hre (''contracts/**/'' @ ''Bulk'' @ ''V*.sol'') =
      map (version_path ''contracts/bulk'' ''Bulk'') [''5'', ''06'', ''4'']"
    by (simp add: sample_hre_def)
  have d: "list_all (list_all isDigit) [''5'', ''06'', ''4'']" "filter isDigit (''contracts/bulk'' @ ''Bulk'') = []"
    by code_simp+
  have v: "digits_value ''5'' = 5" "digits_value ''06'' = 6" "digits_value ''4'' = 4" by code_simp+
  show ?thesis using latest_version_found [OF glob _ d(1), of 0] d(2) by (auto simp: v)
qed

text \<open>Every network of the configuration can be deployed to: the owners it gives the Administrator
  are what a Safe accepts, the scripts find them, exactly Amoy and Polygon are live, and a fork has
  a named administrator, when the local keys and their addresses differ.\<close>

theorem networks_can_be_deployed:
  assumes "networks key address parseGwei env = Inr nets" and "inj address" and "inj key"
  shows "list_all (\<lambda>(name, c). safe_setup c \<and>
    getStartrailAdministratorConfig (configured key address name c hre) = Inr (nc_owners c, nc_threshold c) \<and>
    isLiveNetwork (configured key address name c hre) =
      (name \<in> {''amoy-develop'', ''amoy-release'', ''amoy-staging'', ''polygon''}) \<and>
    isForkMode (configured key address name c hre) = (name = ''fork-polygon'') \<and>
    succeeds (defined_or_throw (namedAccount key address ''administrator'' name)) =
      (name \<in> {''localhost'', ''polygon'', ''fork-polygon''})) nets"
  by (rule list_all_both [OF networks_safe [OF assms] networks_scripts [OF assms(1)]])

theorem networks_can_be_deployed_witness:
  "\<exists>c. obj_get sample_nets ''amoy-develop'' = Some c \<and> safe_setup c \<and>
     getStartrailAdministratorConfig (configured sample_key_n id ''amoy-develop'' c sample_hre) =
       Inr ([AMOY_DEVELOP_API_ADDRESS, AMOY_DEPLOYER_ADDRESS], 1)"
proof -
  obtain c where c: "obj_get sample_nets ''amoy-develop'' = Some c" "(''amoy-develop'', c) \<in> set sample_nets"
      "nc_owners c = [AMOY_DEVELOP_API_ADDRESS, AMOY_DEPLOYER_ADDRESS]" "nc_threshold c = 1"
    using sample_amoy by blast
  from networks_can_be_deployed [OF sample_networks inj_on_id sample_keys_differ, of sample_hre,
      unfolded list_all_iff, THEN bspec, OF c(2), unfolded prod.case] c(1,3,4)
  show ?thesis by (intro exI [of _ c]) simp
qed

text \<open>The report of startrail-info lists the custom history types in the order of their numbers, from
  1 to the first that has no name, and each with its name; it does not end exactly when every number
  has a name.\<close>

theorem custom_history_types_listed:
  "(customHistoryTypes hre sr w = Some (Inr types)) =
     (\<exists>names. named_from (customHistoryTypeNameById hre sr w) 1 names \<and>
        customHistoryTypeNameById hre sr w (1 + int (length names)) = Inr [] \<and> types = numbered 1 names) \<and>
   (customHistoryTypes hre sr w = None) =
     (\<forall>n. \<exists>names. length names = n \<and> named_from (customHistoryTypeNameById hre sr w) 1 names)"
  unfolding customHistoryTypes_def by (rule conjI [OF loop_Inr loop_None])

text \<open>Different tokens, of one or of two contracts, have different entity identifiers, when the
  hash does not collide on them and numbers are represented injectively.\<close>

theorem token_ids_distinct:
  assumes "no_collision h (a @ fromBigInt h t) (a' @ fromBigInt h t')" and "inj (fromBigInt h)"
    and "length a = length a'" and "(a, t) \<noteq> (a', t')"
  shows "srrEntityId h a t \<noteq> srrEntityId h a' t'"
  by (rule srrEntityId_distinct [OF assms])

theorem token_ids_distinct_witness:
  "srrEntityId sample_host alice 12 \<noteq> srrEntityId sample_host alice 1"
  by (rule token_ids_distinct [OF sample_no_collision sample_injective]) simp_all

text \<open>A metadata hash of 64 characters that the host cannot read as hexadecimal stops the subgraph, when the token
  is known and has no provenance at that time yet. The contracts take any string.\<close>

lemma unreadable_digest_aborts:
  assumes "is_set (srrs s k)" and "valid_time t" and "provenances s (provenanceId h k t) = None"
    and "length hash = 64" and "fromHexString h hash = None"
  shows "handleSRRProvenanceInternal h t k from to ch (Some hash) uri i sender s = Inl BadHexString"
proof -
  obtain srr where "srrs s k = Some srr" using assms(1) by (auto simp: is_set_def)
  moreover have "toUTCString t = Inr (utc_string t)" using assms(2) by (simp add: toUTCString_eq_Inr)
  ultimately show ?thesis
    using assms(3-5) by (simp add: handleSRRProvenanceInternal_def provenanceDigest_def Let_def save_srr_def)
qed

text \<open>Of two provenances of one token with the same timestamp only the first is recorded; the
  second still changes the owner.\<close>

theorem second_provenance_dropped:
  assumes "sync s" and "is_set (srrs s k)"
    and "handleSRRProvenanceInternal h t k from1 to1 ch1 mh1 uri1 i1 sender1 s = Inr s1"
    and "handleSRRProvenanceInternal h t k from2 to2 ch2 mh2 uri2 i2 sender2 s1 = Inr s2"
  shows "provenances s2 = provenances s1 \<and> owned_by s2 k to2"
  by (rule second_provenance [OF assms])

theorem second_provenance_dropped_witness:
  "provenances sample_twice2 = provenances sample_twice1 \<and> owned_by sample_twice2 sample_token alice"
  by (rule second_provenance_dropped [OF sample_sync sample_srr_set
      sample_twice [unfolded sample_provenance_step_def]])

text \<open>Preparing a batch of any of the three bulk contracts again, by anyone at any time, changes
  nothing: the first BatchPrepared of a Merkle root decides its sender and times.\<close>

theorem batch_prepared_once:
  assumes "bulkIssue_handleBatchPrepared ev root a s = Inr s1"
    and "bulkTransfer_handleBatchPrepared ev root a s = Inr s2"
    and "bulk_handleBatchPrepared ev root a s = Inr s3"
  shows "bulkIssue_handleBatchPrepared ev' root a' s1 = Inr s1 \<and>
    bulkTransfer_handleBatchPrepared ev' root a' s2 = Inr s2 \<and>
    bulk_handleBatchPrepared ev' root a' s3 = Inr s3"
  by (intro conjI prepared_again(1) [OF assms(1)] prepared_again(2) [OF assms(2)]
      prepared_again(3) [OF assms(3)])

theorem batch_prepared_once_witness:
  "bulk_handleBatchPrepared (sample_event 10) [8] bob
     (sample_batch (bulk_handleBatchPrepared (sample_event 9) [8] alice empty_store)) =
   Inr (sample_batch (bulk_handleBatchPrepared (sample_event 9) [8] alice empty_store))"
  using batch_prepared_once [OF sample_batches] by blast

text \<open>A data source is started for exactly the collections of the store, along every run.\<close>

theorem one_data_source_per_collection:
  assumes "templates_started s" and "run_subgraph h es s = Inr s'"
  shows "is_set (collections s' k) = (k \<in> toHex ` set (collectionTemplates s'))"
  using ensuresD [OF templates.run_keeps [OF assms(1)] assms(2) [unfolded run_subgraph_def]]
  by (simp add: templates_started_def)

theorem one_data_source_per_collection_witness:
  "is_set (collections sample_store (toHex carol)) = (toHex carol \<in> toHex ` set (collectionTemplates sample_store))"
  by (rule one_data_source_per_collection [OF templates_empty sample_run])

text \<open>The manifest that is generated for a deployment has the data sources of the template, without
  those of collections unless they are enabled, in their order, all on the network of the
  deployment, each with the address of its contract in the file of the deployment, which is not
  empty, and its start block; it has templates exactly when collections are enabled.\<close>

theorem manifest_has_data_sources:
  assumes "generate g argv w = (Inr y, w')"
  shows "\<exists>net as a. networkOf (argv ! 0) = Inr net \<and> gi_json g (deploymentFile g argv) = Inr as \<and>
    startBlockArgument argv = Inr a \<and>
    list_all2 (sourced g argv net as a)
      (filter (\<lambda>ds. \<not> isCollectionFeature (ds_name ds) \<or> collectionsEnabled argv) (sy_dataSources (gi_template g)))
      (sy_dataSources y) \<and>
    (sy_templates y = None) = (\<not> collectionsEnabled argv)"
  by (rule generate_Inr [OF assms])

theorem manifest_has_data_sources_witness:
  "\<exists>y w'. generate sample_gen [''amoy-develop'', ''collection=disabled''] [] = (Inr y, w') \<and>
     map ds_name (sy_dataSources y) = [''Bulk''] \<and> map ds_network (sy_dataSources y) = [''polygon-amoy''] \<and>
     map ds_address (sy_dataSources y) = [''0x0b''] \<and> map ds_startBlock (sy_dataSources y) = [7]"
proof -
  obtain y w' where y: "generate sample_gen [''amoy-develop'', ''collection=disabled''] [] = (Inr y, w')"
    using sample_generates by blast
  from manifest_has_data_sources [OF y] obtain net as a where g: "networkOf ''amoy-develop'' = Inr net"
      "gi_json sample_gen (deploymentFile sample_gen [''amoy-develop'', ''collection=disabled'']) = Inr as"
      "startBlockArgument [''amoy-develop'', ''collection=disabled''] = Inr a"
      "list_all2 (sourced sample_gen [''amoy-develop'', ''collection=disabled''] net as a)
        (filter (\<lambda>ds. \<not> isCollectionFeature (ds_name ds) \<or> collectionsEnabled [''amoy-develop'', ''collection=disabled''])
          (sy_dataSources (gi_template sample_gen))) (sy_dataSources y)" by auto
  have "net = ''polygon-amoy''" "a = None" "as = [(''bulkProxyAddress'', ''0x0b'')]"
    using g(1-3) by (auto simp: networkOf_def starts_with_def startBlockArgument_def sample_gen_def)
  then show ?thesis
    using y g(4) sample_gen_sources sample_bulk_key
    by (auto simp: list_all2_Cons1 sourced_def startBlockOf_def sample_gen_def obj_get_def)
qed

text \<open>Several wallets sign in the strictly ascending order of their addresses, upper and lower
  case disregarded, and every wallet signs exactly once, the same domain, types and message.\<close>

theorem signatures_in_address_order:
  assumes "signTypedData td signers = Inr (ws, sigs)"
    and "distinct (map (toLowerCase \<circ> w_address) signers)"
  shows "mset ws = mset signers \<and> sorted_wrt (<) (map (toLowerCase \<circ> w_address) ws) \<and>
    list_all2 (\<lambda>w sig. map_option (\<lambda>sign. sign (td_domain td) [(td_primaryType td,
      (case obj_get (td_types td) (td_primaryType td) of None \<Rightarrow> None | Some ts \<Rightarrow> ts))] (td_message td))
      (w_signTypedData w) = Some sig) ws sigs"
proof (intro conjI)
  note sig = signTypedData_Inr [OF assms(1)]
  show m: "mset ws = mset signers" using sig(1) by (simp add: byAddress.mset_js_sort)
  have "sorted_wrt (\<lambda>a b. compareWalletByAddressString a b \<le> 0) ws"
    using sig(1) byAddress.js_sort_sorted by simp
  then have "sorted (map (toLowerCase \<circ> w_address) ws)"
    by (simp add: sorted_wrt_map compare_le_iff)
  moreover have "distinct (map (toLowerCase \<circ> w_address) ws)"
    using m assms(2) by (metis mset_eq_imp_distinct_iff mset_map)
  ultimately show "sorted_wrt (<) (map (toLowerCase \<circ> w_address) ws)"
    by (simp add: strict_sorted_iff)
  show "list_all2 (\<lambda>w sig. map_option (\<lambda>sign. sign (td_domain td) [(td_primaryType td,
      (case obj_get (td_types td) (td_primaryType td) of None \<Rightarrow> None | Some ts \<Rightarrow> ts))] (td_message td))
      (w_signTypedData w) = Some sig) ws sigs"
    unfolding list_all2_conv_all_nth using sig(2,3) mset_eq_length [OF m] by auto
qed

theorem signatures_in_address_order_witness:
  "mset (fst sample_signed) = {#sample_wallet ''0xbb'', sample_wallet ''0xAA''#} \<and>
   sorted_wrt (<) (map (toLowerCase \<circ> w_address) (fst sample_signed)) \<and> length (snd sample_signed) = 2"
  using signatures_in_address_order [OF sample_signatures sample_addresses]
  by (auto dest!: list_all2_lengthD dest: arg_cong [of _ _ size])

text \<open>Token identifiers of the second and third scheme are below 10^12, those of the first are
  the last eight digits of those of the second, for the same artist and digest.\<close>

theorem srr_ids_bounded:
  assumes "srrIdV2Compute x artist digest = Inr i" and "srrIdV3Compute x artist cid = Inr j"
  shows "0 \<le> i \<and> i < 10 ^ 12 \<and> 0 \<le> j \<and> j < 10 ^ 12 \<and> srrIdCompute x artist digest = Inr (i mod 10 ^ 8)"
proof -
  have "toNumber (n mod ID_CAP_V2) = Inr (n mod ID_CAP_V2)" "toNumber (n mod ID_CAP) = Inr (n mod ID_CAP)" for n
    using caps by (intro toNumber_mod; simp)+
  then show ?thesis
    using assms
    by (auto simp: srrIdV2Compute_def srrIdV3Compute_def srrIdCompute_def srrIdComputeInternal_def
        srrIdComputeInternalWithCID_def Let_def ID_CAP_V2_def ID_CAP_def power10_def mod_mod_cancel)
qed

theorem srr_ids_bounded_witness:
  "\<exists>i. srrIdV2Compute sample_ext ''0x12'' ''0x34'' = Inr i \<and>
     srrIdCompute sample_ext ''0x12'' ''0x34'' = Inr (i mod 10 ^ 8)"
proof -
  have big: "\<exists>n. bigNumberFrom sample_ext (JString s) = Inr n" for s
    by (simp add: sample_ext_def split: option.splits)
  have small: "toNumber (n mod ID_CAP_V2) = Inr (n mod ID_CAP_V2)" for n
    using caps by (intro toNumber_mod)
  have "\<exists>i. srrIdV2Compute sample_ext ''0x12'' ''0x34'' = Inr i"
    using big unfolding srrIdV2Compute_def srrIdComputeInternal_def Let_def by (force simp: small)
  moreover have "\<exists>j. srrIdV3Compute sample_ext ''0x12'' ''0x34'' = Inr j"
    using big unfolding srrIdV3Compute_def srrIdComputeInternalWithCID_def Let_def by (force simp: small)
  ultimately show ?thesis using srr_ids_bounded [of sample_ext "''0x12''" "''0x34''" _ "''0x34''"] by blast
qed

text \<open>The selector of the function that only the first version of the approval feature has is
  removed by an upgrade from that version, but keeps its route to the old contract when the
  upgrade is run from the second version to itself, as the release of bulk collections does.\<close>

theorem release_leaves_stale_selector:
  assumes "diamond_documented hre reg routes"
    and "getContract hre ''StartrailCollectionFeatureRegistry'' w = (Inr reg, w)"
    and "getContractFactory hre ''SRRApproveTransferFeatureV02'' w = (Inr fac, w)"
    and "hre_deploy hre fac [] [] None (chain w) = (Inr d, c)"
    and "\<And>n sig. hre_sighash hre n sig = Inr (sel sig)" and "\<And>n. hre_artifact hre n = Inr n"
    and "inj_on sel (set (own_functions SRRApproveTransferFeature))"
    and "hre_functions hre (ct_abi d) = ''supportsInterface(bytes4)'' # srrApproveTransferCommonFuncSignatures"
    and "list_all (\<lambda>sig. routes (chain w) (sel sig) = Some old) (own_functions SRRApproveTransferFeature)"
    and "old \<noteq> ct_address d"
  shows "\<exists>w1 w2.
    upgradeFeatureContract hre SRRApproveTransferFeature \<lparr>uv_from = ''V02'', uv_to = ''V02''\<rparr> w = (Inr d, w1) \<and>
    routes (chain w1) (sel fromBulkV01) = Some old \<and>
    upgradeFeatureContract hre SRRApproveTransferFeature \<lparr>uv_from = ''V01'', uv_to = ''V02''\<rparr> w = (Inr d, w2) \<and>
    routes (chain w2) (sel fromBulkV01) = None"
proof -
  let ?c = "srrApproveTransferCommonFuncSignatures"
  have own: "set (own_functions SRRApproveTransferFeature) = insert fromBulkV01 (set ?c)"
    by (simp add: fromBulkV01_def)
  have name: "feature_contract SRRApproveTransferFeature ''V02'' = ''SRRApproveTransferFeatureV02''"
    by (simp add: feature_contract_def)
  have ts: "getSelectors hre d = Inr (map sel ?c)"
  proof -
    have "filter (\<lambda>s. s \<noteq> ''supportsInterface(bytes4)'') (''supportsInterface(bytes4)'' # ?c) = ?c"
      using approve_versions(4) by (auto intro!: filter_True)
    then show ?thesis using contract_selectors [of hre sel d] assms(5,8) by simp
  qed
  have fs: "CollectionFeatureSelectors hre SRRApproveTransferFeature ''V02'' = Inr (map sel ?c)"
    "CollectionFeatureSelectors hre SRRApproveTransferFeature ''V01'' = Inr (map sel (?c @ [fromBulkV01]))"
    by (rule version_selectors [OF assms(5,6) approve_versions(2)]
        version_selectors [OF assms(5,6) approve_versions(1)])+
  have routed: "routes (chain w) (sel sig) = Some old" if "sig \<in> insert fromBulkV01 (set ?c)" for sig
    using assms(9) that unfolding list_all_iff own by blast
  have fresh: "sel fromBulkV01 \<notin> sel ` set ?c"
    using assms(7) approve_versions(3) unfolding own by (auto dest: inj_onD)
  note up = upgradeFeature_applied [OF assms(1,2) assms(3) [folded name] assms(4) _ ts]
  obtain w1 where "upgradeFeature hre SRRApproveTransferFeature ''V02'' ''V02'' [] w = (Inr d, w1)"
      "routes (chain w1) = upgraded (map sel ?c) (map sel ?c) (ct_address d) (routes (chain w))"
    using up [OF fs(1)] routed assms(10) by auto
  moreover obtain w2 where "upgradeFeature hre SRRApproveTransferFeature ''V01'' ''V02'' [] w = (Inr d, w2)"
      "routes (chain w2) = upgraded (map sel (?c @ [fromBulkV01])) (map sel ?c) (ct_address d) (routes (chain w))"
    using up [OF fs(2)] routed assms(10) by auto
  ultimately show ?thesis
    using fresh routed by (simp add: upgradeSRRApproveTransferFeature_def upgraded_def)
qed

theorem release_leaves_stale_selector_witness:
  "\<exists>w1. upgradeFeatureContract sample_hre SRRApproveTransferFeature \<lparr>uv_from = ''V02'', uv_to = ''V02''\<rparr> sample_world =
      (Inr sample_approve, w1) \<and> sc_routes (chain w1) fromBulkV01 = Some ''0x0a''"
  using release_leaves_stale_selector [OF sample_diamond_documented sample_registry_at sample_approve_factory
      sample_approve_deployed sample_sighash inj_on_id sample_approve_functions sample_approve_routes
      sample_approve_address]
  unfolding id_apply by blast

text \<open>Registering several request types sends one transaction of the Administrator, whose data
  MultiSend takes apart into one call of the MetaTxForwarder for each request type, in order.\<close>

theorem registration_is_one_call_each:
  assumes "strip_documented x" and "pack_documented x" and "buffer_documented x"
    and "metaTxRequests x = Inr requests" and "1 < length keys"
    and "map_act (registerCalldata hre requests mtf) keys w = (Inr (map toHex ds), w)"
    and "ct_address mtf = toHex a" and "length a = 20" and "list_all (\<lambda>d. length d < 2 ^ 256) ds"
  shows "\<exists>packed. registerRequestTypesCallByAdmin x hre mtf keys gasLimit w =
      andThen (getAdministratorInstance hre) (\<lambda>admin. andThen (adminExecTransaction x hre admin
        ((exec_options [] (toHex packed))\<lparr>er_multiSend := Some True, er_gasLimit := Some gasLimit\<rparr>))
        (\<lambda>_. ret ())) w \<and>
    multi_send_loop packed = Some (map (\<lambda>d. (0, a, 0, d)) ds) \<and> length ds = length keys"
proof -
  obtain packed where p: "encodeMultiSendTransactionsSingleDestination x CALL (toHex a) (map toHex ds) = toHex packed"
      "multi_send_loop packed = Some (map (\<lambda>d. (0, a, 0, d)) ds)"
    using single_destination_read [OF assms(1-3,8,9)] by blast
  then show ?thesis
    using registration_multi_send [OF assms(4,6,5), of gasLimit] length_map_act [OF assms(6)] assms(7)
    by (intro exI [of _ packed]) simp
qed

theorem registration_is_one_call_each_witness:
  "\<exists>packed. registerRequestTypesCallByAdmin sample_ext sample_hre sample_mtf [sample_key, sample_key] 9 sample_world =
      andThen (getAdministratorInstance sample_hre) (\<lambda>admin. andThen (adminExecTransaction sample_ext sample_hre admin
        ((exec_options [] (toHex packed))\<lparr>er_multiSend := Some True, er_gasLimit := Some 9\<rparr>))
        (\<lambda>_. ret ())) sample_world \<and>
    multi_send_loop packed = Some [(0, alice, 0, sample_call), (0, alice, 0, sample_call)]"
  using registration_is_one_call_each [OF sample_strip sample_packed sample_buffer sample_registry _
      sample_register_calls, of alice 9]
  by (auto simp: sample_mtf_def alice_def sample_call_def utf8_def)

text \<open>A transaction of the Administrator that failed on chain, so that no receipt has the success
  event, is reported as an error, unless the caller did not wait for it.\<close>

theorem failed_execution_reported:
  assumes "execTransaction x env own req = Inr r"
    and "\<forall>h n. \<not> hasLog (safe_wait env h n) EventHashExecutionSuccess"
  shows "er_waitConfirmed req = Some False \<and> (\<exists>h. r = ExecResponse h)"
  using assms
  by (auto simp: execTransaction_def Let_def verifyExecutionResult_def split: if_splits option.splits)

theorem failed_execution_reported_witness:
  "\<exists>h. execTransaction sample_ext (sample_safe False) id sample_exec_request = Inr (ExecResponse h)"
proof -
  have "succeeds (execTransaction sample_ext (sample_safe False) id sample_exec_request)"
    by (simp add: execTransaction_def sample_exec_request_def encodeAndSignExecTransactionRequest_def
        resolveNonce_def Let_def)
  then obtain r where r: "execTransaction sample_ext (sample_safe False) id sample_exec_request = Inr r"
    by (auto simp: succeeds_iff)
  have "\<forall>h n. \<not> hasLog (safe_wait (sample_safe False) h n) EventHashExecutionSuccess"
    by (simp add: sample_safe_def hasLog_def)
  from failed_execution_reported [OF r this] r show ?thesis by blast
qed

text \<open>Removing an owner of a licensed user wallet with the script: for a wallet of two or more
  owners, the call it sends through the Administrator is one that the contract accepts, with the
  owner before the removed one and a threshold that the remaining owners can reach, and it leaves
  exactly the other owners, in their order.\<close>

theorem owner_removal_accepted:
  assumes "getContract hre ''LicensedUserManager'' w = (Inr lum, w)"
    and "hre_call hre lum ''getOwners'' [Some (JString wallet)] (chain w) = Inr (JArray (map (JString \<circ> render) os))"
    and "hre_call hre lum ''getThreshold'' [Some (JString wallet)] (chain w) = Inr (JNumber (uint (ow_threshold ow)))"
    and "inj render" and "render SENTINEL_OWNERS = SENTINEL_ADDRESS"
    and "owner_list ow os" and "a \<in> set os" and "2 \<le> length os"
  shows "\<exists>p th ow' es.
    lumRemoveOwner x hre wallet (render a) w =
      lumExecute x hre (content w (jsonPath hre DEPLOY_FILE_NAME)) lum wallet ''removeOwner''
        [Some (JString wallet), Some (JString (render p)), Some (JString (render a)), Some (JNumber (uint th))] w \<and>
    removeOwner wa p a th ow = Some (ow', es) \<and> owner_list ow' (remove1 a os) \<and> ow_threshold ow' = th"
proof -
  obtain th where th: "uint th = setNewThreshold (map render os) (uint (ow_threshold ow))" "1 \<le> th"
      "th \<le> ow_count ow - 1" using new_threshold [OF assms(6,8)] by blast
  obtain pre post ow' es where r: "os = pre @ a # post" "a \<notin> set pre"
      "removeOwner wa (last (SENTINEL_OWNERS # pre)) a th ow = Some (ow', es)"
    using removal_accepted [OF assms(6,7) th(2,3)] by blast
  have p: "findPreviousOwner (map render os) (render a) = render (last (SENTINEL_OWNERS # pre))"
    unfolding r(1) by (rule findPreviousOwner_pred [OF assms(4,5) r(2)])
  have "lumRemoveOwner x hre wallet (render a) w =
      lumExecute x hre (content w (jsonPath hre DEPLOY_FILE_NAME)) lum wallet ''removeOwner''
        [Some (JString wallet), Some (JString (render (last (SENTINEL_OWNERS # pre)))), Some (JString (render a)),
         Some (JNumber (uint th))] w"
    unfolding th(1) p [symmetric] using lumRemoveOwner_run [OF assms(1-3), of "render a" x] assms(7,8) by simp
  then show ?thesis using r(3) removeOwner_list [OF assms(6) r(3)] by blast
qed

theorem owner_removal_accepted_witness:
  "\<exists>p th ow' es. lumRemoveOwner sample_ext sample_lum_hre ''0x0d'' (toHex bob) sample_lum_world =
      lumExecute sample_ext sample_lum_hre (content sample_lum_world (jsonPath sample_lum_hre DEPLOY_FILE_NAME)) sample_lum
        ''0x0d'' ''removeOwner''
        [Some (JString ''0x0d''), Some (JString (toHex p)), Some (JString (toHex bob)), Some (JNumber (uint th))]
        sample_lum_world \<and>
    removeOwner alice p bob th sample_owner_wallet = Some (ow', es) \<and> owner_list ow' (remove1 bob sample_owners) \<and>
    ow_threshold ow' = th"
  by (rule owner_removal_accepted [where render = toHex, OF sample_lum_at _ _ _ sample_sentinel sample_owner_list sample_owners_distinct(3)])
    (simp_all add: sample_lum_hre_def sample_owner_threshold sample_owners_distinct inj_on_def toHex_inj)

text \<open>A list of transactions is sent in batches of at most the given size, none of them empty, one
  multi-send of the Administrator after the other; MultiSend takes the batches apart into calls of
  the contract, which are together the transactions of the list, each once and in order.\<close>

theorem every_transaction_in_one_batch:
  assumes "strip_documented x" and "pack_documented x" and "buffer_documented x" and "0 < n"
    and "getContract hre name w = (Inr ct, w)" and "ct_address ct = toHex a" and "length a = 20"
    and "encodeTransactions hre ct fn inputs w = (Inr (map toHex ds), w)"
    and "list_all (\<lambda>d. length d < 2 ^ 256) ds"
  shows "\<exists>batches packs. adminMultiSend x hre name fn inputs False n w =
      andThen (getAdministratorInstance hre) (\<lambda>admin. for_each
        (\<lambda>data. andThen (adminExecTransaction x hre admin (multi_send_options data True)) checkBatch)
        (map toHex packs)) w \<and>
    map multi_send_loop packs = map (\<lambda>b. Some (map (\<lambda>d. (0, a, 0, d)) b)) batches \<and>
    concat batches = ds \<and> list_all (\<lambda>b. b \<noteq> [] \<and> length b \<le> n) batches"
proof -
  have "list_all (list_all (\<lambda>d. length d < 2 ^ 256)) (chunk n ds)"
    using chunk_elements [OF _ assms(9)] by (simp add: list_all_iff [of _ "chunk n ds"])
  from packed_batches [OF assms(1-3,7) this] obtain packs where p:
      "map (\<lambda>b. encodeMultiSendTransactionsSingleDestination x CALL (toHex a) (map toHex b)) (chunk n ds) = map toHex packs"
      "map multi_send_loop packs = map (\<lambda>b. Some (map (\<lambda>d. (0, a, 0, d)) b)) (chunk n ds)" by blast
  have "map (encodeMultiSendTransactionsSingleDestination x CALL (ct_address ct)) (chunk n (map toHex ds)) = map toHex packs"
    using p(1) by (simp add: chunk_map assms(6) comp_def)
  then show ?thesis
    using batches_sent [OF assms(5,8), of x n] p(2) concat_chunk [OF assms(4), of ds] chunk_sizes [of n ds]
    by (intro exI [of _ "chunk n ds"] exI [of _ packs]) simp
qed

theorem every_transaction_in_one_batch_witness:
  "\<exists>batches packs. adminMultiSend sample_ext sample_hre ''MetaTxForwarder'' ''f'' [[], [], []] False 2 sample_batch_world =
      andThen (getAdministratorInstance sample_hre) (\<lambda>admin. for_each
        (\<lambda>data. andThen (adminExecTransaction sample_ext sample_hre admin (multi_send_options data True)) checkBatch)
        (map toHex packs)) sample_batch_world \<and>
    map multi_send_loop packs = map (\<lambda>b. Some (map (\<lambda>d. (0, alice, 0, d)) b)) batches \<and>
    concat batches = [utf8 ''f0'', utf8 ''f0'', utf8 ''f0''] \<and> list_all (\<lambda>b. b \<noteq> [] \<and> length b \<le> 2) batches"
  by (rule every_transaction_in_one_batch [OF sample_strip sample_packed sample_buffer _ sample_mtf_at _ _ sample_batch_calls])
    (simp_all add: sample_mtf_def alice_def utf8_def)

text \<open>Every reference a provenance, a metadata history, a custom history's history or the SRR of
  a batch holds points to an entity of the store, along every run.\<close>

theorem references_intact:
  assumes "refs s" and "run_subgraph h es s = Inr s'"
  shows "refs s'"
  using ensuresD [OF references.run_keeps assms(2) [unfolded run_subgraph_def]] assms(1) by simp

theorem references_intact_witness: "refs sample_store"
  by (rule references_intact [OF refs_empty sample_run])

text \<open>The subgraph lists exactly the request types that are registered: along any run of the
  MetaTxForwarder, whose events the subgraph handles in their order without aborting.\<close>

theorem subgraph_lists_registered_types:
  assumes "forwarder_run e st log es st'" and "lists_types st s"
    and "run_subgraph h (map (\<lambda>ev. (block ev, MetaTxForwarder ev)) es) s = Inr s'"
  shows "fs_typeHashes st' hash \<longleftrightarrow> requestTypes s' (toHex hash) \<noteq> None"
  using ensuresD [OF run_lists [OF assms(1,2), of h block]] assms(3)
  by (auto simp: forwarder_events_def lists_types_def)

theorem subgraph_lists_registered_types_witness:
  "\<exists>es s'. forwarder_run sample_evm sample_fwd1 [] es sample_fwd \<and>
     run_subgraph sample_host (map (\<lambda>ev. (sample_event 2, MetaTxForwarder ev)) es) empty_store = Inr s' \<and>
     requestTypes s' (toHex sample_type) \<noteq> None"
proof -
  obtain es where es: "mtf_registerRequestType sample_evm sample_sur sample_admin flow_key
     (buildSuffixTypeString (types_of flow_key)) sample_destination [1, 2, 3, 4] sample_fwd1 = Some (sample_fwd, es)"
    using sample_registered by blast
  then have run: "forwarder_run sample_evm sample_fwd1 [] es sample_fwd"
    using run_register [OF es run_done] by simp
  have empty: "lists_types sample_fwd1 empty_store"
    by (simp add: lists_types_def sample_fwd1_fields empty_store_def)
  obtain s' where s': "run_subgraph sample_host (map (\<lambda>ev. (sample_event 2, MetaTxForwarder ev)) es) empty_store = Inr s'"
    using sample_registration_indexed registered(4) [OF es] by blast
  from subgraph_lists_registered_types [OF run empty s', of sample_type] run s' show ?thesis
    by (auto simp: sample_fwd_fields)
qed

end
