(* ===== verification/RegistryStorage.thy ===== *)
theory RegistryStorage
  imports Evm Events
begin

text \<open>
  The storage of the StartrailRegistry and the token functions it inherits:
  \<open>contracts/startrailregistry/Storage.sol\<close>, \<open>ERC721.sol\<close>, \<open>contracts/name/NameRegistry.sol\<close>, \<open>Contracts.sol\<close>,
  \<open>lib/IDGeneratorV3.sol\<close> and \<open>StartrailRegistryLibraryV1.sol\<close>. A function is a list of statements, each of
  which reverts (\<open>None\<close>) or gives the storage it leaves and the events it emits; arithmetic is checked, as
  Solidity 0.8 does it.
\<close>

section \<open>Storage\<close>

record royalty_info =
  ri_receiver :: address
  ri_basisPoints :: "16 word"

text \<open>The nested mappings of \<open>Storage.sol\<close> are a field for each pair of keys that is used.\<close>

record sr_state =
  sr_tokenOwner :: "256 word \<Rightarrow> address"
  sr_ownedTokensCount :: "address \<Rightarrow> 256 word"
  sr_tokenApprovals :: "256 word \<Rightarrow> address"
  sr_operatorApprovals :: "address \<Rightarrow> address \<Rightarrow> bool"
  sr_issuer :: "256 word \<Rightarrow> address"
  sr_artistAddress :: "256 word \<Rightarrow> address"
  sr_isPrimaryIssuer :: "256 word \<Rightarrow> bool"
  sr_lockExternal :: "256 word \<Rightarrow> bool"
  sr_metadataCID :: "256 word \<Rightarrow> string"
  sr_metadataDigest :: "256 word \<Rightarrow> bytes"
  sr_commitment :: "256 word \<Rightarrow> bytes"
  sr_historyHash :: "256 word \<Rightarrow> string"
  sr_historyCustom :: "256 word \<Rightarrow> 256 word"
  sr_customHistoryName :: "256 word \<Rightarrow> string"
  sr_URIPrefix :: string
  sr_URIPostfix :: string
  sr_contractURI :: string
  sr_openSeaProxy :: address
  sr_killSwitch :: bool
  sr_nameRegistry :: address
  sr_customHistoryCount :: "256 word"
  sr_customHistoryTypeCount :: "256 word"
  sr_typeNameById :: "256 word \<Rightarrow> string"
  sr_typeIdByName :: "string \<Rightarrow> 256 word"
  sr_maxCombinedHistoryRecords :: "256 word"
  sr_contractOwner :: address
  sr_royalties :: "256 word \<Rightarrow> royalty_info"
  sr_metaTxNonces :: "address \<Rightarrow> 256 word"
  sr_domainSeparator :: bytes
  sr_trustedForwarder :: address

text \<open>The functions that change the storage. A meta-transaction names its user, the calldata and the call
  the calldata is.\<close>

datatype sr_call =
    SR_setTrustedForwarder address
  | SR_setMaxCombinedHistoryRecords "256 word"
  | SR_createSRRFromLicensedUser bool address string bool address address "16 word"
  | SR_createSRRFromBulk bool address string address bool address address "16 word"
  | SR_approveSRRByCommitmentFromBulk address "256 word" bytes string "256 word"
  | SR_transferFromWithProvenanceFromBulk address address "256 word" string "256 word" bool
  | SR_updateSRR "256 word" bool address
  | SR_updateSRRMetadata "256 word" string
  | SR_updateSRRRoyalty "256 word" address "16 word"
  | SR_updateSRRRoyaltyReceiverMulti "256 word list" address
  | SR_approveSRRByCommitment "256 word" bytes string
  | SR_approveSRRByCommitmentWithCustomHistory "256 word" bytes string "256 word"
  | SR_cancelSRRCommitment "256 word"
  | SR_transferSRRByReveal address bytes "256 word" bool
  | SR_addHistory "256 word list" "256 word list"
  | SR_setNameRegistryAddress address
  | SR_setTokenURIParts string string
  | SR_addCustomHistoryType string
  | SR_writeCustomHistoryDigest string "256 word" bytes
  | SR_writeCustomHistoryCID string "256 word" string
  | SR_updateCustomHistoryDigest "256 word" string bytes
  | SR_updateCustomHistoryCID "256 word" string string
  | SR_transferFrom address address "256 word"
  | SR_safeTransferFrom address address "256 word"
  | SR_safeTransferFromData address address "256 word" bytes
  | SR_transferFromWithProvenance address "256 word" string "256 word" bool
  | SR_approve address "256 word"
  | SR_setApprovalForAll address bool
  | SR_setLockExternalTransfer "256 word" bool
  | SR_setContractURI string
  | SR_transferOwnership address
  | SR_setOpenSeaApproveAllKillSwitch bool
  | SR_setOpenSeaMetaTxIntegration address string
  | SR_executeMetaTransaction address bytes sr_call bytes bytes byte

text \<open>What is emitted: the events the subgraph knows, and those it does not.\<close>

datatype sr_event =
    Indexed registry_event
  | Approval address address "256 word"
  | ApprovalForAll address address bool
  | ContractOwnershipTransferred address address
  | MetaTransactionExecuted address address bytes

text \<open>The contracts around the registry: the addresses a NameRegistry holds, the LicensedUserManager at an
  address, the address of the registry itself, which addresses have code, and whether such a contract
  answers \<open>onERC721Received\<close> (operator, sender, token, data) with the magic value, and the call of the
  registry that the ABI decodes from calldata.\<close>

record sr_env =
  se_names :: "address \<Rightarrow> 8 word \<Rightarrow> address"
  se_isActiveWallet :: "address \<Rightarrow> address \<Rightarrow> bool"
  se_this :: address
  se_hasCode :: "address \<Rightarrow> bool"
  se_onERC721Received :: "address \<Rightarrow> address \<Rightarrow> address \<Rightarrow> 256 word \<Rightarrow> bytes \<Rightarrow> bool"
  se_decode :: "bytes \<Rightarrow> sr_call option"

section \<open>Statements\<close>

text \<open>A statement over a storage \<open>'s\<close> with events \<open>'e\<close>.\<close>

type_synonym ('s, 'e) stm = "'s \<Rightarrow> ('s \<times> 'e list) option"

type_synonym statement = "(sr_state, sr_event) stm"

definition require :: "('s \<Rightarrow> bool) \<Rightarrow> ('s, 'e) stm" where
  "require P st = (if P st then Some (st, []) else None)"

definition assign :: "('s \<Rightarrow> 's) \<Rightarrow> ('s, 'e) stm" where
  "assign f st = Some (f st, [])"

definition emit :: "('s \<Rightarrow> 'e) \<Rightarrow> ('s, 'e) stm" where
  "emit ev st = Some (st, [ev st])"

definition when_sr :: "('s \<Rightarrow> bool) \<Rightarrow> ('s, 'e) stm \<Rightarrow> ('s, 'e) stm" where
  "when_sr P s st = (if P st then s st else Some (st, []))"

text \<open>A local variable: the rest of a function reads a value of the storage as it is now.\<close>

definition reading :: "('s \<Rightarrow> 'a) \<Rightarrow> ('a \<Rightarrow> ('s, 'e) stm) \<Rightarrow> ('s, 'e) stm" where
  "reading f s st = s (f st) st"

fun statements :: "('s, 'e) stm list \<Rightarrow> ('s, 'e) stm" where
  "statements [] st = Some (st, [])"
| "statements (s # ss) st =
     (case s st of None \<Rightarrow> None
      | Some (st1, es1) \<Rightarrow>
          (case statements ss st1 of None \<Rightarrow> None | Some (st2, es2) \<Rightarrow> Some (st2, es1 @ es2)))"

lemma statements_append:
  "statements (ss @ ts) st = (case statements ss st of None \<Rightarrow> None
     | Some (st1, es1) \<Rightarrow> (case statements ts st1 of None \<Rightarrow> None | Some (st2, es2) \<Rightarrow> Some (st2, es1 @ es2)))"
  by (induction ss arbitrary: st) (auto split: option.splits)

lemma require_Some [simp]: "require P st = Some r \<longleftrightarrow> P st \<and> r = (st, [])"
  by (auto simp: require_def)

lemma assign_Some [simp]: "assign f st = Some r \<longleftrightarrow> r = (f st, [])"
  by (auto simp: assign_def)

lemma emit_Some [simp]: "emit ev st = Some r \<longleftrightarrow> r = (st, [ev st])"
  by (auto simp: emit_def)

lemma reading_Some [simp]: "reading f s st = Some r \<longleftrightarrow> s (f st) st = Some r"
  by (simp add: reading_def)

lemma statements_Some [simp]:
  "statements [] st = Some (st', es) \<longleftrightarrow> st' = st \<and> es = []"
  "statements (s # ss) st = Some (st', es) \<longleftrightarrow>
     (\<exists>st1 es1 es2. s st = Some (st1, es1) \<and> statements ss st1 = Some (st', es2) \<and> es = es1 @ es2)"
  by (auto split: option.splits)

declare statements.simps [simp del]

lemma statements_Nil: "statements [] st = Some (st, [])"
  by (simp add: statements.simps)

lemma statements_require: "P st \<Longrightarrow> statements (require P # ss) st = statements ss st"
  by (simp add: statements.simps require_def split: option.split)

lemma statements_assign: "statements (assign f # ss) st = statements ss (f st)"
  by (simp add: statements.simps assign_def split: option.split)

section \<open>NameRegistry.sol and Contracts.sol\<close>

definition ADMINISTRATOR :: "8 word" where "ADMINISTRATOR = 1"
definition LICENSED_USER_MANAGER :: "8 word" where "LICENSED_USER_MANAGER = 3"
definition STARTRAIL_REGISTRY :: "8 word" where "STARTRAIL_REGISTRY = 4"
definition BULK_ISSUE :: "8 word" where "BULK_ISSUE = 5"
definition BULK_TRANSFER :: "8 word" where "BULK_TRANSFER = 7"
definition BULK :: "8 word" where "BULK = 8"

definition nr_get :: "(8 word \<Rightarrow> address) \<Rightarrow> 8 word \<Rightarrow> address" where
  "nr_get names key = names key"

definition nr_administrator :: "(8 word \<Rightarrow> address) \<Rightarrow> address" where
  "nr_administrator names = nr_get names ADMINISTRATOR"

definition nr_initialize :: "address \<Rightarrow> (8 word \<Rightarrow> address) \<Rightarrow> 8 word \<Rightarrow> address" where
  "nr_initialize administrator names = names(ADMINISTRATOR := administrator)"

definition nr_set :: "address \<Rightarrow> 8 word \<Rightarrow> address \<Rightarrow> (8 word \<Rightarrow> address) \<Rightarrow> (8 word \<Rightarrow> address) option" where
  "nr_set sender key value names =
     (if nr_administrator names = sender then Some (names(key := value)) else None)"

section \<open>IDGeneratorV3.sol, StartrailRegistryLibraryV1.sol\<close>

definition generate_id :: "evm \<Rightarrow> string \<Rightarrow> address \<Rightarrow> 256 word" where
  "generate_id e metadataCID artistAddress =
     of_nat (be_nat (evm_keccak256 e (str_bytes metadataCID @ artistAddress)) mod 10 ^ 12)"

definition digit_char :: "nat \<Rightarrow> char" where
  "digit_char hex = char_of (hex + (if hex < 10 then 48 else 87))"

definition bytes32ToString :: "bytes \<Rightarrow> string" where
  "bytes32ToString b32 = concat (map (\<lambda>b. [digit_char (unat b div 16), digit_char (unat b mod 16)]) b32)"

definition tokenURIFromString :: "string \<Rightarrow> string \<Rightarrow> string \<Rightarrow> string" where
  "tokenURIFromString metadataDigest uriPrefix uriPostfix = uriPrefix @ metadataDigest @ uriPostfix"

definition tokenURIFromBytes32 :: "bytes \<Rightarrow> string \<Rightarrow> string \<Rightarrow> string" where
  "tokenURIFromBytes32 metadataDigest uriPrefix uriPostfix =
     uriPrefix @ ''0x'' @ bytes32ToString metadataDigest @ uriPostfix"

section \<open>ERC721.sol\<close>

definition token_exists :: "256 word \<Rightarrow> sr_state \<Rightarrow> bool" where
  "token_exists tokenId st \<longleftrightarrow> sr_tokenOwner st tokenId \<noteq> ZERO_ADDRESS"

definition balanceOf :: "address \<Rightarrow> sr_state \<Rightarrow> 256 word option" where
  "balanceOf owner st = (if owner = ZERO_ADDRESS then None else Some (sr_ownedTokensCount st owner))"

definition ownerOf :: "256 word \<Rightarrow> sr_state \<Rightarrow> address option" where
  "ownerOf tokenId st = (if token_exists tokenId st then Some (sr_tokenOwner st tokenId) else None)"

definition getApproved :: "256 word \<Rightarrow> sr_state \<Rightarrow> address option" where
  "getApproved tokenId st = (if token_exists tokenId st then Some (sr_tokenApprovals st tokenId) else None)"

definition approve_internal :: "address \<Rightarrow> 256 word \<Rightarrow> statement" where
  "approve_internal to tokenId = statements
     [assign (\<lambda>st. st\<lparr>sr_tokenApprovals := (sr_tokenApprovals st)(tokenId := to)\<rparr>),
      require (token_exists tokenId),
      emit (\<lambda>st. Approval (sr_tokenOwner st tokenId) to tokenId)]"

definition count_up :: "address \<Rightarrow> statement" where
  "count_up a = statements
     [require (\<lambda>st. sr_ownedTokensCount st a \<noteq> - 1),
      assign (\<lambda>st. st\<lparr>sr_ownedTokensCount := (sr_ownedTokensCount st)(a := sr_ownedTokensCount st a + 1)\<rparr>)]"

definition count_down :: "address \<Rightarrow> statement" where
  "count_down a = statements
     [require (\<lambda>st. sr_ownedTokensCount st a \<noteq> 0),
      assign (\<lambda>st. st\<lparr>sr_ownedTokensCount := (sr_ownedTokensCount st)(a := sr_ownedTokensCount st a - 1)\<rparr>)]"

definition set_owner :: "256 word \<Rightarrow> address \<Rightarrow> statement" where
  "set_owner tokenId to = assign (\<lambda>st. st\<lparr>sr_tokenOwner := (sr_tokenOwner st)(tokenId := to)\<rparr>)"

definition mint_token :: "address \<Rightarrow> 256 word \<Rightarrow> statement" where
  "mint_token to tokenId = statements
     [require (\<lambda>st. to \<noteq> ZERO_ADDRESS),
      require (\<lambda>st. \<not> token_exists tokenId st),
      count_up to,
      set_owner tokenId to,
      emit (\<lambda>st. Indexed (R_Transfer ZERO_ADDRESS to (uint tokenId)))]"

definition transfer_token :: "address \<Rightarrow> address \<Rightarrow> 256 word \<Rightarrow> statement" where
  "transfer_token from to tokenId = statements
     [require (\<lambda>st. ownerOf tokenId st = Some from),
      require (\<lambda>st. to \<noteq> ZERO_ADDRESS),
      approve_internal ZERO_ADDRESS tokenId,
      count_down from,
      count_up to,
      set_owner tokenId to,
      emit (\<lambda>st. Indexed (R_Transfer from to (uint tokenId)))]"

text \<open>The hook of the recipient is the last statement of every function that calls it.\<close>

definition safe_transfer_token ::
  "sr_env \<Rightarrow> address \<Rightarrow> address \<Rightarrow> address \<Rightarrow> 256 word \<Rightarrow> bytes \<Rightarrow> statement" where
  "safe_transfer_token env operator from to tokenId data = statements
     [transfer_token from to tokenId,
      require (\<lambda>st. \<not> se_hasCode env to \<or> se_onERC721Received env to operator from tokenId data)]"

definition set_operator :: "address \<Rightarrow> address \<Rightarrow> bool \<Rightarrow> statement" where
  "set_operator sender operator approved = statements
     [require (\<lambda>st. operator \<noteq> sender),
      assign (\<lambda>st. st\<lparr>sr_operatorApprovals := (sr_operatorApprovals st)
        (sender := (sr_operatorApprovals st sender)(operator := approved))\<rparr>),
      emit (\<lambda>st. ApprovalForAll sender operator approved)]"

section \<open>What the token functions do\<close>

lemma token_exists_frame:
  "sr_tokenOwner st' t = sr_tokenOwner st t \<Longrightarrow> token_exists t st' = token_exists t st"
  by (simp add: token_exists_def)

lemma mint_Some:
  "mint_token to tok st = Some (st', es) \<longleftrightarrow>
     to \<noteq> ZERO_ADDRESS \<and> \<not> token_exists tok st \<and> sr_ownedTokensCount st to \<noteq> - 1 \<and>
     st' = st\<lparr>sr_tokenOwner := (sr_tokenOwner st)(tok := to),
             sr_ownedTokensCount := (sr_ownedTokensCount st)(to := sr_ownedTokensCount st to + 1)\<rparr> \<and>
     es = [Indexed (R_Transfer ZERO_ADDRESS to (uint tok))]"
  by (auto simp: mint_token_def count_up_def set_owner_def)

text \<open>The balances after a token has left one account and reached another, maybe the same one.\<close>

definition moved_count :: "address \<Rightarrow> address \<Rightarrow> (address \<Rightarrow> 256 word) \<Rightarrow> address \<Rightarrow> 256 word" where
  "moved_count from to f = (let g = f(from := f from - 1) in g(to := g to + 1))"

lemma transfer_Some:
  "transfer_token from to tok st = Some (st', es) \<longleftrightarrow>
     token_exists tok st \<and> sr_tokenOwner st tok = from \<and> to \<noteq> ZERO_ADDRESS \<and>
     sr_ownedTokensCount st from \<noteq> 0 \<and> (to = from \<or> sr_ownedTokensCount st to \<noteq> - 1) \<and>
     st' = st\<lparr>sr_tokenOwner := (sr_tokenOwner st)(tok := to),
             sr_ownedTokensCount := moved_count from to (sr_ownedTokensCount st),
             sr_tokenApprovals := (sr_tokenApprovals st)(tok := ZERO_ADDRESS)\<rparr> \<and>
     es = [Approval from ZERO_ADDRESS tok, Indexed (R_Transfer from to (uint tok))]"
  by (auto simp: transfer_token_def approve_internal_def count_up_def count_down_def set_owner_def
      ownerOf_def token_exists_def moved_count_def Let_def split: if_splits)

lemma safe_transfer_Some:
  "safe_transfer_token env operator from to tok data st = Some (st', es) \<longleftrightarrow>
     transfer_token from to tok st = Some (st', es) \<and>
     (se_hasCode env to \<longrightarrow> se_onERC721Received env to operator from tok data)"
  by (auto simp: safe_transfer_token_def)

lemma generate_id_bound: "unat (generate_id e cid a) < 10 ^ 12"
proof -
  let ?n = "be_nat (evm_keccak256 e (str_bytes cid @ a)) mod 10 ^ 12"
  have n: "?n < 10 ^ 12" by simp
  then have "?n < 2 ^ 256" by (rule less_trans) simp
  then show ?thesis using n unfolding generate_id_def by (simp add: unat_of_nat take_bit_eq_mod)
qed

lemma digit_char_hex: "n < 16 \<Longrightarrow> digit_char n = hex_digit n"
proof -
  have "list_all (\<lambda>n. digit_char n = hex_digit n) [0..<16]" by code_simp
  then show "n < 16 \<Longrightarrow> digit_char n = hex_digit n" by (simp add: list_all_iff)
qed

lemma bytes32ToString_hex: "bytes32ToString bs = hex_body bs"
proof -
  have "[digit_char (unat b div 16), digit_char (unat b mod 16)] = hex_byte b" for b
    using unat_byte_lt [of b] by (simp add: digit_char_hex hex_byte_def less_mult_imp_div_less)
  then show ?thesis by (simp add: bytes32ToString_def hex_body_def)
qed

end
