(* ===== verification/RegistryContract.thy ===== *)
theory RegistryContract
  imports RegistryStorage
begin

text \<open>
  The token contract of the repository: \<open>contracts/startrailregistry/StartrailRegistryV25.sol\<close> with
  \<open>OpenSeaMetaTransactionLibrary.sol\<close> and \<open>metaTx/eip2771/EIP2771BaseRecipient.sol\<close>. A constructor of \<open>sr_call\<close>
  is a function that changes the storage; \<open>run_sr_call\<close> is what a call of it does, and \<open>run_sr_calls\<close>
  runs calls one after the other, each with its sender and the contracts around as they are then.
\<close>

section \<open>Who calls\<close>

definition sr_msgSender :: "message \<Rightarrow> sr_state \<Rightarrow> address" where
  "sr_msgSender m st =
     (if 24 \<le> length (msg_data m) \<and> msg_sender m = sr_trustedForwarder st
      then appended_sender (msg_data m) else msg_sender m)"

text \<open>\<open>_msgSender\<close> of the ERC721 functions: the user of an OpenSea meta-transaction.\<close>

definition erc721_msgSender :: "sr_env \<Rightarrow> message \<Rightarrow> address" where
  "erc721_msgSender env m =
     (if msg_sender m = se_this env then appended_sender (msg_data m) else msg_sender m)"

definition trustedForwarderOnly :: "message \<Rightarrow> sr_state \<Rightarrow> bool" where
  "trustedForwarderOnly m st \<longleftrightarrow> msg_sender m = sr_trustedForwarder st"

definition sr_isAdministrator :: "sr_env \<Rightarrow> message \<Rightarrow> sr_state \<Rightarrow> bool" where
  "sr_isAdministrator env m st \<longleftrightarrow>
     nr_administrator (se_names env (sr_nameRegistry st)) = sr_msgSender m st"

definition sr_isIssuer :: "message \<Rightarrow> 256 word \<Rightarrow> sr_state \<Rightarrow> bool" where
  "sr_isIssuer m tokenId st \<longleftrightarrow> sr_msgSender m st = sr_issuer st tokenId"

definition sr_isArtist :: "message \<Rightarrow> 256 word \<Rightarrow> sr_state \<Rightarrow> bool" where
  "sr_isArtist m tokenId st \<longleftrightarrow> sr_msgSender m st = sr_artistAddress st tokenId"

definition onlyIssuerOrArtistOrAdministrator :: "sr_env \<Rightarrow> message \<Rightarrow> 256 word \<Rightarrow> sr_state \<Rightarrow> bool" where
  "onlyIssuerOrArtistOrAdministrator env m tokenId st \<longleftrightarrow>
     sr_isAdministrator env m st \<or> sr_isIssuer m tokenId st \<or> sr_isArtist m tokenId st"

definition onlyLicensedUserOrAdministrator :: "sr_env \<Rightarrow> message \<Rightarrow> sr_state \<Rightarrow> bool" where
  "onlyLicensedUserOrAdministrator env m st \<longleftrightarrow>
     sr_isAdministrator env m st \<or>
     se_isActiveWallet env (nr_get (se_names env (sr_nameRegistry st)) LICENSED_USER_MANAGER) (sr_msgSender m st)"

definition onlyBulk :: "sr_env \<Rightarrow> message \<Rightarrow> sr_state \<Rightarrow> bool" where
  "onlyBulk env m st \<longleftrightarrow>
     (let nr = se_names env (sr_nameRegistry st)
      in nr_get nr BULK = msg_sender m \<or> nr_get nr BULK_ISSUE = msg_sender m \<or>
         nr_get nr BULK_TRANSFER = msg_sender m)"

definition onlyIssuerOrAdministrator :: "sr_env \<Rightarrow> message \<Rightarrow> 256 word \<Rightarrow> sr_state \<Rightarrow> bool" where
  "onlyIssuerOrAdministrator env m tokenId st \<longleftrightarrow>
     sr_msgSender m st = sr_issuer st tokenId \<or> sr_isAdministrator env m st"

definition onlySRROwnerOrAdministrator :: "sr_env \<Rightarrow> message \<Rightarrow> 256 word \<Rightarrow> sr_state \<Rightarrow> bool" where
  "onlySRROwnerOrAdministrator env m tokenId st \<longleftrightarrow>
     (case ownerOf tokenId st of None \<Rightarrow> False
      | Some owner \<Rightarrow> owner = sr_msgSender m st \<or> sr_isAdministrator env m st)"

definition onlySRROwner :: "address \<Rightarrow> 256 word \<Rightarrow> sr_state \<Rightarrow> bool" where
  "onlySRROwner toCheck tokenId st \<longleftrightarrow> ownerOf tokenId st = Some toCheck"

definition customHistoryIdExists :: "256 word \<Rightarrow> sr_state \<Rightarrow> bool" where
  "customHistoryIdExists customHistoryId st \<longleftrightarrow> sr_customHistoryName st customHistoryId \<noteq> []"

definition externalTransferNotLocked :: "256 word \<Rightarrow> sr_state \<Rightarrow> bool" where
  "externalTransferNotLocked tokenId st \<longleftrightarrow> \<not> sr_lockExternal st tokenId"

definition sr_isApprovedForAll :: "address \<Rightarrow> address \<Rightarrow> sr_state \<Rightarrow> bool" where
  "sr_isApprovedForAll tokenOwner operator st \<longleftrightarrow>
     (\<not> sr_killSwitch st \<and> sr_openSeaProxy st = operator) \<or> sr_operatorApprovals st tokenOwner operator"

definition isApprovedOrOwner :: "address \<Rightarrow> 256 word \<Rightarrow> sr_state \<Rightarrow> bool" where
  "isApprovedOrOwner spender tokenId st \<longleftrightarrow>
     (case ownerOf tokenId st of None \<Rightarrow> False
      | Some owner \<Rightarrow> spender = owner \<or> sr_tokenApprovals st tokenId = spender \<or>
          sr_isApprovedForAll owner spender st)"

section \<open>Reading\<close>

definition getSRR ::
  "256 word \<Rightarrow> sr_state \<Rightarrow> (registry_record \<times> bytes \<times> string) option" where
  "getSRR tokenId st =
     (if token_exists tokenId st
      then Some (\<lparr>rr_isPrimaryIssuer = sr_isPrimaryIssuer st tokenId,
                  rr_artistAddress = sr_artistAddress st tokenId, rr_issuer = sr_issuer st tokenId\<rparr>,
                 sr_metadataDigest st tokenId, sr_metadataCID st tokenId)
      else None)"

definition getSRRCommitment :: "256 word \<Rightarrow> sr_state \<Rightarrow> (bytes \<times> string \<times> 256 word) option" where
  "getSRRCommitment tokenId st =
     (if token_exists tokenId st
      then Some (sr_commitment st tokenId, sr_historyHash st tokenId, sr_historyCustom st tokenId)
      else None)"

definition sr_tokenURI :: "256 word \<Rightarrow> sr_state \<Rightarrow> string" where
  "sr_tokenURI tokenId st =
     (if sr_metadataCID st tokenId \<noteq> []
      then tokenURIFromString (sr_metadataCID st tokenId) ''ipfs://'' ''''
      else tokenURIFromBytes32 (sr_metadataDigest st tokenId) (sr_URIPrefix st) (sr_URIPostfix st))"

definition metadataURI :: "string \<Rightarrow> sr_state \<Rightarrow> string" where
  "metadataURI metadataDigest st =
     (if length metadataDigest = 66
      then tokenURIFromString metadataDigest (sr_URIPrefix st) (sr_URIPostfix st)
      else tokenURIFromString metadataDigest ''ipfs://'' '''')"

text \<open>\<open>None\<close> when the checked multiplication reverts.\<close>

definition royaltyInfo :: "256 word \<Rightarrow> 256 word \<Rightarrow> sr_state \<Rightarrow> (address \<times> 256 word) option" where
  "royaltyInfo tokenId salePrice st =
     (let royalty = (if ri_receiver (sr_royalties st tokenId) = ZERO_ADDRESS
             then \<lparr>ri_receiver = hex_bytes ''0x75194f40c5337d218a6798b02bbb34500a653a16'', ri_basisPoints = 0\<rparr>
             else sr_royalties st tokenId)
      in if unat salePrice * unat (ri_basisPoints royalty) < 2 ^ 256
         then Some (ri_receiver royalty, salePrice * ucast (ri_basisPoints royalty) div 10000)
         else None)"

section \<open>Creating tokens\<close>

definition saveSRR :: "256 word \<Rightarrow> bool \<Rightarrow> address \<Rightarrow> statement" where
  "saveSRR tokenId isPrimaryIssuer artistAddress = assign (\<lambda>st.
     st\<lparr>sr_artistAddress := (sr_artistAddress st)(tokenId := artistAddress),
        sr_isPrimaryIssuer := (sr_isPrimaryIssuer st)(tokenId := isPrimaryIssuer)\<rparr>)"

definition saveRoyalties :: "256 word \<Rightarrow> 16 word \<Rightarrow> address \<Rightarrow> statement" where
  "saveRoyalties tokenId basisPoints receiver = statements
     [require (\<lambda>st. receiver \<noteq> ZERO_ADDRESS),
      require (\<lambda>st. unat basisPoints \<le> 10000),
      require (token_exists tokenId),
      assign (\<lambda>st. st\<lparr>sr_royalties := (sr_royalties st)
        (tokenId := \<lparr>ri_receiver = receiver, ri_basisPoints = basisPoints\<rparr>)\<rparr>)]"

definition setRoyalties :: "256 word \<Rightarrow> address \<Rightarrow> 16 word \<Rightarrow> statement" where
  "setRoyalties tokenId receiver basisPoints = statements
     [saveRoyalties tokenId basisPoints receiver,
      emit (\<lambda>st. Indexed (R_RoyaltiesSet (uint tokenId) receiver (uint basisPoints)))]"

definition createSRR ::
  "evm \<Rightarrow> bool \<Rightarrow> address \<Rightarrow> string \<Rightarrow> address \<Rightarrow> bool \<Rightarrow> address \<Rightarrow> 16 word \<Rightarrow> statement" where
  "createSRR e isPrimaryIssuer artistAddress metadataCID sender lockExternalTransfer royaltyReceiver
      royaltyBasisPoints =
     (let tokenId = generate_id e metadataCID artistAddress
      in statements
        [require (\<lambda>st. metadataCID \<noteq> []),
         require (\<lambda>st. \<not> token_exists tokenId st),
         require (\<lambda>st. royaltyReceiver \<noteq> ZERO_ADDRESS \<longrightarrow> unat royaltyBasisPoints \<le> 10000),
         mint_token sender tokenId,
         assign (\<lambda>st. st\<lparr>sr_issuer := (sr_issuer st)(tokenId := sender),
                         sr_metadataCID := (sr_metadataCID st)(tokenId := metadataCID),
                         sr_lockExternal := (sr_lockExternal st)(tokenId := lockExternalTransfer)\<rparr>),
         saveSRR tokenId isPrimaryIssuer artistAddress,
         emit (\<lambda>st. Indexed (R_CreateSRRWithCID (uint tokenId)
           \<lparr>rr_isPrimaryIssuer = isPrimaryIssuer, rr_artistAddress = artistAddress, rr_issuer = sender\<rparr>
           metadataCID lockExternalTransfer)),
         when_sr (\<lambda>st. royaltyReceiver \<noteq> ZERO_ADDRESS)
           (setRoyalties tokenId royaltyReceiver royaltyBasisPoints)])"

definition createSRRTo ::
  "evm \<Rightarrow> bool \<Rightarrow> address \<Rightarrow> string \<Rightarrow> address \<Rightarrow> bool \<Rightarrow> address \<Rightarrow> address \<Rightarrow> 16 word \<Rightarrow> statement" where
  "createSRRTo e isPrimaryIssuer artistAddress metadataCID sender lockExternalTransfer to royaltyReceiver
      royaltyBasisPoints = statements
     [createSRR e isPrimaryIssuer artistAddress metadataCID sender lockExternalTransfer royaltyReceiver
        royaltyBasisPoints,
      when_sr (\<lambda>st. to \<noteq> ZERO_ADDRESS) (transfer_token sender to (generate_id e metadataCID artistAddress))]"

section \<open>Commitments and provenance\<close>

definition NO_COMMITMENT :: bytes where
  "NO_COMMITMENT = replicate 32 0"

definition NO_CUSTOM_HISTORY :: "256 word" where
  "NO_CUSTOM_HISTORY = 0"

definition approveSRRByCommitment_internal :: "256 word \<Rightarrow> bytes \<Rightarrow> string \<Rightarrow> 256 word \<Rightarrow> statement" where
  "approveSRRByCommitment_internal tokenId commitment historyMetadataHash customHistoryId = statements
     [when_sr (\<lambda>st. sr_commitment st tokenId \<noteq> NO_COMMITMENT)
        (emit (\<lambda>st. Indexed (R_SRRCommitmentCancelled (uint tokenId)))),
      assign (\<lambda>st. st\<lparr>sr_commitment := (sr_commitment st)(tokenId := commitment),
                      sr_historyHash := (sr_historyHash st)(tokenId := historyMetadataHash)\<rparr>),
      if customHistoryId = NO_CUSTOM_HISTORY
      then statements
        [require (token_exists tokenId),
         emit (\<lambda>st. Indexed (R_SRRCommitment (uint tokenId) (sr_tokenOwner st tokenId) commitment))]
      else statements
        [assign (\<lambda>st. st\<lparr>sr_historyCustom := (sr_historyCustom st)(tokenId := customHistoryId)\<rparr>),
         require (token_exists tokenId),
         emit (\<lambda>st. Indexed (R_SRRCommitmentWithCustomHistory (uint tokenId) (sr_tokenOwner st tokenId)
           commitment (uint customHistoryId)))]]"

definition clearSRRCommitment :: "256 word \<Rightarrow> statement" where
  "clearSRRCommitment tokenId = assign (\<lambda>st.
     st\<lparr>sr_commitment := (sr_commitment st)(tokenId := NO_COMMITMENT),
        sr_historyHash := (sr_historyHash st)(tokenId := ''''),
        sr_historyCustom := (sr_historyCustom st)(tokenId := 0)\<rparr>)"

definition historyProvenance ::
  "256 word \<Rightarrow> address \<Rightarrow> address \<Rightarrow> string \<Rightarrow> 256 word \<Rightarrow> bool \<Rightarrow> statement" where
  "historyProvenance tokenId from to historyMetadataHash customHistoryId isIntermediary =
     emit (\<lambda>st. Indexed (
       if customHistoryId \<noteq> NO_CUSTOM_HISTORY
       then R_ProvenanceWithCustomHistoryAndIntermediary (uint tokenId) from to (uint customHistoryId)
              historyMetadataHash (metadataURI historyMetadataHash st) isIntermediary
       else R_ProvenanceWithIntermediary (uint tokenId) from to historyMetadataHash
              (metadataURI historyMetadataHash st) isIntermediary))"

definition transferFromWithProvenance_internal ::
  "sr_env \<Rightarrow> message \<Rightarrow> address \<Rightarrow> 256 word \<Rightarrow> string \<Rightarrow> 256 word \<Rightarrow> bool \<Rightarrow> statement" where
  "transferFromWithProvenance_internal env m to tokenId historyMetadataHash customHistoryId isIntermediary =
     reading (\<lambda>st. sr_tokenOwner st tokenId) (\<lambda>from. statements
       [require (token_exists tokenId),
        historyProvenance tokenId from to historyMetadataHash customHistoryId isIntermediary,
        safe_transfer_token env (erc721_msgSender env m) from to tokenId []])"

definition transferSRRByReveal ::
  "evm \<Rightarrow> address \<Rightarrow> bytes \<Rightarrow> 256 word \<Rightarrow> bool \<Rightarrow> statement" where
  "transferSRRByReveal e to reveal tokenId isIntermediary = statements
     [require (token_exists tokenId),
      require (\<lambda>st. evm_keccak256 e reveal = sr_commitment st tokenId),
      reading (\<lambda>st. sr_tokenOwner st tokenId) (\<lambda>from. statements
        [reading (\<lambda>st. (sr_historyHash st tokenId, sr_historyCustom st tokenId)) (\<lambda>(hash, custom).
           historyProvenance tokenId from to hash custom isIntermediary),
         clearSRRCommitment tokenId,
         transfer_token from to tokenId])]"

section \<open>Royalties and histories\<close>

definition updateSRRRoyalty :: "256 word \<Rightarrow> address \<Rightarrow> 16 word \<Rightarrow> statement" where
  "updateSRRRoyalty tokenId royaltyReceiver royaltyBasisPoints =
     when_sr (\<lambda>st. ri_receiver (sr_royalties st tokenId) \<noteq> ZERO_ADDRESS)
       (setRoyalties tokenId royaltyReceiver royaltyBasisPoints)"

definition updateSRRRoyaltyReceiverMulti :: "256 word list \<Rightarrow> address \<Rightarrow> statement" where
  "updateSRRRoyaltyReceiverMulti tokenIds royaltyReceiver = statements (map (\<lambda>tokenId. statements
     [require (token_exists tokenId),
      reading (\<lambda>st. ri_basisPoints (sr_royalties st tokenId))
        (\<lambda>basisPoints. updateSRRRoyalty tokenId royaltyReceiver basisPoints)]) tokenIds)"

text \<open>The counter of the loops is a \<open>uint16\<close>, its increment is checked.\<close>

definition addHistory :: "sr_env \<Rightarrow> message \<Rightarrow> 256 word list \<Rightarrow> 256 word list \<Rightarrow> statement" where
  "addHistory env m tokenIds customHistoryIds = statements
     [require (onlyLicensedUserOrAdministrator env m),
      require (\<lambda>st. length tokenIds * length customHistoryIds \<le> unat (sr_maxCombinedHistoryRecords st)),
      require (\<lambda>st. length tokenIds < 2 ^ 16 \<and>
        list_all (\<lambda>t. token_exists t st \<and> onlyIssuerOrArtistOrAdministrator env m t st) tokenIds),
      require (\<lambda>st. length customHistoryIds < 2 ^ 16 \<and>
        list_all (\<lambda>i. customHistoryIdExists i st) customHistoryIds),
      emit (\<lambda>st. Indexed (R_History (map uint tokenIds) (map uint customHistoryIds)))]"

definition sr_addCustomHistoryType :: "string \<Rightarrow> statement" where
  "sr_addCustomHistoryType historyTypeName = statements
     [require (\<lambda>st. sr_typeIdByName st historyTypeName = 0),
      require (\<lambda>st. sr_customHistoryTypeCount st \<noteq> - 1),
      assign (\<lambda>st. st\<lparr>sr_customHistoryTypeCount := sr_customHistoryTypeCount st + 1\<rparr>),
      assign (\<lambda>st. st\<lparr>sr_typeNameById := (sr_typeNameById st)(sr_customHistoryTypeCount st := historyTypeName),
                      sr_typeIdByName := (sr_typeIdByName st)(historyTypeName := sr_customHistoryTypeCount st)\<rparr>),
      emit (\<lambda>st. Indexed (R_CreateCustomHistoryType (uint (sr_customHistoryTypeCount st)) historyTypeName))]"

definition writeCustomHistory :: "string \<Rightarrow> 256 word \<Rightarrow> (int \<Rightarrow> registry_event) \<Rightarrow> statement" where
  "writeCustomHistory name customHistoryTypeId created = statements
     [require (\<lambda>st. sr_typeNameById st customHistoryTypeId \<noteq> []),
      require (\<lambda>st. sr_customHistoryCount st \<noteq> - 1),
      assign (\<lambda>st. st\<lparr>sr_customHistoryCount := sr_customHistoryCount st + 1\<rparr>),
      assign (\<lambda>st. st\<lparr>sr_customHistoryName := (sr_customHistoryName st)(sr_customHistoryCount st := name)\<rparr>),
      emit (\<lambda>st. Indexed (created (uint (sr_customHistoryCount st))))]"

text \<open>The name is written when the hashes of the old and the new one differ.\<close>

definition updateCustomHistory :: "evm \<Rightarrow> 256 word \<Rightarrow> string \<Rightarrow> registry_event \<Rightarrow> statement" where
  "updateCustomHistory e customHistoryId name updated = statements
     [require (customHistoryIdExists customHistoryId),
      require (\<lambda>st. name \<noteq> []),
      when_sr (\<lambda>st. evm_keccak256 e (str_bytes (sr_customHistoryName st customHistoryId)) \<noteq>
                    evm_keccak256 e (str_bytes name))
        (assign (\<lambda>st. st\<lparr>sr_customHistoryName := (sr_customHistoryName st)(customHistoryId := name)\<rparr>)),
      emit (\<lambda>st. Indexed updated)]"

section \<open>OpenSeaMetaTransactionLibrary.sol\<close>

definition META_TRANSACTION_TYPEHASH :: "evm \<Rightarrow> bytes" where
  "META_TRANSACTION_TYPEHASH e = evm_keccak256 e (str_bytes
     ''MetaTransaction(uint256 nonce,address from,bytes functionSignature)'')"

definition OPENSEA_DOMAIN_TYPEHASH :: "evm \<Rightarrow> bytes" where
  "OPENSEA_DOMAIN_TYPEHASH e = evm_keccak256 e (str_bytes
     ''EIP712Domain(string name,string version,address verifyingContract,bytes32 salt)'')"

definition openSeaDomainSeparator :: "evm \<Rightarrow> sr_env \<Rightarrow> string \<Rightarrow> bytes" where
  "openSeaDomainSeparator e env name = evm_keccak256 e
     (OPENSEA_DOMAIN_TYPEHASH e @ evm_keccak256 e (str_bytes name) @ evm_keccak256 e (str_bytes ''1'') @
      abi_address (se_this env) @ abi_uint (evm_chainid e))"

definition hashMetaTransaction :: "evm \<Rightarrow> 256 word \<Rightarrow> address \<Rightarrow> bytes \<Rightarrow> bytes" where
  "hashMetaTransaction e nonce user functionSignature = evm_keccak256 e
     (META_TRANSACTION_TYPEHASH e @ abi_uint nonce @ abi_address user @ evm_keccak256 e functionSignature)"

definition verifyMetaTransaction ::
  "evm \<Rightarrow> address \<Rightarrow> bytes \<Rightarrow> bytes \<Rightarrow> bytes \<Rightarrow> byte \<Rightarrow> sr_state \<Rightarrow> bool" where
  "verifyMetaTransaction e user functionSignature r s v st \<longleftrightarrow>
     user \<noteq> ZERO_ADDRESS \<and>
     user = evm_ecrecover e
       (evm_keccak256 e ([0x19, 0x01] @ sr_domainSeparator st @
          hashMetaTransaction e (sr_metaTxNonces st user) user functionSignature)) v r s"

text \<open>Everything before the registry calls itself.\<close>

definition startMetaTransaction ::
  "evm \<Rightarrow> message \<Rightarrow> address \<Rightarrow> bytes \<Rightarrow> bytes \<Rightarrow> bytes \<Rightarrow> byte \<Rightarrow> statement" where
  "startMetaTransaction e m user functionSignature r s v = statements
     [require (verifyMetaTransaction e user functionSignature r s v),
      require (\<lambda>st. sr_metaTxNonces st user \<noteq> - 1),
      assign (\<lambda>st. st\<lparr>sr_metaTxNonces := (sr_metaTxNonces st)(user := sr_metaTxNonces st user + 1)\<rparr>),
      emit (\<lambda>st. MetaTransactionExecuted user (msg_sender m) functionSignature)]"

section \<open>Calls\<close>

text \<open>In a meta-transaction the registry calls itself, with the user appended to the calldata.\<close>

fun run_sr_call :: "evm \<Rightarrow> sr_env \<Rightarrow> message \<Rightarrow> sr_call \<Rightarrow> statement" where
  "run_sr_call e env m (SR_setTrustedForwarder forwarder) = statements
     [require (sr_isAdministrator env m), require (\<lambda>st. forwarder \<noteq> ZERO_ADDRESS),
      assign (\<lambda>st. st\<lparr>sr_trustedForwarder := forwarder\<rparr>)]"
| "run_sr_call e env m (SR_setMaxCombinedHistoryRecords maxRecords) = statements
     [require (sr_isAdministrator env m),
      assign (\<lambda>st. st\<lparr>sr_maxCombinedHistoryRecords := maxRecords\<rparr>)]"
| "run_sr_call e env m (SR_createSRRFromLicensedUser isPrimaryIssuer artistAddress metadataCID lock to receiver points) =
     statements
     [require (trustedForwarderOnly m),
      reading (sr_msgSender m) (\<lambda>sender.
        createSRRTo e isPrimaryIssuer artistAddress metadataCID sender lock to receiver points)]"
| "run_sr_call e env m (SR_createSRRFromBulk isPrimaryIssuer artistAddress metadataCID issuer lock to receiver points) =
     statements
     [require (onlyBulk env m),
      createSRRTo e isPrimaryIssuer artistAddress metadataCID issuer lock to receiver points]"
| "run_sr_call e env m (SR_approveSRRByCommitmentFromBulk signer tokenId commitment hash custom) = statements
     [require (onlyBulk env m), require (onlySRROwner signer tokenId),
      approveSRRByCommitment_internal tokenId commitment hash custom]"
| "run_sr_call e env m (SR_transferFromWithProvenanceFromBulk signer to tokenId hash custom isIntermediary) =
     statements
     [require (onlyBulk env m), require (onlySRROwner signer tokenId),
      transferFromWithProvenance_internal env m to tokenId hash custom isIntermediary]"
| "run_sr_call e env m (SR_updateSRR tokenId isPrimaryIssuer artistAddress) = statements
     [require (token_exists tokenId), require (onlyIssuerOrArtistOrAdministrator env m tokenId),
      saveSRR tokenId isPrimaryIssuer artistAddress,
      emit (\<lambda>st. Indexed (R_UpdateSRRWithSender (uint tokenId) isPrimaryIssuer artistAddress (sr_msgSender m st)))]"
| "run_sr_call e env m (SR_updateSRRMetadata tokenId metadataCID) = statements
     [require (token_exists tokenId), require (onlyIssuerOrArtistOrAdministrator env m tokenId),
      assign (\<lambda>st. st\<lparr>sr_metadataCID := (sr_metadataCID st)(tokenId := metadataCID)\<rparr>),
      emit (\<lambda>st. Indexed (R_UpdateSRRMetadataCID (uint tokenId) metadataCID))]"
| "run_sr_call e env m (SR_updateSRRRoyalty tokenId receiver points) = statements
     [require (token_exists tokenId), require (onlyIssuerOrArtistOrAdministrator env m tokenId),
      updateSRRRoyalty tokenId receiver points]"
| "run_sr_call e env m (SR_updateSRRRoyaltyReceiverMulti tokenIds receiver) = statements
     [require (sr_isAdministrator env m), updateSRRRoyaltyReceiverMulti tokenIds receiver]"
| "run_sr_call e env m (SR_approveSRRByCommitment tokenId commitment hash) = statements
     [require (onlySRROwnerOrAdministrator env m tokenId),
      approveSRRByCommitment_internal tokenId commitment hash NO_CUSTOM_HISTORY]"
| "run_sr_call e env m (SR_approveSRRByCommitmentWithCustomHistory tokenId commitment hash custom) = statements
     [require (onlySRROwnerOrAdministrator env m tokenId), require (customHistoryIdExists custom),
      approveSRRByCommitment_internal tokenId commitment hash custom]"
| "run_sr_call e env m (SR_cancelSRRCommitment tokenId) = statements
     [require (onlySRROwnerOrAdministrator env m tokenId),
      clearSRRCommitment tokenId,
      emit (\<lambda>st. Indexed (R_SRRCommitmentCancelled (uint tokenId)))]"
| "run_sr_call e env m (SR_transferSRRByReveal to reveal tokenId isIntermediary) =
     transferSRRByReveal e to reveal tokenId isIntermediary"
| "run_sr_call e env m (SR_addHistory tokenIds customHistoryIds) = addHistory env m tokenIds customHistoryIds"
| "run_sr_call e env m (SR_setNameRegistryAddress nameRegistry) = statements
     [require (\<lambda>st. nameRegistry \<noteq> ZERO_ADDRESS), require (sr_isAdministrator env m),
      assign (\<lambda>st. st\<lparr>sr_nameRegistry := nameRegistry\<rparr>)]"
| "run_sr_call e env m (SR_setTokenURIParts prefix postfix) = statements
     [require (sr_isAdministrator env m),
      assign (\<lambda>st. st\<lparr>sr_URIPrefix := prefix, sr_URIPostfix := postfix\<rparr>)]"
| "run_sr_call e env m (SR_addCustomHistoryType historyTypeName) = statements
     [require (sr_isAdministrator env m), sr_addCustomHistoryType historyTypeName]"
| "run_sr_call e env m (SR_writeCustomHistoryDigest name typeId digest) = statements
     [require (sr_isAdministrator env m),
      writeCustomHistory name typeId (\<lambda>i. R_CreateCustomHistory i name (uint typeId) digest)]"
| "run_sr_call e env m (SR_writeCustomHistoryCID name typeId cid) = statements
     [require (sr_isAdministrator env m),
      writeCustomHistory name typeId (\<lambda>i. R_CreateCustomHistoryWithCID i name (uint typeId) cid)]"
| "run_sr_call e env m (SR_updateCustomHistoryDigest custom name digest) = statements
     [require (sr_isAdministrator env m),
      updateCustomHistory e custom name (R_UpdateCustomHistory (uint custom) name digest)]"
| "run_sr_call e env m (SR_updateCustomHistoryCID custom name cid) = statements
     [require (sr_isAdministrator env m),
      updateCustomHistory e custom name (R_UpdateCustomHistoryWithCID (uint custom) name cid)]"
| "run_sr_call e env m (SR_transferFrom from to tokenId) = statements
     [require (externalTransferNotLocked tokenId),
      require (isApprovedOrOwner (erc721_msgSender env m) tokenId),
      transfer_token from to tokenId]"
| "run_sr_call e env m (SR_safeTransferFrom from to tokenId) = statements
     [require (externalTransferNotLocked tokenId),
      require (isApprovedOrOwner (erc721_msgSender env m) tokenId),
      safe_transfer_token env (erc721_msgSender env m) from to tokenId []]"
| "run_sr_call e env m (SR_safeTransferFromData from to tokenId data) = statements
     [require (externalTransferNotLocked tokenId),
      require (isApprovedOrOwner (erc721_msgSender env m) tokenId),
      safe_transfer_token env (erc721_msgSender env m) from to tokenId data]"
| "run_sr_call e env m (SR_transferFromWithProvenance to tokenId hash custom isIntermediary) = statements
     [require (onlySRROwnerOrAdministrator env m tokenId),
      transferFromWithProvenance_internal env m to tokenId hash custom isIntermediary]"
| "run_sr_call e env m (SR_approve to tokenId) = statements
     [require (externalTransferNotLocked tokenId),
      require (\<lambda>st. token_exists tokenId st \<and> to \<noteq> sr_tokenOwner st tokenId),
      require (\<lambda>st. erc721_msgSender env m = sr_tokenOwner st tokenId \<or>
        sr_isApprovedForAll (sr_tokenOwner st tokenId) (erc721_msgSender env m) st \<or> sr_isAdministrator env m st),
      approve_internal to tokenId]"
| "run_sr_call e env m (SR_setApprovalForAll operator approved) =
     set_operator (erc721_msgSender env m) operator approved"
| "run_sr_call e env m (SR_setLockExternalTransfer tokenId flag) = statements
     [require (onlyIssuerOrAdministrator env m tokenId), require (token_exists tokenId),
      assign (\<lambda>st. st\<lparr>sr_lockExternal := (sr_lockExternal st)(tokenId := flag)\<rparr>),
      emit (\<lambda>st. Indexed (R_LockExternalTransfer (uint tokenId) flag))]"
| "run_sr_call e env m (SR_setContractURI uri) = statements
     [require (sr_isAdministrator env m), assign (\<lambda>st. st\<lparr>sr_contractURI := uri\<rparr>)]"
| "run_sr_call e env m (SR_transferOwnership newOwner) = statements
     [require (sr_isAdministrator env m), require (\<lambda>st. newOwner \<noteq> ZERO_ADDRESS),
      emit (\<lambda>st. ContractOwnershipTransferred (sr_contractOwner st) newOwner),
      assign (\<lambda>st. st\<lparr>sr_contractOwner := newOwner\<rparr>)]"
| "run_sr_call e env m (SR_setOpenSeaApproveAllKillSwitch on) = statements
     [require (sr_isAdministrator env m), assign (\<lambda>st. st\<lparr>sr_killSwitch := on\<rparr>)]"
| "run_sr_call e env m (SR_setOpenSeaMetaTxIntegration proxy name) = statements
     [require (sr_isAdministrator env m),
      assign (\<lambda>st. st\<lparr>sr_openSeaProxy := proxy, sr_domainSeparator := openSeaDomainSeparator e env name\<rparr>)]"
| "run_sr_call e env m (SR_executeMetaTransaction user callData call r s v) = statements
     [startMetaTransaction e m user callData r s v,
      require (\<lambda>st. se_decode env callData = Some call),
      run_sr_call e env \<lparr>msg_sender = se_this env, msg_data = callData @ user\<rparr> call]"

fun run_sr_calls :: "evm \<Rightarrow> (sr_env \<times> message \<times> sr_call) list \<Rightarrow> statement" where
  "run_sr_calls e [] st = Some (st, [])"
| "run_sr_calls e ((env, m, c) # cs) st =
     (case run_sr_call e env m c st of None \<Rightarrow> None
      | Some (st1, es1) \<Rightarrow>
          (case run_sr_calls e cs st1 of None \<Rightarrow> None | Some (st2, es2) \<Rightarrow> Some (st2, es1 @ es2)))"

section \<open>Recipients that call back\<close>

text \<open>While a recipient with code handles \<open>onERC721Received\<close>, it may call the registry, as may the contracts it
  calls. A \<open>transaction\<close> is a call with the calls made during its hook; those that revert change nothing
  and are left out.\<close>

datatype transaction = Transaction sr_env message sr_call "transaction list"

fun run_transaction :: "evm \<Rightarrow> transaction \<Rightarrow> statement"
  and run_transactions :: "evm \<Rightarrow> transaction list \<Rightarrow> statement" where
  "run_transaction e (Transaction env m c inner) = statements [run_sr_call e env m c, run_transactions e inner]"
| "run_transactions e [] = statements []"
| "run_transactions e (t # ts) = statements [run_transaction e t, run_transactions e ts]"

fun calls_in_order :: "transaction \<Rightarrow> (sr_env \<times> message \<times> sr_call) list" where
  "calls_in_order (Transaction env m c inner) = (env, m, c) # concat (map calls_in_order inner)"

declare run_sr_calls.simps(2) [simp del]

lemma run_sr_calls_append:
  "run_sr_calls e (cs @ ds) st = (case run_sr_calls e cs st of None \<Rightarrow> None
     | Some (st1, es1) \<Rightarrow> (case run_sr_calls e ds st1 of None \<Rightarrow> None | Some (st2, es2) \<Rightarrow> Some (st2, es1 @ es2)))"
  by (induction cs arbitrary: st) (auto simp: run_sr_calls.simps(2) split: option.splits)

lemma run_sr_calls_Some [simp]:
  "run_sr_calls e [] st = Some (st', es) \<longleftrightarrow> st' = st \<and> es = []"
  "run_sr_calls e ((env, m, c) # cs) st = Some (st', es) \<longleftrightarrow>
     (\<exists>st1 es1 es2. run_sr_call e env m c st = Some (st1, es1) \<and> run_sr_calls e cs st1 = Some (st', es2) \<and> es = es1 @ es2)"
  by (auto simp: run_sr_calls.simps(2) split: option.splits)

lemma nested_calls_are_a_run:
  "run_transaction e t st = run_sr_calls e (calls_in_order t) st"
  "run_transactions e ts st = run_sr_calls e (concat (map calls_in_order ts)) st"
  by (induction e t and e ts arbitrary: st and st rule: run_transaction_run_transactions.induct)
    (simp_all add: statements.simps run_sr_calls.simps(2) run_sr_calls_append split: option.split)

end
