(* ===== verification/RegistryFacts.thy ===== *)
theory RegistryFacts
  imports RegistryContract Ledger
begin

text \<open>
  What a call of the StartrailRegistry can do to tokens (\<open>token_effect\<close>): nothing, mint one, mint and move
  it, move one, commit one to a transfer, or withdraw its commitment, with the ledger operations of
  the events it emits. From that: the invariant of the storage (\<open>sr_ok\<close>), who can change the owner of a
  token, and the ledger that the events lead to.
\<close>

section \<open>Events\<close>

fun indexed_event :: "sr_event \<Rightarrow> registry_event list" where
  "indexed_event (Indexed r) = [r]"
| "indexed_event _ = []"

definition indexed :: "sr_event list \<Rightarrow> registry_event list" where
  "indexed es = concat (map indexed_event es)"

definition ledger_ops :: "(int \<Rightarrow> string) \<Rightarrow> sr_event list \<Rightarrow> ledger_op list" where
  "ledger_ops K es = concat (map (\<lambda>r. case registry_op K r of None \<Rightarrow> [] | Some x \<Rightarrow> [x]) (indexed es))"

lemma indexed_simps [simp]:
  "indexed [] = []" "indexed (Indexed r # es) = r # indexed es" "indexed (es @ fs) = indexed es @ indexed fs"
  "indexed (Approval a b t # es) = indexed es" "indexed (ApprovalForAll a b f # es) = indexed es"
  "indexed (ContractOwnershipTransferred a b # es) = indexed es"
  "indexed (MetaTransactionExecuted a b d # es) = indexed es"
  by (simp_all add: indexed_def)

lemma ledger_ops_simps [simp]:
  "ledger_ops K [] = []" "ledger_ops K (es @ fs) = ledger_ops K es @ ledger_ops K fs"
  "ledger_ops K (Indexed r # es) = (case registry_op K r of None \<Rightarrow> [] | Some x \<Rightarrow> [x]) @ ledger_ops K es"
  "ledger_ops K (Approval a b t # es) = ledger_ops K es" "ledger_ops K (ApprovalForAll a b f # es) = ledger_ops K es"
  "ledger_ops K (ContractOwnershipTransferred a b # es) = ledger_ops K es"
  "ledger_ops K (MetaTransactionExecuted a b d # es) = ledger_ops K es"
  by (simp_all add: ledger_ops_def)

section \<open>The effect of a call on the tokens\<close>

inductive token_effect :: "(int \<Rightarrow> string) \<Rightarrow> sr_state \<Rightarrow> ledger_op list \<Rightarrow> sr_state \<Rightarrow> bool" for K :: "int \<Rightarrow> string" where
  quiet: "sr_tokenOwner st' = sr_tokenOwner st \<Longrightarrow> sr_ownedTokensCount st' = sr_ownedTokensCount st \<Longrightarrow>
    sr_commitment st' = sr_commitment st \<Longrightarrow> token_effect K st [] st'"
| minted: "\<not> token_exists t st \<Longrightarrow> a \<noteq> ZERO_ADDRESS \<Longrightarrow> unat t < 10 ^ 12 \<Longrightarrow> sr_ownedTokensCount st a \<noteq> - 1 \<Longrightarrow>
    sr_tokenOwner st' = (sr_tokenOwner st)(t := a) \<Longrightarrow>
    sr_ownedTokensCount st' = (sr_ownedTokensCount st)(a := sr_ownedTokensCount st a + 1) \<Longrightarrow>
    sr_commitment st' = sr_commitment st \<Longrightarrow> token_effect K st [Mint (K (uint t)) a] st'"
| moved: "token_exists t st \<Longrightarrow> b \<noteq> ZERO_ADDRESS \<Longrightarrow> a = sr_tokenOwner st t \<Longrightarrow>
    sr_ownedTokensCount st a \<noteq> 0 \<Longrightarrow> b = a \<or> sr_ownedTokensCount st b \<noteq> - 1 \<Longrightarrow>
    sr_tokenOwner st' = (sr_tokenOwner st)(t := b) \<Longrightarrow>
    sr_ownedTokensCount st' = moved_count a b (sr_ownedTokensCount st) \<Longrightarrow>
    sr_commitment st' = sr_commitment st \<or> sr_commitment st' = (sr_commitment st)(t := NO_COMMITMENT) \<Longrightarrow>
    ops = [Move (K (uint t)) b] \<or> ops = [Trace (K (uint t)) b, Move (K (uint t)) b] \<Longrightarrow>
    token_effect K st ops st'"
| minted_moved: "token_effect K st [Mint (K (uint (t :: 256 word))) a] st1 \<Longrightarrow> token_effect K st1 [Move (K (uint t)) b] st' \<Longrightarrow>
    token_effect K st [Mint (K (uint t)) a, Move (K (uint t)) b] st'"
| committed: "token_exists t st \<Longrightarrow> sr_tokenOwner st' = sr_tokenOwner st \<Longrightarrow>
    sr_ownedTokensCount st' = sr_ownedTokensCount st \<Longrightarrow> sr_commitment st' = (sr_commitment st)(t := c) \<Longrightarrow>
    ops = [Commit (K (uint t)) c] \<or> ops = [Withdraw (K (uint t)), Commit (K (uint t)) c] \<Longrightarrow>
    token_effect K st ops st'"
| withdrawn: "token_exists t st \<Longrightarrow> sr_tokenOwner st' = sr_tokenOwner st \<Longrightarrow>
    sr_ownedTokensCount st' = sr_ownedTokensCount st \<Longrightarrow> sr_commitment st' = (sr_commitment st)(t := NO_COMMITMENT) \<Longrightarrow>
    token_effect K st [Withdraw (K (uint t))] st'"

definition effective :: "statement \<Rightarrow> bool" where
  "effective s \<longleftrightarrow> (\<forall>K st st' es. s st = Some (st', es) \<longrightarrow> token_effect K st (ledger_ops K es) st')"

lemma transfer_op_simps [simp]:
  "transfer_op k ZERO_ADDRESS b = Mint k b" "a \<noteq> ZERO_ADDRESS \<Longrightarrow> transfer_op k a b = Move k b"
  by (simp_all add: transfer_op_def)

text \<open>Statements before which nothing happens to tokens: what the rest does is the effect.\<close>

definition silent :: "statement \<Rightarrow> bool" where
  "silent s \<longleftrightarrow> (\<forall>K st st' es. s st = Some (st', es) \<longrightarrow> sr_tokenOwner st' = sr_tokenOwner st \<and>
     sr_ownedTokensCount st' = sr_ownedTokensCount st \<and> sr_commitment st' = sr_commitment st \<and> ledger_ops K es = [])"

lemma token_effect_from:
  assumes "token_effect K st1 ops st2" and "sr_tokenOwner st1 = sr_tokenOwner st"
    "sr_ownedTokensCount st1 = sr_ownedTokensCount st" "sr_commitment st1 = sr_commitment st"
  shows "token_effect K st ops st2"
  using assms
proof (induction arbitrary: st rule: token_effect.induct)
  case (minted_moved st0 t a st1 b st' stx)
  then show ?case using token_effect.minted_moved by blast
qed (auto simp: token_exists_def intro: token_effect.intros)

lemma silent_effective: "silent s \<Longrightarrow> effective s"
  unfolding silent_def effective_def by (metis token_effect.quiet)

lemma silent_statements: "list_all silent ss \<Longrightarrow> silent (statements ss)"
proof (induction ss)
  case Nil
  then show ?case by (simp add: silent_def)
next
  case (Cons s ss)
  show ?case unfolding silent_def
  proof (intro allI impI)
    fix K st st' es assume "statements (s # ss) st = Some (st', es)"
    then obtain st1 es1 es2 where one: "s st = Some (st1, es1)" "statements ss st1 = Some (st', es2)" "es = es1 @ es2"
      by auto
    have "silent s" "silent (statements ss)" using Cons by simp_all
    then show "sr_tokenOwner st' = sr_tokenOwner st \<and> sr_ownedTokensCount st' = sr_ownedTokensCount st \<and>
        sr_commitment st' = sr_commitment st \<and> ledger_ops K es = []"
      using one unfolding silent_def by (metis ledger_ops_simps(2) append_Nil)
  qed
qed

lemma effective_after: "silent s \<Longrightarrow> effective (statements ss) \<Longrightarrow> effective (statements (s # ss))"
  unfolding effective_def silent_def
  by (fastforce intro: token_effect_from)

lemma silent_basic [simp]:
  "silent (require P)"
  "silent (assign f) \<longleftrightarrow> (\<forall>st. sr_tokenOwner (f st) = sr_tokenOwner st \<and>
     sr_ownedTokensCount (f st) = sr_ownedTokensCount st \<and> sr_commitment (f st) = sr_commitment st)"
  "silent (emit ev) \<longleftrightarrow> (\<forall>K st. ledger_ops K [ev st] = [])"
  "silent s \<Longrightarrow> silent (when_sr P s)"
  "(\<And>x. silent (f2 x)) \<Longrightarrow> silent (reading g f2)"
  by (auto simp: silent_def when_sr_def)

lemma silent_royalties [simp]:
  "silent (setRoyalties t r b)" "silent (updateSRRRoyalty t r b)" "silent (updateSRRRoyaltyReceiverMulti ts r)"
proof -
  show set_royalties: "silent (setRoyalties t r b)" for t r b
    unfolding setRoyalties_def saveRoyalties_def by (intro silent_statements) (simp add: silent_statements)
  then show update: "silent (updateSRRRoyalty t r b)" for t r b by (simp add: updateSRRRoyalty_def)
  then show "silent (updateSRRRoyaltyReceiverMulti ts r)"
    unfolding updateSRRRoyaltyReceiverMulti_def
    by (intro silent_statements) (simp add: list_all_iff silent_statements)
qed

lemma silent_histories [simp]:
  "silent (sr_addCustomHistoryType n)" "silent (addHistory env m ts is)"
  "(\<And>K i. registry_op K (f i) = None) \<Longrightarrow> silent (writeCustomHistory n ty f)"
  "(\<And>K. registry_op K u = None) \<Longrightarrow> silent (updateCustomHistory e ch n u)"
  by (simp_all add: sr_addCustomHistoryType_def addHistory_def writeCustomHistory_def updateCustomHistory_def
      silent_statements)

lemma silent_rest [simp]:
  "silent (set_operator a b f)" "silent (approve_internal a t)" "silent (saveSRR t p a)"
  "silent (startMetaTransaction e m user d r s v)"
  by (simp_all add: set_operator_def approve_internal_def saveSRR_def startMetaTransaction_def silent_statements)

section \<open>Every call has such an effect\<close>

lemma transfer_effective: "effective (transfer_token a b t)"
  unfolding effective_def
  by (auto simp: transfer_Some token_exists_def intro!: token_effect.moved [where t = t and b = b])

lemma safe_transfer_effective: "effective (safe_transfer_token env o' a b t d)"
  using transfer_effective [of a b t] by (simp add: effective_def safe_transfer_Some)

lemma fourth_statement:
  assumes "statements (require P # require Q # require R # s # ss) st = Some (st', es)"
  obtains st1 es1 es2 where "P st" "Q st" "R st" "s st = Some (st1, es1)" "statements ss st1 = Some (st', es2)"
    "es = es1 @ es2"
  using assms by auto

lemma createSRR_effect:
  assumes "createSRR e p artist cid sender lock receiver points st = Some (st', es)"
  shows "token_effect K st [Mint (K (uint (generate_id e cid artist))) sender] st' \<and>
    ledger_ops K es = [Mint (K (uint (generate_id e cid artist))) sender] \<and>
    \<not> token_exists (generate_id e cid artist) st \<and> sender \<noteq> ZERO_ADDRESS \<and>
    sr_tokenOwner st' = (sr_tokenOwner st)(generate_id e cid artist := sender)"
proof -
  let ?t = "generate_id e cid artist"
  obtain st1 es1 es2 where mint: "mint_token sender ?t st = Some (st1, es1)"
    and rest: "sr_tokenOwner st' = sr_tokenOwner st1" "sr_ownedTokensCount st' = sr_ownedTokensCount st1"
      "sr_commitment st' = sr_commitment st1" "ledger_ops K es2 = []" "es = es1 @ es2"
  proof -
    have rest: "silent (statements
        [assign (\<lambda>st. st\<lparr>sr_issuer := (sr_issuer st)(?t := sender),
                         sr_metadataCID := (sr_metadataCID st)(?t := cid),
                         sr_lockExternal := (sr_lockExternal st)(?t := lock)\<rparr>),
         saveSRR ?t p artist,
         emit (\<lambda>st. Indexed (R_CreateSRRWithCID (uint ?t)
           \<lparr>rr_isPrimaryIssuer = p, rr_artistAddress = artist, rr_issuer = sender\<rparr> cid lock)),
         when_sr (\<lambda>st. receiver \<noteq> ZERO_ADDRESS) (setRoyalties ?t receiver points)])" (is "silent ?rest")
      by (intro silent_statements) simp
    obtain st1 es1 es2 where "mint_token sender ?t st = Some (st1, es1)" "?rest st1 = Some (st', es2)" "es = es1 @ es2"
      using fourth_statement [OF assms [unfolded createSRR_def Let_def]] by blast
    then show ?thesis using that rest unfolding silent_def by blast
  qed
  have "token_effect K st [Mint (K (uint ?t)) sender] st'"
    using mint rest(1-3) generate_id_bound [of e cid artist]
    by (intro token_effect.minted) (auto simp: mint_Some)
  then show ?thesis using mint rest(1,4,5) by (simp add: mint_Some)
qed

lemma createSRRTo_effective: "effective (createSRRTo e p artist cid sender lock to receiver points)"
  unfolding effective_def
proof (intro allI impI)
  fix K st st' es
  assume "createSRRTo e p artist cid sender lock to receiver points st = Some (st', es)"
  then obtain st1 es1 es2 where one: "createSRR e p artist cid sender lock receiver points st = Some (st1, es1)"
      "when_sr (\<lambda>st. to \<noteq> ZERO_ADDRESS) (transfer_token sender to (generate_id e cid artist)) st1 = Some (st', es2)"
      "es = es1 @ es2"
    unfolding createSRRTo_def by auto
  let ?t = "generate_id e cid artist"
  note create = createSRR_effect [OF one(1), of K]
  show "token_effect K st (ledger_ops K es) st'"
  proof (cases "to = ZERO_ADDRESS")
    case True
    then have "st1 = st'" "es = es1" using one(2,3) by (simp_all add: when_sr_def)
    then show ?thesis using create by simp
  next
    case False
    then have tr: "transfer_token sender to ?t st1 = Some (st', es2)" using one(2) by (simp add: when_sr_def)
    then have "token_effect K st1 [Move (K (uint ?t)) to] st'" "ledger_ops K es2 = [Move (K (uint ?t)) to]"
      using transfer_effective [of sender to ?t] unfolding effective_def
      by (fastforce simp: transfer_Some token_exists_def)+
    then show ?thesis
      using one(3) create token_effect.minted_moved [of K st ?t sender st1 to st'] by simp
  qed
qed

lemma provenance_effective: "effective (transferFromWithProvenance_internal env m to t hash custom i)"
  unfolding effective_def transferFromWithProvenance_internal_def
  by (auto simp: safe_transfer_Some transfer_Some historyProvenance_def token_exists_def intro!: token_effect.moved [where t = t and b = to])

lemma reveal_effective: "effective (transferSRRByReveal e to reveal t i)"
  unfolding effective_def transferSRRByReveal_def
  by (auto simp: transfer_Some historyProvenance_def token_exists_def clearSRRCommitment_def intro!: token_effect.moved [where t = t and b = to])

lemma approve_effective: "effective (approveSRRByCommitment_internal t c hash custom)"
  unfolding effective_def approveSRRByCommitment_internal_def
  by (auto simp: when_sr_def token_exists_def split: if_splits intro!: token_effect.committed [where t = t and c = c])

lemmas effects = createSRRTo_effective provenance_effective reveal_effective approve_effective
  transfer_effective safe_transfer_effective

lemma effective_last: "effective s \<Longrightarrow> effective (statements [s])"
  by (auto simp: effective_def)

lemma effective_reading: "(\<And>x. effective (f x)) \<Longrightarrow> effective (reading g f)"
  by (auto simp: effective_def)

lemma call_effective: "effective (run_sr_call e env m c)"
proof (induction c arbitrary: m)
  case (SR_cancelSRRCommitment t)
  show ?case
    unfolding effective_def
    by (auto simp: onlySRROwnerOrAdministrator_def ownerOf_def clearSRRCommitment_def token_exists_def
        split: if_splits intro!: token_effect.withdrawn)
qed (simp_all add: effects effective_after effective_last effective_reading silent_effective silent_statements)

section \<open>Invariants of the storage\<close>

definition state_keeps :: "(sr_state \<Rightarrow> bool) \<Rightarrow> statement \<Rightarrow> bool" where
  "state_keeps I s \<longleftrightarrow> (\<forall>st st' es. s st = Some (st', es) \<longrightarrow> I st \<longrightarrow> I st')"

lemma state_keepsD: "state_keeps I s \<Longrightarrow> s st = Some (st', es) \<Longrightarrow> I st \<Longrightarrow> I st'"
  unfolding state_keeps_def by blast

lemma keeps_statements: "list_all (state_keeps I) ss \<Longrightarrow> state_keeps I (statements ss)"
proof (induction ss)
  case (Cons s ss)
  then have "state_keeps I s" "state_keeps I (statements ss)" by simp_all
  then show ?case unfolding state_keeps_def by (metis statements_Some(2))
qed (simp add: state_keeps_def)

lemma keeps_basic [simp]:
  "state_keeps I (require P)" "state_keeps I (emit ev)" "state_keeps I s \<Longrightarrow> state_keeps I (when_sr P s)"
  "(\<And>x. state_keeps I (f x)) \<Longrightarrow> state_keeps I (reading g f)"
  by (auto simp: state_keeps_def when_sr_def)

text \<open>A property of the tokens, their approvals and royalties that minting, moving, approving and setting
  royalties keep: every call of the registry state_keeps it.\<close>

locale token_invariant =
  fixes I :: "sr_state \<Rightarrow> bool"
  assumes frame: "I st \<Longrightarrow> sr_tokenOwner st' = sr_tokenOwner st \<Longrightarrow> sr_ownedTokensCount st' = sr_ownedTokensCount st \<Longrightarrow>
      sr_tokenApprovals st' = sr_tokenApprovals st \<Longrightarrow> sr_royalties st' = sr_royalties st \<Longrightarrow> I st'"
    and mint: "I st \<Longrightarrow> mint_token a t st = Some (st', es) \<Longrightarrow> unat t < 10 ^ 12 \<Longrightarrow> I st'"
    and transfer: "I st \<Longrightarrow> transfer_token a b t st = Some (st', es) \<Longrightarrow> I st'"
    and approval: "I st \<Longrightarrow> token_exists t st \<Longrightarrow>
      I (st\<lparr>sr_tokenApprovals := (sr_tokenApprovals st)(t := a)\<rparr>)"
    and royalty: "I st \<Longrightarrow> token_exists t st \<Longrightarrow> unat points \<le> 10000 \<Longrightarrow>
      I (st\<lparr>sr_royalties := (sr_royalties st)(t := \<lparr>ri_receiver = r, ri_basisPoints = points\<rparr>)\<rparr>)"
begin

lemma keeps_assign [simp]:
  assumes "\<And>st. sr_tokenOwner (f st) = sr_tokenOwner st" "\<And>st. sr_ownedTokensCount (f st) = sr_ownedTokensCount st"
    "\<And>st. sr_tokenApprovals (f st) = sr_tokenApprovals st" "\<And>st. sr_royalties (f st) = sr_royalties st"
  shows "state_keeps I (assign f)"
  using assms frame by (auto simp: state_keeps_def)

lemma keeps_token_functions [simp]:
  "state_keeps I (transfer_token a b t)" "state_keeps I (safe_transfer_token env o' a b t d)"
  "state_keeps I (mint_token a (generate_id e cid x))" "state_keeps I (approve_internal a t)" "state_keeps I (saveRoyalties t p r)"
proof -
  show "state_keeps I (transfer_token a b t)" unfolding state_keeps_def using transfer by blast
  then show "state_keeps I (safe_transfer_token env o' a b t d)" unfolding state_keeps_def safe_transfer_Some by blast
  show "state_keeps I (mint_token a (generate_id e cid x))"
    unfolding state_keeps_def using mint generate_id_bound by blast
  show "state_keeps I (approve_internal a t)"
    unfolding state_keeps_def approve_internal_def
    by (intro allI impI) (use approval in \<open>auto simp: token_exists_def\<close>)
  show "state_keeps I (saveRoyalties t p r)"
    unfolding state_keeps_def saveRoyalties_def by (intro allI impI) (use royalty in auto)
qed

lemma keeps_creating [simp]:
  "state_keeps I (setRoyalties t r p)" "state_keeps I (updateSRRRoyalty t r p)" "state_keeps I (updateSRRRoyaltyReceiverMulti ts r)"
  "state_keeps I (saveSRR t i a)" "state_keeps I (createSRR e i a cid s l r p)" "state_keeps I (createSRRTo e i a cid s l to r p)"
proof -
  show royalties: "state_keeps I (setRoyalties t r p)" for t r p
    unfolding setRoyalties_def by (simp add: keeps_statements)
  then show update: "state_keeps I (updateSRRRoyalty t r p)" for t r p by (simp add: updateSRRRoyalty_def)
  then show "state_keeps I (updateSRRRoyaltyReceiverMulti ts r)"
    unfolding updateSRRRoyaltyReceiverMulti_def
    by (intro keeps_statements) (simp add: list_all_iff keeps_statements)
  show save: "state_keeps I (saveSRR t i a)" for t i a by (simp add: saveSRR_def)
  show create: "state_keeps I (createSRR e i a cid s l r p)"
    unfolding createSRR_def Let_def by (intro keeps_statements) (simp add: royalties save)
  show "state_keeps I (createSRRTo e i a cid s l to r p)"
    unfolding createSRRTo_def by (intro keeps_statements) (simp add: create)
qed

lemma keeps_committing [simp]:
  "state_keeps I (historyProvenance t a b h ch im)" "state_keeps I (clearSRRCommitment t)"
  "state_keeps I (approveSRRByCommitment_internal t c h ch)" "state_keeps I (transferSRRByReveal e b rv t im)"
  "state_keeps I (transferFromWithProvenance_internal env m b t h ch im)"
proof -
  show history: "state_keeps I (historyProvenance t a b h ch im)" for a h ch
    by (simp add: historyProvenance_def)
  show clear: "state_keeps I (clearSRRCommitment t)" by (simp add: clearSRRCommitment_def)
  show "state_keeps I (approveSRRByCommitment_internal t c h ch)"
    unfolding approveSRRByCommitment_internal_def by (intro keeps_statements) (simp add: keeps_statements)
  show "state_keeps I (transferSRRByReveal e b rv t im)"
    unfolding transferSRRByReveal_def
    by (intro keeps_statements) (simp add: keeps_statements history clear split: prod.split)
  show "state_keeps I (transferFromWithProvenance_internal env m b t h ch im)"
    unfolding transferFromWithProvenance_internal_def by (simp add: keeps_statements history)
qed

lemma keeps_rest [simp]:
  "state_keeps I (addHistory env m ts hs)" "state_keeps I (sr_addCustomHistoryType n)" "state_keeps I (writeCustomHistory n ty f)"
  "state_keeps I (updateCustomHistory e i n u)" "state_keeps I (set_operator a b g)" "state_keeps I (startMetaTransaction e m user d r s v)"
  by (simp_all add: addHistory_def sr_addCustomHistoryType_def writeCustomHistory_def updateCustomHistory_def
      set_operator_def startMetaTransaction_def keeps_statements)

lemma call_keeps: "state_keeps I (run_sr_call e env m c)"
  by (induction c arbitrary: m) (simp_all add: keeps_statements)

lemma calls_keep: "run_sr_calls e cs st = Some (st', es) \<Longrightarrow> I st \<Longrightarrow> I st'"
proof (induction cs arbitrary: st es)
  case (Cons x cs)
  obtain env m c where "x = (env, m, c)" by (cases x)
  with Cons show ?case using state_keepsD [OF call_keeps] by auto
qed simp

end

text \<open>The balance of an account is the number of tokens it owns.\<close>

definition balances_ok :: "sr_state \<Rightarrow> bool" where
  "balances_ok st \<longleftrightarrow> (\<forall>a. a \<noteq> ZERO_ADDRESS \<longrightarrow>
     unat (sr_ownedTokensCount st a) = card {t. sr_tokenOwner st t = a})"

lemma owned_mint:
  "f t \<noteq> a \<Longrightarrow> card {x. (f(t := a)) x = b} = (if b = a then card {x :: 256 word. f x = a} + 1 else card ({x. f x = b} - {t}))"
proof -
  assume "f t \<noteq> a"
  have "{x. (f(t := a)) x = a} = insert t {x. f x = a}" "b \<noteq> a \<Longrightarrow> {x. (f(t := a)) x = b} = {x. f x = b} - {t}" by auto
  with \<open>f t \<noteq> a\<close> show ?thesis by auto
qed

lemma unat_inc: "(w :: 256 word) \<noteq> - 1 \<Longrightarrow> unat (w + 1) = unat w + 1"
proof -
  assume "w \<noteq> - 1"
  then have "unat w \<noteq> 2 ^ 256 - 1" by (simp add: word_unat_eq_iff unsigned_minus_1_eq_mask mask_eq_exp_minus_1)
  then show ?thesis using unsigned_less [of w, where ?'a = nat] by (simp add: unat_word_ariths(1))
qed

lemma unat_dec: "(w :: 256 word) \<noteq> 0 \<Longrightarrow> unat (w - 1) = unat w - 1"
  by (rule unat_minus_one)

lemma balances_mint:
  assumes "balances_ok st" and "mint_token a t st = Some (st', es)"
  shows "balances_ok st'"
proof -
  have new: "sr_tokenOwner st t = ZERO_ADDRESS" "a \<noteq> ZERO_ADDRESS" using assms(2) by (auto simp: mint_Some token_exists_def)
  then have "card ({x. sr_tokenOwner st x = b} - {t}) = card {x. sr_tokenOwner st x = b}" if "b \<noteq> ZERO_ADDRESS" for b
    using that by (intro arg_cong [where f = card]) auto
  then show ?thesis
    using assms new unat_inc [of "sr_ownedTokensCount st a"] owned_mint [of "sr_tokenOwner st" t a]
    by (auto simp: mint_Some balances_ok_def)
qed

lemma balances_transfer:
  assumes "balances_ok st" and "transfer_token a b t st = Some (st', es)"
  shows "balances_ok st'"
proof -
  have tr: "sr_tokenOwner st t = a" "a \<noteq> ZERO_ADDRESS" "b \<noteq> ZERO_ADDRESS" "sr_ownedTokensCount st a \<noteq> 0"
      "b = a \<or> sr_ownedTokensCount st b \<noteq> - 1"
      "sr_tokenOwner st' = (sr_tokenOwner st)(t := b)"
      "sr_ownedTokensCount st' = moved_count a b (sr_ownedTokensCount st)"
    using assms(2) by (auto simp: transfer_Some token_exists_def)
  show ?thesis
  proof (cases "b = a")
    case True
    then have "sr_tokenOwner st' = sr_tokenOwner st" "sr_ownedTokensCount st' = sr_ownedTokensCount st"
      using tr by (auto simp: moved_count_def Let_def)
    then show ?thesis using assms(1) by (simp add: balances_ok_def)
  next
    case False
    have left: "card ({x. sr_tokenOwner st x = a} - {t}) = card {x. sr_tokenOwner st x = a} - 1"
      using tr(1) by simp
    have rest: "card ({x. sr_tokenOwner st x = c} - {t}) = card {x. sr_tokenOwner st x = c}" if "c \<noteq> a" for c
      using that tr(1) by (intro arg_cong [where f = card]) auto
    show ?thesis
      unfolding balances_ok_def
    proof (intro allI impI)
      fix c assume c: "c \<noteq> ZERO_ADDRESS"
      have "unat (sr_ownedTokensCount st c) = card {x. sr_tokenOwner st x = c}" using assms(1) c by (simp add: balances_ok_def)
      then show "unat (sr_ownedTokensCount st' c) = card {x. sr_tokenOwner st' x = c}"
        using tr False left rest [of c] owned_mint [of "sr_tokenOwner st" t b c] unat_inc [of "sr_ownedTokensCount st b"]
          unat_dec [of "sr_ownedTokensCount st a"]
        by (cases "c = a"; cases "c = b") (simp_all add: moved_count_def Let_def)
    qed
  qed
qed

interpretation balances: token_invariant balances_ok
  by unfold_locales (simp add: balances_ok_def, (rule balances_mint balances_transfer; assumption)+, simp_all add: balances_ok_def)

text \<open>Only tokens that exist have an approved account or royalties; royalties are at most the whole price;
  identifiers have at most twelve digits.\<close>

definition attributes_ok :: "sr_state \<Rightarrow> bool" where
  "attributes_ok st \<longleftrightarrow> (\<forall>t.
     (token_exists t st \<longrightarrow> unat t < 10 ^ 12) \<and> unat (ri_basisPoints (sr_royalties st t)) \<le> 10000 \<and>
     (\<not> token_exists t st \<longrightarrow> sr_tokenApprovals st t = ZERO_ADDRESS \<and> ri_receiver (sr_royalties st t) = ZERO_ADDRESS))"

interpretation attributes: token_invariant attributes_ok
  by unfold_locales (auto simp: attributes_ok_def token_exists_def mint_Some transfer_Some)

section \<open>Who changes the owner of a token\<close>

text \<open>What an OpenSea meta-transaction comes to.\<close>

fun effective_call :: "sr_env \<Rightarrow> message \<Rightarrow> sr_call \<Rightarrow> message \<times> sr_call" where
  "effective_call env m (SR_executeMetaTransaction user callData c r s v) =
     effective_call env \<lparr>msg_sender = se_this env, msg_data = callData @ user\<rparr> c"
| "effective_call env m c = (m, c)"

definition moved_with_right :: "evm \<Rightarrow> sr_env \<Rightarrow> message \<Rightarrow> sr_call \<Rightarrow> 256 word \<Rightarrow> sr_state \<Rightarrow> bool" where
  "moved_with_right e env m c t st \<longleftrightarrow>
     (\<not> sr_lockExternal st t \<and> isApprovedOrOwner (erc721_msgSender env m) t st) \<or>
     sr_msgSender m st = sr_tokenOwner st t \<or> sr_isAdministrator env m st \<or>
     (onlyBulk env m st \<and> (\<exists>to h ch i. c = SR_transferFromWithProvenanceFromBulk (sr_tokenOwner st t) to t h ch i)) \<or>
     (\<exists>to reveal i. c = SR_transferSRRByReveal to reveal t i \<and> evm_keccak256 e reveal = sr_commitment st t)"

text \<open>A meta-transaction starts with a change of the nonces alone.\<close>

lemma startMetaTransaction_Some:
  "startMetaTransaction e m user d r s v st = Some (st', es) \<longleftrightarrow>
     verifyMetaTransaction e user d r s v st \<and> sr_metaTxNonces st user \<noteq> - 1 \<and>
     st' = st\<lparr>sr_metaTxNonces := (sr_metaTxNonces st)(user := sr_metaTxNonces st user + 1)\<rparr> \<and>
     es = [MetaTransactionExecuted user (msg_sender m) d]"
  by (auto simp: startMetaTransaction_def)

lemmas sender_defs = sr_msgSender_def sr_isAdministrator_def onlyBulk_def isApprovedOrOwner_def ownerOf_def
  sr_isApprovedForAll_def token_exists_def trustedForwarderOnly_def

lemma nonces_do_not_matter [simp]:
  "sr_msgSender m (st\<lparr>sr_metaTxNonces := f\<rparr>) = sr_msgSender m st"
  "sr_isAdministrator env m (st\<lparr>sr_metaTxNonces := f\<rparr>) = sr_isAdministrator env m st"
  "onlyBulk env m (st\<lparr>sr_metaTxNonces := f\<rparr>) = onlyBulk env m st"
  "isApprovedOrOwner a t (st\<lparr>sr_metaTxNonces := f\<rparr>) = isApprovedOrOwner a t st"
  "token_exists t (st\<lparr>sr_metaTxNonces := f\<rparr>) = token_exists t st"
  "trustedForwarderOnly m (st\<lparr>sr_metaTxNonces := f\<rparr>) = trustedForwarderOnly m st"
  "moved_with_right e env m c t (st\<lparr>sr_metaTxNonces := f\<rparr>) = moved_with_right e env m c t st"
  by (simp_all add: sender_defs moved_with_right_def cong: option.case_cong if_cong)

lemma created_owners:
  assumes "createSRRTo e p artist cid sender lock to receiver points st = Some (st', es)"
  shows "\<exists>b. sr_tokenOwner st' = (sr_tokenOwner st)(generate_id e cid artist := b)"
    "\<not> token_exists (generate_id e cid artist) st"
proof -
  obtain st1 es1 es2 where one: "createSRR e p artist cid sender lock receiver points st = Some (st1, es1)"
      "when_sr (\<lambda>st. to \<noteq> ZERO_ADDRESS) (transfer_token sender to (generate_id e cid artist)) st1 = Some (st', es2)"
    using assms unfolding createSRRTo_def by auto
  note c = createSRR_effect [OF one(1)]
  show "\<exists>b. sr_tokenOwner st' = (sr_tokenOwner st)(generate_id e cid artist := b)"
    using one(2) c by (auto simp: when_sr_def transfer_Some split: if_splits)
  show "\<not> token_exists (generate_id e cid artist) st" using c by blast
qed

lemma owners_kept:
  "approveSRRByCommitment_internal t c h ch st = Some (st', es) \<Longrightarrow> sr_tokenOwner st' = sr_tokenOwner st"
  "clearSRRCommitment t st = Some (st', es) \<Longrightarrow> sr_tokenOwner st' = sr_tokenOwner st"
  "silent s \<Longrightarrow> s st = Some (st', es) \<Longrightarrow> sr_tokenOwner st' = sr_tokenOwner st"
  by (auto simp: approveSRRByCommitment_internal_def clearSRRCommitment_def when_sr_def silent_def split: if_splits)

text \<open>What a call does to the owners: nothing, one token is created by those who may, or one that exists is
  moved by those who may.\<close>

definition owners_changed :: "evm \<Rightarrow> sr_env \<Rightarrow> message \<Rightarrow> sr_call \<Rightarrow> sr_state \<Rightarrow> sr_state \<Rightarrow> bool" where
  "owners_changed e env m c st st' \<longleftrightarrow>
     sr_tokenOwner st' = sr_tokenOwner st \<or>
     (\<exists>t b. \<not> token_exists t st \<and> sr_tokenOwner st' = (sr_tokenOwner st)(t := b) \<and>
        (trustedForwarderOnly m st \<or> onlyBulk env m st)) \<or>
     (\<exists>t b. token_exists t st \<and> sr_tokenOwner st' = (sr_tokenOwner st)(t := b) \<and> moved_with_right e env m c t st)"

lemma owners_unchanged: "sr_tokenOwner st' = sr_tokenOwner st \<Longrightarrow> owners_changed e env m c st st'"
  by (simp add: owners_changed_def)

lemma owners_created:
  assumes "createSRRTo e p artist cid sender lock to receiver points st = Some (st', es)"
    and "trustedForwarderOnly m st \<or> onlyBulk env m st"
  shows "owners_changed e env m c st st'"
  using created_owners [OF assms(1)] assms(2) unfolding owners_changed_def by blast

lemma owners_moved:
  assumes "transfer_token a b t st1 = Some (st', es)" and "sr_tokenOwner st1 = sr_tokenOwner st"
    and "moved_with_right e env m c t st"
  shows "owners_changed e env m c st st'"
  using assms unfolding owners_changed_def by (auto simp: transfer_Some token_exists_def)

lemma owners_provenance:
  assumes "transferFromWithProvenance_internal env m to t h ch i st = Some (st', es)"
    and "moved_with_right e env m c t st"
  shows "owners_changed e env m c st st'"
  using assms(1) unfolding transferFromWithProvenance_internal_def
  by (fastforce simp: historyProvenance_def safe_transfer_Some dest: owners_moved [OF _ refl assms(2)])

lemma owners_revealed:
  assumes "transferSRRByReveal e to reveal t i st = Some (st', es)"
  shows "owners_changed e env m (SR_transferSRRByReveal to reveal t i) st st'"
proof -
  have "moved_with_right e env m (SR_transferSRRByReveal to reveal t i) t st"
    using assms by (auto simp: transferSRRByReveal_def moved_with_right_def)
  note moved = owners_moved [OF _ _ this]
  show ?thesis
    using assms unfolding transferSRRByReveal_def
    by (fastforce simp: historyProvenance_def clearSRRCommitment_def dest: moved)
qed

lemma owners_silent:
  "silent (run_sr_call e env m c) \<Longrightarrow> run_sr_call e env m c st = Some (st', es) \<Longrightarrow> owners_changed e env m c' st st'"
  by (metis owners_kept(3) owners_unchanged)

lemma owners_transfer:
  assumes "statements [require (externalTransferNotLocked t), require (isApprovedOrOwner (erc721_msgSender env m) t),
      s] st = Some (st', es)" and "s st = Some (st', es) \<Longrightarrow> \<exists>es'. transfer_token a b t st = Some (st', es')"
  shows "owners_changed e env m c st st'"
proof -
  have "moved_with_right e env m c t st" "s st = Some (st', es)"
    using assms(1) by (auto simp: moved_with_right_def externalTransferNotLocked_def)
  then show ?thesis using assms(2) owners_moved by blast
qed

lemma call_owners:
  "run_sr_call e env m c st = Some (st', es) \<Longrightarrow>
   (case effective_call env m c of (m', c') \<Rightarrow> owners_changed e env m' c' st st')"
proof (induction c arbitrary: m st st' es)
  case (SR_executeMetaTransaction user d c r s v)
  obtain st1 es1 where one: "st1 = st\<lparr>sr_metaTxNonces := (sr_metaTxNonces st)(user := sr_metaTxNonces st user + 1)\<rparr>"
      "run_sr_call e env \<lparr>msg_sender = se_this env, msg_data = d @ user\<rparr> c st1 = Some (st', es1)"
    using SR_executeMetaTransaction.prems by (auto simp: startMetaTransaction_Some)
  show ?case
    using SR_executeMetaTransaction.IH [OF one(2)] one(1)
    by (auto simp: owners_changed_def split: prod.splits)
next
  case (SR_transferSRRByReveal to reveal t i)
  then show ?case by (simp add: owners_revealed)
next
  case (SR_createSRRFromLicensedUser p artist cid lock to receiver points)
  then show ?case by (auto intro: owners_created)
next
  case (SR_createSRRFromBulk p artist cid issuer lock to receiver points)
  then show ?case by (auto intro: owners_created)
next
  case (SR_transferFromWithProvenanceFromBulk signer to t h ch i)
  then show ?case
    by (auto simp: onlySRROwner_def ownerOf_def moved_with_right_def split: if_splits intro!: owners_provenance)
next
  case (SR_transferFromWithProvenance to t h ch i)
  then show ?case
    by (auto simp: onlySRROwnerOrAdministrator_def ownerOf_def moved_with_right_def split: if_splits
        intro!: owners_provenance)
next
  case (SR_transferFrom a b t)
  then show ?case
    unfolding run_sr_call.simps effective_call.simps prod.case
    by (rule owners_transfer [where a = a and b = b]) (auto simp: safe_transfer_Some)
next
  case (SR_safeTransferFrom a b t)
  then show ?case
    unfolding run_sr_call.simps effective_call.simps prod.case
    by (rule owners_transfer [where a = a and b = b]) (auto simp: safe_transfer_Some)
next
  case (SR_safeTransferFromData a b t d)
  then show ?case
    unfolding run_sr_call.simps effective_call.simps prod.case
    by (rule owners_transfer [where a = a and b = b]) (auto simp: safe_transfer_Some)
next
  case (SR_approveSRRByCommitment t c h)
  then show ?case by (auto intro!: owners_unchanged dest: owners_kept(1))
next
  case (SR_approveSRRByCommitmentWithCustomHistory t c h ch)
  then show ?case by (auto intro!: owners_unchanged dest: owners_kept(1))
next
  case (SR_approveSRRByCommitmentFromBulk signer t c h ch)
  then show ?case by (auto intro!: owners_unchanged dest: owners_kept(1))
next
  case (SR_cancelSRRCommitment t)
  then show ?case by (auto intro!: owners_unchanged dest: owners_kept(2))
qed (simp only: effective_call.simps prod.case, erule owners_silent [rotated], simp add: silent_statements)+

section \<open>What succeeds\<close>

definition sr_ok :: "sr_state \<Rightarrow> bool" where
  "sr_ok st \<longleftrightarrow> balances_ok st \<and> attributes_ok st"

lemma calls_ok: "run_sr_calls e cs st = Some (st', es) \<Longrightarrow> sr_ok st \<Longrightarrow> sr_ok st'"
  unfolding sr_ok_def using balances.calls_keep attributes.calls_keep by blast

lemma call_ok: "run_sr_call e env m c st = Some (st', es) \<Longrightarrow> sr_ok st \<Longrightarrow> sr_ok st'"
  unfolding sr_ok_def using state_keepsD [OF balances.call_keeps] state_keepsD [OF attributes.call_keeps] by blast

text \<open>There are fewer tokens than a balance can count.\<close>

lemma count_room:
  assumes "sr_ok st" and "a \<noteq> ZERO_ADDRESS"
  shows "sr_ownedTokensCount st a \<noteq> - 1"
proof -
  have "{t. sr_tokenOwner st t = a} \<subseteq> word_of_nat ` {..< 10 ^ 12}"
  proof
    fix t assume "t \<in> {t. sr_tokenOwner st t = a}"
    then have "unat t < 10 ^ 12" using assms by (auto simp: sr_ok_def attributes_ok_def token_exists_def)
    moreover have "t = word_of_nat (unat t)" by simp
    ultimately show "t \<in> word_of_nat ` {..< 10 ^ 12}" by blast
  qed
  then have "card {t. sr_tokenOwner st t = a} \<le> card ((word_of_nat :: nat \<Rightarrow> 256 word) ` {..< 10 ^ 12})"
    by (intro card_mono) simp_all
  also have "\<dots> \<le> 10 ^ 12" using card_image_le [of "{..< (10 :: nat) ^ 12}"] by simp
  finally have "unat (sr_ownedTokensCount st a) \<le> 10 ^ 12"
    using assms by (simp add: sr_ok_def balances_ok_def)
  then show ?thesis by (auto simp: unsigned_minus_1_eq_mask mask_eq_exp_minus_1)
qed

lemma count_owner:
  assumes "sr_ok st" and "token_exists t st"
  shows "sr_ownedTokensCount st (sr_tokenOwner st t) \<noteq> 0"
proof -
  have "t \<in> {u. sr_tokenOwner st u = sr_tokenOwner st t}" by simp
  then have "0 < card {u. sr_tokenOwner st u = sr_tokenOwner st t}" by (metis card_gt_0_iff empty_iff finite)
  moreover have "unat (sr_ownedTokensCount st (sr_tokenOwner st t)) = card {u. sr_tokenOwner st u = sr_tokenOwner st t}"
    using assms by (simp add: sr_ok_def balances_ok_def token_exists_def)
  ultimately show ?thesis by auto
qed

text \<open>So a transfer is refused only for a token that does not exist, a wrong owner or the zero address.\<close>

lemma transfer_succeeds:
  assumes "sr_ok st"
  shows "(\<exists>st' es. transfer_token a b t st = Some (st', es)) \<longleftrightarrow>
    token_exists t st \<and> sr_tokenOwner st t = a \<and> b \<noteq> ZERO_ADDRESS"
  using count_room [OF assms, of b] count_owner [OF assms, of t]
  by (auto simp: transfer_Some token_exists_def)

definition revealed_event :: "address \<Rightarrow> address \<Rightarrow> 256 word \<Rightarrow> bool \<Rightarrow> sr_state \<Rightarrow> registry_event" where
  "revealed_event from to t i st =
     (if sr_historyCustom st t \<noteq> NO_CUSTOM_HISTORY
      then R_ProvenanceWithCustomHistoryAndIntermediary (uint t) from to (uint (sr_historyCustom st t))
             (sr_historyHash st t) (metadataURI (sr_historyHash st t) st) i
      else R_ProvenanceWithIntermediary (uint t) from to (sr_historyHash st t)
             (metadataURI (sr_historyHash st t) st) i)"

lemma reveal_Some:
  "transferSRRByReveal e to rv t i st = Some (st', es) \<longleftrightarrow>
     token_exists t st \<and> evm_keccak256 e rv = sr_commitment st t \<and>
     (\<exists>st1 es2. clearSRRCommitment t st = Some (st1, []) \<and>
        transfer_token (sr_tokenOwner st t) to t st1 = Some (st', es2) \<and>
        es = Indexed (revealed_event (sr_tokenOwner st t) to t i st) # es2)"
  by (auto simp: transferSRRByReveal_def historyProvenance_def clearSRRCommitment_def revealed_event_def)

text \<open>Whoever knows the reveal of the commitment moves the token, whoever owns it.\<close>

lemma reveal_succeeds:
  assumes "sr_ok st"
  shows "(\<exists>st' es. transferSRRByReveal e to rv t i st = Some (st', es)) \<longleftrightarrow>
    token_exists t st \<and> evm_keccak256 e rv = sr_commitment st t \<and> to \<noteq> ZERO_ADDRESS"
proof -
  let ?st1 = "st\<lparr>sr_commitment := (sr_commitment st)(t := NO_COMMITMENT), sr_historyHash := (sr_historyHash st)(t := ''''),
      sr_historyCustom := (sr_historyCustom st)(t := 0)\<rparr>"
  have "sr_ok ?st1" using assms by (simp add: sr_ok_def balances_ok_def attributes_ok_def token_exists_def)
  from transfer_succeeds [OF this, of "sr_tokenOwner st t" to t]
  show ?thesis unfolding reveal_Some by (auto simp: clearSRRCommitment_def token_exists_def)
qed

lemma reveal_moves:
  assumes "transferSRRByReveal e to rv t i st = Some (st', es)"
  shows "sr_tokenOwner st' = (sr_tokenOwner st)(t := to)" "sr_commitment st' = (sr_commitment st)(t := NO_COMMITMENT)"
  using assms by (auto simp: reveal_Some transfer_Some clearSRRCommitment_def)

section \<open>Royalties\<close>

text \<open>A share of at most 10000 basis points.\<close>

lemma share_of_price:
  fixes price :: "256 word" and p :: "16 word"
  assumes "unat p \<le> 10000" and "unat price * unat p < 2 ^ 256"
  shows "unat (price * ucast p div 10000) = unat price * unat p div 10000" "price * ucast p div 10000 \<le> price"
proof -
  have "unat p < 2 ^ 256" using assms(1) by (rule le_less_trans) simp
  then have u: "unat (ucast p :: 256 word) = unat p" by (simp add: unsigned_ucast_eq take_bit_nat_eq_self)
  have "unat (price * ucast p) = unat price * unat p" using assms(2) u by (simp add: unat_word_ariths(2))
  then show share: "unat (price * ucast p div 10000) = unat price * unat p div 10000"
    by (simp add: unat_div_distrib)
  have "unat price * unat p div 10000 \<le> unat price * 10000 div 10000"
    using assms(1) by (intro div_le_mono mult_left_mono) simp_all
  then show "price * ucast p div 10000 \<le> price" unfolding word_le_nat_alt share by simp
qed

lemma royalty_share:
  assumes "attributes_ok st" and "royaltyInfo t price st = Some (receiver, amount)"
  shows "unat amount = unat price * unat (if ri_receiver (sr_royalties st t) = ZERO_ADDRESS then 0
      else ri_basisPoints (sr_royalties st t)) div 10000" "amount \<le> price"
proof -
  let ?p = "if ri_receiver (sr_royalties st t) = ZERO_ADDRESS then 0 else ri_basisPoints (sr_royalties st t)"
  have p: "unat ?p \<le> 10000" using assms(1) by (simp add: attributes_ok_def)
  have fits: "unat price * unat ?p < 2 ^ 256" "amount = price * ucast ?p div 10000"
    using assms(2) by (auto simp: royaltyInfo_def Let_def split: if_splits)
  show "unat amount = unat price * unat ?p div 10000" "amount \<le> price"
    unfolding fits(2) by (rule share_of_price [OF p fits(1)])+
qed

end
