(* ===== verification/RegistryLedger.thy ===== *)
theory RegistryLedger
  imports RegistryFacts Progress
begin

text \<open>
  The subgraph and the token contract: \<open>mirrors\<close> relates the storage of the StartrailRegistry to the ledger
  of the subgraph. Every call state_keeps it, and its events are legal for the handlers, so the subgraph
  indexes whatever the contract does. It also shows where the two differ: a transfer clears the
  commitment of the subgraph, while the contract state_keeps it until it is revealed or cancelled.
\<close>

section \<open>The ledger mirrors the storage\<close>

definition mirrors :: "(int \<Rightarrow> string) \<Rightarrow> 256 word set \<Rightarrow> sr_state \<Rightarrow> ledger \<Rightarrow> bool" where
  "mirrors K T st L \<longleftrightarrow> (\<forall>t \<in> T.
     if token_exists t st
     then \<exists>c. L (K (uint t)) = Some (Some (sr_tokenOwner st t), c) \<and> (c = None \<or> c = Some (sr_commitment st t))
     else L (K (uint t)) = None)"

definition minted_tokens :: "sr_state \<Rightarrow> 256 word set" where
  "minted_tokens st = {t. token_exists t st}"

definition distinct_keys :: "(int \<Rightarrow> string) \<Rightarrow> 256 word set \<Rightarrow> bool" where
  "distinct_keys K T \<longleftrightarrow> inj_on (\<lambda>t. K (uint t)) T"

definition ledger_fold :: "ledger_op list \<Rightarrow> ledger \<Rightarrow> ledger" where
  "ledger_fold ops L = foldl (\<lambda>L x. ledger_step x L) L ops"

lemma ledger_fold_simps [simp]:
  "ledger_fold [] L = L" "ledger_fold (x # ops) L = ledger_fold ops (ledger_step x L)"
  "ledger_fold (ops @ ops') L = ledger_fold ops' (ledger_fold ops L)"
  by (simp_all add: ledger_fold_def)

lemma same_key: "distinct_keys K T \<Longrightarrow> t \<in> T \<Longrightarrow> u \<in> T \<Longrightarrow> K (uint t) = K (uint u) \<longleftrightarrow> t = u"
  by (auto simp: distinct_keys_def inj_on_def)

text \<open>One row changes, for the token that changes.\<close>

lemma mirrors_row:
  assumes "mirrors K T st L" and "distinct_keys K T" and "t \<in> T"
    and "sr_tokenOwner st' = (sr_tokenOwner st)(t := a)" and "a \<noteq> ZERO_ADDRESS"
    and "sr_commitment st' = (sr_commitment st)(t := d)" and "c = None \<or> c = Some d"
  shows "mirrors K T st' (L(K (uint t) \<mapsto> (Some a, c)))"
  unfolding mirrors_def
proof
  fix u assume u: "u \<in> T"
  show "if token_exists u st'
      then \<exists>c'. (L(K (uint t) \<mapsto> (Some a, c))) (K (uint u)) = Some (Some (sr_tokenOwner st' u), c') \<and>
        (c' = None \<or> c' = Some (sr_commitment st' u))
      else (L(K (uint t) \<mapsto> (Some a, c))) (K (uint u)) = None"
  proof (cases "u = t")
    case True
    then show ?thesis using assms(4-7) by (simp add: token_exists_def)
  next
    case False
    then have "K (uint u) \<noteq> K (uint t)" using same_key [OF assms(2) u assms(3)] by simp
    then show ?thesis using False assms(1,4,6) u by (auto simp: mirrors_def token_exists_def)
  qed
qed

lemma mirrors_cong:
  assumes "mirrors K T st L" and "sr_tokenOwner st' = sr_tokenOwner st" and "sr_commitment st' = sr_commitment st"
  shows "mirrors K T st' L"
  using assms by (simp add: mirrors_def token_exists_def)

text \<open>The ledger of an existing token.\<close>

lemma mirrorsD:
  assumes "mirrors K T st L" and "t \<in> T" and "token_exists t st"
  obtains c where "L (K (uint t)) = Some (Some (sr_tokenOwner st t), c)" "c = None \<or> c = Some (sr_commitment st t)"
  using assms unfolding mirrors_def by metis

lemma effect_monotone: "token_effect K st ops st' \<Longrightarrow> minted_tokens st \<subseteq> minted_tokens st'"
  by (induction rule: token_effect.induct) (auto simp: minted_tokens_def token_exists_def)

lemma effect_mirrors:
  assumes "token_effect K st ops st'" and "distinct_keys K T" and "minted_tokens st' \<subseteq> T" and "mirrors K T st L"
  shows "mirrors K T st' (ledger_fold ops L)"
  using assms
proof (induction arbitrary: L rule: token_effect.induct)
  case (quiet st' st)
  then show ?case using mirrors_cong by simp
next
  case (minted t st a st')
  then have t: "t \<in> T" by (auto simp: minted_tokens_def token_exists_def)
  then have "L (K (uint t)) = None" using minted by (auto simp: mirrors_def)
  then show ?case
    using mirrors_row [OF minted.prems(3,1) t, of st' a "sr_commitment st t" None] minted
    by (simp add: fun_upd_def)
next
  case (moved t st b a st' ops)
  then have t: "t \<in> T" by (auto simp: minted_tokens_def token_exists_def)
  obtain c where L: "L (K (uint t)) = Some (Some (sr_tokenOwner st t), c)" using mirrorsD [OF moved.prems(3) t moved.hyps(1)] .
  obtain d where d: "sr_commitment st' = (sr_commitment st)(t := d)" using moved.hyps(8) by (metis fun_upd_triv)
  show ?case
    using mirrors_row [OF moved.prems(3,1) t moved.hyps(6,2) d, of None] moved.hyps(9) L
    by (auto simp: fun_upd_def cong: if_cong)
next
  case (minted_moved st t a st1 b st')
  have "minted_tokens st1 \<subseteq> minted_tokens st'"
    using minted_moved.hyps(2) by (rule effect_monotone)
  then have "mirrors K T st1 (ledger_fold [Mint (K (uint t)) a] L)"
    using minted_moved.prems by (intro minted_moved.IH(1)) auto
  from minted_moved.IH(2) [OF minted_moved.prems(1,2) this]
  show ?case unfolding ledger_fold_simps .
next
  case (committed t st st' c ops)
  then have t: "t \<in> T" by (auto simp: minted_tokens_def token_exists_def)
  obtain d where L: "L (K (uint t)) = Some (Some (sr_tokenOwner st t), d)"
    using mirrorsD [OF committed.prems(3) t committed.hyps(1)] .
  show ?case
    using mirrors_row [OF committed.prems(3,1) t, of st' "sr_tokenOwner st t" c "Some c"] committed L
    by (auto simp: token_exists_def fun_upd_def cong: if_cong)
next
  case (withdrawn t st st')
  then have t: "t \<in> T" by (auto simp: minted_tokens_def token_exists_def)
  obtain d where L: "L (K (uint t)) = Some (Some (sr_tokenOwner st t), d)"
    using mirrorsD [OF withdrawn.prems(3) t withdrawn.hyps(1)] .
  show ?case
    using mirrors_row [OF withdrawn.prems(3,1) t, of st' "sr_tokenOwner st t" NO_COMMITMENT None] withdrawn L
    by (auto simp: token_exists_def fun_upd_def cong: if_cong)
qed

lemma call_effect: "run_sr_call e env m c st = Some (st', es) \<Longrightarrow> token_effect K st (ledger_ops K es) st'"
  using call_effective unfolding effective_def by blast

lemma calls_monotone: "run_sr_calls e cs st = Some (st', es) \<Longrightarrow> minted_tokens st \<subseteq> minted_tokens st'"
proof (induction cs arbitrary: st es)
  case (Cons x cs)
  obtain env m c where "x = (env, m, c)" by (cases x)
  with Cons.prems obtain st1 es1 es2 where one: "run_sr_call e env m c st = Some (st1, es1)"
      "run_sr_calls e cs st1 = Some (st', es2)" by auto
  show ?case
    using effect_monotone [OF call_effect [OF one(1), of "\<lambda>_. []"]] Cons.IH [OF one(2)] by blast
qed simp

lemma calls_mirror:
  assumes "run_sr_calls e cs st = Some (st', es)" and "distinct_keys K T" and "minted_tokens st' \<subseteq> T"
    and "mirrors K T st L"
  shows "mirrors K T st' (ledger_fold (ledger_ops K es) L)"
  using assms
proof (induction cs arbitrary: st es L)
  case (Cons x cs)
  obtain env m c where "x = (env, m, c)" by (cases x)
  with Cons.prems(1) obtain st1 es1 es2 where one: "run_sr_call e env m c st = Some (st1, es1)"
      "run_sr_calls e cs st1 = Some (st', es2)" "es = es1 @ es2" by auto
  have "minted_tokens st1 \<subseteq> T" using calls_monotone [OF one(2)] Cons.prems(3) by blast
  from effect_mirrors [OF call_effect [OF one(1)] Cons.prems(2) this Cons.prems(4)]
  show ?case using Cons.IH [OF one(2) Cons.prems(2,3)] one(3) by simp
qed simp

section \<open>The events of the contract are legal\<close>

fun legal_events :: "host \<Rightarrow> (int \<Rightarrow> string) \<Rightarrow> registry_event list \<Rightarrow> ledger \<Rightarrow> bool" where
  "legal_events h K [] L = True"
| "legal_events h K (r # rs) L =
     (registry_legal h (\<lambda>tok. is_set (L (K tok))) r \<and> legal_events h K rs (ledger_effect (registry_op K r) L))"

definition op_fold :: "(int \<Rightarrow> string) \<Rightarrow> registry_event list \<Rightarrow> ledger \<Rightarrow> ledger" where
  "op_fold K rs L = foldl (\<lambda>L r. ledger_effect (registry_op K r) L) L rs"

lemma op_fold_simps [simp]:
  "op_fold K [] L = L" "op_fold K (r # rs) L = op_fold K rs (ledger_effect (registry_op K r) L)"
  "op_fold K (rs @ rs') L = op_fold K rs' (op_fold K rs L)"
  by (simp_all add: op_fold_def)

lemma legal_events_append [simp]:
  "legal_events h K (rs @ rs') L \<longleftrightarrow> legal_events h K rs L \<and> legal_events h K rs' (op_fold K rs L)"
  by (induction rs arbitrary: L) auto

lemma ledger_fold_ops: "ledger_fold (ledger_ops K es) L = op_fold K (indexed es) L"
proof -
  have "ledger_fold (concat (map (\<lambda>r. case registry_op K r of None \<Rightarrow> [] | Some x \<Rightarrow> [x]) rs)) L = op_fold K rs L" for rs L
    by (induction rs arbitrary: L) (auto simp: ledger_effect_def split: option.split)
  then show ?thesis by (simp add: ledger_ops_def)
qed

text \<open>Digests that the handlers can read: those of 64 characters are hexadecimal.\<close>

definition digests_readable :: "host \<Rightarrow> registry_event list \<Rightarrow> bool" where
  "digests_readable h rs \<longleftrightarrow> list_all (registry_legal h (\<lambda>_. True)) rs"

definition knows :: "(int \<Rightarrow> string) \<Rightarrow> sr_state \<Rightarrow> ledger \<Rightarrow> bool" where
  "knows K st L \<longleftrightarrow> (\<forall>t. token_exists t st \<longrightarrow> is_set (L (K (uint t))))"

lemma ledger_step_keeps: "is_set (L k) \<Longrightarrow> is_set (ledger_step x L k)"
  by (cases x) (auto simp: is_set_def split: option.split)

lemma op_fold_keeps: "is_set (L k) \<Longrightarrow> is_set (op_fold K rs L k)"
  by (induction rs arbitrary: L) (auto simp: ledger_effect_def ledger_step_keeps split: option.split)

lemma knows_more: "knows K st L \<Longrightarrow> sr_tokenOwner st' = sr_tokenOwner st \<Longrightarrow> knows K st' (op_fold K rs L)"
  by (simp add: knows_def token_exists_def op_fold_keeps)

definition lawful :: "statement \<Rightarrow> bool" where
  "lawful s \<longleftrightarrow> (\<forall>h K L st st' es. s st = Some (st', es) \<longrightarrow> digests_readable h (indexed es) \<longrightarrow> knows K st L \<longrightarrow>
     legal_events h K (indexed es) L \<and> knows K st' (op_fold K (indexed es) L))"

definition harmless_event :: "registry_event \<Rightarrow> bool" where
  "harmless_event r \<longleftrightarrow> (\<forall>h seen. registry_legal h (\<lambda>_. True) r \<longrightarrow> registry_legal h seen r)"

lemma legal_harmless:
  "list_all harmless_event rs \<Longrightarrow> digests_readable h rs \<Longrightarrow> legal_events h K rs L"
  by (induction rs arbitrary: L) (auto simp: digests_readable_def harmless_event_def)

definition harmless :: "statement \<Rightarrow> bool" where
  "harmless s \<longleftrightarrow> (\<forall>st st' es. s st = Some (st', es) \<longrightarrow>
     sr_tokenOwner st' = sr_tokenOwner st \<and> list_all harmless_event (indexed es))"

lemma harmless_lawful: "harmless s \<Longrightarrow> lawful s"
  unfolding harmless_def lawful_def using legal_harmless knows_more by blast

lemma harmless_statements: "list_all harmless ss \<Longrightarrow> harmless (statements ss)"
proof (induction ss)
  case (Cons s ss)
  then have "harmless s" "harmless (statements ss)" by simp_all
  then show ?case unfolding harmless_def by fastforce
qed (simp add: harmless_def)

lemma lawful_statements: "list_all lawful ss \<Longrightarrow> lawful (statements ss)"
proof (induction ss)
  case (Cons s ss)
  then have ok: "lawful s" "lawful (statements ss)" by simp_all
  show ?case unfolding lawful_def
  proof (intro allI impI)
    fix h K L st st' es
    assume "statements (s # ss) st = Some (st', es)" and d: "digests_readable h (indexed es)" and k: "knows K st L"
    then obtain st1 es1 es2 where one: "s st = Some (st1, es1)" "statements ss st1 = Some (st', es2)" "es = es1 @ es2"
      by auto
    have "digests_readable h (indexed es1)" "digests_readable h (indexed es2)"
      using d one(3) by (simp_all add: digests_readable_def)
    then show "legal_events h K (indexed es) L \<and> knows K st' (op_fold K (indexed es) L)"
      using ok one k unfolding lawful_def by (metis indexed_simps(3) legal_events_append op_fold_simps(3))
  qed
qed (simp add: lawful_def)

lemma harmless_basic [simp]:
  "harmless (require P)" "harmless (assign f) \<longleftrightarrow> (\<forall>st. sr_tokenOwner (f st) = sr_tokenOwner st)"
  "harmless (emit ev) \<longleftrightarrow> (\<forall>st. list_all harmless_event (indexed [ev st]))"
  "harmless s \<Longrightarrow> harmless (when_sr P s)" "(\<And>x. harmless (f2 x)) \<Longrightarrow> harmless (reading g f2)"
  by (auto simp: harmless_def when_sr_def)

lemma lawful_transfer: "lawful (transfer_token a b t)"
  unfolding lawful_def
proof (intro allI impI)
  fix h K L st st' es assume tr: "transfer_token a b t st = Some (st', es)" and k: "knows K st L"
  then have "is_set (L (K (uint t)))" "a \<noteq> ZERO_ADDRESS" by (auto simp: transfer_Some knows_def token_exists_def)
  then show "legal_events h K (indexed es) L \<and> knows K st' (op_fold K (indexed es) L)"
    using tr k by (auto simp: transfer_Some knows_def token_exists_def ledger_effect_def is_set_def split: if_splits)
qed

lemma lawful_safe_transfer: "lawful (safe_transfer_token env o' a b t d)"
  using lawful_transfer [of a b t] unfolding lawful_def safe_transfer_Some by blast

lemma createSRR_events:
  assumes "createSRR e p artist cid sender lock receiver points st = Some (st', es)"
  shows "\<exists>rr. indexed es = [R_Transfer ZERO_ADDRESS sender (uint (generate_id e cid artist)),
      R_CreateSRRWithCID (uint (generate_id e cid artist)) rr cid lock] @
      (if receiver = ZERO_ADDRESS then [] else [R_RoyaltiesSet (uint (generate_id e cid artist)) receiver (uint points)])"
  using assms
  by (auto simp: createSRR_def Let_def mint_Some saveSRR_def when_sr_def setRoyalties_def saveRoyalties_def split: if_splits)

lemma lawful_create: "lawful (createSRR e p artist cid sender lock receiver points)"
  unfolding lawful_def
proof (intro allI impI)
  fix h K L st st' es
  assume c: "createSRR e p artist cid sender lock receiver points st = Some (st', es)" and k: "knows K st L"
  let ?t = "generate_id e cid artist"
  have o': "sr_tokenOwner st' = (sr_tokenOwner st)(?t := sender)" using createSRR_effect [OF c] by blast
  obtain rr where es: "indexed es = [R_Transfer ZERO_ADDRESS sender (uint ?t), R_CreateSRRWithCID (uint ?t) rr cid lock] @
      (if receiver = ZERO_ADDRESS then [] else [R_RoyaltiesSet (uint ?t) receiver (uint points)])"
    using createSRR_events [OF c] by blast
  show "legal_events h K (indexed es) L \<and> knows K st' (op_fold K (indexed es) L)"
    using k o' unfolding es by (auto simp: ledger_effect_def knows_def token_exists_def is_set_def)
qed

lemma harmless_events [simp]:
  "harmless_event (R_UpdateSRRWithSender t pr a s)" "harmless_event (R_UpdateSRRMetadataCID t cd)"
  "harmless_event (R_RoyaltiesSet t r p')" "harmless_event (R_SRRCommitmentCancelled t)"
  "harmless_event (R_SRRCommitment t a c)" "harmless_event (R_SRRCommitmentWithCustomHistory t a c i)"
  "harmless_event (R_ProvenanceWithIntermediary t a b mh u im)"
  "harmless_event (R_ProvenanceWithCustomHistoryAndIntermediary t a b i mh u im)"
  "harmless_event (R_History ts hs)" "harmless_event (R_CreateCustomHistoryType i n)"
  "harmless_event (R_CreateCustomHistory i n ty d)" "harmless_event (R_CreateCustomHistoryWithCID i n ty cd)"
  "harmless_event (R_UpdateCustomHistory i n d)" "harmless_event (R_UpdateCustomHistoryWithCID i n cd)"
  "harmless_event (R_LockExternalTransfer t f)"
  by (simp_all add: harmless_event_def)

lemma harmless_functions [simp]:
  "harmless (setRoyalties t r p)" "harmless (updateSRRRoyalty t r p)" "harmless (updateSRRRoyaltyReceiverMulti ts r)"
  "harmless (saveSRR t pr a)" "harmless (clearSRRCommitment t)" "harmless (approve_internal a t)"
  "harmless (approveSRRByCommitment_internal t c hh ch)" "harmless (historyProvenance t a b hh ch im)"
  "harmless (addHistory env m ts hs)" "harmless (sr_addCustomHistoryType n)"
  "(\<And>i. harmless_event (f i)) \<Longrightarrow> harmless (writeCustomHistory n ty f)"
  "harmless_event u \<Longrightarrow> harmless (updateCustomHistory e i n u)"
  "harmless (set_operator a b g)" "harmless (startMetaTransaction e m user d r' s v)"
proof -
  show royalties: "harmless (setRoyalties t r p)" for t r p
    by (simp add: setRoyalties_def saveRoyalties_def harmless_statements)
  then show update: "harmless (updateSRRRoyalty t r p)" for t r p by (simp add: updateSRRRoyalty_def)
  then show "harmless (updateSRRRoyaltyReceiverMulti ts r)"
    unfolding updateSRRRoyaltyReceiverMulti_def
    by (intro harmless_statements) (simp add: list_all_iff harmless_statements)
qed (simp_all add: saveSRR_def clearSRRCommitment_def approve_internal_def approveSRRByCommitment_internal_def
    historyProvenance_def addHistory_def sr_addCustomHistoryType_def writeCustomHistory_def updateCustomHistory_def
    set_operator_def startMetaTransaction_def harmless_statements)

lemma lawful_basic:
  "lawful s \<Longrightarrow> lawful (when_sr P s)" "(\<And>x. lawful (f x)) \<Longrightarrow> lawful (reading g f)"
  by (auto simp: lawful_def when_sr_def)

lemma call_lawful: "lawful (run_sr_call e env m c)"
  by (induction c arbitrary: m)
    (simp_all add: lawful_statements harmless_lawful harmless_statements lawful_transfer lawful_safe_transfer lawful_create
      lawful_basic createSRRTo_def transferFromWithProvenance_internal_def transferSRRByReveal_def split: prod.split)

section \<open>The subgraph follows the contract\<close>

definition no_tokens :: "sr_state \<Rightarrow> bool" where
  "no_tokens st \<longleftrightarrow> (\<forall>t. sr_tokenOwner st t = ZERO_ADDRESS)"

text \<open>The blocks in which the events of a run are found.\<close>

definition found_in :: "address \<Rightarrow> eth_event list \<Rightarrow> 'r list \<Rightarrow> bool" where
  "found_in R evs rs \<longleftrightarrow> length evs = length rs \<and>
     list_all (\<lambda>ev. ev_address ev = R \<and> valid_time (eventUTCMillis ev)) evs"

definition registry_chain :: "eth_event list \<Rightarrow> registry_event list \<Rightarrow> (eth_event \<times> trigger) list" where
  "registry_chain evs rs = zip evs (map StartrailRegistry rs)"

lemma registry_chain_legal:
  assumes "found_in R evs rs" and "legal_events h (srrEntityId h R) rs L"
  shows "legal_chain h (registry_chain evs rs) L \<and>
    ledger_of_run h (registry_chain evs rs) L = op_fold (srrEntityId h R) rs L"
proof -
  from assms(1) have "length evs = length rs" by (simp add: found_in_def)
  then show ?thesis
    using assms unfolding registry_chain_def
  proof (induction evs rs arbitrary: L rule: list_induct2)
    case Nil
    then show ?case by (simp add: ledger_of_run_def)
  next
    case (Cons ev evs r rs)
    moreover from Cons.prems have "seen_token h ev L = (\<lambda>tok. is_set (L (srrEntityId h R tok)))"
      by (simp add: fun_eq_iff seen_token_def found_in_def)
    ultimately show ?case by (simp add: ledger_of_run_def found_in_def)
  qed
qed

lemma calls_lawful: "lawful (run_sr_calls e cs)"
proof (induction cs)
  case Nil
  then show ?case by (auto simp: lawful_def)
next
  case (Cons x cs)
  obtain env m c where x: "x = (env, m, c)" by (cases x)
  have "run_sr_calls e (x # cs) = statements [run_sr_call e env m c, run_sr_calls e cs]"
    by (rule ext) (simp add: x statements.simps run_sr_calls.simps(2) split: option.split)
  then show ?case using Cons call_lawful by (simp add: lawful_statements)
qed

lemma fresh_registry:
  assumes "no_tokens st"
  shows "mirrors K T st Map.empty" "knows K st Map.empty"
  using assms by (auto simp: no_tokens_def mirrors_def knows_def token_exists_def)

lemma registry_indexed:
  assumes "no_tokens st" and "run_sr_calls e cs st = Some (st', es)" and "found_in R evs (indexed es)"
    and "digests_readable h (indexed es)" and "distinct_keys (srrEntityId h R) T" and "minted_tokens st' \<subseteq> T"
  shows "\<exists>s. run_subgraph h (registry_chain evs (indexed es)) empty_store = Inr s \<and> wf_store s \<and>
    mirrors (srrEntityId h R) T st' (ledger_of s)"
proof -
  let ?K = "srrEntityId h R"
  have "legal_events h ?K (indexed es) Map.empty"
    using calls_lawful [of e cs] assms(2,4) fresh_registry(2) [OF assms(1)] unfolding lawful_def by blast
  note chain = registry_chain_legal [OF assms(3) this]
  then obtain s where s: "run_subgraph h (registry_chain evs (indexed es)) empty_store = Inr s" "good_store s"
      "ledger_of s = op_fold ?K (indexed es) Map.empty"
    using legal_chain_indexed [OF good_empty, of h "registry_chain evs (indexed es)"] by auto
  have "mirrors ?K T st' (ledger_fold (ledger_ops ?K es) Map.empty)"
    by (rule calls_mirror [OF assms(2,5,6) fresh_registry(1) [OF assms(1)]])
  then show ?thesis using s by (simp add: ledger_fold_ops good_store_def)
qed

lemma mirrored_entity:
  assumes "mirrors K T st (ledger_of s)" and "t \<in> T" and "token_exists t st"
  shows "\<exists>srr. srrs s (K (uint t)) = Some srr \<and> srr_ownerAddress srr = Some (sr_tokenOwner st t) \<and>
    (srr_transferCommitment srr = None \<or> srr_transferCommitment srr = Some (sr_commitment st t))"
proof -
  obtain c where "ledger_of s (K (uint t)) = Some (Some (sr_tokenOwner st t), c)"
      "c = None \<or> c = Some (sr_commitment st t)"
    using mirrorsD [OF assms] .
  then show ?thesis unfolding ledger_of_def by (cases "srrs s (K (uint t))") auto
qed

lemma unminted_entity:
  assumes "mirrors K T st (ledger_of s)" and "t \<in> T" and "\<not> token_exists t st"
  shows "srrs s (K (uint t)) = None"
  using assms unfolding mirrors_def ledger_of_def by fastforce

section \<open>Commitments that outlive a transfer\<close>

text \<open>The transfers other than the one that reveals the commitment, with their token and recipient.\<close>

fun plain_transfer :: "sr_call \<Rightarrow> (256 word \<times> address) option" where
  "plain_transfer (SR_transferFrom a b t) = Some (t, b)"
| "plain_transfer (SR_safeTransferFrom a b t) = Some (t, b)"
| "plain_transfer (SR_safeTransferFromData a b t d) = Some (t, b)"
| "plain_transfer (SR_transferFromWithProvenance b t h ch i) = Some (t, b)"
| "plain_transfer (SR_transferFromWithProvenanceFromBulk signer b t h ch i) = Some (t, b)"
| "plain_transfer _ = None"

lemma plain_transfer_moves:
  assumes "plain_transfer c = Some (t, b)" and "run_sr_call e env m c st = Some (st', es)"
  shows "sr_tokenOwner st' = (sr_tokenOwner st)(t := b) \<and> sr_commitment st' = sr_commitment st \<and>
    sr_historyCustom st' = sr_historyCustom st \<and> sr_historyHash st' = sr_historyHash st \<and> b \<noteq> ZERO_ADDRESS \<and>
    token_exists t st \<and>
    (ledger_ops K es = [Move (K (uint t)) b] \<or> ledger_ops K es = [Trace (K (uint t)) b, Move (K (uint t)) b])"
  using assms
  by (cases c) (auto simp: transferFromWithProvenance_internal_def historyProvenance_def safe_transfer_Some
      transfer_Some token_exists_def)

text \<open>After such a transfer the subgraph has no commitment for the token, and the old one moves it still.\<close>

lemma old_commitment:
  assumes "sr_ok st" and "plain_transfer c = Some (t, b)" and "run_sr_call e env m c st = Some (st1, es1)"
    and "evm_keccak256 e rv = sr_commitment st t" and "to \<noteq> ZERO_ADDRESS"
  shows "sr_tokenOwner st1 t = b"
    "\<exists>st2 es2. run_sr_call e env' m' (SR_transferSRRByReveal to rv t i) st1 = Some (st2, es2) \<and> sr_tokenOwner st2 t = to"
    "is_set (L (K (uint t))) \<Longrightarrow> op_fold K (indexed es1) L (K (uint t)) = Some (Some b, None)"
proof -
  note moved = plain_transfer_moves [OF assms(2,3)]
  show "sr_tokenOwner st1 t = b" using moved by simp
  have ok: "sr_ok st1" using call_ok [OF assms(3,1)] .
  have "token_exists t st1" "evm_keccak256 e rv = sr_commitment st1 t"
    using moved assms(4) by (simp_all add: token_exists_def)
  then obtain st2 es2 where "transferSRRByReveal e to rv t i st1 = Some (st2, es2)"
    using reveal_succeeds [OF ok, of e to rv t i] assms(5) by blast
  then show "\<exists>st2 es2. run_sr_call e env' m' (SR_transferSRRByReveal to rv t i) st1 = Some (st2, es2) \<and> sr_tokenOwner st2 t = to"
    using reveal_moves(1) by auto
  have "ledger_fold (ledger_ops K es1) L (K (uint t)) = Some (Some b, None)" if "is_set (L (K (uint t)))"
    using moved [of K] that by (auto simp: is_set_def)
  then show "is_set (L (K (uint t))) \<Longrightarrow> op_fold K (indexed es1) L (K (uint t)) = Some (Some b, None)"
    by (simp add: ledger_fold_ops)
qed

text \<open>A commitment without a custom history keeps the custom history of the one before.\<close>

lemma old_custom_history:
  assumes "sr_ok st" and "sr_historyCustom st t \<noteq> NO_CUSTOM_HISTORY"
    and "run_sr_call e env m (SR_approveSRRByCommitment t (evm_keccak256 e rv) h) st = Some (st1, es1)"
    and "to \<noteq> ZERO_ADDRESS"
  shows "R_SRRCommitment (uint t) (sr_tokenOwner st t) (evm_keccak256 e rv) \<in> set (indexed es1)"
    "\<exists>st2 es2 uri. run_sr_call e env' m' (SR_transferSRRByReveal to rv t i) st1 = Some (st2, es2) \<and>
       R_ProvenanceWithCustomHistoryAndIntermediary (uint t) (sr_tokenOwner st t) to (uint (sr_historyCustom st t)) h uri i
         \<in> set (indexed es2)"
proof -
  have st1: "sr_tokenOwner st1 = sr_tokenOwner st" "sr_commitment st1 t = evm_keccak256 e rv"
      "sr_historyCustom st1 = sr_historyCustom st" "sr_historyHash st1 t = h" "token_exists t st1"
      "R_SRRCommitment (uint t) (sr_tokenOwner st t) (evm_keccak256 e rv) \<in> set (indexed es1)"
    using assms(3) by (auto simp: approveSRRByCommitment_internal_def when_sr_def token_exists_def split: if_splits)
  show "R_SRRCommitment (uint t) (sr_tokenOwner st t) (evm_keccak256 e rv) \<in> set (indexed es1)" by (rule st1(6))
  obtain st2 es2 where r: "transferSRRByReveal e to rv t i st1 = Some (st2, es2)"
    using reveal_succeeds [OF call_ok [OF assms(3,1)], of e to rv t i] st1(2,5) assms(4) by auto
  then have "R_ProvenanceWithCustomHistoryAndIntermediary (uint t) (sr_tokenOwner st t) to (uint (sr_historyCustom st t)) h
      (metadataURI h st1) i \<in> set (indexed es2)"
    using st1 assms(2) by (auto simp: reveal_Some revealed_event_def)
  with r show "\<exists>st2 es2 uri. run_sr_call e env' m' (SR_transferSRRByReveal to rv t i) st1 = Some (st2, es2) \<and>
       R_ProvenanceWithCustomHistoryAndIntermediary (uint t) (sr_tokenOwner st t) to (uint (sr_historyCustom st t)) h uri i
         \<in> set (indexed es2)" by auto
qed

text \<open>A custom history that is written with an empty name cannot be used: for the contract it does not exist.\<close>

lemma nameless_history:
  assumes "run_sr_call e env m (SR_writeCustomHistoryCID '''' ty cid) st = Some (st', es)"
  shows "R_CreateCustomHistoryWithCID (uint (sr_customHistoryCount st')) '''' (uint ty) cid \<in> set (indexed es) \<and>
    \<not> customHistoryIdExists (sr_customHistoryCount st') st'"
  using assms by (auto simp: writeCustomHistory_def customHistoryIdExists_def)

end
