(* ===== verification/RegistryClient.thy ===== *)
theory RegistryClient
  imports RegistryLedger TxHelpers
begin

text \<open>
  A token from the client to the subgraph: \<open>srrIdV3Compute\<close> of \<open>srr/srr-id-compute.ts\<close> predicts the identifier that
  \<open>IDGeneratorV3.sol\<close> gives a token, and what is stored with a new token.
\<close>

section \<open>The identifier of a token\<close>

text \<open>What ethers documents: \<open>solidityKeccak256\<close> of a string and an address is keccak256 of their bytes one after the
  other; \<open>BigNumber.from\<close> reads a hexadecimal string as a big-endian number.\<close>

definition id_functions_documented :: "ext \<Rightarrow> evm \<Rightarrow> bool" where
  "id_functions_documented x e \<longleftrightarrow>
     (\<forall>s a. solidityKeccak x [''string'', ''address''] [s, toHex a] = toHex (evm_keccak256 e (str_bytes s @ a))) \<and>
     (\<forall>b. bigNumberFrom x (JString (toHex (evm_keccak256 e b))) = Inr (int (be_nat (evm_keccak256 e b))))"

lemma uint_generate_id:
  "uint (generate_id e cid a) = int (be_nat (evm_keccak256 e (str_bytes cid @ a)) mod 10 ^ 12)"
proof -
  let ?n = "be_nat (evm_keccak256 e (str_bytes cid @ a)) mod 10 ^ 12"
  have "?n < 10 ^ 12" by simp
  then have "?n < 2 ^ 256" by (rule less_trans) simp
  then have "unat (generate_id e cid a) = ?n" by (simp add: generate_id_def unat_of_nat take_bit_eq_mod)
  then show ?thesis by (metis uint_nat)
qed

lemma computed_id:
  assumes "id_functions_documented x e"
  shows "srrIdV3Compute x (toHex artist) cid = Inr (uint (generate_id e cid artist))"
proof -
  have "toNumber (n mod ID_CAP_V2) = Inr (n mod ID_CAP_V2)" for n using caps by (intro toNumber_mod)
  then show ?thesis
    using assms by (simp add: id_functions_documented_def srrIdV3Compute_def srrIdComputeInternalWithCID_def Let_def
        uint_generate_id ID_CAP_V2_def power10_def zmod_int)
qed

section \<open>A new token\<close>

lemma createSRR_state:
  assumes "createSRR e p artist cid sender lock receiver points st = Some (st', es)"
  shows "sr_issuer st' = (sr_issuer st)(generate_id e cid artist := sender)"
    "sr_artistAddress st' = (sr_artistAddress st)(generate_id e cid artist := artist)"
    "sr_isPrimaryIssuer st' = (sr_isPrimaryIssuer st)(generate_id e cid artist := p)"
    "sr_metadataCID st' = (sr_metadataCID st)(generate_id e cid artist := cid)"
    "sr_lockExternal st' = (sr_lockExternal st)(generate_id e cid artist := lock)"
    "sr_metadataDigest st' = sr_metadataDigest st" "cid \<noteq> []"
  using assms
  by (auto simp: createSRR_def Let_def mint_Some saveSRR_def when_sr_def setRoyalties_def saveRoyalties_def split: if_splits)

text \<open>The token of a successful call, its owner, and what \<open>getSRR\<close> gives for it.\<close>

lemma created_srr:
  assumes "createSRRTo e p artist cid sender lock to receiver points st = Some (st', es)"
  defines "t \<equiv> generate_id e cid artist"
  shows "\<not> token_exists t st" "sr_tokenOwner st' = (sr_tokenOwner st)(t := if to = ZERO_ADDRESS then sender else to)"
    "getSRR t st' = Some (\<lparr>rr_isPrimaryIssuer = p, rr_artistAddress = artist, rr_issuer = sender\<rparr>,
       sr_metadataDigest st t, cid)"
    "sr_tokenURI t st' = ''ipfs://'' @ cid"
proof -
  obtain st1 es1 es2 where one: "createSRR e p artist cid sender lock receiver points st = Some (st1, es1)"
      "when_sr (\<lambda>st. to \<noteq> ZERO_ADDRESS) (transfer_token sender to t) st1 = Some (st', es2)"
    using assms(1) unfolding createSRRTo_def t_def by auto
  note c = createSRR_effect [OF one(1), folded t_def] createSRR_state [OF one(1), folded t_def]
  show "\<not> token_exists t st" using c(1) by blast
  have tr: "sr_tokenOwner st' = (sr_tokenOwner st)(t := if to = ZERO_ADDRESS then sender else to)"
      "sr_issuer st' = sr_issuer st1" "sr_artistAddress st' = sr_artistAddress st1" "sr_metadataCID st' = sr_metadataCID st1"
      "sr_isPrimaryIssuer st' = sr_isPrimaryIssuer st1" "sr_metadataDigest st' = sr_metadataDigest st1"
    using one(2) c(1) by (auto simp: when_sr_def transfer_Some split: if_splits)
  show "sr_tokenOwner st' = (sr_tokenOwner st)(t := if to = ZERO_ADDRESS then sender else to)" by (rule tr(1))
  have "sender \<noteq> ZERO_ADDRESS" using c(1) by blast
  then show "getSRR t st' = Some (\<lparr>rr_isPrimaryIssuer = p, rr_artistAddress = artist, rr_issuer = sender\<rparr>,
       sr_metadataDigest st t, cid)" "sr_tokenURI t st' = ''ipfs://'' @ cid"
    using tr c(2-) by (simp_all add: getSRR_def token_exists_def sr_tokenURI_def tokenURIFromString_def)
qed

section \<open>Deployment\<close>

text \<open>The storage of a registry in which nothing was ever created: the invariants hold, whatever was set by the
  Administrator.\<close>

definition fresh_storage :: "sr_state \<Rightarrow> bool" where
  "fresh_storage st \<longleftrightarrow> (\<forall>t. sr_tokenOwner st t = ZERO_ADDRESS \<and> sr_tokenApprovals st t = ZERO_ADDRESS \<and>
     sr_royalties st t = \<lparr>ri_receiver = ZERO_ADDRESS, ri_basisPoints = 0\<rparr>) \<and> (\<forall>a. sr_ownedTokensCount st a = 0)"

lemma fresh_ok: "fresh_storage st \<Longrightarrow> sr_ok st" "fresh_storage st \<Longrightarrow> no_tokens st"
  by (auto simp: fresh_storage_def sr_ok_def balances_ok_def attributes_ok_def no_tokens_def token_exists_def)

text \<open>The identifiers that tokens can have.\<close>

definition possible_ids :: "256 word set" where
  "possible_ids = {t. unat t < 10 ^ 12}"

lemma minted_possible: "sr_ok st \<Longrightarrow> minted_tokens st \<subseteq> possible_ids"
  by (auto simp: sr_ok_def attributes_ok_def minted_tokens_def possible_ids_def)

end
