(* ===== verification/CollectionContract.thy ===== *)
theory CollectionContract
  imports RegistryContract
begin

text \<open>
  A collection: \<open>contracts/collection/features\<close> in the versions of the current release, over the storage libraries in
  \<open>storage\<close>, \<open>erc721\<close> and \<open>shared\<close>. The features are separate contracts, but the proxy of a collection
  (\<open>CollectionProxy.sol\<close>) runs them on its own storage, so a collection is one state and a function of any
  feature is a constructor of \<open>col_call\<close>. The FeatureRegistry routes the calls and names the trusted forwarder.
\<close>

section \<open>Storage\<close>

record col_srr =
  cs_isPrimaryIssuer :: bool
  cs_artist :: address
  cs_issuer :: address

record col_approval =
  ca_commitment :: bytes
  ca_historyMetadataHash :: string
  ca_customHistoryId :: "256 word"

record col_state =
  cl_featureRegistry :: address
  cl_owner :: address
  cl_name :: string
  cl_symbol :: string
  cl_ownerOf :: "256 word \<Rightarrow> address"
  cl_balanceOf :: "address \<Rightarrow> 256 word"
  cl_getApproved :: "256 word \<Rightarrow> address"
  cl_isApprovedForAll :: "address \<Rightarrow> address \<Rightarrow> bool"
  cl_srrs :: "256 word \<Rightarrow> col_srr"
  cl_metadata :: "256 word \<Rightarrow> string"
  cl_locked :: "256 word \<Rightarrow> bool"
  cl_royalties :: "256 word \<Rightarrow> royalty_info"
  cl_approvals :: "256 word \<Rightarrow> col_approval"

text \<open>The functions that change the storage.\<close>

datatype col_call =
    CL_transferFrom address address "256 word"
  | CL_safeTransferFrom address address "256 word"
  | CL_safeTransferFromData address address "256 word" bytes
  | CL_approve address "256 word"
  | CL_setApprovalForAll address bool
  | CL_transferFromWithProvenance address "256 word" string "256 word" bool
  | CL_createSRR bool address string bool address address "16 word"
  | CL_updateSRR "256 word" bool address
  | CL_createSRRFromBulk bool address string address bool address address "16 word"
  | CL_approveSRRByCommitmentFromBulk address "256 word" bytes string "256 word"
  | CL_transferFromWithProvenanceFromBulk address address "256 word" string "256 word" bool
  | CL_approveSRRByCommitment "256 word" bytes string
  | CL_approveSRRByCommitmentWithCustomHistory "256 word" bytes string "256 word"
  | CL_cancelSRRCommitment "256 word"
  | CL_transferSRRByReveal address bytes "256 word" bool
  | CL_addHistory "256 word list" "256 word list"
  | CL_updateSRRRoyalty "256 word" address "16 word"
  | CL_updateSRRRoyaltyReceiverMulti "256 word list" address
  | CL_setLockExternalTransfer "256 word" bool
  | CL_updateSRRMetadata "256 word" string
  | CL_transferOwnership address
  | CL_CollectionProxy_initialize address
  | CL_OwnableFeature_initialize address
  | CL_ERC721Feature_initialize string string

datatype col_event =
    CollectionEvent collection_event
  | CollectionApproval address address "256 word"
  | CollectionApprovalForAll address address bool

type_synonym col_stm = "(col_state, col_event) stm"

text \<open>The contracts around: the trusted forwarder and the NameRegistry of a FeatureRegistry, the entries of a
  NameRegistry, the LicensedUserManager, the storage of the StartrailRegistry at an address, and recipients.\<close>

record col_env =
  ce_trustedForwarder :: "address \<Rightarrow> address"
  ce_nameRegistry :: "address \<Rightarrow> address"
  ce_names :: "address \<Rightarrow> 8 word \<Rightarrow> address"
  ce_isActiveWallet :: "address \<Rightarrow> address \<Rightarrow> bool"
  ce_startrailRegistry :: "address \<Rightarrow> sr_state"
  ce_hasCode :: "address \<Rightarrow> bool"
  ce_onERC721Received :: "address \<Rightarrow> address \<Rightarrow> address \<Rightarrow> 256 word \<Rightarrow> bytes \<Rightarrow> bool"

section \<open>LibEIP2771.sol, LibFeatureCommonV01.sol and V02\<close>

definition col_isTrustedForwarder :: "col_env \<Rightarrow> message \<Rightarrow> address \<Rightarrow> bool" where
  "col_isTrustedForwarder env m featureRegistry \<longleftrightarrow> msg_sender m = ce_trustedForwarder env featureRegistry"

definition col_eip2771Sender :: "col_env \<Rightarrow> message \<Rightarrow> address \<Rightarrow> address" where
  "col_eip2771Sender env m featureRegistry =
     (if 24 \<le> length (msg_data m) \<and> col_isTrustedForwarder env m featureRegistry
      then appended_sender (msg_data m) else msg_sender m)"

definition col_onlyLicensedUser :: "col_env \<Rightarrow> message \<Rightarrow> address \<Rightarrow> bool" where
  "col_onlyLicensedUser env m featureRegistry \<longleftrightarrow>
     ce_isActiveWallet env (nr_get (ce_names env (ce_nameRegistry env featureRegistry)) LICENSED_USER_MANAGER)
       (col_eip2771Sender env m featureRegistry)"

definition col_msgSender :: "col_env \<Rightarrow> message \<Rightarrow> col_state \<Rightarrow> address" where
  "col_msgSender env m st = col_eip2771Sender env m (cl_featureRegistry st)"

definition col_onlyTrustedForwarder :: "col_env \<Rightarrow> message \<Rightarrow> col_state \<Rightarrow> bool" where
  "col_onlyTrustedForwarder env m st \<longleftrightarrow> col_isTrustedForwarder env m (cl_featureRegistry st)"

definition col_names :: "col_env \<Rightarrow> col_state \<Rightarrow> 8 word \<Rightarrow> address" where
  "col_names env st = ce_names env (ce_nameRegistry env (cl_featureRegistry st))"

definition col_onlyAdministrator :: "col_env \<Rightarrow> message \<Rightarrow> col_state \<Rightarrow> bool" where
  "col_onlyAdministrator env m st \<longleftrightarrow> col_msgSender env m st = nr_administrator (col_names env st)"

definition onlyCollectionOwner :: "address \<Rightarrow> col_state \<Rightarrow> bool" where
  "onlyCollectionOwner toCheck st \<longleftrightarrow> toCheck = cl_owner st"

definition col_exists :: "256 word \<Rightarrow> col_state \<Rightarrow> bool" where
  "col_exists tokenId st \<longleftrightarrow> cl_ownerOf st tokenId \<noteq> ZERO_ADDRESS"

definition onlyCollectionOwnerOrSRROwner :: "address \<Rightarrow> 256 word \<Rightarrow> col_state \<Rightarrow> bool" where
  "onlyCollectionOwnerOrSRROwner toCheck tokenId st \<longleftrightarrow>
     col_exists tokenId st \<and> (cl_owner st = toCheck \<or> cl_ownerOf st tokenId = toCheck)"

definition onlyExternalTransferUnlocked :: "256 word \<Rightarrow> col_state \<Rightarrow> bool" where
  "onlyExternalTransferUnlocked tokenId st \<longleftrightarrow> \<not> cl_locked st tokenId"

text \<open>\<open>LibFeatureStartrailRegistry\<close>: the StartrailRegistry that the NameRegistry names.\<close>

definition getStartrailRegistry :: "col_env \<Rightarrow> col_state \<Rightarrow> sr_state" where
  "getStartrailRegistry env st = ce_startrailRegistry env (nr_get (col_names env st) STARTRAIL_REGISTRY)"

section \<open>LibERC721Storage.sol\<close>

text \<open>Balances are changed in unchecked blocks.\<close>

definition col_add_balance :: "address \<Rightarrow> 256 word \<Rightarrow> col_stm" where
  "col_add_balance a d = assign (\<lambda>st. st\<lparr>cl_balanceOf := (cl_balanceOf st)(a := cl_balanceOf st a + d)\<rparr>)"

definition col_mint :: "address \<Rightarrow> 256 word \<Rightarrow> col_stm" where
  "col_mint to tokenId = statements
     [require (\<lambda>st. to \<noteq> ZERO_ADDRESS),
      require (\<lambda>st. cl_ownerOf st tokenId = ZERO_ADDRESS),
      col_add_balance to 1,
      assign (\<lambda>st. st\<lparr>cl_ownerOf := (cl_ownerOf st)(tokenId := to)\<rparr>),
      emit (\<lambda>st. CollectionEvent (C_Transfer ZERO_ADDRESS to (uint tokenId)))]"

definition col_move :: "address \<Rightarrow> address \<Rightarrow> 256 word \<Rightarrow> col_stm" where
  "col_move from to tokenId = statements
     [col_add_balance from (- 1),
      col_add_balance to 1,
      assign (\<lambda>st. st\<lparr>cl_ownerOf := (cl_ownerOf st)(tokenId := to)\<rparr>),
      assign (\<lambda>st. st\<lparr>cl_getApproved := (cl_getApproved st)(tokenId := ZERO_ADDRESS)\<rparr>),
      emit (\<lambda>st. CollectionEvent (C_Transfer from to (uint tokenId)))]"

definition col_receivedCheck :: "col_env \<Rightarrow> address \<Rightarrow> address \<Rightarrow> address \<Rightarrow> 256 word \<Rightarrow> bytes \<Rightarrow> col_stm" where
  "col_receivedCheck env sender from to tokenId data =
     require (\<lambda>st. \<not> ce_hasCode env to \<or> ce_onERC721Received env to sender from tokenId data)"

section \<open>ERC721UpgradeableBase.sol\<close>

definition col_base_approve :: "message \<Rightarrow> address \<Rightarrow> 256 word \<Rightarrow> col_stm" where
  "col_base_approve m spender tokenId =
     reading (\<lambda>st. cl_ownerOf st tokenId) (\<lambda>owner. statements
       [require (\<lambda>st. msg_sender m = owner \<or> cl_isApprovedForAll st owner (msg_sender m)),
        assign (\<lambda>st. st\<lparr>cl_getApproved := (cl_getApproved st)(tokenId := spender)\<rparr>),
        emit (\<lambda>st. CollectionApproval owner spender tokenId)])"

definition col_base_setApprovalForAll :: "message \<Rightarrow> address \<Rightarrow> bool \<Rightarrow> col_stm" where
  "col_base_setApprovalForAll m operator approved = statements
     [assign (\<lambda>st. st\<lparr>cl_isApprovedForAll := (cl_isApprovedForAll st)
        (msg_sender m := (cl_isApprovedForAll st (msg_sender m))(operator := approved))\<rparr>),
      emit (\<lambda>st. CollectionApprovalForAll (msg_sender m) operator approved)]"

definition col_base_transferFrom :: "message \<Rightarrow> address \<Rightarrow> address \<Rightarrow> 256 word \<Rightarrow> col_stm" where
  "col_base_transferFrom m from to tokenId = statements
     [require (\<lambda>st. from = cl_ownerOf st tokenId),
      require (\<lambda>st. to \<noteq> ZERO_ADDRESS),
      require (\<lambda>st. msg_sender m = from \<or> cl_isApprovedForAll st from (msg_sender m) \<or>
        msg_sender m = cl_getApproved st tokenId),
      col_move from to tokenId]"

section \<open>Royalties\<close>

definition col_royalty_exists :: "256 word \<Rightarrow> col_state \<Rightarrow> bool" where
  "col_royalty_exists tokenId st \<longleftrightarrow> ri_receiver (cl_royalties st tokenId) \<noteq> ZERO_ADDRESS"

definition upsertRoyalty :: "256 word \<Rightarrow> address \<Rightarrow> 16 word \<Rightarrow> col_stm" where
  "upsertRoyalty tokenId receiver basisPoints =
     when_sr (\<lambda>st. receiver \<noteq> ZERO_ADDRESS \<and> unat basisPoints \<le> 10000) (statements
       [assign (\<lambda>st. st\<lparr>cl_royalties := (cl_royalties st)
          (tokenId := \<lparr>ri_receiver = receiver, ri_basisPoints = basisPoints\<rparr>)\<rparr>),
        emit (\<lambda>st. CollectionEvent (C_RoyaltiesSet (uint tokenId) receiver (uint basisPoints)))])"

definition col_royaltyInfo :: "256 word \<Rightarrow> 256 word \<Rightarrow> col_state \<Rightarrow> (address \<times> 256 word) option" where
  "col_royaltyInfo tokenId salePrice st =
     (let royalty = (if ri_receiver (cl_royalties st tokenId) = ZERO_ADDRESS
             then \<lparr>ri_receiver = hex_bytes ''0x75194f40c5337d218a6798b02bbb34500a653a16'', ri_basisPoints = 0\<rparr>
             else cl_royalties st tokenId)
      in if unat salePrice * unat (ri_basisPoints royalty) < 2 ^ 256
         then Some (ri_receiver royalty, salePrice * ucast (ri_basisPoints royalty) div 10000)
         else None)"

definition col_updateSRRRoyalty :: "col_env \<Rightarrow> message \<Rightarrow> 256 word \<Rightarrow> address \<Rightarrow> 16 word \<Rightarrow> col_stm" where
  "col_updateSRRRoyalty env m tokenId receiver basisPoints = statements
     [require (col_exists tokenId),
      require (col_onlyAdministrator env m),
      require (col_royalty_exists tokenId),
      require (\<lambda>st. receiver \<noteq> ZERO_ADDRESS),
      require (\<lambda>st. unat basisPoints \<le> 10000),
      upsertRoyalty tokenId receiver basisPoints]"

definition col_updateSRRRoyaltyReceiverMulti :: "col_env \<Rightarrow> message \<Rightarrow> 256 word list \<Rightarrow> address \<Rightarrow> col_stm" where
  "col_updateSRRRoyaltyReceiverMulti env m tokenIds receiver = statements
     [require (col_onlyAdministrator env m),
      require (\<lambda>st. receiver \<noteq> ZERO_ADDRESS),
      require (\<lambda>st. list_all (\<lambda>t. col_exists t st \<and> col_royalty_exists t st) tokenIds),
      statements (map (\<lambda>t. reading (\<lambda>st. ri_basisPoints (cl_royalties st t)) (upsertRoyalty t receiver)) tokenIds)]"

section \<open>LibSRRCreate.sol\<close>

definition col_create ::
  "evm \<Rightarrow> col_env \<Rightarrow> message \<Rightarrow> bool \<Rightarrow> address \<Rightarrow> string \<Rightarrow> address \<Rightarrow> bool \<Rightarrow> address \<Rightarrow> 16 word \<Rightarrow> bool \<Rightarrow> col_stm" where
  "col_create e env m isPrimaryIssuer artistAddress metadataCID issuerAddress lockExternalTransfer royaltyReceiver
      royaltyBasisPoints fromBulk =
     (let tokenId = generate_id e metadataCID artistAddress
      in statements
        [require (\<lambda>st. \<not> fromBulk \<longrightarrow> col_onlyTrustedForwarder env m st \<and> onlyCollectionOwner (col_msgSender env m st) st),
         require (\<lambda>st. metadataCID \<noteq> []),
         require (\<lambda>st. artistAddress \<noteq> ZERO_ADDRESS),
         require (\<lambda>st. royaltyReceiver \<noteq> ZERO_ADDRESS \<longrightarrow> unat royaltyBasisPoints \<le> 10000),
         require (\<lambda>st. \<not> col_exists tokenId st),
         assign (\<lambda>st. st\<lparr>cl_srrs := (cl_srrs st)(tokenId :=
           \<lparr>cs_isPrimaryIssuer = isPrimaryIssuer, cs_artist = artistAddress, cs_issuer = issuerAddress\<rparr>),
           cl_metadata := (cl_metadata st)(tokenId := metadataCID)\<rparr>),
         col_mint issuerAddress tokenId,
         when_sr (\<lambda>st. lockExternalTransfer) (assign (\<lambda>st. st\<lparr>cl_locked := (cl_locked st)(tokenId := lockExternalTransfer)\<rparr>)),
         emit (\<lambda>st. CollectionEvent (C_CreateSRR (uint tokenId)
           \<lparr>rr_isPrimaryIssuer = isPrimaryIssuer, rr_artistAddress = artistAddress, rr_issuer = issuerAddress\<rparr>
           metadataCID lockExternalTransfer)),
         upsertRoyalty tokenId royaltyReceiver royaltyBasisPoints])"

text \<open>Both functions that create move the token to its first owner when one is given.\<close>

definition col_create_to ::
  "evm \<Rightarrow> col_env \<Rightarrow> message \<Rightarrow> bool \<Rightarrow> address \<Rightarrow> string \<Rightarrow> address \<Rightarrow> bool \<Rightarrow> address \<Rightarrow> address \<Rightarrow> 16 word \<Rightarrow> bool \<Rightarrow> col_stm" where
  "col_create_to e env m isPrimaryIssuer artistAddress metadataCID issuerAddress lockExternalTransfer to royaltyReceiver
      royaltyBasisPoints fromBulk = statements
     [col_create e env m isPrimaryIssuer artistAddress metadataCID issuerAddress lockExternalTransfer royaltyReceiver
        royaltyBasisPoints fromBulk,
      when_sr (\<lambda>st. to \<noteq> ZERO_ADDRESS) (col_move issuerAddress to (generate_id e metadataCID artistAddress))]"

section \<open>Provenance and commitments\<close>

definition col_buildTokenURI :: "string \<Rightarrow> string" where
  "col_buildTokenURI metadataCID = ''ipfs://'' @ metadataCID"

definition col_logProvenance ::
  "256 word \<Rightarrow> address \<Rightarrow> address \<Rightarrow> string \<Rightarrow> 256 word \<Rightarrow> bool \<Rightarrow> address option \<Rightarrow> col_stm" where
  "col_logProvenance tokenId from to hash custom isIntermediary sender =
     emit (\<lambda>st. CollectionEvent (case sender of
       None \<Rightarrow>
         if custom \<noteq> 0
         then C_ProvenanceWithCustomHistoryAndIntermediary (uint tokenId) from to (uint custom) hash
                (col_buildTokenURI hash) isIntermediary
         else C_ProvenanceWithIntermediary (uint tokenId) from to hash (col_buildTokenURI hash) isIntermediary
     | Some s \<Rightarrow>
         if custom \<noteq> 0
         then C_ProvenanceWithCustomHistoryAndIntermediaryWithSender (uint tokenId) from to (uint custom) hash
                (col_buildTokenURI hash) isIntermediary s
         else C_ProvenanceWithIntermediaryWithSender (uint tokenId) from to hash (col_buildTokenURI hash)
                isIntermediary s))"

definition col_transferFromWithProvenance ::
  "col_env \<Rightarrow> message \<Rightarrow> address \<Rightarrow> 256 word \<Rightarrow> string \<Rightarrow> 256 word \<Rightarrow> bool \<Rightarrow> address \<Rightarrow> col_stm" where
  "col_transferFromWithProvenance env m to tokenId hash custom isIntermediary signer =
     reading (\<lambda>st. (col_msgSender env m st, cl_ownerOf st tokenId)) (\<lambda>(sender, tokenOwner). statements
       [col_logProvenance tokenId tokenOwner to hash custom isIntermediary (Some signer),
        col_move tokenOwner to tokenId,
        col_receivedCheck env sender tokenOwner to tokenId []])"

definition col_customHistoryExists :: "col_env \<Rightarrow> 256 word \<Rightarrow> col_state \<Rightarrow> bool" where
  "col_customHistoryExists env custom st \<longleftrightarrow> sr_customHistoryName (getStartrailRegistry env st) custom \<noteq> []"

definition col_approveSRRByCommitment ::
  "col_env \<Rightarrow> 256 word \<Rightarrow> bytes \<Rightarrow> string \<Rightarrow> 256 word \<Rightarrow> address \<Rightarrow> col_stm" where
  "col_approveSRRByCommitment env tokenId commitment hash custom sender = statements
     [require (\<lambda>st. custom > 0 \<longrightarrow> col_customHistoryExists env custom st),
      when_sr (\<lambda>st. ca_commitment (cl_approvals st tokenId) \<noteq> NO_COMMITMENT)
        (emit (\<lambda>st. CollectionEvent (C_SRRCommitmentCancelled (uint tokenId) sender))),
      assign (\<lambda>st. st\<lparr>cl_approvals := (cl_approvals st)(tokenId :=
        (cl_approvals st tokenId)\<lparr>ca_commitment := commitment, ca_historyMetadataHash := hash\<rparr>)\<rparr>),
      if custom = NO_CUSTOM_HISTORY
      then emit (\<lambda>st. CollectionEvent (C_SRRCommitment (uint tokenId) commitment sender))
      else statements
        [assign (\<lambda>st. st\<lparr>cl_approvals := (cl_approvals st)(tokenId :=
           (cl_approvals st tokenId)\<lparr>ca_customHistoryId := custom\<rparr>)\<rparr>),
         emit (\<lambda>st. CollectionEvent (C_SRRCommitmentWithCustomHistory (uint tokenId) commitment (uint custom) sender))]]"

definition no_approval :: col_approval where
  "no_approval = \<lparr>ca_commitment = NO_COMMITMENT, ca_historyMetadataHash = '''', ca_customHistoryId = 0\<rparr>"

definition col_clearSRRCommitment :: "256 word \<Rightarrow> col_stm" where
  "col_clearSRRCommitment tokenId = assign (\<lambda>st. st\<lparr>cl_approvals := (cl_approvals st)(tokenId := no_approval)\<rparr>)"

definition col_transferSRRByReveal :: "evm \<Rightarrow> address \<Rightarrow> bytes \<Rightarrow> 256 word \<Rightarrow> bool \<Rightarrow> col_stm" where
  "col_transferSRRByReveal e to reveal tokenId isIntermediary = statements
     [require (col_exists tokenId),
      require (\<lambda>st. evm_keccak256 e reveal = ca_commitment (cl_approvals st tokenId)),
      reading (\<lambda>st. cl_ownerOf st tokenId) (\<lambda>from. statements
        [reading (\<lambda>st. cl_approvals st tokenId) (\<lambda>a.
           col_logProvenance tokenId from to (ca_historyMetadataHash a) (ca_customHistoryId a) isIntermediary None),
         col_clearSRRCommitment tokenId,
         col_move from to tokenId])]"

section \<open>Reading\<close>

definition col_ownerOf :: "256 word \<Rightarrow> col_state \<Rightarrow> address option" where
  "col_ownerOf tokenId st = (if col_exists tokenId st then Some (cl_ownerOf st tokenId) else None)"

definition col_balanceOf :: "address \<Rightarrow> col_state \<Rightarrow> 256 word option" where
  "col_balanceOf owner st = (if owner = ZERO_ADDRESS then None else Some (cl_balanceOf st owner))"

definition col_tokenURI :: "256 word \<Rightarrow> col_state \<Rightarrow> string option" where
  "col_tokenURI tokenId st = (if col_exists tokenId st then Some (col_buildTokenURI (cl_metadata st tokenId)) else None)"

section \<open>Histories\<close>

text \<open>The index of both loops is a \<open>uint16\<close> with a checked increment.\<close>

definition col_addHistory :: "col_env \<Rightarrow> message \<Rightarrow> 256 word list \<Rightarrow> 256 word list \<Rightarrow> col_stm" where
  "col_addHistory env m tokenIds customHistoryIds = statements
     [require (\<lambda>st. length tokenIds * length customHistoryIds \<le>
        unat (sr_maxCombinedHistoryRecords (getStartrailRegistry env st))),
      require (\<lambda>st. length tokenIds < 2 ^ 16),
      require (\<lambda>st. let sender = col_msgSender env m st
        in list_all (\<lambda>t. col_exists t st \<and>
             (sender = cl_owner st \<or> sender = cs_issuer (cl_srrs st t) \<or> sender = cs_artist (cl_srrs st t) \<or>
              sender = cl_ownerOf st t)) tokenIds),
      require (\<lambda>st. length customHistoryIds < 2 ^ 16),
      require (\<lambda>st. list_all (\<lambda>i. col_customHistoryExists env i st) customHistoryIds),
      emit (\<lambda>st. CollectionEvent (C_History (map uint tokenIds) (map uint customHistoryIds)))]"

definition col_issuerOrArtistOrOwner :: "col_env \<Rightarrow> message \<Rightarrow> 256 word \<Rightarrow> col_state \<Rightarrow> bool" where
  "col_issuerOrArtistOrOwner env m tokenId st \<longleftrightarrow>
     (let sendingWallet = col_msgSender env m st
      in sendingWallet = cs_issuer (cl_srrs st tokenId) \<or> sendingWallet = cs_artist (cl_srrs st tokenId) \<or>
         sendingWallet = cl_owner st)"

definition col_onlyBulk :: "col_env \<Rightarrow> message \<Rightarrow> col_state \<Rightarrow> bool" where
  "col_onlyBulk env m st \<longleftrightarrow> msg_sender m = nr_get (col_names env st) BULK"

section \<open>The functions of the features\<close>

definition ERC721Feature_transferFrom :: "message \<Rightarrow> address \<Rightarrow> address \<Rightarrow> 256 word \<Rightarrow> col_stm" where [simp]:
  "ERC721Feature_transferFrom m from to tokenId = statements
     [require (onlyExternalTransferUnlocked tokenId), col_base_transferFrom m from to tokenId]"

definition ERC721Feature_safeTransferFrom :: "message \<Rightarrow> address \<Rightarrow> address \<Rightarrow> 256 word \<Rightarrow> col_stm" where [simp]:
  "ERC721Feature_safeTransferFrom m from to tokenId = statements
     [require (onlyExternalTransferUnlocked tokenId), col_base_transferFrom m from to tokenId]"

definition ERC721Feature_safeTransferFromData :: "col_env \<Rightarrow> message \<Rightarrow> address \<Rightarrow> address \<Rightarrow> 256 word \<Rightarrow> bytes \<Rightarrow> col_stm" where [simp]:
  "ERC721Feature_safeTransferFromData env m from to tokenId data = statements
     [require (onlyExternalTransferUnlocked tokenId), col_base_transferFrom m from to tokenId,
      col_receivedCheck env (msg_sender m) from to tokenId data]"

definition ERC721Feature_approve :: "message \<Rightarrow> address \<Rightarrow> 256 word \<Rightarrow> col_stm" where [simp]:
  "ERC721Feature_approve m spender tokenId = statements
     [require (onlyExternalTransferUnlocked tokenId), col_base_approve m spender tokenId]"

definition ERC721Feature_transferFromWithProvenance :: "col_env \<Rightarrow> message \<Rightarrow> address \<Rightarrow> 256 word \<Rightarrow> string \<Rightarrow> 256 word \<Rightarrow> bool \<Rightarrow> col_stm" where [simp]:
  "ERC721Feature_transferFromWithProvenance env m to tokenId hash custom isIntermediary = statements
     [require (col_exists tokenId),
      require (\<lambda>st. col_msgSender env m st = cl_owner st \<or> col_msgSender env m st = cl_ownerOf st tokenId),
      reading (col_msgSender env m) (\<lambda>sender.
        col_transferFromWithProvenance env m to tokenId hash custom isIntermediary sender)]"

definition SRRFeature_createSRR :: "evm \<Rightarrow> col_env \<Rightarrow> message \<Rightarrow> bool \<Rightarrow> address \<Rightarrow> string \<Rightarrow> bool \<Rightarrow> address \<Rightarrow> address \<Rightarrow> 16 word \<Rightarrow> col_stm" where [simp]:
  "SRRFeature_createSRR e env m isPrimaryIssuer artistAddress metadataCID lock to receiver points =
     reading (col_msgSender env m) (\<lambda>issuer.
       col_create_to e env m isPrimaryIssuer artistAddress metadataCID issuer lock to receiver points False)"

definition SRRFeature_updateSRR :: "col_env \<Rightarrow> message \<Rightarrow> 256 word \<Rightarrow> bool \<Rightarrow> address \<Rightarrow> col_stm" where [simp]:
  "SRRFeature_updateSRR env m tokenId isPrimaryIssuer artistAddress = statements
     [require (col_onlyTrustedForwarder env m), require (col_exists tokenId),
      require (col_issuerOrArtistOrOwner env m tokenId), require (\<lambda>st. artistAddress \<noteq> ZERO_ADDRESS),
      assign (\<lambda>st. st\<lparr>cl_srrs := (cl_srrs st)(tokenId := (cl_srrs st tokenId)
        \<lparr>cs_isPrimaryIssuer := isPrimaryIssuer, cs_artist := artistAddress\<rparr>)\<rparr>),
      emit (\<lambda>st. CollectionEvent (C_UpdateSRRWithSender (uint tokenId) isPrimaryIssuer artistAddress
        (col_msgSender env m st)))]"

definition BulkFeature_createSRR :: "evm \<Rightarrow> col_env \<Rightarrow> message \<Rightarrow> bool \<Rightarrow> address \<Rightarrow> string \<Rightarrow> address \<Rightarrow> bool \<Rightarrow> address \<Rightarrow> address \<Rightarrow> 16 word \<Rightarrow> col_stm" where [simp]:
  "BulkFeature_createSRR e env m isPrimaryIssuer artistAddress metadataCID issuer lock to receiver points =
     statements
     [require (col_onlyBulk env m), require (onlyCollectionOwner issuer),
      col_create_to e env m isPrimaryIssuer artistAddress metadataCID issuer lock to receiver points True]"

definition BulkFeature_approveSRRByCommitment :: "col_env \<Rightarrow> message \<Rightarrow> address \<Rightarrow> 256 word \<Rightarrow> bytes \<Rightarrow> string \<Rightarrow> 256 word \<Rightarrow> col_stm" where [simp]:
  "BulkFeature_approveSRRByCommitment env m signer tokenId commitment hash custom = statements
     [require (col_onlyBulk env m), require (onlyCollectionOwnerOrSRROwner signer tokenId),
      col_approveSRRByCommitment env tokenId commitment hash custom signer]"

definition BulkFeature_transferFromWithProvenance :: "col_env \<Rightarrow> message \<Rightarrow> address \<Rightarrow> address \<Rightarrow> 256 word \<Rightarrow> string \<Rightarrow> 256 word \<Rightarrow> bool \<Rightarrow> col_stm" where [simp]:
  "BulkFeature_transferFromWithProvenance env m signer to tokenId hash custom isIntermediary = statements
     [require (col_onlyBulk env m), require (onlyCollectionOwnerOrSRROwner signer tokenId),
      col_transferFromWithProvenance env m to tokenId hash custom isIntermediary signer]"

definition ApproveFeature_approveSRRByCommitment :: "col_env \<Rightarrow> message \<Rightarrow> 256 word \<Rightarrow> bytes \<Rightarrow> string \<Rightarrow> col_stm" where [simp]:
  "ApproveFeature_approveSRRByCommitment env m tokenId commitment hash =
     reading (col_msgSender env m) (\<lambda>sender. statements
       [require (onlyCollectionOwnerOrSRROwner sender tokenId),
        col_approveSRRByCommitment env tokenId commitment hash NO_CUSTOM_HISTORY sender])"

definition ApproveFeature_approveWithCustomHistory :: "col_env \<Rightarrow> message \<Rightarrow> 256 word \<Rightarrow> bytes \<Rightarrow> string \<Rightarrow> 256 word \<Rightarrow> col_stm" where [simp]:
  "ApproveFeature_approveWithCustomHistory env m tokenId commitment hash custom =
     reading (col_msgSender env m) (\<lambda>sender. statements
       [require (onlyCollectionOwnerOrSRROwner sender tokenId),
        col_approveSRRByCommitment env tokenId commitment hash custom sender])"

definition ApproveFeature_cancelSRRCommitment :: "col_env \<Rightarrow> message \<Rightarrow> 256 word \<Rightarrow> col_stm" where [simp]:
  "ApproveFeature_cancelSRRCommitment env m tokenId =
     reading (col_msgSender env m) (\<lambda>sender. statements
       [require (onlyCollectionOwnerOrSRROwner sender tokenId),
        col_clearSRRCommitment tokenId,
        emit (\<lambda>st. CollectionEvent (C_SRRCommitmentCancelled (uint tokenId) sender))])"

definition LockFeature_setLockExternalTransfer :: "col_env \<Rightarrow> message \<Rightarrow> 256 word \<Rightarrow> bool \<Rightarrow> col_stm" where [simp]:
  "LockFeature_setLockExternalTransfer env m tokenId flag = statements
     [require (col_onlyTrustedForwarder env m), require (col_exists tokenId),
      require (\<lambda>st. col_msgSender env m st = cs_issuer (cl_srrs st tokenId) \<or> col_msgSender env m st = cl_owner st),
      assign (\<lambda>st. st\<lparr>cl_locked := (cl_locked st)(tokenId := flag)\<rparr>),
      emit (\<lambda>st. CollectionEvent (C_LockExternalTransferSetLock (uint tokenId) flag))]"

definition MetadataFeature_updateSRRMetadata :: "col_env \<Rightarrow> message \<Rightarrow> 256 word \<Rightarrow> string \<Rightarrow> col_stm" where [simp]:
  "MetadataFeature_updateSRRMetadata env m tokenId metadataCID = statements
     [require (col_exists tokenId), require (\<lambda>st. metadataCID \<noteq> []),
      require (col_issuerOrArtistOrOwner env m tokenId),
      assign (\<lambda>st. st\<lparr>cl_metadata := (cl_metadata st)(tokenId := metadataCID)\<rparr>),
      emit (\<lambda>st. CollectionEvent (C_UpdateSRRMetadataDigest (uint tokenId) metadataCID))]"

definition OwnableFeature_transferOwnership :: "col_env \<Rightarrow> message \<Rightarrow> address \<Rightarrow> col_stm" where [simp]:
  "OwnableFeature_transferOwnership env m newOwner = statements
     [require (col_onlyTrustedForwarder env m), require (\<lambda>st. onlyCollectionOwner (col_msgSender env m st) st),
      require (\<lambda>st. newOwner \<noteq> ZERO_ADDRESS),
      emit (\<lambda>st. CollectionEvent (C_OwnershipTransferred (cl_owner st) newOwner)),
      assign (\<lambda>st. st\<lparr>cl_owner := newOwner\<rparr>)]"

definition CollectionProxy_initialize :: "address \<Rightarrow> col_stm" where [simp]:
  "CollectionProxy_initialize featureRegistry = statements
     [require (\<lambda>st. cl_featureRegistry st = ZERO_ADDRESS),
      assign (\<lambda>st. st\<lparr>cl_featureRegistry := featureRegistry\<rparr>)]"

definition OwnableFeature_initialize :: "address \<Rightarrow> col_stm" where [simp]:
  "OwnableFeature_initialize initialOwner = statements
     [require (\<lambda>st. cl_owner st = ZERO_ADDRESS), assign (\<lambda>st. st\<lparr>cl_owner := initialOwner\<rparr>)]"

definition ERC721Feature_initialize :: "string \<Rightarrow> string \<Rightarrow> col_stm" where [simp]:
  "ERC721Feature_initialize name symbol = statements
     [require (\<lambda>st. \<not> (cl_name st \<noteq> [] \<and> cl_symbol st \<noteq> [])),
      assign (\<lambda>st. st\<lparr>cl_name := name, cl_symbol := symbol\<rparr>)]"

section \<open>Calls\<close>

text \<open>The proxy delegates a call to the feature that has the function.\<close>

fun run_col_call :: "evm \<Rightarrow> col_env \<Rightarrow> message \<Rightarrow> col_call \<Rightarrow> col_stm" where
  "run_col_call e env m (CL_transferFrom from to tokenId) =
     ERC721Feature_transferFrom m from to tokenId"
| "run_col_call e env m (CL_safeTransferFrom from to tokenId) =
     ERC721Feature_safeTransferFrom m from to tokenId"
| "run_col_call e env m (CL_safeTransferFromData from to tokenId data) =
     ERC721Feature_safeTransferFromData env m from to tokenId data"
| "run_col_call e env m (CL_approve spender tokenId) =
     ERC721Feature_approve m spender tokenId"
| "run_col_call e env m (CL_setApprovalForAll operator approved) = col_base_setApprovalForAll m operator approved"
| "run_col_call e env m (CL_transferFromWithProvenance to tokenId hash custom isIntermediary) =
     ERC721Feature_transferFromWithProvenance env m to tokenId hash custom isIntermediary"
| "run_col_call e env m (CL_createSRR isPrimaryIssuer artistAddress metadataCID lock to receiver points) =
     SRRFeature_createSRR e env m isPrimaryIssuer artistAddress metadataCID lock to receiver points"
| "run_col_call e env m (CL_updateSRR tokenId isPrimaryIssuer artistAddress) =
     SRRFeature_updateSRR env m tokenId isPrimaryIssuer artistAddress"
| "run_col_call e env m (CL_createSRRFromBulk isPrimaryIssuer artistAddress metadataCID issuer lock to receiver points) =
     BulkFeature_createSRR e env m isPrimaryIssuer artistAddress metadataCID issuer lock to receiver points"
| "run_col_call e env m (CL_approveSRRByCommitmentFromBulk signer tokenId commitment hash custom) =
     BulkFeature_approveSRRByCommitment env m signer tokenId commitment hash custom"
| "run_col_call e env m (CL_transferFromWithProvenanceFromBulk signer to tokenId hash custom isIntermediary) =
     BulkFeature_transferFromWithProvenance env m signer to tokenId hash custom isIntermediary"
| "run_col_call e env m (CL_approveSRRByCommitment tokenId commitment hash) =
     ApproveFeature_approveSRRByCommitment env m tokenId commitment hash"
| "run_col_call e env m (CL_approveSRRByCommitmentWithCustomHistory tokenId commitment hash custom) =
     ApproveFeature_approveWithCustomHistory env m tokenId commitment hash custom"
| "run_col_call e env m (CL_cancelSRRCommitment tokenId) =
     ApproveFeature_cancelSRRCommitment env m tokenId"
| "run_col_call e env m (CL_transferSRRByReveal to reveal tokenId isIntermediary) =
     col_transferSRRByReveal e to reveal tokenId isIntermediary"
| "run_col_call e env m (CL_addHistory tokenIds customHistoryIds) = col_addHistory env m tokenIds customHistoryIds"
| "run_col_call e env m (CL_updateSRRRoyalty tokenId receiver points) = col_updateSRRRoyalty env m tokenId receiver points"
| "run_col_call e env m (CL_updateSRRRoyaltyReceiverMulti tokenIds receiver) =
     col_updateSRRRoyaltyReceiverMulti env m tokenIds receiver"
| "run_col_call e env m (CL_setLockExternalTransfer tokenId flag) =
     LockFeature_setLockExternalTransfer env m tokenId flag"
| "run_col_call e env m (CL_updateSRRMetadata tokenId metadataCID) =
     MetadataFeature_updateSRRMetadata env m tokenId metadataCID"
| "run_col_call e env m (CL_transferOwnership newOwner) =
     OwnableFeature_transferOwnership env m newOwner"
| "run_col_call e env m (CL_CollectionProxy_initialize featureRegistry) =
     CollectionProxy_initialize featureRegistry"
| "run_col_call e env m (CL_OwnableFeature_initialize initialOwner) =
     OwnableFeature_initialize initialOwner"
| "run_col_call e env m (CL_ERC721Feature_initialize name symbol) =
     ERC721Feature_initialize name symbol"

fun run_col_calls :: "evm \<Rightarrow> (col_env \<times> message \<times> col_call) list \<Rightarrow> col_stm" where
  "run_col_calls e [] = statements []"
| "run_col_calls e ((env, m, c) # cs) = statements [run_col_call e env m c, run_col_calls e cs]"

text \<open>The storage of a proxy that was just deployed.\<close>

definition empty_collection :: col_state where
  "empty_collection = \<lparr>cl_featureRegistry = ZERO_ADDRESS, cl_owner = ZERO_ADDRESS, cl_name = '''', cl_symbol = '''',
     cl_ownerOf = (\<lambda>_. ZERO_ADDRESS), cl_balanceOf = (\<lambda>_. 0), cl_getApproved = (\<lambda>_. ZERO_ADDRESS),
     cl_isApprovedForAll = (\<lambda>_ _. False),
     cl_srrs = (\<lambda>_. \<lparr>cs_isPrimaryIssuer = False, cs_artist = ZERO_ADDRESS, cs_issuer = ZERO_ADDRESS\<rparr>),
     cl_metadata = (\<lambda>_. ''''), cl_locked = (\<lambda>_. False),
     cl_royalties = (\<lambda>_. \<lparr>ri_receiver = ZERO_ADDRESS, ri_basisPoints = 0\<rparr>), cl_approvals = (\<lambda>_. no_approval)\<rparr>"

text \<open>The functions through which the bulk contract calls a collection are those through which it calls the
  StartrailRegistry.\<close>

fun bulk_col_call :: "sr_call \<Rightarrow> col_call option" where
  "bulk_col_call (SR_createSRRFromBulk p artist cid issuer lock to receiver points) =
     Some (CL_createSRRFromBulk p artist cid issuer lock to receiver points)"
| "bulk_col_call (SR_approveSRRByCommitmentFromBulk signer tokenId commitment hash custom) =
     Some (CL_approveSRRByCommitmentFromBulk signer tokenId commitment hash custom)"
| "bulk_col_call (SR_transferFromWithProvenanceFromBulk signer to tokenId hash custom isIntermediary) =
     Some (CL_transferFromWithProvenanceFromBulk signer to tokenId hash custom isIntermediary)"
| "bulk_col_call _ = None"

text \<open>The events that the subgraph of a collection knows.\<close>

fun col_indexed_event :: "col_event \<Rightarrow> collection_event list" where
  "col_indexed_event (CollectionEvent ev) = [ev]"
| "col_indexed_event _ = []"

definition col_indexed :: "col_event list \<Rightarrow> collection_event list" where
  "col_indexed es = concat (map col_indexed_event es)"

end
