(* ===== verification/BulkContract.thy ===== *)
theory BulkContract
  imports RegistryLedger CollectionContract
begin

text \<open>
  The bulk contract: \<open>contracts/bulk/BulkV6.sol\<close> with \<open>interfaces/IBulkV6.sol\<close>. The signer of a batch approves the
  root of a Merkle tree once; anyone may then have its leaves processed, each of which is a call of
  the StartrailRegistry or of a collection in the name of the signer. The state is that of the bulk
  contract, of the registry and of the collections it calls; a contract at another address is a parameter, and
  may call all of them again. A function reverts (\<open>None\<close>) or gives the state and the events the subgraph knows.
\<close>

section \<open>State\<close>

record bulk_batch =
  bb_prepared :: bool
  bb_signer :: address
  bb_processedCount :: byte
  bb_processedLeaves :: "bytes \<Rightarrow> bool"

record bulk_state =
  bu_nameRegistry :: address
  bu_trustedForwarder :: address
  bu_initialized :: bool
  bu_batches :: "bytes \<Rightarrow> bulk_batch"

record bulk_world =
  bw_bulk :: bulk_state
  bw_registry :: sr_state
  bw_collections :: "address \<Rightarrow> col_state option"

record create_inputs =
  ci_isPrimaryIssuer :: bool
  ci_artistAddress :: address
  ci_metadataCID :: string
  ci_lockExternalTransfer :: bool
  ci_to :: address
  ci_royaltyReceiver :: address
  ci_royaltyBasisPoints :: "16 word"
  ci_contractAddress :: address

text \<open>What the contract uses: its own address, the surroundings of the registry and of the collections, how calls are
  encoded, the library function \<open>MerkleProof.verify\<close> (proof, root, leaf), and the contracts that are no
  collections but have their functions.\<close>

record bulk_env =
  be_this :: address
  be_registry :: sr_env
  be_encode :: "sr_call \<Rightarrow> bytes"
  be_verifyProof :: "bytes list \<Rightarrow> bytes \<Rightarrow> bytes \<Rightarrow> bool"
  be_collections :: col_env
  be_other :: "address \<Rightarrow> sr_call \<Rightarrow> bulk_world \<Rightarrow> (bulk_world \<times> trigger list \<times> 256 word) option"

section \<open>Senders\<close>

definition bulk_msgSender :: "message \<Rightarrow> bulk_state \<Rightarrow> address" where
  "bulk_msgSender m b =
     (if 24 \<le> length (msg_data m) \<and> msg_sender m = bu_trustedForwarder b
      then appended_sender (msg_data m) else msg_sender m)"

definition bulk_initialize :: "address \<Rightarrow> address \<Rightarrow> bulk_state \<Rightarrow> bulk_state option" where
  "bulk_initialize nameRegistry trustedForwarder b =
     (if bu_initialized b \<or> trustedForwarder = ZERO_ADDRESS then None
      else Some (b\<lparr>bu_nameRegistry := nameRegistry, bu_trustedForwarder := trustedForwarder, bu_initialized := True\<rparr>))"

definition bulk_setTrustedForwarder :: "bulk_env \<Rightarrow> message \<Rightarrow> address \<Rightarrow> bulk_state \<Rightarrow> bulk_state option" where
  "bulk_setTrustedForwarder env m forwarder b =
     (if nr_administrator (se_names (be_registry env) (bu_nameRegistry b)) = msg_sender m \<and> forwarder \<noteq> ZERO_ADDRESS
      then Some (b\<lparr>bu_trustedForwarder := forwarder\<rparr>) else None)"

section \<open>Leaves\<close>

definition bool_byte :: "bool \<Rightarrow> byte" where
  "bool_byte b = (if b then 1 else 0)"

definition contract_suffix :: "address \<Rightarrow> bytes" where
  "contract_suffix contractAddress = (if contractAddress \<noteq> ZERO_ADDRESS then contractAddress else [])"

definition create_leaf :: "create_inputs \<Rightarrow> bool \<Rightarrow> bytes" where
  "create_leaf i isToInLeafHash =
     [bool_byte (ci_isPrimaryIssuer i)] @ ci_artistAddress i @ str_bytes (ci_metadataCID i) @
     [bool_byte (ci_lockExternalTransfer i)] @ (if isToInLeafHash then ci_to i else []) @
     ci_royaltyReceiver i @ be_bytes 2 (unat (ci_royaltyBasisPoints i)) @ contract_suffix (ci_contractAddress i)"

definition approve_leaf :: "256 word \<Rightarrow> bytes \<Rightarrow> string \<Rightarrow> 256 word \<Rightarrow> address \<Rightarrow> bytes" where
  "approve_leaf tokenId commitment historyMetadataHash customHistoryId contractAddress =
     abi_uint tokenId @ commitment @ str_bytes historyMetadataHash @ abi_uint customHistoryId @
     contract_suffix contractAddress"

definition transfer_leaf :: "address \<Rightarrow> 256 word \<Rightarrow> string \<Rightarrow> 256 word \<Rightarrow> bool \<Rightarrow> address \<Rightarrow> bytes" where
  "transfer_leaf to tokenId metadataCID customHistoryId isIntermediary contractAddress =
     to @ abi_uint tokenId @ str_bytes metadataCID @ abi_uint customHistoryId @ [bool_byte isIntermediary] @
     contract_suffix contractAddress"

definition verifyLeafHash :: "evm \<Rightarrow> bytes \<Rightarrow> create_inputs \<Rightarrow> bool \<Rightarrow> bool" where
  "verifyLeafHash e leafHash inputs isToInLeafHash \<longleftrightarrow> leafHash = evm_keccak256 e (create_leaf inputs isToInLeafHash)"

definition verifyApproveSRRByCommitmentHash ::
  "evm \<Rightarrow> bytes \<Rightarrow> 256 word \<Rightarrow> bytes \<Rightarrow> string \<Rightarrow> 256 word \<Rightarrow> address \<Rightarrow> bool" where
  "verifyApproveSRRByCommitmentHash e leafHash tokenId commitment hash custom contractAddress \<longleftrightarrow>
     leafHash = evm_keccak256 e (approve_leaf tokenId commitment hash custom contractAddress)"

definition verifyTransferFromWithProvenanceHash ::
  "evm \<Rightarrow> bytes \<Rightarrow> address \<Rightarrow> 256 word \<Rightarrow> string \<Rightarrow> 256 word \<Rightarrow> bool \<Rightarrow> address \<Rightarrow> bool" where
  "verifyTransferFromWithProvenanceHash e leafHash to tokenId cid custom isIntermediary contractAddress \<longleftrightarrow>
     leafHash = evm_keccak256 e (transfer_leaf to tokenId cid custom isIntermediary contractAddress)"

section \<open>Batches\<close>

definition batch_of :: "bulk_world \<Rightarrow> bytes \<Rightarrow> bulk_batch" where
  "batch_of w root = bu_batches (bw_bulk w) root"

definition set_batch :: "bytes \<Rightarrow> bulk_batch \<Rightarrow> bulk_world \<Rightarrow> bulk_world" where
  "set_batch root b w = w\<lparr>bw_bulk := (bw_bulk w)\<lparr>bu_batches := (bu_batches (bw_bulk w))(root := b)\<rparr>\<rparr>"

definition prepareBatchFromLicensedUser ::
  "message \<Rightarrow> bytes \<Rightarrow> bulk_world \<Rightarrow> (bulk_world \<times> trigger list) option" where
  "prepareBatchFromLicensedUser m root w =
     (if bb_prepared (batch_of w root) \<or> msg_sender m \<noteq> bu_trustedForwarder (bw_bulk w) then None
      else let signer = bulk_msgSender m (bw_bulk w)
           in Some (set_batch root ((batch_of w root)\<lparr>bb_processedCount := 0, bb_prepared := True, bb_signer := signer\<rparr>) w,
                    [Bulk (BK_BatchPrepared root signer)]))"

text \<open>The counter of processed leaves is a \<open>uint8\<close>, its increment is checked.\<close>

definition process_leaf :: "bytes \<Rightarrow> bytes \<Rightarrow> bulk_world \<Rightarrow> bulk_world option" where
  "process_leaf root leafHash w =
     (let b = batch_of w root
      in if bb_processedCount b = - 1 then None
         else Some (set_batch root (b\<lparr>bb_processedLeaves := (bb_processedLeaves b)(leafHash := True),
                                      bb_processedCount := bb_processedCount b + 1\<rparr>) w))"

text \<open>The call of the registry, which the NameRegistry names, or of the contract that a leaf names: a collection or
  another one. The NameRegistry names no other contract with these functions: then the call reverts.\<close>

definition created_token :: "evm \<Rightarrow> sr_call \<Rightarrow> 256 word" where
  "created_token e c = (case c of
     SR_createSRRFromBulk p artist cid issuer lock to receiver points \<Rightarrow> generate_id e cid artist | _ \<Rightarrow> 0)"

definition call_other ::
  "evm \<Rightarrow> bulk_env \<Rightarrow> address \<Rightarrow> sr_call \<Rightarrow> bulk_world \<Rightarrow> (bulk_world \<times> trigger list \<times> 256 word) option" where
  "call_other e env contractAddress c w =
     (case (bw_collections w contractAddress, bulk_col_call c) of
        (Some st, Some cc) \<Rightarrow>
          (case run_col_call e (be_collections env) \<lparr>msg_sender = be_this env, msg_data = be_encode env c\<rparr> cc st of
             None \<Rightarrow> None
           | Some (st', es) \<Rightarrow>
               Some (w\<lparr>bw_collections := (bw_collections w)(contractAddress \<mapsto> st')\<rparr>, map Collection (col_indexed es),
                     created_token e c))
      | (Some st, None) \<Rightarrow> None
      | (None, _) \<Rightarrow> be_other env contractAddress c w)"

definition call_target ::
  "evm \<Rightarrow> bulk_env \<Rightarrow> address \<Rightarrow> sr_call \<Rightarrow> bulk_world \<Rightarrow> (bulk_world \<times> trigger list \<times> 256 word) option" where
  "call_target e env contractAddress c w =
     (if contractAddress \<noteq> ZERO_ADDRESS then call_other e env contractAddress c w
      else if nr_get (se_names (be_registry env) (bu_nameRegistry (bw_bulk w))) STARTRAIL_REGISTRY \<noteq> se_this (be_registry env)
      then None
      else case run_sr_call e (be_registry env) \<lparr>msg_sender = be_this env, msg_data = be_encode env c\<rparr> c (bw_registry w) of
             None \<Rightarrow> None
           | Some (st, es) \<Rightarrow> Some (w\<lparr>bw_registry := st\<rparr>, map StartrailRegistry (indexed es), created_token e c))"

definition createSRRWithProof ::
  "evm \<Rightarrow> bulk_env \<Rightarrow> bytes list \<Rightarrow> bytes \<Rightarrow> bytes \<Rightarrow> create_inputs \<Rightarrow> bulk_world \<Rightarrow> (bulk_world \<times> trigger list) option" where
  "createSRRWithProof e env merkleProof root leafHash i w =
     (if \<not> be_verifyProof env merkleProof root leafHash then None
      else case process_leaf root leafHash w of
             None \<Rightarrow> None
           | Some w1 \<Rightarrow>
               (case call_target e env (ci_contractAddress i)
                   (SR_createSRRFromBulk (ci_isPrimaryIssuer i) (ci_artistAddress i) (ci_metadataCID i)
                      (bb_signer (batch_of w1 root)) (ci_lockExternalTransfer i) (ci_to i) (ci_royaltyReceiver i)
                      (ci_royaltyBasisPoints i)) w1 of
                  None \<Rightarrow> None
                | Some (w2, es, tokenId) \<Rightarrow>
                    Some (w2, es @ [Bulk (BK_CreateSRRWithProof root (ci_contractAddress i) (uint tokenId) leafHash)])))"

text \<open>The loop of both versions of \<open>createSRRWithProofMulti\<close>: proofs, leaves and details, one per leaf.\<close>

fun create_loop ::
  "evm \<Rightarrow> bulk_env \<Rightarrow> bytes \<Rightarrow> bool \<Rightarrow> (bytes list \<times> bytes \<times> create_inputs) list \<Rightarrow> bulk_world
     \<Rightarrow> (bulk_world \<times> trigger list) option" where
  "create_loop e env root isTo [] w = Some (w, [])"
| "create_loop e env root isTo ((merkleProof, leafHash, i) # rest) w =
     (if bb_processedLeaves (batch_of w root) leafHash \<or> \<not> verifyLeafHash e leafHash i isTo then None
      else case createSRRWithProof e env merkleProof root leafHash i w of
             None \<Rightarrow> None
           | Some (w1, es1) \<Rightarrow>
               (case create_loop e env root isTo rest w1 of
                  None \<Rightarrow> None | Some (w2, es2) \<Rightarrow> Some (w2, es1 @ es2)))"

text \<open>The arrays are read at the indices of \<open>leafHashes\<close>; a shorter one makes the loop revert. The version
  without recipients has the zero address for every one.\<close>

record create_arrays =
  ca_merkleProofs :: "bytes list list"
  ca_leafHashes :: "bytes list"
  ca_isPrimaryIssuers :: "bool list"
  ca_artistAddresses :: "address list"
  ca_metadataCIDs :: "string list"
  ca_lockExternalTransfers :: "bool list"
  ca_royaltyReceivers :: "address list"
  ca_royaltyBasisPoints :: "16 word list"
  ca_contractAddresses :: "address list"

definition arrays_long :: "create_arrays \<Rightarrow> address list option \<Rightarrow> bool" where
  "arrays_long a tos \<longleftrightarrow>
     (let n = length (ca_leafHashes a)
      in n \<le> length (ca_merkleProofs a) \<and> n \<le> length (ca_isPrimaryIssuers a) \<and> n \<le> length (ca_artistAddresses a) \<and>
         n \<le> length (ca_metadataCIDs a) \<and> n \<le> length (ca_lockExternalTransfers a) \<and>
         n \<le> length (ca_royaltyReceivers a) \<and> n \<le> length (ca_royaltyBasisPoints a) \<and>
         n \<le> length (ca_contractAddresses a) \<and> (case tos of None \<Rightarrow> True | Some ts \<Rightarrow> n \<le> length ts))"

definition create_item :: "create_arrays \<Rightarrow> address list option \<Rightarrow> nat \<Rightarrow> bytes list \<times> bytes \<times> create_inputs" where
  "create_item a tos i =
     (ca_merkleProofs a ! i, ca_leafHashes a ! i,
      \<lparr>ci_isPrimaryIssuer = ca_isPrimaryIssuers a ! i, ci_artistAddress = ca_artistAddresses a ! i,
       ci_metadataCID = ca_metadataCIDs a ! i, ci_lockExternalTransfer = ca_lockExternalTransfers a ! i,
       ci_to = (case tos of None \<Rightarrow> ZERO_ADDRESS | Some ts \<Rightarrow> ts ! i),
       ci_royaltyReceiver = ca_royaltyReceivers a ! i, ci_royaltyBasisPoints = ca_royaltyBasisPoints a ! i,
       ci_contractAddress = ca_contractAddresses a ! i\<rparr>)"

definition createSRRWithProofMulti ::
  "evm \<Rightarrow> bulk_env \<Rightarrow> bytes \<Rightarrow> create_arrays \<Rightarrow> address list option \<Rightarrow> bulk_world
     \<Rightarrow> (bulk_world \<times> trigger list) option" where
  "createSRRWithProofMulti e env root a tos w =
     (if \<not> bb_prepared (batch_of w root) \<or> \<not> arrays_long a tos then None
      else create_loop e env root (tos \<noteq> None) (map (create_item a tos) [0 ..< length (ca_leafHashes a)]) w)"

definition approveSRRByCommitmentWithProof ::
  "evm \<Rightarrow> bulk_env \<Rightarrow> bytes list \<Rightarrow> bytes \<Rightarrow> bytes \<Rightarrow> 256 word \<Rightarrow> bytes \<Rightarrow> string \<Rightarrow> 256 word \<Rightarrow> address
     \<Rightarrow> bulk_world \<Rightarrow> (bulk_world \<times> trigger list) option" where
  "approveSRRByCommitmentWithProof e env merkleProof root leafHash tokenId commitment hash custom contractAddress w =
     (if \<not> bb_prepared (batch_of w root) \<or> bb_processedLeaves (batch_of w root) leafHash \<or>
         \<not> verifyApproveSRRByCommitmentHash e leafHash tokenId commitment hash custom contractAddress \<or>
         \<not> be_verifyProof env merkleProof root leafHash then None
      else case process_leaf root leafHash w of
             None \<Rightarrow> None
           | Some w1 \<Rightarrow>
               (case call_target e env contractAddress
                   (SR_approveSRRByCommitmentFromBulk (bb_signer (batch_of w1 root)) tokenId commitment hash custom) w1 of
                  None \<Rightarrow> None
                | Some (w2, es, _) \<Rightarrow>
                    Some (w2, es @ [Bulk (BK_ApproveSRRByCommitmentWithProof root contractAddress (uint tokenId) leafHash)])))"

definition transferFromWithProvenanceWithProof ::
  "evm \<Rightarrow> bulk_env \<Rightarrow> bytes list \<Rightarrow> bytes \<Rightarrow> bytes \<Rightarrow> address \<Rightarrow> 256 word \<Rightarrow> string \<Rightarrow> 256 word \<Rightarrow> bool \<Rightarrow> address
     \<Rightarrow> bulk_world \<Rightarrow> (bulk_world \<times> trigger list) option" where
  "transferFromWithProvenanceWithProof e env merkleProof root leafHash to tokenId hash custom isIntermediary
      contractAddress w =
     (if \<not> bb_prepared (batch_of w root) \<or> bb_processedLeaves (batch_of w root) leafHash \<or>
         \<not> verifyTransferFromWithProvenanceHash e leafHash to tokenId hash custom isIntermediary contractAddress \<or>
         \<not> be_verifyProof env merkleProof root leafHash then None
      else case process_leaf root leafHash w of
             None \<Rightarrow> None
           | Some w1 \<Rightarrow>
               (case call_target e env contractAddress
                   (SR_transferFromWithProvenanceFromBulk (bb_signer (batch_of w1 root)) to tokenId hash custom
                      isIntermediary) w1 of
                  None \<Rightarrow> None
                | Some (w2, es, _) \<Rightarrow>
                    Some (w2, es @ [Bulk (BK_TransferFromWithProvenanceWithProof root contractAddress (uint tokenId) leafHash)])))"

end
