(* ===== verification/BulkSafety.thy ===== *)
theory BulkSafety
  imports BulkContract
begin

text \<open>
  What the bulk contract guarantees along its runs, in which a collection that is called may call it and the
  registry again: a leaf of a batch is processed at most once, a batch keeps its signer, and the
  counter of 8 bits stops a batch after 255 leaves. And what its leaves do not say: the leaf of an
  approval for a collection is the leaf of an approval for the registry.
\<close>

section \<open>Runs\<close>

fun leaf_event :: "bulk_event \<Rightarrow> (bytes \<times> bytes) option" where
  "leaf_event (BK_CreateSRRWithProof root c tok leaf) = Some (root, leaf)"
| "leaf_event (BK_ApproveSRRByCommitmentWithProof root c tok leaf) = Some (root, leaf)"
| "leaf_event (BK_TransferFromWithProvenanceWithProof root c tok leaf) = Some (root, leaf)"
| "leaf_event _ = None"

text \<open>The leaves that were processed, with their batches, in the order in which they were marked, and the
  events in the order in which they were emitted.\<close>

inductive bulk_run :: "evm \<Rightarrow> bulk_world \<Rightarrow> (bytes \<times> bytes) list \<Rightarrow> trigger list \<Rightarrow> bulk_world \<Rightarrow> bool" for e where
  bulk_done: "bulk_run e w [] [] w"
| bulk_prepare:
    "prepareBatchFromLicensedUser m root w = Some (w1, es1) \<Longrightarrow> bulk_run e w1 log es2 w2 \<Longrightarrow>
     bulk_run e w log (es1 @ es2) w2"
| bulk_leaf:
    "bb_prepared (batch_of w root) \<Longrightarrow> \<not> bb_processedLeaves (batch_of w root) leaf \<Longrightarrow>
     process_leaf root leaf w = Some w1 \<Longrightarrow> bulk_run e w1 inner es1 w2 \<Longrightarrow>
     leaf_event ev = Some (root, leaf) \<Longrightarrow> bulk_run e w2 rest es2 w3 \<Longrightarrow>
     bulk_run e w ((root, leaf) # inner @ rest) (es1 @ Bulk ev # es2) w3"
| bulk_registry:
    "run_sr_call e env m c (bw_registry w) = Some (st, es) \<Longrightarrow>
     bulk_run e (w\<lparr>bw_registry := st\<rparr>) log es2 w2 \<Longrightarrow>
     bulk_run e w log (map StartrailRegistry (indexed es) @ es2) w2"
| bulk_collection:
    "bw_collections w a = Some st \<Longrightarrow> run_col_call e cenv m c st = Some (st', es) \<Longrightarrow>
     bulk_run e (w\<lparr>bw_collections := (bw_collections w)(a \<mapsto> st')\<rparr>) log es2 w2 \<Longrightarrow>
     bulk_run e w log (map Collection (col_indexed es) @ es2) w2"
| bulk_deployed:
    "bw_collections w a = None \<Longrightarrow> bulk_run e (w\<lparr>bw_collections := (bw_collections w)(a \<mapsto> st)\<rparr>) log es w2 \<Longrightarrow>
     bulk_run e w log es w2"
| bulk_forwarder:
    "bulk_setTrustedForwarder benv m forwarder (bw_bulk w) = Some b \<Longrightarrow>
     bulk_run e (w\<lparr>bw_bulk := b\<rparr>) log es w2 \<Longrightarrow> bulk_run e w log es w2"

lemma bulk_run_append:
  "bulk_run e w log1 es1 w1 \<Longrightarrow> bulk_run e w1 log2 es2 w2 \<Longrightarrow> bulk_run e w (log1 @ log2) (es1 @ es2) w2"
proof (induction rule: bulk_run.induct)
  case (bulk_leaf w root leaf w1 inner es1 w2 ev rest es2' w3)
  then have "bulk_run e w ((root, leaf) # inner @ (rest @ log2)) (es1 @ Bulk ev # (es2' @ es2)) w2'"
    if "bulk_run e w2 (rest @ log2) (es2' @ es2) w2'" for w2'
    using that bulk_run.bulk_leaf by blast
  with bulk_leaf show ?case by simp
qed (auto intro: bulk_run.intros simp: append_assoc)

section \<open>What a run does to the batches\<close>

lemma batch_of_simps [simp]:
  "batch_of (set_batch root b w) r = (if r = root then b else batch_of w r)"
  "batch_of (w\<lparr>bw_registry := st\<rparr>) r = batch_of w r" "batch_of (w\<lparr>bw_collections := cs\<rparr>) r = batch_of w r"
  by (simp_all add: batch_of_def set_batch_def)

lemma prepared_batch:
  assumes "prepareBatchFromLicensedUser m root w = Some (w1, es)"
  shows "\<not> bb_prepared (batch_of w root)"
    "batch_of w1 r = (if r = root then (batch_of w root)\<lparr>bb_processedCount := 0, bb_prepared := True,
       bb_signer := bulk_msgSender m (bw_bulk w)\<rparr> else batch_of w r)"
  using assms by (auto simp: prepareBatchFromLicensedUser_def Let_def split: if_splits)

lemma processed_batch:
  assumes "process_leaf root leaf w = Some w1"
  shows "bb_processedCount (batch_of w root) \<noteq> - 1"
    "batch_of w1 r = (if r = root then (batch_of w root)\<lparr>bb_processedLeaves :=
       (bb_processedLeaves (batch_of w root))(leaf := True), bb_processedCount := bb_processedCount (batch_of w root) + 1\<rparr>
       else batch_of w r)"
  using assms by (auto simp: process_leaf_def Let_def split: if_splits)

lemma forwarder_batches:
  "bulk_setTrustedForwarder benv m f (bw_bulk w) = Some b \<Longrightarrow> batch_of (w\<lparr>bw_bulk := b\<rparr>) r = batch_of w r"
  by (auto simp: bulk_setTrustedForwarder_def batch_of_def split: if_splits)

text \<open>A batch stays prepared and keeps its signer.\<close>

lemma run_prepared:
  "bulk_run e w log es w' \<Longrightarrow> bb_prepared (batch_of w root) \<Longrightarrow>
   bb_prepared (batch_of w' root) \<and> bb_signer (batch_of w' root) = bb_signer (batch_of w root)"
proof (induction rule: bulk_run.induct)
  case (bulk_prepare m r w w1 es1 log es2 w2)
  then show ?case using prepared_batch [OF bulk_prepare.hyps(1)] by (auto split: if_splits)
next
  case (bulk_leaf w r leaf w1 inner es1 w2 ev rest es2 w3)
  then show ?case using processed_batch(2) [OF bulk_leaf.hyps(3), of root] by (auto split: if_splits)
qed (auto simp: forwarder_batches)

text \<open>A leaf is processed at most once; the leaves of the log are those that become processed.\<close>

definition processed :: "bulk_world \<Rightarrow> (bytes \<times> bytes) set" where
  "processed w = {(root, leaf). bb_processedLeaves (batch_of w root) leaf}"

lemma run_leaves:
  "bulk_run e w log es w' \<Longrightarrow>
   distinct log \<and> set log \<inter> processed w = {} \<and> processed w' = processed w \<union> set log"
proof (induction rule: bulk_run.induct)
  case (bulk_prepare m r w w1 es1 log es2 w2)
  have "bb_processedLeaves (batch_of w1 root) = bb_processedLeaves (batch_of w root)" for root
    using prepared_batch(2) [OF bulk_prepare.hyps(1), of root] by simp
  then have "processed w1 = processed w" by (simp add: processed_def)
  then show ?case using bulk_prepare.IH by simp
next
  case (bulk_leaf w r leaf w1 inner es1 w2 ev rest es2 w3)
  have "bb_processedLeaves (batch_of w1 root) l \<longleftrightarrow> (root, l) = (r, leaf) \<or> bb_processedLeaves (batch_of w root) l" for root l
    using processed_batch(2) [OF bulk_leaf.hyps(3), of root] by auto
  then have "processed w1 = insert (r, leaf) (processed w)" by (auto simp: processed_def)
  moreover have "(r, leaf) \<notin> processed w" using bulk_leaf.hyps(2) by (simp add: processed_def)
  ultimately show ?case using bulk_leaf.IH by auto
next
  case (bulk_registry env m c w st es log es2 w2)
  then show ?case by (simp add: processed_def)
next
  case (bulk_forwarder benv m forwarder w b log es w2)
  then show ?case by (simp add: processed_def forwarder_batches)
qed (simp_all add: processed_def)

text \<open>The counter of a batch is the number of its processed leaves.\<close>

definition leaves_of :: "bytes \<Rightarrow> bulk_world \<Rightarrow> bytes set" where
  "leaves_of root w = {leaf. bb_processedLeaves (batch_of w root) leaf}"

definition batches_ok :: "bulk_world \<Rightarrow> bool" where
  "batches_ok w \<longleftrightarrow> (\<forall>root. finite (leaves_of root w) \<and>
     (if bb_prepared (batch_of w root) then unat (bb_processedCount (batch_of w root)) = card (leaves_of root w)
      else leaves_of root w = {}))"

lemma unat_inc_byte: "(b :: byte) \<noteq> - 1 \<Longrightarrow> unat (b + 1) = unat b + 1"
proof -
  assume "b \<noteq> - 1"
  then have "unat b \<noteq> 255" by (simp add: word_unat_eq_iff unsigned_minus_1_eq_mask mask_eq_exp_minus_1)
  then have "unat b + 1 < 256" using unat_byte_lt [of b] by linarith
  then show ?thesis by (simp add: unat_word_ariths(1))
qed

lemma batches_processed:
  assumes "batches_ok w" and "bb_prepared (batch_of w root)" and "\<not> bb_processedLeaves (batch_of w root) leaf"
    and "process_leaf root leaf w = Some w1"
  shows "batches_ok w1"
proof -
  note b = processed_batch [OF assms(4)]
  have "leaves_of root w1 = insert leaf (leaves_of root w)" "leaf \<notin> leaves_of root w"
    "\<And>r. r \<noteq> root \<Longrightarrow> leaves_of r w1 = leaves_of r w"
    using b(2) assms(3) by (auto simp: leaves_of_def)
  then show ?thesis
    using assms(1,2) b unat_inc_byte [OF b(1)] unfolding batches_ok_def by auto
qed

lemma same_batches: "batches_ok w \<Longrightarrow> (\<And>r. batch_of w' r = batch_of w r) \<Longrightarrow> batches_ok w'"
  unfolding batches_ok_def leaves_of_def by simp

lemma run_batches: "bulk_run e w log es w' \<Longrightarrow> batches_ok w \<Longrightarrow> batches_ok w'"
proof (induction rule: bulk_run.induct)
  case (bulk_prepare m r w w1 es1 log es2 w2)
  note b = prepared_batch [OF bulk_prepare.hyps(1)]
  have "leaves_of root w1 = leaves_of root w" for root using b(2) by (auto simp: leaves_of_def)
  then have "batches_ok w1" using bulk_prepare.prems b unfolding batches_ok_def by auto
  then show ?case by (rule bulk_prepare.IH)
next
  case (bulk_leaf w r leaf w1 inner es1 w2 ev rest es2 w3)
  then show ?case using batches_processed by blast
next
  case (bulk_registry env m c w st es log es2 w2)
  have "batches_ok (w\<lparr>bw_registry := st\<rparr>)" using bulk_registry.prems by (rule same_batches) simp
  then show ?case by (rule bulk_registry.IH)
next
  case (bulk_forwarder benv m forwarder w b log es w2)
  have "batches_ok (w\<lparr>bw_bulk := b\<rparr>)"
    using bulk_forwarder.prems by (rule same_batches) (rule forwarder_batches [OF bulk_forwarder.hyps(1)])
  then show ?case by (rule bulk_forwarder.IH)
next
  case (bulk_collection w a st cenv m c st' es log es2 w2)
  have "batches_ok (w\<lparr>bw_collections := (bw_collections w)(a \<mapsto> st')\<rparr>)"
    using bulk_collection.prems by (rule same_batches) simp
  then show ?case by (rule bulk_collection.IH)
next
  case (bulk_deployed w a st log es w2)
  have "batches_ok (w\<lparr>bw_collections := (bw_collections w)(a \<mapsto> st)\<rparr>)"
    using bulk_deployed.prems by (rule same_batches) simp
  then show ?case by (rule bulk_deployed.IH)
qed simp

lemma few_leaves:
  assumes "batches_ok w"
  shows "card (leaves_of root w) \<le> 255"
    "bb_prepared (batch_of w root) \<Longrightarrow> card (leaves_of root w) = 255 \<Longrightarrow> process_leaf root leaf w = None"
proof -
  have "unat (bb_processedCount (batch_of w root)) \<le> 255"
    using unat_byte_lt [of "bb_processedCount (batch_of w root)"] by linarith
  then show "card (leaves_of root w) \<le> 255"
    using assms by (auto simp: batches_ok_def split: if_splits dest!: spec [of _ root])
  assume "bb_prepared (batch_of w root)" "card (leaves_of root w) = 255"
  then have "unat (bb_processedCount (batch_of w root)) = 255" using assms by (auto simp: batches_ok_def dest!: spec [of _ root])
  then have "bb_processedCount (batch_of w root) = - 1"
    by (simp add: word_unat_eq_iff unsigned_minus_1_eq_mask mask_eq_exp_minus_1)
  then show "process_leaf root leaf w = None" by (simp add: process_leaf_def Let_def)
qed

section \<open>The functions of the contract are such runs\<close>

text \<open>What another contract does to the bulk contract, the registry and the collections, it does by calling them.\<close>

definition others_call :: "evm \<Rightarrow> bulk_env \<Rightarrow> bool" where
  "others_call e env \<longleftrightarrow> (\<forall>a c w w' es tok. be_other env a c w = Some (w', es, tok) \<longrightarrow>
     (\<exists>log. bulk_run e w log es w'))"

lemma target_runs:
  assumes "others_call e env" and "call_target e env a c w = Some (w', es, tok)"
  shows "\<exists>log. bulk_run e w log es w'"
proof (cases "a = ZERO_ADDRESS")
  case True
  then obtain st es1 where "run_sr_call e (be_registry env) \<lparr>msg_sender = be_this env, msg_data = be_encode env c\<rparr> c
        (bw_registry w) = Some (st, es1)" "w' = w\<lparr>bw_registry := st\<rparr>" "es = map StartrailRegistry (indexed es1)"
    using assms(2) by (auto simp: call_target_def split: if_splits option.splits)
  then have "bulk_run e w [] (es @ []) w'" using bulk_registry bulk_done by blast
  then show ?thesis by auto
next
  case False
  then have call: "call_other e env a c w = Some (w', es, tok)" using assms(2) by (simp add: call_target_def)
  show ?thesis
  proof (cases "bw_collections w a")
    case None
    then have "be_other env a c w = Some (w', es, tok)" using call by (simp add: call_other_def)
    then show ?thesis using assms(1) unfolding others_call_def by blast
  next
    case (Some st)
    then obtain cc st' es1 where "run_col_call e (be_collections env) \<lparr>msg_sender = be_this env, msg_data = be_encode env c\<rparr> cc st
          = Some (st', es1)" "w' = w\<lparr>bw_collections := (bw_collections w)(a \<mapsto> st')\<rparr>" "es = map Collection (col_indexed es1)"
      using call by (auto simp: call_other_def split: option.splits)
    then have "bulk_run e w [] (es @ []) w'" using bulk_run.bulk_collection [OF Some] bulk_done by blast
    then show ?thesis by auto
  qed
qed

lemma leaf_runs:
  assumes "others_call e env" and "bb_prepared (batch_of w root)" and "\<not> bb_processedLeaves (batch_of w root) leaf"
    and "process_leaf root leaf w = Some w1" and "call_target e env a c w1 = Some (w2, es, tok)"
    and "leaf_event ev = Some (root, leaf)"
  shows "\<exists>inner. bulk_run e w ((root, leaf) # inner) (es @ [Bulk ev]) w2"
proof -
  obtain inner where "bulk_run e w1 inner es w2" using target_runs [OF assms(1,5)] by blast
  from bulk_leaf [OF assms(2,3,4) this assms(6) bulk_done] show ?thesis by auto
qed

lemma created_runs:
  assumes "others_call e env" and "bb_prepared (batch_of w root)" and "\<not> bb_processedLeaves (batch_of w root) leaf"
    and "createSRRWithProof e env p root leaf i w = Some (w', es)"
  shows "\<exists>inner. bulk_run e w ((root, leaf) # inner) es w'"
  using assms(4) leaf_runs [OF assms(1-3)] by (fastforce simp: createSRRWithProof_def split: if_splits option.splits)

lemma loop_runs:
  assumes "others_call e env"
  shows "create_loop e env root isTo items w = Some (w', es) \<Longrightarrow> bb_prepared (batch_of w root) \<Longrightarrow>
    \<exists>log. bulk_run e w log es w' \<and> (\<forall>(p, leaf, i) \<in> set items. (root, leaf) \<in> set log)"
proof (induction items arbitrary: w es)
  case Nil
  then show ?case using bulk_done by auto
next
  case (Cons item items)
  obtain p leaf i where x: "item = (p, leaf, i)" by (cases item)
  obtain w1 es1 es2 where one: "\<not> bb_processedLeaves (batch_of w root) leaf"
      "createSRRWithProof e env p root leaf i w = Some (w1, es1)" "create_loop e env root isTo items w1 = Some (w', es2)"
      "es = es1 @ es2"
    using Cons.prems(1) x by (auto split: if_splits option.splits)
  obtain inner where run: "bulk_run e w ((root, leaf) # inner) es1 w1"
    using created_runs [OF assms Cons.prems(2) one(1,2)] by blast
  obtain log where "bulk_run e w1 log es2 w'" "\<forall>(p, leaf, i) \<in> set items. (root, leaf) \<in> set log"
    using Cons.IH [OF one(3)] run_prepared [OF run Cons.prems(2)] by blast
  then show ?case using bulk_run_append [OF run] one(4) x by fastforce
qed

lemma bulk_calls_run:
  assumes "others_call e env"
  shows "createSRRWithProofMulti e env root a tos w = Some (w', es) \<Longrightarrow> \<exists>log. bulk_run e w log es w' \<and>
      Pair root ` set (ca_leafHashes a) \<subseteq> set log"
    "approveSRRByCommitmentWithProof e env p root leaf t c h ch contract w = Some (w', es) \<Longrightarrow>
      \<exists>inner. bulk_run e w ((root, leaf) # inner) es w'"
    "transferFromWithProvenanceWithProof e env p root leaf b t h ch im contract w = Some (w', es) \<Longrightarrow>
      \<exists>inner. bulk_run e w ((root, leaf) # inner) es w'"
proof -
  assume "createSRRWithProofMulti e env root a tos w = Some (w', es)"
  then have l: "create_loop e env root (tos \<noteq> None) (map (create_item a tos) [0 ..< length (ca_leafHashes a)]) w = Some (w', es)"
      "bb_prepared (batch_of w root)"
    by (auto simp: createSRRWithProofMulti_def split: if_splits)
  obtain log where "bulk_run e w log es w'"
      "\<forall>(p, leaf, i) \<in> set (map (create_item a tos) [0 ..< length (ca_leafHashes a)]). (root, leaf) \<in> set log"
    using loop_runs [OF assms l] by blast
  moreover from this(2) have "Pair root ` set (ca_leafHashes a) \<subseteq> set log"
    by (auto simp: create_item_def in_set_conv_nth)
  ultimately show "\<exists>log. bulk_run e w log es w' \<and> Pair root ` set (ca_leafHashes a) \<subseteq> set log" by blast
next
  assume "approveSRRByCommitmentWithProof e env p root leaf t c h ch contract w = Some (w', es)"
  then show "\<exists>inner. bulk_run e w ((root, leaf) # inner) es w'"
    by (auto simp: approveSRRByCommitmentWithProof_def split: if_splits option.splits intro!: leaf_runs [OF assms])
next
  assume "transferFromWithProvenanceWithProof e env p root leaf b t h ch im contract w = Some (w', es)"
  then show "\<exists>inner. bulk_run e w ((root, leaf) # inner) es w'"
    by (auto simp: transferFromWithProvenanceWithProof_def split: if_splits option.splits intro!: leaf_runs [OF assms])
qed

section \<open>What is refused\<close>

text \<open>A leaf that is processed already, in every function of the contract.\<close>

lemma leaf_refused:
  assumes "bb_processedLeaves (batch_of w root) leaf"
  shows "approveSRRByCommitmentWithProof e env p root leaf t c h ch contract w = None"
    "transferFromWithProvenanceWithProof e env p root leaf b t h ch im contract w = None"
    "others_call e env \<Longrightarrow> leaf \<in> set (ca_leafHashes a) \<Longrightarrow> createSRRWithProofMulti e env root a tos w = None"
proof -
  assume env: "others_call e env" and leaf: "leaf \<in> set (ca_leafHashes a)"
  show "createSRRWithProofMulti e env root a tos w = None"
  proof (rule ccontr)
    assume "createSRRWithProofMulti e env root a tos w \<noteq> None"
    then obtain w' es where "createSRRWithProofMulti e env root a tos w = Some (w', es)" by auto
    from bulk_calls_run(1) [OF env this] obtain log where run: "bulk_run e w log es w'" and log: "(root, leaf) \<in> set log"
      using leaf by blast
    have "(root, leaf) \<in> processed w" using assms by (simp add: processed_def)
    then show False using run_leaves [OF run] log by blast
  qed
qed (use assms in \<open>simp_all add: approveSRRByCommitmentWithProof_def transferFromWithProvenanceWithProof_def\<close>)

text \<open>Every leaf of a batch whose counter is full.\<close>

lemma full_refused:
  assumes "\<And>leaf. process_leaf root leaf w = None"
  shows "approveSRRByCommitmentWithProof e env p root leaf t c h ch contract w = None"
    "transferFromWithProvenanceWithProof e env p root leaf b t h ch im contract w = None"
    "ca_leafHashes a \<noteq> [] \<Longrightarrow> createSRRWithProofMulti e env root a tos w = None"
proof -
  have "create_loop e env root isTo items w = None" if "items \<noteq> []" for isTo items
    using that by (cases items) (auto simp: createSRRWithProof_def assms)
  then show "ca_leafHashes a \<noteq> [] \<Longrightarrow> createSRRWithProofMulti e env root a tos w = None"
    by (simp add: createSRRWithProofMulti_def)
qed (simp_all add: approveSRRByCommitmentWithProof_def transferFromWithProvenanceWithProof_def assms)

section \<open>What a leaf does not say\<close>

lemma be_bytes_be_nat: "be_bytes (length bs) (be_nat bs) = bs"
  by (rule be_nat_inj) (simp_all add: be_nat_be_bytes be_nat_bound)

definition word_of_bytes :: "bytes \<Rightarrow> 256 word" where
  "word_of_bytes bs = of_nat (be_nat bs)"

lemma abi_uint_of_bytes: "length bs = 32 \<Longrightarrow> abi_uint (word_of_bytes bs) = bs"
proof -
  assume l: "length bs = 32"
  then have "be_nat bs < 2 ^ 256" using be_nat_bound [of bs] by simp
  then have "unat (word_of_bytes bs) = be_nat bs" by (simp add: word_of_bytes_def unat_of_nat)
  then show ?thesis using be_bytes_be_nat [of bs] l by (simp add: abi_uint_def)
qed

definition bytes_str :: "bytes \<Rightarrow> string" where
  "bytes_str bs = map (\<lambda>b. char_of (unat b)) bs"

lemma str_bytes_append [simp]: "str_bytes (a @ b) = str_bytes a @ str_bytes b"
  by (simp add: str_bytes_def)

lemma str_bytes_bytes_str [simp]: "str_bytes (bytes_str bs) = bs"
proof -
  have "of_char (char_of (unat b) :: char) = b" for b :: byte
  proof -
    have "(of_char (char_of (unat b) :: char) :: nat) = unat b"
      using unat_byte_lt [of b] by (simp del: unat_byte_lt)
    then have "(of_nat (of_char (char_of (unat b) :: char)) :: byte) = b" by simp
    then show ?thesis by (simp only: of_nat_of_char)
  qed
  then show ?thesis by (simp add: str_bytes_def bytes_str_def o_def)
qed

text \<open>The custom history and the address of the collection at the end of the leaf of an approval are read as
  the end of the string and another custom history.\<close>

definition reread_hash :: "string \<Rightarrow> 256 word \<Rightarrow> address \<Rightarrow> string" where
  "reread_hash hash custom contract = hash @ bytes_str (take 20 (abi_uint custom @ contract))"

definition reread_history :: "256 word \<Rightarrow> address \<Rightarrow> 256 word" where
  "reread_history custom contract = word_of_bytes (drop 20 (abi_uint custom @ contract))"

lemma approve_leaf_reread:
  assumes "length contract = 20"
  shows "approve_leaf tok c (reread_hash h ch contract) (reread_history ch contract) ZERO_ADDRESS =
    abi_uint tok @ c @ str_bytes h @ abi_uint ch @ contract"
proof -
  have "length (drop 20 (abi_uint ch @ contract)) = 32" using assms by simp
  then have "abi_uint (reread_history ch contract) = drop 20 (abi_uint ch @ contract)"
    unfolding reread_history_def by (rule abi_uint_of_bytes)
  then show ?thesis
    by (simp only: approve_leaf_def reread_hash_def contract_suffix_def str_bytes_append str_bytes_bytes_str
        append_assoc append_take_drop_id append_Nil2 simp_thms if_False)
qed

text \<open>So an approval for a collection is accepted as one for the registry, when the signer owns the token of
  this number there: it then has a commitment that its owner never made.\<close>

lemma approval_for_registry:
  assumes "bb_prepared (batch_of w root)" and "\<not> bb_processedLeaves (batch_of w root) leaf"
    and "verifyApproveSRRByCommitmentHash e leaf tok c h ch contract" and "length contract = 20" and "contract \<noteq> ZERO_ADDRESS"
    and "be_verifyProof env p root leaf" and "process_leaf root leaf w = Some w1"
    and names: "nr_get (se_names (be_registry env) (bu_nameRegistry (bw_bulk w))) STARTRAIL_REGISTRY = se_this (be_registry env)"
      "nr_get (se_names (be_registry env) (sr_nameRegistry (bw_registry w))) BULK = be_this env"
    and owner: "ownerOf tok (bw_registry w) = Some (bb_signer (batch_of w root))"
  shows "\<exists>w' es. approveSRRByCommitmentWithProof e env p root leaf tok c (reread_hash h ch contract)
      (reread_history ch contract) ZERO_ADDRESS w = Some (w', es) \<and>
    sr_commitment (bw_registry w') tok = c \<and> sr_tokenOwner (bw_registry w') = sr_tokenOwner (bw_registry w)"
proof -
  let ?h = "reread_hash h ch contract" and ?ch = "reread_history ch contract"
  let ?signer = "bb_signer (batch_of w root)"
  let ?call = "SR_approveSRRByCommitmentFromBulk ?signer tok c ?h ?ch"
  have leaf: "verifyApproveSRRByCommitmentHash e leaf tok c ?h ?ch ZERO_ADDRESS"
    using assms(3,5) approve_leaf_reread [OF assms(4), of tok c h ch]
    by (simp add: verifyApproveSRRByCommitmentHash_def approve_leaf_def contract_suffix_def)
  have w1: "bw_registry w1 = bw_registry w" "bu_nameRegistry (bw_bulk w1) = bu_nameRegistry (bw_bulk w)"
      "bb_signer (batch_of w1 root) = ?signer"
    using assms(7) processed_batch(2) [OF assms(7), of root] by (auto simp: process_leaf_def set_batch_def Let_def split: if_splits)
  have "\<exists>st es. run_sr_call e (be_registry env) \<lparr>msg_sender = be_this env, msg_data = be_encode env ?call\<rparr> ?call
      (bw_registry w) = Some (st, es) \<and> sr_commitment st tok = c \<and> sr_tokenOwner st = sr_tokenOwner (bw_registry w)"
    using names owner
    by (auto simp: onlyBulk_def onlySRROwner_def ownerOf_def approveSRRByCommitment_internal_def when_sr_def
        token_exists_def statements.simps require_def assign_def emit_def Let_def split: if_splits)
  then obtain st es where st: "run_sr_call e (be_registry env) \<lparr>msg_sender = be_this env, msg_data = be_encode env ?call\<rparr> ?call
      (bw_registry w) = Some (st, es)" "sr_commitment st tok = c" "sr_tokenOwner st = sr_tokenOwner (bw_registry w)" by blast
  have "call_target e env ZERO_ADDRESS ?call w1 = Some (w1\<lparr>bw_registry := st\<rparr>, map StartrailRegistry (indexed es), 0)"
    unfolding call_target_def w1 by (simp add: st(1) created_token_def names del: run_sr_call.simps)
  then show ?thesis
    using assms(1,2,6,7) leaf w1 st by (simp add: approveSRRByCommitmentWithProof_def)
qed

section \<open>The leaves in the subgraph\<close>

text \<open>A leaf is an entity under its hash alone: processed in a second batch, it leaves the first one.\<close>

lemma leaf_of_last_batch:
  assumes "updateBulkInternal r1 c1 t1 leaf ev1 s = Inr s1" and "updateBulkInternal r2 c2 t2 leaf ev2 s1 = Inr s2"
    and "is_set (bulks s (toHex r1))" and "is_set (bulks s1 (toHex r2))"
  shows "\<exists>x. bulkSRRs s1 (toHex leaf) = Some x \<and> bks_bulk x = Some (toHex r1)"
    "\<exists>x. bulkSRRs s2 (toHex leaf) = Some x \<and> bks_bulk x = Some (toHex r2) \<and> bks_tokenId x = Some (int_dec t2)"
  using assms
  by (auto simp: updateBulkInternal_def Let_def is_set_def upsert_bks_def new_bks_def split: option.splits if_splits)

end
