(* ===== verification/RegistrySamples.thy ===== *)
theory RegistrySamples
  imports ContractSamples RegistryClient BulkSafety
begin

text \<open>
  The registry and the bulk contract of the witnesses: a token is created, committed to a transfer, moved by its
  owner and moved again by the old commitment; a batch is prepared and its only leaf processed.
\<close>

section \<open>The registry\<close>

definition sample_sr_address :: address where
  "sample_sr_address = replicate 20 7"

definition sample_bulk :: address where
  "sample_bulk = replicate 20 5"

definition sample_names :: "8 word \<Rightarrow> address" where
  "sample_names = (\<lambda>_. ZERO_ADDRESS)(ADMINISTRATOR := sample_admin, STARTRAIL_REGISTRY := sample_sr_address, BULK := sample_bulk)"

definition sample_sr_env :: sr_env where
  "sample_sr_env = \<lparr>se_names = (\<lambda>_. sample_names), se_isActiveWallet = (\<lambda>_ _. True), se_this = sample_sr_address,
     se_hasCode = (\<lambda>_. False), se_onERC721Received = (\<lambda>_ _ _ _ _. False), se_decode = (\<lambda>_. None)\<rparr>"

definition sample_sr0 :: sr_state where
  "sample_sr0 = \<lparr>sr_tokenOwner = (\<lambda>_. ZERO_ADDRESS), sr_ownedTokensCount = (\<lambda>_. 0), sr_tokenApprovals = (\<lambda>_. ZERO_ADDRESS),
     sr_operatorApprovals = (\<lambda>_ _. False), sr_issuer = (\<lambda>_. ZERO_ADDRESS), sr_artistAddress = (\<lambda>_. ZERO_ADDRESS),
     sr_isPrimaryIssuer = (\<lambda>_. False), sr_lockExternal = (\<lambda>_. False), sr_metadataCID = (\<lambda>_. ''''),
     sr_metadataDigest = (\<lambda>_. replicate 32 0), sr_commitment = (\<lambda>_. NO_COMMITMENT), sr_historyHash = (\<lambda>_. ''''),
     sr_historyCustom = (\<lambda>_. 0), sr_customHistoryName = (\<lambda>_. ''''), sr_URIPrefix = ''p'', sr_URIPostfix = ''q'',
     sr_contractURI = '''', sr_openSeaProxy = ZERO_ADDRESS, sr_killSwitch = True, sr_nameRegistry = replicate 20 6,
     sr_customHistoryCount = 0, sr_customHistoryTypeCount = 0, sr_typeNameById = (\<lambda>_. ''''), sr_typeIdByName = (\<lambda>_. 0),
     sr_maxCombinedHistoryRecords = 8, sr_contractOwner = sample_admin,
     sr_royalties = (\<lambda>_. \<lparr>ri_receiver = ZERO_ADDRESS, ri_basisPoints = 0\<rparr>), sr_metaTxNonces = (\<lambda>_. 0),
     sr_domainSeparator = [], sr_trustedForwarder = sample_forwarder\<rparr>"

definition sample_id :: "256 word" where
  "sample_id = generate_id sample_evm ''cid'' alice"

definition sample_commitment :: bytes where
  "sample_commitment = evm_keccak256 sample_evm [5]"

definition by_account :: "address \<Rightarrow> message" where
  "by_account a = \<lparr>msg_sender = a, msg_data = [1, 2, 3, 4]\<rparr>"

text \<open>The wallet of Alice issues a token with a royalty of five percent for Bob, and commits it; then it sends it to Bob.\<close>

definition sample_create :: sr_call where
  "sample_create = SR_createSRRFromLicensedUser True alice ''cid'' False ZERO_ADDRESS bob 500"

definition sample_approve_commit :: sr_call where
  "sample_approve_commit = SR_approveSRRByCommitment sample_id sample_commitment ''h''"

definition sample_transfer_call :: sr_call where
  "sample_transfer_call = SR_transferFrom alice bob sample_id"

definition sample_state_of :: "(sr_state \<times> sr_event list) option \<Rightarrow> sr_state" where
  "sample_state_of r = fst (the r)"

definition sample_sr1 :: sr_state where
  "sample_sr1 = sample_state_of (run_sr_call sample_evm sample_sr_env (by_wallet alice) sample_create sample_sr0)"

definition sample_sr2 :: sr_state where
  "sample_sr2 = sample_state_of (run_sr_call sample_evm sample_sr_env (by_wallet alice) sample_approve_commit sample_sr1)"

definition sample_sr3 :: sr_state where
  "sample_sr3 = sample_state_of (run_sr_call sample_evm sample_sr_env (by_account alice) sample_transfer_call sample_sr2)"

lemmas sample_sr_addresses = alice_def bob_def carol_def ZERO_ADDRESS_def sample_admin_def sample_forwarder_def
  sample_sr_address_def sample_bulk_def

lemma sample_fresh: "fresh_storage sample_sr0"
  by (simp add: fresh_storage_def sample_sr0_def)

lemma sample_senders [simp]:
  "sr_trustedForwarder st = sample_forwarder \<Longrightarrow> sr_msgSender (by_wallet alice) st = alice"
  "sr_msgSender (by_account a) st = a" "msg_sender (by_wallet a) = sample_forwarder"
  "erc721_msgSender sample_sr_env (by_account alice) = alice"
  by (simp_all add: sr_msgSender_def by_wallet_def by_account_def erc721_msgSender_def appended_sender_def
      sample_sr_env_def sample_sr_addresses)

lemma sample_distinct [simp]:
  "alice \<noteq> ZERO_ADDRESS" "bob \<noteq> ZERO_ADDRESS" "carol \<noteq> ZERO_ADDRESS" "ZERO_ADDRESS \<noteq> alice" "ZERO_ADDRESS \<noteq> bob"
  "alice \<noteq> bob" "bob \<noteq> alice" "carol \<noteq> bob" "bob \<noteq> carol"
  by (simp_all add: sample_sr_addresses)

lemmas sample_sr_defs = statements.simps require_def assign_def emit_def when_sr_def reading_def createSRRTo_def createSRR_def
  mint_token_def count_up_def count_down_def set_owner_def saveSRR_def setRoyalties_def saveRoyalties_def token_exists_def
  trustedForwarderOnly_def transfer_token_def approve_internal_def

lemma sample_created:
  "run_sr_call sample_evm sample_sr_env (by_wallet alice) sample_create sample_sr0 =
     Some (sample_sr0\<lparr>sr_tokenOwner := (\<lambda>_. ZERO_ADDRESS)(sample_id := alice), sr_ownedTokensCount := (\<lambda>_. 0)(alice := 1),
        sr_issuer := (\<lambda>_. ZERO_ADDRESS)(sample_id := alice), sr_artistAddress := (\<lambda>_. ZERO_ADDRESS)(sample_id := alice),
        sr_isPrimaryIssuer := (\<lambda>_. False)(sample_id := True), sr_metadataCID := (\<lambda>_. '''')(sample_id := ''cid''),
        sr_lockExternal := (\<lambda>_. False)(sample_id := False),
        sr_royalties := (\<lambda>_. \<lparr>ri_receiver = ZERO_ADDRESS, ri_basisPoints = 0\<rparr>)(sample_id := \<lparr>ri_receiver = bob, ri_basisPoints = 500\<rparr>)\<rparr>,
      [Indexed (R_Transfer ZERO_ADDRESS alice (uint sample_id)),
       Indexed (R_CreateSRRWithCID (uint sample_id) \<lparr>rr_isPrimaryIssuer = True, rr_artistAddress = alice, rr_issuer = alice\<rparr> ''cid'' False),
       Indexed (R_RoyaltiesSet (uint sample_id) bob 500)])"
  unfolding sample_create_def
  by (simp add: sample_sr_defs sample_id_def [symmetric] Let_def sample_sr0_def)

lemma sample_sr1_eq:
  "sample_sr1 = sample_sr0\<lparr>sr_tokenOwner := (\<lambda>_. ZERO_ADDRESS)(sample_id := alice), sr_ownedTokensCount := (\<lambda>_. 0)(alice := 1),
        sr_issuer := (\<lambda>_. ZERO_ADDRESS)(sample_id := alice), sr_artistAddress := (\<lambda>_. ZERO_ADDRESS)(sample_id := alice),
        sr_isPrimaryIssuer := (\<lambda>_. False)(sample_id := True), sr_metadataCID := (\<lambda>_. '''')(sample_id := ''cid''),
        sr_lockExternal := (\<lambda>_. False)(sample_id := False),
        sr_royalties := (\<lambda>_. \<lparr>ri_receiver = ZERO_ADDRESS, ri_basisPoints = 0\<rparr>)(sample_id := \<lparr>ri_receiver = bob, ri_basisPoints = 500\<rparr>)\<rparr>"
  unfolding sample_sr1_def sample_created sample_state_of_def by simp

lemma sample_create_step:
  "run_sr_call sample_evm sample_sr_env (by_wallet alice) sample_create sample_sr0 =
     Some (sample_sr1,
      [Indexed (R_Transfer ZERO_ADDRESS alice (uint sample_id)),
       Indexed (R_CreateSRRWithCID (uint sample_id) \<lparr>rr_isPrimaryIssuer = True, rr_artistAddress = alice, rr_issuer = alice\<rparr> ''cid'' False),
       Indexed (R_RoyaltiesSet (uint sample_id) bob 500)])"
  unfolding sample_created sample_sr1_eq by simp

lemma sample_forwarders [simp]: "sr_trustedForwarder sample_sr0 = sample_forwarder" "sr_trustedForwarder sample_sr1 = sample_forwarder"
  by (simp_all add: sample_sr0_def sample_sr1_eq)

lemma sample_commit_step:
  "run_sr_call sample_evm sample_sr_env (by_wallet alice) sample_approve_commit sample_sr1 =
     Some (sample_sr2, [Indexed (R_SRRCommitment (uint sample_id) alice sample_commitment)])"
  "sample_sr2 = sample_sr1\<lparr>sr_commitment := (\<lambda>_. NO_COMMITMENT)(sample_id := sample_commitment),
     sr_historyHash := (\<lambda>_. '''')(sample_id := ''h'')\<rparr>"
proof -
  have run: "run_sr_call sample_evm sample_sr_env (by_wallet alice) sample_approve_commit sample_sr1 =
     Some (sample_sr1\<lparr>sr_commitment := (\<lambda>_. NO_COMMITMENT)(sample_id := sample_commitment),
       sr_historyHash := (\<lambda>_. '''')(sample_id := ''h'')\<rparr>, [Indexed (R_SRRCommitment (uint sample_id) alice sample_commitment)])"
    unfolding sample_approve_commit_def
    by (simp add: sample_sr_defs onlySRROwnerOrAdministrator_def ownerOf_def approveSRRByCommitment_internal_def
        NO_CUSTOM_HISTORY_def sample_sr1_eq sample_sr0_def)
  then show "sample_sr2 = sample_sr1\<lparr>sr_commitment := (\<lambda>_. NO_COMMITMENT)(sample_id := sample_commitment),
     sr_historyHash := (\<lambda>_. '''')(sample_id := ''h'')\<rparr>" by (simp add: sample_sr2_def sample_state_of_def)
  with run show "run_sr_call sample_evm sample_sr_env (by_wallet alice) sample_approve_commit sample_sr1 =
     Some (sample_sr2, [Indexed (R_SRRCommitment (uint sample_id) alice sample_commitment)])" by simp
qed

lemma sample_transfer_step:
  "run_sr_call sample_evm sample_sr_env (by_account alice) sample_transfer_call sample_sr2 =
     Some (sample_sr3, [Approval alice ZERO_ADDRESS sample_id, Indexed (R_Transfer alice bob (uint sample_id))])"
proof -
  have "\<exists>st. run_sr_call sample_evm sample_sr_env (by_account alice) sample_transfer_call sample_sr2 =
     Some (st, [Approval alice ZERO_ADDRESS sample_id, Indexed (R_Transfer alice bob (uint sample_id))])"
    unfolding sample_transfer_call_def
    by (simp add: sample_sr_defs externalTransferNotLocked_def isApprovedOrOwner_def ownerOf_def sample_commit_step(2)
        sample_sr1_eq sample_sr0_def)
  then show ?thesis by (auto simp: sample_sr3_def sample_state_of_def)
qed

section \<open>Its run and the blocks it is found in\<close>

definition sample_sr_calls :: "(sr_env \<times> message \<times> sr_call) list" where
  "sample_sr_calls = [(sample_sr_env, by_wallet alice, sample_create), (sample_sr_env, by_wallet alice, sample_approve_commit),
     (sample_sr_env, by_account alice, sample_transfer_call)]"

definition sample_sr_events :: "sr_event list" where
  "sample_sr_events =
     [Indexed (R_Transfer ZERO_ADDRESS alice (uint sample_id)),
      Indexed (R_CreateSRRWithCID (uint sample_id) \<lparr>rr_isPrimaryIssuer = True, rr_artistAddress = alice, rr_issuer = alice\<rparr> ''cid'' False),
      Indexed (R_RoyaltiesSet (uint sample_id) bob 500), Indexed (R_SRRCommitment (uint sample_id) alice sample_commitment),
      Approval alice ZERO_ADDRESS sample_id, Indexed (R_Transfer alice bob (uint sample_id))]"

lemma sample_sr_run: "run_sr_calls sample_evm sample_sr_calls sample_sr0 = Some (sample_sr3, sample_sr_events)"
  unfolding sample_sr_calls_def
  by (simp add: run_sr_calls.simps(2) sample_create_step sample_commit_step(1) sample_transfer_step sample_sr_events_def
      del: run_sr_call.simps)

definition sample_sr_blocks :: "eth_event list" where
  "sample_sr_blocks = map sample_event [1, 1, 1, 2, 3]"

lemma sample_found: "found_in sample_sr_address sample_sr_blocks (indexed sample_sr_events)"
  by (simp add: found_in_def sample_sr_blocks_def sample_sr_events_def sample_event_def sample_sr_address_def valid_time_def
      date_limit_def eventUTCMillis_def secondsToMillis_def)

lemma sample_digests: "digests_readable sample_host (indexed sample_sr_events)"
  by (simp add: digests_readable_def sample_sr_events_def)

lemma sample_keys: "distinct_keys (srrEntityId sample_host sample_sr_address) T"
proof -
  have "inj_on (\<lambda>t :: 256 word. srrEntityId sample_host sample_sr_address (uint t)) T"
    by (rule inj_onI) (auto simp: srrEntityId_def sample_host_def word_uint_eq_iff dest!: utf8_inj int_dec_inj)
  then show ?thesis by (simp add: distinct_keys_def)
qed

lemma sample_sr_ok: "sr_ok sample_sr0" "sr_ok sample_sr2"
proof -
  show "sr_ok sample_sr0" by (rule fresh_ok(1) [OF sample_fresh])
  from call_ok [OF sample_create_step this] show "sr_ok sample_sr2"
    by (rule call_ok [OF sample_commit_step(1)])
qed

section \<open>Batches\<close>

definition sample_col_env :: col_env where
  "sample_col_env = \<lparr>ce_trustedForwarder = (\<lambda>_. sample_forwarder), ce_nameRegistry = (\<lambda>_. replicate 20 6),
     ce_names = (\<lambda>_. sample_names), ce_isActiveWallet = (\<lambda>_ _. True), ce_startrailRegistry = (\<lambda>_. sample_sr0),
     ce_hasCode = (\<lambda>_. False), ce_onERC721Received = (\<lambda>_ _ _ _ _. False)\<rparr>"

definition sample_bulk0 :: bulk_world where
  "sample_bulk0 = \<lparr>bw_bulk = \<lparr>bu_nameRegistry = replicate 20 6, bu_trustedForwarder = sample_forwarder, bu_initialized = True,
     bu_batches = (\<lambda>_. \<lparr>bb_prepared = False, bb_signer = ZERO_ADDRESS, bb_processedCount = 0, bb_processedLeaves = (\<lambda>_. False)\<rparr>)\<rparr>,
     bw_registry = sample_sr1, bw_collections = Map.empty\<rparr>"

text \<open>Every proof is accepted; there are no other contracts.\<close>

definition sample_bulk_env :: bulk_env where
  "sample_bulk_env = \<lparr>be_this = sample_bulk, be_registry = sample_sr_env, be_encode = (\<lambda>_. [1, 2, 3, 4]),
     be_verifyProof = (\<lambda>_ _ _. True), be_collections = sample_col_env, be_other = (\<lambda>_ _ _. None)\<rparr>"

lemma sample_collections: "others_call e sample_bulk_env"
  by (simp add: others_call_def sample_bulk_env_def)

definition sample_root :: bytes where
  "sample_root = replicate 32 1"

text \<open>The wallet of Alice approves a batch with a leaf that commits the token of a collection, and the leaf is marked.\<close>

definition sample_bulk1 :: bulk_world where
  "sample_bulk1 = fst (the (prepareBatchFromLicensedUser (by_wallet alice) sample_root sample_bulk0))"

definition sample_leaf :: bytes where
  "sample_leaf = evm_keccak256 sample_evm (approve_leaf sample_id sample_commitment ''h'' 0 carol)"

definition sample_bulk2 :: bulk_world where
  "sample_bulk2 = the (process_leaf sample_root sample_leaf sample_bulk1)"

lemma sample_batch_prepared:
  "prepareBatchFromLicensedUser (by_wallet alice) sample_root sample_bulk0 = Some (sample_bulk1, [Bulk (BK_BatchPrepared sample_root alice)])"
  "batch_of sample_bulk1 sample_root = \<lparr>bb_prepared = True, bb_signer = alice, bb_processedCount = 0, bb_processedLeaves = (\<lambda>_. False)\<rparr>"
  "bw_registry sample_bulk1 = sample_sr1" "bu_nameRegistry (bw_bulk sample_bulk1) = replicate 20 6"
proof -
  have s: "bulk_msgSender (by_wallet alice) (bw_bulk sample_bulk0) = alice"
    by (simp add: bulk_msgSender_def by_wallet_def sample_bulk0_def appended_sender_def sample_sr_addresses)
  have "\<exists>w. prepareBatchFromLicensedUser (by_wallet alice) sample_root sample_bulk0 = Some (w, [Bulk (BK_BatchPrepared sample_root alice)])
     \<and> batch_of w sample_root = \<lparr>bb_prepared = True, bb_signer = alice, bb_processedCount = 0, bb_processedLeaves = (\<lambda>_. False)\<rparr>
     \<and> bw_registry w = sample_sr1 \<and> bu_nameRegistry (bw_bulk w) = replicate 20 6"
    by (simp add: prepareBatchFromLicensedUser_def Let_def s) (simp add: sample_bulk0_def batch_of_def set_batch_def)
  then show "prepareBatchFromLicensedUser (by_wallet alice) sample_root sample_bulk0 = Some (sample_bulk1, [Bulk (BK_BatchPrepared sample_root alice)])"
    "batch_of sample_bulk1 sample_root = \<lparr>bb_prepared = True, bb_signer = alice, bb_processedCount = 0, bb_processedLeaves = (\<lambda>_. False)\<rparr>"
    "bw_registry sample_bulk1 = sample_sr1" "bu_nameRegistry (bw_bulk sample_bulk1) = replicate 20 6"
    by (auto simp: sample_bulk1_def)
qed

lemma sample_marked:
  "process_leaf sample_root sample_leaf sample_bulk1 = Some sample_bulk2"
  "bb_processedLeaves (batch_of sample_bulk2 sample_root) sample_leaf"
proof -
  show m: "process_leaf sample_root sample_leaf sample_bulk1 = Some sample_bulk2"
    by (simp add: sample_bulk2_def process_leaf_def Let_def sample_batch_prepared(2))
  show "bb_processedLeaves (batch_of sample_bulk2 sample_root) sample_leaf" using processed_batch(2) [OF m] by simp
qed

text \<open>A run of the contract in which a batch is prepared and a leaf of it commits the token of the registry.\<close>

definition sample_registry_leaf :: bytes where
  "sample_registry_leaf = evm_keccak256 sample_evm (approve_leaf sample_id sample_commitment ''h'' 0 ZERO_ADDRESS)"

definition sample_bulk3 :: bulk_world where
  "sample_bulk3 = fst (the (approveSRRByCommitmentWithProof sample_evm sample_bulk_env [] sample_root sample_registry_leaf
     sample_id sample_commitment ''h'' 0 ZERO_ADDRESS sample_bulk1))"

lemma sample_bulk_run:
  "\<exists>inner es. bulk_run sample_evm sample_bulk0 ((sample_root, sample_registry_leaf) # inner) es sample_bulk3"
proof -
  let ?call = "SR_approveSRRByCommitmentFromBulk alice sample_id sample_commitment ''h'' 0"
  let ?m = "\<lparr>msg_sender = sample_bulk, msg_data = [1, 2, 3, 4]\<rparr>"
  obtain w where w: "process_leaf sample_root sample_registry_leaf sample_bulk1 = Some w"
    by (simp add: process_leaf_def Let_def sample_batch_prepared(2))
  have w1: "bw_registry w = sample_sr1" "bb_signer (batch_of w sample_root) = alice" "bu_nameRegistry (bw_bulk w) = replicate 20 6"
    using w processed_batch(2) [OF w, of sample_root]
    by (auto simp: process_leaf_def set_batch_def Let_def sample_batch_prepared(2-4))
  have "\<exists>r. run_sr_call sample_evm sample_sr_env ?m ?call sample_sr1 = Some r"
    by (simp add: onlyBulk_def onlySRROwner_def ownerOf_def approveSRRByCommitment_internal_def sample_sr_defs
        NO_CUSTOM_HISTORY_def sample_sr_env_def sample_names_def nr_get_def Let_def sample_sr1_eq sample_sr0_def
        STARTRAIL_REGISTRY_def BULK_def ADMINISTRATOR_def)
  then obtain st es where "run_sr_call sample_evm sample_sr_env ?m ?call sample_sr1 = Some (st, es)" by auto
  then have "\<exists>r. approveSRRByCommitmentWithProof sample_evm sample_bulk_env [] sample_root sample_registry_leaf
     sample_id sample_commitment ''h'' 0 ZERO_ADDRESS sample_bulk1 = Some r"
    using w w1
    by (simp add: approveSRRByCommitmentWithProof_def call_target_def verifyApproveSRRByCommitmentHash_def sample_registry_leaf_def
        sample_bulk_env_def sample_batch_prepared(2) sample_sr_env_def sample_names_def nr_get_def STARTRAIL_REGISTRY_def
        BULK_def ADMINISTRATOR_def del: run_sr_call.simps)
  then obtain es where "approveSRRByCommitmentWithProof sample_evm sample_bulk_env [] sample_root sample_registry_leaf
     sample_id sample_commitment ''h'' 0 ZERO_ADDRESS sample_bulk1 = Some (sample_bulk3, es)"
    by (auto simp: sample_bulk3_def)
  from bulk_calls_run(2) [OF sample_collections this] obtain inner
    where "bulk_run sample_evm sample_bulk1 ((sample_root, sample_registry_leaf) # inner) es sample_bulk3" by blast
  from bulk_prepare [OF sample_batch_prepared(1) this] show ?thesis by blast
qed

text \<open>A run that fills a batch: 255 leaves are processed one after the other.\<close>

definition sample_filled :: "nat \<Rightarrow> bulk_world" where
  "sample_filled n = set_batch sample_root \<lparr>bb_prepared = True, bb_signer = alice, bb_processedCount = of_nat n,
     bb_processedLeaves = (\<lambda>leaf. leaf \<in> be_bytes 32 ` {..< n})\<rparr> sample_bulk1"

lemma sample_leaves_inj: "inj_on (be_bytes 32) {..< 256}"
proof (rule inj_onI)
  fix m n :: nat assume "m \<in> {..< 256}" "n \<in> {..< 256}" and eq: "be_bytes 32 m = be_bytes 32 n"
  then have "m < 256 ^ 32" "n < 256 ^ 32" by simp_all
  then have "be_nat (be_bytes 32 m) = m" "be_nat (be_bytes 32 n) = n" using be_nat_be_bytes by blast+
  then show "m = n" unfolding eq by (rule trans [OF sym])
qed

lemma sample_filled_batch:
  "batch_of (sample_filled n) sample_root = \<lparr>bb_prepared = True, bb_signer = alice, bb_processedCount = of_nat n,
     bb_processedLeaves = (\<lambda>leaf. leaf \<in> be_bytes 32 ` {..< n})\<rparr>"
  by (simp add: sample_filled_def)

lemma sample_filled_next:
  assumes "n < 255"
  shows "process_leaf sample_root (be_bytes 32 n) (sample_filled n) = Some (sample_filled (Suc n))"
    "\<not> bb_processedLeaves (batch_of (sample_filled n) sample_root) (be_bytes 32 n)"
proof -
  have "unat (of_nat n :: byte) = n" using assms by (simp add: unat_of_nat take_bit_nat_eq_self)
  then have "(of_nat n :: byte) \<noteq> - 1" using assms
    by (auto simp: word_unat_eq_iff unsigned_minus_1_eq_mask mask_eq_exp_minus_1)
  moreover have "(\<lambda>leaf. leaf \<in> be_bytes 32 ` {..< n})(be_bytes 32 n := True) = (\<lambda>leaf. leaf \<in> be_bytes 32 ` {..< Suc n})"
    by (auto simp: fun_eq_iff lessThan_Suc)
  ultimately show "process_leaf sample_root (be_bytes 32 n) (sample_filled n) = Some (sample_filled (Suc n))"
    unfolding process_leaf_def sample_filled_batch Let_def
    by (simp add: sample_filled_def set_batch_def add.commute)
  show "\<not> bb_processedLeaves (batch_of (sample_filled n) sample_root) (be_bytes 32 n)"
    using assms inj_on_image_mem_iff [OF sample_leaves_inj, of n "{..< n}"] by (simp add: sample_filled_batch subset_iff)
qed

lemma sample_filling: "n \<le> 255 \<Longrightarrow> \<exists>log es. bulk_run sample_evm sample_bulk0 log es (sample_filled n)"
proof (induction n)
  case 0
  have "sample_filled 0 = sample_bulk1"
    unfolding sample_filled_def by (simp add: sample_batch_prepared(2) [symmetric])
      (simp add: set_batch_def batch_of_def)
  with bulk_prepare [OF sample_batch_prepared(1) bulk_done] show ?case by auto
next
  case (Suc n)
  then obtain log es where run: "bulk_run sample_evm sample_bulk0 log es (sample_filled n)" by auto
  have "leaf_event (BK_ApproveSRRByCommitmentWithProof sample_root carol 0 (be_bytes 32 n)) = Some (sample_root, be_bytes 32 n)"
    by simp
  from bulk_leaf [OF _ sample_filled_next(2,1) bulk_done this bulk_done] bulk_run_append [OF run]
  show ?case using Suc.prems sample_filled_batch [of n] by fastforce
qed

lemma sample_unused: "\<forall>root. \<not> bb_prepared (batch_of sample_bulk0 root) \<and> leaves_of root sample_bulk0 = {}"
  by (simp add: leaves_of_def batch_of_def sample_bulk0_def)

lemma sample_full_leaves:
  "bb_prepared (batch_of (sample_filled 255) sample_root)" "card (leaves_of sample_root (sample_filled 255)) = 255"
proof -
  show "bb_prepared (batch_of (sample_filled 255) sample_root)" by (simp add: sample_filled_batch)
  have "inj_on (be_bytes 32) {..< 255}" using sample_leaves_inj by (rule inj_on_subset) auto
  then show "card (leaves_of sample_root (sample_filled 255)) = 255"
    unfolding leaves_of_def sample_filled_batch by (simp add: card_image)
qed

section \<open>For the properties\<close>

lemma sample_sr_transactions:
  "run_transactions sample_evm (map (\<lambda>(env, m, c). Transaction env m c []) sample_sr_calls) sample_sr0 = Some (sample_sr3, sample_sr_events)"
proof -
  have "concat (map calls_in_order (map (\<lambda>(env, m, c). Transaction env m c []) cs)) = cs" for cs
    by (induction cs) auto
  then show ?thesis using sample_sr_run by (simp add: nested_calls_are_a_run(2) del: map_map)
qed

lemma sample_sr_owners:
  "sr_tokenOwner sample_sr0 sample_id = ZERO_ADDRESS" "sr_tokenOwner sample_sr1 sample_id = alice"
  "sr_tokenOwner sample_sr2 sample_id = alice" "sr_tokenOwner sample_sr3 sample_id = bob"
proof -
  show "sr_tokenOwner sample_sr0 sample_id = ZERO_ADDRESS" "sr_tokenOwner sample_sr1 sample_id = alice"
    "sr_tokenOwner sample_sr2 sample_id = alice" by (simp_all add: sample_sr0_def sample_sr1_eq sample_commit_step(2))
  show "sr_tokenOwner sample_sr3 sample_id = bob"
    using plain_transfer_moves [OF _ sample_transfer_step, of sample_id bob] by (simp add: sample_transfer_call_def)
qed

lemma sample_plain_transfer: "plain_transfer sample_transfer_call = Some (sample_id, bob)"
  by (simp add: sample_transfer_call_def)

lemma sample_reveal: "evm_keccak256 sample_evm [5] = sr_commitment sample_sr2 sample_id"
  by (simp add: sample_commit_step(2) sample_commitment_def)

lemma sample_names_at:
  "sample_names STARTRAIL_REGISTRY = sample_sr_address" "sample_names BULK = sample_bulk"
  by (simp_all add: sample_names_def STARTRAIL_REGISTRY_def BULK_def ADMINISTRATOR_def)

text \<open>The functions of ethers that the identifier is computed with, for the hash of the samples.\<close>

definition sample_id_ext :: ext where
  "sample_id_ext = sample_ext
     \<lparr>solidityKeccak := (\<lambda>ts vs. toHex (sample_keccak (str_bytes (vs ! 0) @ hex_bytes (vs ! 1)))),
      bigNumberFrom := (\<lambda>v. case v of JString s \<Rightarrow> Inr (int (be_nat (hex_bytes s))) | _ \<Rightarrow> Inl TypeError)\<rparr>"

lemma sample_id_functions: "id_functions_documented sample_id_ext sample_evm"
  by (simp add: id_functions_documented_def sample_id_ext_def sample_evm_def)

lemma sample_balance: "balanceOf bob sample_sr3 = Some 1"
proof -
  have "sr_ownedTokensCount sample_sr3 = moved_count alice bob (sr_ownedTokensCount sample_sr2)"
    using sample_transfer_step unfolding sample_transfer_call_def 
    by (simp add: transfer_Some) (elim conjE, drule arg_cong [where f = sr_ownedTokensCount], simp)
  then show ?thesis by (simp add: balanceOf_def moved_count_def Let_def sample_commit_step(2) sample_sr1_eq)
qed

end
