(* ===== verification/CollectionFacts.thy ===== *)
theory CollectionFacts
  imports CollectionContract RegistryClient
begin

text \<open>
  What a call of a collection can do to tokens (\<open>col_step\<close>), with the ledger operations of the events it emits;
  the invariant of the storage (\<open>col_ok\<close>), and who can move a token. Unlike the StartrailRegistry, a
  collection lets a token be sent to the zero address, after which it does not exist any more.
\<close>

section \<open>Events\<close>

definition col_ops :: "(int \<Rightarrow> string) \<Rightarrow> col_event list \<Rightarrow> ledger_op list" where
  "col_ops K es = concat (map (\<lambda>r. case collection_op K r of None \<Rightarrow> [] | Some x \<Rightarrow> [x]) (col_indexed es))"

lemma col_indexed_simps [simp]:
  "col_indexed [] = []" "col_indexed (CollectionEvent r # es) = r # col_indexed es"
  "col_indexed (es @ fs) = col_indexed es @ col_indexed fs"
  "col_indexed (CollectionApproval a b t # es) = col_indexed es"
  "col_indexed (CollectionApprovalForAll a b f # es) = col_indexed es"
  by (simp_all add: col_indexed_def)

lemma col_ops_simps [simp]:
  "col_ops K [] = []" "col_ops K (es @ fs) = col_ops K es @ col_ops K fs"
  "col_ops K (CollectionEvent r # es) = (case collection_op K r of None \<Rightarrow> [] | Some x \<Rightarrow> [x]) @ col_ops K es"
  "col_ops K (CollectionApproval a b t # es) = col_ops K es"
  "col_ops K (CollectionApprovalForAll a b f # es) = col_ops K es"
  by (simp_all add: col_ops_def)

section \<open>Steps\<close>

definition commitments_of :: "col_state \<Rightarrow> 256 word \<Rightarrow> bytes" where
  "commitments_of st t = ca_commitment (cl_approvals st t)"

text \<open>Accounts are approved for tokens that exist, by accounts other than the zero address; royalties are set to at
  most the whole price.\<close>

definition approvals_kept :: "col_state \<Rightarrow> col_state \<Rightarrow> bool" where
  "approvals_kept st st' \<longleftrightarrow> (\<forall>t. \<not> col_exists t st \<longrightarrow> cl_getApproved st' t = cl_getApproved st t) \<and>
     cl_isApprovedForAll st' ZERO_ADDRESS = cl_isApprovedForAll st ZERO_ADDRESS"

definition royalties_kept :: "col_state \<Rightarrow> col_state \<Rightarrow> bool" where
  "royalties_kept st st' \<longleftrightarrow>
     (\<forall>t. cl_royalties st' t = cl_royalties st t \<or> unat (ri_basisPoints (cl_royalties st' t)) \<le> 10000)"

inductive col_step :: "(int \<Rightarrow> string) \<Rightarrow> col_state \<Rightarrow> ledger_op list \<Rightarrow> col_state \<Rightarrow> bool" for K :: "int \<Rightarrow> string" where
  col_other: "cl_ownerOf st' = cl_ownerOf st \<Longrightarrow> cl_balanceOf st' = cl_balanceOf st \<Longrightarrow> approvals_kept st st' \<Longrightarrow>
    commitments_of st' = commitments_of st \<Longrightarrow> royalties_kept st st' \<Longrightarrow> col_step K st [] st'"
| col_minted: "\<not> col_exists t st \<Longrightarrow> a \<noteq> ZERO_ADDRESS \<Longrightarrow> t \<in> possible_ids \<Longrightarrow>
    cl_ownerOf st' = (cl_ownerOf st)(t := a) \<Longrightarrow> cl_balanceOf st' = (cl_balanceOf st)(a := cl_balanceOf st a + 1) \<Longrightarrow>
    approvals_kept st st' \<Longrightarrow> commitments_of st' = commitments_of st \<Longrightarrow> royalties_kept st st' \<Longrightarrow>
    col_step K st [Mint (K (uint t)) a] st'"
| col_moved: "col_exists t st \<Longrightarrow> a = cl_ownerOf st t \<Longrightarrow> cl_ownerOf st' = (cl_ownerOf st)(t := b) \<Longrightarrow>
    cl_balanceOf st' = moved_count a b (cl_balanceOf st) \<Longrightarrow> cl_getApproved st' = (cl_getApproved st)(t := ZERO_ADDRESS) \<Longrightarrow>
    cl_isApprovedForAll st' = cl_isApprovedForAll st \<Longrightarrow>
    commitments_of st' = commitments_of st \<or> commitments_of st' = (commitments_of st)(t := NO_COMMITMENT) \<Longrightarrow>
    royalties_kept st st' \<Longrightarrow>
    ops = [Move (K (uint t)) b] \<or> ops = [Trace (K (uint t)) b, Move (K (uint t)) b] \<Longrightarrow> col_step K st ops st'"
| col_committed: "col_exists t st \<Longrightarrow> cl_ownerOf st' = cl_ownerOf st \<Longrightarrow> cl_balanceOf st' = cl_balanceOf st \<Longrightarrow>
    approvals_kept st st' \<Longrightarrow> commitments_of st' = (commitments_of st)(t := c) \<Longrightarrow> royalties_kept st st' \<Longrightarrow>
    ops = [Commit (K (uint t)) c] \<or> ops = [Withdraw (K (uint t)), Commit (K (uint t)) c] \<Longrightarrow> col_step K st ops st'"
| col_withdrawn: "col_exists t st \<Longrightarrow> cl_ownerOf st' = cl_ownerOf st \<Longrightarrow> cl_balanceOf st' = cl_balanceOf st \<Longrightarrow>
    approvals_kept st st' \<Longrightarrow> commitments_of st' = (commitments_of st)(t := NO_COMMITMENT) \<Longrightarrow> royalties_kept st st' \<Longrightarrow>
    col_step K st [Withdraw (K (uint t))] st'"
| col_then: "col_step K st ops1 st1 \<Longrightarrow> col_step K st1 ops2 st2 \<Longrightarrow> col_step K st (ops1 @ ops2) st2"

lemma kept_refl [simp]: "approvals_kept st st" "royalties_kept st st"
  by (simp_all add: approvals_kept_def royalties_kept_def)

lemma kept_same [simp]:
  "cl_getApproved st' = cl_getApproved st \<Longrightarrow> cl_isApprovedForAll st' = cl_isApprovedForAll st \<Longrightarrow> approvals_kept st st'"
  "cl_royalties st' = cl_royalties st \<Longrightarrow> royalties_kept st st'"
  by (simp_all add: approvals_kept_def royalties_kept_def)

text \<open>Statements whose every successful run is such a step.\<close>

definition stepping :: "col_stm \<Rightarrow> bool" where
  "stepping s \<longleftrightarrow> (\<forall>K st st' es. s st = Some (st', es) \<longrightarrow> col_step K st (col_ops K es) st')"

lemma stepping_statements: "list_all stepping ss \<Longrightarrow> stepping (statements ss)"
proof (induction ss)
  case Nil
  then show ?case by (auto simp: stepping_def intro!: col_other)
next
  case (Cons s ss)
  then have "stepping s" "stepping (statements ss)" by simp_all
  then show ?case unfolding stepping_def by (fastforce intro: col_then)
qed

lemma stepping_basic [simp]:
  "stepping (require P)" "(\<And>K st. col_ops K [ev st] = []) \<Longrightarrow> stepping (emit ev)"
  "stepping s \<Longrightarrow> stepping (when_sr P s)" "(\<And>x. stepping (f x)) \<Longrightarrow> stepping (reading g f)"
  by (auto simp: stepping_def when_sr_def intro!: col_other)

lemma stepping_assign:
  assumes "\<And>st. cl_ownerOf (f st) = cl_ownerOf st" "\<And>st. cl_balanceOf (f st) = cl_balanceOf st"
    "\<And>st. cl_getApproved (f st) = cl_getApproved st" "\<And>st. cl_isApprovedForAll (f st) = cl_isApprovedForAll st"
    "\<And>st. cl_royalties (f st) = cl_royalties st" "\<And>st. cl_approvals (f st) = cl_approvals st"
  shows "stepping (assign f)"
proof -
  have "commitments_of (f st) = commitments_of st" for st by (simp add: commitments_of_def fun_eq_iff assms)
  then show ?thesis by (auto simp: stepping_def assms intro!: col_other)
qed

lemma col_mint_Some:
  "col_mint a t st = Some (st', es) \<longleftrightarrow> a \<noteq> ZERO_ADDRESS \<and> \<not> col_exists t st \<and>
     st' = st\<lparr>cl_ownerOf := (cl_ownerOf st)(t := a), cl_balanceOf := (cl_balanceOf st)(a := cl_balanceOf st a + 1)\<rparr> \<and>
     es = [CollectionEvent (C_Transfer ZERO_ADDRESS a (uint t))]"
  by (auto simp: col_mint_def col_add_balance_def col_exists_def)

lemma col_move_Some:
  "col_move a b t st = Some (st', es) \<longleftrightarrow>
     st' = st\<lparr>cl_ownerOf := (cl_ownerOf st)(t := b), cl_balanceOf := moved_count a b (cl_balanceOf st),
       cl_getApproved := (cl_getApproved st)(t := ZERO_ADDRESS)\<rparr> \<and>
     es = [CollectionEvent (C_Transfer a b (uint t))]"
  by (auto simp: col_move_def col_add_balance_def moved_count_def Let_def)

lemma stepping_mint: "t \<in> possible_ids \<Longrightarrow> stepping (col_mint a t)"
  unfolding stepping_def
  by (auto simp: col_mint_Some commitments_of_def fun_eq_iff intro!: col_minted)

lemma generated_possible: "generate_id e cid a \<in> possible_ids"
  using generate_id_bound [of e cid a] by (simp add: possible_ids_def)

lemma move_step:
  assumes "col_move a b t st = Some (st', es)" and "col_exists t st" and "a = cl_ownerOf st t"
  shows "col_step K st [Move (K (uint t)) b] st'" "col_ops K es = [Move (K (uint t)) b]"
proof -
  have "a \<noteq> ZERO_ADDRESS" using assms(2,3) by (simp add: col_exists_def)
  then show "col_ops K es = [Move (K (uint t)) b]" using assms(1) by (simp add: col_move_Some)
  show "col_step K st [Move (K (uint t)) b] st'"
    using assms by (intro col_moved [where t = t and b = b and a = a]) (auto simp: col_move_Some commitments_of_def fun_eq_iff)
qed

lemma stepping_royalties [simp]:
  "stepping (upsertRoyalty t r p)" "stepping (col_updateSRRRoyalty env m t r p)"
  "stepping (col_updateSRRRoyaltyReceiverMulti env m ts r)"
proof -
  show upsert: "stepping (upsertRoyalty t r p)" for t r p
    unfolding stepping_def upsertRoyalty_def
    by (auto simp: when_sr_def royalties_kept_def commitments_of_def fun_eq_iff split: if_splits intro!: col_other)
  show "stepping (col_updateSRRRoyalty env m t r p)"
    unfolding col_updateSRRRoyalty_def by (intro stepping_statements) (simp add: upsert)
  have "stepping (statements (map (\<lambda>t. reading (\<lambda>st. ri_basisPoints (cl_royalties st t)) (upsertRoyalty t r)) ts))"
    by (intro stepping_statements) (simp add: list_all_iff upsert)
  then show "stepping (col_updateSRRRoyaltyReceiverMulti env m ts r)"
    unfolding col_updateSRRRoyaltyReceiverMulti_def by (intro stepping_statements) simp
qed

section \<open>Every call is made of such steps\<close>

lemma create_stepping: "stepping (col_create e env m p artist cid issuer lock receiver points bulk)"
  unfolding col_create_def Let_def
  by (intro stepping_statements) (simp add: stepping_assign stepping_mint generated_possible)

text \<open>The token exists when it is created, and its issuer owns it.\<close>

lemma col_create_Some:
  assumes "col_create e env m p artist cid issuer lock receiver points bulk st = Some (st', es)"
  shows "\<not> col_exists (generate_id e cid artist) st" "issuer \<noteq> ZERO_ADDRESS"
    "cl_ownerOf st' = (cl_ownerOf st)(generate_id e cid artist := issuer)"
    "cl_srrs st' = (cl_srrs st)(generate_id e cid artist :=
       \<lparr>cs_isPrimaryIssuer = p, cs_artist = artist, cs_issuer = issuer\<rparr>)"
    "cl_metadata st' = (cl_metadata st)(generate_id e cid artist := cid)"
    "\<not> bulk \<Longrightarrow> col_onlyTrustedForwarder env m st \<and> col_msgSender env m st = cl_owner st"
  using assms
  by (auto simp: col_create_def Let_def col_mint_Some upsertRoyalty_def when_sr_def col_exists_def onlyCollectionOwner_def
      split: if_splits)

lemma create_to_stepping: "stepping (col_create_to e env m p artist cid issuer lock to receiver points bulk)"
  unfolding stepping_def
proof (intro allI impI)
  fix K st st' es
  let ?t = "generate_id e cid artist"
  assume "col_create_to e env m p artist cid issuer lock to receiver points bulk st = Some (st', es)"
  then obtain st1 es1 es2 where one: "col_create e env m p artist cid issuer lock receiver points bulk st = Some (st1, es1)"
      "when_sr (\<lambda>st. to \<noteq> ZERO_ADDRESS) (col_move issuer to ?t) st1 = Some (st', es2)" "es = es1 @ es2"
    unfolding col_create_to_def by auto
  have first: "col_step K st (col_ops K es1) st1" using one(1) create_stepping unfolding stepping_def by blast
  show "col_step K st (col_ops K es) st'"
  proof (cases "to = ZERO_ADDRESS")
    case True
    then show ?thesis using one(2,3) first by (simp add: when_sr_def)
  next
    case False
    then have move: "col_move issuer to ?t st1 = Some (st', es2)" using one(2) by (simp add: when_sr_def)
    have "col_exists ?t st1" "issuer = cl_ownerOf st1 ?t"
      using col_create_Some [OF one(1)] by (simp_all add: col_exists_def)
    from move_step [OF move this] show ?thesis using col_then [OF first] one(3) by simp
  qed
qed

lemma col_transferFromWithProvenance_Some:
  "col_transferFromWithProvenance env m to t hash custom im signer st = Some (st', es) \<longleftrightarrow>
     (ce_hasCode env to \<longrightarrow> ce_onERC721Received env to (col_msgSender env m st) (cl_ownerOf st t) t []) \<and>
     (\<exists>es1 es2. col_logProvenance t (cl_ownerOf st t) to hash custom im (Some signer) st = Some (st, es1) \<and>
        col_move (cl_ownerOf st t) to t st = Some (st', es2) \<and> es = es1 @ es2)"
  by (auto simp: col_transferFromWithProvenance_def col_receivedCheck_def col_logProvenance_def)

lemma logged: "col_logProvenance t a b hash custom im sender st = Some (st', es) \<Longrightarrow>
    st' = st \<and> col_ops K es = [Trace (K (uint t)) b]"
  by (auto simp: col_logProvenance_def split: option.split)

text \<open>A move after its provenance.\<close>

lemma logged_move:
  assumes "col_logProvenance t a b hash custom im sender sa = Some (sb, es1)" and "col_move a b t sc = Some (st', es2)"
    and "col_exists t st" and "a = cl_ownerOf st t" and "sc = st \<or> sc = fst (the (col_clearSRRCommitment t st))"
  shows "col_step K st (col_ops K (es1 @ es2)) st'"
proof -
  have "a \<noteq> ZERO_ADDRESS" using assms(3,4) by (simp add: col_exists_def)
  then have "col_ops K (es1 @ es2) = [Trace (K (uint t)) b, Move (K (uint t)) b]"
    using logged [OF assms(1)] assms(2) by (simp add: col_move_Some)
  then show ?thesis
    using assms(2-5)
    by (intro col_moved [where t = t and b = b and a = a])
      (auto simp: col_move_Some commitments_of_def fun_eq_iff col_clearSRRCommitment_def assign_def no_approval_def)
qed

lemma reveal_stepping: "stepping (col_transferSRRByReveal e to rv t im)"
  unfolding stepping_def
proof (intro allI impI)
  fix K st st' es assume run: "col_transferSRRByReveal e to rv t im st = Some (st', es)"
  let ?a = "cl_approvals st t"
  obtain es1 st1 es2 where "col_exists t st"
      "col_logProvenance t (cl_ownerOf st t) to (ca_historyMetadataHash ?a) (ca_customHistoryId ?a) im None st = Some (st, es1)"
      "col_clearSRRCommitment t st = Some (st1, [])" "col_move (cl_ownerOf st t) to t st1 = Some (st', es2)" "es = es1 @ es2"
    using run by (auto simp: col_transferSRRByReveal_def col_clearSRRCommitment_def col_logProvenance_def)
  then show "col_step K st (col_ops K es) st'"
    using logged_move [where sa = st and sb = st] by simp
qed

lemma provenance_stepping:
  assumes "col_transferFromWithProvenance env m to t hash custom im signer st = Some (st', es)" and "col_exists t st"
  shows "col_step K st (col_ops K es) st'"
  using assms logged_move [where sa = st and sb = st and sc = st] by (auto simp: col_transferFromWithProvenance_Some)

lemma approve_commitment_step:
  assumes "col_approveSRRByCommitment env t c hash custom sender st = Some (st', es)" and "col_exists t st"
  shows "col_step K st (col_ops K es) st'"
  using assms
  by (intro col_committed [where t = t and c = c])
    (auto simp: col_approveSRRByCommitment_def when_sr_def commitments_of_def fun_eq_iff NO_CUSTOM_HISTORY_def split: if_splits)

text \<open>The invariant: identifiers have at most twelve digits, nobody is approved for a token that does not exist or by the
  zero address, balances count tokens although they are unchecked, royalties are at most the whole price.\<close>

definition col_ok :: "col_state \<Rightarrow> bool" where
  "col_ok st \<longleftrightarrow>
     (\<forall>t. if col_exists t st then t \<in> possible_ids else cl_getApproved st t = ZERO_ADDRESS) \<and>
     (\<forall>a. \<not> cl_isApprovedForAll st ZERO_ADDRESS a) \<and>
     (\<forall>a. a \<noteq> ZERO_ADDRESS \<longrightarrow> unat (cl_balanceOf st a) = card {t. cl_ownerOf st t = a}) \<and>
     (\<forall>t. unat (ri_basisPoints (cl_royalties st t)) \<le> 10000)"

lemma col_transfer_step:
  assumes "col_base_transferFrom m a b t st = Some (st', es)" and "col_ok st" and "msg_sender m \<noteq> ZERO_ADDRESS"
  shows "col_step K st (col_ops K es) st'"
proof -
  have given: "a = cl_ownerOf st t" "col_move a b t st = Some (st', es)"
      "msg_sender m = a \<or> cl_isApprovedForAll st a (msg_sender m) \<or> msg_sender m = cl_getApproved st t"
    using assms(1) by (auto simp: col_base_transferFrom_def)
  have "col_exists t st"
  proof (rule ccontr)
    assume "\<not> col_exists t st"
    then have "a = ZERO_ADDRESS" "cl_getApproved st t = ZERO_ADDRESS"
      using given(1) assms(2) by (simp_all add: col_ok_def col_exists_def)
    then show False using given(3) assms(2,3) by (simp add: col_ok_def)
  qed
  from move_step [OF given(2) this given(1)] show ?thesis by simp
qed

lemma col_approve_step:
  assumes "col_base_approve m b t st = Some (st', es)" and "col_ok st" and "msg_sender m \<noteq> ZERO_ADDRESS"
  shows "col_step K st (col_ops K es) st'"
proof -
  have "col_exists t st" using assms by (auto simp: col_base_approve_def col_ok_def col_exists_def)
  then show ?thesis
    using assms(1) by (auto simp: col_base_approve_def approvals_kept_def commitments_of_def fun_eq_iff intro!: col_other)
qed

lemma col_operator_step:
  assumes "col_base_setApprovalForAll m b f st = Some (st', es)" and "msg_sender m \<noteq> ZERO_ADDRESS"
  shows "col_step K st (col_ops K es) st'"
  using assms by (auto simp: col_base_setApprovalForAll_def approvals_kept_def commitments_of_def fun_eq_iff intro!: col_other)

lemma col_cancel_step:
  assumes "col_clearSRRCommitment t st = Some (st', [])" and "col_exists t st"
  shows "col_step K st [Withdraw (K (uint t))] st'"
  using assms by (intro col_withdrawn) (auto simp: col_clearSRRCommitment_def commitments_of_def fun_eq_iff no_approval_def)

text \<open>Calls that do nothing to the owners, approvals and commitments.\<close>

fun quiet_call :: "col_call \<Rightarrow> bool" where
  "quiet_call (CL_updateSRR t p a) = True"
| "quiet_call (CL_addHistory ts hs) = True"
| "quiet_call (CL_updateSRRRoyalty t r p) = True"
| "quiet_call (CL_updateSRRRoyaltyReceiverMulti ts r) = True"
| "quiet_call (CL_setLockExternalTransfer t f) = True"
| "quiet_call (CL_updateSRRMetadata t d) = True"
| "quiet_call (CL_transferOwnership a) = True"
| "quiet_call (CL_CollectionProxy_initialize a) = True"
| "quiet_call (CL_OwnableFeature_initialize a) = True"
| "quiet_call (CL_ERC721Feature_initialize n sy) = True"
| "quiet_call _ = False"

lemma quiet_calls: "quiet_call c \<Longrightarrow> stepping (run_col_call e env m c)"
  by (cases c) (simp_all add: stepping_statements stepping_assign col_addHistory_def)

lemma col_call_step:
  assumes "run_col_call e env m c st = Some (st', es)" and "col_ok st" and "msg_sender m \<noteq> ZERO_ADDRESS"
  shows "col_step K st (col_ops K es) st'"
proof -
  note transfer = col_transfer_step [OF _ assms(2,3)]
  have stepD: "stepping s \<Longrightarrow> s st = Some (st', es) \<Longrightarrow> col_step K st (col_ops K es) st'" for s
    unfolding stepping_def by blast
  have quiet: "quiet_call c \<Longrightarrow> ?thesis" using stepD [OF quiet_calls assms(1)] .
  show ?thesis
  proof (cases c)
    case (CL_safeTransferFromData a b t d)
    then show ?thesis using assms(1) by (auto simp: col_receivedCheck_def intro: transfer)
  next
    case (CL_approve b t)
    then show ?thesis using assms(1) by (auto intro: col_approve_step [OF _ assms(2,3)])
  next
    case (CL_setApprovalForAll b f)
    then show ?thesis using assms(1) by (auto intro: col_operator_step [OF _ assms(3)])
  next
    case (CL_transferFromWithProvenance b t h ch i)
    then show ?thesis using assms(1) by (auto intro: provenance_stepping)
  next
    case (CL_transferFromWithProvenanceFromBulk s b t h ch i)
    then show ?thesis
      using assms(1) by (auto simp: onlyCollectionOwnerOrSRROwner_def intro: provenance_stepping)
  next
    case (CL_approveSRRByCommitmentFromBulk s t c h ch)
    then show ?thesis
      using assms(1) by (auto simp: onlyCollectionOwnerOrSRROwner_def intro: approve_commitment_step)
  next
    case (CL_approveSRRByCommitment t c h)
    then show ?thesis
      using assms(1) by (auto simp: onlyCollectionOwnerOrSRROwner_def intro: approve_commitment_step)
  next
    case (CL_approveSRRByCommitmentWithCustomHistory t c h ch)
    then show ?thesis
      using assms(1) by (auto simp: onlyCollectionOwnerOrSRROwner_def intro: approve_commitment_step)
  next
    case (CL_cancelSRRCommitment t)
    then show ?thesis
      using assms(1) by (auto simp: onlyCollectionOwnerOrSRROwner_def col_clearSRRCommitment_def intro!: col_cancel_step)
  next
    case (CL_createSRR p artist cid lock to receiver points)
    then show ?thesis using assms(1) stepD [OF create_to_stepping] by auto
  next
    case (CL_createSRRFromBulk p artist cid issuer lock to receiver points)
    then show ?thesis using assms(1) stepD [OF create_to_stepping] by auto
  next
    case (CL_transferSRRByReveal b rv t i)
    then show ?thesis using assms(1) stepD [OF reveal_stepping] by simp
  next
    case (CL_transferFrom a b t)
    then show ?thesis using assms(1) by (auto intro: transfer)
  next
    case (CL_safeTransferFrom a b t)
    then show ?thesis using assms(1) by (auto intro: transfer)
  qed (simp_all add: quiet)
qed

section \<open>The invariant\<close>

lemma few_possible: "finite possible_ids" "card possible_ids \<le> 10 ^ 12"
proof -
  have "possible_ids \<subseteq> word_of_nat ` {..< 10 ^ 12}"
  proof
    fix t :: "256 word" assume "t \<in> possible_ids"
    then have "unat t < 10 ^ 12" by (simp add: possible_ids_def)
    moreover have "t = word_of_nat (unat t)" by simp
    ultimately show "t \<in> word_of_nat ` {..< 10 ^ 12}" by blast
  qed
  then have "card possible_ids \<le> card ((word_of_nat :: nat \<Rightarrow> 256 word) ` {..< 10 ^ 12})"
    by (intro card_mono) simp_all
  also have "\<dots> \<le> 10 ^ 12" using card_image_le [of "{..< (10 :: nat) ^ 12}"] by simp
  finally show "card possible_ids \<le> 10 ^ 12" .
  show "finite possible_ids" by simp
qed

lemma balance_room:
  assumes "col_ok st" and "a \<noteq> ZERO_ADDRESS"
  shows "cl_balanceOf st a \<noteq> - 1"
proof -
  have "{t. cl_ownerOf st t = a} \<subseteq> possible_ids" using assms by (auto simp: col_ok_def col_exists_def split: if_splits)
  then have "card {t. cl_ownerOf st t = a} \<le> 10 ^ 12" using few_possible card_mono le_trans by blast
  then have "unat (cl_balanceOf st a) \<le> 10 ^ 12" using assms by (simp add: col_ok_def)
  then show ?thesis by (auto simp: unsigned_minus_1_eq_mask mask_eq_exp_minus_1)
qed

lemma balance_owner:
  assumes "col_ok st" and "col_exists t st"
  shows "cl_balanceOf st (cl_ownerOf st t) \<noteq> 0"
proof -
  have "t \<in> {u. cl_ownerOf st u = cl_ownerOf st t}" by simp
  then have "0 < card {u. cl_ownerOf st u = cl_ownerOf st t}" by (metis card_gt_0_iff empty_iff finite)
  moreover have "unat (cl_balanceOf st (cl_ownerOf st t)) = card {u. cl_ownerOf st u = cl_ownerOf st t}"
    using assms by (simp add: col_ok_def col_exists_def)
  ultimately show ?thesis by auto
qed

text \<open>The number of tokens after one changed its owner.\<close>

lemma moved_balances:
  assumes "col_ok st" and "cl_ownerOf st t = a" and "a \<noteq> ZERO_ADDRESS" and "c \<noteq> ZERO_ADDRESS"
  shows "unat (moved_count a b (cl_balanceOf st) c) = card {u. ((cl_ownerOf st)(t := b)) u = c}"
proof (cases "b = a")
  case True
  then have "(cl_ownerOf st)(t := b) = cl_ownerOf st" "moved_count a b (cl_balanceOf st) = cl_balanceOf st"
    using assms(2) by (auto simp: moved_count_def Let_def)
  then show ?thesis using assms(1,4) by (simp add: col_ok_def)
next
  case False
  have count: "unat (cl_balanceOf st c) = card {x. cl_ownerOf st x = c}" if "c \<noteq> ZERO_ADDRESS" for c
    using assms(1) that by (simp add: col_ok_def)
  have left: "card ({x. cl_ownerOf st x = a} - {t}) = card {x. cl_ownerOf st x = a} - 1" using assms(2) by simp
  have rest: "card ({x. cl_ownerOf st x = c} - {t}) = card {x. cl_ownerOf st x = c}" if "c \<noteq> a" for c
    using that assms(2) by (intro arg_cong [where f = card]) auto
  have "cl_balanceOf st a \<noteq> 0" using balance_owner [OF assms(1), of t] assms(2,3) by (simp add: col_exists_def)
  then show ?thesis
    using False left rest [of c] assms owned_mint [of "cl_ownerOf st" t b c] count [of c] balance_room [OF assms(1), of c]
      unat_inc [of "cl_balanceOf st c"] unat_dec [of "cl_balanceOf st c"]
    by (cases "c = a"; cases "c = b") (simp_all add: moved_count_def Let_def)
qed

lemma minted_balances:
  assumes "col_ok st" and "\<not> col_exists t st" and "a \<noteq> ZERO_ADDRESS" and "c \<noteq> ZERO_ADDRESS"
  shows "unat (((cl_balanceOf st)(a := cl_balanceOf st a + 1)) c) = card {u. ((cl_ownerOf st)(t := a)) u = c}"
proof -
  have "card ({x. cl_ownerOf st x = c} - {t}) = card {x. cl_ownerOf st x = c}"
    using assms(2,4) by (intro arg_cong [where f = card]) (auto simp: col_exists_def)
  moreover have "unat (cl_balanceOf st c) = card {x. cl_ownerOf st x = c}" using assms(1,4) by (simp add: col_ok_def)
  ultimately show ?thesis
    using assms owned_mint [of "cl_ownerOf st" t a c] unat_inc [OF balance_room [OF assms(1,4)]]
    by (cases "c = a") (simp_all add: col_exists_def)
qed

lemma col_ok_kept:
  assumes "col_ok st" and "cl_ownerOf st' = cl_ownerOf st" and "cl_balanceOf st' = cl_balanceOf st"
    and "approvals_kept st st'" and "royalties_kept st st'"
  shows "col_ok st'"
proof -
  have "col_exists t st' = col_exists t st" for t using assms(2) by (simp add: col_exists_def)
  moreover have "unat (ri_basisPoints (cl_royalties st' u)) \<le> 10000" for u
    using assms(1,5) unfolding royalties_kept_def col_ok_def by metis
  ultimately show ?thesis using assms(1-4) by (auto simp: col_ok_def approvals_kept_def)
qed

lemma step_ok: "col_step K st ops st' \<Longrightarrow> col_ok st \<Longrightarrow> col_ok st'"
proof (induction rule: col_step.induct)
  case (col_minted t st a st')
  have "col_exists u st' \<longleftrightarrow> u = t \<or> col_exists u st" for u using col_minted.hyps(2,4) by (simp add: col_exists_def)
  moreover have "unat (ri_basisPoints (cl_royalties st' u)) \<le> 10000" for u
    using col_minted.hyps(8) col_minted.prems unfolding royalties_kept_def col_ok_def by metis
  ultimately show ?case
    using col_minted.hyps(3-6) col_minted.prems minted_balances [OF col_minted.prems col_minted.hyps(1,2)]
    by (auto simp: col_ok_def approvals_kept_def)
next
  case (col_moved t st a st' b ops)
  have a: "a \<noteq> ZERO_ADDRESS" using col_moved.hyps(1,2) by (simp add: col_exists_def)
  have "t \<in> possible_ids" using col_moved.hyps(1) col_moved.prems unfolding col_ok_def by metis
  moreover have "u \<noteq> t \<Longrightarrow> col_exists u st' = col_exists u st" for u using col_moved.hyps(3) by (simp add: col_exists_def)
  ultimately have "if col_exists u st' then u \<in> possible_ids else cl_getApproved st' u = ZERO_ADDRESS" for u
    using col_moved.hyps(5) col_moved.prems by (cases "u = t") (auto simp: col_ok_def)
  moreover have "unat (cl_balanceOf st' c) = card {u. cl_ownerOf st' u = c}" if "c \<noteq> ZERO_ADDRESS" for c
    using moved_balances [OF col_moved.prems col_moved.hyps(2) [symmetric] a that] col_moved.hyps(3,4) by simp
  moreover have "unat (ri_basisPoints (cl_royalties st' u)) \<le> 10000" for u
    using col_moved.hyps(8) col_moved.prems unfolding royalties_kept_def col_ok_def by metis
  ultimately show ?case using col_moved.hyps(6) col_moved.prems unfolding col_ok_def by simp
qed (use col_ok_kept in blast)+

lemma col_call_ok: "run_col_call e env m c st = Some (st', es) \<Longrightarrow> msg_sender m \<noteq> ZERO_ADDRESS \<Longrightarrow> col_ok st \<Longrightarrow> col_ok st'"
  using col_call_step step_ok by blast

lemma empty_col_ok: "col_ok empty_collection"
  by (simp add: col_ok_def empty_collection_def col_exists_def)

section \<open>Who changes the owner of a token\<close>

definition col_moved_with_right :: "evm \<Rightarrow> col_env \<Rightarrow> message \<Rightarrow> col_call \<Rightarrow> 256 word \<Rightarrow> col_state \<Rightarrow> bool" where
  "col_moved_with_right e env m c t st \<longleftrightarrow>
     (\<not> cl_locked st t \<and> (msg_sender m = cl_ownerOf st t \<or> cl_isApprovedForAll st (cl_ownerOf st t) (msg_sender m) \<or>
        msg_sender m = cl_getApproved st t)) \<or>
     col_msgSender env m st = cl_ownerOf st t \<or> col_msgSender env m st = cl_owner st \<or>
     (col_onlyBulk env m st \<and> (\<exists>signer to h ch i. c = CL_transferFromWithProvenanceFromBulk signer to t h ch i \<and>
        (signer = cl_owner st \<or> signer = cl_ownerOf st t))) \<or>
     (\<exists>to reveal i. c = CL_transferSRRByReveal to reveal t i \<and> evm_keccak256 e reveal = ca_commitment (cl_approvals st t))"

definition col_owners_changed :: "evm \<Rightarrow> col_env \<Rightarrow> message \<Rightarrow> col_call \<Rightarrow> col_state \<Rightarrow> col_state \<Rightarrow> bool" where
  "col_owners_changed e env m c st st' \<longleftrightarrow>
     cl_ownerOf st' = cl_ownerOf st \<or>
     (\<exists>t b. \<not> col_exists t st \<and> cl_ownerOf st' = (cl_ownerOf st)(t := b) \<and>
        (col_onlyTrustedForwarder env m st \<and> col_msgSender env m st = cl_owner st \<or> col_onlyBulk env m st)) \<or>
     (\<exists>t b. cl_ownerOf st' = (cl_ownerOf st)(t := b) \<and> col_moved_with_right e env m c t st)"

lemma col_created_owners:
  assumes "col_create_to e env m p artist cid issuer lock to receiver points bulk st = Some (st', es)"
    and "bulk \<Longrightarrow> col_onlyBulk env m st"
  shows "col_owners_changed e env m c st st'"
proof -
  let ?t = "generate_id e cid artist"
  obtain st1 es1 es2 where one: "col_create e env m p artist cid issuer lock receiver points bulk st = Some (st1, es1)"
      "when_sr (\<lambda>st. to \<noteq> ZERO_ADDRESS) (col_move issuer to ?t) st1 = Some (st', es2)"
    using assms(1) unfolding col_create_to_def by auto
  note c = col_create_Some [OF one(1)]
  have "\<exists>b. cl_ownerOf st' = (cl_ownerOf st)(?t := b)"
    using one(2) c(3) by (auto simp: when_sr_def col_move_Some split: if_splits)
  then show ?thesis using c(1,6) assms(2) unfolding col_owners_changed_def by blast
qed

lemma col_moved_owners:
  assumes "col_move a b t sa = Some (st', es)" and "cl_ownerOf sa = cl_ownerOf st" and "col_moved_with_right e env m c t st"
  shows "col_owners_changed e env m c st st'"
  using assms unfolding col_owners_changed_def by (auto simp: col_move_Some)

lemma col_base_owners:
  assumes "col_base_transferFrom m a b t st = Some (st', es)" and "onlyExternalTransferUnlocked t st"
  shows "col_owners_changed e env m c st st'"
proof -
  have "col_moved_with_right e env m c t st" "col_move a b t st = Some (st', es)"
    using assms by (auto simp: col_base_transferFrom_def col_moved_with_right_def onlyExternalTransferUnlocked_def)
  then show ?thesis using col_moved_owners by blast
qed

lemma col_provenance_owners:
  assumes "col_transferFromWithProvenance env m to t h ch i signer st = Some (st', es)"
    and "col_moved_with_right e env m c t st"
  shows "col_owners_changed e env m c st st'"
  using assms(1) col_moved_owners [OF _ refl assms(2)] by (auto simp: col_transferFromWithProvenance_Some)

lemma owners_same: "cl_ownerOf st' = cl_ownerOf st \<Longrightarrow> col_owners_changed e env m c st st'"
  by (simp add: col_owners_changed_def)

lemma col_owners_kept:
  "col_approveSRRByCommitment env t c h ch s st = Some (st', es) \<Longrightarrow> cl_ownerOf st' = cl_ownerOf st"
  "col_clearSRRCommitment t st = Some (st', es) \<Longrightarrow> cl_ownerOf st' = cl_ownerOf st"
  "col_base_approve m a t st = Some (st', es) \<Longrightarrow> cl_ownerOf st' = cl_ownerOf st"
  "col_base_setApprovalForAll m a f st = Some (st', es) \<Longrightarrow> cl_ownerOf st' = cl_ownerOf st"
  by (auto simp: col_approveSRRByCommitment_def col_clearSRRCommitment_def col_base_approve_def
      col_base_setApprovalForAll_def when_sr_def split: if_splits)

text \<open>Quiet calls never change an owner.\<close>

definition owners_fixed :: "col_stm \<Rightarrow> bool" where
  "owners_fixed s \<longleftrightarrow> (\<forall>st st' es. s st = Some (st', es) \<longrightarrow> cl_ownerOf st' = cl_ownerOf st)"

lemma owners_fixed_statements: "list_all owners_fixed ss \<Longrightarrow> owners_fixed (statements ss)"
proof (induction ss)
  case (Cons s ss)
  then have "owners_fixed s" "owners_fixed (statements ss)" by simp_all
  then show ?case unfolding owners_fixed_def by fastforce
qed (simp add: owners_fixed_def)

lemma owners_fixed_basic [simp]:
  "owners_fixed (require P)" "owners_fixed (emit ev)" "owners_fixed s \<Longrightarrow> owners_fixed (when_sr P s)"
  "(\<And>x. owners_fixed (f x)) \<Longrightarrow> owners_fixed (reading g f)"
  "owners_fixed (assign h) \<longleftrightarrow> (\<forall>st. cl_ownerOf (h st) = cl_ownerOf st)"
  by (auto simp: owners_fixed_def when_sr_def)

lemma owners_fixed_royalties [simp]:
  "owners_fixed (upsertRoyalty t r p)" "owners_fixed (col_updateSRRRoyalty env m t r p)"
  "owners_fixed (col_updateSRRRoyaltyReceiverMulti env m ts r)"
proof -
  show upsert: "owners_fixed (upsertRoyalty t r p)" for t r p
    by (simp add: upsertRoyalty_def owners_fixed_statements)
  show "owners_fixed (col_updateSRRRoyalty env m t r p)"
    by (simp add: col_updateSRRRoyalty_def owners_fixed_statements upsert)
  show "owners_fixed (col_updateSRRRoyaltyReceiverMulti env m ts r)"
    unfolding col_updateSRRRoyaltyReceiverMulti_def
    by (intro owners_fixed_statements) (simp add: owners_fixed_statements list_all_iff upsert)
qed

lemma quiet_owners: "quiet_call c \<Longrightarrow> run_col_call e env m c st = Some (st', es) \<Longrightarrow> cl_ownerOf st' = cl_ownerOf st"
proof -
  assume "quiet_call c"
  then have "owners_fixed (run_col_call e env m c)"
    by (cases c) (simp_all add: owners_fixed_statements col_addHistory_def)
  then show "run_col_call e env m c st = Some (st', es) \<Longrightarrow> cl_ownerOf st' = cl_ownerOf st"
    unfolding owners_fixed_def by blast
qed

lemma col_call_owners:
  assumes "run_col_call e env m c st = Some (st', es)"
  shows "col_owners_changed e env m c st st'"
proof (cases "quiet_call c")
  case True
  then show ?thesis using owners_same [OF quiet_owners [OF _ assms]] by blast
next
  case False
  then show ?thesis
  proof (cases c)
    case (CL_transferFrom a b t)
    then show ?thesis using assms by (auto intro: col_base_owners)
  next
    case (CL_safeTransferFrom a b t)
    then show ?thesis using assms by (auto intro: col_base_owners)
  next
    case (CL_safeTransferFromData a b t d)
    then show ?thesis using assms by (auto simp: col_receivedCheck_def intro: col_base_owners)
  next
    case (CL_transferFromWithProvenance b t h ch i)
    then show ?thesis using assms by (auto simp: col_moved_with_right_def intro!: col_provenance_owners)
  next
    case (CL_transferFromWithProvenanceFromBulk s b t h ch i)
    have right: "col_moved_with_right e env m c t st" and ex: "col_exists t st"
      using assms CL_transferFromWithProvenanceFromBulk
      by (auto simp: onlyCollectionOwnerOrSRROwner_def col_moved_with_right_def)
    have "col_transferFromWithProvenance env m b t h ch i s st = Some (st', es)"
      using assms CL_transferFromWithProvenanceFromBulk by auto
    then show ?thesis using right ex by (auto intro: col_provenance_owners)
  next
    case (CL_transferSRRByReveal b rv t i)
    have "col_moved_with_right e env m c t st"
      using assms CL_transferSRRByReveal by (auto simp: col_transferSRRByReveal_def col_moved_with_right_def)
    from col_moved_owners [OF _ _ this] show ?thesis
      using assms CL_transferSRRByReveal
      by (fastforce simp: col_transferSRRByReveal_def col_logProvenance_def col_clearSRRCommitment_def)
  next
    case (CL_createSRR p artist cid lock to receiver points)
    then show ?thesis using assms by (auto intro: col_created_owners)
  next
    case (CL_createSRRFromBulk p artist cid issuer lock to receiver points)
    then show ?thesis using assms by (auto intro: col_created_owners)
  qed (use assms in \<open>auto intro!: owners_same dest: col_owners_kept\<close>)
qed

end
