(* ===== verification/CollectionLedger.thy ===== *)
theory CollectionLedger
  imports CollectionFacts
begin

text \<open>
  The subgraph and a collection: the ledger of the subgraph follows the owners and commitments of the collection
  (\<open>follows\<close>), also over tokens that were sent to the zero address and created again, and every event of a
  collection is one that the handlers index.
\<close>

section \<open>The ledger follows the storage\<close>

text \<open>A token has no entity and does not exist, or its entity has the owner, which is zero for a token that was
  destroyed, and either no commitment or that of the storage.\<close>

definition follows :: "(int \<Rightarrow> string) \<Rightarrow> col_state \<Rightarrow> ledger \<Rightarrow> bool" where
  "follows K st L \<longleftrightarrow> (\<forall>t \<in> possible_ids.
     (L (K (uint t)) = None \<and> \<not> col_exists t st) \<or>
     (\<exists>c. L (K (uint t)) = Some (Some (cl_ownerOf st t), c) \<and> (c = None \<or> c = Some (commitments_of st t))))"

lemma follows_cong:
  "follows K st L \<Longrightarrow> cl_ownerOf st' = cl_ownerOf st \<Longrightarrow> commitments_of st' = commitments_of st \<Longrightarrow> follows K st' L"
  by (simp add: follows_def col_exists_def)

lemma follows_row:
  assumes "follows K st L" and "distinct_keys K possible_ids" and "t \<in> possible_ids"
    and "cl_ownerOf st' = (cl_ownerOf st)(t := a)" and "commitments_of st' = (commitments_of st)(t := d)"
    and "c = None \<or> c = Some d"
  shows "follows K st' (L(K (uint t) \<mapsto> (Some a, c)))"
  unfolding follows_def
proof
  fix u assume u: "u \<in> possible_ids"
  show "((L(K (uint t) \<mapsto> (Some a, c))) (K (uint u)) = None \<and> \<not> col_exists u st') \<or>
     (\<exists>c'. (L(K (uint t) \<mapsto> (Some a, c))) (K (uint u)) = Some (Some (cl_ownerOf st' u), c') \<and>
        (c' = None \<or> c' = Some (commitments_of st' u)))"
  proof (cases "u = t")
    case True
    then show ?thesis using assms(4-6) by simp
  next
    case False
    then have "K (uint u) \<noteq> K (uint t)" using same_key [OF assms(2) u assms(3)] by simp
    then show ?thesis using False assms(1,4,5) u by (auto simp: follows_def col_exists_def)
  qed
qed

lemma followsD:
  assumes "follows K st L" and "col_ok st" and "col_exists t st"
  obtains c where "t \<in> possible_ids" "L (K (uint t)) = Some (Some (cl_ownerOf st t), c)"
    "c = None \<or> c = Some (commitments_of st t)"
  using assms unfolding follows_def col_ok_def by metis

text \<open>A transfer that is no mint concerns a token with an entity.\<close>

fun moves_known :: "ledger_op list \<Rightarrow> ledger \<Rightarrow> bool" where
  "moves_known [] L = True"
| "moves_known (x # ops) L =
     ((case x of Move k to \<Rightarrow> is_set (L k) | _ \<Rightarrow> True) \<and> moves_known ops (ledger_step x L))"

lemma moves_known_append [simp]:
  "moves_known (ops @ ops') L \<longleftrightarrow> moves_known ops L \<and> moves_known ops' (ledger_fold ops L)"
  by (induction ops arbitrary: L) auto

lemma step_follows:
  assumes "col_step K st ops st'" and "distinct_keys K possible_ids" and "col_ok st" and "follows K st L"
  shows "moves_known ops L \<and> follows K st' (ledger_fold ops L)"
  using assms
proof (induction arbitrary: L rule: col_step.induct)
  case (col_other st' st)
  then show ?case using follows_cong by simp
next
  case (col_minted t st a st')
  have "L (K (uint t)) = None \<or> (\<exists>c. L (K (uint t)) = Some (Some (cl_ownerOf st t), c) \<and>
      (c = None \<or> c = Some (commitments_of st t)))"
    using col_minted.prems(3) col_minted.hyps(3) unfolding follows_def by blast
  then obtain c where "ledger_step (Mint (K (uint t)) a) L = L(K (uint t) \<mapsto> (Some a, c))"
      "c = None \<or> c = Some (commitments_of st t)" by auto
  then show ?case
    using follows_row [OF col_minted.prems(3,1) col_minted.hyps(3,4), of "commitments_of st t" c] col_minted.hyps(7)
    by (simp add: fun_upd_def)
next
  case (col_moved t st a st' b ops)
  obtain c where L: "t \<in> possible_ids" "L (K (uint t)) = Some (Some (cl_ownerOf st t), c)"
    using followsD [OF col_moved.prems(3,2) col_moved.hyps(1)] .
  obtain d where d: "commitments_of st' = (commitments_of st)(t := d)" using col_moved.hyps(7) by (metis fun_upd_triv)
  show ?case
    using follows_row [OF col_moved.prems(3,1) L(1) col_moved.hyps(3) d, of None] col_moved.hyps(9) L(2)
    by (auto simp: is_set_def fun_upd_def cong: if_cong)
next
  case (col_committed t st st' c ops)
  obtain d where L: "t \<in> possible_ids" "L (K (uint t)) = Some (Some (cl_ownerOf st t), d)"
    using followsD [OF col_committed.prems(3,2) col_committed.hyps(1)] .
  show ?case
    using follows_row [OF col_committed.prems(3,1) L(1), of st' "cl_ownerOf st t" c "Some c"] col_committed.hyps L(2)
    by (auto simp: fun_upd_def cong: if_cong)
next
  case (col_withdrawn t st st')
  obtain d where L: "t \<in> possible_ids" "L (K (uint t)) = Some (Some (cl_ownerOf st t), d)"
    using followsD [OF col_withdrawn.prems(3,2) col_withdrawn.hyps(1)] .
  show ?case
    using follows_row [OF col_withdrawn.prems(3,1) L(1), of st' "cl_ownerOf st t" NO_COMMITMENT None] col_withdrawn.hyps L(2)
    by (auto simp: fun_upd_def cong: if_cong)
next
  case (col_then st ops1 sa ops2 sb)
  then show ?case using step_ok [OF col_then.hyps(1)] by simp
qed

section \<open>Runs\<close>

definition senders_are_accounts :: "(col_env \<times> message \<times> col_call) list \<Rightarrow> bool" where
  "senders_are_accounts cs \<longleftrightarrow> list_all (\<lambda>(env, m, c). msg_sender m \<noteq> ZERO_ADDRESS) cs"

lemma col_calls_step:
  assumes "run_col_calls e cs st = Some (st', es)" and "senders_are_accounts cs" and "col_ok st"
  shows "col_step K st (col_ops K es) st'"
  using assms
proof (induction cs arbitrary: st es)
  case Nil
  then show ?case by (auto intro!: col_other)
next
  case (Cons x cs)
  obtain env m c where x: "x = (env, m, c)" by (cases x)
  with Cons.prems(1) obtain sa es1 es2 where one: "run_col_call e env m c st = Some (sa, es1)"
      "run_col_calls e cs sa = Some (st', es2)" "es = es1 @ es2" by auto
  have m: "msg_sender m \<noteq> ZERO_ADDRESS" "senders_are_accounts cs"
    using Cons.prems(2) x by (simp_all add: senders_are_accounts_def)
  have "col_ok sa" using col_call_ok [OF one(1) m(1) Cons.prems(3)] .
  from Cons.IH [OF one(2) m(2) this] col_call_step [OF one(1) Cons.prems(3) m(1)]
  show ?case using one(3) by (auto intro: col_then)
qed

lemma col_calls_ok:
  "run_col_calls e cs st = Some (st', es) \<Longrightarrow> senders_are_accounts cs \<Longrightarrow> col_ok st \<Longrightarrow> col_ok st'"
  using step_ok [OF col_calls_step] by blast

section \<open>The subgraph follows a collection\<close>

definition col_digests_readable :: "host \<Rightarrow> collection_event list \<Rightarrow> bool" where
  "col_digests_readable h rs \<longleftrightarrow> list_all (collection_legal h (\<lambda>_. True)) rs"

definition collection_chain :: "eth_event list \<Rightarrow> collection_event list \<Rightarrow> (eth_event \<times> trigger) list" where
  "collection_chain evs rs = zip evs (map Collection rs)"

definition ops_of :: "(int \<Rightarrow> string) \<Rightarrow> collection_event list \<Rightarrow> ledger_op list" where
  "ops_of K rs = concat (map (\<lambda>r. case collection_op K r of None \<Rightarrow> [] | Some x \<Rightarrow> [x]) rs)"

lemma ops_of_simps [simp]:
  "ops_of K [] = []" "ops_of K (r # rs) = (case collection_op K r of None \<Rightarrow> [] | Some x \<Rightarrow> [x]) @ ops_of K rs"
  by (simp_all add: ops_of_def)

lemma collection_event_legal:
  "collection_legal h (\<lambda>_. True) r \<Longrightarrow> moves_known (ops_of K [r]) L \<Longrightarrow> collection_legal h (\<lambda>tok. is_set (L (K tok))) r"
  by (cases r) (auto simp: transfer_op_def split: if_splits)

lemma effect_of_ops: "ledger_effect (collection_op K r) L = ledger_fold (ops_of K [r]) L"
  by (simp add: ledger_effect_def split: option.split)

lemma collection_chain_legal:
  assumes "found_in C evs rs" and "col_digests_readable h rs" and "moves_known (ops_of (srrEntityId h C) rs) L"
  shows "legal_chain h (collection_chain evs rs) L \<and>
    ledger_of_run h (collection_chain evs rs) L = ledger_fold (ops_of (srrEntityId h C) rs) L"
proof -
  have "length evs = length rs" using assms(1) by (simp add: found_in_def)
  then show ?thesis
    using assms unfolding collection_chain_def
  proof (induction evs rs arbitrary: L rule: list_induct2)
    case Nil
    then show ?case by (simp add: ledger_of_run_def)
  next
    case (Cons ev evs r rs)
    let ?K = "srrEntityId h C"
    have at: "ev_address ev = C" "valid_time (eventUTCMillis ev)" "found_in C evs rs" "length evs = length rs"
      using Cons.prems(1) Cons.hyps by (simp_all add: found_in_def)
    have ops: "ops_of ?K (r # rs) = ops_of ?K [r] @ ops_of ?K rs" by simp
    then have known: "moves_known (ops_of ?K [r]) L" "moves_known (ops_of ?K rs) (ledger_fold (ops_of ?K [r]) L)"
      using Cons.prems(3) by (simp_all only: moves_known_append)
    have d: "collection_legal h (\<lambda>_. True) r" "col_digests_readable h rs"
      using Cons.prems(2) by (simp_all add: col_digests_readable_def)
    have "seen_token h ev L = (\<lambda>tok. is_set (L (?K tok)))" by (simp add: fun_eq_iff seen_token_def at(1))
    then have "legal_event h (ev, Collection r) L" using collection_event_legal [OF d(1) known(1)] at(2) by simp
    moreover have "ledger_effect (event_op h (ev, Collection r)) L = ledger_fold (ops_of ?K [r]) L"
      by (simp add: effect_of_ops at(1) del: ops_of_simps)
    ultimately show ?case
      using Cons.IH [OF at(3) d(2) known(2)] unfolding ops by (simp add: ledger_of_run_def del: ops_of_simps)
  qed
qed

lemma collection_indexed:
  assumes "col_ok st" and "follows (srrEntityId h C) st Map.empty" and "run_col_calls e cs st = Some (st', es)"
    and "senders_are_accounts cs" and "found_in C evs (col_indexed es)" and "col_digests_readable h (col_indexed es)"
    and "distinct_keys (srrEntityId h C) possible_ids"
  shows "\<exists>s. run_subgraph h (collection_chain evs (col_indexed es)) empty_store = Inr s \<and> wf_store s \<and>
    follows (srrEntityId h C) st' (ledger_of s)"
proof -
  let ?K = "srrEntityId h C"
  have ops: "col_ops K es = ops_of K (col_indexed es)" for K by (simp add: col_ops_def ops_of_def)
  have step: "moves_known (ops_of ?K (col_indexed es)) Map.empty"
      "follows ?K st' (ledger_fold (ops_of ?K (col_indexed es)) Map.empty)"
    using step_follows [OF col_calls_step [OF assms(3,4,1)] assms(7,1,2)] unfolding ops by blast+
  note chain = collection_chain_legal [OF assms(5,6) step(1)]
  then obtain s where "run_subgraph h (collection_chain evs (col_indexed es)) empty_store = Inr s" "good_store s"
      "ledger_of s = ledger_fold (ops_of ?K (col_indexed es)) Map.empty"
    using legal_chain_indexed [OF good_empty, of h "collection_chain evs (col_indexed es)"] by auto
  then show ?thesis using step(2) by (auto simp: good_store_def)
qed

end
