(* ===== verification/CollectionFactory.thy ===== *)
theory CollectionFactory
  imports CollectionLedger Wallets
begin

text \<open>
  \<open>contracts/collection/CollectionFactoryV01.sol\<close> and \<open>CollectionRegistry.sol\<close>: the contract that creates collections,
  with the contracts it has created, and the subgraph of a collection from its creation on. The address of a new
  collection is a function of the salt (\<open>create2\<close>); the creation reverts where a contract is already.
\<close>

section \<open>The factory\<close>

record factory_world =
  fa_this :: address
  fa_initialized :: bool
  fa_owner :: address
  fa_featureRegistry :: address
  fa_collectionProxyImplementation :: address
  fa_collectionFactory :: address
  fa_registry :: "address \<Rightarrow> bool"
  fa_deployed :: "address \<Rightarrow> col_state option"

text \<open>The initializer also deploys the CollectionRegistry, whose only user is the factory.\<close>

definition factory_initialize :: "col_env \<Rightarrow> message \<Rightarrow> address \<Rightarrow> address \<Rightarrow> factory_world \<Rightarrow> factory_world option" where
  "factory_initialize env m featureRegistry collectionProxyImplementation w =
     (if fa_initialized w then None
      else if \<not> ce_hasCode env featureRegistry then None
      else if \<not> ce_hasCode env collectionProxyImplementation then None
      else Some (w\<lparr>fa_initialized := True, fa_featureRegistry := featureRegistry,
             fa_collectionProxyImplementation := collectionProxyImplementation, fa_collectionFactory := fa_this w,
             fa_registry := (\<lambda>_. False), fa_owner := msg_sender m\<rparr>))"

text \<open>The clones of the factory are at the addresses that \<open>create2\<close> gives its salts.\<close>

definition deployMinimalProxy :: "(bytes \<Rightarrow> address) \<Rightarrow> bytes \<Rightarrow> factory_world \<Rightarrow> (address \<times> factory_world) option" where
  "deployMinimalProxy create2 salt w =
     (case fa_deployed w (create2 salt) of
        Some _ \<Rightarrow> None
      | None \<Rightarrow> Some (create2 salt, w\<lparr>fa_deployed := (fa_deployed w)(create2 salt \<mapsto> empty_collection)\<rparr>))"

text \<open>A call of a collection that was deployed. The factory calls initializers only, which do not read their caller.\<close>

definition call_collection :: "evm \<Rightarrow> col_env \<Rightarrow> message \<Rightarrow> address \<Rightarrow> col_call \<Rightarrow> factory_world \<Rightarrow> (factory_world \<times> col_event list) option" where
  "call_collection e env m a c w =
     (case fa_deployed w a of
        None \<Rightarrow> None
      | Some st \<Rightarrow>
          (case run_col_call e env m c st of
             None \<Rightarrow> None
           | Some (st', es) \<Rightarrow> Some (w\<lparr>fa_deployed := (fa_deployed w)(a \<mapsto> st')\<rparr>, es)))"

definition addCollection :: "address \<Rightarrow> address \<Rightarrow> factory_world \<Rightarrow> factory_world option" where
  "addCollection sender collectionAddress w =
     (if sender \<noteq> fa_collectionFactory w then None
      else Some (w\<lparr>fa_registry := (fa_registry w)(collectionAddress := True)\<rparr>))"

definition createCollectionContract ::
  "evm \<Rightarrow> col_env \<Rightarrow> (bytes \<Rightarrow> address) \<Rightarrow> message \<Rightarrow> string \<Rightarrow> string \<Rightarrow> bytes \<Rightarrow> factory_world \<Rightarrow>
     (factory_world \<times> factory_event) option" where
  "createCollectionContract e env create2 m name symbol salt w =
     (let featureRegistry = fa_featureRegistry w; m' = \<lparr>msg_sender = fa_this w, msg_data = []\<rparr>
      in if \<not> col_isTrustedForwarder env m featureRegistry then None
         else if \<not> col_onlyLicensedUser env m featureRegistry then None
         else case deployMinimalProxy create2 salt w of
           None \<Rightarrow> None
         | Some (collectionAddress, w1) \<Rightarrow>
         (case call_collection e env m' collectionAddress (CL_CollectionProxy_initialize featureRegistry) w1 of
            None \<Rightarrow> None
          | Some (w2, _) \<Rightarrow>
         (let collectionCreatorLU = col_eip2771Sender env m featureRegistry
          in case call_collection e env m' collectionAddress (CL_OwnableFeature_initialize collectionCreatorLU) w2 of
               None \<Rightarrow> None
             | Some (w3, _) \<Rightarrow>
         (case call_collection e env m' collectionAddress (CL_ERC721Feature_initialize name symbol) w3 of
            None \<Rightarrow> None
          | Some (w4, _) \<Rightarrow>
         (case addCollection (fa_this w4) collectionAddress w4 of
            None \<Rightarrow> None
          | Some w5 \<Rightarrow> Some (w5, CollectionCreated collectionAddress collectionCreatorLU name symbol salt))))))"

section \<open>A new collection\<close>

lemma created_collection:
  assumes "createCollectionContract e env create2 m name symbol salt w = Some (w', ev)"
  shows "fa_deployed w (create2 salt) = None"
    "ev = CollectionCreated (create2 salt) (col_eip2771Sender env m (fa_featureRegistry w)) name symbol salt"
    "fa_deployed w' = (fa_deployed w)(create2 salt \<mapsto> empty_collection
       \<lparr>cl_featureRegistry := fa_featureRegistry w, cl_owner := col_eip2771Sender env m (fa_featureRegistry w),
        cl_name := name, cl_symbol := symbol\<rparr>)"
    "fa_registry w' = (fa_registry w)(create2 salt := True)"
    "col_isTrustedForwarder env m (fa_featureRegistry w)" "col_onlyLicensedUser env m (fa_featureRegistry w)"
  using assms
  by (auto simp: createCollectionContract_def deployMinimalProxy_def call_collection_def addCollection_def Let_def
      empty_collection_def split: if_splits option.splits)

text \<open>What the factory keeps: its registry lists the contracts it has deployed, and each of them is in order.\<close>

definition factory_ok :: "factory_world \<Rightarrow> bool" where
  "factory_ok w \<longleftrightarrow> (\<forall>a. fa_registry w a \<longleftrightarrow> fa_deployed w a \<noteq> None) \<and> (\<forall>a st. fa_deployed w a = Some st \<longrightarrow> col_ok st)"

lemma initial_ok: "col_ok (empty_collection\<lparr>cl_featureRegistry := r, cl_owner := a, cl_name := n, cl_symbol := s\<rparr>)"
  by (rule col_ok_kept [OF empty_col_ok]) simp_all

lemma factory_ok_created:
  "factory_ok w \<Longrightarrow> createCollectionContract e env create2 m name symbol salt w = Some (w', ev) \<Longrightarrow> factory_ok w'"
  using created_collection(3,4) [of e env create2 m name symbol salt w w' ev] initial_ok by (auto simp: factory_ok_def)

lemma factory_ok_called:
  assumes "factory_ok w" and "call_collection e env m a c w = Some (w', es)" and "msg_sender m \<noteq> ZERO_ADDRESS"
  shows "factory_ok w'"
proof -
  obtain st st' where "fa_deployed w a = Some st" "run_col_call e env m c st = Some (st', es)"
      "w' = w\<lparr>fa_deployed := (fa_deployed w)(a \<mapsto> st')\<rparr>"
    using assms(2) by (auto simp: call_collection_def split: option.splits)
  moreover from this have "col_ok st'" using assms(1,3) col_call_ok unfolding factory_ok_def by blast
  ultimately show ?thesis using assms(1) by (auto simp: factory_ok_def)
qed

lemma factory_ok_initial:
  "factory_initialize env m r i w = Some w' \<Longrightarrow> (\<And>a. fa_deployed w a = None) \<Longrightarrow> factory_ok w'"
  by (auto simp: factory_initialize_def factory_ok_def split: if_splits)

section \<open>Its owner, name and entity\<close>

text \<open>The owner that the events of a collection announce.\<close>

fun announced_owner :: "collection_event \<Rightarrow> address \<Rightarrow> address" where
  "announced_owner (C_OwnershipTransferred a b) o' = b"
| "announced_owner _ o' = o'"

definition announced :: "collection_event list \<Rightarrow> address \<Rightarrow> address" where
  "announced rs o' = fold announced_owner rs o'"

lemma announced_simps [simp]:
  "announced [] a = a" "announced (r # rs) a = announced rs (announced_owner r a)"
  "announced (rs @ rs') a = announced rs' (announced rs a)"
  by (simp_all add: announced_def)

text \<open>A statement that keeps owner and name, and announces no other owner.\<close>

definition owner_kept :: "col_stm \<Rightarrow> bool" where
  "owner_kept s \<longleftrightarrow> (\<forall>st st' es. s st = Some (st', es) \<longrightarrow> cl_owner st' = cl_owner st \<and> cl_name st' = cl_name st \<and>
     cl_symbol st' = cl_symbol st \<and> (\<forall>a. announced (col_indexed es) a = a))"

lemma owner_kept_statements: "list_all owner_kept ss \<Longrightarrow> owner_kept (statements ss)"
proof (induction ss)
  case (Cons s ss)
  then have "owner_kept s" "owner_kept (statements ss)" by simp_all
  then show ?case unfolding owner_kept_def by fastforce
qed (simp add: owner_kept_def)

lemma owner_kept_basic [simp]:
  "owner_kept (require P)" "owner_kept s \<Longrightarrow> owner_kept (when_sr P s)" "(\<And>x. owner_kept (f x)) \<Longrightarrow> owner_kept (reading g f)"
  "owner_kept (emit ev) \<longleftrightarrow> (\<forall>st a. announced (col_indexed [ev st]) a = a)"
  "owner_kept (assign h) \<longleftrightarrow> (\<forall>st. cl_owner (h st) = cl_owner st \<and> cl_name (h st) = cl_name st \<and> cl_symbol (h st) = cl_symbol st)"
  by (auto simp: owner_kept_def when_sr_def)

lemma owner_kept_parts [simp]:
  "owner_kept (upsertRoyalty t r p)" "owner_kept (col_updateSRRRoyalty env m t r p)"
  "owner_kept (col_move a b t)" "owner_kept (col_mint a t)" "owner_kept (col_receivedCheck env sd a b t d)"
  "owner_kept (col_logProvenance t a b h ch im s)" "owner_kept (col_clearSRRCommitment t)"
  "owner_kept (col_approveSRRByCommitment env t cm h ch a)" "owner_kept (col_base_transferFrom m a b t)"
  "owner_kept (col_base_approve m a t)" "owner_kept (col_base_setApprovalForAll m a f)" "owner_kept (col_addHistory env m ts hs)"
  "owner_kept (col_updateSRRRoyaltyReceiverMulti env m ts r)"
proof -
  show upsert: "owner_kept (upsertRoyalty t r p)" for t r p
    by (simp add: upsertRoyalty_def owner_kept_statements)
  then show "owner_kept (col_updateSRRRoyalty env m t r p)"
    by (simp add: col_updateSRRRoyalty_def owner_kept_statements)
  show move: "owner_kept (col_move a b t)" for a b t
    by (simp add: col_move_def col_add_balance_def owner_kept_statements)
  then show "owner_kept (col_base_transferFrom m a b t)" by (simp add: col_base_transferFrom_def owner_kept_statements)
  show "owner_kept (col_logProvenance t a b h ch im s)" by (simp add: col_logProvenance_def split: option.split)
  have "owner_kept (statements (map (\<lambda>t. reading (\<lambda>st. ri_basisPoints (cl_royalties st t)) (upsertRoyalty t r)) ts))"
    by (intro owner_kept_statements) (simp add: list_all_iff upsert)
  then show "owner_kept (col_updateSRRRoyaltyReceiverMulti env m ts r)"
    by (simp add: col_updateSRRRoyaltyReceiverMulti_def owner_kept_statements)
qed (simp_all add: col_mint_def col_add_balance_def col_receivedCheck_def col_clearSRRCommitment_def
    col_approveSRRByCommitment_def col_base_approve_def col_base_setApprovalForAll_def col_addHistory_def
    owner_kept_statements)

lemma owner_kept_composed [simp]:
  "owner_kept (col_create_to e env m p a cid i l b r bp fb)" "owner_kept (col_transferFromWithProvenance env m b t h ch im s)"
  "owner_kept (col_transferSRRByReveal e b rv t im)"
  by (simp_all add: col_create_to_def col_create_def Let_def col_transferFromWithProvenance_def col_transferSRRByReveal_def
      owner_kept_statements split: prod.split)

text \<open>A collection with an owner changes it only by announcing another; only the initializer changes the name.\<close>

lemma call_announces:
  assumes "run_col_call e env m c st = Some (st', es)" and "cl_owner st \<noteq> ZERO_ADDRESS"
  shows "cl_owner st' = announced (col_indexed es) (cl_owner st) \<and> cl_owner st' \<noteq> ZERO_ADDRESS"
    "cl_name st \<noteq> [] \<Longrightarrow> cl_symbol st \<noteq> [] \<Longrightarrow> cl_name st' = cl_name st \<and> cl_symbol st' = cl_symbol st"
proof -
  have kept: "cl_owner st' = cl_owner st \<and> cl_name st' = cl_name st \<and> cl_symbol st' = cl_symbol st \<and>
      (\<forall>a. announced (col_indexed es) a = a)" if "owner_kept (run_col_call e env m c)"
    using that assms(1) unfolding owner_kept_def by blast
  consider "owner_kept (run_col_call e env m c)" | a where "c = CL_transferOwnership a" | r where "c = CL_CollectionProxy_initialize r"
    | a where "c = CL_OwnableFeature_initialize a" | n sy where "c = CL_ERC721Feature_initialize n sy"
    by (cases c) (simp_all add: owner_kept_statements)
  then have both: "cl_owner st' = announced (col_indexed es) (cl_owner st) \<and> cl_owner st' \<noteq> ZERO_ADDRESS \<and>
      (cl_name st \<noteq> [] \<longrightarrow> cl_symbol st \<noteq> [] \<longrightarrow> cl_name st' = cl_name st \<and> cl_symbol st' = cl_symbol st)"
    by cases (use kept assms in auto)
  show "cl_owner st' = announced (col_indexed es) (cl_owner st) \<and> cl_owner st' \<noteq> ZERO_ADDRESS" using both by blast
  show "cl_name st \<noteq> [] \<Longrightarrow> cl_symbol st \<noteq> [] \<Longrightarrow> cl_name st' = cl_name st \<and> cl_symbol st' = cl_symbol st" using both by simp
qed

lemma calls_announce:
  assumes "run_col_calls e cs st = Some (st', es)" and "cl_owner st \<noteq> ZERO_ADDRESS"
  shows "cl_owner st' = announced (col_indexed es) (cl_owner st)"
    "cl_name st \<noteq> [] \<Longrightarrow> cl_symbol st \<noteq> [] \<Longrightarrow> cl_name st' = cl_name st \<and> cl_symbol st' = cl_symbol st"
proof -
  have "cl_owner st' = announced (col_indexed es) (cl_owner st) \<and>
      (cl_name st \<noteq> [] \<longrightarrow> cl_symbol st \<noteq> [] \<longrightarrow> cl_name st' = cl_name st \<and> cl_symbol st' = cl_symbol st)"
    using assms
  proof (induction cs arbitrary: st es)
    case (Cons x cs)
    obtain env m c where "x = (env, m, c)" by (cases x)
    with Cons.prems(1) obtain sa es1 es2 where one: "run_col_call e env m c st = Some (sa, es1)"
        "run_col_calls e cs sa = Some (st', es2)" "es = es1 @ es2" by auto
    note a = call_announces [OF one(1) Cons.prems(2)]
    from Cons.IH [OF one(2)] a(1) have "cl_owner st' = announced (col_indexed es2) (cl_owner sa)"
        "cl_name sa \<noteq> [] \<longrightarrow> cl_symbol sa \<noteq> [] \<longrightarrow> cl_name st' = cl_name sa \<and> cl_symbol st' = cl_symbol sa" by blast+
    then show ?case using a one(3) by auto
  qed auto
  then show "cl_owner st' = announced (col_indexed es) (cl_owner st)"
    "cl_name st \<noteq> [] \<Longrightarrow> cl_symbol st \<noteq> [] \<Longrightarrow> cl_name st' = cl_name st \<and> cl_symbol st' = cl_symbol st" by blast+
qed

section \<open>The entity of a collection\<close>

text \<open>The attributes of a collection's entity that the owner sees.\<close>

definition entity_shows :: "store \<Rightarrow> address \<Rightarrow> string \<Rightarrow> string \<Rightarrow> address \<Rightarrow> address \<Rightarrow> bool" where
  "entity_shows s C name symbol creator o' \<longleftrightarrow> (\<exists>col. collections s (toHex C) = Some col \<and> col_id col = toHex C \<and>
     col_name col = Some name \<and> col_symbol col = Some symbol \<and> col_creatorAddress col = Some creator \<and>
     col_ownerAddress col = Some o')"

lemma collection_event_shown:
  assumes "entity_shows s C name symbol creator a" and "ev_address ev = C" and "collection_dispatch h ev r s = Inr s'"
  shows "entity_shows s' C name symbol creator (announced_owner r a)"
proof (cases "\<exists>x y. r = C_OwnershipTransferred x y")
  case True
  then obtain x y where "r = C_OwnershipTransferred x y" by blast
  then show ?thesis
    using assms by (auto simp: entity_shows_def handleOwnershipTransferred_def split: option.splits)
next
  case False
  then have "aside_kept s s'" using aside_collection [of s h ev r] ensuresD [OF _ assms(3)] by blast
  moreover have "announced_owner r a = a" using False by (cases r) auto
  ultimately show ?thesis using assms(1) by (simp add: entity_shows_def aside_kept_def)
qed

lemma collection_chain_shown:
  assumes "found_in C evs rs" and "entity_shows s C name symbol creator a"
    and "run_subgraph h (collection_chain evs rs) s = Inr s'"
  shows "entity_shows s' C name symbol creator (announced rs a)"
proof -
  have "length evs = length rs" using assms(1) by (simp add: found_in_def)
  then show ?thesis
    using assms unfolding collection_chain_def
  proof (induction evs rs arbitrary: s a rule: list_induct2)
    case Nil
    then show ?case by (simp add: run_subgraph_def)
  next
    case (Cons ev evs r rs)
    have at: "ev_address ev = C" "found_in C evs rs" using Cons.prems(1) Cons.hyps by (simp_all add: found_in_def)
    obtain sa where one: "collection_dispatch h ev r s = Inr sa" "run_subgraph h (zip evs (map Collection rs)) sa = Inr s'"
      using Cons.prems(3) by (auto simp: run_subgraph_def)
    from Cons.IH [OF at(2) collection_event_shown [OF Cons.prems(2) at(1) one(1)] one(2)] show ?case by simp
  qed
qed

section \<open>From its creation on\<close>

text \<open>The chain of a collection: its creation by the factory and its events.\<close>

definition life_of_collection ::
  "eth_event \<Rightarrow> factory_event \<Rightarrow> eth_event list \<Rightarrow> col_event list \<Rightarrow> (eth_event \<times> trigger) list" where
  "life_of_collection ev0 fe evs es = (ev0, CollectionFactory fe) # collection_chain evs (col_indexed es)"

definition no_entities :: "host \<Rightarrow> address \<Rightarrow> store \<Rightarrow> bool" where
  "no_entities h C s \<longleftrightarrow> (\<forall>t \<in> possible_ids. srrs s (srrEntityId h C (uint t)) = None)"

lemma new_follows:
  assumes "no_entities h C s" and "cl_ownerOf st = (\<lambda>_. ZERO_ADDRESS)"
  shows "follows (srrEntityId h C) st (ledger_of s)"
  using assms by (simp add: follows_def no_entities_def ledger_of_def col_exists_def)

lemma life_indexed:
  assumes "createCollectionContract e env create2 m name symbol salt w = Some (w', fe)" and "fa_deployed w' C = Some st"
    and "C = create2 salt" and "cl_owner st \<noteq> ZERO_ADDRESS"
    and "run_col_calls e cs st = Some (st', es)" and "senders_are_accounts cs"
    and "valid_time (eventUTCMillis ev0)" and "found_in C evs (col_indexed es)" and "col_digests_readable h (col_indexed es)"
    and "distinct_keys (srrEntityId h C) possible_ids" and "good_store s" and "no_entities h C s"
  shows "\<exists>s'. run_subgraph h (life_of_collection ev0 fe evs es) s = Inr s' \<and> good_store s' \<and>
    follows (srrEntityId h C) st' (ledger_of s') \<and> entity_shows s' C name symbol (cl_owner st) (cl_owner st')"
proof -
  let ?K = "srrEntityId h C" and ?rs = "col_indexed es"
  note c = created_collection [OF assms(1)]
  have st: "st = empty_collection\<lparr>cl_featureRegistry := fa_featureRegistry w, cl_owner := cl_owner st, cl_name := name,
      cl_symbol := symbol\<rparr>" and fe: "fe = CollectionCreated C (cl_owner st) name symbol salt"
    using c(2,3) assms(2,3) by auto
  have ok: "col_ok st" using initial_ok st by metis
  have "cl_ownerOf st = (\<lambda>_. ZERO_ADDRESS)" using arg_cong [OF st, of cl_ownerOf] by (simp add: empty_collection_def)
  note new = new_follows [OF assms(12) this]
  have "legal_event h (ev0, CollectionFactory fe) (ledger_of s)" using assms(7) by (simp add: fe)
  from good_dispatch [OF assms(11) this] obtain sa where
    sa: "dispatch h (ev0, CollectionFactory fe) s = Inr sa" "good_store sa" "ledger_of sa = ledger_of s"
    by (auto simp: ledger_effect_def)
  have shown: "entity_shows sa C name symbol (cl_owner st) (cl_owner st)"
    using sa(1) by (auto simp: fe delegates handleCollectionCreatedInternal_def Let_def entity_shows_def new_col_def)
  have ops: "col_ops K es = ops_of K ?rs" for K by (simp add: col_ops_def ops_of_def)
  have step: "moves_known (ops_of ?K ?rs) (ledger_of sa)" "follows ?K st' (ledger_fold (ops_of ?K ?rs) (ledger_of sa))"
    using step_follows [OF col_calls_step [OF assms(5,6) ok] assms(10) ok new] unfolding ops sa(3) by blast+
  note chain = collection_chain_legal [OF assms(8,9) step(1)]
  then obtain s' where s': "run_subgraph h (collection_chain evs ?rs) sa = Inr s'" "good_store s'"
      "ledger_of s' = ledger_fold (ops_of ?K ?rs) (ledger_of sa)"
    using legal_chain_indexed [OF sa(2), of h "collection_chain evs ?rs"] by auto
  have "entity_shows s' C name symbol (cl_owner st) (cl_owner st')"
    using collection_chain_shown [OF assms(8) shown s'(1)] calls_announce(1) [OF assms(5,4)] by simp
  then show ?thesis
    using s' step(2) sa(1) by (simp add: life_of_collection_def run_subgraph_def)
qed

end
