(* ===== verification/CollectionSafety.thy ===== *)
theory CollectionSafety
  imports CollectionFactory
begin

text \<open>
  What a collection allows beside its rules: a token that is sent to the zero address can be created again and keeps
  what was stored for it, a transfer that is called safe does not ask the recipient, and who can rename a collection.
\<close>

section \<open>When calls succeed\<close>

lemma provenance_succeeds:
  assumes "col_exists t st" and "col_msgSender env m st = cl_owner st \<or> col_msgSender env m st = cl_ownerOf st t"
    and "\<not> ce_hasCode env to"
  shows "\<exists>st' es. run_col_call e env m (CL_transferFromWithProvenance to t h ch i) st = Some (st', es) \<and>
    st' = st\<lparr>cl_ownerOf := (cl_ownerOf st)(t := to), cl_balanceOf := moved_count (cl_ownerOf st t) to (cl_balanceOf st),
      cl_getApproved := (cl_getApproved st)(t := ZERO_ADDRESS)\<rparr>"
  using assms
  by (auto simp: col_transferFromWithProvenance_def col_logProvenance_def col_receivedCheck_def col_move_Some)

lemma create_succeeds:
  assumes "\<not> col_exists (generate_id e cid artist) st" and "col_onlyTrustedForwarder env m st"
    and "col_msgSender env m st = cl_owner st" and "cl_owner st \<noteq> ZERO_ADDRESS" and "cid \<noteq> []" and "artist \<noteq> ZERO_ADDRESS"
    and "receiver = ZERO_ADDRESS \<or> unat points \<le> 10000"
  defines "t \<equiv> generate_id e cid artist"
  shows "\<exists>st' es. run_col_call e env m (CL_createSRR p artist cid lock to receiver points) st = Some (st', es) \<and>
    cl_ownerOf st' t = (if to = ZERO_ADDRESS then cl_owner st else to) \<and> cl_locked st' t = (lock \<or> cl_locked st t) \<and>
    cl_approvals st' = cl_approvals st \<and>
    cl_royalties st' t = (if receiver = ZERO_ADDRESS then cl_royalties st t
      else \<lparr>ri_receiver = receiver, ri_basisPoints = points\<rparr>)"
  using assms
  by (auto simp: col_create_to_def col_create_def col_mint_def col_add_balance_def col_move_Some upsertRoyalty_def when_sr_def
      onlyCollectionOwner_def col_exists_def Let_def)

lemma reveal_succeeds_col:
  assumes "col_exists t st" and "evm_keccak256 e rv = ca_commitment (cl_approvals st t)"
  shows "\<exists>st' es. run_col_call e env m (CL_transferSRRByReveal to rv t i) st = Some (st', es) \<and> cl_ownerOf st' t = to"
  using assms by (auto simp: col_transferSRRByReveal_def col_logProvenance_def col_clearSRRCommitment_def col_move_Some)

section \<open>A token that was destroyed\<close>

text \<open>\<open>col_move\<close> does not look at the recipient, so a provenance or a reveal can send a token to the zero address.\<close>

lemma destroyed_token:
  assumes "col_exists t st" and "col_msgSender env m st = cl_owner st \<or> col_msgSender env m st = cl_ownerOf st t"
    and "\<not> ce_hasCode env ZERO_ADDRESS"
  obtains sa es where "run_col_call e env m (CL_transferFromWithProvenance ZERO_ADDRESS t h ch i) st = Some (sa, es)"
    "\<not> col_exists t sa" "cl_approvals sa = cl_approvals st" "cl_locked sa = cl_locked st" "cl_royalties sa = cl_royalties st"
    "cl_owner sa = cl_owner st" "cl_featureRegistry sa = cl_featureRegistry st"
  using provenance_succeeds [OF assms, of e h ch i] by (force simp: col_exists_def)

lemma token_returns:
  assumes "generate_id e cid artist = t" and "col_exists t st"
    and "col_onlyTrustedForwarder env m st" and "col_msgSender env m st = cl_owner st" and "cl_owner st \<noteq> ZERO_ADDRESS"
    and "\<not> ce_hasCode env ZERO_ADDRESS" and "cid \<noteq> []" and "artist \<noteq> ZERO_ADDRESS"
    and "evm_keccak256 e rv = ca_commitment (cl_approvals st t)" and "to \<noteq> ZERO_ADDRESS"
  shows "\<exists>sa es1 sb es2 sc es3.
    run_col_call e env m (CL_transferFromWithProvenance ZERO_ADDRESS t h ch i) st = Some (sa, es1) \<and> \<not> col_exists t sa \<and>
    run_col_call e env m (CL_createSRR p artist cid False to ZERO_ADDRESS 0) sa = Some (sb, es2) \<and> cl_ownerOf sb t = to \<and>
    cl_locked sb t = cl_locked st t \<and> cl_royalties sb t = cl_royalties st t \<and> cl_approvals sb t = cl_approvals st t \<and>
    run_col_call e env' m' (CL_transferSRRByReveal b rv t i') sb = Some (sc, es3) \<and> cl_ownerOf sc t = b"
proof -
  obtain sa es1 where sa: "run_col_call e env m (CL_transferFromWithProvenance ZERO_ADDRESS t h ch i) st = Some (sa, es1)"
      "\<not> col_exists t sa" "cl_approvals sa = cl_approvals st" "cl_locked sa = cl_locked st" "cl_royalties sa = cl_royalties st"
      "cl_owner sa = cl_owner st" "cl_featureRegistry sa = cl_featureRegistry st"
    using destroyed_token [OF assms(2) disjI1 [OF assms(4)] assms(6)] by metis
  have same: "col_onlyTrustedForwarder env m sa" "col_msgSender env m sa = cl_owner sa"
    using assms(3,4) sa(6,7) by (simp_all add: col_onlyTrustedForwarder_def col_msgSender_def)
  obtain sb es2 where sb: "run_col_call e env m (CL_createSRR p artist cid False to ZERO_ADDRESS 0) sa = Some (sb, es2)"
      "cl_ownerOf sb t = to" "cl_locked sb t = cl_locked sa t" "cl_approvals sb = cl_approvals sa"
      "cl_royalties sb t = cl_royalties sa t"
    using create_succeeds [of e cid artist sa env m ZERO_ADDRESS 0 p False to] sa(2,6) same assms(1,5,7,8,10) by auto
  have "col_exists t sb" "evm_keccak256 e rv = ca_commitment (cl_approvals sb t)"
    using sb(2,4) sa(3) assms(9,10) by (simp_all add: col_exists_def)
  from reveal_succeeds_col [OF this, of env' m' b i'] show ?thesis using sa(1-5) sb by metis
qed

section \<open>A transfer that is called safe\<close>

text \<open>\<open>safeTransferFrom\<close> without data calls \<open>transferFrom\<close> alone: a contract that takes no tokens is given one.\<close>

lemma safe_transfer_unchecked:
  assumes "run_col_call e env m (CL_transferFrom a b t) st = Some (st', es)" and "ce_hasCode env b"
    and "\<And>d. \<not> ce_onERC721Received env b (msg_sender m) a t d"
  shows "run_col_call e env m (CL_safeTransferFrom a b t) st = Some (st', es)" "cl_ownerOf st' t = b"
    "run_col_call e env m (CL_safeTransferFromData a b t d) st = None"
proof -
  show "run_col_call e env m (CL_safeTransferFrom a b t) st = Some (st', es)" using assms(1) by simp
  show "cl_ownerOf st' t = b" using assms(1) by (auto simp: col_base_transferFrom_def col_move_Some)
  show "run_col_call e env m (CL_safeTransferFromData a b t d) st = None"
    using assms(2,3) by (auto simp: statements.simps col_receivedCheck_def require_def split: option.split)
qed

section \<open>The name of a collection\<close>

text \<open>The initializer refuses only a collection that has both a name and a symbol.\<close>

lemma renamed_by_anyone:
  "cl_name st = [] \<or> cl_symbol st = [] \<Longrightarrow>
    run_col_call e env m (CL_ERC721Feature_initialize n sy) st = Some (st\<lparr>cl_name := n, cl_symbol := sy\<rparr>, [])"
  by (auto simp: statements.simps require_def assign_def)

lemma name_of_created:
  assumes "createCollectionContract e env create2 m name symbol salt w = Some (w', fe)"
    and "fa_deployed w' (create2 salt) = Some st"
  shows "cl_name st = name" "cl_symbol st = symbol" "cl_owner st = col_eip2771Sender env m (fa_featureRegistry w)" "col_ok st"
proof -
  have "st = empty_collection\<lparr>cl_featureRegistry := fa_featureRegistry w, cl_owner := col_eip2771Sender env m (fa_featureRegistry w),
      cl_name := name, cl_symbol := symbol\<rparr>"
    using created_collection(3) [OF assms(1)] assms(2) by simp
  then show "cl_name st = name" "cl_symbol st = symbol" "cl_owner st = col_eip2771Sender env m (fa_featureRegistry w)" "col_ok st"
    using initial_ok by simp_all
qed

section \<open>Royalties\<close>

lemma col_royalty_share:
  assumes "col_ok st" and "col_royaltyInfo t price st = Some (receiver, amount)"
  shows "amount \<le> price"
proof -
  let ?p = "if ri_receiver (cl_royalties st t) = ZERO_ADDRESS then 0 else ri_basisPoints (cl_royalties st t)"
  have p: "unat ?p \<le> 10000" using assms(1) by (simp add: col_ok_def)
  have fits: "unat price * unat ?p < 2 ^ 256" "amount = price * ucast ?p div 10000"
    using assms(2) by (auto simp: col_royaltyInfo_def Let_def split: if_splits)
  show ?thesis unfolding fits(2) by (rule share_of_price(2) [OF p fits(1)])
qed

section \<open>The tokens of a collection in the subgraph\<close>

lemma followed_token:
  assumes "follows K st (ledger_of s)" and "col_ok st" and "col_exists t st"
  shows "\<exists>srr. srrs s (K (uint t)) = Some srr \<and> srr_ownerAddress srr = Some (cl_ownerOf st t) \<and>
    (srr_transferCommitment srr = None \<or> srr_transferCommitment srr = Some (ca_commitment (cl_approvals st t)))"
proof -
  obtain c where "ledger_of s (K (uint t)) = Some (Some (cl_ownerOf st t), c)" "c = None \<or> c = Some (commitments_of st t)"
    using followsD [OF assms] by metis
  then show ?thesis by (auto simp: ledger_of_def commitments_of_def)
qed

lemma followed_absent:
  assumes "follows K st (ledger_of s)" and "t \<in> possible_ids" and "\<not> col_exists t st" and "srrs s (K (uint t)) = Some srr"
  shows "srr_ownerAddress srr = Some ZERO_ADDRESS"
proof -
  have "ledger_of s (K (uint t)) = Some (srr_ownerAddress srr, srr_transferCommitment srr)"
    using assms(4) by (simp add: ledger_of_def)
  moreover have "(ledger_of s (K (uint t)) = None \<and> \<not> col_exists t st) \<or>
      (\<exists>c. ledger_of s (K (uint t)) = Some (Some (cl_ownerOf st t), c) \<and> (c = None \<or> c = Some (commitments_of st t)))"
    using assms(1,2) unfolding follows_def by blast
  ultimately show ?thesis using assms(3) by (auto simp: col_exists_def)
qed

end
