(* ===== verification/BulkCollections.thy ===== *)
theory BulkCollections
  imports BulkSafety CollectionFacts
begin

text \<open>
  The bulk contract and the collections: a leaf that names a collection acts on it, and on no other contract, in the name
  of the signer of its batch, who must own the collection or the token.
\<close>

section \<open>The call a leaf leads to\<close>

lemma collection_target:
  assumes "call_target e env C c w = Some (w', es, tok)" and "C \<noteq> ZERO_ADDRESS" and "bw_collections w C = Some st"
  obtains cc st' es1 where "bulk_col_call c = Some cc"
    "run_col_call e (be_collections env) \<lparr>msg_sender = be_this env, msg_data = be_encode env c\<rparr> cc st = Some (st', es1)"
    "w' = w\<lparr>bw_collections := (bw_collections w)(C \<mapsto> st')\<rparr>" "es = map Collection (col_indexed es1)"
  using assms by (auto simp: call_target_def call_other_def split: option.splits)

lemma marked_leaf:
  assumes "process_leaf root leaf w = Some w1"
  shows "bw_collections w1 = bw_collections w" "bw_registry w1 = bw_registry w"
    "bb_signer (batch_of w1 root) = bb_signer (batch_of w root)" "bb_processedLeaves (batch_of w1 root) leaf"
  using assms processed_batch(2) [OF assms, of root]
  by (auto simp: process_leaf_def set_batch_def Let_def split: if_splits)

text \<open>What a leaf changes: the collection, and that it is processed.\<close>

definition leaf_changed :: "address \<Rightarrow> bytes \<Rightarrow> bytes \<Rightarrow> col_state \<Rightarrow> bulk_world \<Rightarrow> bulk_world \<Rightarrow> bool" where
  "leaf_changed C root leaf st' w w' \<longleftrightarrow> bw_collections w' = (bw_collections w)(C \<mapsto> st') \<and> bw_registry w' = bw_registry w \<and>
     bb_processedLeaves (batch_of w' root) leaf"

lemma leaf_on_collection:
  assumes "process_leaf root leaf w = Some w1" and "call_target e env C c w1 = Some (w2, es, tok)" and "C \<noteq> ZERO_ADDRESS"
    and "bw_collections w C = Some st" and "bulk_col_call c = Some cc"
  obtains st' es1 where
    "run_col_call e (be_collections env) \<lparr>msg_sender = be_this env, msg_data = be_encode env c\<rparr> cc st = Some (st', es1)"
    "leaf_changed C root leaf st' w w2"
proof -
  note m = marked_leaf [OF assms(1)]
  obtain st' es1 where c:
      "run_col_call e (be_collections env) \<lparr>msg_sender = be_this env, msg_data = be_encode env c\<rparr> cc st = Some (st', es1)"
      "w2 = w1\<lparr>bw_collections := (bw_collections w1)(C \<mapsto> st')\<rparr>"
    using collection_target [OF assms(2,3)] assms(4,5) m(1) by (metis option.inject)
  have "leaf_changed C root leaf st' w w2" using c(2) m by (simp add: leaf_changed_def)
  then show ?thesis using c that by blast
qed

section \<open>Its signer\<close>

lemma approval_on_collection:
  assumes "approveSRRByCommitmentWithProof e env p root leaf t c hh ch C w = Some (w', es)" and "C \<noteq> ZERO_ADDRESS"
    and "bw_collections w C = Some st"
  shows "\<exists>st'. leaf_changed C root leaf st' w w' \<and> bb_prepared (batch_of w root) \<and>
    bb_signer (batch_of w root) \<in> {cl_owner st, cl_ownerOf st t} \<and>
    ca_commitment (cl_approvals st' t) = c \<and> cl_ownerOf st' = cl_ownerOf st"
proof -
  let ?c = "SR_approveSRRByCommitmentFromBulk (bb_signer (batch_of w root)) t c hh ch"
  obtain w1 es1 tok where one: "process_leaf root leaf w = Some w1" "call_target e env C ?c w1 = Some (w', es1, tok)"
      "bb_prepared (batch_of w root)"
    using assms(1) marked_leaf(3)
    by (auto simp: approveSRRByCommitmentWithProof_def split: if_splits option.splits)
  obtain st' es2 where call: "run_col_call e (be_collections env) \<lparr>msg_sender = be_this env, msg_data = be_encode env ?c\<rparr>
        (CL_approveSRRByCommitmentFromBulk (bb_signer (batch_of w root)) t c hh ch) st = Some (st', es2)"
      "leaf_changed C root leaf st' w w'"
    by (rule leaf_on_collection [OF one(1,2) assms(2,3) bulk_col_call.simps(2)])
  have "ca_commitment (cl_approvals st' t) = c \<and> cl_ownerOf st' = cl_ownerOf st \<and>
      bb_signer (batch_of w root) \<in> {cl_owner st, cl_ownerOf st t}"
    using call(1) by (auto simp: onlyCollectionOwnerOrSRROwner_def col_approveSRRByCommitment_def when_sr_def split: if_splits)
  then show ?thesis using call(2) one(3) by blast
qed

lemma transfer_on_collection:
  assumes "transferFromWithProvenanceWithProof e env p root leaf b t hh ch im C w = Some (w', es)" and "C \<noteq> ZERO_ADDRESS"
    and "bw_collections w C = Some st"
  shows "\<exists>st'. leaf_changed C root leaf st' w w' \<and> bb_prepared (batch_of w root) \<and>
    bb_signer (batch_of w root) \<in> {cl_owner st, cl_ownerOf st t} \<and> cl_ownerOf st' = (cl_ownerOf st)(t := b)"
proof -
  let ?c = "SR_transferFromWithProvenanceFromBulk (bb_signer (batch_of w root)) b t hh ch im"
  obtain w1 es1 tok where one: "process_leaf root leaf w = Some w1" "call_target e env C ?c w1 = Some (w', es1, tok)"
      "bb_prepared (batch_of w root)"
    using assms(1) marked_leaf(3)
    by (auto simp: transferFromWithProvenanceWithProof_def split: if_splits option.splits)
  obtain st' es2 where call: "run_col_call e (be_collections env) \<lparr>msg_sender = be_this env, msg_data = be_encode env ?c\<rparr>
        (CL_transferFromWithProvenanceFromBulk (bb_signer (batch_of w root)) b t hh ch im) st = Some (st', es2)"
      "leaf_changed C root leaf st' w w'"
    by (rule leaf_on_collection [OF one(1,2) assms(2,3) bulk_col_call.simps(3)])
  have "cl_ownerOf st' = (cl_ownerOf st)(t := b) \<and> bb_signer (batch_of w root) \<in> {cl_owner st, cl_ownerOf st t}"
    using call(1) by (auto simp: onlyCollectionOwnerOrSRROwner_def col_transferFromWithProvenance_Some col_move_Some)
  then show ?thesis using call(2) one(3) by blast
qed

lemma create_to_owner:
  assumes "col_create_to e env m p artist cid issuer lock to receiver points bulk st = Some (st', es)"
  shows "\<not> col_exists (generate_id e cid artist) st"
    "cl_ownerOf st' = (cl_ownerOf st)(generate_id e cid artist := if to = ZERO_ADDRESS then issuer else to)"
proof -
  obtain sa es1 es2 where one: "col_create e env m p artist cid issuer lock receiver points bulk st = Some (sa, es1)"
      "when_sr (\<lambda>st. to \<noteq> ZERO_ADDRESS) (col_move issuer to (generate_id e cid artist)) sa = Some (st', es2)"
    using assms unfolding col_create_to_def by auto
  note c = col_create_Some [OF one(1)]
  show "\<not> col_exists (generate_id e cid artist) st" by (rule c(1))
  show "cl_ownerOf st' = (cl_ownerOf st)(generate_id e cid artist := if to = ZERO_ADDRESS then issuer else to)"
    using one(2) c(3) by (auto simp: when_sr_def col_move_Some split: if_splits)
qed

lemma creation_on_collection:
  assumes "createSRRWithProof e env p root leaf i w = Some (w', es)" and "ci_contractAddress i = C" and "C \<noteq> ZERO_ADDRESS"
    and "bw_collections w C = Some st"
  defines "t \<equiv> generate_id e (ci_metadataCID i) (ci_artistAddress i)" and "signer \<equiv> bb_signer (batch_of w root)"
  shows "\<exists>st'. leaf_changed C root leaf st' w w' \<and> signer = cl_owner st \<and> \<not> col_exists t st \<and>
    cl_ownerOf st' = (cl_ownerOf st)(t := if ci_to i = ZERO_ADDRESS then signer else ci_to i)"
proof -
  let ?c = "SR_createSRRFromBulk (ci_isPrimaryIssuer i) (ci_artistAddress i) (ci_metadataCID i) signer
    (ci_lockExternalTransfer i) (ci_to i) (ci_royaltyReceiver i) (ci_royaltyBasisPoints i)"
  obtain w1 es1 tok where one: "process_leaf root leaf w = Some w1" "call_target e env C ?c w1 = Some (w', es1, tok)"
    using assms(1,2) marked_leaf(3) by (auto simp: createSRRWithProof_def signer_def split: if_splits option.splits)
  obtain st' es2 where call: "run_col_call e (be_collections env) \<lparr>msg_sender = be_this env, msg_data = be_encode env ?c\<rparr>
        (CL_createSRRFromBulk (ci_isPrimaryIssuer i) (ci_artistAddress i) (ci_metadataCID i) signer
          (ci_lockExternalTransfer i) (ci_to i) (ci_royaltyReceiver i) (ci_royaltyBasisPoints i)) st = Some (st', es2)"
      "leaf_changed C root leaf st' w w'"
    by (rule leaf_on_collection [OF one assms(3,4) bulk_col_call.simps(1)])
  then obtain m es3 where "col_create_to e (be_collections env) m (ci_isPrimaryIssuer i) (ci_artistAddress i) (ci_metadataCID i)
      signer (ci_lockExternalTransfer i) (ci_to i) (ci_royaltyReceiver i) (ci_royaltyBasisPoints i) True st = Some (st', es3)"
      "signer = cl_owner st"
    by (auto simp: onlyCollectionOwner_def)
  then show ?thesis using create_to_owner call(2) unfolding t_def by metis
qed

end
