(* ===== verification/CollectionSamples.thy ===== *)
theory CollectionSamples
  imports RegistrySamples CollectionSafety BulkCollections
begin

text \<open>
  The collection of the witnesses: the factory creates it for the wallet of Alice, who issues a token with a royalty for
  Bob, commits it, sends it to Bob with a provenance, and gives the collection to Bob.
\<close>

section \<open>Its creation\<close>

definition sample_factory0 :: factory_world where
  "sample_factory0 = \<lparr>fa_this = replicate 20 8, fa_initialized = True, fa_owner = sample_admin,
     fa_featureRegistry = replicate 20 4, fa_collectionProxyImplementation = replicate 20 14,
     fa_collectionFactory = replicate 20 8, fa_registry = (\<lambda>_. False), fa_deployed = Map.empty\<rparr>"

definition sample_col0 :: col_state where
  "sample_col0 = empty_collection\<lparr>cl_featureRegistry := replicate 20 4, cl_owner := alice, cl_name := ''name'', cl_symbol := ''S''\<rparr>"

definition sample_factory1 :: factory_world where
  "sample_factory1 = sample_factory0\<lparr>fa_deployed := [carol \<mapsto> sample_col0], fa_registry := (\<lambda>_. False)(carol := True)\<rparr>"

definition sample_creation :: factory_event where
  "sample_creation = CollectionCreated carol alice ''name'' ''S'' [1]"

lemma sample_col_sender [simp]:
  "col_msgSender sample_col_env (by_wallet alice) st = alice" "col_eip2771Sender sample_col_env (by_wallet alice) r = alice"
  "col_onlyTrustedForwarder sample_col_env (by_wallet alice) st" "col_isTrustedForwarder sample_col_env (by_wallet alice) r"
  by (simp_all add: col_msgSender_def col_eip2771Sender_def col_onlyTrustedForwarder_def col_isTrustedForwarder_def by_wallet_def
      sample_col_env_def appended_sender_def sample_sr_addresses)

lemma sample_col_created:
  "createCollectionContract sample_evm sample_col_env (\<lambda>_. carol) (by_wallet alice) ''name'' ''S'' [1] sample_factory0 =
     Some (sample_factory1, sample_creation)"
proof -
  have licensed: "col_onlyLicensedUser sample_col_env (by_wallet alice) r" for r
    by (simp add: col_onlyLicensedUser_def) (simp add: sample_col_env_def)
  have zeros: "cl_featureRegistry empty_collection = ZERO_ADDRESS" "cl_owner empty_collection = ZERO_ADDRESS"
      "cl_name empty_collection = []" by (simp_all add: empty_collection_def)
  show ?thesis
    by (simp add: createCollectionContract_def Let_def licensed deployMinimalProxy_def call_collection_def addCollection_def
        statements.simps require_def assign_def zeros sample_factory0_def sample_factory1_def sample_creation_def sample_col0_def)
qed

section \<open>Its run\<close>

definition sample_col_create :: col_call where
  "sample_col_create = CL_createSRR True alice ''cid'' False ZERO_ADDRESS bob 500"

definition sample_col_commit :: col_call where
  "sample_col_commit = CL_approveSRRByCommitment sample_id sample_commitment ''h''"

definition sample_col_send :: col_call where
  "sample_col_send = CL_transferFromWithProvenance bob sample_id ''h'' 0 False"

definition sample_col_give :: col_call where
  "sample_col_give = CL_transferOwnership bob"

definition sample_col1 :: col_state where
  "sample_col1 = sample_col0\<lparr>
     cl_ownerOf := (cl_ownerOf sample_col0)(sample_id := alice),
     cl_balanceOf := (cl_balanceOf sample_col0)(alice := cl_balanceOf sample_col0 alice + 1),
     cl_srrs := (cl_srrs sample_col0)(sample_id := \<lparr>cs_isPrimaryIssuer = True, cs_artist = alice, cs_issuer = alice\<rparr>),
     cl_metadata := (cl_metadata sample_col0)(sample_id := ''cid''),
     cl_royalties := (cl_royalties sample_col0)(sample_id := \<lparr>ri_receiver = bob, ri_basisPoints = 500\<rparr>)\<rparr>"

definition sample_col2 :: col_state where
  "sample_col2 = sample_col1\<lparr>cl_approvals := (cl_approvals sample_col1)(sample_id :=
     no_approval\<lparr>ca_commitment := sample_commitment, ca_historyMetadataHash := ''h''\<rparr>)\<rparr>"

definition sample_col3 :: col_state where
  "sample_col3 = sample_col2\<lparr>cl_ownerOf := (cl_ownerOf sample_col2)(sample_id := bob),
     cl_balanceOf := moved_count alice bob (cl_balanceOf sample_col2),
     cl_getApproved := (cl_getApproved sample_col2)(sample_id := ZERO_ADDRESS)\<rparr>"

definition sample_col4 :: col_state where
  "sample_col4 = sample_col3\<lparr>cl_owner := bob\<rparr>"

lemmas sample_col_defs = sample_col1_def sample_col0_def empty_collection_def no_approval_def
lemmas sample_col_statements = statements.simps require_def assign_def emit_def when_sr_def reading_def col_exists_def
  onlyCollectionOwner_def onlyCollectionOwnerOrSRROwner_def

lemma sample_col_create_step:
  "run_col_call sample_evm sample_col_env (by_wallet alice) sample_col_create sample_col0 = Some (sample_col1,
     [CollectionEvent (C_Transfer ZERO_ADDRESS alice (uint sample_id)),
      CollectionEvent (C_CreateSRR (uint sample_id)
        \<lparr>rr_isPrimaryIssuer = True, rr_artistAddress = alice, rr_issuer = alice\<rparr> ''cid'' False),
      CollectionEvent (C_RoyaltiesSet (uint sample_id) bob 500)])"
proof -
  have "cl_ownerOf sample_col0 t = ZERO_ADDRESS" "cl_owner sample_col0 = alice" for t by (simp_all add: sample_col_defs)
  then show ?thesis
    unfolding sample_col_create_def
    by (simp add: sample_col_statements col_create_to_def col_create_def col_mint_def col_add_balance_def upsertRoyalty_def
        sample_id_def [symmetric] Let_def sample_col1_def)
qed

lemma sample_col_commit_step:
  "run_col_call sample_evm sample_col_env (by_wallet alice) sample_col_commit sample_col1 =
     Some (sample_col2, [CollectionEvent (C_SRRCommitment (uint sample_id) sample_commitment alice)])"
proof -
  have "cl_ownerOf sample_col1 sample_id = alice" "cl_owner sample_col1 = alice" "cl_approvals sample_col1 t = no_approval" for t
    by (simp_all add: sample_col_defs)
  then show ?thesis
    unfolding sample_col_commit_def
    by (simp add: sample_col_statements col_approveSRRByCommitment_def sample_col2_def NO_CUSTOM_HISTORY_def)
      (simp add: no_approval_def)
qed

lemma sample_col_send_step:
  "run_col_call sample_evm sample_col_env (by_wallet alice) sample_col_send sample_col2 = Some (sample_col3,
     [CollectionEvent (C_ProvenanceWithIntermediaryWithSender (uint sample_id) alice bob ''h'' ''ipfs://h'' False alice),
      CollectionEvent (C_Transfer alice bob (uint sample_id))])"
proof -
  have "cl_ownerOf sample_col2 sample_id = alice" "cl_owner sample_col2 = alice"
    by (simp_all add: sample_col2_def sample_col_defs)
  then show ?thesis
    unfolding sample_col_send_def
    by (simp add: col_transferFromWithProvenance_Some col_logProvenance_def col_move_Some col_exists_def sample_col3_def
        col_buildTokenURI_def) (simp add: sample_col_env_def)
qed

lemma sample_col_give_step:
  "run_col_call sample_evm sample_col_env (by_wallet alice) sample_col_give sample_col3 =
     Some (sample_col4, [CollectionEvent (C_OwnershipTransferred alice bob)])"
proof -
  have "cl_owner sample_col3 = alice" by (simp add: sample_col3_def sample_col2_def sample_col_defs)
  then show ?thesis by (simp add: sample_col_give_def sample_col_statements sample_col4_def)
qed

definition sample_col_calls :: "(col_env \<times> message \<times> col_call) list" where
  "sample_col_calls = map (\<lambda>c. (sample_col_env, by_wallet alice, c)) [sample_col_create, sample_col_commit, sample_col_send, sample_col_give]"

definition sample_col_events :: "col_event list" where
  "sample_col_events =
     [CollectionEvent (C_Transfer ZERO_ADDRESS alice (uint sample_id)),
      CollectionEvent (C_CreateSRR (uint sample_id)
        \<lparr>rr_isPrimaryIssuer = True, rr_artistAddress = alice, rr_issuer = alice\<rparr> ''cid'' False),
      CollectionEvent (C_RoyaltiesSet (uint sample_id) bob 500),
      CollectionEvent (C_SRRCommitment (uint sample_id) sample_commitment alice),
      CollectionEvent (C_ProvenanceWithIntermediaryWithSender (uint sample_id) alice bob ''h'' ''ipfs://h'' False alice),
      CollectionEvent (C_Transfer alice bob (uint sample_id)), CollectionEvent (C_OwnershipTransferred alice bob)]"

lemma sample_col_run: "run_col_calls sample_evm sample_col_calls sample_col0 = Some (sample_col4, sample_col_events)"
  unfolding sample_col_calls_def
  by (simp add: sample_col_create_step sample_col_commit_step sample_col_send_step sample_col_give_step sample_col_events_def
      del: run_col_call.simps)

definition sample_col_blocks :: "eth_event list" where
  "sample_col_blocks = map (\<lambda>t. (sample_event t)\<lparr>ev_address := carol\<rparr>) [2, 2, 2, 3, 4, 4, 5]"

lemma sample_col_found: "found_in carol sample_col_blocks (col_indexed sample_col_events)"
  by (simp add: found_in_def sample_col_blocks_def sample_col_events_def sample_event_def valid_time_def date_limit_def
      eventUTCMillis_def secondsToMillis_def)

lemma sample_col_digests: "col_digests_readable sample_host (col_indexed sample_col_events)"
  by (simp add: col_digests_readable_def sample_col_events_def digest_ok_def)

lemma sample_col_keys: "distinct_keys (srrEntityId sample_host a) T"
proof -
  have "inj_on (\<lambda>t :: 256 word. srrEntityId sample_host a (uint t)) T"
    by (rule inj_onI) (auto simp: srrEntityId_def sample_host_def word_uint_eq_iff dest!: utf8_inj int_dec_inj)
  then show ?thesis by (simp add: distinct_keys_def)
qed

lemma sample_col_accounts: "senders_are_accounts sample_col_calls"
  by (simp add: senders_are_accounts_def sample_col_calls_def by_wallet_def sample_sr_addresses)

lemma sample_col_owners:
  "cl_ownerOf sample_col1 sample_id = alice" "cl_ownerOf sample_col2 sample_id = alice" "cl_ownerOf sample_col4 sample_id = bob"
  "cl_owner sample_col0 = alice" "cl_owner sample_col1 = alice" "cl_owner sample_col2 = alice" "cl_owner sample_col4 = bob"
  by (simp_all add: sample_col4_def sample_col3_def sample_col2_def sample_col_defs)

section \<open>A batch for it\<close>

text \<open>The leaf of Alice's batch that commits a token names the collection.\<close>

definition sample_bulk4 :: bulk_world where
  "sample_bulk4 = sample_bulk1\<lparr>bw_collections := [carol \<mapsto> sample_col1]\<rparr>"

lemma sample_col_leaf:
  "\<exists>w es. approveSRRByCommitmentWithProof sample_evm sample_bulk_env [] sample_root sample_leaf sample_id sample_commitment
     ''h'' 0 carol sample_bulk4 = Some (w, es)"
proof -
  let ?c = "SR_approveSRRByCommitmentFromBulk alice sample_id sample_commitment ''h'' 0"
  have batch: "batch_of sample_bulk4 sample_root = \<lparr>bb_prepared = True, bb_signer = alice, bb_processedCount = 0,
      bb_processedLeaves = (\<lambda>_. False)\<rparr>"
    by (simp add: sample_bulk4_def sample_batch_prepared(2))
  obtain w1 where w1: "process_leaf sample_root sample_leaf sample_bulk4 = Some w1"
    by (simp add: process_leaf_def Let_def batch)
  note m = marked_leaf [OF w1]
  have "\<exists>r. run_col_call sample_evm sample_col_env \<lparr>msg_sender = sample_bulk, msg_data = [1, 2, 3, 4]\<rparr>
      (CL_approveSRRByCommitmentFromBulk alice sample_id sample_commitment ''h'' 0) sample_col1 = Some r"
    by (simp add: sample_col_statements col_onlyBulk_def col_names_def col_approveSRRByCommitment_def NO_CUSTOM_HISTORY_def
        sample_col_owners) (simp add: sample_col_env_def nr_get_def sample_names_at sample_col_defs)
  then obtain st es where "run_col_call sample_evm sample_col_env \<lparr>msg_sender = sample_bulk, msg_data = [1, 2, 3, 4]\<rparr>
      (CL_approveSRRByCommitmentFromBulk alice sample_id sample_commitment ''h'' 0) sample_col1 = Some (st, es)" by auto
  then have "call_target sample_evm sample_bulk_env carol ?c w1 = Some
      (w1\<lparr>bw_collections := (bw_collections w1)(carol \<mapsto> st)\<rparr>, map Collection (col_indexed es), created_token sample_evm ?c)"
    using m(1) by (simp add: call_target_def call_other_def sample_bulk4_def sample_bulk_env_def del: run_col_call.simps)
  then show ?thesis
    using w1 m(3) batch
    by (simp add: approveSRRByCommitmentWithProof_def verifyApproveSRRByCommitmentHash_def sample_leaf_def sample_bulk_env_def)
qed

end
