(* ===== verification/SignerScripts.thy ===== *)
theory SignerScripts
  imports AdminScripts SubgraphYaml
begin

text \<open>
  The remaining scripts: those that send one call with a signer chosen by its index
  (\<open>sr-approve.js\<close>, \<open>sr-safe-transfer-from.js\<close>, \<open>sr-set-approval-for-all.js\<close>), the command lines of the
  wallet operations and of the upgrade of a feature, \<open>deploy-sr-for-opensea-test.ts\<close>,
  \<open>contract-event-hashes.js\<close> and \<open>scripts/deploy/deploy.js\<close>. The lemmas show which call is made for
  which words, and that the words for Booleans have no effect.
\<close>

section \<open>Signers by index\<close>

text \<open>The accounts of the network in their order: their addresses, and a call sent by one of them.\<close>

record 'c accounts =
  acc_addresses :: "string list"
  acc_send :: "nat \<Rightarrow> contract \<Rightarrow> string \<Rightarrow> js_val option list \<Rightarrow> ('c, tx_receipt) act"

text \<open>\<open>signers[parseInt(word)]\<close>: without such a signer, reading its address throws.\<close>

definition signerIndex :: "'c accounts \<Rightarrow> string \<Rightarrow> js_error + nat" where
  "signerIndex accounts word =
     (case parseInt word of
        None \<Rightarrow> Inl TypeError
      | Some i \<Rightarrow> if 0 \<le> i \<and> i < int (length (acc_addresses accounts)) then Inr (nat i) else Inl TypeError)"

definition signerAddress :: "'c accounts \<Rightarrow> nat \<Rightarrow> js_val option" where
  "signerAddress accounts i = Some (JString (acc_addresses accounts ! i))"

definition srApprove :: "'c hre \<Rightarrow> 'c accounts \<Rightarrow> string list \<Rightarrow> ('c world, tx_receipt) act" where
  "srApprove hre accounts argv =
     andThen (usage 3 argv) (\<lambda>_.
     andThen (getContract hre ''StartrailRegistry'') (\<lambda>srContract.
     andThen (from_result (signerIndex accounts (argv ! 0))) (\<lambda>signer.
     andThen (from_result (signerIndex accounts (argv ! 1))) (\<lambda>to'.
       on_chain (acc_send accounts signer srContract ''approve''
         [signerAddress accounts to', arg argv 2])))))"

definition srSafeTransferFrom :: "'c hre \<Rightarrow> 'c accounts \<Rightarrow> string list \<Rightarrow> ('c world, tx_receipt) act" where
  "srSafeTransferFrom hre accounts argv =
     andThen (usage 4 argv) (\<lambda>_.
     andThen (getContract hre ''StartrailRegistry'') (\<lambda>srContract.
     andThen (from_result (signerIndex accounts (argv ! 0))) (\<lambda>signer.
     andThen (from_result (signerIndex accounts (argv ! 1))) (\<lambda>from'.
     andThen (from_result (signerIndex accounts (argv ! 2))) (\<lambda>to'.
       on_chain (acc_send accounts signer srContract ''safeTransferFrom(address,address,uint256)''
         [signerAddress accounts from', signerAddress accounts to', arg argv 3]))))))"

definition srSetApprovalForAll :: "'c hre \<Rightarrow> 'c accounts \<Rightarrow> string list \<Rightarrow> ('c world, tx_receipt) act" where
  "srSetApprovalForAll hre accounts argv =
     andThen (usage 3 argv) (\<lambda>_.
     andThen (getContract hre ''StartrailRegistry'') (\<lambda>srContract.
     andThen (from_result (signerIndex accounts (argv ! 0))) (\<lambda>signer.
     andThen (from_result (signerIndex accounts (argv ! 1))) (\<lambda>operator.
       on_chain (acc_send accounts signer srContract ''setApprovalForAll''
         [signerAddress accounts operator, arg argv 2])))))"

section \<open>Command lines of the wallet operations\<close>

text \<open>\<open>lum-create-wallet.ts\<close>: the address and, when a second word is given, the file it is written to.\<close>

definition lumCreateWalletMain ::
  "ext \<Rightarrow> 'c hre \<Rightarrow> string list \<Rightarrow> new_wallet \<Rightarrow> ('c world, string \<times> string option) act" where
  "lumCreateWalletMain x hre argv wallet =
     andThen (usage 1 argv) (\<lambda>_.
     andThen (lumCreateWallet x hre wallet False) (\<lambda>luAddress.
       ret (luAddress, if 1 < length argv \<and> argv ! 1 \<noteq> [] then Some (argv ! 1) else None)))"

text \<open>One word is enough for the check of both scripts, which read two. Without the second one the call
  of \<open>addOwner\<close> has an undefined argument, and no owner of a wallet is undefined.\<close>

definition lumAddOwnerMain :: "ext \<Rightarrow> 'c hre \<Rightarrow> string list \<Rightarrow> ('c world, unit) act" where
  "lumAddOwnerMain x hre argv =
     andThen (usage 1 argv) (\<lambda>_.
     andThen (loadDeployJSON hre) (\<lambda>deployJSON.
     andThen (getContract hre ''LicensedUserManager'') (\<lambda>licensedUserManager.
     andThen (lumExecute x hre deployJSON licensedUserManager (argv ! 0) ''addOwner''
       [arg argv 0, arg argv 1, Some (JNumber 1)]) (\<lambda>_. ret ()))))"

definition lumRemoveOwnerMain :: "ext \<Rightarrow> 'c hre \<Rightarrow> string list \<Rightarrow> ('c world, unit) act" where
  "lumRemoveOwnerMain x hre argv =
     andThen (usage 1 argv) (\<lambda>_.
       if length argv < 2
       then andThen (loadDeployJSON hre) (\<lambda>_.
            andThen (getContract hre ''LicensedUserManager'') (\<lambda>licensedUserManager.
            andThen (view_call hre licensedUserManager ''getOwners'' [arg argv 0]) (\<lambda>owners.
            andThen (from_result (as_strings owners)) (\<lambda>_.
              throw (ThrownError ''Reject attempt to remove owner that is not an owner of the LUW'')))))
       else andThen (lumRemoveOwner x hre (argv ! 0) (argv ! 1)) (\<lambda>_. ret ()))"

definition lumUpdateOriginalNameMain ::
  "ext \<Rightarrow> 'c hre \<Rightarrow> string list \<Rightarrow> string \<Rightarrow> string \<Rightarrow> ('c world, unit) act" where
  "lumUpdateOriginalNameMain x hre argv walletAddress originalName =
     andThen (usage 1 argv) (\<lambda>_.
     andThen (lumUpdateOriginalName x hre walletAddress originalName) (\<lambda>_. ret ()))"

section \<open>Upgrades and deployments\<close>

text \<open>\<open>upgrade-feature-contract.ts\<close> checks nothing; a missing word is put into strings as
  \<open>undefined\<close>.\<close>

definition word_at :: "string list \<Rightarrow> nat \<Rightarrow> string" where
  "word_at argv i = (if i < length argv then argv ! i else ''undefined'')"

definition upgradeFeatureMain :: "'c hre \<Rightarrow> string list \<Rightarrow> ('c world, contract) act" where
  "upgradeFeatureMain hre argv =
     (case List.find (\<lambda>f. feature_name f = word_at argv 0)
             [BulkFeature, ERC2981RoyaltyFeature, ERC721Feature, LockExternalTransferFeature,
              SRRApproveTransferFeature, SRRFeature, SRRHistoryFeature, SRRMetadataFeature] of
        None \<Rightarrow> throw (ThrownError (''Upgrade of '' @ word_at argv 0 @ '' not supported yet''))
      | Some f \<Rightarrow> upgradeFeatureContract hre f \<lparr>uv_from = word_at argv 1, uv_to = word_at argv 2\<rparr>)"

text \<open>The address of the OpenSea proxy, if the network has one: on a local network the fifth of the
  wallets of the configuration.\<close>

definition openSeaProxy :: "'c hre \<Rightarrow> string list \<Rightarrow> js_error + string option" where
  "openSeaProxy hre walletAddresses =
     (if isLocalNetwork hre
      then if 4 < length walletAddresses then Inr (Some (walletAddresses ! 4)) else Inl TypeError
      else if hre_network hre = ''polygon'' then Inr (Some ''0x58807baD0B376efc12F5AD86aAc70E78ed67deaE'')
      else Inr None)"

definition deploySRForOpenSeaTest :: "'c hre \<Rightarrow> string list \<Rightarrow> ('c world, unit) act" where
  "deploySRForOpenSeaTest hre walletAddresses =
     andThen (deployContract hre ''OpenSeaMetaTransactionLibrary'' [] []) (\<lambda>openSeaMetaTxLibrary.
     andThen (deployContract hre ''StartrailRegistryOpenSeaTester''
        [Some (JString ''SROS Test''), Some (JString ''SROS''), Some (JString ''ipfs://'')]
        [(''OpenSeaMetaTransactionLibrary'', Some (ct_address openSeaMetaTxLibrary))]) (\<lambda>srosContract.
     andThen (from_result (openSeaProxy hre walletAddresses)) (\<lambda>openSeaProxyAddress.
       case openSeaProxyAddress of
         None \<Rightarrow> ret ()
       | Some a \<Rightarrow> andThen (on_chain (hre_send hre srosContract ''setOpenSeaMetaTxIntegration''
           [Some (JString a), Some (JString ''SROSTester'')])) (\<lambda>_. ret ()))))"

text \<open>\<open>contract-event-hashes.js\<close>: the fragments of the interface of a contract, and the topic of an
  event, are those of ethers.\<close>

record fragment =
  fr_type :: string
  fr_name :: string
  fr_inputs :: nat

definition contractEventHashes ::
  "(string \<Rightarrow> js_error + fragment list) \<Rightarrow> (string \<Rightarrow> fragment \<Rightarrow> string) \<Rightarrow> string list
     \<Rightarrow> js_error + (string \<times> nat \<times> string) list" where
  "contractEventHashes readFragments topic argv =
     (if argv = [] then Inl (ProcessExit (- 1))
      else bindr (readFragments (argv ! 0)) (\<lambda>fragments.
        Inr (map (\<lambda>f. (fr_name f, fr_inputs f, topic (argv ! 0) f))
          (filter (\<lambda>f. fr_type f = ''event'') fragments))))"

text \<open>\<open>scripts/deploy/deploy.js\<close>: the module \<open>utils/diamond\<close> it needs is not in the repository.\<close>

record diamond_utils =
  diamondSelectors :: "contract \<Rightarrow> js_val"
  FacetCutAction_Add :: js_val

definition facetCut :: "'c hre \<Rightarrow> diamond_utils \<Rightarrow> string \<Rightarrow> ('c world, js_val) act" where
  "facetCut hre utils FacetName =
     andThen (deployContract hre FacetName [] []) (\<lambda>facet.
       ret (JArray [JString (ct_address facet), FacetCutAction_Add utils, diamondSelectors utils facet]))"

definition deployDiamond :: "'c hre \<Rightarrow> diamond_utils \<Rightarrow> string list \<Rightarrow> ('c world, string) act" where
  "deployDiamond hre utils accountAddresses =
     andThen (deployContract hre ''DiamondCutFacet'' [] []) (\<lambda>diamondCutFacet.
     andThen (from_result (hre_artifact hre ''Diamond'')) (\<lambda>Diamond.
     andThen (from_result (defined_or_throw (if accountAddresses = [] then None else Some (hd accountAddresses))))
       (\<lambda>contractOwner.
     andThen (on_chain (hre_deploy hre Diamond []
        [Some (JString contractOwner), Some (JString (ct_address diamondCutFacet))] None)) (\<lambda>diamond.
     andThen (deployContract hre ''DiamondInit'' [] []) (\<lambda>diamondInit.
     andThen (map_act (facetCut hre utils) [''DiamondLoupeFacet'', ''OwnershipFacet'']) (\<lambda>cut.
     andThen (from_result (hre_contractAt hre ''IDiamondCut'' (Some (ct_address diamond)))) (\<lambda>diamondCut.
     andThen (populate hre diamondInit ''init'' []) (\<lambda>functionCall.
     andThen (on_chain (hre_send hre diamondCut ''diamondCut''
        [Some (JArray cut), Some (JString (ct_address diamondInit)), Some (JString functionCall)])) (\<lambda>tx.
       if \<not> tx_ok tx then throw (ThrownError (''Diamond upgrade failed: '' @ tx_hash tx))
       else ret (ct_address diamond))))))))))"

section \<open>Which call is made\<close>

text \<open>With both words, the command lines are the operations.\<close>

lemma owner_command_lines:
  "lumAddOwnerMain x hre [wallet, owner] = andThen (lumAddOwner x hre wallet owner) (\<lambda>_. ret ())"
  "lumRemoveOwnerMain x hre [wallet, owner] = andThen (lumRemoveOwner x hre wallet owner) (\<lambda>_. ret ())"
  by (simp_all add: lumAddOwnerMain_def lumRemoveOwnerMain_def lumAddOwner_def usage_def arg_def andThen_assoc)

lemma usage_ok: "n \<le> length argv \<Longrightarrow> andThen (usage n argv) f = f ()"
  by (simp add: usage_def)

lemma signerIndex_Inr:
  "signerIndex accounts word = Inr i \<longleftrightarrow>
     parseInt word = Some (int i) \<and> i < length (acc_addresses accounts)"
  by (auto simp: signerIndex_def split: option.splits if_splits)

text \<open>The three scripts send the call of the chosen signer, with the addresses of the chosen accounts.\<close>

lemma signer_scripts_call:
  assumes "getContract hre ''StartrailRegistry'' w = (Inr sr, w)"
    and "signerIndex accounts a = Inr i" "signerIndex accounts b = Inr j" "signerIndex accounts c = Inr k"
  shows "srApprove hre accounts [a, b, tok] w =
      on_chain (acc_send accounts i sr ''approve'' [signerAddress accounts j, Some (JString tok)]) w"
    "srSafeTransferFrom hre accounts [a, b, c, tok] w =
      on_chain (acc_send accounts i sr ''safeTransferFrom(address,address,uint256)''
        [signerAddress accounts j, signerAddress accounts k, Some (JString tok)]) w"
    "srSetApprovalForAll hre accounts [a, b, flag] w =
      on_chain (acc_send accounts i sr ''setApprovalForAll'' [signerAddress accounts j, Some (JString flag)]) w"
  using assms
  by (simp_all add: srApprove_def srSafeTransferFrom_def srSetApprovalForAll_def usage_ok arg_def
      andThen_run [of "getContract hre ''StartrailRegistry''" w sr w])

text \<open>A word that is no index of a signer ends the script before anything is sent.\<close>

lemma bad_signer_sends_nothing:
  assumes "getContract hre ''StartrailRegistry'' w = (Inr sr, w)"
    and "\<forall>i. signerIndex accounts a \<noteq> Inr i"
  shows "srApprove hre accounts (a # argv) w \<in> {(Inl TypeError, w), (Inl (ProcessExit (- 1)), w)}"
proof -
  have bad: "signerIndex accounts a = Inl TypeError"
    using assms(2) by (auto simp: signerIndex_def split: option.splits if_splits)
  have contract: "andThen (getContract hre ''StartrailRegistry'') f w = f sr w"
    for f :: "contract \<Rightarrow> ('a world, tx_receipt) act"
    using assms(1) by (rule andThen_run)
  show ?thesis by (auto simp: srApprove_def usage_def contract bad)
qed

section \<open>Flags are not read\<close>

text \<open>The encoder of ethers writes a Boolean as 1 for every value that JavaScript takes for true, so for
  every string but the empty one.\<close>

definition bool_documented :: "'c hre \<Rightarrow> string \<Rightarrow> string \<Rightarrow> bool" where
  "bool_documented hre abi fn \<longleftrightarrow>
     (\<forall>args s. s \<noteq> [] \<longrightarrow> hre_encode hre abi fn (args @ [Some (JString s)]) =
        hre_encode hre abi fn (args @ [Some (JBool True)]))"

text \<open>\<open>sr-set-lock-external-transfer.js\<close> locks whatever flag it is given.\<close>

lemma lock_flag_not_read:
  assumes "getContract hre ''StartrailRegistry'' w = (Inr sr, w)"
    and "bool_documented hre (ct_abi sr) ''setLockExternalTransfer''" and "flag \<noteq> []" "flag' \<noteq> []"
  shows "srSetLockExternalTransfer x hre [tok, flag] w = srSetLockExternalTransfer x hre [tok, flag'] w"
proof -
  have "hre_encode hre (ct_abi sr) ''setLockExternalTransfer'' ([Some (JString tok)] @ [Some (JString s)]) =
      hre_encode hre (ct_abi sr) ''setLockExternalTransfer'' ([Some (JString tok)] @ [Some (JBool True)])"
    if "s \<noteq> []" for s
    using assms(2) that unfolding bool_documented_def by blast
  then have same: "hre_encode hre (ct_abi sr) ''setLockExternalTransfer'' [Some (JString tok), Some (JString flag)] =
      hre_encode hre (ct_abi sr) ''setLockExternalTransfer'' [Some (JString tok), Some (JString flag')]"
    using assms(3,4) by simp
  have contract: "andThen (getContract hre ''StartrailRegistry'') f w = f sr w"
    for f :: "contract \<Rightarrow> ('a world, exec_result option) act"
    using assms(1) by (rule andThen_run)
  show ?thesis
    unfolding srSetLockExternalTransfer_def by (simp add: usage_ok contract populate_def arg_def same)
qed

section \<open>The report of events\<close>

lemma event_hashes_are_events:
  "contractEventHashes readFragments topic (name # argv) = Inr rows \<Longrightarrow>
   readFragments name = Inr fragments \<Longrightarrow>
   (n, k, t) \<in> set rows \<longleftrightarrow> (\<exists>f \<in> set fragments. fr_type f = ''event'' \<and>
      n = fr_name f \<and> k = fr_inputs f \<and> t = topic name f)"
  by (auto simp: contractEventHashes_def)

end
