(* ===== verification/Digest.thy ===== *)
theory Digest
  imports Evm
begin

text \<open>
  \<open>startrail-common-js/digest/sha256.ts\<close>: the digest of a string or of an object, which is first made a
  string by \<open>JSON.stringify\<close>, and the two objects of \<open>test-helpers/test-data.ts\<close> that differ only in
  the order of their properties. Strings are the bytes of their UTF-8 encoding, which is what the
  hash function gets; a number is the string it is rendered as. Stringification is one to one, so
  the digests of different objects are different strings hashed: the order of properties counts.
\<close>

section \<open>JSON.stringify\<close>

datatype json =
    JsonNull
  | JsonBool bool
  | JsonNum string
  | JsonStr string
  | JsonArr "json list"
  | JsonObj "(string \<times> json) list"

definition quote_char :: "char \<Rightarrow> string" where
  "quote_char c =
     (if c = CHR 0x22 \<or> c = CHR 0x5C then [CHR 0x5C, c]
      else if c = CHR 0x08 then [CHR 0x5C, CHR ''b'']
      else if c = CHR 0x09 then [CHR 0x5C, CHR ''t'']
      else if c = CHR 0x0A then [CHR 0x5C, CHR ''n'']
      else if c = CHR 0x0C then [CHR 0x5C, CHR ''f'']
      else if c = CHR 0x0D then [CHR 0x5C, CHR ''r'']
      else if (of_char c :: nat) < 32 then CHR 0x5C # ''u00'' @ [hex_digit (of_char c div 16), hex_digit (of_char c mod 16)]
      else [c])"

definition quote :: "string \<Rightarrow> string" where
  "quote s = CHR 0x22 # concat (map quote_char s) @ [CHR 0x22]"

fun stringify :: "json \<Rightarrow> string" where
  "stringify JsonNull = ''null''"
| "stringify (JsonBool b) = (if b then ''true'' else ''false'')"
| "stringify (JsonNum n) = n"
| "stringify (JsonStr s) = quote s"
| "stringify (JsonArr vs) = ''['' @ join_str '','' (map stringify vs) @ '']''"
| "stringify (JsonObj kvs) =
     ''{'' @ join_str '','' (map (\<lambda>(k, v). quote k @ '':'' @ stringify v) kvs) @ ''}''"

section \<open>sha256.ts\<close>

datatype message = TextMessage string | ObjectMessage json

text \<open>\<open>createHash('sha256').update(s).digest('hex')\<close> is a parameter.\<close>

fun sha256 :: "(string \<Rightarrow> string) \<Rightarrow> message \<Rightarrow> string" where
  "sha256 createHash (ObjectMessage v) = createHash (stringify v)"
| "sha256 createHash (TextMessage s) = createHash s"

section \<open>Stringification is one to one\<close>

text \<open>The strings that numbers are rendered as.\<close>

definition number_char :: "char \<Rightarrow> bool" where
  "number_char c \<longleftrightarrow> c \<in> set ''0123456789+-.e''"

fun numbers_ok :: "json \<Rightarrow> bool" where
  "numbers_ok (JsonNum n) = (n \<noteq> [] \<and> hd n \<in> set ''-0123456789'' \<and> list_all number_char n)"
| "numbers_ok (JsonArr vs) = list_all numbers_ok vs"
| "numbers_ok (JsonObj kvs) = list_all (\<lambda>(k, v). numbers_ok v) kvs"
| "numbers_ok _ = True"

text \<open>What may follow a value.\<close>

definition ends :: "string \<Rightarrow> bool" where
  "ends r \<longleftrightarrow> (case r of [] \<Rightarrow> True | c # _ \<Rightarrow> c \<in> set '',]}'')"

lemma ends_simps [simp]: "ends []" "ends (CHR '','' # r)" "ends (CHR '']'' # r)" "ends (CHR ''}'' # r)"
  by (simp_all add: ends_def)

lemma number_ends:
  assumes "list_all number_char n" "list_all number_char n'" "ends r" "ends r'" "n @ r = n' @ r'"
  shows "n = n' \<and> r = r'"
proof -
  have stop: "takeWhile number_char (n @ r) = n" if "list_all number_char n" "ends r" for n r
    using that by (cases r) (auto simp: ends_def number_char_def list_all_iff takeWhile_append2)
  have "n = n'" using stop [OF assms(1,3)] stop [OF assms(2,4)] assms(5) by simp
  then show ?thesis using assms(5) by simp
qed

text \<open>Reading an escaped character back.\<close>

definition read_char :: "string \<Rightarrow> (char \<times> string) option" where
  "read_char s =
     (case s of
        [] \<Rightarrow> None
      | a # s1 \<Rightarrow>
          if a = CHR 0x22 then None
          else if a \<noteq> CHR 0x5C then Some (a, s1)
          else (case s1 of
             [] \<Rightarrow> None
           | b # s2 \<Rightarrow>
               if b = CHR ''u'' then Some (char_of (hex_value (s2 ! 2) * 16 + hex_value (s2 ! 3)), drop 4 s2)
               else Some (if b = CHR ''b'' then CHR 0x08 else if b = CHR ''t'' then CHR 0x09
                          else if b = CHR ''n'' then CHR 0x0A else if b = CHR ''f'' then CHR 0x0C
                          else if b = CHR ''r'' then CHR 0x0D else b, s2)))"

lemma low_char: "(of_char c :: nat) < 32 \<Longrightarrow>
  char_of (hex_value (hex_digit ((of_char c :: nat) div 16)) * 16 + hex_value (hex_digit ((of_char c :: nat) mod 16))) = c"
  by (simp add: hex_value_digit)

lemma read_quoted: "read_char (quote_char c @ r) = Some (c, r)"
proof (cases "c \<in> set [CHR 0x22, CHR 0x5C, CHR 0x08, CHR 0x09, CHR 0x0A, CHR 0x0C, CHR 0x0D]")
  case True
  then show ?thesis by (auto simp: quote_char_def read_char_def)
next
  case False
  show ?thesis
  proof (cases "(of_char c :: nat) < 32")
    case True
    from low_char [OF True]
    show ?thesis using False True by (simp add: quote_char_def read_char_def)
  next
    case low: False
    then show ?thesis using False by (simp add: quote_char_def read_char_def)
  qed
qed

lemma quoted_body:
  "concat (map quote_char s) @ CHR 0x22 # r = concat (map quote_char s') @ CHR 0x22 # r' \<Longrightarrow> s = s' \<and> r = r'"
proof (induction s arbitrary: s')
  case Nil
  then show ?case
  proof (cases s')
    case (Cons c t)
    then have "read_char (CHR 0x22 # r) = Some (c, concat (map quote_char t) @ CHR 0x22 # r')"
      using Nil read_quoted by simp
    then show ?thesis by (simp add: read_char_def)
  qed simp
next
  case (Cons c s)
  then show ?case
  proof (cases s')
    case Nil
    then have "read_char (CHR 0x22 # r') = Some (c, concat (map quote_char s) @ CHR 0x22 # r)"
      using Cons.prems read_quoted [of c "concat (map quote_char s) @ CHR 0x22 # r"] by simp
    then show ?thesis by (simp add: read_char_def)
  next
    case (Cons c' t)
    then have "Some (c, concat (map quote_char s) @ CHR 0x22 # r) = Some (c', concat (map quote_char t) @ CHR 0x22 # r')"
      using Cons.prems read_quoted [of c] read_quoted [of c'] by (metis append_assoc concat.simps(2) list.simps(9))
    then show ?thesis using Cons Cons.IH by simp
  qed
qed

lemma quote_ends: "quote s @ r = quote s' @ r' \<Longrightarrow> s = s' \<and> r = r'"
  using quoted_body [of s r s' r'] by (simp add: quote_def)

text \<open>Lists of values between brackets.\<close>

definition same_end :: "('a \<Rightarrow> string) \<Rightarrow> 'a \<Rightarrow> 'a \<Rightarrow> bool" where
  "same_end f x y \<longleftrightarrow> (\<forall>r r'. ends r \<and> ends r' \<and> f x @ r = f y @ r' \<longrightarrow> x = y \<and> r = r')"

lemma join_ends:
  assumes "\<forall>x \<in> set xs. \<forall>y \<in> set ys. same_end f x y"
    and "\<forall>x \<in> set (xs @ ys). f x \<noteq> [] \<and> hd (f x) \<notin> set '',]}''"
    and "c \<in> set '']}''"
    and "join_str '','' (map f xs) @ c # r = join_str '','' (map f ys) @ c # r'"
  shows "xs = ys \<and> r = r'"
  using assms(1,2,4)
proof (induction xs arbitrary: ys)
  case Nil
  show ?case
  proof (cases ys)
    case (Cons y t)
    then have "hd (f y) = c"
      using Nil.prems(2,3) by (cases t; cases "f y") auto
    then show ?thesis using Nil.prems(2) Cons assms(3) by auto
  qed (use Nil in simp)
next
  case (Cons x s)
  show ?case
  proof (cases ys)
    case Nil
    then have "hd (f x) = c" using Cons.prems(2,3) by (cases s; cases "f x") auto
    then show ?thesis using Cons.prems(2) assms(3) by auto
  next
    case ys: (Cons y t)
    define tail where "tail = (\<lambda>zs r. case zs of [] \<Rightarrow> c # r | _ \<Rightarrow> CHR '','' # join_str '','' (map f zs) @ c # r)"
    have tail: "join_str '','' (map f (z # zs)) @ c # q = f z @ tail zs q" for z zs q
      by (cases zs) (simp_all add: tail_def)
    have e: "ends (tail zs q)" for zs q using assms(3) by (auto simp: tail_def split: list.split)
    have "same_end f x y" using Cons.prems(1) unfolding ys by simp
    moreover have "f x @ tail s r = f y @ tail t r'" using Cons.prems(3) unfolding ys tail .
    ultimately have xy: "x = y" "tail s r = tail t r'" using e unfolding same_end_def by blast+
    have comma: "c \<noteq> CHR '',''" using assms(3) by auto
    have "s = t \<and> r = r'"
    proof (cases s; cases t)
      fix z s' z' t' assume st: "s = z # s'" "t = z' # t'"
      then have "join_str '','' (map f s) @ c # r = join_str '','' (map f t) @ c # r'"
        using xy(2) by (simp add: tail_def)
      moreover have "\<forall>x \<in> set s. \<forall>y \<in> set t. same_end f x y"
        "\<forall>x \<in> set (s @ t). f x \<noteq> [] \<and> hd (f x) \<notin> set '',]}''"
        using Cons.prems(1,2) unfolding ys by simp_all
      ultimately show ?thesis using Cons.IH by blast
    qed (use xy(2) comma in \<open>auto simp: tail_def\<close>)
    then show ?thesis using xy(1) ys by simp
  qed
qed

text \<open>The first character tells the kind of a value.\<close>

fun kind :: "json \<Rightarrow> nat" where
  "kind JsonNull = 0"
| "kind (JsonBool b) = 1"
| "kind (JsonNum n) = 2"
| "kind (JsonStr s) = 3"
| "kind (JsonArr vs) = 4"
| "kind (JsonObj kvs) = 5"

definition char_kind :: "char \<Rightarrow> nat" where
  "char_kind c = (if c = CHR ''n'' then 0 else if c \<in> {CHR ''t'', CHR ''f''} then 1 else if c = CHR 0x22 then 3
     else if c = CHR ''['' then 4 else if c = CHR ''{'' then 5 else if c \<in> set ''-0123456789'' then 2 else 6)"

lemma first_char:
  assumes "numbers_ok v"
  shows "stringify v \<noteq> []" "char_kind (hd (stringify v)) = kind v"
proof -
  have "list_all (\<lambda>c. char_kind c = 2) ''-0123456789''" by code_simp
  then have number: "c \<in> set ''-0123456789'' \<Longrightarrow> char_kind c = 2" for c by (simp only: list_all_iff)
  have others: "char_kind (CHR ''n'') = 0" "char_kind (CHR ''t'') = 1" "char_kind (CHR ''f'') = 1"
    "char_kind (CHR 0x22) = 3" "char_kind (CHR ''['') = 4" "char_kind (CHR ''{'') = 5" by code_simp+
  show "stringify v \<noteq> []" using assms by (cases v) (simp_all add: quote_def)
  show "char_kind (hd (stringify v)) = kind v"
  proof (cases v)
    case (JsonNum n)
    then show ?thesis using assms number by simp
  qed (simp_all add: quote_def others)
qed

lemma value_starts: "numbers_ok v \<Longrightarrow> stringify v \<noteq> [] \<and> hd (stringify v) \<notin> set '',]}''"
proof -
  assume v: "numbers_ok v"
  have "list_all (\<lambda>c. char_kind c = 6) '',]}''" by code_simp
  then have "c \<in> set '',]}'' \<Longrightarrow> char_kind c = 6" for c by (simp only: list_all_iff)
  moreover have "kind v \<noteq> 6" by (cases v) simp_all
  ultimately show ?thesis using first_char [OF v] by metis
qed

lemma same_kind:
  assumes "numbers_ok v" "numbers_ok v'" "stringify v @ r = stringify v' @ r'"
  shows "kind v = kind v'"
  using first_char [OF assms(1)] first_char [OF assms(2)] arg_cong [OF assms(3), of hd] by simp

lemma stringify_ends:
  "numbers_ok v \<Longrightarrow> numbers_ok v' \<Longrightarrow> ends r \<Longrightarrow> ends r' \<Longrightarrow> stringify v @ r = stringify v' @ r' \<Longrightarrow> v = v' \<and> r = r'"
proof (induction v arbitrary: v' r r')
  case JsonNull
  then show ?case using same_kind [of JsonNull v' r r'] by (cases v') simp_all
next
  case (JsonBool b)
  then show ?case using same_kind [of "JsonBool b" v' r r'] by (cases v') (simp_all split: if_splits)
next
  case (JsonNum n)
  then obtain n' where "v' = JsonNum n'" using same_kind [of "JsonNum n" v' r r'] by (cases v') simp_all
  then show ?case using JsonNum.prems number_ends [of n n' r r'] by simp
next
  case (JsonStr s)
  then obtain s' where "v' = JsonStr s'" using same_kind [of "JsonStr s" v' r r'] by (cases v') simp_all
  then show ?case using JsonStr.prems quote_ends [of s r s' r'] by simp
next
  case (JsonArr vs)
  then obtain vs' where v': "v' = JsonArr vs'" using same_kind [of "JsonArr vs" v' r r'] by (cases v') simp_all
  have "vs = vs' \<and> r = r'"
  proof (rule join_ends [where f = stringify and c = "CHR '']''"])
    show "\<forall>x \<in> set vs. \<forall>y \<in> set vs'. same_end stringify x y"
      using JsonArr.IH JsonArr.prems(1,2) unfolding v' same_end_def by (simp add: list_all_iff) blast
    show "\<forall>x \<in> set (vs @ vs'). stringify x \<noteq> [] \<and> hd (stringify x) \<notin> set '',]}''"
      using value_starts JsonArr.prems(1,2) unfolding v' by (auto simp: list_all_iff)
    show "join_str '','' (map stringify vs) @ CHR '']'' # r = join_str '','' (map stringify vs') @ CHR '']'' # r'"
      using JsonArr.prems(5) unfolding v' by simp
  qed simp
  then show ?case using v' by simp
next
  case (JsonObj kvs)
  then obtain kvs' where v': "v' = JsonObj kvs'" using same_kind [of "JsonObj kvs" v' r r'] by (cases v') simp_all
  let ?f = "\<lambda>(k, v). quote k @ '':'' @ stringify v"
  have "kvs = kvs' \<and> r = r'"
  proof (rule join_ends [where f = ?f and c = "CHR ''}''"])
    show "\<forall>x \<in> set kvs. \<forall>y \<in> set kvs'. same_end ?f x y"
      unfolding same_end_def
    proof (intro ballI allI impI, elim conjE)
      fix x y r r'
      assume xy: "x \<in> set kvs" "y \<in> set kvs'" "ends r" "ends r'" "?f x @ r = ?f y @ r'"
      obtain k u k' u' where k: "x = (k, u)" "y = (k', u')" by (cases x; cases y)
      have "quote k @ '':'' @ stringify u @ r = quote k' @ '':'' @ stringify u' @ r'" using xy(5) unfolding k by simp
      note q = quote_ends [OF this]
      have "numbers_ok u" "numbers_ok u'"
        using JsonObj.prems(1,2) xy(1,2) unfolding v' k by (auto simp: list_all_iff)
      then have "u = u' \<and> r = r'"
        using JsonObj.IH [of x u u' r r'] q xy(1,3,4) unfolding k by (simp add: prod_set_defs)
      then show "x = y \<and> r = r'" using q k by simp
    qed
    show "\<forall>x \<in> set (kvs @ kvs'). ?f x \<noteq> [] \<and> hd (?f x) \<notin> set '',]}''" by (auto simp: quote_def)
    show "join_str '','' (map ?f kvs) @ CHR ''}'' # r = join_str '','' (map ?f kvs') @ CHR ''}'' # r'"
      using JsonObj.prems(5) unfolding v' by simp
  qed simp
  then show ?case using v' by simp
qed

text \<open>Different objects are hashed as different strings.\<close>

lemma stringify_inj: "numbers_ok v \<Longrightarrow> numbers_ok v' \<Longrightarrow> stringify v = stringify v' \<Longrightarrow> v = v'"
  using stringify_ends [of v v' "[]" "[]"] by simp

section \<open>test-data.ts\<close>

definition utf8_string :: "nat list \<Rightarrow> string" where
  "utf8_string = map char_of"

definition orderedObject :: json where
  "orderedObject = JsonObj [
      (''$schema'', JsonStr ''https://cert.startbahn.io/api/v1/cert/metadata/cert-metadata.schema.json''),
      (''contractTerms'', JsonObj [
          (''fileURL'', JsonStr ''some qualitative PDF URL''),
          (''royaltyRate'', JsonNum ''15.7'')]),
      (''digitalComponents'', JsonArr [JsonObj [
              (''category'', JsonStr ''artwork''),
              (''hash'', JsonStr ''sha256-335929a4e59b0860ec04c620c1284dace74c00f7eadaadce7a18d6deba6c544e'')]]),
      (''edition'', JsonObj [
          (''note'', JsonObj [
              (''en'', JsonStr ''some extra notes in 1 or more languages'')]),
          (''number'', JsonNum ''1''),
          (''proofType'', JsonStr ''ED''),
          (''totalNumber'', JsonNum ''3''),
          (''uniqueness'', JsonStr ''unique work'')]),
      (''medium'', JsonObj [
          (''en'', JsonStr ''Oil on canvas''),
          (''ja'', JsonStr (utf8_string [0xE3, 0x82, 0xAD, 0xE3, 0x83, 0xA3, 0xE3, 0x83, 0xB3, 0xE3, 0x83, 0x90, 0xE3, 0x82, 0xB9, 0xE3, 0x81, 0xAB, 0xE6, 0xB2, 0xB9, 0xE5, 0xBD, 0xA9])),
          (''zh'', JsonStr (utf8_string [0xE5, 0xB8, 0x83, 0xE9, 0x9D, 0xA2, 0xE6, 0xB2, 0xB9, 0xE7, 0x94, 0xBB]))]),
      (''note'', JsonObj [
          (''en'', JsonStr ''note''),
          (''zh'', JsonStr (utf8_string [0xE6, 0xB3, 0xA8, 0xE6, 0x84, 0x8F]))]),
      (''size'', JsonObj [
          (''depth'', JsonNum ''12.4''),
          (''flexibleDescription'', JsonObj [
              (''en'', JsonStr ''flexibleDescription comes here''),
              (''ja'', JsonStr (utf8_string [0xE8, 0x87, 0xAA, 0xE7, 0x94, 0xB1, 0xE3, 0x81, 0xA0, 0xE3, 0x83, 0xBC, 0xE3, 0x83, 0xBC, 0xE3, 0x83, 0xBC]))]),
          (''height'', JsonNum ''400''),
          (''unit'', JsonStr ''mm''),
          (''width'', JsonNum ''200'')]),
      (''startbahnCertICTagUIDs'', JsonArr [JsonStr ''1234567890abcdef'',
          JsonStr ''0123456789abcdef'']),
      (''thumbnailURL'', JsonStr ''some thumbnail url''),
      (''title'', JsonObj [
          (''en'', JsonStr ''A title''),
          (''ja'', JsonStr (utf8_string [0xE3, 0x82, 0xBF, 0xE3, 0x82, 0xA4, 0xE3, 0x83, 0x88, 0xE3, 0x83, 0xAB])),
          (''zh'', JsonStr (utf8_string [0xE4, 0xB8, 0x80, 0xE4, 0xB8, 0xAA, 0xE6, 0xA0, 0x87, 0xE9, 0xA2, 0x98]))]),
      (''yearOfCreation'', JsonObj [
          (''en'', JsonStr ''around 2010-2020''),
          (''ja'', JsonStr (utf8_string [0x32, 0x30, 0x31, 0x30, 0xE5, 0xB9, 0xB4, 0xE3, 0x81, 0x8B, 0xE3, 0x82, 0x89, 0x32, 0x30, 0x32, 0x30, 0xE5, 0xB9, 0xB4, 0xE9, 0xA0, 0x83]))])]"

definition unorderedObject :: json where
  "unorderedObject = JsonObj [
      (''startbahnCertICTagUIDs'', JsonArr [JsonStr ''1234567890abcdef'',
          JsonStr ''0123456789abcdef'']),
      (''$schema'', JsonStr ''https://cert.startbahn.io/api/v1/cert/metadata/cert-metadata.schema.json''),
      (''title'', JsonObj [
          (''ja'', JsonStr (utf8_string [0xE3, 0x82, 0xBF, 0xE3, 0x82, 0xA4, 0xE3, 0x83, 0x88, 0xE3, 0x83, 0xAB])),
          (''en'', JsonStr ''A title''),
          (''zh'', JsonStr (utf8_string [0xE4, 0xB8, 0x80, 0xE4, 0xB8, 0xAA, 0xE6, 0xA0, 0x87, 0xE9, 0xA2, 0x98]))]),
      (''size'', JsonObj [
          (''width'', JsonNum ''200''),
          (''height'', JsonNum ''400''),
          (''depth'', JsonNum ''12.4''),
          (''unit'', JsonStr ''mm''),
          (''flexibleDescription'', JsonObj [
              (''ja'', JsonStr (utf8_string [0xE8, 0x87, 0xAA, 0xE7, 0x94, 0xB1, 0xE3, 0x81, 0xA0, 0xE3, 0x83, 0xBC, 0xE3, 0x83, 0xBC, 0xE3, 0x83, 0xBC])),
              (''en'', JsonStr ''flexibleDescription comes here'')])]),
      (''medium'', JsonObj [
          (''en'', JsonStr ''Oil on canvas''),
          (''ja'', JsonStr (utf8_string [0xE3, 0x82, 0xAD, 0xE3, 0x83, 0xA3, 0xE3, 0x83, 0xB3, 0xE3, 0x83, 0x90, 0xE3, 0x82, 0xB9, 0xE3, 0x81, 0xAB, 0xE6, 0xB2, 0xB9, 0xE5, 0xBD, 0xA9])),
          (''zh'', JsonStr (utf8_string [0xE5, 0xB8, 0x83, 0xE9, 0x9D, 0xA2, 0xE6, 0xB2, 0xB9, 0xE7, 0x94, 0xBB]))]),
      (''edition'', JsonObj [
          (''uniqueness'', JsonStr ''unique work''),
          (''proofType'', JsonStr ''ED''),
          (''number'', JsonNum ''1''),
          (''totalNumber'', JsonNum ''3''),
          (''note'', JsonObj [
              (''en'', JsonStr ''some extra notes in 1 or more languages'')])]),
      (''contractTerms'', JsonObj [
          (''royaltyRate'', JsonNum ''15.7''),
          (''fileURL'', JsonStr ''some qualitative PDF URL'')]),
      (''note'', JsonObj [
          (''en'', JsonStr ''note''),
          (''zh'', JsonStr (utf8_string [0xE6, 0xB3, 0xA8, 0xE6, 0x84, 0x8F]))]),
      (''thumbnailURL'', JsonStr ''some thumbnail url''),
      (''yearOfCreation'', JsonObj [
          (''en'', JsonStr ''around 2010-2020''),
          (''ja'', JsonStr (utf8_string [0x32, 0x30, 0x31, 0x30, 0xE5, 0xB9, 0xB4, 0xE3, 0x81, 0x8B, 0xE3, 0x82, 0x89, 0x32, 0x30, 0x32, 0x30, 0xE5, 0xB9, 0xB4, 0xE9, 0xA0, 0x83]))]),
      (''digitalComponents'', JsonArr [JsonObj [
              (''hash'', JsonStr ''sha256-335929a4e59b0860ec04c620c1284dace74c00f7eadaadce7a18d6deba6c544e''),
              (''category'', JsonStr ''artwork'')]])]"

text \<open>The same properties with the same values, in any order.\<close>

function same_members :: "json \<Rightarrow> json \<Rightarrow> bool" where
  "same_members (JsonObj kvs) v =
     (case v of
        JsonObj kvs' \<Rightarrow> length kvs = length kvs' \<and>
          (\<forall>p \<in> set kvs. case map_of kvs' (fst p) of None \<Rightarrow> False | Some v' \<Rightarrow> same_members (snd p) v')
      | _ \<Rightarrow> False)"
| "same_members (JsonArr vs) v =
     (case v of
        JsonArr vs' \<Rightarrow> length vs = length vs' \<and> (\<forall>p \<in> set (zip vs vs'). same_members (fst p) (snd p))
      | _ \<Rightarrow> False)"
| "same_members JsonNull v = (v = JsonNull)"
| "same_members (JsonBool b) v = (v = JsonBool b)"
| "same_members (JsonNum n) v = (v = JsonNum n)"
| "same_members (JsonStr s) v = (v = JsonStr s)"
  by pat_completeness auto
termination
proof (relation "measure (size \<circ> fst)")
  fix kvs :: "(string \<times> json) list" and v kvs' p v'
  assume "p \<in> set kvs"
  then have "size (snd p) \<le> size_list (size_prod (\<lambda>_. 0) size) kvs"
    by (rule size_list_estimation') (cases p, simp)
  then show "((snd p, v'), JsonObj kvs, v) \<in> measure (size \<circ> fst)" by simp
next
  fix vs :: "json list" and v vs' p
  assume "p \<in> set (zip vs vs')"
  then have "fst p \<in> set vs" by (metis prod.collapse set_zip_leftD)
  then have "size (fst p) < size (JsonArr vs)"
    using size_list_estimation' [of "fst p" vs "size (fst p)" size] by (simp add: less_Suc_eq_le)
  then show "((fst p, snd p), JsonArr vs, v) \<in> measure (size \<circ> fst)" by simp
qed simp

lemma test_numbers: "numbers_ok orderedObject" "numbers_ok unorderedObject"
  by (simp_all add: orderedObject_def unorderedObject_def number_char_def)

text \<open>The two objects have the same properties with the same values, and are hashed as different
  strings: two sides that digest the same metadata have to agree on the
  order of its properties.\<close>

lemma test_objects:
  "same_members orderedObject unorderedObject"
  "stringify orderedObject \<noteq> stringify unorderedObject"
proof -
  show "same_members orderedObject unorderedObject"
    by (simp add: orderedObject_def unorderedObject_def)
  have "orderedObject \<noteq> unorderedObject" by (simp add: orderedObject_def unorderedObject_def)
  then show "stringify orderedObject \<noteq> stringify unorderedObject"
    using stringify_inj [OF test_numbers] by blast
qed

end
