(* ===== verification/Publishing.thy ===== *)
theory Publishing
  imports TxHelpers
begin

text \<open>
  Publishing the library and its wrappers of packages: \<open>bin/npm-publish.js\<close>, which hides files while npm reads the
  directory, the rest of \<open>ethereum/utils.ts\<close>, and \<open>validation/flattened-signature.decorator.ts\<close>.
\<close>

section \<open>npm-publish.js\<close>

type_synonym file_table = "string \<Rightarrow> string option"

definition pjPath :: string where "pjPath = ''package.json''"
definition pjBackupPath :: string where "pjBackupPath = ''package.json.backup''"
definition readmePath :: string where "readmePath = ''README.md''"
definition hiddenPath :: string where "hiddenPath = ''HIDEME.md''"

text \<open>\<open>renameSync\<close> replaces a file of the new name, and throws when there is none of the old name.\<close>

definition renameSync :: "string \<Rightarrow> string \<Rightarrow> file_table \<Rightarrow> js_error + file_table" where
  "renameSync oldPath newPath fs =
     (case fs oldPath of
        None \<Rightarrow> Inl (ThrownError (''ENOENT: '' @ oldPath))
      | Some text \<Rightarrow> Inr (if newPath = oldPath then fs else fs(oldPath := None, newPath \<mapsto> text)))"

definition minimalPackage :: "'v obj \<Rightarrow> 'v obj" where
  "minimalPackage pj =
     filter (\<lambda>(k, v). k \<notin> {''dependencies'', ''devDependencies'', ''scripts'', ''engines'', ''resolutions''}) pj"

datatype publish_outcome = Published | FailedToPublish js_error

text \<open>\<open>parse\<close> and \<open>print\<close> are \<open>JSON.parse\<close> and \<open>JSON.stringify\<close>, \<open>publish\<close> runs npm on the files. The result is the
  error the script stops with, what it reports of npm, and the files it leaves.\<close>

definition npmPublish ::
  "(string \<Rightarrow> js_error + 'v obj) \<Rightarrow> ('v obj \<Rightarrow> string) \<Rightarrow> (file_table \<Rightarrow> js_error + unit) \<Rightarrow> file_table
     \<Rightarrow> js_error option \<times> publish_outcome option \<times> file_table" where
  "npmPublish parse print publish fs =
     (case fs pjPath of
        None \<Rightarrow> (Some (ThrownError (''ENOENT: '' @ pjPath)), None, fs)
      | Some text \<Rightarrow>
          (case parse text of
             Inl err \<Rightarrow> (Some err, None, fs)
           | Inr pj \<Rightarrow>
               (case renameSync pjPath pjBackupPath fs of
                  Inl err \<Rightarrow> (Some err, None, fs)
                | Inr fs1 \<Rightarrow>
                    (let fs2 = fs1(pjPath \<mapsto> print (minimalPackage pj))
                     in case renameSync readmePath hiddenPath fs2 of
                          Inl err \<Rightarrow> (Some err, None, fs2)
                        | Inr fs3 \<Rightarrow>
                            (let out = Some (case publish fs3 of Inr _ \<Rightarrow> Published | Inl err \<Rightarrow> FailedToPublish err)
                             in case renameSync pjBackupPath pjPath fs3 of
                                  Inl err \<Rightarrow> (Some err, out, fs3)
                                | Inr fs4 \<Rightarrow>
                                    (case renameSync hiddenPath readmePath fs4 of
                                       Inl err \<Rightarrow> (Some err, out, fs4)
                                     | Inr fs5 \<Rightarrow> (None, out, fs5)))))))"

lemmas publish_paths = pjPath_def pjBackupPath_def readmePath_def hiddenPath_def

text \<open>Whether npm succeeds or not, the files are as they were.\<close>

lemma publish_restores:
  assumes "fs pjPath = Some text" and "parse text = Inr pj" and "fs readmePath = Some readme"
  shows "\<exists>out. npmPublish parse print publish fs = (None, out, fs(pjBackupPath := None, hiddenPath := None))"
proof -
  have "fs(pjBackupPath := None, hiddenPath := None) =
      fs(pjPath := Some text, pjBackupPath := None, readmePath := Some readme, hiddenPath := None)"
    using assms(1,3) by (auto simp: publish_paths fun_eq_iff)
  then show ?thesis using assms by (auto simp: npmPublish_def renameSync_def publish_paths Let_def fun_eq_iff)
qed

text \<open>npm sees the package without the details of the project, and no README.\<close>

lemma published_files:
  assumes "fs pjPath = Some text" and "parse text = Inr pj" and "fs readmePath = Some readme"
    and "\<And>files. files pjPath = Some (print (minimalPackage pj)) \<Longrightarrow> files readmePath = None \<Longrightarrow> publish files = Inr ()"
  shows "fst (snd (npmPublish parse print publish fs)) = Some Published"
  using assms by (simp add: npmPublish_def renameSync_def publish_paths Let_def)

text \<open>Without a README the script stops when the package is replaced already, and its backup is not put back.\<close>

lemma publish_without_readme:
  assumes "fs pjPath = Some text" and "parse text = Inr pj" and "fs readmePath = None"
  shows "npmPublish parse print publish fs =
    (Some (ThrownError ''ENOENT: README.md''), None, fs(pjPath \<mapsto> print (minimalPackage pj), pjBackupPath \<mapsto> text))"
  using assms by (auto simp: npmPublish_def renameSync_def publish_paths Let_def fun_eq_iff)

section \<open>ethereum/utils.ts\<close>

text \<open>\<open>isValidChecksumAddress\<close> and \<open>toChecksumAddress\<close> of ethereumjs-util, and \<open>splitSignature\<close> of ethers.\<close>

record address_package =
  isValidChecksumAddress :: "string \<Rightarrow> bool"
  toChecksumAddress :: "string \<Rightarrow> js_error + string"
  splitSignature :: "string \<Rightarrow> js_error + js_val"

definition isEthereumAddress :: "address_package \<Rightarrow> string \<Rightarrow> bool" where
  "isEthereumAddress x addr = isValidChecksumAddress x addr"

definition transformChecksumAddress :: "address_package \<Rightarrow> string option \<Rightarrow> js_error + string option" where
  "transformChecksumAddress x address =
     (case address of
        None \<Rightarrow> Inr None
      | Some a \<Rightarrow> if a = [] then Inr (Some []) else bindr (toChecksumAddress x a) (\<lambda>c. Inr (Some c)))"

section \<open>flattened-signature.decorator.ts\<close>

definition isFlattenedSignature :: "address_package \<Rightarrow> string \<Rightarrow> bool" where
  "isFlattenedSignature x value = (case splitSignature x value of Inl _ \<Rightarrow> False | Inr _ \<Rightarrow> True)"

definition flattenedSignatureMessage :: "string \<Rightarrow> string" where
  "flattenedSignatureMessage property =
     property @ '' must be a valid flattened signature (ethers.utils.splitSignature failed)''"

end
