(* ===== verification/Spec2Isabelle.thy ===== *)
theory Spec2Isabelle
  imports FurtherFacts CollectionSamples SignerScripts Digest Publishing
begin

text \<open>
  The verification library of the Startrail repository: the TypeScript, AssemblyScript and
  JavaScript code around the Startrail contracts, and the contracts themselves: tokens, batches, wallets and the
  forwarder of signed requests. A token is an SRR (Startrail Registry Record). The repository has three programs that share the contracts, each
  on a state of its own.

  \<^item> The subgraph (\<open>src/subgraph\<close>) indexes the events of the contracts: a handler per event updates
    the entities of a store. Handlers are functions \<open>store \<Rightarrow> abort + store\<close>; a null dereference
    or a time beyond the range of Date is a value of \<open>abort\<close>, after which the subgraph stops.
  \<^item> The TypeScript library (\<open>src/startrail-common-js\<close>) builds, signs and encodes meta-transactions
    for the MetaTxForwarder and transactions of the Administrator (a Gnosis Safe), and reads
    events. Its functions are pure up to the calls of contracts, which are values (\<open>forwarder_call\<close>) or
    parameters; a throw is a value of \<open>js_error\<close>.
  \<^item> The deployment code (\<open>src/utils\<close>) deploys and upgrades the contracts and records their
    addresses. A script is an \<open>act\<close>: a function from the \<open>world\<close> of JSON files and the chain to a
    result or an error, with the world it leaves; an error keeps what was done before it. It uses
    the library for the request types it registers and for the Administrator's transactions. The
    command line scripts (\<open>src/scripts\<close>) operate what is deployed with the same functions.
  \<^item> Of the contracts (\<open>src/contracts\<close>), the current versions of the MetaTxForwarder, the LicensedUserManager,
    the StartrailRegistry, the NameRegistry, Bulk, the collections and their factory are modelled: they accept what the library signs, and the
    subgraph and the scripts follow their state. A call is \<open>None\<close> when it reverts, else the state and
    the events it emits.

  \<^bold>\<open>The subgraph.\<close> \<open>Schema\<close>: the entities of \<open>schema.graphql\<close>, an attribute is an option because the
  handlers create entities before they set it; \<open>wf_store\<close> is what the schema requires. The locale
  \<open>entity_table\<close> is the contract of every entity type's table. \<open>Runtime\<close>: \<open>lib/utils.ts\<close> (\<open>toUTCString\<close>,
  \<open>srrEntityId\<close>) and the host functions (\<open>host\<close>). \<open>SrrHandlers\<close>, \<open>SrrMigration\<close>: the two files of
  \<open>lib/\<close> of these names. \<open>SrrMapping\<close>, \<open>CollectionMapping\<close>, \<open>BulkMapping\<close>, \<open>LuwMapping\<close>: the
  mapping files, one function per handler. \<open>Events\<close>: \<open>subgraph.template.yaml\<close>, a constructor per
  bound event, \<open>dispatch\<close> from events to handlers, \<open>run_subgraph\<close> for a chain of events; the locale
  \<open>guarded_machine\<close> carries an invariant along a run. \<open>SrrInvariants\<close>, \<open>MappingInvariants\<close>,
  \<open>Subgraph\<close>: every handler keeps \<open>wf_store\<close>, \<open>sync\<close> (a token and its commitment entity agree) and
  \<open>refs\<close> (references resolve). \<open>Ledger\<close>: the abstract table of owners and commitments that the
  handlers refine, and provenances are only added. \<open>Progress\<close>: \<open>legal_event\<close>, under which no
  handler aborts. \<open>Wallets\<close>: the abstract table of licensed user wallets, batches and data sources.
  \<open>Transfers\<close>: the effect of a transfer attribute by attribute and the two gaps of the handlers.

  \<^bold>\<open>The library.\<close> \<open>JsObjects\<close>: objects as association lists in insertion order, sorting by a
  comparison (locale \<open>comparator\<close>). \<open>MetaTxTypes\<close>: \<open>meta-tx/eip712-message-types\<close>. \<open>MetaTxRegistry\<close>:
  \<open>meta-tx/types.ts\<close> and \<open>meta-tx-request-registry.ts\<close>, evaluated to the table \<open>request_table\<close>.
  \<open>MessageRecords\<close>: the TypeScript records of these files, an interface is a list of properties with
  their types, and what the encoder takes; \<open>RecordEncoding\<close>: which records are encoded,
  and what the order of properties decides.
  \<open>TypedData\<close>: \<open>eip712-typed-data-builder.ts\<close> and \<open>contracts/utils.ts\<close>. \<open>Signing\<close>: \<open>nonce.ts\<close> and
  \<open>sign.ts\<close>. \<open>Forwarder\<close>: \<open>contracts/meta-tx-forwarder\<close>. \<open>Administrator\<close>: \<open>contracts/administrator\<close>
  with the packed format of MultiSend and the loop of that contract that reads it. \<open>TxHelpers\<close>:
  \<open>ethereum/tx-helpers.ts\<close>, \<open>ethereum/utils.ts\<close>, \<open>srr/srr-id-compute.ts\<close> and the logger. \<open>Digest\<close>:
  \<open>digest/sha256.ts\<close> with \<open>JSON.stringify\<close>, which is one to one. \<open>Publishing\<close>: \<open>bin/npm-publish.js\<close>, whose files are
  restored, and wrappers of packages (\<open>flattened-signature.decorator.ts\<close>, addresses of \<open>ethereum/utils.ts\<close>).

  \<^bold>\<open>The deployment code.\<close> \<open>Scripts\<close>: \<open>act\<close> and its composition, the environment of hardhat (\<open>hre\<close>),
  and the locale \<open>preserved\<close> for relations between the world before and after, which composition
  keeps. \<open>DeployJson\<close>: \<open>deploy-json.ts\<close>, \<open>impl-json.js\<close>; the locale \<open>json_file\<close> is the contract of
  the three files. \<open>Hardhat\<close>: \<open>hardhat-helpers.ts\<close>, \<open>chain-ids.ts\<close>, and the Administrator as the
  scripts use it; \<open>Versions\<close>: the order of contract versions. \<open>Features\<close>: \<open>types.ts\<close>,
  \<open>collection/feature-signatures.ts\<close>, \<open>feature-selectors.ts\<close>, \<open>types.ts\<close>, \<open>utils.ts\<close>; \<open>Diamond\<close>: the
  table of selectors that a cut of EIP-2535 changes, and what upgrades make of it.
  \<open>CollectionsCore\<close>: \<open>collection/deployment-actions.ts\<close>. \<open>RequestRegistration\<close>:
  \<open>register-request-types.ts\<close>. \<open>Deployments\<close>: the \<open>deploy-*\<close> files of \<open>utils/deployment\<close>.
  \<open>Releases\<close>: the files \<open>001\<close> to \<open>030\<close> of it. \<open>AddressBook\<close>: one lemma per script, it keeps the
  names in the JSON files and every address but those of \<open>release_names\<close>.

  \<^bold>\<open>The contracts.\<close> \<open>Evm\<close>: bytes, words and what the contracts use of the virtual machine (record \<open>evm\<close>).
  \<open>SignatureChecks\<close>: \<open>SignatureDecoder.sol\<close>, \<open>SignatureChecker.sol\<close>; accepted signatures are those of
  owners in ascending order. \<open>LicensedUsers\<close>: \<open>LicensedUserManagerV02.sol\<close> over \<open>OwnerManager\<close>;
  \<open>LicensedUserFacts\<close>: its invariant \<open>lum_ok\<close>, kept by calls that give no owner twice, who may change a
  wallet, and that the subgraph's table agrees. \<open>ForwarderContract\<close>: \<open>MetaTxForwarderV3.sol\<close>,
  \<open>MetaTxRequestManager.sol\<close>, \<open>ReplayProtection.sol\<close>, \<open>TransactionExecutor.sol\<close>; \<open>ForwarderSafety\<close>: runs
  of it in which forwarded calls call it again, nonces and what a signature binds. \<open>MetaTxFlow\<close>: a
  request from the library to the destination: both sides hash the same bytes. The locale \<open>signature_authority\<close>
  is what the forwarder needs of the contract that checks the signatures; the LicensedUserManager is one.

  \<^bold>\<open>Tokens and batches.\<close> \<open>RegistryStorage\<close>: \<open>Storage.sol\<close> as the record \<open>sr_state\<close>, a function as a list of
  \<open>statements\<close> over it (\<open>require\<close>, \<open>assign\<close>, \<open>emit\<close>), \<open>ERC721.sol\<close>, \<open>NameRegistry.sol\<close>, \<open>IDGeneratorV3.sol\<close>.
  \<open>RegistryContract\<close>: \<open>StartrailRegistryV25.sol\<close> and \<open>OpenSeaMetaTransactionLibrary.sol\<close>, \<open>run_sr_call\<close> has an equation per
  function; a \<open>transaction\<close> is a call with the calls a recipient makes back while it is told of a token.
  \<open>RegistryFacts\<close>: what a call does to tokens (\<open>token_effect\<close>), who moves them, when it succeeds; the locale
  \<open>token_invariant\<close> carries an invariant of the storage through every function, from what minting, moving,
  approving and royalties keep. \<open>RegistryLedger\<close>: the events of the contract are legal for the subgraph, whose
  ledger \<open>mirrors\<close> the storage. \<open>RegistryClient\<close>: the identifier the library computes. \<open>BulkContract\<close>:
  \<open>bulk/BulkV6.sol\<close> over the registry and the collections; \<open>BulkSafety\<close>: its runs (\<open>bulk_run\<close>), in which another
  contract may call it again, each leaf once, the counter of 8 bits, and what the packed values of a leaf leave open.

  \<^bold>\<open>Collections.\<close> \<open>CollectionContract\<close>: the current version of every feature in \<open>collection/features\<close>, with the storage
  libraries, on the storage of one collection (\<open>col_state\<close>); \<open>run_col_call\<close> delegates as the proxy does.
  \<open>CollectionFacts\<close>: a call that succeeds is a \<open>col_step\<close>, the invariant \<open>col_ok\<close> (balances count tokens although they
  are changed unchecked), who moves tokens. \<open>CollectionLedger\<close>: the ledger of the subgraph \<open>follows\<close> the storage, also
  over tokens that are destroyed and created again. \<open>CollectionFactory\<close>: \<open>CollectionFactoryV01.sol\<close> and
  \<open>CollectionRegistry.sol\<close>, and a collection in the subgraph from its creation on. \<open>CollectionSafety\<close>: what a collection
  allows beside its rules. \<open>BulkCollections\<close>: a leaf acts on a collection for the signer of its batch.

  \<^bold>\<open>Operation.\<close> \<open>OwnerManager\<close>: the contract \<open>licensedUser/OwnerManager.sol\<close>, whose linked list of owners
  the subgraph follows and the scripts edit; every call keeps the list (\<open>owner_list\<close>). \<open>Operations\<close>:
  \<open>utils/lum-*\<close>, \<open>meta-tx-send.ts\<close>, \<open>opensea-helpers.ts\<close>, \<open>disable-lu-legacy.js\<close> and the two scripts that
  upgrade by name. \<open>AdminScripts\<close>: the scripts that send transactions, one function per file with the
  words of its command line or the object of its input file; \<open>process.exit\<close> is the error \<open>ProcessExit\<close>.
  \<open>SignerScripts\<close>: the scripts that send a call with a signer chosen by index, command lines of the
  operations above, and \<open>scripts/deploy/deploy.js\<close>. \<open>Inspect\<close>: the scripts that report what is on the
  chain, and \<open>tx-resend.js\<close>. \<open>SubgraphYaml\<close>:
  \<open>subgraph/bin/generate-subgraph-yaml.js\<close>, which writes the manifest of a deployment. \<open>Config\<close>:
  \<open>hardhat.config.ts\<close>, the networks and what the scripts read of them, and the ABIs it exports.

  \<open>FurtherFacts\<close>: further properties with their witnesses. \<open>Samples\<close>, \<open>DeploySamples\<close>,
  \<open>OperationSamples\<close>, \<open>ContractSamples\<close>, \<open>RegistrySamples\<close> and \<open>CollectionSamples\<close> hold the hosts, packages, environments and chains on which the
  witnesses apply the properties; \<open>Prelude\<close> and \<open>Strings\<close> the shared lemmas.

  \<^bold>\<open>Parameters and what is assumed of them.\<close> \<open>host\<close>: keccak256 and renderings of BigInt, no
  assumption but for \<open>token_ids_distinct\<close> (no collision on the two inputs). \<open>ext\<close>: ethers and lodash. The named
  hypotheses are \<open>omit_documented\<close> and \<open>omitBy_documented\<close> (lodash), \<open>strip_documented\<close> (the 0x prefix),
  \<open>buffer_documented\<close> (Buffer.from of hexadecimal digits), \<open>pack_documented\<close> (solidityPack of the
  five values of a multi-send), \<open>encoder_words\<close> (EIP-712: a type hash and one word per field).
  \<open>hre\<close>: hardhat, ethers and the chain; \<open>diamond_documented\<close> states EIP-2535 for the FeatureRegistry.
  \<open>render\<close> is how ethers writes an address, one string per address; the private keys of the local
  mnemonic and their addresses are functions that do not repeat a value.
  \<open>evm\<close>: keccak256, ecrecover, the chain id and the bytes past the end of memory; \<open>surroundings\<close> and
  \<open>lum_env\<close>: the other contracts. \<open>eip712_documented\<close>: the type hash, the words of an address, a
  number and bytes; \<open>signs_for\<close>: a wallet signs the EIP-712 hash; \<open>encoder_accepts\<close>,
  \<open>encoder_rejects_buffers\<close>: the values the encoder takes; \<open>collision_free\<close>: the two inputs of a hash do
  not collide. \<open>sr_env\<close>, \<open>bulk_env\<close> and \<open>col_env\<close>: the contracts around the registry, Bulk and a collection, the decoding
  of calldata and \<open>MerkleProof.verify\<close>; \<open>others_call\<close>: other contracts change these only by calling them;
  \<open>senders_are_accounts\<close>: no call has the zero address as its sender; \<open>create2\<close>: the address of a new collection;
  \<open>id_functions_documented\<close>: \<open>solidityKeccak256\<close> and \<open>BigNumber.from\<close> of a hash; \<open>distinct_keys\<close>: entity ids do not
  collide; \<open>found_in\<close>, \<open>digests_readable\<close> and \<open>col_digests_readable\<close>: the blocks and digests of the events. Every one of them is satisfied by a function of the theories of samples.

  \<^bold>\<open>Numbers, loops, fuel.\<close> BigInt and BigNumber are unbounded, as in the code; bounds (2^128 of a
  nonce, 2^256 of a word, 10^12 of an identifier, 8.64e15 milliseconds of Date, 2^53 of a number)
  are stated where the code has them. The loops that may not return are \<open>query_loop\<close> and
  \<open>historyTypes_loop\<close>, partial functions into option; exactly when they return is proved. No definition has fuel.

  \<^bold>\<open>Not modelled.\<close> The FeatureRegistry, proxies and older versions of the Solidity contracts, another
  language: where the clients rely on one, it is a parameter. A recipient of a collection's token only accepts or
  rejects it; what it calls back is a later call of the run. Reasons of a revert, gas, return data.
  Of \<open>src/bin\<close> a template and an endless search for addresses, \<open>export-storage-layouts.ts\<close>,
  \<open>migrate/new-lum-cutover.js\<close> (it loads a file that is not there) and tests. Log lines of the scripts
  are dropped, those of the subgraph have no effect on the store. Concurrency of promises: awaited
  calls are made in their order. Compiler and reporter settings of \<open>hardhat.config.ts\<close>. The entity
  SRRApproval has no handler. The random values of the test helpers call packages only.
\<close>

section \<open>The subgraph\<close>

text \<open>C1: the subgraph indexes every legal chain of events. When the times of the events are in
  the range of Date, 64-digit digests are hexadecimal, and transfers and CreateSRR events of the
  registry concern tokens that were minted before, no handler aborts from the empty store on; the
  final store is well-formed for the schema, its commitments agree, its references are intact, and
  its tokens are those of the abstract ledger.\<close>

theorem legal_chain_is_indexed:
  assumes "legal_chain h es Map.empty"
  shows "\<exists>s'. run_subgraph h es empty_store = Inr s' \<and> wf_store s' \<and> sync s' \<and> refs s' \<and>
    ledger_of s' = ledger_of_run h es Map.empty"
  using legal_chain_indexed [of empty_store h es] assms by (simp add: good_store_def)

theorem legal_chain_is_indexed_witness:
  "\<exists>s'. run_subgraph sample_host sample_chain empty_store = Inr s' \<and> wf_store s' \<and> sync s' \<and> refs s' \<and>
    ledger_of s' = ledger_of_run sample_host sample_chain Map.empty"
  by (rule legal_chain_is_indexed [OF sample_host_legal])

text \<open>C2: the handlers of all data sources refine the abstract ledger of owners and pending
  commitments: after any run that does not abort, owner and commitment of every token are what
  the ledger operations of the events make of them.\<close>

theorem tokens_refine_ledger:
  assumes "sync s" and "refs s" and "run_subgraph h es s = Inr s'"
  shows "ledger_of s' = ledger_of_run h es (ledger_of s)"
  using ensuresD [OF ledger_run assms(3)] assms(1,2) by simp

theorem tokens_refine_ledger_witness:
  "ledger_of sample_store (srrEntityId sample_host (replicate 20 7) 5) = Some (Some bob, None)"
  using tokens_refine_ledger [OF sync_empty refs_empty sample_run]
  by (simp add: ledger_of_run_def sample_chain_def sample_event_def ledger_effect_def transfer_op_def
      alice_def ZERO_ADDRESS_def)

text \<open>C3: along every run, the commitment stored with a token is the commitment of its
  SRRTransferCommit entity, which is set exactly when the last action was an approval.\<close>

theorem commitments_agree:
  assumes "sync s" and "run_subgraph h es s = Inr s'" and "srrs s' k = Some e"
  shows "srr_id e = k \<and> commit_agrees e (transferCommits s' k)"
  using ensuresD [OF commitments.run_keeps assms(2) [unfolded run_subgraph_def]] assms(1,3)
  by (simp add: sync_srr_id sync_agrees)

theorem commitments_agree_witness:
  "srr_id sample_srr = sample_token \<and> commit_agrees sample_srr (transferCommits sample_store sample_token)"
  by (rule commitments_agree [OF sync_empty sample_run sample_srr_known])

text \<open>C4: a recorded provenance is never lost, and its token, parties, sender, digest, address and
  custom history are never changed; only its time can be corrected.\<close>

theorem provenances_kept:
  assumes "sync s" and "refs s" and "run_subgraph h es s = Inr s'" and "provenances s k = Some p"
  shows "\<exists>p'. provenances s' k = Some p' \<and> prov_core p' = prov_core p"
  using ensuresD [OF ledger_run assms(3)] assms(1,2,4) by (simp add: prov_kept_def)

theorem provenances_kept_witness:
  "\<exists>p'. provenances sample_store sample_provenance = Some p' \<and> prov_core p' = prov_core sample_pv"
  by (rule provenances_kept [OF sample_prefix_inv sample_split(2) sample_pv_known])

text \<open>C5: what a transfer that is no mint does: the recipient owns the token, the commitment is
  cleared in both entities, the transfer is recorded as a provenance from sender to recipient
  unless one exists for that time, and no other token or commitment changes.\<close>

theorem transfer_moves_token:
  assumes "sync s" and "from \<noteq> ZERO_ADDRESS" and "handleTransfer h ev from to tok s = Inr s'"
  shows "transfer_effect h (eventUTCMillis ev) (srrEntityId h (ev_address ev) tok) from to s s'"
  by (rule ensuresD [OF handleTransfer_effect [OF assms(1,2)] assms(3)])

theorem transfer_moves_token_witness:
  "transfer_effect sample_host 9000 sample_token bob carol sample_store sample_transferred"
  using transfer_moves_token [OF sample_sync bob_not_zero sample_transfer]
  by (simp add: sample_token_def sample_event_def eventUTCMillis_def secondsToMillis_def)

text \<open>C6: the licensed user wallets refine an abstract table of owners and thresholds: after any run
  of the subgraph, a wallet has the owners and the threshold that the events of the
  LicensedUserManager give it, where a wallet is created once, removing an owner removes its first
  occurrence, and no event of another contract changes a wallet.\<close>

theorem wallets_refine_table:
  assumes "wf_wallets s" and "run_subgraph h es s = Inr s'"
  shows "wallets_of s' = wallets_of_run es (wallets_of s)"
  using ensuresD [OF wallets_run [OF assms(1)] assms(2)] by simp

theorem wallets_refine_table_witness:
  "wallets_of sample_store = wallets_of_run (drop 7 sample_chain) (wallets_of sample_prefix)"
  by (rule wallets_refine_table [OF sample_prefix_wallets sample_split(2)])

section \<open>The TypeScript library\<close>

text \<open>C7: the registry of meta-transaction requests loads; it has exactly the requests of the
  enumeration, once each; every field list has the generic shape; the record of a request agrees
  with it and with the contract it is for, and the types of its request fields, without the destination, are those of
  the parameters of its function, in their order. There is one exception, which the statement makes explicit: the
  threshold of WalletAddOwner, WalletRemoveOwner and WalletChangeThreshold, and of no other request, is signed as a
  uint256 and taken by the function as a uint8. A request with calldata is for a contract whose ABI the library has.\<close>

theorem registry_is_complete:
  assumes "omitBy_documented x"
  shows "\<exists>requests. metaTxRequests x = Inr requests \<and>
    mset (obj_keys requests) = mset (obj_values MetaTxRequestType) \<and>
    list_all (\<lambda>(key, r). wf_types (eip712Types r) \<and> record_consistent key r \<and>
      (if requiresDataField r then succeeds (getContractInterface (destinationContract r)) else True)) requests"
proof -
  note loads = metaTxRequests_value [OF assms]
  have "wf_types (eip712Types r) \<and> record_consistent key r \<and>
      (if requiresDataField r then succeeds (getContractInterface (destinationContract r)) else True)"
    if "(key, r) \<in> set (map (table_entry x) request_table)" for key r
  proof -
    have g: "obj_get (map (table_entry x) request_table) key = Some r"
      using that request_entries_distinct by (simp add: obj_get_def)
    show ?thesis
      using metaTxRequests_get(1) [OF assms loads g] metaTxRequests_consistent [OF assms loads g]
        metaTxRequests_interface [OF assms loads g] by simp
  qed
  then have "list_all (\<lambda>(key, r). wf_types (eip712Types r) \<and> record_consistent key r \<and>
      (if requiresDataField r then succeeds (getContractInterface (destinationContract r)) else True))
      (map (table_entry x) request_table)"
    unfolding list_all_iff by blast
  moreover have "mset (obj_keys (map (table_entry x) request_table)) = mset (obj_values MetaTxRequestType)"
    unfolding obj_keys_def request_entry_names using request_table_complete by (simp only: registry_names_def)
  ultimately show ?thesis using loads by blast
qed

theorem registry_is_complete_witness:
  "\<exists>requests. metaTxRequests sample_ext = Inr requests \<and>
    mset (obj_keys requests) = mset (obj_values MetaTxRequestType) \<and>
    list_all (\<lambda>(key, r). wf_types (eip712Types r) \<and> record_consistent key r \<and>
      (if requiresDataField r then succeeds (getContractInterface (destinationContract r)) else True)) requests"
  by (rule registry_is_complete [OF sample_omitBy])

text \<open>C8: the suffix data the MetaTxForwarder receives for a request is the concatenation of the
  32-byte words of the request's own fields, in the order of its field list, without the type
  hash, the sender, the nonce and the calldata.\<close>

theorem suffix_is_request_fields:
  assumes "omitBy_documented x" and "encoder_words x th enc"
    and "encodeSuffixData x key params = Inr s"
  shows "\<exists>ws. s = ''0x'' @ concat ws \<and> length (concat ws) = 64 * length (request_fields (types_of key)) \<and>
    suffix_words enc (types_of key) (requestParamsToTypedParams params) = Inr ws"
proof -
  obtain ws where "s = ''0x'' @ concat ws"
      "suffix_words enc (types_of key) (requestParamsToTypedParams params) = Inr ws"
    using encodeSuffixData_words [OF assms] by blast
  then show ?thesis using concat_words_length [OF assms(2)] by (auto simp: suffix_words_def)
qed

theorem suffix_is_request_fields_witness:
  "\<exists>s. encodeSuffixData sample_ext sample_key sample_message = Inr s \<and> length s = 2 + 64 * 2"
proof -
  obtain s where s: "encodeSuffixData sample_ext sample_key sample_message = Inr s"
    using sample_suffix by (auto simp: succeeds_iff)
  obtain ws where "s = ''0x'' @ concat ws"
      "length (concat ws) = 64 * length (request_fields (types_of sample_key))"
    using suffix_is_request_fields [OF sample_omitBy sample_words s] by blast
  moreover have "length (request_fields (types_of sample_key)) = 2"
    by (simp add: sample_types request_fields_def has_data_def)
  ultimately show ?thesis using s by simp
qed

text \<open>C9: the TypeScript record of a request describes its EIP712 fields: it has exactly the request
  fields of the type as properties, in their order when the request has calldata; every property has
  a TypeScript type whose values the EIP712 type takes, or is a string that may be given as a
  Buffer.\<close>

theorem records_describe_requests:
  assumes "key \<in> set registry_names"
  shows "obj_get MessageRecordType (key @ ''Record'') = Some (record_of key) \<and>
    distinct (obj_keys (record_of key)) \<and>
    set (obj_keys (record_of key)) = set (map fld_name (request_fields (types_of key))) \<and>
    (has_data (types_of key) \<longrightarrow> obj_keys (record_of key) = map fld_name (request_fields (types_of key))) \<and>
    (\<forall>f \<in> set (request_fields (types_of key)). \<exists>t. obj_get (record_of key) (fld_name f) = Some t \<and>
      (compatible (fld_type f) t \<or> admits_buffer (fld_type f) t))"
  using record_facts [OF assms] by blast

theorem records_describe_requests_witness:
  "obj_keys (record_of flow_key) = [''wallet'', ''name'']"
proof -
  have "has_data (types_of flow_key)" by code_simp
  then show ?thesis using records_describe_requests [OF flow_keys(1)] by (simp add: flow_types)
qed

text \<open>C10: a request that type-checks is encoded exactly when no Buffer is given for a string: the record
  types allow one there, which the EIP712 encoder refuses. The values are well-formed (numbers fit
  their type, digests have their length, no Buffer is empty).\<close>

theorem typed_request_encodes:
  assumes "omitBy_documented x" and "encoder_words x th enc" and "encoder_accepts enc"
    and "encoder_rejects_buffers enc" and "key \<in> set registry_names" and "well_formed_request key r"
  shows "succeeds (encodeSuffixData x key r) \<longleftrightarrow>
    (\<forall>f \<in> set (request_fields (types_of key)). \<not> buffer_for_string r f)"
  by (rule typed_suffix_iff [OF assms])

theorem typed_request_encodes_witness:
  "succeeds (encodeSuffixData flow_ext flow_key flow_data) \<and>
   \<not> succeeds (encodeSuffixData flow_ext buffer_key buffer_data)"
proof
  note typed = typed_request_encodes [OF flow_omitBy flow_words flow_accepts flow_rejects]
  show "succeeds (encodeSuffixData flow_ext flow_key flow_data)"
    using typed [OF flow_keys(1) flow_well_formed(1)]
    by (simp add: flow_types buffer_for_string_def) (simp add: flow_data_def obj_get_def)
  show "\<not> succeeds (encodeSuffixData flow_ext buffer_key buffer_data)"
    using typed [OF flow_keys(2) flow_well_formed(2)]
    by (simp add: flow_types buffer_for_string_def) (simp add: buffer_data_def obj_get_def)
qed



text \<open>C12: for parameters without underscores and BigNumbers, what the wallet signs is what the
  MetaTxForwarder receives: the calldata that is sent is the data field that was signed, and the
  suffix data is the rest of the encoding that was signed, so the contract can rebuild it.\<close>

theorem sent_is_signed:
  assumes "omitBy_documented x" and "encoder_words x th enc" and "clean_params (requestData request)"
    and "buildTypedData x dd (requestTypeKey request) from nonce (requestData request) = Inr td"
    and "encodeData x (requestTypeKey request) (types_of (requestTypeKey request)) (td_message td) = Inr full"
    and "encodeExecuteTransactionProps x request sigs ty = Inr rsp"
  shows "drop (if has_data (types_of (requestTypeKey request)) then 194 + 64 else 194) full =
      drop 2 (suffixData (rsp_request rsp)) \<and>
    (if has_data (types_of (requestTypeKey request))
     then obj_get (td_message td) ''data'' = Some (JString (callData (rsp_request rsp)))
     else callData (rsp_request rsp) = ''0x'') \<and>
    take 66 full = ''0x'' @ th (requestTypeKey request) (types_of (requestTypeKey request))"
proof -
  obtain requests r where r: "metaTxRequests x = Inr requests" "obj_get requests (requestTypeKey request) = Some r"
      "if requiresDataField r then encodeContractFunctionCalldata x (destinationContract r)
         (functionSignature r) (requestData request) = Inr (callData (rsp_request rsp))
       else callData (rsp_request rsp) = ''0x''"
    using encodeExecute_Inr [OF assms(6)] by blast
  have "take 66 full = ''0x'' @ th (requestTypeKey request) (types_of (requestTypeKey request))"
    using encodeData_split [OF assms(2) build_message(2) [OF assms(1,4)] assms(5)] by (auto split: if_splits)
  then show ?thesis
    using signed_is_sent [OF assms] r(3) metaTxRequests_get(2,3) [OF assms(1) r(1,2)] by simp
qed

theorem sent_is_signed_witness:
  "\<exists>rsp. encodeExecuteTransactionProps sample_ext sample_request [''0x12''] ''MultiSig'' = Inr rsp \<and>
    obj_get (td_message sample_td) ''data'' = Some (JString (callData (rsp_request rsp)))"
proof -
  obtain rsp where rsp: "encodeExecuteTransactionProps sample_ext sample_request [''0x12''] ''MultiSig'' = Inr rsp"
    using sample_execution by (auto simp: succeeds_iff)
  obtain full where full: "encodeData sample_ext sample_key (types_of sample_key) (td_message sample_td) = Inr full"
    using sample_encoded by (auto simp: succeeds_iff)
  have k: "requestTypeKey sample_request = sample_key" "requestData sample_request = sample_message"
    by (simp_all add: sample_request_def sample_key_def sample_message_def)
  show ?thesis
    using sent_is_signed [OF sample_omitBy sample_words, of sample_request, unfolded k,
        OF sample_message_clean sample_td_built full rsp] rsp sample_facts(4) by simp
qed

text \<open>C13: packing a channel and a nonce below 2^128 is undone by unpacking, and only the pair that was
  packed unpacks from a number; the packed nonce fits a uint256 exactly for channels of 128 bits, and
  a negative channel throws.\<close>

theorem nonces_round_trip:
  assumes "0 \<le> n" and "n < 2 ^ 128"
  shows "(packNonce c n = Inr p) = (unpackNonce p = Inr (c, n)) \<and>
    (\<exists>q. packNonce c n = Inr q \<and> 0 \<le> q \<and> q < 2 ^ 256) = (0 \<le> c \<and> c < 2 ^ 128) \<and>
    succeeds (packNonce c n) = (0 \<le> c)"
  using pack_unpack [OF assms] packed_nonce_bounds [OF assms] by blast

theorem nonces_round_trip_witness:
  "unpackNonce (5 * 2 ^ 128 + 7) = Inr (5, 7) \<and> succeeds (packNonce 5 7)"
  using nonces_round_trip [of 7 5 "5 * 2 ^ 128 + 7"] by (simp add: packNonce_Inr)

text \<open>C14: the packed transactions of a multi-send are read back by the loop of MultiSend: the same
  operations, destinations and data, in order, with value 0.\<close>

theorem multi_send_reads_back:
  assumes "strip_documented x" and "pack_documented x" and "buffer_documented x"
    and "list_all (\<lambda>(op, a, d). length a = 20 \<and> length d < 2 ^ 256) txs"
  shows "\<exists>packed. encodeMultiSendTransactions x (map tx_of txs) = toHex packed \<and>
    multi_send_loop packed = Some (map (\<lambda>(op, a, d). (nat (operation_id op), a, 0, d)) txs)"
proof -
  let ?txs = "map (\<lambda>(op, a, d). (operation_id op, a, d)) txs"
  have "operation_id op \<in> {0, 1}" for op by (cases op) simp_all
  then have "\<forall>(op, a, d) \<in> set ?txs. length a = 20 \<and> op \<in> {0, 1} \<and> length d < 2 ^ 256"
    using assms(4) by (auto simp: list_all_iff)
  from multi_send_loop_concat [OF this]
  have "multi_send_loop (concat (map (\<lambda>(op, a, d). pack_tx (operation_id op) a d) txs)) =
      Some (map (\<lambda>(op, a, d). (nat (operation_id op), a, 0, d)) txs)"
    by (simp add: split_def comp_def)
  moreover have "\<forall>(op, a, d) \<in> set txs. length a = 20" using assms(4) by (auto simp: list_all_iff)
  ultimately show ?thesis using encodeMultiSend_packed [OF assms(1-3)] by blast
qed

theorem multi_send_reads_back_witness:
  "\<exists>packed. encodeMultiSendTransactions sample_ext (map tx_of sample_txs) = toHex packed \<and>
    multi_send_loop packed = Some [(0, alice, 0, [1, 2, 3]), (1, bob, 0, [])]"
  using multi_send_reads_back [OF sample_strip sample_packed sample_buffer, of sample_txs]
  by (simp add: sample_txs_def alice_def bob_def)

text \<open>C15: for a positive number of blocks per query, reading events returns, and the ranges it reads
  cover exactly the blocks from start to end: every one once, but the blocks where two ranges meet
  twice, and none at all when start and end are the same block. With no or a negative number of
  blocks per query it never returns, unless there is nothing to read. The end block is not 0, which the code takes for
  no end given and replaces by the latest block.\<close>

theorem every_block_is_queried:
  assumes "b \<noteq> 0"
  shows "if 0 < n
    then \<exists>ranges. queryEvents getLogs latest a (Some b) (Some n) =
        Some (concat (map (\<lambda>(f, t). getLogs f t) ranges)) \<and>
      (\<forall>k. times_queried k ranges =
        (if a < b \<and> a \<le> k \<and> k \<le> b then (if n dvd k - a \<and> a < k \<and> k < b then 2 else 1) else 0))
    else queryEvents getLogs latest a (Some b) (Some n) = (if a < b then None else Some [])"
proof (cases "0 < n")
  case True
  then show ?thesis
    using query_loop_ranges [OF True, of getLogs a b "[]"] times_queried_ranges [OF True] assms
    by (simp add: queryEvents_def) (intro exI [of _ "block_ranges a b n"], simp)
next
  case False
  then show ?thesis
    using query_loop_diverges [of n a b getLogs "[]"] query_loop.simps [of getLogs a b n "[]"] assms
    by (cases "a < b") (simp_all add: queryEvents_def)
qed

theorem every_block_is_queried_witness:
  "(\<exists>ranges. queryEvents (\<lambda>f t. [(f, t)]) 9 0 (Some 10) (Some 5) =
      Some (concat (map (\<lambda>(f, t). [(f, t)]) ranges)) \<and> times_queried 5 ranges = 2 \<and> times_queried 4 ranges = 1) \<and>
   queryEvents (\<lambda>f t. [(f, t)]) 9 0 (Some 10) (Some 0) = None"
proof
  obtain ranges where r: "queryEvents (\<lambda>f t. [(f, t)]) 9 0 (Some 10) (Some 5) =
      Some (concat (map (\<lambda>(f, t). [(f, t)]) ranges))"
    "\<forall>k. times_queried k ranges = (if (0 :: int) < 10 \<and> 0 \<le> k \<and> k \<le> 10
       then (if 5 dvd k - 0 \<and> 0 < k \<and> k < 10 then 2 else 1) else 0)"
    using every_block_is_queried [of 10 5 "\<lambda>f t. [(f, t)]" 9 0] by auto
  then show "\<exists>ranges. queryEvents (\<lambda>f t. [(f, t)]) 9 0 (Some 10) (Some 5) =
      Some (concat (map (\<lambda>(f, t). [(f, t)]) ranges)) \<and> times_queried 5 ranges = 2 \<and> times_queried 4 ranges = 1"
    by (intro exI [of _ ranges]) simp
  show "queryEvents (\<lambda>f t. [(f, t)]) 9 0 (Some 10) (Some 0) = None"
    using every_block_is_queried [of 10 0 "\<lambda>f t. [(f, t)]" 9 0] by simp
qed

section \<open>The contracts the clients talk to\<close>

text \<open>C16: the MetaTxForwarder uses the nonces of a channel of a wallet one after the other: along any
  run, in which forwarded calls may call the forwarder again, the numbers of the executed requests
  of a channel are those from the first to the last in order, and no pair of a sender and a packed
  nonce is executed twice.\<close>

theorem nonces_used_in_order:
  assumes "forwarder_run e st log es st'"
  shows "numbers_used wallet channel log =
      [unat (mtf_getNonce st wallet channel) ..< unat (mtf_getNonce st' wallet channel)] \<and>
    distinct (map (\<lambda>r. (xd_from r, xd_nonce r)) log)"
  using run_nonces [OF assms] used_once [of log] by (simp add: mtf_getNonce_def)

theorem nonces_used_in_order_witness:
  "numbers_used bob 0 [sample_exec 0 [9], sample_exec 1 [9]] =
     [unat (mtf_getNonce sample_fwd bob 0) ..< unat (mtf_getNonce sample_fwd3 bob 0)] \<and>
   distinct (map (\<lambda>r. (xd_from r, xd_nonce r)) [sample_exec 0 [9], sample_exec 1 [9]])"
  using sample_forwarder_run nonces_used_in_order by blast

text \<open>C17: what a signature binds: two requests of a registered type have the same signed hash exactly
  when they are equal, or when one has calldata and the other has none but the hash of that calldata
  as the first word of its suffix data, provided keccak256 does not collide on what is hashed.\<close>

theorem same_hash_same_request:
  assumes "\<And>b. length (evm_keccak256 e b) = 32" and "well_sized r" and "well_sized r'"
    and "fs_typeHashes st (xd_typeHash r)" and "fs_typeHashes st (xd_typeHash r')"
    and "collision_free e (encoded_struct e r) (encoded_struct e r')"
    and "collision_free e (xd_callData r) (xd_callData r')"
  shows "encodeRequest e st r = encodeRequest e st r' \<longleftrightarrow>
    r = r' \<or> (xd_callData r \<noteq> [] \<and> r' = calldata_folded e r) \<or>
    (xd_callData r' \<noteq> [] \<and> r = calldata_folded e r')"
  by (rule same_hash_iff [OF assms])

theorem same_hash_same_request_witness:
  "encodeRequest sample_evm sample_fwd (sample_bare [9]) \<noteq> encodeRequest sample_evm sample_fwd (sample_bare [8])"
proof -
  have "\<not> (sample_bare [9] = sample_bare [8] \<or>
      (xd_callData (sample_bare [9]) \<noteq> [] \<and> sample_bare [8] = calldata_folded sample_evm (sample_bare [9])) \<or>
      (xd_callData (sample_bare [8]) \<noteq> [] \<and> sample_bare [9] = calldata_folded sample_evm (sample_bare [8])))"
    by (simp add: sample_bare_def sample_exec_def calldata_folded_def)
  moreover have "fs_typeHashes sample_fwd (xd_typeHash (sample_bare data))" for data
    by (simp add: sample_bare_def sample_exec_def sample_fwd_fields(1))
  ultimately show ?thesis
    using same_hash_same_request [OF sample_keccak_length sample_sizes sample_sizes _ _ sample_free] by blast
qed

text \<open>C18: the signatures of a request with calldata are accepted for a different call: whoever relays
  it can leave the calldata out and put its hash before the suffix data; the forwarder then calls
  the registered function of the destination with that hash and the suffix data as arguments. This is about the types
  registered with a destination; those of collections have none.\<close>

theorem calldata_can_be_replaced:
  assumes "prepareExecution e sur r sigs eoa st = Some (st1, d, c, h)" and "xd_callData r \<noteq> []"
    and "rq_destination (fs_requestTypes st (xd_typeHash r)) \<noteq> ZERO_ADDRESS"
  shows "c = xd_callData r @ xd_from r \<and>
    prepareExecution e sur (calldata_folded e r) sigs eoa st =
      Some (st1, d, rq_functionSignature (fs_requestTypes st (xd_typeHash r)) @
        evm_keccak256 e (xd_callData r) @ xd_suffixData r @ xd_from r, h)"
  using folded_prepared [OF assms] prepared(6) [OF assms(1)] assms(2) by (simp add: request_calldata_def)

theorem calldata_can_be_replaced_witness:
  "\<exists>h. prepareExecution sample_evm sample_sur (calldata_folded sample_evm (sample_exec 0 [9]))
     (sample_signature bob) True sample_fwd =
   Some (sample_fwd2, sample_destination, [1, 2, 3, 4] @ evm_keccak256 sample_evm [9] @ replicate 64 1 @ bob, h)"
proof -
  obtain h where h: "prepareExecution sample_evm sample_sur (sample_exec 0 [9]) (sample_signature bob) True sample_fwd =
      Some (sample_fwd2, sample_destination, [9] @ bob, h)"
    using sample_prepared [OF sample_nonces(1), of "[9]"] by (auto simp: sample_fwd_fields)
  have t: "xd_typeHash (sample_exec 0 [9]) = sample_type" by (simp add: sample_exec_def)
  from calldata_can_be_replaced [OF h] show ?thesis
    unfolding t sample_fwd_fields(2) by (simp add: sample_exec_def sample_not_zero)
qed

text \<open>C19: requests from the zero address need no signature: any bytes that recover to no account are
  accepted for them by executeTransactionEOA, when the nonce is the next one.\<close>

theorem zero_sender_accepted:
  assumes "fs_typeHashes st (xd_typeHash r)" and "xd_from r = ZERO_ADDRESS"
    and "checkAndUpdateNonce st ZERO_ADDRESS (xd_nonce r) = Some (True, st1)"
    and "request_destination sur st1 r = Some d" and "\<And>h. recover e h sigs 0 = ZERO_ADDRESS"
    and "call d (request_calldata st1 r @ ZERO_ADDRESS) st1 = Some st2"
  shows "\<exists>h. mtf_executeTransactionEOA e sur call r sigs st = Some (st2, [ExecutionSuccess h])"
  using zero_sender_prepared [OF assms(1-5)] assms(1,6)
  by (auto simp: mtf_executeTransactionEOA_def executeTransactionInternal_def executeCall_def)

theorem zero_sender_accepted_witness:
  "\<exists>h. mtf_executeTransactionEOA sample_evm sample_sur (\<lambda>d c st. Some st)
     ((sample_exec 0 [9])\<lparr>xd_from := ZERO_ADDRESS\<rparr>) (replicate 65 0) sample_fwd =
     Some (used_nonce sample_fwd ZERO_ADDRESS 0, [ExecutionSuccess h])"
proof (rule zero_sender_accepted)
  let ?r = "(sample_exec 0 [9])\<lparr>xd_from := ZERO_ADDRESS\<rparr>"
  show "request_destination sample_sur (used_nonce sample_fwd ZERO_ADDRESS 0) ?r = Some sample_destination"
    by (rule sample_zero_destination)
  show "checkAndUpdateNonce sample_fwd ZERO_ADDRESS (xd_nonce ?r) = Some (True, used_nonce sample_fwd ZERO_ADDRESS 0)"
    using sample_zero_nonce by (simp add: sample_exec_def)
  show "recover sample_evm h (replicate 65 0) 0 = ZERO_ADDRESS" for h by (rule sample_zero_recover)
qed (simp_all add: sample_exec_def sample_fwd_fields(1))

text \<open>C20: registering a request type with the values the library sends: the contract hashes the EIP712
  type of the request, so that the type hash the library puts into every request is registered, with
  the destination and the selector it sent, and the type string is emitted. The Administrator can
  register every type of the library that is not registered.\<close>

theorem registered_type_is_signed:
  assumes "omitBy_documented x" and "metaTxRequests x = Inr requests" and "obj_get requests key = Some q"
    and "\<And>name ts. hashType x name ts = toHex (evm_keccak256 e (str_bytes (encodeType name ts)))"
    and "buildRegisterRequestTypeInputProps requests key (Some (toHex destination)) =
      Inr [Some (JString name), Some (JString suffix), Some (JString dest), Some (JString selector)]"
    and "\<not> fs_typeHashes st (hex_bytes (eip712TypeHash q))"
  shows "\<exists>st'. mtf_registerRequestType e sur (sur_administrator sur (fs_nameRegistry st)) name suffix (hex_bytes dest)
        (hex_bytes selector) st =
      Some (st', [RequestTypeRegistered (hex_bytes (eip712TypeHash q)) (encodeType key (types_of key))]) \<and>
    fs_typeHashes st' (hex_bytes (eip712TypeHash q)) \<and>
    fs_requestTypes st' (hex_bytes (eip712TypeHash q)) =
      \<lparr>rq_destination = destination, rq_functionSignature = hex_bytes (functionSelector q)\<rparr>"
proof -
  note facts = metaTxRequests_get [OF assms(1-3)]
  have p: "name = key" "suffix = buildSuffixTypeString (types_of key)" "dest = toHex destination"
    "selector = functionSelector q"
    using assms(3,5) suffix_string [OF assms(1-3)] by (auto simp: buildRegisterRequestTypeInputProps_def)
  have hash: "hex_bytes (eip712TypeHash q) = evm_keccak256 e (str_bytes (encodeType key (types_of key)))"
    unfolding facts(5) assms(4) by simp
  show ?thesis
    using assms(6) names_without_parens [OF facts(4)] unfolding p hash
    by (simp add: mtf_registerRequestType_def onlyAdministrator_def registered_type_string [OF facts(4)] Let_def)
qed

theorem registered_type_is_signed_witness:
  "\<exists>(q :: meta_tx_request) st'. fs_typeHashes st' (hex_bytes (eip712TypeHash q)) \<and>
     mtf_registerRequestType sample_evm sample_sur sample_admin flow_key (buildSuffixTypeString (types_of flow_key))
       alice (hex_bytes (functionSelector q)) sample_fwd1 =
     Some (st', [RequestTypeRegistered (hex_bytes (eip712TypeHash q)) (encodeType flow_key (types_of flow_key))])"
proof -
  obtain requests q where q: "metaTxRequests flow_ext = Inr requests" "obj_get requests flow_key = Some q"
    using flow_registry by blast
  have props: "buildRegisterRequestTypeInputProps requests flow_key (Some (toHex alice)) =
      Inr [Some (JString flow_key), Some (JString (buildSuffixTypeString (types_of flow_key))),
           Some (JString (toHex alice)), Some (JString (functionSelector q))]"
    using suffix_string [OF flow_omitBy q] q(2) by (simp add: buildRegisterRequestTypeInputProps_def)
  have admin: "sur_administrator sample_sur (fs_nameRegistry sample_fwd1) = sample_admin"
    by (simp add: sample_sur_def)
  have fresh: "\<not> fs_typeHashes sample_fwd1 (hex_bytes (eip712TypeHash q))"
    by (simp add: sample_fwd1_fields(1))
  obtain st' where "mtf_registerRequestType sample_evm sample_sur sample_admin flow_key
        (buildSuffixTypeString (types_of flow_key)) alice (hex_bytes (functionSelector q)) sample_fwd1 =
      Some (st', [RequestTypeRegistered (hex_bytes (eip712TypeHash q)) (encodeType flow_key (types_of flow_key))])"
      "fs_typeHashes st' (hex_bytes (eip712TypeHash q))"
    using registered_type_is_signed [OF flow_omitBy q documentedD(2) [OF flow_documented] props fresh, of sample_sur]
    unfolding admin hex_bytes_toHex by blast
  then show ?thesis by (intro exI conjI)
qed

text \<open>C21: only the Administrator, or the wallet itself through the forwarder, changes a wallet of the
  LicensedUserManager: when a call changes the record or the owners of a wallet, its sender is the
  Administrator, or the trusted forwarder with the address of that wallet appended to the calldata.\<close>

theorem wallet_changes_authorized:
  assumes "run_lum_call e env m c st = Some (st', es)"
    and "lum_luws st' wallet \<noteq> lum_luws st wallet \<or> lum_wallets st' wallet \<noteq> lum_wallets st wallet"
  shows "msg_sender m = lum_administrator env (lum_nameRegistry st) \<or>
    (msg_sender m = lum_trustedForwarder st \<and> 24 \<le> length (msg_data m) \<and> appended_sender (msg_data m) = wallet)"
proof -
  have "wallet = call_wallet e env c st" using call_frame [OF assms(1), of wallet] assms(2) by blast
  then show ?thesis using wallet_caller [OF call_allowed [OF assms(1)]] by blast
qed

theorem wallet_changes_authorized_witness:
  "\<not> (\<exists>st' es. run_lum_call sample_evm sample_lum_env (by_wallet bob) (EnglishName alice ''d'') sample_manager = Some (st', es) \<and>
        lum_luws st' alice \<noteq> lum_luws sample_manager alice) \<and>
   (\<exists>st' es. run_lum_call sample_evm sample_lum_env (by_wallet alice) (EnglishName alice ''d'') sample_manager = Some (st', es) \<and>
        lum_luws st' alice \<noteq> lum_luws sample_manager alice)"
proof
  show "\<not> (\<exists>st' es. run_lum_call sample_evm sample_lum_env (by_wallet bob) (EnglishName alice ''d'') sample_manager = Some (st', es) \<and>
      lum_luws st' alice \<noteq> lum_luws sample_manager alice)"
    using wallet_changes_authorized [of sample_evm sample_lum_env "by_wallet bob" "EnglishName alice ''d''" sample_manager _ _ alice]
      sample_callers(1,3) sample_callers(2) [OF bob_length] by auto
  show "\<exists>st' es. run_lum_call sample_evm sample_lum_env (by_wallet alice) (EnglishName alice ''d'') sample_manager = Some (st', es) \<and>
      lum_luws st' alice \<noteq> lum_luws sample_manager alice"
    by (rule sample_renamed)
qed

text \<open>C22: the subgraph follows the LicensedUserManager: after any calls that succeed from its
  deployment on, when no owner is given twice, a run of the subgraph with their events, among any
  events of other contracts, has exactly the wallets that exist, each with the owners that
  getOwners returns, in some order, and the threshold of the contract.\<close>

theorem subgraph_follows_manager:
  assumes "no_wallets st" and "run_lum_calls e cs st = Some (st', es)" and "calls_without_repeats e cs st"
    and "manager_events ts = es" and "run_subgraph h ts empty_store = Inr s'"
  shows "if walletExists st' wallet
    then \<exists>xs owners. wallets_of s' (toHex wallet) = Some (xs, uint (lum_getThreshold st' wallet)) \<and>
           lum_getOwners st' wallet = Some owners \<and> mset xs = mset owners
    else wallets_of s' (toHex wallet) = None"
proof -
  have "wf_wallets empty_store" "wallets_of empty_store = (\<lambda>_. None)" by (simp_all add: empty_wallets)
  then have "wallets_of s' = foldl (\<lambda>W e. wallet_step e W) (\<lambda>_. None) es"
    using ensuresD [OF wallets_run assms(5)] manager_events_wallets [of ts] assms(4) by simp
  moreover have "table_agrees st' (foldl (\<lambda>W e. wallet_step e W) (\<lambda>_. None) es) wallet"
    using calls_follow [OF assms(2,3)] no_wallets_ok [OF assms(1)] by blast
  ultimately show ?thesis unfolding table_agrees_def by metis
qed

theorem subgraph_follows_manager_witness:
  "\<exists>s' xs. run_subgraph sample_host (zip (replicate 4 (sample_event 2)) (map LicensedUserManager sample_manager_events))
     empty_store = Inr s' \<and> wallets_of s' (toHex alice) = Some (xs, 2) \<and> mset xs = {#bob, carol#}"
proof -
  obtain s' where s': "run_subgraph sample_host
      (zip (replicate 4 (sample_event 2)) (map LicensedUserManager sample_manager_events)) empty_store = Inr s'"
    using sample_manager_indexed by blast
  have "manager_events (zip (replicate 4 (sample_event 2)) (map LicensedUserManager sample_manager_events)) = sample_manager_events"
    by (rule manager_events_zip) (simp add: sample_manager_events_def)
  from subgraph_follows_manager [OF sample_manager_fresh sample_manager_runs(1) sample_without_repeats this s', of alice]
  show ?thesis using s' by (simp add: sample_manager_runs(3,5,6))
qed

text \<open>C23: what the MetaTxForwarder executes for a wallet was signed by owners of the wallet, as the EIP-712 hash
  of exactly that request under the forwarder's domain: as many different owners as the threshold of
  the wallet demands, at least one. The storage of the LicensedUserManager is as any calls leave it
  that give no owner twice.\<close>

theorem executed_request_signed_by_owners:
  assumes "no_wallets lum0" and "run_lum_calls e cs lum0 = Some (lum, es)" and "calls_without_repeats e cs lum0"
    and "asks_manager e sur st lum" and "mtf_executeTransactionLUW e sur call r sigs st = Some (st', evs)"
  shows "\<exists>h owners signed. evs = [ExecutionSuccess h] \<and>
    h = evm_keccak256 e ([0x19, 0x01] @ fs_domainSeparator st @ evm_keccak256 e (encoded_struct e r)) \<and>
    lum_getOwners lum (xd_from r) = Some owners \<and>
    signed = recovered_signers e h sigs (unat (lum_getThreshold lum (xd_from r))) \<and>
    signed \<noteq> [] \<and> distinct signed \<and> set signed \<subseteq> set owners"
proof -
  have "lum_ok lum" using calls_follow [OF assms(2,3)] no_wallets_ok [OF assms(1)] by blast
  from lum.executed_signed [OF this assms(4) [unfolded asks_manager_def] assms(5)] show ?thesis by blast
qed

theorem executed_request_signed_by_owners_witness:
  "\<exists>h. set (recovered_signers sample_evm h (concat [sample_signature bob, sample_signature carol]) 2) \<subseteq> {bob, carol} \<and>
     (\<exists>st'. mtf_executeTransactionLUW sample_evm sample_sur (\<lambda>d c st. Some st) ((sample_exec 0 [9])\<lparr>xd_from := alice\<rparr>)
        (concat [sample_signature bob, sample_signature carol]) sample_fwd = Some (st', [ExecutionSuccess h]))"
proof -
  obtain h where h: "mtf_executeTransactionLUW sample_evm sample_sur (\<lambda>d c st. Some st) ((sample_exec 0 [9])\<lparr>xd_from := alice\<rparr>)
     (concat [sample_signature bob, sample_signature carol]) sample_fwd =
     Some (used_nonce sample_fwd alice 0, [ExecutionSuccess h])"
    using sample_wallet_executed by blast
  have sender: "xd_from ((sample_exec 0 [9])\<lparr>xd_from := alice\<rparr>) = alice" by simp
  have "set (recovered_signers sample_evm h (concat [sample_signature bob, sample_signature carol]) 2) \<subseteq> {bob, carol}"
    using executed_request_signed_by_owners [OF sample_manager_fresh sample_manager_runs(1) sample_without_repeats flow_asks h]
    unfolding sender sample_manager_runs(5,6) by auto
  then show ?thesis using h by blast
qed

text \<open>C24: a wallet can be locked: adding the only owner of a wallet to it again, with a threshold of 2,
  is accepted; getOwners then returns the zero address as second owner, while the event that the
  subgraph stores names the owner twice, and no signatures are valid for the wallet any more.\<close>

theorem same_owner_locks_wallet:
  assumes "lum_ok st" and "isSingleOwner st wallet" and "a = lu_owner (lum_luws st wallet)"
    and "isActiveWallet st wallet" and "a \<noteq> SENTINEL_OWNERS" and "onlyWalletOrAdministrator env st m wallet"
  shows "\<exists>st'. lum_addOwner env m wallet a 2 st = Some (st', [UpgradeLicensedUserWalletToMulti wallet [a, a] 2]) \<and>
    lum_getOwners st' wallet = Some [a, ZERO_ADDRESS] \<and> lum_getThreshold st' wallet = 2 \<and>
    (\<forall>e hash sigs. isValidSignatureSet e st' wallet hash sigs = None)"
  by (rule locked_wallet [OF assms])

theorem same_owner_locks_wallet_witness:
  "\<exists>st'. lum_addOwner sample_lum_env (by_wallet alice) alice bob 2 sample_single =
     Some (st', [UpgradeLicensedUserWalletToMulti alice [bob, bob] 2]) \<and>
     (\<forall>e hash sigs. isValidSignatureSet e st' alice hash sigs = None)"
  using same_owner_locks_wallet [OF sample_single_ok, of alice bob sample_lum_env "by_wallet alice"]
    sample_single_facts by auto

text \<open>C25: a request that the library builds, signs with enough owners of the wallet and encodes passes
  every check of the contracts: when its parameters have no underscores, BigNumbers or properties from and nonce,
  the wallet is active, its type is registered, its nonce is the next one, its destination is known and the call does
  not revert, the MetaTxForwarder and the LicensedUserManager accept it, and the destination is called with the calldata of the library, or else the selector and the words
  of the request, followed by the address of the wallet. From the moment its nonce is counted (\<open>st1\<close>, before the
  destination is called) no request of the wallet with that nonce is accepted, neither this one nor another, in
  whatever state the forwarder comes to from there by its own functions, during the call or after it.\<close>

theorem client_request_executed:
  assumes "eip712_documented e x th enc" "omitBy_documented x" "strip_documented x"
    and "clean_params (requestData r)" "obj_get (requestData r) ''from'' = None"
      "obj_get (requestData r) ''nonce'' = None"
    and "fromAddress r = toHex wallet" "length wallet = 20"
    and "bigNumberFrom x (req_nonce r) = Inr (uint n)"
    and "signRequestTypedData x (newMetaTxForwarder chainId this) r ws = Inr (ws', sigs)"
    and "encodeExecuteTransactionProps x r sigs ''MultiSig'' = Inr rsp"
    and "fs_domainSeparator st = domain_hash e (newTypedDataBuilder chainId this)"
    and "fs_typeHashes st (evm_keccak256 e (str_bytes (encodeType (requestTypeKey r) (types_of (requestTypeKey r)))))"
    and "checkAndUpdateNonce st wallet n = Some (True, st1)"
    and "asks_manager e sur st lum" "lum_ok lum" "isActiveWallet lum wallet" "enough_owners e x lum wallet ws"
    and "request_destination sur st1 (decoded_request (rsp_request rsp) n) = Some d"
    and "call d (request_calldata st1 (decoded_request (rsp_request rsp) n) @ wallet) st1 = Some st2"
  shows "\<exists>h. mtf_executeTransactionLUW e sur call (decoded_request (rsp_request rsp) n)
        (hex_bytes (the (rsp_signatures rsp))) st = Some (st2, [ExecutionSuccess h]) \<and>
      (\<forall>log es st' sur' other sigs' eoa. forwarder_run e st1 log es st' \<and> xd_from other = wallet \<and> xd_nonce other = n \<longrightarrow>
        prepareExecution e sur' other sigs' eoa st' = None)"
proof -
  obtain h where h: "prepareExecution e sur (decoded_request (rsp_request rsp) n) (hex_bytes (joinSignatures x sigs)) False st =
      Some (st1, d, request_calldata st1 (decoded_request (rsp_request rsp) n) @ wallet, h)"
    using client_prepared [OF assms(1-19)] by blast
  have "rsp_signatures rsp = Some (joinSignatures x sigs)"
    using encodeExecute_Inr [OF assms(11)] by auto
  then have "mtf_executeTransactionLUW e sur call (decoded_request (rsp_request rsp) n)
      (hex_bytes (the (rsp_signatures rsp))) st = Some (st2, [ExecutionSuccess h])"
    using h prepared(1) [OF h] assms(20)
    by (simp add: mtf_executeTransactionLUW_def executeTransactionInternal_def executeCall_def)
  then show ?thesis using nonce_stays_used [OF assms(14)] by blast
qed

theorem client_request_executed_witness:
  "\<exists>(rsp :: execute_response) st' h. mtf_executeTransactionLUW sample_evm sample_sur (\<lambda>d c st. Some st) (decoded_request (rsp_request rsp) 0)
     (hex_bytes (the (rsp_signatures rsp))) sample_fwd = Some (st', [ExecutionSuccess h])"
proof -
  obtain ws' sigs where s: "signRequestTypedData flow_ext (newMetaTxForwarder 1 (toHex sample_this)) flow_request
      [flow_wallet carol, flow_wallet bob] = Inr (ws', sigs)"
    using flow_signed by blast
  obtain rsp where rsp: "encodeExecuteTransactionProps flow_ext flow_request sigs ''MultiSig'' = Inr rsp"
    using flow_sent by blast
  have type: "fs_typeHashes sample_fwd (evm_keccak256 sample_evm
      (str_bytes (encodeType (requestTypeKey flow_request) (types_of (requestTypeKey flow_request)))))"
    by (simp add: sample_fwd_fields flow_request_def sample_type_def)
  have "fromAddress flow_request = toHex alice" "length alice = 20" by (simp_all add: flow_request_def alice_def)
  from client_request_executed [OF flow_documented flow_omitBy flow_strip flow_clean this flow_number_read s rsp
      sample_fwd_fields(4) type flow_nonce flow_asks sample_manager_ok sample_manager_runs(2) flow_owners
      flow_destination [OF rsp], of "\<lambda>d c st. Some st" "used_nonce sample_fwd alice 0"]
  show ?thesis by blast
qed

section \<open>The token contract\<close>

text \<open>C26: the subgraph follows the StartrailRegistry: whatever transactions a registry in which nothing was created
  executes, with calls made back during a hook of a recipient, the subgraph indexes their events without
  aborting, provided that every metadata hash of a provenance of 64 characters is hexadecimal (\<open>digests_readable\<close>; the
  contract does not check it), that the times of the blocks are in the range of Date (\<open>found_in\<close>) and that the entity
  ids of different tokens differ. Then exactly the tokens of the contract have an entity, with the owner the contract
  has for them and no commitment but that of the contract.\<close>

theorem subgraph_follows_registry:
  assumes "fresh_storage st" and "run_transactions e ts st = Some (st', es)" and "found_in R evs (indexed es)"
    and "digests_readable h (indexed es)" and "distinct_keys (srrEntityId h R) possible_ids"
  shows "\<exists>s. run_subgraph h (registry_chain evs (indexed es)) empty_store = Inr s \<and> wf_store s \<and>
    (\<forall>t \<in> possible_ids. case ownerOf t st' of
       None \<Rightarrow> srrs s (srrEntityId h R (uint t)) = None
     | Some owner \<Rightarrow> \<exists>srr. srrs s (srrEntityId h R (uint t)) = Some srr \<and> srr_ownerAddress srr = Some owner \<and>
         (srr_transferCommitment srr = None \<or> srr_transferCommitment srr = Some (sr_commitment st' t)))"
proof -
  note run = assms(2) [unfolded nested_calls_are_a_run]
  have "minted_tokens st' \<subseteq> possible_ids" using calls_ok [OF run] fresh_ok(1) [OF assms(1)] minted_possible by blast
  from registry_indexed [OF fresh_ok(2) [OF assms(1)] run assms(3-5) this]
  obtain s where s: "run_subgraph h (registry_chain evs (indexed es)) empty_store = Inr s" "wf_store s"
      "mirrors (srrEntityId h R) possible_ids st' (ledger_of s)" by blast
  then show ?thesis using mirrored_entity [OF s(3)] unminted_entity [OF s(3)] by (auto simp: ownerOf_def)
qed

theorem subgraph_follows_registry_witness:
  "\<exists>s srr. run_subgraph sample_host (registry_chain sample_sr_blocks (indexed sample_sr_events)) empty_store = Inr s \<and>
     wf_store s \<and> srrs s (srrEntityId sample_host sample_sr_address (uint sample_id)) = Some srr \<and>
     srr_ownerAddress srr = Some bob"
proof -
  have "sample_id \<in> possible_ids" using generate_id_bound [of sample_evm "''cid''" alice] by (simp add: possible_ids_def sample_id_def)
  moreover have "ownerOf sample_id sample_sr3 = Some bob" by (simp add: ownerOf_def token_exists_def sample_sr_owners)
  ultimately show ?thesis
    using subgraph_follows_registry [OF sample_fresh sample_sr_transactions sample_found sample_digests sample_keys] by fastforce
qed

text \<open>C27: who moves a token of the StartrailRegistry: a call changes the owner of at most one token; one that did
  not exist is created by the trusted forwarder or a bulk contract, and one that exists is moved by its
  owner, by an account approved for it unless external transfers are locked, by the Administrator, by a bulk
  contract in the name of its owner, or with the reveal of its commitment.\<close>

theorem owner_changes_authorized:
  assumes "run_sr_call e env m c st = Some (st', es)" and "sr_tokenOwner st' t \<noteq> sr_tokenOwner st t"
    and "effective_call env m c = (m', c')"
  shows "sr_tokenOwner st' = (sr_tokenOwner st)(t := sr_tokenOwner st' t) \<and>
    (if token_exists t st then moved_with_right e env m' c' t st else trustedForwarderOnly m' st \<or> onlyBulk env m' st)"
proof -
  have "owners_changed e env m' c' st st'" using call_owners [OF assms(1)] assms(3) by simp
  then show ?thesis
    using assms(2) by (auto simp: owners_changed_def split: if_splits)
qed

theorem owner_changes_authorized_witness:
  "moved_with_right sample_evm sample_sr_env (by_account alice) sample_transfer_call sample_id sample_sr2 \<and>
   (trustedForwarderOnly (by_wallet alice) sample_sr0 \<or> onlyBulk sample_sr_env (by_wallet alice) sample_sr0)"
  using owner_changes_authorized [OF sample_transfer_step, of sample_id] sample_sr_owners
    owner_changes_authorized [OF sample_create_step, of sample_id]
  by (simp add: sample_transfer_call_def sample_create_def token_exists_def)

text \<open>C28: the storage of the StartrailRegistry stays consistent along any transactions: the balance of an account is
  the number of tokens it owns, identifiers have at most twelve digits, a token that does not exist has no
  approved account and no royalty, and a royalty is at most the price.\<close>

theorem registry_storage_consistent:
  assumes "fresh_storage st" and "run_transactions e ts st = Some (st', es)"
  shows "(balanceOf a st' = Some n \<longrightarrow> unat n = card {t. ownerOf t st' = Some a}) \<and>
    (ownerOf t st' = Some a \<longrightarrow> unat t < 10 ^ 12) \<and>
    (ownerOf t st' = None \<longrightarrow> sr_tokenApprovals st' t = ZERO_ADDRESS \<and> ri_receiver (sr_royalties st' t) = ZERO_ADDRESS) \<and>
    (royaltyInfo t price st' = Some (receiver, amount) \<longrightarrow> amount \<le> price)"
proof -
  have ok: "balances_ok st'" "attributes_ok st'"
    using calls_ok [OF assms(2) [unfolded nested_calls_are_a_run]] fresh_ok(1) [OF assms(1)] by (simp_all add: sr_ok_def)
  have "a \<noteq> ZERO_ADDRESS \<Longrightarrow> {t. ownerOf t st' = Some a} = {t. sr_tokenOwner st' t = a}" by (auto simp: ownerOf_def token_exists_def)
  then show ?thesis
    using ok royalty_share(2) [OF ok(2)] by (auto simp: balances_ok_def attributes_ok_def balanceOf_def ownerOf_def split: if_splits)
qed

theorem registry_storage_consistent_witness:
  "balanceOf bob sample_sr3 = Some 1 \<and> card {t. ownerOf t sample_sr3 = Some bob} = 1"
  using registry_storage_consistent [OF sample_fresh sample_sr_transactions, of bob 1] sample_balance by simp

text \<open>C29: a commitment outlives a transfer. Any transfer other than by a reveal leaves the commitment of the former
  owner in the StartrailRegistry, while the subgraph, which tells its clients that none is pending, clears it;
  whoever has the reveal then takes the token from the new owner, who never made a commitment.\<close>

theorem old_commitment_moves_token:
  assumes "sr_ok st" and "plain_transfer c = Some (t, b)" and "run_sr_call e env m c st = Some (st1, es1)"
    and "evm_keccak256 e rv = sr_commitment st t" and "to \<noteq> ZERO_ADDRESS"
  shows "ownerOf t st1 = Some b \<and>
    (\<exists>st2 es2. run_sr_call e env' m' (SR_transferSRRByReveal to rv t i) st1 = Some (st2, es2) \<and> ownerOf t st2 = Some to) \<and>
    (is_set (L (K (uint t))) \<longrightarrow> op_fold K (indexed es1) L (K (uint t)) = Some (Some b, None))"
proof -
  note old = old_commitment [OF assms(1-5)]
  have "b \<noteq> ZERO_ADDRESS" using plain_transfer_moves [OF assms(2,3)] by simp
  moreover obtain st2 es2 where "run_sr_call e env' m' (SR_transferSRRByReveal to rv t i) st1 = Some (st2, es2)"
      "sr_tokenOwner st2 t = to" using old(2) by blast
  ultimately show ?thesis using old(1,3) assms(5) by (auto simp: ownerOf_def token_exists_def simp del: run_sr_call.simps)
qed

theorem old_commitment_moves_token_witness:
  "\<exists>st2 es2. run_sr_call sample_evm sample_sr_env (by_account carol) (SR_transferSRRByReveal carol [5] sample_id False) sample_sr3 =
     Some (st2, es2) \<and> ownerOf sample_id st2 = Some carol"
  using old_commitment_moves_token [OF sample_sr_ok(2) sample_plain_transfer sample_transfer_step sample_reveal, of carol] by simp

text \<open>C30: the identifier that the library computes is the one that the contract gives the token:
  creating an SRR from an account or wallet mints the token of \<open>srrIdV3Compute\<close> for the artist and the metadata, which did not
  exist; its issuer, artist and metadata are those of the call, and its owner is the given one or the issuer.\<close>

theorem computed_id_is_minted:
  assumes "id_functions_documented x e"
    and "run_sr_call e env m (SR_createSRRFromLicensedUser p artist cid lock to receiver points) st = Some (st', es)"
  shows "\<exists>t. srrIdV3Compute x (toHex artist) cid = Inr (uint t) \<and> ownerOf t st = None \<and>
    ownerOf t st' = Some (if to = ZERO_ADDRESS then sr_msgSender m st else to) \<and>
    getSRR t st' = Some (\<lparr>rr_isPrimaryIssuer = p, rr_artistAddress = artist, rr_issuer = sr_msgSender m st\<rparr>,
      sr_metadataDigest st t, cid) \<and> sr_tokenURI t st' = ''ipfs://'' @ cid"
proof -
  have "createSRRTo e p artist cid (sr_msgSender m st) lock to receiver points st = Some (st', es)"
    using assms(2) by auto
  note created = created_srr [OF this]
  have "sr_tokenOwner st' (generate_id e cid artist) \<noteq> ZERO_ADDRESS"
    using created(3) by (auto simp: getSRR_def token_exists_def split: if_splits)
  then show ?thesis using computed_id [OF assms(1)] created by (auto simp: ownerOf_def token_exists_def)
qed

theorem computed_id_is_minted_witness:
  "\<exists>t. srrIdV3Compute sample_id_ext (toHex alice) ''cid'' = Inr (uint t) \<and> ownerOf t sample_sr1 = Some alice"
  using computed_id_is_minted [OF sample_id_functions sample_create_step [unfolded sample_create_def]] by auto

text \<open>C31: the bulk contract processes a leaf of a batch at most once: along any run, in which contracts it calls may
  call it again, no leaf is marked twice, and every function that is given a leaf that was marked reverts.\<close>

theorem leaf_processed_once:
  assumes "others_call e env" and "bulk_run e w log es w'"
  shows "distinct log \<and> ((root, leaf) \<in> set log \<longrightarrow>
    approveSRRByCommitmentWithProof e env p root leaf t c hh ch contract w' = None \<and>
    transferFromWithProvenanceWithProof e env p root leaf b t hh ch im contract w' = None \<and>
    (leaf \<in> set (ca_leafHashes a) \<longrightarrow> createSRRWithProofMulti e env root a tos w' = None))"
proof -
  note run = run_leaves [OF assms(2)]
  have "bb_processedLeaves (batch_of w' root) leaf" if "(root, leaf) \<in> set log"
    using run that by (auto simp: processed_def)
  then show ?thesis
    using run by (auto intro: leaf_refused(1,2) leaf_refused(3) [OF _ assms(1)])
qed

theorem leaf_processed_once_witness:
  "approveSRRByCommitmentWithProof sample_evm sample_bulk_env [] sample_root sample_registry_leaf sample_id sample_commitment
     ''h'' 0 ZERO_ADDRESS sample_bulk3 = None"
proof -
  obtain inner es where run: "bulk_run sample_evm sample_bulk0 ((sample_root, sample_registry_leaf) # inner) es sample_bulk3"
    using sample_bulk_run by blast
  show ?thesis using leaf_processed_once [OF sample_collections run, of sample_root sample_registry_leaf] by simp
qed

text \<open>C32: a batch of the bulk contract has room for 255 leaves: from a contract in which nothing was prepared, along any
  run, the counter of 8 bits of a prepared batch is the number of its processed leaves, and of a batch that is not prepared no leaf
  is processed. So at most 255 leaves of a batch are processed, and when they are 255 every function reverts for every
  further leaf.\<close>

theorem batch_holds_255_leaves:
  assumes "\<forall>r. \<not> bb_prepared (batch_of w r) \<and> leaves_of r w = {}" and "bulk_run e w log es w'"
  shows "(if bb_prepared (batch_of w' root) then unat (bb_processedCount (batch_of w' root)) = card (leaves_of root w')
      else leaves_of root w' = {}) \<and>
    card (leaves_of root w') \<le> 255 \<and>
    (bb_prepared (batch_of w' root) \<and> card (leaves_of root w') = 255 \<longrightarrow>
      approveSRRByCommitmentWithProof e env p root leaf t c hh ch contract w' = None \<and>
      transferFromWithProvenanceWithProof e env p root leaf b t hh ch im contract w' = None \<and>
      (ca_leafHashes a \<noteq> [] \<longrightarrow> createSRRWithProofMulti e env root a tos w' = None))"
proof -
  have "batches_ok w" using assms(1) by (simp add: batches_ok_def)
  then have ok: "batches_ok w'" by (rule run_batches [OF assms(2)])
  then have "if bb_prepared (batch_of w' root) then unat (bb_processedCount (batch_of w' root)) = card (leaves_of root w')
      else leaves_of root w' = {}" by (simp add: batches_ok_def)
  then show ?thesis
    using few_leaves [OF ok, of root] by (auto intro!: full_refused)
qed

theorem batch_holds_255_leaves_witness:
  "bb_processedCount (batch_of (sample_filled 255) sample_root) = 255 \<and>
   approveSRRByCommitmentWithProof sample_evm sample_bulk_env [] sample_root sample_registry_leaf sample_id sample_commitment
     ''h'' 0 ZERO_ADDRESS (sample_filled 255) = None"
proof -
  obtain log es where "bulk_run sample_evm sample_bulk0 log es (sample_filled 255)" using sample_filling by blast
  from batch_holds_255_leaves [OF sample_unused this, of sample_root] sample_full_leaves show ?thesis
    by (auto simp: word_unat_eq_iff)
qed

text \<open>C33: the leaf of a batch that commits a token of a collection serves for the registry: the custom history and the
  address of the collection at its end are also the end of the metadata hash and another custom history. So anyone who has the leaf
  commits the token of that number in the StartrailRegistry, when the signer of the batch owns it there.\<close>

theorem approval_leaf_serves_registry:
  assumes "bb_prepared (batch_of w root)" and "\<not> bb_processedLeaves (batch_of w root) leaf"
    and "verifyApproveSRRByCommitmentHash e leaf tok c hh ch contract" and "length contract = 20" and "contract \<noteq> ZERO_ADDRESS"
    and "be_verifyProof env p root leaf" and "process_leaf root leaf w = Some w1"
    and "nr_get (se_names (be_registry env) (bu_nameRegistry (bw_bulk w))) STARTRAIL_REGISTRY = se_this (be_registry env)"
    and "nr_get (se_names (be_registry env) (sr_nameRegistry (bw_registry w))) BULK = be_this env"
    and "ownerOf tok (bw_registry w) = Some (bb_signer (batch_of w root))"
  shows "\<exists>w' es hash custom. approveSRRByCommitmentWithProof e env p root leaf tok c hash custom ZERO_ADDRESS w = Some (w', es) \<and>
    sr_commitment (bw_registry w') tok = c \<and> sr_tokenOwner (bw_registry w') = sr_tokenOwner (bw_registry w)"
  using approval_for_registry [OF assms] by blast

theorem approval_leaf_serves_registry_witness:
  "\<exists>w' es hash custom. approveSRRByCommitmentWithProof sample_evm sample_bulk_env [] sample_root sample_leaf sample_id
     sample_commitment hash custom ZERO_ADDRESS sample_bulk1 = Some (w', es) \<and>
     sr_commitment (bw_registry w') sample_id = sample_commitment \<and>
     sr_tokenOwner (bw_registry w') = sr_tokenOwner (bw_registry sample_bulk1)"
  by (rule approval_leaf_serves_registry [where contract = carol and hh = "''h''" and ch = 0, OF _ _ _ _ _ _ sample_marked(1)])
    (simp_all add: sample_batch_prepared verifyApproveSRRByCommitmentHash_def sample_leaf_def sample_bulk_env_def sample_sr_env_def
      sample_names_def nr_get_def sample_names_at ownerOf_def token_exists_def sample_sr1_eq alice_def carol_def ZERO_ADDRESS_def
      STARTRAIL_REGISTRY_def BULK_def)

section \<open>Collections\<close>

text \<open>C34: the subgraph follows a collection from its creation on: the factory creates it for the sender of the
  request, and whatever calls the collection then executes, the subgraph indexes the creation and the events without
  aborting, provided that every metadata hash of a provenance of 64 characters is hexadecimal (\<open>col_digests_readable\<close>; the
  contract does not check it), that the times of the blocks are in the range of Date, that the entity ids of different
  tokens differ, and that neither the creator nor the sender of a call is the zero address.
  The entity of the collection has its name, its symbol as created and its present owner; every token has an
  entity with its owner and no commitment but that of the contract; an entity of a token that does not exist shows the
  zero address as its owner, to which the token was sent.\<close>

theorem subgraph_follows_collection:
  assumes "createCollectionContract e env create2 m name symbol salt w = Some (w', created)"
    and "fa_deployed w' (create2 salt) = Some st" and "cl_owner st \<noteq> ZERO_ADDRESS"
    and "run_col_calls e cs st = Some (st', es)" and "senders_are_accounts cs"
    and "valid_time (eventUTCMillis ev)" and "found_in (create2 salt) evs (col_indexed es)"
    and "col_digests_readable h (col_indexed es)" and "distinct_keys (srrEntityId h (create2 salt)) possible_ids"
  shows "\<exists>s col. run_subgraph h (life_of_collection ev created evs es) empty_store = Inr s \<and> wf_store s \<and>
    collections s (toHex (create2 salt)) = Some col \<and> col_name col = Some name \<and> col_symbol col = Some symbol \<and>
    col_ownerAddress col = Some (cl_owner st') \<and>
    (\<forall>t. col_exists t st' \<longrightarrow> (\<exists>srr. srrs s (srrEntityId h (create2 salt) (uint t)) = Some srr \<and>
       srr_ownerAddress srr = Some (cl_ownerOf st' t) \<and>
       (srr_transferCommitment srr = None \<or> srr_transferCommitment srr = Some (ca_commitment (cl_approvals st' t))))) \<and>
    (\<forall>t \<in> possible_ids. \<not> col_exists t st' \<longrightarrow> (\<forall>srr. srrs s (srrEntityId h (create2 salt) (uint t)) = Some srr \<longrightarrow>
       srr_ownerAddress srr = Some ZERO_ADDRESS))"
proof -
  have "no_entities h (create2 salt) empty_store" by (simp add: no_entities_def empty_store_def)
  from life_indexed [OF assms(1,2) refl assms(3-9) good_empty this]
  obtain s where s: "run_subgraph h (life_of_collection ev created evs es) empty_store = Inr s" "good_store s"
      "follows (srrEntityId h (create2 salt)) st' (ledger_of s)"
      "entity_shows s (create2 salt) name symbol (cl_owner st) (cl_owner st')" by blast
  have "col_ok st'" using col_calls_ok [OF assms(4,5) name_of_created(4) [OF assms(1,2)]] .
  note tokens = followed_token [OF s(3) this] followed_absent [OF s(3)]
  show ?thesis using s(1,2,4) tokens unfolding entity_shows_def good_store_def by blast
qed

theorem subgraph_follows_collection_witness:
  "\<exists>s srr col. run_subgraph sample_host (life_of_collection (sample_event 2) sample_creation sample_col_blocks sample_col_events)
     empty_store = Inr s \<and> srrs s (srrEntityId sample_host carol (uint sample_id)) = Some srr \<and>
     srr_ownerAddress srr = Some bob \<and> collections s (toHex carol) = Some col \<and> col_ownerAddress col = Some bob"
proof -
  have "fa_deployed sample_factory1 carol = Some sample_col0" by (simp add: sample_factory1_def)
  moreover have "col_exists sample_id sample_col4" by (simp add: col_exists_def sample_col_owners)
  moreover have "cl_owner sample_col0 \<noteq> ZERO_ADDRESS" by (simp add: sample_col_owners)
  ultimately obtain s col where s:
    "run_subgraph sample_host (life_of_collection (sample_event 2) sample_creation sample_col_blocks sample_col_events) empty_store = Inr s"
    "collections s (toHex carol) = Some col" "col_ownerAddress col = Some (cl_owner sample_col4)"
    "\<And>t. col_exists t sample_col4 \<Longrightarrow> \<exists>srr. srrs s (srrEntityId sample_host carol (uint t)) = Some srr \<and>
       srr_ownerAddress srr = Some (cl_ownerOf sample_col4 t)"
    using subgraph_follows_collection [OF sample_col_created _ _ sample_col_run sample_col_accounts sample_time sample_col_found
        sample_col_digests sample_col_keys] by blast
  from s(4) [of sample_id] show ?thesis
    using s(1-3) \<open>col_exists sample_id sample_col4\<close> by (auto simp: sample_col_owners)
qed

text \<open>C35: who moves a token of a collection: a call changes the owner of at most one token; either it creates the
  token, for the owner of the collection through the trusted forwarder or for the bulk contract, or it moves it for its owner, for an account approved
  for it unless external transfers are locked, for the owner of the collection, for the bulk contract in the name of one of
  these two owners, or with the reveal of its commitment.\<close>

theorem collection_owner_changes_authorized:
  assumes "run_col_call e env m c st = Some (st', es)" and "cl_ownerOf st' t \<noteq> cl_ownerOf st t"
  shows "cl_ownerOf st' = (cl_ownerOf st)(t := cl_ownerOf st' t) \<and>
    (\<not> col_exists t st \<and> (col_onlyTrustedForwarder env m st \<and> col_msgSender env m st = cl_owner st \<or> col_onlyBulk env m st) \<or>
     col_moved_with_right e env m c t st)"
  using col_call_owners [OF assms(1)] assms(2) by (auto simp: col_owners_changed_def split: if_splits)

theorem collection_owner_changes_authorized_witness:
  "col_moved_with_right sample_evm sample_col_env (by_wallet alice) sample_col_send sample_id sample_col2"
  using collection_owner_changes_authorized [OF sample_col_send_step, of sample_id]
  by (simp add: sample_col3_def col_exists_def sample_col_owners)

text \<open>C36: the storage of a collection stays consistent, although it changes balances unchecked: after any calls since its
  creation, the balance of an account is the number of its tokens, a token that does not exist has no approved account, and
  the royalty of a sale is at most its price.\<close>

theorem collection_storage_consistent:
  assumes "createCollectionContract e env create2 m name symbol salt w = Some (w', created)"
    and "fa_deployed w' (create2 salt) = Some st" and "run_col_calls e cs st = Some (st', es)" and "senders_are_accounts cs"
  shows "(a \<noteq> ZERO_ADDRESS \<longrightarrow> unat (cl_balanceOf st' a) = card {t. cl_ownerOf st' t = a}) \<and>
    (\<not> col_exists t st' \<longrightarrow> cl_getApproved st' t = ZERO_ADDRESS) \<and>
    (col_royaltyInfo t price st' = Some (receiver, amount) \<longrightarrow> amount \<le> price)"
proof -
  have ok: "col_ok st'" using col_calls_ok [OF assms(3,4) name_of_created(4) [OF assms(1,2)]] .
  show ?thesis
    using col_royalty_share [OF ok] ok unfolding col_ok_def by metis
qed

theorem collection_storage_consistent_witness:
  "unat (cl_balanceOf sample_col4 bob) = card {t. cl_ownerOf sample_col4 t = bob}"
proof -
  have "fa_deployed sample_factory1 carol = Some sample_col0" by (simp add: sample_factory1_def)
  then show ?thesis
    using collection_storage_consistent [OF sample_col_created _ sample_col_run sample_col_accounts, of bob] by simp
qed

text \<open>C37: a token of a collection that was destroyed comes back with what was stored for it: the owner of the collection
  can send a token to the zero address, after which it does not exist, and create it again for somebody else; the
  lock of external transfers, the royalty and the commitment are still those of the first token, so that whoever has the
  reveal of the former owner moves the new token.\<close>

theorem destroyed_token_returns:
  assumes "generate_id e cid artist = t" and "col_exists t st"
    and "col_onlyTrustedForwarder env m st" and "col_msgSender env m st = cl_owner st" and "cl_owner st \<noteq> ZERO_ADDRESS"
    and "\<not> ce_hasCode env ZERO_ADDRESS" and "cid \<noteq> []" and "artist \<noteq> ZERO_ADDRESS"
    and "evm_keccak256 e rv = ca_commitment (cl_approvals st t)" and "to \<noteq> ZERO_ADDRESS"
  shows "\<exists>sa es1 sb es2 sc es3.
    run_col_call e env m (CL_transferFromWithProvenance ZERO_ADDRESS t h ch i) st = Some (sa, es1) \<and> \<not> col_exists t sa \<and>
    run_col_call e env m (CL_createSRR p artist cid False to ZERO_ADDRESS 0) sa = Some (sb, es2) \<and> cl_ownerOf sb t = to \<and>
    cl_locked sb t = cl_locked st t \<and> cl_royalties sb t = cl_royalties st t \<and> cl_approvals sb t = cl_approvals st t \<and>
    run_col_call e env' m' (CL_transferSRRByReveal b rv t i') sb = Some (sc, es3) \<and> cl_ownerOf sc t = b"
  using token_returns [OF assms] .

theorem destroyed_token_returns_witness:
  "\<exists>sa es1. run_col_call sample_evm sample_col_env (by_wallet alice)
     (CL_transferFromWithProvenance ZERO_ADDRESS sample_id ''h'' 0 False) sample_col2 = Some (sa, es1) \<and>
     \<not> col_exists sample_id sa"
proof -
  have "\<not> ce_hasCode sample_col_env ZERO_ADDRESS" by (simp add: sample_col_env_def)
  moreover have "evm_keccak256 sample_evm [5] = ca_commitment (cl_approvals sample_col2 sample_id)"
    by (simp add: sample_col2_def sample_commitment_def)
  moreover have "generate_id sample_evm ''cid'' alice = sample_id" by (simp add: sample_id_def)
  moreover have "col_exists sample_id sample_col2" by (simp add: col_exists_def sample_col_owners)
  ultimately show ?thesis
    using destroyed_token_returns [where env = sample_col_env and m = "by_wallet alice" and st = sample_col2 and to = bob
        and e = sample_evm and cid = "''cid''" and artist = alice and t = sample_id and rv = "[5]" and h = "''h''"
        and ch = 0 and i = False and p = True and env' = sample_col_env and m' = "by_account carol" and b = carol and i' = False]
    by (simp add: sample_col_owners del: run_col_call.simps) blast
qed

text \<open>C38: a leaf that names a collection acts on it for the signer of its batch: it creates a token only when the signer owns
  the collection, commits or moves one only when the signer owns the collection or the token, is then processed, and
  changes no other collection and nothing in the StartrailRegistry.\<close>

theorem leaf_acts_for_signer:
  assumes "C \<noteq> ZERO_ADDRESS" and "bw_collections w C = Some st" and "bb_signer (batch_of w root) = signer"
  shows "(createSRRWithProof e env p root leaf i w = Some (w', es) \<and> ci_contractAddress i = C \<longrightarrow>
      (\<exists>st'. leaf_changed C root leaf st' w w' \<and> signer = cl_owner st)) \<and>
    (approveSRRByCommitmentWithProof e env p root leaf t c hh ch C w = Some (w', es) \<longrightarrow>
      (\<exists>st'. leaf_changed C root leaf st' w w' \<and> signer \<in> {cl_owner st, cl_ownerOf st t} \<and>
         ca_commitment (cl_approvals st' t) = c \<and> cl_ownerOf st' = cl_ownerOf st)) \<and>
    (transferFromWithProvenanceWithProof e env p root leaf b t hh ch im C w = Some (w', es) \<longrightarrow>
      (\<exists>st'. leaf_changed C root leaf st' w w' \<and> signer \<in> {cl_owner st, cl_ownerOf st t} \<and>
         cl_ownerOf st' = (cl_ownerOf st)(t := b)))"
  using creation_on_collection [of e env p root leaf i w w' es C st] approval_on_collection [of e env p root leaf t c hh ch C w w' es st]
    transfer_on_collection [of e env p root leaf b t hh ch im C w w' es st] assms by blast

theorem leaf_acts_for_signer_witness:
  "\<exists>w' st'. leaf_changed carol sample_root sample_leaf st' sample_bulk4 w' \<and>
     ca_commitment (cl_approvals st' sample_id) = sample_commitment"
proof -
  obtain w es where "approveSRRByCommitmentWithProof sample_evm sample_bulk_env [] sample_root sample_leaf sample_id sample_commitment
      ''h'' 0 carol sample_bulk4 = Some (w, es)" using sample_col_leaf by blast
  moreover have "bw_collections sample_bulk4 carol = Some sample_col1" by (simp add: sample_bulk4_def)
  ultimately show ?thesis
    using leaf_acts_for_signer [OF sample_distinct(3) _ refl, where w = sample_bulk4 and root = sample_root] by blast
qed

section \<open>Deployment and operation\<close>

text \<open>C39: upgrading a feature of collections is one update of the table of the FeatureRegistry: when the
  functions of the old version are routed, not to the new contract, and the functions that are
  new are not, the upgrade succeeds; afterwards exactly the functions of the new contract are
  routed to it, the functions that are gone are not routed, every other route and every file is
  as before.\<close>

theorem upgrade_routes_features:
  assumes "diamond_documented hre reg routes"
    and "getContract hre ''StartrailCollectionFeatureRegistry'' w = (Inr reg, w)"
    and "getContractFactory hre (feature_contract f v2) w = (Inr fac, w)"
    and "hre_deploy hre fac libs [] None (chain w) = (Inr d, c)"
    and "CollectionFeatureSelectors hre f v1 = Inr fs" and "getSelectors hre d = Inr ts"
    and "list_all (\<lambda>s. routes (chain w) s \<noteq> None \<and> routes (chain w) s \<noteq> Some (ct_address d)) fs"
    and "list_all (\<lambda>s. s \<in> set fs \<or> routes (chain w) s = None) ts"
  shows "\<exists>w'. upgradeFeature hre f v1 v2 libs w = (Inr d, w') \<and> files w' = files w \<and>
    routes (chain w') = (\<lambda>s. if s \<in> set ts then Some (ct_address d)
      else if s \<in> set fs then None else routes (chain w) s)"
proof -
  have "\<forall>s \<in> set ts - set fs. routes (chain w) s = None" using assms(8) by (auto simp: list_all_iff)
  from upgradeFeature_applied [OF assms(1-6) _ this] assms(7) show ?thesis
    unfolding upgraded_def list_all_iff by blast
qed

theorem upgrade_routes_features_witness:
  "\<exists>w'. upgradeFeature sample_hre SRRApproveTransferFeature ''V01'' ''V02'' [] sample_world = (Inr sample_approve, w') \<and>
     sc_routes (chain w') ''getSRRCommitment(uint256)'' = Some (ct_address sample_approve)"
proof -
  have name: "feature_contract SRRApproveTransferFeature ''V02'' = ''SRRApproveTransferFeatureV02''"
    by (simp add: feature_contract_def)
  have "''getSRRCommitment(uint256)'' \<in> set srrApproveTransferCommonFuncSignatures"
    by (simp add: srrApproveTransferCommonFuncSignatures_def)
  then show ?thesis
    using upgrade_routes_features [OF sample_diamond_documented sample_registry_at
        sample_approve_factory [folded name] sample_approve_deployed [folded name] sample_approve_selectors sample_approve_ready]
    by auto
qed

text \<open>C40: the releases after the first one keep the address book: after any sequence of them, finished or
  interrupted by an error, every name is still in its JSON file. The address under it is the one that was there,
  unless the name is one of the sixteen that releases write (\<open>release_names\<close>): those of libraries and implementations,
  of the contracts the releases themselves introduce, and the hash of the creation code of a collection; what is
  under these may be replaced. So no release moves the address of the Administrator, the proxy administrator, the NameRegistry, the
  MetaTxForwarder, the LicensedUserManager, the StartrailRegistry or BulkIssue.\<close>

theorem releases_keep_addresses:
  assumes "for_each (\<lambda>m. m) ms w = (r, w')" and "list_all (\<lambda>m. m \<in> set (releases x env acct uups getAddress hre)) ms"
    and "obj_get (content w p) k = Some a"
  shows "\<exists>a'. obj_get (content w' p) k = Some a' \<and> (a' = a \<or> k \<in> set release_names)"
proof -
  have "keeps book_kept m" if "m \<in> set (releases x env acct uups getAddress hre)" for m
    using that unfolding releases_def by (auto intro: book_rules)
  then have "keeps book_kept (for_each (\<lambda>m. m) ms)"
    using assms(2) by (intro book.keeps_for_each) (auto simp: list_all_iff)
  then have kept: "book_kept w w'" using assms(1) by (rule keepsD)
  moreover have "k \<in> set (obj_keys (content w p))" using assms(3) obj_get_None_iff [of "content w p" k] by auto
  ultimately have "obj_get (content w' p) k \<noteq> None"
    unfolding obj_get_None_iff by (simp add: book_kept_def)
  then show ?thesis using kept assms(3) by (auto simp: book_kept_def)
qed

theorem releases_keep_addresses_witness:
  "obj_get (content (snd (for_each (\<lambda>m. m)
     [deploySecondTransfer sample_ext (\<lambda>_. None) sample_hre, deployTransferFromEOAToEOA sample_ext (\<lambda>_. None) sample_hre]
     sample_world)) (jsonPath sample_hre DEPLOY_FILE_NAME)) ''metaTxForwarderProxyAddress'' = Some ''0x0b''"
proof -
  have "''metaTxForwarderProxyAddress'' \<notin> set release_names" by (simp add: release_names_def)
  with releases_keep_addresses [OF surjective_pairing, where x = sample_ext and env = "\<lambda>_. None"
      and hre = sample_hre and ms = "[deploySecondTransfer sample_ext (\<lambda>_. None) sample_hre,
        deployTransferFromEOAToEOA sample_ext (\<lambda>_. None) sample_hre]" and acct = "''0x04''"
      and uups = "\<lambda>n as c. (Inl TypeError, c)" and getAddress = id and w = sample_world
      and p = "jsonPath sample_hre DEPLOY_FILE_NAME" and k = "''metaTxForwarderProxyAddress''" and a = "''0x0b''"]
  show ?thesis by (simp add: releases_def content_def sample_world_def obj_get_def)
qed

end
